(* ===== verification/Prelude.thy ===== *)
theory Prelude
  imports Complex_Main "HOL-Library.Sublist" "HOL-Library.Code_Target_Nat"
begin

section \<open>Shared types, loops and lemmas\<close>

text \<open>
  What every component of the development uses: instants and durations, the request context,
  the error-or-value results of fallible Go functions, the ``keep the first of equal values''
  loop that four packages repeat, and the theorem collections the component proofs draw on.
\<close>

named_theorems lit "byte-level values of the text literals"
named_theorems upd "what a stored value looks like after a store operation"

subsection \<open>Instants and durations\<close>

text \<open>
  A \<open>time.Time\<close> is the number of nanoseconds since the zero time of Go (midnight UTC, January
  1st of year 1), so that \<open>IsZero\<close> is comparison with 0, \<open>Before\<close> and \<open>After\<close> are the
  orders of \<open>int\<close>, and \<open>Add\<close> is addition. A \<open>time.Duration\<close> is a number of nanoseconds.
  The clock is an input: an operation that reads it takes the instant it reads as an argument.
\<close>

type_synonym time = int
type_synonym duration = int

abbreviation (input) time_zero :: time where "time_zero \<equiv> 0"

definition IsZero :: "time \<Rightarrow> bool" where
  "IsZero t \<longleftrightarrow> t = time_zero"

definition millisecond :: duration where "millisecond = 1000000"
definition second :: duration where "second = 1000 * millisecond"
definition minute :: duration where "minute = 60 * second"
definition hour :: duration where "hour = 60 * minute"

lemmas duration_defs = millisecond_def second_def minute_def hour_def

text \<open>Go's integer division truncates towards zero; \<open>Milliseconds\<close> is such a division.\<close>

definition go_div :: "int \<Rightarrow> int \<Rightarrow> int" where
  "go_div a b = sgn a * sgn b * (\<bar>a\<bar> div \<bar>b\<bar>)"

definition go_mod :: "int \<Rightarrow> int \<Rightarrow> int" where
  "go_mod a b = a - b * go_div a b"

definition Milliseconds :: "duration \<Rightarrow> int" where
  "Milliseconds d = go_div d millisecond"

lemma go_div_nonneg [simp]: "0 \<le> a \<Longrightarrow> 0 < b \<Longrightarrow> go_div a b = a div b"
  by (cases "a = 0") (auto simp: go_div_def)

lemma go_mod_nonneg [simp]: "0 \<le> a \<Longrightarrow> 0 < b \<Longrightarrow> go_mod a b = a mod b"
  by (simp add: go_mod_def minus_mult_div_eq_mod)

text \<open>An \<open>int64\<close> result: two's complement wrap-around.\<close>

definition wrap64 :: "int \<Rightarrow> int" where
  "wrap64 x = (x + 2 ^ 63) mod 2 ^ 64 - 2 ^ 63"

lemma wrap64_id: "- (2 ^ 63) \<le> x \<Longrightarrow> x < 2 ^ 63 \<Longrightarrow> wrap64 x = x"
  by (simp add: wrap64_def)

lemma wrap64_bounds: "- (2 ^ 63) \<le> wrap64 x \<and> wrap64 x < 2 ^ 63"
  by (simp add: wrap64_def)

subsection \<open>The request context\<close>

text \<open>
  What the code reads from a \<open>context.Context\<close>: the reason it is cancelled (\<open>ctx.Err()\<close>, \<open>None\<close>
  while it is live), the user id the auth middleware stores and the request id.
\<close>

record ctx =
  ctx_Err :: "string option"
  ctx_UserID :: string
  ctx_RequestID :: string

definition background :: ctx where
  "background = \<lparr>ctx_Err = None, ctx_UserID = [], ctx_RequestID = []\<rparr>"

abbreviation live :: "ctx \<Rightarrow> bool" where
  "live c \<equiv> ctx_Err c = None"

lemma live_background [simp]: "ctx_Err background = None"
  by (simp add: background_def)

subsection \<open>Error results\<close>

text \<open>
  A Go function returning \<open>(T, error)\<close> is a function into \<open>'e + 'a\<close>: \<open>Inl e\<close> for a non-nil
  error, \<open>Inr v\<close> for a value with a nil error. \<open>and_then\<close> is the sequence with an early
  return on the error.
\<close>

fun and_then :: "'e + 'a \<Rightarrow> ('a \<Rightarrow> 'e + 'b) \<Rightarrow> 'e + 'b" where
  "and_then (Inl e) f = Inl e"
| "and_then (Inr v) f = f v"

fun is_ok :: "'e + 'a \<Rightarrow> bool" where
  "is_ok (Inl e) = False"
| "is_ok (Inr v) = True"

lemma and_then_Inr_iff: "and_then m f = Inr y \<longleftrightarrow> (\<exists>x. m = Inr x \<and> f x = Inr y)"
  by (cases m) auto

lemma is_ok_iff: "is_ok m \<longleftrightarrow> (\<exists>v. m = Inr v)"
  by (cases m) auto

text \<open>A guard of the form \<open>if bad { return err }\<close>.\<close>

definition guard :: "bool \<Rightarrow> 'e \<Rightarrow> 'e + unit" where
  "guard ok e = (if ok then Inr () else Inl e)"

lemma guard_simps [simp]: "guard True e = Inr ()" "guard False e = Inl e"
  by (simp_all add: guard_def)

lemma guard_Inr_iff [simp]: "guard ok e = Inr u \<longleftrightarrow> ok"
  by (simp add: guard_def)

text \<open>A validation loop over a list with early return at the first error.\<close>

fun check_each :: "('a \<Rightarrow> 'e + unit) \<Rightarrow> 'a list \<Rightarrow> 'e + unit" where
  "check_each f [] = Inr ()"
| "check_each f (x # xs) = and_then (f x) (\<lambda>_. check_each f xs)"

lemma check_each_ok: "check_each f xs = Inr u \<longleftrightarrow> (\<forall>x \<in> set xs. f x = Inr ())"
  by (induction xs) (auto simp: and_then_Inr_iff)

subsection \<open>The first of equal values\<close>

text \<open>
  \<^verbatim>\<open>
  seen := map[string]struct{}{}
  for _, v := range values { if _, ok := seen[v]; ok { continue }; seen[v] = ...; out = append(out, v) }
  \<close>
\<close>

fun uniq_from :: "'a list \<Rightarrow> 'a list \<Rightarrow> 'a list" where
  "uniq_from seen [] = []"
| "uniq_from seen (x # xs) =
     (if x \<in> set seen then uniq_from seen xs else x # uniq_from (x # seen) xs)"

abbreviation uniq :: "'a list \<Rightarrow> 'a list" where
  "uniq \<equiv> uniq_from []"

lemma set_uniq_from: "set (uniq_from seen xs) = set xs - set seen"
  by (induction xs arbitrary: seen) auto

lemma set_uniq [simp]: "set (uniq xs) = set xs"
  by (simp add: set_uniq_from)

lemma distinct_uniq_from [simp]: "distinct (uniq_from seen xs)"
  by (induction xs arbitrary: seen) (auto simp: set_uniq_from)

lemma uniq_from_distinct: "distinct xs \<Longrightarrow> set xs \<inter> set seen = {} \<Longrightarrow> uniq_from seen xs = xs"
  by (induction xs arbitrary: seen) auto

lemma uniq_distinct [simp]: "distinct xs \<Longrightarrow> uniq xs = xs"
  by (simp add: uniq_from_distinct)

lemma uniq_idem [simp]: "uniq (uniq xs) = uniq xs"
  by simp

lemma uniq_Nil_iff [simp]: "uniq xs = [] \<longleftrightarrow> xs = []"
  by (cases xs) auto

lemma length_uniq_from: "length (uniq_from seen xs) \<le> length xs"
  by (induction xs arbitrary: seen) (auto simp: le_SucI)

lemma subseq_uniq_from: "subseq (uniq_from seen xs) xs"
  by (induction xs arbitrary: seen) auto

subsection \<open>Lists\<close>

lemma map_index_upt:
  "map f [a..<b] = map (\<lambda>i. f (a + i)) [0..<b - a]"
  by (rule nth_equalityI) auto

text \<open>The last \<open>n\<close> elements: \<open>xs[len(xs)-n:]\<close>.\<close>

definition take_last :: "nat \<Rightarrow> 'a list \<Rightarrow> 'a list" where
  "take_last n xs = drop (length xs - n) xs"

lemma length_take_last [simp]: "length (take_last n xs) = min n (length xs)"
  by (simp add: take_last_def)

lemma set_take_last: "set (take_last n xs) \<subseteq> set xs"
  by (auto simp: take_last_def dest: in_set_dropD)

lemma suffix_take_last [simp]: "suffix (take_last n xs) xs"
  by (simp add: take_last_def suffix_drop)

lemma take_last_all: "length xs \<le> n \<Longrightarrow> take_last n xs = xs"
  by (simp add: take_last_def)

end
