(* ===== verification/Go_Text.thy ===== *)
theory Go_Text
  imports Prelude Case_Tables
begin

section \<open>Go strings\<close>

text \<open>
  A Go string is a list of bytes, here a \<open>string\<close> of HOL (each \<open>char\<close> is a byte), so
  \<open>length\<close> is \<open>len(s)\<close> and slicing cuts bytes. The functions of the packages \<open>strings\<close>,
  \<open>unicode/utf8\<close>, \<open>strconv\<close> and \<open>encoding/hex\<close> that the repository calls are defined below
  with the behaviour their documentation states, on every byte sequence: invalid UTF-8
  included. Text outside ASCII is written with \<open>utf8\<close> and its code points, as the
  repository's own \<open>\<backslash>u\<close> escapes do.
\<close>

subsection \<open>UTF-8\<close>

abbreviation RuneError :: nat where "RuneError \<equiv> 0xFFFD"

definition valid_rune :: "nat \<Rightarrow> bool" where
  "valid_rune r \<longleftrightarrow> r < 0xD800 \<or> (0xE000 \<le> r \<and> r < 0x110000)"

definition enc_bytes :: "nat \<Rightarrow> nat list" where
  "enc_bytes r =
     (if r < 0x80 then [r]
      else if r < 0x800 then [0xC0 + r div 64, 0x80 + r mod 64]
      else if \<not> valid_rune r then [0xEF, 0xBF, 0xBD]
      else if r < 0x10000 then [0xE0 + r div 4096, 0x80 + r div 64 mod 64, 0x80 + r mod 64]
      else [0xF0 + r div 262144, 0x80 + r div 4096 mod 64, 0x80 + r div 64 mod 64, 0x80 + r mod 64])"

definition enc_rune :: "nat \<Rightarrow> string" where
  "enc_rune r = map char_of (enc_bytes r)"

definition utf8 :: "nat list \<Rightarrow> string" where
  "utf8 rs = concat (map enc_rune rs)"

definition cont :: "nat \<Rightarrow> bool" where
  "cont b \<longleftrightarrow> 0x80 \<le> b \<and> b \<le> 0xBF"

text \<open>\<open>utf8.DecodeRune\<close>: the first rune and its size, \<open>(RuneError, 1)\<close> on invalid bytes.\<close>

fun dec_bytes :: "nat list \<Rightarrow> nat \<times> nat" where
  "dec_bytes [] = (RuneError, 0)"
| "dec_bytes (b0 # bs) =
     (if b0 < 0x80 then (b0, 1)
      else if 0xC2 \<le> b0 \<and> b0 \<le> 0xDF then
        (case bs of
           b1 # _ \<Rightarrow> if cont b1 then (b0 mod 32 * 64 + b1 mod 64, 2) else (RuneError, 1)
         | _ \<Rightarrow> (RuneError, 1))
      else if 0xE0 \<le> b0 \<and> b0 \<le> 0xEF then
        (case bs of
           b1 # b2 # _ \<Rightarrow>
             if (if b0 = 0xE0 then 0xA0 else 0x80) \<le> b1 \<and> b1 \<le> (if b0 = 0xED then 0x9F else 0xBF)
                \<and> cont b2
             then (b0 mod 16 * 4096 + b1 mod 64 * 64 + b2 mod 64, 3) else (RuneError, 1)
         | _ \<Rightarrow> (RuneError, 1))
      else if 0xF0 \<le> b0 \<and> b0 \<le> 0xF4 then
        (case bs of
           b1 # b2 # b3 # _ \<Rightarrow>
             if (if b0 = 0xF0 then 0x90 else 0x80) \<le> b1 \<and> b1 \<le> (if b0 = 0xF4 then 0x8F else 0xBF)
                \<and> cont b2 \<and> cont b3
             then (b0 mod 8 * 262144 + b1 mod 64 * 4096 + b2 mod 64 * 64 + b3 mod 64, 4)
             else (RuneError, 1)
         | _ \<Rightarrow> (RuneError, 1))
      else (RuneError, 1))"

declare dec_bytes.simps(2) [simp del]

definition dec_rune :: "string \<Rightarrow> nat \<times> nat" where
  "dec_rune s = dec_bytes (map of_char (take 4 s))"

text \<open>\<open>[]rune(s)\<close>, and the runes a \<open>range\<close> loop over \<open>s\<close> visits.\<close>

fun runes :: "string \<Rightarrow> nat list" where
  "runes [] = []"
| "runes (c # cs) = (case dec_rune (c # cs) of (r, n) \<Rightarrow> r # runes (drop (n - 1) cs))"

definition valid_utf8 :: "string \<Rightarrow> bool" where
  "valid_utf8 s \<longleftrightarrow> utf8 (runes s) = s"

lemma utf8_simps [simp]:
  "utf8 [] = []" "utf8 (r # rs) = enc_rune r @ utf8 rs" "utf8 (rs @ rs') = utf8 rs @ utf8 rs'"
  by (simp_all add: utf8_def)

lemma enc_bytes_ne [simp]: "enc_bytes r \<noteq> []"
  by (simp add: enc_bytes_def)

lemma enc_rune_ne [simp]: "enc_rune r \<noteq> []"
  by (simp add: enc_rune_def)

lemma utf8_eq_Nil [simp]: "utf8 rs = [] \<longleftrightarrow> rs = []"
  by (cases rs) auto

lemma enc_bytes_lt: "b \<in> set (enc_bytes r) \<Longrightarrow> b < 256"
  by (auto simp: enc_bytes_def valid_rune_def split: if_splits)

lemma of_char_enc_rune: "map of_char (enc_rune r) = enc_bytes r"
  unfolding enc_rune_def map_map
  by (rule map_idI) (simp add: enc_bytes_lt)

text \<open>The payload bits of lead and continuation bytes, and a rune put together from its groups of six bits.\<close>

lemma lead2_mod: "x < 32 \<Longrightarrow> (192 + x) mod 32 = (x::nat)"
  by (simp add: mod_add_left_eq [symmetric, of 192])

lemma lead3_mod: "x < 16 \<Longrightarrow> (224 + x) mod 16 = (x::nat)"
  by (simp add: mod_add_left_eq [symmetric, of 224])

lemma lead4_mod: "x < 8 \<Longrightarrow> (240 + x) mod 8 = (x::nat)"
  by (simp add: mod_add_left_eq [symmetric, of 240])

lemma cont_mod: "(128 + x mod 64) mod 64 = x mod (64::nat)"
  by (simp add: mod_add_left_eq [symmetric, of 128])

lemma mod64_le: "x mod 64 \<le> (63::nat)"
  using mod_less_divisor [of 64 x] by linarith

lemma sextets3: "r div 4096 * 4096 + r div 64 mod 64 * 64 + r mod 64 = (r::nat)"
proof -
  have "r div 4096 = r div 64 div 64" by (simp add: div_mult2_eq [symmetric])
  then show ?thesis using div_mult_mod_eq [of r 64] div_mult_mod_eq [of "r div 64" 64] by linarith
qed

lemma sextets4:
  "r div 262144 * 262144 + r div 4096 mod 64 * 4096 + r div 64 mod 64 * 64 + r mod 64 = (r::nat)"
proof -
  have "r div 262144 = r div 4096 div 64" by (simp add: div_mult2_eq [symmetric])
  then show ?thesis using sextets3 [of r] div_mult_mod_eq [of "r div 4096" 64] by linarith
qed

lemma dec_enc_bytes:
  assumes "valid_rune r"
  shows "dec_bytes (enc_bytes r @ rest) = (r, length (enc_bytes r))"
proof -
  consider (1) "r < 0x80" | (2) "0x80 \<le> r" "r < 0x800"
    | (3) "0x800 \<le> r" "r < 0x10000" | (4) "0x10000 \<le> r" "r < 0x110000"
    using assms unfolding valid_rune_def by arith
  then show ?thesis
  proof cases
    case 1
    then show ?thesis by (simp add: enc_bytes_def dec_bytes.simps)
  next
    case 2
    then have "2 \<le> r div 64" "r div 64 < 32" by auto
    then show ?thesis using 2 mod64_le [of r]
      by (simp add: enc_bytes_def dec_bytes.simps cont_def lead2_mod cont_mod)
  next
    case 3
    have d: "r div 4096 < 16" using 3 by auto
    have lo: "(if 224 + r div 4096 = 224 then 160 else 128) \<le> 128 + r div 64 mod 64"
      using 3 sextets3 [of r] mod64_le [of r] by auto
    have hi: "128 + r div 64 mod 64 \<le> (if 224 + r div 4096 = 237 then 159 else 191)"
      using assms sextets3 [of r] mod64_le [of r] mod64_le [of "r div 64"]
      by (auto simp: valid_rune_def)
    show ?thesis using 3 d assms lo hi mod64_le [of r]
      by (simp add: enc_bytes_def dec_bytes.simps cont_def lead3_mod cont_mod sextets3)
  next
    case 4
    have d: "r div 262144 \<le> 4" using 4 by auto
    have lo: "(if 240 + r div 262144 = 240 then 144 else 128) \<le> 128 + r div 4096 mod 64"
      using 4 sextets4 [of r] mod64_le [of r] mod64_le [of "r div 64"] by auto
    have hi: "128 + r div 4096 mod 64 \<le> (if 240 + r div 262144 = 244 then 143 else 191)"
      using 4 sextets4 [of r] mod64_le [of r] mod64_le [of "r div 64"] mod64_le [of "r div 4096"]
      by auto
    show ?thesis using 4 d assms lo hi mod64_le [of r] mod64_le [of "r div 64"]
      by (simp add: enc_bytes_def dec_bytes.simps cont_def lead4_mod cont_mod sextets4)
  qed
qed

lemma length_enc_bytes: "length (enc_bytes r) \<le> 4"
  by (simp add: enc_bytes_def)

lemma dec_bytes_take4: "dec_bytes (take 4 bs) = dec_bytes bs"
  by (cases bs; cases "tl bs"; cases "tl (tl bs)"; cases "tl (tl (tl bs))")
    (auto simp: dec_bytes.simps)

lemma dec_rune_bytes: "dec_rune s = dec_bytes (map of_char s)"
  by (simp add: dec_rune_def dec_bytes_take4 take_map [symmetric])

lemma length_enc_rune: "length (enc_rune r) = length (enc_bytes r)"
  by (simp add: enc_rune_def)

lemma dec_enc_rune:
  "valid_rune r \<Longrightarrow> dec_rune (enc_rune r @ s) = (r, length (enc_rune r))"
  by (simp add: dec_rune_bytes of_char_enc_rune dec_enc_bytes length_enc_rune)

lemma runes_step: "s \<noteq> [] \<Longrightarrow> runes s = fst (dec_rune s) # runes (drop (max 1 (snd (dec_rune s))) s)"
  by (cases s) (auto split: prod.split simp: max_def drop_Cons split: nat.split)

lemma runes_enc_rune [simp]: "valid_rune r \<Longrightarrow> runes (enc_rune r @ s) = r # runes s"
proof -
  assume r: "valid_rune r"
  have "0 < length (enc_rune r)" by simp
  then have "max 1 (length (enc_rune r)) = length (enc_rune r)" by linarith
  with r show ?thesis by (simp add: runes_step dec_enc_rune)
qed

lemma runes_utf8_append: "list_all valid_rune rs \<Longrightarrow> runes (utf8 rs @ s) = rs @ runes s"
  by (induction rs) auto

lemma runes_utf8 [simp]: "list_all valid_rune rs \<Longrightarrow> runes (utf8 rs) = rs"
  using runes_utf8_append [of rs "[]"] by simp

lemma valid_utf8_utf8 [simp]: "list_all valid_rune rs \<Longrightarrow> valid_utf8 (utf8 rs)"
  by (simp add: valid_utf8_def)

subsection \<open>Trimming\<close>

text \<open>
  \<open>TrimSpace\<close>, \<open>Trim\<close>, \<open>TrimLeft\<close> and \<open>TrimRight\<close> drop runes of a set from the ends. No
  UTF-8 encoding is a prefix of another, and \<open>DecodeLastRune\<close> finds a rune exactly when the
  string ends in its encoding, so dropping a rune is dropping its encoding: the trimming
  functions work on the list of encodings, from the left and, reversed, from the right.
\<close>

function trim_codes :: "string list \<Rightarrow> string \<Rightarrow> string" where
  "trim_codes ws s =
     (case find (\<lambda>w. w \<noteq> [] \<and> prefix w s) ws of
        None \<Rightarrow> s
      | Some w \<Rightarrow> trim_codes ws (drop (length w) s))"
  by pat_completeness auto
termination
  by (relation "measure (\<lambda>(ws, s). length s)")
    (auto simp: find_Some_iff prefix_def)

declare trim_codes.simps [simp del]

definition trim_left_codes :: "string list \<Rightarrow> string \<Rightarrow> string" where
  "trim_left_codes ws s = trim_codes ws s"

definition trim_right_codes :: "string list \<Rightarrow> string \<Rightarrow> string" where
  "trim_right_codes ws s = rev (trim_codes (map rev ws) (rev s))"

definition trim_both :: "string list \<Rightarrow> string \<Rightarrow> string" where
  "trim_both ws s = trim_right_codes ws (trim_left_codes ws s)"

text \<open>The runes \<open>unicode.IsSpace\<close> accepts.\<close>

definition space_runes :: "nat list" where
  "space_runes = [0x20, 9, 10, 11, 12, 13, 0x85, 0xA0, 0x1680, 0x2000, 0x2001, 0x2002, 0x2003, 0x2004,
     0x2005, 0x2006, 0x2007, 0x2008, 0x2009, 0x200A, 0x2028, 0x2029, 0x202F, 0x205F, 0x3000]"

definition space_codes :: "string list" where
  "space_codes = map enc_rune space_runes"

definition TrimSpace :: "string \<Rightarrow> string" where
  "TrimSpace s = trim_both space_codes s"

text \<open>\<open>strings.Trim(s, cutset)\<close>, the cutset given by its runes.\<close>

definition Trim :: "string \<Rightarrow> nat list \<Rightarrow> string" where
  "Trim s cutset = trim_both (map enc_rune cutset) s"

definition TrimRight :: "string \<Rightarrow> nat list \<Rightarrow> string" where
  "TrimRight s cutset = trim_right_codes (map enc_rune cutset) s"

definition TrimLeft :: "string \<Rightarrow> nat list \<Rightarrow> string" where
  "TrimLeft s cutset = trim_left_codes (map enc_rune cutset) s"

text \<open>A string none of the encodings is a prefix of.\<close>

definition unspaced :: "string list \<Rightarrow> string \<Rightarrow> bool" where
  "unspaced ws s \<longleftrightarrow> (\<forall>w \<in> set ws. w \<noteq> [] \<longrightarrow> \<not> prefix w s)"

lemma trim_codes_unspaced: "unspaced ws (trim_codes ws s)"
  by (induction ws s rule: trim_codes.induct)
    (subst trim_codes.simps, auto simp: unspaced_def find_None_iff split: option.splits)

lemma trim_codes_id: "unspaced ws s \<Longrightarrow> trim_codes ws s = s"
  by (subst trim_codes.simps) (auto simp: unspaced_def find_Some_iff split: option.split)

lemma suffix_trim_codes: "suffix (trim_codes ws s) s"
proof (induction ws s rule: trim_codes.induct)
  case (1 ws s)
  show ?case
  proof (cases "find (\<lambda>w. w \<noteq> [] \<and> prefix w s) ws")
    case None
    then show ?thesis by (simp add: trim_codes.simps [of ws s])
  next
    case (Some w)
    then have "suffix (trim_codes ws (drop (length w) s)) (drop (length w) s)" by (rule 1)
    then have "suffix (trim_codes ws (drop (length w) s)) s"
      by (rule suffix_order.trans) (rule suffix_drop)
    with Some show ?thesis by (simp add: trim_codes.simps [of ws s])
  qed
qed

lemma unspaced_prefix: "unspaced ws s \<Longrightarrow> prefix p s \<Longrightarrow> unspaced ws p"
  by (meson unspaced_def prefix_order.trans)

lemma prefix_trim_right: "prefix (trim_right_codes ws s) s"
  using suffix_trim_codes [of "map rev ws" "rev s"]
  by (simp add: trim_right_codes_def suffix_to_prefix)

text \<open>Trimmed at both ends.\<close>

definition trimmed :: "string list \<Rightarrow> string \<Rightarrow> bool" where
  "trimmed ws s \<longleftrightarrow> unspaced ws s \<and> unspaced (map rev ws) (rev s)"

lemma trim_both_trimmed: "trimmed ws (trim_both ws s)"
proof -
  have "unspaced ws (trim_both ws s)"
    unfolding trim_both_def trim_left_codes_def
    by (rule unspaced_prefix [OF trim_codes_unspaced prefix_trim_right])
  moreover have "unspaced (map rev ws) (rev (trim_both ws s))"
    by (simp add: trim_both_def trim_right_codes_def trim_codes_unspaced)
  ultimately show ?thesis by (simp add: trimmed_def)
qed

lemma trim_both_id: "trimmed ws s \<Longrightarrow> trim_both ws s = s"
  by (simp add: trimmed_def trim_both_def trim_left_codes_def trim_right_codes_def trim_codes_id)

lemma trim_both_idem [simp]: "trim_both ws (trim_both ws s) = trim_both ws s"
  by (rule trim_both_id [OF trim_both_trimmed])

lemma TrimSpace_idem [simp]: "TrimSpace (TrimSpace s) = TrimSpace s"
  by (simp add: TrimSpace_def)

lemma TrimSpace_Nil [simp]: "TrimSpace [] = []"
  by (simp add: TrimSpace_def trim_both_id trimmed_def unspaced_def)

lemma length_TrimSpace: "length (TrimSpace s) \<le> length s"
proof -
  have "length (trim_left_codes space_codes s) \<le> length s"
    unfolding trim_left_codes_def by (rule suffix_length_le [OF suffix_trim_codes])
  moreover have "length (trim_both space_codes s) \<le> length (trim_left_codes space_codes s)"
    unfolding trim_both_def by (rule prefix_length_le [OF prefix_trim_right])
  ultimately show ?thesis by (simp add: TrimSpace_def)
qed

lemma space_codes_bytes [lit, code]:
  "space_codes = ['' '', [CHR 0x09], [CHR 0x0A], [CHR 0x0B], [CHR 0x0C], [CHR 0x0D],
     [CHR 0xC2, CHR 0x85], [CHR 0xC2, CHR 0xA0], [CHR 0xE1, CHR 0x9A, CHR 0x80],
     [CHR 0xE2, CHR 0x80, CHR 0x80], [CHR 0xE2, CHR 0x80, CHR 0x81], [CHR 0xE2, CHR 0x80, CHR 0x82],
     [CHR 0xE2, CHR 0x80, CHR 0x83], [CHR 0xE2, CHR 0x80, CHR 0x84], [CHR 0xE2, CHR 0x80, CHR 0x85],
     [CHR 0xE2, CHR 0x80, CHR 0x86], [CHR 0xE2, CHR 0x80, CHR 0x87], [CHR 0xE2, CHR 0x80, CHR 0x88],
     [CHR 0xE2, CHR 0x80, CHR 0x89], [CHR 0xE2, CHR 0x80, CHR 0x8A], [CHR 0xE2, CHR 0x80, CHR 0xA8],
     [CHR 0xE2, CHR 0x80, CHR 0xA9], [CHR 0xE2, CHR 0x80, CHR 0xAF], [CHR 0xE2, CHR 0x81, CHR 0x9F],
     [CHR 0xE3, CHR 0x80, CHR 0x80]]"
  by code_simp

text \<open>
  A string whose first and last byte start and end no space encoding is trimmed: the test the
  text literals of the repository pass.
\<close>

definition plain_ends :: "string \<Rightarrow> bool" where
  "plain_ends s \<longleftrightarrow> s \<noteq> []
     \<and> of_char (hd s) \<notin> {0x20, 9, 10, 11, 12, 13, 0xC2, 0xE1, 0xE2, 0xE3::nat}
     \<and> of_char (last s) \<notin> {0x20, 9, 10, 11, 12, 13, 0x85, 0xA0, 0x80, 0x81, 0x82, 0x83, 0x84, 0x85,
          0x86, 0x87, 0x88, 0x89, 0x8A, 0xA8, 0xA9, 0xAF, 0x9F::nat}"

lemma plain_ends_trimmed: "plain_ends s \<Longrightarrow> trimmed space_codes s"
proof -
  assume p: "plain_ends s"
  then obtain c cs where s: "s = c # cs" by (auto simp: plain_ends_def neq_Nil_conv)
  obtain b bs where r: "rev s = b # bs" using s by (cases "rev s") auto
  have b: "b = last s" using r by (metis last_rev list.sel(1) rev_rev_ident hd_rev)
  have "unspaced space_codes s"
    using p by (auto simp: unspaced_def space_codes_bytes s plain_ends_def)
  moreover have "unspaced (map rev space_codes) (rev s)"
    using p unfolding r by (auto simp: unspaced_def space_codes_bytes plain_ends_def b [symmetric])
  ultimately show ?thesis by (simp add: trimmed_def)
qed

lemma TrimSpace_plain: "plain_ends s \<Longrightarrow> TrimSpace s = s"
  by (simp add: TrimSpace_def trim_both_id plain_ends_trimmed)

subsection \<open>Letter case\<close>

definition lower_rune :: "nat \<Rightarrow> nat" where
  "lower_rune c =
     (case find (\<lambda>(lo, hi, step, t). lo \<le> c \<and> c \<le> hi \<and> (c - lo) mod step = 0) lower_ranges of
        None \<Rightarrow> c
      | Some (lo, hi, step, t) \<Rightarrow> t + (c - lo))"

text \<open>No case below \<open>A\<close>, none between \<open>Z\<close> and the Latin-1 capitals, and none between Coptic and the Cyrillic supplement: the CJK block.\<close>

lemma lower_rune_gap:
  assumes "c < 0x41 \<or> (0x5B \<le> c \<and> c < 0xC0) \<or> (0x2CF3 \<le> c \<and> c < 0xA640)"
  shows "lower_rune c = c"
proof -
  have "list_all (\<lambda>(lo, hi, step, t). 0x41 \<le> lo \<and> (hi < 0x5B \<or> 0xC0 \<le> lo) \<and> (hi < 0x2CF3 \<or> 0xA640 \<le> lo)) lower_ranges"
    by code_simp
  then have "find (\<lambda>(lo, hi, step, t). lo \<le> c \<and> c \<le> hi \<and> (c - lo) mod step = 0) lower_ranges = None"
    using assms by (fastforce simp: find_None_iff list_all_iff)
  then show ?thesis by (simp add: lower_rune_def)
qed

lemma lower_rune_code [code]:
  "lower_rune c =
     (if c < 0x41 \<or> (0x5B \<le> c \<and> c < 0xC0) \<or> (0x2CF3 \<le> c \<and> c < 0xA640) then c
      else case find (\<lambda>(lo, hi, step, t). lo \<le> c \<and> c \<le> hi \<and> (c - lo) mod step = 0) lower_ranges of
        None \<Rightarrow> c
      | Some (lo, hi, step, t) \<Rightarrow> t + (c - lo))"
  using lower_rune_gap [of c] unfolding lower_rune_def by simp

text \<open>\<open>strings.ToLower\<close> maps every rune, and writes an invalid byte as U+FFFD.\<close>

definition ToLower :: "string \<Rightarrow> string" where
  "ToLower s = utf8 (map lower_rune (runes s))"

text \<open>
  \<open>strings.EqualFold\<close> compares the runes up to their simple folding orbit. The dotted capital
  and the dotless small i (U+0130, U+0131) are alone in their orbits.
\<close>

definition fold_rune :: "nat \<Rightarrow> nat" where
  "fold_rune c =
     (if c = 0x130 \<or> c = 0x131 then c
      else case map_of fold_extra (lower_rune c) of None \<Rightarrow> lower_rune c | Some r \<Rightarrow> r)"

definition EqualFold :: "string \<Rightarrow> string \<Rightarrow> bool" where
  "EqualFold s t \<longleftrightarrow> map fold_rune (runes s) = map fold_rune (runes t)"

lemma EqualFold_refl [simp]: "EqualFold s s"
  by (simp add: EqualFold_def)

lemma EqualFold_sym: "EqualFold s t \<Longrightarrow> EqualFold t s"
  by (simp add: EqualFold_def)

lemma EqualFold_trans: "EqualFold s t \<Longrightarrow> EqualFold t u \<Longrightarrow> EqualFold s u"
  by (simp add: EqualFold_def)

lemma ToLower_Nil [simp]: "ToLower [] = []"
  by (simp add: ToLower_def)

lemma runes_Nil_iff [simp]: "runes s = [] \<longleftrightarrow> s = []"
  by (cases s) (auto split: prod.split)

lemma ToLower_eq_Nil [simp]: "ToLower s = [] \<longleftrightarrow> s = []"
  by (simp add: ToLower_def)

subsection \<open>Searching, joining, splitting\<close>

definition Contains :: "string \<Rightarrow> string \<Rightarrow> bool" where
  "Contains s t \<longleftrightarrow> sublist t s"

abbreviation HasPrefix :: "string \<Rightarrow> string \<Rightarrow> bool" where
  "HasPrefix s p \<equiv> prefix p s"

abbreviation HasSuffix :: "string \<Rightarrow> string \<Rightarrow> bool" where
  "HasSuffix s p \<equiv> suffix p s"

definition TrimPrefix :: "string \<Rightarrow> string \<Rightarrow> string" where
  "TrimPrefix s p = (if prefix p s then drop (length p) s else s)"

definition TrimSuffix :: "string \<Rightarrow> string \<Rightarrow> string" where
  "TrimSuffix s p = (if suffix p s then take (length s - length p) s else s)"

fun Join :: "string list \<Rightarrow> string \<Rightarrow> string" where
  "Join [] sep = []"
| "Join [x] sep = x"
| "Join (x # y # xs) sep = x @ sep @ Join (y # xs) sep"

text \<open>\<open>strings.Split\<close> on a one-byte separator.\<close>

fun Split :: "string \<Rightarrow> char \<Rightarrow> string list" where
  "Split [] sep = [[]]"
| "Split (c # cs) sep =
     (if c = sep then [] # Split cs sep
      else case Split cs sep of [] \<Rightarrow> [[c]] | p # ps \<Rightarrow> (c # p) # ps)"

text \<open>\<open>strings.Fields\<close>: the maximal runs free of white space.\<close>

definition push_field :: "string \<Rightarrow> string list \<Rightarrow> string list" where
  "push_field cur rest = (if cur = [] then rest else rev cur # rest)"

function fields_from :: "string \<Rightarrow> string \<Rightarrow> string list" where
  "fields_from cur [] = push_field cur []"
| "fields_from cur (c # cs) =
     (case find (\<lambda>w. w \<noteq> [] \<and> prefix w (c # cs)) space_codes of
        Some w \<Rightarrow> push_field cur (fields_from [] (drop (length w) (c # cs)))
      | None \<Rightarrow> fields_from (c # cur) cs)"
  by pat_completeness auto
termination
  by (relation "measure (\<lambda>(cur, s). length s)")
    (auto simp: find_Some_iff prefix_def)

definition Fields :: "string \<Rightarrow> string list" where
  "Fields s = fields_from [] s"

text \<open>\<open>strings.Index\<close>.\<close>

definition Index :: "string \<Rightarrow> string \<Rightarrow> nat option" where
  "Index s sub = find (\<lambda>i. prefix sub (drop i s)) [0..<length s + 1]"

lemma Index_Some:
  "Index s sub = Some i \<longleftrightarrow> i \<le> length s \<and> prefix sub (drop i s) \<and> (\<forall>j < i. \<not> prefix sub (drop j s))"
  unfolding Index_def find_Some_iff
  by (auto simp: less_Suc_eq_le nth_append split: if_splits)

text \<open>\<open>strings.Split\<close> on a separator that is not empty.\<close>

function Split_str :: "string \<Rightarrow> string \<Rightarrow> string list" where
  "Split_str s sep =
     (case Index s sep of
        None \<Rightarrow> [s]
      | Some i \<Rightarrow> if sep = [] then [s] else take i s # Split_str (drop (i + length sep) s) sep)"
  by pat_completeness auto
termination
proof (relation "measure (\<lambda>(s, sep). length s)")
  fix s sep :: string and i
  assume "Index s sep = Some i" "sep \<noteq> []"
  then have "0 < length sep" "i \<le> length s" "length sep \<le> length s - i"
    by (auto simp: Index_Some dest!: prefix_length_le)
  then have "length s - (i + length sep) < length s" by linarith
  then show "((drop (i + length sep) s, sep), s, sep) \<in> measure (\<lambda>(s, sep). length s)" by simp
qed simp

declare Split_str.simps [simp del]

lemma Contains_refl [simp]: "Contains s s"
  by (simp add: Contains_def)

lemma Contains_append1 [intro]: "Contains s t \<Longrightarrow> Contains (s @ u) t"
  and Contains_append2 [intro]: "Contains u t \<Longrightarrow> Contains (s @ u) t"
  by (auto simp: Contains_def sublist_appendI sublist_append)

lemma Contains_Nil [simp]: "Contains s []"
  by (simp add: Contains_def)

lemma Contains_trans: "Contains s t \<Longrightarrow> Contains t u \<Longrightarrow> Contains s u"
  unfolding Contains_def by (meson sublist_order.order_trans)

subsection \<open>Numbers as text\<close>

fun digits :: "nat \<Rightarrow> string" where
  "digits n = (if n < 10 then [char_of (48 + n)] else digits (n div 10) @ [char_of (48 + n mod 10)])"

declare digits.simps [simp del]

text \<open>\<open>strconv.Itoa\<close>, and what \<open>%d\<close> prints.\<close>

definition Itoa :: "int \<Rightarrow> string" where
  "Itoa n = (if n < 0 then CHR ''-'' # digits (nat (- n)) else digits (nat n))"

definition is_digit :: "char \<Rightarrow> bool" where
  "is_digit c \<longleftrightarrow> 48 \<le> (of_char c :: nat) \<and> (of_char c :: nat) \<le> 57"

definition digits_value :: "string \<Rightarrow> nat" where
  "digits_value s = foldl (\<lambda>v c. 10 * v + (of_char c - 48)) 0 s"

text \<open>\<open>strconv.Atoi\<close>: an optional sign, at least one digit, nothing else, within \<open>int64\<close>.\<close>

definition Atoi :: "string \<Rightarrow> int option" where
  "Atoi s =
     (let (neg, ds) = (case s of
            [] \<Rightarrow> (False, [])
          | c # cs \<Rightarrow> if c = CHR ''-'' then (True, cs) else if c = CHR ''+'' then (False, cs) else (False, s));
          v = (if neg then - int (digits_value ds) else int (digits_value ds))
      in if ds \<noteq> [] \<and> list_all is_digit ds \<and> - (2 ^ 63) \<le> v \<and> v < 2 ^ 63 then Some v else None)"

definition hex_digit :: "nat \<Rightarrow> char" where
  "hex_digit n = (if n < 10 then char_of (48 + n) else char_of (87 + n))"

text \<open>\<open>hex.EncodeToString\<close>, on bytes given as numbers below 256.\<close>

definition hex_encode :: "nat list \<Rightarrow> string" where
  "hex_encode bs = concat (map (\<lambda>b. [hex_digit (b div 16), hex_digit (b mod 16)]) bs)"

lemma digits_ne [simp]: "digits n \<noteq> []"
  by (subst digits.simps) simp

lemma is_digit_48 [simp]: "d < (10::nat) \<Longrightarrow> is_digit (char_of (48 + d))"
  by (simp add: is_digit_def)

lemma digits_digits: "list_all is_digit (digits n)"
proof (induction n rule: digits.induct)
  case (1 n)
  then show ?case
    by (subst digits.simps) auto
qed

lemma digits_value_digits [simp]: "digits_value (digits n) = n"
proof (induction n rule: digits.induct)
  case (1 n)
  then show ?case
    by (subst digits.simps) (auto simp: digits_value_def)
qed

lemma Itoa_ne [simp]: "Itoa n \<noteq> []"
  by (simp add: Itoa_def)

lemma digits_inj: "digits m = digits n \<longleftrightarrow> m = n"
  by (metis digits_value_digits)

lemma is_digit_hd: "is_digit c \<Longrightarrow> c \<noteq> CHR ''-'' \<and> c \<noteq> CHR ''+''"
  by (auto simp: is_digit_def)

lemma Atoi_Itoa:
  assumes "- (2 ^ 63) \<le> n" "n < 2 ^ 63"
  shows "Atoi (Itoa n) = Some n"
proof (cases "n < 0")
  case True
  then show ?thesis using assms by (simp add: Atoi_def Itoa_def digits_digits)
next
  case False
  obtain c cs where d: "digits (nat n) = c # cs" by (metis digits_ne neq_Nil_conv)
  then have "is_digit c" using digits_digits [of "nat n"] by simp
  then have "Atoi (Itoa n) = (let v = int (digits_value (digits (nat n))) in
      if list_all is_digit (digits (nat n)) \<and> - (2 ^ 63) \<le> v \<and> v < 2 ^ 63 then Some v else None)"
    using False is_digit_hd by (auto simp: Atoi_def Itoa_def d)
  then show ?thesis using False assms by (simp add: digits_digits)
qed

lemma hex_encode_Nil [simp]: "hex_encode [] = []"
  and hex_encode_Cons [simp]:
    "hex_encode (b # bs) = hex_digit (b div 16) # hex_digit (b mod 16) # hex_encode bs"
  by (simp_all add: hex_encode_def)

lemma length_hex_encode [simp]: "length (hex_encode bs) = 2 * length bs"
  by (induction bs) auto

lemma of_char_hex_digit: "n < 16 \<Longrightarrow> of_char (hex_digit n) = (if n < 10 then 48 + n else 87 + n)"
  by (simp add: hex_digit_def)

lemma hex_digit_inj: "m < 16 \<Longrightarrow> n < 16 \<Longrightarrow> hex_digit m = hex_digit n \<longleftrightarrow> m = n"
  by (auto dest!: arg_cong [of _ _ "of_char :: char \<Rightarrow> nat"] simp: of_char_hex_digit split: if_splits)

lemma hex_encode_inj:
  assumes "list_all (\<lambda>b. b < 256) xs" "list_all (\<lambda>b. b < 256) ys" "hex_encode xs = hex_encode ys"
  shows "xs = ys"
  using assms
proof (induction xs arbitrary: ys)
  case Nil
  then show ?case by (cases ys) auto
next
  case (Cons x xs)
  then obtain y ys' where ys: "ys = y # ys'" by (cases ys) auto
  with Cons.prems have "x div 16 = y div 16" "x mod 16 = y mod 16" "xs = ys'"
    using Cons.IH by (auto simp: hex_digit_inj)
  then show ?case using ys by (metis div_mult_mod_eq)
qed

end
