(* ===== verification/Float64.thy ===== *)
theory Float64
  imports Prelude Go_Text
begin

section \<open>IEEE double precision\<close>

text \<open>
  The amounts of the program are \<open>float64\<close>. A value is an exact rational, one of the two
  infinities, the negative zero or NaN; every operation computes the exact rational result and
  rounds it to the nearest double, ties to even (IEEE 754, which Go prescribes). The lemmas are
  the ones the components rest on: rounding is monotone, leaves doubles and small integers
  unchanged and keeps the sign, so non-negative amounts stay non-negative and ratios stay in
  the unit interval.
\<close>

datatype float64 = NaN | PosInf | NegInf | NegZero | Fin rat

abbreviation f_zero :: float64 where "f_zero \<equiv> Fin 0"

subsection \<open>Rounding\<close>

text \<open>The largest \<open>e\<close> with \<open>2\<^sup>e \<le> a\<close>, for positive \<open>a\<close>.\<close>

fun nat_bits :: "nat \<Rightarrow> nat" where
  "nat_bits n = (if n = 0 then 0 else Suc (nat_bits (n div 2)))"

declare nat_bits.simps [simp del]

definition ilog2 :: "rat \<Rightarrow> int" where
  "ilog2 a =
     (let (p, q) = quotient_of a; e = int (nat_bits (nat p)) - int (nat_bits (nat q))
      in if 2 powi e \<le> a then e else e - 1)"

text \<open>Nearest integer, ties to even.\<close>

definition nearest_even :: "rat \<Rightarrow> int" where
  "nearest_even r =
     (let f = \<lfloor>r\<rfloor>; d = r - of_int f
      in if d < 1 / 2 then f else if 1 / 2 < d then f + 1 else if even f then f else f + 1)"

text \<open>Exponent of the last place of the binade of \<open>a\<close>: 53 significant bits, gradual underflow.\<close>

definition ulp_exp :: "rat \<Rightarrow> int" where
  "ulp_exp a = max (ilog2 a - 52) (- 1074)"

definition round_mag :: "rat \<Rightarrow> rat" where
  "round_mag a = of_int (nearest_even (a / 2 powi ulp_exp a)) * 2 powi ulp_exp a"

text \<open>The double nearest to a rational; \<open>neg\<close> is the sign of a result that rounds to zero.\<close>

definition f_of_rat :: "rat \<Rightarrow> float64" where
  "f_of_rat q =
     (if q = 0 then Fin 0
      else let m = round_mag \<bar>q\<bar>
           in if 2 powi 1024 \<le> m then (if q < 0 then NegInf else PosInf)
              else if m = 0 then (if q < 0 then NegZero else Fin 0)
              else Fin (if q < 0 then - m else m))"

text \<open>The conversion \<open>float64(n)\<close> of an integer.\<close>

definition f_of_int :: "int \<Rightarrow> float64" where
  "f_of_int n = f_of_rat (of_int n)"

subsection \<open>Operations\<close>

text \<open>The rational a finite value stands for.\<close>

fun f_rat :: "float64 \<Rightarrow> rat" where
  "f_rat (Fin q) = q"
| "f_rat x = 0"

fun is_finite :: "float64 \<Rightarrow> bool" where
  "is_finite (Fin q) = True"
| "is_finite NegZero = True"
| "is_finite x = False"

text \<open>The sign bit of a value that is not NaN.\<close>

fun signbit :: "float64 \<Rightarrow> bool" where
  "signbit (Fin q) \<longleftrightarrow> q < 0"
| "signbit NegZero = True"
| "signbit NegInf = True"
| "signbit x = False"

definition f_inf :: "bool \<Rightarrow> float64" where
  "f_inf neg = (if neg then NegInf else PosInf)"

definition f_zero_of :: "bool \<Rightarrow> float64" where
  "f_zero_of neg = (if neg then NegZero else Fin 0)"

fun f_add :: "float64 \<Rightarrow> float64 \<Rightarrow> float64" where
  "f_add NaN y = NaN"
| "f_add x NaN = NaN"
| "f_add PosInf NegInf = NaN"
| "f_add NegInf PosInf = NaN"
| "f_add PosInf y = PosInf"
| "f_add x PosInf = PosInf"
| "f_add NegInf y = NegInf"
| "f_add x NegInf = NegInf"
| "f_add NegZero NegZero = NegZero"
| "f_add x y = f_of_rat (f_rat x + f_rat y)"

fun f_neg :: "float64 \<Rightarrow> float64" where
  "f_neg NaN = NaN"
| "f_neg PosInf = NegInf"
| "f_neg NegInf = PosInf"
| "f_neg NegZero = Fin 0"
| "f_neg (Fin q) = (if q = 0 then NegZero else Fin (- q))"

definition f_sub :: "float64 \<Rightarrow> float64 \<Rightarrow> float64" where
  "f_sub x y = f_add x (f_neg y)"

definition f_mul :: "float64 \<Rightarrow> float64 \<Rightarrow> float64" where
  "f_mul x y =
     (let neg = (signbit x \<noteq> signbit y)
      in if x = NaN \<or> y = NaN then NaN
         else if \<not> is_finite x \<or> \<not> is_finite y
              then (if (is_finite x \<and> f_rat x = 0) \<or> (is_finite y \<and> f_rat y = 0) then NaN else f_inf neg)
         else if f_rat x = 0 \<or> f_rat y = 0 then f_zero_of neg
         else f_of_rat (f_rat x * f_rat y))"

definition f_div :: "float64 \<Rightarrow> float64 \<Rightarrow> float64" where
  "f_div x y =
     (let neg = (signbit x \<noteq> signbit y)
      in if x = NaN \<or> y = NaN then NaN
         else if \<not> is_finite x then (if is_finite y then f_inf neg else NaN)
         else if \<not> is_finite y then f_zero_of neg
         else if f_rat y = 0 then (if f_rat x = 0 then NaN else f_inf neg)
         else if f_rat x = 0 then f_zero_of neg
         else f_of_rat (f_rat x / f_rat y))"

text \<open>Comparisons are false when an operand is NaN; the two zeros are equal.\<close>

fun f_less :: "float64 \<Rightarrow> float64 \<Rightarrow> bool" where
  "f_less NaN y = False"
| "f_less x NaN = False"
| "f_less PosInf y = False"
| "f_less x PosInf = True"
| "f_less x NegInf = False"
| "f_less NegInf y = True"
| "f_less x y = (f_rat x < f_rat y)"

definition f_eq :: "float64 \<Rightarrow> float64 \<Rightarrow> bool" where
  "f_eq x y \<longleftrightarrow> x \<noteq> NaN \<and> y \<noteq> NaN \<and> \<not> f_less x y \<and> \<not> f_less y x"

definition f_le :: "float64 \<Rightarrow> float64 \<Rightarrow> bool" where
  "f_le x y \<longleftrightarrow> f_less x y \<or> f_eq x y"

text \<open>\<open>math.Round\<close>: the nearest integer, halves away from zero.\<close>

definition round_away :: "rat \<Rightarrow> int" where
  "round_away q = (if q < 0 then - \<lfloor>1 / 2 - q\<rfloor> else \<lfloor>q + 1 / 2\<rfloor>)"

fun f_round :: "float64 \<Rightarrow> float64" where
  "f_round (Fin q) = (if q < 0 \<and> round_away q = 0 then NegZero else Fin (of_int (round_away q)))"
| "f_round x = x"

text \<open>\<open>math.Max\<close>: an infinity wins over NaN, and the positive zero over the negative one.\<close>

definition f_max :: "float64 \<Rightarrow> float64 \<Rightarrow> float64" where
  "f_max x y =
     (if x = PosInf \<or> y = PosInf then PosInf
      else if x = NaN \<or> y = NaN then NaN
      else if f_rat x = 0 \<and> is_finite x \<and> f_rat y = 0 \<and> is_finite y then (if signbit x then y else x)
      else if f_less y x then x else y)"

text \<open>The verb \<open>%.nf\<close>: the exact value to \<open>n\<close> decimals, ties to even.\<close>

definition pad_left :: "nat \<Rightarrow> char \<Rightarrow> string \<Rightarrow> string" where
  "pad_left n c s = replicate (n - length s) c @ s"

definition decimal :: "nat \<Rightarrow> rat \<Rightarrow> string" where
  "decimal n q =
     (let v = nat (nearest_even (\<bar>q\<bar> * 10 ^ n)); w = v div 10 ^ n; f = v mod 10 ^ n
      in digits w @ (if n = 0 then [] else CHR ''.'' # pad_left n CHR ''0'' (digits f)))"

fun f_fmt :: "nat \<Rightarrow> float64 \<Rightarrow> string" where
  "f_fmt n NaN = ''NaN''"
| "f_fmt n PosInf = ''+Inf''"
| "f_fmt n NegInf = ''-Inf''"
| "f_fmt n NegZero = CHR ''-'' # decimal n 0"
| "f_fmt n (Fin q) = (if q < 0 then CHR ''-'' # decimal n q else decimal n q)"

subsection \<open>Rounding is monotone and fixes the doubles\<close>

lemma nat_bits_bounds: "0 < n \<Longrightarrow> 2 ^ (nat_bits n - 1) \<le> n \<and> n < 2 ^ nat_bits n \<and> 0 < nat_bits n"
proof (induction n rule: nat_bits.induct)
  case (1 n)
  show ?case
  proof (cases "n div 2 = 0")
    case True
    then have "n = 1" using 1(2) by linarith
    then show ?thesis by (simp add: nat_bits.simps)
  next
    case False
    then have ih: "2 ^ (nat_bits (n div 2) - 1) \<le> n div 2 \<and> n div 2 < 2 ^ nat_bits (n div 2)
        \<and> 0 < nat_bits (n div 2)"
      using 1 by simp
    then obtain k where k: "nat_bits (n div 2) = Suc k" by (cases "nat_bits (n div 2)") auto
    have "2 * (n div 2) \<le> n" "n < 2 * (n div 2) + 2" by arith+
    then show ?thesis using ih 1(2) k by (subst (1 2 3) nat_bits.simps) auto
  qed
qed

lemma ilog2_bounds:
  assumes "0 < a"
  shows "2 powi (ilog2 a) \<le> a" "a < 2 powi (ilog2 a + 1)"
proof -
  obtain p q where pq: "quotient_of a = (p, q)" by (cases "quotient_of a")
  have q: "0 < q" using pq quotient_of_denom_pos by blast
  have a: "a = of_int p / of_int q" using pq quotient_of_div by blast
  have p: "0 < p" using assms q by (simp add: a zero_less_divide_iff)
  define m n where "m = nat_bits (nat p)" and "n = nat_bits (nat q)"
  have mb: "2 ^ (m - 1) \<le> nat p" "nat p < 2 ^ m" "0 < m"
    using nat_bits_bounds [of "nat p"] p by (auto simp: m_def)
  have nb: "2 ^ (n - 1) \<le> nat q" "nat q < 2 ^ n" "0 < n"
    using nat_bits_bounds [of "nat q"] q by (auto simp: n_def)
  have pr: "(2::rat) ^ (m - 1) \<le> of_int p" "of_int p < (2::rat) ^ m"
    using mb p by (metis of_nat_le_iff of_nat_numeral of_nat_power of_nat_nat less_imp_le,
                   metis of_nat_less_iff of_nat_numeral of_nat_power of_nat_nat less_imp_le)
  have qr: "(2::rat) ^ (n - 1) \<le> of_int q" "of_int q < (2::rat) ^ n"
    using nb q by (metis of_nat_le_iff of_nat_numeral of_nat_power of_nat_nat less_imp_le,
                   metis of_nat_less_iff of_nat_numeral of_nat_power of_nat_nat less_imp_le)
  define e where "e = int m - int n"
  have hi: "a < 2 powi (e + 1)"
  proof -
    have "a < 2 ^ m / 2 ^ (n - 1)"
      unfolding a by (rule frac_less) (use pr qr p q in auto)
    also have "\<dots> = 2 powi (e + 1)"
    proof -
      have "e + 1 = int m - int (n - 1)" using nb(3) by (simp add: e_def of_nat_diff)
      then show ?thesis by (simp add: power_int_diff)
    qed
    finally show ?thesis .
  qed
  have lo: "2 powi (e - 1) \<le> a"
  proof -
    have "2 ^ (m - 1) / 2 ^ n \<le> a"
      unfolding a by (rule frac_le) (use pr qr p q in auto)
    moreover have "e - 1 = int (m - 1) - int n" using mb(3) by (simp add: e_def of_nat_diff)
    ultimately show ?thesis by (simp add: power_int_diff)
  qed
  have il: "ilog2 a = (if 2 powi e \<le> a then e else e - 1)"
    by (simp add: ilog2_def pq m_def n_def e_def)
  show "2 powi (ilog2 a) \<le> a" "a < 2 powi (ilog2 a + 1)" using hi lo il by auto
qed

lemma powi_less_cancel: "(2::rat) powi a < 2 powi b \<Longrightarrow> a < b"
  using power_int_increasing [of b a "2::rat"] by fastforce

lemma ilog2_unique: "0 < a \<Longrightarrow> 2 powi e \<le> a \<Longrightarrow> a < 2 powi (e + 1) \<Longrightarrow> ilog2 a = e"
proof -
  assume a: "0 < a" "2 powi e \<le> a" "a < 2 powi (e + 1)"
  have "(2::rat) powi e < 2 powi (ilog2 a + 1)" "(2::rat) powi (ilog2 a) < 2 powi (e + 1)"
    using a ilog2_bounds [of a] by linarith+
  then have "e < ilog2 a + 1" "ilog2 a < e + 1" by (blast dest: powi_less_cancel)+
  then show "ilog2 a = e" by linarith
qed

lemma ilog2_mono: "0 < a \<Longrightarrow> a \<le> b \<Longrightarrow> ilog2 a \<le> ilog2 b"
proof -
  assume a: "0 < a" "a \<le> b"
  have "(2::rat) powi (ilog2 a) < 2 powi (ilog2 b + 1)"
    using a ilog2_bounds(1) [of a] ilog2_bounds(2) [of b] by linarith
  then have "ilog2 a < ilog2 b + 1" by (blast dest: powi_less_cancel)
  then show ?thesis by linarith
qed

lemma nearest_even_of_int [simp]: "nearest_even (of_int n) = n"
  by (simp add: nearest_even_def)

lemma nearest_even_floor: "\<lfloor>r\<rfloor> \<le> nearest_even r" "nearest_even r \<le> \<lfloor>r\<rfloor> + 1"
  by (auto simp: nearest_even_def Let_def)

lemma nearest_even_mono: "r \<le> s \<Longrightarrow> nearest_even r \<le> nearest_even s"
proof -
  assume rs: "r \<le> s"
  show ?thesis
  proof (cases "\<lfloor>r\<rfloor> = \<lfloor>s\<rfloor>")
    case True
    then show ?thesis using rs by (auto simp: nearest_even_def Let_def)
  next
    case False
    then have "\<lfloor>r\<rfloor> + 1 \<le> \<lfloor>s\<rfloor>" using floor_mono [OF rs] by simp
    then show ?thesis using nearest_even_floor(2) [of r] nearest_even_floor(1) [of s] by linarith
  qed
qed

lemma nearest_even_nonneg: "0 \<le> r \<Longrightarrow> 0 \<le> nearest_even r"
  using nearest_even_mono [of 0 r] nearest_even_of_int [of 0] by simp

text \<open>Powers of two that are multiples of the last place round to themselves.\<close>

lemma nearest_even_powi: "0 \<le> k \<Longrightarrow> nearest_even (2 powi k) = 2 ^ nat k"
  using nearest_even_of_int [of "2 ^ nat k"] by (simp add: power_int_def)

lemma round_mag_nonneg: "0 \<le> a \<Longrightarrow> 0 \<le> round_mag a"
  by (simp add: round_mag_def nearest_even_nonneg)

lemma round_mag_between:
  assumes "0 < a" "ulp_exp a \<le> k"
  shows "2 powi k \<le> a \<Longrightarrow> 2 powi k \<le> round_mag a" "a \<le> 2 powi k \<Longrightarrow> round_mag a \<le> 2 powi k"
proof -
  let ?u = "ulp_exp a"
  have pw: "(2::rat) powi k / 2 powi ?u = 2 powi (k - ?u)" by (simp add: power_int_diff)
  have ne: "nearest_even (2 powi (k - ?u)) = 2 ^ nat (k - ?u)" using assms by (simp add: nearest_even_powi)
  have val: "(of_int (2 ^ nat (k - ?u)) :: rat) * 2 powi ?u = 2 powi k"
  proof -
    have "(of_int (2 ^ nat (k - ?u)) :: rat) = 2 powi (k - ?u)" using assms by (simp add: power_int_def)
    then show ?thesis by (simp add: power_int_add [symmetric])
  qed
  show "2 powi k \<le> round_mag a" if "2 powi k \<le> a"
  proof -
    have "2 powi k / 2 powi ?u \<le> a / 2 powi ?u" using that by (simp add: divide_right_mono)
    then have "2 ^ nat (k - ?u) \<le> nearest_even (a / 2 powi ?u)"
      using nearest_even_mono ne pw by metis
    then have "(of_int (2 ^ nat (k - ?u)) :: rat) \<le> of_int (nearest_even (a / 2 powi ?u))"
      by (simp only: of_int_le_iff)
    then have "(of_int (2 ^ nat (k - ?u)) :: rat) * 2 powi ?u \<le> round_mag a"
      unfolding round_mag_def by (rule mult_right_mono) simp
    then show ?thesis by (simp only: val)
  qed
  show "round_mag a \<le> 2 powi k" if "a \<le> 2 powi k"
  proof -
    have "a / 2 powi ?u \<le> 2 powi k / 2 powi ?u" using that by (simp add: divide_right_mono)
    then have "nearest_even (a / 2 powi ?u) \<le> 2 ^ nat (k - ?u)"
      using nearest_even_mono ne pw by metis
    then have "(of_int (nearest_even (a / 2 powi ?u)) :: rat) \<le> of_int (2 ^ nat (k - ?u))"
      by (simp only: of_int_le_iff)
    then have "round_mag a \<le> (of_int (2 ^ nat (k - ?u)) :: rat) * 2 powi ?u"
      unfolding round_mag_def by (rule mult_right_mono) simp
    then show ?thesis by (simp only: val)
  qed
qed

lemma ulp_exp_mono: "0 < a \<Longrightarrow> a \<le> b \<Longrightarrow> ulp_exp a \<le> ulp_exp b"
  using ilog2_mono [of a b] by (simp add: ulp_exp_def max.coboundedI1 max_def)

lemma round_mag_mono:
  assumes "0 < a" "a \<le> b"
  shows "round_mag a \<le> round_mag b"
proof (cases "ulp_exp a = ulp_exp b")
  case True
  have "a / 2 powi ulp_exp a \<le> b / 2 powi ulp_exp a" using assms by (simp add: divide_right_mono)
  then have "(of_int (nearest_even (a / 2 powi ulp_exp a)) :: rat)
      \<le> of_int (nearest_even (b / 2 powi ulp_exp a))"
    by (simp add: nearest_even_mono)
  then have "(of_int (nearest_even (a / 2 powi ulp_exp a)) :: rat) * 2 powi ulp_exp a
      \<le> of_int (nearest_even (b / 2 powi ulp_exp a)) * 2 powi ulp_exp a"
    by (rule mult_right_mono) simp
  then show ?thesis by (simp add: round_mag_def True)
next
  case False
  then have lt: "ulp_exp a < ulp_exp b" using ulp_exp_mono [OF assms] by simp
  then have ub: "ulp_exp b = ilog2 b - 52" "ilog2 a < ilog2 b" by (auto simp: ulp_exp_def)
  have b: "0 < b" using assms by simp
  have "a < 2 powi (ilog2 a + 1)" using ilog2_bounds(2) [OF assms(1)] .
  also have "(2::rat) powi (ilog2 a + 1) \<le> 2 powi ilog2 b" using ub by (simp add: power_int_increasing)
  finally have "a \<le> 2 powi ilog2 b" by simp
  then have "round_mag a \<le> 2 powi ilog2 b" using round_mag_between(2) [OF assms(1), of "ilog2 b"] lt ub by simp
  moreover have "2 powi ilog2 b \<le> round_mag b"
    using round_mag_between(1) [OF b, of "ilog2 b"] ilog2_bounds(1) [OF b] ub by simp
  ultimately show ?thesis by simp
qed

lemma round_mag_exact:
  assumes "0 < n" "n < 2 ^ 53" "- 1074 \<le> e"
  shows "round_mag (of_int n * 2 powi e) = of_int n * 2 powi e"
proof -
  let ?a = "(of_int n :: rat) * 2 powi e"
  have a: "0 < ?a" using assms by simp
  have "?a < 2 ^ 53 * 2 powi e" using assms
    by (intro mult_strict_right_mono) (simp_all add: of_int_less_numeral_power_cancel_iff)
  also have "(2::rat) ^ 53 * 2 powi e = 2 powi (53 + e)" by (simp add: power_int_add)
  finally have "(2::rat) powi ilog2 ?a < 2 powi (53 + e)" using ilog2_bounds(1) [OF a] by simp
  then have u: "ulp_exp ?a \<le> e" using assms powi_less_cancel [of "ilog2 ?a" "53 + e"] by (simp add: ulp_exp_def)
  define k where "k = nat (e - ulp_exp ?a)"
  have "(2::rat) powi e = 2 ^ k * 2 powi ulp_exp ?a"
    using u by (simp add: k_def power_int_def [of _ "e - ulp_exp ?a", symmetric] flip: power_int_add)
      (metis (no_types) diff_add_cancel power_int_add power_int_def diff_ge_0_iff_ge zero_neq_numeral)
  then have eq: "?a = of_int (n * 2 ^ k) * 2 powi ulp_exp ?a" by simp
  then have q: "?a / 2 powi ulp_exp ?a = of_int (n * 2 ^ k)" by (subst nonzero_divide_eq_eq) simp_all
  have "round_mag ?a = of_int (n * 2 ^ k) * 2 powi ulp_exp ?a"
    by (simp only: round_mag_def q nearest_even_of_int)
  then show ?thesis by (simp only: eq [symmetric])
qed

lemma round_mag_of_int: "0 < n \<Longrightarrow> n \<le> 2 ^ 53 \<Longrightarrow> round_mag (of_int n) = of_int n"
proof (cases "n = 2 ^ 53")
  case True
  then show ?thesis using round_mag_exact [of 1 53] by simp
next
  case False
  assume "0 < n" "n \<le> 2 ^ 53"
  with False show ?thesis using round_mag_exact [of n 0] by simp
qed

text \<open>Values a Go amount is required to be: not NaN and not negative.\<close>

fun f_nonneg :: "float64 \<Rightarrow> bool" where
  "f_nonneg (Fin q) \<longleftrightarrow> 0 \<le> q"
| "f_nonneg PosInf = True"
| "f_nonneg NegZero = True"
| "f_nonneg x = False"

lemma f_of_rat_nonneg [simp]: "0 \<le> q \<Longrightarrow> f_nonneg (f_of_rat q)"
  by (auto simp: f_of_rat_def Let_def round_mag_nonneg)

lemma f_of_int_exact: "\<bar>n\<bar> \<le> 2 ^ 53 \<Longrightarrow> f_of_int n = Fin (of_int n)"
proof -
  assume n: "\<bar>n\<bar> \<le> 2 ^ 53"
  have small: "\<not> (2::rat) powi 1024 \<le> of_int \<bar>n\<bar>"
  proof -
    have "(of_int \<bar>n\<bar> :: rat) \<le> of_int (2 ^ 53)" using n by (simp only: of_int_le_iff)
    also have "(of_int (2 ^ 53) :: rat) < 2 powi 1024"
      using power_int_strict_increasing [of 53 1024 "2::rat"] by simp
    finally show ?thesis by simp
  qed
  show ?thesis
    using n small round_mag_of_int [of "\<bar>n\<bar>"]
    by (cases "n = 0") (auto simp: f_of_int_def f_of_rat_def Let_def abs_if split: if_splits)
qed

lemma f_of_rat_unit: "0 \<le> q \<Longrightarrow> q \<le> 1 \<Longrightarrow> \<exists>r. f_of_rat q = Fin r \<and> 0 \<le> r \<and> r \<le> 1"
proof -
  assume q: "0 \<le> q" "q \<le> 1"
  have one: "round_mag 1 = 1" using round_mag_of_int [of 1] by simp
  have m: "0 < q \<Longrightarrow> round_mag q \<le> 1" using round_mag_mono [of q 1] q one by simp
  have big: "(1::rat) < 2 powi 1024" using power_int_strict_increasing [of 0 1024 "2::rat"] by simp
  show ?thesis
  proof (cases "q = 0")
    case True
    then show ?thesis by (simp add: f_of_rat_def)
  next
    case False
    then have "round_mag q \<le> 1" "0 < q" using m q by auto
    then have "\<not> 2 powi 1024 \<le> round_mag q" using big by linarith
    then show ?thesis using False q \<open>round_mag q \<le> 1\<close> round_mag_nonneg [of q]
      by (auto simp: f_of_rat_def Let_def simp del: power_int_numeral)
  qed
qed

text \<open>Order on the values that are not NaN, and rounding respects it.\<close>

lemma f_of_rat_mono:
  assumes "0 \<le> q" "q \<le> r"
  shows "\<not> f_less (f_of_rat r) (f_of_rat q)"
proof (cases "q = 0")
  case True
  then show ?thesis using assms round_mag_nonneg [of r] by (auto simp: f_of_rat_def Let_def)
next
  case False
  then have "round_mag q \<le> round_mag r" using assms by (intro round_mag_mono) auto
  then show ?thesis using False assms round_mag_nonneg [of q]
    by (auto simp: f_of_rat_def Let_def)
qed

lemma f_add_nonneg [simp]: "f_nonneg x \<Longrightarrow> f_nonneg y \<Longrightarrow> f_nonneg (f_add x y)"
  by (induction x y rule: f_add.induct) auto

lemma f_mul_nonneg: "f_nonneg x \<Longrightarrow> 0 < q \<Longrightarrow> f_nonneg (f_mul x (Fin q))"
  by (cases x) (auto simp: f_mul_def Let_def f_inf_def f_zero_of_def)

lemma f_div_nonneg: "f_nonneg x \<Longrightarrow> 0 < q \<Longrightarrow> f_nonneg (f_div x (Fin q))"
  by (cases x) (auto simp: f_div_def Let_def f_inf_def f_zero_of_def)

lemma f_round_nonneg: "f_nonneg x \<Longrightarrow> f_nonneg (f_round x)"
  by (cases x) (auto simp: round_away_def)

lemma f_le_refl: "x \<noteq> NaN \<Longrightarrow> f_le x x"
  by (cases x) (auto simp: f_le_def f_eq_def)

lemma f_eq_refl: "x \<noteq> NaN \<Longrightarrow> f_eq x x"
  by (cases x) (auto simp: f_eq_def)

lemma f_less_irrefl [simp]: "\<not> f_less x x"
  by (cases x) auto

lemma f_nonneg_iff: "f_nonneg x \<longleftrightarrow> x \<noteq> NaN \<and> \<not> f_less x (Fin 0)"
  by (cases x) auto

end
