(* ===== verification/Domain.thy ===== *)
theory Domain
  imports Float64
begin

section \<open>The travel data model\<close>

text \<open>
  The records of internal/domain/travel.go, one Isabelle record per Go struct in the order of
  its fields, each field with a prefix of two letters (\<open>rq\<close> for TravelRequest, \<open>pl\<close> for
  TravelPlan, \<open>dy\<close>, \<open>it\<close>, \<open>bg\<close>, \<open>ci\<close>, \<open>bl\<close>, \<open>pm\<close>, \<open>ph\<close>, \<open>po\<close>, \<open>we\<close>, \<open>ro\<close>). A pointer is an
  \<open>option\<close>, a slice is a list (the code never distinguishes a nil slice from an empty one), and
  a CostStatus is the string it is in Go, where any text can arrive from JSON.
\<close>

record TravelRequest =
  rq_ID :: string
  rq_DepartureCity :: string
  rq_DestinationCity :: string
  rq_Days :: int
  rq_Budget :: float64
  rq_Interests :: "string list"
  rq_Travelers :: int
  rq_DateRange :: string
  rq_TransportMode :: string
  rq_Pace :: string
  rq_WalkingTolerance :: string
  rq_HotelArea :: string
  rq_MustVisit :: "string list"
  rq_Avoid :: "string list"
  rq_TravelerType :: string
  rq_BudgetType :: string
  rq_BudgetIncludes :: "string list"

type_synonym CostStatus = string

definition CostAvailable :: CostStatus where "CostAvailable = ''available''"
definition CostUnavailable :: CostStatus where "CostUnavailable = ''unavailable''"
definition CostNotApplicable :: CostStatus where "CostNotApplicable = ''not_applicable''"

lemmas cost_status_defs = CostAvailable_def CostUnavailable_def CostNotApplicable_def

lemma cost_status_distinct [simp]:
  "CostAvailable \<noteq> CostUnavailable" "CostUnavailable \<noteq> CostAvailable"
  "CostAvailable \<noteq> CostNotApplicable" "CostNotApplicable \<noteq> CostAvailable"
  "CostUnavailable \<noteq> CostNotApplicable" "CostNotApplicable \<noteq> CostUnavailable"
  by (simp_all add: cost_status_defs)

record CostInfo =
  ci_Amount :: "float64 option"
  ci_Currency :: string
  ci_Unit :: string
  ci_Status :: CostStatus
  ci_Source :: string
  ci_Display :: string
  ci_Included :: bool

record BudgetLine =
  bl_Key :: string
  bl_Label :: string
  bl_Amount :: "float64 option"
  bl_Currency :: string
  bl_Status :: CostStatus
  bl_Source :: string
  bl_Display :: string
  bl_Included :: bool

record POIPhoto =
  ph_Title :: string
  ph_URL :: string

record POIMetadata =
  pm_Provider :: string
  pm_ID :: string
  pm_Parent :: string
  pm_TypeCode :: string
  pm_BizType :: string
  pm_Tel :: string
  pm_Postcode :: string
  pm_Website :: string
  pm_Email :: string
  pm_PCode :: string
  pm_PName :: string
  pm_CityCode :: string
  pm_CityName :: string
  pm_ADCode :: string
  pm_ADName :: string
  pm_EntrLocation :: string
  pm_ExitLocation :: string
  pm_NaviPOIID :: string
  pm_BusinessArea :: string
  pm_Tag :: string
  pm_Rating :: "float64 option"
  pm_Photos :: "POIPhoto list"
  pm_Cost :: CostInfo

record TravelItem =
  it_Time :: string
  it_Type :: string
  it_Name :: string
  it_Address :: string
  it_Reason :: string
  it_EstimatedCost :: float64
  it_Cost :: CostInfo
  it_DurationMinutes :: int
  it_POI :: "POIMetadata option"

record TravelDay =
  dy_Day :: int
  dy_Theme :: string
  dy_Items :: "TravelItem list"

record TravelBudget =
  bg_Transport :: float64
  bg_Food :: float64
  bg_Hotel :: float64
  bg_Ticket :: float64
  bg_Total :: float64
  bg_KnownTotal :: float64
  bg_Complete :: bool
  bg_Currency :: string
  bg_Items :: "BudgetLine list"
  bg_Missing :: "string list"

record TravelPlan =
  pl_Title :: string
  pl_Summary :: string
  pl_Days :: "TravelDay list"
  pl_Budget :: TravelBudget
  pl_Warnings :: "string list"

record POIInfo =
  po_Name :: string
  po_City :: string
  po_Category :: string
  po_Address :: string
  po_Location :: string
  po_SuggestedDurationMinutes :: int
  po_EstimatedCost :: float64
  po_Cost :: CostInfo
  po_Metadata :: "POIMetadata option"

record WeatherInfo =
  we_Day :: int
  we_Condition :: string
  we_Temperature :: string
  we_Suggestion :: string

record RouteInfo =
  ro_From :: string
  ro_To :: string
  ro_DurationMinutes :: int
  ro_DistanceMeters :: int
  ro_Mode :: string
  ro_Cost :: CostInfo

subsection \<open>Zero values\<close>

definition zero_cost :: CostInfo where
  "zero_cost = \<lparr>ci_Amount = None, ci_Currency = [], ci_Unit = [], ci_Status = [], ci_Source = [],
     ci_Display = [], ci_Included = False\<rparr>"

definition zero_budget :: TravelBudget where
  "zero_budget = \<lparr>bg_Transport = f_zero, bg_Food = f_zero, bg_Hotel = f_zero, bg_Ticket = f_zero,
     bg_Total = f_zero, bg_KnownTotal = f_zero, bg_Complete = False, bg_Currency = [], bg_Items = [],
     bg_Missing = []\<rparr>"

definition zero_plan :: TravelPlan where
  "zero_plan = \<lparr>pl_Title = [], pl_Summary = [], pl_Days = [], pl_Budget = zero_budget, pl_Warnings = []\<rparr>"

definition zero_item :: TravelItem where
  "zero_item = \<lparr>it_Time = [], it_Type = [], it_Name = [], it_Address = [], it_Reason = [],
     it_EstimatedCost = f_zero, it_Cost = zero_cost, it_DurationMinutes = 0, it_POI = None\<rparr>"

subsection \<open>The three kinds of cost\<close>

text \<open>The display texts are ``no information'' and ``no fee''.\<close>

definition AvailableCost :: "float64 \<Rightarrow> string \<Rightarrow> string \<Rightarrow> bool \<Rightarrow> CostInfo" where
  "AvailableCost amount cost_unit source included =
     \<lparr>ci_Amount = Some amount, ci_Currency = ''CNY'', ci_Unit = cost_unit, ci_Status = CostAvailable,
      ci_Source = source, ci_Display = [], ci_Included = included\<rparr>"

definition UnavailableCost :: "string \<Rightarrow> string \<Rightarrow> CostInfo" where
  "UnavailableCost cost_unit source =
     \<lparr>ci_Amount = None, ci_Currency = ''CNY'', ci_Unit = cost_unit, ci_Status = CostUnavailable,
      ci_Source = source, ci_Display = utf8 [0x6682, 0x65E0, 0x4FE1, 0x606F], ci_Included = False\<rparr>"

definition NotApplicableCost :: "string \<Rightarrow> string \<Rightarrow> CostInfo" where
  "NotApplicableCost cost_unit source =
     \<lparr>ci_Amount = Some f_zero, ci_Currency = ''CNY'', ci_Unit = cost_unit, ci_Status = CostNotApplicable,
      ci_Source = source, ci_Display = utf8 [0x65E0, 0x9700, 0x8D39, 0x7528], ci_Included = False\<rparr>"

text \<open>
  What the three constructors establish: an amount is missing exactly when the cost is
  unavailable, and only an available cost can be included.
\<close>

definition cost_wf :: "CostInfo \<Rightarrow> bool" where
  "cost_wf c \<longleftrightarrow> ci_Status c \<in> {CostAvailable, CostUnavailable, CostNotApplicable}
     \<and> (ci_Amount c = None \<longleftrightarrow> ci_Status c = CostUnavailable)
     \<and> (ci_Included c \<longrightarrow> ci_Status c = CostAvailable)
     \<and> ci_Currency c = ''CNY''"

lemma cost_wf_constructors [simp]:
  "cost_wf (AvailableCost a u s i)" "cost_wf (UnavailableCost u s)" "cost_wf (NotApplicableCost u s)"
  by (auto simp: cost_wf_def AvailableCost_def UnavailableCost_def NotApplicableCost_def)

lemma AvailableCost_sel [simp]:
  "ci_Amount (AvailableCost a u s i) = Some a" "ci_Status (AvailableCost a u s i) = CostAvailable"
  "ci_Included (AvailableCost a u s i) = i" "ci_Source (AvailableCost a u s i) = s"
  "ci_Unit (AvailableCost a u s i) = u"
  by (simp_all add: AvailableCost_def)

lemma UnavailableCost_sel [simp]:
  "ci_Amount (UnavailableCost u s) = None" "ci_Status (UnavailableCost u s) = CostUnavailable"
  "ci_Included (UnavailableCost u s) = False"
  by (simp_all add: UnavailableCost_def)

lemma NotApplicableCost_sel [simp]:
  "ci_Amount (NotApplicableCost u s) = Some f_zero" "ci_Status (NotApplicableCost u s) = CostNotApplicable"
  "ci_Included (NotApplicableCost u s) = False"
  by (simp_all add: NotApplicableCost_def)

subsection \<open>A sample request\<close>

definition sample_request :: TravelRequest where
  "sample_request = \<lparr>rq_ID = ''t1'', rq_DepartureCity = ''A'', rq_DestinationCity = ''B'', rq_Days = 2,
     rq_Budget = Fin 3000, rq_Interests = [''food''], rq_Travelers = 2, rq_DateRange = [],
     rq_TransportMode = [], rq_Pace = [], rq_WalkingTolerance = [], rq_HotelArea = [], rq_MustVisit = [],
     rq_Avoid = [], rq_TravelerType = [], rq_BudgetType = [], rq_BudgetIncludes = []\<rparr>"

end
