(* ===== verification/Brief.thy ===== *)
theory Brief
  imports Domain
begin

section \<open>Normalisation of a travel brief\<close>

text \<open>
  internal/domain/brief.go: defaults for the optional fields, the legacy enum values mapped to the
  Chinese labels of the product, trimmed and deduplicated lists. The labels are written as code
  points. The main fact is that normalisation is idempotent: the request hash, the planner and
  the evaluator each normalise again what an earlier stage has normalised.
\<close>

subsection \<open>Defaults\<close>

text \<open>``any'', ``balanced'', ``no requirement'', ``total budget''.\<close>

definition DefaultDateRange :: string where "DefaultDateRange = utf8 [0x4EFB, 0x610F]"
definition DefaultTransportMode :: string where "DefaultTransportMode = utf8 [0x4EFB, 0x610F]"
definition DefaultPace :: string where "DefaultPace = utf8 [0x9002, 0x4E2D]"
definition DefaultWalkingTolerance :: string where "DefaultWalkingTolerance = utf8 [0x4EFB, 0x610F]"
definition DefaultHotelArea :: string where "DefaultHotelArea = utf8 [0x4EFB, 0x610F]"
definition DefaultTravelerType :: string where "DefaultTravelerType = utf8 [0x65E0, 0x8981, 0x6C42]"
definition DefaultBudgetType :: string where "DefaultBudgetType = utf8 [0x603B, 0x9884, 0x7B97]"

text \<open>Lodging, food, tickets, city transport.\<close>

definition DefaultBudgetIncludes :: "string list" where
  "DefaultBudgetIncludes =
     [utf8 [0x4F4F, 0x5BBF], utf8 [0x9910, 0x996E], utf8 [0x95E8, 0x7968], utf8 [0x5E02, 0x5185, 0x4EA4, 0x901A]]"

subsection \<open>The enum fields\<close>

text \<open>
  A Go \<open>switch\<close> on a string with a \<open>return\<close> in each case is a table: the first row one of whose
  keys is the value. Every normaliser looks up the lower-cased trimmed value and falls back to the
  trimmed value.
\<close>

type_synonym cases = "(string list \<times> string) list"

definition switch :: "cases \<Rightarrow> string \<Rightarrow> string option" where
  "switch rows v = map_option snd (find (\<lambda>(keys, r). v \<in> set keys) rows)"

definition normalize_enum :: "cases \<Rightarrow> string \<Rightarrow> string" where
  "normalize_enum rows value =
     (case switch rows (ToLower (TrimSpace value)) of
        Some r \<Rightarrow> r
      | None \<Rightarrow> TrimSpace value)"

text \<open>Train, subway, flight or walking, combined with taxi, walking or subway.\<close>

definition transport_cases :: cases where
  "transport_cases =
     [([[], ''any'', utf8 [0x4EFB, 0x610F], utf8 [0x4E0D, 0x9650], utf8 [0x65E0, 0x8981, 0x6C42]], DefaultTransportMode),
      ([''train_taxi'', utf8 [0x9AD8, 0x94C1, 0x20, 0x2B, 0x20, 0x6253, 0x8F66], utf8 [0x9AD8, 0x94C1, 0x2B, 0x6253, 0x8F66]], utf8 [0x9AD8, 0x94C1, 0x20, 0x2B, 0x20, 0x6253, 0x8F66]),
      ([''train_walk'', utf8 [0x9AD8, 0x94C1, 0x20, 0x2B, 0x20, 0x6B65, 0x884C], utf8 [0x9AD8, 0x94C1, 0x2B, 0x6B65, 0x884C]], utf8 [0x9AD8, 0x94C1, 0x20, 0x2B, 0x20, 0x6B65, 0x884C]),
      ([''train_subway'', utf8 [0x9AD8, 0x94C1, 0x20, 0x2B, 0x20, 0x5730, 0x94C1], utf8 [0x9AD8, 0x94C1, 0x2B, 0x5730, 0x94C1]], utf8 [0x9AD8, 0x94C1, 0x20, 0x2B, 0x20, 0x5730, 0x94C1]),
      ([''subway_walk'', utf8 [0x5730, 0x94C1, 0x20, 0x2B, 0x20, 0x6B65, 0x884C], utf8 [0x5730, 0x94C1, 0x2B, 0x6B65, 0x884C]], utf8 [0x5730, 0x94C1, 0x20, 0x2B, 0x20, 0x6B65, 0x884C]),
      ([''subway_taxi'', utf8 [0x5730, 0x94C1, 0x20, 0x2B, 0x20, 0x6253, 0x8F66], utf8 [0x5730, 0x94C1, 0x2B, 0x6253, 0x8F66]], utf8 [0x5730, 0x94C1, 0x20, 0x2B, 0x20, 0x6253, 0x8F66]),
      ([''flight_taxi'', utf8 [0x98DE, 0x673A, 0x20, 0x2B, 0x20, 0x6253, 0x8F66], utf8 [0x98DE, 0x673A, 0x2B, 0x6253, 0x8F66]], utf8 [0x98DE, 0x673A, 0x20, 0x2B, 0x20, 0x6253, 0x8F66]),
      ([''flight_subway'', utf8 [0x98DE, 0x673A, 0x20, 0x2B, 0x20, 0x5730, 0x94C1], utf8 [0x98DE, 0x673A, 0x2B, 0x5730, 0x94C1]], utf8 [0x98DE, 0x673A, 0x20, 0x2B, 0x20, 0x5730, 0x94C1]),
      ([''walk_taxi'', utf8 [0x6B65, 0x884C, 0x20, 0x2B, 0x20, 0x6253, 0x8F66], utf8 [0x6B65, 0x884C, 0x2B, 0x6253, 0x8F66]], utf8 [0x6B65, 0x884C, 0x20, 0x2B, 0x20, 0x6253, 0x8F66])]"

definition NormalizeTransportMode :: "string \<Rightarrow> string" where
  "NormalizeTransportMode value = normalize_enum transport_cases value"

text \<open>The labels ``relaxed'' and ``intensive''.\<close>

definition pace_relaxed :: string where "pace_relaxed = utf8 [0x8F7B, 0x677E]"
definition pace_intensive :: string where "pace_intensive = utf8 [0x7D27, 0x51D1]"

definition pace_cases :: cases where
  "pace_cases =
     [([[], ''balanced'', ''balance'', utf8 [0x9002, 0x4E2D], utf8 [0x5747, 0x8861], utf8 [0x5E73, 0x8861]], DefaultPace),
      ([''relaxed'', utf8 [0x8F7B, 0x677E], utf8 [0x60A0, 0x95F2]], pace_relaxed),
      ([''intensive'', utf8 [0x7D27, 0x51D1], utf8 [0x5145, 0x5B9E]], pace_intensive)]"

definition NormalizePace :: "string \<Rightarrow> string" where
  "NormalizePace value = normalize_enum pace_cases value"

text \<open>The labels ``low'', ``medium'' and ``high''.\<close>

definition walking_low :: string where "walking_low = utf8 [0x4F4E]"

definition walking_cases :: cases where
  "walking_cases =
     [([[], ''any'', utf8 [0x4EFB, 0x610F], utf8 [0x4E0D, 0x9650], utf8 [0x65E0, 0x8981, 0x6C42]], DefaultWalkingTolerance),
      ([''low'', utf8 [0x4F4E], utf8 [0x5C11, 0x8D70, 0x8DEF], utf8 [0x5C11, 0x6B65, 0x884C]], walking_low),
      ([''medium'', utf8 [0x4E2D], utf8 [0x9002, 0x4E2D]], utf8 [0x4E2D]),
      ([''high'', utf8 [0x9AD8], utf8 [0x4E0D, 0x4ECB, 0x610F, 0x591A, 0x8D70]], utf8 [0x9AD8])]"

definition NormalizeWalkingTolerance :: "string \<Rightarrow> string" where
  "NormalizeWalkingTolerance value = normalize_enum walking_cases value"

text \<open>The label ``budget per person''.\<close>

definition budget_per_person :: string where "budget_per_person = utf8 [0x4EBA, 0x5747, 0x9884, 0x7B97]"

definition budget_cases :: cases where
  "budget_cases =
     [([[], ''total'', utf8 [0x603B, 0x9884, 0x7B97]], DefaultBudgetType),
      ([''per_person'', ''per person'', utf8 [0x4EBA, 0x5747], utf8 [0x4EBA, 0x5747, 0x9884, 0x7B97]], budget_per_person)]"

definition NormalizeBudgetType :: "string \<Rightarrow> string" where
  "NormalizeBudgetType value = normalize_enum budget_cases value"

definition IsRelaxedPace :: "string \<Rightarrow> bool" where
  "IsRelaxedPace value \<longleftrightarrow> NormalizePace value = pace_relaxed"

definition IsIntensivePace :: "string \<Rightarrow> bool" where
  "IsIntensivePace value \<longleftrightarrow> NormalizePace value = pace_intensive"

definition IsLowWalkingTolerance :: "string \<Rightarrow> bool" where
  "IsLowWalkingTolerance value \<longleftrightarrow> NormalizeWalkingTolerance value = walking_low"

definition IsBudgetPerPerson :: "string \<Rightarrow> bool" where
  "IsBudgetPerPerson value \<longleftrightarrow> NormalizeBudgetType value = budget_per_person"

subsection \<open>Texts and lists\<close>

definition defaultString :: "string \<Rightarrow> string \<Rightarrow> string" where
  "defaultString value fallback =
     (let value = TrimSpace value in if value = [] then fallback else value)"

text \<open>The loop of \<open>normalizeStringSlice\<close>: trim, skip the empty, keep the first of equal values.\<close>

fun normalize_slice_from :: "string list \<Rightarrow> string list \<Rightarrow> string list" where
  "normalize_slice_from seen [] = []"
| "normalize_slice_from seen (v # vs) =
     (let v = TrimSpace v
      in if v = [] then normalize_slice_from seen vs
         else if v \<in> set seen then normalize_slice_from seen vs
         else v # normalize_slice_from (v # seen) vs)"

definition normalizeStringSlice :: "string list \<Rightarrow> string list" where
  "normalizeStringSlice values = normalize_slice_from [] values"

definition NormalizeTravelBrief :: "TravelRequest \<Rightarrow> TravelRequest" where
  "NormalizeTravelBrief req =
     (let includes = normalizeStringSlice (rq_BudgetIncludes req)
      in req\<lparr>
        rq_DepartureCity := TrimSpace (rq_DepartureCity req),
        rq_DestinationCity := TrimSpace (rq_DestinationCity req),
        rq_Interests := normalizeStringSlice (rq_Interests req),
        rq_DateRange := defaultString (rq_DateRange req) DefaultDateRange,
        rq_TransportMode := NormalizeTransportMode (rq_TransportMode req),
        rq_Pace := NormalizePace (rq_Pace req),
        rq_WalkingTolerance := NormalizeWalkingTolerance (rq_WalkingTolerance req),
        rq_HotelArea := defaultString (rq_HotelArea req) DefaultHotelArea,
        rq_MustVisit := normalizeStringSlice (rq_MustVisit req),
        rq_Avoid := normalizeStringSlice (rq_Avoid req),
        rq_TravelerType := defaultString (rq_TravelerType req) DefaultTravelerType,
        rq_BudgetType := NormalizeBudgetType (rq_BudgetType req),
        rq_BudgetIncludes := (if includes = [] then DefaultBudgetIncludes else includes)\<rparr>)"

subsection \<open>Normalising twice\<close>

lemma normalize_slice_from_eq:
  "normalize_slice_from seen vs = uniq_from seen (filter (\<lambda>v. v \<noteq> []) (map TrimSpace vs))"
  by (induction vs arbitrary: seen) (auto simp: Let_def)

lemma normalizeStringSlice_eq:
  "normalizeStringSlice vs = uniq (filter (\<lambda>v. v \<noteq> []) (map TrimSpace vs))"
  by (simp add: normalizeStringSlice_def normalize_slice_from_eq)

text \<open>Lists that are already clean.\<close>

definition clean_slice :: "string list \<Rightarrow> bool" where
  "clean_slice vs \<longleftrightarrow> distinct vs \<and> (\<forall>v \<in> set vs. v \<noteq> [] \<and> TrimSpace v = v)"

lemma normalizeStringSlice_clean [simp]: "clean_slice (normalizeStringSlice vs)"
  by (auto simp: clean_slice_def normalizeStringSlice_eq)

lemma normalizeStringSlice_id: "clean_slice vs \<Longrightarrow> normalizeStringSlice vs = vs"
proof -
  assume c: "clean_slice vs"
  then have "map TrimSpace vs = vs" by (auto simp: clean_slice_def intro: map_idI)
  moreover have "filter (\<lambda>v. v \<noteq> []) vs = vs" using c by (auto simp: clean_slice_def filter_id_conv)
  ultimately show ?thesis using c by (simp add: normalizeStringSlice_eq clean_slice_def)
qed

lemma normalizeStringSlice_idem [simp]:
  "normalizeStringSlice (normalizeStringSlice vs) = normalizeStringSlice vs"
  by (simp add: normalizeStringSlice_id)

lemma set_normalizeStringSlice:
  "set (normalizeStringSlice vs) = TrimSpace ` set vs - {[]}"
  by (auto simp: normalizeStringSlice_eq)

text \<open>Rows whose label is itself looked up to the label.\<close>

definition stable_rows :: "cases \<Rightarrow> bool" where
  "stable_rows rows \<longleftrightarrow> list_all (\<lambda>(keys, r). switch rows (ToLower (TrimSpace r)) = Some r) rows"

lemma switch_mem: "switch rows v = Some r \<Longrightarrow> \<exists>keys. (keys, r) \<in> set rows"
  by (auto simp: switch_def find_Some_iff) (metis nth_mem)

lemma normalize_enum_idem:
  assumes "stable_rows rows"
  shows "normalize_enum rows (normalize_enum rows v) = normalize_enum rows v"
proof (cases "switch rows (ToLower (TrimSpace v))")
  case None
  then show ?thesis by (simp add: normalize_enum_def)
next
  case (Some r)
  then obtain keys where "(keys, r) \<in> set rows" by (blast dest: switch_mem)
  then have "switch rows (ToLower (TrimSpace r)) = Some r"
    using assms by (auto simp: stable_rows_def list_all_iff)
  with Some show ?thesis by (simp add: normalize_enum_def)
qed

lemma stable_tables [simp]:
  "stable_rows transport_cases" "stable_rows pace_cases" "stable_rows walking_cases"
  "stable_rows budget_cases"
  by (code_simp, code_simp, code_simp, code_simp)

lemma enum_idem [simp]:
  "NormalizeTransportMode (NormalizeTransportMode v) = NormalizeTransportMode v"
  "NormalizePace (NormalizePace v) = NormalizePace v"
  "NormalizeWalkingTolerance (NormalizeWalkingTolerance v) = NormalizeWalkingTolerance v"
  "NormalizeBudgetType (NormalizeBudgetType v) = NormalizeBudgetType v"
  by (simp_all add: NormalizeTransportMode_def NormalizePace_def NormalizeWalkingTolerance_def
      NormalizeBudgetType_def normalize_enum_idem)

lemma default_texts [simp]:
  "TrimSpace DefaultDateRange = DefaultDateRange" "DefaultDateRange \<noteq> []"
  "TrimSpace DefaultHotelArea = DefaultHotelArea" "DefaultHotelArea \<noteq> []"
  "TrimSpace DefaultTravelerType = DefaultTravelerType" "DefaultTravelerType \<noteq> []"
  by (code_simp, code_simp, code_simp, code_simp, code_simp, code_simp)

lemma DefaultBudgetIncludes_clean [simp]: "clean_slice DefaultBudgetIncludes"
  by code_simp

lemma DefaultBudgetIncludes_ne [simp]: "DefaultBudgetIncludes \<noteq> []"
  by (simp add: DefaultBudgetIncludes_def)

lemma defaultString_idem:
  "TrimSpace d = d \<Longrightarrow> d \<noteq> [] \<Longrightarrow> defaultString (defaultString v d) d = defaultString v d"
  by (simp add: defaultString_def Let_def)

lemma normalized_includes [simp]:
  "normalizeStringSlice DefaultBudgetIncludes = DefaultBudgetIncludes"
  by (simp add: normalizeStringSlice_id)

lemma rq_NormalizeTravelBrief [simp]:
  "rq_ID (NormalizeTravelBrief r) = rq_ID r"
  "rq_Days (NormalizeTravelBrief r) = rq_Days r"
  "rq_Budget (NormalizeTravelBrief r) = rq_Budget r"
  "rq_Travelers (NormalizeTravelBrief r) = rq_Travelers r"
  "rq_DepartureCity (NormalizeTravelBrief r) = TrimSpace (rq_DepartureCity r)"
  "rq_DestinationCity (NormalizeTravelBrief r) = TrimSpace (rq_DestinationCity r)"
  "rq_Pace (NormalizeTravelBrief r) = NormalizePace (rq_Pace r)"
  "rq_WalkingTolerance (NormalizeTravelBrief r) = NormalizeWalkingTolerance (rq_WalkingTolerance r)"
  "rq_BudgetType (NormalizeTravelBrief r) = NormalizeBudgetType (rq_BudgetType r)"
  "rq_TransportMode (NormalizeTravelBrief r) = NormalizeTransportMode (rq_TransportMode r)"
  "rq_Interests (NormalizeTravelBrief r) = normalizeStringSlice (rq_Interests r)"
  "rq_MustVisit (NormalizeTravelBrief r) = normalizeStringSlice (rq_MustVisit r)"
  "rq_Avoid (NormalizeTravelBrief r) = normalizeStringSlice (rq_Avoid r)"
  by (simp_all add: NormalizeTravelBrief_def Let_def)

lemma pace_predicates_normalized [simp]:
  "IsRelaxedPace (NormalizePace v) = IsRelaxedPace v"
  "IsIntensivePace (NormalizePace v) = IsIntensivePace v"
  "IsLowWalkingTolerance (NormalizeWalkingTolerance v) = IsLowWalkingTolerance v"
  "IsBudgetPerPerson (NormalizeBudgetType v) = IsBudgetPerPerson v"
  by (simp_all add: IsRelaxedPace_def IsIntensivePace_def IsLowWalkingTolerance_def IsBudgetPerPerson_def)

lemma pace_exclusive: "\<not> (IsRelaxedPace v \<and> IsIntensivePace v)"
proof -
  have "pace_relaxed \<noteq> pace_intensive" by code_simp
  then show ?thesis by (auto simp: IsRelaxedPace_def IsIntensivePace_def)
qed

text \<open>
  \<open>NormalizeTravelBrief\<close> is idempotent on every request, whatever text its fields hold: the
  labels it maps to are mapped to themselves, its defaults survive trimming, and its lists are
  already clean. So the request hash, the planner, the pipeline and the evaluator, which each
  normalise what they get, agree on one normal form.
\<close>

theorem NormalizeTravelBrief_idem:
  "NormalizeTravelBrief (NormalizeTravelBrief req) = NormalizeTravelBrief req"
  by (simp add: NormalizeTravelBrief_def [of "NormalizeTravelBrief req"])
    (simp add: NormalizeTravelBrief_def Let_def defaultString_idem)

end
