(* ===== verification/Tasks.thy ===== *)
theory Tasks
  imports Brief
begin

section \<open>Tasks and task stores\<close>

text \<open>
  internal/travel/task.go and task_store.go: the task record, the \<open>TaskStore\<close> interface and the
  in-memory store. A Go interface is a record of functions over the state type of its
  implementation, so that the cached store and the service can be written once for every store.
  The locale \<open>task_store\<close> states what a client may rely on, and the in-memory store is an
  interpretation of it.
\<close>

datatype TaskStatus =
  TaskPending | TaskQueued | TaskRunning | TaskSucceeded | TaskFailed | TaskRetrying | TaskCanceled
| TaskDeadLetter

instantiation TaskStatus :: linorder
begin

fun status_rank :: "TaskStatus \<Rightarrow> nat" where
  "status_rank TaskPending = 0"
| "status_rank TaskQueued = 1"
| "status_rank TaskRunning = 2"
| "status_rank TaskRetrying = 3"
| "status_rank TaskSucceeded = 4"
| "status_rank TaskFailed = 5"
| "status_rank TaskCanceled = 6"
| "status_rank TaskDeadLetter = 7"

definition less_eq_TaskStatus :: "TaskStatus \<Rightarrow> TaskStatus \<Rightarrow> bool" where
  "less_eq_TaskStatus a b \<longleftrightarrow> status_rank a \<le> status_rank b"

definition less_TaskStatus :: "TaskStatus \<Rightarrow> TaskStatus \<Rightarrow> bool" where
  "less_TaskStatus a b \<longleftrightarrow> status_rank a < status_rank b"

instance
proof
  fix a b :: TaskStatus
  assume "a \<le> b" "b \<le> a"
  then show "a = b"
    by (cases a; cases b; simp add: less_eq_TaskStatus_def)
qed (auto simp: less_eq_TaskStatus_def less_TaskStatus_def)

end

text \<open>A status is its text in the code.\<close>

definition status_text :: "TaskStatus \<Rightarrow> string" where
  "status_text s = (case s of
     TaskPending \<Rightarrow> ''pending'' | TaskQueued \<Rightarrow> ''queued'' | TaskRunning \<Rightarrow> ''running'' | TaskSucceeded \<Rightarrow> ''succeeded''
   | TaskFailed \<Rightarrow> ''failed'' | TaskRetrying \<Rightarrow> ''retrying'' | TaskCanceled \<Rightarrow> ''canceled'' | TaskDeadLetter \<Rightarrow> ''dead_letter'')"

record Task =
  tk_ID :: string
  tk_RequestID :: string
  tk_UserID :: string
  tk_RequestHash :: string
  tk_Status :: TaskStatus
  tk_PlannerType :: string
  tk_Request :: TravelRequest
  tk_TestMode :: bool
  tk_AgentMode :: string
  tk_Attempt :: int
  tk_Plan :: "TravelPlan option"
  tk_Error :: string
  tk_CreatedAt :: time
  tk_UpdatedAt :: time

text \<open>The errors of package travel; \<open>ErrBackend\<close> is an error of a store that is not modelled.\<close>

datatype travel_err =
  ErrTaskNotFound
| ErrRateLimited
| ErrInvalidRequest string
| ErrCtx string
| ErrNotInitialized
| ErrMarshal
| ErrBackend string

definition isTerminalTaskStatus :: "TaskStatus \<Rightarrow> bool" where
  "isTerminalTaskStatus status \<longleftrightarrow>
     (case status of
        TaskSucceeded \<Rightarrow> True | TaskFailed \<Rightarrow> True | TaskCanceled \<Rightarrow> True | TaskDeadLetter \<Rightarrow> True
      | _ \<Rightarrow> False)"

abbreviation terminal :: "Task \<Rightarrow> bool" where
  "terminal t \<equiv> isTerminalTaskStatus (tk_Status t)"

subsection \<open>The interface\<close>

text \<open>
  An operation gets the request context and the instant of the call, and returns its result with
  the next state. \<open>FindByHash\<close> returns \<open>(Task{}, false, nil)\<close> as \<open>Inr None\<close>.
\<close>

record 's TaskStore =
  ts_Create :: "ctx \<Rightarrow> time \<Rightarrow> Task \<Rightarrow> 's \<Rightarrow> (travel_err + unit) \<times> 's"
  ts_Update :: "ctx \<Rightarrow> time \<Rightarrow> Task \<Rightarrow> 's \<Rightarrow> (travel_err + unit) \<times> 's"
  ts_Get :: "ctx \<Rightarrow> time \<Rightarrow> string \<Rightarrow> 's \<Rightarrow> (travel_err + Task) \<times> 's"
  ts_FindByHash :: "ctx \<Rightarrow> time \<Rightarrow> string \<Rightarrow> 's \<Rightarrow> (travel_err + Task option) \<times> 's"

subsection \<open>The in-memory store\<close>

record MemoryTaskStore =
  mt_tasks :: "string \<rightharpoonup> Task"
  mt_hashToID :: "string \<rightharpoonup> string"

definition NewMemoryTaskStore :: MemoryTaskStore where
  "NewMemoryTaskStore = \<lparr>mt_tasks = Map.empty, mt_hashToID = Map.empty\<rparr>"

definition mt_put :: "Task \<Rightarrow> MemoryTaskStore \<Rightarrow> MemoryTaskStore" where
  "mt_put task s = s\<lparr>mt_tasks := (mt_tasks s)(tk_ID task \<mapsto> task),
                      mt_hashToID := (mt_hashToID s)(tk_RequestHash task \<mapsto> tk_ID task)\<rparr>"

definition MemoryTaskStore_Create ::
  "ctx \<Rightarrow> Task \<Rightarrow> MemoryTaskStore \<Rightarrow> (travel_err + unit) \<times> MemoryTaskStore" where
  "MemoryTaskStore_Create c task s =
     (case ctx_Err c of
        Some e \<Rightarrow> (Inl (ErrCtx e), s)
      | None \<Rightarrow> (Inr (), mt_put task s))"

definition MemoryTaskStore_Update ::
  "ctx \<Rightarrow> Task \<Rightarrow> MemoryTaskStore \<Rightarrow> (travel_err + unit) \<times> MemoryTaskStore" where
  "MemoryTaskStore_Update c task s =
     (case ctx_Err c of
        Some e \<Rightarrow> (Inl (ErrCtx e), s)
      | None \<Rightarrow>
          if mt_tasks s (tk_ID task) = None then (Inl ErrTaskNotFound, s)
          else (Inr (), mt_put task s))"

definition MemoryTaskStore_Get :: "ctx \<Rightarrow> string \<Rightarrow> MemoryTaskStore \<Rightarrow> travel_err + Task" where
  "MemoryTaskStore_Get c i s =
     (case ctx_Err c of
        Some e \<Rightarrow> Inl (ErrCtx e)
      | None \<Rightarrow>
          (case mt_tasks s i of
             None \<Rightarrow> Inl ErrTaskNotFound
           | Some task \<Rightarrow> Inr task))"

definition MemoryTaskStore_FindByHash ::
  "ctx \<Rightarrow> string \<Rightarrow> MemoryTaskStore \<Rightarrow> travel_err + Task option" where
  "MemoryTaskStore_FindByHash c requestHash s =
     (case ctx_Err c of
        Some e \<Rightarrow> Inl (ErrCtx e)
      | None \<Rightarrow>
          (case mt_hashToID s requestHash of
             None \<Rightarrow> Inr None
           | Some i \<Rightarrow> Inr (mt_tasks s i)))"

definition MemoryTaskStore_ops :: "MemoryTaskStore TaskStore" where
  "MemoryTaskStore_ops =
     \<lparr>ts_Create = (\<lambda>c now task s. MemoryTaskStore_Create c task s),
      ts_Update = (\<lambda>c now task s. MemoryTaskStore_Update c task s),
      ts_Get = (\<lambda>c now i s. (MemoryTaskStore_Get c i s, s)),
      ts_FindByHash = (\<lambda>c now h s. (MemoryTaskStore_FindByHash c h s, s))\<rparr>"

text \<open>Both maps agree: a hash leads to a stored task of that hash, and every stored task has its hash indexed.\<close>

definition mt_wf :: "MemoryTaskStore \<Rightarrow> bool" where
  "mt_wf s \<longleftrightarrow>
     (\<forall>h i. mt_hashToID s h = Some i \<longrightarrow> (\<exists>t. mt_tasks s i = Some t \<and> tk_RequestHash t = h))
   \<and> (\<forall>i t. mt_tasks s i = Some t \<longrightarrow> tk_ID t = i \<and> mt_hashToID s (tk_RequestHash t) \<noteq> None)"

lemma mt_wf_new [simp]: "mt_wf NewMemoryTaskStore"
  by (simp add: mt_wf_def NewMemoryTaskStore_def)

lemma mt_tasks_put [upd]: "mt_tasks (mt_put t s) = (mt_tasks s)(tk_ID t \<mapsto> t)"
  by (simp add: mt_put_def)

lemma mt_wf_put:
  assumes "mt_wf s" "\<And>t0. mt_tasks s (tk_ID t) = Some t0 \<Longrightarrow> tk_RequestHash t0 = tk_RequestHash t"
  shows "mt_wf (mt_put t s)"
  using assms unfolding mt_wf_def mt_put_def by (auto split: if_splits) metis

subsection \<open>What a client relies on\<close>

text \<open>
  \<open>tasks\<close> is the content of a store and \<open>sinv\<close> its invariant. The obligations of a client are
  the ones the service meets: it creates tasks under fresh ids, and it updates a task without
  changing its hash and without taking it back from a terminal status.
\<close>

definition may_follow :: "Task \<Rightarrow> Task \<Rightarrow> bool" where
  "may_follow t0 t \<longleftrightarrow> tk_RequestHash t = tk_RequestHash t0 \<and> (terminal t0 \<longrightarrow> terminal t)"

locale task_store =
  fixes S :: "'s TaskStore"
    and sinv :: "'s \<Rightarrow> bool"
    and tasks :: "'s \<Rightarrow> string \<rightharpoonup> Task"
  assumes ids: "sinv s \<Longrightarrow> tasks s i = Some t \<Longrightarrow> tk_ID t = i"
    and create: "sinv s \<Longrightarrow> live c \<Longrightarrow> tasks s (tk_ID t) = None \<Longrightarrow>
      \<exists>s'. ts_Create S c now t s = (Inr (), s') \<and> sinv s' \<and> tasks s' = (tasks s)(tk_ID t \<mapsto> t)"
    and update: "sinv s \<Longrightarrow> live c \<Longrightarrow> tasks s (tk_ID t) = Some t0 \<Longrightarrow> may_follow t0 t \<Longrightarrow>
      \<exists>s'. ts_Update S c now t s = (Inr (), s') \<and> sinv s' \<and> tasks s' = (tasks s)(tk_ID t \<mapsto> t)"
    and update_missing: "sinv s \<Longrightarrow> live c \<Longrightarrow> tasks s (tk_ID t) = None \<Longrightarrow>
      \<exists>s'. ts_Update S c now t s = (Inl ErrTaskNotFound, s') \<and> sinv s' \<and> tasks s' = tasks s"
    and get: "sinv s \<Longrightarrow> live c \<Longrightarrow>
      \<exists>s'. ts_Get S c now i s = (case tasks s i of None \<Rightarrow> Inl ErrTaskNotFound | Some t \<Rightarrow> Inr t, s')
           \<and> sinv s' \<and> tasks s' = tasks s"
    and find_by_hash: "sinv s \<Longrightarrow> live c \<Longrightarrow>
      \<exists>r s'. ts_FindByHash S c now h s = (Inr r, s') \<and> sinv s' \<and> tasks s' = tasks s
           \<and> (case r of
                None \<Rightarrow> \<forall>i t. tasks s i = Some t \<longrightarrow> tk_RequestHash t \<noteq> h
              | Some t \<Rightarrow> tasks s (tk_ID t) = Some t \<and> tk_RequestHash t = h)"
begin

text \<open>A task that was stored is found by its id, and its hash finds a task of that hash.\<close>

lemma create_get:
  assumes "sinv s" "live c" "tasks s (tk_ID t) = None" "ts_Create S c now t s = (r, s')"
  shows "fst (ts_Get S c now' (tk_ID t) s') = Inr t"
  using create [OF assms(1-3), of now] get [of s' c now' "tk_ID t"] assms by auto

lemma create_find:
  assumes "sinv s" "live c" "tasks s (tk_ID t) = None" "ts_Create S c now t s = (r, s')"
  shows "\<exists>u. fst (ts_FindByHash S c now' (tk_RequestHash t) s') = Inr (Some u)
           \<and> tk_RequestHash u = tk_RequestHash t"
proof -
  have s': "sinv s'" "tasks s' (tk_ID t) = Some t" using create [OF assms(1-3), of now] assms(4) by auto
  obtain q s'' where q: "ts_FindByHash S c now' (tk_RequestHash t) s' = (Inr q, s'')"
    "case q of None \<Rightarrow> \<forall>i u. tasks s' i = Some u \<longrightarrow> tk_RequestHash u \<noteq> tk_RequestHash t
      | Some u \<Rightarrow> tasks s' (tk_ID u) = Some u \<and> tk_RequestHash u = tk_RequestHash t"
    using find_by_hash [OF s'(1) assms(2)] by blast
  show ?thesis using q s'(2) by (cases q) auto
qed

lemma update_get:
  assumes "sinv s" "live c" "tasks s (tk_ID t) = Some t0" "may_follow t0 t"
    "ts_Update S c now t s = (r, s')"
  shows "fst (ts_Get S c now' (tk_ID t) s') = Inr t"
  using update [OF assms(1-4), of now] get [of s' c now' "tk_ID t"] assms by auto

end

lemma MemoryTaskStore_live [upd]:
  "live c \<Longrightarrow> MemoryTaskStore_Create c t s = (Inr (), mt_put t s)"
  "live c \<Longrightarrow> MemoryTaskStore_Update c t s =
     (if mt_tasks s (tk_ID t) = None then (Inl ErrTaskNotFound, s) else (Inr (), mt_put t s))"
  "live c \<Longrightarrow> MemoryTaskStore_Get c i s =
     (case mt_tasks s i of None \<Rightarrow> Inl ErrTaskNotFound | Some t \<Rightarrow> Inr t)"
  by (simp_all add: MemoryTaskStore_Create_def MemoryTaskStore_Update_def MemoryTaskStore_Get_def)

lemma MemoryTaskStore_find:
  assumes "mt_wf s" "live c"
  shows "\<exists>r. MemoryTaskStore_FindByHash c h s = Inr r
    \<and> (case r of
         None \<Rightarrow> \<forall>i t. mt_tasks s i = Some t \<longrightarrow> tk_RequestHash t \<noteq> h
       | Some t \<Rightarrow> mt_tasks s (tk_ID t) = Some t \<and> tk_RequestHash t = h)"
proof (cases "mt_hashToID s h")
  case None
  then have "\<forall>i t. mt_tasks s i = Some t \<longrightarrow> tk_RequestHash t \<noteq> h"
    using assms(1) unfolding mt_wf_def by (metis option.distinct(1))
  with None show ?thesis using assms by (simp add: MemoryTaskStore_FindByHash_def)
next
  case (Some i)
  then obtain t where "mt_tasks s i = Some t" "tk_RequestHash t = h" "tk_ID t = i"
    using assms unfolding mt_wf_def by blast
  then show ?thesis using assms Some by (auto simp: MemoryTaskStore_FindByHash_def)
qed

interpretation memory_store: task_store MemoryTaskStore_ops mt_wf mt_tasks
proof (unfold_locales, goal_cases)
  case 1
  then show ?case by (simp add: mt_wf_def)
next
  case (2 s c t)
  then have "mt_wf (mt_put t s)" by (intro mt_wf_put) auto
  with 2 show ?case by (simp add: MemoryTaskStore_ops_def upd)
next
  case (3 s c t t0)
  then have "mt_wf (mt_put t s)" by (intro mt_wf_put) (auto simp: may_follow_def)
  with 3 show ?case by (simp add: MemoryTaskStore_ops_def upd)
next
  case 4
  then show ?case by (simp add: MemoryTaskStore_ops_def upd)
next
  case 5
  then show ?case by (simp add: MemoryTaskStore_ops_def upd)
next
  case (6 s c now h)
  then show ?case using MemoryTaskStore_find [of s c h] by (auto simp: MemoryTaskStore_ops_def)
qed

subsection \<open>Sequences of calls\<close>

text \<open>
  What a client observes of a store: the answers to a sequence of calls. Of a lookup by hash it
  observes whether a task was found, because two tasks may share a hash. A sequence is admissible
  for a content when every call meets the client's obligations.
\<close>

datatype store_call =
  CallCreate time Task
| CallUpdate time Task
| CallGet time string
| CallFind time string

datatype store_answer =
  AnsDone "travel_err + unit"
| AnsTask "travel_err + Task"
| AnsFound "travel_err + bool"

fun store_step :: "'s TaskStore \<Rightarrow> ctx \<Rightarrow> store_call \<Rightarrow> 's \<Rightarrow> store_answer \<times> 's" where
  "store_step S c (CallCreate now t) s = (case ts_Create S c now t s of (r, s') \<Rightarrow> (AnsDone r, s'))"
| "store_step S c (CallUpdate now t) s = (case ts_Update S c now t s of (r, s') \<Rightarrow> (AnsDone r, s'))"
| "store_step S c (CallGet now i) s = (case ts_Get S c now i s of (r, s') \<Rightarrow> (AnsTask r, s'))"
| "store_step S c (CallFind now h) s =
     (case ts_FindByHash S c now h s of (r, s') \<Rightarrow> (AnsFound (map_sum id (\<lambda>t. t \<noteq> None) r), s'))"

fun store_answers :: "'s TaskStore \<Rightarrow> ctx \<Rightarrow> store_call list \<Rightarrow> 's \<Rightarrow> store_answer list" where
  "store_answers S c [] s = []"
| "store_answers S c (call # calls) s =
     (case store_step S c call s of (a, s') \<Rightarrow> a # store_answers S c calls s')"

fun content_after :: "store_call \<Rightarrow> (string \<rightharpoonup> Task) \<Rightarrow> (string \<rightharpoonup> Task)" where
  "content_after (CallCreate now t) m = m(tk_ID t \<mapsto> t)"
| "content_after (CallUpdate now t) m = (if m (tk_ID t) = None then m else m(tk_ID t \<mapsto> t))"
| "content_after (CallGet now i) m = m"
| "content_after (CallFind now h) m = m"

fun call_admissible :: "store_call \<Rightarrow> (string \<rightharpoonup> Task) \<Rightarrow> bool" where
  "call_admissible (CallCreate now t) m \<longleftrightarrow> m (tk_ID t) = None"
| "call_admissible (CallUpdate now t) m \<longleftrightarrow> (case m (tk_ID t) of None \<Rightarrow> True | Some t0 \<Rightarrow> may_follow t0 t)"
| "call_admissible (CallGet now i) m \<longleftrightarrow> True"
| "call_admissible (CallFind now h) m \<longleftrightarrow> True"

fun admissible :: "store_call list \<Rightarrow> (string \<rightharpoonup> Task) \<Rightarrow> bool" where
  "admissible [] m = True"
| "admissible (call # calls) m \<longleftrightarrow> call_admissible call m \<and> admissible calls (content_after call m)"

text \<open>The specification of the answer to one call.\<close>

fun answer_spec :: "store_call \<Rightarrow> (string \<rightharpoonup> Task) \<Rightarrow> store_answer" where
  "answer_spec (CallCreate now t) m = AnsDone (Inr ())"
| "answer_spec (CallUpdate now t) m = AnsDone (if m (tk_ID t) = None then Inl ErrTaskNotFound else Inr ())"
| "answer_spec (CallGet now i) m = AnsTask (case m i of None \<Rightarrow> Inl ErrTaskNotFound | Some t \<Rightarrow> Inr t)"
| "answer_spec (CallFind now h) m = AnsFound (Inr (\<exists>t \<in> ran m. tk_RequestHash t = h))"

fun answers_spec :: "store_call list \<Rightarrow> (string \<rightharpoonup> Task) \<Rightarrow> store_answer list" where
  "answers_spec [] m = []"
| "answers_spec (call # calls) m = answer_spec call m # answers_spec calls (content_after call m)"

context task_store
begin

lemma step_refines:
  assumes "sinv s" "live c" "call_admissible call (tasks s)"
  shows "\<exists>s'. store_step S c call s = (answer_spec call (tasks s), s') \<and> sinv s'
     \<and> tasks s' = content_after call (tasks s)"
proof (cases call)
  case (CallCreate now t)
  then show ?thesis using create [OF assms(1,2), of t now] assms(3) by auto
next
  case (CallUpdate now t)
  show ?thesis
  proof (cases "tasks s (tk_ID t)")
    case None
    then show ?thesis using update_missing [OF assms(1,2), of t now] CallUpdate by auto
  next
    case (Some t0)
    then show ?thesis using update [OF assms(1,2), of t t0 now] CallUpdate assms(3) by auto
  qed
next
  case (CallGet now i)
  then show ?thesis using get [OF assms(1,2), of now i] by auto
next
  case (CallFind now h)
  obtain r s' where r: "ts_FindByHash S c now h s = (Inr r, s')" "sinv s'" "tasks s' = tasks s"
    "case r of None \<Rightarrow> \<forall>i t. tasks s i = Some t \<longrightarrow> tk_RequestHash t \<noteq> h
      | Some t \<Rightarrow> tasks s (tk_ID t) = Some t \<and> tk_RequestHash t = h"
    using find_by_hash [OF assms(1,2)] by blast
  then have "(r \<noteq> None) = (\<exists>t \<in> ran (tasks s). tk_RequestHash t = h)"
    by (cases r) (auto simp: ran_def)
  then show ?thesis using CallFind r by simp
qed

lemma answers_refine:
  "sinv s \<Longrightarrow> live c \<Longrightarrow> admissible calls (tasks s) \<Longrightarrow> store_answers S c calls s = answers_spec calls (tasks s)"
proof (induction calls arbitrary: s)
  case (Cons call calls)
  obtain s' where "store_step S c call s = (answer_spec call (tasks s), s')" "sinv s'"
    "tasks s' = content_after call (tasks s)"
    using step_refines [OF Cons.prems(1,2), of call] Cons.prems(3) by auto
  then show ?case using Cons by simp
qed simp

end

end
