(* ===== verification/TaskCache.thy ===== *)
theory TaskCache
  imports Tasks
begin

section \<open>The cached task store\<close>

text \<open>
  internal/travel/task_cache.go: a store that answers from a cache when it holds a finished task
  and otherwise asks its authority. The cache is an interface too; \<open>MemoryTaskCache\<close> implements
  it with expiring entries. The refinement result is that, over any authority satisfying
  \<open>task_store\<close> and any cache satisfying \<open>task_cache\<close>, the cached store satisfies \<open>task_store\<close>
  with the content of its authority: no stale entry is ever answered.
  The instants one call reads from the clock are taken to be equal.
\<close>

record 'c TaskCache =
  tc_SetRequestHash :: "ctx \<Rightarrow> time \<Rightarrow> string \<Rightarrow> string \<Rightarrow> 'c \<Rightarrow> (travel_err + unit) \<times> 'c"
  tc_GetTaskIDByHash :: "ctx \<Rightarrow> time \<Rightarrow> string \<Rightarrow> 'c \<Rightarrow> travel_err + string option"
  tc_SetTask :: "ctx \<Rightarrow> time \<Rightarrow> Task \<Rightarrow> 'c \<Rightarrow> (travel_err + unit) \<times> 'c"
  tc_GetTask :: "ctx \<Rightarrow> time \<Rightarrow> string \<Rightarrow> 'c \<Rightarrow> travel_err + Task option"

subsection \<open>CachedTaskStore\<close>

text \<open>
  The cache is \<open>None\<close> when the store was built with a nil cache. A failing cache write is
  logged and ignored.
\<close>

definition cacheTask :: "'c TaskCache option \<Rightarrow> ctx \<Rightarrow> time \<Rightarrow> Task \<Rightarrow> 'c \<Rightarrow> 'c" where
  "cacheTask cache c now task x =
     (case cache of
        None \<Rightarrow> x
      | Some C \<Rightarrow>
          (let x1 = (if tk_RequestHash task \<noteq> []
                     then snd (tc_SetRequestHash C c now (tk_RequestHash task) (tk_ID task) x) else x)
           in if isTerminalTaskStatus (tk_Status task) then snd (tc_SetTask C c now task x1) else x1))"

definition CachedTaskStore_Create ::
  "'s TaskStore \<Rightarrow> 'c TaskCache option \<Rightarrow> ctx \<Rightarrow> time \<Rightarrow> Task \<Rightarrow> 's \<times> 'c
     \<Rightarrow> (travel_err + unit) \<times> 's \<times> 'c" where
  "CachedTaskStore_Create authority cache c now task = (\<lambda>(s, x).
     case ts_Create authority c now task s of
       (Inl e, s') \<Rightarrow> (Inl e, s', x)
     | (Inr _, s') \<Rightarrow> (Inr (), s', cacheTask cache c now task x))"

definition CachedTaskStore_Update ::
  "'s TaskStore \<Rightarrow> 'c TaskCache option \<Rightarrow> ctx \<Rightarrow> time \<Rightarrow> Task \<Rightarrow> 's \<times> 'c
     \<Rightarrow> (travel_err + unit) \<times> 's \<times> 'c" where
  "CachedTaskStore_Update authority cache c now task = (\<lambda>(s, x).
     case ts_Update authority c now task s of
       (Inl e, s') \<Rightarrow> (Inl e, s', x)
     | (Inr _, s') \<Rightarrow> (Inr (), s', cacheTask cache c now task x))"

text \<open>What the cache answers for a finished task; a miss, a running task and an error all answer nothing.\<close>

definition cached_terminal :: "'c TaskCache option \<Rightarrow> ctx \<Rightarrow> time \<Rightarrow> string \<Rightarrow> 'c \<Rightarrow> Task option" where
  "cached_terminal cache c now i x =
     (case cache of
        None \<Rightarrow> None
      | Some C \<Rightarrow>
          (case tc_GetTask C c now i x of
             Inr (Some task) \<Rightarrow> if isTerminalTaskStatus (tk_Status task) then Some task else None
           | _ \<Rightarrow> None))"

definition CachedTaskStore_Get ::
  "'s TaskStore \<Rightarrow> 'c TaskCache option \<Rightarrow> ctx \<Rightarrow> time \<Rightarrow> string \<Rightarrow> 's \<times> 'c
     \<Rightarrow> (travel_err + Task) \<times> 's \<times> 'c" where
  "CachedTaskStore_Get authority cache c now i = (\<lambda>(s, x).
     case cached_terminal cache c now i x of
       Some task \<Rightarrow> (Inr task, s, x)
     | None \<Rightarrow>
         (case ts_Get authority c now i s of
            (Inl e, s') \<Rightarrow> (Inl e, s', x)
          | (Inr task, s') \<Rightarrow> (Inr task, s', cacheTask cache c now task x)))"

definition cached_id :: "'c TaskCache option \<Rightarrow> ctx \<Rightarrow> time \<Rightarrow> string \<Rightarrow> 'c \<Rightarrow> string option" where
  "cached_id cache c now requestHash x =
     (case cache of
        None \<Rightarrow> None
      | Some C \<Rightarrow> (case tc_GetTaskIDByHash C c now requestHash x of Inr (Some i) \<Rightarrow> Some i | _ \<Rightarrow> None))"

text \<open>The lookup in the authority that ends \<open>FindByHash\<close>.\<close>

definition authority_FindByHash ::
  "'s TaskStore \<Rightarrow> 'c TaskCache option \<Rightarrow> ctx \<Rightarrow> time \<Rightarrow> string \<Rightarrow> 's \<times> 'c
     \<Rightarrow> (travel_err + Task option) \<times> 's \<times> 'c" where
  "authority_FindByHash authority cache c now requestHash = (\<lambda>(s, x).
     case ts_FindByHash authority c now requestHash s of
       (Inr (Some task), s') \<Rightarrow> (Inr (Some task), s', cacheTask cache c now task x)
     | (r, s') \<Rightarrow> (r, s', x))"

definition CachedTaskStore_FindByHash ::
  "'s TaskStore \<Rightarrow> 'c TaskCache option \<Rightarrow> ctx \<Rightarrow> time \<Rightarrow> string \<Rightarrow> 's \<times> 'c
     \<Rightarrow> (travel_err + Task option) \<times> 's \<times> 'c" where
  "CachedTaskStore_FindByHash authority cache c now requestHash = (\<lambda>(s, x).
     case cached_id cache c now requestHash x of
       Some i \<Rightarrow>
         (case ts_Get authority c now i s of
            (Inr task, s') \<Rightarrow> (Inr (Some task), s', cacheTask cache c now task x)
          | (Inl e, s') \<Rightarrow>
              if e = ErrTaskNotFound then authority_FindByHash authority cache c now requestHash (s', x)
              else (Inl e, s', x))
     | None \<Rightarrow> authority_FindByHash authority cache c now requestHash (s, x))"

definition CachedTaskStore_ops :: "'s TaskStore \<Rightarrow> 'c TaskCache option \<Rightarrow> ('s \<times> 'c) TaskStore" where
  "CachedTaskStore_ops authority cache =
     \<lparr>ts_Create = CachedTaskStore_Create authority cache,
      ts_Update = CachedTaskStore_Update authority cache,
      ts_Get = CachedTaskStore_Get authority cache,
      ts_FindByHash = CachedTaskStore_FindByHash authority cache\<rparr>"

subsection \<open>MemoryTaskCache\<close>

record MemoryTaskCache =
  mc_ttl :: duration
  mc_tasks :: "string \<rightharpoonup> Task \<times> time"
  mc_hashToID :: "string \<rightharpoonup> string \<times> time"

definition NewMemoryTaskCache :: "duration \<Rightarrow> MemoryTaskCache" where
  "NewMemoryTaskCache ttl = \<lparr>mc_ttl = ttl, mc_tasks = Map.empty, mc_hashToID = Map.empty\<rparr>"

definition expiresAt :: "time \<Rightarrow> MemoryTaskCache \<Rightarrow> time" where
  "expiresAt now x = (if mc_ttl x \<le> 0 then time_zero else now + mc_ttl x)"

definition entry_expired :: "time \<Rightarrow> time \<Rightarrow> bool" where
  "entry_expired expires now \<longleftrightarrow> \<not> IsZero expires \<and> expires < now"

definition MemoryTaskCache_SetRequestHash ::
  "ctx \<Rightarrow> time \<Rightarrow> string \<Rightarrow> string \<Rightarrow> MemoryTaskCache \<Rightarrow> (travel_err + unit) \<times> MemoryTaskCache" where
  "MemoryTaskCache_SetRequestHash c now requestHash taskID x =
     (case ctx_Err c of
        Some e \<Rightarrow> (Inl (ErrCtx e), x)
      | None \<Rightarrow>
          if requestHash = [] \<or> taskID = [] then (Inr (), x)
          else (Inr (), x\<lparr>mc_hashToID := (mc_hashToID x)(requestHash \<mapsto> (taskID, expiresAt now x))\<rparr>))"

definition MemoryTaskCache_GetTaskIDByHash ::
  "ctx \<Rightarrow> time \<Rightarrow> string \<Rightarrow> MemoryTaskCache \<Rightarrow> travel_err + string option" where
  "MemoryTaskCache_GetTaskIDByHash c now requestHash x =
     (case ctx_Err c of
        Some e \<Rightarrow> Inl (ErrCtx e)
      | None \<Rightarrow>
          (case mc_hashToID x requestHash of
             None \<Rightarrow> Inr None
           | Some (v, expires) \<Rightarrow> if entry_expired expires now then Inr None else Inr (Some v)))"

definition MemoryTaskCache_SetTask ::
  "ctx \<Rightarrow> time \<Rightarrow> Task \<Rightarrow> MemoryTaskCache \<Rightarrow> (travel_err + unit) \<times> MemoryTaskCache" where
  "MemoryTaskCache_SetTask c now task x =
     (case ctx_Err c of
        Some e \<Rightarrow> (Inl (ErrCtx e), x)
      | None \<Rightarrow>
          if tk_ID task = [] then (Inr (), x)
          else (Inr (), x\<lparr>mc_tasks := (mc_tasks x)(tk_ID task \<mapsto> (task, expiresAt now x))\<rparr>))"

definition MemoryTaskCache_GetTask ::
  "ctx \<Rightarrow> time \<Rightarrow> string \<Rightarrow> MemoryTaskCache \<Rightarrow> travel_err + Task option" where
  "MemoryTaskCache_GetTask c now taskID x =
     (case ctx_Err c of
        Some e \<Rightarrow> Inl (ErrCtx e)
      | None \<Rightarrow>
          (case mc_tasks x taskID of
             None \<Rightarrow> Inr None
           | Some (task, expires) \<Rightarrow> if entry_expired expires now then Inr None else Inr (Some task)))"

definition MemoryTaskCache_ops :: "MemoryTaskCache TaskCache" where
  "MemoryTaskCache_ops =
     \<lparr>tc_SetRequestHash = MemoryTaskCache_SetRequestHash,
      tc_GetTaskIDByHash = MemoryTaskCache_GetTaskIDByHash,
      tc_SetTask = MemoryTaskCache_SetTask,
      tc_GetTask = MemoryTaskCache_GetTask\<rparr>"

subsection \<open>What the cached store relies on\<close>

text \<open>
  A cache may forget, never invent: \<open>held\<close> and \<open>ids\<close> are the entries it may still answer.
  Writing an entry replaces the former one; a write with an empty key is a no-op.
\<close>

locale task_cache =
  fixes C :: "'c TaskCache"
    and held :: "'c \<Rightarrow> string \<rightharpoonup> Task"
    and hids :: "'c \<Rightarrow> string \<rightharpoonup> string"
  assumes get_task: "tc_GetTask C c now i x = Inr (Some t) \<Longrightarrow> held x i = Some t"
    and get_id: "tc_GetTaskIDByHash C c now h x = Inr (Some i) \<Longrightarrow> hids x h = Some i"
    and set_task: "live c \<Longrightarrow> \<exists>x'. tc_SetTask C c now t x = (Inr (), x') \<and> hids x' = hids x
      \<and> (\<forall>k u. held x' k = Some u \<longrightarrow>
             (if tk_ID t \<noteq> [] \<and> k = tk_ID t then u = t else held x k = Some u))"
    and set_hash: "live c \<Longrightarrow> \<exists>x'. tc_SetRequestHash C c now h i x = (Inr (), x') \<and> held x' = held x
      \<and> (\<forall>k v. hids x' k = Some v \<longrightarrow> hids x k = Some v \<or> (k = h \<and> v = i))"

text \<open>
  Coherence of a cache with its authority: what is cached is what the authority holds, under a
  non-empty id, and a cached hash leads to a stored task of that hash.
\<close>

definition coherent ::
  "('s \<Rightarrow> bool) \<Rightarrow> ('s \<Rightarrow> string \<rightharpoonup> Task) \<Rightarrow> ('c \<Rightarrow> string \<rightharpoonup> Task) \<Rightarrow> ('c \<Rightarrow> string \<rightharpoonup> string)
     \<Rightarrow> 's \<times> 'c \<Rightarrow> bool" where
  "coherent sinv tasks held hids = (\<lambda>(s, x). sinv s
     \<and> (\<forall>i t. held x i = Some t \<longrightarrow> tasks s i = Some t \<and> terminal t \<and> i \<noteq> [])
     \<and> (\<forall>h i. hids x h = Some i \<longrightarrow> (\<exists>t. tasks s i = Some t \<and> tk_RequestHash t = h)))"

locale cached_store = task_store A sinv tasks + task_cache C held hids
  for A :: "'s TaskStore" and sinv and tasks and C :: "'c TaskCache" and held and hids
begin

lemma cacheTask_stored:
  assumes c: "live c" and i: "sinv s"
    and old: "\<And>i u. held x i = Some u \<Longrightarrow> i \<noteq> tk_ID t \<Longrightarrow>
        tasks s i = Some u"
    and fin: "\<And>i u. held x i = Some u \<Longrightarrow> terminal u \<and> i \<noteq> []"
    and same: "\<And>u. held x (tk_ID t) = Some u \<Longrightarrow> \<not> terminal t \<Longrightarrow> tasks s (tk_ID t) = Some u"
    and hs: "\<And>h i. hids x h = Some i \<Longrightarrow> \<exists>t. tasks s i = Some t \<and> tk_RequestHash t = h"
    and st: "tasks s (tk_ID t) = Some t"
  shows "coherent sinv tasks held hids (s, cacheTask (Some C) c now t x)"
proof -
  define x1 where "x1 = (if tk_RequestHash t \<noteq> []
      then snd (tc_SetRequestHash C c now (tk_RequestHash t) (tk_ID t) x) else x)"
  have x1: "held x1 = held x"
    "\<And>k v. hids x1 k = Some v \<Longrightarrow> hids x k = Some v \<or> (k = tk_RequestHash t \<and> v = tk_ID t)"
    using set_hash [OF c, of now "tk_RequestHash t" "tk_ID t" x] by (auto simp: x1_def split: if_splits)
  have h1: "\<And>h i. hids x1 h = Some i \<Longrightarrow> \<exists>t. tasks s i = Some t \<and> tk_RequestHash t = h"
    using x1(2) hs st by blast
  have eq: "cacheTask (Some C) c now t x =
      (if terminal t then snd (tc_SetTask C c now t x1) else x1)"
    by (simp add: cacheTask_def x1_def Let_def)
  show ?thesis
  proof (cases "terminal t")
    case False
    have "\<And>i u. held x i = Some u \<Longrightarrow> tasks s i = Some u"
      using old same False by metis
    then show ?thesis using False i h1 x1(1) fin eq by (simp add: coherent_def)
  next
    case True
    obtain x2 where x2: "tc_SetTask C c now t x1 = (Inr (), x2)" "hids x2 = hids x1"
      "\<And>k u. held x2 k = Some u \<Longrightarrow>
         if tk_ID t \<noteq> [] \<and> k = tk_ID t then u = t else held x1 k = Some u"
      using set_task [OF c, of now t x1] by blast
    have "tasks s k = Some u \<and> terminal u \<and> k \<noteq> []" if "held x2 k = Some u" for k u
    proof (cases "tk_ID t \<noteq> [] \<and> k = tk_ID t")
      case True
      then show ?thesis using x2(3) [OF that] st \<open>terminal t\<close> by auto
    next
      case False
      then have hk: "held x k = Some u" using x2(3) [OF that] x1(1) by auto
      then have "k \<noteq> []" "terminal u" using fin by auto
      moreover have "k \<noteq> tk_ID t" using False \<open>k \<noteq> []\<close> by auto
      ultimately show ?thesis using old [OF hk] by auto
    qed
    then show ?thesis using True i h1 x2(1,2) eq by (simp add: coherent_def)
  qed
qed

lemma cacheTask_current:
  assumes "live c" "coherent sinv tasks held hids (s, x)" "tasks s (tk_ID t) = Some t"
  shows "coherent sinv tasks held hids (s, cacheTask (Some C) c now t x)"
  using assms by (intro cacheTask_stored) (auto simp: coherent_def)

text \<open>Coherence only depends on the content of the authority.\<close>

lemma coherent_content:
  "coherent sinv tasks held hids (s, x) \<Longrightarrow> sinv s' \<Longrightarrow> tasks s' = tasks s
     \<Longrightarrow> coherent sinv tasks held hids (s', x)"
  by (simp add: coherent_def)

lemma cacheTask_put:
  assumes "live c" "coherent sinv tasks held hids (s, x)" "sinv s'" "tasks s' = (tasks s)(tk_ID t \<mapsto> t)"
    "\<And>t0. tasks s (tk_ID t) = Some t0 \<Longrightarrow> may_follow t0 t"
  shows "coherent sinv tasks held hids (s', cacheTask (Some C) c now t x)"
proof (rule cacheTask_stored)
  show "\<exists>u. tasks s' i = Some u \<and> tk_RequestHash u = h" if hi: "hids x h = Some i" for h i
  proof -
    obtain u where "tasks s i = Some u" "tk_RequestHash u = h"
      using hi assms(2) unfolding coherent_def by blast
    then show ?thesis using assms(4,5) by (auto simp: may_follow_def)
  qed
qed (use assms in \<open>auto simp: coherent_def may_follow_def\<close>)

lemma cached_terminal_stored:
  "coherent sinv tasks held hids (s, x) \<Longrightarrow> cached_terminal (Some C) c now i x = Some t
     \<Longrightarrow> tasks s i = Some t"
  using get_task by (auto simp: cached_terminal_def coherent_def split: sum.splits option.splits if_splits)

lemma cached_id_stored:
  "coherent sinv tasks held hids (s, x) \<Longrightarrow> cached_id (Some C) c now h x = Some i
     \<Longrightarrow> \<exists>t. tasks s i = Some t \<and> tk_RequestHash t = h"
  using get_id by (auto simp: cached_id_def coherent_def split: sum.splits option.splits)

lemma authority_find:
  assumes "coherent sinv tasks held hids (s, x)" "live c"
  shows "\<exists>r q. authority_FindByHash A (Some C) c now h (s, x) = (Inr r, q)
    \<and> coherent sinv tasks held hids q \<and> tasks (fst q) = tasks s
    \<and> (case r of None \<Rightarrow> \<forall>i t. tasks s i = Some t \<longrightarrow> tk_RequestHash t \<noteq> h
         | Some t \<Rightarrow> tasks s (tk_ID t) = Some t \<and> tk_RequestHash t = h)"
proof -
  have "sinv s" using assms(1) by (simp add: coherent_def)
  then obtain r s' where r: "ts_FindByHash A c now h s = (Inr r, s')" "sinv s'" "tasks s' = tasks s"
    "case r of None \<Rightarrow> \<forall>i t. tasks s i = Some t \<longrightarrow> tk_RequestHash t \<noteq> h
      | Some t \<Rightarrow> tasks s (tk_ID t) = Some t \<and> tk_RequestHash t = h"
    using find_by_hash [OF _ assms(2)] by blast
  then have co: "coherent sinv tasks held hids (s', x)" using assms(1) coherent_content by blast
  show ?thesis
  proof (cases r)
    case None
    then show ?thesis using r co by (simp add: authority_FindByHash_def)
  next
    case (Some t)
    then have "coherent sinv tasks held hids (s', cacheTask (Some C) c now t x)"
      using r co assms(2) by (intro cacheTask_current) auto
    then show ?thesis using Some r by (simp add: authority_FindByHash_def)
  qed
qed

lemma cached_find:
  assumes co: "coherent sinv tasks held hids (s, x)" and c: "live c"
  shows "\<exists>r q. CachedTaskStore_FindByHash A (Some C) c now h (s, x) = (Inr r, q)
    \<and> coherent sinv tasks held hids q \<and> tasks (fst q) = tasks s
    \<and> (case r of None \<Rightarrow> \<forall>i t. tasks s i = Some t \<longrightarrow> tk_RequestHash t \<noteq> h
         | Some t \<Rightarrow> tasks s (tk_ID t) = Some t \<and> tk_RequestHash t = h)"
proof (cases "cached_id (Some C) c now h x")
  case None
  then show ?thesis using authority_find [OF co c] by (simp add: CachedTaskStore_FindByHash_def)
next
  case (Some i)
  then obtain t where t: "tasks s i = Some t" "tk_RequestHash t = h"
    using cached_id_stored [OF co] by blast
  have i: "sinv s" using co by (simp add: coherent_def)
  obtain s' where s': "ts_Get A c now i s = (Inr t, s')" "sinv s'" "tasks s' = tasks s"
    using get [OF i c, of now i] t by auto
  have tid: "tk_ID t = i" using ids [OF i t(1)] .
  have "coherent sinv tasks held hids (s', cacheTask (Some C) c now t x)"
    using s' t tid co coherent_content c by (intro cacheTask_current) auto
  then show ?thesis using Some s' t tid by (simp add: CachedTaskStore_FindByHash_def)
qed

lemma cached_get:
  assumes co: "coherent sinv tasks held hids (s, x)" and c: "live c"
  shows "\<exists>q. CachedTaskStore_Get A (Some C) c now i (s, x)
      = (case tasks s i of None \<Rightarrow> Inl ErrTaskNotFound | Some t \<Rightarrow> Inr t, q)
    \<and> coherent sinv tasks held hids q \<and> tasks (fst q) = tasks s"
proof (cases "cached_terminal (Some C) c now i x")
  case (Some t)
  then show ?thesis using cached_terminal_stored [OF co Some] co by (simp add: CachedTaskStore_Get_def)
next
  case None
  have i: "sinv s" using co by (simp add: coherent_def)
  obtain s' where s': "ts_Get A c now i s
      = (case tasks s i of None \<Rightarrow> Inl ErrTaskNotFound | Some t \<Rightarrow> Inr t, s')"
    "sinv s'" "tasks s' = tasks s"
    using get [OF i c, of now i] by auto
  then have co': "coherent sinv tasks held hids (s', x)" using co coherent_content by blast
  show ?thesis
  proof (cases "tasks s i")
    case None': None
    then show ?thesis using None s' co' by (simp add: CachedTaskStore_Get_def)
  next
    case (Some t)
    then have "coherent sinv tasks held hids (s', cacheTask (Some C) c now t x)"
      using s' co' c ids [OF i Some] by (intro cacheTask_current) auto
    then show ?thesis using None Some s' by (simp add: CachedTaskStore_Get_def)
  qed
qed

end

sublocale cached_store \<subseteq> cached:
  task_store "CachedTaskStore_ops A (Some C)" "coherent sinv tasks held hids" "tasks \<circ> fst"
proof (unfold_locales, goal_cases)
  case (1 q i t)
  then show ?case using ids by (auto simp: coherent_def)
next
  case (2 q c t now)
  obtain s x where q: "q = (s, x)" by (cases q)
  have i: "sinv s" using 2(1) by (simp add: q coherent_def)
  obtain s' where s': "ts_Create A c now t s = (Inr (), s')" "sinv s'" "tasks s' = (tasks s)(tk_ID t \<mapsto> t)"
    using create [OF i 2(2), of t now] 2(3) q by auto
  then have "coherent sinv tasks held hids (s', cacheTask (Some C) c now t x)"
    using 2 q by (intro cacheTask_put) auto
  then show ?case using s' by (simp add: q CachedTaskStore_ops_def CachedTaskStore_Create_def)
next
  case (3 q c t t0 now)
  obtain s x where q: "q = (s, x)" by (cases q)
  have i: "sinv s" using 3(1) by (simp add: q coherent_def)
  obtain s' where s': "ts_Update A c now t s = (Inr (), s')" "sinv s'" "tasks s' = (tasks s)(tk_ID t \<mapsto> t)"
    using update [OF i 3(2), of t t0 now] 3(3,4) q by auto
  then have "coherent sinv tasks held hids (s', cacheTask (Some C) c now t x)"
    using 3 q by (intro cacheTask_put) auto
  then show ?case using s' by (simp add: q CachedTaskStore_ops_def CachedTaskStore_Update_def)
next
  case (4 q c t now)
  obtain s x where q: "q = (s, x)" by (cases q)
  have i: "sinv s" using 4(1) by (simp add: q coherent_def)
  obtain s' where s': "ts_Update A c now t s = (Inl ErrTaskNotFound, s')" "sinv s'" "tasks s' = tasks s"
    using update_missing [OF i 4(2), of t now] 4(3) q by auto
  then show ?case using 4(1) q coherent_content
    by (auto simp: CachedTaskStore_ops_def CachedTaskStore_Update_def)
next
  case (5 q c now i)
  then show ?case using cached_get by (cases q) (auto simp: CachedTaskStore_ops_def)
next
  case (6 q c now h)
  obtain s x where q: "q = (s, x)" by (cases q)
  have "(tasks \<circ> fst) q = tasks s" by (simp add: q)
  then show ?case using cached_find [of s x c now h] 6 by (simp only:) (simp add: q CachedTaskStore_ops_def)
qed

subsection \<open>The in-memory cache is a cache\<close>

definition mc_held :: "MemoryTaskCache \<Rightarrow> string \<rightharpoonup> Task" where
  "mc_held x i = map_option fst (mc_tasks x i)"

definition mc_ids :: "MemoryTaskCache \<Rightarrow> string \<rightharpoonup> string" where
  "mc_ids x h = map_option fst (mc_hashToID x h)"

lemma memory_task_cache: "task_cache MemoryTaskCache_ops mc_held mc_ids"
  by unfold_locales
    (auto simp: MemoryTaskCache_ops_def MemoryTaskCache_GetTask_def MemoryTaskCache_GetTaskIDByHash_def
      MemoryTaskCache_SetTask_def MemoryTaskCache_SetRequestHash_def mc_held_def mc_ids_def
      split: option.splits if_splits)

interpretation memory_cache: task_cache MemoryTaskCache_ops mc_held mc_ids
  by (rule memory_task_cache)

interpretation memory_cached: cached_store MemoryTaskStore_ops mt_wf mt_tasks MemoryTaskCache_ops mc_held mc_ids
  by unfold_locales

subsection \<open>Observable equivalence\<close>

lemma coherent_new:
  "coherent mt_wf mt_tasks mc_held mc_ids (NewMemoryTaskStore, NewMemoryTaskCache ttl)"
  by (simp add: coherent_def NewMemoryTaskCache_def mc_held_def mc_ids_def)


definition sample_task :: "string \<Rightarrow> TaskStatus \<Rightarrow> Task" where
  "sample_task i st = \<lparr>tk_ID = i, tk_RequestID = [], tk_UserID = [], tk_RequestHash = ''h'', tk_Status = st,
     tk_PlannerType = ''mock'', tk_Request = sample_request, tk_TestMode = False, tk_AgentMode = ''quick'',
     tk_Attempt = 1, tk_Plan = None, tk_Error = [], tk_CreatedAt = 5, tk_UpdatedAt = 5\<rparr>"

definition sample_calls :: "store_call list" where
  "sample_calls = [CallCreate 5 (sample_task ''t1'' TaskPending), CallFind 6 ''h'',
     CallUpdate 7 (sample_task ''t1'' TaskRunning), CallUpdate 8 (sample_task ''t1'' TaskSucceeded),
     CallGet 9 ''t1'', CallGet 100000 ''t1'', CallGet 9 ''t2'']"


end
