(* ===== verification/Sha256.thy ===== *)
theory Sha256
  imports Go_Text "HOL-Library.Word"
begin

section \<open>SHA-256\<close>

text \<open>
  \<open>crypto/sha256\<close> (FIPS 180-4), which the repository uses for request hashes and session
  tokens: padding, message schedule and the 64 rounds on 32-bit words. A message is a list of
  bytes given as numbers below 256.
\<close>

unbundle bit_operations_syntax

type_synonym w32 = "32 word"

definition round_constants :: "w32 list" where
  "round_constants =
    [0x428A2F98, 0x71374491, 0xB5C0FBCF, 0xE9B5DBA5, 0x3956C25B, 0x59F111F1, 0x923F82A4, 0xAB1C5ED5,
     0xD807AA98, 0x12835B01, 0x243185BE, 0x550C7DC3, 0x72BE5D74, 0x80DEB1FE, 0x9BDC06A7, 0xC19BF174,
     0xE49B69C1, 0xEFBE4786, 0x0FC19DC6, 0x240CA1CC, 0x2DE92C6F, 0x4A7484AA, 0x5CB0A9DC, 0x76F988DA,
     0x983E5152, 0xA831C66D, 0xB00327C8, 0xBF597FC7, 0xC6E00BF3, 0xD5A79147, 0x06CA6351, 0x14292967,
     0x27B70A85, 0x2E1B2138, 0x4D2C6DFC, 0x53380D13, 0x650A7354, 0x766A0ABB, 0x81C2C92E, 0x92722C85,
     0xA2BFE8A1, 0xA81A664B, 0xC24B8B70, 0xC76C51A3, 0xD192E819, 0xD6990624, 0xF40E3585, 0x106AA070,
     0x19A4C116, 0x1E376C08, 0x2748774C, 0x34B0BCB5, 0x391C0CB3, 0x4ED8AA4A, 0x5B9CCA4F, 0x682E6FF3,
     0x748F82EE, 0x78A5636F, 0x84C87814, 0x8CC70208, 0x90BEFFFA, 0xA4506CEB, 0xBEF9A3F7, 0xC67178F2]"

definition initial_hash :: "w32 list" where
  "initial_hash = [0x6A09E667, 0xBB67AE85, 0x3C6EF372, 0xA54FF53A, 0x510E527F, 0x9B05688C, 0x1F83D9AB, 0x5BE0CD19]"

definition rotr :: "nat \<Rightarrow> w32 \<Rightarrow> w32" where
  "rotr n x = (drop_bit n x) OR (push_bit (32 - n) x)"

definition small_sigma0 :: "w32 \<Rightarrow> w32" where
  "small_sigma0 x = rotr 7 x XOR rotr 18 x XOR drop_bit 3 x"

definition small_sigma1 :: "w32 \<Rightarrow> w32" where
  "small_sigma1 x = rotr 17 x XOR rotr 19 x XOR drop_bit 10 x"

definition big_sigma0 :: "w32 \<Rightarrow> w32" where
  "big_sigma0 x = rotr 2 x XOR rotr 13 x XOR rotr 22 x"

definition big_sigma1 :: "w32 \<Rightarrow> w32" where
  "big_sigma1 x = rotr 6 x XOR rotr 11 x XOR rotr 25 x"

definition choose3 :: "w32 \<Rightarrow> w32 \<Rightarrow> w32 \<Rightarrow> w32" where
  "choose3 x y z = (x AND y) XOR (NOT x AND z)"

definition majority :: "w32 \<Rightarrow> w32 \<Rightarrow> w32 \<Rightarrow> w32" where
  "majority x y z = (x AND y) XOR (x AND z) XOR (y AND z)"

subsection \<open>Padding and blocks\<close>

definition be_bytes :: "nat \<Rightarrow> nat \<Rightarrow> nat list" where
  "be_bytes n v = map (\<lambda>i. v div 256 ^ (n - 1 - i) mod 256) [0..<n]"

definition sha_pad :: "nat list \<Rightarrow> nat list" where
  "sha_pad m = m @ [0x80] @ replicate ((119 - length m mod 64) mod 64) 0 @ be_bytes 8 (8 * length m)"

definition be_word :: "nat list \<Rightarrow> w32" where
  "be_word bs = word_of_nat (foldl (\<lambda>v b. 256 * v + b) 0 bs)"

text \<open>The words of a block: groups of four bytes. Fuel is the length of the list.\<close>

function chunks_of :: "nat \<Rightarrow> 'a list \<Rightarrow> 'a list list" where
  "chunks_of n xs = (if xs = [] \<or> n = 0 then [] else take n xs # chunks_of n (drop n xs))"
  by pat_completeness auto
termination by (relation "measure (\<lambda>(n, xs). length xs)") auto

declare chunks_of.simps [simp del]

text \<open>The schedule, newest word first: each step prepends one word.\<close>

definition schedule_step :: "w32 list \<Rightarrow> w32 list" where
  "schedule_step w = (small_sigma1 (w ! 1) + w ! 6 + small_sigma0 (w ! 14) + w ! 15) # w"

definition schedule :: "w32 list \<Rightarrow> w32 list" where
  "schedule block = rev ((schedule_step ^^ 48) (rev block))"

fun sha_round :: "w32 list \<Rightarrow> w32 \<times> w32 \<Rightarrow> w32 list" where
  "sha_round [a, b, c, d, e, f, g, h] (k, w) =
     (let t1 = h + big_sigma1 e + choose3 e f g + k + w;
          t2 = big_sigma0 a + majority a b c
      in [t1 + t2, a, b, c, d + t1, e, f, g])"
| "sha_round s kw = s"

definition compress :: "w32 list \<Rightarrow> w32 list \<Rightarrow> w32 list" where
  "compress hash block =
     map2 (+) hash (foldl sha_round hash (zip round_constants (schedule block)))"

definition sha256 :: "nat list \<Rightarrow> nat list" where
  "sha256 m =
     concat (map (\<lambda>w. be_bytes 4 (unat w))
       (foldl compress initial_hash (map (map be_word \<circ> chunks_of 4) (chunks_of 64 (sha_pad m)))))"

text \<open>The bytes of a Go string.\<close>

definition bytes_of :: "string \<Rightarrow> nat list" where
  "bytes_of s = map of_char s"

definition sha256_hex :: "string \<Rightarrow> string" where
  "sha256_hex s = hex_encode (sha256 (bytes_of s))"

subsection \<open>Lengths\<close>

lemma length_be_bytes [simp]: "length (be_bytes n v) = n"
  by (simp add: be_bytes_def)

lemma be_bytes_lt: "b \<in> set (be_bytes n v) \<Longrightarrow> b < 256"
  by (auto simp: be_bytes_def)

lemma sha_pad_blocks: "length (sha_pad m) mod 64 = 0"
proof -
  define r where "r = length m mod 64"
  have r: "r < 64" by (simp add: r_def)
  have "length (sha_pad m) mod 64 = (length m mod 64 + (9 + (119 - r) mod 64)) mod 64"
    by (simp add: sha_pad_def r_def mod_add_left_eq)
  also have "\<dots> = 0"
    unfolding r_def [symmetric] using r by (cases "r \<le> 55") (auto simp: mod_if)
  finally show ?thesis .
qed

lemma length_sha_round [simp]: "length (sha_round s kw) = length s"
  by (induction s kw rule: sha_round.induct) (auto simp: Let_def)

lemma length_sha_rounds: "length (foldl sha_round s kws) = length s"
  by (induction kws arbitrary: s) auto

lemma length_compress [simp]: "length (compress hash block) = length hash"
  by (simp add: compress_def length_sha_rounds)

lemma length_compress_fold: "length (foldl compress h bs) = length h"
  by (induction bs arbitrary: h) auto

lemma length_concat_map_const: "(\<And>x. length (f x) = n) \<Longrightarrow> length (concat (map f xs)) = n * length xs"
  by (induction xs) auto

lemma length_sha256 [simp]: "length (sha256 m) = 32"
  by (simp add: sha256_def length_concat_map_const length_compress_fold initial_hash_def)

lemma sha256_bytes: "b \<in> set (sha256 m) \<Longrightarrow> b < 256"
  by (auto simp: sha256_def dest: be_bytes_lt)

lemma length_sha256_hex [simp]: "length (sha256_hex s) = 64"
  by (simp add: sha256_hex_def)

end
