(* ===== verification/Go_Json.thy ===== *)
theory Go_Json
  imports Float64
begin

section \<open>JSON text as Go writes it\<close>

text \<open>
  The part of \<open>encoding/json\<close> and \<open>strconv\<close> that decides the bytes a value is marshalled to:
  strings with HTML escaping, shortest floats, integers, booleans, arrays and objects. The
  request hash is taken over these bytes.
\<close>

subsection \<open>Strings\<close>

definition json_escape :: "nat \<Rightarrow> string" where
  "json_escape r =
     (if r = 0x5C \<or> r = 0x22 then [CHR 0x5C, char_of r]
      else if r = 8 then [CHR 0x5C, CHR ''b'']
      else if r = 12 then [CHR 0x5C, CHR ''f'']
      else if r = 10 then [CHR 0x5C, CHR ''n'']
      else if r = 13 then [CHR 0x5C, CHR ''r'']
      else if r = 9 then [CHR 0x5C, CHR ''t'']
      else [CHR 0x5C] @ ''u00'' @ [hex_digit (r div 16), hex_digit (r mod 16)])"

definition json_plain :: "nat \<Rightarrow> bool" where
  "json_plain r \<longleftrightarrow> 0x20 \<le> r \<and> r < 0x80 \<and> r \<notin> {0x22, 0x5C, 0x3C, 0x3E, 0x26}"

definition json_rune :: "nat \<Rightarrow> nat \<Rightarrow> string" where
  "json_rune r width =
     (if r < 0x80 then (if json_plain r then [char_of r] else json_escape r)
      else if r = RuneError \<and> width = 1 then [CHR 0x5C] @ ''ufffd''
      else if r = 0x2028 then [CHR 0x5C] @ ''u2028''
      else if r = 0x2029 then [CHR 0x5C] @ ''u2029''
      else enc_rune r)"

fun json_chars :: "string \<Rightarrow> string" where
  "json_chars [] = []"
| "json_chars (c # cs) = (case dec_rune (c # cs) of (r, n) \<Rightarrow> json_rune r n @ json_chars (drop (n - 1) cs))"

definition json_string :: "string \<Rightarrow> string" where
  "json_string s = [CHR 0x22] @ json_chars s @ [CHR 0x22]"

subsection \<open>Numbers\<close>

definition json_int :: "int \<Rightarrow> string" where
  "json_int n = Itoa n"

text \<open>
  The shortest decimal that reads back as the same double: with \<open>n\<close> digits the only candidates
  are the two \<open>n\<close>-digit decimals around the value, the nearest first; 17 digits always suffice.
  The result is the digits, as a number, with the power of ten of the last digit.
\<close>

definition ten_exp :: "rat \<Rightarrow> int" where
  "ten_exp q = (let (a, b) = quotient_of q;
                    e = int (length (digits (nat a))) - int (length (digits (nat b)))
                in if 10 powi e \<le> q then e else e - 1)"

definition shortest_candidates :: "rat \<Rightarrow> nat \<Rightarrow> int list" where
  "shortest_candidates q n =
     (let x = q * 10 powi (int n - 1 - ten_exp q); k = nearest_even x
      in [k, if of_int k < x then k + 1 else k - 1])"

text \<open>A candidate rounded up to \<open>10\<^sup>n\<close> is a one-digit decimal.\<close>

definition carry_digit :: "nat \<Rightarrow> int \<times> int \<Rightarrow> int \<times> int" where
  "carry_digit n = (\<lambda>(k, p). if k = 10 ^ n then (1, p + int n) else (k, p))"

definition shortest :: "rat \<Rightarrow> int \<times> int" where
  "shortest q =
     (case find (\<lambda>(k, p). f_of_rat (of_int k * 10 powi p) = Fin q)
             (concat (map (\<lambda>n. map (\<lambda>k. carry_digit n (k, ten_exp q - int n + 1)) (shortest_candidates q n)) [1..<18])) of
        Some kp \<Rightarrow> kp
      | None \<Rightarrow> (nearest_even q, 0))"

text \<open>Format \<open>f\<close>, or \<open>e\<close> below \<open>1e-6\<close> and from \<open>1e21\<close> on.\<close>

definition float_fixed :: "int \<Rightarrow> int \<Rightarrow> string" where
  "float_fixed k p =
     (let ds = digits (nat k)
      in if 0 \<le> p then ds @ replicate (nat p) CHR ''0''
         else let m = nat (- p); ds' = pad_left (m + 1) CHR ''0'' ds
              in take (length ds' - m) ds' @ [CHR ''.''] @ drop (length ds' - m) ds')"

definition float_exp :: "int \<Rightarrow> int \<Rightarrow> string" where
  "float_exp k p =
     (let ds = digits (nat k); e = p + int (length ds) - 1
      in [hd ds] @ (if length ds = 1 then [] else CHR ''.'' # tl ds) @ [CHR ''e'']
         @ (if e < 0 then [CHR ''-''] @ digits (nat (- e))
            else [CHR ''+''] @ pad_left 2 CHR ''0'' (digits (nat e))))"

definition json_magnitude :: "rat \<Rightarrow> string" where
  "json_magnitude q =
     (if q = 0 then ''0''
      else case shortest q of (k, p) \<Rightarrow>
        if q < 1 / 1000000 \<or> 1000000000000000000000 \<le> q then float_exp k p else float_fixed k p)"

text \<open>\<open>None\<close> is the UnsupportedValueError for NaN and the infinities.\<close>

fun json_float :: "float64 \<Rightarrow> string option" where
  "json_float (Fin q) = Some (if q < 0 then CHR ''-'' # json_magnitude (- q) else json_magnitude q)"
| "json_float NegZero = Some ''-0''"
| "json_float _ = None"

subsection \<open>Composite values\<close>

definition json_bool :: "bool \<Rightarrow> string" where
  "json_bool b = (if b then ''true'' else ''false'')"

definition json_array :: "string list \<Rightarrow> string" where
  "json_array vs = ''['' @ Join vs '','' @ '']''"

definition json_field :: "string \<Rightarrow> string \<Rightarrow> string" where
  "json_field k v = [CHR 0x22] @ k @ [CHR 0x22] @ '':'' @ v"

definition json_object :: "string list \<Rightarrow> string" where
  "json_object members = ''{'' @ Join members '','' @ ''}''"

subsection \<open>Plain strings\<close>

text \<open>Letters, digits and the like are written as they are, so such strings can be read off.\<close>

definition plain_string :: "string \<Rightarrow> bool" where
  "plain_string s \<longleftrightarrow> (\<forall>c \<in> set s. json_plain (of_char c))"

lemma json_chars_plain: "plain_string s \<Longrightarrow> json_chars s = s"
  by (induction s)
    (auto simp: plain_string_def json_plain_def dec_rune_def dec_bytes.simps json_rune_def)

lemma json_string_plain_inj:
  assumes "plain_string s" "plain_string t" "json_string s = json_string t"
  shows "s = t"
  using assms by (simp add: json_string_def json_chars_plain)

lemma hex_digit_plain: "n < 16 \<Longrightarrow> json_plain (of_char (hex_digit n))"
proof -
  assume n: "n < 16"
  have "(of_char (hex_digit n) :: nat) = (if n < 10 then 48 + n else 87 + n)"
    using n by (auto simp: hex_digit_def)
  then show ?thesis using n by (auto simp: json_plain_def)
qed

lemma plain_hex_encode: "\<forall>b \<in> set bs. b < 256 \<Longrightarrow> plain_string (hex_encode bs)"
  by (induction bs) (auto simp: plain_string_def intro!: hex_digit_plain)

end
