(* ===== verification/RequestHash.thy ===== *)
theory RequestHash
  imports Brief Sha256 Go_Json "HOL-Library.List_Lexorder" "HOL-Library.Char_ord"
begin

section \<open>The request hash\<close>

text \<open>
  internal/travel/cache.go: the canonical shape of a request, marshalled to JSON and hashed with
  SHA-256. \<open>hash_input\<close> is the JSON text, \<open>RequestHashForUser\<close> the hex digest. Requests that
  differ only in spelling, order or repetition have one hash; requests of different users, modes
  or planners have different inputs, so their hashes agree only on a collision of SHA-256.
\<close>

definition AgentModeQuick :: string where "AgentModeQuick = ''quick''"
definition AgentModeExpert :: string where "AgentModeExpert = ''expert''"

definition normalizeAgentMode :: "string \<Rightarrow> string" where
  "normalizeAgentMode value =
     (if ToLower (TrimSpace value) = AgentModeExpert then AgentModeExpert else AgentModeQuick)"

text \<open>\<open>sort.Strings\<close> orders by bytes.\<close>

definition sortedCopy :: "string list \<Rightarrow> string list" where
  "sortedCopy values = sort values"

definition json_strings :: "string list \<Rightarrow> string" where
  "json_strings vs = json_array (map json_string vs)"

text \<open>The members of the canonical struct, in the order of its fields; \<open>user_id\<close> has \<open>omitempty\<close>.\<close>

definition hash_members :: "TravelRequest \<Rightarrow> string \<Rightarrow> bool \<Rightarrow> string \<Rightarrow> string list" where
  "hash_members req budget testMode agentMode =
     [json_field ''departure_city'' (json_string (rq_DepartureCity req)),
      json_field ''destination_city'' (json_string (rq_DestinationCity req)),
      json_field ''days'' (json_int (rq_Days req)),
      json_field ''budget'' budget,
      json_field ''interests'' (json_strings (sortedCopy (rq_Interests req))),
      json_field ''travelers'' (json_int (rq_Travelers req)),
      json_field ''date_range'' (json_string (rq_DateRange req)),
      json_field ''transport_mode'' (json_string (rq_TransportMode req)),
      json_field ''pace'' (json_string (rq_Pace req)),
      json_field ''walking_tolerance'' (json_string (rq_WalkingTolerance req)),
      json_field ''hotel_area'' (json_string (rq_HotelArea req)),
      json_field ''must_visit'' (json_strings (sortedCopy (rq_MustVisit req))),
      json_field ''avoid'' (json_strings (sortedCopy (rq_Avoid req))),
      json_field ''traveler_type'' (json_string (rq_TravelerType req)),
      json_field ''budget_type'' (json_string (rq_BudgetType req)),
      json_field ''budget_includes'' (json_strings (sortedCopy (rq_BudgetIncludes req))),
      json_field ''test_mode'' (json_bool testMode),
      json_field ''agent_mode'' (json_string agentMode)]"

datatype hash_err = UnsupportedValue

text \<open>\<open>agentModeValues\<close> is the variadic argument: only its first value counts.\<close>

definition hash_input ::
  "TravelRequest \<Rightarrow> bool \<Rightarrow> string \<Rightarrow> string list \<Rightarrow> hash_err + string" where
  "hash_input req0 testMode userID agentModeValues =
     (let req = NormalizeTravelBrief req0;
          agentMode = normalizeAgentMode (case agentModeValues of [] \<Rightarrow> [] | m # _ \<Rightarrow> m)
      in case json_float (rq_Budget req) of
           None \<Rightarrow> Inl UnsupportedValue
         | Some budget \<Rightarrow>
             Inr (json_object (hash_members req budget testMode agentMode
                    @ (if userID = [] then [] else [json_field ''user_id'' (json_string userID)]))))"

definition RequestHashForUser ::
  "TravelRequest \<Rightarrow> bool \<Rightarrow> string \<Rightarrow> string list \<Rightarrow> hash_err + string" where
  "RequestHashForUser req testMode userID agentModeValues =
     (case hash_input req testMode userID agentModeValues of
        Inl e \<Rightarrow> Inl e
      | Inr data \<Rightarrow> Inr (sha256_hex data))"

definition RequestHashWithOptions :: "TravelRequest \<Rightarrow> bool \<Rightarrow> string list \<Rightarrow> hash_err + string" where
  "RequestHashWithOptions req testMode agentModeValues = RequestHashForUser req testMode [] agentModeValues"

definition RequestHash :: "TravelRequest \<Rightarrow> hash_err + string" where
  "RequestHash req = RequestHashWithOptions req False []"

subsection \<open>One hash for one brief\<close>

lemma normalizeAgentMode_cases: "normalizeAgentMode v = AgentModeExpert \<or> normalizeAgentMode v = AgentModeQuick"
  by (simp add: normalizeAgentMode_def)

lemma normalizeAgentMode_idem [simp]: "normalizeAgentMode (normalizeAgentMode v) = normalizeAgentMode v"
proof -
  have "ToLower (TrimSpace AgentModeExpert) = AgentModeExpert"
    "ToLower (TrimSpace AgentModeQuick) \<noteq> AgentModeExpert"
    by (code_simp, code_simp)
  then show ?thesis by (simp add: normalizeAgentMode_def)
qed

lemma sort_distinct_set: "distinct xs \<Longrightarrow> distinct ys \<Longrightarrow> set xs = set ys \<Longrightarrow> sort xs = sort (ys::string list)"
  by (metis sorted_list_of_set_sort_remdups distinct_remdups_id)

text \<open>Two lists of wishes that say the same: the same trimmed texts, in any order and number.\<close>

definition same_wishes :: "string list \<Rightarrow> string list \<Rightarrow> bool" where
  "same_wishes xs ys \<longleftrightarrow> set (normalizeStringSlice xs) = set (normalizeStringSlice ys)"

lemma sortedCopy_same_wishes:
  "same_wishes xs ys \<Longrightarrow> sortedCopy (normalizeStringSlice xs) = sortedCopy (normalizeStringSlice ys)"
  using normalizeStringSlice_clean [of xs] normalizeStringSlice_clean [of ys]
  unfolding same_wishes_def sortedCopy_def clean_slice_def by (intro sort_distinct_set) auto

definition same_brief :: "TravelRequest \<Rightarrow> TravelRequest \<Rightarrow> bool" where
  "same_brief r1 r2 \<longleftrightarrow>
     TrimSpace (rq_DepartureCity r1) = TrimSpace (rq_DepartureCity r2)
   \<and> TrimSpace (rq_DestinationCity r1) = TrimSpace (rq_DestinationCity r2)
   \<and> rq_Days r1 = rq_Days r2 \<and> rq_Budget r1 = rq_Budget r2 \<and> rq_Travelers r1 = rq_Travelers r2
   \<and> defaultString (rq_DateRange r1) DefaultDateRange = defaultString (rq_DateRange r2) DefaultDateRange
   \<and> NormalizeTransportMode (rq_TransportMode r1) = NormalizeTransportMode (rq_TransportMode r2)
   \<and> NormalizePace (rq_Pace r1) = NormalizePace (rq_Pace r2)
   \<and> NormalizeWalkingTolerance (rq_WalkingTolerance r1) = NormalizeWalkingTolerance (rq_WalkingTolerance r2)
   \<and> defaultString (rq_HotelArea r1) DefaultHotelArea = defaultString (rq_HotelArea r2) DefaultHotelArea
   \<and> defaultString (rq_TravelerType r1) DefaultTravelerType = defaultString (rq_TravelerType r2) DefaultTravelerType
   \<and> NormalizeBudgetType (rq_BudgetType r1) = NormalizeBudgetType (rq_BudgetType r2)
   \<and> same_wishes (rq_Interests r1) (rq_Interests r2)
   \<and> same_wishes (rq_MustVisit r1) (rq_MustVisit r2)
   \<and> same_wishes (rq_Avoid r1) (rq_Avoid r2)
   \<and> same_wishes (rq_BudgetIncludes r1) (rq_BudgetIncludes r2)"

lemma same_wishes_Nil: "same_wishes xs ys \<Longrightarrow> normalizeStringSlice xs = [] \<longleftrightarrow> normalizeStringSlice ys = []"
  by (simp add: same_wishes_def) (metis set_empty)

lemma sorted_includes:
  "same_wishes xs ys \<Longrightarrow>
     sortedCopy (if normalizeStringSlice xs = [] then d else normalizeStringSlice xs)
   = sortedCopy (if normalizeStringSlice ys = [] then d else normalizeStringSlice ys)"
  using same_wishes_Nil sortedCopy_same_wishes by simp

lemma hash_members_same:
  assumes "same_brief r1 r2"
  shows "hash_members (NormalizeTravelBrief r1) b tm m = hash_members (NormalizeTravelBrief r2) b tm m"
proof -
  note facts = assms [unfolded same_brief_def]
  have lists: "sortedCopy (normalizeStringSlice (rq_Interests r1)) = sortedCopy (normalizeStringSlice (rq_Interests r2))"
    "sortedCopy (normalizeStringSlice (rq_MustVisit r1)) = sortedCopy (normalizeStringSlice (rq_MustVisit r2))"
    "sortedCopy (normalizeStringSlice (rq_Avoid r1)) = sortedCopy (normalizeStringSlice (rq_Avoid r2))"
    "sortedCopy (rq_BudgetIncludes (NormalizeTravelBrief r1)) = sortedCopy (rq_BudgetIncludes (NormalizeTravelBrief r2))"
    using facts sorted_includes [of "rq_BudgetIncludes r1" "rq_BudgetIncludes r2" DefaultBudgetIncludes]
    by (simp_all add: sortedCopy_same_wishes NormalizeTravelBrief_def Let_def)
  have texts: "rq_DateRange (NormalizeTravelBrief r1) = rq_DateRange (NormalizeTravelBrief r2)"
    "rq_HotelArea (NormalizeTravelBrief r1) = rq_HotelArea (NormalizeTravelBrief r2)"
    "rq_TravelerType (NormalizeTravelBrief r1) = rq_TravelerType (NormalizeTravelBrief r2)"
    using facts by (simp_all add: NormalizeTravelBrief_def Let_def)
  show ?thesis unfolding hash_members_def using facts lists texts by simp
qed

lemma RequestHash_same_input:
  assumes "same_brief r1 r2" and "normalizeAgentMode m1 = normalizeAgentMode m2"
  shows "RequestHashForUser r1 testMode userID [m1] = RequestHashForUser r2 testMode userID [m2]"
proof -
  have "rq_Budget r1 = rq_Budget r2" using assms(1) by (simp add: same_brief_def)
  then show ?thesis
    unfolding RequestHashForUser_def hash_input_def Let_def
    by (cases "json_float (rq_Budget r2)") (simp_all add: hash_members_same [OF assms(1)] assms(2))
qed

text \<open>
  C5. The request hash is a function of the brief, not of its spelling: two requests that agree
  after trimming and normalisation, their wish lists (interests, must-visit, avoid, budget
  includes) being equal as sets, have the same hash for the same user, test mode and agent mode,
  and the request id plays no part.
\<close>

theorem RequestHash_same_brief:
  assumes "same_brief r1 r2"
    and "normalizeAgentMode m1 = normalizeAgentMode m2"
  shows "RequestHashForUser r1 testMode userID [m1] = RequestHashForUser r2 testMode userID [m2]"
  using assms by (rule RequestHash_same_input)

definition sample_request2 :: TravelRequest where
  "sample_request2 = sample_request\<lparr>rq_ID := ''t2'', rq_DepartureCity := '' A '', rq_Pace := ''Balanced'',
     rq_Interests := ['' food'', ''food''], rq_DateRange := utf8 [0x4EFB, 0x610F]\<rparr>"

lemma same_brief_sample: "same_brief sample_request sample_request2"
proof -
  have "TrimSpace ''A'' = TrimSpace '' A ''" by code_simp
  moreover have "defaultString [] DefaultDateRange = defaultString (utf8 [0x4EFB, 0x610F]) DefaultDateRange" by code_simp
  moreover have "NormalizePace [] = NormalizePace ''Balanced''" by code_simp
  moreover have "normalizeStringSlice ['' food'', ''food''] = [''food'']" by code_simp
  moreover have "normalizeStringSlice [''food''] = [''food'']" by code_simp
  ultimately show ?thesis
    by (simp add: same_brief_def same_wishes_def sample_request2_def sample_request_def)
qed

theorem RequestHash_same_brief_witness:
  "same_brief sample_request sample_request2 \<and> sample_request \<noteq> sample_request2
   \<and> RequestHashForUser sample_request False ''usr_1'' [''quick'']
     = RequestHashForUser sample_request2 False ''usr_1'' [''nonsense'']"
proof -
  have m: "normalizeAgentMode ''quick'' = normalizeAgentMode ''nonsense''" by code_simp
  have "rq_ID sample_request \<noteq> rq_ID sample_request2"
    by (simp add: sample_request_def sample_request2_def)
  then have "sample_request \<noteq> sample_request2" by metis
  then show ?thesis
    by (intro conjI same_brief_sample RequestHash_same_brief [OF same_brief_sample m])
qed

subsection \<open>Different users, different inputs\<close>

text \<open>
  The text between the last two quotes of the input: the user id, or the agent mode when there
  is none.
\<close>

definition last_quoted :: "string \<Rightarrow> string" where
  "last_quoted s = rev (takeWhile (\<lambda>c. c \<noteq> CHR 0x22) (drop 2 (rev s)))"

definition before_last_quoted :: "string \<Rightarrow> char" where
  "before_last_quoted s = (dropWhile (\<lambda>c. c \<noteq> CHR 0x22) (drop 2 (rev s))) ! 3"

lemma takeWhile_plain:
  "plain_string s \<Longrightarrow> takeWhile (\<lambda>c. c \<noteq> CHR 0x22) (rev s @ CHR 0x22 # t) = rev s"
  "plain_string s \<Longrightarrow> dropWhile (\<lambda>c. c \<noteq> CHR 0x22) (rev s @ CHR 0x22 # t) = CHR 0x22 # t"
proof -
  assume p: "plain_string s"
  have q: "\<And>c. c \<in> set (rev s) \<Longrightarrow> c \<noteq> CHR 0x22"
    using p by (auto simp: plain_string_def json_plain_def)
  show "takeWhile (\<lambda>c. c \<noteq> CHR 0x22) (rev s @ CHR 0x22 # t) = rev s"
    using q by (subst takeWhile_append2) auto
  show "dropWhile (\<lambda>c. c \<noteq> CHR 0x22) (rev s @ CHR 0x22 # t) = CHR 0x22 # t"
    using q by (subst dropWhile_append2) auto
qed

lemma quoted_of_object:
  assumes "plain_string v"
  shows "last_quoted (json_object (ms @ [json_field k (json_string v)])) = v"
    and "k \<noteq> [] \<Longrightarrow> before_last_quoted (json_object (ms @ [json_field k (json_string v)])) = last k"
proof -
  have join: "\<exists>p. Join (ms @ [x]) '','' = p @ x" for x
  proof (induction ms)
    case (Cons m ms)
    then obtain p where p: "Join (ms @ [x]) '','' = p @ x" by blast
    obtain y ys where "ms @ [x] = y # ys" by (cases "ms @ [x]") auto
    then have "Join ((m # ms) @ [x]) '','' = (m @ '','' @ p) @ x" using p by simp
    then show ?case by blast
  qed simp
  obtain p0 where p0: "Join (ms @ [json_field k (json_string v)]) '','' = p0 @ json_field k (json_string v)"
    using join by blast
  define p where "p = ''{'' @ p0"
  have p: "json_object (ms @ [json_field k (json_string v)])
      = p @ [CHR 0x22] @ k @ [CHR 0x22] @ '':'' @ [CHR 0x22] @ v @ [CHR 0x22] @ ''}''"
    unfolding json_object_def p0 by (simp add: p_def json_field_def json_string_def json_chars_plain [OF assms])
  show "last_quoted (json_object (ms @ [json_field k (json_string v)])) = v"
    unfolding p last_quoted_def by (simp add: takeWhile_plain [OF assms])
  show "before_last_quoted (json_object (ms @ [json_field k (json_string v)])) = last k" if ne: "k \<noteq> []"
  proof -
    obtain k0 k1 where k: "k = k0 @ [k1]" using ne by (cases k rule: rev_cases) auto
    then show ?thesis unfolding p before_last_quoted_def by (simp add: takeWhile_plain [OF assms])
  qed
qed

text \<open>
  Users are isolated: the inputs hashed for two different user ids differ, whatever the
  requests and modes, the ids being plain text (ids are \<open>usr_\<close> and hex digits, or empty for an
  anonymous caller). So two users can only share a task on a collision of SHA-256.
\<close>

theorem hash_input_user_isolated:
  assumes "hash_input r1 tm1 u1 m1 = Inr d1" "hash_input r2 tm2 u2 m2 = Inr d2"
    and "plain_string u1" "plain_string u2" "u1 \<noteq> u2"
  shows "d1 \<noteq> d2"
proof -
  have modes: "plain_string (normalizeAgentMode m)" for m
    using normalizeAgentMode_cases [of m]
    by (auto simp: plain_string_def json_plain_def AgentModeExpert_def AgentModeQuick_def)
  have shape: "(\<exists>ms. d = json_object (ms @ [json_field ''user_id'' (json_string u)])) \<and> u \<noteq> []
      \<or> (\<exists>ms m. d = json_object (ms @ [json_field ''agent_mode'' (json_string (normalizeAgentMode m))])) \<and> u = []"
    if "hash_input r tm u m = Inr d" for r tm u m d
    using that
    by (auto simp: hash_input_def Let_def hash_members_def split: option.splits if_splits)
      (metis append_Cons append_Nil)+
  have parts: "last_quoted d = u \<and> before_last_quoted d = CHR ''d'' \<and> u \<noteq> []
      \<or> before_last_quoted d = CHR ''e'' \<and> u = []"
    if "hash_input r tm u m = Inr d" "plain_string u" for r tm u m d
    using shape [OF that(1)] quoted_of_object(1) [OF that(2)] quoted_of_object(2) [OF that(2)]
      quoted_of_object(2) [OF modes] by auto
  show ?thesis
    using parts [OF assms(1,3)] parts [OF assms(2,4)] assms(5) by auto
qed

theorem hash_input_user_isolated_witness:
  "\<exists>d1 d2. hash_input sample_request False ''usr_a1'' [] = Inr d1
     \<and> hash_input sample_request False ''usr_b2'' [] = Inr d2 \<and> d1 \<noteq> d2"
proof -
  have "\<exists>d. hash_input sample_request False u [] = Inr d" for u
    by (simp add: hash_input_def Let_def sample_request_def)
  then obtain d1 d2 where d: "hash_input sample_request False ''usr_a1'' [] = Inr d1"
    "hash_input sample_request False ''usr_b2'' [] = Inr d2" by blast
  have "plain_string ''usr_a1''" "plain_string ''usr_b2''" "''usr_a1'' \<noteq> ''usr_b2''"
    by (auto simp: plain_string_def json_plain_def)
  then show ?thesis using hash_input_user_isolated [OF d] d by blast
qed

end
