(* ===== verification/RateLimit.thy ===== *)
theory RateLimit
  imports Tasks
begin

section \<open>The rate limiter and the request lock\<close>

text \<open>
  internal/travel/rate_limiter.go and locks.go: the in-memory implementations. Both read the clock
  once per call, which is the argument \<open>now\<close>. The Redis implementations are in
  theory Redis.
\<close>

subsection \<open>MemoryRateLimiter\<close>

type_synonym 'r RateLimiter = "ctx \<Rightarrow> time \<Rightarrow> string \<Rightarrow> 'r \<Rightarrow> (travel_err + bool) \<times> 'r"

record rateBucket =
  rb_Count :: int
  rb_ExpiresAt :: time

record MemoryRateLimiter =
  rl_limit :: int
  rl_window :: duration
  rl_counters :: "string \<rightharpoonup> rateBucket"

definition NewMemoryRateLimiter :: "int \<Rightarrow> MemoryRateLimiter" where
  "NewMemoryRateLimiter limit =
     \<lparr>rl_limit = (if limit \<le> 0 then 60 else limit), rl_window = minute, rl_counters = Map.empty\<rparr>"

text \<open>A missing key reads as the zero bucket.\<close>

definition bucket_of :: "MemoryRateLimiter \<Rightarrow> string \<Rightarrow> rateBucket" where
  "bucket_of l key =
     (case rl_counters l key of None \<Rightarrow> \<lparr>rb_Count = 0, rb_ExpiresAt = time_zero\<rparr> | Some b \<Rightarrow> b)"

text \<open>The bucket a call at \<open>now\<close> counts in, with the call counted.\<close>

definition bump :: "duration \<Rightarrow> time \<Rightarrow> rateBucket \<Rightarrow> rateBucket" where
  "bump window now b =
     (let b' = (if rb_ExpiresAt b < now then \<lparr>rb_Count = 0, rb_ExpiresAt = now + window\<rparr> else b)
      in b'\<lparr>rb_Count := rb_Count b' + 1\<rparr>)"

definition MemoryRateLimiter_Allow :: "MemoryRateLimiter RateLimiter" where
  "MemoryRateLimiter_Allow c now key l =
     (case ctx_Err c of
        Some e \<Rightarrow> (Inl (ErrCtx e), l)
      | None \<Rightarrow>
          (let b = bump (rl_window l) now (bucket_of l key)
           in (Inr (rb_Count b \<le> rl_limit l), l\<lparr>rl_counters := (rl_counters l)(key \<mapsto> b)\<rparr>)))"

text \<open>
  \<open>strconv.Quote\<close> keeps printable runes and escapes the others; which runes above ASCII are
  printable is a table of the standard library, given as the argument \<open>printable\<close>.
\<close>

definition quote_escape :: "nat \<Rightarrow> string" where
  "quote_escape r =
     (if r = 7 then ''a'' else if r = 8 then ''b'' else if r = 12 then ''f'' else if r = 10 then ''n''
      else if r = 13 then ''r'' else if r = 9 then ''t'' else if r = 11 then ''v''
      else if r < 0x20 \<or> r = 0x7F then ''x'' @ [hex_digit (r div 16), hex_digit (r mod 16)]
      else if r < 0x10000 then
        ''u'' @ [hex_digit (r div 4096), hex_digit (r div 256 mod 16), hex_digit (r div 16 mod 16), hex_digit (r mod 16)]
      else ''U'' @ map (\<lambda>i. hex_digit (r div 16 ^ (7 - i) mod 16)) [0..<8])"

definition quote_rune :: "(nat \<Rightarrow> bool) \<Rightarrow> nat \<Rightarrow> nat \<Rightarrow> nat \<Rightarrow> string" where
  "quote_rune printable b r width =
     (if r = RuneError \<and> width = 1 then [CHR 0x5C] @ ''x'' @ [hex_digit (b div 16), hex_digit (b mod 16)]
      else if r = 0x22 \<or> r = 0x5C then [CHR 0x5C, char_of r]
      else if (0x20 \<le> r \<and> r < 0x7F) \<or> (0x80 \<le> r \<and> printable r) then enc_rune r
      else [CHR 0x5C] @ quote_escape r)"

fun quote_chars :: "(nat \<Rightarrow> bool) \<Rightarrow> string \<Rightarrow> string" where
  "quote_chars printable [] = []"
| "quote_chars printable (c # cs) =
     (case dec_rune (c # cs) of (r, n) \<Rightarrow>
        quote_rune printable (of_char c) r n @ quote_chars printable (drop (n - 1) cs))"

definition Quote :: "(nat \<Rightarrow> bool) \<Rightarrow> string \<Rightarrow> string" where
  "Quote printable s = [CHR 0x22] @ quote_chars printable s @ [CHR 0x22]"

definition clientRateKey :: "(nat \<Rightarrow> bool) \<Rightarrow> string \<Rightarrow> string" where
  "clientRateKey printable ip = (if ip = [] then ''unknown'' else Quote printable ip)"

text \<open>An empty address and a non-empty one never share a key: a quoted key starts with a quote.\<close>

lemma clientRateKey_unknown: "clientRateKey p ip = clientRateKey p [] \<longleftrightarrow> ip = []"
  by (simp add: clientRateKey_def Quote_def)

subsection \<open>How many calls pass\<close>

text \<open>The answers for one key, as a function of the bucket and the instants of its calls.\<close>

fun passed :: "int \<Rightarrow> duration \<Rightarrow> time list \<Rightarrow> rateBucket \<Rightarrow> nat" where
  "passed limit window [] b = 0"
| "passed limit window (t # ts) b =
     (let b' = bump window t b
      in (if rb_Count b' \<le> limit then 1 else 0) + passed limit window ts b')"

text \<open>A run of the limiter over the calls \<open>(key, instant)\<close> of several clients.\<close>

fun allow_run :: "(string \<times> time) list \<Rightarrow> MemoryRateLimiter \<Rightarrow> (string \<times> time \<times> bool) list" where
  "allow_run [] l = []"
| "allow_run ((k, t) # calls) l =
     (case MemoryRateLimiter_Allow background t k l of
        (Inr ok, l') \<Rightarrow> (k, t, ok) # allow_run calls l'
      | (Inl e, l') \<Rightarrow> allow_run calls l')"

lemma bucket_of_Allow [upd]:
  "bucket_of (l\<lparr>rl_counters := (rl_counters l)(k \<mapsto> b)\<rparr>) k' = (if k' = k then b else bucket_of l k')"
  by (simp add: bucket_of_def)

lemma allow_run_passed:
  "length (filter (\<lambda>(k', t, ok). k' = k \<and> ok) (allow_run calls l))
     = passed (rl_limit l) (rl_window l) (map snd (filter (\<lambda>(k', t). k' = k) calls)) (bucket_of l k)"
  by (induction calls arbitrary: l)
    (auto simp: MemoryRateLimiter_Allow_def Let_def upd split: prod.splits)

lemma passed_one_window:
  "\<forall>t \<in> set ts. t \<le> rb_ExpiresAt b \<Longrightarrow> 0 \<le> limit \<Longrightarrow>
     int (passed limit window ts b) \<le> max 0 (limit - rb_Count b)"
proof (induction ts arbitrary: b)
  case (Cons t ts)
  let ?b = "b\<lparr>rb_Count := rb_Count b + 1\<rparr>"
  have b: "bump window t b = ?b" using Cons.prems by (simp add: bump_def)
  have "int (passed limit window ts ?b) \<le> max 0 (limit - rb_Count ?b)"
    by (rule Cons.IH) (use Cons.prems in simp_all)
  then show ?case by (auto simp: b Let_def max_def split: if_splits)
qed simp

lemma passed_two_windows:
  assumes "\<forall>t \<in> set ts. a \<le> t \<and> t \<le> a + window" "0 \<le> limit" "0 \<le> rb_Count b"
  shows "int (passed limit window ts b) \<le> 2 * limit"
proof -
  have "int (passed limit window ts b) \<le> max 0 (limit - rb_Count b) + limit"
    using assms(1)
  proof (induction ts arbitrary: b)
    case (Cons t ts)
    show ?case
    proof (cases "rb_ExpiresAt b < t")
      case True
      let ?b = "\<lparr>rb_Count = 1, rb_ExpiresAt = t + window\<rparr>"
      have b: "bump window t b = ?b" using True by (simp add: bump_def)
      have "\<forall>u \<in> set ts. u \<le> rb_ExpiresAt ?b" using Cons.prems by auto
      then have "int (passed limit window ts ?b) \<le> max 0 (limit - 1)"
        using passed_one_window [of ts ?b limit window] assms(2) by simp
      then show ?thesis using assms(2) by (auto simp: b Let_def max_def split: if_splits)
    next
      case False
      let ?b = "b\<lparr>rb_Count := rb_Count b + 1\<rparr>"
      have b: "bump window t b = ?b" using False by (simp add: bump_def)
      have "int (passed limit window ts ?b) \<le> max 0 (limit - rb_Count ?b) + limit"
        by (rule Cons.IH) (use Cons.prems in simp)
      then show ?thesis by (auto simp: b Let_def max_def split: if_splits)
    qed
  qed (simp add: assms(2))
  then show ?thesis using assms(2,3) by simp
qed

text \<open>
  C6. The rate limiter bounds every client: whatever the calls of all clients and their order, and
  whatever happened before, at most twice the limit of one client's calls inside any interval as
  long as the window are allowed (the interval meets at most two windows); and when the client's
  window covers the interval and has counted nothing yet, at most the limit.
\<close>

theorem MemoryRateLimiter_bound:
  assumes "\<forall>(k', t) \<in> set calls. k' = key \<longrightarrow> a \<le> t \<and> t \<le> a + rl_window l"
    and "0 \<le> rl_limit l" "0 \<le> rb_Count (bucket_of l key)"
  shows "int (length (filter (\<lambda>(k', t, ok). k' = key \<and> ok) (allow_run calls l)))
      \<le> (if rb_Count (bucket_of l key) = 0 \<and> a + rl_window l \<le> rb_ExpiresAt (bucket_of l key)
          then rl_limit l else 2 * rl_limit l)"
proof -
  let ?ts = "map snd (filter (\<lambda>(k', t). k' = key) calls)"
  have ts: "\<forall>t \<in> set ?ts. a \<le> t \<and> t \<le> a + rl_window l" using assms(1) by auto
  have two: "int (passed (rl_limit l) (rl_window l) ?ts (bucket_of l key)) \<le> 2 * rl_limit l"
    by (rule passed_two_windows [OF ts assms(2,3)])
  have one: "int (passed (rl_limit l) (rl_window l) ?ts (bucket_of l key)) \<le> rl_limit l"
    if "rb_Count (bucket_of l key) = 0" "a + rl_window l \<le> rb_ExpiresAt (bucket_of l key)"
  proof -
    have "\<forall>t \<in> set ?ts. t \<le> rb_ExpiresAt (bucket_of l key)" using ts that(2) by fastforce
    from passed_one_window [OF this assms(2), of "rl_window l"] show ?thesis using assms(2) that(1) by simp
  qed
  show ?thesis unfolding allow_run_passed using one two by auto
qed

definition sample_limiter :: MemoryRateLimiter where
  "sample_limiter = NewMemoryRateLimiter 2"

theorem MemoryRateLimiter_bound_witness:
  "int (length (filter (\<lambda>(k', t, ok). k' = ''a'' \<and> ok)
      (allow_run [(''a'', 1), (''b'', 2), (''a'', 3), (''a'', 4), (''a'', 5)] sample_limiter))) \<le> 4"
  using MemoryRateLimiter_bound [of "[(''a'', 1), (''b'', 2), (''a'', 3), (''a'', 4), (''a'', 5)]" "''a''" 1 sample_limiter]
  by (simp add: sample_limiter_def NewMemoryRateLimiter_def bucket_of_def duration_defs)

subsection \<open>MemoryRequestLock\<close>

record MemoryRequestLock =
  lk_locks :: "string \<rightharpoonup> time"
  lk_ttl :: duration

definition NewMemoryRequestLock :: "duration \<Rightarrow> MemoryRequestLock" where
  "NewMemoryRequestLock ttl = \<lparr>lk_locks = Map.empty, lk_ttl = (if ttl \<le> 0 then 15 * second else ttl)\<rparr>"

text \<open>The release function \<open>Acquire\<close> returns: it does nothing, or deletes the entry of its hash.\<close>

datatype release = noopRelease | DeleteLock string

fun run_release :: "release \<Rightarrow> MemoryRequestLock \<Rightarrow> MemoryRequestLock" where
  "run_release noopRelease l = l"
| "run_release (DeleteLock h) l = l\<lparr>lk_locks := (lk_locks l)(h := None)\<rparr>"

definition MemoryRequestLock_Acquire ::
  "ctx \<Rightarrow> time \<Rightarrow> string \<Rightarrow> MemoryRequestLock \<Rightarrow> (travel_err + release \<times> bool) \<times> MemoryRequestLock" where
  "MemoryRequestLock_Acquire c now requestHash l =
     (case ctx_Err c of
        Some e \<Rightarrow> (Inl (ErrCtx e), l)
      | None \<Rightarrow>
          if requestHash = [] then (Inr (noopRelease, True), l)
          else (case lk_locks l requestHash of
                  Some expires \<Rightarrow>
                    if now < expires then (Inr (noopRelease, False), l)
                    else (Inr (DeleteLock requestHash, True),
                          l\<lparr>lk_locks := (lk_locks l)(requestHash \<mapsto> now + lk_ttl l)\<rparr>)
                | None \<Rightarrow>
                    (Inr (DeleteLock requestHash, True),
                     l\<lparr>lk_locks := (lk_locks l)(requestHash \<mapsto> now + lk_ttl l)\<rparr>)))"

text \<open>
  The lock for one hash is held at an instant when its entry has not expired. \<open>lock_act\<close> are the
  actions of all callers: acquiring at an instant, or calling a release function obtained earlier.
\<close>

definition held_at :: "MemoryRequestLock \<Rightarrow> string \<Rightarrow> time \<Rightarrow> bool" where
  "held_at l h t \<longleftrightarrow> (case lk_locks l h of Some expires \<Rightarrow> t < expires | None \<Rightarrow> False)"

datatype lock_act = TryAcquire string time | Release release

fun lock_run :: "lock_act list \<Rightarrow> MemoryRequestLock \<Rightarrow> bool list \<times> MemoryRequestLock" where
  "lock_run [] l = ([], l)"
| "lock_run (TryAcquire h t # acts) l =
     (case MemoryRequestLock_Acquire background t h l of
        (Inr (r, ok), l') \<Rightarrow> (case lock_run acts l' of (oks, l'') \<Rightarrow> (ok # oks, l''))
      | (Inl e, l') \<Rightarrow> lock_run acts l')"
| "lock_run (Release r # acts) l = lock_run acts (run_release r l)"

text \<open>The acquisitions of one hash during \<open>[t0, t1)\<close>, and no release of that hash.\<close>

fun contends :: "string \<Rightarrow> time \<Rightarrow> lock_act \<Rightarrow> bool" where
  "contends h t1 (TryAcquire h' t) \<longleftrightarrow> (h' = h \<longrightarrow> t < t1)"
| "contends h t1 (Release r) \<longleftrightarrow> r \<noteq> DeleteLock h"

lemma Acquire_held:
  "h \<noteq> [] \<Longrightarrow> lk_locks l h = Some e \<Longrightarrow> t < e \<Longrightarrow>
     MemoryRequestLock_Acquire background t h l = (Inr (noopRelease, False), l)"
  by (simp add: MemoryRequestLock_Acquire_def)

lemma Acquire_other:
  "h' \<noteq> h \<Longrightarrow> \<exists>r ok l'. MemoryRequestLock_Acquire background t h' l = (Inr (r, ok), l') \<and> lk_locks l' h = lk_locks l h"
  by (auto simp: MemoryRequestLock_Acquire_def split: option.split)

lemma held_blocks:
  "h \<noteq> [] \<Longrightarrow> lk_locks l h = Some e \<Longrightarrow> \<forall>a \<in> set acts. contends h e a \<Longrightarrow>
     lk_locks (snd (lock_run acts l)) h = Some e
   \<and> (\<forall>i < length acts. \<forall>t. acts ! i = TryAcquire h t \<longrightarrow>
        fst (MemoryRequestLock_Acquire background t h (snd (lock_run (take i acts) l))) = Inr (noopRelease, False))"
proof (induction acts arbitrary: l)
  case (Cons a acts)
  have step: "\<exists>l'. lk_locks l' h = Some e \<and> (\<forall>as. snd (lock_run (a # as) l) = snd (lock_run as l'))"
  proof (cases a)
    case (TryAcquire h' t)
    obtain r ok l' where q: "MemoryRequestLock_Acquire background t h' l = (Inr (r, ok), l')"
      and l': "lk_locks l' h = Some e"
    proof (cases "h' = h")
      case True
      then show thesis using that Acquire_held [of h l e t] Cons.prems TryAcquire by auto
    next
      case False
      then show thesis using that Acquire_other [of h' h t l] Cons.prems(2) by auto
    qed
    have "snd (lock_run (a # as) l) = snd (lock_run as l')" for as
      using q TryAcquire by (simp split: prod.splits)
    then show ?thesis using l' by blast
  next
    case (Release r)
    then have "lk_locks (run_release r l) h = Some e" using Cons.prems by (cases r) auto
    then show ?thesis using Release by auto
  qed
  then obtain l' where l': "lk_locks l' h = Some e"
    and eq: "\<And>as. snd (lock_run (a # as) l) = snd (lock_run as l')" by blast
  have ih: "lk_locks (snd (lock_run acts l')) h = Some e"
    "\<And>i t. i < length acts \<Longrightarrow> acts ! i = TryAcquire h t \<Longrightarrow>
        fst (MemoryRequestLock_Acquire background t h (snd (lock_run (take i acts) l'))) = Inr (noopRelease, False)"
    using Cons.IH [OF Cons.prems(1) l'] Cons.prems(3) by auto
  have "fst (MemoryRequestLock_Acquire background t h (snd (lock_run (take i (a # acts)) l))) = Inr (noopRelease, False)"
    if i: "i < length (a # acts)" "(a # acts) ! i = TryAcquire h t" for i t
  proof (cases i)
    case 0
    then show ?thesis using i Cons.prems by (auto simp: MemoryRequestLock_Acquire_def)
  next
    case (Suc j)
    then show ?thesis using i ih(2) [of j t] eq by simp
  qed
  then show ?case using ih(1) eq by simp
qed simp

text \<open>
  Mutual exclusion within the time-to-live: once a caller has acquired the lock of a request
  hash at \<open>t0\<close>, every other attempt on that hash before \<open>t0 + ttl\<close> is refused with a no-op release,
  whatever is acquired and released for other hashes in between, as long as the holder does not
  release.
\<close>

theorem MemoryRequestLock_exclusive:
  assumes "h \<noteq> []"
    and "MemoryRequestLock_Acquire background t0 h l = (Inr (r, True), l')"
    and "\<forall>a \<in> set acts. contends h (t0 + lk_ttl l) a"
    and "i < length acts" "acts ! i = TryAcquire h t"
  shows "fst (MemoryRequestLock_Acquire background t h (snd (lock_run (take i acts) l')))
       = Inr (noopRelease, False)"
proof -
  have "lk_locks l' h = Some (t0 + lk_ttl l)"
    using assms(1,2) by (auto simp: MemoryRequestLock_Acquire_def split: option.splits if_splits)
  from held_blocks [OF assms(1) this assms(3)] show ?thesis using assms(4,5) by blast
qed

theorem MemoryRequestLock_exclusive_witness:
  "fst (MemoryRequestLock_Acquire background 7 ''h''
     (snd (lock_run [TryAcquire ''g'' 6] (snd (MemoryRequestLock_Acquire background 5 ''h'' (NewMemoryRequestLock 10))))))
   = Inr (noopRelease, False)"
  using MemoryRequestLock_exclusive [of "''h''" 5 "NewMemoryRequestLock 10" "DeleteLock ''h''"
      "snd (MemoryRequestLock_Acquire background 5 ''h'' (NewMemoryRequestLock 10))"
      "[TryAcquire ''g'' 6, TryAcquire ''h'' 7]" 1 7]
  by (simp add: MemoryRequestLock_Acquire_def NewMemoryRequestLock_def)

text \<open>
  The release of a lock is not bound to its holder: when a caller keeps its release function
  past the time-to-live, another caller acquires the lock, and the first caller's release then
  deletes the second caller's entry, so a third caller acquires the lock while the second still
  holds it. (The Redis implementation compares a token before it deletes.)
\<close>

theorem stale_release_breaks_exclusion:
  assumes "h \<noteq> []" "lk_locks l h = None" "t0 + lk_ttl l \<le> t1" "t1 \<le> t2" "t2 < t1 + lk_ttl l"
  shows "fst (lock_run [TryAcquire h t0, TryAcquire h t1, Release (DeleteLock h), TryAcquire h t2] l)
       = [True, True, True]
     \<and> held_at (snd (lock_run [TryAcquire h t0, TryAcquire h t1] l)) h t2"
  using assms by (simp add: MemoryRequestLock_Acquire_def held_at_def)

theorem stale_release_breaks_exclusion_witness:
  "fst (lock_run [TryAcquire ''h'' 0, TryAcquire ''h'' 20, Release (DeleteLock ''h''), TryAcquire ''h'' 25]
     (NewMemoryRequestLock 10)) = [True, True, True]
   \<and> held_at (snd (lock_run [TryAcquire ''h'' 0, TryAcquire ''h'' 20] (NewMemoryRequestLock 10))) ''h'' 25"
  using stale_release_breaks_exclusion [of "''h''" "NewMemoryRequestLock 10" 0 20 25]
  by (simp add: NewMemoryRequestLock_def)

end
