(* ===== verification/EventBus.thy ===== *)
theory EventBus
  imports Tasks
begin

section \<open>The event bus\<close>

text \<open>
  internal/travel/events.go and event_bus.go. A channel is a bounded buffer with a closed flag,
  allocated under a fresh number; the subscribers of a task are the numbers of its channels.
  \<open>Publish\<close> has two phases, as in the code: it numbers and records the event under the lock and
  takes a snapshot of the subscribers, then it sends to each channel after unlocking, without
  blocking. A send on a closed channel is a panic.
\<close>

type_synonym EventType = string

definition EventProgress :: EventType where "EventProgress = ''progress''"
definition EventWarning :: EventType where "EventWarning = ''warning''"
definition EventError :: EventType where "EventError = ''error''"
definition EventDone :: EventType where "EventDone = ''done''"
definition EventNode :: EventType where "EventNode = ''node''"
definition EventAssistantDelta :: EventType where "EventAssistantDelta = ''assistant_delta''"
definition EventAssistantDone :: EventType where "EventAssistantDone = ''assistant_done''"

lemmas event_type_defs = EventProgress_def EventWarning_def EventError_def EventDone_def EventNode_def
  EventAssistantDelta_def EventAssistantDone_def

text \<open>A missing status is \<open>None\<close>: the empty string the zero event has.\<close>

record TaskEvent =
  ev_Type :: EventType
  ev_RequestID :: string
  ev_TaskID :: string
  ev_Status :: "TaskStatus option"
  ev_Message :: string
  ev_Plan :: "TravelPlan option"
  ev_Brief :: "TravelRequest option"
  ev_Day :: "TravelDay option"
  ev_POIs :: "POIInfo list"
  ev_Weather :: "WeatherInfo list"
  ev_Routes :: "RouteInfo list"
  ev_Budget :: "TravelBudget option"
  ev_NodeName :: string
  ev_NodeStatus :: string
  ev_DurationMs :: int
  ev_Draft :: bool
  ev_Sequence :: int
  ev_CreatedAt :: time

definition zero_event :: TaskEvent where
  "zero_event = \<lparr>ev_Type = [], ev_RequestID = [], ev_TaskID = [], ev_Status = None, ev_Message = [],
     ev_Plan = None, ev_Brief = None, ev_Day = None, ev_POIs = [], ev_Weather = [], ev_Routes = [],
     ev_Budget = None, ev_NodeName = [], ev_NodeStatus = [], ev_DurationMs = 0, ev_Draft = False,
     ev_Sequence = 0, ev_CreatedAt = 0\<rparr>"

definition eventHistoryLimit :: nat where "eventHistoryLimit = 100"

record channel =
  ch_buf :: "TaskEvent list"
  ch_cap :: nat
  ch_closed :: bool

record EventBus =
  eb_subscribers :: "string \<Rightarrow> nat list"
  eb_history :: "string \<Rightarrow> TaskEvent list"
  eb_sequences :: "string \<Rightarrow> int"
  eb_channels :: "nat \<Rightarrow> channel"
  eb_next :: nat

definition NewEventBus :: EventBus where
  "NewEventBus = \<lparr>eb_subscribers = (\<lambda>_. []), eb_history = (\<lambda>_. []), eb_sequences = (\<lambda>_. 0),
     eb_channels = (\<lambda>_. \<lparr>ch_buf = [], ch_cap = 0, ch_closed = False\<rparr>), eb_next = 0\<rparr>"

subsection \<open>Operations\<close>

text \<open>The locked phase: the numbered event, the channels to send to, and the new bus.\<close>

definition publish_locked :: "TaskEvent \<Rightarrow> EventBus \<Rightarrow> TaskEvent \<times> nat list \<times> EventBus" where
  "publish_locked event b =
     (let i = ev_TaskID event
      in if i \<noteq> [] then
           (let n = eb_sequences b i + 1;
                event' = event\<lparr>ev_Sequence := n\<rparr>
            in (event', eb_subscribers b i,
                b\<lparr>eb_sequences := (eb_sequences b)(i := n),
                  eb_history := (eb_history b)(i := take_last eventHistoryLimit (eb_history b i @ [event']))\<rparr>))
         else (event, eb_subscribers b i, b))"

text \<open>
  One \<open>select { case ch <- event: default: }\<close>: \<open>None\<close> is the panic of a send on a closed channel,
  a full buffer drops the event.
\<close>

definition send :: "TaskEvent \<Rightarrow> nat \<Rightarrow> EventBus \<Rightarrow> EventBus option" where
  "send event ch b =
     (let q = eb_channels b ch
      in if ch_closed q then None
         else if length (ch_buf q) < ch_cap q
              then Some (b\<lparr>eb_channels := (eb_channels b)(ch := q\<lparr>ch_buf := ch_buf q @ [event]\<rparr>)\<rparr>)
              else Some b)"

fun send_all :: "TaskEvent \<Rightarrow> nat list \<Rightarrow> EventBus \<Rightarrow> EventBus option" where
  "send_all event [] b = Some b"
| "send_all event (ch # chs) b =
     (case send event ch b of None \<Rightarrow> None | Some b' \<Rightarrow> send_all event chs b')"

definition Publish :: "TaskEvent \<Rightarrow> EventBus \<Rightarrow> EventBus option" where
  "Publish event b =
     (case publish_locked event b of (event', chs, b') \<Rightarrow> send_all event' chs b')"

text \<open>The channel gets the history and room for 16 more events.\<close>

definition Subscribe :: "string \<Rightarrow> EventBus \<Rightarrow> nat \<times> EventBus" where
  "Subscribe taskID b =
     (let history = eb_history b taskID; ch = eb_next b
      in (ch, b\<lparr>eb_channels := (eb_channels b)
                  (ch := \<lparr>ch_buf = history, ch_cap = length history + 16, ch_closed = False\<rparr>),
               eb_subscribers := (eb_subscribers b)(taskID := eb_subscribers b taskID @ [ch]),
               eb_next := ch + 1\<rparr>))"

text \<open>The unsubscribe function; closing a closed channel panics.\<close>

definition unsubscribe :: "string \<Rightarrow> nat \<Rightarrow> EventBus \<Rightarrow> EventBus option" where
  "unsubscribe taskID ch b =
     (let b' = b\<lparr>eb_subscribers := (eb_subscribers b)(taskID := removeAll ch (eb_subscribers b taskID))\<rparr>;
          q = eb_channels b ch
      in if ch_closed q then None
         else Some (b'\<lparr>eb_channels := (eb_channels b)(ch := q\<lparr>ch_closed := True\<rparr>)\<rparr>))"

definition History :: "string \<Rightarrow> EventBus \<Rightarrow> TaskEvent list" where
  "History taskID b = eb_history b taskID"

definition SubscriberCount :: "string \<Rightarrow> EventBus \<Rightarrow> nat" where
  "SubscriberCount taskID b = length (eb_subscribers b taskID)"

text \<open>A receive by the owner of a channel: the oldest buffered event.\<close>

definition recv :: "nat \<Rightarrow> EventBus \<Rightarrow> TaskEvent option \<times> EventBus" where
  "recv ch b =
     (let q = eb_channels b ch
      in case ch_buf q of
           [] \<Rightarrow> (None, b)
         | e # es \<Rightarrow> (Some e, b\<lparr>eb_channels := (eb_channels b)(ch := q\<lparr>ch_buf := es\<rparr>)\<rparr>))"

subsection \<open>Runs\<close>

text \<open>
  The steps of all goroutines at the granularity of whole operations: a step relation on buses.
  A subscriber unsubscribes its own channel once (the handler defers the call).
\<close>

inductive bus_step :: "EventBus \<Rightarrow> EventBus \<Rightarrow> bool" where
  step_publish: "Publish e b = Some b' \<Longrightarrow> bus_step b b'"
| step_subscribe: "Subscribe i b = (ch, b') \<Longrightarrow> bus_step b b'"
| step_unsubscribe: "ch \<in> set (eb_subscribers b i) \<Longrightarrow> unsubscribe i ch b = Some b' \<Longrightarrow> bus_step b b'"
| step_recv: "recv ch b = (r, b') \<Longrightarrow> bus_step b b'"

inductive bus_reachable :: "EventBus \<Rightarrow> bool" where
  reach_new: "bus_reachable NewEventBus"
| reach_step: "bus_reachable b \<Longrightarrow> bus_step b b' \<Longrightarrow> bus_reachable b'"

inductive_cases bus_stepE: "bus_step b b'"

text \<open>
  The history of a task is the last events published for it, numbered without gap up to the
  counter; subscribed channels are allocated, open and subscribed once, for one task; a buffer
  holds numbered events of one task in increasing order.
\<close>

definition numbered :: "string \<Rightarrow> EventBus \<Rightarrow> bool" where
  "numbered i b \<longleftrightarrow>
     map ev_Sequence (eb_history b i)
       = [eb_sequences b i - int (length (eb_history b i)) + 1 .. eb_sequences b i]
   \<and> int (length (eb_history b i)) = min (int eventHistoryLimit) (eb_sequences b i)
   \<and> 0 \<le> eb_sequences b i
   \<and> (\<forall>e \<in> set (eb_history b i). ev_TaskID e = i)
   \<and> (i = [] \<longrightarrow> eb_sequences b i = 0)"

definition channels_ok :: "EventBus \<Rightarrow> bool" where
  "channels_ok b \<longleftrightarrow>
     (\<forall>i. distinct (eb_subscribers b i))
   \<and> (\<forall>i. \<forall>ch \<in> set (eb_subscribers b i). ch < eb_next b \<and> \<not> ch_closed (eb_channels b ch))
   \<and> (\<forall>i j ch. ch \<in> set (eb_subscribers b i) \<longrightarrow> ch \<in> set (eb_subscribers b j) \<longrightarrow> i = j)"

definition ordered_buf :: "EventBus \<Rightarrow> nat \<Rightarrow> bool" where
  "ordered_buf b ch \<longleftrightarrow>
     (\<forall>i. ch \<in> set (eb_subscribers b i) \<longrightarrow> i \<noteq> [] \<longrightarrow>
        sorted_wrt (<) (map ev_Sequence (ch_buf (eb_channels b ch)))
      \<and> (\<forall>e \<in> set (ch_buf (eb_channels b ch)). ev_TaskID e = i \<and> ev_Sequence e \<le> eb_sequences b i))"

definition bus_ok :: "EventBus \<Rightarrow> bool" where
  "bus_ok b \<longleftrightarrow> (\<forall>i. numbered i b) \<and> channels_ok b \<and> (\<forall>ch. ordered_buf b ch)"

subsection \<open>The invariant\<close>

lemma drop_upto_int: "drop n [a..b] = [a + int n..b]"
  by (rule nth_equalityI) (auto simp: nth_upto nat_diff_distrib)

lemma upto_snoc: "a \<le> b + 1 \<Longrightarrow> [a..b] @ [b + 1] = [a..b + 1]"
  using upto_rec2 [of a "b + 1"] by simp

lemma numbered_cong:
  "eb_history b' i = eb_history b i \<Longrightarrow> eb_sequences b' i = eb_sequences b i \<Longrightarrow> numbered i b' = numbered i b"
  by (cases "i = []") (simp_all add: numbered_def)

lemma numbered_publish:
  assumes "numbered i b" "ev_TaskID e = i" "i \<noteq> []"
    and "publish_locked e b = (e', chs, b')"
  shows "numbered i b'"
proof -
  define n where "n = eb_sequences b i"
  define h where "h = eb_history b i"
  have h: "map ev_Sequence h = [n - int (length h) + 1..n]"
    "int (length h) = min (int eventHistoryLimit) n" "0 \<le> n" "\<forall>e \<in> set h. ev_TaskID e = i"
    using assms(1) by (auto simp: numbered_def n_def h_def)
  have b': "eb_sequences b' i = n + 1" "eb_history b' i = take_last eventHistoryLimit (h @ [e\<lparr>ev_Sequence := n + 1\<rparr>])"
    using assms(2-4) by (auto simp: publish_locked_def Let_def n_def h_def)
  have "map ev_Sequence (h @ [e\<lparr>ev_Sequence := n + 1\<rparr>]) = [n - int (length h) + 1..n + 1]"
    using h(2,3) by (simp add: h(1) upto_snoc)
  then have seqs: "map ev_Sequence (eb_history b' i)
      = [n - int (length h) + 1 + int (length h + 1 - eventHistoryLimit)..n + 1]"
    unfolding b' take_last_def by (simp add: drop_map [symmetric] drop_upto_int del: drop_append map_append)
  have len: "length (eb_history b' i) = min eventHistoryLimit (length h + 1)"
    by (simp add: b')
  show ?thesis
    unfolding numbered_def
  proof (intro conjI)
    show "map ev_Sequence (eb_history b' i)
        = [eb_sequences b' i - int (length (eb_history b' i)) + 1..eb_sequences b' i]"
      unfolding seqs len b'(1) by (rule arg_cong2 [where f = upto]) auto
    show "int (length (eb_history b' i)) = min (int eventHistoryLimit) (eb_sequences b' i)"
      unfolding len b'(1) using h(2,3) by auto
    show "\<forall>e \<in> set (eb_history b' i). ev_TaskID e = i"
      using h(4) assms(2) set_take_last [of eventHistoryLimit "h @ [e\<lparr>ev_Sequence := n + 1\<rparr>]"]
      by (auto simp: b')
  qed (use h(3) b' assms(3) in auto)
qed

lemma send_open:
  assumes "\<not> ch_closed (eb_channels b ch)"
  shows "\<exists>b'. send e ch b = Some b' \<and> eb_subscribers b' = eb_subscribers b \<and> eb_history b' = eb_history b
     \<and> eb_sequences b' = eb_sequences b \<and> eb_next b' = eb_next b
     \<and> (\<forall>c. ch_closed (eb_channels b' c) = ch_closed (eb_channels b c))
     \<and> (\<forall>c. ch_cap (eb_channels b' c) = ch_cap (eb_channels b c))
     \<and> (\<forall>c. ch_buf (eb_channels b' c) = ch_buf (eb_channels b c)
            @ (if c = ch \<and> length (ch_buf (eb_channels b c)) < ch_cap (eb_channels b c) then [e] else []))"
  using assms by (auto simp: send_def Let_def)

lemma send_all_open:
  assumes "\<forall>ch \<in> set chs. \<not> ch_closed (eb_channels b ch)" "distinct chs"
  shows "\<exists>b'. send_all e chs b = Some b' \<and> eb_subscribers b' = eb_subscribers b \<and> eb_history b' = eb_history b
     \<and> eb_sequences b' = eb_sequences b \<and> eb_next b' = eb_next b
     \<and> (\<forall>c. ch_closed (eb_channels b' c) = ch_closed (eb_channels b c))
     \<and> (\<forall>c. ch_cap (eb_channels b' c) = ch_cap (eb_channels b c))
     \<and> (\<forall>c. ch_buf (eb_channels b' c) = ch_buf (eb_channels b c)
            @ (if c \<in> set chs \<and> length (ch_buf (eb_channels b c)) < ch_cap (eb_channels b c) then [e] else []))"
  using assms
proof (induction chs arbitrary: b)
  case (Cons ch chs)
  obtain b1 where b1: "send e ch b = Some b1" "eb_subscribers b1 = eb_subscribers b"
    "eb_history b1 = eb_history b" "eb_sequences b1 = eb_sequences b" "eb_next b1 = eb_next b"
    "\<forall>c. ch_closed (eb_channels b1 c) = ch_closed (eb_channels b c)"
    "\<forall>c. ch_cap (eb_channels b1 c) = ch_cap (eb_channels b c)"
    "\<forall>c. ch_buf (eb_channels b1 c) = ch_buf (eb_channels b c)
            @ (if c = ch \<and> length (ch_buf (eb_channels b c)) < ch_cap (eb_channels b c) then [e] else [])"
    using send_open [of b ch e] Cons.prems by auto
  have "\<forall>c \<in> set chs. \<not> ch_closed (eb_channels b1 c)" "distinct chs" using Cons.prems b1(6) by auto
  from Cons.IH [OF this] show ?case using b1 Cons.prems(2) by (auto split: if_splits)
qed simp

lemma publish_locked_frame:
  assumes "publish_locked e b = (e', chs, b')"
  shows "chs = eb_subscribers b (ev_TaskID e)" "eb_subscribers b' = eb_subscribers b"
    "eb_channels b' = eb_channels b" "eb_next b' = eb_next b" "ev_TaskID e' = ev_TaskID e"
    "i \<noteq> ev_TaskID e \<Longrightarrow> eb_history b' i = eb_history b i \<and> eb_sequences b' i = eb_sequences b i"
    "ev_TaskID e \<noteq> [] \<Longrightarrow> ev_Sequence e' = eb_sequences b (ev_TaskID e) + 1
       \<and> eb_sequences b' (ev_TaskID e) = eb_sequences b (ev_TaskID e) + 1"
    "ev_TaskID e = [] \<Longrightarrow> b' = b"
  using assms by (auto simp: publish_locked_def Let_def split: if_splits)

lemma Publish_ok:
  assumes ok: "bus_ok b"
  shows "\<exists>b'. Publish e b = Some b' \<and> bus_ok b'"
proof -
  obtain e' chs b1 where p: "publish_locked e b = (e', chs, b1)" by (cases "publish_locked e b") auto
  note f = publish_locked_frame [OF p]
  let ?i = "ev_TaskID e"
  have ch: "channels_ok b" using ok by (simp add: bus_ok_def)
  have open_: "\<forall>c \<in> set chs. \<not> ch_closed (eb_channels b1 c)" "distinct chs"
    using ch unfolding f(1,3) channels_ok_def by blast+
  obtain b2 where b2: "send_all e' chs b1 = Some b2" "eb_subscribers b2 = eb_subscribers b"
    "eb_history b2 = eb_history b1" "eb_sequences b2 = eb_sequences b1" "eb_next b2 = eb_next b"
    "\<forall>c. ch_closed (eb_channels b2 c) = ch_closed (eb_channels b c)"
    "\<forall>c. ch_buf (eb_channels b2 c) = ch_buf (eb_channels b c)
        @ (if c \<in> set chs \<and> length (ch_buf (eb_channels b c)) < ch_cap (eb_channels b c) then [e'] else [])"
    using send_all_open [OF open_, of e'] f(2-4) by auto
  have num: "numbered i b2" for i
  proof -
    have "numbered i b1"
    proof (cases "i = ?i \<and> i \<noteq> []")
      case True
      have "numbered i b" using ok unfolding bus_ok_def by blast
      then show ?thesis by (rule numbered_publish [OF _ _ _ p]) (use True in auto)
    next
      case False
      have "numbered i b" using ok unfolding bus_ok_def by blast
      moreover have "eb_history b1 i = eb_history b i" "eb_sequences b1 i = eb_sequences b i"
        using False f(6) [of i] f(8) by (cases "i = ?i"; auto)+
      ultimately show ?thesis using numbered_cong by blast
    qed
    then show ?thesis using numbered_cong [of b2 i b1] b2(3,4) by simp
  qed
  have "ordered_buf b2 c" for c
    unfolding ordered_buf_def
  proof (intro allI impI)
    fix i assume c: "c \<in> set (eb_subscribers b2 i)" "i \<noteq> []"
    then have old: "sorted_wrt (<) (map ev_Sequence (ch_buf (eb_channels b c)))"
      "\<forall>x \<in> set (ch_buf (eb_channels b c)). ev_TaskID x = i \<and> ev_Sequence x \<le> eb_sequences b i"
      using ok b2(2) by (auto simp: bus_ok_def ordered_buf_def)
    show "sorted_wrt (<) (map ev_Sequence (ch_buf (eb_channels b2 c)))
        \<and> (\<forall>x \<in> set (ch_buf (eb_channels b2 c)). ev_TaskID x = i \<and> ev_Sequence x \<le> eb_sequences b2 i)"
    proof (cases "i = ?i")
      case True
      then have s: "ev_Sequence e' = eb_sequences b i + 1" "eb_sequences b2 i = eb_sequences b i + 1"
        "ev_TaskID e' = i"
        using f(5,7) c b2(4) by auto
      have "\<forall>x \<in> set (ch_buf (eb_channels b c)). ev_Sequence x < ev_Sequence e'" using old(2) s by force
      then show ?thesis using old s b2(7) by (auto simp: sorted_wrt_append)
    next
      case False
      then have "c \<notin> set chs" using c ch b2(2) f(1) unfolding channels_ok_def by metis
      moreover have "eb_sequences b2 i = eb_sequences b i" using f(6) [of i] False b2(4) by simp
      ultimately show ?thesis using old b2(7) by simp
    qed
  qed
  moreover have "channels_ok b2" using ch b2 by (simp add: channels_ok_def)
  moreover have "Publish e b = Some b2" using p b2(1) by (simp add: Publish_def)
  ultimately show ?thesis using num unfolding bus_ok_def by blast
qed

lemma Subscribe_ok:
  assumes "bus_ok b" "Subscribe i b = (ch, b')"
  shows "bus_ok b'"
proof -
  have b': "ch = eb_next b" "eb_history b' = eb_history b" "eb_sequences b' = eb_sequences b"
    "eb_next b' = eb_next b + 1" "eb_subscribers b' = (eb_subscribers b)(i := eb_subscribers b i @ [ch])"
    "eb_channels b' = (eb_channels b)(ch := \<lparr>ch_buf = eb_history b i, ch_cap = length (eb_history b i) + 16,
        ch_closed = False\<rparr>)"
    using assms(2) by (auto simp: Subscribe_def Let_def)
  have ch: "channels_ok b" and num: "\<And>i. numbered i b" and ord: "\<And>c. ordered_buf b c"
    using assms(1) by (simp_all add: bus_ok_def)
  have fresh: "\<And>j. ch \<notin> set (eb_subscribers b j)" using ch b'(1) by (auto simp: channels_ok_def)
  have "channels_ok b'"
    unfolding channels_ok_def
  proof (intro conjI allI ballI impI)
    fix j show "distinct (eb_subscribers b' j)" using ch fresh by (auto simp: channels_ok_def b'(5))
  next
    fix j c assume "c \<in> set (eb_subscribers b' j)"
    then show "c < eb_next b'" "\<not> ch_closed (eb_channels b' c)"
      using ch b'(1) by (auto simp: channels_ok_def b'(4-6) less_SucI split: if_splits)
  next
    fix j k c assume c: "c \<in> set (eb_subscribers b' j)" "c \<in> set (eb_subscribers b' k)"
    show "j = k"
    proof (cases "c = ch")
      case True
      then show ?thesis using c fresh by (simp add: b'(5) split: if_splits)
    next
      case False
      then have "c \<in> set (eb_subscribers b j)" "c \<in> set (eb_subscribers b k)"
        using c by (auto simp: b'(5) split: if_splits)
      then show ?thesis using ch unfolding channels_ok_def by blast
    qed
  qed
  moreover have "numbered j b'" for j using num [of j] numbered_cong [of b' j b] b'(2,3) by simp
  moreover have "ordered_buf b' c" for c
  proof (cases "c = ch")
    case True
    have h: "map ev_Sequence (eb_history b i) =
        [eb_sequences b i - int (length (eb_history b i)) + 1 .. eb_sequences b i]"
      "\<forall>e \<in> set (eb_history b i). ev_TaskID e = i"
      using num [of i] unfolding numbered_def by blast+
    have "ev_Sequence ` set (eb_history b i) = set (map ev_Sequence (eb_history b i))" by simp
    then have "\<forall>e \<in> set (eb_history b i). ev_Sequence e \<le> eb_sequences b i"
      unfolding h(1) by (auto simp: set_upto)
    moreover have "sorted_wrt (<) (map ev_Sequence (eb_history b i))" unfolding h(1) by simp
    ultimately show ?thesis using True fresh h(2) by (auto simp: ordered_buf_def b'(3,5,6) split: if_splits)
  next
    case False
    then show ?thesis using ord [of c] by (auto simp: ordered_buf_def b'(3,5,6) split: if_splits)
  qed
  ultimately show ?thesis unfolding bus_ok_def by blast
qed

lemma unsubscribe_ok:
  assumes "bus_ok b" "unsubscribe i ch b = Some b'"
    and "ch \<in> set (eb_subscribers b i)"
  shows "bus_ok b'"
proof -
  have b': "eb_history b' = eb_history b" "eb_sequences b' = eb_sequences b" "eb_next b' = eb_next b"
    "eb_subscribers b' = (eb_subscribers b)(i := removeAll ch (eb_subscribers b i))"
    "eb_channels b' = (eb_channels b)(ch := (eb_channels b ch)\<lparr>ch_closed := True\<rparr>)"
    using assms(2) by (auto simp: unsubscribe_def Let_def split: if_splits)
  have ch: "channels_ok b" and num: "\<And>i. numbered i b" and ord: "\<And>c. ordered_buf b c"
    using assms(1) by (simp_all add: bus_ok_def)
  have gone: "ch \<notin> set (eb_subscribers b' j)" for j
    using ch assms(3) unfolding channels_ok_def b'(4) by auto
  have sub: "set (eb_subscribers b' j) \<subseteq> set (eb_subscribers b j)" for j by (auto simp: b'(4))
  have "channels_ok b'"
    unfolding channels_ok_def
  proof (intro conjI allI ballI impI)
    fix j show "distinct (eb_subscribers b' j)" using ch by (auto simp: channels_ok_def b'(4) distinct_removeAll)
  next
    fix j c assume "c \<in> set (eb_subscribers b' j)"
    then show "c < eb_next b'" "\<not> ch_closed (eb_channels b' c)"
      using ch sub [of j] gone [of j] unfolding channels_ok_def b'(3,5) by auto
  next
    fix j k c assume "c \<in> set (eb_subscribers b' j)" "c \<in> set (eb_subscribers b' k)"
    then show "j = k" using ch sub [of j] sub [of k] unfolding channels_ok_def by blast
  qed
  moreover have "numbered j b'" for j using num [of j] numbered_cong [of b' j b] b'(1,2) by simp
  moreover have "ordered_buf b' c" for c
    using ord [of c] sub gone unfolding ordered_buf_def b'(2,5) by (cases "c = ch") auto
  ultimately show ?thesis unfolding bus_ok_def by blast
qed

lemma recv_ok:
  assumes "bus_ok b" "recv ch b = (r, b')"
  shows "bus_ok b'"
proof (cases "ch_buf (eb_channels b ch)")
  case Nil
  then show ?thesis using assms by (simp add: recv_def Let_def)
next
  case (Cons e es)
  have b': "b' = b\<lparr>eb_channels := (eb_channels b)(ch := (eb_channels b ch)\<lparr>ch_buf := es\<rparr>)\<rparr>"
    using assms(2) Cons by (simp add: recv_def Let_def)
  have ch: "channels_ok b" and num: "\<And>i. numbered i b" and ord: "\<And>c. ordered_buf b c"
    using assms(1) by (simp_all add: bus_ok_def)
  have "channels_ok b'" using ch unfolding channels_ok_def b' by simp
  moreover have "numbered i b'" for i using num [of i] numbered_cong [of b' i b] by (simp add: b')
  moreover have "ordered_buf b' c" for c
    using ord [of c] Cons unfolding ordered_buf_def b' by (cases "c = ch") auto
  ultimately show ?thesis unfolding bus_ok_def by blast
qed

lemma NewEventBus_ok [simp]: "bus_ok NewEventBus"
  by (simp add: bus_ok_def NewEventBus_def numbered_def channels_ok_def ordered_buf_def eventHistoryLimit_def)

lemma bus_step_ok:
  assumes "bus_step b b'" "bus_ok b"
  shows "bus_ok b'"
  using assms
proof cases
  case (step_publish e)
  then show ?thesis using Publish_ok [OF assms(2), of e] by auto
qed (use assms(2) Subscribe_ok unsubscribe_ok recv_ok in blast)+



text \<open>
  Publishing as a whole never panics: in every reachable state \<open>Publish\<close> returns, whatever the
  event and however slow the subscribers (full buffers drop the event).
\<close>

theorem Publish_total:
  assumes "bus_reachable b"
  shows "\<exists>b'. Publish e b = Some b' \<and> bus_reachable b'"
proof -
  have "bus_ok b" using assms by induction (auto intro: bus_step_ok)
  then obtain b' where "Publish e b = Some b'" using Publish_ok by blast
  then show ?thesis using assms reach_step step_publish by blast
qed

theorem Publish_total_witness: "\<exists>b'. Publish zero_event NewEventBus = Some b' \<and> bus_reachable b'"
  using Publish_total [OF reach_new] .

text \<open>
  But its two phases may be interrupted: when a subscriber takes a snapshot of the bus's
  subscribers into account and unsubscribes between the locked phase and the send, the publisher
  sends on a closed channel and panics. The lock is not held while the events are sent.
\<close>

theorem Publish_race_panics:
  assumes "bus_reachable b" "ch \<in> set (eb_subscribers b (ev_TaskID e))"
    and "publish_locked e b = (e', chs, b1)"
  shows "\<exists>b2. unsubscribe (ev_TaskID e) ch b1 = Some b2 \<and> send_all e' chs b2 = None"
proof -
  have ok: "bus_ok b" using assms(1) by induction (auto intro: bus_step_ok)
  note f = publish_locked_frame [OF assms(3)]
  have "\<not> ch_closed (eb_channels b1 ch)"
    using ok assms(2) unfolding f(3) bus_ok_def channels_ok_def by blast
  then obtain b2 where b2: "unsubscribe (ev_TaskID e) ch b1 = Some b2"
    by (auto simp: unsubscribe_def Let_def)
  have closed: "ch_closed (eb_channels b2 ch)" using b2 by (auto simp: unsubscribe_def Let_def split: if_splits)
  have "ch_closed (eb_channels b3 ch) \<Longrightarrow> ch \<in> set cs \<Longrightarrow> send_all e' cs b3 = None" for cs b3
  proof (induction cs arbitrary: b3)
    case (Cons c cs)
    show ?case
    proof (cases "send e' c b3")
      case (Some b4)
      then have "ch_closed (eb_channels b4 ch)" "c \<noteq> ch"
        using Cons.prems(1) by (auto simp: send_def Let_def split: if_splits)
      then show ?thesis using Some Cons by simp
    qed simp
  qed simp
  then show ?thesis using b2 closed assms(2) f(1) by blast
qed

theorem Publish_race_panics_witness:
  "\<exists>b2. unsubscribe ''t'' 0 (snd (snd (publish_locked (zero_event\<lparr>ev_TaskID := ''t''\<rparr>) (snd (Subscribe ''t'' NewEventBus))))) = Some b2
     \<and> send_all (fst (publish_locked (zero_event\<lparr>ev_TaskID := ''t''\<rparr>) (snd (Subscribe ''t'' NewEventBus)))) [0] b2 = None"
proof -
  have r: "bus_reachable (snd (Subscribe ''t'' NewEventBus))"
    using reach_step [OF reach_new step_subscribe] by (metis prod.collapse)
  have "0 \<in> set (eb_subscribers (snd (Subscribe ''t'' NewEventBus)) ''t'')"
    by (simp add: Subscribe_def Let_def NewEventBus_def)
  then show ?thesis
    using Publish_race_panics [OF r, of 0 "zero_event\<lparr>ev_TaskID := ''t''\<rparr>"]
    by (simp add: Subscribe_def Let_def NewEventBus_def publish_locked_def zero_event_def)
qed

end
