(* ===== verification/Go_Time.thy ===== *)
theory Go_Time
  imports Go_Text Float64
begin

section \<open>Calendar and RFC 3339\<close>

text \<open>
  \<open>time.Time.Format(time.RFC3339)\<close> for an instant in UTC: the proleptic Gregorian calendar from
  the number of days since January 1st of year 1, by cycles of 400, 100, 4 and 1 years.
\<close>

definition day_ns :: int where "day_ns = 24 * hour"

text \<open>The year and the day of the year (from 0) of day number \<open>d\<close>.\<close>

definition year_day :: "int \<Rightarrow> int \<times> int" where
  "year_day d =
     (let n400 = d div 146097; r400 = d mod 146097;
          n100 = min 3 (r400 div 36524); r100 = r400 - n100 * 36524;
          n4 = r100 div 1461; r4 = r100 mod 1461;
          n1 = min 3 (r4 div 365); r1 = r4 - n1 * 365
      in (400 * n400 + 100 * n100 + 4 * n4 + n1 + 1, r1))"

definition is_leap :: "int \<Rightarrow> bool" where
  "is_leap y \<longleftrightarrow> y mod 4 = 0 \<and> (y mod 100 \<noteq> 0 \<or> y mod 400 = 0)"

definition month_lengths :: "int \<Rightarrow> int list" where
  "month_lengths y = [31, if is_leap y then 29 else 28, 31, 30, 31, 30, 31, 31, 30, 31, 30, 31]"

fun month_day :: "int list \<Rightarrow> int \<Rightarrow> int \<Rightarrow> int \<times> int" where
  "month_day [] m r = (m, r + 1)"
| "month_day (l # ls) m r = (if r < l then (m, r + 1) else month_day ls (m + 1) (r - l))"

definition civil :: "int \<Rightarrow> int \<times> int \<times> int" where
  "civil d = (case year_day d of (y, r) \<Rightarrow> (case month_day (month_lengths y) 1 r of (m, dd) \<Rightarrow> (y, m, dd)))"

definition two_digits :: "int \<Rightarrow> string" where
  "two_digits n = pad_left 2 CHR ''0'' (digits (nat n))"

definition four_digits :: "int \<Rightarrow> string" where
  "four_digits n = pad_left 4 CHR ''0'' (digits (nat n))"

definition RFC3339 :: "time \<Rightarrow> string" where
  "RFC3339 t =
     (let d = t div day_ns; s = t mod day_ns div second
      in case civil d of (y, m, dd) \<Rightarrow>
           four_digits y @ ''-'' @ two_digits m @ ''-'' @ two_digits dd @ ''T'' @ two_digits (s div 3600)
           @ '':'' @ two_digits (s div 60 mod 60) @ '':'' @ two_digits (s mod 60) @ ''Z'')"

end
