(* ===== verification/TravelService.thy ===== *)
theory TravelService
  imports TaskCache RequestHash RateLimit EventBus Go_Time
begin

section \<open>The travel plan service\<close>

text \<open>
  internal/travel/service.go and dto.go. The service owns a task store, a rate limiter, an event
  bus and a request lock; their interfaces are arguments of the operations, collected in \<open>deps\<close>,
  and their states are the fields of \<open>service\<close>. Fresh task ids and clock readings are inputs. A
  started goroutine is an entry of \<open>sv_spawned\<close>; \<open>runTask\<close> is its body. The planner is a function
  giving the events it reports and its outcome, a panic included.
\<close>

subsection \<open>Requests and responses\<close>

record CreatePlanRequest =
  cr_ID :: string
  cr_DepartureCity :: string
  cr_DestinationCity :: string
  cr_Days :: int
  cr_Budget :: float64
  cr_Interests :: "string list"
  cr_Travelers :: int
  cr_DateRange :: string
  cr_TransportMode :: string
  cr_Pace :: string
  cr_WalkingTolerance :: string
  cr_HotelArea :: string
  cr_MustVisit :: "string list"
  cr_Avoid :: "string list"
  cr_TravelerType :: string
  cr_BudgetType :: string
  cr_BudgetIncludes :: "string list"
  cr_TestMode :: bool
  cr_AgentMode :: string

definition ToDomain :: "CreatePlanRequest \<Rightarrow> string \<Rightarrow> TravelRequest" where
  "ToDomain r i = NormalizeTravelBrief
     \<lparr>rq_ID = (if cr_ID r \<noteq> [] then cr_ID r else i),
      rq_DepartureCity = cr_DepartureCity r, rq_DestinationCity = cr_DestinationCity r,
      rq_Days = cr_Days r, rq_Budget = cr_Budget r, rq_Interests = cr_Interests r,
      rq_Travelers = cr_Travelers r, rq_DateRange = cr_DateRange r,
      rq_TransportMode = cr_TransportMode r, rq_Pace = cr_Pace r,
      rq_WalkingTolerance = cr_WalkingTolerance r, rq_HotelArea = cr_HotelArea r,
      rq_MustVisit = cr_MustVisit r, rq_Avoid = cr_Avoid r, rq_TravelerType = cr_TravelerType r,
      rq_BudgetType = cr_BudgetType r, rq_BudgetIncludes = cr_BudgetIncludes r\<rparr>"

record CreateTaskResponse =
  ct_TaskID :: string
  ct_RequestHash :: string
  ct_Status :: TaskStatus
  ct_Cached :: bool

record GetTaskResponse =
  gt_TaskID :: string
  gt_RequestHash :: string
  gt_Status :: TaskStatus
  gt_Plan :: "TravelPlan option"
  gt_Error :: string
  gt_CreatedAt :: string
  gt_UpdatedAt :: string

definition taskResponse :: "Task \<Rightarrow> GetTaskResponse" where
  "taskResponse task =
     \<lparr>gt_TaskID = tk_ID task, gt_RequestHash = tk_RequestHash task, gt_Status = tk_Status task,
      gt_Plan = tk_Plan task, gt_Error = tk_Error task, gt_CreatedAt = RFC3339 (tk_CreatedAt task),
      gt_UpdatedAt = RFC3339 (tk_UpdatedAt task)\<rparr>"

definition createTaskResponseFromTask :: "Task \<Rightarrow> CreateTaskResponse" where
  "createTaskResponseFromTask task =
     \<lparr>ct_TaskID = tk_ID task, ct_RequestHash = tk_RequestHash task, ct_Status = tk_Status task,
      ct_Cached = (tk_Status task = TaskSucceeded)\<rparr>"

text \<open>The checks in the order of the code, with the message after \<open>invalid request: \<close>.\<close>

definition validateCreatePlanRequest :: "CreatePlanRequest \<Rightarrow> travel_err + unit" where
  "validateCreatePlanRequest req =
     (if TrimSpace (cr_DepartureCity req) = [] then Inl (ErrInvalidRequest ''departure_city is required'')
      else if TrimSpace (cr_DestinationCity req) = [] then Inl (ErrInvalidRequest ''destination_city is required'')
      else if cr_Days req \<le> 0 then Inl (ErrInvalidRequest ''days must be positive'')
      else if f_le (cr_Budget req) f_zero then Inl (ErrInvalidRequest ''budget must be positive'')
      else if cr_Interests req = [] then Inl (ErrInvalidRequest ''interests is required'')
      else if cr_Travelers req \<le> 0 then Inl (ErrInvalidRequest ''travelers is required'')
      else Inr ())"

text \<open>\<open>chunkText\<close>: the trimmed text in chunks of \<open>size\<close> runes.\<close>

definition chunkText :: "string \<Rightarrow> int \<Rightarrow> string list" where
  "chunkText text size0 =
     (let text = TrimSpace text
      in if text = [] then []
         else let n = (if size0 \<le> 0 then 16 else size0)
              in map utf8 (chunks_of (nat n) (runes text)))"

subsection \<open>The service\<close>

text \<open>A request lock: \<open>Acquire\<close> returns the release as a state transformer.\<close>

type_synonym 'l RequestLock =
  "ctx \<Rightarrow> time \<Rightarrow> string \<Rightarrow> 'l \<Rightarrow> (travel_err + ('l \<Rightarrow> 'l) \<times> bool) \<times> 'l"

definition MemoryRequestLock_ops :: "MemoryRequestLock RequestLock" where
  "MemoryRequestLock_ops c now h l =
     (case MemoryRequestLock_Acquire c now h l of
        (Inl e, l') \<Rightarrow> (Inl e, l')
      | (Inr (r, ok), l') \<Rightarrow> (Inr (run_release r, ok), l'))"

record ('s, 'r, 'l) deps =
  dp_store :: "'s TaskStore"
  dp_limiter :: "'r RateLimiter"
  dp_lock :: "'l RequestLock"
  dp_plannerType :: string
  dp_printable :: "nat \<Rightarrow> bool"

record ('s, 'r, 'l) service =
  sv_store :: 's
  sv_limiter :: 'r
  sv_lock :: 'l
  sv_events :: EventBus
  sv_spawned :: "Task list"

text \<open>
  \<open>publish\<close>. On the buses that occur, \<open>Publish\<close> as a whole never panics; the race of its two
  phases with an unsubscription is the subject of \<open>Publish_race_panics\<close>.
\<close>

definition publish :: "TaskEvent \<Rightarrow> ('s, 'r, 'l) service \<Rightarrow> ('s, 'r, 'l) service" where
  "publish event \<sigma> =
     (case Publish event (sv_events \<sigma>) of
        Some b \<Rightarrow> \<sigma>\<lparr>sv_events := b\<rparr>
      | None \<Rightarrow> \<sigma>)"

text \<open>
  \<open>waitForExistingTask\<close> polls the store. Each element of \<open>rounds\<close> is one sleep of 25 ms: what the
  other goroutines do to the store meanwhile, and the clock afterwards; at the end of the list
  the context is done. The clock readings decide when the deadline has passed.
\<close>

fun waitForExistingTask ::
  "'s TaskStore \<Rightarrow> ctx \<Rightarrow> string \<Rightarrow> time \<Rightarrow> time \<Rightarrow> (('s \<Rightarrow> 's) \<times> time) list \<Rightarrow> 's \<Rightarrow> Task option \<times> 's" where
  "waitForExistingTask S c h deadline now rounds s =
     (case ts_FindByHash S c now h s of
        (Inr (Some existing), s') \<Rightarrow> (Some existing, s')
      | (Inl e, s') \<Rightarrow> (None, s')
      | (Inr None, s') \<Rightarrow>
          if deadline < now then (None, s')
          else (case rounds of
                  [] \<Rightarrow> (None, s')
                | (others, now') # rest \<Rightarrow> waitForExistingTask S c h deadline now' rest (others s')))"

declare waitForExistingTask.simps [simp del]

definition new_task ::
  "string \<Rightarrow> string \<Rightarrow> string \<Rightarrow> string \<Rightarrow> string \<Rightarrow> TravelRequest \<Rightarrow> bool \<Rightarrow> string \<Rightarrow> time \<Rightarrow> Task" where
  "new_task taskID requestID userID requestHash plannerType req testMode agentMode now =
     \<lparr>tk_ID = taskID, tk_RequestID = requestID, tk_UserID = userID, tk_RequestHash = requestHash,
      tk_Status = TaskPending, tk_PlannerType = plannerType, tk_Request = req, tk_TestMode = testMode,
      tk_AgentMode = agentMode, tk_Attempt = 1, tk_Plan = None, tk_Error = [], tk_CreatedAt = now,
      tk_UpdatedAt = now\<rparr>"

text \<open>The part of \<open>CreateTask\<close> after the lock: look the hash up, create, publish, start the run.\<close>

definition find_or_create ::
  "('s, 'r, 'l) deps \<Rightarrow> ctx \<Rightarrow> time \<Rightarrow> Task \<Rightarrow> ('s, 'r, 'l) service
     \<Rightarrow> (travel_err + CreateTaskResponse) \<times> ('s, 'r, 'l) service" where
  "find_or_create D c now task \<sigma> =
     (case ts_FindByHash (dp_store D) c now (tk_RequestHash task) (sv_store \<sigma>) of
        (Inr (Some existing), s') \<Rightarrow> (Inr (createTaskResponseFromTask existing), \<sigma>\<lparr>sv_store := s'\<rparr>)
      | (_, s1) \<Rightarrow>
          (case ts_Create (dp_store D) c now task s1 of
             (Inl e, s2) \<Rightarrow>
               (case ts_FindByHash (dp_store D) c now (tk_RequestHash task) s2 of
                  (Inr (Some existing), s3) \<Rightarrow>
                    (Inr (createTaskResponseFromTask existing), \<sigma>\<lparr>sv_store := s3\<rparr>)
                | (_, s3) \<Rightarrow> (Inl e, \<sigma>\<lparr>sv_store := s3\<rparr>))
           | (Inr _, s2) \<Rightarrow>
               (let \<sigma>1 = publish (zero_event\<lparr>ev_Type := EventProgress, ev_RequestID := tk_RequestID task,
                           ev_TaskID := tk_ID task, ev_Status := Some (tk_Status task),
                           ev_Message := ''task created'', ev_CreatedAt := now\<rparr>) (\<sigma>\<lparr>sv_store := s2\<rparr>);
                    \<sigma>2 = \<sigma>1\<lparr>sv_spawned := sv_spawned \<sigma>1 @ [task]\<rparr>
                in (Inr \<lparr>ct_TaskID = tk_ID task, ct_RequestHash = tk_RequestHash task,
                         ct_Status = tk_Status task, ct_Cached = False\<rparr>, \<sigma>2))))"

text \<open>The lock phase: the release function, and a response when another caller's task turned up.\<close>

definition lock_phase ::
  "('s, 'r, 'l) deps \<Rightarrow> ctx \<Rightarrow> time \<Rightarrow> (('s \<Rightarrow> 's) \<times> time) list \<Rightarrow> string \<Rightarrow> ('s, 'r, 'l) service
     \<Rightarrow> ('l \<Rightarrow> 'l) \<times> Task option \<times> ('s, 'r, 'l) service" where
  "lock_phase D c now rounds requestHash \<sigma> =
     (case dp_lock D c now requestHash (sv_lock \<sigma>) of
        (Inl e, l') \<Rightarrow> (id, None, \<sigma>\<lparr>sv_lock := l'\<rparr>)
      | (Inr (unlock, acquired), l') \<Rightarrow>
          if acquired then (unlock, None, \<sigma>\<lparr>sv_lock := l'\<rparr>)
          else (case waitForExistingTask (dp_store D) c requestHash (now + 500 * millisecond) now rounds
                       (sv_store \<sigma>) of
                  (found, s') \<Rightarrow> (unlock, found, \<sigma>\<lparr>sv_lock := l', sv_store := s'\<rparr>)))"

definition CreateTask ::
  "('s, 'r, 'l) deps \<Rightarrow> ctx \<Rightarrow> time \<Rightarrow> string \<Rightarrow> (('s \<Rightarrow> 's) \<times> time) list \<Rightarrow> CreatePlanRequest \<Rightarrow> string
     \<Rightarrow> ('s, 'r, 'l) service \<Rightarrow> (travel_err + CreateTaskResponse) \<times> ('s, 'r, 'l) service" where
  "CreateTask D c now taskID rounds req clientKey \<sigma> =
     (case validateCreatePlanRequest req of
        Inl e \<Rightarrow> (Inl e, \<sigma>)
      | Inr _ \<Rightarrow>
          (case dp_limiter D c now (clientRateKey (dp_printable D) clientKey) (sv_limiter \<sigma>) of
             (allowed, r') \<Rightarrow>
               let \<sigma>1 = \<sigma>\<lparr>sv_limiter := r'\<rparr>
               in if allowed = Inr False then (Inl ErrRateLimited, \<sigma>1)
                  else
                    let domainReq = ToDomain req taskID;
                        agentMode = normalizeAgentMode (cr_AgentMode req);
                        userID = ctx_UserID c
                    in case RequestHashForUser domainReq (cr_TestMode req) userID [agentMode] of
                         Inl _ \<Rightarrow> (Inl ErrMarshal, \<sigma>1)
                       | Inr requestHash \<Rightarrow>
                           (case lock_phase D c now rounds requestHash \<sigma>1 of
                              (release, found, \<sigma>2) \<Rightarrow>
                                (case found of
                                   Some existing \<Rightarrow> (Inr (createTaskResponseFromTask existing), \<sigma>2)
                                 | None \<Rightarrow>
                                     (case find_or_create D c now
                                             (new_task taskID (ctx_RequestID c) userID requestHash
                                                (dp_plannerType D) domainReq (cr_TestMode req) agentMode now) \<sigma>2 of
                                        (r, \<sigma>3) \<Rightarrow> (r, \<sigma>3\<lparr>sv_lock := release (sv_lock \<sigma>3)\<rparr>))))))"

definition GetTask ::
  "('s, 'r, 'l) deps \<Rightarrow> ctx \<Rightarrow> time \<Rightarrow> string \<Rightarrow> ('s, 'r, 'l) service
     \<Rightarrow> (travel_err + GetTaskResponse) \<times> ('s, 'r, 'l) service" where
  "GetTask D c now i \<sigma> =
     (case ts_Get (dp_store D) c now i (sv_store \<sigma>) of
        (Inl e, s') \<Rightarrow> (Inl e, \<sigma>\<lparr>sv_store := s'\<rparr>)
      | (Inr task, s') \<Rightarrow> (Inr (taskResponse task), \<sigma>\<lparr>sv_store := s'\<rparr>))"

definition Service_Subscribe :: "string \<Rightarrow> ('s, 'r, 'l) service \<Rightarrow> nat \<times> ('s, 'r, 'l) service" where
  "Service_Subscribe taskID \<sigma> =
     (case Subscribe taskID (sv_events \<sigma>) of (ch, b) \<Rightarrow> (ch, \<sigma>\<lparr>sv_events := b\<rparr>))"

definition EventHistory :: "string \<Rightarrow> ('s, 'r, 'l) service \<Rightarrow> TaskEvent list" where
  "EventHistory taskID \<sigma> = History taskID (sv_events \<sigma>)"

definition SetPlannerType :: "string \<Rightarrow> ('s, 'r, 'l) deps \<Rightarrow> ('s, 'r, 'l) deps" where
  "SetPlannerType plannerType D =
     (if TrimSpace plannerType \<noteq> [] then D\<lparr>dp_plannerType := ToLower (TrimSpace plannerType)\<rparr> else D)"

subsection \<open>Running a task\<close>

record PlannerTraceEvent =
  pt_Name :: string
  pt_Kind :: string
  pt_Provider :: string
  pt_Status :: string
  pt_Duration :: duration
  pt_FallbackReason :: string

record PlannerBusinessEvent =
  pb_Type :: string
  pb_Message :: string
  pb_Brief :: "TravelRequest option"
  pb_POIs :: "POIInfo list"
  pb_Weather :: "WeatherInfo list"
  pb_Routes :: "RouteInfo list"
  pb_Budget :: "TravelBudget option"
  pb_Day :: "TravelDay option"
  pb_NodeName :: string
  pb_Draft :: bool

text \<open>
  What a planner does to the service while it plans, by calling the reporters of its context, and
  how it ends. A nil plan with a nil error is \<open>PlanOk None\<close>.
\<close>

datatype planner_report =
  ReportLLMDelta string
| ReportPlannerEvent PlannerTraceEvent
| ReportPlannerBusinessEvent PlannerBusinessEvent

datatype planner_outcome =
  PlanOk "TravelPlan option"
| PlanErr string
| PlanPanic string

record planner_run =
  pr_reports :: "(planner_report \<times> time) list"
  pr_outcome :: planner_outcome

type_synonym planner = "TravelRequest \<Rightarrow> bool \<Rightarrow> string \<Rightarrow> planner_run"

text \<open>The event a report is turned into, if any.\<close>

definition task_event :: "Task \<Rightarrow> EventType \<Rightarrow> TaskStatus \<Rightarrow> string \<Rightarrow> time \<Rightarrow> TaskEvent" where
  "task_event task ty st message ts =
     zero_event\<lparr>ev_Type := ty, ev_RequestID := tk_RequestID task, ev_TaskID := tk_ID task,
       ev_Status := Some st, ev_Message := message, ev_CreatedAt := ts\<rparr>"

fun report_event :: "Task \<Rightarrow> planner_report \<Rightarrow> time \<Rightarrow> TaskEvent option" where
  "report_event task (ReportLLMDelta delta) ts =
     (if delta = [] then None else Some (task_event task EventAssistantDelta TaskRunning delta ts))"
| "report_event task (ReportPlannerEvent e) ts =
     Some ((task_event task EventNode TaskRunning (pt_FallbackReason e) ts)
       \<lparr>ev_NodeName := pt_Name e, ev_NodeStatus := pt_Status e, ev_DurationMs := Milliseconds (pt_Duration e)\<rparr>)"
| "report_event task (ReportPlannerBusinessEvent e) ts =
     (if pb_Type e = [] then None
      else Some ((task_event task (pb_Type e) TaskRunning (pb_Message e) ts)
        \<lparr>ev_Brief := pb_Brief e, ev_Day := pb_Day e, ev_POIs := pb_POIs e, ev_Weather := pb_Weather e,
         ev_Routes := pb_Routes e, ev_Budget := pb_Budget e, ev_NodeName := pb_NodeName e,
         ev_Draft := pb_Draft e\<rparr>))"

definition report_events :: "Task \<Rightarrow> (planner_report \<times> time) list \<Rightarrow> TaskEvent list" where
  "report_events task reports = concat (map (\<lambda>(r, ts). case report_event task r ts of None \<Rightarrow> [] | Some e \<Rightarrow> [e]) reports)"

text \<open>\<open>SawAnyDelta\<close> of the delta reporter after the reports.\<close>

definition saw_any_delta :: "(planner_report \<times> time) list \<Rightarrow> bool" where
  "saw_any_delta reports \<longleftrightarrow> list_ex (\<lambda>(r, ts). case r of ReportLLMDelta d \<Rightarrow> d \<noteq> [] | _ \<Rightarrow> False) reports"

definition summary_text :: "TravelPlan \<Rightarrow> string" where
  "summary_text plan =
     (let text = TrimSpace (pl_Summary plan) in if text = [] then TrimSpace (pl_Title plan) else text)"

text \<open>\<open>publishPlanSummary\<close>, as the events it publishes.\<close>

definition plan_summary_events :: "Task \<Rightarrow> TravelPlan \<Rightarrow> bool \<Rightarrow> time \<Rightarrow> TaskEvent list" where
  "plan_summary_events task plan saw ts =
     (let text = summary_text plan
      in if text = [] then []
         else (if saw then []
               else map (\<lambda>chunk. task_event task EventAssistantDelta TaskRunning chunk ts) (chunkText text 24))
              @ [task_event task EventAssistantDone TaskSucceeded text ts])"

fun publish_list :: "TaskEvent list \<Rightarrow> ('s, 'r, 'l) service \<Rightarrow> ('s, 'r, 'l) service" where
  "publish_list [] \<sigma> = \<sigma>"
| "publish_list (e # es) \<sigma> = publish_list es (publish e \<sigma>)"

definition nil_dereference :: string where
  "nil_dereference = ''runtime error: invalid memory address or nil pointer dereference''"

text \<open>
  How the outcome of the planner ends the task: the finished task, the events published before
  the final update of the store, and the events published after it. The recover handler of a
  panic (of the planner, or of reading the warnings of a nil plan) updates the store first.
\<close>

definition finish_task :: "Task \<Rightarrow> planner_outcome \<Rightarrow> bool \<Rightarrow> time \<Rightarrow> Task \<times> TaskEvent list \<times> TaskEvent list" where
  "finish_task running outcome saw ts =
     (case outcome of
        PlanErr e \<Rightarrow>
          (let t = running\<lparr>tk_UpdatedAt := ts, tk_Status := TaskFailed, tk_Error := e\<rparr>
           in (t, [task_event t EventError TaskFailed e ts], []))
      | PlanOk (Some plan) \<Rightarrow>
          (let t = running\<lparr>tk_UpdatedAt := ts, tk_Status := TaskSucceeded, tk_Plan := Some plan, tk_Error := []\<rparr>
           in (t, map (\<lambda>w. task_event t EventWarning TaskSucceeded w ts) (pl_Warnings plan)
                  @ plan_summary_events t plan saw ts
                  @ [(task_event t EventDone TaskSucceeded ''planner finished'' ts)\<lparr>ev_Plan := Some plan\<rparr>], []))
      | PlanOk None \<Rightarrow>
          (let m = ''panic: '' @ nil_dereference;
               t = running\<lparr>tk_UpdatedAt := ts, tk_Status := TaskFailed, tk_Plan := None, tk_Error := m\<rparr>
           in (t, [], [task_event t EventError TaskFailed m ts]))
      | PlanPanic p \<Rightarrow>
          (let m = ''panic: '' @ p;
               t = running\<lparr>tk_UpdatedAt := ts, tk_Status := TaskFailed, tk_Error := m\<rparr>
           in (t, [], [task_event t EventError TaskFailed m ts])))"

definition store_update ::
  "('s, 'r, 'l) deps \<Rightarrow> time \<Rightarrow> Task \<Rightarrow> ('s, 'r, 'l) service \<Rightarrow> (travel_err + unit) \<times> ('s, 'r, 'l) service" where
  "store_update D now task \<sigma> =
     (case ts_Update (dp_store D) (background\<lparr>ctx_RequestID := tk_RequestID task\<rparr>) now task (sv_store \<sigma>) of
        (r, s') \<Rightarrow> (r, \<sigma>\<lparr>sv_store := s'\<rparr>))"

text \<open>
  \<open>runTask\<close> at the two clock readings that stamp the task: when it starts and when the planner
  has returned. The first failing update ends the run, the last one is only logged.
\<close>

definition runTask ::
  "('s, 'r, 'l) deps \<Rightarrow> planner \<Rightarrow> time \<Rightarrow> time \<Rightarrow> Task \<Rightarrow> ('s, 'r, 'l) service \<Rightarrow> ('s, 'r, 'l) service" where
  "runTask D plan t1 t2 task \<sigma> =
     (let running = task\<lparr>tk_Status := TaskRunning, tk_UpdatedAt := t1\<rparr>
      in case store_update D t1 running \<sigma> of
           (Inl e, \<sigma>1) \<Rightarrow> \<sigma>1
         | (Inr _, \<sigma>1) \<Rightarrow>
             (let \<sigma>2 = publish (task_event running EventProgress TaskRunning ''planner started'' t1) \<sigma>1;
                  run = plan (tk_Request task) (tk_TestMode task) (normalizeAgentMode (tk_AgentMode task));
                  \<sigma>3 = publish_list (report_events running (pr_reports run)) \<sigma>2
              in case finish_task running (pr_outcome run) (saw_any_delta (pr_reports run)) t2 of
                   (finished, before, after) \<Rightarrow>
                     publish_list after (snd (store_update D t2 finished (publish_list before \<sigma>3)))))"

subsection \<open>Chat\<close>

record ChatRequest =
  cq_Message :: string
  cq_Request :: TravelRequest
  cq_TestMode :: bool
  cq_AgentMode :: string

record TravelInfoResult =
  ir_Request :: TravelRequest
  ir_Reply :: string
  ir_Missing :: "string list"
  ir_IsComplete :: bool

record ChatResponse =
  rs_Request :: TravelRequest
  rs_Reply :: string
  rs_Missing :: "string list"
  rs_IsComplete :: bool
  rs_AgentMode :: string

text \<open>
  The extractor: the deltas it streams to the reporter of its context, and its result. The
  sixteen brief fields that ChatRequest, TravelInfoResult and ChatResponse repeat are a
  TravelRequest without an id.
\<close>

type_synonym extractor =
  "ctx \<Rightarrow> bool \<Rightarrow> string \<Rightarrow> string \<Rightarrow> TravelRequest \<Rightarrow> string list \<times> (string + TravelInfoResult)"

definition Chat :: "extractor \<Rightarrow> ctx \<Rightarrow> ChatRequest \<Rightarrow> string list \<times> (string + ChatResponse)" where
  "Chat extract c req =
     (let agentMode = normalizeAgentMode (cq_AgentMode req);
          current = NormalizeTravelBrief ((cq_Request req)\<lparr>rq_ID := []\<rparr>)
      in case extract c (cq_TestMode req) agentMode (cq_Message req) current of
           (deltas, Inl e) \<Rightarrow> (deltas, Inl e)
         | (deltas, Inr result) \<Rightarrow>
             (deltas, Inr \<lparr>rs_Request = ir_Request result, rs_Reply = ir_Reply result,
                          rs_Missing = ir_Missing result, rs_IsComplete = ir_IsComplete result,
                          rs_AgentMode = agentMode\<rparr>))"

text \<open>
  \<open>ChatStream\<close>, as the events handed to \<open>emit\<close> and the result. Its caller's \<open>emit\<close> reports whether
  \<open>ctx.Err()\<close> is nil; \<open>gone n\<close> is that error at the \<open>n\<close>-th call of the fallback loop, which stops at
  the first call that finds one and returns it.
\<close>

fun emit_chunks :: "(nat \<Rightarrow> string option) \<Rightarrow> nat \<Rightarrow> TaskEvent list \<Rightarrow> TaskEvent list \<times> string option" where
  "emit_chunks gone n [] = ([], None)"
| "emit_chunks gone n (e # es) =
     (case gone n of
        None \<Rightarrow> (case emit_chunks gone (n + 1) es of (out, r) \<Rightarrow> (e # out, r))
      | Some err \<Rightarrow> ([e], Some err))"

definition delta_event :: "ctx \<Rightarrow> time \<Rightarrow> string \<Rightarrow> TaskEvent" where
  "delta_event c now delta =
     zero_event\<lparr>ev_Type := EventAssistantDelta, ev_RequestID := ctx_RequestID c, ev_Message := delta, ev_CreatedAt := now\<rparr>"

definition ChatStream ::
  "extractor \<Rightarrow> ctx \<Rightarrow> time \<Rightarrow> (nat \<Rightarrow> string option) \<Rightarrow> ChatRequest \<Rightarrow> TaskEvent list \<times> (string + ChatResponse)" where
  "ChatStream extract c now gone req =
     (case Chat extract c req of
        (deltas, result) \<Rightarrow>
          (let streamed = map (delta_event c now) (filter (\<lambda>d. d \<noteq> []) deltas)
           in case result of
                Inl e \<Rightarrow> (streamed, Inl e)
              | Inr resp \<Rightarrow>
                  (let finished = zero_event\<lparr>ev_Type := EventAssistantDone, ev_Message := rs_Reply resp, ev_CreatedAt := now\<rparr>
                   in if streamed \<noteq> [] then (streamed @ [finished], Inr resp)
                      else case emit_chunks gone 0 (map (\<lambda>chunk. zero_event\<lparr>ev_Type := EventAssistantDelta,
                                  ev_Message := chunk, ev_CreatedAt := now\<rparr>) (chunkText (rs_Reply resp) 18)) of
                             (out, None) \<Rightarrow> (out @ [finished], Inr resp)
                           | (out, Some e) \<Rightarrow> (out, Inl e))))"

subsection \<open>What the operations do to the store\<close>

lemma publish_frame [simp]:
  "sv_store (publish e \<sigma>) = sv_store \<sigma>" "sv_spawned (publish e \<sigma>) = sv_spawned \<sigma>"
  "sv_lock (publish e \<sigma>) = sv_lock \<sigma>" "sv_limiter (publish e \<sigma>) = sv_limiter \<sigma>"
  by (auto simp: publish_def split: option.splits)

lemma publish_list_frame [simp]:
  "sv_store (publish_list es \<sigma>) = sv_store \<sigma>" "sv_spawned (publish_list es \<sigma>) = sv_spawned \<sigma>"
  by (induction es arbitrary: \<sigma>) auto

text \<open>At most one task per request hash: what keeps equal requests on one task.\<close>

definition one_per_hash :: "(string \<rightharpoonup> Task) \<Rightarrow> bool" where
  "one_per_hash m \<longleftrightarrow>
     (\<forall>i j t u. m i = Some t \<longrightarrow> m j = Some u \<longrightarrow> tk_RequestHash t = tk_RequestHash u \<longrightarrow> i = j)"

lemma one_per_hash_add:
  "one_per_hash m \<Longrightarrow> (\<forall>i t. m i = Some t \<longrightarrow> tk_RequestHash t \<noteq> tk_RequestHash t0)
     \<Longrightarrow> one_per_hash (m(i0 \<mapsto> t0))"
  unfolding one_per_hash_def by (auto split: if_splits) metis

text \<open>The answer of \<open>CreateTask\<close> and the content before and after: a task of the hash is stored
  under the answered id, and either nothing changed or the given task was added and started.\<close>

definition created_or_found ::
  "Task \<Rightarrow> (string \<rightharpoonup> Task) \<Rightarrow> Task list \<Rightarrow> CreateTaskResponse \<Rightarrow> (string \<rightharpoonup> Task) \<Rightarrow> Task list \<Rightarrow> bool" where
  "created_or_found task m spawned resp m' spawned' \<longleftrightarrow>
     (\<exists>t. m' (ct_TaskID resp) = Some t \<and> tk_RequestHash t = tk_RequestHash task)
   \<and> ct_RequestHash resp = tk_RequestHash task
   \<and> (if \<exists>t \<in> ran m. tk_RequestHash t = tk_RequestHash task
      then m' = m \<and> spawned' = spawned
      else m' = m(tk_ID task \<mapsto> task) \<and> spawned' = spawned @ [task] \<and> ct_TaskID resp = tk_ID task
         \<and> ct_Status resp = tk_Status task \<and> \<not> ct_Cached resp)"

text \<open>What the other goroutines do to the store between two polls keeps a property of it.\<close>

definition keeps :: "('s \<Rightarrow> bool) \<Rightarrow> (('s \<Rightarrow> 's) \<times> time) list \<Rightarrow> bool" where
  "keeps P rounds \<longleftrightarrow> (\<forall>(f, t) \<in> set rounds. \<forall>s. P s \<longrightarrow> P (f s))"

lemma keeps_simps [simp]:
  "keeps P []" "keeps P ((f, t) # rounds) \<longleftrightarrow> (\<forall>s. P s \<longrightarrow> P (f s)) \<and> keeps P rounds"
  by (simp_all add: keeps_def)

locale service_env = task_store "dp_store D" sinv tasks
  for D :: "('s, 'r, 'l) deps" and sinv and tasks
begin

lemma find_or_create_spec:
  assumes "sinv (sv_store \<sigma>)" "live c" "tasks (sv_store \<sigma>) (tk_ID task) = None"
    and "one_per_hash (tasks (sv_store \<sigma>))"
  shows "\<exists>resp \<sigma>'. find_or_create D c now task \<sigma> = (Inr resp, \<sigma>') \<and> sinv (sv_store \<sigma>')
    \<and> one_per_hash (tasks (sv_store \<sigma>'))
    \<and> created_or_found task (tasks (sv_store \<sigma>)) (sv_spawned \<sigma>) resp (tasks (sv_store \<sigma>')) (sv_spawned \<sigma>')"
proof -
  obtain r s1 where r: "ts_FindByHash (dp_store D) c now (tk_RequestHash task) (sv_store \<sigma>) = (Inr r, s1)"
    "sinv s1" "tasks s1 = tasks (sv_store \<sigma>)"
    "case r of None \<Rightarrow> \<forall>i t. tasks (sv_store \<sigma>) i = Some t \<longrightarrow> tk_RequestHash t \<noteq> tk_RequestHash task
      | Some t \<Rightarrow> tasks (sv_store \<sigma>) (tk_ID t) = Some t \<and> tk_RequestHash t = tk_RequestHash task"
    using find_by_hash [OF assms(1,2)] by blast
  show ?thesis
  proof (cases r)
    case (Some t)
    then have t: "tasks (sv_store \<sigma>) (tk_ID t) = Some t" "tk_RequestHash t = tk_RequestHash task" using r(4) by auto
    then have "\<exists>t \<in> ran (tasks (sv_store \<sigma>)). tk_RequestHash t = tk_RequestHash task" by (auto simp: ran_def)
    then show ?thesis using Some r t assms(4)
      by (simp add: find_or_create_def created_or_found_def createTaskResponseFromTask_def)
  next
    case None
    then have new: "\<forall>i t. tasks (sv_store \<sigma>) i = Some t \<longrightarrow> tk_RequestHash t \<noteq> tk_RequestHash task" using r(4) by simp
    then have no: "\<not> (\<exists>t \<in> ran (tasks (sv_store \<sigma>)). tk_RequestHash t = tk_RequestHash task)" by (auto simp: ran_def)
    obtain s2 where s2: "ts_Create (dp_store D) c now task s1 = (Inr (), s2)" "sinv s2"
      "tasks s2 = (tasks s1)(tk_ID task \<mapsto> task)"
      using create [OF r(2) assms(2), of task now] assms(3) r(3) by auto
    show ?thesis using None r s2 no one_per_hash_add [OF assms(4) new, of "tk_ID task"]
      by (simp add: find_or_create_def created_or_found_def Let_def)
  qed
qed

text \<open>Polling finds a stored task of the hash, and only such a task.\<close>

lemma wait_spec:
  assumes "live c" "sinv s" "G (tasks s)" "keeps (\<lambda>s. sinv s \<and> G (tasks s)) rounds"
  shows "\<exists>r s'. waitForExistingTask (dp_store D) c h deadline now rounds s = (r, s') \<and> sinv s' \<and> G (tasks s')
    \<and> (case r of None \<Rightarrow> True | Some t \<Rightarrow> tasks s' (tk_ID t) = Some t \<and> tk_RequestHash t = h)"
  using assms(2-4)
proof (induction rounds arbitrary: s now)
  case Nil
  obtain r s1 where r: "ts_FindByHash (dp_store D) c now h s = (Inr r, s1)" "sinv s1" "tasks s1 = tasks s"
    "case r of None \<Rightarrow> \<forall>i t. tasks s i = Some t \<longrightarrow> tk_RequestHash t \<noteq> h
      | Some t \<Rightarrow> tasks s (tk_ID t) = Some t \<and> tk_RequestHash t = h"
    using find_by_hash [OF Nil(1) assms(1)] by blast
  then show ?case using Nil(2)
    by (cases r) (auto simp: waitForExistingTask.simps [of "dp_store D"])
next
  case (Cons ft rounds)
  obtain f t where ft: "ft = (f, t)" by (cases ft)
  obtain r s1 where r: "ts_FindByHash (dp_store D) c now h s = (Inr r, s1)" "sinv s1" "tasks s1 = tasks s"
    "case r of None \<Rightarrow> \<forall>i t. tasks s i = Some t \<longrightarrow> tk_RequestHash t \<noteq> h
      | Some t \<Rightarrow> tasks s (tk_ID t) = Some t \<and> tk_RequestHash t = h"
    using find_by_hash [OF Cons(2) assms(1)] by blast
  have "sinv (f s1)" "G (tasks (f s1))" "keeps (\<lambda>s. sinv s \<and> G (tasks s)) rounds"
    using Cons(3,4) r(2,3) by (auto simp: ft)
  then have "\<exists>r s'. waitForExistingTask (dp_store D) c h deadline t rounds (f s1) = (r, s') \<and> sinv s' \<and> G (tasks s')
    \<and> (case r of None \<Rightarrow> True | Some t \<Rightarrow> tasks s' (tk_ID t) = Some t \<and> tk_RequestHash t = h)"
    by (rule Cons.IH)
  then show ?case using r Cons(3) ft
    by (cases r) (auto simp: waitForExistingTask.simps [of "dp_store D" c h deadline now])
qed

lemma wait_finds:
  assumes "sinv s" "live c" "tasks s i = Some t" "tk_RequestHash t = h"
  shows "\<exists>u s'. waitForExistingTask (dp_store D) c h deadline now rounds s = (Some u, s') \<and> sinv s' \<and> tasks s' = tasks s
     \<and> tasks s (tk_ID u) = Some u \<and> tk_RequestHash u = h"
proof -
  obtain r s1 where r: "ts_FindByHash (dp_store D) c now h s = (Inr r, s1)" "sinv s1" "tasks s1 = tasks s"
    "case r of None \<Rightarrow> \<forall>i t. tasks s i = Some t \<longrightarrow> tk_RequestHash t \<noteq> h
      | Some t \<Rightarrow> tasks s (tk_ID t) = Some t \<and> tk_RequestHash t = h"
    using find_by_hash [OF assms(1,2)] by blast
  then show ?thesis using assms(3,4)
    by (cases r) (auto simp: waitForExistingTask.simps [of "dp_store D" c h deadline now])
qed

end

text \<open>What makes \<open>CreateTask\<close> reach the lock: a valid request, not rate limited, with a hash.\<close>

definition admitted ::
  "('s, 'r, 'l) deps \<Rightarrow> ctx \<Rightarrow> time \<Rightarrow> string \<Rightarrow> CreatePlanRequest \<Rightarrow> string \<Rightarrow> ('s, 'r, 'l) service \<Rightarrow> string \<Rightarrow> bool" where
  "admitted D c now taskID req clientKey \<sigma> h \<longleftrightarrow>
     validateCreatePlanRequest req = Inr ()
   \<and> fst (dp_limiter D c now (clientRateKey (dp_printable D) clientKey) (sv_limiter \<sigma>)) \<noteq> Inr False
   \<and> RequestHashForUser (ToDomain req taskID) (cr_TestMode req) (ctx_UserID c)
       [normalizeAgentMode (cr_AgentMode req)] = Inr h"

definition task_of ::
  "('s, 'r, 'l) deps \<Rightarrow> ctx \<Rightarrow> time \<Rightarrow> string \<Rightarrow> CreatePlanRequest \<Rightarrow> string \<Rightarrow> Task" where
  "task_of D c now taskID req h =
     new_task taskID (ctx_RequestID c) (ctx_UserID c) h (dp_plannerType D) (ToDomain req taskID)
       (cr_TestMode req) (normalizeAgentMode (cr_AgentMode req)) now"

lemma task_of_sel [simp]:
  "tk_ID (task_of D c now i req h) = i" "tk_RequestHash (task_of D c now i req h) = h"
  "tk_Status (task_of D c now i req h) = TaskPending"
  by (simp_all add: task_of_def new_task_def)

lemma CreateTask_admitted:
  assumes "admitted D c now taskID req clientKey \<sigma> h"
  shows "\<exists>r'. CreateTask D c now taskID rounds req clientKey \<sigma> =
     (case lock_phase D c now rounds h (\<sigma>\<lparr>sv_limiter := r'\<rparr>) of (release, found, \<sigma>2) \<Rightarrow>
        (case found of
           Some existing \<Rightarrow> (Inr (createTaskResponseFromTask existing), \<sigma>2)
         | None \<Rightarrow> (case find_or_create D c now (task_of D c now taskID req h) \<sigma>2 of
             (r, \<sigma>3) \<Rightarrow> (r, \<sigma>3\<lparr>sv_lock := release (sv_lock \<sigma>3)\<rparr>))))"
proof -
  obtain a r' where a: "dp_limiter D c now (clientRateKey (dp_printable D) clientKey) (sv_limiter \<sigma>) = (a, r')"
    by (cases "dp_limiter D c now (clientRateKey (dp_printable D) clientKey) (sv_limiter \<sigma>)")
  then have "a \<noteq> Inr False" using assms by (simp add: admitted_def)
  then have "CreateTask D c now taskID rounds req clientKey \<sigma> =
     (case lock_phase D c now rounds h (\<sigma>\<lparr>sv_limiter := r'\<rparr>) of (release, found, \<sigma>2) \<Rightarrow>
        (case found of
           Some existing \<Rightarrow> (Inr (createTaskResponseFromTask existing), \<sigma>2)
         | None \<Rightarrow> (case find_or_create D c now (task_of D c now taskID req h) \<sigma>2 of
             (r, \<sigma>3) \<Rightarrow> (r, \<sigma>3\<lparr>sv_lock := release (sv_lock \<sigma>3)\<rparr>))))"
    using assms a unfolding task_of_def by (simp add: CreateTask_def admitted_def Let_def)
  then show ?thesis by blast
qed

context service_env
begin

text \<open>The lock phase: it answers a stored task of the hash or none, and keeps the store sound.\<close>

lemma lock_phase_spec:
  assumes "live c" "sinv (sv_store \<sigma>)" "G (tasks (sv_store \<sigma>))" "keeps (\<lambda>s. sinv s \<and> G (tasks s)) rounds"
  shows "\<exists>rel r \<sigma>'. lock_phase D c now rounds h \<sigma> = (rel, r, \<sigma>') \<and> sinv (sv_store \<sigma>') \<and> G (tasks (sv_store \<sigma>'))
    \<and> sv_spawned \<sigma>' = sv_spawned \<sigma> \<and> sv_events \<sigma>' = sv_events \<sigma>
    \<and> (case r of None \<Rightarrow> True
       | Some t \<Rightarrow> tasks (sv_store \<sigma>') (tk_ID t) = Some t \<and> tk_RequestHash t = h)"
proof (cases "dp_lock D c now h (sv_lock \<sigma>)")
  case (Pair r l')
  show ?thesis
  proof (cases r)
    case (Inl e)
    then show ?thesis using Pair assms(2,3) by (simp add: lock_phase_def)
  next
    case (Inr ua)
    obtain unlock acq where ua: "ua = (unlock, acq)" by (cases ua)
    obtain q s' where "waitForExistingTask (dp_store D) c h (now + 500 * millisecond) now rounds (sv_store \<sigma>) = (q, s')"
      "sinv s'" "G (tasks s')" "case q of None \<Rightarrow> True | Some t \<Rightarrow> tasks s' (tk_ID t) = Some t \<and> tk_RequestHash t = h"
      using wait_spec [of c "sv_store \<sigma>" G rounds h "now + 500 * millisecond" now] assms by blast
    then show ?thesis using Pair Inr ua assms(2,3) by (cases q) (simp_all add: lock_phase_def)
  qed
qed

lemma lock_phase_found:
  assumes "live c" "sinv (sv_store \<sigma>)" "tasks (sv_store \<sigma>) i = Some t" "tk_RequestHash t = h"
  shows "\<exists>rel r \<sigma>'. lock_phase D c now rounds h \<sigma> = (rel, r, \<sigma>') \<and> sinv (sv_store \<sigma>')
    \<and> tasks (sv_store \<sigma>') = tasks (sv_store \<sigma>) \<and> sv_spawned \<sigma>' = sv_spawned \<sigma> \<and> sv_events \<sigma>' = sv_events \<sigma>
    \<and> (case r of None \<Rightarrow> True
       | Some u \<Rightarrow> tasks (sv_store \<sigma>') (tk_ID u) = Some u \<and> tk_RequestHash u = h)"
proof (cases "dp_lock D c now h (sv_lock \<sigma>)")
  case (Pair r l')
  show ?thesis
  proof (cases r)
    case (Inl e)
    then show ?thesis using Pair assms(2) by (simp add: lock_phase_def)
  next
    case (Inr ua)
    obtain unlock acq where ua: "ua = (unlock, acq)" by (cases ua)
    obtain u s' where "waitForExistingTask (dp_store D) c h (now + 500 * millisecond) now rounds (sv_store \<sigma>) = (Some u, s')"
      "sinv s'" "tasks s' = tasks (sv_store \<sigma>)" "tasks (sv_store \<sigma>) (tk_ID u) = Some u" "tk_RequestHash u = h"
      using wait_finds [OF assms(2,1,3,4)] by blast
    then show ?thesis using Pair Inr ua assms(2) by (simp add: lock_phase_def)
  qed
qed

lemma CreateTask_spec:
  assumes ad: "admitted D c now taskID req clientKey \<sigma> h" and c: "live c"
    and s: "sinv (sv_store \<sigma>)" "one_per_hash (tasks (sv_store \<sigma>))" "tasks (sv_store \<sigma>) taskID = None"
    and others: "keeps (\<lambda>s. sinv s \<and> one_per_hash (tasks s) \<and> tasks s taskID = None) rounds"
  shows "\<exists>resp \<sigma>'. CreateTask D c now taskID rounds req clientKey \<sigma> = (Inr resp, \<sigma>')
    \<and> sinv (sv_store \<sigma>') \<and> one_per_hash (tasks (sv_store \<sigma>'))
    \<and> ct_RequestHash resp = h
    \<and> (\<exists>t. tasks (sv_store \<sigma>') (ct_TaskID resp) = Some t \<and> tk_RequestHash t = h)"
proof -
  let ?G = "\<lambda>m. one_per_hash m \<and> m taskID = None"
  obtain r' where r': "CreateTask D c now taskID rounds req clientKey \<sigma> =
     (case lock_phase D c now rounds h (\<sigma>\<lparr>sv_limiter := r'\<rparr>) of (release, found, \<sigma>2) \<Rightarrow>
        (case found of
           Some existing \<Rightarrow> (Inr (createTaskResponseFromTask existing), \<sigma>2)
         | None \<Rightarrow> (case find_or_create D c now (task_of D c now taskID req h) \<sigma>2 of
             (r, \<sigma>3) \<Rightarrow> (r, \<sigma>3\<lparr>sv_lock := release (sv_lock \<sigma>3)\<rparr>))))"
    using CreateTask_admitted [OF ad] by blast
  obtain rel q \<sigma>2 where l: "lock_phase D c now rounds h (\<sigma>\<lparr>sv_limiter := r'\<rparr>) = (rel, q, \<sigma>2)"
    "sinv (sv_store \<sigma>2)" "?G (tasks (sv_store \<sigma>2))"
    "case q of None \<Rightarrow> True | Some t \<Rightarrow> tasks (sv_store \<sigma>2) (tk_ID t) = Some t \<and> tk_RequestHash t = h"
    using lock_phase_spec [of c "\<sigma>\<lparr>sv_limiter := r'\<rparr>" ?G rounds now h] c s others by auto
  show ?thesis
  proof (cases q)
    case (Some t)
    then show ?thesis using r' l by (simp add: createTaskResponseFromTask_def)
  next
    case None
    obtain resp \<sigma>3 where f: "find_or_create D c now (task_of D c now taskID req h) \<sigma>2 = (Inr resp, \<sigma>3)"
      "sinv (sv_store \<sigma>3)" "one_per_hash (tasks (sv_store \<sigma>3))"
      "created_or_found (task_of D c now taskID req h) (tasks (sv_store \<sigma>2)) (sv_spawned \<sigma>2) resp
         (tasks (sv_store \<sigma>3)) (sv_spawned \<sigma>3)"
      using find_or_create_spec [OF l(2) c, of "task_of D c now taskID req h" now] l(3) by auto
    then show ?thesis using r' l None by (simp add: created_or_found_def)
  qed
qed

text \<open>When a task of the hash is stored, it is the answer and nothing else happens.\<close>

lemma CreateTask_existing:
  assumes ad: "admitted D c now taskID req clientKey \<sigma> h" and c: "live c"
    and s: "sinv (sv_store \<sigma>)" "one_per_hash (tasks (sv_store \<sigma>))" "tasks (sv_store \<sigma>) i = Some t" "tk_RequestHash t = h"
  shows "\<exists>resp \<sigma>'. CreateTask D c now taskID rounds req clientKey \<sigma> = (Inr resp, \<sigma>') \<and> ct_TaskID resp = i
    \<and> tasks (sv_store \<sigma>') = tasks (sv_store \<sigma>) \<and> sv_spawned \<sigma>' = sv_spawned \<sigma> \<and> sv_events \<sigma>' = sv_events \<sigma>"
proof -
  have same: "tk_ID u = i" if "tasks (sv_store \<sigma>) (tk_ID u) = Some u" "tk_RequestHash u = h" for u
    using that s(2,3,4) unfolding one_per_hash_def by metis
  obtain r' where r': "CreateTask D c now taskID rounds req clientKey \<sigma> =
     (case lock_phase D c now rounds h (\<sigma>\<lparr>sv_limiter := r'\<rparr>) of (release, found, \<sigma>2) \<Rightarrow>
        (case found of
           Some existing \<Rightarrow> (Inr (createTaskResponseFromTask existing), \<sigma>2)
         | None \<Rightarrow> (case find_or_create D c now (task_of D c now taskID req h) \<sigma>2 of
             (r, \<sigma>3) \<Rightarrow> (r, \<sigma>3\<lparr>sv_lock := release (sv_lock \<sigma>3)\<rparr>))))"
    using CreateTask_admitted [OF ad] by blast
  obtain rel q \<sigma>2 where l: "lock_phase D c now rounds h (\<sigma>\<lparr>sv_limiter := r'\<rparr>) = (rel, q, \<sigma>2)"
    "sinv (sv_store \<sigma>2)" "tasks (sv_store \<sigma>2) = tasks (sv_store \<sigma>)" "sv_spawned \<sigma>2 = sv_spawned \<sigma>"
    "sv_events \<sigma>2 = sv_events \<sigma>"
    "case q of None \<Rightarrow> True | Some u \<Rightarrow> tasks (sv_store \<sigma>2) (tk_ID u) = Some u \<and> tk_RequestHash u = h"
    using lock_phase_found [OF c, of "\<sigma>\<lparr>sv_limiter := r'\<rparr>" i t h now rounds] s by auto
  show ?thesis
  proof (cases q)
    case (Some u)
    then show ?thesis using r' l same by (simp add: createTaskResponseFromTask_def)
  next
    case None
    obtain x s1 where x: "ts_FindByHash (dp_store D) c now h (sv_store \<sigma>2) = (Inr x, s1)" "sinv s1"
      "tasks s1 = tasks (sv_store \<sigma>2)"
      "case x of None \<Rightarrow> \<forall>i t. tasks (sv_store \<sigma>2) i = Some t \<longrightarrow> tk_RequestHash t \<noteq> h
        | Some u \<Rightarrow> tasks (sv_store \<sigma>2) (tk_ID u) = Some u \<and> tk_RequestHash u = h"
      using find_by_hash [OF l(2) c] by blast
    then obtain u where "x = Some u" using s(3,4) l(3) by (cases x) auto
    then show ?thesis using r' l None x same
      by (simp add: find_or_create_def createTaskResponseFromTask_def)
  qed
qed

end

subsection \<open>Creating tasks on the in-memory service\<close>

text \<open>The in-memory wiring of cmd/server/main.go, the store with or without its cache in front.\<close>

definition memory_deps ::
  "string \<Rightarrow> (nat \<Rightarrow> bool) \<Rightarrow> (MemoryTaskStore, MemoryRateLimiter, MemoryRequestLock) deps" where
  "memory_deps plannerType printable =
     \<lparr>dp_store = MemoryTaskStore_ops, dp_limiter = MemoryRateLimiter_Allow, dp_lock = MemoryRequestLock_ops,
      dp_plannerType = plannerType, dp_printable = printable\<rparr>"

definition cached_deps ::
  "string \<Rightarrow> (nat \<Rightarrow> bool) \<Rightarrow> (MemoryTaskStore \<times> MemoryTaskCache, MemoryRateLimiter, MemoryRequestLock) deps" where
  "cached_deps plannerType printable =
     \<lparr>dp_store = CachedTaskStore_ops MemoryTaskStore_ops (Some MemoryTaskCache_ops),
      dp_limiter = MemoryRateLimiter_Allow, dp_lock = MemoryRequestLock_ops,
      dp_plannerType = plannerType, dp_printable = printable\<rparr>"

interpretation memory_env: service_env "memory_deps plannerType printable" mt_wf mt_tasks
  for plannerType printable
  by (simp add: memory_deps_def service_env_def memory_store.task_store_axioms)

interpretation cached_env: service_env "cached_deps plannerType printable"
  "coherent mt_wf mt_tasks mc_held mc_ids" "mt_tasks \<circ> fst"
  for plannerType printable
  by (simp add: cached_deps_def service_env_def memory_cached.cached.task_store_axioms)

definition new_service :: "int \<Rightarrow> (MemoryTaskStore, MemoryRateLimiter, MemoryRequestLock) service" where
  "new_service limit =
     \<lparr>sv_store = NewMemoryTaskStore, sv_limiter = NewMemoryRateLimiter limit,
      sv_lock = NewMemoryRequestLock (15 * second), sv_events = NewEventBus, sv_spawned = []\<rparr>"

text \<open>The invariant of the in-memory service.\<close>

definition service_ok :: "(MemoryTaskStore, 'r, 'l) service \<Rightarrow> bool" where
  "service_ok \<sigma> \<longleftrightarrow> mt_wf (sv_store \<sigma>) \<and> one_per_hash (mt_tasks (sv_store \<sigma>))"

lemma service_ok_new [simp]: "service_ok (new_service limit)"
  by (simp add: service_ok_def new_service_def one_per_hash_def NewMemoryTaskStore_def mt_wf_def)

text \<open>
  C1. One brief, one task. When \<open>CreateTask\<close> has admitted a request, a later admitted request of
  the same user with the same brief (in any spelling), test mode and agent mode gets the id of the
  task the first one got, and neither the stored tasks, nor the started goroutines, nor the
  published events change; whether the lock is free, held or expired, and whatever the waiting.
\<close>

theorem CreateTask_idempotent:
  assumes ok: "service_ok \<sigma>" and c: "live c" "live c'" "ctx_UserID c' = ctx_UserID c"
    and fresh: "mt_tasks (sv_store \<sigma>) i1 = None"
    and ad1: "admitted (memory_deps pt pr) c now1 i1 r1 key1 \<sigma> h"
    and first: "CreateTask (memory_deps pt pr) c now1 i1 [] r1 key1 \<sigma> = (Inr resp1, \<sigma>1)"
    and same: "same_brief (ToDomain r1 i1) (ToDomain r2 i2)" "cr_TestMode r2 = cr_TestMode r1"
      "normalizeAgentMode (cr_AgentMode r2) = normalizeAgentMode (cr_AgentMode r1)"
    and ad2: "validateCreatePlanRequest r2 = Inr ()"
      "fst (MemoryRateLimiter_Allow c' now2 (clientRateKey pr key2) (sv_limiter \<sigma>1)) \<noteq> Inr False"
  shows "\<exists>resp2 \<sigma>2. CreateTask (memory_deps pt pr) c' now2 i2 rounds r2 key2 \<sigma>1 = (Inr resp2, \<sigma>2)
    \<and> ct_TaskID resp2 = ct_TaskID resp1
    \<and> mt_tasks (sv_store \<sigma>2) = mt_tasks (sv_store \<sigma>1) \<and> sv_spawned \<sigma>2 = sv_spawned \<sigma>1
    \<and> sv_events \<sigma>2 = sv_events \<sigma>1"
proof -
  obtain t where t: "mt_wf (sv_store \<sigma>1)" "one_per_hash (mt_tasks (sv_store \<sigma>1))"
    "mt_tasks (sv_store \<sigma>1) (ct_TaskID resp1) = Some t" "tk_RequestHash t = h"
    using memory_env.CreateTask_spec [OF ad1 c(1), of "[]"] ok fresh first by (auto simp: service_ok_def)
  have "RequestHashForUser (ToDomain r2 i2) (cr_TestMode r2) (ctx_UserID c') [normalizeAgentMode (cr_AgentMode r2)] = Inr h"
    using ad1 RequestHash_same_input [OF same(1), of "normalizeAgentMode (cr_AgentMode r1)"
        "normalizeAgentMode (cr_AgentMode r2)" "cr_TestMode r2" "ctx_UserID c'"]
    by (simp only: admitted_def same(2,3) c(3))
  then have ad2': "admitted (memory_deps pt pr) c' now2 i2 r2 key2 \<sigma>1 h"
    using ad2 by (simp add: admitted_def memory_deps_def)
  show ?thesis using memory_env.CreateTask_existing [OF ad2' c(2) t] by blast
qed

lemma find_or_create_limiter [simp]:
  "sv_limiter (snd (find_or_create D c now task \<sigma>)) = sv_limiter \<sigma>"
  by (simp add: find_or_create_def Let_def split: prod.split sum.split option.split)

lemma lock_phase_limiter: "lock_phase D c now rounds h \<sigma> = (rel, r, \<sigma>') \<Longrightarrow> sv_limiter \<sigma>' = sv_limiter \<sigma>"
  by (auto simp: lock_phase_def split: prod.splits sum.splits if_splits)

lemma CreateTask_limiter:
  assumes "admitted D c now i r key \<sigma> h"
  shows "sv_limiter (snd (CreateTask D c now i rounds r key \<sigma>))
       = snd (dp_limiter D c now (clientRateKey (dp_printable D) key) (sv_limiter \<sigma>))"
proof -
  obtain a r' where a: "dp_limiter D c now (clientRateKey (dp_printable D) key) (sv_limiter \<sigma>) = (a, r')"
    by (cases "dp_limiter D c now (clientRateKey (dp_printable D) key) (sv_limiter \<sigma>)")
  obtain rel q \<sigma>2 where l: "lock_phase D c now rounds h (\<sigma>\<lparr>sv_limiter := r'\<rparr>) = (rel, q, \<sigma>2)"
    by (cases "lock_phase D c now rounds h (\<sigma>\<lparr>sv_limiter := r'\<rparr>)")
  obtain x \<sigma>3 where f: "find_or_create D c now (task_of D c now i r h) \<sigma>2 = (x, \<sigma>3)"
    by (cases "find_or_create D c now (task_of D c now i r h) \<sigma>2")
  then have "sv_limiter \<sigma>3 = sv_limiter \<sigma>2" using find_or_create_limiter [of D c now "task_of D c now i r h" \<sigma>2] by simp
  moreover have "a \<noteq> Inr False" using assms a by (simp add: admitted_def)
  ultimately show ?thesis using assms a l lock_phase_limiter [OF l] f unfolding task_of_def
    by (cases q) (simp_all add: CreateTask_def admitted_def Let_def)
qed

definition sample_create :: CreatePlanRequest where
  "sample_create = \<lparr>cr_ID = [], cr_DepartureCity = ''A'', cr_DestinationCity = ''B'', cr_Days = 2,
     cr_Budget = Fin 3000, cr_Interests = [''food''], cr_Travelers = 2, cr_DateRange = [], cr_TransportMode = [],
     cr_Pace = [], cr_WalkingTolerance = [], cr_HotelArea = [], cr_MustVisit = [], cr_Avoid = [],
     cr_TravelerType = [], cr_BudgetType = [], cr_BudgetIncludes = [], cr_TestMode = False, cr_AgentMode = []\<rparr>"

lemma sample_create_valid: "validateCreatePlanRequest sample_create = Inr ()"
  by code_simp

lemma hash_total: "cr_Budget r = Fin q \<Longrightarrow> \<exists>h. RequestHashForUser (ToDomain r i) tm u m = Inr h"
  by (simp add: RequestHashForUser_def hash_input_def ToDomain_def Let_def)

lemma same_brief_ToDomain_id: "same_brief (ToDomain r i) (ToDomain (r\<lparr>cr_ID := j\<rparr>) k)"
  by (simp add: same_brief_def same_wishes_def ToDomain_def NormalizeTravelBrief_def Let_def)

lemma sample_admitted:
  assumes "fst (MemoryRateLimiter_Allow background now (clientRateKey pr key) (sv_limiter \<sigma>)) \<noteq> Inr False"
  shows "\<exists>h. admitted (memory_deps pt pr) background now i sample_create key \<sigma> h"
proof -
  have "cr_Budget sample_create = Fin 3000" by (simp add: sample_create_def)
  from hash_total [OF this] obtain h where
    "RequestHashForUser (ToDomain sample_create i) (cr_TestMode sample_create) (ctx_UserID background)
       [normalizeAgentMode (cr_AgentMode sample_create)] = Inr h" by blast
  then show ?thesis using assms sample_create_valid by (auto simp: admitted_def memory_deps_def)
qed

theorem CreateTask_idempotent_witness:
  "\<exists>resp1 \<sigma>1 resp2 \<sigma>2.
     CreateTask (memory_deps ''mock'' (\<lambda>_. True)) background 5 ''task_1'' [] sample_create [] (new_service 60) = (Inr resp1, \<sigma>1)
   \<and> CreateTask (memory_deps ''mock'' (\<lambda>_. True)) background 9 ''task_2'' [] (sample_create\<lparr>cr_ID := ''other''\<rparr>) [] \<sigma>1
       = (Inr resp2, \<sigma>2)
   \<and> ct_TaskID resp2 = ct_TaskID resp1"
proof -
  let ?D = "memory_deps ''mock'' (\<lambda>_. True)" and ?\<sigma> = "new_service 60"
  obtain h where ad: "admitted ?D background 5 ''task_1'' sample_create [] ?\<sigma> h"
    using sample_admitted [of 5 "\<lambda>_. True" "[]" ?\<sigma>]
    by (auto simp: MemoryRateLimiter_Allow_def new_service_def NewMemoryRateLimiter_def bucket_of_def bump_def Let_def)
  have fresh: "mt_tasks (sv_store ?\<sigma>) ''task_1'' = None" by (simp add: new_service_def NewMemoryTaskStore_def)
  obtain resp1 \<sigma>1 where first: "CreateTask ?D background 5 ''task_1'' [] sample_create [] ?\<sigma> = (Inr resp1, \<sigma>1)"
    using memory_env.CreateTask_spec [OF ad, of "[]"] service_ok_new [of 60] fresh by (auto simp: service_ok_def)
  have l: "sv_limiter \<sigma>1 = snd (MemoryRateLimiter_Allow background 5 (clientRateKey (\<lambda>_. True) []) (NewMemoryRateLimiter 60))"
    using CreateTask_limiter [OF ad, of "[]"] first by (simp add: memory_deps_def new_service_def)
  have lim: "fst (MemoryRateLimiter_Allow background 9 (clientRateKey (\<lambda>_. True) []) (sv_limiter \<sigma>1)) \<noteq> Inr False"
    by (simp add: l MemoryRateLimiter_Allow_def NewMemoryRateLimiter_def bucket_of_def bump_def Let_def duration_defs)
  have v: "validateCreatePlanRequest (sample_create\<lparr>cr_ID := ''other''\<rparr>) = Inr ()"
    by code_simp
  show ?thesis
    using first CreateTask_idempotent [OF service_ok_new live_background live_background refl fresh ad first
        same_brief_ToDomain_id [of sample_create "''task_1''" "''other''" "''task_2''"] _ _ v lim, of "[]"]
    by auto
qed

text \<open>
  Rejected requests leave no trace: an invalid request is answered with its first failing
  check and changes nothing at all, not even the rate counter; a rate-limited request changes the
  rate counter only: no task is stored, no event published, no goroutine started.
\<close>

theorem CreateTask_rejected:
  assumes "CreateTask D c now i rounds req key \<sigma> = (r, \<sigma>')"
    and "validateCreatePlanRequest req \<noteq> Inr ()
      \<or> fst (dp_limiter D c now (clientRateKey (dp_printable D) key) (sv_limiter \<sigma>)) = Inr False"
  shows "r = (case validateCreatePlanRequest req of Inl e \<Rightarrow> Inl e | Inr _ \<Rightarrow> Inl ErrRateLimited)
    \<and> \<sigma>' = (case validateCreatePlanRequest req of
                  Inl e \<Rightarrow> \<sigma>
                | Inr _ \<Rightarrow> \<sigma>\<lparr>sv_limiter := sv_limiter \<sigma>'\<rparr>)"
  using assms by (auto simp: CreateTask_def Let_def split: sum.splits prod.splits)

theorem CreateTask_rejected_witness:
  "fst (CreateTask (memory_deps ''mock'' (\<lambda>_. True)) background 5 ''task_1'' [] (sample_create\<lparr>cr_Days := 0\<rparr>) [] (new_service 60))
   = Inl (ErrInvalidRequest ''days must be positive'')"
proof -
  have v: "validateCreatePlanRequest (sample_create\<lparr>cr_Days := 0\<rparr>) = Inl (ErrInvalidRequest ''days must be positive'')"
    by code_simp
  show ?thesis
    using CreateTask_rejected [of "memory_deps ''mock'' (\<lambda>_. True)" background 5 "''task_1''" "[]"
        "sample_create\<lparr>cr_Days := 0\<rparr>" "[]" "new_service 60", OF prod.collapse [symmetric]] v by simp
qed

context service_env
begin

lemma lock_phase_none:
  assumes "live c" "sinv (sv_store \<sigma>)" "\<forall>t \<in> ran (tasks (sv_store \<sigma>)). tk_RequestHash t \<noteq> h"
  shows "\<exists>rel \<sigma>'. lock_phase D c now [] h \<sigma> = (rel, None, \<sigma>') \<and> sinv (sv_store \<sigma>')
    \<and> tasks (sv_store \<sigma>') = tasks (sv_store \<sigma>) \<and> sv_spawned \<sigma>' = sv_spawned \<sigma> \<and> sv_events \<sigma>' = sv_events \<sigma>"
proof -
  obtain r s1 where r: "ts_FindByHash (dp_store D) c now h (sv_store \<sigma>) = (Inr r, s1)" "sinv s1"
    "tasks s1 = tasks (sv_store \<sigma>)"
    "case r of None \<Rightarrow> \<forall>i t. tasks (sv_store \<sigma>) i = Some t \<longrightarrow> tk_RequestHash t \<noteq> h
      | Some t \<Rightarrow> tasks (sv_store \<sigma>) (tk_ID t) = Some t \<and> tk_RequestHash t = h"
    using find_by_hash [OF assms(2,1)] by blast
  then have "r = None" using assms(3) by (cases r) (auto simp: ran_def)
  then show ?thesis using r(1-3) assms(2)
    by (cases "dp_lock D c now h (sv_lock \<sigma>)")
      (auto simp: lock_phase_def waitForExistingTask.simps [of "dp_store D"] split: sum.split)
qed

lemma CreateTask_fresh:
  assumes ad: "admitted D c now i req key \<sigma> h" and c: "live c"
    and s: "sinv (sv_store \<sigma>)" "one_per_hash (tasks (sv_store \<sigma>))" "tasks (sv_store \<sigma>) i = None"
    and new: "\<forall>t \<in> ran (tasks (sv_store \<sigma>)). tk_RequestHash t \<noteq> h"
  shows "\<exists>\<sigma>'. CreateTask D c now i [] req key \<sigma> =
      (Inr \<lparr>ct_TaskID = i, ct_RequestHash = h, ct_Status = TaskPending, ct_Cached = False\<rparr>, \<sigma>')
    \<and> sinv (sv_store \<sigma>') \<and> one_per_hash (tasks (sv_store \<sigma>'))
    \<and> tasks (sv_store \<sigma>') = (tasks (sv_store \<sigma>))(i \<mapsto> task_of D c now i req h)
    \<and> sv_spawned \<sigma>' = sv_spawned \<sigma> @ [task_of D c now i req h]"
proof -
  obtain r' where r': "CreateTask D c now i [] req key \<sigma> =
     (case lock_phase D c now [] h (\<sigma>\<lparr>sv_limiter := r'\<rparr>) of (release, found, \<sigma>2) \<Rightarrow>
        (case found of
           Some existing \<Rightarrow> (Inr (createTaskResponseFromTask existing), \<sigma>2)
         | None \<Rightarrow> (case find_or_create D c now (task_of D c now i req h) \<sigma>2 of
             (r, \<sigma>3) \<Rightarrow> (r, \<sigma>3\<lparr>sv_lock := release (sv_lock \<sigma>3)\<rparr>))))"
    using CreateTask_admitted [OF ad] by blast
  obtain rel \<sigma>2 where l: "lock_phase D c now [] h (\<sigma>\<lparr>sv_limiter := r'\<rparr>) = (rel, None, \<sigma>2)" "sinv (sv_store \<sigma>2)"
    "tasks (sv_store \<sigma>2) = tasks (sv_store \<sigma>)" "sv_spawned \<sigma>2 = sv_spawned \<sigma>"
    using lock_phase_none [of c "\<sigma>\<lparr>sv_limiter := r'\<rparr>" h now] c s(1) new by auto
  have no: "\<not> (\<exists>t \<in> ran (tasks (sv_store \<sigma>)). tk_RequestHash t = h)" using new by auto
  obtain resp \<sigma>3 where f: "find_or_create D c now (task_of D c now i req h) \<sigma>2 = (Inr resp, \<sigma>3)"
    "sinv (sv_store \<sigma>3)" "one_per_hash (tasks (sv_store \<sigma>3))"
    "created_or_found (task_of D c now i req h) (tasks (sv_store \<sigma>2)) (sv_spawned \<sigma>2) resp
       (tasks (sv_store \<sigma>3)) (sv_spawned \<sigma>3)"
    using find_or_create_spec [OF l(2) c, of "task_of D c now i req h" now] l(3) s by auto
  have "resp = \<lparr>ct_TaskID = i, ct_RequestHash = h, ct_Status = TaskPending, ct_Cached = False\<rparr>"
    using f(4) no l(3) by (cases resp) (simp add: created_or_found_def)
  then show ?thesis using f r' l no by (simp add: created_or_found_def)
qed

end

text \<open>
  A new brief makes a new task: an admitted request whose hash no stored task has is answered
  with the fresh id, its hash, status pending and not cached; exactly that task is stored, with the
  caller's user id, the normalised request and the normalised agent mode, and exactly one run is
  started, for it. The store behind its cache (the wiring with a cache) is meant here.
\<close>

theorem CreateTask_creates:
  assumes "admitted (cached_deps pt pr) c now i req key \<sigma> h" "live c"
    and "coherent mt_wf mt_tasks mc_held mc_ids (sv_store \<sigma>)" "one_per_hash (mt_tasks (fst (sv_store \<sigma>)))"
    and "mt_tasks (fst (sv_store \<sigma>)) i = None"
    and "\<forall>t \<in> ran (mt_tasks (fst (sv_store \<sigma>))). tk_RequestHash t \<noteq> h"
  shows "\<exists>\<sigma>'. CreateTask (cached_deps pt pr) c now i [] req key \<sigma> =
      (Inr \<lparr>ct_TaskID = i, ct_RequestHash = h, ct_Status = TaskPending, ct_Cached = False\<rparr>, \<sigma>')
    \<and> mt_tasks (fst (sv_store \<sigma>')) = (mt_tasks (fst (sv_store \<sigma>)))(i \<mapsto> task_of (cached_deps pt pr) c now i req h)
    \<and> sv_spawned \<sigma>' = sv_spawned \<sigma> @ [task_of (cached_deps pt pr) c now i req h]"
  using cached_env.CreateTask_fresh [OF assms(1,2)] assms(3-6) by auto

definition new_cached_service ::
  "(MemoryTaskStore \<times> MemoryTaskCache, MemoryRateLimiter, MemoryRequestLock) service" where
  "new_cached_service =
     \<lparr>sv_store = (NewMemoryTaskStore, NewMemoryTaskCache hour), sv_limiter = NewMemoryRateLimiter 60,
      sv_lock = NewMemoryRequestLock 0, sv_events = NewEventBus, sv_spawned = []\<rparr>"

theorem CreateTask_creates_witness:
  "\<exists>h \<sigma>'. CreateTask (cached_deps ''mock'' (\<lambda>_. True)) background 5 ''task_1'' [] sample_create [] new_cached_service =
      (Inr \<lparr>ct_TaskID = ''task_1'', ct_RequestHash = h, ct_Status = TaskPending, ct_Cached = False\<rparr>, \<sigma>')
    \<and> length (sv_spawned \<sigma>') = 1"
proof -
  have "cr_Budget sample_create = Fin 3000" by (simp add: sample_create_def)
  from hash_total [OF this] obtain h where
    h: "RequestHashForUser (ToDomain sample_create ''task_1'') (cr_TestMode sample_create) (ctx_UserID background)
       [normalizeAgentMode (cr_AgentMode sample_create)] = Inr h" by blast
  have ad: "admitted (cached_deps ''mock'' (\<lambda>_. True)) background 5 ''task_1'' sample_create [] new_cached_service h"
    using h sample_create_valid
    by (simp add: admitted_def cached_deps_def new_cached_service_def MemoryRateLimiter_Allow_def
        NewMemoryRateLimiter_def bucket_of_def bump_def Let_def)
  show ?thesis
    using CreateTask_creates [OF ad live_background] coherent_new [of hour]
    by (auto simp: new_cached_service_def NewMemoryTaskStore_def one_per_hash_def)
qed

subsection \<open>What a run does\<close>

lemma Publish_last:
  assumes "bus_ok b" "ev_TaskID e = i" "i \<noteq> []"
  shows "\<exists>b'. Publish e b = Some b' \<and> bus_ok b'
    \<and> eb_history b' i = take_last eventHistoryLimit (eb_history b i @ [e\<lparr>ev_Sequence := eb_sequences b i + 1\<rparr>])"
proof -
  obtain b' where b': "Publish e b = Some b'" "bus_ok b'" using Publish_ok [OF assms(1)] by blast
  obtain e' chs b1 where p: "publish_locked e b = (e', chs, b1)" by (cases "publish_locked e b") auto
  have "channels_ok b" using assms(1) by (simp add: bus_ok_def)
  then have open_: "\<forall>c \<in> set chs. \<not> ch_closed (eb_channels b1 c)" "distinct chs"
    unfolding publish_locked_frame(1,3) [OF p] channels_ok_def by blast+
  have "eb_history b' = eb_history b1"
    using send_all_open [OF open_, of e'] b'(1) p by (auto simp: Publish_def)
  then show ?thesis using b' p assms(2,3) by (auto simp: publish_locked_def Let_def)
qed

lemma publish_bus_ok: "bus_ok (sv_events \<sigma>) \<Longrightarrow> bus_ok (sv_events (publish e \<sigma>))"
  using Publish_ok [of "sv_events \<sigma>" e] by (auto simp: publish_def)

lemma publish_list_bus_ok: "bus_ok (sv_events \<sigma>) \<Longrightarrow> bus_ok (sv_events (publish_list es \<sigma>))"
  by (induction es arbitrary: \<sigma>) (auto intro: publish_bus_ok)

lemma publish_last:
  assumes "bus_ok (sv_events \<sigma>)" "ev_TaskID e = i" "i \<noteq> []"
  shows "\<exists>n h. EventHistory i (publish e \<sigma>) = h @ [e\<lparr>ev_Sequence := n\<rparr>]"
proof -
  obtain b' where "Publish e (sv_events \<sigma>) = Some b'"
    "eb_history b' i = take_last eventHistoryLimit
       (eb_history (sv_events \<sigma>) i @ [e\<lparr>ev_Sequence := eb_sequences (sv_events \<sigma>) i + 1\<rparr>])"
    using Publish_last [OF assms] by blast
  then have "EventHistory i (publish e \<sigma>) =
      drop (length (eb_history (sv_events \<sigma>) i) + 1 - 100) (eb_history (sv_events \<sigma>) i)
      @ [e\<lparr>ev_Sequence := eb_sequences (sv_events \<sigma>) i + 1\<rparr>]"
    by (simp add: EventHistory_def History_def publish_def take_last_def eventHistoryLimit_def)
  then show ?thesis by blast
qed

lemma publish_list_last:
  assumes "bus_ok (sv_events \<sigma>)" "ev_TaskID e = i" "i \<noteq> []"
  shows "\<exists>n h. EventHistory i (publish_list (es @ [e]) \<sigma>) = h @ [e\<lparr>ev_Sequence := n\<rparr>]"
  using assms
proof (induction es arbitrary: \<sigma>)
  case Nil
  then show ?case using publish_last by simp
next
  case (Cons x es)
  then show ?case using Cons.IH [of "publish x \<sigma>"] publish_bus_ok [of \<sigma> x] by simp
qed

text \<open>The status a task ends in, and its last event.\<close>

definition ends_well :: "planner_outcome \<Rightarrow> bool" where
  "ends_well outcome \<longleftrightarrow> (case outcome of PlanOk (Some plan) \<Rightarrow> True | _ \<Rightarrow> False)"

lemma finish_task_shape:
  assumes "finish_task running outcome saw ts = (t, before, after)"
  shows "tk_ID t = tk_ID running" "tk_RequestHash t = tk_RequestHash running" "terminal t"
    "tk_Status t = (if ends_well outcome then TaskSucceeded else TaskFailed)"
    "tk_UserID t = tk_UserID running"
    "case outcome of PlanOk (Some plan) \<Rightarrow> tk_Plan t = Some plan \<and> tk_Error t = []
       | PlanErr e \<Rightarrow> tk_Error t = e | _ \<Rightarrow> prefix ''panic: '' (tk_Error t)"
    "\<exists>es e. (before = es @ [e] \<and> after = [] \<or> before = [] \<and> after = [e])
       \<and> ev_TaskID e = tk_ID running \<and> ev_Status e = Some (tk_Status t)
       \<and> ev_Type e = (if ends_well outcome then EventDone else EventError)"
  using assms
  by (auto simp: finish_task_def ends_well_def Let_def isTerminalTaskStatus_def task_event_def
      split: planner_outcome.splits option.splits)

context service_env
begin

lemma store_update_spec:
  assumes "sinv (sv_store \<sigma>)" "tasks (sv_store \<sigma>) (tk_ID t) = Some t0" "may_follow t0 t"
  shows "\<exists>\<sigma>'. store_update D now t \<sigma> = (Inr (), \<sigma>') \<and> sinv (sv_store \<sigma>')
    \<and> tasks (sv_store \<sigma>') = (tasks (sv_store \<sigma>))(tk_ID t \<mapsto> t) \<and> sv_events \<sigma>' = sv_events \<sigma>"
  using update [OF assms(1) _ assms(2,3), of "background\<lparr>ctx_RequestID := tk_RequestID t\<rparr>" now]
  by (auto simp: store_update_def)

lemma runTask_spec:
  assumes s: "sinv (sv_store \<sigma>)" "tasks (sv_store \<sigma>) (tk_ID task) = Some task" "\<not> terminal task"
    and b: "bus_ok (sv_events \<sigma>)" "tk_ID task \<noteq> []"
    and run: "run = plan (tk_Request task) (tk_TestMode task) (normalizeAgentMode (tk_AgentMode task))"
  shows "\<exists>t n h e. tasks (sv_store (runTask D plan t1 t2 task \<sigma>)) = (tasks (sv_store \<sigma>))(tk_ID task \<mapsto> t)
    \<and> tk_Status t = (if ends_well (pr_outcome run) then TaskSucceeded else TaskFailed)
    \<and> (case pr_outcome run of PlanOk (Some plan) \<Rightarrow> tk_Plan t = Some plan \<and> tk_Error t = []
       | PlanErr e \<Rightarrow> tk_Error t = e | _ \<Rightarrow> prefix ''panic: '' (tk_Error t))
    \<and> tk_RequestHash t = tk_RequestHash task \<and> tk_UserID t = tk_UserID task
    \<and> EventHistory (tk_ID task) (runTask D plan t1 t2 task \<sigma>) = h @ [e\<lparr>ev_Sequence := n\<rparr>]
    \<and> ev_Status e = Some (tk_Status t)
    \<and> ev_Type e = (if ends_well (pr_outcome run) then EventDone else EventError)
    \<and> bus_ok (sv_events (runTask D plan t1 t2 task \<sigma>)) \<and> sinv (sv_store (runTask D plan t1 t2 task \<sigma>))"
proof -
  let ?i = "tk_ID task"
  define running where "running = task\<lparr>tk_Status := TaskRunning, tk_UpdatedAt := t1\<rparr>"
  have ri: "tk_ID running = ?i" "tk_RequestHash running = tk_RequestHash task" "\<not> terminal running"
    "tk_UserID running = tk_UserID task"
    by (simp_all add: running_def isTerminalTaskStatus_def)
  have mf: "may_follow task running" using s(3) ri by (simp add: may_follow_def)
  obtain \<sigma>1 where u1: "store_update D t1 running \<sigma> = (Inr (), \<sigma>1)" "sinv (sv_store \<sigma>1)"
    "tasks (sv_store \<sigma>1) = (tasks (sv_store \<sigma>))(?i \<mapsto> running)" "sv_events \<sigma>1 = sv_events \<sigma>"
    using store_update_spec [OF s(1) _ mf, of t1] s(2) ri by auto
  define \<sigma>2 where "\<sigma>2 = publish (task_event running EventProgress TaskRunning ''planner started'' t1) \<sigma>1"
  define \<sigma>3 where "\<sigma>3 = publish_list (report_events running (pr_reports run)) \<sigma>2"
  have b3: "bus_ok (sv_events \<sigma>3)" "sv_store \<sigma>3 = sv_store \<sigma>1"
    using b u1(4) by (simp_all add: \<sigma>2_def \<sigma>3_def publish_list_bus_ok publish_bus_ok)
  obtain t before after where f: "finish_task running (pr_outcome run) (saw_any_delta (pr_reports run)) t2 = (t, before, after)"
    by (cases "finish_task running (pr_outcome run) (saw_any_delta (pr_reports run)) t2")
  note fs = finish_task_shape [OF f]
  define \<sigma>4 where "\<sigma>4 = publish_list before \<sigma>3"
  have mt: "may_follow running t" using fs ri by (simp add: may_follow_def)
  obtain \<sigma>5 where u2: "store_update D t2 t \<sigma>4 = (Inr (), \<sigma>5)" "sinv (sv_store \<sigma>5)"
    "tasks (sv_store \<sigma>5) = (tasks (sv_store \<sigma>4))(?i \<mapsto> t)" "sv_events \<sigma>5 = sv_events \<sigma>4"
    using store_update_spec [of \<sigma>4 t running t2] u1(2,3) b3(2) mt fs(1) ri by (auto simp: \<sigma>4_def)
  have eq: "runTask D plan t1 t2 task \<sigma> = publish_list after \<sigma>5"
    using u1(1) u2(1) f unfolding runTask_def running_def \<sigma>2_def \<sigma>3_def \<sigma>4_def run Let_def by simp
  obtain es e where e: "before = es @ [e] \<and> after = [] \<or> before = [] \<and> after = [e]"
    "ev_TaskID e = ?i" "ev_Status e = Some (tk_Status t)"
    "ev_Type e = (if ends_well (pr_outcome run) then EventDone else EventError)"
    using fs(7) ri by auto
  have b5: "bus_ok (sv_events \<sigma>5)" using b3(1) u2(4) by (simp add: \<sigma>4_def publish_list_bus_ok)
  have "\<exists>n h. EventHistory ?i (publish_list after \<sigma>5) = h @ [e\<lparr>ev_Sequence := n\<rparr>]"
    using e(1)
  proof
    assume a: "before = es @ [e] \<and> after = []"
    then obtain n h where h: "EventHistory ?i \<sigma>4 = h @ [e\<lparr>ev_Sequence := n\<rparr>]"
      using publish_list_last [OF b3(1) e(2) b(2), of es] by (auto simp: \<sigma>4_def)
    have "EventHistory ?i (publish_list after \<sigma>5) = EventHistory ?i \<sigma>4"
      using a u2(4) by (simp add: EventHistory_def)
    with h show ?thesis by metis
  next
    assume "before = [] \<and> after = [e]"
    then show ?thesis using publish_list_last [OF b5 e(2) b(2), of "[]"] by simp
  qed
  then obtain n h where hist: "EventHistory ?i (publish_list after \<sigma>5) = h @ [e\<lparr>ev_Sequence := n\<rparr>]" by blast
  have "tasks (sv_store \<sigma>5) = (tasks (sv_store \<sigma>))(?i \<mapsto> t)"
    using u2(3) u1(3) b3(2) by (simp add: \<sigma>4_def)
  then show ?thesis
    unfolding eq using fs(2,4,5,6) ri e(3,4) u2(2) b5 hist
    by (intro exI [of _ t] exI [of _ n] exI [of _ h] exI [of _ e]) (simp add: publish_list_bus_ok)
qed

end

text \<open>
  C2. Every started run brings its task to an end and says so: whatever the planner reports and
  however it ends (a plan, an error, a panic, a nil plan), the stored task is succeeded with the
  plan when the planner returned a plan, and failed with the error text otherwise, no other task
  changes, and the last event of the task's history is the done event, or the error event, with
  that status. So a client that subscribes late still reads how the task ended.
\<close>

theorem runTask_finishes:
  assumes "service_ok \<sigma>" "bus_ok (sv_events \<sigma>)"
    and "mt_tasks (sv_store \<sigma>) (tk_ID task) = Some task" "tk_Status task = TaskPending" "tk_ID task \<noteq> []"
    and "run = plan (tk_Request task) (tk_TestMode task) (normalizeAgentMode (tk_AgentMode task))"
    and "\<sigma>' = runTask (memory_deps pt pr) plan t1 t2 task \<sigma>"
  shows "\<exists>t n h e. mt_tasks (sv_store \<sigma>') = (mt_tasks (sv_store \<sigma>))(tk_ID task \<mapsto> t)
    \<and> tk_Status t = (if ends_well (pr_outcome run) then TaskSucceeded else TaskFailed)
    \<and> (case pr_outcome run of PlanOk (Some plan) \<Rightarrow> tk_Plan t = Some plan \<and> tk_Error t = []
       | PlanErr e \<Rightarrow> tk_Error t = e | _ \<Rightarrow> prefix ''panic: '' (tk_Error t))
    \<and> EventHistory (tk_ID task) \<sigma>' = h @ [e\<lparr>ev_Sequence := n\<rparr>]
    \<and> ev_Status e = Some (tk_Status t)
    \<and> ev_Type e = (if ends_well (pr_outcome run) then EventDone else EventError)"
proof -
  have nt: "\<not> terminal task" using assms(4) by (simp add: isTerminalTaskStatus_def)
  show ?thesis
    using memory_env.runTask_spec [where plan = plan and run = run and \<sigma> = \<sigma> and task = task
        and ?t1.0 = t1 and ?t2.0 = t2 and plannerType = pt and printable = pr,
        OF _ assms(3) nt assms(2,5,6)] assms(1)
    unfolding assms(7) service_ok_def by blast
qed

definition sample_stored :: "(MemoryTaskStore, MemoryRateLimiter, MemoryRequestLock) service" where
  "sample_stored = (new_service 60)\<lparr>sv_store := mt_put (sample_task ''t1'' TaskPending) NewMemoryTaskStore\<rparr>"

theorem runTask_finishes_witness:
  "\<exists>t. mt_tasks (sv_store (runTask (memory_deps ''mock'' (\<lambda>_. True))
       (\<lambda>_ _ _. \<lparr>pr_reports = [(ReportLLMDelta ''hi'', 8)], pr_outcome = PlanErr ''no route''\<rparr>)
       7 9 (sample_task ''t1'' TaskPending) sample_stored)) ''t1'' = Some t
     \<and> tk_Status t = TaskFailed \<and> tk_Error t = ''no route''"
proof -
  have "service_ok sample_stored"
    by (auto simp: service_ok_def sample_stored_def one_per_hash_def mt_put_def NewMemoryTaskStore_def mt_wf_def
        sample_task_def split: if_splits)
  moreover have "bus_ok (sv_events sample_stored)" by (simp add: sample_stored_def new_service_def)
  moreover have "mt_tasks (sv_store sample_stored) (tk_ID (sample_task ''t1'' TaskPending)) = Some (sample_task ''t1'' TaskPending)"
    by (simp add: sample_stored_def upd)
  ultimately show ?thesis
    using runTask_finishes [of sample_stored "sample_task ''t1'' TaskPending" _
        "\<lambda>_ _ _. \<lparr>pr_reports = [(ReportLLMDelta ''hi'', 8)], pr_outcome = PlanErr ''no route''\<rparr>"
        _ "''mock''" "\<lambda>_. True" 7 9, OF _ _ _ _ _ refl refl]
    by (auto simp: sample_task_def ends_well_def)
qed

subsection \<open>Chunked text\<close>

lemma concat_chunks_of: "0 < n \<Longrightarrow> concat (chunks_of n xs) = xs"
  by (induction n xs rule: chunks_of.induct) (subst chunks_of.simps, auto)

lemma length_chunks_of: "c \<in> set (chunks_of n xs) \<Longrightarrow> length c \<le> n \<and> c \<noteq> []"
  by (induction n xs rule: chunks_of.induct) (subst (asm) (2) chunks_of.simps, auto split: if_splits)

lemma set_chunks_of: "c \<in> set (chunks_of n xs) \<Longrightarrow> set c \<subseteq> set xs"
  by (induction n xs rule: chunks_of.induct)
    (subst (asm) (2) chunks_of.simps, auto split: if_splits dest: in_set_takeD in_set_dropD)

lemma utf8_concat: "utf8 (concat rss) = concat (map utf8 rss)"
  by (induction rss) auto

text \<open>
  \<open>chunkText\<close> loses nothing: the chunks of a well-formed text concatenate to the trimmed
  text, and every chunk is a non-empty piece of at most \<open>size\<close> runes (16 when the size is not
  positive), cut between runes. The typewriter fallback of chats and plan summaries shows exactly
  the reply.
\<close>

theorem chunkText_complete:
  assumes "valid_utf8 (TrimSpace text)"
  shows "concat (chunkText text size0) = TrimSpace text
    \<and> (\<forall>chunk \<in> set (chunkText text size0). \<exists>rs. chunk = utf8 rs \<and> rs \<noteq> []
         \<and> int (length rs) \<le> (if size0 \<le> 0 then 16 else size0))"
proof (cases "TrimSpace text = []")
  case True
  then show ?thesis by (simp add: chunkText_def)
next
  case False
  define n where "n = (if size0 \<le> 0 then 16 else size0)"
  have n: "0 < nat n" "0 \<le> n" by (simp_all add: n_def)
  have eq: "chunkText text size0 = map utf8 (chunks_of (nat n) (runes (TrimSpace text)))"
    using False by (simp add: chunkText_def n_def Let_def)
  have "concat (chunkText text size0) = utf8 (runes (TrimSpace text))"
    by (simp only: eq utf8_concat [symmetric] concat_chunks_of [OF n(1)])
  then show ?thesis
    using assms n(2) length_chunks_of [of _ "nat n" "runes (TrimSpace text)"]
    by (fastforce simp: valid_utf8_def eq n_def [symmetric])
qed

theorem chunkText_complete_witness:
  "concat (chunkText (utf8 [0x20, 0x4F60, 0x597D, 0x21]) 2) = utf8 [0x4F60, 0x597D, 0x21]"
proof -
  have t: "TrimSpace (utf8 [0x20, 0x4F60, 0x597D, 0x21]) = utf8 [0x4F60, 0x597D, 0x21]" by code_simp
  have "valid_utf8 (utf8 [0x4F60, 0x597D, 0x21])" by (rule valid_utf8_utf8) (simp add: valid_rune_def)
  then show ?thesis using chunkText_complete [of "utf8 [0x20, 0x4F60, 0x597D, 0x21]" 2] t by simp
qed

end
