(* ===== verification/Auth.thy ===== *)
theory Auth
  imports Sha256 Go_Time
begin

section \<open>Accounts and sessions\<close>

text \<open>
  internal/auth: users, sessions, their in-memory stores and the service. Not under the
  repository, and arguments of the definitions here: bcrypt (\<open>bc_generate\<close>, with its salt, and
  \<open>bc_compare\<close>) and the address grammar of \<open>net/mail\<close> (\<open>parse_address\<close>). Random bytes and clock
  readings are inputs. SHA-256 is concrete.
\<close>

subsection \<open>Data\<close>

datatype auth_err =
  ErrEmailExists | ErrInvalidCredentials | ErrUserNotFound | ErrSessionNotFound | ErrSessionExpired
| ErrPasswordTooShort | ErrInvalidEmail | ErrDisplayNameMissing | ErrUnauthenticated
| ErrAuthCtx string | ErrPasswordEmpty | ErrBcrypt string | ErrAuthBackend string

record User =
  us_ID :: string
  us_Email :: string
  us_DisplayName :: string
  us_PasswordHash :: string
  us_Status :: string
  us_CreatedAt :: time
  us_UpdatedAt :: time

definition UserStatusActive :: string where "UserStatusActive = ''active''"
definition UserStatusDisabled :: string where "UserStatusDisabled = ''disabled''"

record UserDTO =
  ud_ID :: string
  ud_Email :: string
  ud_DisplayName :: string
  ud_Status :: string
  ud_CreatedAt :: string

definition NewUserDTO :: "User \<Rightarrow> UserDTO" where
  "NewUserDTO u = \<lparr>ud_ID = us_ID u, ud_Email = us_Email u, ud_DisplayName = us_DisplayName u,
     ud_Status = us_Status u, ud_CreatedAt = RFC3339 (us_CreatedAt u)\<rparr>"

record Session =
  ss_ID :: string
  ss_UserID :: string
  ss_TokenHash :: string
  ss_ExpiresAt :: time
  ss_CreatedAt :: time
  ss_RevokedAt :: "time option"

definition Active :: "time \<Rightarrow> Session \<Rightarrow> bool" where
  "Active now s \<longleftrightarrow> (case ss_RevokedAt s of Some _ \<Rightarrow> False | None \<Rightarrow> now < ss_ExpiresAt s)"

subsection \<open>Stores\<close>

record 'u UserStore =
  ust_Create :: "ctx \<Rightarrow> User \<Rightarrow> 'u \<Rightarrow> (auth_err + unit) \<times> 'u"
  ust_GetByID :: "ctx \<Rightarrow> string \<Rightarrow> 'u \<Rightarrow> auth_err + User"
  ust_GetByEmail :: "ctx \<Rightarrow> string \<Rightarrow> 'u \<Rightarrow> auth_err + User"

record 's SessionStore =
  sst_Create :: "ctx \<Rightarrow> Session \<Rightarrow> 's \<Rightarrow> (auth_err + unit) \<times> 's"
  sst_GetByTokenHash :: "ctx \<Rightarrow> string \<Rightarrow> 's \<Rightarrow> auth_err + Session"
  sst_Revoke :: "ctx \<Rightarrow> string \<Rightarrow> time \<Rightarrow> 's \<Rightarrow> (auth_err + unit) \<times> 's"

record MemoryUserStore =
  mu_byID :: "string \<rightharpoonup> User"
  mu_email :: "string \<rightharpoonup> string"

definition NewMemoryUserStore :: MemoryUserStore where
  "NewMemoryUserStore = \<lparr>mu_byID = Map.empty, mu_email = Map.empty\<rparr>"

definition MemoryUserStore_Create ::
  "ctx \<Rightarrow> User \<Rightarrow> MemoryUserStore \<Rightarrow> (auth_err + unit) \<times> MemoryUserStore" where
  "MemoryUserStore_Create c user s =
     (case ctx_Err c of
        Some e \<Rightarrow> (Inl (ErrAuthCtx e), s)
      | None \<Rightarrow>
          if mu_email s (us_Email user) \<noteq> None then (Inl ErrEmailExists, s)
          else (Inr (), s\<lparr>mu_byID := (mu_byID s)(us_ID user \<mapsto> user),
                          mu_email := (mu_email s)(us_Email user \<mapsto> us_ID user)\<rparr>))"

definition MemoryUserStore_GetByID :: "ctx \<Rightarrow> string \<Rightarrow> MemoryUserStore \<Rightarrow> auth_err + User" where
  "MemoryUserStore_GetByID c i s =
     (case ctx_Err c of
        Some e \<Rightarrow> Inl (ErrAuthCtx e)
      | None \<Rightarrow> (case mu_byID s i of None \<Rightarrow> Inl ErrUserNotFound | Some u \<Rightarrow> Inr u))"

text \<open>A Go map read of a missing id gives the zero user; the stores' invariant excludes it.\<close>

definition zero_user :: User where
  "zero_user = \<lparr>us_ID = [], us_Email = [], us_DisplayName = [], us_PasswordHash = [], us_Status = [],
     us_CreatedAt = 0, us_UpdatedAt = 0\<rparr>"

definition MemoryUserStore_GetByEmail :: "ctx \<Rightarrow> string \<Rightarrow> MemoryUserStore \<Rightarrow> auth_err + User" where
  "MemoryUserStore_GetByEmail c email s =
     (case ctx_Err c of
        Some e \<Rightarrow> Inl (ErrAuthCtx e)
      | None \<Rightarrow>
          (case mu_email s email of
             None \<Rightarrow> Inl ErrUserNotFound
           | Some i \<Rightarrow> Inr (case mu_byID s i of None \<Rightarrow> zero_user | Some u \<Rightarrow> u)))"

definition MemoryUserStore_ops :: "MemoryUserStore UserStore" where
  "MemoryUserStore_ops = \<lparr>ust_Create = MemoryUserStore_Create, ust_GetByID = MemoryUserStore_GetByID,
     ust_GetByEmail = MemoryUserStore_GetByEmail\<rparr>"

type_synonym MemorySessionStore = "string \<rightharpoonup> Session"

definition NewMemorySessionStore :: MemorySessionStore where
  "NewMemorySessionStore = Map.empty"

definition MemorySessionStore_Create ::
  "ctx \<Rightarrow> Session \<Rightarrow> MemorySessionStore \<Rightarrow> (auth_err + unit) \<times> MemorySessionStore" where
  "MemorySessionStore_Create c session s =
     (case ctx_Err c of
        Some e \<Rightarrow> (Inl (ErrAuthCtx e), s)
      | None \<Rightarrow> (Inr (), s(ss_TokenHash session \<mapsto> session)))"

definition MemorySessionStore_GetByTokenHash ::
  "ctx \<Rightarrow> string \<Rightarrow> MemorySessionStore \<Rightarrow> auth_err + Session" where
  "MemorySessionStore_GetByTokenHash c tokenHash s =
     (case ctx_Err c of
        Some e \<Rightarrow> Inl (ErrAuthCtx e)
      | None \<Rightarrow> (case s tokenHash of None \<Rightarrow> Inl ErrSessionNotFound | Some x \<Rightarrow> Inr x))"

definition MemorySessionStore_Revoke ::
  "ctx \<Rightarrow> string \<Rightarrow> time \<Rightarrow> MemorySessionStore \<Rightarrow> (auth_err + unit) \<times> MemorySessionStore" where
  "MemorySessionStore_Revoke c tokenHash revokedAt s =
     (case ctx_Err c of
        Some e \<Rightarrow> (Inl (ErrAuthCtx e), s)
      | None \<Rightarrow>
          (case s tokenHash of
             None \<Rightarrow> (Inl ErrSessionNotFound, s)
           | Some x \<Rightarrow> (Inr (), s(tokenHash \<mapsto> x\<lparr>ss_RevokedAt := Some revokedAt\<rparr>))))"

definition MemorySessionStore_ops :: "MemorySessionStore SessionStore" where
  "MemorySessionStore_ops = \<lparr>sst_Create = MemorySessionStore_Create,
     sst_GetByTokenHash = MemorySessionStore_GetByTokenHash, sst_Revoke = MemorySessionStore_Revoke\<rparr>"

subsection \<open>The service\<close>

definition DefaultPasswordMinLength :: int where "DefaultPasswordMinLength = 8"
definition DefaultSessionTTL :: duration where "DefaultSessionTTL = 7 * 24 * hour"

record AuthConfig =
  ac_PasswordMinLength :: int
  ac_SessionTTL :: duration

definition WithDefaults :: "AuthConfig \<Rightarrow> AuthConfig" where
  "WithDefaults c =
     \<lparr>ac_PasswordMinLength = (if ac_PasswordMinLength c \<le> 0 then DefaultPasswordMinLength else ac_PasswordMinLength c),
      ac_SessionTTL = (if ac_SessionTTL c \<le> 0 then DefaultSessionTTL else ac_SessionTTL c)\<rparr>"

text \<open>What the service is built from; the random source is split into the draws of each call.\<close>

record ('u, 's) auth_deps =
  ad_users :: "'u UserStore"
  ad_sessions :: "'s SessionStore"
  ad_cfg :: AuthConfig
  bc_generate :: "string \<Rightarrow> string \<Rightarrow> string + string"
  bc_compare :: "string \<Rightarrow> string \<Rightarrow> bool"
  parse_address :: "string \<Rightarrow> bool"

record draws =
  dr_user :: "nat list"
  dr_session :: "nat list"
  dr_token :: "nat list"
  dr_salt :: string

record Issued =
  is_User :: User
  is_Session :: Session
  is_Plaintext :: string

definition HashPassword :: "('u, 's) auth_deps \<Rightarrow> string \<Rightarrow> string \<Rightarrow> auth_err + string" where
  "HashPassword A salt password =
     (if password = [] then Inl ErrPasswordEmpty
      else case bc_generate A salt password of Inl e \<Rightarrow> Inl (ErrBcrypt e) | Inr h \<Rightarrow> Inr h)"

definition VerifyPassword :: "('u, 's) auth_deps \<Rightarrow> string \<Rightarrow> string \<Rightarrow> bool" where
  "VerifyPassword A passwordHash password = bc_compare A passwordHash password"

definition HashSessionToken :: "string \<Rightarrow> string" where
  "HashSessionToken plaintext = sha256_hex plaintext"

definition NewSessionToken :: "nat list \<Rightarrow> string \<times> string" where
  "NewSessionToken raw = (let plaintext = hex_encode raw in (plaintext, HashSessionToken plaintext))"

definition prefixedRandomID :: "string \<Rightarrow> nat list \<Rightarrow> string" where
  "prefixedRandomID pre raw = pre @ hex_encode raw"

definition NewUserID :: "nat list \<Rightarrow> string" where
  "NewUserID raw = prefixedRandomID ''user_'' raw"

definition NewSessionID :: "nat list \<Rightarrow> string" where
  "NewSessionID raw = prefixedRandomID ''sess_'' raw"

definition normalizeEmail :: "string \<Rightarrow> string" where
  "normalizeEmail value = ToLower (TrimSpace value)"

definition issueSession ::
  "('u, 's) auth_deps \<Rightarrow> ctx \<Rightarrow> time \<Rightarrow> draws \<Rightarrow> User \<Rightarrow> 's \<Rightarrow> (auth_err + Issued) \<times> 's" where
  "issueSession A c now d user s =
     (case NewSessionToken (dr_token d) of
        (plaintext, h) \<Rightarrow>
          (let session = \<lparr>ss_ID = NewSessionID (dr_session d), ss_UserID = us_ID user, ss_TokenHash = h,
                          ss_ExpiresAt = now + ac_SessionTTL (ad_cfg A), ss_CreatedAt = now, ss_RevokedAt = None\<rparr>
           in case sst_Create (ad_sessions A) c session s of
                (Inl e, s') \<Rightarrow> (Inl e, s')
              | (Inr _, s') \<Rightarrow> (Inr \<lparr>is_User = user, is_Session = session, is_Plaintext = plaintext\<rparr>, s')))"

text \<open>\<open>display[:80]\<close> cuts bytes.\<close>

definition display_name :: "string \<Rightarrow> string" where
  "display_name name =
     (let display = TrimSpace name in if 80 < length display then take 80 display else display)"

definition registered_user :: "draws \<Rightarrow> time \<Rightarrow> string \<Rightarrow> string \<Rightarrow> string \<Rightarrow> User" where
  "registered_user d now email display h =
     \<lparr>us_ID = NewUserID (dr_user d), us_Email = email, us_DisplayName = display, us_PasswordHash = h,
      us_Status = UserStatusActive, us_CreatedAt = now, us_UpdatedAt = now\<rparr>"

definition Register ::
  "('u, 's) auth_deps \<Rightarrow> ctx \<Rightarrow> time \<Rightarrow> draws \<Rightarrow> string \<Rightarrow> string \<Rightarrow> string \<Rightarrow> 'u \<times> 's
     \<Rightarrow> (auth_err + Issued) \<times> 'u \<times> 's" where
  "Register A c now d email0 password displayName = (\<lambda>(u, s).
     let email = normalizeEmail email0;
         display = display_name displayName
     in if email = [] then (Inl ErrInvalidEmail, u, s)
        else if \<not> parse_address A email then (Inl ErrInvalidEmail, u, s)
        else if TrimSpace displayName = [] then (Inl ErrDisplayNameMissing, u, s)
        else if int (length password) < ac_PasswordMinLength (ad_cfg A) then (Inl ErrPasswordTooShort, u, s)
        else case HashPassword A (dr_salt d) password of
               Inl e \<Rightarrow> (Inl e, u, s)
             | Inr h \<Rightarrow>
                 (let user = registered_user d now email display h
                  in case ust_Create (ad_users A) c user u of
                       (Inl e, u') \<Rightarrow> (Inl e, u', s)
                     | (Inr _, u') \<Rightarrow>
                         (case issueSession A c now d user s of (r, s') \<Rightarrow> (r, u', s'))))"

definition Login ::
  "('u, 's) auth_deps \<Rightarrow> ctx \<Rightarrow> time \<Rightarrow> draws \<Rightarrow> string \<Rightarrow> string \<Rightarrow> 'u \<times> 's
     \<Rightarrow> (auth_err + Issued) \<times> 'u \<times> 's" where
  "Login A c now d email password = (\<lambda>(u, s).
     case ust_GetByEmail (ad_users A) c (normalizeEmail email) u of
       Inl _ \<Rightarrow> (Inl ErrInvalidCredentials, u, s)
     | Inr user \<Rightarrow>
         if us_Status user \<noteq> UserStatusActive then (Inl ErrInvalidCredentials, u, s)
         else if \<not> VerifyPassword A (us_PasswordHash user) password then (Inl ErrInvalidCredentials, u, s)
         else (case issueSession A c now d user s of (r, s') \<Rightarrow> (r, u, s')))"

definition Logout ::
  "('u, 's) auth_deps \<Rightarrow> ctx \<Rightarrow> time \<Rightarrow> string \<Rightarrow> 'u \<times> 's \<Rightarrow> (auth_err + unit) \<times> 'u \<times> 's" where
  "Logout A c now plaintextToken = (\<lambda>(u, s).
     if plaintextToken = [] then (Inr (), u, s)
     else case sst_Revoke (ad_sessions A) c (HashSessionToken plaintextToken) now s of
            (Inr _, s') \<Rightarrow> (Inr (), u, s')
          | (Inl e, s') \<Rightarrow> (if e = ErrSessionNotFound then Inr () else Inl e, u, s'))"

definition Authenticate ::
  "('u, 's) auth_deps \<Rightarrow> ctx \<Rightarrow> time \<Rightarrow> string \<Rightarrow> 'u \<times> 's \<Rightarrow> auth_err + User" where
  "Authenticate A c now plaintextToken = (\<lambda>(u, s).
     if plaintextToken = [] then Inl ErrUnauthenticated
     else case sst_GetByTokenHash (ad_sessions A) c (HashSessionToken plaintextToken) s of
            Inl e \<Rightarrow> Inl e
          | Inr session \<Rightarrow>
              if \<not> Active now session then Inl ErrSessionExpired
              else case ust_GetByID (ad_users A) c (ss_UserID session) u of
                     Inl e \<Rightarrow> Inl e
                   | Inr user \<Rightarrow> if us_Status user \<noteq> UserStatusActive then Inl ErrUnauthenticated else Inr user)"

subsection \<open>The interfaces\<close>

text \<open>
  \<open>users\<close> is the content of a user store by id. Emails are unique; a new user is created under a
  fresh id. A session store is keyed by the token hash; revoking keeps everything but the mark.
\<close>

locale user_store =
  fixes U :: "'u UserStore" and uinv :: "'u \<Rightarrow> bool" and users :: "'u \<Rightarrow> string \<rightharpoonup> User"
  assumes unique_email: "uinv u \<Longrightarrow> users u i = Some x \<Longrightarrow> users u j = Some y \<Longrightarrow> us_Email x = us_Email y \<Longrightarrow> i = j"
    and user_ids: "uinv u \<Longrightarrow> users u i = Some x \<Longrightarrow> us_ID x = i"
    and create_new: "uinv u \<Longrightarrow> live c \<Longrightarrow> users u (us_ID x) = None \<Longrightarrow>
      \<forall>i y. users u i = Some y \<longrightarrow> us_Email y \<noteq> us_Email x \<Longrightarrow>
      \<exists>u'. ust_Create U c x u = (Inr (), u') \<and> uinv u' \<and> users u' = (users u)(us_ID x \<mapsto> x)"
    and create_dup: "uinv u \<Longrightarrow> live c \<Longrightarrow> users u i = Some y \<Longrightarrow> us_Email y = us_Email x \<Longrightarrow>
      ust_Create U c x u = (Inl ErrEmailExists, u)"
    and get_id: "uinv u \<Longrightarrow> live c \<Longrightarrow>
      ust_GetByID U c i u = (case users u i of None \<Rightarrow> Inl ErrUserNotFound | Some x \<Rightarrow> Inr x)"
    and get_email: "uinv u \<Longrightarrow> live c \<Longrightarrow> users u i = Some x \<Longrightarrow> us_Email x = e \<Longrightarrow> ust_GetByEmail U c e u = Inr x"
    and get_email_none: "uinv u \<Longrightarrow> live c \<Longrightarrow> \<forall>i x. users u i = Some x \<longrightarrow> us_Email x \<noteq> e \<Longrightarrow>
      ust_GetByEmail U c e u = Inl ErrUserNotFound"

locale session_store =
  fixes S :: "'s SessionStore" and sessions :: "'s \<Rightarrow> string \<rightharpoonup> Session"
  assumes screate: "live c \<Longrightarrow> \<exists>s'. sst_Create S c x s = (Inr (), s') \<and> sessions s' = (sessions s)(ss_TokenHash x \<mapsto> x)"
    and sget: "live c \<Longrightarrow> sst_GetByTokenHash S c h s =
      (case sessions s h of None \<Rightarrow> Inl ErrSessionNotFound | Some x \<Rightarrow> Inr x)"
    and srevoke: "live c \<Longrightarrow> sessions s h = Some x \<Longrightarrow>
      \<exists>s'. sst_Revoke S c h t s = (Inr (), s') \<and> sessions s' = (sessions s)(h \<mapsto> x\<lparr>ss_RevokedAt := Some t\<rparr>)"
    and srevoke_none: "live c \<Longrightarrow> sessions s h = None \<Longrightarrow> sst_Revoke S c h t s = (Inl ErrSessionNotFound, s)"

definition mu_wf :: "MemoryUserStore \<Rightarrow> bool" where
  "mu_wf s \<longleftrightarrow>
     (\<forall>e i. mu_email s e = Some i \<longleftrightarrow> (\<exists>u. mu_byID s i = Some u \<and> us_Email u = e))
   \<and> (\<forall>i u. mu_byID s i = Some u \<longrightarrow> us_ID u = i)"

lemma mu_wf_new [simp]: "mu_wf NewMemoryUserStore"
  by (simp add: mu_wf_def NewMemoryUserStore_def)

lemma mu_wf_email: "mu_wf s \<Longrightarrow> mu_byID s i = Some u \<Longrightarrow> mu_email s (us_Email u) = Some i"
  unfolding mu_wf_def by blast

lemma mu_wf_no_email:
  "mu_wf s \<Longrightarrow> \<forall>i u. mu_byID s i = Some u \<longrightarrow> us_Email u \<noteq> e \<Longrightarrow> mu_email s e = None"
  unfolding mu_wf_def by (metis not_None_eq)

lemma mu_wf_add:
  assumes "mu_wf s" "mu_byID s (us_ID x) = None" "\<forall>i u. mu_byID s i = Some u \<longrightarrow> us_Email u \<noteq> us_Email x"
  shows "mu_wf (s\<lparr>mu_byID := (mu_byID s)(us_ID x \<mapsto> x), mu_email := (mu_email s)(us_Email x \<mapsto> us_ID x)\<rparr>)"
  using assms unfolding mu_wf_def by auto

interpretation memory_users: user_store MemoryUserStore_ops mu_wf mu_byID
proof (unfold_locales, goal_cases)
  case (1 u i x j y)
  then show ?case using mu_wf_email [OF 1(1,2)] mu_wf_email [OF 1(1,3)] by simp
next
  case 2
  then show ?case by (simp add: mu_wf_def)
next
  case (3 u c x)
  then show ?case using mu_wf_add [OF 3(1,3,4)] mu_wf_no_email [OF 3(1,4)]
    by (simp add: MemoryUserStore_ops_def MemoryUserStore_Create_def)
next
  case (4 u c i y x)
  then show ?case using mu_wf_email [OF 4(1,3)] by (simp add: MemoryUserStore_ops_def MemoryUserStore_Create_def)
next
  case 5
  then show ?case by (simp add: MemoryUserStore_ops_def MemoryUserStore_GetByID_def)
next
  case (6 u c i x e)
  then show ?case using mu_wf_email [OF 6(1,3)] by (simp add: MemoryUserStore_ops_def MemoryUserStore_GetByEmail_def)
next
  case (7 u c e)
  then show ?case using mu_wf_no_email [OF 7(1,3)]
    by (simp add: MemoryUserStore_ops_def MemoryUserStore_GetByEmail_def)
qed

interpretation memory_sessions: session_store MemorySessionStore_ops id
  by unfold_locales
    (auto simp: MemorySessionStore_ops_def MemorySessionStore_Create_def MemorySessionStore_GetByTokenHash_def
      MemorySessionStore_Revoke_def)

subsection \<open>Sessions from issue to revocation\<close>

lemma hex_encode_Nil_iff [simp]: "hex_encode bs = [] \<longleftrightarrow> bs = []"
  by (cases bs) auto

locale auth_env = user_store "ad_users A" uinv users + session_store "ad_sessions A" sessions
  for A :: "('u, 's) auth_deps" and uinv and users and sessions
begin

lemma issue_spec:
  assumes "live c"
  shows "\<exists>s' iss. issueSession A c now d user s = (Inr iss, s')
    \<and> is_User iss = user \<and> is_Plaintext iss = hex_encode (dr_token d)
    \<and> ss_UserID (is_Session iss) = us_ID user \<and> ss_RevokedAt (is_Session iss) = None
    \<and> ss_ExpiresAt (is_Session iss) = now + ac_SessionTTL (ad_cfg A)
    \<and> sessions s' = (sessions s)(HashSessionToken (hex_encode (dr_token d)) \<mapsto> is_Session iss)"
proof -
  let ?x = "\<lparr>ss_ID = NewSessionID (dr_session d), ss_UserID = us_ID user,
     ss_TokenHash = HashSessionToken (hex_encode (dr_token d)),
     ss_ExpiresAt = now + ac_SessionTTL (ad_cfg A), ss_CreatedAt = now, ss_RevokedAt = None\<rparr>"
  obtain s' where "sst_Create (ad_sessions A) c ?x s = (Inr (), s')"
    "sessions s' = (sessions s)(ss_TokenHash ?x \<mapsto> ?x)"
    using screate [OF assms] by blast
  then show ?thesis by (simp add: issueSession_def NewSessionToken_def Let_def)
qed

text \<open>What a successful registration stores.\<close>

lemma Register_spec:
  assumes r: "Register A c now d email password name (u, s) = (Inr iss, u', s')"
    and ok: "live c" "uinv u" "users u (NewUserID (dr_user d)) = None"
  shows "uinv u' \<and> us_Status (is_User iss) = UserStatusActive \<and> us_Email (is_User iss) = normalizeEmail email
    \<and> us_ID (is_User iss) = NewUserID (dr_user d)
    \<and> users u' = (users u)(us_ID (is_User iss) \<mapsto> is_User iss)
    \<and> (\<exists>h. bc_generate A (dr_salt d) password = Inr h \<and> us_PasswordHash (is_User iss) = h)
    \<and> issueSession A c now d (is_User iss) s = (Inr iss, s')"
proof -
  define user where "user h = registered_user d now (normalizeEmail email) (display_name name) h" for h
  obtain h where h: "HashPassword A (dr_salt d) password = Inr h"
    and step: "(case ust_Create (ad_users A) c (user h) u of
         (Inl e, u') \<Rightarrow> (Inl e, u', s)
       | (Inr _, u') \<Rightarrow> (case issueSession A c now d (user h) s of (r, s') \<Rightarrow> (r, u', s'))) = (Inr iss, u', s')"
    using r unfolding user_def by (auto simp: Register_def Let_def split: if_splits sum.splits)
  have gen: "bc_generate A (dr_salt d) password = Inr h"
    using h by (auto simp: HashPassword_def split: if_splits sum.splits)
  have new: "\<forall>i y. users u i = Some y \<longrightarrow> us_Email y \<noteq> us_Email (user h)"
  proof (intro allI impI)
    fix i y assume y: "users u i = Some y"
    show "us_Email y \<noteq> us_Email (user h)"
      using create_dup [OF ok(2,1) y, of "user h"] step by auto
  qed
  have fresh: "users u (us_ID (user h)) = None" using ok(3) by (simp add: user_def registered_user_def)
  obtain u1 where u1: "ust_Create (ad_users A) c (user h) u = (Inr (), u1)" "uinv u1"
    "users u1 = (users u)(us_ID (user h) \<mapsto> user h)"
    using create_new [OF ok(2,1) fresh new] by blast
  obtain s1 iss1 where i: "issueSession A c now d (user h) s = (Inr iss1, s1)" "is_User iss1 = user h"
    using issue_spec [OF ok(1)] by blast
  have "iss1 = iss" "s1 = s'" "u1 = u'" using step u1(1) i(1) by auto
  then show ?thesis using u1 i gen by (simp add: user_def registered_user_def)
qed

text \<open>Whom a stored session authenticates, and when.\<close>

lemma Authenticate_session:
  assumes "live c" "uinv u" "token \<noteq> []" "sessions s (HashSessionToken token) = Some x"
    and "users u (ss_UserID x) = Some user" "us_Status user = UserStatusActive"
  shows "Authenticate A c now token (u, s) = (if Active now x then Inr user else Inl ErrSessionExpired)"
  using assms sget [OF assms(1), of "HashSessionToken token" s] get_id [OF assms(2,1), of "ss_UserID x"]
  by (simp add: Authenticate_def)

lemma Logout_spec:
  assumes "live c" "token \<noteq> []" "sessions s (HashSessionToken token) = Some x"
  shows "\<exists>s'. Logout A c now token (u, s) = (Inr (), u, s')
    \<and> sessions s' = (sessions s)(HashSessionToken token \<mapsto> x\<lparr>ss_RevokedAt := Some now\<rparr>)"
  using srevoke [OF assms(1,3), of now] assms(2) by (auto simp: Logout_def)

lemma register_session:
  assumes "Register A c now d email password name (u, s) = (Inr iss, u', s')"
    and "live c" "uinv u" "users u (NewUserID (dr_user d)) = None" "dr_token d \<noteq> []"
  shows "uinv u'" "is_Plaintext iss \<noteq> []" "us_Status (is_User iss) = UserStatusActive"
    "sessions s' (HashSessionToken (is_Plaintext iss)) = Some (is_Session iss)"
    "users u' (ss_UserID (is_Session iss)) = Some (is_User iss)"
    "Active t (is_Session iss) \<longleftrightarrow> t < now + ac_SessionTTL (ad_cfg A)"
proof -
  note spec = Register_spec [OF assms(1-4)]
  obtain s1 iss1 where i: "issueSession A c now d (is_User iss) s = (Inr iss1, s1)"
    "is_Plaintext iss1 = hex_encode (dr_token d)"
    "ss_UserID (is_Session iss1) = us_ID (is_User iss)" "ss_RevokedAt (is_Session iss1) = None"
    "ss_ExpiresAt (is_Session iss1) = now + ac_SessionTTL (ad_cfg A)"
    "sessions s1 = (sessions s)(HashSessionToken (hex_encode (dr_token d)) \<mapsto> is_Session iss1)"
    using issue_spec [OF assms(2), of now d "is_User iss" s] by auto
  have eq: "iss1 = iss" "s1 = s'" using i(1) spec by auto
  show "uinv u'" "is_Plaintext iss \<noteq> []" "us_Status (is_User iss) = UserStatusActive"
    "sessions s' (HashSessionToken (is_Plaintext iss)) = Some (is_Session iss)"
    "users u' (ss_UserID (is_Session iss)) = Some (is_User iss)"
    "Active t (is_Session iss) \<longleftrightarrow> t < now + ac_SessionTTL (ad_cfg A)"
    using spec i eq assms(5) by (auto simp: Active_def)
qed

lemma lifecycle:
  assumes "Register A c now d email password name (u, s) = (Inr iss, u', s')"
    and "live c" "uinv u" "users u (NewUserID (dr_user d)) = None" "dr_token d \<noteq> []" "live c'"
  shows "Authenticate A c' t (is_Plaintext iss) (u', s') =
      (if t < now + ac_SessionTTL (ad_cfg A) then Inr (is_User iss) else Inl ErrSessionExpired)"
    and "\<exists>s''. Logout A c' t (is_Plaintext iss) (u', s') = (Inr (), u', s'')
       \<and> (\<forall>t'. Authenticate A c' t' (is_Plaintext iss) (u', s'') = Inl ErrSessionExpired)"
proof -
  note r = register_session [OF assms(1-5)]
  show "Authenticate A c' t (is_Plaintext iss) (u', s') =
      (if t < now + ac_SessionTTL (ad_cfg A) then Inr (is_User iss) else Inl ErrSessionExpired)"
    using Authenticate_session [OF assms(6) r(1,2,4,5,3)] r(6) by simp
  obtain s'' where l: "Logout A c' t (is_Plaintext iss) (u', s') = (Inr (), u', s'')"
    "sessions s'' = (sessions s')(HashSessionToken (is_Plaintext iss) \<mapsto> (is_Session iss)\<lparr>ss_RevokedAt := Some t\<rparr>)"
    using Logout_spec [OF assms(6) r(2,4)] by blast
  have "Authenticate A c' t' (is_Plaintext iss) (u', s'') = Inl ErrSessionExpired" for t'
    using Authenticate_session [OF assms(6) r(1,2), of s'' "(is_Session iss)\<lparr>ss_RevokedAt := Some t\<rparr>"
        "is_User iss" t'] l(2) r(3,5) by (simp add: Active_def)
  then show "\<exists>s''. Logout A c' t (is_Plaintext iss) (u', s') = (Inr (), u', s'')
       \<and> (\<forall>t'. Authenticate A c' t' (is_Plaintext iss) (u', s'') = Inl ErrSessionExpired)"
    using l(1) by blast
qed

lemma login_after_register:
  assumes "Register A c now d email password name (u, s) = (Inr iss, u', s')"
    and "live c" "uinv u" "users u (NewUserID (dr_user d)) = None"
    and "live c'" "normalizeEmail email' = normalizeEmail email"
    and bcrypt: "\<And>h. bc_generate A (dr_salt d) password = Inr h \<Longrightarrow> bc_compare A h password"
  shows "\<exists>iss' s''. Login A c' t d' email' password (u', s') = (Inr iss', u', s'') \<and> is_User iss' = is_User iss"
proof -
  note spec = Register_spec [OF assms(1-4)]
  have "ust_GetByEmail (ad_users A) c' (normalizeEmail email') u' = Inr (is_User iss)"
    using get_email [of u' c' "us_ID (is_User iss)" "is_User iss"] spec assms(5,6) by auto
  moreover have "bc_compare A (us_PasswordHash (is_User iss)) password" using bcrypt spec by auto
  moreover obtain iss' s'' where "issueSession A c' t d' (is_User iss) s' = (Inr iss', s'')" "is_User iss' = is_User iss"
    using issue_spec [OF assms(5)] by blast
  ultimately show ?thesis using spec by (simp add: Login_def VerifyPassword_def)
qed

lemma Login_error:
  assumes "live c" "Login A c now d email password (u, s) = (Inl e, u', s')"
  shows "e = ErrInvalidCredentials \<and> u' = u \<and> s' = s"
proof (cases "ust_GetByEmail (ad_users A) c (normalizeEmail email) u")
  case (Inl e')
  then show ?thesis using assms(2) by (simp add: Login_def)
next
  case (Inr user)
  obtain s1 iss where "issueSession A c now d user s = (Inr iss, s1)" using issue_spec [OF assms(1)] by blast
  then show ?thesis using Inr assms(2) by (simp add: Login_def split: if_splits)
qed

lemma auth_sound:
  assumes "live c" "uinv u" "Authenticate A c now token (u, s) = Inr user"
  shows "\<exists>x. token \<noteq> [] \<and> sessions s (HashSessionToken token) = Some x \<and> ss_RevokedAt x = None
    \<and> now < ss_ExpiresAt x \<and> users u (ss_UserID x) = Some user \<and> us_Status user = UserStatusActive"
  using assms(3) sget [OF assms(1)] get_id [OF assms(2,1)]
  by (auto simp: Authenticate_def Active_def split: if_splits option.splits)

lemma Register_duplicate:
  assumes "live c" "uinv u" "users u i = Some y" "us_Email y = normalizeEmail email"
    and "Register A c now d email password name (u, s) = (r, u', s')"
  shows "(\<exists>e. r = Inl e) \<and> u' = u \<and> s' = s"
proof -
  have dup: "ust_Create (ad_users A) c x u = (Inl ErrEmailExists, u)" if "us_Email x = normalizeEmail email" for x
    using create_dup [OF assms(2,1,3)] assms(4) that by simp
  then have "ust_Create (ad_users A) c (registered_user d now (normalizeEmail email) (display_name name) h) u
      = (Inl ErrEmailExists, u)" for h
    by (simp add: registered_user_def)
  then show ?thesis
    using assms(5) by (auto simp: Register_def Let_def split: if_splits sum.splits)
qed

end

subsection \<open>The in-memory service\<close>

definition memory_auth ::
  "AuthConfig \<Rightarrow> (string \<Rightarrow> string \<Rightarrow> string + string) \<Rightarrow> (string \<Rightarrow> string \<Rightarrow> bool) \<Rightarrow> (string \<Rightarrow> bool)
     \<Rightarrow> (MemoryUserStore, MemorySessionStore) auth_deps" where
  "memory_auth cfg gen cmp parse =
     \<lparr>ad_users = MemoryUserStore_ops, ad_sessions = MemorySessionStore_ops, ad_cfg = WithDefaults cfg,
      bc_generate = gen, bc_compare = cmp, parse_address = parse\<rparr>"

interpretation memory_auth: auth_env "memory_auth cfg gen cmp parse" mu_wf mu_byID id for cfg gen cmp parse
  by (simp add: auth_env_def memory_auth_def memory_users.user_store_axioms memory_sessions.session_store_axioms)

text \<open>
  C7. A session lives from its issue to its expiry or revocation, and no longer: after a successful
  registration at \<open>now\<close>, the returned token authenticates exactly the registered user at every
  instant before \<open>now + SessionTTL\<close> and is answered with \<open>ErrSessionExpired\<close> from then on; after a
  logout it is answered with \<open>ErrSessionExpired\<close> at every instant.
\<close>

theorem session_lifecycle:
  assumes "Register (memory_auth cfg gen cmp parse) c now d email password name (u, s) = (Inr iss, u', s')"
    and "live c" "live c'" "mu_wf u" "mu_byID u (NewUserID (dr_user d)) = None" "length (dr_token d) = 32"
  shows "Authenticate (memory_auth cfg gen cmp parse) c' t (is_Plaintext iss) (u', s') =
      (if t < now + ac_SessionTTL (WithDefaults cfg) then Inr (is_User iss) else Inl ErrSessionExpired)
    \<and> (\<exists>s''. Logout (memory_auth cfg gen cmp parse) c' t (is_Plaintext iss) (u', s') = (Inr (), u', s'')
        \<and> (\<forall>t'. Authenticate (memory_auth cfg gen cmp parse) c' t' (is_Plaintext iss) (u', s'') = Inl ErrSessionExpired))"
proof -
  have tok: "dr_token d \<noteq> []" using assms(6) by auto
  have ttl: "ac_SessionTTL (ad_cfg (memory_auth cfg gen cmp parse)) = ac_SessionTTL (WithDefaults cfg)"
    by (simp add: memory_auth_def)
  show ?thesis
    using memory_auth.lifecycle [OF assms(1,2,4,5) tok assms(3), of t] unfolding ttl by blast
qed

text \<open>A toy bcrypt and address grammar for the concrete instances below.\<close>

definition toy_auth :: "(MemoryUserStore, MemorySessionStore) auth_deps" where
  "toy_auth = memory_auth \<lparr>ac_PasswordMinLength = 0, ac_SessionTTL = 0\<rparr>
     (\<lambda>salt p. Inr (CHR ''h'' # p)) (\<lambda>h p. h = CHR ''h'' # p) (\<lambda>e. CHR 0x40 \<in> set e)"

definition toy_draws :: draws where
  "toy_draws = \<lparr>dr_user = [1], dr_session = [2], dr_token = replicate 32 7, dr_salt = ''s''\<rparr>"

definition toy_email :: string where "toy_email = '' Ann'' @ [CHR 0x40] @ ''x.org''"

definition toy_registered :: "(auth_err + Issued) \<times> MemoryUserStore \<times> MemorySessionStore" where
  "toy_registered = Register toy_auth background 100 toy_draws toy_email ''secret12'' ''Ann''
     (NewMemoryUserStore, NewMemorySessionStore)"

lemma toy_register:
  "\<exists>iss u' s'. toy_registered = (Inr iss, u', s') \<and> us_Email (is_User iss) = ''ann'' @ [CHR 0x40] @ ''x.org''"
proof -
  have e: "normalizeEmail toy_email = ''ann'' @ [CHR 0x40] @ ''x.org''" unfolding toy_email_def by code_simp
  have n: "display_name ''Ann'' = ''Ann''" "TrimSpace ''Ann'' \<noteq> []" by (code_simp, code_simp)
  show ?thesis
    by (simp add: toy_registered_def Register_def e n toy_auth_def memory_auth_def HashPassword_def toy_draws_def
        WithDefaults_def DefaultPasswordMinLength_def MemoryUserStore_ops_def MemoryUserStore_Create_def
        NewMemoryUserStore_def registered_user_def issueSession_def NewSessionToken_def
        MemorySessionStore_ops_def MemorySessionStore_Create_def Let_def)
qed

theorem session_lifecycle_witness:
  "\<exists>iss u' s'. toy_registered = (Inr iss, u', s')
     \<and> Authenticate toy_auth background (100 + DefaultSessionTTL - 1) (is_Plaintext iss) (u', s') = Inr (is_User iss)
     \<and> Authenticate toy_auth background (100 + DefaultSessionTTL) (is_Plaintext iss) (u', s') = Inl ErrSessionExpired"
proof -
  obtain iss u' s' where r: "toy_registered = (Inr iss, u', s')" using toy_register by blast
  note life = session_lifecycle [OF r [unfolded toy_registered_def toy_auth_def] live_background live_background mu_wf_new]
  have "mu_byID NewMemoryUserStore (NewUserID (dr_user toy_draws)) = None" "length (dr_token toy_draws) = 32"
    by (simp_all add: NewMemoryUserStore_def toy_draws_def)
  note life = life [OF this, folded toy_auth_def]
  have ttl: "ac_SessionTTL (WithDefaults \<lparr>ac_PasswordMinLength = 0, ac_SessionTTL = 0\<rparr>) = DefaultSessionTTL"
    by (simp add: WithDefaults_def)
  show ?thesis
    using r life [of "100 + DefaultSessionTTL - 1"] life [of "100 + DefaultSessionTTL"] unfolding ttl by auto
qed

text \<open>
  Only a live session of an active user authenticates: a token is accepted only when a session
  is stored under its SHA-256 hash that was not revoked and has not expired, and the user returned
  is the stored user of that session, with status active. (The token itself is stored nowhere.)
\<close>

theorem Authenticate_sound:
  assumes "Authenticate (memory_auth cfg gen cmp parse) c now token (u, s) = Inr user" "live c" "mu_wf u"
  shows "\<exists>x. s (HashSessionToken token) = Some x \<and> ss_RevokedAt x = None \<and> now < ss_ExpiresAt x
    \<and> mu_byID u (ss_UserID x) = Some user \<and> us_Status user = UserStatusActive"
  using memory_auth.auth_sound [OF assms(2,3,1)] by auto

theorem Authenticate_sound_witness:
  "\<exists>iss u' s' x. toy_registered = (Inr iss, u', s') \<and> s' (HashSessionToken (is_Plaintext iss)) = Some x
     \<and> ss_RevokedAt x = None"
proof -
  obtain iss u' s' where r: "toy_registered = (Inr iss, u', s')" using toy_register by blast
  have f: "mu_byID NewMemoryUserStore (NewUserID (dr_user toy_draws)) = None" "dr_token toy_draws \<noteq> []"
    by (simp_all add: NewMemoryUserStore_def toy_draws_def)
  note reg = memory_auth.register_session [OF r [unfolded toy_registered_def toy_auth_def] live_background mu_wf_new f]
  have "Authenticate toy_auth background 200 (is_Plaintext iss) (u', s') = Inr (is_User iss)"
    using memory_auth.lifecycle(1) [OF r [unfolded toy_registered_def toy_auth_def] live_background mu_wf_new f
        live_background, of 200]
    by (simp add: toy_auth_def memory_auth_def WithDefaults_def DefaultSessionTTL_def duration_defs)
  then show ?thesis using Authenticate_sound [OF _ live_background reg(1)] r unfolding toy_auth_def by blast
qed

text \<open>
  C8. A login does not tell whether an account exists: every failing login, whether the email is
  unknown, the account is disabled or the password is wrong, has the one error
  \<open>ErrInvalidCredentials\<close> and changes no state.
  \<close>

theorem Login_uniform:
  assumes "live c"
    and "Login (memory_auth cfg gen cmp parse) c now d email password (u, s) = (r, u', s')"
  shows "(\<forall>e. r = Inl e \<longrightarrow> e = ErrInvalidCredentials \<and> u' = u \<and> s' = s)"
  using memory_auth.Login_error [OF assms(1)] assms(2) by blast

theorem Login_uniform_witness:
  "fst (Login toy_auth background 5 toy_draws toy_email ''wrong'' (NewMemoryUserStore, NewMemorySessionStore))
   = Inl ErrInvalidCredentials"
proof -
  obtain r u' s' where l: "Login toy_auth background 5 toy_draws toy_email ''wrong''
      (NewMemoryUserStore, NewMemorySessionStore) = (r, u', s')"
    by (cases "Login toy_auth background 5 toy_draws toy_email ''wrong'' (NewMemoryUserStore, NewMemorySessionStore)")
  have "\<exists>e. r = Inl e"
    using l by (auto simp: Login_def toy_auth_def memory_auth_def MemoryUserStore_ops_def MemoryUserStore_GetByEmail_def
        NewMemoryUserStore_def)
  then show ?thesis using Login_uniform [OF live_background l [unfolded toy_auth_def]] l by auto
qed

text \<open>
  Who registers can sign in: after a successful registration, a login with the same email in
  any letter case and spacing and the same password succeeds, at any later time, and gives a
  session of the registered user; bcrypt is assumed to accept a password against the hash it made
  of it. And the email is taken: registering it again, in any spelling, fails and changes nothing.
\<close>

theorem register_then_login:
  assumes "Register (memory_auth cfg gen cmp parse) c now d email password name (u, s) = (Inr iss, u', s')"
    and "live c" "live c'" "mu_wf u" "mu_byID u (NewUserID (dr_user d)) = None"
    and "normalizeEmail email' = normalizeEmail email"
    and bcrypt: "\<And>salt p h. gen salt p = Inr h \<Longrightarrow> cmp h p"
  shows "(\<exists>iss' s''. Login (memory_auth cfg gen cmp parse) c' t d' email' password (u', s') = (Inr iss', u', s'')
        \<and> is_User iss' = is_User iss)
    \<and> (\<exists>e. Register (memory_auth cfg gen cmp parse) c' t d' email' password' name' (u', s') = (Inl e, u', s'))"
proof
  show "\<exists>iss' s''. Login (memory_auth cfg gen cmp parse) c' t d' email' password (u', s') = (Inr iss', u', s'')
        \<and> is_User iss' = is_User iss"
    by (rule memory_auth.login_after_register [OF assms(1,2,4,5,3,6)]) (simp add: memory_auth_def bcrypt)
  note spec = memory_auth.Register_spec [OF assms(1,2,4,5)]
  obtain r2 u2 s2 where r2: "Register (memory_auth cfg gen cmp parse) c' t d' email' password' name' (u', s') = (r2, u2, s2)"
    by (cases "Register (memory_auth cfg gen cmp parse) c' t d' email' password' name' (u', s')")
  have "mu_byID u' (us_ID (is_User iss)) = Some (is_User iss)" "us_Email (is_User iss) = normalizeEmail email'"
    using spec assms(6) by auto
  from memory_auth.Register_duplicate [OF assms(3) _ this r2] spec
  show "\<exists>e. Register (memory_auth cfg gen cmp parse) c' t d' email' password' name' (u', s') = (Inl e, u', s')"
    using r2 by auto
qed

theorem register_then_login_witness:
  "\<exists>iss u' s' iss' s''. toy_registered = (Inr iss, u', s')
     \<and> Login toy_auth background 900 toy_draws (''ANN'' @ [CHR 0x40] @ ''X.org'') ''secret12'' (u', s') = (Inr iss', u', s'')
     \<and> is_User iss' = is_User iss"
proof -
  obtain iss u' s' where r: "toy_registered = (Inr iss, u', s')" using toy_register by blast
  have f: "mu_byID NewMemoryUserStore (NewUserID (dr_user toy_draws)) = None"
    by (simp add: NewMemoryUserStore_def)
  have e: "normalizeEmail (''ANN'' @ [CHR 0x40] @ ''X.org'') = normalizeEmail toy_email"
    unfolding toy_email_def by code_simp
  have b: "h = CHR ''h'' # p" if "(Inr (CHR ''h'' # p) :: string + string) = Inr h" for h p
    using that by simp
  note lr = register_then_login [OF r [unfolded toy_registered_def toy_auth_def] live_background live_background
        mu_wf_new f e b, folded toy_auth_def]
  show ?thesis using conjunct1 [OF lr [of 900 toy_draws]] r by blast
qed

text \<open>
  The stored display name is the trimmed name cut to 80 bytes, and the cut does not respect
  character boundaries: the stored name is at most 80 bytes and a prefix of the trimmed name, but a
  name of 27 three-byte characters is stored as text that is not valid UTF-8.
\<close>

theorem display_name_cut:
  "length (display_name name) \<le> 80 \<and> prefix (display_name name) (TrimSpace name)
   \<and> valid_utf8 (utf8 (replicate 27 0x5F20))
   \<and> \<not> valid_utf8 (display_name (utf8 (replicate 27 0x5F20)))"
proof (intro conjI)
  show "length (display_name name) \<le> 80" "prefix (display_name name) (TrimSpace name)"
    by (simp_all add: display_name_def Let_def take_is_prefix)
  have "list_all valid_rune (replicate 27 0x5F20)" by (simp add: valid_rune_def list_all_iff)
  then show "valid_utf8 (utf8 (replicate 27 0x5F20))" by (rule valid_utf8_utf8)
  show "\<not> valid_utf8 (display_name (utf8 (replicate 27 0x5F20)))" by code_simp
qed

end
