(* ===== verification/PlanStore.thy ===== *)
theory PlanStore
  imports Domain Sha256 Go_Time "HOL-Library.List_Lexorder" "HOL-Library.Char_ord" "HOL-Library.Product_Lexorder"
    "HOL-Library.AList"
begin

section \<open>Saved and public plans: data and stores\<close>

text \<open>
  internal/plans: plan.go, errors.go, store.go and view_deduper.go. A user plan is private to its
  owner, a public plan is the published snapshot of one. The in-memory stores are Go maps; a
  \<open>range\<close> over one visits its keys in an arbitrary order, so an operation that ranges takes that
  order (\<open>ks\<close>) as an argument. \<open>sort.Slice\<close> is not stable: every list it may return is the stable
  sort of some visiting order, so the stable sort with an arbitrary order covers it. The Redis view
  deduper (theory Redis) and the MySQL stores (theory MySQLPlans) are clients of servers and other instances of the interfaces.
\<close>

subsection \<open>Data\<close>

text \<open>\<open>RunTimePanic\<close> is not an error value of the code but a panic of the call (\<open>List\<close> below).\<close>

datatype plans_err =
  ErrPlanNotFound | ErrPublicPlanNotFound | ErrPlanTaskNotFound | ErrTaskNotOwned | ErrTaskNotSucceeded
| ErrAlreadyPublished | ErrNotPublished | ErrInvalidTitle | ErrInvalidVisibility | ErrPublicPlanRemoved
| ErrSourcePlanForbidden | ErrPlanCtx string | ErrLookupMissing | ErrOther string | RunTimePanic

definition VisibilityPrivate :: string where "VisibilityPrivate = ''private''"
definition VisibilityPublic :: string where "VisibilityPublic = ''public''"
definition PublishStatusDraft :: string where "PublishStatusDraft = ''draft''"
definition PublishStatusPublished :: string where "PublishStatusPublished = ''published''"
definition PublishStatusUnpublished :: string where "PublishStatusUnpublished = ''unpublished''"
definition PublicPlanStatusPublished :: string where "PublicPlanStatusPublished = ''published''"
definition PublicPlanStatusUnpublished :: string where "PublicPlanStatusUnpublished = ''unpublished''"
definition PublicPlanStatusRemoved :: string where "PublicPlanStatusRemoved = ''removed''"
definition TaskStatusSucceeded :: string where "TaskStatusSucceeded = ''succeeded''"

lemmas plan_status_defs = VisibilityPrivate_def VisibilityPublic_def PublishStatusDraft_def
  PublishStatusPublished_def PublishStatusUnpublished_def PublicPlanStatusPublished_def
  PublicPlanStatusUnpublished_def PublicPlanStatusRemoved_def

lemma status_distinct [simp]:
  "PublishStatusDraft \<noteq> PublishStatusPublished" "PublishStatusUnpublished \<noteq> PublishStatusPublished"
  "PublicPlanStatusUnpublished \<noteq> PublicPlanStatusPublished"
  by (simp_all add: plan_status_defs)

record UserPlan =
  up_ID :: string
  up_UserID :: string
  up_TaskID :: string
  up_SourcePublicPlanID :: string
  up_Title :: string
  up_Note :: string
  up_Summary :: string
  up_Tags :: "string list"
  up_Plan :: "TravelPlan option"
  up_DestinationCity :: string
  up_Days :: int
  up_Visibility :: string
  up_PublishStatus :: string
  up_CreatedAt :: time
  up_UpdatedAt :: time
  up_DeletedAt :: "time option"

definition IsDeleted :: "UserPlan \<Rightarrow> bool" where
  "IsDeleted p \<longleftrightarrow> (case up_DeletedAt p of None \<Rightarrow> False | Some t \<Rightarrow> \<not> IsZero t)"

record PublicPlan =
  pp_ID :: string
  pp_PlanID :: string
  pp_UserID :: string
  pp_AuthorName :: string
  pp_Title :: string
  pp_Summary :: string
  pp_Tags :: "string list"
  pp_Plan :: "TravelPlan option"
  pp_DestinationCity :: string
  pp_Days :: int
  pp_Status :: string
  pp_ViewCount :: int
  pp_SaveCount :: int
  pp_CopyCount :: int
  pp_HotScore :: int
  pp_PublishedAt :: time
  pp_UpdatedAt :: time

record PublicViewer =
  pv_UserID :: string
  pv_ClientHash :: string

definition DedupKey :: "PublicViewer \<Rightarrow> string" where
  "DedupKey v =
     (if pv_UserID v \<noteq> [] then ''user:'' @ pv_UserID v
      else if pv_ClientHash v \<noteq> [] then ''anon:'' @ pv_ClientHash v
      else [])"

record PublicPlanEvent =
  pe_PublicPlanID :: string
  pe_UserID :: string
  pe_EventType :: string
  pe_ClientHash :: string
  pe_CreatedAt :: time

record ArchivedMessage =
  am_Role :: string
  am_Text :: string

record ArchivedEvent =
  ae_Type :: string
  ae_NodeName :: string
  ae_Message :: string

record ConversationArchive =
  ca_ID :: string
  ca_PlanID :: string
  ca_UserID :: string
  ca_TaskID :: string
  ca_Brief :: "TravelRequest option"
  ca_Messages :: "ArchivedMessage list"
  ca_Events :: "ArchivedEvent list"
  ca_CreatedAt :: time

record TaskSnapshot =
  sn_TaskID :: string
  sn_UserID :: string
  sn_Status :: string
  sn_Plan :: "TravelPlan option"
  sn_Request :: TravelRequest

record ListFilter =
  lf_Query :: string
  lf_Visibility :: string
  lf_PublishStatus :: string
  lf_DestinationCity :: string
  lf_Page :: int
  lf_PageSize :: int

record PublicListFilter =
  pf_Query :: string
  pf_DestinationCity :: string
  pf_Days :: int
  pf_Interest :: string
  pf_Sort :: string
  pf_Page :: int
  pf_PageSize :: int


subsection \<open>Interfaces\<close>

record 's PlanStore =
  pst_Create :: "ctx \<Rightarrow> UserPlan \<Rightarrow> 's \<Rightarrow> (plans_err + unit) \<times> 's"
  pst_Get :: "ctx \<Rightarrow> string \<Rightarrow> string \<Rightarrow> 's \<Rightarrow> plans_err + UserPlan"
  pst_GetByTaskID :: "ctx \<Rightarrow> string \<Rightarrow> string \<Rightarrow> 's \<Rightarrow> plans_err + UserPlan option"
  pst_List :: "ctx \<Rightarrow> string \<Rightarrow> ListFilter \<Rightarrow> 's \<Rightarrow> plans_err + UserPlan list \<times> int"
  pst_Update :: "ctx \<Rightarrow> UserPlan \<Rightarrow> 's \<Rightarrow> (plans_err + unit) \<times> 's"
  pst_SoftDelete :: "ctx \<Rightarrow> string \<Rightarrow> string \<Rightarrow> time \<Rightarrow> 's \<Rightarrow> (plans_err + unit) \<times> 's"
  pst_CreateArchive :: "ctx \<Rightarrow> ConversationArchive \<Rightarrow> 's \<Rightarrow> (plans_err + unit) \<times> 's"
  pst_GetArchive :: "ctx \<Rightarrow> string \<Rightarrow> string \<Rightarrow> 's \<Rightarrow> plans_err + ConversationArchive"

datatype PublicCounterKind = CounterView | CounterSave | CounterCopy

fun kind_string :: "PublicCounterKind \<Rightarrow> string" where
  "kind_string CounterView = ''view''"
| "kind_string CounterSave = ''save''"
| "kind_string CounterCopy = ''copy''"

record 'q PublicPlanStore =
  qst_Upsert :: "ctx \<Rightarrow> PublicPlan \<Rightarrow> 'q \<Rightarrow> (plans_err + unit) \<times> 'q"
  qst_Get :: "ctx \<Rightarrow> string \<Rightarrow> 'q \<Rightarrow> plans_err + PublicPlan"
  qst_GetByPlanID :: "ctx \<Rightarrow> string \<Rightarrow> 'q \<Rightarrow> plans_err + PublicPlan option"
  qst_List :: "ctx \<Rightarrow> PublicListFilter \<Rightarrow> 'q \<Rightarrow> plans_err + PublicPlan list \<times> int"
  qst_SetStatus :: "ctx \<Rightarrow> string \<Rightarrow> string \<Rightarrow> time \<Rightarrow> 'q \<Rightarrow> (plans_err + unit) \<times> 'q"
  qst_IncrementCounter :: "ctx \<Rightarrow> string \<Rightarrow> PublicCounterKind \<Rightarrow> time \<Rightarrow> 'q \<Rightarrow> (plans_err + unit) \<times> 'q"
  qst_RecordEvent :: "ctx \<Rightarrow> PublicPlanEvent \<Rightarrow> 'q \<Rightarrow> (plans_err + unit) \<times> 'q"

record 'v PublicViewDeduper =
  vd_Allow :: "ctx \<Rightarrow> string \<Rightarrow> string \<Rightarrow> time \<Rightarrow> 'v \<Rightarrow> (string + bool) \<times> 'v"

subsection \<open>Pages\<close>

definition normalizePagination :: "int \<Rightarrow> int \<Rightarrow> int \<times> int" where
  "normalizePagination page pageSize =
     (if page \<le> 0 then 1 else page,
      let n = (if pageSize \<le> 0 then 20 else pageSize) in if 100 < n then 100 else n)"

text \<open>
  The last lines of both \<open>List\<close> functions: \<open>start\<close> is an \<open>int\<close> product that wraps around, and slicing
  from a negative index panics (\<open>None\<close>).
\<close>

definition page_window :: "int \<Rightarrow> int \<Rightarrow> 'a list \<Rightarrow> 'a list option" where
  "page_window page0 pageSize matched =
     (case normalizePagination page0 pageSize of (page, n) \<Rightarrow>
        let total = int (length matched);
            start = wrap64 ((page - 1) * n);
            stop = (if total < start + n then total else start + n)
        in if total \<le> start then Some []
           else if start < 0 then None
           else Some (take (nat (stop - start)) (drop (nat start) matched)))"

definition paged :: "int \<Rightarrow> int \<Rightarrow> 'a list \<Rightarrow> plans_err + 'a list \<times> int" where
  "paged page0 pageSize matched =
     (case page_window page0 pageSize matched of
        None \<Rightarrow> Inl RunTimePanic
      | Some w \<Rightarrow> Inr (w, int (length matched)))"

text \<open>The values of a map in the order \<open>ks\<close> of its keys.\<close>

definition ranged :: "string list \<Rightarrow> (string \<rightharpoonup> 'a) \<Rightarrow> 'a list" where
  "ranged ks m = List.map_filter m ks"

lemma in_ranged: "x \<in> set (ranged ks m) \<longleftrightarrow> (\<exists>k \<in> set ks. m k = Some x)"
  by (force simp: ranged_def List.map_filter_def)

text \<open>
  The order in which a \<open>range\<close> visits the keys of a map, for every map: any function that lists the
  keys of each finite map, each once.
\<close>

definition lists_keys :: "string list \<Rightarrow> (string \<rightharpoonup> 'a) \<Rightarrow> bool" where
  "lists_keys ks m \<longleftrightarrow> distinct ks \<and> set ks = dom m"

definition sorted_keys :: "(string \<rightharpoonup> 'a) \<Rightarrow> string list" where
  "sorted_keys m = sorted_list_of_set (dom m)"

typedef 'a visit_order = "{ord :: (string \<rightharpoonup> 'a) \<Rightarrow> string list. \<forall>m. finite (dom m) \<longrightarrow> lists_keys (ord m) m}"
  morphisms visit Visit_order
  by (rule exI [of _ sorted_keys]) (simp add: lists_keys_def sorted_keys_def)

lemma visit_lists: "finite (dom m) \<Longrightarrow> lists_keys (visit ord m) m"
  using visit [of ord] by simp

lemma find_in_set: "find P xs = Some x \<Longrightarrow> x \<in> set xs \<and> P x"
  by (induction xs) (auto split: if_splits)

lemma in_ranged_keys: "lists_keys ks m \<Longrightarrow> x \<in> set (ranged ks m) \<longleftrightarrow> x \<in> ran m"
  by (auto simp: in_ranged lists_keys_def ran_def)

subsection \<open>The in-memory plan store\<close>

record MemoryPlanStore =
  mp_plans :: "string \<rightharpoonup> UserPlan"
  mp_archives :: "string \<rightharpoonup> ConversationArchive"

definition NewMemoryPlanStore :: MemoryPlanStore where
  "NewMemoryPlanStore = \<lparr>mp_plans = Map.empty, mp_archives = Map.empty\<rparr>"

definition MemoryPlanStore_Create ::
  "ctx \<Rightarrow> UserPlan \<Rightarrow> MemoryPlanStore \<Rightarrow> (plans_err + unit) \<times> MemoryPlanStore" where
  "MemoryPlanStore_Create c plan s =
     (case ctx_Err c of
        Some e \<Rightarrow> (Inl (ErrPlanCtx e), s)
      | None \<Rightarrow> (Inr (), s\<lparr>mp_plans := (mp_plans s)(up_ID plan \<mapsto> plan)\<rparr>))"

definition MemoryPlanStore_Get :: "ctx \<Rightarrow> string \<Rightarrow> string \<Rightarrow> MemoryPlanStore \<Rightarrow> plans_err + UserPlan" where
  "MemoryPlanStore_Get c planID userID s =
     (case ctx_Err c of
        Some e \<Rightarrow> Inl (ErrPlanCtx e)
      | None \<Rightarrow>
          (case mp_plans s planID of
             None \<Rightarrow> Inl ErrPlanNotFound
           | Some plan \<Rightarrow> if up_UserID plan \<noteq> userID \<or> IsDeleted plan then Inl ErrPlanNotFound else Inr plan))"

definition MemoryPlanStore_GetByTaskID ::
  "string list \<Rightarrow> ctx \<Rightarrow> string \<Rightarrow> string \<Rightarrow> MemoryPlanStore \<Rightarrow> plans_err + UserPlan option" where
  "MemoryPlanStore_GetByTaskID ks c userID taskID s =
     (case ctx_Err c of
        Some e \<Rightarrow> Inl (ErrPlanCtx e)
      | None \<Rightarrow> Inr (find (\<lambda>plan. up_UserID plan = userID \<and> up_TaskID plan = taskID \<and> \<not> IsDeleted plan)
                       (ranged ks (mp_plans s))))"

definition plan_matches :: "string \<Rightarrow> ListFilter \<Rightarrow> UserPlan \<Rightarrow> bool" where
  "plan_matches userID f plan \<longleftrightarrow>
     (let q = ToLower (TrimSpace (lf_Query f))
      in \<not> (up_UserID plan \<noteq> userID \<or> IsDeleted plan)
       \<and> \<not> (lf_Visibility f \<noteq> [] \<and> up_Visibility plan \<noteq> lf_Visibility f)
       \<and> \<not> (lf_PublishStatus f \<noteq> [] \<and> up_PublishStatus plan \<noteq> lf_PublishStatus f)
       \<and> \<not> (lf_DestinationCity f \<noteq> [] \<and> \<not> EqualFold (up_DestinationCity plan) (lf_DestinationCity f))
       \<and> \<not> (q \<noteq> [] \<and> \<not> Contains (ToLower (up_Title plan)) q
           \<and> \<not> Contains (ToLower (up_DestinationCity plan)) q))"

definition MemoryPlanStore_List ::
  "string list \<Rightarrow> ctx \<Rightarrow> string \<Rightarrow> ListFilter \<Rightarrow> MemoryPlanStore \<Rightarrow> plans_err + UserPlan list \<times> int" where
  "MemoryPlanStore_List ks c userID f s =
     (case ctx_Err c of
        Some e \<Rightarrow> Inl (ErrPlanCtx e)
      | None \<Rightarrow>
          paged (lf_Page f) (lf_PageSize f)
            (sort_key (\<lambda>p. - up_UpdatedAt p) (filter (plan_matches userID f) (ranged ks (mp_plans s)))))"

definition MemoryPlanStore_Update ::
  "ctx \<Rightarrow> UserPlan \<Rightarrow> MemoryPlanStore \<Rightarrow> (plans_err + unit) \<times> MemoryPlanStore" where
  "MemoryPlanStore_Update c plan s =
     (case ctx_Err c of
        Some e \<Rightarrow> (Inl (ErrPlanCtx e), s)
      | None \<Rightarrow>
          (case mp_plans s (up_ID plan) of
             None \<Rightarrow> (Inl ErrPlanNotFound, s)
           | Some current \<Rightarrow>
               if up_UserID current \<noteq> up_UserID plan then (Inl ErrPlanNotFound, s)
               else (Inr (), s\<lparr>mp_plans := (mp_plans s)(up_ID plan \<mapsto> plan)\<rparr>)))"

definition MemoryPlanStore_SoftDelete ::
  "ctx \<Rightarrow> string \<Rightarrow> string \<Rightarrow> time \<Rightarrow> MemoryPlanStore \<Rightarrow> (plans_err + unit) \<times> MemoryPlanStore" where
  "MemoryPlanStore_SoftDelete c planID userID deletedAt s =
     (case ctx_Err c of
        Some e \<Rightarrow> (Inl (ErrPlanCtx e), s)
      | None \<Rightarrow>
          (case mp_plans s planID of
             None \<Rightarrow> (Inl ErrPlanNotFound, s)
           | Some plan \<Rightarrow>
               if up_UserID plan \<noteq> userID then (Inl ErrPlanNotFound, s)
               else (Inr (), s\<lparr>mp_plans := (mp_plans s)(planID \<mapsto>
                       plan\<lparr>up_DeletedAt := Some deletedAt, up_UpdatedAt := deletedAt\<rparr>)\<rparr>)))"

definition MemoryPlanStore_CreateArchive ::
  "ctx \<Rightarrow> ConversationArchive \<Rightarrow> MemoryPlanStore \<Rightarrow> (plans_err + unit) \<times> MemoryPlanStore" where
  "MemoryPlanStore_CreateArchive c archive s =
     (case ctx_Err c of
        Some e \<Rightarrow> (Inl (ErrPlanCtx e), s)
      | None \<Rightarrow> (Inr (), s\<lparr>mp_archives := (mp_archives s)(ca_PlanID archive \<mapsto> archive)\<rparr>))"

definition MemoryPlanStore_GetArchive ::
  "ctx \<Rightarrow> string \<Rightarrow> string \<Rightarrow> MemoryPlanStore \<Rightarrow> plans_err + ConversationArchive" where
  "MemoryPlanStore_GetArchive c planID userID s =
     (case ctx_Err c of
        Some e \<Rightarrow> Inl (ErrPlanCtx e)
      | None \<Rightarrow>
          (case mp_archives s planID of
             None \<Rightarrow> Inl ErrPlanNotFound
           | Some archive \<Rightarrow> if ca_UserID archive \<noteq> userID then Inl ErrPlanNotFound else Inr archive))"

definition MemoryPlanStore_ops :: "UserPlan visit_order \<Rightarrow> MemoryPlanStore PlanStore" where
  "MemoryPlanStore_ops ord =
     \<lparr>pst_Create = MemoryPlanStore_Create, pst_Get = MemoryPlanStore_Get,
      pst_GetByTaskID = (\<lambda>c u t s. MemoryPlanStore_GetByTaskID (visit ord (mp_plans s)) c u t s),
      pst_List = (\<lambda>c u f s. MemoryPlanStore_List (visit ord (mp_plans s)) c u f s),
      pst_Update = MemoryPlanStore_Update, pst_SoftDelete = MemoryPlanStore_SoftDelete,
      pst_CreateArchive = MemoryPlanStore_CreateArchive, pst_GetArchive = MemoryPlanStore_GetArchive\<rparr>"


subsection \<open>The in-memory public plan store\<close>

text \<open>Counters are \<open>int64\<close>: the additions wrap around.\<close>

definition computeHotScore :: "PublicPlan \<Rightarrow> int" where
  "computeHotScore p = wrap64 (pp_ViewCount p + pp_SaveCount p * 5 + pp_CopyCount p * 3)"

record MemoryPublicPlanStore =
  mq_plans :: "string \<rightharpoonup> PublicPlan"
  mq_planToPubID :: "string \<rightharpoonup> string"
  mq_events :: "PublicPlanEvent list"

definition NewMemoryPublicPlanStore :: MemoryPublicPlanStore where
  "NewMemoryPublicPlanStore = \<lparr>mq_plans = Map.empty, mq_planToPubID = Map.empty, mq_events = []\<rparr>"

definition stable_id :: "PublicPlan \<Rightarrow> MemoryPublicPlanStore \<Rightarrow> PublicPlan" where
  "stable_id plan s =
     (case mq_planToPubID s (pp_PlanID plan) of
        Some existingID \<Rightarrow> if existingID \<noteq> pp_ID plan then plan\<lparr>pp_ID := existingID\<rparr> else plan
      | None \<Rightarrow> plan)"

definition keep_counters :: "PublicPlan \<Rightarrow> PublicPlan option \<Rightarrow> PublicPlan" where
  "keep_counters plan ex =
     (case ex of
        Some old \<Rightarrow> plan\<lparr>pp_ViewCount := pp_ViewCount old, pp_SaveCount := pp_SaveCount old,
                       pp_CopyCount := pp_CopyCount old\<rparr>
      | None \<Rightarrow> plan)"

definition rescore :: "PublicPlan \<Rightarrow> PublicPlan" where
  "rescore plan = plan\<lparr>pp_HotScore := computeHotScore plan\<rparr>"

definition MemoryPublicPlanStore_Upsert ::
  "ctx \<Rightarrow> PublicPlan \<Rightarrow> MemoryPublicPlanStore \<Rightarrow> (plans_err + unit) \<times> MemoryPublicPlanStore" where
  "MemoryPublicPlanStore_Upsert c plan0 s =
     (case ctx_Err c of
        Some e \<Rightarrow> (Inl (ErrPlanCtx e), s)
      | None \<Rightarrow>
          (let plan1 = stable_id plan0 s;
               plan2 = keep_counters plan1 (mq_plans s (pp_ID plan1));
               plan = rescore plan2
           in (Inr (), s\<lparr>mq_plans := (mq_plans s)(pp_ID plan \<mapsto> plan),
                         mq_planToPubID := (mq_planToPubID s)(pp_PlanID plan \<mapsto> pp_ID plan)\<rparr>)))"

definition MemoryPublicPlanStore_Get :: "ctx \<Rightarrow> string \<Rightarrow> MemoryPublicPlanStore \<Rightarrow> plans_err + PublicPlan" where
  "MemoryPublicPlanStore_Get c i s =
     (case ctx_Err c of
        Some e \<Rightarrow> Inl (ErrPlanCtx e)
      | None \<Rightarrow> (case mq_plans s i of None \<Rightarrow> Inl ErrPublicPlanNotFound | Some plan \<Rightarrow> Inr plan))"

definition MemoryPublicPlanStore_GetByPlanID ::
  "ctx \<Rightarrow> string \<Rightarrow> MemoryPublicPlanStore \<Rightarrow> plans_err + PublicPlan option" where
  "MemoryPublicPlanStore_GetByPlanID c planID s =
     (case ctx_Err c of
        Some e \<Rightarrow> Inl (ErrPlanCtx e)
      | None \<Rightarrow> (case mq_planToPubID s planID of None \<Rightarrow> Inr None | Some i \<Rightarrow> Inr (mq_plans s i)))"

definition public_matches :: "PublicListFilter \<Rightarrow> PublicPlan \<Rightarrow> bool" where
  "public_matches f plan \<longleftrightarrow>
     (let q = ToLower (TrimSpace (pf_Query f))
      in pp_Status plan = PublicPlanStatusPublished
       \<and> \<not> (pf_DestinationCity f \<noteq> [] \<and> \<not> EqualFold (pp_DestinationCity plan) (pf_DestinationCity f))
       \<and> \<not> (0 < pf_Days f \<and> pp_Days plan \<noteq> pf_Days f)
       \<and> \<not> (pf_Interest f \<noteq> [] \<and> \<not> list_ex (\<lambda>tag. EqualFold tag (pf_Interest f)) (pp_Tags plan))
       \<and> \<not> (q \<noteq> [] \<and> \<not> Contains (ToLower (pp_Title plan @ '' '' @ pp_Summary plan @ '' ''
              @ pp_DestinationCity plan @ '' '' @ Join (pp_Tags plan) '' '')) q))"

definition public_sort :: "string \<Rightarrow> PublicPlan list \<Rightarrow> PublicPlan list" where
  "public_sort how xs =
     (if how = ''latest'' then sort_key (\<lambda>p. - pp_PublishedAt p) xs
      else sort_key (\<lambda>p. (- pp_HotScore p, - pp_PublishedAt p)) xs)"

definition MemoryPublicPlanStore_List ::
  "string list \<Rightarrow> ctx \<Rightarrow> PublicListFilter \<Rightarrow> MemoryPublicPlanStore \<Rightarrow> plans_err + PublicPlan list \<times> int" where
  "MemoryPublicPlanStore_List ks c f s =
     (case ctx_Err c of
        Some e \<Rightarrow> Inl (ErrPlanCtx e)
      | None \<Rightarrow>
          paged (pf_Page f) (pf_PageSize f)
            (public_sort (pf_Sort f) (filter (public_matches f) (ranged ks (mq_plans s)))))"

definition MemoryPublicPlanStore_SetStatus ::
  "ctx \<Rightarrow> string \<Rightarrow> string \<Rightarrow> time \<Rightarrow> MemoryPublicPlanStore \<Rightarrow> (plans_err + unit) \<times> MemoryPublicPlanStore" where
  "MemoryPublicPlanStore_SetStatus c i status updatedAt s =
     (case ctx_Err c of
        Some e \<Rightarrow> (Inl (ErrPlanCtx e), s)
      | None \<Rightarrow>
          (case mq_plans s i of
             None \<Rightarrow> (Inl ErrPublicPlanNotFound, s)
           | Some plan \<Rightarrow> (Inr (), s\<lparr>mq_plans := (mq_plans s)(i \<mapsto>
                 plan\<lparr>pp_Status := status, pp_UpdatedAt := updatedAt\<rparr>)\<rparr>)))"

fun bump :: "PublicCounterKind \<Rightarrow> PublicPlan \<Rightarrow> PublicPlan" where
  "bump CounterView plan = plan\<lparr>pp_ViewCount := wrap64 (pp_ViewCount plan + 1)\<rparr>"
| "bump CounterSave plan = plan\<lparr>pp_SaveCount := wrap64 (pp_SaveCount plan + 1)\<rparr>"
| "bump CounterCopy plan = plan\<lparr>pp_CopyCount := wrap64 (pp_CopyCount plan + 1)\<rparr>"

definition MemoryPublicPlanStore_IncrementCounter ::
  "ctx \<Rightarrow> string \<Rightarrow> PublicCounterKind \<Rightarrow> time \<Rightarrow> MemoryPublicPlanStore \<Rightarrow> (plans_err + unit) \<times> MemoryPublicPlanStore" where
  "MemoryPublicPlanStore_IncrementCounter c i kind now s =
     (case ctx_Err c of
        Some e \<Rightarrow> (Inl (ErrPlanCtx e), s)
      | None \<Rightarrow>
          (case mq_plans s i of
             None \<Rightarrow> (Inl ErrPublicPlanNotFound, s)
           | Some plan \<Rightarrow> (Inr (), s\<lparr>mq_plans := (mq_plans s)(i \<mapsto> (rescore (bump kind plan))\<lparr>pp_UpdatedAt := now\<rparr>)\<rparr>)))"

definition MemoryPublicPlanStore_RecordEvent ::
  "ctx \<Rightarrow> PublicPlanEvent \<Rightarrow> MemoryPublicPlanStore \<Rightarrow> (plans_err + unit) \<times> MemoryPublicPlanStore" where
  "MemoryPublicPlanStore_RecordEvent c event s =
     (case ctx_Err c of
        Some e \<Rightarrow> (Inl (ErrPlanCtx e), s)
      | None \<Rightarrow> (Inr (), s\<lparr>mq_events := mq_events s @ [event]\<rparr>))"

definition MemoryPublicPlanStore_ops ::
  "PublicPlan visit_order \<Rightarrow> MemoryPublicPlanStore PublicPlanStore" where
  "MemoryPublicPlanStore_ops ord =
     \<lparr>qst_Upsert = MemoryPublicPlanStore_Upsert, qst_Get = MemoryPublicPlanStore_Get,
      qst_GetByPlanID = MemoryPublicPlanStore_GetByPlanID,
      qst_List = (\<lambda>c f s. MemoryPublicPlanStore_List (visit ord (mq_plans s)) c f s),
      qst_SetStatus = MemoryPublicPlanStore_SetStatus,
      qst_IncrementCounter = MemoryPublicPlanStore_IncrementCounter,
      qst_RecordEvent = MemoryPublicPlanStore_RecordEvent\<rparr>"

subsection \<open>The in-memory view deduper\<close>

text \<open>The map of viewed keys is an association list with distinct keys: its size decides a clean-up.\<close>

record MemoryPublicViewDeduper =
  md_ttl :: duration
  md_seen :: "(string \<times> time) list"

definition defaultPublicViewDedupTTL :: duration where "defaultPublicViewDedupTTL = hour"

definition NewMemoryPublicViewDeduper :: "duration \<Rightarrow> MemoryPublicViewDeduper" where
  "NewMemoryPublicViewDeduper ttl =
     \<lparr>md_ttl = (if ttl \<le> 0 then defaultPublicViewDedupTTL else ttl), md_seen = []\<rparr>"

text \<open>The hex of the first 16 bytes of the digest.\<close>

definition viewerHash :: "string \<Rightarrow> string" where
  "viewerHash viewerKey = take 32 (sha256_hex viewerKey)"

definition dropExpired :: "time \<Rightarrow> (string \<times> time) list \<Rightarrow> (string \<times> time) list" where
  "dropExpired now seen = filter (\<lambda>(_, expiresAt). now < expiresAt) seen"

definition MemoryPublicViewDeduper_Allow ::
  "ctx \<Rightarrow> string \<Rightarrow> string \<Rightarrow> time \<Rightarrow> MemoryPublicViewDeduper \<Rightarrow> (string + bool) \<times> MemoryPublicViewDeduper" where
  "MemoryPublicViewDeduper_Allow c publicPlanID viewerKey now d =
     (case ctx_Err c of
        Some e \<Rightarrow> (Inl e, d)
      | None \<Rightarrow>
          if publicPlanID = [] \<or> viewerKey = [] then (Inr True, d)
          else
            (let key = publicPlanID @ '':'' @ viewerHash viewerKey
             in if (case map_of (md_seen d) key of Some expiresAt \<Rightarrow> now < expiresAt | None \<Rightarrow> False) then (Inr False, d)
                else
                  (let seen = (if 4096 < length (md_seen d) then dropExpired now (md_seen d) else md_seen d)
                   in (Inr True, d\<lparr>md_seen := AList.update key (now + md_ttl d) seen\<rparr>))))"

definition MemoryPublicViewDeduper_ops :: "MemoryPublicViewDeduper PublicViewDeduper" where
  "MemoryPublicViewDeduper_ops = \<lparr>vd_Allow = MemoryPublicViewDeduper_Allow\<rparr>"


subsection \<open>Laws of the stores\<close>

text \<open>
  \<open>plans\<close> and \<open>archives\<close> are the contents of a plan store, \<open>pubs\<close> and \<open>events\<close> those of a public plan
  store. \<open>sinv\<close> and \<open>qinv\<close> are the providers' invariants, which every operation keeps.
\<close>

locale plan_store =
  fixes P :: "'s PlanStore" and sinv :: "'s \<Rightarrow> bool"
    and plans :: "'s \<Rightarrow> string \<rightharpoonup> UserPlan" and archives :: "'s \<Rightarrow> string \<rightharpoonup> ConversationArchive"
  assumes plan_key: "sinv s \<Longrightarrow> plans s i = Some p \<Longrightarrow> up_ID p = i"
    and pcreate: "sinv s \<Longrightarrow> live c \<Longrightarrow> \<exists>s'. pst_Create P c p s = (Inr (), s') \<and> sinv s'
      \<and> plans s' = (plans s)(up_ID p \<mapsto> p) \<and> archives s' = archives s"
    and pget: "sinv s \<Longrightarrow> live c \<Longrightarrow> pst_Get P c i u s = (case plans s i of None \<Rightarrow> Inl ErrPlanNotFound
      | Some p \<Rightarrow> if up_UserID p \<noteq> u \<or> IsDeleted p then Inl ErrPlanNotFound else Inr p)"
    and pget_task_some: "sinv s \<Longrightarrow> live c \<Longrightarrow> pst_GetByTaskID P c u tid s = Inr (Some p) \<Longrightarrow>
      plans s (up_ID p) = Some p \<and> up_UserID p = u \<and> up_TaskID p = tid \<and> \<not> IsDeleted p"
    and pget_task_none: "sinv s \<Longrightarrow> live c \<Longrightarrow> pst_GetByTaskID P c u tid s = Inr None \<Longrightarrow>
      plans s i = Some p \<Longrightarrow> up_UserID p = u \<Longrightarrow> up_TaskID p = tid \<Longrightarrow> IsDeleted p"
    and pget_task_ok: "sinv s \<Longrightarrow> live c \<Longrightarrow> \<exists>r. pst_GetByTaskID P c u tid s = Inr r"
    and pupdate: "sinv s \<Longrightarrow> live c \<Longrightarrow> plans s (up_ID p) = Some x \<Longrightarrow> up_UserID x = up_UserID p \<Longrightarrow>
      \<exists>s'. pst_Update P c p s = (Inr (), s') \<and> sinv s' \<and> plans s' = (plans s)(up_ID p \<mapsto> p) \<and> archives s' = archives s"
    and pdelete: "sinv s \<Longrightarrow> live c \<Longrightarrow> plans s i = Some p \<Longrightarrow> up_UserID p = u \<Longrightarrow>
      \<exists>s'. pst_SoftDelete P c i u t s = (Inr (), s') \<and> sinv s' \<and> archives s' = archives s
        \<and> plans s' = (plans s)(i \<mapsto> p\<lparr>up_DeletedAt := Some t, up_UpdatedAt := t\<rparr>)"
    and parchive: "sinv s \<Longrightarrow> live c \<Longrightarrow> \<exists>s'. pst_CreateArchive P c a s = (Inr (), s') \<and> sinv s'
      \<and> plans s' = plans s \<and> archives s' = (archives s)(ca_PlanID a \<mapsto> a)"
    and pget_archive: "sinv s \<Longrightarrow> live c \<Longrightarrow> pst_GetArchive P c i u s = (case archives s i of None \<Rightarrow> Inl ErrPlanNotFound
      | Some a \<Rightarrow> if ca_UserID a \<noteq> u then Inl ErrPlanNotFound else Inr a)"

locale public_store =
  fixes Q :: "'q PublicPlanStore" and qinv :: "'q \<Rightarrow> bool"
    and pubs :: "'q \<Rightarrow> string \<rightharpoonup> PublicPlan" and events :: "'q \<Rightarrow> PublicPlanEvent list"
  assumes pub_key: "qinv q \<Longrightarrow> pubs q j = Some x \<Longrightarrow> pp_ID x = j"
    and pub_one: "qinv q \<Longrightarrow> pubs q j = Some x \<Longrightarrow> pubs q j2 = Some y \<Longrightarrow> pp_PlanID x = pp_PlanID y \<Longrightarrow> j = j2"
    and qupsert_old: "qinv q \<Longrightarrow> live c \<Longrightarrow> pubs q j = Some x \<Longrightarrow> pp_PlanID x = pp_PlanID p \<Longrightarrow>
      \<exists>q'. qst_Upsert Q c p q = (Inr (), q') \<and> qinv q' \<and> events q' = events q
        \<and> pubs q' = (pubs q)(j \<mapsto> rescore (keep_counters (p\<lparr>pp_ID := j\<rparr>) (Some x)))"
    and qupsert_new: "qinv q \<Longrightarrow> live c \<Longrightarrow> \<forall>j x. pubs q j = Some x \<longrightarrow> pp_PlanID x \<noteq> pp_PlanID p \<Longrightarrow>
      pubs q (pp_ID p) = None \<Longrightarrow>
      \<exists>q'. qst_Upsert Q c p q = (Inr (), q') \<and> qinv q' \<and> events q' = events q
        \<and> pubs q' = (pubs q)(pp_ID p \<mapsto> rescore p)"
    and qget: "qinv q \<Longrightarrow> live c \<Longrightarrow> qst_Get Q c j q = (case pubs q j of None \<Rightarrow> Inl ErrPublicPlanNotFound | Some x \<Rightarrow> Inr x)"
    and qget_plan_some: "qinv q \<Longrightarrow> live c \<Longrightarrow> pubs q j = Some x \<Longrightarrow> pp_PlanID x = i \<Longrightarrow> qst_GetByPlanID Q c i q = Inr (Some x)"
    and qget_plan_none: "qinv q \<Longrightarrow> live c \<Longrightarrow> \<forall>j x. pubs q j = Some x \<longrightarrow> pp_PlanID x \<noteq> i \<Longrightarrow> qst_GetByPlanID Q c i q = Inr None"
    and qlist: "qinv q \<Longrightarrow> live c \<Longrightarrow> qst_List Q c f q = Inr (xs, n) \<Longrightarrow> x \<in> set xs \<Longrightarrow>
      pubs q (pp_ID x) = Some x \<and> pp_Status x = PublicPlanStatusPublished"
    and qstatus: "qinv q \<Longrightarrow> live c \<Longrightarrow> pubs q j = Some x \<Longrightarrow>
      \<exists>q'. qst_SetStatus Q c j st t q = (Inr (), q') \<and> qinv q' \<and> events q' = events q
        \<and> pubs q' = (pubs q)(j \<mapsto> x\<lparr>pp_Status := st, pp_UpdatedAt := t\<rparr>)"
    and qbump: "qinv q \<Longrightarrow> live c \<Longrightarrow> pubs q j = Some x \<Longrightarrow>
      \<exists>q'. qst_IncrementCounter Q c j kind t q = (Inr (), q') \<and> qinv q' \<and> events q' = events q
        \<and> pubs q' = (pubs q)(j \<mapsto> (rescore (bump kind x))\<lparr>pp_UpdatedAt := t\<rparr>)"
    and qrecord: "qinv q \<Longrightarrow> live c \<Longrightarrow> \<exists>q'. qst_RecordEvent Q c e q = (Inr (), q') \<and> qinv q'
      \<and> events q' = events q @ [e] \<and> pubs q' = pubs q"

subsection \<open>The in-memory stores keep the laws\<close>

definition mp_wf :: "MemoryPlanStore \<Rightarrow> bool" where
  "mp_wf s \<longleftrightarrow> finite (dom (mp_plans s)) \<and> (\<forall>i p. mp_plans s i = Some p \<longrightarrow> up_ID p = i)"

lemma mp_wf_new [simp]: "mp_wf NewMemoryPlanStore"
  by (simp add: mp_wf_def NewMemoryPlanStore_def)

lemma mp_wf_put: "mp_wf s \<Longrightarrow> up_ID p = i \<Longrightarrow> mp_wf (s\<lparr>mp_plans := (mp_plans s)(i \<mapsto> p)\<rparr>)"
  by (simp add: mp_wf_def)

lemma mp_wf_archives [simp]: "mp_wf (s\<lparr>mp_archives := a\<rparr>) = mp_wf s"
  by (simp add: mp_wf_def)

lemma mp_ord: "mp_wf s \<Longrightarrow> lists_keys (visit ord (mp_plans s)) (mp_plans s)"
  by (simp add: mp_wf_def visit_lists)

lemmas plan_store_ops = MemoryPlanStore_ops_def MemoryPlanStore_Create_def MemoryPlanStore_Get_def
  MemoryPlanStore_Update_def MemoryPlanStore_SoftDelete_def MemoryPlanStore_CreateArchive_def MemoryPlanStore_GetArchive_def

interpretation memory_plans: plan_store "MemoryPlanStore_ops ord" mp_wf mp_plans mp_archives for ord
proof (unfold_locales, goal_cases)
  case 1
  then show ?case by (simp add: mp_wf_def)
next
  case (2 s c p)
  then show ?case by (simp add: plan_store_ops mp_wf_put)
next
  case 3
  then show ?case by (simp add: plan_store_ops)
next
  case (4 s c u t p)
  have "find (\<lambda>plan. up_UserID plan = u \<and> up_TaskID plan = t \<and> \<not> IsDeleted plan)
      (ranged (visit ord (mp_plans s)) (mp_plans s)) = Some p"
    using 4 by (simp add: plan_store_ops MemoryPlanStore_GetByTaskID_def)
  from find_in_set [OF this] have "p \<in> ran (mp_plans s)" "up_UserID p = u \<and> up_TaskID p = t \<and> \<not> IsDeleted p"
    using in_ranged_keys [OF mp_ord [OF 4(1)]] by auto
  then show ?case using 4(1) by (auto simp: mp_wf_def ran_def)
next
  case (5 s c u t i p)
  have "p \<in> set (ranged (visit ord (mp_plans s)) (mp_plans s))"
    using in_ranged_keys [OF mp_ord [OF 5(1)], of p] 5(4) by (auto simp: ran_def)
  then show ?case using 5 by (auto simp: plan_store_ops MemoryPlanStore_GetByTaskID_def find_None_iff)
next
  case 6
  then show ?case by (simp add: plan_store_ops MemoryPlanStore_GetByTaskID_def)
next
  case (7 s c p x)
  then show ?case by (simp add: plan_store_ops mp_wf_put)
next
  case (8 s c i p u t)
  then have "up_ID p = i" by (simp add: mp_wf_def)
  with 8 show ?case by (simp add: plan_store_ops mp_wf_put)
next
  case 9
  then show ?case by (simp add: plan_store_ops)
next
  case 10
  then show ?case by (simp add: plan_store_ops)
qed


definition mq_wf :: "MemoryPublicPlanStore \<Rightarrow> bool" where
  "mq_wf s \<longleftrightarrow> finite (dom (mq_plans s))
     \<and> (\<forall>j x. mq_plans s j = Some x \<longrightarrow> pp_ID x = j \<and> mq_planToPubID s (pp_PlanID x) = Some j)
     \<and> (\<forall>i j. mq_planToPubID s i = Some j \<longrightarrow> (\<exists>x. mq_plans s j = Some x \<and> pp_PlanID x = i))"

lemma mq_index_Some: "mq_wf s \<Longrightarrow> mq_planToPubID s i = Some j \<Longrightarrow> \<exists>x. mq_plans s j = Some x \<and> pp_PlanID x = i"
  unfolding mq_wf_def by blast

lemma mq_wf_new [simp]: "mq_wf NewMemoryPublicPlanStore"
  by (simp add: mq_wf_def NewMemoryPublicPlanStore_def)

lemma mq_wfD:
  assumes "mq_wf s" "mq_plans s j = Some x"
  shows "pp_ID x = j" "mq_planToPubID s (pp_PlanID x) = Some j"
  using assms by (auto simp: mq_wf_def)

lemma mq_wfI:
  assumes "finite (dom m)"
    and "\<And>j x. m j = Some x \<Longrightarrow> pp_ID x = j \<and> n (pp_PlanID x) = Some j"
    and "\<And>i j. n i = Some j \<Longrightarrow> \<exists>x. m j = Some x \<and> pp_PlanID x = i"
  shows "mq_wf (s\<lparr>mq_plans := m, mq_planToPubID := n\<rparr>)"
proof -
  have "mq_plans (s\<lparr>mq_plans := m, mq_planToPubID := n\<rparr>) = m"
    "mq_planToPubID (s\<lparr>mq_plans := m, mq_planToPubID := n\<rparr>) = n" by simp_all
  then show ?thesis unfolding mq_wf_def using assms by presburger
qed

lemma mq_wf_finite: "mq_wf s \<Longrightarrow> finite (dom (mq_plans s))"
  by (simp add: mq_wf_def)

lemma mq_wf_update:
  assumes "mq_wf s" "mq_plans s j = Some x" "pp_ID y = j" "pp_PlanID y = pp_PlanID x"
  shows "mq_wf (s\<lparr>mq_plans := (mq_plans s)(j \<mapsto> y)\<rparr>)"
proof -
  have "\<exists>z. ((mq_plans s)(j \<mapsto> y)) k = Some z \<and> pp_PlanID z = i" if "mq_planToPubID s i = Some k" for i k
    using mq_index_Some [OF assms(1) that] assms(2,4) by (cases "k = j") auto
  moreover have "pp_ID z = k \<and> mq_planToPubID s (pp_PlanID z) = Some k" if "((mq_plans s)(j \<mapsto> y)) k = Some z" for k z
    using that assms(3,4) mq_wfD [OF assms(1,2)] mq_wfD [OF assms(1), of k z] by (cases "k = j") auto
  ultimately have "mq_wf (s\<lparr>mq_plans := (mq_plans s)(j \<mapsto> y), mq_planToPubID := mq_planToPubID s\<rparr>)"
    using mq_wf_finite [OF assms(1)] by (intro mq_wfI) (simp, blast+)
  then show ?thesis by simp
qed

lemma mq_wf_insert:
  assumes "mq_wf s" "mq_plans s (pp_ID y) = None" "mq_planToPubID s (pp_PlanID y) = None"
  shows "mq_wf (s\<lparr>mq_plans := (mq_plans s)(pp_ID y \<mapsto> y),
                 mq_planToPubID := (mq_planToPubID s)(pp_PlanID y \<mapsto> pp_ID y)\<rparr>)"
proof -
  have "\<exists>z. ((mq_plans s)(pp_ID y \<mapsto> y)) k = Some z \<and> pp_PlanID z = i"
    if "((mq_planToPubID s)(pp_PlanID y \<mapsto> pp_ID y)) i = Some k" for i k
    using that mq_index_Some [OF assms(1), of i k] assms(2) by (cases "i = pp_PlanID y"; cases "k = pp_ID y") auto
  moreover have "pp_ID z = k \<and> ((mq_planToPubID s)(pp_PlanID y \<mapsto> pp_ID y)) (pp_PlanID z) = Some k"
    if "((mq_plans s)(pp_ID y \<mapsto> y)) k = Some z" for k z
  proof (cases "k = pp_ID y")
    case True
    then show ?thesis using that by simp
  next
    case False
    then have "mq_plans s k = Some z" using that by simp
    from mq_wfD [OF assms(1) this] assms(3) show ?thesis by (metis fun_upd_other option.distinct(1))
  qed
  moreover have "finite (dom ((mq_plans s)(pp_ID y \<mapsto> y)))" using mq_wf_finite [OF assms(1)] by simp
  ultimately show ?thesis by (intro mq_wfI) blast+
qed

lemma mq_wf_reindex:
  "mq_wf s \<Longrightarrow> mq_plans s j = Some x \<Longrightarrow>
    s\<lparr>mq_plans := m, mq_planToPubID := (mq_planToPubID s)(pp_PlanID x \<mapsto> j)\<rparr> = s\<lparr>mq_plans := m\<rparr>"
  using mq_wfD(2) [of s j x] by (cases s) (auto simp: fun_upd_idem)

lemma mq_index_None: "mq_wf s \<Longrightarrow> \<forall>j x. mq_plans s j = Some x \<longrightarrow> pp_PlanID x \<noteq> i \<Longrightarrow> mq_planToPubID s i = None"
  unfolding mq_wf_def by (metis not_None_eq)

lemma rescore_sel [simp]:
  "pp_ID (rescore p) = pp_ID p" "pp_PlanID (rescore p) = pp_PlanID p" "pp_UserID (rescore p) = pp_UserID p"
  "pp_Status (rescore p) = pp_Status p" "pp_ViewCount (rescore p) = pp_ViewCount p"
  "pp_SaveCount (rescore p) = pp_SaveCount p" "pp_CopyCount (rescore p) = pp_CopyCount p"
  "pp_HotScore (rescore p) = computeHotScore p" "pp_PublishedAt (rescore p) = pp_PublishedAt p"
  by (simp_all add: rescore_def)

lemma keep_counters_sel [simp]:
  "pp_ID (keep_counters p e) = pp_ID p" "pp_PlanID (keep_counters p e) = pp_PlanID p"
  "pp_UserID (keep_counters p e) = pp_UserID p" "pp_Status (keep_counters p e) = pp_Status p"
  "pp_PublishedAt (keep_counters p e) = pp_PublishedAt p"
  by (simp_all add: keep_counters_def split: option.split)

lemma bump_sel [simp]:
  "pp_ID (bump k p) = pp_ID p" "pp_PlanID (bump k p) = pp_PlanID p" "pp_UserID (bump k p) = pp_UserID p"
  "pp_Status (bump k p) = pp_Status p" "pp_PublishedAt (bump k p) = pp_PublishedAt p"
  by (cases k; simp)+

lemmas public_store_ops = MemoryPublicPlanStore_ops_def MemoryPublicPlanStore_Upsert_def MemoryPublicPlanStore_Get_def
  MemoryPublicPlanStore_GetByPlanID_def MemoryPublicPlanStore_SetStatus_def MemoryPublicPlanStore_IncrementCounter_def
  MemoryPublicPlanStore_RecordEvent_def

lemma set_public_sort [simp]: "set (public_sort how xs) = set xs"
  by (simp add: public_sort_def)

lemma set_paged: "paged p n xs = Inr (w, t) \<Longrightarrow> set w \<subseteq> set xs"
  by (auto simp: paged_def page_window_def normalizePagination_def Let_def
      split: option.splits if_splits dest!: in_set_takeD in_set_dropD)

interpretation memory_publics: public_store "MemoryPublicPlanStore_ops ord" mq_wf mq_plans mq_events for ord
proof (unfold_locales, goal_cases)
  case 1
  then show ?case by (simp add: mq_wfD)
next
  case (2 q j x j2 y)
  then show ?case using mq_wfD(2) [OF 2(1,2)] mq_wfD(2) [OF 2(1,3)] by simp
next
  case (3 q c j x p)
  have i: "mq_planToPubID q (pp_PlanID p) = Some j" using mq_wfD(2) [OF 3(1,3)] 3(4) by simp
  have st: "stable_id p q = p\<lparr>pp_ID := j\<rparr>" using i by (simp add: stable_id_def)
  let ?y = "rescore (keep_counters (p\<lparr>pp_ID := j\<rparr>) (Some x))"
  have "mq_wf (q\<lparr>mq_plans := (mq_plans q)(j \<mapsto> ?y)\<rparr>)"
    by (rule mq_wf_update [OF 3(1,3)]) (simp_all add: 3(4))
  then show ?case using 3 st mq_wf_reindex [OF 3(1,3)] by (simp add: public_store_ops Let_def)
next
  case (4 q c p)
  have i: "mq_planToPubID q (pp_PlanID p) = None" by (rule mq_index_None [OF 4(1,3)])
  then have st: "stable_id p q = p" by (simp add: stable_id_def)
  have "keep_counters p (mq_plans q (pp_ID p)) = p" using 4(4) by (simp add: keep_counters_def)
  then show ?case using 4 st i mq_wf_insert [of q "rescore p"] by (simp add: public_store_ops Let_def)
next
  case 5
  then show ?case by (simp add: public_store_ops)
next
  case (6 q c j x i)
  then show ?case using mq_wfD(2) [OF 6(1,3)] by (simp add: public_store_ops)
next
  case (7 q c i)
  then show ?case using mq_index_None [OF 7(1,3)] by (simp add: public_store_ops)
next
  case (8 q c f xs n x)
  have "lists_keys (visit ord (mq_plans q)) (mq_plans q)" using 8(1) by (simp add: mq_wf_def visit_lists)
  moreover have "x \<in> set (filter (public_matches f) (ranged (visit ord (mq_plans q)) (mq_plans q)))"
    using 8 set_paged by (fastforce simp: MemoryPublicPlanStore_ops_def MemoryPublicPlanStore_List_def)
  ultimately have "x \<in> ran (mq_plans q)" "public_matches f x" by (auto simp: in_ranged_keys)
  then show ?case using mq_wfD(1) [OF 8(1)] by (auto simp: ran_def public_matches_def Let_def)
next
  case (9 q c j x st t)
  then show ?case using mq_wf_update [OF 9(1,3)] mq_wfD(1) [OF 9(1,3)] by (simp add: public_store_ops)
next
  case (10 q c j x kind t)
  then show ?case using mq_wf_update [OF 10(1,3)] mq_wfD(1) [OF 10(1,3)] by (simp add: public_store_ops)
next
  case 11
  then show ?case by (simp add: public_store_ops mq_wf_def)
qed


subsection \<open>Pages of a listing\<close>

lemma page_window_in_range:
  assumes "1 \<le> page" "1 \<le> n" "n \<le> 100" "(page - 1) * n < 2 ^ 63"
  shows "page_window page n xs = Some (take (nat n) (drop (nat ((page - 1) * n)) xs))"
proof -
  let ?start = "(page - 1) * n"
  have nn: "normalizePagination page n = (page, n)" using assms by (simp add: normalizePagination_def)
  have nonneg: "0 \<le> ?start" using assms by simp
  then have w: "wrap64 ?start = ?start" using assms(4) by (intro wrap64_id) auto
  have tail: "take (nat (int (length xs) - ?start)) (drop (nat ?start) xs) = drop (nat ?start) xs"
    using nonneg by (simp add: nat_le_iff)
  have "take (nat n) (drop (nat ?start) xs) = drop (nat ?start) xs" if "int (length xs) < ?start + n"
    using that nonneg by (simp add: nat_le_iff)
  then show ?thesis
    using nonneg tail by (simp add: page_window_def nn w Let_def nat_le_iff)
qed

lemma concat_chunks: "concat (map (\<lambda>k. take n (drop (k * n) xs)) [0..<K]) = take (K * n) xs"
proof (induction K)
  case (Suc K)
  then show ?case using take_add [of "K * n" n xs] by (simp add: add.commute)
qed simp

lemma ranged_distinct:
  assumes "mp_wf s"
  shows "distinct (ranged (visit ord (mp_plans s)) (mp_plans s))"
proof -
  let ?ks = "visit ord (mp_plans s)" and ?m = "mp_plans s"
  have ks: "distinct ?ks" "set ?ks = dom ?m" using mp_ord [OF assms] by (simp_all add: lists_keys_def)
  have "filter (\<lambda>x. ?m x \<noteq> None) ?ks = ?ks" using ks(2) by (intro filter_True) auto
  then have "ranged ?ks ?m = map (the \<circ> ?m) ?ks" by (simp add: ranged_def List.map_filter_def)
  moreover have "inj_on (the \<circ> ?m) (set ?ks)"
  proof (unfold ks(2), rule inj_onI)
    fix i j
    assume "i \<in> dom ?m" "j \<in> dom ?m" "(the \<circ> ?m) i = (the \<circ> ?m) j"
    then obtain p where "?m i = Some p" "?m j = Some p" by auto
    then show "i = j" using assms unfolding mp_wf_def by blast
  qed
  ultimately show ?thesis using ks(1) by (simp add: distinct_map)
qed

lemma plan_matches_page [simp]: "plan_matches u (f\<lparr>lf_Page := k, lf_PageSize := n\<rparr>) = plan_matches u f"
  by (simp add: plan_matches_def fun_eq_iff)

lemma sorted_newest_first: "sorted_wrt (\<lambda>p q. up_UpdatedAt q \<le> up_UpdatedAt p) (sort_key (\<lambda>p. - up_UpdatedAt p) xs)"
  using sorted_sort_key [of "\<lambda>p. - up_UpdatedAt p" xs] by (simp add: sorted_map)

definition sample_plan :: "string \<Rightarrow> time \<Rightarrow> UserPlan" where
  "sample_plan i t = \<lparr>up_ID = i, up_UserID = ''u'', up_TaskID = [], up_SourcePublicPlanID = [], up_Title = ''Trip'',
     up_Note = [], up_Summary = [], up_Tags = [], up_Plan = None, up_DestinationCity = ''B'', up_Days = 2,
     up_Visibility = VisibilityPrivate, up_PublishStatus = PublishStatusDraft, up_CreatedAt = t, up_UpdatedAt = t,
     up_DeletedAt = None\<rparr>"

definition two_plans :: MemoryPlanStore where
  "two_plans = \<lparr>mp_plans = [''a'' \<mapsto> sample_plan ''a'' 1, ''b'' \<mapsto> sample_plan ''b'' 2], mp_archives = Map.empty\<rparr>"

definition any_plan :: ListFilter where
  "any_plan = \<lparr>lf_Query = [], lf_Visibility = [], lf_PublishStatus = [], lf_DestinationCity = [], lf_Page = 1,
     lf_PageSize = 20\<rparr>"

lemma two_plans_wf: "mp_wf two_plans"
  by (simp add: mp_wf_def two_plans_def sample_plan_def)

lemma two_plans_ran: "ran (mp_plans two_plans) = {sample_plan ''a'' 1, sample_plan ''b'' 2}"
  by (auto simp: two_plans_def)

text \<open>
  The pages of a private listing are its parts: for every order the map is visited in, the
  matching plans of the caller have an order, newest first, such that page \<open>k\<close> of size \<open>n\<close> is the \<open>k\<close>th
  stretch of \<open>n\<close> plans of it and reports their number; the first \<open>K\<close> pages together are its first
  \<open>K \<cdot> n\<close> plans, each once.
\<close>

theorem List_pages:
  assumes "live c" "mp_wf s" "1 \<le> n" "n \<le> 100" "int K * n < 2 ^ 63"
  shows "\<exists>all w. set all = {p. p \<in> ran (mp_plans s) \<and> plan_matches u f p} \<and> distinct all
    \<and> sorted_wrt (\<lambda>p q. up_UpdatedAt q \<le> up_UpdatedAt p) all
    \<and> (\<forall>k < K. MemoryPlanStore_List (visit ord (mp_plans s)) c u (f\<lparr>lf_Page := int k + 1, lf_PageSize := n\<rparr>) s
               = Inr (w k, int (length all)))
    \<and> concat (map w [0..<K]) = take (K * nat n) all"
proof -
  let ?all = "sort_key (\<lambda>p. - up_UpdatedAt p) (filter (plan_matches u f) (ranged (visit ord (mp_plans s)) (mp_plans s)))"
  let ?w = "\<lambda>k. take (nat n) (drop (k * nat n) ?all)"
  have "MemoryPlanStore_List (visit ord (mp_plans s)) c u (f\<lparr>lf_Page := int k + 1, lf_PageSize := n\<rparr>) s
      = Inr (?w k, int (length ?all))" if "k < K" for k
  proof -
    have "int k * n < 2 ^ 63" using that assms(3,5) mult_right_mono [of "int k" "int K" n] by linarith
    then have "page_window (int k + 1) n ?all = Some (?w k)"
      using page_window_in_range [of "int k + 1" n ?all] assms(3,4) by (simp add: nat_mult_distrib)
    then show ?thesis using assms(1) by (simp add: MemoryPlanStore_List_def paged_def)
  qed
  moreover have "set ?all = {p. p \<in> ran (mp_plans s) \<and> plan_matches u f p}"
    using in_ranged_keys [OF mp_ord [OF assms(2)]] by auto
  moreover have "distinct ?all" using ranged_distinct [OF assms(2)] by simp
  moreover note sorted_newest_first [of "filter (plan_matches u f) (ranged (visit ord (mp_plans s)) (mp_plans s))"]
    concat_chunks [of "nat n" ?all K]
  ultimately show ?thesis by (intro exI [of _ ?all] exI [of _ ?w] conjI) blast+
qed

theorem List_pages_witness:
  "\<exists>w0 w1. MemoryPlanStore_List (visit (Visit_order sorted_keys) (mp_plans two_plans)) background ''u''
        (any_plan\<lparr>lf_Page := 1, lf_PageSize := 1\<rparr>) two_plans = Inr (w0, 2)
     \<and> MemoryPlanStore_List (visit (Visit_order sorted_keys) (mp_plans two_plans)) background ''u''
        (any_plan\<lparr>lf_Page := 2, lf_PageSize := 1\<rparr>) two_plans = Inr (w1, 2)
     \<and> set (w0 @ w1) = {sample_plan ''a'' 1, sample_plan ''b'' 2}"
proof -
  obtain all w where a: "set all = {p. p \<in> ran (mp_plans two_plans) \<and> plan_matches ''u'' any_plan p}" "distinct all"
    and l: "\<forall>k < 2. MemoryPlanStore_List (visit (Visit_order sorted_keys) (mp_plans two_plans)) background ''u''
        (any_plan\<lparr>lf_Page := int k + 1, lf_PageSize := 1\<rparr>) two_plans = Inr (w k, int (length all))"
    and cc: "concat (map w [0..<2]) = take (2 * nat 1) all"
    using List_pages [OF live_background two_plans_wf, of 1 2 "''u''" any_plan "Visit_order sorted_keys"] by auto
  have st: "set all = {sample_plan ''a'' 1, sample_plan ''b'' 2}"
    unfolding a(1) two_plans_ran by (auto simp: plan_matches_def any_plan_def sample_plan_def IsDeleted_def)
  then have len: "length all = 2" using distinct_card [OF a(2)] by (simp add: sample_plan_def)
  have "MemoryPlanStore_List (visit (Visit_order sorted_keys) (mp_plans two_plans)) background ''u''
        (any_plan\<lparr>lf_Page := 1, lf_PageSize := 1\<rparr>) two_plans = Inr (w 0, 2)"
    "MemoryPlanStore_List (visit (Visit_order sorted_keys) (mp_plans two_plans)) background ''u''
        (any_plan\<lparr>lf_Page := 2, lf_PageSize := 1\<rparr>) two_plans = Inr (w 1, 2)"
    using l [rule_format, of 0] l [rule_format, of 1] len by simp_all
  moreover have "w 0 @ w 1 = all" using cc len by (simp add: numeral_2_eq_2)
  ultimately show ?thesis using st by metis
qed

lemma page_window_overflow: "page_window 461168601842738792 20 xs = None"
  by (simp add: page_window_def normalizePagination_def wrap64_def Let_def)

text \<open>
  A large page number makes a listing panic instead of answering with an empty page: with the
  default page size of 20, the start index of page 461168601842738792 wraps around to a negative
  \<open>int\<close>, and both listings slice from it, whatever the stores hold.
\<close>

theorem List_page_overflow:
  assumes "live c"
  shows "MemoryPlanStore_List ks c u (f\<lparr>lf_Page := 461168601842738792, lf_PageSize := 20\<rparr>) s = Inl RunTimePanic
    \<and> MemoryPublicPlanStore_List ks c (g\<lparr>pf_Page := 461168601842738792, pf_PageSize := 20\<rparr>) q = Inl RunTimePanic"
proof -
  show ?thesis
    using assms by (simp add: MemoryPlanStore_List_def MemoryPublicPlanStore_List_def paged_def page_window_overflow)
qed

theorem List_page_overflow_witness:
  "MemoryPlanStore_List [''a'', ''b''] background ''u'' (any_plan\<lparr>lf_Page := 461168601842738792, lf_PageSize := 20\<rparr>) two_plans
   = Inl RunTimePanic"
  using List_page_overflow [OF live_background] by blast


subsection \<open>Deduplicated views\<close>

lemma map_of_filter_keep: "map_of xs k = Some e \<Longrightarrow> Q (k, e) \<Longrightarrow> map_of (filter Q xs) k = Some e"
  by (induction xs) (auto split: if_splits)

text \<open>A call of \<open>Allow\<close>: its context, plan, viewer and instant.\<close>

type_synonym view_call = "ctx \<times> string \<times> string \<times> time"

fun allow_call :: "view_call \<Rightarrow> MemoryPublicViewDeduper \<Rightarrow> (string + bool) \<times> MemoryPublicViewDeduper" where
  "allow_call (c, i, key, now) d = MemoryPublicViewDeduper_Allow c i key now d"

fun allow_seq :: "MemoryPublicViewDeduper \<Rightarrow> view_call list \<Rightarrow> (string + bool) list" where
  "allow_seq d [] = []"
| "allow_seq d (x # xs) = (case allow_call x d of (r, d') \<Rightarrow> r # allow_seq d' xs)"

fun call_time :: "view_call \<Rightarrow> time" where
  "call_time (c, i, key, now) = now"

definition view_key :: "string \<Rightarrow> string \<Rightarrow> string" where
  "view_key i key = i @ '':'' @ viewerHash key"

definition recently_seen :: "MemoryPublicViewDeduper \<Rightarrow> string \<Rightarrow> time \<Rightarrow> bool" where
  "recently_seen d k now \<longleftrightarrow> (\<exists>e. map_of (md_seen d) k = Some e \<and> now < e)"

definition kept_views :: "MemoryPublicViewDeduper \<Rightarrow> time \<Rightarrow> (string \<times> time) list" where
  "kept_views d now = (if 4096 < length (md_seen d) then dropExpired now (md_seen d) else md_seen d)"

definition record_view :: "MemoryPublicViewDeduper \<Rightarrow> string \<Rightarrow> time \<Rightarrow> MemoryPublicViewDeduper" where
  "record_view d k now = d\<lparr>md_seen := AList.update k (now + md_ttl d) (kept_views d now)\<rparr>"

lemma Allow_eq:
  "MemoryPublicViewDeduper_Allow c i key now d =
     (case ctx_Err c of Some e \<Rightarrow> (Inl e, d)
      | None \<Rightarrow> if i = [] \<or> key = [] then (Inr True, d)
                else if recently_seen d (view_key i key) now then (Inr False, d)
                else (Inr True, record_view d (view_key i key) now))"
proof -
  have "(case map_of (md_seen d) k of Some expiresAt \<Rightarrow> now < expiresAt | None \<Rightarrow> False) = recently_seen d k now" for k
    by (simp add: recently_seen_def split: option.split)
  then show ?thesis
    unfolding MemoryPublicViewDeduper_Allow_def record_view_def kept_views_def view_key_def Let_def
    by (simp split: option.split)
qed

lemma kept_views_live: "map_of (md_seen d) k = Some e \<Longrightarrow> now < e \<Longrightarrow> map_of (kept_views d now) k = Some e"
  by (simp add: kept_views_def dropExpired_def map_of_filter_keep)

lemma record_view_sel [simp]:
  "md_ttl (record_view d k now) = md_ttl d"
  "map_of (md_seen (record_view d k now)) k = Some (now + md_ttl d)"
  "k' \<noteq> k \<Longrightarrow> map_of (md_seen (record_view d k now)) k' = map_of (kept_views d now) k'"
  by (simp_all add: record_view_def update_conv')

lemma Allow_ttl: "MemoryPublicViewDeduper_Allow c i key now d = (r, d') \<Longrightarrow> md_ttl d' = md_ttl d"
  unfolding Allow_eq by (auto split: option.splits if_splits)

lemma Allow_recorded:
  "MemoryPublicViewDeduper_Allow c i key now d = (Inr True, d') \<Longrightarrow> i \<noteq> [] \<Longrightarrow> key \<noteq> [] \<Longrightarrow>
    map_of (md_seen d') (view_key i key) = Some (now + md_ttl d)"
  unfolding Allow_eq by (auto split: option.splits if_splits)

lemma Allow_keeps:
  assumes "MemoryPublicViewDeduper_Allow c i key now d = (r, d')" "map_of (md_seen d) k = Some e" "now < e"
  shows "map_of (md_seen d') k = Some e"
    and "i \<noteq> [] \<Longrightarrow> key \<noteq> [] \<Longrightarrow> view_key i key = k \<Longrightarrow> r \<noteq> Inr True"
proof -
  have seen: "recently_seen d k now" using assms(2,3) by (simp add: recently_seen_def)
  show "map_of (md_seen d') k = Some e"
    using assms(1) seen kept_views_live [OF assms(2,3)] assms(2) unfolding Allow_eq
    by (cases "k = view_key i key") (auto split: option.splits if_splits)
  show "i \<noteq> [] \<Longrightarrow> key \<noteq> [] \<Longrightarrow> view_key i key = k \<Longrightarrow> r \<noteq> Inr True"
    using assms(1) seen unfolding Allow_eq by (auto split: option.splits)
qed

lemma allow_seq_blocked:
  assumes "map_of (md_seen d) (view_key i key) = Some e" "i \<noteq> []" "key \<noteq> []"
    and "sorted (map call_time xs)" "j < length xs" "xs ! j = (cj, i, key, tj)" "tj < e"
  shows "allow_seq d xs ! j \<noteq> Inr True"
  using assms
proof (induction xs arbitrary: d j)
  case (Cons x xs)
  obtain c2 i2 key2 t2 where x: "x = (c2, i2, key2, t2)" by (cases x)
  obtain r d' where a: "MemoryPublicViewDeduper_Allow c2 i2 key2 t2 d = (r, d')" by fastforce
  have "call_time x \<le> call_time ((x # xs) ! j)" using Cons.prems(4,5) by (cases j) (auto simp: nth_mem)
  then have t: "t2 < e" using Cons.prems(6,7) x by simp
  note keep = Allow_keeps [OF a Cons.prems(1) t]
  show ?case
  proof (cases j)
    case 0
    then show ?thesis using keep Cons.prems(2,3,6) a x by simp
  next
    case (Suc k)
    then show ?thesis using Cons.IH [of d' k] keep Cons.prems a x by simp
  qed
qed simp

lemma allow_seq_nth_Suc: "allow_seq d (x # xs) ! Suc j = allow_seq (snd (allow_call x d)) xs ! j"
  by (simp split: prod.split)

lemma allowed_twice:
  assumes "sorted (map call_time xs)" "a < b" "b < length xs" "xs ! a = (ca, i, key, ta)" "xs ! b = (cb, i, key, tb)"
    and "i \<noteq> []" "key \<noteq> []" "allow_seq d xs ! a = Inr True" "allow_seq d xs ! b = Inr True"
  shows "ta + md_ttl d \<le> tb"
  using assms
proof (induction xs arbitrary: d a b)
  case (Cons x xs)
  obtain c2 i2 key2 t2 where x: "x = (c2, i2, key2, t2)" by (cases x)
  obtain r d' where s: "MemoryPublicViewDeduper_Allow c2 i2 key2 t2 d = (r, d')" by fastforce
  obtain b' where b: "b = Suc b'" using Cons.prems(2) by (cases b) auto
  show ?case
  proof (cases a)
    case 0
    then have "r = Inr True" "c2 = ca" "i2 = i" "key2 = key" "t2 = ta" using Cons.prems x s by simp_all
    then have "map_of (md_seen d') (view_key i key) = Some (ta + md_ttl d)"
      using Allow_recorded s Cons.prems(6,7) by blast
    from allow_seq_blocked [OF this Cons.prems(6,7), of xs b' cb tb] Cons.prems b x s show ?thesis by fastforce
  next
    case (Suc a')
    then show ?thesis using Cons.IH [of a' b' d'] Cons.prems b x s Allow_ttl [OF s] by simp
  qed
qed simp

text \<open>
  A reader is counted once per window: when the clock readings of a sequence of calls do not go
  back, two calls of the same public plan and reader that are both allowed are at least the
  configured window apart (an hour where none is configured), whatever other readers did in between
  and although the deduper drops expired entries when it is large.
\<close>

theorem view_counted_once:
  assumes "sorted (map call_time xs)" "a < b" "b < length xs" "xs ! a = (ca, i, key, ta)" "xs ! b = (cb, i, key, tb)"
    and "i \<noteq> []" "key \<noteq> []"
    and "allow_seq (NewMemoryPublicViewDeduper ttl) xs ! a = Inr True"
    and "allow_seq (NewMemoryPublicViewDeduper ttl) xs ! b = Inr True"
  shows "ta + (if 0 < ttl then ttl else hour) \<le> tb"
  using allowed_twice [OF assms] by (simp add: NewMemoryPublicViewDeduper_def defaultPublicViewDedupTTL_def split: if_splits)

theorem view_counted_once_witness:
  "allow_seq (NewMemoryPublicViewDeduper 10)
     [(background, ''p'', ''user:a'', 1), (background, ''p'', ''user:a'', 5), (background, ''p'', ''user:a'', 11)]
   = [Inr True, Inr False, Inr True] \<and> (1 :: int) + (if (0::int) < 10 then 10 else hour) \<le> 11"
proof -
  let ?xs = "[(background, ''p'', ''user:a'', 1), (background, ''p'', ''user:a'', 5), (background, ''p'', ''user:a'', 11 :: int)]"
  have s: "allow_seq (NewMemoryPublicViewDeduper 10) ?xs = [Inr True, Inr False, Inr True]"
    by (simp add: NewMemoryPublicViewDeduper_def MemoryPublicViewDeduper_Allow_def update_conv')
  moreover have "(1 :: int) + (if (0::int) < 10 then 10 else hour) \<le> 11"
    by (rule view_counted_once [of ?xs 0 2 background "''p''" "''user:a''" 1 background 11 10]) (simp_all add: s del: allow_seq.simps)
  ultimately show ?thesis by blast
qed

end
