(* ===== verification/PlanService.thy ===== *)
theory PlanService
  imports PlanStore
begin

section \<open>The plan library service\<close>

text \<open>
  internal/plans/service.go: saving a generated plan into the owner's library, editing, deleting,
  publishing and unpublishing it, and the public reads, over any stores and any view deduper. What a
  call reads from outside (the clock, the random bytes of fresh ids, the task it looks up and the
  author's display name) is the record \<open>outside\<close>. Copies that Go makes against aliasing
  (\<open>cloneTravelPlan\<close>, \<open>copyTravelRequest\<close>) are field by field copies of values.
\<close>

subsection \<open>Inputs and helpers\<close>

definition defaultPageSize :: int where "defaultPageSize = 20"
definition maxTitleLength :: nat where "maxTitleLength = 80"
definition minTitleLength :: nat where "minTitleLength = 2"

record SaveInput =
  si_TaskID :: string
  si_Title :: string
  si_Note :: string

record EditInput =
  ei_Title :: "string option"
  ei_Note :: "string option"
  ei_Summary :: "string option"
  ei_Tags :: "string list option"
  ei_Visibility :: "string option"

record PublishInput =
  pi_Title :: string
  pi_Summary :: string
  pi_Tags :: "string list"

record RunningTask =
  rt_TaskID :: string
  rt_Status :: string
  rt_DestinationCity :: string
  rt_UpdatedAt :: time

record CurrentView =
  cv_RunningTask :: "RunningTask option"
  cv_LatestPlan :: "UserPlan option"

text \<open>
  \<open>tasks\<close> and \<open>authors\<close> are the interfaces TaskLookup and AuthorLookup at the time of the call,
  \<open>None\<close> where they are not configured.
\<close>

record outside =
  ou_now :: time
  ou_plan_id :: "nat list"
  ou_pub_id :: "nat list"
  ou_archive_id :: "nat list"
  ou_tasks :: "(ctx \<Rightarrow> string \<Rightarrow> plans_err + TaskSnapshot) option"
  ou_authors :: "(ctx \<Rightarrow> string \<Rightarrow> string) option"

record ('s, 'q, 'v) plan_deps =
  pd_plans :: "'s PlanStore"
  pd_publics :: "'q PublicPlanStore"
  pd_viewDeduper :: "'v PublicViewDeduper"

record ('s, 'q, 'v) plan_state =
  pl_plans :: 's
  pl_publics :: 'q
  pl_views :: 'v

definition NewUserPlanID :: "nat list \<Rightarrow> string" where
  "NewUserPlanID raw = ''plan_'' @ hex_encode raw"

definition NewPublicPlanID :: "nat list \<Rightarrow> string" where
  "NewPublicPlanID raw = ''pub_'' @ hex_encode raw"

definition NewArchiveID :: "nat list \<Rightarrow> string" where
  "NewArchiveID raw = ''arc_'' @ hex_encode raw"

definition validateTitle :: "string \<Rightarrow> plans_err + unit" where
  "validateTitle title =
     (let t = TrimSpace title
      in if t = [] then Inl ErrInvalidTitle
         else if length (runes t) < minTitleLength \<or> maxTitleLength < length (runes t) then Inl ErrInvalidTitle
         else Inr ())"

definition dedupeStrings :: "string list \<Rightarrow> string list" where
  "dedupeStrings values = uniq values"

definition tagsForPlan :: "TravelRequest \<Rightarrow> string list" where
  "tagsForPlan req = dedupeStrings
     ((if rq_DestinationCity req \<noteq> [] then [rq_DestinationCity req] else [])
      @ (if 0 < rq_Days req then [Itoa (rq_Days req) @ utf8 [0x65E5]] else [])
      @ filter (\<lambda>i. i \<noteq> []) (map TrimSpace (rq_Interests req)))"

definition trimNonEmpty :: "string list \<Rightarrow> string list" where
  "trimNonEmpty values = dedupeStrings (filter (\<lambda>v. v \<noteq> []) (map TrimSpace values))"

definition cloneTravelPlan :: "TravelPlan option \<Rightarrow> TravelPlan option" where
  "cloneTravelPlan plan =
     (case plan of None \<Rightarrow> None | Some p \<Rightarrow> Some (p\<lparr>pl_Days := [] @ pl_Days p, pl_Warnings := [] @ pl_Warnings p\<rparr>))"

definition copyTravelRequest :: "TravelRequest \<Rightarrow> TravelRequest option" where
  "copyTravelRequest req = Some (req\<lparr>rq_Interests := [] @ rq_Interests req, rq_MustVisit := [] @ rq_MustVisit req,
     rq_Avoid := [] @ rq_Avoid req, rq_BudgetIncludes := [] @ rq_BudgetIncludes req\<rparr>)"

lemma clone_same [simp]: "cloneTravelPlan p = p" "copyTravelRequest r = Some r"
  by (simp_all add: cloneTravelPlan_def copyTravelRequest_def split: option.split)

subsection \<open>The private library\<close>

definition save_title :: "SaveInput \<Rightarrow> TaskSnapshot \<Rightarrow> TravelPlan \<Rightarrow> string" where
  "save_title inp snapshot plan =
     (let t1 = TrimSpace (si_Title inp);
          t2 = (if t1 = [] then TrimSpace (pl_Title plan) else t1)
      in if t2 = [] then TrimSpace (rq_DestinationCity (sn_Request snapshot)) @ '' '' @ utf8 [0x65C5, 0x884C, 0x8BA1, 0x5212]
         else t2)"

definition saved_plan :: "outside \<Rightarrow> string \<Rightarrow> SaveInput \<Rightarrow> TaskSnapshot \<Rightarrow> TravelPlan \<Rightarrow> UserPlan" where
  "saved_plan ou userID inp snapshot plan =
     \<lparr>up_ID = NewUserPlanID (ou_plan_id ou), up_UserID = userID, up_TaskID = si_TaskID inp,
      up_SourcePublicPlanID = [], up_Title = save_title inp snapshot plan, up_Note = TrimSpace (si_Note inp),
      up_Summary = TrimSpace (pl_Summary plan), up_Tags = tagsForPlan (sn_Request snapshot),
      up_Plan = cloneTravelPlan (Some plan), up_DestinationCity = rq_DestinationCity (sn_Request snapshot),
      up_Days = rq_Days (sn_Request snapshot), up_Visibility = VisibilityPrivate, up_PublishStatus = PublishStatusDraft,
      up_CreatedAt = ou_now ou, up_UpdatedAt = ou_now ou, up_DeletedAt = None\<rparr>"

definition saved_archive :: "outside \<Rightarrow> UserPlan \<Rightarrow> TaskSnapshot \<Rightarrow> ConversationArchive" where
  "saved_archive ou plan snapshot =
     \<lparr>ca_ID = NewArchiveID (ou_archive_id ou), ca_PlanID = up_ID plan, ca_UserID = up_UserID plan,
      ca_TaskID = up_TaskID plan, ca_Brief = copyTravelRequest (sn_Request snapshot), ca_Messages = [], ca_Events = [],
      ca_CreatedAt = ou_now ou\<rparr>"

text \<open>The checks of \<open>Save\<close> between the lookup of an earlier save and the creation.\<close>

definition save_checks :: "outside \<Rightarrow> ctx \<Rightarrow> string \<Rightarrow> SaveInput \<Rightarrow> plans_err + TaskSnapshot \<times> TravelPlan" where
  "save_checks ou c userID inp =
     (case ou_tasks ou of
        None \<Rightarrow> Inl ErrLookupMissing
      | Some LookupTask \<Rightarrow>
          and_then (LookupTask c (si_TaskID inp)) (\<lambda>snapshot.
            case sn_Plan snapshot of
              None \<Rightarrow> Inl ErrTaskNotSucceeded
            | Some plan \<Rightarrow>
                if sn_Status snapshot \<noteq> TaskStatusSucceeded then Inl ErrTaskNotSucceeded
                else if sn_UserID snapshot \<noteq> [] \<and> sn_UserID snapshot \<noteq> userID then Inl ErrTaskNotOwned
                else and_then (validateTitle (save_title inp snapshot plan)) (\<lambda>_. Inr (snapshot, plan))))"

definition Plans_Save ::
  "('s, 'q, 'v) plan_deps \<Rightarrow> outside \<Rightarrow> ctx \<Rightarrow> string \<Rightarrow> SaveInput \<Rightarrow> ('s, 'q, 'v) plan_state
     \<Rightarrow> (plans_err + UserPlan) \<times> ('s, 'q, 'v) plan_state" where
  "Plans_Save D ou c userID inp \<sigma> =
     (if userID = [] then (Inl ErrPlanNotFound, \<sigma>)
      else if si_TaskID inp = [] then (Inl ErrPlanTaskNotFound, \<sigma>)
      else case pst_GetByTaskID (pd_plans D) c userID (si_TaskID inp) (pl_plans \<sigma>) of
             Inl e \<Rightarrow> (Inl e, \<sigma>)
           | Inr (Some existing) \<Rightarrow> (Inr existing, \<sigma>)
           | Inr None \<Rightarrow>
               (case save_checks ou c userID inp of
                  Inl e \<Rightarrow> (Inl e, \<sigma>)
                | Inr (snapshot, tp) \<Rightarrow>
                    (let plan = saved_plan ou userID inp snapshot tp
                     in case pst_Create (pd_plans D) c plan (pl_plans \<sigma>) of
                          (Inl e, s1) \<Rightarrow> (Inl e, \<sigma>\<lparr>pl_plans := s1\<rparr>)
                        | (Inr _, s1) \<Rightarrow>
                            (case pst_CreateArchive (pd_plans D) c (saved_archive ou plan snapshot) s1 of
                               (Inl e, s2) \<Rightarrow> (Inl e, \<sigma>\<lparr>pl_plans := s2\<rparr>)
                             | (Inr _, s2) \<Rightarrow> (Inr plan, \<sigma>\<lparr>pl_plans := s2\<rparr>)))))"

definition Plans_Get ::
  "('s, 'q, 'v) plan_deps \<Rightarrow> ctx \<Rightarrow> string \<Rightarrow> string \<Rightarrow> ('s, 'q, 'v) plan_state \<Rightarrow> plans_err + UserPlan" where
  "Plans_Get D c userID planID \<sigma> = pst_Get (pd_plans D) c planID userID (pl_plans \<sigma>)"

definition Plans_GetArchive ::
  "('s, 'q, 'v) plan_deps \<Rightarrow> ctx \<Rightarrow> string \<Rightarrow> string \<Rightarrow> ('s, 'q, 'v) plan_state \<Rightarrow> plans_err + ConversationArchive" where
  "Plans_GetArchive D c userID planID \<sigma> =
     and_then (pst_Get (pd_plans D) c planID userID (pl_plans \<sigma>))
       (\<lambda>_. pst_GetArchive (pd_plans D) c planID userID (pl_plans \<sigma>))"

definition Plans_List ::
  "('s, 'q, 'v) plan_deps \<Rightarrow> ctx \<Rightarrow> string \<Rightarrow> ListFilter \<Rightarrow> ('s, 'q, 'v) plan_state \<Rightarrow> plans_err + UserPlan list \<times> int" where
  "Plans_List D c userID f \<sigma> = pst_List (pd_plans D) c userID f (pl_plans \<sigma>)"

text \<open>
  The mirror of an edited plan: when the plan is published, its public entry is read, changed and
  upserted; the result of the upsert is ignored.
\<close>

definition sync_public ::
  "('s, 'q, 'v) plan_deps \<Rightarrow> ctx \<Rightarrow> UserPlan \<Rightarrow> (PublicPlan \<Rightarrow> PublicPlan) \<Rightarrow> ('s, 'q, 'v) plan_state \<Rightarrow> ('s, 'q, 'v) plan_state" where
  "sync_public D c plan change \<sigma> =
     (if up_PublishStatus plan = PublishStatusPublished then
        (case qst_GetByPlanID (pd_publics D) c (up_ID plan) (pl_publics \<sigma>) of
           Inr (Some pub) \<Rightarrow> \<sigma>\<lparr>pl_publics := snd (qst_Upsert (pd_publics D) c (change pub) (pl_publics \<sigma>))\<rparr>
         | _ \<Rightarrow> \<sigma>)
      else \<sigma>)"

definition rename_public :: "UserPlan \<Rightarrow> PublicPlan \<Rightarrow> PublicPlan" where
  "rename_public plan pub = pub\<lparr>pp_Title := up_Title plan, pp_UpdatedAt := up_UpdatedAt plan\<rparr>"

definition Rename ::
  "('s, 'q, 'v) plan_deps \<Rightarrow> outside \<Rightarrow> ctx \<Rightarrow> string \<Rightarrow> string \<Rightarrow> string \<Rightarrow> ('s, 'q, 'v) plan_state
     \<Rightarrow> (plans_err + UserPlan) \<times> ('s, 'q, 'v) plan_state" where
  "Rename D ou c userID planID title \<sigma> =
     (case pst_Get (pd_plans D) c planID userID (pl_plans \<sigma>) of
        Inl e \<Rightarrow> (Inl e, \<sigma>)
      | Inr plan0 \<Rightarrow>
          (case validateTitle title of
             Inl e \<Rightarrow> (Inl e, \<sigma>)
           | Inr _ \<Rightarrow>
               (let plan = plan0\<lparr>up_Title := TrimSpace title, up_UpdatedAt := ou_now ou\<rparr>
                in case pst_Update (pd_plans D) c plan (pl_plans \<sigma>) of
                     (Inl e, s1) \<Rightarrow> (Inl e, \<sigma>\<lparr>pl_plans := s1\<rparr>)
                   | (Inr _, s1) \<Rightarrow> (Inr plan, sync_public D c plan (rename_public plan) (\<sigma>\<lparr>pl_plans := s1\<rparr>)))))"

text \<open>\<open>Edit\<close> applies the fields in order; each check is made before the next field.\<close>

definition edit_title :: "EditInput \<Rightarrow> UserPlan \<Rightarrow> plans_err + UserPlan" where
  "edit_title inp plan =
     (case ei_Title inp of
        None \<Rightarrow> Inr plan
      | Some t \<Rightarrow> and_then (validateTitle t) (\<lambda>_. Inr (plan\<lparr>up_Title := TrimSpace t\<rparr>)))"

definition edit_texts :: "EditInput \<Rightarrow> UserPlan \<Rightarrow> UserPlan" where
  "edit_texts inp plan =
     (let p1 = (case ei_Note inp of None \<Rightarrow> plan | Some n \<Rightarrow> plan\<lparr>up_Note := TrimSpace n\<rparr>);
          p2 = (case ei_Summary inp of None \<Rightarrow> p1 | Some t \<Rightarrow> p1\<lparr>up_Summary := TrimSpace t\<rparr>)
      in (case ei_Tags inp of None \<Rightarrow> p2 | Some ts \<Rightarrow> p2\<lparr>up_Tags := trimNonEmpty ts\<rparr>))"

definition edit_visibility :: "EditInput \<Rightarrow> UserPlan \<Rightarrow> plans_err + UserPlan" where
  "edit_visibility inp plan =
     (case ei_Visibility inp of
        None \<Rightarrow> Inr plan
      | Some v0 \<Rightarrow>
          (let v = ToLower (TrimSpace v0)
           in if v \<noteq> VisibilityPrivate \<and> v \<noteq> VisibilityPublic then Inl ErrInvalidVisibility
              else Inr (plan\<lparr>up_Visibility := v\<rparr>)))"

definition edited :: "outside \<Rightarrow> EditInput \<Rightarrow> UserPlan \<Rightarrow> plans_err + UserPlan" where
  "edited ou inp plan0 =
     and_then (edit_title inp plan0) (\<lambda>p1.
       and_then (edit_visibility inp (edit_texts inp p1)) (\<lambda>p2. Inr (p2\<lparr>up_UpdatedAt := ou_now ou\<rparr>)))"

definition edit_public :: "UserPlan \<Rightarrow> PublicPlan \<Rightarrow> PublicPlan" where
  "edit_public plan pub = pub\<lparr>pp_Title := up_Title plan, pp_Summary := up_Summary plan, pp_Tags := [] @ up_Tags plan,
     pp_UpdatedAt := up_UpdatedAt plan\<rparr>"

definition Edit ::
  "('s, 'q, 'v) plan_deps \<Rightarrow> outside \<Rightarrow> ctx \<Rightarrow> string \<Rightarrow> string \<Rightarrow> EditInput \<Rightarrow> ('s, 'q, 'v) plan_state
     \<Rightarrow> (plans_err + UserPlan) \<times> ('s, 'q, 'v) plan_state" where
  "Edit D ou c userID planID inp \<sigma> =
     (case pst_Get (pd_plans D) c planID userID (pl_plans \<sigma>) of
        Inl e \<Rightarrow> (Inl e, \<sigma>)
      | Inr plan0 \<Rightarrow>
          (case edited ou inp plan0 of
             Inl e \<Rightarrow> (Inl e, \<sigma>)
           | Inr plan \<Rightarrow>
               (case pst_Update (pd_plans D) c plan (pl_plans \<sigma>) of
                  (Inl e, s1) \<Rightarrow> (Inl e, \<sigma>\<lparr>pl_plans := s1\<rparr>)
                | (Inr _, s1) \<Rightarrow> (Inr plan, sync_public D c plan (edit_public plan) (\<sigma>\<lparr>pl_plans := s1\<rparr>)))))"


definition Plans_Delete ::
  "('s, 'q, 'v) plan_deps \<Rightarrow> outside \<Rightarrow> ctx \<Rightarrow> string \<Rightarrow> string \<Rightarrow> ('s, 'q, 'v) plan_state
     \<Rightarrow> (plans_err + unit) \<times> ('s, 'q, 'v) plan_state" where
  "Plans_Delete D ou c userID planID \<sigma> =
     (case pst_Get (pd_plans D) c planID userID (pl_plans \<sigma>) of
        Inl e \<Rightarrow> (Inl e, \<sigma>)
      | Inr plan \<Rightarrow>
          (case pst_SoftDelete (pd_plans D) c (up_ID plan) userID (ou_now ou) (pl_plans \<sigma>) of
             (Inl e, s1) \<Rightarrow> (Inl e, \<sigma>\<lparr>pl_plans := s1\<rparr>)
           | (Inr _, s1) \<Rightarrow>
               (let \<sigma>1 = \<sigma>\<lparr>pl_plans := s1\<rparr>
                in if up_PublishStatus plan = PublishStatusPublished then
                     (case qst_GetByPlanID (pd_publics D) c (up_ID plan) (pl_publics \<sigma>1) of
                        Inr (Some pub) \<Rightarrow>
                          (Inr (), \<sigma>1\<lparr>pl_publics := snd (qst_SetStatus (pd_publics D) c (pp_ID pub)
                                       PublicPlanStatusUnpublished (ou_now ou) (pl_publics \<sigma>1))\<rparr>)
                      | _ \<Rightarrow> (Inr (), \<sigma>1))
                   else (Inr (), \<sigma>1))))"

subsection \<open>Publishing\<close>

text \<open>The title, summary and tags of a publication fall back to the plan's.\<close>

definition publish_title :: "UserPlan \<Rightarrow> PublishInput \<Rightarrow> string" where
  "publish_title plan inp = (let t = TrimSpace (pi_Title inp) in if t = [] then up_Title plan else t)"

definition published :: "outside \<Rightarrow> ctx \<Rightarrow> UserPlan \<Rightarrow> PublishInput \<Rightarrow> PublicPlan option \<Rightarrow> PublicPlan" where
  "published ou c plan inp ex =
     \<lparr>pp_ID = (case ex of Some old \<Rightarrow> pp_ID old | None \<Rightarrow> NewPublicPlanID (ou_pub_id ou)),
      pp_PlanID = up_ID plan, pp_UserID = up_UserID plan,
      pp_AuthorName = (case ou_authors ou of None \<Rightarrow> [] | Some DisplayName \<Rightarrow> DisplayName c (up_UserID plan)),
      pp_Title = publish_title plan inp,
      pp_Summary = (let t = TrimSpace (pi_Summary inp) in if t = [] then up_Summary plan else t),
      pp_Tags = (let ts = trimNonEmpty (pi_Tags inp) in if length ts = 0 then [] @ up_Tags plan else ts),
      pp_Plan = cloneTravelPlan (up_Plan plan), pp_DestinationCity = up_DestinationCity plan, pp_Days = up_Days plan,
      pp_Status = PublicPlanStatusPublished, pp_ViewCount = 0, pp_SaveCount = 0, pp_CopyCount = 0, pp_HotScore = 0,
      pp_PublishedAt = (case ex of Some old \<Rightarrow> pp_PublishedAt old | None \<Rightarrow> ou_now ou), pp_UpdatedAt = ou_now ou\<rparr>"

definition Plans_Publish ::
  "('s, 'q, 'v) plan_deps \<Rightarrow> outside \<Rightarrow> ctx \<Rightarrow> string \<Rightarrow> string \<Rightarrow> PublishInput \<Rightarrow> ('s, 'q, 'v) plan_state
     \<Rightarrow> (plans_err + PublicPlan) \<times> ('s, 'q, 'v) plan_state" where
  "Plans_Publish D ou c userID planID inp \<sigma> =
     (case pst_Get (pd_plans D) c planID userID (pl_plans \<sigma>) of
        Inl e \<Rightarrow> (Inl e, \<sigma>)
      | Inr plan \<Rightarrow>
          (case validateTitle (publish_title plan inp) of
             Inl e \<Rightarrow> (Inl e, \<sigma>)
           | Inr _ \<Rightarrow>
               (let ex = (case qst_GetByPlanID (pd_publics D) c (up_ID plan) (pl_publics \<sigma>) of Inr (Some old) \<Rightarrow> Some old | _ \<Rightarrow> None);
                    pub = published ou c plan inp ex
                in case qst_Upsert (pd_publics D) c pub (pl_publics \<sigma>) of
                     (Inl e, q1) \<Rightarrow> (Inl e, \<sigma>\<lparr>pl_publics := q1\<rparr>)
                   | (Inr _, q1) \<Rightarrow>
                       (case pst_Update (pd_plans D) c
                               (plan\<lparr>up_Visibility := VisibilityPublic, up_PublishStatus := PublishStatusPublished,
                                     up_UpdatedAt := ou_now ou\<rparr>) (pl_plans \<sigma>) of
                          (Inl e, s1) \<Rightarrow> (Inl e, \<sigma>\<lparr>pl_plans := s1, pl_publics := q1\<rparr>)
                        | (Inr _, s1) \<Rightarrow>
                            (qst_Get (pd_publics D) c (pp_ID pub) q1, \<sigma>\<lparr>pl_plans := s1, pl_publics := q1\<rparr>)))))"

definition Unpublish ::
  "('s, 'q, 'v) plan_deps \<Rightarrow> outside \<Rightarrow> ctx \<Rightarrow> string \<Rightarrow> string \<Rightarrow> ('s, 'q, 'v) plan_state
     \<Rightarrow> (plans_err + unit) \<times> ('s, 'q, 'v) plan_state" where
  "Unpublish D ou c userID planID \<sigma> =
     (case pst_Get (pd_plans D) c planID userID (pl_plans \<sigma>) of
        Inl e \<Rightarrow> (Inl e, \<sigma>)
      | Inr plan \<Rightarrow>
          if up_PublishStatus plan \<noteq> PublishStatusPublished then (Inl ErrNotPublished, \<sigma>)
          else
            (let hidden = (case qst_GetByPlanID (pd_publics D) c (up_ID plan) (pl_publics \<sigma>) of
                             Inr (Some pub) \<Rightarrow> qst_SetStatus (pd_publics D) c (pp_ID pub) PublicPlanStatusUnpublished
                                                 (ou_now ou) (pl_publics \<sigma>)
                           | _ \<Rightarrow> (Inr (), pl_publics \<sigma>))
             in case hidden of
                  (Inl e, q1) \<Rightarrow> (Inl e, \<sigma>\<lparr>pl_publics := q1\<rparr>)
                | (Inr _, q1) \<Rightarrow>
                    (case pst_Update (pd_plans D) c
                            (plan\<lparr>up_Visibility := VisibilityPrivate, up_PublishStatus := PublishStatusUnpublished,
                                  up_UpdatedAt := ou_now ou\<rparr>) (pl_plans \<sigma>) of
                       (r, s1) \<Rightarrow> (r, \<sigma>\<lparr>pl_plans := s1, pl_publics := q1\<rparr>))))"

subsection \<open>The public side\<close>

definition incrementPublicCounter ::
  "('s, 'q, 'v) plan_deps \<Rightarrow> ctx \<Rightarrow> string \<Rightarrow> PublicCounterKind \<Rightarrow> PublicViewer \<Rightarrow> time \<Rightarrow> ('s, 'q, 'v) plan_state
     \<Rightarrow> bool \<times> ('s, 'q, 'v) plan_state" where
  "incrementPublicCounter D c publicPlanID kind viewer now \<sigma> =
     (case qst_IncrementCounter (pd_publics D) c publicPlanID kind now (pl_publics \<sigma>) of
        (Inl _, q1) \<Rightarrow> (False, \<sigma>\<lparr>pl_publics := q1\<rparr>)
      | (Inr _, q1) \<Rightarrow>
          (True, \<sigma>\<lparr>pl_publics := snd (qst_RecordEvent (pd_publics D) c
             \<lparr>pe_PublicPlanID = publicPlanID, pe_UserID = pv_UserID viewer, pe_EventType = kind_string kind,
              pe_ClientHash = pv_ClientHash viewer, pe_CreatedAt = now\<rparr> q1)\<rparr>))"

definition ListPublic ::
  "('s, 'q, 'v) plan_deps \<Rightarrow> ctx \<Rightarrow> PublicListFilter \<Rightarrow> ('s, 'q, 'v) plan_state \<Rightarrow> plans_err + PublicPlan list \<times> int" where
  "ListPublic D c f \<sigma> = qst_List (pd_publics D) c f (pl_publics \<sigma>)"

definition view_allowed ::
  "('s, 'q, 'v) plan_deps \<Rightarrow> ctx \<Rightarrow> string \<Rightarrow> PublicViewer \<Rightarrow> time \<Rightarrow> 'v \<Rightarrow> bool \<times> 'v" where
  "view_allowed D c pubID viewer now v =
     (if DedupKey viewer \<noteq> [] then
        (case vd_Allow (pd_viewDeduper D) c pubID (DedupKey viewer) now v of
           (Inl _, v') \<Rightarrow> (True, v')
         | (Inr allowed, v') \<Rightarrow> (allowed, v'))
      else (True, v))"

definition GetPublic ::
  "('s, 'q, 'v) plan_deps \<Rightarrow> outside \<Rightarrow> ctx \<Rightarrow> string \<Rightarrow> PublicViewer \<Rightarrow> ('s, 'q, 'v) plan_state
     \<Rightarrow> (plans_err + PublicPlan) \<times> ('s, 'q, 'v) plan_state" where
  "GetPublic D ou c i viewer \<sigma> =
     (case qst_Get (pd_publics D) c i (pl_publics \<sigma>) of
        Inl e \<Rightarrow> (Inl e, \<sigma>)
      | Inr pub \<Rightarrow>
          if pp_Status pub \<noteq> PublicPlanStatusPublished then (Inl ErrPublicPlanNotFound, \<sigma>)
          else
            (case view_allowed D c (pp_ID pub) viewer (ou_now ou) (pl_views \<sigma>) of
               (shouldCount, v') \<Rightarrow>
                 (let \<sigma>1 = \<sigma>\<lparr>pl_views := v'\<rparr>
                  in if \<not> shouldCount then (Inr pub, \<sigma>1)
                     else (case incrementPublicCounter D c (pp_ID pub) CounterView viewer (ou_now ou) \<sigma>1 of
                             (counted, \<sigma>2) \<Rightarrow> (Inr (if counted then rescore (bump CounterView pub) else pub), \<sigma>2)))))"

definition copied_plan :: "outside \<Rightarrow> string \<Rightarrow> PublicPlan \<Rightarrow> UserPlan" where
  "copied_plan ou viewerID pub =
     \<lparr>up_ID = NewUserPlanID (ou_plan_id ou), up_UserID = viewerID, up_TaskID = [], up_SourcePublicPlanID = pp_ID pub,
      up_Title = pp_Title pub, up_Note = [], up_Summary = pp_Summary pub, up_Tags = [] @ pp_Tags pub,
      up_Plan = cloneTravelPlan (pp_Plan pub), up_DestinationCity = pp_DestinationCity pub, up_Days = pp_Days pub,
      up_Visibility = VisibilityPrivate, up_PublishStatus = PublishStatusDraft, up_CreatedAt = ou_now ou,
      up_UpdatedAt = ou_now ou, up_DeletedAt = None\<rparr>"

definition SavePublicAsCopy ::
  "('s, 'q, 'v) plan_deps \<Rightarrow> outside \<Rightarrow> ctx \<Rightarrow> string \<Rightarrow> string \<Rightarrow> ('s, 'q, 'v) plan_state
     \<Rightarrow> (plans_err + UserPlan) \<times> ('s, 'q, 'v) plan_state" where
  "SavePublicAsCopy D ou c viewerID publicPlanID \<sigma> =
     (if viewerID = [] then (Inl ErrPlanNotFound, \<sigma>)
      else case qst_Get (pd_publics D) c publicPlanID (pl_publics \<sigma>) of
             Inl e \<Rightarrow> (Inl e, \<sigma>)
           | Inr pub \<Rightarrow>
               if pp_Status pub \<noteq> PublicPlanStatusPublished then (Inl ErrSourcePlanForbidden, \<sigma>)
               else
                 (let plan = copied_plan ou viewerID pub
                  in case pst_Create (pd_plans D) c plan (pl_plans \<sigma>) of
                       (Inl e, s1) \<Rightarrow> (Inl e, \<sigma>\<lparr>pl_plans := s1\<rparr>)
                     | (Inr _, s1) \<Rightarrow>
                         (Inr plan, snd (incrementPublicCounter D c (pp_ID pub) CounterSave
                            \<lparr>pv_UserID = viewerID, pv_ClientHash = []\<rparr> (ou_now ou) (\<sigma>\<lparr>pl_plans := s1\<rparr>)))))"

definition Current ::
  "('s, 'q, 'v) plan_deps \<Rightarrow> ctx \<Rightarrow> string \<Rightarrow> RunningTask option \<Rightarrow> ('s, 'q, 'v) plan_state \<Rightarrow> plans_err + CurrentView" where
  "Current D c userID running \<sigma> =
     and_then (pst_List (pd_plans D) c userID
         \<lparr>lf_Query = [], lf_Visibility = [], lf_PublishStatus = [], lf_DestinationCity = [], lf_Page = 1, lf_PageSize = 1\<rparr>
         (pl_plans \<sigma>))
       (\<lambda>(ps, _). Inr \<lparr>cv_RunningTask = running, cv_LatestPlan = (case ps of [] \<Rightarrow> None | latest # _ \<Rightarrow> Some latest)\<rparr>)"

end
