(* ===== verification/Http.thy ===== *)
theory Http
  imports TravelService Auth PlanService
begin

section \<open>Requests, responses and middleware\<close>

text \<open>
  The part of gin the handlers use, the response shapes (internal/plans/dto.go) and
  internal/server/middleware.go. A request is a record of what the handlers read from it; a handler
  turns the context of a request and the state of the program into the next ones. gin is not under
  the repository: binding a JSON body is a parameter of the handlers (\<open>bind\<close>), and so is matching a
  path against the route table.
\<close>

subsection \<open>Response shapes\<close>

record UserPlanDTO =
  pd_ID :: string
  pd_UserID :: string
  pd_TaskID :: string
  pd_SourcePublicPlanID :: string
  pd_Title :: string
  pd_Note :: string
  pd_Summary :: string
  pd_Tags :: "string list"
  pd_Plan :: "TravelPlan option"
  pd_DestinationCity :: string
  pd_Days :: int
  pd_Visibility :: string
  pd_PublishStatus :: string
  pd_CreatedAt :: string
  pd_UpdatedAt :: string

text \<open>A nil and an empty slice are the same list; \<open>nonNilTags\<close> makes both print as an empty array.\<close>

definition nonNilTags :: "string list \<Rightarrow> string list" where
  "nonNilTags values = (if values = [] then [] else values)"

definition ToUserPlanDTO :: "UserPlan \<Rightarrow> bool \<Rightarrow> UserPlanDTO" where
  "ToUserPlanDTO plan includePlan =
     \<lparr>pd_ID = up_ID plan, pd_UserID = up_UserID plan, pd_TaskID = up_TaskID plan,
      pd_SourcePublicPlanID = up_SourcePublicPlanID plan, pd_Title = up_Title plan, pd_Note = up_Note plan,
      pd_Summary = up_Summary plan, pd_Tags = nonNilTags (up_Tags plan),
      pd_Plan = (if includePlan then up_Plan plan else None), pd_DestinationCity = up_DestinationCity plan,
      pd_Days = up_Days plan, pd_Visibility = up_Visibility plan, pd_PublishStatus = up_PublishStatus plan,
      pd_CreatedAt = RFC3339 (up_CreatedAt plan), pd_UpdatedAt = RFC3339 (up_UpdatedAt plan)\<rparr>"

record PublicPlanDTO =
  qd_PublicPlanID :: string
  qd_Title :: string
  qd_Summary :: string
  qd_Tags :: "string list"
  qd_Plan :: "TravelPlan option"
  qd_DestinationCity :: string
  qd_Days :: int
  qd_AuthorDisplayName :: string
  qd_HotScore :: int
  qd_ViewCount :: int
  qd_SaveCount :: int
  qd_PublishedAt :: string
  qd_UpdatedAt :: string

definition ToPublicPlanDTO :: "PublicPlan \<Rightarrow> bool \<Rightarrow> PublicPlanDTO" where
  "ToPublicPlanDTO pub includePlan =
     \<lparr>qd_PublicPlanID = pp_ID pub, qd_Title = pp_Title pub, qd_Summary = pp_Summary pub,
      qd_Tags = nonNilTags (pp_Tags pub), qd_Plan = (if includePlan then pp_Plan pub else None),
      qd_DestinationCity = pp_DestinationCity pub, qd_Days = pp_Days pub,
      qd_AuthorDisplayName = pp_AuthorName pub, qd_HotScore = pp_HotScore pub, qd_ViewCount = pp_ViewCount pub,
      qd_SaveCount = pp_SaveCount pub, qd_PublishedAt = RFC3339 (pp_PublishedAt pub),
      qd_UpdatedAt = RFC3339 (pp_UpdatedAt pub)\<rparr>"

record ConversationArchiveDTO =
  cd_PlanID :: string
  cd_TaskID :: string
  cd_Brief :: "TravelRequest option"
  cd_Messages :: "ArchivedMessage list"
  cd_Events :: "ArchivedEvent list"
  cd_CreatedAt :: string

definition nonNilMessages :: "ArchivedMessage list \<Rightarrow> ArchivedMessage list" where
  "nonNilMessages values = (if values = [] then [] else values)"

definition nonNilEvents :: "ArchivedEvent list \<Rightarrow> ArchivedEvent list" where
  "nonNilEvents values = (if values = [] then [] else values)"

definition ToArchiveDTO :: "ConversationArchive \<Rightarrow> ConversationArchiveDTO" where
  "ToArchiveDTO archive =
     \<lparr>cd_PlanID = ca_PlanID archive, cd_TaskID = ca_TaskID archive, cd_Brief = ca_Brief archive,
      cd_Messages = nonNilMessages (ca_Messages archive), cd_Events = nonNilEvents (ca_Events archive),
      cd_CreatedAt = RFC3339 (ca_CreatedAt archive)\<rparr>"

lemma nonNil_same [simp]: "nonNilTags xs = xs" "nonNilMessages ms = ms" "nonNilEvents es = es"
  by (simp_all add: nonNilTags_def nonNilMessages_def nonNilEvents_def)

subsection \<open>The context of a request\<close>

record cookie =
  ck_Name :: string
  ck_Value :: string
  ck_Path :: string
  ck_Domain :: string
  ck_Expires :: time
  ck_MaxAge :: int
  ck_HttpOnly :: bool
  ck_Secure :: bool
  ck_SameSite :: int

text \<open>One server-sent event: its name and its payload.\<close>

datatype sse =
  SSEvent string TaskEvent
| SSEResponse string ChatResponse
| SSEHeartbeat string time

datatype body =
  NoBody
| TextBody string
| ErrorBody string string string
| UserBody UserDTO
| PlanBody UserPlanDTO
| PlanPage "UserPlanDTO list" int int int
| ConversationBody ConversationArchiveDTO
| PublicBody PublicPlanDTO
| PublicPage "PublicPlanDTO list" int int int
| CurrentBody "(string \<times> string \<times> string \<times> string) option" "UserPlanDTO option"
| CreatedBody CreateTaskResponse
| TaskBody GetTaskResponse
| ChatBody ChatResponse
| StreamBody "sse list"

text \<open>
  A missing header, query value or path parameter reads as the empty string; a missing cookie is an
  error. \<open>hr_Body\<close> is the raw body, \<open>hr_ctx\<close> the context the server created for the request.
\<close>

record http_req =
  hr_Method :: string
  hr_Path :: string
  hr_Header :: "string \<Rightarrow> string"
  hr_Cookie :: "string \<Rightarrow> string option"
  hr_Query :: "string \<Rightarrow> string"
  hr_Param :: "string \<Rightarrow> string"
  hr_ClientIP :: string
  hr_UserAgent :: string
  hr_Body :: string
  hr_ctx :: ctx

text \<open>\<open>gin.Context\<close>: the keys the middlewares set, the response so far, and how the chain stopped.\<close>

record gin =
  gx_req :: http_req
  gx_ctx :: ctx
  gx_user :: "User option"
  gx_request_id :: string
  gx_headers :: "string \<rightharpoonup> string"
  gx_cookies :: "cookie list"
  gx_status :: int
  gx_body :: body
  gx_aborted :: bool
  gx_panicked :: bool

definition new_gin :: "http_req \<Rightarrow> gin" where
  "new_gin r = \<lparr>gx_req = r, gx_ctx = hr_ctx r, gx_user = None, gx_request_id = [], gx_headers = Map.empty,
     gx_cookies = [], gx_status = 200, gx_body = NoBody, gx_aborted = False, gx_panicked = False\<rparr>"

type_synonym 's handler = "gin \<Rightarrow> 's \<Rightarrow> gin \<times> 's"

definition set_header :: "string \<Rightarrow> string \<Rightarrow> gin \<Rightarrow> gin" where
  "set_header name value g = g\<lparr>gx_headers := (gx_headers g)(name \<mapsto> value)\<rparr>"

definition header_value :: "gin \<Rightarrow> string \<Rightarrow> string" where
  "header_value g name = (case gx_headers g name of None \<Rightarrow> [] | Some v \<Rightarrow> v)"

definition RequestIDHeader :: string where "RequestIDHeader = ''X-Request-ID''"

definition reply :: "int \<Rightarrow> body \<Rightarrow> gin \<Rightarrow> gin" where
  "reply status b g = g\<lparr>gx_status := status, gx_body := b\<rparr>"

text \<open>
  Running the handlers of a route: each calls the next at its end, so they run in order, until one
  aborts the chain or panics.
\<close>

fun run_chain :: "'s handler list \<Rightarrow> 's handler" where
  "run_chain [] g s = (g, s)"
| "run_chain (h # hs) g s =
     (case h g s of (g', s') \<Rightarrow> if gx_aborted g' \<or> gx_panicked g' then (g', s') else run_chain hs g' s')"

lemma run_chain_stop: "h g s = (g', s') \<Longrightarrow> gx_aborted g' \<or> gx_panicked g' \<Longrightarrow> run_chain (h # hs) g s = (g', s')"
  by auto

text \<open>A handler on one component of the state.\<close>

definition on_part :: "('s \<Rightarrow> 'a) \<Rightarrow> ('a \<Rightarrow> 's \<Rightarrow> 's) \<Rightarrow> 'a handler \<Rightarrow> 's handler" where
  "on_part read write h g s = (case h g (read s) of (g', a) \<Rightarrow> (g', write a s))"

subsection \<open>Middleware\<close>

definition newRequestID :: "time \<Rightarrow> string" where
  "newRequestID now =
     (let d = now div day_ns; s = now mod day_ns div second; n = now mod second
      in case civil d of (y, m, dd) \<Rightarrow>
           four_digits y @ two_digits m @ two_digits dd @ two_digits (s div 3600) @ two_digits (s div 60 mod 60)
           @ two_digits (s mod 60) @ ''.'' @ pad_left 9 CHR ''0'' (digits (nat n)))"

definition mw_RequestID :: "time \<Rightarrow> 's handler" where
  "mw_RequestID now g s =
     (let given = hr_Header (gx_req g) RequestIDHeader;
          i = (if given = [] then newRequestID now else given)
      in (set_header RequestIDHeader i (g\<lparr>gx_request_id := i\<rparr>), s))"

definition errorBody :: "gin \<Rightarrow> string \<Rightarrow> string \<Rightarrow> body" where
  "errorBody g code message = ErrorBody (gx_request_id g) code message"

text \<open>\<open>Recovery\<close> around the handlers that follow it. What they had done to the state stays.\<close>

definition Recovery :: "'s handler \<Rightarrow> 's handler" where
  "Recovery next g s =
     (case next g s of (g', s') \<Rightarrow>
        if gx_panicked g'
        then ((reply 500 (errorBody g' ''internal_error'' ''internal server error'') g')\<lparr>gx_aborted := True, gx_panicked := False\<rparr>, s')
        else (g', s'))"

definition CORS :: "string list \<Rightarrow> 's handler" where
  "CORS allowedOrigins g s =
     (let origin = hr_Header (gx_req g) ''Origin'';
          g1 = (if set allowedOrigins = {} then set_header ''Access-Control-Allow-Origin'' ''*'' g
                else if origin \<in> set allowedOrigins then
                  set_header ''Access-Control-Allow-Credentials'' ''true''
                    (set_header ''Vary'' ''Origin'' (set_header ''Access-Control-Allow-Origin'' origin g))
                else g);
          g2 = set_header ''Access-Control-Allow-Methods'' ''GET, POST, PATCH, DELETE, OPTIONS''
                 (set_header ''Access-Control-Allow-Headers'' ''Content-Type, X-Request-ID, Authorization'' g1)
      in (if hr_Method (gx_req g) = ''OPTIONS'' then (g2\<lparr>gx_status := 204, gx_aborted := True\<rparr>, s) else (g2, s)))"

text \<open>\<open>respond\<close> of package auth and \<open>respondError\<close> of the others: the error body carries the header's id.\<close>

definition respond :: "gin \<Rightarrow> int \<Rightarrow> string \<Rightarrow> string \<Rightarrow> gin" where
  "respond g status code message = reply status (ErrorBody (header_value g RequestIDHeader) code message) g"

lemma set_header_frame [simp]:
  "gx_req (set_header n v g) = gx_req g" "gx_ctx (set_header n v g) = gx_ctx g" "gx_user (set_header n v g) = gx_user g"
  "gx_cookies (set_header n v g) = gx_cookies g" "gx_status (set_header n v g) = gx_status g"
  "gx_body (set_header n v g) = gx_body g" "gx_aborted (set_header n v g) = gx_aborted g"
  "gx_panicked (set_header n v g) = gx_panicked g" "gx_request_id (set_header n v g) = gx_request_id g"
  by (simp_all add: set_header_def)

lemma reply_frame [simp]:
  "gx_req (reply st b g) = gx_req g" "gx_ctx (reply st b g) = gx_ctx g" "gx_user (reply st b g) = gx_user g"
  "gx_cookies (reply st b g) = gx_cookies g" "gx_status (reply st b g) = st" "gx_body (reply st b g) = b"
  "gx_aborted (reply st b g) = gx_aborted g" "gx_panicked (reply st b g) = gx_panicked g"
  "gx_headers (reply st b g) = gx_headers g" "gx_request_id (reply st b g) = gx_request_id g"
  by (simp_all add: reply_def)

lemma header_value_set [simp]:
  "header_value (set_header n v g) m = (if n = m then v else header_value g m)"
  "header_value (g\<lparr>gx_request_id := i\<rparr>) m = header_value g m"
  by (simp_all add: header_value_def set_header_def)

end
