(* ===== verification/AuthHttp.thy ===== *)
theory AuthHttp
  imports Http
begin

section \<open>The auth endpoints\<close>

text \<open>
  internal/auth/handler.go and middleware.go: the session cookie, the four endpoints, and the two
  middlewares that resolve the session of a request. Reading the clock and drawing random bytes are
  inputs (\<open>now\<close>, \<open>d\<close>); binding the JSON bodies is the parameter of \<open>auth_binder\<close>.
\<close>

subsection \<open>Cookies\<close>

definition SameSiteLaxMode :: int where "SameSiteLaxMode = 2"

record CookieConfig =
  cc_Name :: string
  cc_Domain :: string
  cc_Secure :: bool
  cc_Path :: string
  cc_SameSite :: int

definition Cookie_WithDefaults :: "CookieConfig \<Rightarrow> CookieConfig" where
  "Cookie_WithDefaults c =
     c\<lparr>cc_Name := (if cc_Name c = [] then ''travel_agent_session'' else cc_Name c),
       cc_Path := (if cc_Path c = [] then ''/'' else cc_Path c),
       cc_SameSite := (if cc_SameSite c = 0 then SameSiteLaxMode else cc_SameSite c)\<rparr>"

record registerBody =
  rb_Email :: string
  rb_Password :: string
  rb_DisplayName :: string

record loginBody =
  lb_Email :: string
  lb_Password :: string

record auth_binder =
  bind_register :: "string \<Rightarrow> string + registerBody"
  bind_login :: "string \<Rightarrow> string + loginBody"

record ('u, 's) auth_handler =
  ah_service :: "('u, 's) auth_deps"
  ah_cookie :: CookieConfig
  ah_bind :: auth_binder

definition NewAuthHandler :: "('u, 's) auth_deps \<Rightarrow> CookieConfig \<Rightarrow> auth_binder \<Rightarrow> ('u, 's) auth_handler" where
  "NewAuthHandler A cc b = \<lparr>ah_service = A, ah_cookie = Cookie_WithDefaults cc, ah_bind = b\<rparr>"

text \<open>\<open>int(time.Until(t).Seconds())\<close>: \<open>Seconds\<close> adds the whole seconds and the fraction as floats.\<close>

definition Seconds :: "duration \<Rightarrow> float64" where
  "Seconds d = f_add (f_of_int (go_div d second)) (f_div (f_of_int (go_mod d second)) (f_of_int 1000000000))"

definition f_to_int :: "float64 \<Rightarrow> int" where
  "f_to_int x = (let r = f_rat x in if r < 0 then - \<lfloor>- r\<rfloor> else \<lfloor>r\<rfloor>)"

definition unix_epoch :: time where "unix_epoch = 62135596800 * second"

definition session_cookie :: "CookieConfig \<Rightarrow> string \<Rightarrow> time \<Rightarrow> int \<Rightarrow> cookie" where
  "session_cookie cc val expires maxAge =
     \<lparr>ck_Name = cc_Name cc, ck_Value = val, ck_Path = cc_Path cc, ck_Domain = cc_Domain cc, ck_Expires = expires,
      ck_MaxAge = maxAge, ck_HttpOnly = True, ck_Secure = cc_Secure cc, ck_SameSite = cc_SameSite cc\<rparr>"

definition set_cookie :: "cookie \<Rightarrow> gin \<Rightarrow> gin" where
  "set_cookie k g = g\<lparr>gx_cookies := gx_cookies g @ [k]\<rparr>"

definition SetSessionCookie :: "('u, 's) auth_handler \<Rightarrow> time \<Rightarrow> Issued \<Rightarrow> gin \<Rightarrow> gin" where
  "SetSessionCookie H now issued g =
     (let maxAge = f_to_int (Seconds (ss_ExpiresAt (is_Session issued) - now))
      in set_cookie (session_cookie (ah_cookie H) (is_Plaintext issued) (ss_ExpiresAt (is_Session issued))
           (if maxAge < 0 then 0 else maxAge)) g)"

definition ClearSessionCookie :: "('u, 's) auth_handler \<Rightarrow> gin \<Rightarrow> gin" where
  "ClearSessionCookie H g = set_cookie (session_cookie (ah_cookie H) [] unix_epoch (- 1)) g"

definition tokenFromRequest :: "('u, 's) auth_handler \<Rightarrow> http_req \<Rightarrow> string" where
  "tokenFromRequest H r =
     (case hr_Cookie r (cc_Name (ah_cookie H)) of
        Some c \<Rightarrow> if c \<noteq> [] then c else
          (if prefix ''Bearer '' (hr_Header r ''Authorization'') then TrimSpace (drop 7 (hr_Header r ''Authorization'')) else [])
      | None \<Rightarrow>
          (if prefix ''Bearer '' (hr_Header r ''Authorization'') then TrimSpace (drop 7 (hr_Header r ''Authorization'')) else []))"

lemma set_cookie_frame [simp]:
  "gx_req (set_cookie k g) = gx_req g" "gx_ctx (set_cookie k g) = gx_ctx g" "gx_user (set_cookie k g) = gx_user g"
  "gx_cookies (set_cookie k g) = gx_cookies g @ [k]" "gx_status (set_cookie k g) = gx_status g"
  "gx_body (set_cookie k g) = gx_body g" "gx_aborted (set_cookie k g) = gx_aborted g"
  "gx_panicked (set_cookie k g) = gx_panicked g" "gx_headers (set_cookie k g) = gx_headers g"
  "gx_request_id (set_cookie k g) = gx_request_id g"
  by (simp_all add: set_cookie_def)

lemma header_value_set_cookie [simp]: "header_value (set_cookie k g) n = header_value g n"
  by (simp add: header_value_def)

subsection \<open>The endpoints\<close>

text \<open>\<open>Error()\<close> of the errors of package auth.\<close>

fun auth_err_text :: "auth_err \<Rightarrow> string" where
  "auth_err_text ErrEmailExists = ''email already registered''"
| "auth_err_text ErrInvalidCredentials = ''invalid credentials''"
| "auth_err_text ErrUserNotFound = ''user not found''"
| "auth_err_text ErrSessionNotFound = ''session not found''"
| "auth_err_text ErrSessionExpired = ''session expired''"
| "auth_err_text ErrPasswordTooShort = ''password too short''"
| "auth_err_text ErrInvalidEmail = ''email is invalid''"
| "auth_err_text ErrDisplayNameMissing = ''display name is required''"
| "auth_err_text ErrUnauthenticated = ''unauthenticated''"
| "auth_err_text (ErrAuthCtx e) = e"
| "auth_err_text ErrPasswordEmpty = ''password is empty''"
| "auth_err_text (ErrBcrypt e) = e"
| "auth_err_text (ErrAuthBackend e) = e"

definition register_error :: "auth_err \<Rightarrow> int \<times> string \<times> string" where
  "register_error e =
     (if e = ErrEmailExists then (409, ''email_exists'', ''email already registered'')
      else if e = ErrInvalidEmail then (400, ''invalid_email'', ''email is invalid'')
      else if e = ErrPasswordTooShort then (400, ''password_too_short'', ''password is too short'')
      else if e = ErrDisplayNameMissing then (400, ''display_name_required'', ''display_name is required'')
      else (500, ''register_failed'', auth_err_text e))"

definition http_Register :: "('u, 's) auth_handler \<Rightarrow> time \<Rightarrow> draws \<Rightarrow> ('u \<times> 's) handler" where
  "http_Register H now d g \<sigma> =
     (case bind_register (ah_bind H) (hr_Body (gx_req g)) of
        Inl e \<Rightarrow> (respond g 400 ''invalid_request'' e, \<sigma>)
      | Inr b \<Rightarrow>
          (case Register (ah_service H) (gx_ctx g) now d (rb_Email b) (rb_Password b) (rb_DisplayName b) \<sigma> of
             (Inl e, \<sigma>') \<Rightarrow> (case register_error e of (status, code, message) \<Rightarrow> (respond g status code message, \<sigma>'))
           | (Inr issued, \<sigma>') \<Rightarrow>
               (reply 201 (UserBody (NewUserDTO (is_User issued))) (SetSessionCookie H now issued g), \<sigma>')))"

definition http_Login :: "('u, 's) auth_handler \<Rightarrow> time \<Rightarrow> draws \<Rightarrow> ('u \<times> 's) handler" where
  "http_Login H now d g \<sigma> =
     (case bind_login (ah_bind H) (hr_Body (gx_req g)) of
        Inl e \<Rightarrow> (respond g 400 ''invalid_request'' e, \<sigma>)
      | Inr b \<Rightarrow>
          (case Login (ah_service H) (gx_ctx g) now d (lb_Email b) (lb_Password b) \<sigma> of
             (Inl e, \<sigma>') \<Rightarrow>
               (if e = ErrInvalidCredentials then respond g 401 ''invalid_credentials'' ''invalid email or password''
                else respond g 500 ''login_failed'' (auth_err_text e), \<sigma>')
           | (Inr issued, \<sigma>') \<Rightarrow>
               (reply 200 (UserBody (NewUserDTO (is_User issued))) (SetSessionCookie H now issued g), \<sigma>')))"

definition http_Logout :: "('u, 's) auth_handler \<Rightarrow> time \<Rightarrow> ('u \<times> 's) handler" where
  "http_Logout H now g \<sigma> =
     (let token = tokenFromRequest H (gx_req g);
          \<sigma>' = (if token \<noteq> [] then snd (Logout (ah_service H) (gx_ctx g) now token \<sigma>) else \<sigma>)
      in ((ClearSessionCookie H g)\<lparr>gx_status := 204\<rparr>, \<sigma>'))"

definition http_Me :: "'s handler" where
  "http_Me g \<sigma> =
     (case gx_user g of
        None \<Rightarrow> (respond g 401 ''unauthenticated'' ''not signed in'', \<sigma>)
      | Some user \<Rightarrow> (reply 200 (UserBody (NewUserDTO user)) g, \<sigma>))"

subsection \<open>The middlewares\<close>

definition WithUserID :: "ctx \<Rightarrow> string \<Rightarrow> ctx" where
  "WithUserID c userID = (if userID = [] then c else c\<lparr>ctx_UserID := userID\<rparr>)"

definition attach :: "User \<Rightarrow> gin \<Rightarrow> gin" where
  "attach user g = g\<lparr>gx_user := Some user, gx_ctx := WithUserID (gx_ctx g) (us_ID user)\<rparr>"

definition resolve :: "('u, 's) auth_handler \<Rightarrow> time \<Rightarrow> gin \<Rightarrow> 'u \<times> 's \<Rightarrow> User option \<times> gin" where
  "resolve H now g \<sigma> =
     (let token = tokenFromRequest H (gx_req g)
      in if token = [] then (None, g)
         else case Authenticate (ah_service H) (gx_ctx g) now token \<sigma> of
                Inl e \<Rightarrow> (None, if e = ErrSessionExpired \<or> e = ErrSessionNotFound then ClearSessionCookie H g else g)
              | Inr user \<Rightarrow> (Some user, g))"

definition Optional :: "('u, 's) auth_handler \<Rightarrow> time \<Rightarrow> ('u \<times> 's) handler" where
  "Optional H now g \<sigma> =
     (case resolve H now g \<sigma> of
        (None, g') \<Rightarrow> (g', \<sigma>)
      | (Some user, g') \<Rightarrow> (attach user g', \<sigma>))"

definition RequireAuth :: "('u, 's) auth_handler \<Rightarrow> time \<Rightarrow> ('u \<times> 's) handler" where
  "RequireAuth H now g \<sigma> =
     (case resolve H now g \<sigma> of
        (None, g') \<Rightarrow> ((respond g' 401 ''unauthenticated'' ''sign in required'')\<lparr>gx_aborted := True\<rparr>, \<sigma>)
      | (Some user, g') \<Rightarrow> (attach user g', \<sigma>))"

end
