(* ===== verification/PlansHttp.thy ===== *)
theory PlansHttp
  imports AuthHttp
begin

section \<open>The plan library endpoints\<close>

text \<open>
  internal/plans/handler.go: one handler per endpoint over the plan service. \<open>ou\<close> is what the service
  reads from outside during the call. A panic of the service (\<open>RunTimePanic\<close>) is a panic of the
  handler, which the recovery middleware answers.
\<close>

subsection \<open>Errors and query values\<close>

text \<open>\<open>Error()\<close> of the errors of package plans.\<close>

fun plans_err_text :: "plans_err \<Rightarrow> string" where
  "plans_err_text ErrPlanNotFound = ''plan not found''"
| "plans_err_text ErrPublicPlanNotFound = ''public plan not found''"
| "plans_err_text ErrPlanTaskNotFound = ''travel task not found''"
| "plans_err_text ErrTaskNotOwned = ''travel task is owned by another user''"
| "plans_err_text ErrTaskNotSucceeded = ''travel task is not in succeeded state''"
| "plans_err_text ErrAlreadyPublished = ''plan already published''"
| "plans_err_text ErrNotPublished = ''plan is not currently published''"
| "plans_err_text ErrInvalidTitle = ''title is invalid''"
| "plans_err_text ErrInvalidVisibility = ''visibility is invalid''"
| "plans_err_text ErrPublicPlanRemoved = ''public plan is no longer available''"
| "plans_err_text ErrSourcePlanForbidden = ''cannot copy unpublished plan''"
| "plans_err_text (ErrPlanCtx e) = e"
| "plans_err_text ErrLookupMissing = ''plan service: task lookup not configured''"
| "plans_err_text (ErrOther e) = e"
| "plans_err_text RunTimePanic = []"

fun mapDomainError :: "plans_err \<Rightarrow> (int \<times> string) option" where
  "mapDomainError ErrPlanNotFound = Some (404, ''not_found'')"
| "mapDomainError ErrPublicPlanNotFound = Some (404, ''not_found'')"
| "mapDomainError ErrPlanTaskNotFound = Some (400, ''task_not_found'')"
| "mapDomainError ErrTaskNotOwned = Some (403, ''forbidden'')"
| "mapDomainError ErrTaskNotSucceeded = Some (409, ''task_not_ready'')"
| "mapDomainError ErrAlreadyPublished = Some (409, ''already_published'')"
| "mapDomainError ErrNotPublished = Some (409, ''not_published'')"
| "mapDomainError ErrInvalidTitle = Some (400, ''invalid_title'')"
| "mapDomainError ErrInvalidVisibility = Some (400, ''invalid_visibility'')"
| "mapDomainError ErrSourcePlanForbidden = Some (409, ''public_plan_unavailable'')"
| "mapDomainError _ = None"

definition default_message :: "string \<Rightarrow> string" where
  "default_message code =
     (if code = ''not_found'' then ''plan not found''
      else if code = ''forbidden'' then ''you do not have permission for this plan''
      else if code = ''unauthenticated'' then ''sign in required''
      else code)"

definition respondError :: "gin \<Rightarrow> int \<Rightarrow> string \<Rightarrow> string \<Rightarrow> gin" where
  "respondError g status code message =
     respond g status code (if message = [] then default_message code else message)"

text \<open>The answer to an error of the service: the mapped one, or 500 with the error's text.\<close>

definition fail :: "gin \<Rightarrow> string \<Rightarrow> string \<Rightarrow> plans_err \<Rightarrow> gin" where
  "fail g code message e =
     (if e = RunTimePanic then g\<lparr>gx_panicked := True\<rparr>
      else case mapDomainError e of
             Some (status, c) \<Rightarrow> respondError g status c message
           | None \<Rightarrow> respondError g 500 code (plans_err_text e))"

text \<open>The handlers of the listings and of \<open>Current\<close> do not map errors.\<close>

definition fail_plain :: "gin \<Rightarrow> string \<Rightarrow> plans_err \<Rightarrow> gin" where
  "fail_plain g code e =
     (if e = RunTimePanic then g\<lparr>gx_panicked := True\<rparr> else respondError g 500 code (plans_err_text e))"

definition atoiOr :: "string \<Rightarrow> int \<Rightarrow> int" where
  "atoiOr val fallback =
     (let v = TrimSpace val
      in if v = [] then fallback
         else case Atoi v of None \<Rightarrow> fallback | Some n \<Rightarrow> if n < 0 then fallback else n)"

definition publicPlanViewer :: "gin \<Rightarrow> string \<Rightarrow> PublicViewer" where
  "publicPlanViewer g userID =
     \<lparr>pv_UserID = userID,
      pv_ClientHash = take 32 (sha256_hex (hr_ClientIP (gx_req g) @ ''|'' @ TrimSpace (hr_UserAgent (gx_req g))))\<rparr>"

subsection \<open>Bodies\<close>

record plans_binder =
  bind_save :: "string \<Rightarrow> string + SaveInput"
  bind_patch :: "string \<Rightarrow> string + EditInput"
  bind_publish :: "string \<Rightarrow> string + PublishInput"

record ('s, 'q, 'v) plans_handler =
  ph_service :: "('s, 'q, 'v) plan_deps"
  ph_currentTask :: "(string \<Rightarrow> RunningTask option) option"
  ph_bind :: plans_binder

text \<open>The check that opens every private handler.\<close>

definition with_user :: "(User \<Rightarrow> 's handler) \<Rightarrow> 's handler" where
  "with_user f g \<sigma> =
     (case gx_user g of
        None \<Rightarrow> (respondError g 401 ''unauthenticated'' ''sign in required'', \<sigma>)
      | Some user \<Rightarrow> f user g \<sigma>)"

lemma with_user_simps [simp]:
  "gx_user g = Some u \<Longrightarrow> with_user f g \<sigma> = f u g \<sigma>"
  "gx_user g = None \<Longrightarrow> with_user f g \<sigma> = (respondError g 401 ''unauthenticated'' ''sign in required'', \<sigma>)"
  by (simp_all add: with_user_def)

subsection \<open>The private library\<close>

definition http_Save :: "('s, 'q, 'v) plans_handler \<Rightarrow> outside \<Rightarrow> ('s, 'q, 'v) plan_state handler" where
  "http_Save H ou = with_user (\<lambda>user g \<sigma>.
     case bind_save (ph_bind H) (hr_Body (gx_req g)) of
       Inl e \<Rightarrow> (respondError g 400 ''invalid_request'' e, \<sigma>)
     | Inr b \<Rightarrow>
         (case Plans_Save (ph_service H) ou (gx_ctx g) (us_ID user) b \<sigma> of
            (Inl e, \<sigma>') \<Rightarrow> (fail g ''save_failed'' (plans_err_text e) e, \<sigma>')
          | (Inr plan, \<sigma>') \<Rightarrow> (reply 201 (PlanBody (ToUserPlanDTO plan True)) g, \<sigma>')))"

definition list_filter :: "http_req \<Rightarrow> ListFilter" where
  "list_filter r =
     \<lparr>lf_Query = TrimSpace (hr_Query r ''q''), lf_Visibility = TrimSpace (hr_Query r ''visibility''),
      lf_PublishStatus = TrimSpace (hr_Query r ''publish_status''),
      lf_DestinationCity = TrimSpace (hr_Query r ''destination_city''), lf_Page = atoiOr (hr_Query r ''page'') 1,
      lf_PageSize = atoiOr (hr_Query r ''page_size'') defaultPageSize\<rparr>"

definition http_List :: "('s, 'q, 'v) plans_handler \<Rightarrow> ('s, 'q, 'v) plan_state handler" where
  "http_List H = with_user (\<lambda>user g \<sigma>.
     let f = list_filter (gx_req g)
     in case Plans_List (ph_service H) (gx_ctx g) (us_ID user) f \<sigma> of
          Inl e \<Rightarrow> (fail_plain g ''list_failed'' e, \<sigma>)
        | Inr (ps, n) \<Rightarrow>
            (reply 200 (PlanPage (map (\<lambda>p. ToUserPlanDTO p False) ps) (lf_Page f) (lf_PageSize f) n) g, \<sigma>))"

definition http_Get :: "('s, 'q, 'v) plans_handler \<Rightarrow> ('s, 'q, 'v) plan_state handler" where
  "http_Get H = with_user (\<lambda>user g \<sigma>.
     case Plans_Get (ph_service H) (gx_ctx g) (us_ID user) (hr_Param (gx_req g) ''plan_id'') \<sigma> of
       Inl e \<Rightarrow> (fail g ''get_failed'' [] e, \<sigma>)
     | Inr plan \<Rightarrow> (reply 200 (PlanBody (ToUserPlanDTO plan True)) g, \<sigma>))"

definition http_Patch :: "('s, 'q, 'v) plans_handler \<Rightarrow> outside \<Rightarrow> ('s, 'q, 'v) plan_state handler" where
  "http_Patch H ou = with_user (\<lambda>user g \<sigma>.
     case bind_patch (ph_bind H) (hr_Body (gx_req g)) of
       Inl e \<Rightarrow> (respondError g 400 ''invalid_request'' e, \<sigma>)
     | Inr b \<Rightarrow>
         (case Edit (ph_service H) ou (gx_ctx g) (us_ID user) (hr_Param (gx_req g) ''plan_id'') b \<sigma> of
            (Inl e, \<sigma>') \<Rightarrow> (fail g ''patch_failed'' [] e, \<sigma>')
          | (Inr plan, \<sigma>') \<Rightarrow> (reply 200 (PlanBody (ToUserPlanDTO plan True)) g, \<sigma>')))"

definition http_Delete :: "('s, 'q, 'v) plans_handler \<Rightarrow> outside \<Rightarrow> ('s, 'q, 'v) plan_state handler" where
  "http_Delete H ou = with_user (\<lambda>user g \<sigma>.
     case Plans_Delete (ph_service H) ou (gx_ctx g) (us_ID user) (hr_Param (gx_req g) ''plan_id'') \<sigma> of
       (Inl e, \<sigma>') \<Rightarrow> (fail g ''delete_failed'' [] e, \<sigma>')
     | (Inr _, \<sigma>') \<Rightarrow> (g\<lparr>gx_status := 204\<rparr>, \<sigma>'))"

definition http_GetConversation :: "('s, 'q, 'v) plans_handler \<Rightarrow> ('s, 'q, 'v) plan_state handler" where
  "http_GetConversation H = with_user (\<lambda>user g \<sigma>.
     case Plans_GetArchive (ph_service H) (gx_ctx g) (us_ID user) (hr_Param (gx_req g) ''plan_id'') \<sigma> of
       Inl e \<Rightarrow> (fail g ''archive_failed'' [] e, \<sigma>)
     | Inr archive \<Rightarrow> (reply 200 (ConversationBody (ToArchiveDTO archive)) g, \<sigma>))"

subsection \<open>Publishing and the public side\<close>

definition empty_publish :: PublishInput where
  "empty_publish = \<lparr>pi_Title = [], pi_Summary = [], pi_Tags = []\<rparr>"

text \<open>A body that does not bind is the empty body.\<close>

definition publish_body :: "('s, 'q, 'v) plans_handler \<Rightarrow> string \<Rightarrow> PublishInput" where
  "publish_body H raw = (case bind_publish (ph_bind H) raw of Inl _ \<Rightarrow> empty_publish | Inr b \<Rightarrow> b)"

definition http_Publish :: "('s, 'q, 'v) plans_handler \<Rightarrow> outside \<Rightarrow> ('s, 'q, 'v) plan_state handler" where
  "http_Publish H ou = with_user (\<lambda>user g \<sigma>.
     case Plans_Publish (ph_service H) ou (gx_ctx g) (us_ID user) (hr_Param (gx_req g) ''plan_id'')
            (publish_body H (hr_Body (gx_req g))) \<sigma> of
       (Inl e, \<sigma>') \<Rightarrow> (fail g ''publish_failed'' [] e, \<sigma>')
     | (Inr pub, \<sigma>') \<Rightarrow> (reply 200 (PublicBody (ToPublicPlanDTO pub True)) g, \<sigma>'))"

definition http_Unpublish :: "('s, 'q, 'v) plans_handler \<Rightarrow> outside \<Rightarrow> ('s, 'q, 'v) plan_state handler" where
  "http_Unpublish H ou = with_user (\<lambda>user g \<sigma>.
     case Unpublish (ph_service H) ou (gx_ctx g) (us_ID user) (hr_Param (gx_req g) ''plan_id'') \<sigma> of
       (Inl e, \<sigma>') \<Rightarrow> (fail g ''unpublish_failed'' [] e, \<sigma>')
     | (Inr _, \<sigma>') \<Rightarrow> (g\<lparr>gx_status := 204\<rparr>, \<sigma>'))"

definition http_Current :: "('s, 'q, 'v) plans_handler \<Rightarrow> ('s, 'q, 'v) plan_state handler" where
  "http_Current H = with_user (\<lambda>user g \<sigma>.
     let running = (case ph_currentTask H of None \<Rightarrow> None | Some f \<Rightarrow> f (us_ID user))
     in case Current (ph_service H) (gx_ctx g) (us_ID user) running \<sigma> of
          Inl e \<Rightarrow> (fail_plain g ''current_failed'' e, \<sigma>)
        | Inr view \<Rightarrow>
            (reply 200 (CurrentBody
               (map_option (\<lambda>t. (rt_TaskID t, rt_Status t, rt_DestinationCity t, RFC3339 (rt_UpdatedAt t))) (cv_RunningTask view))
               (map_option (\<lambda>p. ToUserPlanDTO p False) (cv_LatestPlan view))) g, \<sigma>))"

definition public_filter :: "http_req \<Rightarrow> PublicListFilter" where
  "public_filter r =
     \<lparr>pf_Query = TrimSpace (hr_Query r ''q''), pf_DestinationCity = TrimSpace (hr_Query r ''destination_city''),
      pf_Days = atoiOr (hr_Query r ''days'') 0, pf_Interest = TrimSpace (hr_Query r ''interest''),
      pf_Sort = ToLower (TrimSpace (hr_Query r ''sort'')), pf_Page = atoiOr (hr_Query r ''page'') 1,
      pf_PageSize = atoiOr (hr_Query r ''page_size'') defaultPageSize\<rparr>"

definition http_ListPublic :: "('s, 'q, 'v) plans_handler \<Rightarrow> ('s, 'q, 'v) plan_state handler" where
  "http_ListPublic H g \<sigma> =
     (let f = public_filter (gx_req g)
      in case ListPublic (ph_service H) (gx_ctx g) f \<sigma> of
           Inl e \<Rightarrow> (fail_plain g ''list_failed'' e, \<sigma>)
         | Inr (ps, n) \<Rightarrow>
             (reply 200 (PublicPage (map (\<lambda>p. ToPublicPlanDTO p False) ps) (pf_Page f) (pf_PageSize f) n) g, \<sigma>))"

definition http_GetPublic :: "('s, 'q, 'v) plans_handler \<Rightarrow> outside \<Rightarrow> ('s, 'q, 'v) plan_state handler" where
  "http_GetPublic H ou g \<sigma> =
     (let viewer = publicPlanViewer g (case gx_user g of None \<Rightarrow> [] | Some user \<Rightarrow> us_ID user)
      in case GetPublic (ph_service H) ou (gx_ctx g) (hr_Param (gx_req g) ''public_plan_id'') viewer \<sigma> of
           (Inl e, \<sigma>') \<Rightarrow>
             (if e = ErrPublicPlanNotFound then respondError g 404 ''not_found'' [] else fail_plain g ''get_failed'' e, \<sigma>')
         | (Inr pub, \<sigma>') \<Rightarrow> (reply 200 (PublicBody (ToPublicPlanDTO pub True)) g, \<sigma>'))"

definition http_SavePublicAsCopy :: "('s, 'q, 'v) plans_handler \<Rightarrow> outside \<Rightarrow> ('s, 'q, 'v) plan_state handler" where
  "http_SavePublicAsCopy H ou = with_user (\<lambda>user g \<sigma>.
     case SavePublicAsCopy (ph_service H) ou (gx_ctx g) (us_ID user) (hr_Param (gx_req g) ''public_plan_id'') \<sigma> of
       (Inl e, \<sigma>') \<Rightarrow> (fail g ''save_failed'' [] e, \<sigma>')
     | (Inr plan, \<sigma>') \<Rightarrow> (reply 201 (PlanBody (ToUserPlanDTO plan True)) g, \<sigma>'))"

end
