(* ===== verification/TravelHttp.thy ===== *)
theory TravelHttp
  imports Http
begin

section \<open>The travel endpoints\<close>

text \<open>
  internal/travel/handler.go: creating a task, reading it, streaming its events, and the chat. What
  the service reads from outside is an argument: the clock, the fresh task id, what the store looks
  like between two polls, and, for the stream, the script of its \<open>select\<close> loop. Each round of the
  script says what the other goroutines do to the service before it and which case of the \<open>select\<close>
  is taken; a case that is not ready cannot be taken and the round is then only that of the others.
\<close>

subsection \<open>Handler\<close>

record travel_binder =
  bind_create :: "string \<Rightarrow> string + CreatePlanRequest"
  bind_chat :: "string \<Rightarrow> string + ChatRequest"

record ('s, 'r, 'l) travel_handler =
  th_service :: "('s, 'r, 'l) deps"
  th_extractor :: extractor
  th_bind :: travel_binder

definition WithRequestID :: "ctx \<Rightarrow> string \<Rightarrow> ctx" where
  "WithRequestID c requestID = (if requestID = [] then c else c\<lparr>ctx_RequestID := requestID\<rparr>)"

text \<open>\<open>Error()\<close>; a budget that JSON cannot print is the only marshalling error of a request.\<close>

definition float_name :: "float64 \<Rightarrow> string" where
  "float_name x = (if x = NaN then ''NaN'' else if x = PosInf then ''+Inf'' else ''-Inf'')"

fun travel_err_text :: "float64 \<Rightarrow> travel_err \<Rightarrow> string" where
  "travel_err_text b ErrTaskNotFound = ''task not found''"
| "travel_err_text b ErrRateLimited = ''rate limit exceeded''"
| "travel_err_text b (ErrInvalidRequest m) = ''invalid request: '' @ m"
| "travel_err_text b (ErrCtx e) = e"
| "travel_err_text b ErrNotInitialized = ''travel plan service is not initialized''"
| "travel_err_text b ErrMarshal = ''json: unsupported value: '' @ float_name b"
| "travel_err_text b (ErrBackend e) = e"

definition is_invalid :: "travel_err \<Rightarrow> bool" where
  "is_invalid e = (case e of ErrInvalidRequest m \<Rightarrow> True | _ \<Rightarrow> False)"

definition http_CreatePlan ::
  "('s, 'r, 'l) travel_handler \<Rightarrow> time \<Rightarrow> string \<Rightarrow> (('s \<Rightarrow> 's) \<times> time) list \<Rightarrow> ('s, 'r, 'l) service handler" where
  "http_CreatePlan H now taskID rounds g \<sigma> =
     (case bind_create (th_bind H) (hr_Body (gx_req g)) of
        Inl e \<Rightarrow> (respond g 400 ''invalid_request'' e, \<sigma>)
      | Inr req \<Rightarrow>
          (case CreateTask (th_service H) (WithRequestID (gx_ctx g) (header_value g RequestIDHeader)) now taskID rounds req
                  (hr_ClientIP (gx_req g)) \<sigma> of
             (Inl e, \<sigma>') \<Rightarrow>
               (if e = ErrRateLimited then respond g 429 ''rate_limited'' ''rate limit exceeded''
                else if is_invalid e then respond g 400 ''invalid_request'' (travel_err_text (cr_Budget req) e)
                else respond g 500 ''task_error'' (travel_err_text (cr_Budget req) e), \<sigma>')
           | (Inr resp, \<sigma>') \<Rightarrow> (reply 202 (CreatedBody resp) g, \<sigma>')))"

definition http_Chat :: "('s, 'r, 'l) travel_handler \<Rightarrow> ('s, 'r, 'l) service handler" where
  "http_Chat H g \<sigma> =
     (case bind_chat (th_bind H) (hr_Body (gx_req g)) of
        Inl e \<Rightarrow> (respond g 400 ''invalid_request'' e, \<sigma>)
      | Inr req \<Rightarrow>
          (case Chat (th_extractor H) (gx_ctx g) req of
             (_, Inl e) \<Rightarrow> (respond g 500 ''chat_error'' e, \<sigma>)
           | (_, Inr resp) \<Rightarrow> (reply 200 (ChatBody resp) g, \<sigma>)))"

definition stream_headers :: "gin \<Rightarrow> gin" where
  "stream_headers g =
     set_header ''X-Accel-Buffering'' ''no'' (set_header ''Connection'' ''keep-alive''
       (set_header ''Cache-Control'' ''no-cache'' (set_header ''Content-Type'' ''text/event-stream; charset=utf-8'' g)))"

definition sse_of :: "TaskEvent \<Rightarrow> sse" where
  "sse_of e = SSEvent (ev_Type e) e"

definition http_ChatStream ::
  "('s, 'r, 'l) travel_handler \<Rightarrow> time \<Rightarrow> (nat \<Rightarrow> string option) \<Rightarrow> ('s, 'r, 'l) service handler" where
  "http_ChatStream H now gone g \<sigma> =
     (case bind_chat (th_bind H) (hr_Body (gx_req g)) of
        Inl e \<Rightarrow> (respond g 400 ''invalid_request'' e, \<sigma>)
      | Inr req \<Rightarrow>
          (case ChatStream (th_extractor H) (gx_ctx g) now gone req of
             (events, Inl e) \<Rightarrow>
               (reply 200 (StreamBody (map sse_of events @ [SSEvent EventError (zero_event\<lparr>ev_Type := EventError,
                  ev_RequestID := header_value g RequestIDHeader, ev_Message := e, ev_CreatedAt := now\<rparr>)])) (stream_headers g), \<sigma>)
           | (events, Inr resp) \<Rightarrow>
               (reply 200 (StreamBody (map sse_of events @ [SSEResponse EventDone resp])) (stream_headers g), \<sigma>)))"

definition http_GetPlan :: "('s, 'r, 'l) travel_handler \<Rightarrow> time \<Rightarrow> ('s, 'r, 'l) service handler" where
  "http_GetPlan H now g \<sigma> =
     (let i = hr_Param (gx_req g) ''task_id''
      in if i = [] then (respond g 400 ''invalid_request'' ''task id is required'', \<sigma>)
         else case GetTask (th_service H) (gx_ctx g) now i \<sigma> of
                (Inl e, \<sigma>') \<Rightarrow>
                  (if e = ErrTaskNotFound then respond g 404 ''not_found'' ''task not found''
                   else respond g 500 ''internal_error'' (travel_err_text f_zero e), \<sigma>')
              | (Inr resp, \<sigma>') \<Rightarrow> (reply 200 (TaskBody resp) g, \<sigma>'))"

subsection \<open>The event stream\<close>

definition ends_stream :: "TaskEvent \<Rightarrow> bool" where
  "ends_stream e \<longleftrightarrow> ev_Type e = EventDone \<or> ev_Type e = EventError"

text \<open>\<open>replayHistory\<close>: what it writes, and whether it wrote a terminal event.\<close>

definition replayHistory :: "string \<Rightarrow> ('s, 'r, 'l) service \<Rightarrow> sse list \<times> bool" where
  "replayHistory taskID \<sigma> =
     (let history = EventHistory taskID \<sigma> in (map sse_of history, list_ex ends_stream history))"

datatype stimulus = ClientDone | HeartbeatTick time | EventReady

type_synonym ('s, 'r, 'l) script = "((('s, 'r, 'l) service \<Rightarrow> ('s, 'r, 'l) service) \<times> stimulus) list"

text \<open>
  The \<open>select\<close> loop on the channel \<open>ch\<close>: what is written, whether the loop has returned, and the
  service. A receive on an empty channel is ready only when the channel is closed.
\<close>

fun stream_loop :: "string \<Rightarrow> nat \<Rightarrow> ('s, 'r, 'l) script \<Rightarrow> ('s, 'r, 'l) service \<Rightarrow> sse list \<times> bool \<times> ('s, 'r, 'l) service" where
  "stream_loop i ch [] \<sigma> = ([], False, \<sigma>)"
| "stream_loop i ch ((others, st) # script) \<sigma> =
     (let \<sigma>1 = others \<sigma>
      in case st of
           ClientDone \<Rightarrow> ([], True, \<sigma>1)
         | HeartbeatTick t \<Rightarrow> (case stream_loop i ch script \<sigma>1 of (out, r) \<Rightarrow> (SSEHeartbeat i t # out, r))
         | EventReady \<Rightarrow>
             (case recv ch (sv_events \<sigma>1) of
                (None, b) \<Rightarrow> if ch_closed (eb_channels (sv_events \<sigma>1) ch) then ([], True, \<sigma>1) else stream_loop i ch script \<sigma>1
              | (Some e, b) \<Rightarrow>
                  (let \<sigma>2 = \<sigma>1\<lparr>sv_events := b\<rparr>
                   in if ends_stream e then ([sse_of e], True, \<sigma>2)
                      else case stream_loop i ch script \<sigma>2 of (out, r) \<Rightarrow> (sse_of e # out, r))))"

definition finished_event :: "gin \<Rightarrow> time \<Rightarrow> GetTaskResponse \<Rightarrow> TaskEvent" where
  "finished_event g now current =
     (if gt_Status current = TaskSucceeded
      then zero_event\<lparr>ev_Type := EventDone, ev_RequestID := header_value g RequestIDHeader, ev_TaskID := gt_TaskID current,
        ev_Status := Some (gt_Status current), ev_Message := ''task already finished'', ev_Plan := gt_Plan current,
        ev_CreatedAt := now\<rparr>
      else zero_event\<lparr>ev_Type := EventError, ev_RequestID := header_value g RequestIDHeader, ev_TaskID := gt_TaskID current,
        ev_Status := Some (gt_Status current), ev_Message := gt_Error current, ev_CreatedAt := now\<rparr>)"

text \<open>A finished task: the history, completed by a terminal event when it has none.\<close>

definition stream_finished :: "gin \<Rightarrow> time \<Rightarrow> GetTaskResponse \<Rightarrow> ('s, 'r, 'l) service \<Rightarrow> sse list" where
  "stream_finished g now current \<sigma> =
     (case replayHistory (gt_TaskID current) \<sigma> of
        (out, isterminal) \<Rightarrow> if isterminal then out else out @ [sse_of (finished_event g now current)])"

definition connected_event :: "gin \<Rightarrow> time \<Rightarrow> GetTaskResponse \<Rightarrow> TaskEvent" where
  "connected_event g now current =
     zero_event\<lparr>ev_Type := EventProgress, ev_RequestID := header_value g RequestIDHeader, ev_TaskID := gt_TaskID current,
       ev_Status := Some (gt_Status current), ev_Message := ''stream connected'', ev_CreatedAt := now\<rparr>"

text \<open>
  A task that is not finished: subscribe, greet, loop, and unsubscribe when the loop returns. The
  flag says whether the handler has returned by the end of the script.
\<close>

definition stream_live ::
  "gin \<Rightarrow> time \<Rightarrow> string \<Rightarrow> GetTaskResponse \<Rightarrow> ('s, 'r, 'l) script \<Rightarrow> ('s, 'r, 'l) service
     \<Rightarrow> sse list \<times> bool \<times> bool \<times> ('s, 'r, 'l) service" where
  "stream_live g now i current script \<sigma> =
     (case Service_Subscribe i \<sigma> of
        (ch, \<sigma>1) \<Rightarrow>
          (case stream_loop i ch script \<sigma>1 of
             (out, returned, \<sigma>2) \<Rightarrow>
               (let written = sse_of (connected_event g now current) # out
                in if \<not> returned then (written, False, False, \<sigma>2)
                   else case unsubscribe i ch (sv_events \<sigma>2) of
                          None \<Rightarrow> (written, True, True, \<sigma>2)
                        | Some b \<Rightarrow> (written, True, False, \<sigma>2\<lparr>sv_events := b\<rparr>))))"

definition http_StreamPlan ::
  "('s, 'r, 'l) travel_handler \<Rightarrow> time \<Rightarrow> ('s, 'r, 'l) script \<Rightarrow> ('s, 'r, 'l) service handler" where
  "http_StreamPlan H now script g \<sigma> =
     (let i = hr_Param (gx_req g) ''task_id''
      in if i = [] then (respond g 400 ''invalid_request'' ''task id is required'', \<sigma>)
         else case GetTask (th_service H) (gx_ctx g) now i \<sigma> of
                (Inl e, \<sigma>') \<Rightarrow>
                  (if e = ErrTaskNotFound then respond g 404 ''not_found'' ''task not found''
                   else respond g 500 ''internal_error'' (travel_err_text f_zero e), \<sigma>')
              | (Inr current, \<sigma>') \<Rightarrow>
                  if gt_Status current = TaskSucceeded \<or> gt_Status current = TaskFailed
                  then (reply 200 (StreamBody (stream_finished g now current \<sigma>')) (stream_headers g), \<sigma>')
                  else (case stream_live g now i current script \<sigma>' of
                          (out, returned, panicked, \<sigma>'') \<Rightarrow>
                            ((reply 200 (StreamBody out) (stream_headers g))\<lparr>gx_panicked := panicked\<rparr>, \<sigma>'')))"

end
