(* ===== verification/Router.thy ===== *)
theory Router
  imports AuthHttp PlansHttp TravelHttp
begin

section \<open>The server\<close>

text \<open>
  internal/server/router.go and the adapters of cmd/server/main.go: the route table with the
  middlewares of each group, and the service of one request. \<open>app\<close> is the state of the whole program,
  \<open>inputs\<close> what a request reads from outside. Matching a path against the table is gin's; any
  function from the table, the method and the path to a row and its path parameters stands for it.
  The log lines of the Logger middleware are not modelled.
\<close>

record ('u, 'w, 'p, 'q, 'v, 't, 'r, 'l) app =
  ap_auth :: "'u \<times> 'w"
  ap_plans :: "('p, 'q, 'v) plan_state"
  ap_travel :: "('t, 'r, 'l) service"

record ('t, 'r, 'l) inputs =
  in_now :: time
  in_draws :: draws
  in_taskID :: string
  in_planID :: "nat list"
  in_pubID :: "nat list"
  in_archiveID :: "nat list"
  in_rounds :: "(('t \<Rightarrow> 't) \<times> time) list"
  in_script :: "('t, 'r, 'l) script"
  in_gone :: "nat \<Rightarrow> string option"

record ('u, 'w, 'p, 'q, 'v, 't, 'r, 'l) RouterDeps =
  rd_Travel :: "('t, 'r, 'l) travel_handler"
  rd_Auth :: "('u, 'w) auth_handler option"
  rd_Plans :: "('p, 'q, 'v) plans_handler option"
  rd_AllowedOrigins :: "string list"
  rd_AllowAnonymousPlanGeneration :: bool

subsection \<open>Adapters\<close>

text \<open>
  \<open>travelTaskAdapter\<close> passes the errors of the task store on as they are, so to package plans they are
  errors of no kind it knows. What a store does to itself when it is read (a cache fill) is not
  carried back.
\<close>

definition LookupTask :: "'t TaskStore \<Rightarrow> time \<Rightarrow> 't \<Rightarrow> ctx \<Rightarrow> string \<Rightarrow> plans_err + TaskSnapshot" where
  "LookupTask S now s c taskID =
     (case ts_Get S c now taskID s of
        (Inl e, _) \<Rightarrow> Inl (ErrOther (travel_err_text f_zero e))
      | (Inr task, _) \<Rightarrow>
          Inr \<lparr>sn_TaskID = tk_ID task, sn_UserID = tk_UserID task, sn_Status = status_text (tk_Status task),
               sn_Plan = tk_Plan task, sn_Request = tk_Request task\<rparr>)"

definition DisplayName :: "'u UserStore \<Rightarrow> 'u \<Rightarrow> ctx \<Rightarrow> string \<Rightarrow> string" where
  "DisplayName U u c userID =
     (if userID = [] then []
      else case ust_GetByID U c userID u of Inl _ \<Rightarrow> [] | Inr user \<Rightarrow> us_DisplayName user)"

definition plan_inputs ::
  "('u, 'w, 'p, 'q, 'v, 't, 'r, 'l) RouterDeps \<Rightarrow> ('t, 'r, 'l) inputs \<Rightarrow> ('u, 'w, 'p, 'q, 'v, 't, 'r, 'l) app \<Rightarrow> outside" where
  "plan_inputs R I a =
     \<lparr>ou_now = in_now I, ou_plan_id = in_planID I, ou_pub_id = in_pubID I, ou_archive_id = in_archiveID I,
      ou_tasks = Some (LookupTask (dp_store (th_service (rd_Travel R))) (in_now I) (sv_store (ap_travel a))),
      ou_authors = (case rd_Auth R of
         None \<Rightarrow> None
       | Some H \<Rightarrow> Some (DisplayName (ad_users (ah_service H)) (fst (ap_auth a))))\<rparr>"

subsection \<open>The route table\<close>

definition on_auth :: "('u \<times> 'w) handler \<Rightarrow> ('u, 'w, 'p, 'q, 'v, 't, 'r, 'l) app handler" where
  "on_auth = on_part ap_auth (\<lambda>x a. a\<lparr>ap_auth := x\<rparr>)"

definition on_plans ::
  "(outside \<Rightarrow> ('p, 'q, 'v) plan_state handler) \<Rightarrow> ('u, 'w, 'p, 'q, 'v, 't, 'r, 'l) RouterDeps \<Rightarrow> ('t, 'r, 'l) inputs
     \<Rightarrow> ('u, 'w, 'p, 'q, 'v, 't, 'r, 'l) app handler" where
  "on_plans h R I g a = on_part ap_plans (\<lambda>x a. a\<lparr>ap_plans := x\<rparr>) (h (plan_inputs R I a)) g a"

definition on_travel :: "('t, 'r, 'l) service handler \<Rightarrow> ('u, 'w, 'p, 'q, 'v, 't, 'r, 'l) app handler" where
  "on_travel = on_part ap_travel (\<lambda>x a. a\<lparr>ap_travel := x\<rparr>)"

type_synonym 's route = "string \<times> string \<times> 's handler list"

definition auth_routes :: "('u, 'w) auth_handler \<Rightarrow> ('t, 'r, 'l) inputs \<Rightarrow> ('u, 'w, 'p, 'q, 'v, 't, 'r, 'l) app route list" where
  "auth_routes H I =
     [(''POST'', ''/api/v1/auth/register'', [on_auth (http_Register H (in_now I) (in_draws I))]),
      (''POST'', ''/api/v1/auth/login'', [on_auth (http_Login H (in_now I) (in_draws I))]),
      (''POST'', ''/api/v1/auth/logout'', [on_auth (http_Logout H (in_now I))]),
      (''GET'', ''/api/v1/auth/me'', [on_auth (Optional H (in_now I)), http_Me])]"

text \<open>The middlewares of the travel group.\<close>

definition travel_middlewares ::
  "('u, 'w, 'p, 'q, 'v, 't, 'r, 'l) RouterDeps \<Rightarrow> ('t, 'r, 'l) inputs \<Rightarrow> ('u, 'w, 'p, 'q, 'v, 't, 'r, 'l) app handler list" where
  "travel_middlewares R I =
     (case rd_Auth R of None \<Rightarrow> [] | Some H \<Rightarrow> [on_auth (Optional H (in_now I))])
     @ (if rd_AllowAnonymousPlanGeneration R then []
        else (case rd_Auth R of None \<Rightarrow> [] | Some H \<Rightarrow> [on_auth (RequireAuth H (in_now I))]))"

definition travel_routes ::
  "('u, 'w, 'p, 'q, 'v, 't, 'r, 'l) RouterDeps \<Rightarrow> ('t, 'r, 'l) inputs \<Rightarrow> ('u, 'w, 'p, 'q, 'v, 't, 'r, 'l) app route list" where
  "travel_routes R I =
     (let H = rd_Travel R; mws = travel_middlewares R I in
     [(''POST'', ''/api/v1/travel/plans'', mws @ [on_travel (http_CreatePlan H (in_now I) (in_taskID I) (in_rounds I))]),
      (''GET'', ''/api/v1/travel/plans/:task_id'', mws @ [on_travel (http_GetPlan H (in_now I))]),
      (''GET'', ''/api/v1/travel/plans/:task_id/stream'', mws @ [on_travel (http_StreamPlan H (in_now I) (in_script I))]),
      (''POST'', ''/api/v1/travel/chat'', mws @ [on_travel (http_Chat H)]),
      (''POST'', ''/api/v1/travel/chat/stream'', mws @ [on_travel (http_ChatStream H (in_now I) (in_gone I))])])"

definition me_routes ::
  "('u, 'w) auth_handler \<Rightarrow> ('p, 'q, 'v) plans_handler \<Rightarrow> ('u, 'w, 'p, 'q, 'v, 't, 'r, 'l) RouterDeps \<Rightarrow> ('t, 'r, 'l) inputs
     \<Rightarrow> ('u, 'w, 'p, 'q, 'v, 't, 'r, 'l) app route list" where
  "me_routes A H R I =
     (let auth = on_auth (RequireAuth A (in_now I)) in
     [(''POST'', ''/api/v1/me/plans'', [auth, on_plans (http_Save H) R I]),
      (''GET'', ''/api/v1/me/plans'', [auth, on_plans (\<lambda>_. http_List H) R I]),
      (''GET'', ''/api/v1/me/plans/:plan_id'', [auth, on_plans (\<lambda>_. http_Get H) R I]),
      (''PATCH'', ''/api/v1/me/plans/:plan_id'', [auth, on_plans (http_Patch H) R I]),
      (''DELETE'', ''/api/v1/me/plans/:plan_id'', [auth, on_plans (http_Delete H) R I]),
      (''GET'', ''/api/v1/me/plans/:plan_id/conversation'', [auth, on_plans (\<lambda>_. http_GetConversation H) R I]),
      (''POST'', ''/api/v1/me/plans/:plan_id/publish'', [auth, on_plans (http_Publish H) R I]),
      (''POST'', ''/api/v1/me/plans/:plan_id/unpublish'', [auth, on_plans (http_Unpublish H) R I]),
      (''GET'', ''/api/v1/me/current'', [auth, on_plans (\<lambda>_. http_Current H) R I])])"

definition public_routes ::
  "('u, 'w) auth_handler option \<Rightarrow> ('p, 'q, 'v) plans_handler \<Rightarrow> ('u, 'w, 'p, 'q, 'v, 't, 'r, 'l) RouterDeps
     \<Rightarrow> ('t, 'r, 'l) inputs \<Rightarrow> ('u, 'w, 'p, 'q, 'v, 't, 'r, 'l) app route list" where
  "public_routes A H R I =
     (let opt = (case A of None \<Rightarrow> [] | Some x \<Rightarrow> [on_auth (Optional x (in_now I))]);
          auth = (case A of None \<Rightarrow> [] | Some x \<Rightarrow> [on_auth (RequireAuth x (in_now I))]) in
     [(''GET'', ''/api/v1/public/plans'', opt @ [on_plans (\<lambda>_. http_ListPublic H) R I]),
      (''GET'', ''/api/v1/public/plans/:public_plan_id'', opt @ [on_plans (http_GetPublic H) R I]),
      (''POST'', ''/api/v1/public/plans/:public_plan_id/save'', auth @ [on_plans (http_SavePublicAsCopy H) R I])])"

definition NewRouter ::
  "('u, 'w, 'p, 'q, 'v, 't, 'r, 'l) RouterDeps \<Rightarrow> ('t, 'r, 'l) inputs \<Rightarrow> ('u, 'w, 'p, 'q, 'v, 't, 'r, 'l) app route list" where
  "NewRouter R I =
     (case rd_Auth R of None \<Rightarrow> [] | Some A \<Rightarrow> auth_routes A I)
     @ travel_routes R I
     @ (case (rd_Auth R, rd_Plans R) of (Some A, Some H) \<Rightarrow> me_routes A H R I | _ \<Rightarrow> [])
     @ (case rd_Plans R of None \<Rightarrow> [] | Some H \<Rightarrow> public_routes (rd_Auth R) H R I)"

subsection \<open>Serving a request\<close>

type_synonym matcher = "(string \<times> string) list \<Rightarrow> string \<Rightarrow> string \<Rightarrow> (nat \<times> (string \<Rightarrow> string)) option"

definition no_route :: "'s handler" where
  "no_route g s = (reply 404 (TextBody ''404 page not found'') g, s)"

text \<open>The row a request is sent to, with the request carrying the path parameters.\<close>

definition find_route :: "matcher \<Rightarrow> 's route list \<Rightarrow> http_req \<Rightarrow> ('s route \<times> http_req) option" where
  "find_route m routes r =
     (case m (map (\<lambda>(meth, pat, hs). (meth, pat)) routes) (hr_Method r) (hr_Path r) of
        None \<Rightarrow> None
      | Some (k, params) \<Rightarrow> if k < length routes then Some (routes ! k, r\<lparr>hr_Param := params\<rparr>) else None)"

definition serve ::
  "matcher \<Rightarrow> ('u, 'w, 'p, 'q, 'v, 't, 'r, 'l) RouterDeps \<Rightarrow> ('t, 'r, 'l) inputs \<Rightarrow> http_req
     \<Rightarrow> ('u, 'w, 'p, 'q, 'v, 't, 'r, 'l) app \<Rightarrow> gin \<times> ('u, 'w, 'p, 'q, 'v, 't, 'r, 'l) app" where
  "serve m R I r a =
     (case (case find_route m (NewRouter R I) r of
              None \<Rightarrow> (r, [no_route])
            | Some ((meth, pat, hs), r') \<Rightarrow> (r', hs)) of
        (r', hs) \<Rightarrow>
          (case mw_RequestID (in_now I) (new_gin r') a of
             (g, a') \<Rightarrow> Recovery (run_chain (CORS (rd_AllowedOrigins R) # hs)) g a'))"

end
