(* ===== verification/PlanLibrary.thy ===== *)
theory PlanLibrary
  imports PlanService
begin

section \<open>What the plan library promises\<close>

text \<open>
  The contract of internal/plans, in terms of the contents of its two stores (\<open>library\<close>): which
  transitions a call of user \<open>u\<close> may make (\<open>lib_step\<close>), the invariant every transition keeps
  (\<open>library_ok\<close>) and, in the locale \<open>plan_library\<close>, that every operation of the service over stores
  with the laws of \<open>PlanStore\<close> makes one of these transitions. The in-memory stores interpret it.
\<close>

subsection \<open>Transitions\<close>

record library =
  lb_plans :: "string \<rightharpoonup> UserPlan"
  lb_archives :: "string \<rightharpoonup> ConversationArchive"
  lb_pubs :: "string \<rightharpoonup> PublicPlan"
  lb_events :: "PublicPlanEvent list"

definition owned :: "library \<Rightarrow> string \<Rightarrow> string \<Rightarrow> UserPlan \<Rightarrow> bool" where
  "owned L u i p \<longleftrightarrow> lb_plans L i = Some p \<and> up_UserID p = u \<and> \<not> IsDeleted p"

definition mirror :: "library \<Rightarrow> string \<Rightarrow> string \<Rightarrow> PublicPlan \<Rightarrow> bool" where
  "mirror L i j x \<longleftrightarrow> lb_pubs L j = Some x \<and> pp_PlanID x = i"

definition same_plan :: "UserPlan \<Rightarrow> UserPlan \<Rightarrow> bool" where
  "same_plan p0 p \<longleftrightarrow> up_ID p = up_ID p0 \<and> up_UserID p = up_UserID p0 \<and> up_TaskID p = up_TaskID p0
     \<and> up_DeletedAt p = up_DeletedAt p0 \<and> up_PublishStatus p = up_PublishStatus p0"

definition same_counters :: "PublicPlan \<Rightarrow> PublicPlan \<Rightarrow> bool" where
  "same_counters x y \<longleftrightarrow> pp_ViewCount y = pp_ViewCount x \<and> pp_SaveCount y = pp_SaveCount x
     \<and> pp_CopyCount y = pp_CopyCount x \<and> pp_HotScore y = computeHotScore y"

definition same_entry :: "PublicPlan \<Rightarrow> PublicPlan \<Rightarrow> bool" where
  "same_entry x y \<longleftrightarrow> pp_ID y = pp_ID x \<and> pp_PlanID y = pp_PlanID x \<and> pp_UserID y = pp_UserID x
     \<and> pp_PublishedAt y = pp_PublishedAt x \<and> same_counters x y"

definition counted :: "PublicCounterKind \<Rightarrow> time \<Rightarrow> PublicPlan \<Rightarrow> PublicPlan" where
  "counted kind now x = (rescore (bump kind x))\<lparr>pp_UpdatedAt := now\<rparr>"

definition visible :: "PublicPlan \<Rightarrow> bool" where
  "visible x \<longleftrightarrow> pp_Status x = PublicPlanStatusPublished"

definition is_event :: "PublicPlanEvent \<Rightarrow> string \<Rightarrow> PublicCounterKind \<Rightarrow> bool" where
  "is_event e j kind \<longleftrightarrow> pe_PublicPlanID e = j \<and> pe_EventType e = kind_string kind"

inductive lib_step :: "string \<Rightarrow> library \<Rightarrow> library \<Rightarrow> bool" for u L where
  stay: "lib_step u L L"
| save: "lb_plans L i = None \<Longrightarrow> up_ID p = i \<Longrightarrow> up_UserID p = u \<Longrightarrow> up_TaskID p \<noteq> [] \<Longrightarrow> \<not> IsDeleted p \<Longrightarrow>
    up_PublishStatus p = PublishStatusDraft \<Longrightarrow> \<forall>k q. owned L u k q \<longrightarrow> up_TaskID q \<noteq> up_TaskID p \<Longrightarrow>
    ca_PlanID a = i \<Longrightarrow> ca_UserID a = u \<Longrightarrow>
    lib_step u L (L\<lparr>lb_plans := (lb_plans L)(i \<mapsto> p), lb_archives := (lb_archives L)(i \<mapsto> a)\<rparr>)"
| change: "owned L u i p0 \<Longrightarrow> same_plan p0 p \<Longrightarrow> up_PublishStatus p \<noteq> PublishStatusPublished \<Longrightarrow>
    lib_step u L (L\<lparr>lb_plans := (lb_plans L)(i \<mapsto> p)\<rparr>)"
| change_mirror: "owned L u i p0 \<Longrightarrow> same_plan p0 p \<Longrightarrow> up_PublishStatus p = PublishStatusPublished \<Longrightarrow>
    mirror L i j x \<Longrightarrow> same_entry x y \<Longrightarrow> pp_Status y = pp_Status x \<Longrightarrow>
    lib_step u L (L\<lparr>lb_plans := (lb_plans L)(i \<mapsto> p), lb_pubs := (lb_pubs L)(j \<mapsto> y)\<rparr>)"
| delete: "owned L u i p0 \<Longrightarrow> up_PublishStatus p0 \<noteq> PublishStatusPublished \<Longrightarrow> now \<noteq> 0 \<Longrightarrow>
    lib_step u L (L\<lparr>lb_plans := (lb_plans L)(i \<mapsto> p0\<lparr>up_DeletedAt := Some now, up_UpdatedAt := now\<rparr>)\<rparr>)"
| delete_mirror: "owned L u i p0 \<Longrightarrow> up_PublishStatus p0 = PublishStatusPublished \<Longrightarrow> now \<noteq> 0 \<Longrightarrow> mirror L i j x \<Longrightarrow>
    lib_step u L (L\<lparr>lb_plans := (lb_plans L)(i \<mapsto> p0\<lparr>up_DeletedAt := Some now, up_UpdatedAt := now\<rparr>),
                   lb_pubs := (lb_pubs L)(j \<mapsto> x\<lparr>pp_Status := PublicPlanStatusUnpublished, pp_UpdatedAt := now\<rparr>)\<rparr>)"
| publish_new: "owned L u i p0 \<Longrightarrow> \<forall>j x. \<not> mirror L i j x \<Longrightarrow> lb_pubs L j = None \<Longrightarrow>
    pp_ID y = j \<Longrightarrow> pp_PlanID y = i \<Longrightarrow> pp_UserID y = u \<Longrightarrow> visible y \<Longrightarrow>
    pp_ViewCount y = 0 \<Longrightarrow> pp_SaveCount y = 0 \<Longrightarrow> pp_CopyCount y = 0 \<Longrightarrow> pp_HotScore y = computeHotScore y \<Longrightarrow>
    lib_step u L (L\<lparr>lb_plans := (lb_plans L)(i \<mapsto> p0\<lparr>up_Visibility := VisibilityPublic,
                     up_PublishStatus := PublishStatusPublished, up_UpdatedAt := now\<rparr>), lb_pubs := (lb_pubs L)(j \<mapsto> y)\<rparr>)"
| publish_again: "owned L u i p0 \<Longrightarrow> mirror L i j x \<Longrightarrow> same_entry x y \<Longrightarrow> visible y \<Longrightarrow>
    lib_step u L (L\<lparr>lb_plans := (lb_plans L)(i \<mapsto> p0\<lparr>up_Visibility := VisibilityPublic,
                     up_PublishStatus := PublishStatusPublished, up_UpdatedAt := now\<rparr>), lb_pubs := (lb_pubs L)(j \<mapsto> y)\<rparr>)"
| unpublish: "owned L u i p0 \<Longrightarrow> up_PublishStatus p0 = PublishStatusPublished \<Longrightarrow> mirror L i j x \<Longrightarrow>
    lib_step u L (L\<lparr>lb_plans := (lb_plans L)(i \<mapsto> p0\<lparr>up_Visibility := VisibilityPrivate,
                     up_PublishStatus := PublishStatusUnpublished, up_UpdatedAt := now\<rparr>),
                   lb_pubs := (lb_pubs L)(j \<mapsto> x\<lparr>pp_Status := PublicPlanStatusUnpublished, pp_UpdatedAt := now\<rparr>)\<rparr>)"
| copy: "lb_plans L i = None \<Longrightarrow> up_ID p = i \<Longrightarrow> up_UserID p = u \<Longrightarrow> up_TaskID p = [] \<Longrightarrow> \<not> IsDeleted p \<Longrightarrow>
    up_PublishStatus p = PublishStatusDraft \<Longrightarrow> lb_pubs L j = Some x \<Longrightarrow> visible x \<Longrightarrow> is_event e j CounterSave \<Longrightarrow>
    lib_step u L (L\<lparr>lb_plans := (lb_plans L)(i \<mapsto> p), lb_pubs := (lb_pubs L)(j \<mapsto> counted CounterSave now x),
                   lb_events := lb_events L @ [e]\<rparr>)"
| view: "lb_pubs L j = Some x \<Longrightarrow> visible x \<Longrightarrow> is_event e j CounterView \<Longrightarrow>
    lib_step u L (L\<lparr>lb_pubs := (lb_pubs L)(j \<mapsto> counted CounterView now x), lb_events := lb_events L @ [e]\<rparr>)"

subsection \<open>The invariant\<close>

definition count_events :: "PublicPlanEvent list \<Rightarrow> string \<Rightarrow> PublicCounterKind \<Rightarrow> int" where
  "count_events es j kind = int (length (filter (\<lambda>e. is_event e j kind) es))"

text \<open>A plan is shown to the public when it is published and not deleted.\<close>

definition shown :: "UserPlan \<Rightarrow> bool" where
  "shown p \<longleftrightarrow> up_PublishStatus p = PublishStatusPublished \<and> \<not> IsDeleted p"

definition mirror_ok :: "library \<Rightarrow> bool" where
  "mirror_ok L \<longleftrightarrow> (\<forall>j x. lb_pubs L j = Some x \<longrightarrow> pp_ID x = j \<and> (\<exists>p. lb_plans L (pp_PlanID x) = Some p
     \<and> up_UserID p = pp_UserID x \<and> visible x = shown p))"

definition published_ok :: "library \<Rightarrow> bool" where
  "published_ok L \<longleftrightarrow> (\<forall>i p. lb_plans L i = Some p \<longrightarrow> up_ID p = i
     \<and> (up_PublishStatus p = PublishStatusPublished \<longrightarrow> (\<exists>j x. mirror L i j x)))"

definition one_mirror :: "library \<Rightarrow> bool" where
  "one_mirror L \<longleftrightarrow> (\<forall>i j j' x x'. mirror L i j x \<longrightarrow> mirror L i j' x' \<longrightarrow> j = j')"

definition archives_ok :: "library \<Rightarrow> bool" where
  "archives_ok L \<longleftrightarrow> (\<forall>i a. lb_archives L i = Some a \<longrightarrow>
     (\<exists>p. lb_plans L i = Some p \<and> up_UserID p = ca_UserID a))"

definition one_per_task :: "library \<Rightarrow> bool" where
  "one_per_task L \<longleftrightarrow> (\<forall>u i j p q. owned L u i p \<longrightarrow> owned L u j q \<longrightarrow> up_TaskID p \<noteq> [] \<longrightarrow>
     up_TaskID p = up_TaskID q \<longrightarrow> i = j)"

definition counters_ok :: "library \<Rightarrow> bool" where
  "counters_ok L \<longleftrightarrow> (\<forall>j x. lb_pubs L j = Some x \<longrightarrow>
      pp_ViewCount x = wrap64 (count_events (lb_events L) j CounterView)
    \<and> pp_SaveCount x = wrap64 (count_events (lb_events L) j CounterSave)
    \<and> pp_CopyCount x = 0 \<and> pp_HotScore x = computeHotScore x)
    \<and> (\<forall>e \<in> set (lb_events L). lb_pubs L (pe_PublicPlanID e) \<noteq> None)"

definition library_ok :: "library \<Rightarrow> bool" where
  "library_ok L \<longleftrightarrow> mirror_ok L \<and> published_ok L \<and> one_mirror L \<and> archives_ok L \<and> one_per_task L \<and> counters_ok L"


lemma IsDeleted_update [simp]:
  "IsDeleted (p\<lparr>up_Visibility := v, up_PublishStatus := st, up_UpdatedAt := t\<rparr>) = IsDeleted p"
  "IsDeleted (p\<lparr>up_DeletedAt := Some now, up_UpdatedAt := t\<rparr>) = (now \<noteq> 0)"
  by (simp_all add: IsDeleted_def IsZero_def)

lemma same_planD:
  "same_plan p0 p \<Longrightarrow> up_ID p = up_ID p0" "same_plan p0 p \<Longrightarrow> up_UserID p = up_UserID p0"
  "same_plan p0 p \<Longrightarrow> up_TaskID p = up_TaskID p0" "same_plan p0 p \<Longrightarrow> up_PublishStatus p = up_PublishStatus p0"
  "same_plan p0 p \<Longrightarrow> IsDeleted p = IsDeleted p0"
  by (simp_all add: same_plan_def IsDeleted_def)

lemma same_entryD:
  "same_entry x y \<Longrightarrow> pp_ID y = pp_ID x" "same_entry x y \<Longrightarrow> pp_PlanID y = pp_PlanID x"
  "same_entry x y \<Longrightarrow> pp_UserID y = pp_UserID x" "same_entry x y \<Longrightarrow> same_counters x y"
  "same_entry x y \<Longrightarrow> pp_PublishedAt y = pp_PublishedAt x"
  by (simp_all add: same_entry_def)

lemma counted_sel [simp]:
  "pp_ID (counted k t x) = pp_ID x" "pp_PlanID (counted k t x) = pp_PlanID x" "pp_UserID (counted k t x) = pp_UserID x"
  "visible (counted k t x) = visible x" "pp_PublishedAt (counted k t x) = pp_PublishedAt x"
  by (simp_all add: counted_def visible_def)

lemma not_visible_unpublished [simp]: "\<not> visible (x\<lparr>pp_Status := PublicPlanStatusUnpublished, pp_UpdatedAt := t\<rparr>)"
  by (simp add: visible_def)

lemma mirror_okD:
  assumes "mirror_ok L" "lb_pubs L j = Some x"
  shows "pp_ID x = j" "\<exists>p. lb_plans L (pp_PlanID x) = Some p \<and> up_UserID p = pp_UserID x
    \<and> visible x = shown p"
  using assms unfolding mirror_ok_def by blast+

lemma mirror_ok_put_plan:
  assumes "mirror_ok L" "\<And>p0. lb_plans L i = Some p0 \<Longrightarrow> up_UserID p = up_UserID p0 \<and> shown p = shown p0"
  shows "mirror_ok (L\<lparr>lb_plans := (lb_plans L)(i \<mapsto> p)\<rparr>)"
  unfolding mirror_ok_def
proof (intro allI impI conjI)
  fix k x
  assume "lb_pubs (L\<lparr>lb_plans := (lb_plans L)(i \<mapsto> p)\<rparr>) k = Some x"
  then have x: "lb_pubs L k = Some x" by simp
  show "pp_ID x = k" by (rule mirror_okD(1) [OF assms(1) x])
  obtain q where q: "lb_plans L (pp_PlanID x) = Some q" "up_UserID q = pp_UserID x" "visible x = shown q"
    using mirror_okD(2) [OF assms(1) x] by blast
  show "\<exists>q. lb_plans (L\<lparr>lb_plans := (lb_plans L)(i \<mapsto> p)\<rparr>) (pp_PlanID x) = Some q
      \<and> up_UserID q = pp_UserID x \<and> visible x = shown q"
    using q assms(2) [of q] by (cases "pp_PlanID x = i") auto
qed

lemma mirror_ok_put_both:
  assumes "mirror_ok L" "one_mirror L" "\<And>k y. mirror L i k y \<Longrightarrow> k = j"
    and "pp_ID y = j" "pp_PlanID y = i" "pp_UserID y = up_UserID p" "visible y = shown p"
  shows "mirror_ok (L\<lparr>lb_plans := (lb_plans L)(i \<mapsto> p), lb_pubs := (lb_pubs L)(j \<mapsto> y)\<rparr>)"
  unfolding mirror_ok_def
proof (intro allI impI)
  fix k z
  assume z: "lb_pubs (L\<lparr>lb_plans := (lb_plans L)(i \<mapsto> p), lb_pubs := (lb_pubs L)(j \<mapsto> y)\<rparr>) k = Some z"
  show "pp_ID z = k \<and> (\<exists>q. lb_plans (L\<lparr>lb_plans := (lb_plans L)(i \<mapsto> p), lb_pubs := (lb_pubs L)(j \<mapsto> y)\<rparr>) (pp_PlanID z) = Some q
     \<and> up_UserID q = pp_UserID z \<and> visible z = shown q)"
  proof (cases "k = j")
    case True
    then show ?thesis using z assms(4-7) by (simp add: shown_def)
  next
    case False
    then have "lb_pubs L k = Some z" using z by simp
    moreover from this have "pp_PlanID z \<noteq> i" using assms(3) [of k z] False by (auto simp: mirror_def)
    ultimately show ?thesis using mirror_okD [OF assms(1), of k z] by simp
  qed
qed

lemma mirror_ok_put_pub:
  assumes "mirror_ok L" "lb_pubs L j = Some x" "pp_ID y = j" "pp_PlanID y = pp_PlanID x" "pp_UserID y = pp_UserID x"
    and "visible y = visible x"
  shows "mirror_ok (L\<lparr>lb_pubs := (lb_pubs L)(j \<mapsto> y)\<rparr>)"
  unfolding mirror_ok_def
proof (intro allI impI)
  fix k z
  assume z: "lb_pubs (L\<lparr>lb_pubs := (lb_pubs L)(j \<mapsto> y)\<rparr>) k = Some z"
  show "pp_ID z = k \<and> (\<exists>p. lb_plans (L\<lparr>lb_pubs := (lb_pubs L)(j \<mapsto> y)\<rparr>) (pp_PlanID z) = Some p
      \<and> up_UserID p = pp_UserID z \<and> visible z = shown p)"
  proof (cases "k = j")
    case True
    then have "z = y" using z by simp
    then show ?thesis using mirror_okD(2) [OF assms(1,2)] assms(3-6) True by simp
  next
    case False
    then have "lb_pubs L k = Some z" using z by simp
    then show ?thesis using mirror_okD [OF assms(1)] by simp
  qed
qed

lemma mirror_ok_events [simp]: "mirror_ok (L\<lparr>lb_events := es\<rparr>) = mirror_ok L" "mirror_ok (L\<lparr>lb_archives := as\<rparr>) = mirror_ok L"
  by (simp_all add: mirror_ok_def)

lemma owned_shown: "owned L u i p \<Longrightarrow> lb_plans L i = Some p" "owned L u i p \<Longrightarrow> up_UserID p = u" "owned L u i p \<Longrightarrow> \<not> IsDeleted p"
  by (simp_all add: owned_def)

lemma mirror_unique: "one_mirror L \<Longrightarrow> mirror L i j x \<Longrightarrow> mirror L i k y \<Longrightarrow> k = j"
  unfolding one_mirror_def by blast

lemma mirror_facts:
  assumes "mirror_ok L" "mirror L i j x" "owned L u i p"
  shows "lb_pubs L j = Some x" "pp_ID x = j" "pp_PlanID x = i" "pp_UserID x = u" "visible x = shown p"
proof -
  show x: "lb_pubs L j = Some x" and i: "pp_PlanID x = i" using assms(2) by (simp_all add: mirror_def)
  show "pp_ID x = j" by (rule mirror_okD(1) [OF assms(1) x])
  show "pp_UserID x = u" "visible x = shown p"
    using mirror_okD(2) [OF assms(1) x] assms(3) i by (simp_all add: owned_def)
qed

lemma mirror_ok_put_mirrored:
  assumes "mirror_ok L" "one_mirror L" "mirror L i j x" "owned L u i p0"
    and "pp_ID y = pp_ID x" "pp_PlanID y = pp_PlanID x" "pp_UserID y = pp_UserID x"
    and "up_UserID p = up_UserID p0" "visible y = shown p"
  shows "mirror_ok (L\<lparr>lb_plans := (lb_plans L)(i \<mapsto> p), lb_pubs := (lb_pubs L)(j \<mapsto> y)\<rparr>)"
proof (rule mirror_ok_put_both [OF assms(1,2) mirror_unique [OF assms(2,3)]])
  note x = mirror_facts [OF assms(1,3,4)]
  show "pp_ID y = j" "pp_PlanID y = i" "visible y = shown p" using x assms(5,6,9) by simp_all
  show "pp_UserID y = up_UserID p" using x(4) assms(7,8) owned_shown(2) [OF assms(4)] by simp
qed

lemma step_mirror_ok:
  assumes "lib_step u L L'" "mirror_ok L" "one_mirror L" "published_ok L"
  shows "mirror_ok L'"
  using assms(1)
proof cases
  case stay
  then show ?thesis using assms by simp
next
  case (save i p a)
  then show ?thesis using mirror_ok_put_plan [OF assms(2), of i p] by simp
next
  case (change i p0 p)
  then show ?thesis using mirror_ok_put_plan [OF assms(2), of i p] by (auto simp: owned_def same_planD shown_def)
next
  case (change_mirror i p0 p j x y)
  have "visible y = shown p"
    using mirror_facts(5) [OF assms(2) change_mirror(5,2)] change_mirror(3,7)
    by (simp add: same_planD shown_def visible_def)
  then show ?thesis unfolding change_mirror(1)
    using change_mirror(3,6)
    by (intro mirror_ok_put_mirrored [OF assms(2,3) change_mirror(5,2)]) (simp_all add: same_planD same_entryD)
next
  case (delete i p0 now)
  then show ?thesis using mirror_ok_put_plan [OF assms(2), of i] by (auto simp: owned_def shown_def)
next
  case (delete_mirror i p0 now j x)
  then show ?thesis by (simp add: mirror_ok_put_mirrored [OF assms(2,3) delete_mirror(5,2)] shown_def)
next
  case (publish_new i p0 j y now)
  then show ?thesis by (auto intro!: mirror_ok_put_both [OF assms(2,3)] simp: owned_def shown_def)
next
  case (publish_again i p0 j x y now)
  show ?thesis unfolding publish_again(1)
    using publish_again(4,5) owned_shown(3) [OF publish_again(2)]
    by (intro mirror_ok_put_mirrored [OF assms(2,3) publish_again(3,2)]) (simp_all add: same_entryD shown_def)
next
  case (unpublish i p0 j x now)
  then show ?thesis by (simp add: mirror_ok_put_mirrored [OF assms(2,3) unpublish(4,2)] shown_def)
next
  case (copy i p j x e now)
  have "mirror_ok (L\<lparr>lb_plans := (lb_plans L)(i \<mapsto> p)\<rparr>)" using mirror_ok_put_plan [OF assms(2), of i p] copy by simp
  from mirror_ok_put_pub [OF this, of j x "counted CounterSave now x"] copy mirror_okD [OF assms(2), of j x]
  show ?thesis by simp
next
  case (view j x e now)
  then show ?thesis using mirror_ok_put_pub [OF assms(2), of j x "counted CounterView now x"] mirror_okD [OF assms(2), of j x]
    by simp
qed


lemma library_frame [simp]:
  "published_ok (L\<lparr>lb_archives := as\<rparr>) = published_ok L" "published_ok (L\<lparr>lb_events := es\<rparr>) = published_ok L"
  "one_mirror (L\<lparr>lb_archives := as\<rparr>) = one_mirror L" "one_mirror (L\<lparr>lb_events := es\<rparr>) = one_mirror L"
  "one_mirror (L\<lparr>lb_plans := ps\<rparr>) = one_mirror L"
  "archives_ok (L\<lparr>lb_pubs := qs\<rparr>) = archives_ok L" "archives_ok (L\<lparr>lb_events := es\<rparr>) = archives_ok L"
  "one_per_task (L\<lparr>lb_pubs := qs\<rparr>) = one_per_task L" "one_per_task (L\<lparr>lb_events := es\<rparr>) = one_per_task L"
  "one_per_task (L\<lparr>lb_archives := as\<rparr>) = one_per_task L"
  "counters_ok (L\<lparr>lb_plans := ps\<rparr>) = counters_ok L" "counters_ok (L\<lparr>lb_archives := as\<rparr>) = counters_ok L"
  by (simp_all add: published_ok_def one_mirror_def archives_ok_def one_per_task_def counters_ok_def mirror_def owned_def)

lemma library_frame_plans [simp]:
  "one_mirror (L\<lparr>lb_plans := ps, lb_pubs := qs\<rparr>) = one_mirror (L\<lparr>lb_pubs := qs\<rparr>)"
  "counters_ok (L\<lparr>lb_plans := ps, lb_pubs := qs\<rparr>) = counters_ok (L\<lparr>lb_pubs := qs\<rparr>)"
  "counters_ok (L\<lparr>lb_plans := ps, lb_pubs := qs, lb_events := es\<rparr>) = counters_ok (L\<lparr>lb_pubs := qs, lb_events := es\<rparr>)"
  by (simp_all add: one_mirror_def counters_ok_def mirror_def)

lemma mirror_put_pub:
  "mirror (L\<lparr>lb_pubs := (lb_pubs L)(j \<mapsto> y)\<rparr>) i k z \<longleftrightarrow> (if k = j then z = y \<and> pp_PlanID y = i else mirror L i k z)"
  by (auto simp: mirror_def)

lemma published_ok_put_plan:
  assumes "published_ok L" "up_ID p = i" "up_PublishStatus p = PublishStatusPublished \<Longrightarrow> \<exists>j x. mirror L i j x"
  shows "published_ok (L\<lparr>lb_plans := (lb_plans L)(i \<mapsto> p)\<rparr>)"
  using assms by (auto simp: published_ok_def mirror_def)

lemma published_ok_put_pub:
  assumes "published_ok L" "\<And>x. lb_pubs L j = Some x \<Longrightarrow> pp_PlanID x = pp_PlanID y"
  shows "published_ok (L\<lparr>lb_pubs := (lb_pubs L)(j \<mapsto> y)\<rparr>)"
  unfolding published_ok_def
proof (intro allI impI conjI)
  fix i p
  assume p: "lb_plans (L\<lparr>lb_pubs := (lb_pubs L)(j \<mapsto> y)\<rparr>) i = Some p"
  then show "up_ID p = i" using assms(1) by (simp add: published_ok_def)
  assume "up_PublishStatus p = PublishStatusPublished"
  moreover have "lb_plans L i = Some p" using p by simp
  ultimately obtain k x where x: "mirror L i k x" using assms(1) unfolding published_ok_def by blast
  then have "mirror (L\<lparr>lb_pubs := (lb_pubs L)(j \<mapsto> y)\<rparr>) i k (if k = j then y else x)"
    using assms(2) by (auto simp: mirror_def)
  then show "\<exists>k x. mirror (L\<lparr>lb_pubs := (lb_pubs L)(j \<mapsto> y)\<rparr>) i k x" by blast
qed

lemma one_mirror_put_pub:
  assumes "one_mirror L" "\<And>k x. mirror L (pp_PlanID y) k x \<Longrightarrow> k = j"
  shows "one_mirror (L\<lparr>lb_pubs := (lb_pubs L)(j \<mapsto> y)\<rparr>)"
  using assms unfolding one_mirror_def mirror_put_pub by (smt (verit))

lemma archives_ok_put_plan:
  assumes "archives_ok L" "\<And>p0. lb_plans L i = Some p0 \<Longrightarrow> up_UserID p = up_UserID p0"
  shows "archives_ok (L\<lparr>lb_plans := (lb_plans L)(i \<mapsto> p)\<rparr>)"
  unfolding archives_ok_def
proof (intro allI impI)
  fix k a
  assume "lb_archives (L\<lparr>lb_plans := (lb_plans L)(i \<mapsto> p)\<rparr>) k = Some a"
  then obtain q where "lb_plans L k = Some q" "up_UserID q = ca_UserID a" using assms(1) by (auto simp: archives_ok_def)
  then show "\<exists>q. lb_plans (L\<lparr>lb_plans := (lb_plans L)(i \<mapsto> p)\<rparr>) k = Some q \<and> up_UserID q = ca_UserID a"
    using assms(2) by (cases "k = i") auto
qed

lemma archives_ok_replace:
  assumes "archives_ok L" "owned L u i p0" "up_UserID p = up_UserID p0"
  shows "archives_ok (L\<lparr>lb_plans := (lb_plans L)(i \<mapsto> p)\<rparr>)"
  using assms by (intro archives_ok_put_plan) (auto simp: owned_def)

lemma one_per_task_put_plan:
  assumes "one_per_task L"
    and "IsDeleted p \<or> up_TaskID p = [] \<or> (\<forall>k q. k \<noteq> i \<longrightarrow> owned L (up_UserID p) k q \<longrightarrow> up_TaskID q \<noteq> up_TaskID p)"
  shows "one_per_task (L\<lparr>lb_plans := (lb_plans L)(i \<mapsto> p)\<rparr>)"
proof -
  have o: "owned (L\<lparr>lb_plans := (lb_plans L)(i \<mapsto> p)\<rparr>) v k q \<longleftrightarrow>
      (if k = i then q = p \<and> up_UserID p = v \<and> \<not> IsDeleted p else owned L v k q)" for v k q
    by (auto simp: owned_def)
  show ?thesis unfolding one_per_task_def o
    using assms(2) assms(1) [unfolded one_per_task_def] by (smt (verit))
qed

lemma one_per_task_replace:
  assumes "one_per_task L" "owned L u i p0" "up_UserID p = up_UserID p0" "up_TaskID p = up_TaskID p0"
  shows "one_per_task (L\<lparr>lb_plans := (lb_plans L)(i \<mapsto> p)\<rparr>)"
proof (rule one_per_task_put_plan [OF assms(1)])
  have "up_TaskID q \<noteq> up_TaskID p" if "up_TaskID p \<noteq> []" "k \<noteq> i" "owned L u k q" for k q
    using assms(1) [unfolded one_per_task_def, rule_format, OF assms(2) that(3)] that assms(4) by metis
  then show "IsDeleted p \<or> up_TaskID p = []
      \<or> (\<forall>k q. k \<noteq> i \<longrightarrow> owned L (up_UserID p) k q \<longrightarrow> up_TaskID q \<noteq> up_TaskID p)"
    using assms(3) owned_shown(2) [OF assms(2)] by metis
qed

lemma wrap64_add_wrap64: "wrap64 (wrap64 n + m) = wrap64 (n + m)"
proof -
  have "wrap64 n mod 2 ^ 64 = n mod 2 ^ 64" by (simp add: wrap64_def mod_diff_left_eq)
  then have "(wrap64 n + m + 2 ^ 63) mod 2 ^ 64 = (n + m + 2 ^ 63) mod 2 ^ 64"
    by (metis mod_add_left_eq)
  then show ?thesis unfolding wrap64_def by simp
qed

lemma wrap64_0 [simp]: "wrap64 0 = 0"
  by (simp add: wrap64_def)

lemma counters_okD:
  assumes "counters_ok L" "lb_pubs L j = Some x"
  shows "pp_ViewCount x = wrap64 (count_events (lb_events L) j CounterView)"
    "pp_SaveCount x = wrap64 (count_events (lb_events L) j CounterSave)" "pp_CopyCount x = 0"
    "pp_HotScore x = computeHotScore x"
  using assms unfolding counters_ok_def by blast+

lemma counters_ok_put_same:
  assumes "counters_ok L" "lb_pubs L j = Some x" "same_counters x y"
  shows "counters_ok (L\<lparr>lb_pubs := (lb_pubs L)(j \<mapsto> y)\<rparr>)"
  using assms counters_okD [OF assms(1,2)] unfolding counters_ok_def by (auto simp: same_counters_def)

lemma counters_ok_put_status:
  assumes "counters_ok L" "lb_pubs L j = Some x"
  shows "counters_ok (L\<lparr>lb_pubs := (lb_pubs L)(j \<mapsto> x\<lparr>pp_Status := st, pp_UpdatedAt := t\<rparr>)\<rparr>)"
  by (rule counters_ok_put_same [OF assms])
    (use counters_okD(4) [OF assms] in \<open>simp add: same_counters_def computeHotScore_def\<close>)

lemma no_events:
  assumes "counters_ok L" "lb_pubs L j = None"
  shows "count_events (lb_events L) j kind = 0"
proof -
  have "\<not> is_event e j kind" if "e \<in> set (lb_events L)" for e
    using that assms by (auto simp: counters_ok_def is_event_def)
  then show ?thesis by (simp add: count_events_def filter_empty_conv)
qed

lemma counters_ok_put_new:
  assumes "counters_ok L" "lb_pubs L j = None" "pp_ViewCount y = 0" "pp_SaveCount y = 0" "pp_CopyCount y = 0"
    and "pp_HotScore y = computeHotScore y"
  shows "counters_ok (L\<lparr>lb_pubs := (lb_pubs L)(j \<mapsto> y)\<rparr>)"
  using assms no_events [OF assms(1,2)] unfolding counters_ok_def by auto

lemma kind_string_inj [simp]: "kind_string a = kind_string b \<longleftrightarrow> a = b"
  by (cases a; cases b) simp_all

lemma count_events_snoc:
  "is_event e k kd \<Longrightarrow> count_events (es @ [e]) j kind = count_events es j kind + (if j = k \<and> kind = kd then 1 else 0)"
  by (auto simp: count_events_def is_event_def)

lemma counters_ok_count:
  assumes "counters_ok L" "lb_pubs L j = Some x" "is_event e j kind" "kind \<noteq> CounterCopy"
  shows "counters_ok (L\<lparr>lb_pubs := (lb_pubs L)(j \<mapsto> counted kind now x), lb_events := lb_events L @ [e]\<rparr>)"
proof -
  have e: "pe_PublicPlanID e = j" using assms(3) by (simp add: is_event_def)
  show ?thesis
    using assms counters_okD [OF assms(1)] counters_okD [OF assms(1,2)] e unfolding counters_ok_def
    by (cases kind) (auto simp: counted_def count_events_snoc [OF assms(3)] wrap64_add_wrap64 computeHotScore_def rescore_def)
qed


lemma published_okD:
  assumes "published_ok L" "owned L u i p"
  shows "up_ID p = i" "up_PublishStatus p = PublishStatusPublished \<Longrightarrow> \<exists>j x. mirror L i j x"
  using assms unfolding published_ok_def owned_def by blast+

lemma published_ok_publish:
  assumes "published_ok L" "up_ID p = i" "pp_PlanID y = i" "\<And>x. lb_pubs L j = Some x \<Longrightarrow> pp_PlanID x = i"
  shows "published_ok (L\<lparr>lb_plans := (lb_plans L)(i \<mapsto> p), lb_pubs := (lb_pubs L)(j \<mapsto> y)\<rparr>)"
proof -
  have "published_ok (L\<lparr>lb_pubs := (lb_pubs L)(j \<mapsto> y)\<rparr>)"
    using assms(3,4) by (intro published_ok_put_pub [OF assms(1)]) simp
  moreover have "mirror (L\<lparr>lb_pubs := (lb_pubs L)(j \<mapsto> y)\<rparr>) i j y" using assms(3) by (simp add: mirror_put_pub)
  ultimately have "published_ok (L\<lparr>lb_pubs := (lb_pubs L)(j \<mapsto> y), lb_plans := (lb_plans L)(i \<mapsto> p)\<rparr>)"
    using published_ok_put_plan [of "L\<lparr>lb_pubs := (lb_pubs L)(j \<mapsto> y)\<rparr>" p i] assms(2) by auto
  then show ?thesis by (cases L) simp
qed

lemma mirror_put_plan [simp]: "mirror (L\<lparr>lb_plans := ps\<rparr>) = mirror L"
  by (simp add: mirror_def fun_eq_iff)

lemma step_published_ok:
  assumes "lib_step u L L'" "mirror_ok L" "published_ok L"
  shows "published_ok L'"
  using assms(1)
proof cases
  case stay
  then show ?thesis using assms by simp
next
  case (save i p a)
  then show ?thesis using published_ok_put_plan [OF assms(3), of p i] by simp
next
  case (change i p0 p)
  then show ?thesis using published_ok_put_plan [OF assms(3), of p i] published_okD(1) [OF assms(3) change(2)]
    by (simp add: same_planD)
next
  case (change_mirror i p0 p j x y)
  have "published_ok (L\<lparr>lb_plans := (lb_plans L)(i \<mapsto> p)\<rparr>)"
    using published_ok_put_plan [OF assms(3), of p i] published_okD(1) [OF assms(3) change_mirror(2)] change_mirror(3,5)
    by (auto simp: same_planD)
  from published_ok_put_pub [OF this, of j y] change_mirror show ?thesis by (simp add: mirror_def same_entryD)
next
  case (delete i p0 now)
  show ?thesis unfolding delete(1)
    using published_okD(1) [OF assms(3) delete(2)] delete(3) by (intro published_ok_put_plan [OF assms(3)]) simp_all
next
  case (delete_mirror i p0 now j x)
  have "published_ok (L\<lparr>lb_plans := (lb_plans L)(i \<mapsto> p0\<lparr>up_DeletedAt := Some now, up_UpdatedAt := now\<rparr>)\<rparr>)"
    using published_okD(1) [OF assms(3) delete_mirror(2)] delete_mirror(5)
    by (intro published_ok_put_plan [OF assms(3)]) auto
  from published_ok_put_pub [OF this, of j "x\<lparr>pp_Status := PublicPlanStatusUnpublished, pp_UpdatedAt := now\<rparr>"] delete_mirror
  show ?thesis by (simp add: mirror_def)
next
  case (publish_new i p0 j y now)
  show ?thesis unfolding publish_new(1)
    using published_okD(1) [OF assms(3) publish_new(2)] publish_new(4,6)
    by (intro published_ok_publish [OF assms(3)]) simp_all
next
  case (publish_again i p0 j x y now)
  show ?thesis unfolding publish_again(1)
    using published_okD(1) [OF assms(3) publish_again(2)] publish_again(3,4)
    by (intro published_ok_publish [OF assms(3)]) (simp_all add: mirror_def same_entryD)
next
  case (unpublish i p0 j x now)
  have "published_ok (L\<lparr>lb_plans := (lb_plans L)(i \<mapsto> p0\<lparr>up_Visibility := VisibilityPrivate,
      up_PublishStatus := PublishStatusUnpublished, up_UpdatedAt := now\<rparr>)\<rparr>)"
    using published_okD(1) [OF assms(3) unpublish(2)] by (intro published_ok_put_plan [OF assms(3)]) simp_all
  from published_ok_put_pub [OF this, of j "x\<lparr>pp_Status := PublicPlanStatusUnpublished, pp_UpdatedAt := now\<rparr>"] unpublish
  show ?thesis by (simp add: mirror_def)
next
  case (copy i p j x e now)
  then have "published_ok (L\<lparr>lb_plans := (lb_plans L)(i \<mapsto> p)\<rparr>)" using published_ok_put_plan [OF assms(3), of p i] by simp
  from published_ok_put_pub [OF this, of j "counted CounterSave now x"] copy show ?thesis by simp
next
  case (view j x e now)
  then show ?thesis using published_ok_put_pub [OF assms(3), of j "counted CounterView now x"] by simp
qed

lemma one_mirror_again:
  assumes "one_mirror L" "lb_pubs L j = Some x" "pp_PlanID y = pp_PlanID x"
  shows "one_mirror (L\<lparr>lb_pubs := (lb_pubs L)(j \<mapsto> y)\<rparr>)"
proof (rule one_mirror_put_pub [OF assms(1)])
  fix k z
  assume "mirror L (pp_PlanID y) k z"
  moreover have "mirror L (pp_PlanID y) j x" using assms(2,3) by (simp add: mirror_def)
  ultimately show "k = j" using mirror_unique [OF assms(1)] by blast
qed

lemma step_one_mirror:
  assumes "lib_step u L L'" "one_mirror L"
  shows "one_mirror L'"
  using assms(1)
proof cases
  case (publish_new i p0 j y now)
  then show ?thesis using one_mirror_put_pub [OF assms(2), of y j] by simp
qed (use assms(2) in \<open>auto intro: one_mirror_again simp: same_entryD mirror_def\<close>)

lemma step_archives_ok:
  assumes "lib_step u L L'" "archives_ok L"
  shows "archives_ok L'"
  using assms(1)
proof cases
  case (save i p a)
  have "archives_ok (L\<lparr>lb_plans := (lb_plans L)(i \<mapsto> p)\<rparr>)"
    using archives_ok_put_plan [OF assms(2), of i p] save by simp
  then have a: "\<exists>q. ((lb_plans L)(i \<mapsto> p)) k = Some q \<and> up_UserID q = ca_UserID b" if "lb_archives L k = Some b" for k b
    using that by (simp add: archives_ok_def)
  show ?thesis unfolding save(1) archives_ok_def
  proof (intro allI impI)
    fix k b
    assume b: "lb_archives (L\<lparr>lb_plans := (lb_plans L)(i \<mapsto> p), lb_archives := (lb_archives L)(i \<mapsto> a)\<rparr>) k = Some b"
    show "\<exists>q. lb_plans (L\<lparr>lb_plans := (lb_plans L)(i \<mapsto> p), lb_archives := (lb_archives L)(i \<mapsto> a)\<rparr>) k = Some q
        \<and> up_UserID q = ca_UserID b"
      using a [of k b] b save(4,10) by (cases "k = i") simp_all
  qed
next
  case (copy i p j x e now)
  then show ?thesis using archives_ok_put_plan [OF assms(2), of i p] by simp
qed (use assms(2) in \<open>auto intro: archives_ok_replace simp: same_planD\<close>)

lemma step_one_per_task:
  assumes "lib_step u L L'" "one_per_task L"
  shows "one_per_task L'"
  using assms(1)
proof cases
  case (save i p a)
  then show ?thesis using one_per_task_put_plan [OF assms(2), of p i] by simp
next
  case (copy i p j x e now)
  then show ?thesis using one_per_task_put_plan [OF assms(2), of p i] by simp
qed (use assms(2) in \<open>auto intro: one_per_task_replace simp: same_planD\<close>)

lemma step_counters_ok:
  assumes "lib_step u L L'" "counters_ok L"
  shows "counters_ok L'"
  using assms(1)
proof cases
  case (copy i p j x e now)
  then show ?thesis using counters_ok_count [OF assms(2) copy(8,10)] by simp
next
  case (view j x e now)
  then show ?thesis using counters_ok_count [OF assms(2) view(2,4)] by simp
next
  case (publish_new i p0 j y now)
  then show ?thesis using counters_ok_put_new [OF assms(2), of j y] by simp
qed (use assms(2) in \<open>auto intro: counters_ok_put_same counters_ok_put_status simp: mirror_def same_entryD\<close>)

lemma step_library_ok:
  assumes "lib_step u L L'" "library_ok L"
  shows "library_ok L'"
  using assms step_mirror_ok step_published_ok step_one_mirror step_archives_ok step_one_per_task step_counters_ok
  unfolding library_ok_def by blast


subsection \<open>The service makes these transitions\<close>

text \<open>The contents of the two stores of a service state, and what is known of a state between calls.\<close>

definition lib_view ::
  "('s \<Rightarrow> string \<rightharpoonup> UserPlan) \<Rightarrow> ('s \<Rightarrow> string \<rightharpoonup> ConversationArchive) \<Rightarrow> ('q \<Rightarrow> string \<rightharpoonup> PublicPlan)
    \<Rightarrow> ('q \<Rightarrow> PublicPlanEvent list) \<Rightarrow> ('s, 'q, 'v) plan_state \<Rightarrow> library" where
  "lib_view plans archives pubs events \<sigma> =
     \<lparr>lb_plans = plans (pl_plans \<sigma>), lb_archives = archives (pl_plans \<sigma>), lb_pubs = pubs (pl_publics \<sigma>),
      lb_events = events (pl_publics \<sigma>)\<rparr>"

text \<open>The random ids of a call are not in use, and its clock does not read the zero time.\<close>

definition fresh_ids :: "outside \<Rightarrow> library \<Rightarrow> bool" where
  "fresh_ids ou L \<longleftrightarrow> lb_plans L (NewUserPlanID (ou_plan_id ou)) = None
     \<and> lb_pubs L (NewPublicPlanID (ou_pub_id ou)) = None \<and> ou_now ou \<noteq> 0"

locale plan_library = plan_store "pd_plans D" sinv plans archives + public_store "pd_publics D" qinv pubs events
  for D :: "('s, 'q, 'v) plan_deps" and sinv and plans and archives and qinv and pubs and events
begin

abbreviation (input) lib :: "('s, 'q, 'v) plan_state \<Rightarrow> library" where
  "lib \<equiv> lib_view plans archives pubs events"

abbreviation (input) ok :: "('s, 'q, 'v) plan_state \<Rightarrow> bool" where
  "ok \<sigma> \<equiv> sinv (pl_plans \<sigma>) \<and> qinv (pl_publics \<sigma>)"

lemma lib_sel [simp]:
  "lb_plans (lib \<sigma>) = plans (pl_plans \<sigma>)" "lb_archives (lib \<sigma>) = archives (pl_plans \<sigma>)"
  "lb_pubs (lib \<sigma>) = pubs (pl_publics \<sigma>)" "lb_events (lib \<sigma>) = events (pl_publics \<sigma>)"
  by (simp_all add: lib_view_def)

lemma lib_views [simp]: "lib (\<sigma>\<lparr>pl_views := v\<rparr>) = lib \<sigma>"
  by (simp add: lib_view_def)

lemma lib_put:
  "plans s' = (plans (pl_plans \<sigma>))(i \<mapsto> p) \<Longrightarrow> archives s' = archives (pl_plans \<sigma>) \<Longrightarrow>
    lib (\<sigma>\<lparr>pl_plans := s'\<rparr>) = (lib \<sigma>)\<lparr>lb_plans := (lb_plans (lib \<sigma>))(i \<mapsto> p)\<rparr>"
  by (simp add: lib_view_def)

lemma lib_put_both:
  "plans s' = (plans (pl_plans \<sigma>))(i \<mapsto> p) \<Longrightarrow> archives s' = archives (pl_plans \<sigma>) \<Longrightarrow>
    pubs q' = (pubs (pl_publics \<sigma>))(j \<mapsto> y) \<Longrightarrow> events q' = events (pl_publics \<sigma>) \<Longrightarrow>
    lib (\<sigma>\<lparr>pl_plans := s', pl_publics := q'\<rparr>)
      = (lib \<sigma>)\<lparr>lb_plans := (lb_plans (lib \<sigma>))(i \<mapsto> p), lb_pubs := (lb_pubs (lib \<sigma>))(j \<mapsto> y)\<rparr>"
  by (simp add: lib_view_def)

lemma get_owned:
  assumes "ok \<sigma>" "live c"
  shows "pst_Get (pd_plans D) c i u (pl_plans \<sigma>) = Inr p \<longleftrightarrow> owned (lib \<sigma>) u i p"
  using assms pget [of "pl_plans \<sigma>" c i u] by (auto simp: owned_def split: option.splits)

lemma get_by_plan:
  assumes "ok \<sigma>" "live c"
  shows "qst_GetByPlanID (pd_publics D) c i (pl_publics \<sigma>) = Inr (Some x) \<longleftrightarrow> (\<exists>j. mirror (lib \<sigma>) i j x)"
    and "qst_GetByPlanID (pd_publics D) c i (pl_publics \<sigma>) = Inr None \<longleftrightarrow> (\<nexists>j x. mirror (lib \<sigma>) i j x)"
    and "\<exists>r. qst_GetByPlanID (pd_publics D) c i (pl_publics \<sigma>) = Inr r"
proof -
  consider (some) j y where "mirror (lib \<sigma>) i j y" "qst_GetByPlanID (pd_publics D) c i (pl_publics \<sigma>) = Inr (Some y)"
    | (none) "\<nexists>j x. mirror (lib \<sigma>) i j x" "qst_GetByPlanID (pd_publics D) c i (pl_publics \<sigma>) = Inr None"
    using assms qget_plan_some [of "pl_publics \<sigma>" c _ _ i] qget_plan_none [of "pl_publics \<sigma>" c i]
    by (auto simp: mirror_def)
  note both = this
  show "qst_GetByPlanID (pd_publics D) c i (pl_publics \<sigma>) = Inr (Some x) \<longleftrightarrow> (\<exists>j. mirror (lib \<sigma>) i j x)"
    using both qget_plan_some [of "pl_publics \<sigma>" c _ x i] assms by cases (auto simp: mirror_def)
  show "qst_GetByPlanID (pd_publics D) c i (pl_publics \<sigma>) = Inr None \<longleftrightarrow> (\<nexists>j x. mirror (lib \<sigma>) i j x)"
    using both by cases auto
  show "\<exists>r. qst_GetByPlanID (pd_publics D) c i (pl_publics \<sigma>) = Inr r" using both by cases auto
qed

lemma update_owned:
  assumes "ok \<sigma>" "live c" "owned (lib \<sigma>) u i p0" "up_ID p = i" "up_UserID p = u"
  obtains s' where "pst_Update (pd_plans D) c p (pl_plans \<sigma>) = (Inr (), s')" "sinv s'"
    "plans s' = (plans (pl_plans \<sigma>))(i \<mapsto> p)" "archives s' = archives (pl_plans \<sigma>)"
  using assms pupdate [of "pl_plans \<sigma>" c p p0] by (auto simp: owned_def)

lemma upsert_mirror:
  assumes "ok \<sigma>" "live c" "mirror (lib \<sigma>) i j x" "pp_PlanID p = i"
  obtains q' where "qst_Upsert (pd_publics D) c p (pl_publics \<sigma>) = (Inr (), q')" "qinv q'"
    "events q' = events (pl_publics \<sigma>)"
    "pubs q' = (pubs (pl_publics \<sigma>))(j \<mapsto> rescore (keep_counters (p\<lparr>pp_ID := j\<rparr>) (Some x)))"
  using assms qupsert_old [of "pl_publics \<sigma>" c j x p] by (auto simp: mirror_def)

lemma owned_id: "ok \<sigma> \<Longrightarrow> owned (lib \<sigma>) u i p \<Longrightarrow> up_ID p = i"
  using plan_key [of "pl_plans \<sigma>" i p] by (simp add: owned_def)

text \<open>An update of an owned plan, with its mirror where it is published.\<close>

lemma sync_step:
  assumes "ok \<sigma>" "live c" "library_ok (lib \<sigma>)" "owned (lib \<sigma>) u i p0" "same_plan p0 p"
    and change: "\<And>x. pp_PlanID (change x) = pp_PlanID x \<and> pp_UserID (change x) = pp_UserID x
      \<and> pp_PublishedAt (change x) = pp_PublishedAt x \<and> pp_Status (change x) = pp_Status x"
  shows "\<exists>s'. pst_Update (pd_plans D) c p (pl_plans \<sigma>) = (Inr (), s')
    \<and> ok (sync_public D c p change (\<sigma>\<lparr>pl_plans := s'\<rparr>))
    \<and> lib_step u (lib \<sigma>) (lib (sync_public D c p change (\<sigma>\<lparr>pl_plans := s'\<rparr>)))
    \<and> plans (pl_plans (sync_public D c p change (\<sigma>\<lparr>pl_plans := s'\<rparr>))) = (plans (pl_plans \<sigma>))(i \<mapsto> p)"
proof -
  have id: "up_ID p = i" "up_UserID p = u"
    using owned_id [OF assms(1,4)] owned_shown(2) [OF assms(4)] assms(5) by (simp_all add: same_planD)
  obtain s' where s': "pst_Update (pd_plans D) c p (pl_plans \<sigma>) = (Inr (), s')" "sinv s'"
    "plans s' = (plans (pl_plans \<sigma>))(i \<mapsto> p)" "archives s' = archives (pl_plans \<sigma>)"
    using update_owned [OF assms(1,2,4) id] by blast
  show ?thesis
  proof (cases "up_PublishStatus p = PublishStatusPublished")
    case False
    have "lib_step u (lib \<sigma>) (lib (\<sigma>\<lparr>pl_plans := s'\<rparr>))"
      unfolding lib_put [OF s'(3,4)] by (rule lib_step.change [OF assms(4,5) False])
    then show ?thesis using s' False assms(1) by (simp add: sync_public_def)
  next
    case True
    then obtain j x where x: "mirror (lib \<sigma>) i j x"
      using published_okD(2) [OF _ assms(4)] assms(3,5) by (auto simp: library_ok_def same_planD)
    have xid: "pp_ID x = j" using x pub_key [of "pl_publics \<sigma>" j x] assms(1) by (simp add: mirror_def)
    let ?\<sigma> = "\<sigma>\<lparr>pl_plans := s'\<rparr>"
    have ok': "ok ?\<sigma>" and x': "mirror (lib ?\<sigma>) i j x" using s' assms(1) x by (simp_all add: mirror_def)
    have gp: "qst_GetByPlanID (pd_publics D) c i (pl_publics \<sigma>) = Inr (Some x)"
      using get_by_plan(1) [OF assms(1,2), of i x] x by blast
    have "pp_PlanID (change x) = i" using change [of x] x by (simp add: mirror_def)
    then obtain q' where q': "qst_Upsert (pd_publics D) c (change x) (pl_publics ?\<sigma>) = (Inr (), q')" "qinv q'"
      "events q' = events (pl_publics ?\<sigma>)"
      "pubs q' = (pubs (pl_publics ?\<sigma>))(j \<mapsto> rescore (keep_counters ((change x)\<lparr>pp_ID := j\<rparr>) (Some x)))"
      using upsert_mirror [OF ok' assms(2) x'] by blast
    have sync: "sync_public D c p change ?\<sigma> = \<sigma>\<lparr>pl_plans := s', pl_publics := q'\<rparr>"
      using True gp q'(1) id by (simp add: sync_public_def)
    let ?y = "rescore (keep_counters ((change x)\<lparr>pp_ID := j\<rparr>) (Some x))"
    have y: "same_entry x ?y" "pp_Status ?y = pp_Status x"
      using change [of x] xid by (simp_all add: same_entry_def same_counters_def keep_counters_def computeHotScore_def rescore_def)
    have "lib_step u (lib \<sigma>) (lib (\<sigma>\<lparr>pl_plans := s', pl_publics := q'\<rparr>))"
      using lib_step.change_mirror [OF assms(4,5) True x y] lib_put_both [OF s'(3,4), of q' j ?y] q'(3,4) by simp
    then show ?thesis using s' q' sync by simp
  qed
qed

lemma Rename_step:
  assumes "ok \<sigma>" "live c" "library_ok (lib \<sigma>)" "Rename D ou c u i title \<sigma> = (r, \<sigma>')"
  shows "ok \<sigma>' \<and> lib_step u (lib \<sigma>) (lib \<sigma>')"
    and "r = Inr p \<Longrightarrow> plans (pl_plans \<sigma>') i = Some p \<and> up_UserID p = u"
proof -
  have "ok \<sigma>' \<and> lib_step u (lib \<sigma>) (lib \<sigma>') \<and> (r = Inr p \<longrightarrow> plans (pl_plans \<sigma>') i = Some p \<and> up_UserID p = u)"
  proof (cases "pst_Get (pd_plans D) c i u (pl_plans \<sigma>)")
    case (Inl e)
    then show ?thesis using assms by (auto simp: Rename_def intro: lib_step.stay)
  next
    case (Inr p0)
    then have o: "owned (lib \<sigma>) u i p0" using get_owned [OF assms(1,2)] by blast
    let ?p = "p0\<lparr>up_Title := TrimSpace title, up_UpdatedAt := ou_now ou\<rparr>"
    have same: "same_plan p0 ?p" by (simp add: same_plan_def)
    obtain s' where s': "pst_Update (pd_plans D) c ?p (pl_plans \<sigma>) = (Inr (), s')"
      "ok (sync_public D c ?p (rename_public ?p) (\<sigma>\<lparr>pl_plans := s'\<rparr>))"
      "lib_step u (lib \<sigma>) (lib (sync_public D c ?p (rename_public ?p) (\<sigma>\<lparr>pl_plans := s'\<rparr>)))"
      "plans (pl_plans (sync_public D c ?p (rename_public ?p) (\<sigma>\<lparr>pl_plans := s'\<rparr>))) = (plans (pl_plans \<sigma>))(i \<mapsto> ?p)"
      using sync_step [OF assms(1-3) o same, of "rename_public ?p"] by (auto simp: rename_public_def)
    show ?thesis
      using assms(1,4) Inr s' owned_shown(2) [OF o]
      by (cases "validateTitle title") (auto simp: Rename_def Let_def intro: lib_step.stay)
  qed
  then show "ok \<sigma>' \<and> lib_step u (lib \<sigma>) (lib \<sigma>')"
    "r = Inr p \<Longrightarrow> plans (pl_plans \<sigma>') i = Some p \<and> up_UserID p = u" by blast+
qed

lemma edited_same: "edited ou inp p0 = Inr p \<Longrightarrow> same_plan p0 p"
  by (auto simp: edited_def edit_title_def edit_texts_def edit_visibility_def same_plan_def Let_def and_then_Inr_iff
      split: option.splits if_splits)

lemma Edit_step:
  assumes "ok \<sigma>" "live c" "library_ok (lib \<sigma>)" "Edit D ou c u i inp \<sigma> = (r, \<sigma>')"
  shows "ok \<sigma>' \<and> lib_step u (lib \<sigma>) (lib \<sigma>')"
    and "r = Inr p \<Longrightarrow> plans (pl_plans \<sigma>') i = Some p \<and> up_UserID p = u"
proof -
  have "ok \<sigma>' \<and> lib_step u (lib \<sigma>) (lib \<sigma>') \<and> (r = Inr p \<longrightarrow> plans (pl_plans \<sigma>') i = Some p \<and> up_UserID p = u)"
  proof (cases "pst_Get (pd_plans D) c i u (pl_plans \<sigma>)")
    case (Inl e)
    then show ?thesis using assms by (auto simp: Edit_def intro: lib_step.stay)
  next
    case get: (Inr p0)
    then have o: "owned (lib \<sigma>) u i p0" using get_owned [OF assms(1,2)] by blast
    show ?thesis
    proof (cases "edited ou inp p0")
      case (Inl e)
      then show ?thesis using assms get by (auto simp: Edit_def intro: lib_step.stay)
    next
      case (Inr p1)
      then obtain s' where s': "pst_Update (pd_plans D) c p1 (pl_plans \<sigma>) = (Inr (), s')"
        "ok (sync_public D c p1 (edit_public p1) (\<sigma>\<lparr>pl_plans := s'\<rparr>))"
        "lib_step u (lib \<sigma>) (lib (sync_public D c p1 (edit_public p1) (\<sigma>\<lparr>pl_plans := s'\<rparr>)))"
        "plans (pl_plans (sync_public D c p1 (edit_public p1) (\<sigma>\<lparr>pl_plans := s'\<rparr>))) = (plans (pl_plans \<sigma>))(i \<mapsto> p1)"
        using sync_step [OF assms(1-3) o edited_same, of ou inp p1 "edit_public p1"] by (auto simp: edit_public_def)
      show ?thesis
        using assms(4) get Inr s' owned_shown(2) [OF o] same_planD(2) [OF edited_same [OF Inr]]
        by (auto simp: Edit_def)
    qed
  qed
  then show "ok \<sigma>' \<and> lib_step u (lib \<sigma>) (lib \<sigma>')"
    "r = Inr p \<Longrightarrow> plans (pl_plans \<sigma>') i = Some p \<and> up_UserID p = u" by blast+
qed

lemma Save_existing:
  assumes "ok \<sigma>" "live c" "library_ok (lib \<sigma>)" "u \<noteq> []" "owned (lib \<sigma>) u i p" "up_TaskID p = si_TaskID inp"
    and "si_TaskID inp \<noteq> []"
  shows "Plans_Save D ou c u inp \<sigma> = (Inr p, \<sigma>)"
proof -
  obtain r where r: "pst_GetByTaskID (pd_plans D) c u (si_TaskID inp) (pl_plans \<sigma>) = Inr r"
    using pget_task_ok assms(1,2) by blast
  have "r \<noteq> None"
    using pget_task_none [of "pl_plans \<sigma>" c u "si_TaskID inp" i p] r assms(1,2,5,6) by (auto simp: owned_def)
  then obtain q where q: "r = Some q" by blast
  then have "owned (lib \<sigma>) u (up_ID q) q" "up_TaskID q = si_TaskID inp"
    using pget_task_some [of "pl_plans \<sigma>" c u "si_TaskID inp" q] r assms(1,2) by (simp_all add: owned_def)
  then have "i = up_ID q"
    using assms(3,5-7) unfolding library_ok_def one_per_task_def by metis
  then have "q = p" using \<open>owned (lib \<sigma>) u (up_ID q) q\<close> assms(5) by (simp add: owned_def)
  then show ?thesis using r q assms(4,7) by (simp add: Plans_Save_def)
qed

lemma Save_step:
  assumes "ok \<sigma>" "live c" "library_ok (lib \<sigma>)" "fresh_ids ou (lib \<sigma>)" "Plans_Save D ou c u inp \<sigma> = (r, \<sigma>')"
  shows "ok \<sigma>' \<and> lib_step u (lib \<sigma>) (lib \<sigma>')"
    and "r = Inr p \<Longrightarrow> owned (lib \<sigma>') u (up_ID p) p \<and> up_TaskID p = si_TaskID inp \<and> u \<noteq> [] \<and> si_TaskID inp \<noteq> []"
proof -
  have "ok \<sigma>' \<and> lib_step u (lib \<sigma>) (lib \<sigma>') \<and> (r = Inr p \<longrightarrow>
      owned (lib \<sigma>') u (up_ID p) p \<and> up_TaskID p = si_TaskID inp \<and> u \<noteq> [] \<and> si_TaskID inp \<noteq> [])"
  proof (cases "u = [] \<or> si_TaskID inp = []")
    case True
    then show ?thesis using assms by (auto simp: Plans_Save_def intro: lib_step.stay split: if_splits)
  next
    case nonempty: False
    obtain g where g: "pst_GetByTaskID (pd_plans D) c u (si_TaskID inp) (pl_plans \<sigma>) = Inr g"
      using pget_task_ok assms(1,2) by blast
    show ?thesis
    proof (cases g)
      case (Some q)
      then have "owned (lib \<sigma>) u (up_ID q) q" "up_TaskID q = si_TaskID inp"
        using pget_task_some [of "pl_plans \<sigma>" c u "si_TaskID inp" q] g assms(1,2) by (simp_all add: owned_def)
      then show ?thesis using assms g Some nonempty by (auto simp: Plans_Save_def intro: lib_step.stay)
    next
      case None
      show ?thesis
      proof (cases "save_checks ou c u inp")
        case (Inl e)
        then show ?thesis using assms g None nonempty by (auto simp: Plans_Save_def intro: lib_step.stay)
      next
        case (Inr st)
        obtain snap tp where st: "st = (snap, tp)" by fastforce
        let ?p = "saved_plan ou u inp snap tp"
        let ?a = "saved_archive ou ?p snap"
        have pf: "up_ID ?p = NewUserPlanID (ou_plan_id ou)" "up_UserID ?p = u" "up_TaskID ?p = si_TaskID inp" "\<not> IsDeleted ?p"
          "up_PublishStatus ?p = PublishStatusDraft" by (simp_all add: saved_plan_def IsDeleted_def)
        have af: "ca_PlanID ?a = up_ID ?p" "ca_UserID ?a = u" by (simp_all add: saved_archive_def pf)
        obtain s1 where s1: "pst_Create (pd_plans D) c ?p (pl_plans \<sigma>) = (Inr (), s1)" "sinv s1"
          "plans s1 = (plans (pl_plans \<sigma>))(up_ID ?p \<mapsto> ?p)" "archives s1 = archives (pl_plans \<sigma>)"
          using pcreate assms(1,2) by blast
        obtain s2 where s2: "pst_CreateArchive (pd_plans D) c ?a s1 = (Inr (), s2)" "sinv s2" "plans s2 = plans s1"
          "archives s2 = (archives s1)(up_ID ?p \<mapsto> ?a)"
          using parchive [OF s1(2) assms(2), of ?a] af(1) by auto
        have none: "\<forall>k q. owned (lib \<sigma>) u k q \<longrightarrow> up_TaskID q \<noteq> si_TaskID inp"
          using pget_task_none [of "pl_plans \<sigma>" c u "si_TaskID inp"] g None assms(1,2) by (auto simp: owned_def)
        have fresh: "lb_plans (lib \<sigma>) (up_ID ?p) = None" using assms(4) pf(1) by (simp add: fresh_ids_def)
        have v: "lib (\<sigma>\<lparr>pl_plans := s2\<rparr>) = (lib \<sigma>)\<lparr>lb_plans := (lb_plans (lib \<sigma>))(up_ID ?p \<mapsto> ?p),
            lb_archives := (lb_archives (lib \<sigma>))(up_ID ?p \<mapsto> ?a)\<rparr>"
          using s1 s2 by (simp add: lib_view_def)
        have "lib_step u (lib \<sigma>) (lib (\<sigma>\<lparr>pl_plans := s2\<rparr>))"
          unfolding v using nonempty none pf(3) by (intro lib_step.save [OF fresh refl pf(2) _ pf(4,5) _ af]) auto
        moreover have "(r, \<sigma>') = (Inr ?p, \<sigma>\<lparr>pl_plans := s2\<rparr>)"
          using assms(5) g None Inr st s1(1) s2(1) nonempty by (simp add: Plans_Save_def Let_def)
        ultimately show ?thesis using s1 s2 assms(1) pf nonempty by (auto simp: owned_def)
      qed
    qed
  qed
  then show "ok \<sigma>' \<and> lib_step u (lib \<sigma>) (lib \<sigma>')"
    "r = Inr p \<Longrightarrow> owned (lib \<sigma>') u (up_ID p) p \<and> up_TaskID p = si_TaskID inp \<and> u \<noteq> [] \<and> si_TaskID inp \<noteq> []" by blast+
qed

lemma get_by_owned:
  assumes "ok \<sigma>" "live c" "library_ok (lib \<sigma>)" "owned (lib \<sigma>) u i p0" "up_PublishStatus p0 = PublishStatusPublished"
  obtains j x where "mirror (lib \<sigma>) i j x" "pp_ID x = j" "qst_GetByPlanID (pd_publics D) c i (pl_publics \<sigma>) = Inr (Some x)"
proof -
  have "published_ok (lib \<sigma>)" using assms(3) by (simp add: library_ok_def)
  from published_okD(2) [OF this assms(4,5)] obtain j x where m: "mirror (lib \<sigma>) i j x" by blast
  moreover have "pp_ID x = j" using m pub_key [of "pl_publics \<sigma>" j x] assms(1) by (simp add: mirror_def)
  moreover have "qst_GetByPlanID (pd_publics D) c i (pl_publics \<sigma>) = Inr (Some x)"
    using get_by_plan(1) [OF assms(1,2)] m by blast
  ultimately show ?thesis using that by blast
qed

lemma hide_mirror:
  assumes "ok \<sigma>" "live c" "mirror (lib \<sigma>) i j x"
  obtains q' where "qst_SetStatus (pd_publics D) c j PublicPlanStatusUnpublished t (pl_publics \<sigma>) = (Inr (), q')" "qinv q'"
    "events q' = events (pl_publics \<sigma>)"
    "pubs q' = (pubs (pl_publics \<sigma>))(j \<mapsto> x\<lparr>pp_Status := PublicPlanStatusUnpublished, pp_UpdatedAt := t\<rparr>)"
  using assms qstatus [of "pl_publics \<sigma>" c j x PublicPlanStatusUnpublished t] by (auto simp: mirror_def)

lemma Delete_step:
  assumes "ok \<sigma>" "live c" "library_ok (lib \<sigma>)" "ou_now ou \<noteq> 0" "Plans_Delete D ou c u i \<sigma> = (r, \<sigma>')"
  shows "ok \<sigma>' \<and> lib_step u (lib \<sigma>) (lib \<sigma>') \<and> (r = Inr () \<longrightarrow> (\<exists>p. owned (lib \<sigma>) u i p)
    \<and> (\<exists>p. plans (pl_plans \<sigma>') i = Some p \<and> IsDeleted p))
    \<and> events (pl_publics \<sigma>') = events (pl_publics \<sigma>)"
proof (cases "pst_Get (pd_plans D) c i u (pl_plans \<sigma>)")
  case (Inl e)
  then show ?thesis using assms by (auto simp: Plans_Delete_def intro: lib_step.stay)
next
  case (Inr p0)
  then have o: "owned (lib \<sigma>) u i p0" using get_owned [OF assms(1,2)] by blast
  have id: "up_ID p0 = i" by (rule owned_id [OF assms(1) o])
  let ?p = "p0\<lparr>up_DeletedAt := Some (ou_now ou), up_UpdatedAt := ou_now ou\<rparr>"
  obtain s1 where s1: "pst_SoftDelete (pd_plans D) c i u (ou_now ou) (pl_plans \<sigma>) = (Inr (), s1)" "sinv s1"
    "plans s1 = (plans (pl_plans \<sigma>))(i \<mapsto> ?p)" "archives s1 = archives (pl_plans \<sigma>)"
    using pdelete [of "pl_plans \<sigma>" c i p0 u "ou_now ou"] o assms(1,2) by (auto simp: owned_def)
  let ?\<sigma> = "\<sigma>\<lparr>pl_plans := s1\<rparr>"
  show ?thesis
  proof (cases "up_PublishStatus p0 = PublishStatusPublished")
    case False
    have "lib_step u (lib \<sigma>) (lib ?\<sigma>)"
      unfolding lib_put [OF s1(3,4)] by (rule lib_step.delete [OF o False assms(4)])
    then show ?thesis using assms(1,4,5) Inr id s1 False o by (auto simp: Plans_Delete_def Let_def)
  next
    case True
    obtain j x where x: "mirror (lib \<sigma>) i j x" "pp_ID x = j"
      "qst_GetByPlanID (pd_publics D) c i (pl_publics \<sigma>) = Inr (Some x)"
      using get_by_owned [OF assms(1-3) o True] by blast
    obtain q' where q': "qst_SetStatus (pd_publics D) c j PublicPlanStatusUnpublished (ou_now ou) (pl_publics \<sigma>) = (Inr (), q')"
      "qinv q'" "events q' = events (pl_publics \<sigma>)"
      "pubs q' = (pubs (pl_publics \<sigma>))(j \<mapsto> x\<lparr>pp_Status := PublicPlanStatusUnpublished, pp_UpdatedAt := ou_now ou\<rparr>)"
      using hide_mirror [OF assms(1,2) x(1)] by blast
    have "lib_step u (lib \<sigma>) (lib (\<sigma>\<lparr>pl_plans := s1, pl_publics := q'\<rparr>))"
      unfolding lib_put_both [OF s1(3,4) q'(4,3)] by (rule lib_step.delete_mirror [OF o True assms(4) x(1)])
    then show ?thesis using assms(1,4,5) Inr id s1 True x q' o by (auto simp: Plans_Delete_def Let_def)
  qed
qed

lemma Unpublish_step:
  assumes "ok \<sigma>" "live c" "library_ok (lib \<sigma>)" "Unpublish D ou c u i \<sigma> = (r, \<sigma>')"
  shows "ok \<sigma>' \<and> lib_step u (lib \<sigma>) (lib \<sigma>') \<and> (r = Inr () \<longrightarrow> (\<exists>p. owned (lib \<sigma>) u i p)
    \<and> (\<exists>p. plans (pl_plans \<sigma>') i = Some p \<and> up_PublishStatus p = PublishStatusUnpublished))
    \<and> events (pl_publics \<sigma>') = events (pl_publics \<sigma>)"
proof (cases "pst_Get (pd_plans D) c i u (pl_plans \<sigma>)")
  case (Inl e)
  then show ?thesis using assms by (auto simp: Unpublish_def intro: lib_step.stay)
next
  case (Inr p0)
  then have o: "owned (lib \<sigma>) u i p0" using get_owned [OF assms(1,2)] by blast
  have id: "up_ID p0 = i" by (rule owned_id [OF assms(1) o])
  show ?thesis
  proof (cases "up_PublishStatus p0 = PublishStatusPublished")
    case False
    then show ?thesis using assms Inr by (auto simp: Unpublish_def intro: lib_step.stay)
  next
    case True
    let ?p = "p0\<lparr>up_Visibility := VisibilityPrivate, up_PublishStatus := PublishStatusUnpublished, up_UpdatedAt := ou_now ou\<rparr>"
    obtain s1 where s1: "pst_Update (pd_plans D) c ?p (pl_plans \<sigma>) = (Inr (), s1)" "sinv s1"
      "plans s1 = (plans (pl_plans \<sigma>))(i \<mapsto> ?p)" "archives s1 = archives (pl_plans \<sigma>)"
      using update_owned [OF assms(1,2) o, of ?p] id owned_shown(2) [OF o] by auto
    obtain j x where x: "mirror (lib \<sigma>) i j x" "pp_ID x = j"
      "qst_GetByPlanID (pd_publics D) c i (pl_publics \<sigma>) = Inr (Some x)"
      using get_by_owned [OF assms(1-3) o True] by blast
    obtain q' where q': "qst_SetStatus (pd_publics D) c j PublicPlanStatusUnpublished (ou_now ou) (pl_publics \<sigma>) = (Inr (), q')"
      "qinv q'" "events q' = events (pl_publics \<sigma>)"
      "pubs q' = (pubs (pl_publics \<sigma>))(j \<mapsto> x\<lparr>pp_Status := PublicPlanStatusUnpublished, pp_UpdatedAt := ou_now ou\<rparr>)"
      using hide_mirror [OF assms(1,2) x(1)] by blast
    have "lib_step u (lib \<sigma>) (lib (\<sigma>\<lparr>pl_plans := s1, pl_publics := q'\<rparr>))"
      unfolding lib_put_both [OF s1(3,4) q'(4,3)] by (rule lib_step.unpublish [OF o True x(1)])
    then show ?thesis using assms(1,4) Inr id s1 True x q' o by (auto simp: Unpublish_def Let_def)
  qed
qed

text \<open>A publication creates the mirror or overwrites it under the id, first date and counters it has.\<close>

lemma Publish_entry:
  assumes "ok \<sigma>" "live c" "fresh_ids ou (lib \<sigma>)" "owned (lib \<sigma>) u i p0" "library_ok (lib \<sigma>)"
    and ex: "ex = (case qst_GetByPlanID (pd_publics D) c i (pl_publics \<sigma>) of Inr (Some old) \<Rightarrow> Some old | _ \<Rightarrow> None)"
  obtains j y q' where "qst_Upsert (pd_publics D) c (published ou c p0 inp ex) (pl_publics \<sigma>) = (Inr (), q')" "qinv q'"
    "events q' = events (pl_publics \<sigma>)" "pubs q' = (pubs (pl_publics \<sigma>))(j \<mapsto> y)"
    "pp_ID (published ou c p0 inp ex) = j" "visible y" "pp_ID y = j" "pp_PlanID y = i" "pp_UserID y = u"
    "(ex = None \<and> (\<forall>k x. \<not> mirror (lib \<sigma>) i k x) \<and> lb_pubs (lib \<sigma>) j = None \<and> pp_ViewCount y = 0 \<and> pp_SaveCount y = 0
        \<and> pp_CopyCount y = 0 \<and> pp_HotScore y = computeHotScore y \<and> pp_PublishedAt y = ou_now ou)
     \<or> (\<exists>x. ex = Some x \<and> mirror (lib \<sigma>) i j x \<and> same_entry x y)"
proof -
  have id: "up_ID p0 = i" "up_UserID p0 = u" using owned_id [OF assms(1,4)] owned_shown(2) [OF assms(4)] by simp_all
  let ?P = "published ou c p0 inp ex"
  have sel: "pp_PlanID ?P = i" "pp_UserID ?P = u" "pp_Status ?P = PublicPlanStatusPublished"
    by (simp_all add: published_def id)
  obtain g where g: "qst_GetByPlanID (pd_publics D) c i (pl_publics \<sigma>) = Inr g" using get_by_plan(3) [OF assms(1,2)] by blast
  show thesis
  proof (cases g)
    case None
    then have ex0: "ex = None" and none: "\<forall>k x. \<not> mirror (lib \<sigma>) i k x"
      using g ex get_by_plan(2) [OF assms(1,2), of i] by simp_all
    have j: "pp_ID ?P = NewPublicPlanID (ou_pub_id ou)" by (simp add: published_def ex0)
    have jfree: "pubs (pl_publics \<sigma>) (pp_ID ?P) = None" using assms(3) j by (simp add: fresh_ids_def)
    have "\<forall>k x. pubs (pl_publics \<sigma>) k = Some x \<longrightarrow> pp_PlanID x \<noteq> pp_PlanID ?P"
      using none sel(1) by (auto simp: mirror_def)
    then obtain q' where q': "qst_Upsert (pd_publics D) c ?P (pl_publics \<sigma>) = (Inr (), q')" "qinv q'"
      "events q' = events (pl_publics \<sigma>)" "pubs q' = (pubs (pl_publics \<sigma>))(pp_ID ?P \<mapsto> rescore ?P)"
      using qupsert_new [of "pl_publics \<sigma>" c ?P] jfree assms(1,2) by blast
    show thesis
      by (rule that [OF q' refl])
        (use sel none jfree ex0 in \<open>simp_all add: visible_def, simp_all add: published_def computeHotScore_def rescore_def\<close>)
  next
    case (Some x)
    then have ex1: "ex = Some x" using g ex by simp
    obtain j where m: "mirror (lib \<sigma>) i j x" using g Some get_by_plan(1) [OF assms(1,2)] by blast
    have xid: "pp_ID x = j" using m pub_key [of "pl_publics \<sigma>" j x] assms(1) by (simp add: mirror_def)
    have own: "pp_ID ?P = j" "pp_PublishedAt ?P = pp_PublishedAt x" by (simp_all add: published_def ex1 xid)
    let ?y = "rescore (keep_counters (?P\<lparr>pp_ID := j\<rparr>) (Some x))"
    obtain q' where q': "qst_Upsert (pd_publics D) c ?P (pl_publics \<sigma>) = (Inr (), q')" "qinv q'"
      "events q' = events (pl_publics \<sigma>)" "pubs q' = (pubs (pl_publics \<sigma>))(j \<mapsto> ?y)"
      using upsert_mirror [OF assms(1,2) m sel(1)] by blast
    have xu: "pp_UserID ?y = u" "visible ?y" "pp_ID ?y = j" "pp_PlanID ?y = i" using sel by (simp_all add: visible_def)
    have "pp_UserID x = u" using mirror_facts(4) [OF _ m assms(4)] assms(5) by (simp add: library_ok_def)
    then have "same_entry x ?y"
      using m own xid sel by (simp add: same_entry_def same_counters_def keep_counters_def computeHotScore_def rescore_def mirror_def)
    then show thesis using that [OF q' own(1) xu(2,3,4,1)] ex1 m by blast
  qed
qed

lemma Publish_step:
  assumes "ok \<sigma>" "live c" "library_ok (lib \<sigma>)" "fresh_ids ou (lib \<sigma>)" "Plans_Publish D ou c u i inp \<sigma> = (r, \<sigma>')"
  shows "ok \<sigma>' \<and> lib_step u (lib \<sigma>) (lib \<sigma>')"
    and "r = Inr y \<Longrightarrow> (\<exists>p. owned (lib \<sigma>) u i p) \<and> pubs (pl_publics \<sigma>') (pp_ID y) = Some y \<and> visible y \<and> pp_PlanID y = i
      \<and> (\<forall>j x. mirror (lib \<sigma>) i j x \<longrightarrow> same_entry x y)"
proof -
  have "ok \<sigma>' \<and> lib_step u (lib \<sigma>) (lib \<sigma>') \<and> (r = Inr y \<longrightarrow> (\<exists>p. owned (lib \<sigma>) u i p)
     \<and> pubs (pl_publics \<sigma>') (pp_ID y) = Some y \<and> visible y \<and> pp_PlanID y = i
     \<and> (\<forall>j x. mirror (lib \<sigma>) i j x \<longrightarrow> same_entry x y))"
  proof (cases "pst_Get (pd_plans D) c i u (pl_plans \<sigma>)")
    case (Inl e)
    then show ?thesis using assms by (auto simp: Plans_Publish_def intro: lib_step.stay)
  next
    case get: (Inr p0)
    then have o: "owned (lib \<sigma>) u i p0" using get_owned [OF assms(1,2)] by blast
    have id: "up_ID p0 = i" by (rule owned_id [OF assms(1) o])
    show ?thesis
    proof (cases "validateTitle (publish_title p0 inp)")
      case (Inl e)
      then show ?thesis using assms get by (auto simp: Plans_Publish_def intro: lib_step.stay)
    next
      case title: (Inr w)
      define ex where "ex = (case qst_GetByPlanID (pd_publics D) c i (pl_publics \<sigma>) of Inr (Some old) \<Rightarrow> Some old | _ \<Rightarrow> None)"
      obtain j z q' where q': "qst_Upsert (pd_publics D) c (published ou c p0 inp ex) (pl_publics \<sigma>) = (Inr (), q')" "qinv q'"
        "events q' = events (pl_publics \<sigma>)" "pubs q' = (pubs (pl_publics \<sigma>))(j \<mapsto> z)"
        "pp_ID (published ou c p0 inp ex) = j" and z: "visible z" "pp_ID z = j" "pp_PlanID z = i" "pp_UserID z = u"
        and how: "(ex = None \<and> (\<forall>k x. \<not> mirror (lib \<sigma>) i k x) \<and> lb_pubs (lib \<sigma>) j = None \<and> pp_ViewCount z = 0
            \<and> pp_SaveCount z = 0 \<and> pp_CopyCount z = 0 \<and> pp_HotScore z = computeHotScore z \<and> pp_PublishedAt z = ou_now ou)
          \<or> (\<exists>x. ex = Some x \<and> mirror (lib \<sigma>) i j x \<and> same_entry x z)"
        by (rule Publish_entry [OF assms(1,2,4) o assms(3) ex_def])
      let ?p = "p0\<lparr>up_Visibility := VisibilityPublic, up_PublishStatus := PublishStatusPublished, up_UpdatedAt := ou_now ou\<rparr>"
      obtain s1 where s1: "pst_Update (pd_plans D) c ?p (pl_plans \<sigma>) = (Inr (), s1)" "sinv s1"
        "plans s1 = (plans (pl_plans \<sigma>))(i \<mapsto> ?p)" "archives s1 = archives (pl_plans \<sigma>)"
        using update_owned [OF assms(1,2) o, of ?p] id owned_shown(2) [OF o] by auto
      have got: "qst_Get (pd_publics D) c j q' = Inr z" using qget [OF q'(2) assms(2)] q'(4) by simp
      have res: "(r, \<sigma>') = (Inr z, \<sigma>\<lparr>pl_plans := s1, pl_publics := q'\<rparr>)"
        using assms(5) get title id q'(1,5) s1(1) got by (simp add: Plans_Publish_def Let_def ex_def [symmetric])
      have "lib_step u (lib \<sigma>) (lib (\<sigma>\<lparr>pl_plans := s1, pl_publics := q'\<rparr>))"
        unfolding lib_put_both [OF s1(3,4) q'(4,3)]
        using how
      proof (elim disjE exE conjE)
        fix x
        assume "mirror (lib \<sigma>) i j x" "same_entry x z"
        then show "lib_step u (lib \<sigma>) ((lib \<sigma>)\<lparr>lb_plans := (lb_plans (lib \<sigma>))(i \<mapsto> ?p), lb_pubs := (lb_pubs (lib \<sigma>))(j \<mapsto> z)\<rparr>)"
          by (rule lib_step.publish_again [OF o _ _ z(1)])
      next
        assume "\<forall>k x. \<not> mirror (lib \<sigma>) i k x" "lb_pubs (lib \<sigma>) j = None" "pp_ViewCount z = 0" "pp_SaveCount z = 0"
          "pp_CopyCount z = 0" "pp_HotScore z = computeHotScore z"
        then show "lib_step u (lib \<sigma>) ((lib \<sigma>)\<lparr>lb_plans := (lb_plans (lib \<sigma>))(i \<mapsto> ?p), lb_pubs := (lb_pubs (lib \<sigma>))(j \<mapsto> z)\<rparr>)"
          by (intro lib_step.publish_new [OF o _ _ z(2-4,1)])
      qed
      moreover have "\<forall>k x. mirror (lib \<sigma>) i k x \<longrightarrow> same_entry x z"
        using how mirror_unique [of "lib \<sigma>" i] assms(3) unfolding library_ok_def mirror_def by fastforce
      ultimately show ?thesis using res s1(2) q'(2,4) z o by auto
    qed
  qed
  then show "ok \<sigma>' \<and> lib_step u (lib \<sigma>) (lib \<sigma>')"
    "r = Inr y \<Longrightarrow> (\<exists>p. owned (lib \<sigma>) u i p) \<and> pubs (pl_publics \<sigma>') (pp_ID y) = Some y \<and> visible y \<and> pp_PlanID y = i
      \<and> (\<forall>j x. mirror (lib \<sigma>) i j x \<longrightarrow> same_entry x y)" by blast+
qed

lemma increment_spec:
  assumes "ok \<sigma>" "live c" "lb_pubs (lib \<sigma>) j = Some x"
  obtains e \<sigma>' where "incrementPublicCounter D c j kind viewer now \<sigma> = (True, \<sigma>')" "ok \<sigma>'" "is_event e j kind"
    "pl_plans \<sigma>' = pl_plans \<sigma>" "pubs (pl_publics \<sigma>') = (pubs (pl_publics \<sigma>))(j \<mapsto> counted kind now x)"
    "events (pl_publics \<sigma>') = events (pl_publics \<sigma>) @ [e]"
proof -
  obtain q1 where q1: "qst_IncrementCounter (pd_publics D) c j kind now (pl_publics \<sigma>) = (Inr (), q1)" "qinv q1"
    "events q1 = events (pl_publics \<sigma>)" "pubs q1 = (pubs (pl_publics \<sigma>))(j \<mapsto> counted kind now x)"
    using qbump [of "pl_publics \<sigma>" c j x kind now] assms by (auto simp: counted_def)
  let ?e = "\<lparr>pe_PublicPlanID = j, pe_UserID = pv_UserID viewer, pe_EventType = kind_string kind,
              pe_ClientHash = pv_ClientHash viewer, pe_CreatedAt = now\<rparr>"
  obtain q2 where q2: "qst_RecordEvent (pd_publics D) c ?e q1 = (Inr (), q2)" "qinv q2" "events q2 = events q1 @ [?e]" "pubs q2 = pubs q1"
    using qrecord [OF q1(2) assms(2)] by blast
  show thesis
    by (rule that [of "\<sigma>\<lparr>pl_publics := q2\<rparr>" ?e]) (use q1 q2 assms(1) in \<open>simp_all add: incrementPublicCounter_def is_event_def\<close>)
qed

lemma GetPublic_step:
  assumes "ok \<sigma>" "live c" "library_ok (lib \<sigma>)" "GetPublic D ou c j viewer \<sigma> = (r, \<sigma>')"
  shows "ok \<sigma>' \<and> lib_step u (lib \<sigma>) (lib \<sigma>')
    \<and> (r = Inr y \<longrightarrow> (\<exists>x. lb_pubs (lib \<sigma>) j = Some x \<and> visible x \<and> (y = x \<or> y = rescore (bump CounterView x))))
    \<and> ((\<nexists>x. lb_pubs (lib \<sigma>) j = Some x \<and> visible x) \<longrightarrow> r = Inl ErrPublicPlanNotFound)"
proof (cases "lb_pubs (lib \<sigma>) j")
  case None
  then show ?thesis using assms qget [of "pl_publics \<sigma>" c j] by (auto simp: GetPublic_def intro: lib_step.stay)
next
  case (Some x)
  then have g: "qst_Get (pd_publics D) c j (pl_publics \<sigma>) = Inr x" using qget [of "pl_publics \<sigma>" c j] assms(1,2) by simp
  have id: "pp_ID x = j" using pub_key [of "pl_publics \<sigma>" j x] assms(1) Some by simp
  show ?thesis
  proof (cases "visible x")
    case False
    then show ?thesis using assms g Some by (auto simp: GetPublic_def visible_def intro: lib_step.stay)
  next
    case True
    obtain b v' where a: "view_allowed D c j viewer (ou_now ou) (pl_views \<sigma>) = (b, v')" by fastforce
    let ?\<sigma> = "\<sigma>\<lparr>pl_views := v'\<rparr>"
    have x: "lb_pubs (lib ?\<sigma>) j = Some x" and ok': "ok ?\<sigma>" using Some assms(1) by simp_all
    show ?thesis
    proof (cases b)
      case False
      then show ?thesis using assms g id a Some True by (auto simp: GetPublic_def visible_def intro: lib_step.stay)
    next
      case b: True
      obtain e \<sigma>2 where inc: "incrementPublicCounter D c j CounterView viewer (ou_now ou) ?\<sigma> = (True, \<sigma>2)" "ok \<sigma>2"
        "is_event e j CounterView" "pl_plans \<sigma>2 = pl_plans ?\<sigma>"
        "pubs (pl_publics \<sigma>2) = (pubs (pl_publics ?\<sigma>))(j \<mapsto> counted CounterView (ou_now ou) x)"
        "events (pl_publics \<sigma>2) = events (pl_publics ?\<sigma>) @ [e]"
        using increment_spec [OF ok' assms(2) x] by blast
      have "lib \<sigma>2 = (lib \<sigma>)\<lparr>lb_pubs := (lb_pubs (lib \<sigma>))(j \<mapsto> counted CounterView (ou_now ou) x),
          lb_events := lb_events (lib \<sigma>) @ [e]\<rparr>" using inc(4-6) by (simp add: lib_view_def)
      then have "lib_step u (lib \<sigma>) (lib \<sigma>2)" using lib_step.view [of "lib \<sigma>" j x e u "ou_now ou"] Some True inc(3) by simp
      then show ?thesis using assms(4) g id a b inc(1,2) Some True by (auto simp: GetPublic_def visible_def Let_def)
    qed
  qed
qed

lemma Copy_step:
  assumes "ok \<sigma>" "live c" "library_ok (lib \<sigma>)" "fresh_ids ou (lib \<sigma>)" "SavePublicAsCopy D ou c u j \<sigma> = (r, \<sigma>')"
  shows "ok \<sigma>' \<and> lib_step u (lib \<sigma>) (lib \<sigma>')
    \<and> (r = Inr p \<longrightarrow> (\<exists>x. lb_pubs (lib \<sigma>) j = Some x \<and> visible x \<and> p = copied_plan ou u x)
        \<and> plans (pl_plans \<sigma>') (up_ID p) = Some p)
    \<and> ((\<nexists>x. lb_pubs (lib \<sigma>) j = Some x \<and> visible x) \<longrightarrow> (\<exists>e. r = Inl e) \<and> \<sigma>' = \<sigma>)"
proof (cases "u = [] \<or> lb_pubs (lib \<sigma>) j = None")
  case True
  then show ?thesis using assms qget [of "pl_publics \<sigma>" c j]
    by (auto simp: SavePublicAsCopy_def intro: lib_step.stay split: if_splits)
next
  case False
  then obtain x where x: "lb_pubs (lib \<sigma>) j = Some x" and u: "u \<noteq> []" by auto
  have g: "qst_Get (pd_publics D) c j (pl_publics \<sigma>) = Inr x" using qget [of "pl_publics \<sigma>" c j] assms(1,2) x by simp
  have id: "pp_ID x = j" using pub_key [of "pl_publics \<sigma>" j x] assms(1) x by simp
  show ?thesis
  proof (cases "visible x")
    case False
    then show ?thesis using assms g u x by (auto simp: SavePublicAsCopy_def visible_def intro: lib_step.stay)
  next
    case vis: True
    let ?p = "copied_plan ou u x"
    have pf: "up_ID ?p = NewUserPlanID (ou_plan_id ou)" "up_UserID ?p = u" "up_TaskID ?p = []" "\<not> IsDeleted ?p"
      "up_PublishStatus ?p = PublishStatusDraft" by (simp_all add: copied_plan_def IsDeleted_def)
    obtain s1 where s1: "pst_Create (pd_plans D) c ?p (pl_plans \<sigma>) = (Inr (), s1)" "sinv s1"
      "plans s1 = (plans (pl_plans \<sigma>))(up_ID ?p \<mapsto> ?p)" "archives s1 = archives (pl_plans \<sigma>)"
      using pcreate assms(1,2) by blast
    let ?\<sigma> = "\<sigma>\<lparr>pl_plans := s1\<rparr>"
    have x': "lb_pubs (lib ?\<sigma>) j = Some x" and ok': "ok ?\<sigma>" using x s1(2) assms(1) by simp_all
    obtain e \<sigma>2 where inc: "incrementPublicCounter D c j CounterSave \<lparr>pv_UserID = u, pv_ClientHash = []\<rparr> (ou_now ou) ?\<sigma> = (True, \<sigma>2)"
      "ok \<sigma>2" "is_event e j CounterSave" "pl_plans \<sigma>2 = pl_plans ?\<sigma>"
      "pubs (pl_publics \<sigma>2) = (pubs (pl_publics ?\<sigma>))(j \<mapsto> counted CounterSave (ou_now ou) x)"
      "events (pl_publics \<sigma>2) = events (pl_publics ?\<sigma>) @ [e]"
      using increment_spec [OF ok' assms(2) x'] by blast
    have v: "lib \<sigma>2 = (lib \<sigma>)\<lparr>lb_plans := (lb_plans (lib \<sigma>))(up_ID ?p \<mapsto> ?p),
        lb_pubs := (lb_pubs (lib \<sigma>))(j \<mapsto> counted CounterSave (ou_now ou) x), lb_events := lb_events (lib \<sigma>) @ [e]\<rparr>"
      using inc(4-6) s1(3,4) by (simp add: lib_view_def)
    have fresh: "lb_plans (lib \<sigma>) (up_ID ?p) = None" using assms(4) pf(1) by (simp add: fresh_ids_def)
    have "lib_step u (lib \<sigma>) (lib \<sigma>2)" unfolding v by (rule lib_step.copy [OF fresh refl pf(2-5) x vis inc(3)])
    moreover have "(r, \<sigma>') = (Inr ?p, \<sigma>2)"
      using assms(5) g u vis id s1(1) inc(1) by (simp add: SavePublicAsCopy_def visible_def Let_def)
    ultimately show ?thesis using inc(2,4) s1(3) x vis by auto
  qed
qed

end

end
