(* ===== verification/PlanGuarantees.thy ===== *)
theory PlanGuarantees
  imports PlanLibrary
begin

section \<open>Guarantees of the plan library\<close>

text \<open>
  The calls of the plan service as one operation (\<open>plan_call\<close>), the states reachable by calls of any
  users, and the properties of internal/plans over the in-memory stores: owners are isolated, only
  published plans are public, a task is saved once, counters agree with the audit log, and the private
  parts of a plan do not reach the public side.
\<close>

subsection \<open>Calls and reachable states\<close>

datatype plan_call =
  CallSave SaveInput
| CallRename string string
| CallEdit string EditInput
| CallDelete string
| CallPublish string PublishInput
| CallUnpublish string
| CallCopy string
| CallView string PublicViewer

fun run_plan_call ::
  "('s, 'q, 'v) plan_deps \<Rightarrow> outside \<Rightarrow> ctx \<Rightarrow> string \<Rightarrow> plan_call \<Rightarrow> ('s, 'q, 'v) plan_state \<Rightarrow> ('s, 'q, 'v) plan_state" where
  "run_plan_call D ou c u (CallSave inp) \<sigma> = snd (Plans_Save D ou c u inp \<sigma>)"
| "run_plan_call D ou c u (CallRename i title) \<sigma> = snd (Rename D ou c u i title \<sigma>)"
| "run_plan_call D ou c u (CallEdit i inp) \<sigma> = snd (Edit D ou c u i inp \<sigma>)"
| "run_plan_call D ou c u (CallDelete i) \<sigma> = snd (Plans_Delete D ou c u i \<sigma>)"
| "run_plan_call D ou c u (CallPublish i inp) \<sigma> = snd (Plans_Publish D ou c u i inp \<sigma>)"
| "run_plan_call D ou c u (CallUnpublish i) \<sigma> = snd (Unpublish D ou c u i \<sigma>)"
| "run_plan_call D ou c u (CallCopy j) \<sigma> = snd (SavePublicAsCopy D ou c u j \<sigma>)"
| "run_plan_call D ou c u (CallView j viewer) \<sigma> = snd (GetPublic D ou c j viewer \<sigma>)"

context plan_library
begin

lemma call_step:
  assumes "ok \<sigma>" "live c" "library_ok (lib \<sigma>)" "fresh_ids ou (lib \<sigma>)"
  shows "ok (run_plan_call D ou c u call \<sigma>) \<and> lib_step u (lib \<sigma>) (lib (run_plan_call D ou c u call \<sigma>))"
proof (cases call)
  case (CallSave inp)
  then show ?thesis using Save_step(1) [OF assms, of u inp] by (cases "Plans_Save D ou c u inp \<sigma>") simp
next
  case (CallRename i title)
  then show ?thesis using Rename_step(1) [OF assms(1-3), of ou u i title] by (cases "Rename D ou c u i title \<sigma>") simp
next
  case (CallEdit i inp)
  then show ?thesis using Edit_step(1) [OF assms(1-3), of ou u i inp] by (cases "Edit D ou c u i inp \<sigma>") simp
next
  case (CallDelete i)
  have "ou_now ou \<noteq> 0" using assms(4) by (simp add: fresh_ids_def)
  then show ?thesis using CallDelete Delete_step [OF assms(1-3), of ou u i] by (cases "Plans_Delete D ou c u i \<sigma>") simp
next
  case (CallPublish i inp)
  then show ?thesis using Publish_step(1) [OF assms, of u i inp] by (cases "Plans_Publish D ou c u i inp \<sigma>") simp
next
  case (CallUnpublish i)
  then show ?thesis using Unpublish_step [OF assms(1-3), of ou u i] by (cases "Unpublish D ou c u i \<sigma>") simp
next
  case (CallCopy j)
  then show ?thesis using Copy_step [OF assms, of u j] by (cases "SavePublicAsCopy D ou c u j \<sigma>") simp
next
  case (CallView j viewer)
  then show ?thesis using GetPublic_step [OF assms(1-3), of ou j viewer _ _ u] by (cases "GetPublic D ou c j viewer \<sigma>") simp
qed

end

text \<open>The service over the in-memory stores, the orders in which its maps are visited being arbitrary.\<close>

definition memory_plans ::
  "UserPlan visit_order \<Rightarrow> PublicPlan visit_order
     \<Rightarrow> (MemoryPlanStore, MemoryPublicPlanStore, MemoryPublicViewDeduper) plan_deps" where
  "memory_plans o1 o2 = \<lparr>pd_plans = MemoryPlanStore_ops o1, pd_publics = MemoryPublicPlanStore_ops o2,
     pd_viewDeduper = MemoryPublicViewDeduper_ops\<rparr>"

lemma memory_deps:
  "pst_Get (pd_plans (memory_plans o1 o2)) = MemoryPlanStore_Get"
  "pst_Update (pd_plans (memory_plans o1 o2)) = MemoryPlanStore_Update"
  "pst_SoftDelete (pd_plans (memory_plans o1 o2)) = MemoryPlanStore_SoftDelete"
  "qst_SetStatus (pd_publics (memory_plans o1 o2)) = MemoryPublicPlanStore_SetStatus"
  by (simp_all add: memory_plans_def MemoryPlanStore_ops_def MemoryPublicPlanStore_ops_def)

type_synonym memory_state = "(MemoryPlanStore, MemoryPublicPlanStore, MemoryPublicViewDeduper) plan_state"

definition new_plans :: "duration \<Rightarrow> memory_state" where
  "new_plans ttl = \<lparr>pl_plans = NewMemoryPlanStore, pl_publics = NewMemoryPublicPlanStore,
     pl_views = NewMemoryPublicViewDeduper ttl\<rparr>"

interpretation memory_library: plan_library "memory_plans o1 o2" mp_wf mp_plans mp_archives mq_wf mq_plans mq_events
  for o1 o2
  by (simp add: plan_library_def memory_plans_def memory_plans.plan_store_axioms memory_publics.public_store_axioms)

definition memory_view :: "memory_state \<Rightarrow> library" where
  "memory_view = lib_view mp_plans mp_archives mq_plans mq_events"

inductive plans_reach :: "UserPlan visit_order \<Rightarrow> PublicPlan visit_order \<Rightarrow> memory_state \<Rightarrow> bool" for o1 o2 where
  start: "plans_reach o1 o2 (new_plans ttl)"
| step: "plans_reach o1 o2 \<sigma> \<Longrightarrow> live c \<Longrightarrow> fresh_ids ou (memory_view \<sigma>) \<Longrightarrow>
    plans_reach o1 o2 (run_plan_call (memory_plans o1 o2) ou c u call \<sigma>)"

lemma new_library_ok [simp]: "library_ok (memory_view (new_plans ttl))"
  by (simp add: library_ok_def mirror_ok_def published_ok_def one_mirror_def archives_ok_def one_per_task_def
      counters_ok_def memory_view_def lib_view_def new_plans_def NewMemoryPlanStore_def NewMemoryPublicPlanStore_def
      mirror_def owned_def)

lemma reach_ok:
  assumes "plans_reach o1 o2 \<sigma>"
  shows "mp_wf (pl_plans \<sigma>) \<and> mq_wf (pl_publics \<sigma>) \<and> library_ok (memory_view \<sigma>)"
  using assms
proof induction
  case (start ttl)
  have "mp_wf (pl_plans (new_plans ttl)) \<and> mq_wf (pl_publics (new_plans ttl))" by (simp add: new_plans_def)
  then show ?case by simp
next
  case (step \<sigma> c ou u call)
  then show ?case
    using memory_library.call_step [of \<sigma> c ou o1 o2 u call] step_library_ok unfolding memory_view_def by blast
qed


subsection \<open>Isolation of owners\<close>

lemma lib_step_foreign:
  assumes "lib_step u L L'" "library_ok L"
  shows "lb_plans L i = Some p \<Longrightarrow> up_UserID p \<noteq> u \<Longrightarrow> lb_plans L' i = Some p"
    and "lb_archives L i = Some a \<Longrightarrow> ca_UserID a \<noteq> u \<Longrightarrow> lb_archives L' i = Some a"
    and "lb_pubs L j = Some x \<Longrightarrow> pp_UserID x \<noteq> u \<Longrightarrow>
      lb_pubs L' j = Some x \<or> (\<exists>kind t. lb_pubs L' j = Some (counted kind t x))"
proof -
  show "lb_plans L i = Some p \<Longrightarrow> up_UserID p \<noteq> u \<Longrightarrow> lb_plans L' i = Some p"
    using assms(1) by cases (auto simp: owned_def)
  have "archives_ok L" using assms(2) by (simp add: library_ok_def)
  then have known: "lb_archives L i = Some a \<Longrightarrow> \<exists>p. lb_plans L i = Some p" unfolding archives_ok_def by blast
  show "lb_archives L i = Some a \<Longrightarrow> ca_UserID a \<noteq> u \<Longrightarrow> lb_archives L' i = Some a"
    using assms(1) by cases (use known in auto)
  have m: "mirror_ok L" using assms(2) by (simp add: library_ok_def)
  show "lb_pubs L j = Some x \<Longrightarrow> pp_UserID x \<noteq> u \<Longrightarrow>
      lb_pubs L' j = Some x \<or> (\<exists>kind t. lb_pubs L' j = Some (counted kind t x))"
    using assms(1)
  proof cases
    case (change_mirror i p0 p k y z)
    then show "lb_pubs L j = Some x \<Longrightarrow> pp_UserID x \<noteq> u \<Longrightarrow> ?thesis"
      using mirror_facts(1,4) [OF m change_mirror(5,2)] by (cases "j = k") auto
  next
    case (delete_mirror i p0 now k y)
    then show "lb_pubs L j = Some x \<Longrightarrow> pp_UserID x \<noteq> u \<Longrightarrow> ?thesis"
      using mirror_facts(1,4) [OF m delete_mirror(5,2)] by (cases "j = k") auto
  next
    case (publish_again i p0 k y z now)
    then show "lb_pubs L j = Some x \<Longrightarrow> pp_UserID x \<noteq> u \<Longrightarrow> ?thesis"
      using mirror_facts(1,4) [OF m publish_again(3,2)] by (cases "j = k") auto
  next
    case (unpublish i p0 k y now)
    then show "lb_pubs L j = Some x \<Longrightarrow> pp_UserID x \<noteq> u \<Longrightarrow> ?thesis"
      using mirror_facts(1,4) [OF m unpublish(4,2)] by (cases "j = k") auto
  qed (auto, blast+)
qed

lemma memory_call:
  assumes "plans_reach o1 o2 \<sigma>" "live c" "fresh_ids ou (memory_view \<sigma>)"
  shows "lib_step u (memory_view \<sigma>) (memory_view (run_plan_call (memory_plans o1 o2) ou c u call \<sigma>))"
  using memory_library.call_step [of \<sigma> c ou o1 o2 u call] reach_ok [OF assms(1)] assms(2,3) unfolding memory_view_def by blast

lemma memory_view_sel [simp]:
  "lb_plans (memory_view \<sigma>) = mp_plans (pl_plans \<sigma>)" "lb_archives (memory_view \<sigma>) = mp_archives (pl_plans \<sigma>)"
  "lb_pubs (memory_view \<sigma>) = mq_plans (pl_publics \<sigma>)" "lb_events (memory_view \<sigma>) = mq_events (pl_publics \<sigma>)"
  by (simp_all add: memory_view_def lib_view_def)

text \<open>
  C9. Users cannot touch each other's libraries: whatever call a user makes, in any state that calls
  of any users have reached, the plans and the conversation archives of every other user stay as they
  are, and a public plan of another user changes at most in its counters and its update time.
\<close>

theorem owners_isolated:
  assumes "plans_reach o1 o2 \<sigma>" "live c" "fresh_ids ou (memory_view \<sigma>)"
    and "\<sigma>' = run_plan_call (memory_plans o1 o2) ou c u call \<sigma>"
  shows "(\<forall>i p. mp_plans (pl_plans \<sigma>) i = Some p \<longrightarrow> up_UserID p \<noteq> u \<longrightarrow> mp_plans (pl_plans \<sigma>') i = Some p)
    \<and> (\<forall>i a. mp_archives (pl_plans \<sigma>) i = Some a \<longrightarrow> ca_UserID a \<noteq> u \<longrightarrow> mp_archives (pl_plans \<sigma>') i = Some a)
    \<and> (\<forall>j x. mq_plans (pl_publics \<sigma>) j = Some x \<longrightarrow> pp_UserID x \<noteq> u \<longrightarrow>
         mq_plans (pl_publics \<sigma>') j = Some x \<or> (\<exists>kind t. mq_plans (pl_publics \<sigma>') j = Some (counted kind t x)))"
proof -
  note st = memory_call [OF assms(1-3), of u call, folded assms(4)]
  have ok: "library_ok (memory_view \<sigma>)" using reach_ok [OF assms(1)] by blast
  show ?thesis using lib_step_foreign [OF st ok, unfolded memory_view_sel] by blast
qed

text \<open>A first user of the library, who saves a plan of task \<open>t1\<close>.\<close>

definition plan_t1 :: TravelPlan where
  "plan_t1 = zero_plan\<lparr>pl_Title := ''Two days''\<rparr>"

definition snap_t1 :: TaskSnapshot where
  "snap_t1 = \<lparr>sn_TaskID = ''t1'', sn_UserID = ''ann'', sn_Status = TaskStatusSucceeded, sn_Plan = Some plan_t1,
     sn_Request = sample_request\<rparr>"

definition call_data :: "nat \<Rightarrow> outside" where
  "call_data n = \<lparr>ou_now = 1 + int n, ou_plan_id = [n], ou_pub_id = [n], ou_archive_id = [n],
     ou_tasks = Some (\<lambda>c i. if i = ''t1'' then Inr snap_t1 else Inl ErrPlanTaskNotFound), ou_authors = Some (\<lambda>c u. u)\<rparr>"

definition save_t1 :: SaveInput where
  "save_t1 = \<lparr>si_TaskID = ''t1'', si_Title = ''My trip'', si_Note = ''secret''\<rparr>"

definition ann_plan :: UserPlan where
  "ann_plan = saved_plan (call_data 0) ''ann'' save_t1 snap_t1 plan_t1"

definition ann_state :: memory_state where
  "ann_state = (new_plans 0)\<lparr>pl_plans := \<lparr>mp_plans = [up_ID ann_plan \<mapsto> ann_plan],
     mp_archives = [up_ID ann_plan \<mapsto> saved_archive (call_data 0) ann_plan snap_t1]\<rparr>\<rparr>"

lemma ann_plan_sel [simp]:
  "up_UserID ann_plan = ''ann''" "up_TaskID ann_plan = ''t1''" "up_PublishStatus ann_plan = PublishStatusDraft"
  "\<not> IsDeleted ann_plan" "up_ID ann_plan = ''plan_00''" "up_Title ann_plan = ''My trip''" "up_Note ann_plan = ''secret''"
proof -
  have t: "save_title save_t1 snap_t1 plan_t1 = ''My trip''" "TrimSpace ''secret'' = ''secret''" "NewUserPlanID [0] = ''plan_00''"
    by code_simp+
  show "up_UserID ann_plan = ''ann''" "up_TaskID ann_plan = ''t1''" "up_PublishStatus ann_plan = PublishStatusDraft"
    "\<not> IsDeleted ann_plan" "up_ID ann_plan = ''plan_00''" "up_Title ann_plan = ''My trip''" "up_Note ann_plan = ''secret''"
    by (simp_all add: ann_plan_def saved_plan_def t IsDeleted_def) (simp_all add: save_t1_def call_data_def t)
qed

lemma save_t1_checks: "save_checks (call_data 0) background ''ann'' save_t1 = Inr (snap_t1, plan_t1)"
proof -
  have "validateTitle (save_title save_t1 snap_t1 plan_t1) = Inr ()" by code_simp
  then show ?thesis by (simp add: save_checks_def call_data_def save_t1_def) (simp add: snap_t1_def)
qed

lemma ann_saved:
  "Plans_Save (memory_plans o1 o2) (call_data 0) background ''ann'' save_t1 (new_plans 0) = (Inr ann_plan, ann_state)"
  "mp_plans (pl_plans ann_state) = [''plan_00'' \<mapsto> ann_plan]"
  "mq_plans (pl_publics ann_state) = Map.empty"
proof -
  have none: "pst_GetByTaskID (pd_plans (memory_plans o1 o2)) background ''ann'' (si_TaskID save_t1) (pl_plans (new_plans 0)) = Inr None"
    using visit_lists [of "Map.empty" o1]
    by (simp add: memory_plans_def MemoryPlanStore_ops_def MemoryPlanStore_GetByTaskID_def new_plans_def NewMemoryPlanStore_def
        ranged_def List.map_filter_def lists_keys_def)
  have ids: "si_TaskID save_t1 \<noteq> []" by (simp add: save_t1_def)
  show "Plans_Save (memory_plans o1 o2) (call_data 0) background ''ann'' save_t1 (new_plans 0) = (Inr ann_plan, ann_state)"
    unfolding Plans_Save_def
    by (simp add: none ids save_t1_checks Let_def)
      (simp only: ann_plan_def [symmetric], simp add: memory_plans_def MemoryPlanStore_ops_def MemoryPlanStore_Create_def MemoryPlanStore_CreateArchive_def
        ann_state_def new_plans_def NewMemoryPlanStore_def saved_archive_def)
  show "mp_plans (pl_plans ann_state) = [''plan_00'' \<mapsto> ann_plan]" "mq_plans (pl_publics ann_state) = Map.empty"
    by (simp_all add: ann_state_def new_plans_def NewMemoryPublicPlanStore_def)
qed

lemma ann_reach: "plans_reach o1 o2 ann_state"
proof -
  have "fresh_ids (call_data 0) (memory_view (new_plans 0))"
    by (simp add: fresh_ids_def new_plans_def NewMemoryPlanStore_def NewMemoryPublicPlanStore_def call_data_def)
  from plans_reach.step [OF plans_reach.start live_background this, of o1 o2 "''ann''" "CallSave save_t1"]
  show ?thesis by (simp add: ann_saved)
qed

lemma ann_fresh:
  assumes "n \<noteq> 0" "n < 16"
  shows "fresh_ids (call_data n) (memory_view ann_state)"
proof -
  have "hex_digit 0 = CHR ''0''" by code_simp
  then have "hex_digit n \<noteq> CHR ''0''" using hex_digit_inj [of n 0] assms by simp
  then show ?thesis using assms by (simp add: fresh_ids_def ann_saved call_data_def NewUserPlanID_def)
qed

theorem owners_isolated_witness:
  "mp_plans (pl_plans (run_plan_call (memory_plans (Visit_order sorted_keys) (Visit_order sorted_keys)) (call_data 1) background
     ''bob'' (CallDelete (up_ID ann_plan)) ann_state)) (up_ID ann_plan) = Some ann_plan"
  using owners_isolated [OF ann_reach live_background ann_fresh [of 1] refl, of "''bob''" "Visit_order sorted_keys"
      "Visit_order sorted_keys" "CallDelete (up_ID ann_plan)"]
  by (simp add: ann_saved)



text \<open>
  A task is saved once: after a successful save, any later save of the same task by the same user,
  with whatever title and note, returns the plan of the first save and changes nothing; and that plan
  belongs to the caller.
\<close>

theorem Save_once:
  assumes "plans_reach o1 o2 \<sigma>" "live c" "fresh_ids ou (memory_view \<sigma>)"
    and "Plans_Save (memory_plans o1 o2) ou c u inp \<sigma> = (Inr p, \<sigma>1)"
    and "live c'" "si_TaskID inp' = si_TaskID inp"
  shows "Plans_Save (memory_plans o1 o2) ou' c' u inp' \<sigma>1 = (Inr p, \<sigma>1) \<and> up_UserID p = u"
proof -
  note ok = reach_ok [OF assms(1)]
  have st: "mp_wf (pl_plans \<sigma>) \<and> mq_wf (pl_publics \<sigma>)" "library_ok (lib_view mp_plans mp_archives mq_plans mq_events \<sigma>)"
    "fresh_ids ou (lib_view mp_plans mp_archives mq_plans mq_events \<sigma>)"
    using ok assms(3) by (simp_all add: memory_view_def)
  note s = memory_library.Save_step [OF st(1) assms(2) st(2,3) assms(4)]
  have ok1: "library_ok (lib_view mp_plans mp_archives mq_plans mq_events \<sigma>1)"
    using s(1) step_library_ok [OF _ st(2)] by blast
  note own = s(2) [OF refl]
  have "Plans_Save (memory_plans o1 o2) ou' c' u inp' \<sigma>1 = (Inr p, \<sigma>1)"
    using memory_library.Save_existing [OF conjunct1 [OF s(1)] assms(5) ok1, of u "up_ID p" p inp' o1 o2 ou'] own assms(6)
    by auto
  then show ?thesis using own by (simp add: owned_def)
qed

theorem Save_once_witness:
  "Plans_Save (memory_plans (Visit_order sorted_keys) (Visit_order sorted_keys)) (call_data 7) background ''ann''
     (save_t1\<lparr>si_Title := ''Other''\<rparr>) ann_state = (Inr ann_plan, ann_state)"
proof -
  have "fresh_ids (call_data 0) (memory_view (new_plans 0))"
    by (simp add: fresh_ids_def new_plans_def NewMemoryPlanStore_def NewMemoryPublicPlanStore_def call_data_def)
  from Save_once [OF plans_reach.start live_background this ann_saved(1) live_background, of "save_t1\<lparr>si_Title := ''Other''\<rparr>"]
  show ?thesis by simp
qed


text \<open>Ann publishes her plan with the texts it has.\<close>

definition no_texts :: PublishInput where
  "no_texts = \<lparr>pi_Title = [], pi_Summary = [], pi_Tags = []\<rparr>"

definition ann_pub :: PublicPlan where
  "ann_pub = rescore (published (call_data 2) background ann_plan no_texts None)"

definition ann_public :: memory_state where
  "ann_public = ann_state\<lparr>pl_plans := (pl_plans ann_state)\<lparr>mp_plans := [''plan_00'' \<mapsto> ann_plan\<lparr>up_Visibility := VisibilityPublic,
       up_PublishStatus := PublishStatusPublished, up_UpdatedAt := 3\<rparr>]\<rparr>,
     pl_publics := \<lparr>mq_plans = [''pub_02'' \<mapsto> ann_pub], mq_planToPubID = [''plan_00'' \<mapsto> ''pub_02''], mq_events = []\<rparr>\<rparr>"

lemma ann_pub_sel [simp]:
  "pp_ID ann_pub = ''pub_02''" "pp_PlanID ann_pub = ''plan_00''" "pp_Status ann_pub = PublicPlanStatusPublished"
proof -
  have "NewPublicPlanID [2] = ''pub_02''" by code_simp
  then show "pp_ID ann_pub = ''pub_02''" "pp_PlanID ann_pub = ''plan_00''" "pp_Status ann_pub = PublicPlanStatusPublished"
    by (simp_all add: ann_pub_def published_def call_data_def)
qed

lemma ann_published:
  "Plans_Publish (memory_plans o1 o2) (call_data 2) background ''ann'' ''plan_00'' no_texts ann_state = (Inr ann_pub, ann_public)"
proof -
  have v: "validateTitle (publish_title ann_plan no_texts) = Inr ()"
  proof -
    have "validateTitle ''My trip'' = Inr ()" by code_simp
    then show ?thesis by (simp add: publish_title_def no_texts_def)
  qed
  have g: "pst_Get (pd_plans (memory_plans o1 o2)) background ''plan_00'' ''ann'' (pl_plans ann_state) = Inr ann_plan"
    by (simp add: memory_plans_def MemoryPlanStore_ops_def MemoryPlanStore_Get_def ann_saved)
  have b: "qst_GetByPlanID (pd_publics (memory_plans o1 o2)) background ''plan_00'' (pl_publics ann_state) = Inr None"
    by (simp add: memory_plans_def MemoryPublicPlanStore_ops_def MemoryPublicPlanStore_GetByPlanID_def ann_state_def
        new_plans_def NewMemoryPublicPlanStore_def)
  let ?P = "published (call_data 2) background ann_plan no_texts None"
  have P: "pp_ID ?P = ''pub_02''" "pp_PlanID ?P = ''plan_00''" "ou_now (call_data 2) = 3"
    using ann_pub_sel by (simp_all add: ann_pub_def call_data_def)
  have u: "qst_Upsert (pd_publics (memory_plans o1 o2)) background ?P (pl_publics ann_state) = (Inr (), pl_publics ann_public)"
    by (simp add: memory_plans_def MemoryPublicPlanStore_ops_def MemoryPublicPlanStore_Upsert_def ann_state_def ann_public_def
        new_plans_def NewMemoryPublicPlanStore_def stable_id_def keep_counters_def Let_def P ann_pub_def)
  show ?thesis
    unfolding Plans_Publish_def
    by (simp add: g v b u Let_def P(1,3))
      (simp add: memory_plans_def MemoryPlanStore_ops_def MemoryPlanStore_Update_def MemoryPublicPlanStore_ops_def
        MemoryPublicPlanStore_Get_def ann_saved, simp add: ann_public_def ann_saved P(1))
qed

lemma ann_public_reach: "plans_reach o1 o2 ann_public"
  using plans_reach.step [OF ann_reach live_background ann_fresh [of 2], of o1 o2 "''ann''" "CallPublish ''plan_00'' no_texts"]
  by (simp add: ann_published)

lemma ann_public_fresh:
  assumes "3 \<le> n" "n < 16"
  shows "fresh_ids (call_data n) (memory_view ann_public)"
proof -
  have h: "hex_digit 0 = CHR ''0''" "hex_digit 2 = CHR ''2''" by code_simp+
  have "hex_digit n \<noteq> CHR ''0''" "hex_digit n \<noteq> CHR ''2''"
    using hex_digit_inj [of n 0] hex_digit_inj [of n 2] assms unfolding h by auto
  then show ?thesis using assms by (simp add: fresh_ids_def ann_public_def call_data_def NewUserPlanID_def NewPublicPlanID_def)
qed

lemma ann_read:
  "\<exists>x \<sigma>'. GetPublic (memory_plans o1 o2) ou background ''pub_02'' viewer ann_public = (Inr x, \<sigma>') \<and> pp_PlanID x = ''plan_00''"
proof -
  have g: "qst_Get (pd_publics (memory_plans o1 o2)) background ''pub_02'' (pl_publics ann_public) = Inr ann_pub"
    by (simp add: memory_plans_def MemoryPublicPlanStore_ops_def MemoryPublicPlanStore_Get_def ann_public_def)
  show ?thesis by (simp add: GetPublic_def g Let_def split: prod.split)
qed



text \<open>
  The counters of a public plan agree with the audit log: in every reachable state its view and
  save counts are the numbers of view and save events recorded for it (as \<open>int64\<close>, which wraps), its
  copy count is 0, its hot score is computed from them, and every recorded event is of an existing
  public plan.
\<close>

theorem counters_match_log:
  assumes "plans_reach o1 o2 \<sigma>" "mq_plans (pl_publics \<sigma>) j = Some x"
  shows "pp_ViewCount x = wrap64 (count_events (mq_events (pl_publics \<sigma>)) j CounterView)
    \<and> pp_SaveCount x = wrap64 (count_events (mq_events (pl_publics \<sigma>)) j CounterSave)
    \<and> pp_CopyCount x = 0 \<and> pp_HotScore x = wrap64 (pp_ViewCount x + 5 * pp_SaveCount x)
    \<and> (\<forall>e \<in> set (mq_events (pl_publics \<sigma>)). mq_plans (pl_publics \<sigma>) (pe_PublicPlanID e) \<noteq> None)"
proof -
  have c: "counters_ok (memory_view \<sigma>)" using reach_ok [OF assms(1)] by (simp add: library_ok_def)
  note d = counters_okD [OF c, of j x]
  have "\<forall>e \<in> set (mq_events (pl_publics \<sigma>)). mq_plans (pl_publics \<sigma>) (pe_PublicPlanID e) \<noteq> None"
    using c unfolding counters_ok_def by simp
  then show ?thesis using d assms(2) by (simp add: computeHotScore_def mult.commute)
qed

theorem counters_match_log_witness:
  "mq_plans (pl_publics ann_public) ''pub_02'' = Some ann_pub \<and> pp_ViewCount ann_pub = wrap64 (count_events [] ''pub_02'' CounterView)"
proof -
  have "mq_plans (pl_publics ann_public) ''pub_02'' = Some ann_pub" "mq_events (pl_publics ann_public) = []"
    by (simp_all add: ann_public_def)
  then show ?thesis
    using counters_match_log [OF ann_public_reach [of "Visit_order sorted_keys" "Visit_order sorted_keys"], of "''pub_02''" ann_pub]
    by simp
qed

lemma lib_step_entry:
  assumes "lib_step u L L'" "lb_pubs L j = Some x"
  shows "\<exists>y. lb_pubs L' j = Some y \<and> pp_PlanID y = pp_PlanID x \<and> pp_PublishedAt y = pp_PublishedAt x"
  using assms by cases (auto simp: mirror_def same_entryD)

text \<open>
  A withdrawn plan is gone from the public side at once, and comes back under its old identity:
  after a successful unpublication or deletion of a plan with public entry \<open>j\<close>, reading \<open>j\<close> is answered
  with not found and saving a copy of it with an error, without any effect; and a later publication of
  the plan keeps the id, the first publication date and the counters of the entry.
\<close>

theorem withdrawn_not_readable:
  assumes "plans_reach o1 o2 \<sigma>" "live c" "fresh_ids ou (memory_view \<sigma>)"
    and "mq_plans (pl_publics \<sigma>) j = Some x" "pp_PlanID x = i"
    and "Unpublish (memory_plans o1 o2) ou c u i \<sigma> = (Inr (), \<sigma>1) \<or> Plans_Delete (memory_plans o1 o2) ou c u i \<sigma> = (Inr (), \<sigma>1)"
    and "live c'" "fresh_ids ou' (memory_view \<sigma>1)"
  shows "fst (GetPublic (memory_plans o1 o2) ou' c' j viewer \<sigma>1) = Inl ErrPublicPlanNotFound
    \<and> (\<exists>e. SavePublicAsCopy (memory_plans o1 o2) ou' c' v j \<sigma>1 = (Inl e, \<sigma>1))
    \<and> (\<forall>y \<sigma>2. Plans_Publish (memory_plans o1 o2) ou' c' u i inp \<sigma>1 = (Inr y, \<sigma>2) \<longrightarrow>
         pp_ID y = j \<and> pp_PublishedAt y = pp_PublishedAt x \<and> same_counters x y)"
proof -
  note ok = reach_ok [OF assms(1)]
  have st: "mp_wf (pl_plans \<sigma>) \<and> mq_wf (pl_publics \<sigma>)" "library_ok (lib_view mp_plans mp_archives mq_plans mq_events \<sigma>)"
    using ok by (simp_all add: memory_view_def)
  have now: "ou_now ou \<noteq> 0" using assms(3) by (simp add: fresh_ids_def)
  have mem: "lb_pubs (memory_view \<sigma>) j = Some x" using assms(4) by simp
  have w: "(mp_wf (pl_plans \<sigma>1) \<and> mq_wf (pl_publics \<sigma>1)) \<and> lib_step u (memory_view \<sigma>) (memory_view \<sigma>1)
      \<and> (\<exists>p. lb_plans (memory_view \<sigma>1) i = Some p \<and> \<not> shown p)
      \<and> lb_events (memory_view \<sigma>1) = lb_events (memory_view \<sigma>)"
    using assms(6)
  proof
    assume "Unpublish (memory_plans o1 o2) ou c u i \<sigma> = (Inr (), \<sigma>1)"
    from memory_library.Unpublish_step [OF st(1) assms(2) st(2) this] show ?thesis
      by (auto simp: memory_view_def lib_view_def shown_def plan_status_defs)
  next
    assume "Plans_Delete (memory_plans o1 o2) ou c u i \<sigma> = (Inr (), \<sigma>1)"
    from memory_library.Delete_step [OF st(1) assms(2) st(2) now this] show ?thesis
      by (auto simp: memory_view_def lib_view_def shown_def)
  qed
  have ok1: "library_ok (memory_view \<sigma>1)" using step_library_ok w ok by blast
  then have ok1': "library_ok (lib_view mp_plans mp_archives mq_plans mq_events \<sigma>1)" by (simp add: memory_view_def)
  obtain x1 where x1: "lb_pubs (memory_view \<sigma>1) j = Some x1" "pp_PlanID x1 = i" "pp_PublishedAt x1 = pp_PublishedAt x"
    using lib_step_entry [OF _ mem] w assms(5) by blast
  have sc: "same_counters x x1"
    using counters_okD [of "memory_view \<sigma>" j x] counters_okD [of "memory_view \<sigma>1" j x1] ok ok1 w x1(1) mem
    by (simp add: same_counters_def library_ok_def)
  have hidden: "\<not> visible x1"
    using mirror_okD(2) [of "memory_view \<sigma>1" j x1] ok1 w x1(1,2) by (auto simp: library_ok_def)
  then have gone: "\<nexists>x. lb_pubs (memory_view \<sigma>1) j = Some x \<and> visible x" using x1(1) by simp
  have st1: "mp_wf (pl_plans \<sigma>1) \<and> mq_wf (pl_publics \<sigma>1)" using w by blast
  have "fst (GetPublic (memory_plans o1 o2) ou' c' j viewer \<sigma>1) = Inl ErrPublicPlanNotFound"
    using memory_library.GetPublic_step [OF st1 assms(7) ok1', of o1 o2 ou' j viewer _ _ u] gone
    by (cases "GetPublic (memory_plans o1 o2) ou' c' j viewer \<sigma>1") (auto simp: memory_view_def)
  moreover have "\<exists>e. SavePublicAsCopy (memory_plans o1 o2) ou' c' v j \<sigma>1 = (Inl e, \<sigma>1)"
    using memory_library.Copy_step [OF st1 assms(7) ok1' assms(8) [unfolded memory_view_def], of o1 o2 v j] gone
    by (cases "SavePublicAsCopy (memory_plans o1 o2) ou' c' v j \<sigma>1") (auto simp: memory_view_def)
  moreover have "pp_ID y = j \<and> pp_PublishedAt y = pp_PublishedAt x \<and> same_counters x y"
    if p: "Plans_Publish (memory_plans o1 o2) ou' c' u i inp \<sigma>1 = (Inr y, \<sigma>2)" for y \<sigma>2
  proof -
    have "mirror (memory_view \<sigma>1) i j x1" using x1 by (simp add: mirror_def)
    then have e: "same_entry x1 y"
      using memory_library.Publish_step(2) [OF st1 assms(7) ok1' assms(8) [unfolded memory_view_def] p refl]
      by (simp add: memory_view_def)
    have "pp_ID x1 = j" using mirror_okD(1) [of "memory_view \<sigma>1" j x1] ok1 x1(1) by (simp add: library_ok_def)
    then show ?thesis using e sc x1(3) by (auto simp: same_entry_def same_counters_def)
  qed
  ultimately show ?thesis by blast
qed


lemma ann_unpublished:
  "\<exists>\<sigma>1. Unpublish (memory_plans o1 o2) (call_data 3) background ''ann'' ''plan_00'' ann_public = (Inr (), \<sigma>1)
     \<and> fresh_ids (call_data 4) (memory_view \<sigma>1)"
proof -
  let ?p = "ann_plan\<lparr>up_Visibility := VisibilityPublic, up_PublishStatus := PublishStatusPublished, up_UpdatedAt := 3\<rparr>"
  have g: "pst_Get (pd_plans (memory_plans o1 o2)) background ''plan_00'' ''ann'' (pl_plans ann_public) = Inr ?p"
    by (simp add: memory_deps MemoryPlanStore_Get_def ann_public_def)
  have b: "qst_GetByPlanID (pd_publics (memory_plans o1 o2)) background ''plan_00'' (pl_publics ann_public) = Inr (Some ann_pub)"
    by (simp add: memory_plans_def MemoryPublicPlanStore_ops_def MemoryPublicPlanStore_GetByPlanID_def ann_public_def)
  have id: "NewUserPlanID [4] \<noteq> ''plan_00''" "NewPublicPlanID [4] \<noteq> ''pub_02''"
    using ann_public_fresh [of 4] by (simp_all add: fresh_ids_def ann_public_def call_data_def split: if_splits)
  show ?thesis
    unfolding Unpublish_def
    by (simp add: g b Let_def)
      (simp add: memory_deps MemoryPublicPlanStore_SetStatus_def MemoryPlanStore_Update_def ann_public_def fresh_ids_def
        call_data_def id)
qed

theorem withdrawn_not_readable_witness:
  "\<exists>\<sigma>1. Unpublish (memory_plans (Visit_order sorted_keys) (Visit_order sorted_keys)) (call_data 3) background ''ann'' ''plan_00''
       ann_public = (Inr (), \<sigma>1)
     \<and> fst (GetPublic (memory_plans (Visit_order sorted_keys) (Visit_order sorted_keys)) (call_data 4) background ''pub_02''
       \<lparr>pv_UserID = ''bob'', pv_ClientHash = []\<rparr> \<sigma>1) = Inl ErrPublicPlanNotFound"
proof -
  let ?o1 = "Visit_order sorted_keys :: UserPlan visit_order" and ?o2 = "Visit_order sorted_keys :: PublicPlan visit_order"
  obtain \<sigma>1 where u: "Unpublish (memory_plans ?o1 ?o2) (call_data 3) background ''ann'' ''plan_00'' ann_public = (Inr (), \<sigma>1)"
    and f: "fresh_ids (call_data 4) (memory_view \<sigma>1)" using ann_unpublished by blast
  have x: "mq_plans (pl_publics ann_public) ''pub_02'' = Some ann_pub" by (simp add: ann_public_def)
  have f3: "fresh_ids (call_data 3) (memory_view ann_public)" by (rule ann_public_fresh) simp_all
  from withdrawn_not_readable [OF ann_public_reach live_background f3 x ann_pub_sel(2) disjI1 [OF u] live_background f] u
  show ?thesis by blast
qed

subsection \<open>What stays private\<close>

definition forget_note :: "UserPlan \<Rightarrow> UserPlan" where
  "forget_note p = p\<lparr>up_Note := []\<rparr>"

text \<open>Two states that differ at most in the notes of the plans and in the conversation archives.\<close>

definition same_but_private :: "memory_state \<Rightarrow> memory_state \<Rightarrow> bool" where
  "same_but_private \<sigma> \<tau> \<longleftrightarrow> pl_publics \<tau> = pl_publics \<sigma> \<and> pl_views \<tau> = pl_views \<sigma>
     \<and> (\<forall>i. map_option forget_note (mp_plans (pl_plans \<tau>) i) = map_option forget_note (mp_plans (pl_plans \<sigma>) i))"

lemma forget_note_eq: "forget_note q = forget_note p \<Longrightarrow> q = p\<lparr>up_Note := up_Note q\<rparr>"
  by (cases p; cases q) (simp add: forget_note_def)

lemma same_plan_at:
  assumes "same_but_private \<sigma> \<tau>"
  shows "mp_plans (pl_plans \<sigma>) i = None \<Longrightarrow> mp_plans (pl_plans \<tau>) i = None"
    and "mp_plans (pl_plans \<sigma>) i = Some p \<Longrightarrow> \<exists>n. mp_plans (pl_plans \<tau>) i = Some (p\<lparr>up_Note := n\<rparr>)"
proof -
  have m: "map_option forget_note (mp_plans (pl_plans \<tau>) i) = map_option forget_note (mp_plans (pl_plans \<sigma>) i)"
    using assms by (simp add: same_but_private_def)
  show "mp_plans (pl_plans \<sigma>) i = None \<Longrightarrow> mp_plans (pl_plans \<tau>) i = None" using m by simp
  assume "mp_plans (pl_plans \<sigma>) i = Some p"
  then obtain q where "mp_plans (pl_plans \<tau>) i = Some q" "forget_note q = forget_note p" using m by auto
  then show "\<exists>n. mp_plans (pl_plans \<tau>) i = Some (p\<lparr>up_Note := n\<rparr>)" using forget_note_eq by metis
qed

lemma IsDeleted_note [simp]: "IsDeleted (p\<lparr>up_Note := n\<rparr>) = IsDeleted p"
  by (simp add: IsDeleted_def)

lemma same_get [consumes 1, case_names err got]:
  assumes "same_but_private \<sigma> \<tau>"
  obtains (err) e where "MemoryPlanStore_Get c i u (pl_plans \<sigma>) = Inl e" "MemoryPlanStore_Get c i u (pl_plans \<tau>) = Inl e"
  | (got) p n where "MemoryPlanStore_Get c i u (pl_plans \<sigma>) = Inr p" "MemoryPlanStore_Get c i u (pl_plans \<tau>) = Inr (p\<lparr>up_Note := n\<rparr>)"
proof (cases "mp_plans (pl_plans \<sigma>) i")
  case None
  then show thesis using err same_plan_at(1) [OF assms None]
    by (cases "ctx_Err c") (auto simp: MemoryPlanStore_Get_def)
next
  case (Some p)
  then obtain n where "mp_plans (pl_plans \<tau>) i = Some (p\<lparr>up_Note := n\<rparr>)" using same_plan_at(2) [OF assms] by blast
  then show thesis using err got Some
    by (cases "ctx_Err c"; cases "up_UserID p \<noteq> u \<or> IsDeleted p") (auto simp: MemoryPlanStore_Get_def)
qed

text \<open>An update, or a deletion, succeeds in both states or in neither.\<close>

lemma same_update:
  assumes "same_but_private \<sigma> \<tau>"
  shows "fst (MemoryPlanStore_Update c (p\<lparr>up_Note := n\<rparr>) (pl_plans \<tau>)) = fst (MemoryPlanStore_Update c p (pl_plans \<sigma>))"
proof (cases "mp_plans (pl_plans \<sigma>) (up_ID p)")
  case None
  then show ?thesis using same_plan_at(1) [OF assms None] by (simp add: MemoryPlanStore_Update_def split: option.split)
next
  case (Some q)
  then obtain m where "mp_plans (pl_plans \<tau>) (up_ID p) = Some (q\<lparr>up_Note := m\<rparr>)" using same_plan_at(2) [OF assms] by blast
  then show ?thesis using Some by (simp add: MemoryPlanStore_Update_def split: option.split)
qed

lemma same_delete:
  assumes "same_but_private \<sigma> \<tau>"
  shows "fst (MemoryPlanStore_SoftDelete c i u t (pl_plans \<tau>)) = fst (MemoryPlanStore_SoftDelete c i u t (pl_plans \<sigma>))"
proof (cases "mp_plans (pl_plans \<sigma>) i")
  case None
  then show ?thesis using same_plan_at(1) [OF assms None] by (simp add: MemoryPlanStore_SoftDelete_def split: option.split)
next
  case (Some q)
  then obtain m where "mp_plans (pl_plans \<tau>) i = Some (q\<lparr>up_Note := m\<rparr>)" using same_plan_at(2) [OF assms] by blast
  then show ?thesis using Some by (simp add: MemoryPlanStore_SoftDelete_def split: option.split)
qed


lemma fst_eq_cases [consumes 1, case_names err ok]:
  assumes "fst a = fst b"
  obtains (err) e x y where "a = (Inl e, x)" "b = (Inl e, y)" | (ok) v x y where "a = (Inr v, x)" "b = (Inr v, y)"
  using assms by (cases a; cases b; cases "fst a") auto

text \<open>The public part of a state.\<close>

abbreviation public_part :: "memory_state \<Rightarrow> MemoryPublicPlanStore \<times> MemoryPublicViewDeduper" where
  "public_part \<sigma> \<equiv> (pl_publics \<sigma>, pl_views \<sigma>)"

lemma sync_same:
  assumes "public_part \<tau> = public_part \<sigma>"
  shows "public_part (sync_public D c (p\<lparr>up_Note := n\<rparr>) change \<tau>) = public_part (sync_public D c p change \<sigma>)"
  using assms by (auto simp: sync_public_def split: sum.split option.split)

definition set_note :: "string \<Rightarrow> plans_err + UserPlan \<Rightarrow> plans_err + UserPlan" where
  "set_note n r = (case r of Inl e \<Rightarrow> Inl e | Inr q \<Rightarrow> Inr (q\<lparr>up_Note := n\<rparr>))"

lemma edited_note: "\<exists>m. edited ou inp (p\<lparr>up_Note := n\<rparr>) = set_note m (edited ou inp p)"
proof -
  obtain m where t: "edit_texts inp (q\<lparr>up_Note := n\<rparr>) = (edit_texts inp q)\<lparr>up_Note := m\<rparr>" for q
  proof (cases "ei_Note inp")
    case None
    then show thesis using that [of n] by (simp add: edit_texts_def Let_def split: option.split)
  next
    case (Some m)
    then show thesis using that [of "TrimSpace m"] by (simp add: edit_texts_def Let_def split: option.split)
  qed
  have "edit_visibility inp (q\<lparr>up_Note := m\<rparr>) = set_note m (edit_visibility inp q)" for q m
    by (simp add: edit_visibility_def set_note_def Let_def split: option.split)
  then have v: "edit_visibility inp (edit_texts inp (q\<lparr>up_Note := n\<rparr>)) = set_note m (edit_visibility inp (edit_texts inp q))" for q
    by (simp add: t)
  show ?thesis
  proof (cases "edit_title inp p")
    case (Inl e)
    then have "edit_title inp (p\<lparr>up_Note := n\<rparr>) = Inl e" by (auto simp: edit_title_def split: option.splits sum.splits)
        (cases "validateTitle (the (ei_Title inp))"; simp)+
    then show ?thesis using Inl by (simp add: edited_def set_note_def)
  next
    case (Inr q)
    then have "edit_title inp (p\<lparr>up_Note := n\<rparr>) = Inr (q\<lparr>up_Note := n\<rparr>)"
      by (cases "ei_Title inp") (auto simp: edit_title_def and_then_Inr_iff)
    then have "edited ou inp (p\<lparr>up_Note := n\<rparr>) = set_note m (edited ou inp p)"
      using Inr v by (cases "edit_visibility inp (edit_texts inp q)") (simp_all add: edited_def set_note_def)
    then show ?thesis by blast
  qed
qed

lemma same_rename:
  assumes "same_but_private \<sigma> \<tau>"
  shows "public_part (snd (Rename (memory_plans o1 o2) ou c u i title \<tau>)) = public_part (snd (Rename (memory_plans o1 o2) ou c u i title \<sigma>))"
using assms
proof (cases rule: same_get [where c = c and i = i and u = u])
  case (err e)
  then show ?thesis using assms by (simp add: Rename_def memory_deps same_but_private_def)
next
  case (got p n)
  show ?thesis
  proof (cases "validateTitle title")
    case (Inl e)
    then show ?thesis using got assms by (simp add: Rename_def memory_deps same_but_private_def)
  next
    case (Inr w)
    let ?p = "p\<lparr>up_Title := TrimSpace title, up_UpdatedAt := ou_now ou\<rparr>"
    have q: "(p\<lparr>up_Note := n\<rparr>)\<lparr>up_Title := TrimSpace title, up_UpdatedAt := ou_now ou\<rparr> = ?p\<lparr>up_Note := n\<rparr>" by simp
    have ch: "rename_public (?p\<lparr>up_Note := n\<rparr>) = rename_public ?p" by (simp add: rename_public_def fun_eq_iff)
    show ?thesis
      using same_update [OF assms, where c = c and p = ?p and n = n]
    proof (cases rule: fst_eq_cases)
      case (err e x y)
      then show ?thesis using got Inr assms by (simp add: Rename_def memory_deps Let_def q same_but_private_def)
    next
      case (ok v x y)
      then show ?thesis using got Inr assms sync_same [of "\<tau>\<lparr>pl_plans := x\<rparr>" "\<sigma>\<lparr>pl_plans := y\<rparr>"]
        by (simp add: Rename_def memory_deps Let_def q ch same_but_private_def)
    qed
  qed
qed


lemma same_edit:
  assumes "same_but_private \<sigma> \<tau>"
  shows "public_part (snd (Edit (memory_plans o1 o2) ou c u i inp \<tau>)) = public_part (snd (Edit (memory_plans o1 o2) ou c u i inp \<sigma>))"
  using assms
proof (cases rule: same_get [where c = c and i = i and u = u])
  case (err e)
  then show ?thesis using assms by (simp add: Edit_def memory_deps same_but_private_def)
next
  case (got p n)
  obtain m where m: "edited ou inp (p\<lparr>up_Note := n\<rparr>) = set_note m (edited ou inp p)" using edited_note by blast
  show ?thesis
  proof (cases "edited ou inp p")
    case (Inl e)
    then show ?thesis using got m assms by (simp add: Edit_def memory_deps set_note_def same_but_private_def)
  next
    case (Inr q)
    have ch: "edit_public (q\<lparr>up_Note := m\<rparr>) = edit_public q" by (simp add: edit_public_def fun_eq_iff)
    show ?thesis
      using same_update [OF assms, where c = c and p = q and n = m]
    proof (cases rule: fst_eq_cases)
      case (err e x y)
      then show ?thesis using got m Inr assms by (simp add: Edit_def memory_deps set_note_def same_but_private_def)
    next
      case (ok v x y)
      then show ?thesis using got m Inr assms sync_same [of "\<tau>\<lparr>pl_plans := x\<rparr>" "\<sigma>\<lparr>pl_plans := y\<rparr>"]
        by (simp add: Edit_def memory_deps set_note_def ch same_but_private_def)
    qed
  qed
qed

lemma same_delete_call:
  assumes "same_but_private \<sigma> \<tau>"
  shows "public_part (snd (Plans_Delete (memory_plans o1 o2) ou c u i \<tau>)) = public_part (snd (Plans_Delete (memory_plans o1 o2) ou c u i \<sigma>))"
  using assms
proof (cases rule: same_get [where c = c and i = i and u = u])
  case (err e)
  then show ?thesis using assms by (simp add: Plans_Delete_def memory_deps same_but_private_def)
next
  case (got p n)
  show ?thesis
    using same_delete [OF assms, where c = c and i = "up_ID p" and u = u and t = "ou_now ou"]
  proof (cases rule: fst_eq_cases)
    case (err e x y)
    then show ?thesis using got assms by (simp add: Plans_Delete_def memory_deps same_but_private_def)
  next
    case (ok v x y)
    then show ?thesis using got assms
      by (simp add: Plans_Delete_def memory_deps Let_def same_but_private_def split: sum.split option.split)
  qed
qed

lemma same_publish:
  assumes "same_but_private \<sigma> \<tau>"
  shows "public_part (snd (Plans_Publish (memory_plans o1 o2) ou c u i inp \<tau>)) = public_part (snd (Plans_Publish (memory_plans o1 o2) ou c u i inp \<sigma>))
    \<and> fst (Plans_Publish (memory_plans o1 o2) ou c u i inp \<tau>) = fst (Plans_Publish (memory_plans o1 o2) ou c u i inp \<sigma>)"
  using assms
proof (cases rule: same_get [where c = c and i = i and u = u])
  case (err e)
  then show ?thesis using assms by (simp add: Plans_Publish_def memory_deps same_but_private_def)
next
  case (got p n)
  have t: "publish_title (p\<lparr>up_Note := n\<rparr>) inp = publish_title p inp" by (simp add: publish_title_def Let_def)
  have e: "published ou c (p\<lparr>up_Note := n\<rparr>) inp ex = published ou c p inp ex" for ex by (simp add: published_def t Let_def split: option.split)
  have q: "pl_publics \<tau> = pl_publics \<sigma>" "pl_views \<tau> = pl_views \<sigma>" using assms by (simp_all add: same_but_private_def)
  let ?p = "p\<lparr>up_Visibility := VisibilityPublic, up_PublishStatus := PublishStatusPublished, up_UpdatedAt := ou_now ou\<rparr>"
  have p: "(p\<lparr>up_Note := n\<rparr>)\<lparr>up_Visibility := VisibilityPublic, up_PublishStatus := PublishStatusPublished, up_UpdatedAt := ou_now ou\<rparr>
      = ?p\<lparr>up_Note := n\<rparr>" by simp
  show ?thesis
  proof (cases "validateTitle (publish_title p inp)")
    case (Inl e)
    then show ?thesis using got q by (simp add: Plans_Publish_def memory_deps t)
  next
    case (Inr w)
    show ?thesis
      using same_update [OF assms, where c = c and p = ?p and n = n]
    proof (cases rule: fst_eq_cases)
      case (err e' x y)
      then show ?thesis using got q Inr
        by (simp add: Plans_Publish_def memory_deps Let_def t e p split: prod.split sum.split)
    next
      case (ok v x y)
      then show ?thesis using got q Inr
        by (simp add: Plans_Publish_def memory_deps Let_def t e p split: prod.split sum.split)
    qed
  qed
qed

definition hidden_entry :: "('s, 'q, 'v) plan_deps \<Rightarrow> outside \<Rightarrow> ctx \<Rightarrow> string \<Rightarrow> 'q \<Rightarrow> (plans_err + unit) \<times> 'q" where
  "hidden_entry D ou c i q = (case qst_GetByPlanID (pd_publics D) c i q of
     Inr (Some pub) \<Rightarrow> qst_SetStatus (pd_publics D) c (pp_ID pub) PublicPlanStatusUnpublished (ou_now ou) q
   | _ \<Rightarrow> (Inr (), q))"

lemma Unpublish_public:
  assumes "pst_Get (pd_plans D) c i u (pl_plans \<sigma>) = Inr p"
  shows "pl_publics (snd (Unpublish D ou c u i \<sigma>))
      = (if up_PublishStatus p \<noteq> PublishStatusPublished then pl_publics \<sigma> else snd (hidden_entry D ou c (up_ID p) (pl_publics \<sigma>)))"
    and "pl_views (snd (Unpublish D ou c u i \<sigma>)) = pl_views \<sigma>"
proof -
  obtain r q where h: "hidden_entry D ou c (up_ID p) (pl_publics \<sigma>) = (r, q)" by fastforce
  show "pl_publics (snd (Unpublish D ou c u i \<sigma>))
      = (if up_PublishStatus p \<noteq> PublishStatusPublished then pl_publics \<sigma> else snd (hidden_entry D ou c (up_ID p) (pl_publics \<sigma>)))"
    "pl_views (snd (Unpublish D ou c u i \<sigma>)) = pl_views \<sigma>"
    using h by (cases r; simp add: Unpublish_def assms Let_def hidden_entry_def [symmetric] split: prod.split)+
qed

lemma same_unpublish:
  assumes "same_but_private \<sigma> \<tau>"
  shows "public_part (snd (Unpublish (memory_plans o1 o2) ou c u i \<tau>)) = public_part (snd (Unpublish (memory_plans o1 o2) ou c u i \<sigma>))"
  using assms
proof (cases rule: same_get [where c = c and i = i and u = u])
  case (err e)
  then show ?thesis using assms by (simp add: Unpublish_def memory_deps same_but_private_def)
next
  case (got p n)
  have q: "pl_publics \<tau> = pl_publics \<sigma>" "pl_views \<tau> = pl_views \<sigma>" using assms by (simp_all add: same_but_private_def)
  show ?thesis
    using Unpublish_public [of "memory_plans o1 o2" c i u \<sigma> p ou] Unpublish_public [of "memory_plans o1 o2" c i u \<tau> _ ou] got q
    by (simp add: memory_deps)
qed

lemma same_save:
  "public_part (snd (Plans_Save D ou c u inp \<sigma>)) = public_part \<sigma>"
  by (simp add: Plans_Save_def Let_def split: prod.split sum.split option.split)

lemma same_copy:
  assumes "same_but_private \<sigma> \<tau>"
  shows "public_part (snd (SavePublicAsCopy (memory_plans o1 o2) ou c u j \<tau>)) = public_part (snd (SavePublicAsCopy (memory_plans o1 o2) ou c u j \<sigma>))
    \<and> fst (SavePublicAsCopy (memory_plans o1 o2) ou c u j \<tau>) = fst (SavePublicAsCopy (memory_plans o1 o2) ou c u j \<sigma>)"
proof -
  have q: "pl_publics \<tau> = pl_publics \<sigma>" "pl_views \<tau> = pl_views \<sigma>" using assms by (simp_all add: same_but_private_def)
  have c: "pst_Create (pd_plans (memory_plans o1 o2)) = MemoryPlanStore_Create" by (simp add: memory_plans_def MemoryPlanStore_ops_def)
  show ?thesis
    by (simp add: SavePublicAsCopy_def q c MemoryPlanStore_Create_def incrementPublicCounter_def Let_def
        split: prod.split sum.split option.split)
qed

lemma same_view:
  assumes "same_but_private \<sigma> \<tau>"
  shows "public_part (snd (GetPublic D ou c j viewer \<tau>)) = public_part (snd (GetPublic D ou c j viewer \<sigma>))
    \<and> fst (GetPublic D ou c j viewer \<tau>) = fst (GetPublic D ou c j viewer \<sigma>)"
proof -
  have q: "pl_publics \<tau> = pl_publics \<sigma>" "pl_views \<tau> = pl_views \<sigma>" using assms by (simp_all add: same_but_private_def)
  show ?thesis
    by (simp add: GetPublic_def q incrementPublicCounter_def Let_def split: prod.split sum.split)
qed

text \<open>
  C11. Notes and conversations never reach the public side: take two states that differ in nothing but
  the notes of the plans and the conversation archives. Any call by any user leaves the same public
  plans, counters, audit log and view records in both, and a publication, a public read, a public
  listing and a copy are answered the same in both.
\<close>

theorem private_parts_stay_private:
  assumes "same_but_private \<sigma> \<tau>"
  shows "public_part (run_plan_call (memory_plans o1 o2) ou c u call \<tau>) = public_part (run_plan_call (memory_plans o1 o2) ou c u call \<sigma>)
    \<and> fst (Plans_Publish (memory_plans o1 o2) ou c u i inp \<tau>) = fst (Plans_Publish (memory_plans o1 o2) ou c u i inp \<sigma>)
    \<and> fst (GetPublic (memory_plans o1 o2) ou c j viewer \<tau>) = fst (GetPublic (memory_plans o1 o2) ou c j viewer \<sigma>)
    \<and> ListPublic (memory_plans o1 o2) c f \<tau> = ListPublic (memory_plans o1 o2) c f \<sigma>
    \<and> fst (SavePublicAsCopy (memory_plans o1 o2) ou c u j \<tau>) = fst (SavePublicAsCopy (memory_plans o1 o2) ou c u j \<sigma>)"
proof -
  have "public_part (run_plan_call (memory_plans o1 o2) ou c u call \<tau>) = public_part (run_plan_call (memory_plans o1 o2) ou c u call \<sigma>)"
  proof (cases call)
    case (CallSave x)
    then show ?thesis using assms same_save by (simp add: same_but_private_def)
  qed (use same_rename [OF assms] same_edit [OF assms] same_delete_call [OF assms] same_publish [OF assms]
      same_unpublish [OF assms] same_copy [OF assms] same_view [OF assms] in simp_all)
  moreover have "ListPublic (memory_plans o1 o2) c f \<tau> = ListPublic (memory_plans o1 o2) c f \<sigma>"
    using assms by (simp add: ListPublic_def same_but_private_def)
  ultimately show ?thesis using same_publish [OF assms] same_view [OF assms] same_copy [OF assms] by blast
qed

theorem private_parts_stay_private_witness:
  "fst (Plans_Publish (memory_plans (Visit_order sorted_keys) (Visit_order sorted_keys)) (call_data 2) background ''ann''
     ''plan_00'' no_texts (ann_state\<lparr>pl_plans := \<lparr>mp_plans = [''plan_00'' \<mapsto> ann_plan\<lparr>up_Note := ''other''\<rparr>],
       mp_archives = Map.empty\<rparr>\<rparr>)) = Inr ann_pub"
proof -
  have "same_but_private ann_state (ann_state\<lparr>pl_plans := \<lparr>mp_plans = [''plan_00'' \<mapsto> ann_plan\<lparr>up_Note := ''other''\<rparr>],
       mp_archives = Map.empty\<rparr>\<rparr>)"
    by (simp add: same_but_private_def ann_saved forget_note_def)
  from private_parts_stay_private [OF this, of "Visit_order sorted_keys" "Visit_order sorted_keys" "call_data 2" background
      "''ann''" _ "''plan_00''" no_texts]
  show ?thesis by (simp add: ann_published)
qed

end
