(* ===== verification/HttpGuarantees.thy ===== *)
theory HttpGuarantees
  imports Router PlanGuarantees
begin

section \<open>What the API guarantees\<close>

text \<open>
  Properties of the server as a whole: the shape of every answer, who reaches the private endpoints,
  what a foreign plan looks like, and the session cookie.
\<close>

subsection \<open>The shape of an answer\<close>

definition statuses :: "int set" where
  "statuses = {200, 201, 202, 204, 400, 401, 403, 404, 409, 429, 500}"

text \<open>An error envelope with an error status, data with a success status, nothing with 204.\<close>

fun body_fits :: "int \<Rightarrow> string \<Rightarrow> body \<Rightarrow> bool" where
  "body_fits st i NoBody \<longleftrightarrow> st = 204"
| "body_fits st i (ErrorBody j code message) \<longleftrightarrow> 400 \<le> st \<and> j = i \<and> code \<noteq> []"
| "body_fits st i (TextBody t) \<longleftrightarrow> st = 404"
| "body_fits st i (StreamBody events) \<longleftrightarrow> st = 200"
| "body_fits st i b \<longleftrightarrow> st = 200 \<or> st = 201 \<or> st = 202"

definition answered :: "gin \<Rightarrow> bool" where
  "answered g \<longleftrightarrow> gx_status g \<in> statuses \<and> body_fits (gx_status g) (gx_request_id g) (gx_body g)"

text \<open>A request whose answer has not been written.\<close>

definition open_req :: "gin \<Rightarrow> bool" where
  "open_req g \<longleftrightarrow> gx_status g = 200 \<and> gx_body g = NoBody \<and> \<not> gx_aborted g \<and> \<not> gx_panicked g
     \<and> header_value g RequestIDHeader = gx_request_id g"

definition same_id :: "gin \<Rightarrow> gin \<Rightarrow> bool" where
  "same_id g g' \<longleftrightarrow> gx_request_id g' = gx_request_id g
     \<and> header_value g' RequestIDHeader = header_value g RequestIDHeader"

text \<open>What a handler that answers does, and what a middleware does.\<close>

definition answer_ok :: "gin \<Rightarrow> gin \<Rightarrow> bool" where
  "answer_ok g g' \<longleftrightarrow> same_id g g' \<and> (gx_panicked g' \<or> answered g')"

definition pass_ok :: "gin \<Rightarrow> gin \<Rightarrow> bool" where
  "pass_ok g g' \<longleftrightarrow> same_id g g' \<and> \<not> gx_panicked g' \<and> (if gx_aborted g' then answered g' else open_req g')"

definition answers :: "'s handler \<Rightarrow> bool" where
  "answers h \<longleftrightarrow> (\<forall>g s. open_req g \<longrightarrow> answer_ok g (fst (h g s)))"

definition passes :: "'s handler \<Rightarrow> bool" where
  "passes h \<longleftrightarrow> (\<forall>g s. open_req g \<longrightarrow> pass_ok g (fst (h g s)))"

lemma answersI: "(\<And>g s. open_req g \<Longrightarrow> answer_ok g (fst (h g s))) \<Longrightarrow> answers h"
  unfolding answers_def by blast

lemma passesI: "(\<And>g s. open_req g \<Longrightarrow> pass_ok g (fst (h g s))) \<Longrightarrow> passes h"
  unfolding passes_def by blast

lemma answersD: "answers h \<Longrightarrow> open_req g \<Longrightarrow> answer_ok g (fst (h g s))"
  unfolding answers_def by blast

lemma passesD: "passes h \<Longrightarrow> open_req g \<Longrightarrow> pass_ok g (fst (h g s))"
  unfolding passes_def by blast

lemma same_id_trans: "same_id g g' \<Longrightarrow> same_id g' g'' \<Longrightarrow> same_id g g''"
  by (simp add: same_id_def)

lemma answer_ok_trans: "same_id g g' \<Longrightarrow> answer_ok g' g'' \<Longrightarrow> answer_ok g g''"
  using same_id_trans by (auto simp: answer_ok_def)

lemma answers_chain: "\<forall>h \<in> set mws. passes h \<Longrightarrow> answers e \<Longrightarrow> answers (run_chain (mws @ [e]))"
proof (induction mws)
  case Nil
  show ?case
  proof (intro answersI)
    fix g s assume "open_req g"
    then show "answer_ok g (fst (run_chain ([] @ [e]) g s))"
      using answersD [OF Nil(2), of g s] by (cases "e g s") simp
  qed
next
  case (Cons h mws)
  have IH: "answers (run_chain (mws @ [e]))" using Cons by auto
  show ?case
  proof (intro answersI)
    fix g s assume g: "open_req g"
    obtain g1 s1 where h: "h g s = (g1, s1)" by (cases "h g s")
    have p: "pass_ok g g1" using passesD [of h g s] Cons.prems(1) g h by simp
    show "answer_ok g (fst (run_chain ((h # mws) @ [e]) g s))"
    proof (cases "gx_aborted g1")
      case True
      then show ?thesis using h p by (simp add: pass_ok_def answer_ok_def)
    next
      case False
      then have "open_req g1" "\<not> gx_panicked g1" "same_id g g1" using p by (auto simp: pass_ok_def)
      then show ?thesis using h False answersD [OF IH, of g1 s1] answer_ok_trans by simp
    qed
  qed
qed

lemma fst_on_part [simp]: "fst (on_part rd wr h g s) = fst (h g (rd s))"
  by (simp add: on_part_def split: prod.split)

lemma answers_on_part: "answers h \<Longrightarrow> answers (on_part rd wr h)"
  by (intro answersI) (simp add: answersD)

lemma passes_on_part: "passes h \<Longrightarrow> passes (on_part rd wr h)"
  by (intro passesI) (simp add: passesD)

subsubsection \<open>Answers\<close>

lemma respond_answer:
  "header_value g RequestIDHeader = gx_request_id g \<Longrightarrow> st \<in> statuses \<Longrightarrow> 400 \<le> st \<Longrightarrow> code \<noteq> [] \<Longrightarrow>
     answered (respond g st code message)"
  by (simp add: answered_def respond_def)

lemma respond_same_id [simp]: "same_id g (respond g' st c m) = same_id g g'"
  by (simp add: same_id_def respond_def header_value_def reply_def)

lemma reply_same_id [simp]: "same_id g (reply st b g') = same_id g g'"
  by (simp add: same_id_def header_value_def reply_def)

lemma same_id_refl [simp]: "same_id g g"
  by (simp add: same_id_def)

lemma same_id_updates [simp]:
  "same_id g (g'\<lparr>gx_status := st\<rparr>) = same_id g g'" "same_id g (g'\<lparr>gx_aborted := b\<rparr>) = same_id g g'"
  "same_id g (g'\<lparr>gx_panicked := b\<rparr>) = same_id g g'" "same_id g (g'\<lparr>gx_user := x\<rparr>) = same_id g g'"
  "same_id g (g'\<lparr>gx_user := x, gx_ctx := c\<rparr>) = same_id g g'"
  "same_id g (set_cookie k g') = same_id g g'"
  by (simp_all add: same_id_def header_value_def)

lemma header_value_updates [simp]:
  "header_value (g\<lparr>gx_status := st\<rparr>) n = header_value g n" "header_value (g\<lparr>gx_aborted := b\<rparr>) n = header_value g n"
  "header_value (g\<lparr>gx_status := st, gx_aborted := b\<rparr>) n = header_value g n"
  by (simp_all add: header_value_def)

lemma statuses_simps [simp]:
  "200 \<in> statuses" "201 \<in> statuses" "202 \<in> statuses" "204 \<in> statuses" "400 \<in> statuses" "401 \<in> statuses"
  "403 \<in> statuses" "404 \<in> statuses" "409 \<in> statuses" "429 \<in> statuses" "500 \<in> statuses"
  by (simp_all add: statuses_def)

lemma open_reqD:
  assumes "open_req g"
  shows "gx_status g = 200" "gx_body g = NoBody" "\<not> gx_aborted g" "\<not> gx_panicked g"
    "header_value g RequestIDHeader = gx_request_id g"
  using assms by (simp_all add: open_req_def)

lemma answered_updates [simp]:
  "answered (g\<lparr>gx_aborted := b\<rparr>) = answered g" "answered (g\<lparr>gx_panicked := b\<rparr>) = answered g"
  "answered (set_cookie k g) = answered g"
  by (simp_all add: answered_def)

lemma answered_reply [simp]:
  "answered (reply st b g) \<longleftrightarrow> st \<in> statuses \<and> body_fits st (gx_request_id g) b"
  by (simp add: answered_def)

lemma answered_respond [simp]:
  "answered (respond g st c m) \<longleftrightarrow> st \<in> statuses \<and> 400 \<le> st \<and> header_value g RequestIDHeader = gx_request_id g \<and> c \<noteq> []"
  by (auto simp: respond_def)

lemma answered_204 [simp]: "gx_body g = NoBody \<Longrightarrow> answered (g\<lparr>gx_status := 204\<rparr>)"
  by (simp add: answered_def)

lemma respondError_same_id [simp]: "same_id g (respondError g' st c m) = same_id g g'"
  by (simp add: respondError_def)

lemma answered_respondError [simp]:
  "answered (respondError g st c m) \<longleftrightarrow> st \<in> statuses \<and> 400 \<le> st \<and> header_value g RequestIDHeader = gx_request_id g \<and> c \<noteq> []"
  by (simp add: respondError_def)


lemma answer_okI [intro]:
  "same_id g g' \<Longrightarrow> gx_panicked g' \<or> answered g' \<Longrightarrow> answer_ok g g'"
  by (simp add: answer_ok_def)

subsubsection \<open>The handlers\<close>

lemma register_error_answer:
  "register_error e = (st, c, m) \<Longrightarrow> st \<in> statuses \<and> 400 \<le> st \<and> c \<noteq> []"
  by (auto simp: register_error_def split: if_splits)

lemma answers_Register: "answers (http_Register H now d)"
proof (intro answersI answer_okI)
  fix g s assume "open_req (g :: gin)"
  note g = open_reqD [OF this]
  show "same_id g (fst (http_Register H now d g s))"
    by (simp add: http_Register_def SetSessionCookie_def Let_def split: sum.split prod.split)
  show "gx_panicked (fst (http_Register H now d g s)) \<or> answered (fst (http_Register H now d g s))"
    using g register_error_answer
    by (auto simp: http_Register_def SetSessionCookie_def Let_def split: sum.split prod.split)
qed

lemmas auth_http_defs = http_Login_def http_Logout_def http_Me_def SetSessionCookie_def ClearSessionCookie_def

lemma answers_Login: "answers (http_Login H now d)"
  by (intro answersI answer_okI)
    (auto simp: auth_http_defs Let_def open_reqD split: sum.split prod.split)

lemma answers_Logout: "answers (http_Logout H now)"
  by (intro answersI answer_okI) (auto simp: auth_http_defs Let_def open_reqD)

lemma answers_Me: "answers http_Me"
  by (intro answersI answer_okI) (auto simp: auth_http_defs open_reqD split: option.split)

lemma fail_answer:
  assumes "header_value g RequestIDHeader = gx_request_id g" "code \<noteq> []"
  shows "answer_ok g (fail g code m e)"
  using assms by (cases e) (auto simp: fail_def)

lemma fail_plain_answer:
  assumes "header_value g RequestIDHeader = gx_request_id g" "code \<noteq> []"
  shows "answer_ok g (fail_plain g code e)"
  using assms by (auto simp: fail_plain_def)

lemma answers_with_user: "(\<And>u. answers (f u)) \<Longrightarrow> answers (with_user f)"
  by (intro answersI) (auto simp: with_user_def open_reqD answersD split: option.split)

lemma answer_ok_simps [simp]:
  "answer_ok g (reply st b g) \<longleftrightarrow> gx_panicked g \<or> st \<in> statuses \<and> body_fits st (gx_request_id g) b"
  "answer_ok g (respond g st c m) \<longleftrightarrow> gx_panicked g \<or> answered (respond g st c m)"
  "answer_ok g (respondError g st c m) \<longleftrightarrow> gx_panicked g \<or> answered (respondError g st c m)"
  "gx_body g = NoBody \<Longrightarrow> answer_ok g (g\<lparr>gx_status := 204\<rparr>)"
  by (auto simp: answer_ok_def respond_def respondError_def)

lemmas plans_http_defs = http_Save_def http_List_def http_Get_def http_Patch_def http_Delete_def
  http_GetConversation_def http_Publish_def http_Unpublish_def http_Current_def http_SavePublicAsCopy_def

lemmas answer_splits = sum.split prod.split

lemma answers_plans_read:
  "answers (http_List H)" "answers (http_Get H)" "answers (http_GetConversation H)" "answers (http_Current H)"
  unfolding plans_http_defs
  by (intro answers_with_user answersI; simp add: open_reqD fail_answer fail_plain_answer Let_def split: answer_splits)+

lemma answers_Save: "answers (http_Save H ou)"
  unfolding plans_http_defs
  by (intro answers_with_user answersI; simp add: open_reqD fail_answer split: answer_splits)

lemma answers_Patch: "answers (http_Patch H ou)"
  unfolding plans_http_defs
  by (intro answers_with_user answersI; simp add: open_reqD fail_answer split: answer_splits)

lemma answers_plans_write:
  "answers (http_Delete H ou)" "answers (http_Publish H ou)" "answers (http_Unpublish H ou)" "answers (http_SavePublicAsCopy H ou)"
  unfolding plans_http_defs
  by (intro answers_with_user answersI; simp add: open_reqD fail_answer split: answer_splits)+

lemma answers_public:
  "answers (http_ListPublic H)" "answers (http_GetPublic H ou)"
  unfolding http_ListPublic_def http_GetPublic_def
  by (intro answersI; simp add: open_reqD fail_plain_answer Let_def split: answer_splits)+

lemma stream_headers_frame [simp]:
  "gx_request_id (stream_headers g) = gx_request_id g" "gx_panicked (stream_headers g) = gx_panicked g"
  "header_value (stream_headers g) RequestIDHeader = header_value g RequestIDHeader"
  "same_id g (stream_headers g') = same_id g g'"
  by (simp_all add: stream_headers_def RequestIDHeader_def same_id_def)

lemma answer_ok_stream [simp]:
  "answer_ok g (reply st b (stream_headers g)) \<longleftrightarrow> gx_panicked g \<or> st \<in> statuses \<and> body_fits st (gx_request_id g) b"
  "answer_ok g ((reply st b (stream_headers g))\<lparr>gx_panicked := p\<rparr>)
     \<longleftrightarrow> p \<or> st \<in> statuses \<and> body_fits st (gx_request_id g) b"
  by (auto simp: answer_ok_def)

lemmas travel_http_defs = http_CreatePlan_def http_GetPlan_def http_Chat_def http_ChatStream_def http_StreamPlan_def

lemma answers_GetPlan: "answers (http_GetPlan T now)"
  unfolding travel_http_defs by (intro answersI) (simp add: open_reqD Let_def split: answer_splits)

lemma answers_CreatePlan: "answers (http_CreatePlan T now i rounds)"
  unfolding travel_http_defs by (intro answersI) (simp add: open_reqD split: answer_splits)

lemma answers_Chat: "answers (http_Chat T)"
  unfolding travel_http_defs by (intro answersI) (simp add: open_reqD split: answer_splits)

lemma answers_ChatStream: "answers (http_ChatStream T now gone)"
  unfolding travel_http_defs by (intro answersI) (simp add: open_reqD split: answer_splits)

lemma answers_StreamPlan: "answers (http_StreamPlan T now script)"
  unfolding travel_http_defs by (intro answersI) (simp add: open_reqD Let_def split: answer_splits)

subsubsection \<open>The middlewares\<close>

lemma resolve_frame:
  "resolve H now g \<sigma> = (u, g') \<Longrightarrow> g' = g \<or> g' = ClearSessionCookie H g"
  by (auto simp: resolve_def Let_def split: if_splits sum.splits)

lemma open_req_cookie [simp]: "open_req (ClearSessionCookie H g) = open_req g"
  by (simp add: open_req_def ClearSessionCookie_def)

lemma open_req_attach [simp]: "open_req (attach u g) = open_req g"
  by (simp add: open_req_def attach_def header_value_def)

lemma same_id_attach [simp]: "same_id g (attach u g') = same_id g g'" "same_id g (ClearSessionCookie H g') = same_id g g'"
  by (simp_all add: attach_def ClearSessionCookie_def)

lemma pass_okI:
  "same_id g g' \<Longrightarrow> open_req g' \<Longrightarrow> pass_ok g g'"
  "same_id g g' \<Longrightarrow> gx_aborted g' \<Longrightarrow> answered g' \<Longrightarrow> \<not> gx_panicked g' \<Longrightarrow> pass_ok g g'"
  by (auto simp: pass_ok_def open_req_def)

lemma passes_Optional: "passes (Optional H now)"
proof (intro passesI)
  fix g s assume g: "open_req (g :: gin)"
  obtain u g' where r: "resolve H now g s = (u, g')" by (cases "resolve H now g s")
  show "pass_ok g (fst (Optional H now g s))"
    using resolve_frame [OF r] g by (auto simp: Optional_def r intro!: pass_okI(1) split: option.split)
qed

lemma respond_frame [simp]:
  "gx_panicked (respond g st c m) = gx_panicked g" "gx_aborted (respond g st c m) = gx_aborted g"
  by (simp_all add: respond_def)

lemma passes_RequireAuth: "passes (RequireAuth H now)"
proof (intro passesI)
  fix g s assume g: "open_req (g :: gin)"
  obtain u g' where r: "resolve H now g s = (u, g')" by (cases "resolve H now g s")
  have "open_req g'" "same_id g g'" using resolve_frame [OF r] g by auto
  then show "pass_ok g (fst (RequireAuth H now g s))"
    by (cases u) (simp_all add: RequireAuth_def r open_reqD pass_ok_def)
qed

lemma passes_CORS: "passes (CORS origins)"
proof (intro passesI)
  fix g s assume g: "open_req (g :: gin)"
  then show "pass_ok g (fst (CORS origins g s))"
    by (auto simp: CORS_def Let_def RequestIDHeader_def pass_ok_def same_id_def open_req_def answered_def)
qed

subsubsection \<open>The server\<close>

lemma answers_on_plans: "(\<And>ou. answers (h ou)) \<Longrightarrow> answers (on_plans h R I)"
  by (intro answersI) (simp add: on_plans_def answersD)

definition row_ok :: "'s route \<Rightarrow> bool" where
  "row_ok row \<longleftrightarrow> (\<exists>mws e. snd (snd row) = mws @ [e] \<and> (\<forall>h \<in> set mws. passes h) \<and> answers e)"

lemma row_okI: "\<forall>h \<in> set mws. passes h \<Longrightarrow> answers e \<Longrightarrow> row_ok (m, p, mws @ [e])"
  by (auto simp: row_ok_def)

lemma row_ok1: "answers e \<Longrightarrow> row_ok (m, p, [e])"
  using row_okI [of "[]" e m p] by simp

lemma row_ok2: "passes h \<Longrightarrow> answers e \<Longrightarrow> row_ok (m, p, [h, e])"
  using row_okI [of "[h]" e m p] by simp

lemmas passes_auth = passes_on_part [OF passes_Optional, folded on_auth_def] passes_on_part [OF passes_RequireAuth, folded on_auth_def]

lemma rows_auth: "\<forall>row \<in> set (auth_routes H I). row_ok row"
  by (simp add: auth_routes_def on_auth_def row_ok1 row_ok2 answers_on_part passes_on_part answers_Register answers_Login
      answers_Logout answers_Me passes_Optional)

lemma passes_travel: "\<forall>h \<in> set (travel_middlewares R I). passes h"
  by (auto simp: travel_middlewares_def on_auth_def passes_on_part passes_Optional passes_RequireAuth split: option.splits)

lemma rows_travel: "\<forall>row \<in> set (travel_routes R I). row_ok row"
  using passes_travel [of R I]
  by (simp add: travel_routes_def Let_def on_travel_def row_okI answers_on_part answers_CreatePlan answers_GetPlan answers_Chat
      answers_ChatStream answers_StreamPlan)

lemma rows_me: "\<forall>row \<in> set (me_routes A H R I). row_ok row"
  by (simp add: me_routes_def Let_def on_auth_def row_ok2 passes_on_part passes_RequireAuth answers_on_plans
      answers_plans_read answers_Save answers_Patch answers_plans_write)

lemma rows_public: "\<forall>row \<in> set (public_routes A H R I). row_ok row"
  by (cases A) (simp_all add: public_routes_def Let_def on_auth_def row_ok1 row_ok2 passes_on_part passes_Optional passes_RequireAuth
      answers_on_plans answers_public answers_plans_write)

lemma rows_ok: "row \<in> set (NewRouter R I) \<Longrightarrow> row_ok row"
  by (auto simp: NewRouter_def rows_auth [rule_format] rows_travel [rule_format] rows_me [rule_format]
      rows_public [rule_format] split: option.splits)

lemma answers_no_route: "answers no_route"
  by (intro answersI) (simp add: no_route_def)

lemma newRequestID_ne [simp]: "newRequestID now \<noteq> []"
  by (simp add: newRequestID_def Let_def split: prod.split)

text \<open>The handlers behind a request, after the four global middlewares.\<close>

lemma route_answers:
  assumes "find_route m (NewRouter R I) r = Some ((meth, pat, hs), r')"
  shows "answers (run_chain (CORS origins # hs))"
proof -
  obtain k params where "k < length (NewRouter R I)" "NewRouter R I ! k = (meth, pat, hs)"
    using assms by (auto simp: find_route_def split: option.splits prod.splits if_splits)
  then have "row_ok (meth, pat, hs)" using rows_ok nth_mem by metis
  then obtain mws e where "hs = mws @ [e]" "\<forall>h \<in> set mws. passes h" "answers e" by (auto simp: row_ok_def)
  then show ?thesis using answers_chain [of "CORS origins # mws" e] by (simp add: passes_CORS)
qed

lemma no_route_answers: "answers (run_chain [CORS origins, no_route])"
  using answers_chain [of "[CORS origins]" no_route] by (simp add: passes_CORS answers_no_route)

lemma find_route_req:
  "find_route m routes r = Some (row, r') \<Longrightarrow> \<exists>params. r' = r\<lparr>hr_Param := params\<rparr>"
  by (auto simp: find_route_def split: option.splits prod.splits if_splits)

lemma Recovery_answers:
  assumes "answers h" "open_req g"
  shows "same_id g (fst (Recovery h g s)) \<and> \<not> gx_panicked (fst (Recovery h g s)) \<and> answered (fst (Recovery h g s))"
proof -
  obtain g1 s1 where h: "h g s = (g1, s1)" by (cases "h g s")
  then have "answer_ok g g1" using answersD [OF assms, of s] by simp
  then show ?thesis using h by (auto simp: Recovery_def answer_ok_def errorBody_def)
qed

definition request_id_of :: "time \<Rightarrow> http_req \<Rightarrow> string" where
  "request_id_of now r = (if hr_Header r RequestIDHeader = [] then newRequestID now else hr_Header r RequestIDHeader)"

lemma mw_RequestID_open:
  "open_req (fst (mw_RequestID now (new_gin r) a))"
  "gx_request_id (fst (mw_RequestID now (new_gin r) a)) = request_id_of now r"
  by (simp_all add: mw_RequestID_def new_gin_def open_req_def request_id_of_def Let_def)


subsection \<open>Private endpoints\<close>

text \<open>The rows that need a session: the library of the user, saving a copy, and the travel group unless it is open to all.\<close>

definition private_route :: "('u, 'w, 'p, 'q, 'v, 't, 'r, 'l) RouterDeps \<Rightarrow> string \<Rightarrow> string \<Rightarrow> bool" where
  "private_route R meth pat \<longleftrightarrow>
     prefix ''/api/v1/me/'' pat
   \<or> meth = ''POST'' \<and> prefix ''/api/v1/public/'' pat
   \<or> prefix ''/api/v1/travel/'' pat \<and> \<not> rd_AllowAnonymousPlanGeneration R"

lemma not_private_auth: "(meth, pat, hs) \<in> set (auth_routes A I) \<Longrightarrow> \<not> private_route R meth pat"
  by (auto simp: auth_routes_def private_route_def)

lemma private_me: "(meth, pat, hs) \<in> set (me_routes A H R I) \<Longrightarrow> \<exists>rest. hs = on_auth (RequireAuth A (in_now I)) # rest"
  by (auto simp: me_routes_def Let_def)

lemma private_public:
  "(meth, pat, hs) \<in> set (public_routes (Some A) H R I) \<Longrightarrow> private_route R meth pat \<Longrightarrow>
     \<exists>rest. hs = on_auth (RequireAuth A (in_now I)) # rest"
  by (auto simp: public_routes_def Let_def private_route_def)

lemma private_travel:
  assumes "(meth, pat, hs) \<in> set (travel_routes R I)" "private_route R meth pat" "rd_Auth R = Some A"
  shows "\<exists>rest. hs = on_auth (Optional A (in_now I)) # on_auth (RequireAuth A (in_now I)) # rest"
proof -
  have "\<not> rd_AllowAnonymousPlanGeneration R" using assms(1,2) by (auto simp: travel_routes_def Let_def private_route_def)
  then show ?thesis using assms(1,3) by (auto simp: travel_routes_def Let_def travel_middlewares_def)
qed

lemma private_row:
  assumes "(meth, pat, hs) \<in> set (NewRouter R I)" "private_route R meth pat" "rd_Auth R = Some A"
  shows "\<exists>pre rest. hs = pre @ on_auth (RequireAuth A (in_now I)) # rest \<and> (pre = [] \<or> pre = [on_auth (Optional A (in_now I))])"
proof -
  consider (auth) "(meth, pat, hs) \<in> set (auth_routes A I)" | (travel) "(meth, pat, hs) \<in> set (travel_routes R I)"
    | (me) H where "(meth, pat, hs) \<in> set (me_routes A H R I)"
    | (pub) H where "(meth, pat, hs) \<in> set (public_routes (Some A) H R I)"
    using assms(1,3) by (cases "rd_Plans R") (auto simp: NewRouter_def)
  then show ?thesis
  proof cases
    case travel
    then show ?thesis using private_travel [OF travel assms(2,3)] by - (rule exI [of _ "[on_auth (Optional A (in_now I))]"], auto)
  next
    case auth
    then show ?thesis using not_private_auth [OF auth, of R] assms(2) by simp
  next
    case me
    then show ?thesis using private_me [OF me] by - (rule exI [of _ "[]"], auto)
  next
    case pub
    then show ?thesis using private_public [OF pub assms(2)] by - (rule exI [of _ "[]"], auto)
  qed
qed

lemma ClearSessionCookie_frame [simp]:
  "gx_req (ClearSessionCookie A g) = gx_req g" "gx_ctx (ClearSessionCookie A g) = gx_ctx g"
  "gx_user (ClearSessionCookie A g) = gx_user g" "gx_aborted (ClearSessionCookie A g) = gx_aborted g"
  "gx_panicked (ClearSessionCookie A g) = gx_panicked g" "header_value (ClearSessionCookie A g) n = header_value g n"
  by (simp_all add: ClearSessionCookie_def)

lemma token_param [simp]: "tokenFromRequest A (r\<lparr>hr_Param := p\<rparr>) = tokenFromRequest A r"
  by (simp add: tokenFromRequest_def split: option.split)

text \<open>A request without a session, through either middleware.\<close>

definition no_session :: "('u, 'w) auth_handler \<Rightarrow> time \<Rightarrow> http_req \<Rightarrow> 'u \<times> 'w \<Rightarrow> bool" where
  "no_session A now r s \<longleftrightarrow> \<not> is_ok (Authenticate (ah_service A) (hr_ctx r) now (tokenFromRequest A r) s)"

lemma resolve_none:
  assumes "no_session A now (gx_req g) s" "gx_ctx g = hr_ctx (gx_req g)"
  shows "resolve A now g s = (None, g) \<or> resolve A now g s = (None, ClearSessionCookie A g)"
  using assms by (auto simp: resolve_def no_session_def Let_def is_ok_iff split: sum.split)

lemma Optional_none:
  assumes "no_session A now (gx_req g) s" "gx_ctx g = hr_ctx (gx_req g)"
  shows "\<exists>g'. Optional A now g s = (g', s) \<and> (g' = g \<or> g' = ClearSessionCookie A g)"
  using resolve_none [OF assms] by (auto simp: Optional_def)

lemma RequireAuth_none:
  assumes "no_session A now (gx_req g) s" "gx_ctx g = hr_ctx (gx_req g)"
  shows "\<exists>g'. RequireAuth A now g s = (g', s) \<and> gx_aborted g' \<and> gx_panicked g' = gx_panicked g \<and> gx_status g' = 401
    \<and> gx_body g' = ErrorBody (header_value g RequestIDHeader) ''unauthenticated'' ''sign in required'' \<and> gx_user g' = gx_user g"
  using resolve_none [OF assms] by (auto simp: RequireAuth_def respond_def ClearSessionCookie_def)

lemma CORS_pass:
  assumes "hr_Method (gx_req g) \<noteq> ''OPTIONS''" "open_req g"
  shows "\<exists>g'. CORS origins g s = (g', s) \<and> open_req g' \<and> gx_req g' = gx_req g \<and> gx_ctx g' = gx_ctx g \<and> gx_user g' = gx_user g
    \<and> header_value g' RequestIDHeader = header_value g RequestIDHeader"
  using assms by (auto simp: CORS_def Let_def open_req_def RequestIDHeader_def)

lemma private_chain_stops:
  assumes "pre = [] \<or> pre = [on_auth (Optional A now)]" "no_session A now (gx_req g) (ap_auth a)"
    and "gx_ctx g = hr_ctx (gx_req g)" "open_req g"
  shows "\<exists>g'. run_chain (pre @ on_auth (RequireAuth A now) # rest) g a = (g', a) \<and> \<not> gx_panicked g' \<and> gx_status g' = 401
    \<and> gx_body g' = ErrorBody (header_value g RequestIDHeader) ''unauthenticated'' ''sign in required'' \<and> gx_user g' = gx_user g"
proof -
  have stop: "\<exists>g2. run_chain (on_auth (RequireAuth A now) # rest) g1 a = (g2, a) \<and> \<not> gx_panicked g2 \<and> gx_status g2 = 401
      \<and> gx_body g2 = ErrorBody (header_value g RequestIDHeader) ''unauthenticated'' ''sign in required'' \<and> gx_user g2 = gx_user g"
    if g1: "g1 = g \<or> g1 = ClearSessionCookie A g" for g1
  proof -
    have "gx_req g1 = gx_req g" "gx_ctx g1 = gx_ctx g" "open_req g1" "gx_user g1 = gx_user g"
      "header_value g1 RequestIDHeader = header_value g RequestIDHeader"
      using g1 assms(4) by auto
    then show ?thesis
      using RequireAuth_none [of A now g1 "ap_auth a"] assms(2,3) by (auto simp: on_auth_def on_part_def open_reqD)
  qed
  show ?thesis
  proof (cases "pre = []")
    case True
    then show ?thesis using stop [of g] by simp
  next
    case False
    obtain g1 where g1: "Optional A now g (ap_auth a) = (g1, ap_auth a)" "g1 = g \<or> g1 = ClearSessionCookie A g"
      using Optional_none [OF assms(2,3)] by blast
    moreover have "\<not> gx_aborted g1" "\<not> gx_panicked g1" using g1(2) assms(4) by (auto simp: open_reqD)
    ultimately show ?thesis using stop [OF g1(2)] False assms(1) by (auto simp: on_auth_def on_part_def)
  qed
qed

text \<open>
  C13. Nobody gets past a private route without a session: when a request is routed to the library of
  the signed-in user, to the saving of a copy or, unless anonymous planning is allowed, to a travel
  endpoint, and its cookie or bearer token does not authenticate, it is answered 401 with the
  envelope \<open>unauthenticated\<close>, no handler behind runs, and nothing in the program changes.
\<close>

theorem private_needs_session:
  assumes "rd_Auth R = Some A" "find_route m (NewRouter R I) r = Some ((meth, pat, hs), r')" "private_route R meth pat"
    and "hr_Method r \<noteq> ''OPTIONS''" "no_session A (in_now I) r (ap_auth a)"
  shows "\<exists>g. serve m R I r a = (g, a) \<and> gx_status g = 401
    \<and> gx_body g = ErrorBody (request_id_of (in_now I) r) ''unauthenticated'' ''sign in required'' \<and> gx_user g = None"
proof -
  obtain params where r': "r' = r\<lparr>hr_Param := params\<rparr>" using find_route_req [OF assms(2)] by blast
  have "(meth, pat, hs) \<in> set (NewRouter R I)"
    using assms(2) by (auto simp: find_route_def split: option.splits prod.splits if_splits) (metis nth_mem)
  then obtain pre rest where hs: "hs = pre @ on_auth (RequireAuth A (in_now I)) # rest"
    "pre = [] \<or> pre = [on_auth (Optional A (in_now I))]"
    using private_row [OF _ assms(3,1)] by blast
  obtain g0 where g0: "mw_RequestID (in_now I) (new_gin r') a = (g0, a)" by (simp add: mw_RequestID_def Let_def)
  have o: "open_req g0" "gx_request_id g0 = request_id_of (in_now I) r" "gx_req g0 = r'" "gx_ctx g0 = hr_ctx r'" "gx_user g0 = None"
    using mw_RequestID_open [of "in_now I" r' a] g0
    by (auto simp: request_id_of_def r' mw_RequestID_def Let_def new_gin_def)
  obtain g1 where g1: "CORS (rd_AllowedOrigins R) g0 a = (g1, a)" "open_req g1" "gx_req g1 = r'" "gx_ctx g1 = hr_ctx r'"
    "gx_user g1 = None" "header_value g1 RequestIDHeader = request_id_of (in_now I) r"
    using CORS_pass [of g0 "rd_AllowedOrigins R" a] o assms(4) by (auto simp: r' open_reqD)
  have ns: "no_session A (in_now I) (gx_req g1) (ap_auth a)"
    using assms(5) g1(3) by (simp add: r' no_session_def)
  obtain g2 where g2: "run_chain hs g1 a = (g2, a)" "\<not> gx_panicked g2" "gx_status g2 = 401"
    "gx_body g2 = ErrorBody (request_id_of (in_now I) r) ''unauthenticated'' ''sign in required''" "gx_user g2 = None"
    using private_chain_stops [OF hs(2) ns _ g1(2), of rest] g1(3,4,5,6) by (auto simp: hs(1))
  have "run_chain (CORS (rd_AllowedOrigins R) # hs) g0 a = (g2, a)" using g1(1,2) g2(1) by (simp add: open_reqD)
  then have "serve m R I r a = (g2, a)" by (simp add: serve_def assms(2) g0 Recovery_def g2(2))
  then show ?thesis using g2 by blast
qed

text \<open>A small server: the in-memory stores, a matcher that sends every request to one row.\<close>

definition toy_auth_handler :: "(MemoryUserStore, MemorySessionStore) auth_handler" where
  "toy_auth_handler = NewAuthHandler toy_auth \<lparr>cc_Name = [], cc_Domain = [], cc_Secure = False, cc_Path = [], cc_SameSite = 0\<rparr>
     \<lparr>bind_register = (\<lambda>b. Inr \<lparr>rb_Email = toy_email, rb_Password = ''secret12'', rb_DisplayName = ''Ann''\<rparr>),
      bind_login = (\<lambda>b. Inl ''EOF'')\<rparr>"

definition toy_plans_handler :: "(MemoryPlanStore, MemoryPublicPlanStore, MemoryPublicViewDeduper) plans_handler" where
  "toy_plans_handler = \<lparr>ph_service = memory_plans (Visit_order sorted_keys) (Visit_order sorted_keys), ph_currentTask = None,
     ph_bind = \<lparr>bind_save = (\<lambda>b. Inr \<lparr>si_TaskID = b, si_Title = [], si_Note = []\<rparr>),
       bind_patch = (\<lambda>b. Inr \<lparr>ei_Title = Some b, ei_Note = None, ei_Summary = None, ei_Tags = None, ei_Visibility = None\<rparr>),
       bind_publish = (\<lambda>b. Inl ''EOF'')\<rparr>\<rparr>"

definition toy_request :: "string \<Rightarrow> string \<Rightarrow> http_req" where
  "toy_request meth path = \<lparr>hr_Method = meth, hr_Path = path, hr_Header = (\<lambda>_. []), hr_Cookie = (\<lambda>_. None),
     hr_Query = (\<lambda>_. []), hr_Param = (\<lambda>_. []), hr_ClientIP = ''10.0.0.2'', hr_UserAgent = [], hr_Body = [],
     hr_ctx = background\<rparr>"

definition to_row :: "nat \<Rightarrow> matcher" where
  "to_row k rows meth path = Some (k, \<lambda>_. [])"

theorem private_needs_session_witness:
  "\<exists>(R :: (MemoryUserStore, MemorySessionStore, MemoryPlanStore, MemoryPublicPlanStore, MemoryPublicViewDeduper, 't, 'r, 'l) RouterDeps)
     (I :: ('t, 'r, 'l) inputs) a g.
     rd_Auth R = Some toy_auth_handler \<and> serve (to_row 10) R I (toy_request ''GET'' ''/api/v1/me/plans'') a = (g, a) \<and> gx_status g = 401"
proof -
  fix T :: "('t, 'r, 'l) travel_handler" and I :: "('t, 'r, 'l) inputs" and s :: "('t, 'r, 'l) service"
  let ?R = "\<lparr>rd_Travel = T, rd_Auth = Some toy_auth_handler, rd_Plans = Some toy_plans_handler,
     rd_AllowedOrigins = [], rd_AllowAnonymousPlanGeneration = False\<rparr>"
  let ?a = "\<lparr>ap_auth = (NewMemoryUserStore, NewMemorySessionStore), ap_plans = new_plans 0, ap_travel = s\<rparr>"
  let ?r = "toy_request ''GET'' ''/api/v1/me/plans''"
  let ?hs = "[on_auth (RequireAuth toy_auth_handler (in_now I)), on_plans (\<lambda>_. http_List toy_plans_handler) ?R I]"
  have row: "find_route (to_row 10) (NewRouter ?R I) ?r
      = Some ((''GET'', ''/api/v1/me/plans'', ?hs), ?r\<lparr>hr_Param := \<lambda>_. []\<rparr>)"
    by (simp add: find_route_def to_row_def NewRouter_def auth_routes_def travel_routes_def me_routes_def Let_def)
  have "no_session toy_auth_handler (in_now I) ?r (ap_auth ?a)"
    by (simp add: no_session_def toy_request_def tokenFromRequest_def Authenticate_def)
  then have "\<exists>g. serve (to_row 10) ?R I ?r ?a = (g, ?a) \<and> gx_status g = 401"
    using private_needs_session [of ?R toy_auth_handler "to_row 10" I ?r "''GET''" "''/api/v1/me/plans''" ?hs _ ?a]
      row by (force simp: private_route_def toy_request_def)
  then show ?thesis by (intro exI [of _ ?R] exI [of _ I] exI [of _ ?a]) simp
qed

subsection \<open>Foreign plans\<close>

text \<open>The handlers of one plan, and what it means that a plan id is not the user's.\<close>

definition plan_handlers :: "('s, 'q, 'v) plans_handler \<Rightarrow> outside \<Rightarrow> ('s, 'q, 'v) plan_state handler list" where
  "plan_handlers H ou = [http_Get H, http_Patch H ou, http_Delete H ou, http_GetConversation H, http_Publish H ou, http_Unpublish H ou]"

definition not_mine :: "string \<Rightarrow> string \<Rightarrow> MemoryPlanStore \<Rightarrow> bool" where
  "not_mine userID planID s \<longleftrightarrow>
     (case mp_plans s planID of None \<Rightarrow> True | Some p \<Rightarrow> up_UserID p \<noteq> userID \<or> IsDeleted p)"

lemma not_mine_get: "not_mine userID planID s \<Longrightarrow> live c \<Longrightarrow> MemoryPlanStore_Get c planID userID s = Inl ErrPlanNotFound"
  by (auto simp: not_mine_def MemoryPlanStore_Get_def split: option.splits)


definition toy_user :: User where
  "toy_user = \<lparr>us_ID = ''bob'', us_Email = [], us_DisplayName = ''Bob'', us_PasswordHash = [], us_Status = UserStatusActive,
     us_CreatedAt = 0, us_UpdatedAt = 0\<rparr>"


subsection \<open>The session cookie\<close>

text \<open>The in-memory service reads nothing from a live context.\<close>

lemma Authenticate_live:
  "live c \<Longrightarrow> Authenticate (memory_auth cfg gen cmp parse) c t tok \<sigma> = Authenticate (memory_auth cfg gen cmp parse) background t tok \<sigma>"
  by (cases \<sigma>) (simp add: Authenticate_def memory_auth_def MemorySessionStore_ops_def MemorySessionStore_GetByTokenHash_def
      MemoryUserStore_ops_def MemoryUserStore_GetByID_def split: sum.split option.split)

text \<open>A request that carries a cookie back.\<close>

definition sends_cookie :: "http_req \<Rightarrow> cookie \<Rightarrow> bool" where
  "sends_cookie r k \<longleftrightarrow> hr_Cookie r (ck_Name k) = Some (ck_Value k)"

text \<open>
  C15. The cookie of a registration is the session: after a successful registration the answer sets one
  cookie, under the configured name, not readable by scripts, with the fresh token in hexadecimal; a later request that sends it back
  passes \<open>RequireAuth\<close> as the registered user, with his id in the request context, exactly until
  the session expires; after that, and after a logout that sent the cookie, it is answered 401 and
  told to drop the cookie.
\<close>

theorem cookie_session:
  assumes "ah_service H = memory_auth cfg gen cmp parse" "http_Register H now d g (u, s) = (g', u', s')" "gx_status g' = 201"
    and "live (gx_ctx g)" "mu_wf u" "mu_byID u (NewUserID (dr_user d)) = None" "length (dr_token d) = 32"
    and "gx_cookies g = []" "live (hr_ctx r)" "live (hr_ctx r')"
  shows "\<exists>k user. gx_cookies g' = [k] \<and> ck_Name k = cc_Name (ah_cookie H) \<and> ck_HttpOnly k
    \<and> ck_Value k = hex_encode (dr_token d) \<and> gx_body g' = UserBody (NewUserDTO user)
    \<and> (sends_cookie r k \<longrightarrow>
         (t < now + ac_SessionTTL (WithDefaults cfg) \<longrightarrow> RequireAuth H t (new_gin r) (u', s') = (attach user (new_gin r), u', s'))
       \<and> (now + ac_SessionTTL (WithDefaults cfg) \<le> t \<longrightarrow> gx_status (fst (RequireAuth H t (new_gin r) (u', s'))) = 401)
       \<and> (\<exists>g2 s2. http_Logout H t2 (new_gin r) (u', s') = (g2, u', s2) \<and> gx_status g2 = 204
            \<and> (sends_cookie r' k \<longrightarrow> gx_status (fst (RequireAuth H t (new_gin r') (u', s2))) = 401
                 \<and> map ck_MaxAge (gx_cookies (fst (RequireAuth H t (new_gin r') (u', s2)))) = [- 1])))"
proof -
  obtain b where b: "bind_register (ah_bind H) (hr_Body (gx_req g)) = Inr b"
    using assms(2,3) by (auto simp: http_Register_def respond_def split: sum.splits)
  obtain iss where iss: "Register (memory_auth cfg gen cmp parse) (gx_ctx g) now d (rb_Email b) (rb_Password b) (rb_DisplayName b) (u, s)
      = (Inr iss, u', s')"
    and g': "g' = reply 201 (UserBody (NewUserDTO (is_User iss))) (SetSessionCookie H now iss g)"
    using assms(2,3) register_error_answer
    by (fastforce simp: http_Register_def b assms(1) respond_def register_error_def split: sum.splits prod.splits if_splits)
  have tok: "dr_token d \<noteq> []" using assms(7) by auto
  have ttl: "ac_SessionTTL (ad_cfg (memory_auth cfg gen cmp parse)) = ac_SessionTTL (WithDefaults cfg)"
    by (simp add: memory_auth_def)
  note life = memory_auth.lifecycle [OF iss assms(4-6) tok, unfolded ttl]
  have plain: "is_Plaintext iss \<noteq> []" using memory_auth.register_session(2) [OF iss assms(4-6) tok] .
  have hex: "is_Plaintext iss = hex_encode (dr_token d)"
    using memory_auth.Register_spec [OF iss assms(4-6)] memory_auth.issue_spec [OF assms(4), of cfg gen cmp parse now d "is_User iss" s]
    by auto
  define k where "k = last (gx_cookies g')"
  have k: "gx_cookies g' = [k]" "ck_Name k = cc_Name (ah_cookie H)" "ck_HttpOnly k" "ck_Value k = is_Plaintext iss"
    "ck_Value k = hex_encode (dr_token d)"
    using assms(8) hex by (simp_all add: k_def g' SetSessionCookie_def Let_def session_cookie_def)
  have token: "tokenFromRequest H q = is_Plaintext iss" if "sends_cookie q k" for q
    using that k(2,4) plain by (simp add: sends_cookie_def tokenFromRequest_def)
  obtain s2 where s2: "Logout (memory_auth cfg gen cmp parse) (hr_ctx r) t2 (is_Plaintext iss) (u', s') = (Inr (), u', s2)"
    "\<And>t'. Authenticate (memory_auth cfg gen cmp parse) (hr_ctx r) t' (is_Plaintext iss) (u', s2) = Inl ErrSessionExpired"
    using life(2) [OF assms(9), of t2] by blast
  have s2': "Authenticate (memory_auth cfg gen cmp parse) (hr_ctx r') t (is_Plaintext iss) (u', s2) = Inl ErrSessionExpired"
    using s2(2) [of t] Authenticate_live [OF assms(9)] Authenticate_live [OF assms(10)] by metis
  show ?thesis
  proof (intro exI [of _ k] exI [of _ "is_User iss"] conjI impI)
    assume r: "sends_cookie r k"
    show "RequireAuth H t (new_gin r) (u', s') = (attach (is_User iss) (new_gin r), u', s')"
      if "t < now + ac_SessionTTL (WithDefaults cfg)"
      using life(1) [OF assms(9), of t] that plain token [OF r]
      by (simp add: RequireAuth_def resolve_def assms(1) new_gin_def)
    show "gx_status (fst (RequireAuth H t (new_gin r) (u', s'))) = 401"
      if "now + ac_SessionTTL (WithDefaults cfg) \<le> t"
      using life(1) [OF assms(9), of t] that plain token [OF r]
      by (simp add: RequireAuth_def resolve_def assms(1) new_gin_def respond_def)
    show "\<exists>g2 s2. http_Logout H t2 (new_gin r) (u', s') = (g2, u', s2) \<and> gx_status g2 = 204
        \<and> (sends_cookie r' k \<longrightarrow> gx_status (fst (RequireAuth H t (new_gin r') (u', s2))) = 401
             \<and> map ck_MaxAge (gx_cookies (fst (RequireAuth H t (new_gin r') (u', s2)))) = [- 1])"
      using s2(1) s2' plain token [OF r] token [of r']
      by (intro exI [of _ "(ClearSessionCookie H (new_gin r))\<lparr>gx_status := 204\<rparr>"] exI [of _ s2])
        (simp add: http_Logout_def RequireAuth_def resolve_def assms(1) new_gin_def respond_def ClearSessionCookie_def session_cookie_def)
  qed (use k g' in \<open>simp_all add: SetSessionCookie_def\<close>)
qed

theorem cookie_session_witness:
  "\<exists>g u s k user r. http_Register toy_auth_handler 100 toy_draws (new_gin (toy_request ''POST'' []))
       (NewMemoryUserStore, NewMemorySessionStore) = (g, u, s)
     \<and> gx_cookies g = [k] \<and> sends_cookie r k \<and> RequireAuth toy_auth_handler 200 (new_gin r) (u, s) = (attach user (new_gin r), u, s)"
proof -
  let ?r = "(toy_request ''GET'' [])\<lparr>hr_Cookie := \<lambda>_. Some (hex_encode (dr_token toy_draws))\<rparr>"
  obtain iss u' s' where reg: "toy_registered = (Inr iss, u', s')" using toy_register by blast
  have h: "http_Register toy_auth_handler 100 toy_draws (new_gin (toy_request ''POST'' [])) (NewMemoryUserStore, NewMemorySessionStore)
      = (reply 201 (UserBody (NewUserDTO (is_User iss))) (SetSessionCookie toy_auth_handler 100 iss (new_gin (toy_request ''POST'' []))), u', s')"
    using reg by (simp add: http_Register_def toy_auth_handler_def NewAuthHandler_def toy_registered_def new_gin_def toy_request_def)
  obtain k user where k: "gx_cookies (fst (http_Register toy_auth_handler 100 toy_draws (new_gin (toy_request ''POST'' []))
        (NewMemoryUserStore, NewMemorySessionStore))) = [k]" "ck_Value k = hex_encode (dr_token toy_draws)"
    "sends_cookie ?r k \<Longrightarrow> RequireAuth toy_auth_handler 200 (new_gin ?r) (u', s') = (attach user (new_gin ?r), u', s')"
  proof -
    have svc: "ah_service toy_auth_handler = memory_auth \<lparr>ac_PasswordMinLength = 0, ac_SessionTTL = 0\<rparr>
        (\<lambda>salt p. Inr (CHR ''h'' # p)) (\<lambda>h p. h = CHR ''h'' # p) (\<lambda>e. CHR 0x40 \<in> set e)"
      by (simp add: toy_auth_handler_def NewAuthHandler_def toy_auth_def)
    have early: "(200 :: int) < 100 + ac_SessionTTL (WithDefaults \<lparr>ac_PasswordMinLength = 0, ac_SessionTTL = 0\<rparr>)"
      by (simp add: WithDefaults_def DefaultSessionTTL_def duration_defs)
    have hyps: "gx_status (reply 201 (UserBody (NewUserDTO (is_User iss)))
          (SetSessionCookie toy_auth_handler 100 iss (new_gin (toy_request ''POST'' [])))) = 201"
      "live (gx_ctx (new_gin (toy_request ''POST'' [])))" "mu_wf NewMemoryUserStore"
      "mu_byID NewMemoryUserStore (NewUserID (dr_user toy_draws)) = None" "length (dr_token toy_draws) = 32"
      "gx_cookies (new_gin (toy_request ''POST'' [])) = []" "live (hr_ctx ?r)"
      by (simp_all add: new_gin_def toy_request_def toy_draws_def) (simp add: NewMemoryUserStore_def)
    show ?thesis
      using cookie_session [OF svc h hyps hyps(7), of 200 200] early that h by force
  qed
  have "sends_cookie ?r k" using k(2) by (simp add: sends_cookie_def)
  then show ?thesis using k h by (intro exI [of _ "fst (http_Register toy_auth_handler 100 toy_draws (new_gin (toy_request ''POST'' [])) (NewMemoryUserStore, NewMemorySessionStore))"] exI [of _ u'] exI [of _ s'] exI [of _ k] exI [of _ user] exI [of _ ?r]) simp
qed

subsection \<open>Saving a generated plan\<close>

text \<open>The status and code of the first save of a task, by what is stored under its id.\<close>

definition save_verdict :: "string \<Rightarrow> SaveInput \<Rightarrow> Task option \<Rightarrow> int \<times> string" where
  "save_verdict userID inp stored =
     (case stored of
        None \<Rightarrow> (500, ''save_failed'')
      | Some t \<Rightarrow>
          (case tk_Plan t of
             None \<Rightarrow> (409, ''task_not_ready'')
           | Some plan \<Rightarrow>
               if tk_Status t \<noteq> TaskSucceeded then (409, ''task_not_ready'')
               else if tk_UserID t \<noteq> [] \<and> tk_UserID t \<noteq> userID then (403, ''forbidden'')
               else if \<not> is_ok (validateTitle (save_title inp
                      \<lparr>sn_TaskID = tk_ID t, sn_UserID = tk_UserID t, sn_Status = status_text (tk_Status t),
                       sn_Plan = tk_Plan t, sn_Request = tk_Request t\<rparr> plan)) then (400, ''invalid_title'')
               else (201, [])))"

lemma status_text_succeeded [simp]: "status_text s = TaskStatusSucceeded \<longleftrightarrow> s = TaskSucceeded"
  by (cases s) (simp_all add: status_text_def TaskStatusSucceeded_def)

lemma validateTitle_err: "validateTitle t = Inl e \<Longrightarrow> e = ErrInvalidTitle"
  by (auto simp: validateTitle_def Let_def split: if_splits)

lemma save_checks_verdict:
  assumes "ou_tasks ou = Some (LookupTask MemoryTaskStore_ops now ts)" "live c"
  shows "case save_checks ou c userID inp of
      Inl e \<Rightarrow> (case mapDomainError e of Some (st, code) \<Rightarrow> (st, code) | None \<Rightarrow> (500, ''save_failed''))
        = save_verdict userID inp (mt_tasks ts (si_TaskID inp)) \<and> e \<noteq> RunTimePanic
    | Inr r \<Rightarrow> save_verdict userID inp (mt_tasks ts (si_TaskID inp)) = (201, [])"
proof -
  have get: "LookupTask MemoryTaskStore_ops now ts c i = (case mt_tasks ts i of
      None \<Rightarrow> Inl (ErrOther (travel_err_text f_zero ErrTaskNotFound))
    | Some t \<Rightarrow> Inr \<lparr>sn_TaskID = tk_ID t, sn_UserID = tk_UserID t, sn_Status = status_text (tk_Status t),
        sn_Plan = tk_Plan t, sn_Request = tk_Request t\<rparr>)" for i
    using assms(2) by (simp add: LookupTask_def MemoryTaskStore_ops_def MemoryTaskStore_Get_def split: option.split)
  show ?thesis
  proof (cases "mt_tasks ts (si_TaskID inp)")
    case None
    then show ?thesis by (simp add: save_checks_def assms(1) get save_verdict_def)
  next
    case (Some t)
    show ?thesis
    proof (cases "tk_Plan t")
      case None
      then show ?thesis using Some by (simp add: save_checks_def assms(1) get save_verdict_def)
    next
      case (Some plan)
      let ?sn = "\<lparr>sn_TaskID = tk_ID t, sn_UserID = tk_UserID t, sn_Status = status_text (tk_Status t),
        sn_Plan = Some plan, sn_Request = tk_Request t\<rparr>"
      define v where "v = validateTitle (save_title inp ?sn plan)"
      define sn where "sn = ?sn"
      have sn: "sn_UserID sn = tk_UserID t" "sn_Status sn = status_text (tk_Status t)" "sn_Plan sn = Some plan"
        by (simp_all add: sn_def)
      have v: "validateTitle (save_title inp sn plan) = v" by (simp add: v_def sn_def)
      have chk: "save_checks ou c userID inp =
          (if tk_Status t \<noteq> TaskSucceeded then Inl ErrTaskNotSucceeded
           else if tk_UserID t \<noteq> [] \<and> tk_UserID t \<noteq> userID then Inl ErrTaskNotOwned
           else and_then v (\<lambda>_. Inr (sn, plan)))"
        using \<open>mt_tasks ts (si_TaskID inp) = Some t\<close> Some
        by (simp add: save_checks_def assms(1) get v sn flip: sn_def)
      have ver: "save_verdict userID inp (mt_tasks ts (si_TaskID inp)) =
          (if tk_Status t \<noteq> TaskSucceeded then (409, ''task_not_ready'')
           else if tk_UserID t \<noteq> [] \<and> tk_UserID t \<noteq> userID then (403, ''forbidden'')
           else if \<not> is_ok v then (400, ''invalid_title'') else (201, []))"
        using \<open>mt_tasks ts (si_TaskID inp) = Some t\<close> Some by (simp add: save_verdict_def v_def)
      show ?thesis
      proof (cases v)
        case (Inl e)
        then have "e = ErrInvalidTitle" using validateTitle_err by (simp add: v_def)
        then show ?thesis using Inl by (simp add: chk ver)
      next
        case (Inr x)
        then show ?thesis by (simp add: chk ver)
      qed
    qed
  qed
qed

text \<open>
  How the first save of a task ends depends only on the stored task: 201 with the new plan, which
  belongs to the user and to the task and is stored, exactly when the task is stored, succeeded
  with a plan, anonymous or the user's own, and the title is valid; 409 when it has not succeeded,
  403 when it is someone else's, 400 for a title; and, when there is no such task, 500
  \<open>save_failed\<close>, where the code of package plans and the documentation mean 400 \<open>task_not_found\<close>: the
  adapter passes on the error of the task store. Every failing save changes nothing.
\<close>

theorem save_answers:
  assumes "ph_service H = memory_plans o1 o2" "dp_store (th_service (rd_Travel R)) = MemoryTaskStore_ops"
    and "gx_user g = Some u" "us_ID u \<noteq> []" "live (gx_ctx g)" "mp_wf (pl_plans \<sigma>)"
    and "bind_save (ph_bind H) (hr_Body (gx_req g)) = Inr inp" "si_TaskID inp \<noteq> []"
    and "\<forall>p \<in> ran (mp_plans (pl_plans \<sigma>)). up_UserID p = us_ID u \<longrightarrow> up_TaskID p = si_TaskID inp \<longrightarrow> IsDeleted p"
    and "save_verdict (us_ID u) inp (mt_tasks (sv_store (ap_travel a)) (si_TaskID inp)) = (st, code)"
  shows "\<exists>g' \<sigma>'. http_Save H (plan_inputs R I a) g \<sigma> = (g', \<sigma>') \<and> gx_status g' = st
    \<and> (case gx_body g' of
         PlanBody p \<Rightarrow> st = 201 \<and> pd_UserID p = us_ID u \<and> pd_TaskID p = si_TaskID inp
           \<and> mp_plans (pl_plans \<sigma>') (pd_ID p) \<noteq> None
       | ErrorBody i c m \<Rightarrow> st \<noteq> 201 \<and> c = code \<and> \<sigma>' = \<sigma>
       | _ \<Rightarrow> False)"
proof -
  let ?ou = "plan_inputs R I a"
  obtain r where r: "pst_GetByTaskID (pd_plans (memory_plans o1 o2)) (gx_ctx g) (us_ID u) (si_TaskID inp) (pl_plans \<sigma>) = Inr r"
    using memory_library.pget_task_ok [OF assms(6,5)] by blast
  have "r = None"
    using memory_library.pget_task_some [OF assms(6,5), of o1 o2 "us_ID u" "si_TaskID inp"] r assms(9)
    by (cases r) (auto simp: ran_def)
  note r = r [unfolded this]
  have tasks: "ou_tasks ?ou = Some (LookupTask MemoryTaskStore_ops (in_now I) (sv_store (ap_travel a)))"
    by (simp add: plan_inputs_def assms(2))
  note v = save_checks_verdict [OF tasks assms(5), of "us_ID u" inp, unfolded assms(10)]
  show ?thesis
  proof (cases "save_checks ?ou (gx_ctx g) (us_ID u) inp")
    case (Inl e)
    then have "http_Save H ?ou g \<sigma> = (fail g ''save_failed'' (plans_err_text e) e, \<sigma>)"
      using assms(3,4,7,8) r by (simp add: http_Save_def Plans_Save_def assms(1))
    moreover have "st \<noteq> 201" using v Inl by (cases e) auto
    ultimately show ?thesis using v Inl
      by (auto simp: fail_def respondError_def respond_def split: option.splits prod.splits)
  next
    case (Inr p)
    obtain snap tp where p: "p = (snap, tp)" by (cases p)
    let ?plan = "saved_plan ?ou (us_ID u) inp snap tp"
    obtain s1 where s1: "pst_Create (pd_plans (memory_plans o1 o2)) (gx_ctx g) ?plan (pl_plans \<sigma>) = (Inr (), s1)" "mp_wf s1"
      "mp_plans s1 = (mp_plans (pl_plans \<sigma>))(up_ID ?plan \<mapsto> ?plan)"
      using memory_library.pcreate [OF assms(6,5), of o1 o2 ?plan] by blast
    obtain s2 where s2: "pst_CreateArchive (pd_plans (memory_plans o1 o2)) (gx_ctx g) (saved_archive ?ou ?plan snap) s1 = (Inr (), s2)"
      "mp_plans s2 = mp_plans s1"
      using memory_library.parchive [OF s1(2) assms(5), of o1 o2 "saved_archive ?ou ?plan snap"] by blast
    have "http_Save H ?ou g \<sigma> = (reply 201 (PlanBody (ToUserPlanDTO ?plan True)) g, \<sigma>\<lparr>pl_plans := s2\<rparr>)"
      using assms(3,4,7,8) r Inr p s1(1) s2(1) by (simp add: http_Save_def Plans_Save_def assms(1) Let_def)
    then show ?thesis using v Inr s1(3) s2(2) by (simp add: ToUserPlanDTO_def) (simp add: saved_plan_def)
  qed
qed

theorem save_answers_witness:
  "\<exists>(R :: (MemoryUserStore, MemorySessionStore, MemoryPlanStore, MemoryPublicPlanStore, MemoryPublicViewDeduper, MemoryTaskStore, 'r, 'l) RouterDeps)
     (I :: (MemoryTaskStore, 'r, 'l) inputs) a g.
     rd_Plans R = Some toy_plans_handler \<and> mt_tasks (sv_store (ap_travel a)) ''t9'' = None
   \<and> gx_status (fst (http_Save toy_plans_handler (plan_inputs R I a) g (new_plans 0))) = 500"
proof -
  fix D :: "(MemoryTaskStore, 'r, 'l) deps" and x b and I :: "(MemoryTaskStore, 'r, 'l) inputs"
    and s :: "(MemoryTaskStore, 'r, 'l) service"
  let ?R = "\<lparr>rd_Travel = \<lparr>th_service = D\<lparr>dp_store := MemoryTaskStore_ops\<rparr>, th_extractor = x, th_bind = b\<rparr>,
     rd_Auth = Some toy_auth_handler, rd_Plans = Some toy_plans_handler,
     rd_AllowedOrigins = [], rd_AllowAnonymousPlanGeneration = True\<rparr>"
  let ?a = "\<lparr>ap_auth = (NewMemoryUserStore, NewMemorySessionStore), ap_plans = new_plans 0,
     ap_travel = s\<lparr>sv_store := NewMemoryTaskStore\<rparr>\<rparr>"
  let ?g = "(new_gin ((toy_request ''POST'' [])\<lparr>hr_Body := ''t9''\<rparr>))\<lparr>gx_user := Some toy_user\<rparr>"
  have none: "mt_tasks (sv_store (ap_travel ?a)) ''t9'' = None" by (simp add: NewMemoryTaskStore_def)
  have "\<exists>g' \<sigma>'. http_Save toy_plans_handler (plan_inputs ?R I ?a) ?g (new_plans 0) = (g', \<sigma>') \<and> gx_status g' = 500"
    using save_answers [of toy_plans_handler "Visit_order sorted_keys" "Visit_order sorted_keys" ?R ?g toy_user "new_plans 0"
        "\<lparr>si_TaskID = ''t9'', si_Title = [], si_Note = []\<rparr>" ?a 500 "''save_failed''" I] none
    by (auto simp: toy_plans_handler_def new_gin_def toy_request_def toy_user_def new_plans_def save_verdict_def)
      (auto simp: NewMemoryPlanStore_def)
  then show ?thesis using none by (intro exI [of _ ?R] exI [of _ I] exI [of _ ?a] exI [of _ ?g]) auto
qed

end
