(* ===== verification/StreamGuarantees.thy ===== *)
theory StreamGuarantees
  imports TravelHttp
begin

section \<open>What a subscriber sees\<close>

text \<open>
  The event stream of a task composed with the run of the task: the events \<open>runTask\<close> publishes reach
  the channel of a subscriber as long as there is room in it, the loop of the handler relays them in
  order and returns after the first terminal one. The room is 16 events beyond the history.
\<close>

subsection \<open>Events into a channel\<close>

fun renumber :: "int \<Rightarrow> TaskEvent list \<Rightarrow> TaskEvent list" where
  "renumber n [] = []"
| "renumber n (e # es) = e\<lparr>ev_Sequence := n\<rparr> # renumber (n + 1) es"

lemma length_renumber [simp]: "length (renumber n es) = length es"
  by (induction n es rule: renumber.induct) auto

lemma ends_numbered [simp]: "ends_stream (e\<lparr>ev_Sequence := n\<rparr>) = ends_stream e"
  by (simp add: ends_stream_def)

lemma renumber_append: "renumber n (xs @ ys) = renumber n xs @ renumber (n + int (length xs)) ys"
  by (induction n xs rule: renumber.induct) (auto simp: algebra_simps)

lemma renumber_ends: "list_ex ends_stream (renumber n es) = list_ex ends_stream es"
  by (induction n es rule: renumber.induct) auto

text \<open>The channel \<open>ch\<close> is subscribed to the task \<open>i\<close>, holds \<open>q\<close> and has room for \<open>k\<close> more.\<close>

definition holds :: "EventBus \<Rightarrow> string \<Rightarrow> nat \<Rightarrow> TaskEvent list \<Rightarrow> nat \<Rightarrow> bool" where
  "holds b i ch q k \<longleftrightarrow> bus_ok b \<and> ch \<in> set (eb_subscribers b i) \<and> ch_buf (eb_channels b ch) = q
     \<and> ch_cap (eb_channels b ch) = length q + k"

lemma Publish_holds:
  assumes "holds b i ch q k" "ev_TaskID e = i" "i \<noteq> []"
  shows "\<exists>b'. Publish e b = Some b' \<and> eb_subscribers b' = eb_subscribers b \<and> eb_sequences b' i = eb_sequences b i + 1
    \<and> holds b' i ch (q @ (if k = 0 then [] else [e\<lparr>ev_Sequence := eb_sequences b i + 1\<rparr>])) (k - 1)"
proof -
  have ok: "bus_ok b" and ch: "ch \<in> set (eb_subscribers b i)" using assms(1) by (simp_all add: holds_def)
  obtain b' where b': "Publish e b = Some b'" "bus_ok b'" using Publish_ok [OF ok] by blast
  obtain e' chs b1 where p: "publish_locked e b = (e', chs, b1)" by (cases "publish_locked e b") auto
  note f = publish_locked_frame [OF p]
  have "channels_ok b" using ok by (simp add: bus_ok_def)
  then have open_: "\<forall>c \<in> set chs. \<not> ch_closed (eb_channels b1 c)" "distinct chs"
    unfolding f(1,3) channels_ok_def by blast+
  have e': "e' = e\<lparr>ev_Sequence := eb_sequences b i + 1\<rparr>" "eb_sequences b1 i = eb_sequences b i + 1"
    using p assms(2,3) by (auto simp: publish_locked_def Let_def)
  obtain b2 where b2: "send_all e' chs b1 = Some b2" "eb_subscribers b2 = eb_subscribers b" "eb_sequences b2 = eb_sequences b1"
    "\<forall>c. ch_cap (eb_channels b2 c) = ch_cap (eb_channels b c)"
    "\<forall>c. ch_buf (eb_channels b2 c) = ch_buf (eb_channels b c)
        @ (if c \<in> set chs \<and> length (ch_buf (eb_channels b c)) < ch_cap (eb_channels b c) then [e'] else [])"
    using send_all_open [OF open_, of e'] f(2-4) by auto
  have "b2 = b'" using p b2(1) b'(1) by (simp add: Publish_def)
  then show ?thesis using b' b2(2-5) e' assms(1,2) ch f(1) by (auto simp: holds_def)
qed

lemma publish_list_holds:
  assumes "holds (sv_events \<sigma>) i ch q k" "\<forall>e \<in> set es. ev_TaskID e = i" "i \<noteq> []"
  shows "holds (sv_events (publish_list es \<sigma>)) i ch (q @ take k (renumber (eb_sequences (sv_events \<sigma>) i + 1) es)) (k - length es)
    \<and> eb_subscribers (sv_events (publish_list es \<sigma>)) = eb_subscribers (sv_events \<sigma>)"
  using assms
proof (induction es arbitrary: \<sigma> q k)
  case Nil
  then show ?case by simp
next
  case (Cons e es)
  have e: "ev_TaskID e = i" using Cons.prems(2) by simp
  obtain b' where b': "Publish e (sv_events \<sigma>) = Some b'" "eb_subscribers b' = eb_subscribers (sv_events \<sigma>)"
    "eb_sequences b' i = eb_sequences (sv_events \<sigma>) i + 1"
    "holds b' i ch (q @ (if k = 0 then [] else [e\<lparr>ev_Sequence := eb_sequences (sv_events \<sigma>) i + 1\<rparr>])) (k - 1)"
    using Publish_holds [OF Cons.prems(1) e Cons.prems(3)] by blast
  have p: "sv_events (publish e \<sigma>) = b'" using b'(1) by (simp add: publish_def)
  have "\<forall>e \<in> set es. ev_TaskID e = i" using Cons.prems(2) by simp
  from Cons.IH [OF _ this Cons.prems(3), of "publish e \<sigma>", unfolded p, OF b'(4)]
  show ?case using b'(2,3) by (cases k) auto
qed

subsection \<open>The events of a run\<close>

text \<open>The events \<open>runTask\<close> publishes once its first update has gone through, in order.\<close>

definition run_events :: "planner_run \<Rightarrow> time \<Rightarrow> time \<Rightarrow> Task \<Rightarrow> TaskEvent list" where
  "run_events run t1 t2 task =
     (let running = task\<lparr>tk_Status := TaskRunning, tk_UpdatedAt := t1\<rparr>
      in case finish_task running (pr_outcome run) (saw_any_delta (pr_reports run)) t2 of
           (finished, before, after) \<Rightarrow>
             task_event running EventProgress TaskRunning ''planner started'' t1
             # report_events running (pr_reports run) @ before @ after)"

lemma publish_events: "sv_events \<sigma> = sv_events \<tau> \<Longrightarrow> sv_events (publish e \<sigma>) = sv_events (publish e \<tau>)"
  by (simp add: publish_def split: option.split)

lemma publish_list_events: "sv_events \<sigma> = sv_events \<tau> \<Longrightarrow> sv_events (publish_list es \<sigma>) = sv_events (publish_list es \<tau>)"
  by (induction es arbitrary: \<sigma> \<tau>) (auto intro: publish_events)

lemma publish_list_append: "publish_list (xs @ ys) \<sigma> = publish_list ys (publish_list xs \<sigma>)"
  by (induction xs arbitrary: \<sigma>) auto

lemma store_update_events [simp]: "sv_events (snd (store_update D now t \<sigma>)) = sv_events \<sigma>"
  by (simp add: store_update_def split: prod.split)

lemma runTask_events:
  assumes "run = plan (tk_Request task) (tk_TestMode task) (normalizeAgentMode (tk_AgentMode task))"
    and "is_ok (fst (store_update D t1 (task\<lparr>tk_Status := TaskRunning, tk_UpdatedAt := t1\<rparr>) \<sigma>))"
  shows "sv_events (runTask D plan t1 t2 task \<sigma>) = sv_events (publish_list (run_events run t1 t2 task) \<sigma>)"
proof -
  let ?running = "task\<lparr>tk_Status := TaskRunning, tk_UpdatedAt := t1\<rparr>"
  obtain \<sigma>1 where u: "store_update D t1 ?running \<sigma> = (Inr (), \<sigma>1)"
    using assms(2) by (cases "store_update D t1 ?running \<sigma>") (auto simp: is_ok_iff)
  then have e1: "sv_events \<sigma>1 = sv_events \<sigma>" using store_update_events [of D t1 ?running \<sigma>] by simp
  obtain t before after where f: "finish_task ?running (pr_outcome run) (saw_any_delta (pr_reports run)) t2 = (t, before, after)"
    by (cases "finish_task ?running (pr_outcome run) (saw_any_delta (pr_reports run)) t2")
  let ?es = "task_event ?running EventProgress TaskRunning ''planner started'' t1 # report_events ?running (pr_reports run) @ before"
  have "sv_events (runTask D plan t1 t2 task \<sigma>)
      = sv_events (publish_list after (snd (store_update D t2 t (publish_list ?es \<sigma>1))))"
    using u f by (simp add: runTask_def Let_def assms(1) publish_list_append)
  also have "\<dots> = sv_events (publish_list after (publish_list ?es \<sigma>))"
    by (intro publish_list_events) (simp add: publish_list_events [OF e1] publish_list_events [OF publish_events [OF e1]])
  finally show ?thesis using f by (simp add: run_events_def Let_def publish_list_append)
qed

text \<open>What a planner may report: no report is called \<open>done\<close> or \<open>error\<close>.\<close>

definition quiet_report :: "planner_report \<Rightarrow> bool" where
  "quiet_report r = (case r of ReportPlannerBusinessEvent e \<Rightarrow> pb_Type e \<noteq> EventDone \<and> pb_Type e \<noteq> EventError | _ \<Rightarrow> True)"

lemma report_event_quiet:
  "report_event task r ts = Some e \<Longrightarrow> quiet_report r \<Longrightarrow> \<not> ends_stream e \<and> ev_TaskID e = tk_ID task"
  by (cases r) (auto simp: quiet_report_def ends_stream_def task_event_def event_type_defs zero_event_def split: if_splits)

lemma report_events_quiet:
  "\<forall>(r, ts) \<in> set reports. quiet_report r \<Longrightarrow> e \<in> set (report_events task reports) \<Longrightarrow>
     \<not> ends_stream e \<and> ev_TaskID e = tk_ID task"
  by (fastforce simp: report_events_def dest: report_event_quiet [OF sym] split: option.splits)

lemma finish_events:
  assumes "finish_task running outcome saw ts = (t, before, after)"
  shows "\<exists>es e. before @ after = es @ [e] \<and> ends_stream e \<and> ev_TaskID e = tk_ID running
    \<and> (\<forall>x \<in> set es. \<not> ends_stream x \<and> ev_TaskID x = tk_ID running)
    \<and> ev_Type e = (if ends_well outcome then EventDone else EventError)"
  using assms
  by (auto simp: finish_task_def ends_well_def Let_def task_event_def ends_stream_def plan_summary_events_def
      event_type_defs zero_event_def split: planner_outcome.splits option.splits if_splits)

lemma run_events_shape:
  assumes "\<forall>(r, ts) \<in> set (pr_reports run). quiet_report r"
  shows "\<exists>es e. run_events run t1 t2 task = es @ [e] \<and> ends_stream e \<and> ev_TaskID e = tk_ID task
    \<and> (\<forall>x \<in> set es. \<not> ends_stream x \<and> ev_TaskID x = tk_ID task)
    \<and> ev_Type e = (if ends_well (pr_outcome run) then EventDone else EventError)"
proof -
  let ?running = "task\<lparr>tk_Status := TaskRunning, tk_UpdatedAt := t1\<rparr>"
  obtain t before after where f: "finish_task ?running (pr_outcome run) (saw_any_delta (pr_reports run)) t2 = (t, before, after)"
    by (cases "finish_task ?running (pr_outcome run) (saw_any_delta (pr_reports run)) t2")
  obtain es e where e: "before @ after = es @ [e]" "ends_stream e" "ev_TaskID e = tk_ID task"
    "\<forall>x \<in> set es. \<not> ends_stream x \<and> ev_TaskID x = tk_ID task"
    "ev_Type e = (if ends_well (pr_outcome run) then EventDone else EventError)"
    using finish_events [OF f] by auto
  let ?first = "task_event ?running EventProgress TaskRunning ''planner started'' t1"
  have "run_events run t1 t2 task = (?first # report_events ?running (pr_reports run) @ es) @ [e]"
    using f e(1) by (simp add: run_events_def Let_def)
  moreover have "\<not> ends_stream ?first" "ev_TaskID ?first = tk_ID task"
    by (simp_all add: ends_stream_def task_event_def event_type_defs)
  moreover have "\<forall>x \<in> set (report_events ?running (pr_reports run)). \<not> ends_stream x \<and> ev_TaskID x = tk_ID task"
    using report_events_quiet [OF assms] by fastforce
  ultimately show ?thesis using e by (intro exI [of _ "?first # report_events ?running (pr_reports run) @ es"] exI [of _ e]) auto
qed

subsection \<open>The loop\<close>

text \<open>Rounds in which the client just reads.\<close>

definition reads :: "nat \<Rightarrow> ('s, 'r, 'l) script" where
  "reads n = replicate n (id, EventReady)"

lemma recv_holds:
  assumes "holds b i ch (e # q) k"
  shows "\<exists>b'. recv ch b = (Some e, b') \<and> eb_subscribers b' = eb_subscribers b \<and> holds b' i ch q (k + 1)"
proof -
  obtain b' where b': "recv ch b = (Some e, b')" "eb_subscribers b' = eb_subscribers b"
    "ch_buf (eb_channels b' ch) = q" "ch_cap (eb_channels b' ch) = ch_cap (eb_channels b ch)"
    using assms by (auto simp: recv_def holds_def Let_def)
  then show ?thesis using assms recv_ok [OF _ b'(1)] by (auto simp: holds_def)
qed

lemma holds_open: "holds b i ch q k \<Longrightarrow> \<not> ch_closed (eb_channels b ch)"
  by (auto simp: holds_def bus_ok_def channels_ok_def)

text \<open>Up to the first terminal event, and for ever when there is none.\<close>

lemma loop_delivers:
  assumes "holds (sv_events \<sigma>) i ch (es @ e # rest) k" "\<forall>x \<in> set es. \<not> ends_stream x" "ends_stream e" "length es < n"
  shows "\<exists>\<sigma>' k'. stream_loop i ch (reads n) \<sigma> = (map sse_of (es @ [e]), True, \<sigma>') \<and> holds (sv_events \<sigma>') i ch rest k'
    \<and> eb_subscribers (sv_events \<sigma>') = eb_subscribers (sv_events \<sigma>)"
  using assms
proof (induction es arbitrary: \<sigma> n k)
  case Nil
  then obtain m where n: "n = Suc m" by (cases n) auto
  obtain b' where b': "recv ch (sv_events \<sigma>) = (Some e, b')" "eb_subscribers b' = eb_subscribers (sv_events \<sigma>)"
    "holds b' i ch rest (k + 1)"
    using recv_holds [of "sv_events \<sigma>" i ch e rest k] Nil by auto
  then show ?case using Nil(3) by (auto simp: n reads_def Let_def)
next
  case (Cons x es)
  then obtain m where n: "n = Suc m" by (cases n) auto
  obtain b' where b': "recv ch (sv_events \<sigma>) = (Some x, b')" "eb_subscribers b' = eb_subscribers (sv_events \<sigma>)"
    "holds b' i ch (es @ e # rest) (k + 1)"
    using recv_holds [of "sv_events \<sigma>" i ch x "es @ e # rest" k] Cons.prems by auto
  then show ?case using Cons.IH [of "\<sigma>\<lparr>sv_events := b'\<rparr>" "k + 1" m] Cons.prems
    by (auto simp: n reads_def Let_def)
qed

lemma loop_starves:
  assumes "holds (sv_events \<sigma>) i ch q k" "\<forall>x \<in> set q. \<not> ends_stream x"
  shows "fst (snd (stream_loop i ch (reads n) \<sigma>)) = False"
  using assms
proof (induction n arbitrary: \<sigma> q k)
  case 0
  then show ?case by (simp add: reads_def)
next
  case (Suc n)
  show ?case
  proof (cases q)
    case Nil
    then have "recv ch (sv_events \<sigma>) = (None, sv_events \<sigma>)" using Suc.prems by (simp add: holds_def recv_def Let_def)
    then show ?thesis using Suc.IH [OF Suc.prems] holds_open [OF Suc.prems(1)] by (simp add: reads_def Let_def)
  next
    case (Cons x q')
    obtain b' where b': "recv ch (sv_events \<sigma>) = (Some x, b')" "holds b' i ch q' (k + 1)"
      using recv_holds [of "sv_events \<sigma>" i ch x q' k] Suc.prems(1) Cons by auto
    then show ?thesis using Suc.IH [of "\<sigma>\<lparr>sv_events := b'\<rparr>" q' "k + 1"] Suc.prems(2) Cons
      by (auto simp: reads_def Let_def split: prod.split)
  qed
qed

lemma Subscribe_holds:
  assumes "bus_ok b" "Subscribe i b = (ch, b')"
  shows "holds b' i ch (eb_history b i) 16" "eb_sequences b' = eb_sequences b"
    "eb_subscribers b' = (eb_subscribers b)(i := eb_subscribers b i @ [ch])" "ch \<notin> set (eb_subscribers b i)"
proof -
  have "\<forall>c \<in> set (eb_subscribers b i). c < eb_next b" using assms(1) by (auto simp: bus_ok_def channels_ok_def)
  then show "ch \<notin> set (eb_subscribers b i)" using assms(2) by (auto simp: Subscribe_def Let_def)
  show "holds b' i ch (eb_history b i) 16" "eb_sequences b' = eb_sequences b"
    "eb_subscribers b' = (eb_subscribers b)(i := eb_subscribers b i @ [ch])"
    using assms(2) Subscribe_ok [OF assms] by (auto simp: Subscribe_def Let_def holds_def)
qed

subsection \<open>A run seen by a subscriber\<close>

text \<open>The subscriber connects, the whole run happens, then he reads.\<close>

definition run_then_read :: "('s, 'r, 'l) deps \<Rightarrow> planner \<Rightarrow> time \<Rightarrow> time \<Rightarrow> Task \<Rightarrow> nat \<Rightarrow> ('s, 'r, 'l) script" where
  "run_then_read D plan t1 t2 task n = (runTask D plan t1 t2 task, EventReady) # reads n"

lemma stream_loop_run:
  "stream_loop i ch (run_then_read D plan t1 t2 task n) \<sigma> = stream_loop i ch (reads (n + 1)) (runTask D plan t1 t2 task \<sigma>)"
  by (simp add: run_then_read_def reads_def Let_def)

text \<open>The state of the channel when the run is over.\<close>

lemma run_fills:
  assumes "bus_ok (sv_events \<sigma>)" "Service_Subscribe (tk_ID task) \<sigma> = (ch, \<sigma>1)" "tk_ID task \<noteq> []"
    and "is_ok (fst (store_update D t1 (task\<lparr>tk_Status := TaskRunning, tk_UpdatedAt := t1\<rparr>) \<sigma>))"
    and "run = plan (tk_Request task) (tk_TestMode task) (normalizeAgentMode (tk_AgentMode task))"
    and "\<forall>(r, ts) \<in> set (pr_reports run). quiet_report r"
    and "es = renumber (eb_sequences (sv_events \<sigma>) (tk_ID task) + 1) (run_events run t1 t2 task)"
  shows "holds (sv_events (runTask D plan t1 t2 task \<sigma>1)) (tk_ID task) ch (EventHistory (tk_ID task) \<sigma> @ take 16 es) (16 - length es)
    \<and> eb_subscribers (sv_events (runTask D plan t1 t2 task \<sigma>1)) = eb_subscribers (sv_events \<sigma>1)"
proof -
  let ?i = "tk_ID task"
  obtain b1 where b1: "Subscribe ?i (sv_events \<sigma>) = (ch, b1)" "\<sigma>1 = \<sigma>\<lparr>sv_events := b1\<rparr>"
    using assms(2) by (auto simp: Service_Subscribe_def split: prod.splits)
  note s = Subscribe_holds [OF assms(1) b1(1)]
  have "store_update D t1 (task\<lparr>tk_Status := TaskRunning, tk_UpdatedAt := t1\<rparr>) \<sigma>1
      = (let (r, \<sigma>') = store_update D t1 (task\<lparr>tk_Status := TaskRunning, tk_UpdatedAt := t1\<rparr>) \<sigma> in (r, \<sigma>'\<lparr>sv_events := b1\<rparr>))"
    by (simp add: store_update_def b1(2) split: prod.split)
  then have "is_ok (fst (store_update D t1 (task\<lparr>tk_Status := TaskRunning, tk_UpdatedAt := t1\<rparr>) \<sigma>1))"
    using assms(4) by (simp split: prod.splits)
  then have ev: "sv_events (runTask D plan t1 t2 task \<sigma>1) = sv_events (publish_list (run_events run t1 t2 task) \<sigma>1)"
    using runTask_events [where plan = plan and run = run and task = task, OF assms(5)] by blast
  have ids: "\<forall>e \<in> set (run_events run t1 t2 task). ev_TaskID e = ?i"
    using run_events_shape [OF assms(6), of t1 t2 task] by auto
  have "holds (sv_events \<sigma>1) ?i ch (EventHistory ?i \<sigma>) 16" using s(1) b1(2) by (simp add: EventHistory_def History_def)
  from publish_list_holds [OF this ids assms(3)] show ?thesis
    using ev assms(7) s(2) b1(2) by simp
qed


text \<open>
  And beyond 16 events he waits for ever: when the run publishes more than 16 events before the
  client reads, the buffer of his channel is full when the terminal event comes, which is then
  dropped; however long he goes on reading, the handler does not return, although the task has
  ended and its history ends with the terminal event.
\<close>

theorem slow_reader_waits_forever:
  assumes "bus_ok (sv_events \<sigma>)" "tk_ID task \<noteq> []"
    and "is_ok (fst (store_update D t1 (task\<lparr>tk_Status := TaskRunning, tk_UpdatedAt := t1\<rparr>) \<sigma>))"
    and "run = plan (tk_Request task) (tk_TestMode task) (normalizeAgentMode (tk_AgentMode task))"
    and "\<forall>(r, ts) \<in> set (pr_reports run). quiet_report r"
    and "\<forall>e \<in> set (EventHistory (tk_ID task) \<sigma>). \<not> ends_stream e"
    and "16 < length (run_events run t1 t2 task)"
  shows "(\<exists>out \<sigma>'. stream_live g now (tk_ID task) current (run_then_read D plan t1 t2 task n) \<sigma> = (out, False, False, \<sigma>'))
    \<and> (\<exists>h e. EventHistory (tk_ID task) (runTask D plan t1 t2 task \<sigma>) = h @ [e] \<and> ends_stream e)"
proof
  let ?i = "tk_ID task"
  obtain us u where us: "run_events run t1 t2 task = us @ [u]" "ends_stream u" "\<forall>x \<in> set us. \<not> ends_stream x" "ev_TaskID u = ?i"
    using run_events_shape [OF assms(5), of t1 t2 task] by blast
  obtain ch \<sigma>1 where sub: "Service_Subscribe ?i \<sigma> = (ch, \<sigma>1)" by (cases "Service_Subscribe ?i \<sigma>")
  let ?es = "renumber (eb_sequences (sv_events \<sigma>) ?i + 1) (run_events run t1 t2 task)"
  have "take 16 ?es = take 16 (renumber (eb_sequences (sv_events \<sigma>) ?i + 1) us)"
    using assms(7) by (simp add: us(1) renumber_append)
  moreover have "\<forall>x \<in> set (renumber (eb_sequences (sv_events \<sigma>) ?i + 1) us). \<not> ends_stream x"
    using us(3) renumber_ends unfolding list_ex_iff by blast
  ultimately have quiet: "\<forall>x \<in> set (EventHistory ?i \<sigma> @ take 16 ?es). \<not> ends_stream x"
    using assms(6) by (auto dest: in_set_takeD)
  have "fst (snd (stream_loop ?i ch (reads (n + 1)) (runTask D plan t1 t2 task \<sigma>1))) = False"
    using loop_starves [OF conjunct1 [OF run_fills [where plan = plan and run = run and task = task, OF assms(1) sub assms(2-5) refl]] quiet] .
  then show "\<exists>out \<sigma>'. stream_live g now ?i current (run_then_read D plan t1 t2 task n) \<sigma> = (out, False, False, \<sigma>')"
    by (cases "stream_loop ?i ch (reads (n + 1)) (runTask D plan t1 t2 task \<sigma>1)")
      (simp add: stream_live_def sub stream_loop_run)
  have "\<exists>n h. EventHistory ?i (publish_list (us @ [u]) \<sigma>) = h @ [u\<lparr>ev_Sequence := n\<rparr>]"
    using publish_list_last [OF assms(1) us(4) assms(2)] .
  then show "\<exists>h e. EventHistory ?i (runTask D plan t1 t2 task \<sigma>) = h @ [e] \<and> ends_stream e"
    using runTask_events [where \<sigma> = \<sigma> and run = run and plan = plan and task = task, OF assms(4,3)] us(1,2) by (fastforce simp: EventHistory_def)
qed

text \<open>A planner that reports some words and fails.\<close>

definition talking_planner :: "nat \<Rightarrow> planner" where
  "talking_planner k req testMode mode = \<lparr>pr_reports = replicate k (ReportLLMDelta ''hi'', 8), pr_outcome = PlanErr ''no route''\<rparr>"

lemma sample_bus_ok: "bus_ok (sv_events sample_stored)"
  by (simp add: sample_stored_def new_service_def)

lemma sample_stream_start:
  "EventHistory ''t1'' sample_stored = []" "tk_ID (sample_task ''t1'' st) = ''t1''"
  "is_ok (fst (store_update (TravelService.memory_deps pt pr) 7
     ((sample_task ''t1'' TaskPending)\<lparr>tk_Status := TaskRunning, tk_UpdatedAt := 7\<rparr>) sample_stored))"
  by (simp_all add: sample_stored_def new_service_def EventHistory_def History_def NewEventBus_def sample_task_def
      store_update_def TravelService.memory_deps_def MemoryTaskStore_ops_def MemoryTaskStore_Update_def mt_put_def)

lemma talking_quiet: "\<forall>(r, ts) \<in> set (pr_reports (talking_planner k req tm mode)). quiet_report r"
  by (simp add: talking_planner_def quiet_report_def)

lemma length_talking:
  "length (run_events (talking_planner k req tm mode) t1 t2 task) = k + 2"
proof -
  have "length (report_events t (replicate k (ReportLLMDelta ''hi'', 8))) = k" for t
    by (induction k) (simp_all add: report_events_def)
  then show ?thesis by (simp add: run_events_def talking_planner_def finish_task_def Let_def)
qed


theorem slow_reader_waits_forever_witness:
  "\<forall>n (g :: gin). \<exists>out \<sigma>'. stream_live g 5 ''t1'' (taskResponse (sample_task ''t1'' TaskPending))
     (run_then_read (TravelService.memory_deps ''mock'' (\<lambda>_. True)) (talking_planner 20) 7 9 (sample_task ''t1'' TaskPending) n)
     sample_stored = (out, False, False, \<sigma>')"
proof (intro allI)
  fix n and g :: gin
  show "\<exists>out \<sigma>'. stream_live g 5 ''t1'' (taskResponse (sample_task ''t1'' TaskPending))
     (run_then_read (TravelService.memory_deps ''mock'' (\<lambda>_. True)) (talking_planner 20) 7 9 (sample_task ''t1'' TaskPending) n)
     sample_stored = (out, False, False, \<sigma>')"
    using slow_reader_waits_forever [where plan = "talking_planner 20" and task = "sample_task ''t1'' TaskPending" and n = n and g = g
        and now = 5 and ?t1.0 = 7 and ?t2.0 = 9 and D = "TravelService.memory_deps ''mock'' (\<lambda>_. True)"
        and current = "taskResponse (sample_task ''t1'' TaskPending)",
        OF sample_bus_ok _ sample_stream_start(3) refl talking_quiet]
    by (simp add: sample_stream_start(1,2) length_talking)
qed

end
