(* ===== verification/Tools.thy ===== *)
theory Tools
  imports Brief TravelService
begin

section \<open>The planner's tools\<close>

text \<open>
  internal/agent/eino/types.go, tools.go and tool_mode.go: the inputs of the four tools, the
  deterministic mock tools, the budget tool that is used in every mode, and the wrappers that choose
  between the mock and the configured tools and fall back to the mock one when a real one fails. The
  real tools are clients of a map service and are arguments (\<open>primary\<close>). A tool can return data and
  an error at once: a fallback.
\<close>

subsection \<open>Inputs\<close>

text \<open>What the planner reads from its context: whether it is cancelled, and \<open>PlannerOptions\<close>.\<close>

record pctx =
  pc_Err :: "string option"
  pc_TestMode :: bool
  pc_AgentMode :: string

record POIToolInput =
  pin_City :: string
  pin_Interests :: "string list"

record WeatherToolInput =
  win_City :: string
  win_Days :: int

record RouteToolInput =
  rin_POIs :: "POIInfo list"
  rin_Mode :: string

record BudgetToolInput =
  bin_Request :: TravelRequest
  bin_Days :: int
  bin_POIs :: "POIInfo list"
  bin_Routes :: "RouteInfo list"
  bin_Itinerary :: "TravelDay list"

record ToolFallbackError =
  tf_Tool :: string
  tf_Provider :: string
  tf_Stage :: string
  tf_Category :: string
  tf_Reason :: string
  tf_MockFallback :: bool

datatype tool_err = ToolErr string | FallbackErr ToolFallbackError

type_synonym 'a tool_result = "'a list \<times> tool_err option"
type_synonym POITool = "pctx \<Rightarrow> POIToolInput \<Rightarrow> POIInfo tool_result"
type_synonym WeatherTool = "pctx \<Rightarrow> WeatherToolInput \<Rightarrow> WeatherInfo tool_result"
type_synonym RouteTool = "pctx \<Rightarrow> RouteToolInput \<Rightarrow> RouteInfo tool_result"
type_synonym BudgetTool = "pctx \<Rightarrow> BudgetToolInput \<Rightarrow> string + TravelBudget"

subsection \<open>The mock tools\<close>

definition roundMoney :: "float64 \<Rightarrow> float64" where
  "roundMoney v = f_div (f_round (f_mul v (f_of_int 100))) (f_of_int 100)"

definition maxInt :: "int \<Rightarrow> int \<Rightarrow> int" where
  "maxInt a b = (if b < a then a else b)"

definition knownCityPOIs :: "(string \<times> string list) list" where
  "knownCityPOIs =
    [
     (utf8 [0x676D, 0x5DDE], [utf8 [0x897F, 0x6E56], utf8 [0x7075, 0x9690, 0x5BFA], utf8 [0x6CB3, 0x574A, 0x8857], utf8 [0x9F99, 0x4E95, 0x6751], utf8 [0x4EAC, 0x676D, 0x5927, 0x8FD0, 0x6CB3]]),
     (utf8 [0x5357, 0x4EAC], [utf8 [0x4E2D, 0x5C71, 0x9675], utf8 [0x592B, 0x5B50, 0x5E99], utf8 [0x79E6, 0x6DEE, 0x6CB3], utf8 [0x5357, 0x4EAC, 0x535A, 0x7269, 0x9662], utf8 [0x8001, 0x95E8, 0x4E1C]]),
     (utf8 [0x5317, 0x4EAC], [utf8 [0x6545, 0x5BAB], utf8 [0x5929, 0x5B89, 0x95E8], utf8 [0x9890, 0x548C, 0x56ED], utf8 [0x56FD, 0x5BB6, 0x535A, 0x7269, 0x9986], utf8 [0x4EC0, 0x5239, 0x6D77]]),
     (utf8 [0x6210, 0x90FD], [utf8 [0x5BBD, 0x7A84, 0x5DF7, 0x5B50], utf8 [0x6B66, 0x4FAF, 0x7960], utf8 [0x9526, 0x91CC], utf8 [0x4EBA, 0x6C11, 0x516C, 0x56ED], utf8 [0x6625, 0x7199, 0x8DEF]]),
     (utf8 [0x5E7F, 0x5DDE], [utf8 [0x6C99, 0x9762], utf8 [0x6C38, 0x5E86, 0x574A], utf8 [0x9648, 0x5BB6, 0x7960], utf8 [0x5317, 0x4EAC, 0x8DEF], utf8 [0x73E0, 0x6C5F, 0x591C, 0x6E38]]),
     (utf8 [0x897F, 0x5B89], [utf8 [0x5175, 0x9A6C, 0x4FD1], utf8 [0x5927, 0x96C1, 0x5854], utf8 [0x5927, 0x5510, 0x4E0D, 0x591C, 0x57CE], utf8 [0x897F, 0x5B89, 0x57CE, 0x5899], utf8 [0x9655, 0x897F, 0x5386, 0x53F2, 0x535A, 0x7269, 0x9986]]),
     (utf8 [0x82CF, 0x5DDE], [utf8 [0x62D9, 0x653F, 0x56ED], utf8 [0x5E73, 0x6C5F, 0x8DEF], utf8 [0x82CF, 0x5DDE, 0x535A, 0x7269, 0x9986], utf8 [0x4E03, 0x91CC, 0x5C71, 0x5858], utf8 [0x7559, 0x56ED]]),
     (utf8 [0x672A, 0x77E5, 0x57CE, 0x5E02], [utf8 [0x57CE, 0x5E02, 0x535A, 0x7269, 0x9986], utf8 [0x7279, 0x8272, 0x8857, 0x533A], utf8 [0x672C, 0x5730, 0x7F8E, 0x98DF, 0x8857], utf8 [0x57CE, 0x5E02, 0x516C, 0x56ED], utf8 [0x5730, 0x6807, 0x5E7F, 0x573A]]),
     (''unknown'', [utf8 [0x57CE, 0x5E02, 0x535A, 0x7269, 0x9986], utf8 [0x7279, 0x8272, 0x8857, 0x533A], utf8 [0x672C, 0x5730, 0x7F8E, 0x98DF, 0x8857], utf8 [0x57CE, 0x5E02, 0x516C, 0x56ED], utf8 [0x5730, 0x6807, 0x5E7F, 0x573A]])]"

definition cityPOINames :: "string \<Rightarrow> string list" where
  "cityPOINames city =
     (case map_of knownCityPOIs city of
        Some names \<Rightarrow> names
      | None \<Rightarrow> (case map_of knownCityPOIs ''unknown'' of Some names \<Rightarrow> names | None \<Rightarrow> []))"

definition poiCategory :: "nat \<Rightarrow> string" where
  "poiCategory index = [''landmark'', ''culture'', ''food'', ''nature'', ''citywalk''] ! (index mod 5)"

definition mock_poi :: "string \<Rightarrow> nat \<Rightarrow> string \<Rightarrow> POIInfo" where
  "mock_poi city i name =
     \<lparr>po_Name = name, po_City = city, po_Category = poiCategory i, po_Address = city @ '' POI '' @ Itoa (int i + 1),
      po_Location = [], po_SuggestedDurationMinutes = 90 + int (i mod 3) * 30,
      po_EstimatedCost = f_of_int (30 + int (i mod 4) * 20), po_Cost = UnavailableCost ''per_person'' ''mock.poi'',
      po_Metadata = None\<rparr>"

definition MockPOITool :: POITool where
  "MockPOITool c inp =
     (case pc_Err c of
        Some e \<Rightarrow> ([], Some (ToolErr e))
      | None \<Rightarrow>
          if pin_City inp = [] then ([], Some (ToolErr ''poi tool city is required''))
          else (map (\<lambda>(i, name). mock_poi (pin_City inp) i name) (enumerate 0 (cityPOINames (pin_City inp))), None))"

definition mock_weather :: "string \<Rightarrow> int \<Rightarrow> WeatherInfo" where
  "mock_weather city day =
     (let condition = [''sunny'', ''cloudy'', ''rainy'', ''cloudy''] ! nat ((day + int (length city)) mod 4)
      in \<lparr>we_Day = day, we_Condition = condition,
          we_Temperature = Itoa (18 + day mod 5) @ ''-'' @ Itoa (25 + day mod 6) @ ''C'',
          we_Suggestion = (if condition = ''rainy'' then ''keep indoor backup plan'' else ''outdoor friendly'')\<rparr>)"

definition MockWeatherTool :: WeatherTool where
  "MockWeatherTool c inp =
     (case pc_Err c of
        Some e \<Rightarrow> ([], Some (ToolErr e))
      | None \<Rightarrow>
          if win_Days inp \<le> 0 then ([], Some (ToolErr ''weather tool days must be positive''))
          else (map (mock_weather (win_City inp)) [1..win_Days inp], None))"

definition mock_route :: "string \<Rightarrow> nat \<Rightarrow> POIInfo \<Rightarrow> POIInfo \<Rightarrow> RouteInfo" where
  "mock_route mode i p q =
     \<lparr>ro_From = po_Name p, ro_To = po_Name q, ro_DurationMinutes = 15 + int (i mod 4) * 5,
      ro_DistanceMeters = 1200 + int i * 450, ro_Mode = mode, ro_Cost = UnavailableCost ''per_trip'' ''mock.route''\<rparr>"

definition MockRouteTool :: RouteTool where
  "MockRouteTool c inp =
     (case pc_Err c of
        Some e \<Rightarrow> ([], Some (ToolErr e))
      | None \<Rightarrow>
          if rin_POIs inp = [] then ([], Some (ToolErr ''route tool requires at least one poi''))
          else (let mode = (if rin_Mode inp = [] then ''walk_taxi'' else rin_Mode inp)
                in (map (\<lambda>i. mock_route mode i (rin_POIs inp ! i) (rin_POIs inp ! (i + 1))) [0..<length (rin_POIs inp) - 1], None)))"

subsection \<open>The budget\<close>

definition budgetAmount :: "CostInfo \<Rightarrow> int \<Rightarrow> float64" where
  "budgetAmount cost travelers =
     (case ci_Amount cost of
        None \<Rightarrow> f_zero
      | Some amount \<Rightarrow> if ci_Unit cost = ''per_person'' \<and> 0 < travelers then f_mul amount (f_of_int travelers) else amount)"

definition no_information :: string where "no_information = utf8 [0x6682, 0x65E0, 0x4FE1, 0x606F]"

definition unknown_line :: "string \<Rightarrow> string \<Rightarrow> BudgetLine" where
  "unknown_line key label =
     \<lparr>bl_Key = key, bl_Label = label, bl_Amount = None, bl_Currency = ''CNY'', bl_Status = CostUnavailable,
      bl_Source = [], bl_Display = no_information, bl_Included = False\<rparr>"

definition budgetLine :: "string \<Rightarrow> string \<Rightarrow> float64 \<Rightarrow> bool \<Rightarrow> string \<Rightarrow> BudgetLine" where
  "budgetLine key label amount known source =
     (if \<not> known then unknown_line key label
      else \<lparr>bl_Key = key, bl_Label = label, bl_Amount = Some amount, bl_Currency = ''CNY'', bl_Status = CostAvailable,
            bl_Source = source, bl_Display = [], bl_Included = True\<rparr>)"

definition missingBudgetKeys :: "BudgetLine list \<Rightarrow> string list" where
  "missingBudgetKeys items = map bl_Key (filter (\<lambda>item. bl_Status item = CostUnavailable) items)"

definition contains_token :: "string \<Rightarrow> string list \<Rightarrow> bool" where
  "contains_token text tokens = list_ex (Contains text) tokens"

definition isFoodCategory :: "string \<Rightarrow> bool" where
  "isFoodCategory category = contains_token (ToLower category)
     (map ToLower [''food'', utf8 [0x9910, 0x996E], utf8 [0x4E2D, 0x9910], utf8 [0x706B, 0x9505], utf8 [0x6599, 0x7406], utf8 [0x9910, 0x5385], utf8 [0x80AF, 0x5FB7, 0x57FA], utf8 [0x5496, 0x5561], utf8 [0x8336]])"

definition isTicketCategory :: "string \<Rightarrow> bool" where
  "isTicketCategory category = contains_token (ToLower category)
     (map ToLower [''sightseeing'', ''landmark'', ''culture'', ''nature'', utf8 [0x666F, 0x70B9], utf8 [0x98CE, 0x666F], utf8 [0x81EA, 0x7136], utf8 [0x6587, 0x5316], utf8 [0x516C, 0x56ED], utf8 [0x6E7F, 0x5730],
        utf8 [0x535A, 0x7269, 0x9986], utf8 [0x5BFA]])"

definition needsIntercityTransport :: "TravelRequest \<Rightarrow> bool" where
  "needsIntercityTransport req =
     (if rq_DepartureCity req = [] \<or> rq_DestinationCity req = [] \<or> rq_DepartureCity req = rq_DestinationCity req then False
      else contains_token (Join (rq_TransportMode req # rq_BudgetIncludes req) '' '')
             [utf8 [0x9AD8, 0x94C1], utf8 [0x706B, 0x8F66], utf8 [0x98DE, 0x673A], utf8 [0x5F80, 0x8FD4], utf8 [0x5927, 0x4EA4, 0x901A], utf8 [0x8DE8, 0x57CE]])"

text \<open>A cost that is counted: available, with an amount, included.\<close>

definition counts :: "CostInfo \<Rightarrow> bool" where
  "counts cost \<longleftrightarrow> \<not> (ci_Status cost \<noteq> CostAvailable \<or> ci_Amount cost = None \<or> \<not> ci_Included cost)"

text \<open>The map \<open>poiCosts\<close>: the last POI of a name.\<close>

definition poiCosts :: "POIInfo list \<Rightarrow> string \<Rightarrow> CostInfo" where
  "poiCosts pois name = (case map_of (rev (map (\<lambda>p. (po_Name p, po_Cost p)) pois)) name of None \<Rightarrow> zero_cost | Some c \<Rightarrow> c)"

text \<open>The sums over the items, and whether anything was added to them.\<close>

record tally =
  ta_food :: float64
  ta_foodKnown :: bool
  ta_ticket :: float64
  ta_ticketKnown :: bool

definition add_item :: "int \<Rightarrow> (string \<Rightarrow> CostInfo) \<Rightarrow> TravelItem \<Rightarrow> tally \<Rightarrow> tally" where
  "add_item travelers pcosts item t =
     (let cost = (if ci_Status (it_Cost item) = [] then pcosts (it_Name item) else it_Cost item)
      in if \<not> counts cost then t
         else let amount = budgetAmount cost travelers
              in if isFoodCategory (it_Type item) then t\<lparr>ta_food := f_add (ta_food t) amount, ta_foodKnown := True\<rparr>
                 else if isTicketCategory (it_Type item) then t\<lparr>ta_ticket := f_add (ta_ticket t) amount, ta_ticketKnown := True\<rparr>
                 else t)"

definition tally_items :: "int \<Rightarrow> (string \<Rightarrow> CostInfo) \<Rightarrow> TravelDay list \<Rightarrow> tally" where
  "tally_items travelers pcosts itinerary =
     fold (add_item travelers pcosts) (concat (map dy_Items itinerary))
       \<lparr>ta_food = f_zero, ta_foodKnown = False, ta_ticket = f_zero, ta_ticketKnown = False\<rparr>"

definition tally_routes :: "int \<Rightarrow> RouteInfo list \<Rightarrow> float64 \<times> bool" where
  "tally_routes travelers routes =
     fold (\<lambda>route (transport, known).
         if \<not> counts (ro_Cost route) then (transport, known)
         else (f_add transport (budgetAmount (ro_Cost route) travelers), True)) routes (f_zero, False)"

text \<open>The labels of the five lines.\<close>

definition label_food :: string where "label_food = utf8 [0x9910, 0x996E]"
definition label_transport :: string where "label_transport = utf8 [0x5E02, 0x5185, 0x4EA4, 0x901A]"
definition label_hotel :: string where "label_hotel = utf8 [0x4F4F, 0x5BBF]"
definition label_ticket :: string where "label_ticket = utf8 [0x95E8, 0x7968]"
definition label_intercity :: string where "label_intercity = utf8 [0x5F80, 0x8FD4, 0x5927, 0x4EA4, 0x901A]"

definition budget_items :: "float64 \<times> bool \<Rightarrow> float64 \<times> bool \<Rightarrow> float64 \<times> bool \<Rightarrow> BudgetLine list" where
  "budget_items food transport ticket =
     [budgetLine ''food'' label_food (fst food) (snd food) ''amap.poi.biz_ext.cost'',
      budgetLine ''transport'' label_transport (fst transport) (snd transport) ''amap.route.cost'',
      budgetLine ''hotel'' label_hotel f_zero False [],
      budgetLine ''ticket'' label_ticket (fst ticket) (snd ticket) ''amap.poi.biz_ext.cost'']"

definition MockBudgetTool :: BudgetTool where
  "MockBudgetTool c inp =
     (case pc_Err c of
        Some e \<Rightarrow> Inl e
      | None \<Rightarrow>
          if f_le (rq_Budget (bin_Request inp)) f_zero then Inl ''budget tool request budget must be positive''
          else if bin_Days inp \<le> 0 then Inl ''budget tool days must be positive''
          else
            let travelers = (if rq_Travelers (bin_Request inp) \<le> 0 then 1 else rq_Travelers (bin_Request inp));
                t = tally_items travelers (poiCosts (bin_POIs inp)) (bin_Itinerary inp);
                (transport0, transportKnown) = tally_routes travelers (bin_Routes inp);
                food = roundMoney (ta_food t);
                ticket = roundMoney (ta_ticket t);
                transport = roundMoney transport0;
                hotel = f_zero;
                knownTotal = roundMoney (f_add (f_add (f_add food ticket) transport) hotel);
                items = budget_items (food, ta_foodKnown t) (transport, transportKnown) (ticket, ta_ticketKnown t);
                missing = missingBudgetKeys items;
                intercity = needsIntercityTransport (bin_Request inp);
                items' = items @ (if intercity then [unknown_line ''intercity_transport'' label_intercity] else []);
                missing' = missing @ (if intercity then [''intercity_transport''] else [])
            in Inr \<lparr>bg_Transport = transport, bg_Food = food, bg_Hotel = hotel, bg_Ticket = ticket, bg_Total = knownTotal,
                    bg_KnownTotal = knownTotal, bg_Complete = (length missing' = 0), bg_Currency = ''CNY'', bg_Items = items',
                    bg_Missing = missing'\<rparr>)"

subsection \<open>Choosing a tool\<close>

definition fallbackValue :: "string \<Rightarrow> string \<Rightarrow> string" where
  "fallbackValue val fallback = (if TrimSpace val = [] then fallback else val)"

definition classifyToolFailure :: "string \<Rightarrow> string" where
  "classifyToolFailure reason =
     (let lower = ToLower (TrimSpace reason)
      in if lower = [] then ''unknown''
         else if contains_token lower [''not configured'', ''api key is empty'', ''base url is empty''] then ''configuration''
         else if contains_token lower [''timeout'', ''deadline exceeded''] then ''timeout''
         else if contains_token lower [''cuqps'', ''qps'', ''rate limit'', ''too many requests''] then ''rate_limit''
         else if contains_token lower [''status '', ''api error''] then ''provider_error''
         else if contains_token lower [''decode'', ''invalid character'', ''json''] then ''invalid_json''
         else if contains_token lower [''empty'', ''missing'', ''required'', ''no usable''] then ''missing_field''
         else ''request_error'')"

definition go_bool :: "bool \<Rightarrow> string" where
  "go_bool b = (if b then ''true'' else ''false'')"

definition ToolFallbackError_text :: "ToolFallbackError \<Rightarrow> string" where
  "ToolFallbackError_text e =
     ''tool fallback: tool='' @ fallbackValue (tf_Tool e) ''unknown'' @ '' provider='' @ fallbackValue (tf_Provider e) ''amap''
     @ '' stage='' @ fallbackValue (tf_Stage e) ''request''
     @ '' category='' @ fallbackValue (tf_Category e) (classifyToolFailure (tf_Reason e))
     @ '' mock_fallback='' @ go_bool (tf_MockFallback e) @ '' reason='' @ fallbackValue (tf_Reason e) ''unknown''"

fun tool_err_text :: "tool_err \<Rightarrow> string" where
  "tool_err_text (ToolErr e) = e"
| "tool_err_text (FallbackErr e) = ToolFallbackError_text e"

definition newToolFallbackError :: "string \<Rightarrow> string \<Rightarrow> string \<Rightarrow> ToolFallbackError" where
  "newToolFallbackError tool stage reason =
     \<lparr>tf_Tool = tool, tf_Provider = ''amap'', tf_Stage = (if stage = [] then ''request'' else stage),
      tf_Category = classifyToolFailure reason, tf_Reason = reason, tf_MockFallback = True\<rparr>"

text \<open>The three fallback tools are one function of the type of the tool.\<close>

definition fallback_tool ::
  "string \<Rightarrow> string \<Rightarrow> string \<Rightarrow> (pctx \<Rightarrow> 'i \<Rightarrow> 'a tool_result) option \<Rightarrow> (pctx \<Rightarrow> 'i \<Rightarrow> 'a tool_result)
     \<Rightarrow> pctx \<Rightarrow> 'i \<Rightarrow> 'a tool_result" where
  "fallback_tool toolName stage reason primary fallback c inp =
     (let fall = (\<lambda>why. case fallback c inp of
                    (out, Some e) \<Rightarrow> ([], Some e)
                  | (out, None) \<Rightarrow> (out, Some (FallbackErr (newToolFallbackError toolName stage why))))
      in case primary of
           None \<Rightarrow> fall reason
         | Some tool \<Rightarrow>
             (case tool c inp of
                (out, None) \<Rightarrow> (out, None)
              | (_, Some e) \<Rightarrow> fall (tool_err_text e)))"

definition context_tool ::
  "(pctx \<Rightarrow> 'i \<Rightarrow> 'a tool_result) \<Rightarrow> (pctx \<Rightarrow> 'i \<Rightarrow> 'a tool_result) \<Rightarrow> pctx \<Rightarrow> 'i \<Rightarrow> 'a tool_result" where
  "context_tool mock configured c inp = (if pc_TestMode c then mock c inp else configured c inp)"

record toolSet =
  ts_POI :: POITool
  ts_Weather :: WeatherTool
  ts_Route :: RouteTool
  ts_Budget :: BudgetTool

definition mockToolSet :: toolSet where
  "mockToolSet = \<lparr>ts_POI = MockPOITool, ts_Weather = MockWeatherTool, ts_Route = MockRouteTool, ts_Budget = MockBudgetTool\<rparr>"

definition contextToolSet :: "toolSet \<Rightarrow> toolSet \<Rightarrow> toolSet" where
  "contextToolSet mock configured =
     \<lparr>ts_POI = context_tool (ts_POI mock) (ts_POI configured), ts_Weather = context_tool (ts_Weather mock) (ts_Weather configured),
      ts_Route = context_tool (ts_Route mock) (ts_Route configured), ts_Budget = ts_Budget mock\<rparr>"

text \<open>
  The tools of a process: its mode, whether it has an API key, and the real tools as arguments.
\<close>

definition defaultToolSet :: "bool \<Rightarrow> bool \<Rightarrow> POITool \<Rightarrow> WeatherTool \<Rightarrow> RouteTool \<Rightarrow> toolSet" where
  "defaultToolSet realMode hasKey poi weather route =
     (let mock = mockToolSet;
          no_key = ''TRAVEL_AGENT_AMAP_API_KEY is not configured''
      in if \<not> realMode then contextToolSet mock mock
         else if \<not> hasKey then contextToolSet mock
           \<lparr>ts_POI = fallback_tool ''poi'' ''configuration'' no_key None (ts_POI mock),
            ts_Weather = fallback_tool ''weather'' ''configuration'' no_key None (ts_Weather mock),
            ts_Route = fallback_tool ''route'' ''configuration'' no_key None (ts_Route mock), ts_Budget = ts_Budget mock\<rparr>
         else contextToolSet mock
           \<lparr>ts_POI = fallback_tool ''poi'' [] [] (Some poi) (ts_POI mock),
            ts_Weather = fallback_tool ''weather'' [] [] (Some weather) (ts_Weather mock),
            ts_Route = fallback_tool ''route'' [] [] (Some route) (ts_Route mock), ts_Budget = ts_Budget mock\<rparr>)"

end
