(* ===== verification/PlanCheck.thy ===== *)
theory PlanCheck
  imports Tools
begin

section \<open>The checks of a generated plan\<close>

text \<open>
  internal/agent/eino/json_parser.go. \<open>validateGeneratedPlan\<close> is what a plan written by the language
  model has to pass; \<open>validateCostInfo\<close> is also used by the last node of the planner. The checks are in
  the order of the code, the first failing one giving the error. \<open>printable\<close> is the table behind the verb
  \<^verbatim>\<open>%q\<close>. Decoding the JSON text is not modelled.
\<close>

subsection \<open>Costs\<close>

definition validateBudgetLine :: "(nat \<Rightarrow> bool) \<Rightarrow> BudgetLine \<Rightarrow> string + unit" where
  "validateBudgetLine printable item =
     (if bl_Status item = CostAvailable then
        (case bl_Amount item of
           None \<Rightarrow> Inl ''available amount is nil''
         | Some amount \<Rightarrow>
             if f_less amount f_zero then Inl ''amount is negative''
             else if \<not> bl_Included item then Inl ''available budget item must be included''
             else Inr ())
      else if bl_Status item = CostUnavailable then
        (if bl_Amount item \<noteq> None then Inl ''unavailable amount must be null''
         else if bl_Included item then Inl ''unavailable budget item must not be included''
         else Inr ())
      else if bl_Status item = CostNotApplicable then
        (if bl_Included item then Inl ''not_applicable budget item must not be included'' else Inr ())
      else Inl (''unknown status '' @ Quote printable (bl_Status item)))"

definition validateCostInfo :: "(nat \<Rightarrow> bool) \<Rightarrow> CostInfo \<Rightarrow> string + unit" where
  "validateCostInfo printable cost =
     (if ci_Status cost = CostAvailable then
        (case ci_Amount cost of
           None \<Rightarrow> Inl ''available amount is nil''
         | Some amount \<Rightarrow>
             if f_less amount f_zero then Inl ''amount is negative''
             else if \<not> ci_Included cost then Inl ''available cost must be included''
             else Inr ())
      else if ci_Status cost = CostUnavailable then
        (if ci_Amount cost \<noteq> None then Inl ''unavailable amount must be null''
         else if ci_Included cost then Inl ''unavailable cost must not be included''
         else Inr ())
      else if ci_Status cost = CostNotApplicable then
        (if ci_Included cost then Inl ''not_applicable cost must not be included'' else Inr ())
      else Inl (''unknown status '' @ Quote printable (ci_Status cost)))"

text \<open>An error of an inner check, wrapped with a prefix.\<close>

fun wrap_err :: "string \<Rightarrow> string + 'a \<Rightarrow> string + 'a" where
  "wrap_err pre (Inl e) = Inl (pre @ e)"
| "wrap_err pre (Inr v) = Inr v"

lemma wrap_err_Inr_iff [simp]: "wrap_err p m = Inr v \<longleftrightarrow> m = Inr v"
  by (cases m) auto

definition validateBudgetDetails :: "(nat \<Rightarrow> bool) \<Rightarrow> TravelBudget \<Rightarrow> string + unit" where
  "validateBudgetDetails printable budget =
     (if bg_Currency budget = [] then Inl ''budget currency is empty''
      else if \<not> f_eq (bg_Total budget) (bg_KnownTotal budget)
      then Inl (''budget total '' @ f_fmt 2 (bg_Total budget) @ '' must equal known_total '' @ f_fmt 2 (bg_KnownTotal budget))
      else check_each (\<lambda>(idx, item).
             if TrimSpace (bl_Key item) = [] \<or> TrimSpace (bl_Label item) = []
             then Inl (''budget item '' @ Itoa (int idx) @ '' key or label is empty'')
             else wrap_err (''budget item '' @ Itoa (int idx) @ '' is invalid: '') (validateBudgetLine printable item))
           (enumerate 0 (bg_Items budget)))"

subsection \<open>Days and items\<close>

definition check_item :: "(nat \<Rightarrow> bool) \<Rightarrow> int \<Rightarrow> nat \<times> TravelItem \<Rightarrow> string + unit" where
  "check_item printable day = (\<lambda>(idx, item).
     let pre = ''day '' @ Itoa day @ '' item '' @ Itoa (int idx)
     in if TrimSpace (it_Time item) = [] then Inl (pre @ '' time is empty'')
        else if TrimSpace (it_Type item) = [] then Inl (pre @ '' type is empty'')
        else if TrimSpace (it_Name item) = [] then Inl (pre @ '' name is empty'')
        else if TrimSpace (it_Address item) = [] then Inl (pre @ '' address is empty'')
        else if TrimSpace (it_Reason item) = [] then Inl (pre @ '' reason is empty'')
        else if f_less (it_EstimatedCost item) f_zero then Inl (pre @ '' estimated cost is negative'')
        else and_then (wrap_err (pre @ '' cost is invalid: '') (validateCostInfo printable (it_Cost item))) (\<lambda>_.
               if it_DurationMinutes item < 0 then Inl (pre @ '' duration is negative'') else Inr ()))"

definition check_day :: "(nat \<Rightarrow> bool) \<Rightarrow> nat \<times> TravelDay \<Rightarrow> string + unit" where
  "check_day printable = (\<lambda>(i, day).
     let expected = int i + 1
     in if dy_Day day \<noteq> expected
        then Inl (''day number mismatch at index '' @ Itoa (int i) @ '': got '' @ Itoa (dy_Day day) @ '' want '' @ Itoa expected)
        else if TrimSpace (dy_Theme day) = [] then Inl (''day '' @ Itoa (dy_Day day) @ '' theme is empty'')
        else if dy_Items day = [] then Inl (''day '' @ Itoa (dy_Day day) @ '' has no items'')
        else check_each (check_item printable (dy_Day day)) (enumerate 0 (dy_Items day)))"

text \<open>The budget the plan may use, times 1.1.\<close>

definition budget_threshold :: "TravelRequest \<Rightarrow> float64" where
  "budget_threshold req =
     (let limit = (if IsBudgetPerPerson (rq_BudgetType req) \<and> 0 < rq_Travelers req
                   then f_mul (rq_Budget req) (f_of_int (rq_Travelers req)) else rq_Budget req)
      in f_mul limit (f_of_rat (11 / 10)))"

definition validateGeneratedPlan :: "(nat \<Rightarrow> bool) \<Rightarrow> TravelRequest \<Rightarrow> TravelPlan option \<Rightarrow> string + unit" where
  "validateGeneratedPlan printable req plan =
     (case plan of
        None \<Rightarrow> Inl ''plan is nil''
      | Some plan \<Rightarrow>
          let b = pl_Budget plan
          in if TrimSpace (pl_Title plan) = [] then Inl ''plan title is empty''
             else if TrimSpace (pl_Summary plan) = [] then Inl ''plan summary is empty''
             else if \<not> Contains (pl_Title plan @ '' '' @ pl_Summary plan) (rq_DestinationCity req)
             then Inl (''title or summary must contain destination city '' @ Quote printable (rq_DestinationCity req))
             else if int (length (pl_Days plan)) \<noteq> rq_Days req
             then Inl (''expected '' @ Itoa (rq_Days req) @ '' days, got '' @ Itoa (int (length (pl_Days plan))))
             else if f_less (bg_Total b) f_zero \<or> f_less (bg_KnownTotal b) f_zero then Inl ''plan budget total is negative''
             else if f_less (budget_threshold req) (bg_Total b)
             then Inl (''plan budget total '' @ f_fmt 2 (bg_Total b) @ '' exceeds request budget threshold ''
                       @ f_fmt 2 (budget_threshold req))
             else and_then (check_each (\<lambda>(name, v). if f_less v f_zero then Inl (''budget.'' @ name @ '' is negative'') else Inr ())
                     [(''transport'', bg_Transport b), (''food'', bg_Food b), (''hotel'', bg_Hotel b), (''ticket'', bg_Ticket b),
                      (''total'', bg_Total b)]) (\<lambda>_.
                  and_then (validateBudgetDetails printable b) (\<lambda>_.
                  check_each (check_day printable) (enumerate 0 (pl_Days plan)))))"

subsection \<open>Texts that are not blank\<close>

text \<open>A text is not blank when its first byte starts no space, or its last byte ends none.\<close>

lemma trim_codes_Nil: "trim_codes ws s = [] \<Longrightarrow> s \<noteq> [] \<Longrightarrow> \<exists>w \<in> set ws. w \<noteq> [] \<and> suffix w s"
proof (induction ws s rule: trim_codes.induct)
  case (1 ws s)
  then obtain w where w: "find (\<lambda>w. w \<noteq> [] \<and> prefix w s) ws = Some w"
    by (cases "find (\<lambda>w. w \<noteq> [] \<and> prefix w s) ws") (auto simp: trim_codes.simps [of ws s])
  then have in_ws: "w \<in> set ws" "w \<noteq> []" "prefix w s" by (auto simp: find_Some_iff)
  show ?case
  proof (cases "drop (length w) s = []")
    case True
    then have "w = s" using in_ws(3) by (auto simp: prefix_def)
    then show ?thesis using in_ws by auto
  next
    case False
    moreover have "trim_codes ws (drop (length w) s) = []" using 1(2) w by (simp add: trim_codes.simps [of ws s])
    ultimately obtain v where "v \<in> set ws" "v \<noteq> []" "suffix v (drop (length w) s)" using 1(1) [OF w] by blast
    then show ?thesis using suffix_order.trans suffix_drop by blast
  qed
qed

definition plain_start :: "string \<Rightarrow> bool" where
  "plain_start s \<longleftrightarrow> s \<noteq> [] \<and> of_char (hd s) \<notin> {0x20, 9, 10, 11, 12, 13, 0xC2, 0xE1, 0xE2, 0xE3::nat}"

definition plain_end :: "string \<Rightarrow> bool" where
  "plain_end s \<longleftrightarrow> s \<noteq> [] \<and> of_char (last s) \<notin> {0x20, 9, 10, 11, 12, 13, 0x85, 0xA0, 0x80, 0x81, 0x82, 0x83, 0x84, 0x85,
          0x86, 0x87, 0x88, 0x89, 0x8A, 0xA8, 0xA9, 0xAF, 0x9F::nat}"

lemma plain_start_code: "plain_start s \<Longrightarrow> w \<in> set space_codes \<Longrightarrow> \<not> prefix w s"
  by (cases s) (auto simp: plain_start_def space_codes_bytes)

lemma plain_end_code: "plain_end s \<Longrightarrow> w \<in> set space_codes \<Longrightarrow> \<not> suffix w s"
proof
  assume s: "plain_end s" "w \<in> set space_codes" "suffix w s"
  then have "w \<noteq> []" by (auto simp: space_codes_bytes)
  then have "last s = last w" using s(3) by (auto simp: suffix_def)
  then show False using s(1,2) by (auto simp: plain_end_def space_codes_bytes)
qed

lemma plain_start_nonblank: "plain_start s \<Longrightarrow> TrimSpace s \<noteq> []"
proof
  assume s: "plain_start s" "TrimSpace s = []"
  have "trim_left_codes space_codes s = s"
    using plain_start_code [OF s(1)] by (simp add: trim_left_codes_def trim_codes_id unspaced_def)
  then have "trim_codes (map rev space_codes) (rev s) = []" using s(2) by (simp add: TrimSpace_def trim_both_def trim_right_codes_def)
  then obtain w where "w \<in> set space_codes" "suffix (rev w) (rev s)"
    using trim_codes_Nil [of "map rev space_codes" "rev s"] s(1) by (auto simp: plain_start_def)
  then show False using plain_start_code [OF s(1)] by (simp add: suffix_to_prefix)
qed

lemma plain_end_nonblank: "plain_end s \<Longrightarrow> TrimSpace s \<noteq> []"
proof
  assume s: "plain_end s" "TrimSpace s = []"
  define l where "l = trim_codes space_codes s"
  have "l \<noteq> []" using trim_codes_Nil [of space_codes s] plain_end_code [OF s(1)] s(1) by (auto simp: l_def plain_end_def)
  moreover have "suffix l s" by (simp add: l_def suffix_trim_codes)
  ultimately have "plain_end l" using s(1) by (auto simp: plain_end_def suffix_def)
  then have "unspaced (map rev space_codes) (rev l)"
    using plain_end_code [of l] by (auto simp: unspaced_def suffix_to_prefix)
  then have "trim_codes (map rev space_codes) (rev l) = rev l" by (rule trim_codes_id)
  then show False using s(2) \<open>l \<noteq> []\<close> by (simp add: TrimSpace_def trim_both_def trim_right_codes_def trim_left_codes_def l_def)
qed

lemma plain_start_append [simp]: "plain_start (c # s)
    \<longleftrightarrow> of_char c \<notin> {0x20, 9, 10, 11, 12, 13, 0xC2, 0xE1, 0xE2, 0xE3::nat}"
  by (simp add: plain_start_def)

lemma plain_end_append: "plain_end t \<Longrightarrow> plain_end (s @ t)"
  by (auto simp: plain_end_def)

lemma plain_end_digits: "plain_end (digits n)"
proof -
  have "is_digit (last (digits n))" using digits_digits [of n] by (simp add: list_all_iff)
  then show ?thesis by (auto simp: plain_end_def is_digit_def)
qed

lemma plain_end_Itoa: "plain_end (Itoa n)"
  using plain_end_append [OF plain_end_digits, of "''-''"] by (simp add: Itoa_def plain_end_digits)

subsection \<open>What passes\<close>

text \<open>The requirement on a cost, whatever the error text.\<close>

definition cost_ok :: "CostInfo \<Rightarrow> bool" where
  "cost_ok c \<longleftrightarrow> (ci_Status c = CostAvailable \<and> (\<exists>a. ci_Amount c = Some a \<and> \<not> f_less a f_zero) \<and> ci_Included c)
     \<or> (ci_Status c = CostUnavailable \<and> ci_Amount c = None \<and> \<not> ci_Included c)
     \<or> (ci_Status c = CostNotApplicable \<and> \<not> ci_Included c)"

lemma validateCostInfo_ok [simp]: "validateCostInfo p c = Inr u \<longleftrightarrow> cost_ok c"
  by (auto simp: validateCostInfo_def cost_ok_def split: option.splits if_splits)

lemma cost_ok_Unavailable [simp]: "cost_ok (UnavailableCost a b)"
  by (simp add: cost_ok_def)

definition line_ok :: "BudgetLine \<Rightarrow> bool" where
  "line_ok l \<longleftrightarrow> (bl_Status l = CostAvailable \<and> (\<exists>a. bl_Amount l = Some a \<and> \<not> f_less a f_zero) \<and> bl_Included l)
     \<or> (bl_Status l = CostUnavailable \<and> bl_Amount l = None \<and> \<not> bl_Included l)
     \<or> (bl_Status l = CostNotApplicable \<and> \<not> bl_Included l)"

lemma validateBudgetLine_ok [simp]: "validateBudgetLine p l = Inr u \<longleftrightarrow> line_ok l"
  by (auto simp: validateBudgetLine_def line_ok_def split: option.splits if_splits)

lemma all_enumerate: "(\<forall>x \<in> set (enumerate n xs). P x) \<longleftrightarrow> (\<forall>i < length xs. P (n + i, xs ! i))"
proof -
  have "(\<forall>x \<in> set (enumerate n xs). P x) \<longleftrightarrow> (\<forall>i < length (enumerate n xs). P (enumerate n xs ! i))"
    by (rule all_set_conv_all_nth)
  then show ?thesis by (simp add: nth_enumerate_eq)
qed

lemma check_each_enumerate:
  "check_each f (enumerate n xs) = Inr u \<longleftrightarrow> (\<forall>i < length xs. f (n + i, xs ! i) = Inr ())"
  by (simp add: check_each_ok all_enumerate)

lemma validateBudgetDetails_ok:
  "validateBudgetDetails p b = Inr u \<longleftrightarrow> bg_Currency b \<noteq> [] \<and> f_eq (bg_Total b) (bg_KnownTotal b)
     \<and> (\<forall>l \<in> set (bg_Items b). TrimSpace (bl_Key l) \<noteq> [] \<and> TrimSpace (bl_Label l) \<noteq> [] \<and> line_ok l)"
  unfolding validateBudgetDetails_def
  by (auto simp: check_each_enumerate all_set_conv_all_nth)

definition item_ok :: "TravelItem \<Rightarrow> bool" where
  "item_ok item \<longleftrightarrow> TrimSpace (it_Time item) \<noteq> [] \<and> TrimSpace (it_Type item) \<noteq> [] \<and> TrimSpace (it_Name item) \<noteq> []
     \<and> TrimSpace (it_Address item) \<noteq> [] \<and> TrimSpace (it_Reason item) \<noteq> [] \<and> \<not> f_less (it_EstimatedCost item) f_zero
     \<and> cost_ok (it_Cost item) \<and> 0 \<le> it_DurationMinutes item"

lemma check_item_ok: "check_item p d (i, item) = Inr u \<longleftrightarrow> item_ok item"
  by (auto simp: check_item_def item_ok_def Let_def and_then_Inr_iff)

definition day_ok :: "nat \<Rightarrow> TravelDay \<Rightarrow> bool" where
  "day_ok i day \<longleftrightarrow> dy_Day day = int i + 1 \<and> TrimSpace (dy_Theme day) \<noteq> [] \<and> dy_Items day \<noteq> [] \<and> list_all item_ok (dy_Items day)"

lemma check_day_ok: "check_day p (i, day) = Inr u \<longleftrightarrow> day_ok i day"
  by (auto simp: check_day_def day_ok_def Let_def check_each_enumerate check_item_ok list_all_length)

definition days_ok :: "TravelDay list \<Rightarrow> bool" where
  "days_ok days \<longleftrightarrow> (\<forall>i < length days. day_ok i (days ! i))"

text \<open>The budget part of the acceptance condition.\<close>

definition budget_ok :: "TravelRequest \<Rightarrow> TravelBudget \<Rightarrow> bool" where
  "budget_ok req b \<longleftrightarrow> (\<forall>v \<in> {bg_Total b, bg_KnownTotal b, bg_Transport b, bg_Food b, bg_Hotel b, bg_Ticket b}. \<not> f_less v f_zero)
     \<and> \<not> f_less (budget_threshold req) (bg_Total b)
     \<and> bg_Currency b \<noteq> [] \<and> f_eq (bg_Total b) (bg_KnownTotal b)
     \<and> (\<forall>l \<in> set (bg_Items b). TrimSpace (bl_Key l) \<noteq> [] \<and> TrimSpace (bl_Label l) \<noteq> [] \<and> line_ok l)"

definition plan_ok :: "TravelRequest \<Rightarrow> TravelPlan \<Rightarrow> bool" where
  "plan_ok req plan \<longleftrightarrow> TrimSpace (pl_Title plan) \<noteq> [] \<and> TrimSpace (pl_Summary plan) \<noteq> []
     \<and> Contains (pl_Title plan @ '' '' @ pl_Summary plan) (rq_DestinationCity req)
     \<and> int (length (pl_Days plan)) = rq_Days req \<and> budget_ok req (pl_Budget plan) \<and> days_ok (pl_Days plan)"

text \<open>
  \<open>validateGeneratedPlan\<close> accepts exactly the plans that meet the written requirements: a title and
  a summary that name the destination, as many days as requested, numbered from 1, each with a theme and at
  least one complete item, no negative amount, a total that is the known total and at most 1.1 times the
  budget (per traveler where the budget is per person), and costs and budget lines whose amount, status and
  inclusion agree. What it does not ask: that the total is the sum of the parts or of the lines.
\<close>

lemma validateGeneratedPlan_accepts:
  "validateGeneratedPlan printable req plan = Inr () \<longleftrightarrow> (\<exists>p. plan = Some p \<and> plan_ok req p)"
  by (cases plan)
    (auto simp: validateGeneratedPlan_def Let_def and_then_Inr_iff validateBudgetDetails_ok check_each_enumerate
      check_day_ok plan_ok_def budget_ok_def days_ok_def)

end
