(* ===== verification/Nodes.thy ===== *)
theory Nodes
  imports PlanCheck
begin

section \<open>The nodes of the planner\<close>

text \<open>
  internal/agent/eino/nodes.go, callbacks.go and the state of types.go. A node is a function of what
  surrounds its run (\<open>env\<close>: the error of the context then, the clock readings) and of the planning state;
  it gives the reports it makes to the task and a new state or an error. The graph drops the state of a
  failing node, so the model does too.
\<close>

subsection \<open>The planning state\<close>

record TraceEvent =
  te_Step :: string
  te_Message :: string
  te_DurationMs :: int
  te_Success :: bool

record RouteValidationCheck =
  rc_Name :: string
  rc_Passed :: bool
  rc_Message :: string

record RouteValidationResult =
  rv_Score :: int
  rv_Checks :: "RouteValidationCheck list"
  rv_Warnings :: "string list"

record TravelPlanningState =
  st_Request :: TravelRequest
  st_NormalizedDestination :: string
  st_NormalizedDays :: int
  st_NormalizedBudget :: float64
  st_Interests :: "string list"
  st_TransportMode :: string
  st_Pace :: string
  st_POIs :: "POIInfo list"
  st_Weather :: "WeatherInfo list"
  st_Routes :: "RouteInfo list"
  st_Budget :: TravelBudget
  st_Itinerary :: "TravelDay list"
  st_RouteValidation :: RouteValidationResult
  st_Warnings :: "string list"
  st_Trace :: "TraceEvent list"

text \<open>
  The surroundings of one node: the error of the context while it runs, how long it takes, and the
  instants at which the task stamps its trace event and its business events.
\<close>

record env =
  en_Err :: "string option"
  en_Duration :: duration
  en_Traced :: time
  en_Business :: "nat \<Rightarrow> time"

type_synonym reports = "(planner_report \<times> time) list"
type_synonym 'a node = "reports \<times> (string + 'a)"

definition ctx_in :: "pctx \<Rightarrow> env \<Rightarrow> pctx" where
  "ctx_in c e = c\<lparr>pc_Err := en_Err e\<rparr>"

definition zero_business :: PlannerBusinessEvent where
  "zero_business = \<lparr>pb_Type = [], pb_Message = [], pb_Brief = None, pb_POIs = [], pb_Weather = [], pb_Routes = [],
     pb_Budget = None, pb_Day = None, pb_NodeName = [], pb_Draft = False\<rparr>"

text \<open>\<open>appendTrace\<close>: the state with the trace entry, and the report.\<close>

definition trace_entry :: "env \<Rightarrow> string \<Rightarrow> string \<Rightarrow> bool \<Rightarrow> TraceEvent" where
  "trace_entry e step message success =
     \<lparr>te_Step = step, te_Message = message, te_DurationMs = Milliseconds (en_Duration e), te_Success = success\<rparr>"

definition trace_report :: "env \<Rightarrow> string \<Rightarrow> string \<Rightarrow> bool \<Rightarrow> planner_report \<times> time" where
  "trace_report e step message success =
     (ReportPlannerEvent \<lparr>pt_Name = step, pt_Kind = ''node'', pt_Provider = [],
        pt_Status = (if success then ''success'' else ''error''), pt_Duration = en_Duration e, pt_FallbackReason = message\<rparr>,
      en_Traced e)"

definition appendTrace ::
  "env \<Rightarrow> TravelPlanningState \<Rightarrow> string \<Rightarrow> string \<Rightarrow> bool \<Rightarrow> (planner_report \<times> time) \<times> TravelPlanningState" where
  "appendTrace e state step message success =
     (trace_report e step message success, state\<lparr>st_Trace := st_Trace state @ [trace_entry e step message success]\<rparr>)"

text \<open>The end of a node: a business event, the trace event, and the result.\<close>

definition traced_ok :: "env \<Rightarrow> string \<Rightarrow> string \<Rightarrow> PlannerBusinessEvent list \<Rightarrow> TravelPlanningState \<Rightarrow> TravelPlanningState node" where
  "traced_ok e step message business state =
     (case appendTrace e state step message True of
        (rep, state') \<Rightarrow> (map (\<lambda>(i, b). (ReportPlannerBusinessEvent b, en_Business e i)) (enumerate 0 business) @ [rep], Inr state'))"

definition traced_err :: "env \<Rightarrow> string \<Rightarrow> string \<Rightarrow> TravelPlanningState \<Rightarrow> TravelPlanningState node" where
  "traced_err e step err state = ([fst (appendTrace e state step err False)], Inl err)"

subsection \<open>Parsing the request\<close>

definition mergeUniqueStrings :: "string list \<Rightarrow> string list \<Rightarrow> string list" where
  "mergeUniqueStrings existing incoming = normalize_slice_from [] (existing @ incoming)"

definition initial_state :: "TravelRequest \<Rightarrow> TravelPlanningState" where
  "initial_state req =
     \<lparr>st_Request = req, st_NormalizedDestination = TrimSpace (rq_DestinationCity req), st_NormalizedDays = rq_Days req,
      st_NormalizedBudget = rq_Budget req,
      st_Interests = (if rq_MustVisit req \<noteq> [] then mergeUniqueStrings (rq_Interests req) (rq_MustVisit req) else rq_Interests req),
      st_TransportMode = (if rq_TransportMode req = DefaultTransportMode then utf8 [0x6B65, 0x884C, 0x20, 0x2B, 0x20, 0x6253, 0x8F66] else rq_TransportMode req),
      st_Pace = rq_Pace req, st_POIs = [], st_Weather = [], st_Routes = [], st_Budget = zero_budget, st_Itinerary = [],
      st_RouteValidation = \<lparr>rv_Score = 0, rv_Checks = [], rv_Warnings = []\<rparr>, st_Warnings = [], st_Trace = []\<rparr>"

definition parseTravelRequestNode :: "pctx \<Rightarrow> env \<Rightarrow> TravelRequest \<Rightarrow> TravelPlanningState node" where
  "parseTravelRequestNode c e req0 =
     (case pc_Err (ctx_in c e) of
        Some err \<Rightarrow> ([], Inl err)
      | None \<Rightarrow>
          let req = NormalizeTravelBrief req0
          in if rq_DepartureCity req = [] then ([], Inl ''departure_city is required'')
             else if rq_DestinationCity req = [] then ([], Inl ''destination_city is required'')
             else if rq_Days req \<le> 0 then ([], Inl ''days must be positive'')
             else if f_le (rq_Budget req) f_zero then ([], Inl ''budget must be positive'')
             else if rq_Interests req = [] then ([], Inl ''interests is required'')
             else if rq_Travelers req \<le> 0 then ([], Inl ''travelers is required'')
             else traced_ok e ''ParseTravelRequestNode'' ''request normalized''
                    [zero_business\<lparr>pb_Type := ''brief_delta'', pb_Message := (utf8 [0x5DF2, 0x7406, 0x89E3, 0x65C5, 0x884C, 0x9700, 0x6C42]), pb_Brief := Some req,
                       pb_NodeName := ''ParseTravelRequestNode''\<rparr>]
                    (initial_state req))"

subsection \<open>The tool nodes\<close>

fun isFallbackError :: "tool_err \<Rightarrow> bool" where
  "isFallbackError (FallbackErr e) = True"
| "isFallbackError (ToolErr e) = False"

text \<open>The parenthesis that marks the message of a fallback.\<close>

definition fallback_mark :: string where "fallback_mark = utf8 [0xFF08, 0x5907, 0x7528, 0x6570, 0x636E, 0xFF09]"

definition poi_event :: "POIInfo list \<Rightarrow> string \<Rightarrow> PlannerBusinessEvent" where
  "poi_event pois mark = zero_business\<lparr>pb_Type := ''poi_batch'',
     pb_Message := (utf8 [0x5DF2, 0x627E, 0x5230, 0x20]) @ Itoa (int (length pois)) @ (utf8 [0x20, 0x4E2A, 0x5019, 0x9009, 0x5730, 0x70B9]) @ mark, pb_POIs := pois,
     pb_NodeName := ''SearchPOIsToolNode''\<rparr>"

definition searchPOIsToolNode :: "POITool \<Rightarrow> pctx \<Rightarrow> env \<Rightarrow> TravelPlanningState \<Rightarrow> TravelPlanningState node" where
  "searchPOIsToolNode tool c e state =
     (let name = ''SearchPOIsToolNode''
      in case tool (ctx_in c e) \<lparr>pin_City = st_NormalizedDestination state, pin_Interests = st_Interests state\<rparr> of
           (pois, Some err) \<Rightarrow>
             if isFallbackError err \<and> 0 < length pois
             then traced_ok e name (''loaded '' @ Itoa (int (length pois)) @ '' fallback pois'') [poi_event pois fallback_mark]
                    (state\<lparr>st_Warnings := st_Warnings state @ [tool_err_text err], st_POIs := pois\<rparr>)
             else traced_err e name (tool_err_text err) state
         | (pois, None) \<Rightarrow>
             traced_ok e name (''loaded '' @ Itoa (int (length pois)) @ '' pois'') [poi_event pois []] (state\<lparr>st_POIs := pois\<rparr>))"

definition weather_event :: "WeatherInfo list \<Rightarrow> string \<Rightarrow> PlannerBusinessEvent" where
  "weather_event weather mark = zero_business\<lparr>pb_Type := ''weather_delta'',
     pb_Message := (utf8 [0x5DF2, 0x83B7, 0x53D6, 0x20]) @ Itoa (int (length weather)) @ (utf8 [0x20, 0x5929, 0x5929, 0x6C14]) @ mark, pb_Weather := weather,
     pb_NodeName := ''GetWeatherToolNode''\<rparr>"

definition rain_warnings :: "WeatherInfo list \<Rightarrow> string list" where
  "rain_warnings weather =
     map (\<lambda>item. ''day '' @ Itoa (we_Day item) @ '' weather is rainy; keep indoor backup options'')
       (filter (\<lambda>item. we_Condition item = ''rainy'') weather)"

definition getWeatherToolNode :: "WeatherTool \<Rightarrow> pctx \<Rightarrow> env \<Rightarrow> TravelPlanningState \<Rightarrow> TravelPlanningState node" where
  "getWeatherToolNode tool c e state =
     (let name = ''GetWeatherToolNode''
      in case tool (ctx_in c e) \<lparr>win_City = st_NormalizedDestination state, win_Days = st_NormalizedDays state\<rparr> of
           (weather, Some err) \<Rightarrow>
             if isFallbackError err \<and> 0 < length weather
             then traced_ok e name (''loaded '' @ Itoa (int (length weather)) @ '' fallback weather records'')
                    [weather_event weather fallback_mark]
                    (state\<lparr>st_Warnings := st_Warnings state @ [tool_err_text err], st_Weather := weather\<rparr>)
             else traced_err e name (tool_err_text err) state
         | (weather, None) \<Rightarrow>
             traced_ok e name (''loaded '' @ Itoa (int (length weather)) @ '' weather records'') [weather_event weather []]
               (state\<lparr>st_Weather := weather, st_Warnings := st_Warnings state @ rain_warnings weather\<rparr>))"

definition route_event :: "RouteInfo list \<Rightarrow> string \<Rightarrow> PlannerBusinessEvent" where
  "route_event routes mark = zero_business\<lparr>pb_Type := ''route_delta'',
     pb_Message := (utf8 [0x5DF2, 0x8BA1, 0x7B97, 0x20]) @ Itoa (int (length routes)) @ (utf8 [0x20, 0x6BB5, 0x8DEF, 0x7EBF]) @ mark, pb_Routes := routes,
     pb_NodeName := ''ComputeRouteToolNode''\<rparr>"

definition computeRouteToolNode :: "RouteTool \<Rightarrow> pctx \<Rightarrow> env \<Rightarrow> TravelPlanningState \<Rightarrow> TravelPlanningState node" where
  "computeRouteToolNode tool c e state =
     (let name = ''ComputeRouteToolNode''
      in case tool (ctx_in c e) \<lparr>rin_POIs = st_POIs state, rin_Mode = st_TransportMode state\<rparr> of
           (routes, Some err) \<Rightarrow>
             if isFallbackError err \<and> 0 < length routes
             then traced_ok e name (''computed '' @ Itoa (int (length routes)) @ '' fallback route segments'')
                    [route_event routes fallback_mark]
                    (state\<lparr>st_Warnings := st_Warnings state @ [tool_err_text err], st_Routes := routes\<rparr>)
             else traced_err e name (tool_err_text err) state
         | (routes, None) \<Rightarrow>
             traced_ok e name (''computed '' @ Itoa (int (length routes)) @ '' route segments'') [route_event routes []]
               (state\<lparr>st_Routes := routes\<rparr>))"

definition estimateBudgetToolNode :: "BudgetTool \<Rightarrow> pctx \<Rightarrow> env \<Rightarrow> TravelPlanningState \<Rightarrow> TravelPlanningState node" where
  "estimateBudgetToolNode tool c e state =
     (case tool (ctx_in c e) \<lparr>bin_Request = st_Request state, bin_Days = st_NormalizedDays state, bin_POIs = st_POIs state,
             bin_Routes = st_Routes state, bin_Itinerary = st_Itinerary state\<rparr> of
        Inl err \<Rightarrow> traced_err e ''EstimateBudgetToolNode'' err state
      | Inr budget \<Rightarrow>
          traced_ok e ''EstimateBudgetToolNode'' ''budget estimated''
            [zero_business\<lparr>pb_Type := ''budget_delta'', pb_Message := (utf8 [0x5DF2, 0x6838, 0x7B97, 0x771F, 0x5B9E, 0x53EF, 0x5F97, 0x8D39, 0x7528]), pb_Budget := Some budget,
               pb_NodeName := ''EstimateBudgetToolNode''\<rparr>]
            (state\<lparr>st_Budget := budget\<rparr>))"

subsection \<open>Building the itinerary\<close>

definition containsAnyPreference :: "string \<Rightarrow> string list \<Rightarrow> bool" where
  "containsAnyPreference text prefs \<longleftrightarrow>
     list_ex (\<lambda>pref. TrimSpace pref \<noteq> [] \<and> Contains text (TrimSpace pref)) prefs"

text \<open>The inner loop over the filtered POIs: the first that matches the name moves to the front.\<close>

fun find_index :: "('a \<Rightarrow> bool) \<Rightarrow> 'a list \<Rightarrow> nat option" where
  "find_index P [] = None"
| "find_index P (x # xs) = (if P x then Some 0 else map_option Suc (find_index P xs))"

definition name_match :: "string \<Rightarrow> POIInfo \<Rightarrow> bool" where
  "name_match name poi \<longleftrightarrow> Contains (po_Name poi) name \<or> Contains name (po_Name poi)"

definition move_front :: "string \<Rightarrow> POIInfo list \<Rightarrow> POIInfo list" where
  "move_front name filtered =
     (case find_index (name_match name) filtered of
        None \<Rightarrow> filtered
      | Some idx \<Rightarrow> [filtered ! idx] @ take idx filtered @ drop (idx + 1) filtered)"

definition keep_pois :: "POIInfo list \<Rightarrow> TravelRequest \<Rightarrow> POIInfo list" where
  "keep_pois pois req =
     filter (\<lambda>poi. \<not> containsAnyPreference (po_Name poi @ '' '' @ po_Category poi @ '' '' @ po_Address poi) (rq_Avoid req)) pois"

definition applyPOIPreferences :: "POIInfo list \<Rightarrow> TravelRequest \<Rightarrow> POIInfo list" where
  "applyPOIPreferences pois req =
     (if pois = [] then pois
      else let kept = keep_pois pois req;
               filtered = (if kept = [] then kept @ pois else kept)
           in fold (\<lambda>must filtered. if TrimSpace must = [] then filtered else move_front (TrimSpace must) filtered)
                (rev (rq_MustVisit req)) filtered)"

definition itemTime :: "nat \<Rightarrow> string" where
  "itemTime slot = (if slot = 0 then ''09:30'' else if slot = 1 then ''14:30'' else ''18:30'')"

definition interestsText :: "string list \<Rightarrow> string" where
  "interestsText interests =
     (case interests of
        [] \<Rightarrow> ''city exploration''
      | [i] \<Rightarrow> i
      | i # j # rest \<Rightarrow> i @ '' and '' @ j)"

definition itineraryReason :: "TravelPlanningState \<Rightarrow> POIInfo \<Rightarrow> string" where
  "itineraryReason state poi = Join
     ([''matches '' @ interestsText (st_Interests state) @ '' preference in '' @ st_NormalizedDestination state]
      @ (if containsAnyPreference (po_Name poi) (rq_MustVisit (st_Request state)) then [''marked as must-visit by the user''] else [])
      @ (if IsLowWalkingTolerance (rq_WalkingTolerance (st_Request state)) then [''keeps walking intensity low''] else [])
      @ (if 0 < rq_Travelers (st_Request state)
         then [''planned for '' @ Itoa (rq_Travelers (st_Request state)) @ '' travelers''] else [])) ''; ''"

definition itemsPerDay :: "TravelPlanningState \<Rightarrow> nat" where
  "itemsPerDay state =
     (if IsRelaxedPace (st_Pace state) \<or> IsLowWalkingTolerance (rq_WalkingTolerance (st_Request state)) then 2
      else if IsIntensivePace (st_Pace state) \<and> \<not> IsLowWalkingTolerance (rq_WalkingTolerance (st_Request state)) then 3
      else 2)"

definition item_of :: "TravelPlanningState \<Rightarrow> nat \<Rightarrow> POIInfo \<Rightarrow> TravelItem" where
  "item_of state slot poi =
     \<lparr>it_Time = itemTime slot, it_Type = po_Category poi, it_Name = po_Name poi, it_Address = po_Address poi,
      it_Reason = itineraryReason state poi, it_EstimatedCost = po_EstimatedCost poi, it_Cost = po_Cost poi,
      it_DurationMinutes = po_SuggestedDurationMinutes poi, it_POI = po_Metadata poi\<rparr>"

definition day_of :: "TravelPlanningState \<Rightarrow> int \<Rightarrow> TravelDay" where
  "day_of state day =
     \<lparr>dy_Day = day,
      dy_Theme = ''day '' @ Itoa day @ '' '' @ interestsText (st_Interests state) @ '' route in '' @ st_NormalizedDestination state,
      dy_Items = map (\<lambda>slot. item_of state slot
          (st_POIs state ! nat (((day - 1) * int (itemsPerDay state) + int slot) mod int (length (st_POIs state)))))
        [0..<itemsPerDay state]\<rparr>"

definition day_event :: "TravelDay \<Rightarrow> PlannerBusinessEvent" where
  "day_event day = zero_business\<lparr>pb_Type := ''day_delta'', pb_Message := (utf8 [0x7B2C, 0x20]) @ Itoa (dy_Day day) @ (utf8 [0x20, 0x5929, 0x8349, 0x7A3F, 0x5DF2, 0x751F, 0x6210]),
     pb_Day := Some day, pb_NodeName := ''OptimizeItineraryNode'', pb_Draft := True\<rparr>"

definition optimizeItineraryNode :: "pctx \<Rightarrow> env \<Rightarrow> TravelPlanningState \<Rightarrow> TravelPlanningState node" where
  "optimizeItineraryNode c e state0 =
     (case pc_Err (ctx_in c e) of
        Some err \<Rightarrow> ([], Inl err)
      | None \<Rightarrow>
          if st_POIs state0 = [] then ([], Inl ''cannot optimize itinerary without pois'')
          else let state = state0\<lparr>st_POIs := applyPOIPreferences (st_POIs state0) (st_Request state0)\<rparr>;
                   days = map (day_of state) [1..st_NormalizedDays state]
               in traced_ok e ''OptimizeItineraryNode'' (''built '' @ Itoa (int (length days)) @ '' itinerary days'')
                    (map day_event days) (state\<lparr>st_Itinerary := days\<rparr>))"

subsection \<open>The feasibility of the route\<close>

definition conditionContainsRain :: "string \<Rightarrow> bool" where
  "conditionContainsRain condition = contains_token condition [utf8 [0x96E8], ''rain'', ''Rain'', ''RAIN'']"

definition paceItemRange :: "string \<Rightarrow> nat \<times> nat" where
  "paceItemRange pace =
     (if NormalizePace pace = (utf8 [0x8F7B, 0x677E]) then (1, 2)
      else if NormalizePace pace = (utf8 [0x7D27, 0x51D1]) then (3, 4)
      else (2, 3))"

definition dayHasIndoorOption :: "TravelDay list \<Rightarrow> int \<Rightarrow> bool" where
  "dayHasIndoorOption days dayNumber =
     list_ex (\<lambda>day. dy_Day day = dayNumber
       \<and> list_ex (\<lambda>item. contains_token (ToLower (it_Type item @ '' '' @ it_Name item @ '' '' @ it_Reason item))
            (map ToLower [''museum'', ''culture'', ''temple'', utf8 [0x6587, 0x5316], utf8 [0x535A, 0x7269, 0x9986], utf8 [0x5BFA], utf8 [0x7F8E, 0x98DF], ''food'', ''indoor'', utf8 [0x5BA4, 0x5185]]))
          (dy_Items day)) days"

text \<open>\<open>addCheck\<close>: the name, whether it passed, the message, the penalty.\<close>

definition addCheck :: "string \<times> bool \<times> string \<times> int \<Rightarrow> RouteValidationResult \<Rightarrow> RouteValidationResult" where
  "addCheck = (\<lambda>(name, passed, message, penalty) result.
     let r = result\<lparr>rv_Checks := rv_Checks result @ [\<lparr>rc_Name = name, rc_Passed = passed, rc_Message = message\<rparr>]\<rparr>
     in if passed then r
        else let score = maxInt (rv_Score r - penalty) 0
             in r\<lparr>rv_Score := score, rv_Warnings := rv_Warnings r @
                  [''route feasibility: check='' @ name @ '' score='' @ Itoa score @ '' message='' @ message]\<rparr>)"

definition pace_check :: "TravelPlanningState \<Rightarrow> string \<times> bool \<times> string \<times> int" where
  "pace_check state =
     (case paceItemRange (st_Pace state) of
        (minItems, maxItems) \<Rightarrow>
          (''daily_pace'',
           list_all (\<lambda>day. \<not> (length (dy_Items day) < minItems \<or> maxItems < length (dy_Items day))) (st_Itinerary state),
           ''daily item count should match '' @ fallbackValue (st_Pace state) ''balanced'' @ '' pace ('' @ Itoa (int minItems)
             @ ''-'' @ Itoa (int maxItems) @ '' items)'', 12))"

definition duration_check :: "TravelPlanningState \<Rightarrow> string \<times> bool \<times> string \<times> int" where
  "duration_check state =
     (''route_duration'', \<not> list_ex (\<lambda>route. 90 < ro_DurationMinutes route) (st_Routes state),
      ''longest adjacent route is '' @ Itoa (fold (\<lambda>route longest. if longest < ro_DurationMinutes route then ro_DurationMinutes route
         else longest) (st_Routes state) 0) @ '' minutes'', 15)"

definition rain_check :: "TravelPlanningState \<Rightarrow> string \<times> bool \<times> string \<times> int" where
  "rain_check state =
     (''weather_backup'',
      \<not> list_ex (\<lambda>weather. (conditionContainsRain (we_Condition weather) \<or> we_Condition weather = ''rainy'')
          \<and> \<not> dayHasIndoorOption (st_Itinerary state) (we_Day weather)) (st_Weather state),
      ''rainy days should include at least one indoor-friendly option'', 10)"

definition budget_check :: "TravelPlanningState \<Rightarrow> string \<times> bool \<times> string \<times> int" where
  "budget_check state =
     (let b = st_Budget state;
          sum = f_add (f_add (f_add (bg_Transport b) (bg_Food b)) (bg_Hotel b)) (bg_Ticket b)
      in (''budget_breakdown'',
          f_le f_zero (bg_KnownTotal b) \<and> f_eq (roundMoney sum) (roundMoney (bg_KnownTotal b)),
          ''known budget components total '' @ f_fmt 2 sum @ '' vs known_total '' @ f_fmt 2 (bg_KnownTotal b), 10))"

definition duplicate_check :: "TravelPlanningState \<Rightarrow> string \<times> bool \<times> string \<times> int" where
  "duplicate_check state =
     (''duplicate_poi'',
      list_all (\<lambda>day. distinct (filter (\<lambda>name. name \<noteq> []) (map (\<lambda>item. TrimSpace (it_Name item)) (dy_Items day)))) (st_Itinerary state),
      ''same-day itinerary should not repeat the same POI'', 12)"

definition route_checks :: "TravelPlanningState \<Rightarrow> (string \<times> bool \<times> string \<times> int) list" where
  "route_checks state =
     [pace_check state, duration_check state,
      (''poi_coordinates'', \<not> list_ex (\<lambda>poi. TrimSpace (po_Location poi) = []) (st_POIs state),
       ''some POIs do not have coordinates; route duration may use mock fallback'', 10),
      rain_check state, budget_check state, duplicate_check state,
      (if st_Routes state = [] \<and> 1 < length (st_POIs state)
       then (''route_data_available'', False, ''route data is unavailable for adjacent POIs'', 10)
       else (''route_data_available'', True, ''route data is available or not needed'', 0))]"

definition validateRouteFeasibility :: "TravelPlanningState \<Rightarrow> RouteValidationResult" where
  "validateRouteFeasibility state = fold addCheck (route_checks state) \<lparr>rv_Score = 100, rv_Checks = [], rv_Warnings = []\<rparr>"

definition validateRouteFeasibilityNode :: "pctx \<Rightarrow> env \<Rightarrow> TravelPlanningState \<Rightarrow> TravelPlanningState node" where
  "validateRouteFeasibilityNode c e state =
     (case pc_Err (ctx_in c e) of
        Some err \<Rightarrow> ([], Inl err)
      | None \<Rightarrow>
          let result = validateRouteFeasibility state
          in traced_ok e ''ValidateRouteFeasibilityNode''
               (''route feasibility score='' @ Itoa (rv_Score result) @ '' checks='' @ Itoa (int (length (rv_Checks result)))) []
               (state\<lparr>st_RouteValidation := result, st_Warnings := st_Warnings state @ rv_Warnings result\<rparr>))"

subsection \<open>Writing and checking the plan\<close>

text \<open>
  A generator reports what it streams and gives a plan, which the code allows to be nil, or an error.
  Reading the warnings of a nil plan is a panic (\<open>None\<close> as the result of the node).
\<close>

type_synonym generator = "pctx \<Rightarrow> env \<Rightarrow> TravelPlanningState \<Rightarrow> reports \<times> (string + TravelPlan option)"

fun merge_warnings_from :: "string list \<Rightarrow> string list \<Rightarrow> string list" where
  "merge_warnings_from seen [] = []"
| "merge_warnings_from seen (w # ws) =
     (if TrimSpace w = [] then merge_warnings_from seen ws
      else if w \<in> set seen then merge_warnings_from seen ws
      else w # merge_warnings_from (w # seen) ws)"

definition mergeWarnings :: "string list \<Rightarrow> string list \<Rightarrow> string list" where
  "mergeWarnings primary secondary = merge_warnings_from [] (primary @ secondary)"

definition generateTravelPlanNode ::
  "generator \<Rightarrow> pctx \<Rightarrow> env \<Rightarrow> TravelPlanningState \<Rightarrow> reports \<times> (string + TravelPlan) option" where
  "generateTravelPlanNode generator c e state =
     (case generator (ctx_in c e) e state of
        (reports, Inl err) \<Rightarrow> (reports, Some (Inl err))
      | (reports, Inr None) \<Rightarrow> (reports, None)
      | (reports, Inr (Some plan)) \<Rightarrow>
          (reports @ [fst (appendTrace e state ''GenerateTravelPlanNode'' ''travel plan generated'' True)],
           Some (Inr (plan\<lparr>pl_Warnings := mergeWarnings (st_Warnings state) (pl_Warnings plan)\<rparr>))))"

definition deterministic_note :: string where
  "deterministic_note = ''EinoTravelPlanner uses deterministic mock tools; no real LLM or external API was called.''"

definition generateDeterministicTravelPlan :: "pctx \<Rightarrow> TravelPlanningState \<Rightarrow> string + TravelPlan" where
  "generateDeterministicTravelPlan c state =
     (case pc_Err c of
        Some err \<Rightarrow> Inl err
      | None \<Rightarrow>
          if st_Itinerary state = [] then Inl ''cannot generate plan without itinerary''
          else Inr \<lparr>pl_Title = st_NormalizedDestination state @ Itoa (st_NormalizedDays state) @ ''-day Eino travel plan'',
                    pl_Summary = ''Eino workflow planned '' @ Itoa (st_NormalizedDays state) @ '' days in ''
                      @ st_NormalizedDestination state @ '' from '' @ rq_DepartureCity (st_Request state)
                      @ '' with budget '' @ f_fmt 0 (st_NormalizedBudget state) @ ''.'',
                    pl_Days = st_Itinerary state, pl_Budget = st_Budget state,
                    pl_Warnings = st_Warnings state @ [deterministic_note]\<rparr>)"

definition deterministicPlanGenerator :: generator where
  "deterministicPlanGenerator c e state =
     ([], case generateDeterministicTravelPlan c state of Inl err \<Rightarrow> Inl err | Inr plan \<Rightarrow> Inr (Some plan))"

definition node_check_item :: "(nat \<Rightarrow> bool) \<Rightarrow> int \<Rightarrow> nat \<times> TravelItem \<Rightarrow> string + unit" where
  "node_check_item printable day = (\<lambda>(idx, item).
     let pre = ''day '' @ Itoa day @ '' item '' @ Itoa (int idx)
     in if it_Name item = [] \<or> it_Type item = [] \<or> it_Reason item = [] then Inl (pre @ '' misses required fields'')
        else if f_less (it_EstimatedCost item) f_zero \<or> it_DurationMinutes item < 0 then Inl (pre @ '' has illegal numeric fields'')
        else wrap_err (pre @ '' has invalid cost: '') (validateCostInfo printable (it_Cost item)))"

definition node_check_day :: "(nat \<Rightarrow> bool) \<Rightarrow> nat \<times> TravelDay \<Rightarrow> string + unit" where
  "node_check_day printable = (\<lambda>(i, day).
     if dy_Day day \<noteq> int i + 1 then Inl (''day number mismatch at index '' @ Itoa (int i) @ '': got '' @ Itoa (dy_Day day))
     else if dy_Items day = [] then Inl (''day '' @ Itoa (dy_Day day) @ '' has no items'')
     else check_each (node_check_item printable (dy_Day day)) (enumerate 0 (dy_Items day)))"

definition validatePlanNode :: "(nat \<Rightarrow> bool) \<Rightarrow> pctx \<Rightarrow> env \<Rightarrow> TravelPlan option \<Rightarrow> TravelPlan node" where
  "validatePlanNode printable c e plan0 =
     ([], case pc_Err (ctx_in c e) of
        Some err \<Rightarrow> Inl err
      | None \<Rightarrow>
        (case plan0 of
           None \<Rightarrow> Inl ''plan is nil''
         | Some plan \<Rightarrow>
          if TrimSpace (pl_Title plan) = [] then Inl ''plan title is empty''
          else if TrimSpace (pl_Summary plan) = [] then Inl ''plan summary is empty''
          else if pl_Days plan = [] then Inl ''plan days is empty''
          else if f_less (bg_Total (pl_Budget plan)) f_zero \<or> f_less (bg_KnownTotal (pl_Budget plan)) f_zero
          then Inl ''plan budget total is negative''
          else if bg_Currency (pl_Budget plan) = [] then Inl ''plan budget currency is empty''
          else and_then (check_each (node_check_day printable) (enumerate 0 (pl_Days plan))) (\<lambda>_. Inr plan)))"

end
