(* ===== verification/EinoPlanner.thy ===== *)
theory EinoPlanner
  imports Nodes
begin

section \<open>The planner graph and the plan generator\<close>

text \<open>
  internal/agent/eino/graph.go, planner.go and the generator of llm.go. The graph is a chain of nine nodes;
  the runtime that runs it (CloudWeGo eino) is a parameter: what it does before a node (\<open>gr_before\<close>: the
  error with which it gives up, when it does), how it wraps the error of a node and what it makes of a
  panic in one. The language model is a parameter of the generator: the answer of each attempt.
\<close>

subsection \<open>The generator\<close>

record LLMTokenUsage =
  tu_PromptTokens :: int
  tu_CompletionTokens :: int
  tu_TotalTokens :: int
  tu_Known :: bool

record llmPlanResult =
  lr_Plan :: "TravelPlan option"
  lr_PromptVersion :: string
  lr_Duration :: duration
  lr_TokenUsage :: LLMTokenUsage

definition travelPlanPromptVersion :: string where "travelPlanPromptVersion = ''travel-plan-v1''"

definition appendLLMTraceWarning :: "llmPlanResult \<Rightarrow> TravelPlan \<Rightarrow> TravelPlan" where
  "appendLLMTraceWarning result plan =
     (let promptVersion = (if lr_PromptVersion result = [] then travelPlanPromptVersion else lr_PromptVersion result);
          u = lr_TokenUsage result;
          usage = (if tu_Known u
                   then ''prompt_tokens='' @ Itoa (tu_PromptTokens u) @ '' completion_tokens='' @ Itoa (tu_CompletionTokens u)
                        @ '' total_tokens='' @ Itoa (tu_TotalTokens u)
                   else ''prompt_tokens=unknown completion_tokens=unknown total_tokens=unknown'')
      in plan\<lparr>pl_Warnings := pl_Warnings plan @
           [''LLM trace: prompt_version='' @ promptVersion @ '' duration_ms='' @ Itoa (Milliseconds (lr_Duration result)) @ '' '' @ usage]\<rparr>)"

definition classifyLLMFallback :: "string \<Rightarrow> int \<Rightarrow> string" where
  "classifyLLMFallback reason attempts =
     (let lower = ToLower (TrimSpace reason);
          once = (\<lambda>category. if 1 < attempts then ''retry_exhausted'' else category)
      in if lower = ''disabled'' then ''disabled''
         else if lower = ''test_mode'' then ''test_mode''
         else if contains_token lower [''missing_api_key'', ''api key''] then ''missing_api_key''
         else if contains_token lower [''timeout'', ''deadline exceeded''] then once ''timeout''
         else if contains_token lower [''did not call'', ''no choices'', ''content is empty''] then once ''provider_error''
         else if contains_token lower [''decode llm response'', ''decode travel plan'', ''invalid character''] then once ''invalid_json''
         else if contains_token lower [''validation'', ''expected'', ''exceeds'', ''negative'', ''empty'']
         then once ''business_validation_failed''
         else if 1 < attempts then ''retry_exhausted''
         else ''provider_error'')"

definition llmFallbackWarning :: "string option \<Rightarrow> int \<Rightarrow> duration \<Rightarrow> string" where
  "llmFallbackWarning err attempts d =
     (let reason = (case err of None \<Rightarrow> ''unknown'' | Some e \<Rightarrow> e)
      in ''LLM fallback: prompt_version='' @ travelPlanPromptVersion @ '' category='' @ classifyLLMFallback reason attempts
         @ '' attempts='' @ Itoa attempts @ '' duration_ms='' @ Itoa (Milliseconds d) @ '' reason='' @ reason)"

text \<open>
  The client: attempt \<open>n\<close> streams deltas and answers a result, which may be nil, or an error. \<open>Generate\<close>
  tries \<open>maxRetries + 1\<close> times (at least once), stops at the first answer, and falls back to the
  deterministic plan when there is no client, none of the attempts answers, or the answer holds no plan.
  The duration of a fallback is what the clock of the surroundings shows.
\<close>

type_synonym llm_client = "pctx \<Rightarrow> TravelPlanningState \<Rightarrow> nat \<Rightarrow> reports \<times> (string + llmPlanResult option)"

record llmPlanGenerator =
  lg_client :: "llm_client option"
  lg_maxRetries :: int
  lg_disabledReason :: string

text \<open>The attempts from number \<open>n\<close> on, \<open>k\<close> of them left: the plan, or the last error and the attempts made.\<close>

fun llm_attempts ::
  "llm_client \<Rightarrow> pctx \<Rightarrow> TravelPlanningState \<Rightarrow> nat \<Rightarrow> nat \<Rightarrow> string option \<Rightarrow> reports \<times> (string option \<times> int + TravelPlan)" where
  "llm_attempts client c state n 0 lastErr = ([], Inl (lastErr, int n))"
| "llm_attempts client c state n (Suc k) lastErr =
     (case client c state n of
        (reports, Inl e) \<Rightarrow> (case llm_attempts client c state (n + 1) k (Some e) of (rest, r) \<Rightarrow> (reports @ rest, r))
      | (reports, Inr result) \<Rightarrow>
          (case result of
             None \<Rightarrow> (reports, Inl (Some ''LLM returned empty plan'', int (n + 1)))
           | Some res \<Rightarrow>
               (case lr_Plan res of
                  None \<Rightarrow> (reports, Inl (Some ''LLM returned empty plan'', int (n + 1)))
                | Some plan \<Rightarrow> (reports, Inr (appendLLMTraceWarning res plan)))))"

definition fallback_plan :: "pctx \<Rightarrow> TravelPlanningState \<Rightarrow> string \<Rightarrow> string + TravelPlan option" where
  "fallback_plan c state warning =
     (case generateDeterministicTravelPlan c state of
        Inl err \<Rightarrow> Inl err
      | Inr plan \<Rightarrow> Inr (Some (plan\<lparr>pl_Warnings := pl_Warnings plan @ [warning]\<rparr>)))"

definition llm_Generate :: "llmPlanGenerator \<Rightarrow> generator" where
  "llm_Generate g c e state =
     (if pc_TestMode c then ([], fallback_plan c state (llmFallbackWarning (Some ''test_mode'') 0 0))
      else
        case (if lg_disabledReason g \<noteq> [] then ([], Inl (Some (lg_disabledReason g), 0))
              else case lg_client g of
                None \<Rightarrow> ([], Inl (Some ''missing_api_key'', 0))
              | Some client \<Rightarrow>
                  let attempts = lg_maxRetries g + 1
                  in llm_attempts client c state 0 (if attempts \<le> 0 then 1 else nat attempts) None) of
          (reports, Inr plan) \<Rightarrow> (reports, Inr (Some plan))
        | (reports, Inl (lastErr, made)) \<Rightarrow>
            (reports, fallback_plan c state (llmFallbackWarning lastErr made (en_Duration e))))"

text \<open>The generator of the environment: off, without a key, without an address, or with a client.\<close>

record LLMConfig =
  lc_Enabled :: bool
  lc_Provider :: string
  lc_APIKey :: string
  lc_BaseURL :: string
  lc_Model :: string
  lc_QuickModel :: string
  lc_ExpertModel :: string
  lc_StreamEnabled :: bool
  lc_Timeout :: duration
  lc_MaxRetries :: int

definition newDefaultPlanGenerator :: "llm_client \<Rightarrow> LLMConfig \<Rightarrow> llmPlanGenerator" where
  "newDefaultPlanGenerator client cfg =
     (let off = (\<lambda>reason. \<lparr>lg_client = None, lg_maxRetries = 0, lg_disabledReason = reason\<rparr>)
      in if \<not> lc_Enabled cfg then off ''disabled''
         else if lc_APIKey cfg = [] then off ''missing_api_key''
         else if lc_BaseURL cfg = [] \<or> lc_Model cfg = [] then off ''provider_error''
         else \<lparr>lg_client = Some client, lg_maxRetries = lc_MaxRetries cfg, lg_disabledReason = []\<rparr>)"

subsection \<open>The graph\<close>

definition nodeParse :: string where "nodeParse = ''parse_travel_request''"
definition nodePOI :: string where "nodePOI = ''search_pois''"
definition nodeWeather :: string where "nodeWeather = ''get_weather''"
definition nodeRoute :: string where "nodeRoute = ''compute_route''"
definition nodeBudget :: string where "nodeBudget = ''estimate_budget''"
definition nodeOptimize :: string where "nodeOptimize = ''optimize_itinerary''"
definition nodeRouteCheck :: string where "nodeRouteCheck = ''validate_route_feasibility''"
definition nodeGeneratePlan :: string where "nodeGeneratePlan = ''generate_travel_plan''"
definition nodeValidatePlan :: string where "nodeValidatePlan = ''validate_plan''"

record graph_runtime =
  gr_before :: "string \<Rightarrow> string option"
  gr_wrap :: "string \<Rightarrow> string \<Rightarrow> string"
  gr_panic :: "string \<Rightarrow> string \<Rightarrow> string"
  gr_env :: "string \<Rightarrow> env"

text \<open>One node: the runtime may give up before it; the error of the node is wrapped.\<close>

definition run_node :: "graph_runtime \<Rightarrow> string \<Rightarrow> (env \<Rightarrow> 'a \<Rightarrow> reports \<times> (string + 'b) option) \<Rightarrow> 'a \<Rightarrow> 'b node" where
  "run_node G key f s =
     (case gr_before G key of
        Some err \<Rightarrow> ([], Inl err)
      | None \<Rightarrow>
          (case f (gr_env G key) s of
             (r, None) \<Rightarrow> (r, Inl (gr_panic G key nil_dereference))
           | (r, Some (Inl err)) \<Rightarrow> (r, Inl (gr_wrap G key err))
           | (r, Some (Inr s')) \<Rightarrow> (r, Inr s')))"

definition plain :: "(env \<Rightarrow> 'a \<Rightarrow> 'b node) \<Rightarrow> env \<Rightarrow> 'a \<Rightarrow> reports \<times> (string + 'b) option" where
  "plain f e s = (case f e s of (r, v) \<Rightarrow> (r, Some v))"

text \<open>An edge: the output of a node is the input of the next.\<close>

definition edge_to :: "'a node \<Rightarrow> ('a \<Rightarrow> 'b node) \<Rightarrow> 'b node" where
  "edge_to m f =
     (case m of
        (r, Inl err) \<Rightarrow> (r, Inl err)
      | (r, Inr s) \<Rightarrow> (case f s of (r', v) \<Rightarrow> (r @ r', v)))"

definition buildTravelGraph ::
  "toolSet \<Rightarrow> generator \<Rightarrow> (nat \<Rightarrow> bool) \<Rightarrow> graph_runtime \<Rightarrow> pctx \<Rightarrow> TravelRequest \<Rightarrow> TravelPlan node" where
  "buildTravelGraph tools generator printable G c req =
     edge_to (edge_to (edge_to (edge_to (edge_to (edge_to (edge_to (edge_to
       (run_node G nodeParse (plain (parseTravelRequestNode c)) req)
       (run_node G nodePOI (plain (searchPOIsToolNode (ts_POI tools) c))))
       (run_node G nodeWeather (plain (getWeatherToolNode (ts_Weather tools) c))))
       (run_node G nodeRoute (plain (computeRouteToolNode (ts_Route tools) c))))
       (run_node G nodeOptimize (plain (optimizeItineraryNode c))))
       (run_node G nodeBudget (plain (estimateBudgetToolNode (ts_Budget tools) c))))
       (run_node G nodeRouteCheck (plain (validateRouteFeasibilityNode c))))
       (run_node G nodeGeneratePlan (generateTravelPlanNode generator c)))
       (\<lambda>plan. run_node G nodeValidatePlan (plain (validatePlanNode printable c)) (Some plan))"

text \<open>\<open>EinoTravelPlanner.Plan\<close>, as the run of a planner that the travel service starts.\<close>

definition EinoTravelPlanner_Plan ::
  "toolSet \<Rightarrow> generator \<Rightarrow> (nat \<Rightarrow> bool) \<Rightarrow> graph_runtime \<Rightarrow> planner" where
  "EinoTravelPlanner_Plan tools generator printable G req testMode agentMode =
     (case buildTravelGraph tools generator printable G
              \<lparr>pc_Err = None, pc_TestMode = testMode, pc_AgentMode = agentMode\<rparr> req of
        (reports, Inl err) \<Rightarrow> \<lparr>pr_reports = reports, pr_outcome = PlanErr (''invoke eino travel graph: '' @ err)\<rparr>
      | (reports, Inr plan) \<Rightarrow> \<lparr>pr_reports = reports, pr_outcome = PlanOk (Some plan)\<rparr>)"

end
