(* ===== verification/PlannerGuarantees.thy ===== *)
theory PlannerGuarantees
  imports EinoPlanner "HOL-Library.Multiset"
begin

section \<open>What the planner guarantees\<close>

text \<open>
  Lemmas on the nodes one by one, then the two guarantees of the whole graph: with no external service at
  all every acceptable request is planned completely, and whatever the tools and the generator answer, a
  plan that comes out has passed the checks of the last node.
\<close>

subsection \<open>Points of interest\<close>

lemma find_index_Some: "find_index P xs = Some i \<Longrightarrow> i < length xs \<and> P (xs ! i) \<and> (\<forall>j < i. \<not> P (xs ! j))"
proof (induction xs arbitrary: i)
  case (Cons x xs)
  then show ?case by (cases i) (auto split: if_splits simp: less_Suc_eq_0_disj)
qed simp

lemma find_index_None: "find_index P xs = None \<longleftrightarrow> (\<forall>x \<in> set xs. \<not> P x)"
  by (induction xs) auto

lemma mset_move_front [simp]: "mset (move_front name xs) = mset xs"
proof (cases "find_index (name_match name) xs")
  case (Some i)
  then have "i < length xs" by (blast dest: find_index_Some)
  then have "mset xs = mset (take i xs @ [xs ! i] @ drop (Suc i) xs)" by (simp add: id_take_nth_drop [symmetric])
  then show ?thesis using Some by (simp add: move_front_def)
qed (simp add: move_front_def)

text \<open>The must-visit loop only reorders; the first named place that is offered ends up first.\<close>

definition visit_step :: "string \<Rightarrow> POIInfo list \<Rightarrow> POIInfo list" where
  "visit_step must filtered = (if TrimSpace must = [] then filtered else move_front (TrimSpace must) filtered)"

lemma mset_visit_steps [simp]: "mset (fold visit_step ms xs) = mset xs"
  by (induction ms arbitrary: xs) (auto simp: visit_step_def)

definition offered :: "POIInfo list \<Rightarrow> TravelRequest \<Rightarrow> POIInfo list" where
  "offered pois req = (if keep_pois pois req = [] then pois else keep_pois pois req)"

lemma applyPOIPreferences_eq:
  "applyPOIPreferences pois req = fold visit_step (rev (rq_MustVisit req)) (offered pois req)"
proof (cases "pois = []")
  case True
  then have "mset (fold visit_step (rev (rq_MustVisit req)) (offered pois req)) = {#}"
    by (simp add: offered_def keep_pois_def)
  then have "fold visit_step (rev (rq_MustVisit req)) (offered pois req) = []" by (rule mset_zero_iff [THEN iffD1])
  then show ?thesis using True by (simp add: applyPOIPreferences_def)
next
  case False
  have "visit_step = (\<lambda>must filtered. if TrimSpace must = [] then filtered else move_front (TrimSpace must) filtered)"
    by (intro ext) (simp add: visit_step_def)
  then show ?thesis using False by (simp add: applyPOIPreferences_def offered_def)
qed

lemma mset_applyPOIPreferences: "mset (applyPOIPreferences pois req) = mset (offered pois req)"
  by (simp add: applyPOIPreferences_eq)

lemma set_applyPOIPreferences: "set (applyPOIPreferences pois req) \<subseteq> set pois"
proof -
  have "set (applyPOIPreferences pois req) = set (offered pois req)"
    using mset_applyPOIPreferences by (metis set_mset_mset)
  then show ?thesis by (auto simp: offered_def keep_pois_def)
qed

lemma applyPOIPreferences_Nil [simp]: "applyPOIPreferences pois req = [] \<longleftrightarrow> pois = []"
proof -
  have "applyPOIPreferences pois req = [] \<longleftrightarrow> offered pois req = []"
    using mset_applyPOIPreferences by (metis mset_zero_iff)
  then show ?thesis by (auto simp: offered_def keep_pois_def)
qed

subsection \<open>Days\<close>

definition poi_ok :: "POIInfo \<Rightarrow> bool" where
  "poi_ok p \<longleftrightarrow> TrimSpace (po_Name p) \<noteq> [] \<and> TrimSpace (po_Category p) \<noteq> [] \<and> TrimSpace (po_Address p) \<noteq> []
     \<and> \<not> f_less (po_EstimatedCost p) f_zero \<and> cost_ok (po_Cost p) \<and> 0 \<le> po_SuggestedDurationMinutes p"

lemma plain_start_Join: "plain_start x \<Longrightarrow> plain_start (Join (x # xs) sep)"
proof -
  assume "plain_start x"
  moreover from this obtain c cs where "x = c # cs" by (cases x) (auto simp: plain_start_def)
  ultimately show ?thesis by (cases xs) auto
qed

lemma reason_nonblank: "TrimSpace (itineraryReason state poi) \<noteq> []"
  unfolding itineraryReason_def append_Cons append_Nil
  by (rule plain_start_nonblank, rule plain_start_Join) simp

lemma itemTime_nonblank: "TrimSpace (itemTime slot) \<noteq> []"
  by (rule plain_start_nonblank) (simp add: itemTime_def)

lemma item_of_ok: "poi_ok poi \<Longrightarrow> item_ok (item_of state slot poi)"
  by (simp add: item_ok_def item_of_def poi_ok_def reason_nonblank itemTime_nonblank)

lemma itemsPerDay_range: "itemsPerDay state \<in> {2, 3}"
  by (simp add: itemsPerDay_def)

lemma day_of_items:
  assumes "st_POIs state \<noteq> []"
  shows "length (dy_Items (day_of state d)) = itemsPerDay state"
    and "item \<in> set (dy_Items (day_of state d)) \<Longrightarrow> \<exists>slot. \<exists>poi \<in> set (st_POIs state). item = item_of state slot poi"
proof -
  show "length (dy_Items (day_of state d)) = itemsPerDay state" by (simp add: day_of_def)
  have ix: "nat (k mod int (length (st_POIs state))) < length (st_POIs state)" for k
    using assms by (simp add: nat_less_iff)
  assume "item \<in> set (dy_Items (day_of state d))"
  then obtain slot where "item = item_of state slot
      (st_POIs state ! nat (((d - 1) * int (itemsPerDay state) + int slot) mod int (length (st_POIs state))))"
    by (auto simp: day_of_def)
  then show "\<exists>slot. \<exists>poi \<in> set (st_POIs state). item = item_of state slot poi" using ix nth_mem by blast
qed

lemma day_of_ok:
  assumes "st_POIs state \<noteq> []" "list_all poi_ok (st_POIs state)"
  shows "day_ok i (day_of state (int i + 1))"
proof -
  have "list_all item_ok (dy_Items (day_of state (int i + 1)))"
    using day_of_items(2) [OF assms(1)] assms(2) item_of_ok by (fastforce simp: list_all_iff)
  moreover have "dy_Items (day_of state (int i + 1)) \<noteq> []"
    using day_of_items(1) [OF assms(1), of "int i + 1"] itemsPerDay_range [of state] by auto
  moreover have "TrimSpace (dy_Theme (day_of state (int i + 1))) \<noteq> []"
    by (rule plain_start_nonblank) (simp add: day_of_def)
  ultimately show ?thesis by (simp add: day_ok_def day_of_def)
qed

lemma days_of_ok:
  assumes "st_POIs state \<noteq> []" "list_all poi_ok (st_POIs state)"
  shows "days_ok (map (day_of state) [1..n])"
  using day_of_ok [OF assms] by (auto simp: days_ok_def add.commute)

subsection \<open>The mock data\<close>

lemma city_names: "length (cityPOINames city) = 5 \<and> list_all (\<lambda>name. TrimSpace name \<noteq> []) (cityPOINames city)"
proof -
  have tab: "list_all (\<lambda>(k, names). length names = 5 \<and> list_all (\<lambda>name. TrimSpace name \<noteq> []) names) knownCityPOIs" by code_simp
  have hit: "length names = 5 \<and> list_all (\<lambda>name. TrimSpace name \<noteq> []) names" if "map_of knownCityPOIs k = Some names" for k names
    using tab map_of_SomeD [OF that] by (auto simp: list_all_iff)
  have "\<exists>names. map_of knownCityPOIs ''unknown'' = Some names" by (rule exI, code_simp)
  then show ?thesis using hit by (auto simp: cityPOINames_def split: option.splits)
qed

definition mock_pois :: "string \<Rightarrow> POIInfo list" where
  "mock_pois city = map (\<lambda>(i, name). mock_poi city i name) (enumerate 0 (cityPOINames city))"

lemma f_of_int_nonneg: "0 \<le> n \<Longrightarrow> \<not> f_less (f_of_int n) f_zero"
  using f_nonneg_iff [of "f_of_int n"] by (simp add: f_of_int_def)

lemma poiCategory_nonblank: "TrimSpace (poiCategory i) \<noteq> []"
proof -
  have "poiCategory i \<in> set [''landmark'', ''culture'', ''food'', ''nature'', ''citywalk'']"
    unfolding poiCategory_def by (rule nth_mem) simp
  then show ?thesis by (intro plain_start_nonblank) auto
qed

lemma mock_address: "TrimSpace (city @ '' POI '' @ Itoa n) \<noteq> []"
  by (intro plain_end_nonblank plain_end_append plain_end_Itoa)

lemma mock_poi_ok: "TrimSpace name \<noteq> [] \<Longrightarrow> poi_ok (mock_poi city i name)"
  by (simp add: poi_ok_def mock_poi_def poiCategory_nonblank f_of_int_nonneg mock_address [simplified])

lemma mock_pois_facts:
  "mock_pois city \<noteq> []" "length (mock_pois city) = 5" "list_all poi_ok (mock_pois city)"
  "list_all (\<lambda>p. \<exists>u s. po_Cost p = UnavailableCost u s) (mock_pois city)"
proof -
  have c: "length (cityPOINames city) = 5" "list_all (\<lambda>name. TrimSpace name \<noteq> []) (cityPOINames city)"
    using city_names by auto
  show "length (mock_pois city) = 5" using c(1) by (simp add: mock_pois_def)
  then show "mock_pois city \<noteq> []" by auto
  show "list_all poi_ok (mock_pois city)"
    using c(2) by (auto simp: mock_pois_def list_all_iff in_set_enumerate_eq intro!: mock_poi_ok)
  show "list_all (\<lambda>p. \<exists>u s. po_Cost p = UnavailableCost u s) (mock_pois city)"
    by (auto simp: mock_pois_def list_all_iff mock_poi_def intro!: exI)
qed

subsection \<open>Amounts\<close>

lemma f_of_int_pos:
  assumes "0 < n" "n < 2 ^ 63"
  shows "\<exists>q. f_of_int n = Fin q \<and> 0 < q"
proof -
  have one: "round_mag 1 = 1" using round_mag_of_int [of 1] by simp
  have top: "round_mag (2 ^ 63) = 2 ^ 63" using round_mag_exact [of 1 63] by simp
  have lo: "1 \<le> round_mag (of_int n)" using round_mag_mono [of 1 "of_int n"] one assms(1) by simp
  have "(of_int n :: rat) \<le> of_int (2 ^ 63)" using assms(2) by (simp only: of_int_le_iff)
  then have hi: "round_mag (of_int n) \<le> 2 ^ 63" using round_mag_mono [of "of_int n" "2 ^ 63"] top assms(1) by simp
  have "(2::rat) ^ 63 < 2 powi 1024" using power_int_strict_increasing [of 63 1024 "2::rat"] by simp
  then have "\<not> 2 powi 1024 \<le> round_mag (of_int n :: rat)" using hi by linarith
  then show ?thesis using assms(1) lo by (simp add: f_of_int_def f_of_rat_def Let_def)
qed

lemma f_mul_notneg: "\<not> f_less x f_zero \<Longrightarrow> \<not> f_less y f_zero \<Longrightarrow> \<not> f_less (f_mul x y) f_zero"
proof -
  assume a: "\<not> f_less x f_zero" "\<not> f_less y f_zero"
  have r: "\<not> f_less (f_of_rat q) f_zero" if "0 \<le> q" for q
    using f_of_rat_nonneg [OF that] f_nonneg_iff by blast
  show ?thesis using a r by (cases x; cases y) (auto simp: f_mul_def Let_def f_inf_def f_zero_of_def)
qed

lemma hundred [simp]: "f_of_int 100 = Fin 100"
  using f_of_int_exact [of 100] by simp

lemma roundMoney_nonneg: "f_nonneg x \<Longrightarrow> f_nonneg (roundMoney x)"
  by (simp add: roundMoney_def f_div_nonneg f_round_nonneg f_mul_nonneg)

lemma roundMoney_zero [simp]: "roundMoney f_zero = f_zero"
  by (simp add: roundMoney_def f_mul_def f_div_def f_zero_of_def Let_def round_away_def floor_eq_iff)

lemma f_add_zero [simp]: "f_add f_zero f_zero = f_zero"
  by (simp add: f_of_rat_def)

subsection \<open>The budget tool\<close>

text \<open>A cost that is not negative where it is counted.\<close>

definition fair_cost :: "CostInfo \<Rightarrow> bool" where
  "fair_cost cost \<longleftrightarrow> (\<forall>a. ci_Amount cost = Some a \<longrightarrow> f_nonneg a)"

definition fair_tally :: "tally \<Rightarrow> bool" where
  "fair_tally t \<longleftrightarrow> f_nonneg (ta_food t) \<and> f_nonneg (ta_ticket t)
     \<and> (\<not> ta_foodKnown t \<longrightarrow> ta_food t = f_zero) \<and> (\<not> ta_ticketKnown t \<longrightarrow> ta_ticket t = f_zero)"

lemma budgetAmount_nonneg: "fair_cost cost \<Longrightarrow> travelers < 2 ^ 63 \<Longrightarrow> f_nonneg (budgetAmount cost travelers)"
  using f_of_int_pos [of travelers]
  by (auto simp: budgetAmount_def fair_cost_def f_mul_nonneg split: option.splits)

lemma add_item_fair:
  assumes "fair_tally t" "fair_cost (it_Cost item)" "\<And>name. fair_cost (pcosts name)" "travelers < 2 ^ 63"
  shows "fair_tally (add_item travelers pcosts item t)"
  using assms budgetAmount_nonneg [OF _ assms(4)]
  by (simp add: add_item_def fair_tally_def Let_def)

lemma tally_items_fair:
  assumes "\<forall>day \<in> set days. \<forall>item \<in> set (dy_Items day). fair_cost (it_Cost item)" "\<And>name. fair_cost (pcosts name)"
    "travelers < 2 ^ 63"
  shows "fair_tally (tally_items travelers pcosts days)"
proof -
  have "fair_tally (fold (add_item travelers pcosts) items t)"
    if "fair_tally t" "\<forall>item \<in> set items. fair_cost (it_Cost item)" for items t
    using that by (induction items arbitrary: t) (auto intro: add_item_fair assms)
  then show ?thesis using assms(1) by (simp add: tally_items_def fair_tally_def)
qed

lemma poiCosts_fair: "\<forall>p \<in> set pois. fair_cost (po_Cost p) \<Longrightarrow> fair_cost (poiCosts pois name)"
  by (auto simp: poiCosts_def fair_cost_def zero_cost_def split: option.splits dest!: map_of_SomeD)

lemma tally_routes_fair:
  assumes "\<forall>r \<in> set routes. fair_cost (ro_Cost r)" "travelers < 2 ^ 63"
  shows "case tally_routes travelers routes of (v, known) \<Rightarrow> f_nonneg v \<and> (\<not> known \<longrightarrow> v = f_zero)"
proof -
  let ?f = "\<lambda>route (transport, known). if \<not> counts (ro_Cost route) then (transport, known)
         else (f_add transport (budgetAmount (ro_Cost route) travelers), True)"
  have "case fold ?f rs (v, k) of (v', k') \<Rightarrow> f_nonneg v' \<and> (\<not> k' \<longrightarrow> v' = f_zero)"
    if "\<forall>r \<in> set rs. fair_cost (ro_Cost r)" "f_nonneg v" "\<not> k \<longrightarrow> v = f_zero" for rs v k
    using that
  proof (induction rs arbitrary: v k)
    case (Cons r rs)
    have "f_nonneg (f_add v (budgetAmount (ro_Cost r) travelers))"
      using Cons(2,3) budgetAmount_nonneg [OF _ assms(2), of "ro_Cost r"] by simp
    then show ?case using Cons by simp
  qed simp
  from this [of routes f_zero False] show ?thesis using assms(1) by (simp add: tally_routes_def)
qed

text \<open>The five lines of a budget.\<close>

lemma label_nonblank: "plain_start s \<or> plain_end s \<Longrightarrow> TrimSpace s \<noteq> []"
  by (auto dest: plain_start_nonblank plain_end_nonblank)

lemma budgetLine_sel [simp]:
  "bl_Key (budgetLine k l a known s) = k" "bl_Label (budgetLine k l a known s) = l"
  "bl_Amount (budgetLine k l a known s) = (if known then Some a else None)"
  "bl_Status (budgetLine k l a known s) = (if known then CostAvailable else CostUnavailable)"
  "bl_Included (budgetLine k l a known s) = known"
  by (simp_all add: budgetLine_def unknown_line_def)

lemma budgetLine_ok [simp]: "line_ok (budgetLine k l a known s) \<longleftrightarrow> (known \<longrightarrow> \<not> f_less a f_zero)"
  by (simp add: line_ok_def)

lemma unknown_line_sel [simp]:
  "bl_Key (unknown_line k l) = k" "bl_Label (unknown_line k l) = l" "bl_Amount (unknown_line k l) = None"
  "bl_Status (unknown_line k l) = CostUnavailable" "line_ok (unknown_line k l)"
  by (simp_all add: unknown_line_def line_ok_def)

lemma budget_label [simp]:
  "TrimSpace ''food'' \<noteq> []" "TrimSpace ''transport'' \<noteq> []" "TrimSpace ''hotel'' \<noteq> []" "TrimSpace ''ticket'' \<noteq> []"
  "TrimSpace ''intercity_transport'' \<noteq> []" "TrimSpace label_food \<noteq> []" "TrimSpace label_transport \<noteq> []"
  "TrimSpace label_hotel \<noteq> []" "TrimSpace label_ticket \<noteq> []" "TrimSpace label_intercity \<noteq> []"
  by (code_simp, code_simp, code_simp, code_simp, code_simp, code_simp, code_simp, code_simp, code_simp, code_simp)

definition fair_input :: "BudgetToolInput \<Rightarrow> bool" where
  "fair_input inp \<longleftrightarrow> rq_Travelers (bin_Request inp) < 2 ^ 63
     \<and> (\<forall>p \<in> set (bin_POIs inp). fair_cost (po_Cost p)) \<and> (\<forall>r \<in> set (bin_Routes inp). fair_cost (ro_Cost r))
     \<and> (\<forall>day \<in> set (bin_Itinerary inp). \<forall>item \<in> set (dy_Items day). fair_cost (it_Cost item))"

lemma budget_items_ok:
  "\<not> f_less (fst food) f_zero \<Longrightarrow> \<not> f_less (fst transport) f_zero \<Longrightarrow> \<not> f_less (fst ticket) f_zero
     \<Longrightarrow> list_all (\<lambda>l. TrimSpace (bl_Key l) \<noteq> [] \<and> TrimSpace (bl_Label l) \<noteq> [] \<and> line_ok l) (budget_items food transport ticket)"
  by (simp add: budget_items_def)

lemma budget_items_missing:
  "missingBudgetKeys (budget_items food transport ticket) =
     (if snd food then [] else [''food'']) @ (if snd transport then [] else [''transport'']) @ [''hotel'']
       @ (if snd ticket then [] else [''ticket''])"
  by (simp add: missingBudgetKeys_def budget_items_def)

lemma budget_items_unavailable:
  "l \<in> set (budget_items food transport ticket) \<Longrightarrow> bl_Status l = CostUnavailable \<longleftrightarrow> bl_Amount l = None"
  by (auto simp: budget_items_def)

lemma budget_items_lines:
  "snd food \<Longrightarrow> \<exists>l \<in> set (budget_items food transport ticket). bl_Key l = ''food'' \<and> bl_Amount l = Some (fst food)"
  "snd transport \<Longrightarrow> \<exists>l \<in> set (budget_items food transport ticket). bl_Key l = ''transport'' \<and> bl_Amount l = Some (fst transport)"
  "snd ticket \<Longrightarrow> \<exists>l \<in> set (budget_items food transport ticket). bl_Key l = ''ticket'' \<and> bl_Amount l = Some (fst ticket)"
  by (simp_all add: budget_items_def)

text \<open>What the tool computes: the three sums, each with whether it is known, and the lines.\<close>

definition intercity_line :: "bool \<Rightarrow> BudgetLine list" where
  "intercity_line intercity = (if intercity then [unknown_line ''intercity_transport'' label_intercity] else [])"

definition budget_of :: "bool \<Rightarrow> float64 \<times> bool \<Rightarrow> float64 \<times> bool \<Rightarrow> float64 \<times> bool \<Rightarrow> TravelBudget" where
  "budget_of intercity food transport ticket =
     (let lines = budget_items food transport ticket @ intercity_line intercity;
          sum = roundMoney (f_add (f_add (f_add (fst food) (fst ticket)) (fst transport)) f_zero)
      in \<lparr>bg_Transport = fst transport, bg_Food = fst food, bg_Hotel = f_zero, bg_Ticket = fst ticket, bg_Total = sum,
          bg_KnownTotal = sum, bg_Complete = False, bg_Currency = ''CNY'', bg_Items = lines,
          bg_Missing = missingBudgetKeys lines\<rparr>)"

lemma missing_append [simp]: "missingBudgetKeys (xs @ ys) = missingBudgetKeys xs @ missingBudgetKeys ys"
  by (simp add: missingBudgetKeys_def)

lemma missing_unknown: "missingBudgetKeys [unknown_line k l] = [k]" "missingBudgetKeys [] = []"
  by (simp_all add: missingBudgetKeys_def)

lemma missing_intercity [simp]: "missingBudgetKeys (intercity_line i) = (if i then [''intercity_transport''] else [])"
  by (simp add: missingBudgetKeys_def intercity_line_def)

lemma MockBudgetTool_eq:
  assumes "pc_Err c = None" "\<not> f_le (rq_Budget (bin_Request inp)) f_zero" "0 < bin_Days inp"
    and n: "n = (if rq_Travelers (bin_Request inp) \<le> 0 then 1 else rq_Travelers (bin_Request inp))"
    and t: "t = tally_items n (poiCosts (bin_POIs inp)) (bin_Itinerary inp)"
    and r: "tally_routes n (bin_Routes inp) = (v, k)"
  shows "MockBudgetTool c inp = Inr
    (budget_of (needsIntercityTransport (bin_Request inp)) (roundMoney (ta_food t), ta_foodKnown t)
       (roundMoney v, k) (roundMoney (ta_ticket t), ta_ticketKnown t))"
proof -
  have "MockBudgetTool c inp =
     (let food = roundMoney (ta_food t); ticket = roundMoney (ta_ticket t); transport = roundMoney v;
          knownTotal = roundMoney (f_add (f_add (f_add food ticket) transport) f_zero);
          items = budget_items (food, ta_foodKnown t) (transport, k) (ticket, ta_ticketKnown t);
          missing = missingBudgetKeys items; intercity = needsIntercityTransport (bin_Request inp);
          items' = items @ (if intercity then [unknown_line ''intercity_transport'' label_intercity] else []);
          missing' = missing @ (if intercity then [''intercity_transport''] else [])
      in Inr \<lparr>bg_Transport = transport, bg_Food = food, bg_Hotel = f_zero, bg_Ticket = ticket, bg_Total = knownTotal,
              bg_KnownTotal = knownTotal, bg_Complete = (length missing' = 0), bg_Currency = ''CNY'', bg_Items = items',
              bg_Missing = missing'\<rparr>)"
    unfolding MockBudgetTool_def t r [unfolded n, symmetric] using assms(1-3) r by (simp add: n Let_def)
  moreover have "missingBudgetKeys (budget_items (roundMoney (ta_food t), ta_foodKnown t) (roundMoney v, k)
      (roundMoney (ta_ticket t), ta_ticketKnown t)) \<noteq> []" by (simp add: budget_items_missing)
  ultimately show ?thesis by (simp add: Let_def budget_of_def intercity_line_def missing_unknown)
qed

lemma MockBudgetTool_Inr:
  assumes "MockBudgetTool c inp = Inr b"
  shows "pc_Err c = None" "\<not> f_le (rq_Budget (bin_Request inp)) f_zero" "0 < bin_Days inp"
  using assms by (auto simp: MockBudgetTool_def split: option.splits if_splits)

lemma budget_of_checked:
  assumes "f_nonneg (fst food)" "f_nonneg (fst transport)" "f_nonneg (fst ticket)"
  shows "f_nonneg (bg_Total (budget_of i food transport ticket))"
    "validateBudgetDetails printable (budget_of i food transport ticket) = Inr ()"
proof -
  define sum where "sum = roundMoney (f_add (f_add (f_add (fst food) (fst ticket)) (fst transport)) f_zero)"
  have sum: "f_nonneg sum" unfolding sum_def using assms by (intro roundMoney_nonneg f_add_nonneg) simp_all
  then have "f_eq sum sum" by (intro f_eq_refl) (auto simp: f_nonneg_iff)
  moreover have "list_all (\<lambda>l. TrimSpace (bl_Key l) \<noteq> [] \<and> TrimSpace (bl_Label l) \<noteq> [] \<and> line_ok l)
      (budget_items food transport ticket @ intercity_line i)"
    using budget_items_ok [of food transport ticket] assms by (simp add: f_nonneg_iff intercity_line_def)
  ultimately show "validateBudgetDetails printable (budget_of i food transport ticket) = Inr ()"
    unfolding validateBudgetDetails_ok by (simp add: budget_of_def Let_def sum_def [symmetric] list_all_iff)
  show "f_nonneg (bg_Total (budget_of i food transport ticket))"
    using sum by (simp add: budget_of_def Let_def sum_def)
qed

lemma budget_of_missing:
  "bg_Missing (budget_of i food transport ticket) =
     map bl_Key (filter (\<lambda>l. bl_Amount l = None) (bg_Items (budget_of i food transport ticket)))"
proof -
  have same: "bl_Status l = CostUnavailable \<longleftrightarrow> bl_Amount l = None"
    if "l \<in> set (budget_items food transport ticket @ intercity_line i)" for l
    using that budget_items_unavailable [of l food transport ticket] by (auto simp: intercity_line_def split: if_splits)
  have "missingBudgetKeys (budget_items food transport ticket @ intercity_line i) =
      map bl_Key (filter (\<lambda>l. bl_Amount l = None) (budget_items food transport ticket @ intercity_line i))"
    unfolding missingBudgetKeys_def by (rule arg_cong [of _ _ "map bl_Key"], rule filter_cong [OF refl], erule same)
  then show ?thesis by (simp only: budget_of_def Let_def TravelBudget.simps)
qed

text \<open>A part is a line with its amount, or missing and zero.\<close>

definition part_shown :: "TravelBudget \<Rightarrow> string \<Rightarrow> float64 \<Rightarrow> bool" where
  "part_shown b key part \<longleftrightarrow>
     (if key \<in> set (bg_Missing b) then part = f_zero
      else \<exists>l \<in> set (bg_Items b). bl_Key l = key \<and> bl_Amount l = Some part)"

lemma part_shownI:
  "(key \<in> set (bg_Missing b) \<longleftrightarrow> \<not> known) \<Longrightarrow> (\<not> known \<longrightarrow> part = f_zero)
     \<Longrightarrow> (known \<Longrightarrow> \<exists>l \<in> set (bg_Items b). bl_Key l = key \<and> bl_Amount l = Some part) \<Longrightarrow> part_shown b key part"
  by (auto simp: part_shown_def)

lemma budget_of_shown:
  assumes z: "\<not> snd food \<longrightarrow> fst food = f_zero" "\<not> snd transport \<longrightarrow> fst transport = f_zero"
      "\<not> snd ticket \<longrightarrow> fst ticket = f_zero"
    and b: "b = budget_of i food transport ticket"
  shows "part_shown b ''food'' (bg_Food b)" "part_shown b ''transport'' (bg_Transport b)"
    "part_shown b ''ticket'' (bg_Ticket b)" "part_shown b ''hotel'' (bg_Hotel b)"
proof -
  have m: "bg_Missing b = (if snd food then [] else [''food'']) @ (if snd transport then [] else [''transport''])
      @ [''hotel''] @ (if snd ticket then [] else [''ticket'']) @ (if i then [''intercity_transport''] else [])"
    unfolding b by (simp add: budget_of_def Let_def budget_items_missing)
  have l: "bg_Items b = budget_items food transport ticket @ intercity_line i" unfolding b by (simp add: budget_of_def Let_def)
  have p: "bg_Food b = fst food" "bg_Transport b = fst transport" "bg_Ticket b = fst ticket" "bg_Hotel b = f_zero"
    unfolding b by (simp_all add: budget_of_def Let_def)
  have line: "\<exists>l \<in> set (bg_Items b). P l" if "\<exists>l \<in> set (budget_items food transport ticket). P l" for P
    using that unfolding l by auto
  show "part_shown b ''food'' (bg_Food b)"
    by (rule part_shownI [of _ _ "snd food"]) (use z m p in \<open>auto intro!: line budget_items_lines\<close>)
  show "part_shown b ''transport'' (bg_Transport b)"
    by (rule part_shownI [of _ _ "snd transport"]) (use z m p in \<open>auto intro!: line budget_items_lines\<close>)
  show "part_shown b ''ticket'' (bg_Ticket b)"
    by (rule part_shownI [of _ _ "snd ticket"]) (use z m p in \<open>auto intro!: line budget_items_lines\<close>)
  show "part_shown b ''hotel'' (bg_Hotel b)" using m p by (simp add: part_shown_def)
qed

text \<open>
  Whatever the itinerary, the POIs and the routes cost, as long as no amount is negative or \<open>NaN\<close>, the
  budget of the planner passes the checks on a budget: no part is negative, the total is the known total,
  which is the rounded sum of the three parts that are known, an unknown part counts as zero, and the
  missing keys are those of the lines without an amount, in order. Lodging is always among them, so a
  budget is never complete.
\<close>

theorem budget_is_consistent:
  assumes b: "MockBudgetTool c inp = Inr b" and fair: "fair_input inp"
  shows "validateBudgetDetails printable b = Inr ()
    \<and> f_nonneg (bg_Total b) \<and> f_nonneg (bg_Food b) \<and> f_nonneg (bg_Ticket b) \<and> f_nonneg (bg_Transport b)
    \<and> bg_Total b = roundMoney (f_add (f_add (f_add (bg_Food b) (bg_Ticket b)) (bg_Transport b)) (bg_Hotel b))
    \<and> bg_Missing b = map bl_Key (filter (\<lambda>l. bl_Amount l = None) (bg_Items b))
    \<and> part_shown b ''food'' (bg_Food b) \<and> part_shown b ''transport'' (bg_Transport b)
    \<and> part_shown b ''ticket'' (bg_Ticket b) \<and> part_shown b ''hotel'' (bg_Hotel b)
    \<and> ''hotel'' \<in> set (bg_Missing b) \<and> \<not> bg_Complete b"
proof -
  define n where "n = (if rq_Travelers (bin_Request inp) \<le> 0 then 1 else rq_Travelers (bin_Request inp))"
  define t where "t = tally_items n (poiCosts (bin_POIs inp)) (bin_Itinerary inp)"
  obtain v k where r: "tally_routes n (bin_Routes inp) = (v, k)" by (cases "tally_routes n (bin_Routes inp)")
  have n: "n < 2 ^ 63" using fair by (simp add: n_def fair_input_def)
  have t: "fair_tally t" unfolding t_def
    by (rule tally_items_fair) (use fair n in \<open>auto simp: fair_input_def intro: poiCosts_fair\<close>)
  have v: "f_nonneg v" "\<not> k \<longrightarrow> v = f_zero"
    using tally_routes_fair [of "bin_Routes inp" n] fair n r by (auto simp: fair_input_def)
  let ?food = "(roundMoney (ta_food t), ta_foodKnown t)" and ?transport = "(roundMoney v, k)"
    and ?ticket = "(roundMoney (ta_ticket t), ta_ticketKnown t)"
  let ?i = "needsIntercityTransport (bin_Request inp)"
  have eq: "b = budget_of ?i ?food ?transport ?ticket"
    using b MockBudgetTool_eq [OF MockBudgetTool_Inr [OF b] n_def t_def r] by simp
  have pos: "f_nonneg (fst ?food)" "f_nonneg (fst ?transport)" "f_nonneg (fst ?ticket)"
    using t v by (auto simp: fair_tally_def intro: roundMoney_nonneg)
  have "bg_Total b = roundMoney (f_add (f_add (f_add (bg_Food b) (bg_Ticket b)) (bg_Transport b)) (bg_Hotel b))"
    "bg_Food b = fst ?food" "bg_Transport b = fst ?transport" "bg_Ticket b = fst ?ticket" "\<not> bg_Complete b"
    "''hotel'' \<in> set (bg_Missing b)"
    unfolding eq by (simp_all add: budget_of_def Let_def budget_items_missing)
  moreover have "\<not> snd ?food \<longrightarrow> fst ?food = f_zero" "\<not> snd ?transport \<longrightarrow> fst ?transport = f_zero"
    "\<not> snd ?ticket \<longrightarrow> fst ?ticket = f_zero"
    using t v by (auto simp: fair_tally_def)
  note budget_of_shown [OF this eq]
  moreover note budget_of_missing [of ?i ?food ?transport ?ticket, folded eq]
    budget_of_checked [OF pos, where i = ?i, folded eq]
  ultimately show ?thesis using pos by simp
qed

end
