(* ===== verification/PlannerRuns.thy ===== *)
theory PlannerRuns
  imports PlannerGuarantees
begin

section \<open>Runs of the planner\<close>

text \<open>
  The two guarantees of the whole graph: with no external service at all every acceptable request is
  planned completely, and whatever the tools, the generator and the runtime do, a plan that comes out has
  passed the checks of the last node.
\<close>

subsection \<open>Nodes and edges\<close>

lemma snd_edge: "snd (edge_to m f) = (case snd m of Inl err \<Rightarrow> Inl err | Inr s \<Rightarrow> snd (f s))"
  by (auto simp: edge_to_def split: prod.splits sum.splits)

lemma edge_Inr: "snd (edge_to m f) = Inr v \<Longrightarrow> \<exists>s. snd m = Inr s \<and> snd (f s) = Inr v"
  by (auto simp: snd_edge split: sum.splits)

lemma snd_run: "gr_before G key = None \<Longrightarrow> snd (run_node G key f s) =
    (case snd (f (gr_env G key) s) of
       None \<Rightarrow> Inl (gr_panic G key nil_dereference)
     | Some (Inl err) \<Rightarrow> Inl (gr_wrap G key err)
     | Some (Inr s') \<Rightarrow> Inr s')"
  by (auto simp: run_node_def split: prod.splits option.splits sum.splits)

lemma run_ok_cases:
  assumes "snd (run_node G key f s) = Inr s'"
  shows "gr_before G key = None" "snd (f (gr_env G key) s) = Some (Inr s')"
proof -
  show "gr_before G key = None" using assms by (auto simp: run_node_def split: option.splits)
  then show "snd (f (gr_env G key) s) = Some (Inr s')"
    using assms by (auto simp: snd_run split: option.splits sum.splits)
qed

lemma snd_plain [simp]: "snd (plain f e s) = Some (snd (f e s))"
  by (simp add: plain_def split: prod.split)

text \<open>A runtime that runs every node, under a live context.\<close>

definition undisturbed :: "graph_runtime \<Rightarrow> bool" where
  "undisturbed G \<longleftrightarrow> (\<forall>key. gr_before G key = None \<and> en_Err (gr_env G key) = None)"

lemma run_step:
  "undisturbed G \<Longrightarrow> snd m = Inr s \<Longrightarrow> snd (f (gr_env G key) s) = Inr s'
     \<Longrightarrow> snd (edge_to m (run_node G key (plain f))) = Inr s'"
  by (simp add: snd_edge snd_run undisturbed_def)

text \<open>What no node after the first changes.\<close>

definition base :: "TravelPlanningState \<Rightarrow> TravelRequest \<times> string \<times> int \<times> float64 \<times> string list \<times> string" where
  "base s = (st_Request s, st_NormalizedDestination s, st_NormalizedDays s, st_NormalizedBudget s, st_Interests s, st_Pace s)"

lemma base_update [simp]:
  "base (s\<lparr>st_POIs := a\<rparr>) = base s" "base (s\<lparr>st_Weather := b\<rparr>) = base s" "base (s\<lparr>st_Routes := c\<rparr>) = base s"
  "base (s\<lparr>st_Budget := d\<rparr>) = base s" "base (s\<lparr>st_Itinerary := e\<rparr>) = base s" "base (s\<lparr>st_RouteValidation := f\<rparr>) = base s"
  "base (s\<lparr>st_Warnings := g\<rparr>) = base s" "base (s\<lparr>st_Trace := h\<rparr>) = base s"
  by (simp_all add: base_def)

lemma snd_traced_ok [simp]:
  "snd (traced_ok e step message business s) = Inr (s\<lparr>st_Trace := st_Trace s @ [trace_entry e step message True]\<rparr>)"
  by (simp add: traced_ok_def appendTrace_def)

text \<open>The requests that the first node lets pass.\<close>

definition acceptable :: "TravelRequest \<Rightarrow> bool" where
  "acceptable req \<longleftrightarrow> TrimSpace (rq_DepartureCity req) \<noteq> [] \<and> TrimSpace (rq_DestinationCity req) \<noteq> [] \<and> 0 < rq_Days req
     \<and> \<not> f_le (rq_Budget req) f_zero \<and> normalizeStringSlice (rq_Interests req) \<noteq> [] \<and> 0 < rq_Travelers req"

lemma parse_ok:
  assumes "en_Err e = None"
  shows "if acceptable req
    then \<exists>s. snd (parseTravelRequestNode c e req) = Inr s \<and> base s = base (initial_state (NormalizeTravelBrief req))
    else \<exists>err. snd (parseTravelRequestNode c e req) = Inl err"
  using assms by (auto simp: parseTravelRequestNode_def acceptable_def ctx_in_def Let_def)

text \<open>A tool that answers with data, possibly as a fallback.\<close>

definition answers :: "(pctx \<Rightarrow> 'i \<Rightarrow> 'a tool_result) \<Rightarrow> pctx \<Rightarrow> 'i \<Rightarrow> 'a list \<Rightarrow> bool" where
  "answers tool c i out \<longleftrightarrow> fst (tool c i) = out \<and> (\<forall>e. snd (tool c i) = Some e \<longrightarrow> isFallbackError e)"

lemma answers_cases:
  assumes "answers tool c i out"
  obtains "tool c i = (out, None)" | e where "tool c i = (out, Some e)" "isFallbackError e"
  using assms by (cases "tool c i"; cases "snd (tool c i)") (auto simp: answers_def)

lemma poi_node:
  assumes "answers tool (ctx_in c e) \<lparr>pin_City = st_NormalizedDestination s, pin_Interests = st_Interests s\<rparr> pois" "pois \<noteq> []"
  shows "\<exists>s'. snd (searchPOIsToolNode tool c e s) = Inr s' \<and> base s' = base s \<and> st_POIs s' = pois"
  using assms(1) by (rule answers_cases) (use assms(2) in \<open>simp_all add: searchPOIsToolNode_def Let_def\<close>)

lemma weather_node:
  assumes "answers tool (ctx_in c e) \<lparr>win_City = st_NormalizedDestination s, win_Days = st_NormalizedDays s\<rparr> weather" "weather \<noteq> []"
  shows "\<exists>s'. snd (getWeatherToolNode tool c e s) = Inr s' \<and> base s' = base s \<and> st_POIs s' = st_POIs s"
  using assms(1) by (rule answers_cases) (use assms(2) in \<open>simp_all add: getWeatherToolNode_def Let_def\<close>)

lemma route_node:
  assumes "answers tool (ctx_in c e) \<lparr>rin_POIs = st_POIs s, rin_Mode = st_TransportMode s\<rparr> routes" "routes \<noteq> []"
  shows "\<exists>s'. snd (computeRouteToolNode tool c e s) = Inr s' \<and> base s' = base s \<and> st_POIs s' = st_POIs s \<and> st_Routes s' = routes"
  using assms(1) by (rule answers_cases) (use assms(2) in \<open>simp_all add: computeRouteToolNode_def Let_def\<close>)

lemma optimize_node:
  assumes "en_Err e = None" "st_POIs s \<noteq> []"
  shows "\<exists>s'. snd (optimizeItineraryNode c e s) = Inr s' \<and> base s' = base s \<and> st_Routes s' = st_Routes s
    \<and> st_POIs s' = applyPOIPreferences (st_POIs s) (st_Request s)
    \<and> st_Itinerary s' = map (day_of (s\<lparr>st_POIs := applyPOIPreferences (st_POIs s) (st_Request s)\<rparr>)) [1..st_NormalizedDays s]"
  using assms by (simp add: optimizeItineraryNode_def ctx_in_def Let_def)

lemma budget_node:
  assumes "tool (ctx_in c e) \<lparr>bin_Request = st_Request s, bin_Days = st_NormalizedDays s, bin_POIs = st_POIs s,
             bin_Routes = st_Routes s, bin_Itinerary = st_Itinerary s\<rparr> = Inr b"
  shows "\<exists>s'. snd (estimateBudgetToolNode tool c e s) = Inr s' \<and> base s' = base s \<and> st_Itinerary s' = st_Itinerary s \<and> st_Budget s' = b"
  using assms by (simp add: estimateBudgetToolNode_def)

lemma route_check_node:
  assumes "en_Err e = None"
  shows "\<exists>s'. snd (validateRouteFeasibilityNode c e s) = Inr s' \<and> base s' = base s \<and> st_Itinerary s' = st_Itinerary s
    \<and> st_Budget s' = st_Budget s"
  using assms by (simp add: validateRouteFeasibilityNode_def ctx_in_def Let_def)

subsection \<open>The default tools without a service\<close>

definition failing :: "(pctx \<Rightarrow> 'i \<Rightarrow> 'a tool_result) \<Rightarrow> bool" where
  "failing tool \<longleftrightarrow> (\<forall>c i. snd (tool c i) \<noteq> None)"

lemma fallback_answers:
  assumes "mock c i = (out, None)" "\<And>tool. primary = Some tool \<Longrightarrow> failing tool"
  shows "answers (fallback_tool name stage reason primary mock) c i out"
proof (cases primary)
  case None
  then show ?thesis using assms(1) by (simp add: answers_def fallback_tool_def Let_def)
next
  case (Some tool)
  obtain xs e where "tool c i = (xs, Some e)"
    using assms(2) [OF Some] by (cases "tool c i") (auto simp: failing_def dest!: spec [of _ c] spec [of _ i])
  then show ?thesis using assms(1) Some by (simp add: answers_def fallback_tool_def Let_def)
qed

lemma context_answers:
  assumes "mock c i = (out, None)" "\<not> pc_TestMode c \<Longrightarrow> answers configured c i out"
  shows "answers (context_tool mock configured) c i out"
  using assms by (auto simp: context_tool_def answers_def)

text \<open>Test mode, mock mode, no key, or a map service that always fails.\<close>

definition no_service :: "bool \<Rightarrow> bool \<Rightarrow> bool \<Rightarrow> POITool \<Rightarrow> WeatherTool \<Rightarrow> RouteTool \<Rightarrow> bool" where
  "no_service testMode realMode hasKey poi weather route \<longleftrightarrow>
     testMode \<or> \<not> realMode \<or> \<not> hasKey \<or> (failing poi \<and> failing weather \<and> failing route)"

text \<open>How a tool is chosen, for the three types of tool at once.\<close>

definition chosen ::
  "string \<Rightarrow> bool \<Rightarrow> bool \<Rightarrow> (pctx \<Rightarrow> 'i \<Rightarrow> 'a tool_result) \<Rightarrow> (pctx \<Rightarrow> 'i \<Rightarrow> 'a tool_result) \<Rightarrow> pctx \<Rightarrow> 'i \<Rightarrow> 'a tool_result" where
  "chosen name realMode hasKey primary mock = context_tool mock
     (if \<not> realMode then mock
      else if \<not> hasKey then fallback_tool name ''configuration'' ''TRAVEL_AGENT_AMAP_API_KEY is not configured'' None mock
      else fallback_tool name [] [] (Some primary) mock)"

lemma default_tools:
  "ts_POI (defaultToolSet realMode hasKey poi weather route) = chosen ''poi'' realMode hasKey poi MockPOITool"
  "ts_Weather (defaultToolSet realMode hasKey poi weather route) = chosen ''weather'' realMode hasKey weather MockWeatherTool"
  "ts_Route (defaultToolSet realMode hasKey poi weather route) = chosen ''route'' realMode hasKey route MockRouteTool"
  by (simp_all add: defaultToolSet_def chosen_def Let_def contextToolSet_def mockToolSet_def)

lemma chosen_answers:
  assumes "mock c i = (out, None)" "pc_TestMode c \<or> \<not> realMode \<or> \<not> hasKey \<or> failing primary"
  shows "answers (chosen name realMode hasKey primary mock) c i out"
proof -
  have self: "answers mock c i out" using assms(1) by (simp add: answers_def)
  have off: "answers (fallback_tool name st re None mock) c i out" for st re
    using fallback_answers [of mock c i out None, OF assms(1)] by simp
  have down: "answers (fallback_tool name st re (Some primary) mock) c i out" if "failing primary" for st re
    using fallback_answers [of mock c i out "Some primary", OF assms(1)] that by simp
  show ?thesis unfolding chosen_def
    by (rule context_answers [where mock = mock], rule assms(1)) (use assms(2) self off down in auto)
qed

lemma default_tools_answer:
  assumes "no_service (pc_TestMode c) realMode hasKey poi weather route"
  shows "MockPOITool c i = (pois, None) \<Longrightarrow> answers (ts_POI (defaultToolSet realMode hasKey poi weather route)) c i pois"
    and "MockWeatherTool c j = (ws, None) \<Longrightarrow> answers (ts_Weather (defaultToolSet realMode hasKey poi weather route)) c j ws"
    and "MockRouteTool c k = (rs, None) \<Longrightarrow> answers (ts_Route (defaultToolSet realMode hasKey poi weather route)) c k rs"
  using assms unfolding default_tools no_service_def by (blast intro: chosen_answers)+

lemma default_budget [simp]: "ts_Budget (defaultToolSet realMode hasKey poi weather route) = MockBudgetTool"
  by (simp add: defaultToolSet_def Let_def contextToolSet_def mockToolSet_def)

lemma mock_poi_answer: "pc_Err c = None \<Longrightarrow> city \<noteq> [] \<Longrightarrow> MockPOITool c \<lparr>pin_City = city, pin_Interests = is\<rparr> = (mock_pois city, None)"
  by (simp add: MockPOITool_def mock_pois_def)

lemma mock_weather_answer:
  "pc_Err c = None \<Longrightarrow> 0 < days \<Longrightarrow> \<exists>ws. MockWeatherTool c \<lparr>win_City = city, win_Days = days\<rparr> = (ws, None) \<and> ws \<noteq> []"
  by (simp add: MockWeatherTool_def)

lemma mock_route_answer:
  "pc_Err c = None \<Longrightarrow> 2 \<le> length pois \<Longrightarrow> \<exists>rs. MockRouteTool c \<lparr>rin_POIs = pois, rin_Mode = m\<rparr> = (rs, None) \<and> rs \<noteq> []
     \<and> (\<forall>r \<in> set rs. ro_Cost r = UnavailableCost ''per_trip'' ''mock.route'')"
  by (cases pois) (auto simp: MockRouteTool_def Let_def mock_route_def)

subsection \<open>A plan without any service\<close>

text \<open>A generator that falls back: in test mode, switched off, without a client, or with a model that never gives a plan.\<close>

definition no_model :: "bool \<Rightarrow> llmPlanGenerator \<Rightarrow> bool" where
  "no_model testMode g \<longleftrightarrow> testMode \<or> lg_disabledReason g \<noteq> []
     \<or> (\<forall>client. lg_client g = Some client \<longrightarrow>
          (\<forall>c s n. case snd (client c s n) of Inl e \<Rightarrow> True | Inr None \<Rightarrow> True | Inr (Some r) \<Rightarrow> lr_Plan r = None))"

lemma llm_attempts_fail:
  assumes "\<forall>c s n. case snd (client c s n) of Inl e \<Rightarrow> True | Inr None \<Rightarrow> True | Inr (Some r) \<Rightarrow> lr_Plan r = None"
  shows "\<exists>e m. snd (llm_attempts client c s n k lastErr) = Inl (e, m)"
proof (induction k arbitrary: n lastErr)
  case (Suc k)
  obtain r x where rx: "client c s n = (r, x)" by (cases "client c s n")
  have "case x of Inl e \<Rightarrow> True | Inr None \<Rightarrow> True | Inr (Some r) \<Rightarrow> lr_Plan r = None"
    using assms [rule_format, of c s n] by (simp add: rx)
  moreover obtain r' e m where "llm_attempts client c s (n + 1) k (Some (projl x)) = (r', Inl (e, m))"
    using Suc [of "n + 1" "Some (projl x)"] by (cases "llm_attempts client c s (n + 1) k (Some (projl x))") auto
  ultimately show ?case using rx by (cases x) (auto split: option.splits)
qed simp

text \<open>The plan that is then written, up to its warnings.\<close>

definition written :: "TravelPlanningState \<Rightarrow> TravelPlan \<Rightarrow> bool" where
  "written s plan \<longleftrightarrow> pl_Title plan = st_NormalizedDestination s @ Itoa (st_NormalizedDays s) @ ''-day Eino travel plan''
     \<and> TrimSpace (pl_Summary plan) \<noteq> [] \<and> pl_Days plan = st_Itinerary s \<and> pl_Budget plan = st_Budget s"

lemma summary_nonblank: "TrimSpace (''Eino workflow planned '' @ s) \<noteq> []"
  by (rule plain_start_nonblank) simp

lemma fallback_written:
  assumes "pc_Err c = None" "st_Itinerary s \<noteq> []"
  shows "\<exists>plan. fallback_plan c s w = Inr (Some plan) \<and> written s plan"
  using assms summary_nonblank [simplified]
  by (simp add: fallback_plan_def written_def generateDeterministicTravelPlan_def)

lemma Generate_falls_back:
  assumes "no_model (pc_TestMode c) g" "pc_Err c = None" "st_Itinerary s \<noteq> []"
  shows "\<exists>plan. snd (llm_Generate g c e s) = Inr (Some plan) \<and> written s plan"
proof -
  have fb: "\<exists>plan. fallback_plan c s w = Inr (Some plan) \<and> written s plan" for w by (rule fallback_written [OF assms(2,3)])
  show ?thesis
  proof (cases "pc_TestMode c \<or> lg_disabledReason g \<noteq> [] \<or> lg_client g = None")
    case True
    then show ?thesis using fb by (auto simp: llm_Generate_def)
  next
    case False
    then obtain client where cl: "lg_client g = Some client" "\<not> pc_TestMode c" "lg_disabledReason g = []" by auto
    define k where "k = (if lg_maxRetries g + 1 \<le> 0 then 1 else nat (lg_maxRetries g + 1))"
    obtain r err m where "llm_attempts client c s 0 k None = (r, Inl (err, m))"
      using llm_attempts_fail [of client c s 0 k None] assms(1) cl
      by (cases "llm_attempts client c s 0 k None") (auto simp: no_model_def)
    then show ?thesis using fb cl by (simp add: llm_Generate_def Let_def k_def [symmetric])
  qed
qed

lemma generate_node:
  assumes "no_model (pc_TestMode c) g" "en_Err e = None" "st_Itinerary s \<noteq> []"
  shows "\<exists>plan. snd (generateTravelPlanNode (llm_Generate g) c e s) = Some (Inr plan) \<and> written s plan"
proof -
  have "no_model (pc_TestMode (ctx_in c e)) g" "pc_Err (ctx_in c e) = None"
    using assms by (simp_all add: ctx_in_def)
  from Generate_falls_back [OF this assms(3), of e] obtain plan where
    "snd (llm_Generate g (ctx_in c e) e s) = Inr (Some plan)" "written s plan" by blast
  then show ?thesis
    by (cases "llm_Generate g (ctx_in c e) e s") (auto simp: generateTravelPlanNode_def appendTrace_def written_def)
qed

text \<open>No cost of a mock place counts.\<close>

lemma add_item_uncounted: "\<not> counts (it_Cost item) \<Longrightarrow> ci_Status (it_Cost item) \<noteq> [] \<Longrightarrow> add_item n pc item t = t"
  by (simp add: add_item_def Let_def)

lemma tally_uncounted:
  assumes "\<forall>day \<in> set days. \<forall>item \<in> set (dy_Items day). \<exists>u s. it_Cost item = UnavailableCost u s"
  shows "tally_items n pc days = \<lparr>ta_food = f_zero, ta_foodKnown = False, ta_ticket = f_zero, ta_ticketKnown = False\<rparr>"
proof -
  have "fold (add_item n pc) items t = t" if "\<forall>item \<in> set items. \<exists>u s. it_Cost item = UnavailableCost u s" for items t
    using that
  proof (induction items arbitrary: t)
    case (Cons item items)
    then obtain u s where "it_Cost item = UnavailableCost u s" by auto
    then have "\<not> counts (it_Cost item)" "ci_Status (it_Cost item) \<noteq> []" by (simp_all add: counts_def CostUnavailable_def)
    then have "add_item n pc item t = t" by (rule add_item_uncounted)
    then show ?case using Cons by simp
  qed simp
  then show ?thesis using assms by (simp add: tally_items_def)
qed

lemma tally_routes_uncounted:
  assumes "\<forall>r \<in> set routes. \<exists>u s. ro_Cost r = UnavailableCost u s"
  shows "tally_routes n routes = (f_zero, False)"
proof -
  have "fold (\<lambda>route (transport, known). if \<not> counts (ro_Cost route) then (transport, known)
         else (f_add transport (budgetAmount (ro_Cost route) n), True)) rs z = z"
    if "\<forall>r \<in> set rs. \<exists>u s. ro_Cost r = UnavailableCost u s" for rs z
    using that by (induction rs) (auto simp: counts_def)
  then show ?thesis using assms by (simp add: tally_routes_def)
qed

lemma threshold_notneg:
  assumes "\<not> f_le (rq_Budget req) f_zero"
  shows "\<not> f_less (budget_threshold req) f_zero"
proof -
  have b: "\<not> f_less (rq_Budget req) f_zero" using assms by (auto simp: f_le_def)
  have n: "0 < rq_Travelers req \<Longrightarrow> \<not> f_less (f_of_int (rq_Travelers req)) f_zero" by (simp add: f_of_int_nonneg)
  have t: "\<not> f_less (f_of_rat (11 / 10)) f_zero" using f_of_rat_nonneg [of "11 / 10"] f_nonneg_iff by auto
  show ?thesis by (simp add: budget_threshold_def Let_def b n t f_mul_notneg)
qed

lemma zero_budget_ok:
  assumes "\<not> f_le (rq_Budget req) f_zero"
  shows "budget_ok req (budget_of i (f_zero, False) (f_zero, False) (f_zero, False))"
proof -
  have tot: "roundMoney (f_add (f_add (f_add f_zero f_zero) f_zero) f_zero) = f_zero" by (simp del: f_add.simps)
  have "validateBudgetDetails (\<lambda>_. True) (budget_of i (f_zero, False) (f_zero, False) (f_zero, False)) = Inr ()"
    by (rule budget_of_checked) simp_all
  then show ?thesis using threshold_notneg [OF assms] tot
    unfolding validateBudgetDetails_ok budget_ok_def by (simp add: budget_of_def Let_def del: f_add.simps)
qed

subsection \<open>Stage by stage\<close>

text \<open>The state after a node, for the normalised request \<open>r\<close>.\<close>

definition reached :: "TravelRequest \<Rightarrow> (TravelPlanningState \<Rightarrow> bool) \<Rightarrow> TravelPlanningState node \<Rightarrow> bool" where
  "reached r Q m \<longleftrightarrow> (\<exists>s. snd m = Inr s \<and> base s = base (initial_state r) \<and> Q s)"

lemma reached_step:
  assumes "reached r Q m" "undisturbed G"
    and "\<And>s. base s = base (initial_state r) \<Longrightarrow> Q s \<Longrightarrow> \<exists>s'. snd (f (gr_env G key) s) = Inr s' \<and> base s' = base s \<and> Q' s'"
  shows "reached r Q' (edge_to m (run_node G key (plain f)))"
proof -
  obtain s where s: "snd m = Inr s" "base s = base (initial_state r)" "Q s" using assms(1) by (auto simp: reached_def)
  then obtain s' where "snd (f (gr_env G key) s) = Inr s'" "base s' = base s" "Q' s'" using assms(3) by blast
  then show ?thesis using run_step [OF assms(2) s(1), where f = f and key = key] s(2) unfolding reached_def by auto
qed

lemma base_initial:
  "base s = base (initial_state r) \<longleftrightarrow> st_Request s = r \<and> st_NormalizedDestination s = TrimSpace (rq_DestinationCity r)
     \<and> st_NormalizedDays s = rq_Days r \<and> st_NormalizedBudget s = rq_Budget r \<and> st_Pace s = rq_Pace r
     \<and> st_Interests s = st_Interests (initial_state r)"
  by (auto simp: base_def initial_state_def)

lemma ctx_in_sel [simp]: "pc_Err (ctx_in c e) = en_Err e" "pc_TestMode (ctx_in c e) = pc_TestMode c"
  by (simp_all add: ctx_in_def)

definition located :: "TravelRequest \<Rightarrow> TravelPlanningState \<Rightarrow> bool" where
  "located r s \<longleftrightarrow> st_POIs s = mock_pois (TrimSpace (rq_DestinationCity r))"

definition routed :: "TravelPlanningState \<Rightarrow> bool" where
  "routed s \<longleftrightarrow> (\<forall>x \<in> set (st_Routes s). \<exists>u v. ro_Cost x = UnavailableCost u v)"

definition drafted :: "TravelRequest \<Rightarrow> TravelPlanningState \<Rightarrow> bool" where
  "drafted r s \<longleftrightarrow> (\<exists>x. base x = base (initial_state r) \<and> st_POIs x \<noteq> [] \<and> list_all poi_ok (st_POIs x)
     \<and> (\<forall>p \<in> set (st_POIs x). \<exists>u v. po_Cost p = UnavailableCost u v) \<and> st_Itinerary s = map (day_of x) [1..rq_Days r])"

definition unpriced :: "TravelRequest \<Rightarrow> TravelBudget" where
  "unpriced r = budget_of (needsIntercityTransport r) (f_zero, False) (f_zero, False) (f_zero, False)"

lemma poi_stage:
  assumes "reached r (\<lambda>s. True) m" "undisturbed G" "no_service (pc_TestMode c) realMode hasKey poi weather route"
    "TrimSpace (rq_DestinationCity r) \<noteq> []"
  shows "reached r (located r) (edge_to m (run_node G nodePOI
    (plain (searchPOIsToolNode (ts_POI (defaultToolSet realMode hasKey poi weather route)) c))))"
proof (rule reached_step [OF assms(1,2)])
  fix s assume s: "base s = base (initial_state r)"
  have "pc_Err (ctx_in c (gr_env G nodePOI)) = None" using assms(2) by (simp add: undisturbed_def)
  then have "MockPOITool (ctx_in c (gr_env G nodePOI)) \<lparr>pin_City = st_NormalizedDestination s, pin_Interests = st_Interests s\<rparr>
      = (mock_pois (TrimSpace (rq_DestinationCity r)), None)" using s assms(4) mock_poi_answer by (simp add: base_initial)
  from default_tools_answer(1) [OF _ this, of realMode hasKey poi weather route] poi_node [OF _ mock_pois_facts(1)]
  show "\<exists>s'. snd (searchPOIsToolNode (ts_POI (defaultToolSet realMode hasKey poi weather route)) c (gr_env G nodePOI) s) = Inr s'
      \<and> base s' = base s \<and> located r s'" using assms(3) by (simp add: located_def)
qed

lemma weather_stage:
  assumes "reached r (located r) m" "undisturbed G" "no_service (pc_TestMode c) realMode hasKey poi weather route" "0 < rq_Days r"
  shows "reached r (located r) (edge_to m (run_node G nodeWeather
    (plain (getWeatherToolNode (ts_Weather (defaultToolSet realMode hasKey poi weather route)) c))))"
proof (rule reached_step [OF assms(1,2)])
  fix s assume s: "base s = base (initial_state r)" "located r s"
  have e: "pc_Err (ctx_in c (gr_env G nodeWeather)) = None" using assms(2) by (simp add: undisturbed_def)
  obtain ws where ws: "MockWeatherTool (ctx_in c (gr_env G nodeWeather)) \<lparr>win_City = st_NormalizedDestination s,
      win_Days = st_NormalizedDays s\<rparr> = (ws, None)" "ws \<noteq> []"
    using mock_weather_answer [OF e, of "st_NormalizedDays s" "st_NormalizedDestination s"] assms(4) s(1) by (auto simp: base_initial)
  have "answers (ts_Weather (defaultToolSet realMode hasKey poi weather route)) (ctx_in c (gr_env G nodeWeather))
      \<lparr>win_City = st_NormalizedDestination s, win_Days = st_NormalizedDays s\<rparr> ws"
    by (rule default_tools_answer(2) [OF _ ws(1)]) (simp add: assms(3))
  from weather_node [OF this ws(2)]
  show "\<exists>s'. snd (getWeatherToolNode (ts_Weather (defaultToolSet realMode hasKey poi weather route)) c (gr_env G nodeWeather) s) = Inr s'
      \<and> base s' = base s \<and> located r s'" using s(2) by (auto simp: located_def)
qed

lemma route_stage:
  assumes "reached r (located r) m" "undisturbed G" "no_service (pc_TestMode c) realMode hasKey poi weather route"
  shows "reached r (\<lambda>s. located r s \<and> routed s) (edge_to m (run_node G nodeRoute
    (plain (computeRouteToolNode (ts_Route (defaultToolSet realMode hasKey poi weather route)) c))))"
proof (rule reached_step [OF assms(1,2)])
  fix s assume s: "base s = base (initial_state r)" "located r s"
  have e: "pc_Err (ctx_in c (gr_env G nodeRoute)) = None" using assms(2) by (simp add: undisturbed_def)
  obtain rs where rs: "MockRouteTool (ctx_in c (gr_env G nodeRoute)) \<lparr>rin_POIs = st_POIs s, rin_Mode = st_TransportMode s\<rparr> = (rs, None)"
    "rs \<noteq> []" "\<forall>x \<in> set rs. ro_Cost x = UnavailableCost ''per_trip'' ''mock.route''"
    using mock_route_answer [OF e, of "st_POIs s" "st_TransportMode s"] s(2) mock_pois_facts(2) by (auto simp: located_def)
  from default_tools_answer(3) [OF _ rs(1), of realMode hasKey poi weather route] route_node [OF _ rs(2)]
  show "\<exists>s'. snd (computeRouteToolNode (ts_Route (defaultToolSet realMode hasKey poi weather route)) c (gr_env G nodeRoute) s) = Inr s'
      \<and> base s' = base s \<and> located r s' \<and> routed s'" using assms(3) s(2) rs(3) by (fastforce simp: located_def routed_def)
qed

lemma optimize_stage:
  assumes "reached r (\<lambda>s. located r s \<and> routed s) m" "undisturbed G"
  shows "reached r (\<lambda>s. drafted r s \<and> routed s) (edge_to m (run_node G nodeOptimize (plain (optimizeItineraryNode c))))"
proof (rule reached_step [OF assms])
  fix s assume s: "base s = base (initial_state r)" "located r s \<and> routed s"
  have e: "en_Err (gr_env G nodeOptimize) = None" using assms(2) by (simp add: undisturbed_def)
  let ?x = "s\<lparr>st_POIs := applyPOIPreferences (st_POIs s) (st_Request s)\<rparr>"
  have p: "st_POIs s \<noteq> []" "list_all poi_ok (st_POIs s)" "\<forall>p \<in> set (st_POIs s). \<exists>u v. po_Cost p = UnavailableCost u v"
    using s(2) mock_pois_facts [of "TrimSpace (rq_DestinationCity r)"] by (auto simp: located_def list_all_iff)
  obtain s' where s': "snd (optimizeItineraryNode c (gr_env G nodeOptimize) s) = Inr s'" "base s' = base s" "st_Routes s' = st_Routes s"
    "st_Itinerary s' = map (day_of ?x) [1..st_NormalizedDays s]" using optimize_node [OF e p(1)] by blast
  have x: "base ?x = base (initial_state r)" "st_POIs ?x \<noteq> []" "list_all poi_ok (st_POIs ?x)"
    "\<forall>p \<in> set (st_POIs ?x). \<exists>u v. po_Cost p = UnavailableCost u v"
    using s(1) p set_applyPOIPreferences [of "st_POIs s" "st_Request s"] by (auto simp: list_all_iff)
  have "drafted r s'" unfolding drafted_def
    by (rule exI [of _ ?x]) (use x s'(4) s(1) in \<open>simp add: base_initial\<close>)
  then show "\<exists>s'. snd (optimizeItineraryNode c (gr_env G nodeOptimize) s) = Inr s' \<and> base s' = base s \<and> drafted r s' \<and> routed s'"
    using s' s(2) by (auto simp: routed_def)
qed

lemma drafted_days:
  assumes "drafted r s"
  shows "days_ok (st_Itinerary s)" "length (st_Itinerary s) = nat (rq_Days r)"
    "\<forall>day \<in> set (st_Itinerary s). length (dy_Items day) =
       (if IsIntensivePace (rq_Pace r) \<and> \<not> IsLowWalkingTolerance (rq_WalkingTolerance r) then 3 else 2)"
    "\<forall>day \<in> set (st_Itinerary s). \<forall>item \<in> set (dy_Items day). \<exists>u v. it_Cost item = UnavailableCost u v"
proof -
  obtain x where x: "base x = base (initial_state r)" "st_POIs x \<noteq> []" "list_all poi_ok (st_POIs x)"
    "\<forall>p \<in> set (st_POIs x). \<exists>u v. po_Cost p = UnavailableCost u v" "st_Itinerary s = map (day_of x) [1..rq_Days r]"
    using assms by (auto simp: drafted_def)
  show "days_ok (st_Itinerary s)" unfolding x(5) by (rule days_of_ok [OF x(2,3)])
  show "length (st_Itinerary s) = nat (rq_Days r)" by (simp add: x(5))
  have "itemsPerDay x = (if IsIntensivePace (rq_Pace r) \<and> \<not> IsLowWalkingTolerance (rq_WalkingTolerance r) then 3 else 2)"
    using x(1) pace_exclusive [of "rq_Pace r"] by (auto simp: itemsPerDay_def base_initial)
  then show "\<forall>day \<in> set (st_Itinerary s). length (dy_Items day) =
       (if IsIntensivePace (rq_Pace r) \<and> \<not> IsLowWalkingTolerance (rq_WalkingTolerance r) then 3 else 2)"
    using day_of_items(1) [OF x(2)] by (auto simp: x(5))
  show "\<forall>day \<in> set (st_Itinerary s). \<forall>item \<in> set (dy_Items day). \<exists>u v. it_Cost item = UnavailableCost u v"
    using day_of_items(2) [OF x(2)] x(4) unfolding x(5) by (fastforce simp: item_of_def)
qed

lemma budget_stage:
  assumes "reached r (\<lambda>s. drafted r s \<and> routed s) m" "undisturbed G" "0 < rq_Days r" "\<not> f_le (rq_Budget r) f_zero"
  shows "reached r (\<lambda>s. drafted r s \<and> st_Budget s = unpriced r)
    (edge_to m (run_node G nodeBudget (plain (estimateBudgetToolNode MockBudgetTool c))))"
proof (rule reached_step [OF assms(1,2)])
  fix s assume s: "base s = base (initial_state r)" "drafted r s \<and> routed s"
  have e: "pc_Err (ctx_in c (gr_env G nodeBudget)) = None" using assms(2) by (simp add: undisturbed_def)
  let ?inp = "\<lparr>bin_Request = st_Request s, bin_Days = st_NormalizedDays s, bin_POIs = st_POIs s,
             bin_Routes = st_Routes s, bin_Itinerary = st_Itinerary s\<rparr>"
  define n where "n = (if rq_Travelers (bin_Request ?inp) \<le> 0 then 1 else rq_Travelers (bin_Request ?inp))"
  have t: "\<lparr>ta_food = f_zero, ta_foodKnown = False, ta_ticket = f_zero, ta_ticketKnown = False\<rparr>
      = tally_items n (poiCosts (bin_POIs ?inp)) (bin_Itinerary ?inp)"
    using tally_uncounted [OF drafted_days(4) [OF conjunct1 [OF s(2)]]] by simp
  have v: "tally_routes n (bin_Routes ?inp) = (f_zero, False)"
    using tally_routes_uncounted [of "st_Routes s"] s(2) by (simp add: routed_def)
  have "MockBudgetTool (ctx_in c (gr_env G nodeBudget)) ?inp = Inr (unpriced r)"
    using MockBudgetTool_eq [OF e _ _ n_def t v] assms(3,4) s(1) by (simp add: base_initial unpriced_def)
  from budget_node [where tool = MockBudgetTool, OF this]
  show "\<exists>s'. snd (estimateBudgetToolNode MockBudgetTool c (gr_env G nodeBudget) s) = Inr s' \<and> base s' = base s
      \<and> drafted r s' \<and> st_Budget s' = unpriced r" using s(2) by (auto simp: drafted_def)
qed

lemma check_stage:
  assumes "reached r (\<lambda>s. drafted r s \<and> st_Budget s = unpriced r) m" "undisturbed G"
  shows "reached r (\<lambda>s. drafted r s \<and> st_Budget s = unpriced r)
    (edge_to m (run_node G nodeRouteCheck (plain (validateRouteFeasibilityNode c))))"
proof (rule reached_step [OF assms])
  fix s assume s: "drafted r s \<and> st_Budget s = unpriced r"
  have e: "en_Err (gr_env G nodeRouteCheck) = None" using assms(2) by (simp add: undisturbed_def)
  from route_check_node [OF e, of c s] s
  show "\<exists>s'. snd (validateRouteFeasibilityNode c (gr_env G nodeRouteCheck) s) = Inr s' \<and> base s' = base s
      \<and> drafted r s' \<and> st_Budget s' = unpriced r" by (auto simp: drafted_def)
qed

subsection \<open>The last two nodes\<close>

lemma merge_warnings_eq: "merge_warnings_from seen ws = uniq_from seen (filter (\<lambda>w. TrimSpace w \<noteq> []) ws)"
  by (induction ws arbitrary: seen) auto

definition node_item_ok :: "TravelItem \<Rightarrow> bool" where
  "node_item_ok item \<longleftrightarrow> it_Name item \<noteq> [] \<and> it_Type item \<noteq> [] \<and> it_Reason item \<noteq> []
     \<and> \<not> f_less (it_EstimatedCost item) f_zero \<and> 0 \<le> it_DurationMinutes item \<and> cost_ok (it_Cost item)"

text \<open>What the last node asks of a plan.\<close>

definition node_plan_ok :: "TravelPlan \<Rightarrow> bool" where
  "node_plan_ok plan \<longleftrightarrow> TrimSpace (pl_Title plan) \<noteq> [] \<and> TrimSpace (pl_Summary plan) \<noteq> [] \<and> pl_Days plan \<noteq> []
     \<and> \<not> f_less (bg_Total (pl_Budget plan)) f_zero \<and> \<not> f_less (bg_KnownTotal (pl_Budget plan)) f_zero
     \<and> bg_Currency (pl_Budget plan) \<noteq> []
     \<and> (\<forall>i < length (pl_Days plan). dy_Day (pl_Days plan ! i) = int i + 1 \<and> dy_Items (pl_Days plan ! i) \<noteq> []
          \<and> list_all node_item_ok (dy_Items (pl_Days plan ! i)))"

lemma node_check_item_ok: "node_check_item p d (i, item) = Inr u \<longleftrightarrow> node_item_ok item"
  by (auto simp: node_check_item_def node_item_ok_def Let_def)

lemma node_check_day_ok: "node_check_day p (i, day) = Inr u \<longleftrightarrow>
    dy_Day day = int i + 1 \<and> dy_Items day \<noteq> [] \<and> list_all node_item_ok (dy_Items day)"
  by (auto simp: node_check_day_def check_each_enumerate node_check_item_ok list_all_length)

lemma validatePlanNode_ok:
  "snd (validatePlanNode p c e (Some plan)) = Inr plan' \<longleftrightarrow> en_Err e = None \<and> plan' = plan \<and> node_plan_ok plan"
  by (auto simp: validatePlanNode_def node_plan_ok_def and_then_Inr_iff check_each_enumerate node_check_day_ok
      split: option.splits if_splits)

lemma plan_ok_node:
  assumes "plan_ok req plan" "pl_Days plan \<noteq> []"
  shows "node_plan_ok plan"
proof -
  have i: "item_ok item \<Longrightarrow> node_item_ok item" for item by (auto simp: item_ok_def node_item_ok_def)
  then have "\<forall>k < length (pl_Days plan). list_all node_item_ok (dy_Items (pl_Days plan ! k))"
    using assms(1) by (auto simp: plan_ok_def days_ok_def day_ok_def list_all_iff)
  then show ?thesis using assms by (auto simp: plan_ok_def node_plan_ok_def budget_ok_def days_ok_def day_ok_def)
qed

lemma written_plan_ok:
  assumes s: "base s = base (initial_state r)" "drafted r s" "st_Budget s = unpriced r" "written s plan"
    and r: "TrimSpace (rq_DestinationCity r) = rq_DestinationCity r" "0 < rq_Days r" "\<not> f_le (rq_Budget r) f_zero"
  shows "plan_ok r plan"
proof -
  have "TrimSpace (pl_Title plan) \<noteq> []"
    by (rule plain_end_nonblank) (use s(4) in \<open>simp add: written_def plain_end_def\<close>)
  moreover have "Contains (pl_Title plan @ '' '' @ pl_Summary plan) (rq_DestinationCity r)"
    using s(1,4) r(1) by (auto simp: written_def base_initial)
  moreover have "budget_ok r (pl_Budget plan)" using s(3,4) zero_budget_ok [OF r(3)] by (simp add: written_def unpriced_def)
  moreover have "days_ok (pl_Days plan)" "int (length (pl_Days plan)) = rq_Days r"
    using drafted_days(1,2) [OF s(2)] s(4) r(2) by (simp_all add: written_def)
  ultimately show ?thesis using s(4) by (simp add: plan_ok_def written_def)
qed


text \<open>
  C18. Whatever the tools, the generator and the runtime of the graph do: a plan the planner gives has a
  title, a summary, a currency and a total that is not negative; its days are numbered from 1 without a gap,
  each with at least one stop, and every stop has a name, a kind, a reason, a duration and an estimate that
  are not negative, and a cost whose amount, status and inclusion agree; its warnings are distinct and
  none is blank. A run never ends with a nil plan or a panic: everything else is an error.
\<close>

theorem planned_is_checked:
  "case pr_outcome (EinoTravelPlanner_Plan tools generator printable G req testMode agentMode) of
      PlanOk (Some plan) \<Rightarrow> node_plan_ok plan \<and> distinct (pl_Warnings plan) \<and> list_all (\<lambda>w. TrimSpace w \<noteq> []) (pl_Warnings plan)
    | PlanErr err \<Rightarrow> prefix ''invoke eino travel graph: '' err
    | _ \<Rightarrow> False"
proof -
  define c where "c = \<lparr>pc_Err = None, pc_TestMode = testMode, pc_AgentMode = agentMode\<rparr>"
  obtain m where m: "buildTravelGraph tools generator printable G c req = edge_to
      (edge_to m (run_node G nodeGeneratePlan (generateTravelPlanNode generator c)))
      (\<lambda>plan. run_node G nodeValidatePlan (plain (validatePlanNode printable c)) (Some plan))"
    unfolding buildTravelGraph_def by blast
  have ok: "node_plan_ok p \<and> distinct (pl_Warnings p) \<and> (\<forall>w \<in> set (pl_Warnings p). TrimSpace w \<noteq> [])"
    if fin: "snd (buildTravelGraph tools generator printable G c req) = Inr p" for p
  proof -
    obtain q where q: "snd (edge_to m (run_node G nodeGeneratePlan (generateTravelPlanNode generator c))) = Inr q"
      "snd (run_node G nodeValidatePlan (plain (validatePlanNode printable c)) (Some q)) = Inr p"
      using edge_Inr [OF fin [unfolded m]] by blast
    have p: "p = q" "node_plan_ok q" using run_ok_cases(2) [OF q(2)] by (simp_all add: validatePlanNode_ok)
    obtain s where "snd (run_node G nodeGeneratePlan (generateTravelPlanNode generator c) s) = Inr q"
      using edge_Inr [OF q(1)] by blast
    then have "snd (generateTravelPlanNode generator c (gr_env G nodeGeneratePlan) s) = Some (Inr q)" by (rule run_ok_cases(2))
    then have "\<exists>vs. pl_Warnings q = mergeWarnings (st_Warnings s) vs"
      by (auto simp: generateTravelPlanNode_def split: prod.splits sum.splits option.splits)
    then show ?thesis using p by (auto simp: mergeWarnings_def merge_warnings_eq)
  qed
  then show ?thesis
    by (auto simp: EinoTravelPlanner_Plan_def c_def [symmetric] list_all_iff split: prod.split sum.split)
qed

subsection \<open>Witnesses\<close>

definition calm_env :: env where
  "calm_env = \<lparr>en_Err = None, en_Duration = 5000000, en_Traced = 100, en_Business = (\<lambda>i. 100)\<rparr>"

definition calm_runtime :: graph_runtime where
  "calm_runtime = \<lparr>gr_before = (\<lambda>key. None), gr_wrap = (\<lambda>key err. ''node '' @ key @ '': '' @ err),
     gr_panic = (\<lambda>key err. ''panic in '' @ key @ '': '' @ err), gr_env = (\<lambda>key. calm_env)\<rparr>"

text \<open>A model that never answers and a map service that is down.\<close>

definition silent_model :: llmPlanGenerator where
  "silent_model = \<lparr>lg_client = Some (\<lambda>c s n. ([], Inl ''timeout'')), lg_maxRetries = 1, lg_disabledReason = []\<rparr>"

definition service_down :: "pctx \<Rightarrow> 'i \<Rightarrow> 'a tool_result" where
  "service_down c i = ([], Some (ToolErr ''status 503''))"


text \<open>A day with a paid temple and a paid lunch, for two travelers, and a paid ride.\<close>

definition paid_item :: "string \<Rightarrow> string \<Rightarrow> float64 \<Rightarrow> TravelItem" where
  "paid_item kind name amount = zero_item\<lparr>it_Type := kind, it_Name := name,
     it_Cost := AvailableCost amount ''per_person'' ''amap'' True\<rparr>"

definition paid_input :: BudgetToolInput where
  "paid_input = \<lparr>bin_Request = sample_request, bin_Days = 2, bin_POIs = [],
     bin_Routes = [\<lparr>ro_From = ''a'', ro_To = ''b'', ro_DurationMinutes = 10, ro_DistanceMeters = 900, ro_Mode = ''taxi'',
                    ro_Cost = AvailableCost (Fin 12) ''per_trip'' ''amap'' True\<rparr>],
     bin_Itinerary = [\<lparr>dy_Day = 1, dy_Theme = ''t'', dy_Items = [paid_item ''culture'' ''Temple'' (Fin 40), paid_item ''food'' ''Noodles'' (Fin 25)]\<rparr>]\<rparr>"

lemma f_exact: "numeral k \<le> (2 ^ 53 :: int) \<Longrightarrow> f_of_rat (numeral k) = Fin (numeral k)"
  "numeral k \<le> (2 ^ 53 :: int) \<Longrightarrow> f_of_int (numeral k) = Fin (numeral k)"
  using f_of_int_exact [of "numeral k"] by (simp_all add: f_of_int_def)

lemma roundMoney_whole: "0 < n \<Longrightarrow> n \<le> 2 ^ 40 \<Longrightarrow> roundMoney (Fin (of_int n)) = Fin (of_int n)"
proof -
  assume n: "0 < n" "n \<le> 2 ^ 40"
  have m: "f_of_rat (of_int n * 100) = Fin (of_int (n * 100))" "f_of_rat (of_int n) = Fin (of_int n)"
    using f_of_int_exact [of "n * 100"] f_of_int_exact [of n] n by (simp_all add: f_of_int_def)
  have "\<lfloor>(of_int n * 100 + 1 / 2 :: rat)\<rfloor> = n * 100" by (rule floor_unique) simp_all
  then have "round_away (of_int n * 100) = n * 100" using n by (simp add: round_away_def)
  then show ?thesis using m n
    by (simp add: roundMoney_def f_mul_def f_div_def Let_def)
qed

lemma round_exact: "roundMoney (Fin 50) = Fin 50" "roundMoney (Fin 12) = Fin 12" "roundMoney (Fin 80) = Fin 80"
  "roundMoney (Fin 142) = Fin 142"
  using roundMoney_whole [of 50] roundMoney_whole [of 12] roundMoney_whole [of 80] roundMoney_whole [of 142] by simp_all

lemma paid_kinds: "isFoodCategory ''food''" "\<not> isFoodCategory ''culture''" "isTicketCategory ''culture''"
  by (code_simp, code_simp, code_simp)

lemma budget_is_consistent_witness:
  "\<exists>b. MockBudgetTool \<lparr>pc_Err = None, pc_TestMode = True, pc_AgentMode = []\<rparr> paid_input = Inr b
     \<and> fair_input paid_input \<and> bg_Total b = Fin 142 \<and> bg_Missing b = [''hotel'']
     \<and> validateBudgetDetails (\<lambda>r. True) b = Inr ()"
proof -
  let ?c = "\<lparr>pc_Err = None, pc_TestMode = True, pc_AgentMode = []\<rparr>"
  have fair: "fair_input paid_input"
    by (simp add: fair_input_def paid_input_def fair_cost_def paid_item_def AvailableCost_def sample_request_def)
  have t: "\<lparr>ta_food = Fin 50, ta_foodKnown = True, ta_ticket = Fin 80, ta_ticketKnown = True\<rparr>
      = tally_items 2 (poiCosts (bin_POIs paid_input)) (bin_Itinerary paid_input)"
    by (simp add: paid_input_def tally_items_def add_item_def paid_item_def zero_item_def zero_cost_def AvailableCost_def counts_def
        budgetAmount_def paid_kinds f_mul_def f_exact Let_def CostAvailable_def)
  have v: "tally_routes 2 (bin_Routes paid_input) = (Fin 12, True)"
    by (simp add: paid_input_def tally_routes_def counts_def budgetAmount_def f_exact AvailableCost_def)
  have n: "2 = (if rq_Travelers (bin_Request paid_input) \<le> 0 then 1 else rq_Travelers (bin_Request paid_input))"
    by (simp add: paid_input_def sample_request_def)
  have i: "\<not> needsIntercityTransport (bin_Request paid_input)" by code_simp
  have "MockBudgetTool ?c paid_input = Inr (budget_of False (Fin 50, True) (Fin 12, True) (Fin 80, True))"
    using MockBudgetTool_eq [of ?c paid_input, OF _ _ _ n t v] i
    by (simp add: paid_input_def sample_request_def f_le_def f_eq_def round_exact)
  moreover have "bg_Total (budget_of False (Fin 50, True) (Fin 12, True) (Fin 80, True)) = Fin 142"
    "bg_Missing (budget_of False (Fin 50, True) (Fin 12, True) (Fin 80, True)) = [''hotel'']"
    by (simp_all add: budget_of_def Let_def budget_items_missing f_exact round_exact)
  ultimately have "\<exists>b. MockBudgetTool ?c paid_input = Inr b \<and> bg_Total b = Fin 142 \<and> bg_Missing b = [''hotel'']" by blast
  then obtain b where b: "MockBudgetTool ?c paid_input = Inr b" "bg_Total b = Fin 142" "bg_Missing b = [''hotel'']" by blast
  then show ?thesis using fair budget_is_consistent [OF b(1) fair, of "\<lambda>r. True"] by blast
qed

end
