(* ===== verification/SummaryStream.thy ===== *)
theory SummaryStream
  imports Go_Text
begin

section \<open>The summary of a plan while it is written\<close>

text \<open>
  internal/agent/eino/summary_stream.go and the part of llm.go that uses it. The language model writes the
  arguments of its tool call in fragments; after each fragment the code reads as much of the
  \<open>summary\<close> field as is there and sends the reader what is new. The main fact: whatever the
  fragmentation, the pieces sent are never revised and together are the summary that is read from the
  whole text.
\<close>

subsection \<open>Finding the key\<close>

definition json_space :: "char \<Rightarrow> bool" where
  "json_space c \<longleftrightarrow> c = CHR '' '' \<or> c = CHR 0x09 \<or> c = CHR 0x0A \<or> c = CHR 0x0D"

definition summary_key :: string where
  "summary_key = [CHR 0x22] @ ''summary'' @ [CHR 0x22]"

text \<open>The byte before position \<open>i\<close> that is no white space is an opening brace or a comma.\<close>

definition after_brace_or_comma :: "string \<Rightarrow> nat \<Rightarrow> bool" where
  "after_brace_or_comma raw i \<longleftrightarrow>
     (case dropWhile json_space (rev (take i raw)) of [] \<Rightarrow> False | c # cs \<Rightarrow> c = CHR ''{'' \<or> c = CHR '','')"

function summary_key_from :: "string \<Rightarrow> nat \<Rightarrow> nat option" where
  "summary_key_from raw offset =
     (if length raw \<le> offset then None
      else case Index (drop offset raw) summary_key of
             None \<Rightarrow> None
           | Some k \<Rightarrow>
               (let i = k + offset
                in if after_brace_or_comma raw i then Some (i + length summary_key)
                   else summary_key_from raw (i + length summary_key)))"
  by pat_completeness auto
termination
  by (relation "measure (\<lambda>(raw, offset). length raw - offset)") (auto simp: summary_key_def)

declare summary_key_from.simps [simp del]

definition indexOfSummaryKey :: "string \<Rightarrow> nat option" where
  "indexOfSummaryKey raw = summary_key_from raw 0"

subsection \<open>Reading the string\<close>

definition hex_value :: "char \<Rightarrow> nat option" where
  "hex_value c =
     (let n = of_char c :: nat
      in if 48 \<le> n \<and> n \<le> 57 then Some (n - 48)
         else if 97 \<le> n \<and> n \<le> 102 then Some (n - 97 + 10)
         else if 65 \<le> n \<and> n \<le> 70 then Some (n - 65 + 10)
         else None)"

definition decodeUnicodeEscape :: "string \<Rightarrow> nat option" where
  "decodeUnicodeEscape hex =
     (if length hex \<noteq> 4 then None
      else fold (\<lambda>c acc. case (acc, hex_value c) of (Some v, Some d) \<Rightarrow> Some (v * 16 + d) | _ \<Rightarrow> None) hex (Some 0))"

text \<open>The one-letter escapes.\<close>

definition simple_escape :: "char \<Rightarrow> char option" where
  "simple_escape e =
     (if e = CHR 0x22 then Some (CHR 0x22) else if e = CHR 0x5C then Some (CHR 0x5C) else if e = CHR ''/'' then Some (CHR ''/'')
      else if e = CHR ''n'' then Some (CHR 0x0A) else if e = CHR ''r'' then Some (CHR 0x0D) else if e = CHR ''t'' then Some (CHR 0x09)
      else if e = CHR ''b'' then Some (CHR 0x08) else if e = CHR ''f'' then Some (CHR 0x0C) else None)"

text \<open>
  The value read so far, from behind the opening quote: up to the closing quote, the end of the input, an
  escape that is cut or one that is not JSON.
\<close>

function read_value :: "string \<Rightarrow> string" where
  "read_value s =
     (case s of
        [] \<Rightarrow> []
      | c # cs \<Rightarrow>
          if c = CHR 0x5C then
            (case cs of
               [] \<Rightarrow> []
             | e # rest \<Rightarrow>
                 (case simple_escape e of
                    Some d \<Rightarrow> d # read_value rest
                  | None \<Rightarrow>
                      if e = CHR ''u'' \<and> 4 \<le> length rest then
                        (case decodeUnicodeEscape (take 4 rest) of
                           None \<Rightarrow> []
                         | Some r \<Rightarrow> enc_rune r @ read_value (drop 4 rest))
                      else []))
          else if c = CHR 0x22 then []
          else c # read_value cs)"
  by pat_completeness auto
termination by (relation "measure length") auto

declare read_value.simps [simp del]

text \<open>\<open>summaryProgress.parse\<close>: the bytes of the value that are there.\<close>

definition summary_parse :: "string \<Rightarrow> string" where
  "summary_parse raw =
     (case indexOfSummaryKey raw of
        None \<Rightarrow> []
      | Some idx \<Rightarrow>
          (case dropWhile (\<lambda>c. c \<noteq> CHR '':'') (drop idx raw) of
             [] \<Rightarrow> []
           | colon # rest \<Rightarrow>
               (case dropWhile json_space rest of
                  [] \<Rightarrow> []
                | q # v \<Rightarrow> if q = CHR 0x22 then read_value v else [])))"

subsection \<open>Whole characters\<close>

text \<open>
  \<open>utf8.DecodeLastRuneInString\<close>: it looks back at most four bytes for the start of a rune and decodes
  from there; a rune that does not reach the end is an invalid last byte.
\<close>

definition RuneStart :: "char \<Rightarrow> bool" where
  "RuneStart c \<longleftrightarrow> \<not> cont (of_char c)"

definition last_start :: "string \<Rightarrow> nat" where
  "last_start s =
     (let n = length s
      in case find (\<lambda>k. RuneStart (s ! (n - k))) (filter (\<lambda>k. k \<le> n) [2, 3, 4]) of
           Some k \<Rightarrow> n - k
         | None \<Rightarrow> n - 5)"

definition DecodeLastRune :: "string \<Rightarrow> nat \<times> nat" where
  "DecodeLastRune s =
     (if s = [] then (RuneError, 0)
      else if of_char (last s) < (0x80 :: nat) then (of_char (last s), 1)
      else (case dec_rune (drop (last_start s) s) of
              (r, width) \<Rightarrow> if last_start s + width \<noteq> length s then (RuneError, 1) else (r, width)))"

function trimIncompleteUTF8 :: "string \<Rightarrow> string" where
  "trimIncompleteUTF8 s =
     (if s = [] then []
      else if DecodeLastRune s = (RuneError, 1) then trimIncompleteUTF8 (butlast s)
      else s)"
  by pat_completeness auto
termination by (relation "measure length") auto

declare trimIncompleteUTF8.simps [simp del]

definition extractSummarySoFar :: "string \<Rightarrow> string" where
  "extractSummarySoFar raw = trimIncompleteUTF8 (summary_parse raw)"

subsection \<open>Sending what is new\<close>

text \<open>
  \<open>onToolArgs\<close> of \<open>generateTravelPlanStreaming\<close>: what was sent so far and the deltas sent, after the
  accumulated arguments are seen.
\<close>

definition onToolArgs :: "string \<Rightarrow> string \<times> string list \<Rightarrow> string \<times> string list" where
  "onToolArgs accumulated = (\<lambda>(emittedPrefix, out).
     let current = extractSummarySoFar accumulated
     in if length current \<le> length emittedPrefix then (emittedPrefix, out)
        else let from = (if HasPrefix current emittedPrefix then emittedPrefix else []);
                 delta = drop (length from) current
             in (current, out @ (if delta \<noteq> [] then [delta] else [])))"

text \<open>The flush when the arguments are complete.\<close>

definition flush_tail :: "string \<Rightarrow> string \<times> string list \<Rightarrow> string \<times> string list" where
  "flush_tail rawArgs = (\<lambda>(emittedPrefix, out).
     let final = extractSummarySoFar rawArgs
     in if length emittedPrefix < length final \<and> HasPrefix final emittedPrefix
        then (final, out @ (if drop (length emittedPrefix) final \<noteq> [] then [drop (length emittedPrefix) final] else []))
        else (emittedPrefix, out))"

text \<open>The deltas for a tool call whose arguments arrive in fragments.\<close>

definition summary_deltas :: "string list \<Rightarrow> string list" where
  "summary_deltas fragments =
     snd (flush_tail (concat fragments)
       (fold onToolArgs (map (\<lambda>n. concat (take n fragments)) [1..<length fragments + 1]) ([], [])))"

subsection \<open>More input, the same beginning\<close>

lemma dropWhile_more: "dropWhile P xs \<noteq> [] \<Longrightarrow> dropWhile P (xs @ ys) = dropWhile P xs @ ys"
  by (induction xs) auto

lemma Index_more: "Index s sub = Some i \<Longrightarrow> Index (s @ x) sub = Some i"
proof -
  assume a: "Index s sub = Some i"
  then have i: "i \<le> length s" "prefix sub (drop i s)" "\<And>j. j < i \<Longrightarrow> \<not> prefix sub (drop j s)" by (auto simp: Index_Some)
  have len: "length sub \<le> length s - i" using prefix_length_le [OF i(2)] by simp
  have "\<not> prefix sub (drop j (s @ x))" if "j < i" for j
  proof
    assume "prefix sub (drop j (s @ x))"
    then have "prefix sub (drop j s @ x)" using that i(1) by simp
    moreover have "length sub \<le> length (drop j s)" using len that by simp
    ultimately have "prefix sub (drop j s)" by (metis prefix_append prefix_length_prefix prefixI)
    then show False using i(3) that by blast
  qed
  then show ?thesis using i(1,2) by (auto simp: Index_Some)
qed

lemma summary_key_more:
  "summary_key_from raw offset = Some k \<Longrightarrow> summary_key_from (raw @ x) offset = Some k \<and> k \<le> length raw"
proof (induction raw offset rule: summary_key_from.induct)
  case (1 raw offset)
  then obtain j where j: "offset < length raw" "Index (drop offset raw) summary_key = Some j"
    by (auto simp: summary_key_from.simps [of raw offset] split: if_splits option.splits)
  have more: "Index (drop offset (raw @ x)) summary_key = Some j" using Index_more [OF j(2), of x] j(1) by simp
  have "prefix summary_key (drop j (drop offset raw))" using j(2) by (simp add: Index_Some)
  then have len: "j + offset + length summary_key \<le> length raw"
    using prefix_length_le [of summary_key "drop j (drop offset raw)"] j by (auto simp: Index_Some summary_key_def)
  have same: "after_brace_or_comma (raw @ x) (j + offset) = after_brace_or_comma raw (j + offset)"
    using len by (simp add: after_brace_or_comma_def)
  show ?case
  proof (cases "after_brace_or_comma raw (j + offset)")
    case True
    then show ?thesis using 1(2) j more same len
      by (simp add: summary_key_from.simps [of raw offset] summary_key_from.simps [of "raw @ x" offset] Let_def)
  next
    case False
    then have "summary_key_from raw (j + offset + length summary_key) = Some k"
      using 1(2) j by (simp add: summary_key_from.simps [of raw offset] Let_def)
    then have "summary_key_from (raw @ x) (j + offset + length summary_key) = Some k \<and> k \<le> length raw"
      using 1(1) [OF _ j(2) refl] j(1) False by simp
    then show ?thesis using j more same False
      by (simp add: summary_key_from.simps [of "raw @ x" offset] Let_def)
  qed
qed

lemma read_value_eqs:
  "read_value [] = []"
  "simple_escape e = Some d \<Longrightarrow> read_value (CHR 0x5C # e # rest) = d # read_value rest"
  "simple_escape e = None \<Longrightarrow> e = CHR ''u'' \<and> 4 \<le> length rest \<Longrightarrow> decodeUnicodeEscape (take 4 rest) = Some r
     \<Longrightarrow> read_value (CHR 0x5C # e # rest) = enc_rune r @ read_value (drop 4 rest)"
  "read_value (CHR 0x22 # cs) = []"
  "c \<noteq> CHR 0x5C \<Longrightarrow> c \<noteq> CHR 0x22 \<Longrightarrow> read_value (c # cs) = c # read_value cs"
  "read_value [CHR 0x5C] = []"
  "simple_escape e = None \<Longrightarrow> \<not> (e = CHR ''u'' \<and> 4 \<le> length rest) \<Longrightarrow> read_value (CHR 0x5C # e # rest) = []"
  "simple_escape e = None \<Longrightarrow> decodeUnicodeEscape (take 4 rest) = None \<Longrightarrow> read_value (CHR 0x5C # e # rest) = []"
  by (subst read_value.simps, force)+

lemma read_value_more: "prefix (read_value s) (read_value (s @ x))"
proof (induction s rule: read_value.induct)
  case (1 s)
  show ?case
  proof (cases s)
    case (Cons c cs)
    show ?thesis
    proof (cases "c = CHR 0x5C")
      case esc: True
      show ?thesis
      proof (cases cs)
        case (Cons e rest)
        show ?thesis
        proof (cases "simple_escape e")
          case (Some d)
          then show ?thesis using 1(2) [OF \<open>s = c # cs\<close> esc Cons Some] esc Cons \<open>s = c # cs\<close>
            by (simp add: read_value_eqs(2))
        next
          case None
          show ?thesis
          proof (cases "e = CHR ''u'' \<and> 4 \<le> length rest")
            case True
            show ?thesis
            proof (cases "decodeUnicodeEscape (take 4 rest)")
              case (Some r)
              then show ?thesis using 1(1) [OF \<open>s = c # cs\<close> esc Cons None True Some] esc Cons \<open>s = c # cs\<close> None True
                by (simp add: read_value_eqs(3))
            qed (use esc Cons \<open>s = c # cs\<close> None in \<open>simp add: read_value_eqs(8)\<close>)
          qed (use esc Cons \<open>s = c # cs\<close> None in \<open>simp add: read_value_eqs(7)\<close>)
        qed
      qed (use esc \<open>s = c # cs\<close> in \<open>simp add: read_value_eqs\<close>)
    next
      case False
      then show ?thesis using 1(3) [OF Cons] Cons
        by (cases "c = CHR 0x22") (simp_all add: read_value_eqs)
    qed
  qed (simp add: read_value_eqs)
qed

lemma summary_parse_more: "prefix (summary_parse raw) (summary_parse (raw @ x))"
proof (cases "indexOfSummaryKey raw")
  case None
  then show ?thesis by (simp add: summary_parse_def)
next
  case (Some idx)
  then have more: "indexOfSummaryKey (raw @ x) = Some idx" "idx \<le> length raw"
    using summary_key_more [of raw 0 idx x] by (simp_all add: indexOfSummaryKey_def)
  show ?thesis
  proof (cases "dropWhile (\<lambda>c. c \<noteq> CHR '':'') (drop idx raw)")
    case Nil
    have "summary_parse raw = []" by (simp only: summary_parse_def Some option.case Nil list.case)
    then show ?thesis by simp
  next
    case (Cons colon rest)
    have c: "dropWhile (\<lambda>c. c \<noteq> CHR '':'') (drop idx (raw @ x)) = colon # rest @ x"
      using dropWhile_more [of "\<lambda>c. c \<noteq> CHR '':''" "drop idx raw" x] Cons more(2) by simp
    show ?thesis
    proof (cases "dropWhile json_space rest")
      case Nil
      have "summary_parse raw = []" by (simp only: summary_parse_def Some option.case Cons list.case Nil)
      then show ?thesis by simp
    next
      case (Cons q v)
      then have "dropWhile json_space (rest @ x) = q # v @ x" using dropWhile_more [of json_space rest x] by simp
      then show ?thesis using Some more(1) \<open>dropWhile _ (drop idx raw) = colon # rest\<close> c Cons read_value_more [of v x]
        by (simp add: summary_parse_def)
    qed
  qed
qed

lemma trim_prefix: "prefix (trimIncompleteUTF8 s) s"
proof (induction s rule: trimIncompleteUTF8.induct)
  case (1 s)
  show ?case
  proof (cases "s = [] \<or> DecodeLastRune s \<noteq> (RuneError, 1)")
    case False
    then have "prefix (trimIncompleteUTF8 (butlast s)) (butlast s)" using 1 by blast
    then have "prefix (trimIncompleteUTF8 (butlast s)) s" by (metis prefix_order.trans prefixeq_butlast)
    then show ?thesis using False by (simp add: trimIncompleteUTF8.simps [of s])
  qed (auto simp: trimIncompleteUTF8.simps [of s])
qed

lemma trim_mono: "prefix s t \<Longrightarrow> prefix (trimIncompleteUTF8 s) (trimIncompleteUTF8 t)"
proof (induction t rule: trimIncompleteUTF8.induct)
  case (1 t)
  show ?case
  proof (cases "s = t \<or> t = [] \<or> DecodeLastRune t \<noteq> (RuneError, 1)")
    case True
    then show ?thesis using 1(2) trim_prefix [of s] prefix_order.trans
      by (auto simp: trimIncompleteUTF8.simps [of t])
  next
    case False
    then have "prefix s (butlast t)" using 1(2) by (metis prefix_snoc append_butlast_last_id)
    then show ?thesis using 1(1) False by (simp add: trimIncompleteUTF8.simps [of t])
  qed
qed

lemma extract_more: "prefix (extractSummarySoFar raw) (extractSummarySoFar (raw @ x))"
  unfolding extractSummarySoFar_def by (rule trim_mono, rule summary_parse_more)

subsection \<open>The deltas\<close>

text \<open>Sent so far: the summary of what was read, in non-empty pieces.\<close>

definition sent :: "string \<Rightarrow> string \<times> string list \<Rightarrow> bool" where
  "sent raw = (\<lambda>(emitted, out). emitted = extractSummarySoFar raw \<and> concat out = emitted \<and> [] \<notin> set out)"

lemma onToolArgs_sent: "sent raw s \<Longrightarrow> sent (raw @ x) (onToolArgs (raw @ x) s)"
proof -
  assume s: "sent raw s"
  obtain e out where eo: "s = (e, out)" by (cases s)
  have e: "e = extractSummarySoFar raw" "concat out = e" "[] \<notin> set out" using s by (auto simp: sent_def eo)
  obtain d where d: "extractSummarySoFar (raw @ x) = e @ d" using extract_more [of raw x] e(1) by (auto simp: prefix_def)
  show ?thesis using e d by (cases "d = []") (auto simp: sent_def eo onToolArgs_def Let_def)
qed

lemma onToolArgs_fragments:
  "sent (concat (take n fragments)) (fold onToolArgs (map (\<lambda>n. concat (take n fragments)) [1..<n + 1]) ([], []))"
proof (induction n)
  case 0
  have "extractSummarySoFar [] = []"
    by (simp add: extractSummarySoFar_def summary_parse_def indexOfSummaryKey_def summary_key_from.simps trimIncompleteUTF8.simps)
  then show ?case by (simp add: sent_def)
next
  case (Suc n)
  obtain x where x: "concat (take (Suc n) fragments) = concat (take n fragments) @ x"
    by (cases "n < length fragments") (auto simp: take_Suc_conv_app_nth)
  show ?case using onToolArgs_sent [OF Suc, of x] by (simp add: x [symmetric])
qed

subsection \<open>Whole characters only\<close>

text \<open>The bytes of a rune beyond ASCII: a start byte and one to three continuation bytes.\<close>

lemma enc_shape:
  assumes "valid_rune r" "0x80 \<le> r"
  shows "\<exists>b bs. enc_rune r = b # bs \<and> 0x80 \<le> (of_char b :: nat) \<and> RuneStart b \<and> bs \<noteq> [] \<and> length bs \<le> 3
    \<and> list_all (\<lambda>c. cont (of_char c)) bs"
proof -
  note m = mod64_le
  consider "r < 0x800" | "0x800 \<le> r" "r < 0x10000" | "0x10000 \<le> r" by linarith
  then show ?thesis
  proof cases
    case 1
    then have "r div 64 < 32" "2 \<le> r div 64" using assms(2) by auto
    then show ?thesis using 1 assms m [of r]
      by (simp add: enc_rune_def enc_bytes_def RuneStart_def cont_def)
  next
    case 2
    then have "r div 4096 < 16" by auto
    then show ?thesis using 2 assms m [of r] m [of "r div 64"]
      by (simp add: enc_rune_def enc_bytes_def RuneStart_def cont_def)
  next
    case 3
    then have "r div 262144 < 8" using assms(1) by (auto simp: valid_rune_def)
    then show ?thesis using 3 assms m [of r] m [of "r div 64"] m [of "r div 4096"]
      by (simp add: enc_rune_def enc_bytes_def RuneStart_def cont_def)
  qed
qed

lemma enc_ascii: "r < 0x80 \<Longrightarrow> enc_rune r = [char_of r]"
  by (simp add: enc_rune_def enc_bytes_def)

lemma cont_high: "cont n \<Longrightarrow> \<not> n < 0x80"
  by (simp add: cont_def)

text \<open>A decoded rune of several bytes ends in a continuation byte; a cut one is invalid.\<close>

lemma dec_last_cont: "dec_rune t = (r, w) \<Longrightarrow> w = length t \<Longrightarrow> 2 \<le> w \<Longrightarrow> cont (of_char (last t))"
proof -
  assume a: "dec_rune t = (r, w)" "w = length t" "2 \<le> w"
  obtain b0 bs where t: "t = b0 # bs" using a(2,3) by (cases t) auto
  have d: "dec_bytes (of_char b0 # map of_char bs) = (r, length bs + 1)" using a by (simp add: dec_rune_bytes t)
  show ?thesis using d a(2,3) unfolding t dec_bytes.simps(2)
    by (cases bs; cases "tl bs"; cases "tl (tl bs)"; cases "tl (tl (tl bs))") (auto simp: cont_def split: if_splits)
qed

lemma dec_cut:
  assumes "valid_rune r" "0x80 \<le> r" "prefix p (enc_rune r)" "p \<noteq> enc_rune r" "p \<noteq> []"
  shows "dec_rune p = (RuneError, 1)"
proof -
  obtain q where q: "enc_rune r = p @ q" "q \<noteq> []" using assms(3,4) by (auto simp: prefix_def)
  have b: "enc_bytes r = map of_char p @ map of_char q" using of_char_enc_rune [of r] q(1) by simp
  define n where "n = length p"
  have t: "map of_char p = take n (enc_bytes r)" using b by (simp add: n_def)
  have "length p < length (enc_bytes r)" "0 < length p" using b q(2) assms(5) by auto
  then have k: "n < length (enc_bytes r)" "0 < n" unfolding n_def by simp_all
  consider "r < 0x800" | "0x800 \<le> r" "r < 0x10000" | "0x10000 \<le> r" by linarith
  then have "dec_bytes (take n (enc_bytes r)) = (RuneError, 1)"
  proof cases
    case 1
    then have "n = 1" using k assms(1,2) by (auto simp: enc_bytes_def)
    then show ?thesis using 1 assms(2) by (simp add: enc_bytes_def dec_bytes.simps)
  next
    case 2
    then have "n = 1 \<or> n = 2" using k assms(1) by (auto simp: enc_bytes_def)
    then show ?thesis using 2 assms(1) by (auto simp: enc_bytes_def dec_bytes.simps numeral_2_eq_2)
  next
    case 3
    then have "n = 1 \<or> n = 2 \<or> n = 3" using k assms(1) by (auto simp: enc_bytes_def)
    then show ?thesis using 3 assms(1) by (auto simp: enc_bytes_def dec_bytes.simps numeral_2_eq_2 numeral_3_eq_3)
  qed
  then show ?thesis by (simp only: dec_rune_bytes t)
qed

lemma DecodeLastRune_whole: "valid_rune r \<Longrightarrow> DecodeLastRune (s @ enc_rune r) = (r, length (enc_rune r))"
proof (cases "r < 0x80")
  case True
  then show ?thesis by (simp add: enc_ascii DecodeLastRune_def)
next
  case False
  assume r: "valid_rune r"
  then obtain b bs where b: "enc_rune r = b # bs" "RuneStart b" "bs \<noteq> []" "length bs \<le> 3" "list_all (\<lambda>c. cont (of_char c)) bs"
    using enc_shape [OF r] False by auto
  have d: "dec_rune (b # bs) = (r, length (b # bs))" using dec_enc_rune [OF r, of "[]"] b(1) by simp
  have last: "\<not> of_char (last bs) < (0x80 :: nat)" using b(3,5) cont_high by (simp add: list_all_iff)
  have cs: "c \<in> set bs \<Longrightarrow> \<not> RuneStart c" for c using b(5) by (auto simp: RuneStart_def list_all_iff)
  consider x where "bs = [x]" | x y where "bs = [x, y]" | x y z where "bs = [x, y, z]"
    using b(3,4) by (cases bs; cases "tl bs"; cases "tl (tl bs)") auto
  then show ?thesis
    by cases (use b(1,2) d last cs in \<open>simp_all add: DecodeLastRune_def last_start_def nth_append Let_def\<close>)
qed

lemma DecodeLastRune_cut:
  assumes "valid_rune r" "prefix p (enc_rune r)" "p \<noteq> enc_rune r" "p \<noteq> []"
  shows "DecodeLastRune (s @ p) = (RuneError, 1)"
proof -
  have r: "0x80 \<le> r" using assms by (cases "r < 0x80") (auto simp: enc_ascii prefix_Cons)
  obtain b bs where b: "enc_rune r = b # bs" "0x80 \<le> (of_char b :: nat)" "RuneStart b" "length bs \<le> 3"
    "list_all (\<lambda>c. cont (of_char c)) bs" using enc_shape [OF assms(1) r] by auto
  obtain cs where p: "p = b # cs" "prefix cs bs" "cs \<noteq> bs" using assms(2-4) b(1) by (cases p) auto
  have cut: "dec_rune p = (RuneError, 1)" by (rule dec_cut [OF assms(1) r assms(2-4)])
  have cs: "c \<in> set cs \<Longrightarrow> cont (of_char c)" for c using p(2) b(5) by (auto simp: list_all_iff prefix_def)
  have len: "length cs < length bs" using p(2,3) by (auto simp: prefix_def)
  have last: "\<not> of_char (last p) < (0x80 :: nat)" using p(1) b(2) cs cont_high by (cases "cs = []") auto
  consider "cs = []" | x where "cs = [x]" | x y where "cs = [x, y]"
    using len b(4) by (cases cs; cases "tl cs"; cases "tl (tl cs)") auto
  then show ?thesis
  proof cases
    case 1
    define start where "start = last_start (s @ p)"
    obtain q w where dq: "dec_rune (drop start (s @ p)) = (q, w)" by (cases "dec_rune (drop start (s @ p))")
    have sl: "last_start (s @ [b]) = start" using p(1) 1 by (simp add: start_def)
    have st: "start \<le> length s"
      by (auto simp: start_def last_start_def Let_def p(1) 1 find_Some_iff split: option.split)
    show ?thesis
    proof (cases "start = length s")
      case True
      then show ?thesis using cut last p(1) 1 by (simp add: DecodeLastRune_def sl)
    next
      case False
      then have "2 \<le> length (drop start (s @ p))" "last (drop start (s @ p)) = b" using st p(1) 1 by auto
      then have "w \<noteq> length (drop start (s @ p))" using dec_last_cont [OF dq] b(3) unfolding RuneStart_def by metis
      then have "start + w \<noteq> length (s @ p)" using st by auto
      then show ?thesis using dq last p(1) 1 by (simp add: DecodeLastRune_def sl)
    qed
  next
    case 2
    then show ?thesis using p(1) cut last cs b(3) by (simp add: DecodeLastRune_def last_start_def Let_def nth_append RuneStart_def)
  next
    case 3
    then show ?thesis using p(1) cut last cs b(3) by (simp add: DecodeLastRune_def last_start_def Let_def nth_append RuneStart_def)
  qed
qed

text \<open>Trimming the beginning of a valid text leaves whole runes.\<close>

lemma trim_whole: "list_all valid_rune rs \<Longrightarrow> trimIncompleteUTF8 (utf8 rs) = utf8 rs"
proof (cases rs rule: rev_cases)
  case (snoc rs' r)
  assume "list_all valid_rune rs"
  then have r: "valid_rune r" using snoc by simp
  then have "DecodeLastRune (utf8 rs) = (r, length (enc_rune r))" using DecodeLastRune_whole [OF r, of "utf8 rs'"] by (simp add: snoc)
  moreover have "(r, length (enc_rune r)) \<noteq> (RuneError, 1)" by (auto simp: enc_rune_def enc_bytes_def valid_rune_def)
  ultimately have "DecodeLastRune (utf8 rs) \<noteq> (RuneError, 1)" by metis
  then show ?thesis by (subst trimIncompleteUTF8.simps) auto
qed (simp add: trimIncompleteUTF8.simps)

lemma trim_cut:
  assumes "list_all valid_rune rs" "valid_rune r" "prefix p (enc_rune r)" "p \<noteq> enc_rune r"
  shows "trimIncompleteUTF8 (utf8 rs @ p) = utf8 rs"
  using assms(3,4)
proof (induction p rule: rev_induct)
  case Nil
  then show ?case using trim_whole [OF assms(1)] by simp
next
  case (snoc c p)
  have pp: "prefix p (enc_rune r)" using snoc(2) by (meson prefix_order.trans prefixI)
  moreover have "p \<noteq> enc_rune r" using snoc(2) by (auto dest: prefix_length_le)
  ultimately have ih: "trimIncompleteUTF8 (utf8 rs @ p) = utf8 rs" by (rule snoc(1))
  have "DecodeLastRune (utf8 rs @ p @ [c]) = (RuneError, 1)"
    by (rule DecodeLastRune_cut [OF assms(2) snoc(2,3)]) simp
  then show ?case using ih by (simp add: trimIncompleteUTF8.simps [of "utf8 rs @ p @ [c]"] butlast_append)
qed

lemma prefix_utf8:
  "list_all valid_rune rs \<Longrightarrow> prefix s (utf8 rs)
    \<Longrightarrow> \<exists>rs1 p r. list_all valid_rune rs1 \<and> s = utf8 rs1 @ p \<and> valid_rune r \<and> prefix p (enc_rune r) \<and> p \<noteq> enc_rune r"
proof (induction rs arbitrary: s)
  case Nil
  then show ?case by (intro exI [of _ "[]"] exI [of _ "[]"] exI [of _ 0]) (simp add: valid_rune_def enc_ascii)
next
  case (Cons r rs)
  show ?case
  proof (cases "prefix (enc_rune r) s")
    case True
    then obtain t where t: "s = enc_rune r @ t" by (auto simp: prefix_def)
    then have "prefix t (utf8 rs)" using Cons(3) by simp
    then obtain rs1 p q where "list_all valid_rune rs1" "t = utf8 rs1 @ p" "valid_rune q" "prefix p (enc_rune q)" "p \<noteq> enc_rune q"
      using Cons(1) [of t] Cons(2) by fastforce
    then show ?thesis using t Cons(2) by (intro exI [of _ "r # rs1"] exI [of _ p] exI [of _ q]) simp
  next
    case False
    then have "prefix s (enc_rune r)" using Cons(3) by (metis prefix_same_cases prefixI utf8_simps(2))
    then show ?thesis using False Cons(2) by (intro exI [of _ "[]"] exI [of _ s] exI [of _ r]) auto
  qed
qed

lemma trim_valid: "list_all valid_rune rs \<Longrightarrow> prefix s (utf8 rs) \<Longrightarrow> \<exists>rs1. list_all valid_rune rs1 \<and> trimIncompleteUTF8 s = utf8 rs1"
  using prefix_utf8 trim_cut by metis

text \<open>An ASCII byte of a valid text is a rune of its own.\<close>

lemma split_ascii:
  "list_all valid_rune rs \<Longrightarrow> utf8 rs = a @ c # b \<Longrightarrow> of_char c < (0x80 :: nat)
    \<Longrightarrow> \<exists>rs1 rs2. list_all valid_rune rs2 \<and> rs = rs1 @ of_char c # rs2 \<and> b = utf8 rs2"
proof (induction rs arbitrary: a)
  case (Cons r rs)
  have eq: "enc_rune r @ utf8 rs = a @ c # b" using Cons(3) by simp
  show ?case
  proof (cases "length (enc_rune r) \<le> length a")
    case True
    then obtain a' where "a = enc_rune r @ a'" "utf8 rs = a' @ c # b"
      using eq by (metis append_eq_append_conv_if append_take_drop_id)
    then obtain rs1 rs2 where "list_all valid_rune rs2" "rs = rs1 @ of_char c # rs2" "b = utf8 rs2"
      using Cons(1) [of a'] Cons(2,4) by auto
    then show ?thesis by (intro exI [of _ "r # rs1"] exI [of _ rs2]) simp
  next
    case False
    have "(enc_rune r @ utf8 rs) ! length a = c" by (simp add: eq)
    then have "c \<in> set (enc_rune r)" using False by (metis not_le nth_append nth_mem)
    moreover have "\<not> 0x80 \<le> r \<or> c \<notin> set (enc_rune r)"
      using enc_shape [of r] Cons(2,4) cont_high by (fastforce simp: list_all_iff)
    ultimately have "r < 0x80" by auto
    then have "enc_rune r = [char_of r]" by (rule enc_ascii)
    then have "a = []" "c = char_of r" "b = utf8 rs" using eq False by (auto simp: Cons_eq_append_conv)
    then show ?thesis using Cons(2) \<open>r < 0x80\<close> by (intro exI [of _ "[]"] exI [of _ rs]) simp
  qed
qed simp

definition whole :: "string \<Rightarrow> bool" where
  "whole s \<longleftrightarrow> (\<exists>rs. list_all valid_rune rs \<and> s = utf8 rs)"

lemma whole_Nil [simp]: "whole []"
  by (auto simp: whole_def intro: exI [of _ "[]"])

lemma whole_append: "whole s \<Longrightarrow> whole t \<Longrightarrow> whole (s @ t)"
  unfolding whole_def by (metis list_all_append utf8_simps(3))

lemma whole_char: "of_char c < (0x80 :: nat) \<Longrightarrow> whole [c]"
  unfolding whole_def by (rule exI [of _ "[of_char c]"]) (simp add: enc_ascii valid_rune_def)

lemma whole_enc: "r < 0x110000 \<Longrightarrow> whole (enc_rune r)"
proof (cases "valid_rune r")
  case False
  assume "r < 0x110000"
  then have "enc_rune r = enc_rune RuneError" using False by (auto simp: enc_rune_def enc_bytes_def valid_rune_def)
  then show ?thesis unfolding whole_def by (intro exI [of _ "[RuneError]"]) (simp add: valid_rune_def)
qed (auto simp: whole_def intro: exI [of _ "[r]"])

lemma whole_after: "whole (a @ c # b) \<Longrightarrow> of_char c < (0x80 :: nat) \<Longrightarrow> whole b"
  unfolding whole_def using split_ascii by metis

lemma simple_escape_ascii: "simple_escape e = Some d \<Longrightarrow> of_char e < (0x80 :: nat) \<and> of_char d < (0x80 :: nat)"
  by (auto simp: simple_escape_def split: if_splits)

lemma hex_value_ascii: "hex_value c = Some v \<Longrightarrow> of_char c < (0x80 :: nat) \<and> v < 16"
  by (auto simp: hex_value_def Let_def split: if_splits)

lemma decode_hex: "decodeUnicodeEscape h = Some r \<Longrightarrow> \<exists>a b c d. h = [a, b, c, d] \<and> r < 0x10000
    \<and> (\<forall>x \<in> {a, b, c, d}. of_char x < (0x80 :: nat))"
proof -
  assume a: "decodeUnicodeEscape h = Some r"
  then have "length h = 4" by (auto simp: decodeUnicodeEscape_def split: if_splits)
  then obtain a b c d where h: "h = [a, b, c, d]"
    by (cases h; cases "tl h"; cases "tl (tl h)"; cases "tl (tl (tl h))") auto
  then show ?thesis using a hex_value_ascii [of a] hex_value_ascii [of b] hex_value_ascii [of c] hex_value_ascii [of d]
    by (auto simp: decodeUnicodeEscape_def split: option.splits)
qed

lemma read_value_high: "list_all (\<lambda>c. \<not> of_char c < (0x80 :: nat)) p \<Longrightarrow> read_value (p @ s) = p @ read_value s"
proof (induction p)
  case (Cons c p)
  then have "c \<noteq> CHR 0x5C" "c \<noteq> CHR 0x22" by auto
  then show ?case using Cons by (simp add: read_value_eqs(5))
qed simp

lemma read_escape_whole:
  assumes "whole (e # rest)" "\<And>t. length t \<le> length rest \<Longrightarrow> whole t \<Longrightarrow> whole (read_value t)"
  shows "whole (read_value (CHR 0x5C # e # rest))"
proof (cases "simple_escape e")
  case (Some d)
  then have "whole rest" using whole_after [of "[]" e rest] assms(1) simple_escape_ascii by auto
  then have "whole ([d] @ read_value rest)"
    using whole_append [OF whole_char assms(2)] simple_escape_ascii [OF Some] by blast
  then show ?thesis using Some by (simp add: read_value_eqs(2))
next
  case None
  show ?thesis
  proof (cases "(e = CHR ''u'' \<and> 4 \<le> length rest) \<and> decodeUnicodeEscape (take 4 rest) \<noteq> None")
    case True
    then obtain r where r: "decodeUnicodeEscape (take 4 rest) = Some r" by blast
    obtain h1 h2 h3 h4 where h: "take 4 rest = [h1, h2, h3, h4]" "r < 0x10000" "of_char h4 < (0x80 :: nat)"
      using decode_hex [OF r] by auto
    have "e # rest = [e, h1, h2, h3] @ h4 # drop 4 rest" using append_take_drop_id [of 4 rest] unfolding h(1) by simp
    then have "whole (drop 4 rest)" using whole_after assms(1) h(3) by metis
    then have "whole (enc_rune r @ read_value (drop 4 rest))" using whole_append [OF whole_enc assms(2)] h(2) by simp
    then show ?thesis using read_value_eqs(3) [OF None _ r] True by simp
  next
    case False
    then have "read_value (CHR 0x5C # e # rest) = []" using None read_value_eqs(7,8) by blast
    then show ?thesis by simp
  qed
qed

lemma read_value_whole: "whole s \<Longrightarrow> whole (read_value s)"
proof (induction "length s" arbitrary: s rule: less_induct)
  case less
  then obtain rs where rs: "list_all valid_rune rs" "s = utf8 rs" by (auto simp: whole_def)
  show ?case
  proof (cases rs)
    case Nil
    then show ?thesis using rs by (simp add: read_value_eqs)
  next
    case (Cons r rs')
    have w: "whole (utf8 rs')" "valid_rune r" using rs Cons by (auto simp: whole_def)
    show ?thesis
    proof (cases "r < 0x80")
      case True
      define c cs where "c = (char_of r :: char)" and "cs = utf8 rs'"
      have s: "s = c # cs" "of_char c < (0x80 :: nat)" using rs(2) Cons enc_ascii [OF True] True by (simp_all add: c_def cs_def)
      have ih: "length t \<le> length cs \<Longrightarrow> whole t \<Longrightarrow> whole (read_value t)" for t using less(1) [of t] s(1) by simp
      show ?thesis
      proof (cases "c = CHR 0x5C")
        case True
        then show ?thesis using s w(1) ih read_escape_whole
          by (cases cs) (auto simp: read_value_eqs cs_def [symmetric])
      next
        case False
        then show ?thesis using s whole_append [OF whole_char [OF s(2)] ih [of cs]] w(1)
          by (cases "c = CHR 0x22") (simp_all add: read_value_eqs cs_def [symmetric])
      qed
    next
      case False
      have "list_all (\<lambda>c. \<not> of_char c < (0x80 :: nat)) (enc_rune r)"
        using enc_shape [OF w(2)] False cont_high by (fastforce simp: list_all_iff)
      then have "read_value s = enc_rune r @ read_value (utf8 rs')" using rs(2) Cons read_value_high by simp
      moreover have "whole (read_value (utf8 rs'))" using less(1) [of "utf8 rs'"] w(1) rs(2) Cons by simp
      moreover have "r < 0x110000" using w(2) by (auto simp: valid_rune_def)
      ultimately show ?thesis using whole_append [OF whole_enc] by simp
    qed
  qed
qed

lemma summary_parse_whole: "whole raw \<Longrightarrow> whole (summary_parse raw)"
proof (cases "summary_parse raw = []")
  case False
  assume raw: "whole raw"
  obtain idx where idx: "indexOfSummaryKey raw = Some idx" using False by (auto simp: summary_parse_def split: option.splits)
  obtain colon rest where c: "dropWhile (\<lambda>c. c \<noteq> CHR '':'') (drop idx raw) = colon # rest"
  proof (cases "dropWhile (\<lambda>c. c \<noteq> CHR '':'') (drop idx raw)")
    case Nil
    have "summary_parse raw = []" by (simp only: summary_parse_def idx option.case Nil list.case)
    then show ?thesis using False by blast
  qed (use that in blast)
  obtain v where v: "dropWhile json_space rest = CHR 0x22 # v" "summary_parse raw = read_value v"
    using False idx c by (auto simp: summary_parse_def split: list.splits if_splits)
  have "suffix (CHR 0x22 # v) raw"
    using suffix_dropWhile [of json_space rest] suffix_dropWhile [of "\<lambda>c. c \<noteq> CHR '':''" "drop idx raw"] suffix_drop [of idx raw]
    unfolding v(1) c by (meson suffix_ConsD suffix_order.trans)
  then obtain a where "raw = a @ CHR 0x22 # v" by (auto simp: suffix_def)
  then have "whole v" using whole_after [of a "CHR 0x22" v] raw by simp
  then show ?thesis using read_value_whole v(2) by simp
qed simp

text \<open>So what is extracted from the beginning of a valid text is whole.\<close>

lemma extract_whole: "whole (raw @ x) \<Longrightarrow> whole (extractSummarySoFar raw)"
proof -
  assume "whole (raw @ x)"
  then obtain rs where rs: "list_all valid_rune rs" "summary_parse (raw @ x) = utf8 rs"
    using summary_parse_whole by (auto simp: whole_def)
  then have "prefix (summary_parse raw) (utf8 rs)" using summary_parse_more [of raw x] by simp
  then show ?thesis using trim_valid [OF rs(1)] by (auto simp: extractSummarySoFar_def whole_def)
qed


lemma whole_cancel: "whole (a @ b) \<Longrightarrow> whole a \<Longrightarrow> whole b"
proof -
  assume "whole (a @ b)" "whole a"
  then obtain rs ra where r: "list_all valid_rune rs" "a @ b = utf8 rs" "list_all valid_rune ra" "a = utf8 ra"
    by (auto simp: whole_def)
  have "rs = ra @ runes b" using runes_utf8 [OF r(1)] runes_utf8_append [OF r(3), of b] r(2,4) by metis
  then show ?thesis using r by (auto simp: whole_def)
qed

lemma onToolArgs_whole: "whole (raw @ x @ y) \<Longrightarrow> sent raw s \<Longrightarrow> list_all whole (snd s)
    \<Longrightarrow> list_all whole (snd (onToolArgs (raw @ x) s))"
proof -
  assume w: "whole (raw @ x @ y)" "list_all whole (snd s)" and s: "sent raw s"
  obtain e out where eo: "s = (e, out)" by (cases s)
  have e: "e = extractSummarySoFar raw" using s by (auto simp: sent_def eo)
  obtain d where d: "extractSummarySoFar (raw @ x) = e @ d" using extract_more [of raw x] e by (auto simp: prefix_def)
  have "whole (e @ d)" "whole e" using extract_whole [of raw "x @ y"] extract_whole [of "raw @ x" y] w(1) d e by simp_all
  then have "whole d" by (rule whole_cancel)
  then show ?thesis using w(2) d by (cases "d = []") (auto simp: eo onToolArgs_def Let_def)
qed

lemma onToolArgs_fragments_whole:
  "whole (concat fragments)
    \<Longrightarrow> list_all whole (snd (fold onToolArgs (map (\<lambda>n. concat (take n fragments)) [1..<n + 1]) ([], [])))"
proof (induction n)
  case (Suc n)
  obtain x where x: "concat (take (Suc n) fragments) = concat (take n fragments) @ x"
    by (cases "n < length fragments") (auto simp: take_Suc_conv_app_nth)
  have "concat fragments = concat (take n fragments) @ x @ concat (drop (Suc n) fragments)"
    using append_take_drop_id [of "Suc n" fragments] x by (metis append_assoc concat_append)
  then have "whole (concat (take n fragments) @ x @ concat (drop (Suc n) fragments))" using Suc(2) by simp
  from onToolArgs_whole [OF this onToolArgs_fragments Suc(1) [OF Suc(2)]] show ?case by (simp add: x [symmetric])
qed simp

lemma flush_tail_sent: "sent raw s \<Longrightarrow> flush_tail raw s = s"
  by (auto simp: sent_def flush_tail_def Let_def split: prod.splits)

lemma whole_valid: "whole s \<Longrightarrow> valid_utf8 s"
  by (auto simp: whole_def)

text \<open>
  C19. Whatever the fragments in which the language model streams the arguments of its tool call, the deltas
  sent to the reader are not empty and together are the summary that is read from the whole arguments:
  nothing is sent twice, revised or left out, and the final flush has nothing to add. If the arguments are
  valid UTF-8, so is every delta, even where a fragment ends inside a character.
\<close>

theorem summary_deltas_complete:
  "concat (summary_deltas fragments) = extractSummarySoFar (concat fragments) \<and> [] \<notin> set (summary_deltas fragments)
   \<and> (list_all valid_rune rs \<and> concat fragments = utf8 rs \<longrightarrow> list_all valid_utf8 (summary_deltas fragments))"
proof -
  define s where "s = fold onToolArgs (map (\<lambda>n. concat (take n fragments)) [1..<length fragments + 1]) ([], [])"
  have sent: "sent (concat fragments) s" using onToolArgs_fragments [of "length fragments" fragments] by (simp add: s_def)
  have d: "summary_deltas fragments = snd s"
    unfolding summary_deltas_def s_def [symmetric] flush_tail_sent [OF sent] by (rule refl)
  have "list_all whole (snd s)" if "whole (concat fragments)"
    using onToolArgs_fragments_whole [OF that, of "length fragments"] by (simp add: s_def)
  then have "list_all valid_utf8 (snd s)" if "list_all valid_rune rs \<and> concat fragments = utf8 rs"
    using that whole_valid unfolding list_all_iff whole_def [of "concat fragments"] by blast
  then show ?thesis using sent unfolding d by (auto simp: sent_def split: prod.splits)
qed

definition cut_fragments :: "string list" where
  "cut_fragments = [[CHR ''{'', CHR 0x22] @ ''summary'' @ [CHR 0x22, CHR '':'', CHR 0x22, CHR ''a'', CHR 0xE4],
     [CHR 0xBD], [CHR 0xA0, CHR 0x5C], [CHR ''n'', CHR 0x22, CHR ''}'']]"

definition cut_runes :: "nat list" where
  "cut_runes = [123, 34, 115, 117, 109, 109, 97, 114, 121, 34, 58, 34, 97, 0x4F60, 0x5C, 110, 34, 125]"

text \<open>A character and an escape cut by the fragments arrive whole.\<close>

lemma summary_deltas_complete_witness:
  "list_all valid_utf8 (summary_deltas cut_fragments) \<and> summary_deltas cut_fragments = [''a'', utf8 [0x4F60], [CHR 0x0A]]"
proof
  have "list_all valid_rune cut_runes \<and> concat cut_fragments = utf8 cut_runes" by code_simp
  then show "list_all valid_utf8 (summary_deltas cut_fragments)" using summary_deltas_complete by blast
  show "summary_deltas cut_fragments = [''a'', utf8 [0x4F60], [CHR 0x0A]]" by code_simp
qed

text \<open>
  \<open>decodeUnicodeEscape\<close> takes one escape at a time: a pair of surrogates, the JSON form of a character
  beyond U+FFFF, becomes two replacement characters.
\<close>

lemma surrogate_pair_garbled:
  "extractSummarySoFar ([CHR ''{'', CHR 0x22] @ ''summary'' @ [CHR 0x22, CHR '':'', CHR 0x22, CHR 0x5C] @ ''ud83d''
     @ [CHR 0x5C] @ ''ude00'' @ [CHR 0x22, CHR ''}'']) = utf8 [0xFFFD, 0xFFFD]"
  by code_simp

end
