(* ===== verification/Regexp.thy ===== *)
theory Regexp
  imports Go_Text
begin

section \<open>Regular expressions\<close>

text \<open>
  The part of Go's package regexp that internal/agent/eino/chat.go uses: leftmost-first matching of
  expressions with classes, counted repetition of a class (greedy or not), options, groups and the end of the text.
  A text is read as \<open>regexp\<close> reads a string, rune by rune; each rune keeps its bytes, so that
  invalid bytes are copied as they are. These are operations of the standard library, not of the repository.
\<close>

type_synonym runetext = "(nat \<times> string) list"

fun runetext :: "string \<Rightarrow> runetext" where
  "runetext [] = []"
| "runetext (c # cs) = (case dec_rune (c # cs) of (r, n) \<Rightarrow> (r, c # take (n - 1) cs) # runetext (drop (n - 1) cs))"

definition text_of :: "runetext \<Rightarrow> string" where
  "text_of s = concat (map snd s)"

text \<open>A class of runes: ranges, or their complement.\<close>

datatype rclass = In "(nat \<times> nat) list" | NotIn "(nat \<times> nat) list"

fun in_class :: "rclass \<Rightarrow> nat \<Rightarrow> bool" where
  "in_class (In rs) c = list_ex (\<lambda>(lo, hi). lo \<le> c \<and> c \<le> hi) rs"
| "in_class (NotIn rs) c = (\<not> list_ex (\<lambda>(lo, hi). lo \<le> c \<and> c \<le> hi) rs)"

text \<open>
  Expressions. \<open>Rep c lo hi greedy\<close> repeats a class between \<open>lo\<close> and \<open>hi\<close> times (no bound: \<open>None\<close>), \<open>Opt\<close> is
  the greedy question mark, \<open>Group\<close> a capturing group.
\<close>

datatype rx = Empty | Class rclass | EndText | Seq rx rx | Alt rx rx | Opt rx | Rep rclass nat "nat option" bool | Group nat rx

type_synonym captures = "(nat \<times> runetext) list"

text \<open>How many runes at the front are in the class, up to a bound.\<close>

fun span :: "rclass \<Rightarrow> nat option \<Rightarrow> runetext \<Rightarrow> nat" where
  "span c hi [] = 0"
| "span c hi (x # s) =
     (if hi \<noteq> Some 0 \<and> in_class c (fst x) then Suc (span c (map_option (\<lambda>n. n - 1) hi) s) else 0)"

text \<open>
  The matches at the front of a text, most preferred first: what is left of the text, and the groups.
\<close>

fun matches :: "rx \<Rightarrow> runetext \<Rightarrow> (runetext \<times> captures) list" where
  "matches Empty s = [(s, [])]"
| "matches (Class c) s = (case s of [] \<Rightarrow> [] | x # t \<Rightarrow> if in_class c (fst x) then [(t, [])] else [])"
| "matches EndText s = (if s = [] then [(s, [])] else [])"
| "matches (Seq a b) s = concat (map (\<lambda>(t, g). map (\<lambda>(u, h). (u, g @ h)) (matches b t)) (matches a s))"
| "matches (Alt a b) s = matches a s @ matches b s"
| "matches (Opt a) s = matches a s @ [(s, [])]"
| "matches (Rep c lo hi greedy) s =
     (let ns = [lo..<span c hi s + 1] in map (\<lambda>n. (drop n s, [])) (if greedy then rev ns else ns))"
| "matches (Group n a) s = map (\<lambda>(t, g). (t, (n, take (length s - length t) s) # g)) (matches a s)"

text \<open>The leftmost match: the text before it, the match, the text behind it, and the groups.\<close>

fun find_match :: "rx \<Rightarrow> runetext \<Rightarrow> (runetext \<times> runetext \<times> runetext \<times> captures) option" where
  "find_match r s =
     (case matches r s of
        (t, g) # _ \<Rightarrow> Some ([], take (length s - length t) s, t, g)
      | [] \<Rightarrow>
          (case s of
             [] \<Rightarrow> None
           | x # s' \<Rightarrow> (case find_match r s' of None \<Rightarrow> None | Some (a, m, b, g) \<Rightarrow> Some (x # a, m, b, g))))"

declare find_match.simps [simp del]

text \<open>\<open>FindStringSubmatch\<close>: group \<open>n\<close> of the match, empty where it took no part; \<open>FindString\<close>, \<open>MatchString\<close>.\<close>

definition group :: "captures \<Rightarrow> nat \<Rightarrow> string" where
  "group g n = (case map_of (rev g) n of Some w \<Rightarrow> text_of w | None \<Rightarrow> [])"

definition FindStringSubmatch :: "rx \<Rightarrow> string \<Rightarrow> (nat \<Rightarrow> string) option" where
  "FindStringSubmatch r s = (case find_match r (runetext s) of None \<Rightarrow> None | Some (a, m, b, g) \<Rightarrow> Some (group g))"

definition FindString :: "rx \<Rightarrow> string \<Rightarrow> string" where
  "FindString r s = (case find_match r (runetext s) of None \<Rightarrow> [] | Some (a, m, b, g) \<Rightarrow> text_of m)"

definition MatchString :: "rx \<Rightarrow> string \<Rightarrow> bool" where
  "MatchString r s \<longleftrightarrow> find_match r (runetext s) \<noteq> None"

text \<open>\<open>Split(s, -1)\<close> for an expression that is a class repeated at least once.\<close>

function split_runs :: "rclass \<Rightarrow> runetext \<Rightarrow> runetext list" where
  "split_runs c s =
     takeWhile (\<lambda>x. \<not> in_class c (fst x)) s #
       (case dropWhile (\<lambda>x. \<not> in_class c (fst x)) s of
          [] \<Rightarrow> []
        | x # rest \<Rightarrow> split_runs c (dropWhile (\<lambda>x. in_class c (fst x)) rest))"
  by pat_completeness auto
termination
proof (relation "measure (\<lambda>(c, s). length s)")
  fix c :: rclass and s x rest
  assume a: "dropWhile (\<lambda>x. \<not> in_class c (fst x)) s = x # rest"
  have "length (dropWhile (\<lambda>x. in_class c (fst x)) rest) \<le> length rest" by (rule length_dropWhile_le)
  moreover have "length (x # rest) \<le> length s" unfolding a [symmetric] by (rule length_dropWhile_le)
  ultimately show "((c, dropWhile (\<lambda>x. in_class c (fst x)) rest), c, s) \<in> measure (\<lambda>(c, s). length s)" by simp
qed simp

declare split_runs.simps [simp del]

definition Split_rx :: "rclass \<Rightarrow> string \<Rightarrow> string list" where
  "Split_rx c s = map text_of (split_runs c (runetext s))"

subsection \<open>Building expressions\<close>

definition digit_class :: rclass where "digit_class = In [(0x30, 0x39)]"
definition space_class :: rclass where "space_class = In [(0x09, 0x0A), (0x0C, 0x0D), (0x20, 0x20)]"

definition one_of :: "nat list \<Rightarrow> rclass" where
  "one_of rs = In (map (\<lambda>r. (r, r)) rs)"

definition none_of :: "nat list \<Rightarrow> rclass" where
  "none_of rs = NotIn (map (\<lambda>r. (r, r)) rs)"

abbreviation "spaces \<equiv> Rep space_class 0 None True"

fun seqs :: "rx list \<Rightarrow> rx" where
  "seqs [] = Empty"
| "seqs [r] = r"
| "seqs (r # rs) = Seq r (seqs rs)"

fun alts :: "rx list \<Rightarrow> rx" where
  "alts [] = Class (In [])"
| "alts [r] = r"
| "alts (r # rs) = Alt r (alts rs)"

text \<open>A literal, and a literal under \<open>(?i)\<close>: the folding orbits of the ASCII letters.\<close>

definition lit :: "nat list \<Rightarrow> rx" where
  "lit rs = seqs (map (\<lambda>r. Class (In [(r, r)])) rs)"

definition fold_orbit :: "nat \<Rightarrow> nat list" where
  "fold_orbit r =
     (if r = 0x6B then [0x6B, 0x4B, 0x212A]
      else if r = 0x73 then [0x73, 0x53, 0x17F]
      else if 0x61 \<le> r \<and> r \<le> 0x7A then [r, r - 0x20]
      else [r])"

definition lit_fold :: "nat list \<Rightarrow> rx" where
  "lit_fold rs = seqs (map (\<lambda>r. Class (one_of (fold_orbit r))) rs)"

definition ascii :: "string \<Rightarrow> nat list" where
  "ascii s = map of_char s"

text \<open>The script Han of Unicode 15, for \<open>[A-Za-z\p{Han}]\<close>.\<close>

definition han_ranges :: "(nat \<times> nat) list" where
  "han_ranges = [(0x4E00, 0x9FFF), (0x2E80, 0x2E99), (0x2E9B, 0x2EF3), (0x2F00, 0x2FD5), (0x3005, 0x3005), (0x3007, 0x3007),
     (0x3021, 0x3029), (0x3038, 0x303B), (0x3400, 0x4DBF), (0xF900, 0xFA6D), (0xFA70, 0xFAD9), (0x16FE2, 0x16FE3),
     (0x16FF0, 0x16FF1), (0x20000, 0x2A6DF), (0x2A700, 0x2B739), (0x2B740, 0x2B81D), (0x2B820, 0x2CEA1), (0x2CEB0, 0x2EBE0),
     (0x2F800, 0x2FA1D), (0x30000, 0x3134A), (0x31350, 0x323AF)]"

definition word_class :: rclass where
  "word_class = In ([(0x41, 0x5A), (0x61, 0x7A)] @ han_ranges)"

subsection \<open>What a match is\<close>

lemma text_of_append [simp]: "text_of (s @ t) = text_of s @ text_of t"
  by (simp add: text_of_def)

lemma text_of_runetext [simp]: "text_of (runetext s) = s"
proof (induction s rule: runetext.induct)
  case (2 c cs)
  obtain r n where d: "dec_rune (c # cs) = (r, n)" by (cases "dec_rune (c # cs)")
  have "text_of (runetext (drop (n - 1) cs)) = drop (n - 1) cs" by (rule 2) (simp add: d)
  then show ?case by (simp add: d text_of_def)
qed (simp add: text_of_def)

lemma matches_suffix: "(t, g) \<in> set (matches r s) \<Longrightarrow> suffix t s"
proof (induction r arbitrary: s t g)
  case (Class c)
  then show ?case by (cases s) (auto simp: suffix_ConsI split: if_splits)
next
  case (Seq a b)
  then show ?case by fastforce
next
  case (Rep c lo hi greedy)
  then show ?case by (auto simp: Let_def suffix_drop split: if_splits)
qed (auto split: if_splits)

lemma find_match_splits: "find_match r s = Some (a, m, b, g) \<Longrightarrow> s = a @ m @ b \<and> (b, g) \<in> set (matches r (m @ b))"
proof (induction s arbitrary: a)
  case Nil
  then have "a = [] \<and> m = [] \<and> (b, g) \<in> set (matches r [])"
    by (subst (asm) find_match.simps) (auto split: list.splits)
  moreover from this have "b = []" using matches_suffix by fastforce
  ultimately show ?case by simp
next
  case (Cons x s)
  show ?case
  proof (cases "matches r (x # s)")
    case Nil
    then obtain a' where "find_match r s = Some (a', m, b, g)" "a = x # a'"
      using Cons(2) by (subst (asm) find_match.simps) (auto split: option.splits)
    then show ?thesis using Cons(1) by simp
  next
    case (Cons y ys)
    obtain t h where y: "y = (t, h)" by (cases y)
    have e: "a = []" "m = take (length (x # s) - length t) (x # s)" "b = t" "g = h"
      using \<open>find_match r (x # s) = _\<close> Cons y by (subst (asm) find_match.simps, simp)+
    have "(t, h) \<in> set (matches r (x # s))" using Cons y by simp
    moreover from this obtain z where z: "x # s = z @ t" using matches_suffix unfolding suffix_def by blast
    then have "m @ b = x # s" unfolding e(2,3) by simp
    ultimately show ?thesis using e by simp
  qed
qed

text \<open>A reference definition of matching, without an order of preference.\<close>

inductive parses :: "rx \<Rightarrow> runetext \<Rightarrow> runetext \<Rightarrow> bool" where
  Empty: "parses Empty [] t"
| Class: "in_class c (fst x) \<Longrightarrow> parses (Class c) [x] t"
| EndText: "parses EndText [] []"
| Seq: "parses a u (v @ t) \<Longrightarrow> parses b v t \<Longrightarrow> parses (Seq a b) (u @ v) t"
| Alt1: "parses a u t \<Longrightarrow> parses (Alt a b) u t"
| Alt2: "parses b u t \<Longrightarrow> parses (Alt a b) u t"
| Opt0: "parses (Opt a) [] t"
| Opt1: "parses a u t \<Longrightarrow> parses (Opt a) u t"
| Rep: "list_all (\<lambda>x. in_class c (fst x)) u \<Longrightarrow> lo \<le> length u \<Longrightarrow> (\<And>n. hi = Some n \<Longrightarrow> length u \<le> n)
    \<Longrightarrow> parses (Rep c lo hi greedy) u t"
| Group: "parses a u t \<Longrightarrow> parses (Group n a) u t"

inductive_cases parses_cases: "parses Empty u t" "parses (Class c) u t" "parses EndText u t" "parses (Seq a b) u t"
  "parses (Alt a b) u t" "parses (Opt a) u t" "parses (Rep c lo hi greedy) u t" "parses (Group n a) u t"

lemma le_span: "n \<le> span c hi s \<longleftrightarrow>
    n \<le> length s \<and> list_all (\<lambda>x. in_class c (fst x)) (take n s) \<and> (\<forall>m. hi = Some m \<longrightarrow> n \<le> m)"
proof (induction c hi s arbitrary: n rule: span.induct)
  case (2 c hi x s)
  show ?case
  proof (cases n)
    case (Suc k)
    have ih: "hi \<noteq> Some 0 \<and> in_class c (fst x) \<Longrightarrow> k \<le> span c (map_option (\<lambda>n. n - 1) hi) s \<longleftrightarrow>
        k \<le> length s \<and> list_all (\<lambda>x. in_class c (fst x)) (take k s) \<and> (\<forall>m. map_option (\<lambda>n. n - 1) hi = Some m \<longrightarrow> k \<le> m)"
      by (rule 2)
    show ?thesis
    proof (cases hi)
      case None
      then show ?thesis using ih Suc by simp
    next
      case (Some h)
      then show ?thesis using ih Suc by (cases h) auto
    qed
  qed simp
qed auto

lemma matches_Rep: "(t, g) \<in> set (matches (Rep c lo hi greedy) s) \<longleftrightarrow>
    g = [] \<and> (\<exists>n. lo \<le> n \<and> n \<le> span c hi s \<and> t = drop n s)"
  by (auto simp: Let_def)

lemma matches_parses: "(t, g) \<in> set (matches r s) \<Longrightarrow> \<exists>u. s = u @ t \<and> parses r u t"
proof (induction r arbitrary: s t g)
  case (Class c)
  then show ?case by (cases s) (auto intro: parses.intros split: if_splits)
next
  case (Seq a b)
  then obtain t1 g1 g2 where m: "(t1, g1) \<in> set (matches a s)" "(t, g2) \<in> set (matches b t1)" by auto
  obtain u where u: "s = u @ t1" "parses a u t1" using Seq(1) [OF m(1)] by blast
  obtain v where v: "t1 = v @ t" "parses b v t" using Seq(2) [OF m(2)] by blast
  then show ?case using u parses.Seq [of a u v t b] by (intro exI [of _ "u @ v"]) simp
next
  case (Rep c lo hi greedy)
  then obtain n where n: "lo \<le> n" "n \<le> span c hi s" "t = drop n s" by (auto simp only: matches_Rep)
  have "parses (Rep c lo hi greedy) (take n s) t"
  proof (rule parses.Rep)
    note l = n(2) [unfolded le_span]
    show "list_all (\<lambda>x. in_class c (fst x)) (take n s)" using l by blast
    show "lo \<le> length (take n s)" using l n(1) by simp
    show "length (take n s) \<le> m" if "hi = Some m" for m using l that by simp
  qed
  then show ?case using n(3) by (intro exI [of _ "take n s"]) simp
next
  case (Group n r)
  then obtain g' where "(t, g') \<in> set (matches r s)" by auto
  then show ?case using Group(1) parses.Group by blast
next
  case (Alt a b)
  then consider "(t, g) \<in> set (matches a s)" | "(t, g) \<in> set (matches b s)" by auto
  then show ?case by cases (use Alt(1,2) parses.Alt1 parses.Alt2 in \<open>blast+\<close>)
next
  case (Opt a)
  then consider "(t, g) \<in> set (matches a s)" | "t = s" by auto
  then show ?case
  proof cases
    case 1
    then show ?thesis using Opt(1) parses.Opt1 by blast
  next
    case 2
    then show ?thesis using parses.Opt0 by auto
  qed
qed (auto intro: parses.intros split: if_splits)

lemma parses_matches: "parses r u t \<Longrightarrow> \<exists>g. (t, g) \<in> set (matches r (u @ t))"
proof (induction rule: parses.induct)
  case (Seq a u v t b)
  then show ?case by fastforce
next
  case (Rep c u lo hi greedy t)
  then have "length u \<le> span c hi (u @ t)" by (simp add: le_span)
  then have "(t, []) \<in> set (matches (Rep c lo hi greedy) (u @ t))"
    unfolding matches_Rep using Rep(2) by (intro conjI refl exI [of _ "length u"]) simp_all
  then show ?case by blast
qed fastforce+

text \<open>
  The search finds a match exactly if some part of the text parses, and no part that starts further to the
  left does.
\<close>

lemma matches_empty_iff: "matches r s = [] \<longleftrightarrow> (\<forall>u t. s = u @ t \<longrightarrow> \<not> parses r u t)"
proof
  assume "matches r s = []"
  then show "\<forall>u t. s = u @ t \<longrightarrow> \<not> parses r u t" using parses_matches by fastforce
next
  assume a: "\<forall>u t. s = u @ t \<longrightarrow> \<not> parses r u t"
  show "matches r s = []"
  proof (rule ccontr)
    assume "matches r s \<noteq> []"
    then obtain t g where "(t, g) \<in> set (matches r s)" by (metis list.set_intros(1) neq_Nil_conv surj_pair)
    then show False using matches_parses a by metis
  qed
qed

lemma find_match_None: "find_match r s = None \<Longrightarrow> s = a @ u @ t \<Longrightarrow> \<not> parses r u t"
proof (induction s arbitrary: a)
  case Nil
  then have "matches r [] = []" by (subst (asm) find_match.simps) (auto split: list.splits)
  then show ?case using Nil(2) matches_empty_iff by auto
next
  case (Cons x s)
  then have e: "matches r (x # s) = []" "find_match r s = None"
    by (subst (asm) (2) find_match.simps, auto split: list.splits option.splits)+
  show ?case
  proof (cases a)
    case Nil
    then show ?thesis using e(1) Cons(3) matches_empty_iff by fastforce
  next
    case (Cons y a')
    then show ?thesis using \<open>find_match r s = None \<Longrightarrow> s = a' @ u @ t \<Longrightarrow> _\<close> e(2) \<open>x # s = a @ u @ t\<close> by simp
  qed
qed

lemma find_match_leftmost:
  "find_match r s = Some (a, m, b, g) \<Longrightarrow> s = a' @ u @ t \<Longrightarrow> length a' < length a \<Longrightarrow> \<not> parses r u t"
proof (induction s arbitrary: a a')
  case Nil
  then have "a = []" using find_match_splits [of r "[]"] by blast
  then show ?case using Nil(3) by simp
next
  case (Cons x s)
  note ih = Cons(1)
  have e: "matches r (x # s) = []"
  proof (rule ccontr)
    assume "matches r (x # s) \<noteq> []"
    then have "a = []" using Cons(2) by (subst (asm) find_match.simps) (auto split: list.splits)
    then show False using Cons(4) by simp
  qed
  then obtain a2 where a2: "find_match r s = Some (a2, m, b, g)" "a = x # a2"
    using Cons(2) by (subst (asm) find_match.simps) (auto split: option.splits)
  show ?case
  proof (cases a')
    case Nil
    then show ?thesis using e Cons(3) matches_empty_iff by fastforce
  next
    case (Cons y a3)
    then have "s = a3 @ u @ t" "length a3 < length a2" using a2(2) \<open>x # s = a' @ u @ t\<close> \<open>length a' < length a\<close> by simp_all
    then show ?thesis by (rule ih [OF a2(1)])
  qed
qed

lemma find_match_parses: "find_match r s = Some (a, m, b, g) \<Longrightarrow> s = a @ m @ b \<and> parses r m b"
  using find_match_splits [of r s a m b g] matches_parses [of b g r "m @ b"] by force

subsection \<open>The preferred match\<close>

text \<open>The most preferred match at the front of a text.\<close>

definition first_match :: "rx \<Rightarrow> runetext \<Rightarrow> runetext \<Rightarrow> captures \<Rightarrow> bool" where
  "first_match r s t g \<longleftrightarrow> (\<exists>xs. matches r s = (t, g) # xs)"

lemma first_match_intros:
  "in_class c (fst x) \<Longrightarrow> first_match (Class c) (x # t) t []"
  "first_match a s t g \<Longrightarrow> first_match b t u h \<Longrightarrow> first_match (Seq a b) s u (g @ h)"
  "first_match a s t g \<Longrightarrow> first_match (Alt a b) s t g"
  "first_match a (u @ t) t g \<Longrightarrow> first_match (Group n a) (u @ t) t ((n, u) # g)"
  by (auto simp: first_match_def)

lemma span_run: "list_all (\<lambda>x. in_class c (fst x)) u \<Longrightarrow> (\<And>h. hi = Some h \<Longrightarrow> length u \<le> h) \<Longrightarrow> \<not> in_class c (fst x)
    \<Longrightarrow> span c hi (u @ x # t) = length u"
proof (rule antisym)
  assume a: "list_all (\<lambda>x. in_class c (fst x)) u" "\<And>h. hi = Some h \<Longrightarrow> length u \<le> h" and x: "\<not> in_class c (fst x)"
  show "length u \<le> span c hi (u @ x # t)" using a by (simp add: le_span)
  show "span c hi (u @ x # t) \<le> length u"
  proof (rule ccontr)
    assume "\<not> span c hi (u @ x # t) \<le> length u"
    then have "Suc (length u) \<le> span c hi (u @ x # t)" by simp
    then show False using x by (simp add: le_span)
  qed
qed

lemma first_match_run:
  assumes "list_all (\<lambda>x. in_class c (fst x)) u" "\<And>h. hi = Some h \<Longrightarrow> length u \<le> h" "\<not> in_class c (fst x)" "lo \<le> length u"
  shows "first_match (Rep c lo hi True) (u @ x # t) (x # t) []"
proof -
  have "span c hi (u @ x # t) = length u" by (rule span_run) (use assms in auto)
  then show ?thesis using assms(4) by (simp add: first_match_def Let_def)
qed

lemma find_match_first: "first_match r s t g \<Longrightarrow> find_match r s = Some ([], take (length s - length t) s, t, g)"
  by (subst find_match.simps) (auto simp: first_match_def)

lemma runetext_utf8: "list_all valid_rune rs \<Longrightarrow> runetext (utf8 rs @ s) = map (\<lambda>r. (r, enc_rune r)) rs @ runetext s"
proof (induction rs)
  case (Cons r rs)
  have "runetext (enc_rune r @ w) = (r, enc_rune r) # runetext w" if "valid_rune r" for w
  proof (cases "enc_rune r")
    case (Cons c cs)
    then have "dec_rune (c # cs @ w) = (r, Suc (length cs))" using dec_enc_rune [OF that, of w] by simp
    then show ?thesis using Cons by simp
  qed simp
  then show ?case using Cons by simp
qed simp

text \<open>What the first group of a counted run holds.\<close>

fun group_free :: "rx \<Rightarrow> bool" where
  "group_free (Seq a b) = (group_free a \<and> group_free b)"
| "group_free (Alt a b) = (group_free a \<and> group_free b)"
| "group_free (Opt a) = group_free a"
| "group_free (Group n a) = False"
| "group_free r = True"

lemma group_free_captures: "group_free r \<Longrightarrow> (t, g) \<in> set (matches r s) \<Longrightarrow> g = []"
proof (induction r arbitrary: s t g)
  case (Class c)
  then show ?case by (cases s) (auto split: if_splits)
next
  case (Seq a b)
  then show ?case by fastforce
next
  case (Rep c lo hi greedy)
  then show ?case by (auto simp only: matches_Rep)
qed (auto split: if_splits)

lemma matches_Seq: "(u, x) \<in> set (matches (Seq a b) s) \<longleftrightarrow>
    (\<exists>t g h. (t, g) \<in> set (matches a s) \<and> (u, h) \<in> set (matches b t) \<and> x = g @ h)"
  by force

lemma matches_Group: "(t, x) \<in> set (matches (Group n a) s) \<longleftrightarrow>
    (\<exists>g. (t, g) \<in> set (matches a s) \<and> x = (n, take (length s - length t) s) # g)"
  by force

lemma group_of_run:
  assumes f: "FindStringSubmatch (Seq (Group 1 (Rep c lo (Some hi) greedy)) r) s = Some sub" and r: "group_free r"
  shows "\<exists>a u b. runetext s = a @ u @ b \<and> sub 1 = text_of u \<and> length u \<le> hi \<and> list_all (\<lambda>x. in_class c (fst x)) u"
proof -
  obtain a m b g where m: "find_match (Seq (Group 1 (Rep c lo (Some hi) greedy)) r) (runetext s) = Some (a, m, b, g)" "sub = group g"
    using f by (auto simp: FindStringSubmatch_def split: option.splits prod.splits)
  have s: "runetext s = a @ m @ b" "(b, g) \<in> set (matches (Seq (Group 1 (Rep c lo (Some hi) greedy)) r) (m @ b))"
    using find_match_splits [OF m(1)] by auto
  obtain t g1 g2 where t: "(t, g1) \<in> set (matches (Group 1 (Rep c lo (Some hi) greedy)) (m @ b))" "(b, g2) \<in> set (matches r t)" "g = g1 @ g2"
    using s(2) unfolding matches_Seq by blast
  have g2: "g2 = []" using group_free_captures [OF r t(2)] .
  obtain h where h: "(t, h) \<in> set (matches (Rep c lo (Some hi) greedy) (m @ b))" "g1 = (1, take (length (m @ b) - length t) (m @ b)) # h"
    using t(1) unfolding matches_Group by blast
  obtain n where n: "h = []" "n \<le> span c (Some hi) (m @ b)" "t = drop n (m @ b)" using h(1) unfolding matches_Rep by blast
  note l = n(2) [unfolded le_span]
  have "take (length w - length (drop n w)) w = take n w" if "n \<le> length w" for w :: runetext using that by simp
  then have u: "take (length (m @ b) - length t) (m @ b) = take n (m @ b)" using l n(3) by blast
  have "sub 1 = text_of (take n (m @ b))" using m(2) t(3) g2 h(2) n(1) u by (simp add: group_def)
  moreover have "runetext s = a @ take n (m @ b) @ drop n (m @ b)" using s(1) by (simp only: append_take_drop_id)
  moreover have "length (take n (m @ b)) \<le> hi" unfolding length_take using l by (intro min.coboundedI2) blast
  ultimately show ?thesis using l by blast
qed

lemma dec_bytes_ascii:
  assumes "fst (dec_bytes (b # bs)) < 0x80"
  shows "dec_bytes (b # bs) = (b, 1)"
proof (cases "b < 0x80")
  case False
  have sub: "x mod 64 = x - 0x80" if "0x80 \<le> x" "x \<le> 0xBF" for x :: nat
    using that by (intro mod_nat_eqI) auto
  have two: "128 \<le> b mod 32 * 64" if "0xC2 \<le> b" "b \<le> 0xDF"
  proof -
    have "b mod 32 = b - 0xC0" using that by (intro mod_nat_eqI) (auto simp: dvd_def intro!: exI [of _ 6])
    then show ?thesis using that by simp
  qed
  have three_a: "\<not> x mod 64 * 64 + y < 128" if "0xA0 \<le> x" "x \<le> 0xBF" for x y :: nat
    using that sub [of x] by auto
  have three_b: "\<not> b mod 16 * 4096 + x + y < 128" if "0xE0 \<le> b" "b \<le> 0xEF" "b \<noteq> 0xE0" for x y
  proof -
    have "b mod 16 = b - 0xE0" using that by (intro mod_nat_eqI) (auto simp: dvd_def intro!: exI [of _ 14])
    then show ?thesis using that by auto
  qed
  have four_a: "\<not> x mod 64 * 4096 + y + z < 128" if "0x90 \<le> x" "x \<le> 0xBF" for x y z :: nat
    using that sub [of x] by auto
  have four_b: "\<not> b mod 8 * 262144 + x + y + z < 128" if "0xF0 \<le> b" "b \<le> 0xF4" "b \<noteq> 0xF0" for x y z
  proof -
    have "b mod 8 = b - 0xF0" using that by (intro mod_nat_eqI) (auto simp: dvd_def intro!: exI [of _ 30])
    then show ?thesis using that by auto
  qed
  consider "0xC2 \<le> b \<and> b \<le> 0xDF" | "0xE0 \<le> b \<and> b \<le> 0xEF" | "0xF0 \<le> b \<and> b \<le> 0xF4"
    | "b < 0xC2 \<or> 0xF4 < b" using False by linarith
  then show ?thesis
  proof cases
    case 1
    then show ?thesis using assms two by (auto simp: dec_bytes.simps(2) split: if_splits list.splits)
  next
    case 2
    then show ?thesis using assms by (auto simp: dec_bytes.simps(2) three_a three_b split: if_splits list.splits)
  next
    case 3
    then show ?thesis using assms by (auto simp: dec_bytes.simps(2) four_a four_b split: if_splits list.splits)
  next
    case 4
    then show ?thesis using assms False by (auto simp: dec_bytes.simps(2))
  qed
qed (simp add: dec_bytes.simps(2))

lemma runetext_ascii: "(r, w) \<in> set (runetext s) \<Longrightarrow> r < 0x80 \<Longrightarrow> w = [char_of r]"
proof (induction s rule: runetext.induct)
  case (2 c cs)
  obtain q n where d: "dec_rune (c # cs) = (q, n)" by (cases "dec_rune (c # cs)")
  show ?case
  proof (cases "(r, w) \<in> set (runetext (drop (n - 1) cs))")
    case True
    then show ?thesis using 2 d by simp
  next
    case False
    then have e: "r = q" "w = c # take (n - 1) cs" using 2(2) d by auto
    have "dec_bytes (of_char c # map of_char cs) = (of_char c, 1)"
      by (rule dec_bytes_ascii) (use 2(3) d e in \<open>simp add: dec_rune_bytes\<close>)
    then have "q = of_char c" "n = 1" using d by (simp_all add: dec_rune_bytes)
    then show ?thesis using e by simp
  qed
qed simp

lemma text_of_ascii:
  "set u \<subseteq> set (runetext s) \<Longrightarrow> list_all (\<lambda>x. fst x < 0x80) u \<Longrightarrow> text_of u = map (\<lambda>x. char_of (fst x)) u"
proof (induction u)
  case (Cons x u)
  obtain r w where x: "x = (r, w)" by (cases x)
  have "w = [char_of r]" by (rule runetext_ascii) (use Cons(2,3) x in auto)
  then show ?case using Cons x by (simp add: text_of_def)
qed (simp add: text_of_def)

end
