(* ===== verification/ChatRules.thy ===== *)
theory ChatRules
  imports Regexp Nodes
begin

section \<open>Reading a chat message without a language model\<close>

text \<open>
  The rules of internal/agent/eino/chat.go that take travel information out of a Chinese message: the
  patterns, and one function per field. The patterns are the expressions of the file, alternative by
  alternative; characters are given by their code points.
\<close>

subsection \<open>Patterns\<close>

definition chinese_digits :: rclass where
  "chinese_digits = one_of [0x4E00, 0x4E8C, 0x4E24, 0x4E09, 0x56DB, 0x4E94, 0x516D, 0x4E03, 0x516B, 0x4E5D, 0x5341]"

definition sentence_end :: "nat list" where
  "sentence_end = [0xFF0C, 0x3002, 0xFF1B]@ [0x3B]"

abbreviation "digits12 \<equiv> Rep digit_class 1 (Some 2) True"

definition arabicDayPattern :: rx where
  "arabicDayPattern = seqs [Group 1 digits12, spaces,
     alts [lit [0x5929], lit [0x65E5], Seq (lit_fold (ascii ''day'')) (Opt (lit_fold (ascii ''s'')))]]"

definition chineseDayPattern :: rx where
  "chineseDayPattern = seqs [Group 1 (Rep chinese_digits 1 (Some 3) True), spaces, alts [lit [0x5929], lit [0x65E5]]]"

definition arabicTravelersPattern :: rx where
  "arabicTravelersPattern = seqs [Group 1 digits12, spaces,
     alts [lit [0x4EBA], lit [0x4F4D], lit [0x4E2A, 0x4EBA], lit_fold (ascii ''adult''), lit_fold (ascii ''adults''),
       lit_fold (ascii ''traveler''), lit_fold (ascii ''travelers'')]]"

definition chineseTravelersPattern :: rx where
  "chineseTravelersPattern = seqs [Group 1 (Rep chinese_digits 1 (Some 3) True), spaces,
     alts [lit [0x4EBA], lit [0x4F4D], lit [0x4E2A, 0x4EBA]]]"

definition amount_rx :: rx where
  "amount_rx = Seq (Rep digit_class 1 None True) (Opt (Seq (lit [0x2E]) (Rep digit_class 1 None True)))"

definition unit_rx :: rx where
  "unit_rx = alts [lit_fold (ascii ''k''), lit_fold (ascii ''k''), lit [0x5343], lit [0x4E07], lit [0x5143], lit [0x5757]]"

definition budgetWithKeywordPattern :: rx where
  "budgetWithKeywordPattern = seqs [
     alts [lit [0x9884, 0x7B97], lit [0x4EBA, 0x5747], lit [0x8D39, 0x7528], lit [0x82B1, 0x8D39], lit [0x63A7, 0x5236, 0x5728], lit [0x5927, 0x6982], lit [0x7EA6], lit [0x5DE6, 0x53F3]], spaces,
     Opt (alts [lit [0x4EBA, 0x6C11, 0x5E01], lit_fold (ascii ''rmb''), lit [0xA5], lit [0xFFE5]]), spaces,
     Group 1 amount_rx, spaces, Opt (Group 2 unit_rx)]"

definition budgetWithUnitPattern :: rx where
  "budgetWithUnitPattern = seqs [Group 1 amount_rx, spaces, Group 2 unit_rx]"

definition day_sign :: rx where
  "day_sign = Opt (alts [lit [0x65E5], lit [0x53F7]])"

definition month_day_rx :: rx where
  "month_day_rx = seqs [digits12, spaces, lit [0x6708], spaces, digits12, spaces, day_sign,
     Opt (seqs [spaces, Class (one_of [0x2D, 0x7E, 0x5230, 0x81F3]), spaces, digits12, spaces, Opt (lit [0x6708]), spaces,
       Rep digit_class 0 (Some 2) True, spaces, day_sign])]"

definition iso_date_rx :: rx where
  "iso_date_rx = seqs [Rep digit_class 4 (Some 4) True, lit [0x2D], digits12, lit [0x2D], digits12]"

definition dateRangePattern :: rx where
  "dateRangePattern = Group 1 (alts [month_day_rx, iso_date_rx, lit [0x672C, 0x5468, 0x672B], lit [0x5468, 0x672B], lit [0x4E0B, 0x5468, 0x672B], lit [0x4E0B, 0x5468], lit [0x660E, 0x5929],
     lit [0x540E, 0x5929], lit [0x6691, 0x5047], lit [0x56FD, 0x5E86], lit [0x6625, 0x8282], lit [0x4E94, 0x4E00], lit [0x7AEF, 0x5348], lit [0x4E2D, 0x79CB]])"

abbreviation "to_sentence_end \<equiv> Rep (none_of sentence_end) 1 None True"

definition mustVisitPattern :: rx where
  "mustVisitPattern = seqs [alts [lit [0x5FC5, 0x53BB], lit [0x4E00, 0x5B9A, 0x8981, 0x53BB], lit [0x60F3, 0x53BB], lit [0x5FC5, 0x987B, 0x5B89, 0x6392]], spaces, Group 1 to_sentence_end]"

definition avoidPattern :: rx where
  "avoidPattern = seqs [alts [lit [0x907F, 0x5F00], lit [0x4E0D, 0x8981], lit [0x4E0D, 0x60F3, 0x53BB], lit [0x522B, 0x5B89, 0x6392], lit [0x4E0D, 0x5B89, 0x6392], lit [0x4E0D, 0x559C, 0x6B22]], spaces,
     Group 1 to_sentence_end]"

definition hotelAreaPattern :: rx where
  "hotelAreaPattern = seqs [alts [lit [0x9152, 0x5E97], lit [0x4F4F, 0x5BBF], lit [0x4F4F]], Opt (alts [lit [0x533A, 0x57DF], lit [0x4F4D, 0x7F6E], lit [0x9644, 0x8FD1], lit [0x5728]]), spaces,
     Group 1 (Rep (none_of sentence_end) 2 (Some 16) True)]"

abbreviation "name_rx \<equiv> Group 1 (Rep word_class 2 (Some 20) False)"

definition departurePatterns :: "rx list" where
  "departurePatterns = [
     seqs [alts [lit [0x4ECE], Seq (lit [0x51FA, 0x53D1, 0x5730]) (Opt (alts [lit [0x662F], lit [0x4E3A]])), Seq (lit [0x8D77, 0x70B9]) (Opt (alts [lit [0x662F], lit [0x4E3A]]))], spaces,
       name_rx, alts [lit [0x51FA, 0x53D1], lit [0x5230], lit [0x53BB], lit [0x524D, 0x5F80], Class (one_of sentence_end), EndText]],
     seqs [name_rx, spaces, lit [0x51FA, 0x53D1]]]"

definition destinationPatterns :: "rx list" where
  "destinationPatterns = [
     seqs [alts [Seq (lit [0x76EE, 0x7684, 0x5730]) (Opt (alts [lit [0x662F], lit [0x4E3A]])), lit [0x53BB], lit [0x5230], lit [0x524D, 0x5F80]], spaces, name_rx,
       alts [lit [0x73A9], lit [0x6E38, 0x73A9], lit [0x65C5, 0x6E38], lit [0x65C5, 0x884C], Class digit_class, Class chinese_digits, lit [0x5929], lit [0x65E5],
         Class (one_of sentence_end), EndText]]]"

definition cityCandidatePattern :: rx where
  "cityCandidatePattern = Rep word_class 2 (Some 20) True"

text \<open>\<open>splitMessagePattern\<close> and the separators of \<open>extractListByPattern\<close>: one or more runes of these classes.\<close>

definition split_class :: rclass where
  "split_class = one_of (sentence_end @ [0x3001, 0x2C] @ [0x0A, 0x0D])"

definition list_class :: rclass where
  "list_class = one_of [0x3001, 0x2C, 0xFF0C, 0x548C, 0x53CA, 0x2F]"

subsection \<open>Cities\<close>

definition trim_cutset :: "nat list" where
  "trim_cutset = [0x20, 0xFF0C, 0x3002, 0xFF1B]@ [0x3B, 0x3001, 0x2C]"

definition cleanCityCandidate :: "string \<Rightarrow> string" where
  "cleanCityCandidate value =
     (let city = TrimSpace value;
          city = Trim city trim_cutset;
          city = fold (\<lambda>replacement city. TrimPrefix city replacement)
            [utf8 [0x76EE, 0x7684, 0x5730, 0x662F], utf8 [0x76EE, 0x7684, 0x5730, 0x4E3A], utf8 [0x76EE, 0x7684, 0x5730], utf8 [0x51FA, 0x53D1, 0x5730, 0x662F], utf8 [0x51FA, 0x53D1, 0x5730, 0x4E3A], utf8 [0x4ECE], utf8 [0x53BB], utf8 [0x5230], utf8 [0x524D, 0x5F80]] city;
          city = fold (\<lambda>suffix city. TrimSuffix city suffix) [utf8 [0x51FA, 0x53D1], utf8 [0x6E38, 0x73A9], utf8 [0x65C5, 0x6E38], utf8 [0x65C5, 0x884C], utf8 [0x73A9], utf8 [0x5E02]] city
      in TrimSpace (Trim city trim_cutset))"

definition isUsableCityCandidate :: "string \<Rightarrow> bool" where
  "isUsableCityCandidate city \<longleftrightarrow> city \<noteq> [] \<and> city \<notin> set [utf8 [0x9884, 0x7B97], utf8 [0x559C, 0x6B22], utf8 [0x504F, 0x597D], utf8 [0x8F7B, 0x677E], utf8 [0x81EA, 0x7136, 0x98CE, 0x5149]]"

text \<open>The city a pattern captures, if it is usable and not the excluded one.\<close>

definition captured_city :: "string option \<Rightarrow> string \<Rightarrow> rx \<Rightarrow> string option" where
  "captured_city excluded message pattern =
     (case FindStringSubmatch pattern message of
        None \<Rightarrow> None
      | Some sub \<Rightarrow>
          (let city = cleanCityCandidate (sub 1)
           in if isUsableCityCandidate city \<and> excluded \<noteq> Some city then Some city else None))"

fun first_some :: "('a \<Rightarrow> 'b option) \<Rightarrow> 'a list \<Rightarrow> 'b option" where
  "first_some f [] = None"
| "first_some f (x # xs) = (case f x of Some y \<Rightarrow> Some y | None \<Rightarrow> first_some f xs)"

definition extractDepartureCity :: "string \<Rightarrow> string" where
  "extractDepartureCity message = (case first_some (captured_city None message) departurePatterns of Some city \<Rightarrow> city | None \<Rightarrow> [])"

definition segment_city :: "string \<Rightarrow> string \<Rightarrow> string option" where
  "segment_city departureCity segment =
     (if \<not> MatchString arabicDayPattern segment \<and> \<not> MatchString chineseDayPattern segment then None
      else if Contains segment (utf8 [0x51FA, 0x53D1]) then None
      else (let m = FindString cityCandidatePattern segment
            in if m = [] then None
               else (let city = cleanCityCandidate m
                     in if isUsableCityCandidate city \<and> city \<noteq> departureCity then Some city else None)))"

definition extractDestinationCity :: "string \<Rightarrow> string \<Rightarrow> string" where
  "extractDestinationCity message departureCity =
     (case first_some (captured_city (Some departureCity) message) destinationPatterns of
        Some city \<Rightarrow> city
      | None \<Rightarrow>
          (case first_some (segment_city departureCity) (Split_rx split_class message) of
             Some city \<Rightarrow> city
           | None \<Rightarrow> []))"

subsection \<open>Numbers\<close>

definition small_digit :: "nat \<Rightarrow> int" where
  "small_digit r = (case map_of (zip [0x4E00, 0x4E8C, 0x4E24, 0x4E09, 0x56DB, 0x4E94, 0x516D, 0x4E03, 0x516B, 0x4E5D] [1, 2, 2, 3, 4, 5, 6, 7, 8, 9]) r of Some d \<Rightarrow> d | None \<Rightarrow> 0)"

definition ten_sign :: string where "ten_sign = utf8 [0x5341]"

definition first_digit :: "string \<Rightarrow> int" where
  "first_digit s = small_digit (hd (runes s))"

definition parseSmallChineseNumber :: "string \<Rightarrow> int" where
  "parseSmallChineseNumber value =
     (if value = ten_sign then 10
      else if length (runes value) = 1 then first_digit value
      else if Contains value ten_sign then
        (let parts = Split_str value ten_sign;
             tens = (if parts ! 0 \<noteq> [] then first_digit (parts ! 0) else 1);
             ones = (if 1 < length parts \<and> parts ! 1 \<noteq> [] then first_digit (parts ! 1) else 0)
         in tens * 10 + ones)
      else 0)"

definition extractDays :: "string \<Rightarrow> int" where
  "extractDays message =
     (let chinese = (case FindStringSubmatch chineseDayPattern message of Some sub \<Rightarrow> parseSmallChineseNumber (sub 1) | None \<Rightarrow> 0)
      in case FindStringSubmatch arabicDayPattern message of
           Some sub \<Rightarrow> (case Atoi (sub 1) of Some days \<Rightarrow> days | None \<Rightarrow> chinese)
         | None \<Rightarrow> chinese)"

definition extractTravelers :: "string \<Rightarrow> int" where
  "extractTravelers message =
     (let by_word =
            (if Contains message (utf8 [0x60C5, 0x4FA3]) \<or> Contains message (utf8 [0x4E24, 0x4E2A, 0x4EBA]) \<or> Contains message (utf8 [0x4FE9, 0x4EBA]) then 2
             else if Contains message (utf8 [0x72EC, 0x81EA]) \<or> Contains message (utf8 [0x4E00, 0x4E2A, 0x4EBA]) \<or> Contains message (utf8 [0x5355, 0x4EBA]) then 1
             else 0);
          chinese = (case FindStringSubmatch chineseTravelersPattern message of Some sub \<Rightarrow> parseSmallChineseNumber (sub 1) | None \<Rightarrow> by_word)
      in case FindStringSubmatch arabicTravelersPattern message of
           Some sub \<Rightarrow> (case Atoi (sub 1) of Some travelers \<Rightarrow> travelers | None \<Rightarrow> chinese)
         | None \<Rightarrow> chinese)"

definition extractDateRange :: "string \<Rightarrow> string" where
  "extractDateRange message = (let m = FindString dateRangePattern message in if m \<noteq> [] then TrimSpace m else [])"

text \<open>
  \<open>strconv.ParseFloat\<close> of digits with an optional fraction, the only texts \<open>amount_rx\<close> captures: the nearest
  float64, an error beyond the largest.
\<close>

definition decimal_value :: "string \<Rightarrow> rat" where
  "decimal_value s =
     (let whole = takeWhile is_digit s; frac = drop (length whole + 1) s
      in of_nat (digits_value whole) + of_nat (digits_value frac) / 10 ^ length frac)"

definition ParseFloat :: "string \<Rightarrow> float64 option" where
  "ParseFloat s = (let f = f_of_rat (decimal_value s) in if is_finite f then Some f else None)"

definition extractBudgetWithPattern :: "string \<Rightarrow> rx \<Rightarrow> float64" where
  "extractBudgetWithPattern message pattern =
     (case FindStringSubmatch pattern message of
        None \<Rightarrow> f_zero
      | Some sub \<Rightarrow>
          (case ParseFloat (sub 1) of
             None \<Rightarrow> f_zero
           | Some amount \<Rightarrow>
               (let unit = ToLower (sub 2)
                in if unit = ''k'' \<or> unit = utf8 [0x5343] then f_mul amount (f_of_int 1000)
                   else if unit = utf8 [0x4E07] then f_mul amount (f_of_int 10000)
                   else amount)))"

definition extractBudget :: "string \<Rightarrow> float64" where
  "extractBudget message =
     (let budget = extractBudgetWithPattern message budgetWithKeywordPattern
      in if f_less f_zero budget then budget else extractBudgetWithPattern message budgetWithUnitPattern)"

subsection \<open>Words\<close>

definition interest_groups :: "(string \<times> string list) list" where
  "interest_groups = [
     (utf8 [0x7F8E, 0x98DF], [utf8 [0x7F8E, 0x98DF], utf8 [0x5C0F, 0x5403], utf8 [0x9910, 0x5385], utf8 [0x5403]]),
     (utf8 [0x81EA, 0x7136, 0x98CE, 0x5149], [utf8 [0x81EA, 0x7136, 0x98CE, 0x5149], utf8 [0x81EA, 0x7136], utf8 [0x98CE, 0x666F], utf8 [0x5C71, 0x6C34], utf8 [0x897F, 0x6E56]]),
     (utf8 [0x5386, 0x53F2, 0x6587, 0x5316], [utf8 [0x5386, 0x53F2, 0x6587, 0x5316], utf8 [0x5386, 0x53F2], utf8 [0x6587, 0x5316], utf8 [0x535A, 0x7269, 0x9986], utf8 [0x53E4, 0x9547], utf8 [0x4EBA, 0x6587]]),
     (utf8 [0x8D2D, 0x7269], [utf8 [0x8D2D, 0x7269], utf8 [0x5546, 0x573A]]),
     (utf8 [0x4EB2, 0x5B50], [utf8 [0x4EB2, 0x5B50], utf8 [0x5B69, 0x5B50], utf8 [0x513F, 0x7AE5]]),
     (utf8 [0x591C, 0x666F], [utf8 [0x591C, 0x666F], utf8 [0x591C, 0x751F, 0x6D3B]]),
     (utf8 [0x6444, 0x5F71], [utf8 [0x6444, 0x5F71], utf8 [0x62CD, 0x7167]]),
     (utf8 [0x5496, 0x5561], [utf8 [0x5496, 0x5561]]),
     (''citywalk'', [''citywalk'', utf8 [0x57CE, 0x5E02, 0x6F2B, 0x6B65], utf8 [0x6B65, 0x884C]])]"

definition extractInterests :: "string \<Rightarrow> string list" where
  "extractInterests message =
     map fst (filter (\<lambda>(value, keywords). list_ex (\<lambda>k. Contains (ToLower message) (ToLower k)) keywords) interest_groups)"

definition contains_any :: "string \<Rightarrow> string list \<Rightarrow> bool" where
  "contains_any message words = list_ex (Contains message) words"

definition extractWalkingTolerance :: "string \<Rightarrow> string" where
  "extractWalkingTolerance message =
     (if contains_any message [utf8 [0x5C11, 0x8D70], utf8 [0x4E0D, 0x60F3, 0x8D70], utf8 [0x5C11, 0x6B65, 0x884C], utf8 [0x8D70, 0x8DEF, 0x5C11]] then ''low''
      else if contains_any message [utf8 [0x6B65, 0x884C, 0x9002, 0x4E2D], utf8 [0x9002, 0x4E2D, 0x6B65, 0x884C], utf8 [0x80FD, 0x8D70, 0x4E00, 0x70B9]] then ''medium''
      else if contains_any message [utf8 [0x4E0D, 0x4ECB, 0x610F, 0x8D70], utf8 [0x591A, 0x8D70, 0x8DEF], utf8 [0x5F92, 0x6B65]] then ''high''
      else [])"

definition extractHotelArea :: "string \<Rightarrow> string" where
  "extractHotelArea message =
     (case FindStringSubmatch hotelAreaPattern message of
        None \<Rightarrow> []
      | Some sub \<Rightarrow> TrimSpace (Trim (sub 1) trim_cutset))"

definition extractListByPattern :: "string \<Rightarrow> rx \<Rightarrow> string list" where
  "extractListByPattern message pattern =
     (case FindStringSubmatch pattern message of
        None \<Rightarrow> []
      | Some sub \<Rightarrow>
          (let raw = Trim (TrimSpace (sub 1)) trim_cutset
           in if raw = [] then []
              else filter (\<lambda>part. part \<noteq> []) (map (\<lambda>part. TrimSpace (Trim part trim_cutset)) (Split_rx list_class raw))))"

definition extractTravelerType :: "string \<Rightarrow> string" where
  "extractTravelerType message =
     (if contains_any message [utf8 [0x8001, 0x4EBA], utf8 [0x7236, 0x6BCD], utf8 [0x957F, 0x8F88]] then utf8 [0x8001, 0x4EBA]
      else if contains_any message [utf8 [0x5B69, 0x5B50], utf8 [0x513F, 0x7AE5], utf8 [0x4EB2, 0x5B50]] then utf8 [0x4EB2, 0x5B50]
      else if Contains message (utf8 [0x60C5, 0x4FA3]) then utf8 [0x60C5, 0x4FA3]
      else if contains_any message [utf8 [0x670B, 0x53CB], utf8 [0x540C, 0x5B66]] then utf8 [0x670B, 0x53CB]
      else if contains_any message [utf8 [0x5546, 0x52A1], utf8 [0x51FA, 0x5DEE]] then utf8 [0x5546, 0x52A1]
      else [])"

definition extractBudgetType :: "string \<Rightarrow> string" where
  "extractBudgetType message =
     (if Contains message (utf8 [0x4EBA, 0x5747]) \<or> Contains (ToLower message) ''per person'' then ''per_person''
      else if contains_any message [utf8 [0x603B, 0x9884, 0x7B97], utf8 [0x603B, 0x5171], utf8 [0x603B, 0x8BA1]] then ''total''
      else [])"

definition extractBudgetIncludes :: "string \<Rightarrow> string list" where
  "extractBudgetIncludes message =
     (let lower = ToLower message;
          includes =
            (if contains_any message [utf8 [0x542B, 0x4F4F, 0x5BBF], utf8 [0x5305, 0x542B, 0x4F4F, 0x5BBF], utf8 [0x5305, 0x62EC, 0x4F4F, 0x5BBF]] then [utf8 [0x4F4F, 0x5BBF]] else []) @
            (if contains_any message [utf8 [0x542B, 0x9910], utf8 [0x5305, 0x542B, 0x9910, 0x996E], utf8 [0x5305, 0x62EC, 0x9910, 0x996E]] then [utf8 [0x9910, 0x996E]] else []) @
            (if contains_any message [utf8 [0x542B, 0x95E8, 0x7968], utf8 [0x5305, 0x542B, 0x95E8, 0x7968], utf8 [0x5305, 0x62EC, 0x95E8, 0x7968]] then [utf8 [0x95E8, 0x7968]] else []) @
            (if contains_any message [utf8 [0x542B, 0x4EA4, 0x901A], utf8 [0x5E02, 0x5185, 0x4EA4, 0x901A], utf8 [0x6253, 0x8F66]] then [utf8 [0x5E02, 0x5185, 0x4EA4, 0x901A]] else [])
      in if contains_any message [utf8 [0x5927, 0x4EA4, 0x901A], utf8 [0x5F80, 0x8FD4, 0x4EA4, 0x901A]] \<or> Contains lower ''round trip'' then
           if contains_any message [utf8 [0x4E0D, 0x542B], utf8 [0x4E0D, 0x5305, 0x542B]] then DefaultBudgetIncludes
           else mergeUniqueStrings [] (includes @ [utf8 [0x5F80, 0x8FD4, 0x5927, 0x4EA4, 0x901A]])
         else mergeUniqueStrings [] includes)"

definition extractTransportMode :: "string \<Rightarrow> string" where
  "extractTransportMode message =
     (if contains_any message [utf8 [0x4EA4, 0x901A, 0x65E0, 0x8981, 0x6C42], utf8 [0x4EA4, 0x901A, 0x4EFB, 0x610F]] then ''any''
      else if contains_any message [utf8 [0x98DE, 0x673A], utf8 [0x822A, 0x73ED]] then ''flight_taxi''
      else if Contains message (utf8 [0x5730, 0x94C1]) then ''subway_walk''
      else if contains_any message [utf8 [0x9AD8, 0x94C1], utf8 [0x706B, 0x8F66], utf8 [0x52A8, 0x8F66]] then
        (if Contains message (utf8 [0x6B65, 0x884C]) \<and> \<not> Contains message (utf8 [0x5C11, 0x8D70]) then ''train_walk'' else ''train_taxi'')
      else if Contains message (utf8 [0x6B65, 0x884C]) \<and> contains_any message [utf8 [0x6253, 0x8F66], utf8 [0x51FA, 0x79DF]] then ''walk_taxi''
      else [])"

definition extractPace :: "string \<Rightarrow> string" where
  "extractPace message =
     (if contains_any message [utf8 [0x8F7B, 0x677E], utf8 [0x60A0, 0x95F2], utf8 [0x6162], utf8 [0x4E0D, 0x8D76]] then ''relaxed''
      else if contains_any message [utf8 [0x7D27, 0x51D1], utf8 [0x591A, 0x5B89, 0x6392], utf8 [0x5145, 0x5B9E], utf8 [0x7279, 0x79CD, 0x5175]] then ''intensive''
      else if contains_any message [utf8 [0x5E73, 0x8861], utf8 [0x9002, 0x4E2D]] then ''balanced''
      else [])"

subsection \<open>A whole message\<close>

definition extractTravelInfoFromMessage :: "string \<Rightarrow> TravelRequest" where
  "extractTravelInfoFromMessage message =
     (let normalized = TrimSpace message;
          departure = extractDepartureCity normalized
      in \<lparr>rq_ID = [], rq_DepartureCity = departure, rq_DestinationCity = extractDestinationCity normalized departure,
          rq_Days = extractDays normalized, rq_Budget = extractBudget normalized, rq_Interests = extractInterests normalized,
          rq_Travelers = extractTravelers normalized, rq_DateRange = extractDateRange normalized,
          rq_TransportMode = extractTransportMode normalized, rq_Pace = extractPace normalized,
          rq_WalkingTolerance = extractWalkingTolerance normalized, rq_HotelArea = extractHotelArea normalized,
          rq_MustVisit = extractListByPattern normalized mustVisitPattern, rq_Avoid = extractListByPattern normalized avoidPattern,
          rq_TravelerType = extractTravelerType normalized, rq_BudgetType = extractBudgetType normalized,
          rq_BudgetIncludes = extractBudgetIncludes normalized\<rparr>)"

end
