(* ===== verification/LlmClient.thy ===== *)
theory LlmClient
  imports EinoPlanner SummaryStream
begin

section \<open>The client of the language model\<close>

text \<open>
  The rest of internal/agent/eino/llm.go, with llm_stream.go, schema.go and prompt.go: the request that is built
  for a mode, the answer that is read as a whole or frame by frame, the tool call taken out of it, and the plan
  parsed from its arguments. The provider is a parameter: an answer for every request. So are the decoders of
  package encoding/json for the structs of this file, and the order in which Go visits a map.
\<close>

subsection \<open>Schemas\<close>

datatype schema =
  SchemaType string
| SchemaTypes "string list"
| SchemaEnum "string list"
| SchemaArray schema
| SchemaObject "(string \<times> schema) list" "string list"

definition objectSchema :: "(string \<times> schema) list \<Rightarrow> string list \<Rightarrow> schema" where
  "objectSchema properties required = SchemaObject properties required"

definition arraySchema :: "schema \<Rightarrow> schema" where "arraySchema items = SchemaArray items"
definition stringSchema :: schema where "stringSchema = SchemaType ''string''"
definition numberSchema :: schema where "numberSchema = SchemaType ''number''"
definition nullableNumberSchema :: schema where "nullableNumberSchema = SchemaTypes [''number'', ''null'']"
definition integerSchema :: schema where "integerSchema = SchemaType ''integer''"
definition booleanSchema :: schema where "booleanSchema = SchemaType ''boolean''"
definition enumSchema :: "string list \<Rightarrow> schema" where "enumSchema values = SchemaEnum values"

definition cost_statuses :: schema where
  "cost_statuses = enumSchema [''available'', ''unavailable'', ''not_applicable'']"

definition costInfoSchema :: schema where
  "costInfoSchema = objectSchema
     [(''amount'', nullableNumberSchema), (''currency'', stringSchema), (''unit'', stringSchema),
      (''status'', cost_statuses), (''source'', stringSchema), (''display'', stringSchema), (''included'', booleanSchema)]
     [''amount'', ''currency'', ''unit'', ''status'', ''source'', ''display'', ''included'']"

definition budgetLineSchema :: schema where
  "budgetLineSchema = objectSchema
     [(''key'', stringSchema), (''label'', stringSchema), (''amount'', nullableNumberSchema), (''currency'', stringSchema),
      (''status'', cost_statuses), (''source'', stringSchema), (''display'', stringSchema), (''included'', booleanSchema)]
     [''key'', ''label'', ''amount'', ''currency'', ''status'', ''source'', ''display'', ''included'']"

definition travelBudgetSchema :: schema where
  "travelBudgetSchema = objectSchema
     [(''transport'', numberSchema), (''food'', numberSchema), (''hotel'', numberSchema), (''ticket'', numberSchema),
      (''total'', numberSchema), (''known_total'', numberSchema), (''complete'', booleanSchema), (''currency'', stringSchema),
      (''items'', arraySchema budgetLineSchema), (''missing'', arraySchema stringSchema)]
     [''transport'', ''food'', ''hotel'', ''ticket'', ''total'', ''known_total'', ''complete'', ''currency'', ''items'', ''missing'']"

definition travelItemSchema :: schema where
  "travelItemSchema = objectSchema
     [(''time'', stringSchema), (''type'', stringSchema), (''name'', stringSchema), (''address'', stringSchema),
      (''reason'', stringSchema), (''estimated_cost'', numberSchema), (''cost'', costInfoSchema), (''duration_minutes'', integerSchema)]
     [''time'', ''type'', ''name'', ''address'', ''reason'', ''estimated_cost'', ''cost'', ''duration_minutes'']"

definition travelDaySchema :: schema where
  "travelDaySchema = objectSchema
     [(''day'', integerSchema), (''theme'', stringSchema), (''items'', arraySchema travelItemSchema)]
     [''day'', ''theme'', ''items'']"

definition travelPlanJSONSchema :: schema where
  "travelPlanJSONSchema = objectSchema
     [(''title'', stringSchema), (''summary'', stringSchema), (''days'', arraySchema travelDaySchema),
      (''budget'', travelBudgetSchema), (''warnings'', arraySchema stringSchema)]
     [''title'', ''summary'', ''days'', ''budget'', ''warnings'']"

text \<open>What a provider's strict mode asks for: every property of every object is required, once.\<close>

fun strict_schema :: "schema \<Rightarrow> bool" where
  "strict_schema (SchemaArray items) = strict_schema items"
| "strict_schema (SchemaObject properties required) =
     (map fst properties = required \<and> distinct required \<and> list_all strict_schema (map snd properties))"
| "strict_schema _ = True"

subsection \<open>Requests\<close>

definition submitTravelPlanToolName :: string where "submitTravelPlanToolName = ''submit_travel_plan''"

record chatMessage =
  cm_Role :: string
  cm_Content :: string

record chatTool =
  ft_Type :: string
  ft_Name :: string
  ft_Description :: string
  ft_Parameters :: "schema option"
  ft_Strict :: bool

text \<open>
  The tool choice is the name of the function it forces, the response format the schema of its strict
  json_schema named travel_plan; the temperature is always 0.2.
\<close>

record chatCompletionRequest =
  cc_Model :: string
  cc_Messages :: "chatMessage list"
  cc_Tools :: "chatTool list"
  cc_ToolChoice :: "string option"
  cc_Thinking :: "string option"
  cc_ResponseFormat :: "schema option option"
  cc_Stream :: bool

definition modelForMode :: "LLMConfig \<Rightarrow> string \<Rightarrow> string" where
  "modelForMode cfg agentMode =
     (if EqualFold agentMode ''expert'' \<and> TrimSpace (lc_ExpertModel cfg) \<noteq> [] then lc_ExpertModel cfg
      else if TrimSpace (lc_QuickModel cfg) \<noteq> [] then lc_QuickModel cfg
      else lc_Model cfg)"

definition modelSupportsToolCall :: "string \<Rightarrow> bool" where
  "modelSupportsToolCall model \<longleftrightarrow> \<not> Contains (ToLower model) ''reasoner''"

definition is_deepseek :: "string \<Rightarrow> bool" where
  "is_deepseek provider \<longleftrightarrow> EqualFold provider ''deepseek''"

definition buildChatCompletionRequest ::
  "LLMConfig \<Rightarrow> chatMessage list \<Rightarrow> schema option \<Rightarrow> string \<Rightarrow> string \<Rightarrow> string \<Rightarrow> chatCompletionRequest" where
  "buildChatCompletionRequest cfg messages schema toolName toolDesc agentMode =
     (let model = modelForMode cfg agentMode;
          req = \<lparr>cc_Model = model, cc_Messages = messages, cc_Tools = [], cc_ToolChoice = None, cc_Thinking = None,
                 cc_ResponseFormat = None, cc_Stream = False\<rparr>
      in if is_deepseek (lc_Provider cfg) \<and> modelSupportsToolCall model then
           (let name = (if toolName = [] then submitTravelPlanToolName else toolName);
                desc = (if toolDesc = [] then utf8 [0x63D0, 0x4EA4, 0x6700, 0x7EC8, 0x7684, 0x7ED3, 0x6784, 0x5316, 0x8F93, 0x51FA, 0x3002] else toolDesc)
            in req\<lparr>cc_Tools := [\<lparr>ft_Type = ''function'', ft_Name = name, ft_Description = desc, ft_Parameters = schema, ft_Strict = True\<rparr>],
                 cc_ToolChoice := Some name, cc_Thinking := Some ''disabled''\<rparr>)
         else req\<lparr>cc_ResponseFormat := Some schema\<rparr>)"

definition chatCompletionsEndpoint :: "string \<Rightarrow> string" where
  "chatCompletionsEndpoint baseURL =
     (let baseURL = TrimRight (TrimSpace baseURL) [0x2F]
      in if HasSuffix baseURL ''/chat/completions'' then baseURL else baseURL @ ''/chat/completions'')"

text \<open>prompt.go: the messages of the planning request; the context is marshalled by encoding/json.\<close>

definition plannerModeInstruction :: "string \<Rightarrow> string" where
  "plannerModeInstruction mode = utf8 [0x8BF7, 0x5728, 0x4FDD, 0x8BC1, 0x4FE1, 0x606F, 0x51C6, 0x786E, 0x548C, 0x7ED3, 0x6784, 0x5B8C, 0x6574, 0x7684, 0x524D, 0x63D0, 0x4E0B, 0xFF0C, 0x751F, 0x6210, 0x7B80, 0x6D01, 0x3001, 0x5B9E, 0x7528, 0x7684, 0x884C, 0x7A0B, 0x3002]"

definition planning_system :: "string \<Rightarrow> string" where
  "planning_system agentMode = Join [
     utf8 [0x4F60, 0x662F, 0x65C5, 0x6E38, 0x8DEF, 0x7EBF, 0x89C4, 0x5212, 0x7EC4, 0x4EF6, 0x3002],
     utf8 [0x63D0, 0x793A, 0x8BCD, 0x7248, 0x672C, 0xFF1A] @ travelPlanPromptVersion @ utf8 [0x3002],
     utf8 [0x8BF7, 0x57FA, 0x4E8E, 0x7ED9, 0x5B9A, 0x7684, 0x89C4, 0x5212, 0x4E0A, 0x4E0B, 0x6587, 0xFF0C, 0x751F, 0x6210, 0x5B9E, 0x7528, 0x3001, 0x53EF, 0x6267, 0x884C, 0x7684, 0x65C5, 0x884C, 0x884C, 0x7A0B, 0x3002],
     plannerModeInstruction agentMode,
     utf8 [0x4EF7, 0x683C, 0x548C, 0x9884, 0x7B97, 0x53EA, 0x80FD, 0x4F7F, 0x7528, 0x4E0A, 0x4E0B, 0x6587, 0x4E2D, 0x20, 0x73, 0x74, 0x61, 0x74, 0x75, 0x73, 0x3D, 0x61, 0x76, 0x61, 0x69, 0x6C, 0x61, 0x62, 0x6C, 0x65, 0x20, 0x4E14, 0x20, 0x69, 0x6E, 0x63, 0x6C, 0x75, 0x64, 0x65, 0x64, 0x3D, 0x74, 0x72, 0x75, 0x65, 0x20, 0x7684, 0x771F, 0x5B9E, 0x91D1, 0x989D, 0x3002],
     utf8 [0x73, 0x74, 0x61, 0x74, 0x75, 0x73, 0x3D, 0x75, 0x6E, 0x61, 0x76, 0x61, 0x69, 0x6C, 0x61, 0x62, 0x6C, 0x65, 0x20, 0x7684, 0x8D39, 0x7528, 0x5FC5, 0x987B, 0x5C55, 0x793A, 0x4E3A, 0x201C, 0x6682, 0x65E0, 0x4FE1, 0x606F, 0x201D, 0xFF0C, 0x4E0D, 0x8981, 0x731C, 0x6D4B, 0x3001, 0x8865, 0x5168, 0x3001, 0x4F30, 0x7B97, 0x6216, 0x6309, 0x6BD4, 0x4F8B, 0x5206, 0x644A, 0x7F3A, 0x5931, 0x8D39, 0x7528, 0x3002],
     utf8 [0x9884, 0x7B97, 0x5408, 0x8BA1, 0x53EA, 0x80FD, 0x7EDF, 0x8BA1, 0x771F, 0x5B9E, 0x53EF, 0x5F97, 0x91D1, 0x989D, 0xFF1B, 0x5982, 0x679C, 0x9884, 0x7B97, 0x4E0D, 0x5B8C, 0x6574, 0xFF0C, 0x5FC5, 0x987B, 0x5728, 0x20, 0x73, 0x75, 0x6D, 0x6D, 0x61, 0x72, 0x79, 0x20, 0x6216, 0x20, 0x77, 0x61, 0x72, 0x6E, 0x69, 0x6E, 0x67, 0x73, 0x20, 0x4E2D, 0x8BF4, 0x660E, 0x54EA, 0x4E9B, 0x9879, 0x76EE, 0x6682, 0x65E0, 0x4FE1, 0x606F, 0x3002],
     utf8 [0x6700, 0x7EC8, 0x8DEF, 0x7EBF, 0x53EA, 0x80FD, 0x901A, 0x8FC7, 0x5DF2, 0x914D, 0x7F6E, 0x7684, 0x7ED3, 0x6784, 0x5316, 0x8F93, 0x51FA, 0x901A, 0x9053, 0x8FD4, 0x56DE, 0x3002],
     utf8 [0x4E0D, 0x8981, 0x5305, 0x542B, 0x5BC6, 0x94A5, 0x3001, 0x41, 0x50, 0x49, 0x20, 0x4B, 0x65, 0x79, 0x3001, 0x9690, 0x85CF, 0x63A8, 0x7406, 0x8FC7, 0x7A0B, 0xFF0C, 0x6216, 0x4EFB, 0x4F55, 0x4E0A, 0x4E0B, 0x6587, 0x6CA1, 0x6709, 0x652F, 0x6301, 0x7684, 0x5916, 0x90E8, 0x65AD, 0x8A00, 0x3002]] '' ''"

definition buildTravelPlanMessages ::
  "(TravelPlanningState \<Rightarrow> string + string) \<Rightarrow> TravelPlanningState \<Rightarrow> string \<Rightarrow> string + chatMessage list" where
  "buildTravelPlanMessages marshal state agentMode =
     (case marshal state of
        Inl e \<Rightarrow> Inl (''marshal planning context: '' @ e)
      | Inr data \<Rightarrow> Inr [\<lparr>cm_Role = ''system'', cm_Content = planning_system agentMode\<rparr>,
                        \<lparr>cm_Role = ''user'', cm_Content = utf8 [0x89C4, 0x5212, 0x4E0A, 0x4E0B, 0x6587, 0xFF1A] @ [CHR 0x0A] @ data\<rparr>])"

subsection \<open>Answers\<close>

record tokenUsage =
  us_PromptTokens :: int
  us_CompletionTokens :: int
  us_TotalTokens :: int

definition llmTokenUsage :: "tokenUsage \<Rightarrow> LLMTokenUsage" where
  "llmTokenUsage u =
     \<lparr>tu_PromptTokens = us_PromptTokens u, tu_CompletionTokens = us_CompletionTokens u, tu_TotalTokens = us_TotalTokens u,
      tu_Known = (0 < us_PromptTokens u \<or> 0 < us_CompletionTokens u \<or> 0 < us_TotalTokens u)\<rparr>"

definition no_usage :: LLMTokenUsage where
  "no_usage = \<lparr>tu_PromptTokens = 0, tu_CompletionTokens = 0, tu_TotalTokens = 0, tu_Known = False\<rparr>"

record chatToolCall =
  tc_Type :: string
  tc_Name :: string
  tc_Arguments :: string

record chatResponseMessage =
  rm_Content :: string
  rm_ToolCalls :: "chatToolCall list"

record chatCompletionResponse =
  cp_Choices :: "chatResponseMessage list"
  cp_Usage :: tokenUsage

text \<open>
  The forced tool's arguments, or the content. The two extractions of the file differ in the name of the tool and
  in whether a model without tool calls may answer in the content.
\<close>

definition tool_payload ::
  "(string \<Rightarrow> string + chatCompletionResponse) \<Rightarrow> LLMConfig \<Rightarrow> string \<Rightarrow> bool \<Rightarrow> string \<Rightarrow> string + string \<times> LLMTokenUsage" where
  "tool_payload decode cfg toolName content_too data =
     (case decode data of
        Inl e \<Rightarrow> Inl (''decode LLM response: '' @ e)
      | Inr resp \<Rightarrow>
          (case cp_Choices resp of
             [] \<Rightarrow> Inl ''LLM response has no choices''
           | message # _ \<Rightarrow>
               if is_deepseek (lc_Provider cfg) then
                 (case find (\<lambda>t. tc_Type t = ''function'' \<and> tc_Name t = toolName) (rm_ToolCalls message) of
                    Some t \<Rightarrow>
                      if TrimSpace (tc_Arguments t) = [] then Inl (toolName @ '' tool call has empty arguments'')
                      else Inr (tc_Arguments t, llmTokenUsage (cp_Usage resp))
                  | None \<Rightarrow>
                      if content_too \<and> TrimSpace (rm_Content message) \<noteq> []
                      then Inr (TrimSpace (rm_Content message), llmTokenUsage (cp_Usage resp))
                      else Inl (''LLM response did not call '' @ toolName))
               else if TrimSpace (rm_Content message) = [] then Inl ''LLM response content is empty''
               else Inr (rm_Content message, llmTokenUsage (cp_Usage resp))))"

definition extractTravelPlanPayload ::
  "(string \<Rightarrow> string + chatCompletionResponse) \<Rightarrow> LLMConfig \<Rightarrow> string \<Rightarrow> string + string \<times> LLMTokenUsage" where
  "extractTravelPlanPayload decode cfg data =
     tool_payload decode cfg submitTravelPlanToolName (\<not> modelSupportsToolCall (lc_Model cfg)) data"

text \<open>
  The body of an answer: the bytes that arrive and the error that ends them (none: the regular end).
  \<open>io.ReadAll\<close> of an \<open>io.LimitReader\<close> stops at the limit.
\<close>

record http_body =
  hb_bytes :: string
  hb_err :: "string option"

definition read_all :: "nat \<Rightarrow> http_body \<Rightarrow> string + string" where
  "read_all limit body =
     (if limit \<le> length (hb_bytes body) then Inr (take limit (hb_bytes body))
      else case hb_err body of None \<Rightarrow> Inr (hb_bytes body) | Some e \<Rightarrow> Inl e)"

text \<open>What comes of a request: the URL is refused, there is no answer, or a status and a body.\<close>

record http_request =
  hq_URL :: string
  hq_Authorization :: string
  hq_Payload :: chatCompletionRequest

datatype http_answer = BadURL string | NoAnswer string | Answer int http_body

type_synonym transport = "http_request \<Rightarrow> http_answer"

definition provider_request :: "LLMConfig \<Rightarrow> chatCompletionRequest \<Rightarrow> http_request" where
  "provider_request cfg payload =
     \<lparr>hq_URL = chatCompletionsEndpoint (lc_BaseURL cfg), hq_Authorization = ''Bearer '' @ lc_APIKey cfg, hq_Payload = payload\<rparr>"

text \<open>The buffered exchange: the whole body of a successful answer.\<close>

definition exchange :: "transport \<Rightarrow> LLMConfig \<Rightarrow> nat \<Rightarrow> chatCompletionRequest \<Rightarrow> string + string" where
  "exchange ask cfg limit payload =
     (case ask (provider_request cfg payload) of
        BadURL e \<Rightarrow> Inl (''build chat completion request: '' @ e)
      | NoAnswer e \<Rightarrow> Inl (''call LLM provider: '' @ e)
      | Answer status body \<Rightarrow>
          (case read_all limit body of
             Inl e \<Rightarrow> Inl (''read LLM response: '' @ e)
           | Inr data \<Rightarrow>
               if status < 200 \<or> 300 \<le> status
               then Inl (''LLM provider returned status '' @ Itoa status @ '': '' @ TrimSpace data)
               else Inr data))"

subsection \<open>Server-sent frames\<close>

record chatToolCallStreamPart =
  sp_Index :: int
  sp_Name :: string
  sp_Arguments :: string

record stream_choice =
  sc_Content :: string
  sc_ToolCalls :: "chatToolCallStreamPart list"
  sc_FinishReason :: string

record chatCompletionStreamChunk =
  ck_Choices :: "stream_choice list"
  ck_Usage :: "tokenUsage option"

text \<open>A Go map from the index of a tool call, its entries in the order they were made.\<close>

type_synonym index_map = "(int \<times> string) list"

definition at_index :: "index_map \<Rightarrow> int \<Rightarrow> string" where
  "at_index m i = (case map_of m i of Some v \<Rightarrow> v | None \<Rightarrow> [])"

definition put_index :: "int \<Rightarrow> string \<Rightarrow> index_map \<Rightarrow> index_map" where
  "put_index i v m = (if i \<in> fst ` set m then map (\<lambda>(j, w). if j = i then (i, v) else (j, w)) m else m @ [(i, v)])"

record streamResult =
  sr_Content :: string
  sr_ToolCallArguments :: index_map
  sr_ToolCallNames :: index_map
  sr_Usage :: LLMTokenUsage
  sr_Duration :: duration
  sr_FinishReason :: string
  sr_ChunksReceived :: int

definition empty_stream :: streamResult where
  "empty_stream = \<lparr>sr_Content = [], sr_ToolCallArguments = [], sr_ToolCallNames = [], sr_Usage = no_usage, sr_Duration = 0,
     sr_FinishReason = [], sr_ChunksReceived = 0\<rparr>"

text \<open>
  What a stream has given so far: the result, the calls of \<open>onDelta\<close> and the calls of \<open>onToolArgs\<close>.
\<close>

type_synonym stream_state = "streamResult \<times> string list \<times> (int \<times> string) list"

fun stream_tool :: "chatToolCallStreamPart \<Rightarrow> stream_state \<Rightarrow> stream_state" where
  "stream_tool tc (r, deltas, calls) =
     (let r = (if sp_Name tc \<noteq> [] then r\<lparr>sr_ToolCallNames := put_index (sp_Index tc) (sp_Name tc) (sr_ToolCallNames r)\<rparr> else r)
      in if sp_Arguments tc \<noteq> [] then
           (let accumulated = at_index (sr_ToolCallArguments r) (sp_Index tc) @ sp_Arguments tc
            in (r\<lparr>sr_ToolCallArguments := put_index (sp_Index tc) accumulated (sr_ToolCallArguments r)\<rparr>,
                deltas, calls @ [(sp_Index tc, accumulated)]))
         else (r, deltas, calls))"

definition stream_choice_step :: "stream_choice \<Rightarrow> stream_state \<Rightarrow> stream_state" where
  "stream_choice_step choice = (\<lambda>(r, deltas, calls).
     let st = (if sc_Content choice \<noteq> []
               then (r\<lparr>sr_Content := sr_Content r @ sc_Content choice\<rparr>, deltas @ [sc_Content choice], calls)
               else (r, deltas, calls));
         (r, deltas, calls) = fold stream_tool (sc_ToolCalls choice) st
     in (if sc_FinishReason choice \<noteq> [] then r\<lparr>sr_FinishReason := sc_FinishReason choice\<rparr> else r, deltas, calls))"

definition stream_chunk :: "chatCompletionStreamChunk \<Rightarrow> stream_state \<Rightarrow> stream_state" where
  "stream_chunk chunk = (\<lambda>(r, deltas, calls).
     let r = r\<lparr>sr_ChunksReceived := sr_ChunksReceived r + 1\<rparr>;
         r = (case ck_Usage chunk of Some u \<Rightarrow> r\<lparr>sr_Usage := llmTokenUsage u\<rparr> | None \<Rightarrow> r)
     in fold stream_choice_step (ck_Choices chunk) (r, deltas, calls))"

text \<open>\<open>flushEvent\<close>: the data lines of the event, joined; the flag says that it was the end marker.\<close>

definition event_data :: "string list \<Rightarrow> string option" where
  "event_data eventLines =
     (let dataLines = map (\<lambda>line. TrimPrefix (TrimPrefix line ''data:'') '' '') (filter (\<lambda>line. HasPrefix line ''data:'') eventLines)
      in if dataLines = [] then None else Some (Join dataLines [CHR 0x0A]))"

definition flushEvent ::
  "(string \<Rightarrow> chatCompletionStreamChunk option) \<Rightarrow> string list \<Rightarrow> stream_state \<Rightarrow> bool \<times> stream_state" where
  "flushEvent decode eventLines st =
     (case event_data eventLines of
        None \<Rightarrow> (False, st)
      | Some data \<Rightarrow>
          if TrimSpace data = ''[DONE]'' then (True, st)
          else (False, case decode data of None \<Rightarrow> st | Some chunk \<Rightarrow> stream_chunk chunk st))"

text \<open>\<open>ReadBytes\<close> until the newline: the complete lines, and what is left.\<close>

fun split_lines :: "string \<Rightarrow> string list \<times> string" where
  "split_lines [] = ([], [])"
| "split_lines (c # cs) =
     (case split_lines cs of (ls, rest) \<Rightarrow>
        if c = CHR 0x0A then ([c] # ls, rest)
        else case ls of [] \<Rightarrow> ([], c # rest) | l # ls' \<Rightarrow> ((c # l) # ls', rest))"

definition trim_line :: "string \<Rightarrow> string" where
  "trim_line line = TrimRight line [0x0D, 0x0A]"

text \<open>
  The loop over the lines, from the \<open>n\<close>-th check of the context on (\<open>gone n\<close>: its error then), with the lines
  of the event read so far. An error of the connection ends it, unless the end marker came first.
\<close>

fun stream_lines ::
  "(string \<Rightarrow> chatCompletionStreamChunk option) \<Rightarrow> (nat \<Rightarrow> string option) \<Rightarrow> string option \<Rightarrow> nat \<Rightarrow> string list \<Rightarrow> string
     \<Rightarrow> string list \<Rightarrow> stream_state \<Rightarrow> string option \<times> stream_state" where
  "stream_lines decode gone err n [] rest eventLines st =
     (case gone n of
        Some e \<Rightarrow> (Some e, st)
      | None \<Rightarrow>
          (let trimmed = trim_line rest;
               (stop, eventLines, st) =
                 (if rest = [] then (False, eventLines, st)
                  else if trimmed = [] then (case flushEvent decode eventLines st of (stop, st) \<Rightarrow> (stop, [], st))
                  else (False, eventLines @ [trimmed], st))
           in if stop then (None, st)
              else case err of
                     None \<Rightarrow> (None, snd (flushEvent decode eventLines st))
                   | Some e \<Rightarrow> (Some (''read SSE stream: '' @ e), st)))"
| "stream_lines decode gone err n (line # ls) rest eventLines st =
     (case gone n of
        Some e \<Rightarrow> (Some e, st)
      | None \<Rightarrow>
          if trim_line line = [] then
            (case flushEvent decode eventLines st of
               (True, st) \<Rightarrow> (None, st)
             | (False, st) \<Rightarrow> stream_lines decode gone err (n + 1) ls rest [] st)
          else stream_lines decode gone err (n + 1) ls rest (eventLines @ [trim_line line]) st)"

text \<open>
  \<open>chatCompletionStream\<close>: the result or the error, and what the two callbacks were called with before.
\<close>

record stream_world =
  sw_send :: transport
  sw_gone :: "nat \<Rightarrow> string option"
  sw_Duration :: duration
  sw_decode :: "string \<Rightarrow> chatCompletionStreamChunk option"

definition chatCompletionStream ::
  "stream_world \<Rightarrow> LLMConfig \<Rightarrow> chatCompletionRequest \<Rightarrow> (string + streamResult) \<times> string list \<times> (int \<times> string) list" where
  "chatCompletionStream w cfg payload =
     (case sw_send w (provider_request cfg (payload\<lparr>cc_Stream := True\<rparr>)) of
        BadURL e \<Rightarrow> (Inl (''build stream chat completion request: '' @ e), [], [])
      | NoAnswer e \<Rightarrow> (Inl (''call LLM stream provider: '' @ e), [], [])
      | Answer status body \<Rightarrow>
          if status < 200 \<or> 300 \<le> status
          then (Inl (''LLM stream provider returned status '' @ Itoa status @ '': ''
                  @ TrimSpace (take 4096 (hb_bytes body))), [], [])
          else (case split_lines (hb_bytes body) of (ls, rest) \<Rightarrow>
                  case stream_lines (sw_decode w) (sw_gone w) (hb_err body) 0 ls rest [] (empty_stream, [], []) of
                    (Some e, r, deltas, calls) \<Rightarrow> (Inl e, deltas, calls)
                  | (None, r, deltas, calls) \<Rightarrow> (Inr (r\<lparr>sr_Duration := sw_Duration w\<rparr>), deltas, calls)))"

text \<open>
  The tool arguments of a stream, the calls visited in the order \<open>order\<close> of a Go map; a model without tool
  calls may answer in the content. The nil result that the function guards against never reaches it.
\<close>

definition extractStreamToolPayload ::
  "(index_map \<Rightarrow> index_map) \<Rightarrow> string \<Rightarrow> string \<Rightarrow> streamResult \<Rightarrow> string \<Rightarrow> string + string" where
  "extractStreamToolPayload order provider model result toolName =
     (let calls = filter (\<lambda>(i, args). TrimSpace args \<noteq> []) (order (sr_ToolCallArguments result))
      in if is_deepseek provider \<and> modelSupportsToolCall model then
           (case find (\<lambda>(i, args). at_index (sr_ToolCallNames result) i \<in> {[], toolName}) calls of
              Some (i, args) \<Rightarrow> Inr args
            | None \<Rightarrow> Inl (''LLM stream did not call '' @ toolName))
         else (case calls of
                 (i, args) # _ \<Rightarrow> Inr args
               | [] \<Rightarrow>
                   if TrimSpace (sr_Content result) \<noteq> [] then Inr (TrimSpace (sr_Content result))
                   else Inl ''LLM stream returned no tool arguments or content''))"

subsection \<open>Plans from the model\<close>

text \<open>
  \<open>parseTravelPlanArguments\<close>. The decoder is encoding/json with unknown fields disallowed: its error, or the plan and
  whether anything follows it in the text; \<open>printable\<close> is \<open>strconv.IsPrint\<close> for the quoted city of an error.
\<close>

definition parseTravelPlanArguments ::
  "(nat \<Rightarrow> bool) \<Rightarrow> (string \<Rightarrow> string + TravelPlan \<times> bool) \<Rightarrow> string \<Rightarrow> TravelRequest \<Rightarrow> string + TravelPlan" where
  "parseTravelPlanArguments printable decode raw req =
     (if TrimSpace raw = [] then Inl ''travel plan arguments are empty''
      else case decode raw of
             Inl e \<Rightarrow> Inl (''decode travel plan arguments: '' @ e)
           | Inr (plan, trailing) \<Rightarrow>
               if trailing then Inl ''travel plan arguments contain trailing data''
               else case validateGeneratedPlan printable req (Some plan) of Inl e \<Rightarrow> Inl e | Inr _ \<Rightarrow> Inr plan)"

text \<open>
  What one attempt meets: the provider and its timing, and the decoders. \<open>lw_reporting\<close> says whether the context
  carries a reporter of deltas.
\<close>

record llm_world =
  lw_stream :: stream_world
  lw_response :: "string \<Rightarrow> string + chatCompletionResponse"
  lw_plan :: "string \<Rightarrow> string + TravelPlan \<times> bool"
  lw_context :: "TravelPlanningState \<Rightarrow> string + string"
  lw_printable :: "nat \<Rightarrow> bool"
  lw_order :: "index_map \<Rightarrow> index_map"
  lw_Duration :: duration
  lw_reporting :: bool

definition submit_description :: string where
  "submit_description = utf8 [0x63D0, 0x4EA4, 0x6700, 0x7EC8, 0x7684, 0x7ED3, 0x6784, 0x5316, 0x65C5, 0x884C, 0x8DEF, 0x7EBF, 0x3002]"

definition plan_payload :: "LLMConfig \<Rightarrow> chatMessage list \<Rightarrow> string \<Rightarrow> chatCompletionRequest" where
  "plan_payload cfg messages agentMode =
     buildChatCompletionRequest cfg messages (Some travelPlanJSONSchema) submitTravelPlanToolName submit_description agentMode"

definition generateTravelPlanBuffered ::
  "llm_world \<Rightarrow> LLMConfig \<Rightarrow> TravelPlanningState \<Rightarrow> string \<Rightarrow> string + llmPlanResult" where
  "generateTravelPlanBuffered w cfg state agentMode =
     (case buildTravelPlanMessages (lw_context w) state agentMode of
        Inl e \<Rightarrow> Inl e
      | Inr messages \<Rightarrow>
          (case exchange (sw_send (lw_stream w)) cfg 4194304 (plan_payload cfg messages agentMode) of
             Inl e \<Rightarrow> Inl e
           | Inr body \<Rightarrow>
               (case extractTravelPlanPayload (lw_response w) cfg body of
                  Inl e \<Rightarrow> Inl e
                | Inr (rawPlan, used) \<Rightarrow>
                    (case parseTravelPlanArguments (lw_printable w) (lw_plan w) rawPlan (st_Request state) of
                       Inl e \<Rightarrow> Inl e
                     | Inr plan \<Rightarrow>
                         Inr \<lparr>lr_Plan = Some plan, lr_PromptVersion = travelPlanPromptVersion,
                              lr_Duration = lw_Duration w, lr_TokenUsage = used\<rparr>))))"

text \<open>
  The streaming variant, with the deltas it sends: those of the frames, and the tail once the plan is
  accepted. \<open>ReportLLMDone\<close>, called at the end, does nothing in the reporters of the service.
\<close>

definition generateTravelPlanStreaming ::
  "llm_world \<Rightarrow> LLMConfig \<Rightarrow> TravelPlanningState \<Rightarrow> string \<Rightarrow> (string + llmPlanResult) \<times> string list" where
  "generateTravelPlanStreaming w cfg state agentMode =
     (case buildTravelPlanMessages (lw_context w) state agentMode of
        Inl e \<Rightarrow> (Inl e, [])
      | Inr messages \<Rightarrow>
          (let payload = plan_payload cfg messages agentMode;
               (answer, _, calls) = chatCompletionStream (lw_stream w) cfg payload;
               progress = fold (\<lambda>(i, accumulated). onToolArgs accumulated) calls ([], []);
               result =
                 (case answer of
                    Inl e \<Rightarrow> Inl e
                  | Inr r \<Rightarrow>
                      (case extractStreamToolPayload (lw_order w) (lc_Provider cfg) (cc_Model payload) r submitTravelPlanToolName of
                         Inl e \<Rightarrow> Inl e
                       | Inr rawArgs \<Rightarrow>
                           (case parseTravelPlanArguments (lw_printable w) (lw_plan w) rawArgs (st_Request state) of
                              Inl e \<Rightarrow> Inl e
                            | Inr plan \<Rightarrow>
                                Inr (\<lparr>lr_Plan = Some plan, lr_PromptVersion = travelPlanPromptVersion,
                                     lr_Duration = lw_Duration w, lr_TokenUsage = sr_Usage r\<rparr>, rawArgs))));
               sent = (\<lambda>out. if lw_reporting w then out else [])
           in case result of
                Inl e \<Rightarrow> (Inl e, sent (snd progress))
              | Inr (r, rawArgs) \<Rightarrow> (Inr r, sent (snd (flush_tail rawArgs progress)))))"

definition GenerateTravelPlan ::
  "llm_world \<Rightarrow> LLMConfig \<Rightarrow> pctx \<Rightarrow> TravelPlanningState \<Rightarrow> (string + llmPlanResult) \<times> string list" where
  "GenerateTravelPlan w cfg c state =
     (if lc_StreamEnabled cfg then generateTravelPlanStreaming w cfg state (pc_AgentMode c)
      else (generateTravelPlanBuffered w cfg state (pc_AgentMode c), []))"

text \<open>The client as the generator uses it: attempt \<open>n\<close> meets \<open>world n\<close>; \<open>stamp n k\<close> is the instant of its delta \<open>k\<close>.\<close>

definition openAICompatibleClient :: "(nat \<Rightarrow> llm_world) \<Rightarrow> (nat \<Rightarrow> nat \<Rightarrow> time) \<Rightarrow> LLMConfig \<Rightarrow> llm_client" where
  "openAICompatibleClient world stamp cfg c state n =
     (case GenerateTravelPlan (world n) cfg c state of
        (result, deltas) \<Rightarrow>
          (map (\<lambda>(k, d). (ReportLLMDelta d, stamp n k)) (enumerate 0 deltas), map_sum id Some result))"

subsection \<open>Frames are read back\<close>

text \<open>An event as providers send it: one data line and a blank line, with either end of line.\<close>

definition frame :: "string \<Rightarrow> string \<Rightarrow> string" where
  "frame eol data = ''data: '' @ data @ eol @ eol"

definition frames :: "string \<Rightarrow> string list \<Rightarrow> string" where
  "frames eol ds = concat (map (frame eol) ds)"

definition line_ends :: "string list" where
  "line_ends = [[CHR 0x0A], [CHR 0x0D, CHR 0x0A]]"

text \<open>Data that fit on a line and are not the end marker.\<close>

definition line_data :: "string \<Rightarrow> bool" where
  "line_data d \<longleftrightarrow> CHR 0x0A \<notin> set d \<and> (d = [] \<or> last d \<noteq> CHR 0x0D) \<and> TrimSpace d \<noteq> ''[DONE]''"

definition done_frame :: "string \<Rightarrow> string" where
  "done_frame eol = frame eol ''[DONE]''"

definition read_datas :: "(string \<Rightarrow> chatCompletionStreamChunk option) \<Rightarrow> string list \<Rightarrow> stream_state \<Rightarrow> stream_state" where
  "read_datas decode ds st = fold (\<lambda>d st. case decode d of None \<Rightarrow> st | Some chunk \<Rightarrow> stream_chunk chunk st) ds st"

lemma split_lines_line: "CHR 0x0A \<notin> set l \<Longrightarrow>
    split_lines (l @ CHR 0x0A # s) = (case split_lines s of (ls, rest) \<Rightarrow> ((l @ [CHR 0x0A]) # ls, rest))"
  by (induction l) (auto split: prod.splits)

lemma split_lines_frame: "eol \<in> set line_ends \<Longrightarrow> CHR 0x0A \<notin> set d \<Longrightarrow>
    split_lines (frame eol d @ s) = (case split_lines s of (ls, rest) \<Rightarrow> ((''data: '' @ d @ eol) # eol # ls, rest))"
  using split_lines_line [of "''data: '' @ d" "CHR 0x0A # s"] split_lines_line [of "''data: '' @ d @ [CHR 0x0D]" "CHR 0x0D # CHR 0x0A # s"]
    split_lines_line [of "[CHR 0x0D]" s]
  by (auto simp: line_ends_def frame_def split: prod.splits)

lemma eol_codes: "map rev (map enc_rune [0x0D, 0x0A]) = [[CHR 0x0D], [CHR 0x0A]]"
  by code_simp

lemma trim_line_eq: "trim_line l = rev (trim_codes [[CHR 0x0D], [CHR 0x0A]] (rev l))"
  unfolding trim_line_def TrimRight_def trim_right_codes_def eol_codes by (rule refl)

lemma trim_codes_line: "c \<noteq> CHR 0x0D \<Longrightarrow> c \<noteq> CHR 0x0A \<Longrightarrow> trim_codes [[CHR 0x0D], [CHR 0x0A]] (c # s) = c # s"
  by (subst trim_codes.simps) simp

lemma trim_codes_eol:
  "trim_codes [[CHR 0x0D], [CHR 0x0A]] (CHR 0x0A # s) = trim_codes [[CHR 0x0D], [CHR 0x0A]] s"
  "trim_codes [[CHR 0x0D], [CHR 0x0A]] (CHR 0x0D # s) = trim_codes [[CHR 0x0D], [CHR 0x0A]] s"
  by (subst trim_codes.simps, simp)+

lemma trim_line_eol: "eol \<in> set line_ends \<Longrightarrow> trim_line (l @ eol) = trim_line l"
  by (auto simp: trim_line_eq line_ends_def trim_codes_eol)

lemma trim_line_id: "l = [] \<or> last l \<notin> {CHR 0x0D, CHR 0x0A} \<Longrightarrow> trim_line l = l"
proof (cases l rule: rev_cases)
  case (snoc l' c)
  assume "l = [] \<or> last l \<notin> {CHR 0x0D, CHR 0x0A}"
  then show ?thesis using snoc
    by (simp add: trim_line_eq trim_codes_line)
qed (simp add: trim_line_eq trim_codes.simps [of _ "[]"])

lemma trim_data_line: "line_data d \<Longrightarrow> eol \<in> set line_ends \<Longrightarrow> trim_line (''data: '' @ d @ eol) = ''data: '' @ d"
proof -
  assume d: "line_data d" and e: "eol \<in> set line_ends"
  have "d = [] \<or> last d \<notin> {CHR 0x0D, CHR 0x0A}" using d unfolding line_data_def by (metis insertE empty_iff last_in_set)
  then have "last (''data: '' @ d) \<notin> {CHR 0x0D, CHR 0x0A}" by auto
  then have "trim_line (''data: '' @ d) = ''data: '' @ d" using trim_line_id by blast
  then show ?thesis using trim_line_eol [OF e, of "''data: '' @ d"] by simp
qed

lemma event_data_line: "event_data [''data: '' @ d] = Some d"
  by (simp add: event_data_def TrimPrefix_def)

lemma stream_lines_frame:
  assumes "line_data d" "eol \<in> set line_ends" "\<And>n. gone n = None"
  shows "stream_lines decode gone err n ((''data: '' @ d @ eol) # eol # ls) rest [] st =
    stream_lines decode gone err (n + 2) ls rest [] (read_datas decode [d] st)"
proof -
  have e: "trim_line eol = []" using trim_line_eol [OF assms(2), of "[]"] trim_line_id [of "[]"] by simp
  have "trim_line (''data: '' @ d @ eol) = ''data: '' @ d" by (rule trim_data_line [OF assms(1,2)])
  then show ?thesis using assms(1,3) e event_data_line [of d]
    by (simp add: flushEvent_def line_data_def read_datas_def)
qed

lemma stream_lines_done:
  assumes "eol \<in> set line_ends" "\<And>n. gone n = None"
  shows "stream_lines decode gone err n ((''data: '' @ ''[DONE]'' @ eol) # eol # ls) rest [] st = (None, st)"
proof -
  have e: "trim_line eol = []" using trim_line_eol [OF assms(1), of "[]"] trim_line_id [of "[]"] by simp
  have "trim_line (''data: '' @ ''[DONE]'' @ eol) = ''data: '' @ ''[DONE]''"
    using trim_line_eol [OF assms(1), of "''data: '' @ ''[DONE]''"] trim_line_id [of "''data: '' @ ''[DONE]''"] by simp
  moreover have "TrimSpace ''[DONE]'' = ''[DONE]''" by code_simp
  ultimately show ?thesis using assms(2) e event_data_line [of "''[DONE]''"] by (simp add: flushEvent_def)
qed

lemma stream_lines_frames:
  assumes "list_all line_data ds" "eol \<in> set line_ends" "\<And>n. gone n = None"
  shows "(case split_lines (frames eol ds @ s) of (ls, rest) \<Rightarrow> stream_lines decode gone err n ls rest [] st) =
    (case split_lines s of (ls, rest) \<Rightarrow> stream_lines decode gone err (n + 2 * length ds) ls rest [] (read_datas decode ds st))"
  using assms(1)
proof (induction ds arbitrary: n st)
  case Nil
  then show ?case by (simp add: frames_def read_datas_def)
next
  case (Cons d ds)
  have d: "line_data d" "CHR 0x0A \<notin> set d" using Cons(2) by (auto simp: line_data_def)
  obtain ls rest where s: "split_lines (frames eol ds @ s) = (ls, rest)" by (cases "split_lines (frames eol ds @ s)")
  have "split_lines (frames eol (d # ds) @ s) = ((''data: '' @ d @ eol) # eol # ls, rest)"
    using split_lines_frame [OF assms(2) d(2), of "frames eol ds @ s"] s by (simp add: frames_def)
  then show ?case using Cons(1) [of "n + 2" "read_datas decode [d] st"] Cons(2) s
      stream_lines_frame [where gone = gone, OF d(1) assms(2,3), of decode err n ls rest st]
    by (simp add: read_datas_def)
qed

text \<open>The stream of a provider that sends frames and the end marker; what follows is not read.\<close>

lemma chatCompletionStream_frames:
  assumes "list_all line_data ds" "eol \<in> set line_ends" "\<And>n. sw_gone w n = None"
    and "sw_send w (provider_request cfg (payload\<lparr>cc_Stream := True\<rparr>)) = Answer status \<lparr>hb_bytes = frames eol ds @ done_frame eol @ s, hb_err = err\<rparr>"
    and "200 \<le> status" "status < 300"
  shows "chatCompletionStream w cfg payload =
    (case read_datas (sw_decode w) ds (empty_stream, [], []) of (r, deltas, calls) \<Rightarrow> (Inr (r\<lparr>sr_Duration := sw_Duration w\<rparr>), deltas, calls))"
proof -
  have d: "CHR 0x0A \<notin> set ''[DONE]''" by simp
  obtain ls rest where s: "split_lines s = (ls, rest)" by (cases "split_lines s")
  have "split_lines (done_frame eol @ s) = ((''data: '' @ ''[DONE]'' @ eol) # eol # ls, rest)"
    using split_lines_frame [OF assms(2) d, of s] s by (simp add: done_frame_def)
  then have "(case split_lines (frames eol ds @ done_frame eol @ s) of (ls, rest) \<Rightarrow>
      stream_lines (sw_decode w) (sw_gone w) err 0 ls rest [] (empty_stream, [], [])) =
    (None, read_datas (sw_decode w) ds (empty_stream, [], []))"
    using stream_lines_frames [where gone = "sw_gone w" and s = "done_frame eol @ s" and n = 0, OF assms(1-3)]
      stream_lines_done [where gone = "sw_gone w", OF assms(2,3)] by simp
  then show ?thesis using assms(4-6) by (auto simp: chatCompletionStream_def split: prod.splits)
qed

subsection \<open>One tool call\<close>

lemma at_index_put [simp]: "at_index (put_index i v m) i = v"
proof (cases "i \<in> fst ` set m")
  case True
  then have "map_of (map (\<lambda>(j, w). if j = i then (i, v) else (j, w)) m) i = Some v"
    by (induction m) auto
  then show ?thesis using True by (simp add: at_index_def put_index_def)
next
  case False
  then have "map_of m i = None" by (simp add: map_of_eq_None_iff)
  then show ?thesis using False by (simp add: at_index_def put_index_def map_add_def)
qed

lemma put_index_keys: "distinct (map fst m) \<Longrightarrow> distinct (map fst (put_index i v m))"
  "fst ` set (put_index i v m) = insert i (fst ` set m)"
proof -
  have k: "map fst (map (\<lambda>(j, w). if j = i then (i, v) else (j, w)) m) = map fst m"
    by (induction m) auto
  have e: "map fst (put_index i v m) = (if i \<in> fst ` set m then map fst m else map fst m @ [i])"
    by (cases "i \<in> fst ` set m") (simp_all only: put_index_def if_True if_False k map_append list.map fst_conv)
  show "distinct (map fst m) \<Longrightarrow> distinct (map fst (put_index i v m))"
    unfolding e by simp
  have "set (map fst (put_index i v m)) = insert i (set (map fst m))" unfolding e by auto
  then show "fst ` set (put_index i v m) = insert i (fst ` set m)" by simp
qed

text \<open>Every tool call a frame tells of has the index \<open>i\<close>: what a provider does that is told which function to call.\<close>

definition one_tool_call :: "(string \<Rightarrow> chatCompletionStreamChunk option) \<Rightarrow> int \<Rightarrow> bool" where
  "one_tool_call decode i \<longleftrightarrow>
     (\<forall>d chunk. decode d = Some chunk \<longrightarrow> list_all (\<lambda>c. list_all (\<lambda>p. sp_Index p = i) (sc_ToolCalls c)) (ck_Choices chunk))"

definition progress_of :: "(int \<times> string) list \<Rightarrow> string \<times> string list" where
  "progress_of calls = fold (\<lambda>(i, accumulated). onToolArgs accumulated) calls ([], [])"

text \<open>What was sent so far is the summary of the arguments so far.\<close>

definition shown :: "int \<Rightarrow> stream_state \<Rightarrow> bool" where
  "shown i = (\<lambda>(r, deltas, calls). fst ` set (sr_ToolCallArguments r) \<subseteq> {i} \<and> distinct (map fst (sr_ToolCallArguments r))
     \<and> sent (at_index (sr_ToolCallArguments r) i) (progress_of calls))"

lemma shown_tool: "sp_Index tc = i \<Longrightarrow> shown i st \<Longrightarrow> shown i (stream_tool tc st)"
proof -
  assume i: "sp_Index tc = i" and s: "shown i st"
  obtain r deltas calls where st: "st = (r, deltas, calls)" by (cases st)
  have "sent (at_index (sr_ToolCallArguments r) i @ sp_Arguments tc)
      (onToolArgs (at_index (sr_ToolCallArguments r) i @ sp_Arguments tc) (progress_of calls))"
    using onToolArgs_sent s by (simp add: shown_def st)
  then show ?thesis using s i put_index_keys by (auto simp: shown_def st Let_def progress_of_def)
qed

lemma shown_tools: "list_all (\<lambda>p. sp_Index p = i) tcs \<Longrightarrow> shown i st \<Longrightarrow> shown i (fold stream_tool tcs st)"
  by (rule fold_invariant [where Q = "\<lambda>p. sp_Index p = i"]) (auto simp: list_all_iff intro: shown_tool)

lemma shown_choice: "list_all (\<lambda>p. sp_Index p = i) (sc_ToolCalls c) \<Longrightarrow> shown i st \<Longrightarrow> shown i (stream_choice_step c st)"
proof -
  assume a: "list_all (\<lambda>p. sp_Index p = i) (sc_ToolCalls c)" "shown i st"
  obtain r deltas calls where st: "st = (r, deltas, calls)" by (cases st)
  define st1 where "st1 = (if sc_Content c \<noteq> [] then (r\<lparr>sr_Content := sr_Content r @ sc_Content c\<rparr>, deltas @ [sc_Content c], calls)
     else (r, deltas, calls))"
  have "shown i st1" using a(2) by (simp add: st st1_def shown_def)
  then have "shown i (fold stream_tool (sc_ToolCalls c) st1)" by (rule shown_tools [OF a(1)])
  then show ?thesis by (auto simp: stream_choice_step_def st Let_def st1_def [symmetric] shown_def split: prod.splits)
qed

lemma shown_chunk: "one_tool_call decode i \<Longrightarrow> decode d = Some chunk \<Longrightarrow> shown i st \<Longrightarrow> shown i (stream_chunk chunk st)"
proof -
  assume a: "one_tool_call decode i" "decode d = Some chunk" "shown i st"
  have all: "list_all (\<lambda>c. list_all (\<lambda>p. sp_Index p = i) (sc_ToolCalls c)) (ck_Choices chunk)"
    using a(1,2) by (auto simp: one_tool_call_def)
  have f: "shown i (fold stream_choice_step cs st)" if "list_all (\<lambda>c. list_all (\<lambda>p. sp_Index p = i) (sc_ToolCalls c)) cs" "shown i st" for cs st
    by (rule fold_invariant [where Q = "\<lambda>c. list_all (\<lambda>p. sp_Index p = i) (sc_ToolCalls c)"])
      (use that in \<open>auto simp: list_all_iff [of _ cs] intro: shown_choice\<close>)
  obtain r deltas calls where st: "st = (r, deltas, calls)" by (cases st)
  define r1 where "r1 = (case ck_Usage chunk of Some u \<Rightarrow> r\<lparr>sr_ChunksReceived := sr_ChunksReceived r + 1, sr_Usage := llmTokenUsage u\<rparr>
     | None \<Rightarrow> r\<lparr>sr_ChunksReceived := sr_ChunksReceived r + 1\<rparr>)"
  have "shown i (r1, deltas, calls)" using a(3) by (simp add: shown_def st r1_def split: option.split)
  moreover have "stream_chunk chunk st = fold stream_choice_step (ck_Choices chunk) (r1, deltas, calls)"
    by (simp add: stream_chunk_def st r1_def Let_def split: option.split)
  ultimately show ?thesis using f [OF all] by simp
qed

lemma shown_flush: "one_tool_call decode i \<Longrightarrow> shown i st \<Longrightarrow> shown i (snd (flushEvent decode ls st))"
  using shown_chunk by (auto simp: flushEvent_def split: option.splits)

lemma shown_flush': "one_tool_call decode i \<Longrightarrow> shown i st \<Longrightarrow> flushEvent decode ls st = (b, st') \<Longrightarrow> shown i st'"
  using shown_flush [of decode i st ls] by simp

lemma shown_lines: "one_tool_call decode i \<Longrightarrow> shown i st \<Longrightarrow> stream_lines decode gone err n ls rest ev st = (e, st') \<Longrightarrow> shown i st'"
proof (induction decode gone err n ls rest ev st rule: stream_lines.induct)
  case (1 decode gone err n rest ev st)
  show ?case
  proof (cases "gone n")
    case None
    define step where "step = (if rest = [] then (False, ev, st)
      else if trim_line rest = [] then (case flushEvent decode ev st of (stop, st) \<Rightarrow> (stop, [], st))
      else (False, ev @ [trim_line rest], st))"
    obtain stop ev1 st1 where step1: "step = (stop, ev1, st1)" by (cases step)
    have "shown i st1" using step1 1(2) shown_flush' [OF 1(1,2)] by (auto simp: step_def split: if_splits prod.splits)
    then show ?thesis using 1(3) None step1 shown_flush [OF 1(1), of st1 ev1]
      by (simp add: Let_def step_def [symmetric] split: if_splits option.splits)
  qed (use 1 in simp)
next
  case (2 decode gone err n line ls rest ev st)
  show ?case
  proof (cases "gone n")
    case None
    show ?thesis
    proof (cases "trim_line line = []")
      case True
      obtain stop st1 where f: "flushEvent decode ev st = (stop, st1)" by (cases "flushEvent decode ev st")
      have "shown i st1" by (rule shown_flush' [OF 2(3,4) f])
      then show ?thesis using 2(1) [OF None True f [symmetric]] 2(3,5) None True f by (cases stop) auto
    next
      case False
      then show ?thesis using 2(2) [OF None False 2(3,4)] 2(5) None by simp
    qed
  qed (use 2 in simp)
qed

lemma shown_stream:
  assumes "one_tool_call (sw_decode w) i" "chatCompletionStream w cfg payload = (Inr r, deltas, calls)"
  shows "shown i (r, deltas, calls)"
proof -
  have s: "shown i (empty_stream, [], [])"
    by (simp add: shown_def empty_stream_def at_index_def progress_of_def sent_def extractSummarySoFar_def summary_parse_def
        indexOfSummaryKey_def summary_key_from.simps trimIncompleteUTF8.simps)
  obtain ls rest err r0 where l: "stream_lines (sw_decode w) (sw_gone w) err 0 ls rest [] (empty_stream, [], []) = (None, r0, deltas, calls)"
    "r = r0\<lparr>sr_Duration := sw_Duration w\<rparr>"
    using assms(2) by (auto simp: chatCompletionStream_def split: http_answer.splits if_splits prod.splits option.splits)
  show ?thesis using shown_lines [OF assms(1) s l(1)] l(2) by (simp add: shown_def)
qed

text \<open>A quotation mark is not white space, so blank arguments hold no summary.\<close>

lemma trim_codes_bytes: "c \<in> set s \<Longrightarrow> c \<in> set (trim_codes ws s) \<or> (\<exists>w \<in> set ws. c \<in> set w)"
proof (induction ws s rule: trim_codes.induct)
  case (1 ws s)
  show ?case
  proof (cases "find (\<lambda>w. w \<noteq> [] \<and> prefix w s) ws")
    case None
    then show ?thesis using 1(2) by (simp add: trim_codes.simps [of ws s])
  next
    case (Some w)
    then have w: "w \<in> set ws" "prefix w s" by (auto simp: find_Some_iff)
    then have "c \<in> set w \<or> c \<in> set (drop (length w) s)" using 1(2) by (auto simp: prefix_def)
    then show ?thesis using 1(1) [OF Some] w(1) Some by (auto simp: trim_codes.simps [of ws s])
  qed
qed

lemma quote_nonblank: "CHR 0x22 \<in> set s \<Longrightarrow> TrimSpace s \<noteq> []"
proof
  assume q: "CHR 0x22 \<in> set s" "TrimSpace s = []"
  have n: "\<not> (\<exists>w \<in> set space_codes. CHR 0x22 \<in> set w)" by (auto simp: space_codes_bytes)
  then have "CHR 0x22 \<in> set (trim_left_codes space_codes s)"
    using trim_codes_bytes [OF q(1), of space_codes] by (auto simp: trim_left_codes_def)
  then have "CHR 0x22 \<in> set (trim_codes (map rev space_codes) (rev (trim_left_codes space_codes s)))"
    using trim_codes_bytes [of "CHR 0x22" "rev (trim_left_codes space_codes s)" "map rev space_codes"] n by auto
  then show False using q(2) by (simp add: TrimSpace_def trim_both_def trim_right_codes_def)
qed

lemma summary_key_quote: "summary_key_from raw n = Some k \<Longrightarrow> CHR 0x22 \<in> set raw"
proof (induction raw n rule: summary_key_from.induct)
  case (1 raw offset)
  then obtain j where j: "Index (drop offset raw) summary_key = Some j"
    by (auto simp: summary_key_from.simps [of raw offset] split: if_splits option.splits)
  then have "set summary_key \<subseteq> set (drop j (drop offset raw))" using set_mono_prefix by (auto simp: Index_Some)
  then show ?case using set_drop_subset by (fastforce simp: summary_key_def)
qed

lemma extract_blank: "TrimSpace raw = [] \<Longrightarrow> extractSummarySoFar raw = []"
proof -
  assume "TrimSpace raw = []"
  then have "indexOfSummaryKey raw = None"
    using quote_nonblank summary_key_quote by (cases "indexOfSummaryKey raw") (auto simp: indexOfSummaryKey_def)
  then show ?thesis by (simp add: extractSummarySoFar_def summary_parse_def trimIncompleteUTF8.simps)
qed

lemma find_set: "find P xs = Some x \<Longrightarrow> x \<in> set xs"
  by (induction xs) (auto split: if_splits)

lemma payload_among:
  assumes "extractStreamToolPayload order provider model r toolName = Inr raw"
    and "filter (\<lambda>(i, args). TrimSpace args \<noteq> []) (order (sr_ToolCallArguments r)) \<noteq> []"
  shows "\<exists>j. (j, raw) \<in> set (filter (\<lambda>(i, args). TrimSpace args \<noteq> []) (order (sr_ToolCallArguments r)))"
proof -
  define calls where "calls = filter (\<lambda>(i, args). TrimSpace args \<noteq> []) (order (sr_ToolCallArguments r))"
  obtain i args rest where c: "calls = (i, args) # rest" using assms(2) by (cases calls) (auto simp: calls_def)
  show ?thesis
  proof (cases "is_deepseek provider \<and> modelSupportsToolCall model")
    case True
    then obtain j where "find (\<lambda>(i, args). at_index (sr_ToolCallNames r) i \<in> {[], toolName}) calls = Some (j, raw)"
      using assms(1) by (auto simp add: extractStreamToolPayload_def Let_def calls_def [symmetric] simp del: insert_iff split: option.splits prod.splits)
    then have "(j, raw) \<in> set calls" by (rule find_set)
    then show ?thesis unfolding calls_def by blast
  next
    case False
    have "raw = args" using assms(1)
      unfolding extractStreamToolPayload_def Let_def calls_def [symmetric] c if_not_P [OF False] by simp
    then have "(i, raw) \<in> set calls" using c by simp
    then show ?thesis unfolding calls_def by blast
  qed
qed

lemma flush_tail_shown:
  assumes "shown i (r, deltas, calls)" "\<And>m. set (order m) = set m"
    and "extractStreamToolPayload order provider model r toolName = Inr raw"
  shows "concat (snd (flush_tail raw (progress_of calls))) = extractSummarySoFar raw \<and> [] \<notin> set (snd (flush_tail raw (progress_of calls)))"
proof -
  define args where "args = sr_ToolCallArguments r"
  have s: "fst ` set args \<subseteq> {i}" "distinct (map fst args)" "sent (at_index args i) (progress_of calls)"
    using assms(1) by (auto simp: shown_def args_def)
  have o: "set (order args) = set args" by (rule assms(2))
  have here: "at_index args i = raw" if j: "(j, raw) \<in> set args" for j
  proof -
    have "j = i" using j s(1) by force
    then have "map_of args i = Some raw" using map_of_is_SomeI [OF s(2) j] by simp
    then show ?thesis by (simp add: at_index_def)
  qed
  show ?thesis
  proof (cases "\<exists>j. (j, raw) \<in> set args")
    case True
    then have "sent raw (progress_of calls)" using s(3) here by blast
    then show ?thesis by (auto simp: flush_tail_sent sent_def split: prod.splits)
  next
    case False
    have "filter (\<lambda>(i, a). TrimSpace a \<noteq> []) (order args) = []"
    proof (rule ccontr)
      assume "filter (\<lambda>(i, a). TrimSpace a \<noteq> []) (order args) \<noteq> []"
      then have "\<exists>j. (j, raw) \<in> set (filter (\<lambda>(i, a). TrimSpace a \<noteq> []) (order args))"
        using payload_among [OF assms(3)] unfolding args_def by blast
      then show False using False o by auto
    qed
    then have "\<forall>(j, a) \<in> set args. TrimSpace a = []" using o by (auto simp: filter_empty_conv)
    then have "TrimSpace (at_index args i) = []"
      by (auto simp: at_index_def split: option.splits dest!: map_of_SomeD)
    then have "progress_of calls = ([], snd (progress_of calls))" "concat (snd (progress_of calls)) = []" "[] \<notin> set (snd (progress_of calls))"
      using s(3) extract_blank by (auto simp: sent_def split: prod.splits)
    then have "progress_of calls = ([], [])" by (cases "snd (progress_of calls)") auto
    then show ?thesis by (simp add: flush_tail_def Let_def)
  qed
qed

subsection \<open>What a streamed plan shows\<close>


definition greeting_plan :: TravelPlan where
  "greeting_plan = zero_plan\<lparr>pl_Title := ''t'', pl_Summary := ''hi'', pl_Budget := zero_budget\<lparr>bg_Currency := ''CNY''\<rparr>\<rparr>"

definition greeting_chunk :: "string \<Rightarrow> chatCompletionStreamChunk" where
  "greeting_chunk args = \<lparr>ck_Choices = [\<lparr>sc_Content = [], sc_ToolCalls = [\<lparr>sp_Index = 0, sp_Name = submitTravelPlanToolName, sp_Arguments = args\<rparr>],
     sc_FinishReason = []\<rparr>], ck_Usage = None\<rparr>"

definition greeting_decode :: "string \<Rightarrow> chatCompletionStreamChunk option" where
  "greeting_decode d =
     (if d = ''one'' then Some (greeting_chunk ([CHR ''{'', CHR 0x22] @ ''summary'' @ [CHR 0x22, CHR '':'', CHR 0x22, CHR ''h'']))
      else if d = ''two'' then Some (greeting_chunk [CHR ''i'', CHR 0x22, CHR ''}'']) else None)"

definition greeting_world :: llm_world where
  "greeting_world =
     \<lparr>lw_stream = \<lparr>sw_send = (\<lambda>q. Answer 200 \<lparr>hb_bytes = frames [CHR 0x0A] [''one'', ''two''] @ done_frame [CHR 0x0A], hb_err = None\<rparr>),
        sw_gone = (\<lambda>n. None), sw_Duration = 7, sw_decode = greeting_decode\<rparr>,
      lw_response = (\<lambda>d. Inl ''unused''), lw_plan = (\<lambda>raw. Inr (greeting_plan, False)), lw_context = (\<lambda>s. Inr ''{}''),
      lw_printable = (\<lambda>r. True), lw_order = (\<lambda>m. m), lw_Duration = 9, lw_reporting = True\<rparr>"

definition greeting_config :: LLMConfig where
  "greeting_config = \<lparr>lc_Enabled = True, lc_Provider = ''deepseek'', lc_APIKey = ''k'', lc_BaseURL = ''http://x'', lc_Model = ''m'',
     lc_QuickModel = [], lc_ExpertModel = [], lc_StreamEnabled = True, lc_Timeout = 0, lc_MaxRetries = 1\<rparr>"

definition greeting_state :: TravelPlanningState where
  "greeting_state = initial_state \<lparr>rq_ID = [], rq_DepartureCity = [], rq_DestinationCity = [], rq_Days = 0, rq_Budget = f_zero,
     rq_Interests = [], rq_Travelers = 0, rq_DateRange = [], rq_TransportMode = [], rq_Pace = [], rq_WalkingTolerance = [],
     rq_HotelArea = [], rq_MustVisit = [], rq_Avoid = [], rq_TravelerType = [], rq_BudgetType = [], rq_BudgetIncludes = []\<rparr>"

definition greeting_result :: llmPlanResult where
  "greeting_result = \<lparr>lr_Plan = Some greeting_plan, lr_PromptVersion = travelPlanPromptVersion, lr_Duration = 9, lr_TokenUsage = no_usage\<rparr>"

definition greeting_args :: string where
  "greeting_args = [CHR ''{'', CHR 0x22] @ ''summary'' @ [CHR 0x22, CHR '':'', CHR 0x22, CHR ''h'', CHR ''i'', CHR 0x22, CHR ''}'']"

definition greeting_stream :: stream_state where
  "greeting_stream = read_datas greeting_decode [''one'', ''two''] (empty_stream, [], [])"

lemma greeting_frames:
  "chatCompletionStream (lw_stream greeting_world) cfg payload =
    (case greeting_stream of (r, deltas, calls) \<Rightarrow> (Inr (r\<lparr>sr_Duration := 7\<rparr>), deltas, calls))"
proof -
  have "list_all line_data [''one'', ''two'']" by code_simp
  from chatCompletionStream_frames [where s = "[]" and status = 200 and err = None and eol = "[CHR 0x0A]" and w = "lw_stream greeting_world"
      and cfg = cfg and payload = payload, OF this]
  show ?thesis by (simp add: greeting_world_def greeting_stream_def line_ends_def)
qed

lemma greeting_payload:
  "(case greeting_stream of (r, deltas, calls) \<Rightarrow>
     extractStreamToolPayload (\<lambda>m. m) ''deepseek'' ''m'' (r\<lparr>sr_Duration := 7\<rparr>) submitTravelPlanToolName = Inr greeting_args
     \<and> sr_Usage r = no_usage \<and> snd (flush_tail greeting_args (progress_of calls)) = [''h'', ''i''])"
  by code_simp

lemma greeting_parse:
  "parseTravelPlanArguments (\<lambda>r. True) (\<lambda>raw. Inr (greeting_plan, False)) greeting_args (st_Request greeting_state) = Inr greeting_plan"
proof -
  have texts: "TrimSpace greeting_args \<noteq> []" "TrimSpace ''t'' \<noteq> []" "TrimSpace ''hi'' \<noteq> []"
    by (code_simp, code_simp, code_simp)
  have free: "\<not> f_less (f_mul f_zero x) f_zero" for x
    by (cases x) (auto simp: f_mul_def f_zero_of_def f_inf_def)
  have zero: "f_eq f_zero f_zero" "\<not> f_less f_zero f_zero" by (simp_all add: f_eq_def)
  show ?thesis using texts free zero
    by (simp add: parseTravelPlanArguments_def validateGeneratedPlan_def validateBudgetDetails_def budget_threshold_def Let_def
        greeting_plan_def greeting_state_def initial_state_def zero_plan_def zero_budget_def)
qed

lemma greeting_run: "generateTravelPlanStreaming greeting_world greeting_config greeting_state ''quick'' = (Inr greeting_result, [''h'', ''i''])"
proof -
  obtain r deltas calls where g: "greeting_stream = (r, deltas, calls)" by (cases greeting_stream)
  have m: "modelForMode greeting_config ''quick'' = ''m''" by code_simp
  have w: "lw_order greeting_world = (\<lambda>m. m)" "lw_printable greeting_world = (\<lambda>r. True)" "lw_plan greeting_world = (\<lambda>raw. Inr (greeting_plan, False))"
    "lw_reporting greeting_world" "lw_Duration greeting_world = 9" "lw_context greeting_world = (\<lambda>s. Inr ''{}'')"
    "lc_Provider greeting_config = ''deepseek''"
    by (simp_all add: greeting_world_def greeting_config_def)
  have model: "cc_Model (plan_payload greeting_config messages ''quick'') = ''m''" for messages
    using m by (simp add: plan_payload_def buildChatCompletionRequest_def Let_def)
  show ?thesis
    unfolding generateTravelPlanStreaming_def buildTravelPlanMessages_def w sum.case Let_def greeting_frames g prod.case model
    using greeting_payload [unfolded g prod.case] greeting_parse w(4) by (simp add: greeting_result_def progress_of_def)
qed

lemma greeting_one: "one_tool_call (sw_decode (lw_stream greeting_world)) 0"
  by (auto simp: one_tool_call_def greeting_world_def greeting_decode_def greeting_chunk_def split: if_splits)


text \<open>
  \<open>extractTravelPlanPayload\<close> asks whether the default model makes tool calls, not the model of the request: if
  only the model of the mode is a reasoner, the request is sent without a tool and its answer, which is in the
  content, is refused. The streaming variant accepts it.
\<close>

lemma reasoner_mode_refused:
  assumes "is_deepseek (lc_Provider cfg)" "\<not> modelSupportsToolCall (modelForMode cfg agentMode)" "modelSupportsToolCall (lc_Model cfg)"
    and "decode data = Inr resp" "cp_Choices resp = message # rest" "rm_ToolCalls message = []"
  shows "cc_Tools (plan_payload cfg messages agentMode) = []"
    "extractTravelPlanPayload decode cfg data = Inl ''LLM response did not call submit_travel_plan''"
    "sr_ToolCallArguments r = [] \<Longrightarrow> order [] = [] \<Longrightarrow> TrimSpace (sr_Content r) \<noteq> [] \<Longrightarrow>
       extractStreamToolPayload order (lc_Provider cfg) (modelForMode cfg agentMode) r submitTravelPlanToolName = Inr (TrimSpace (sr_Content r))"
  using assms by (simp_all add: plan_payload_def buildChatCompletionRequest_def extractTravelPlanPayload_def tool_payload_def
      submitTravelPlanToolName_def extractStreamToolPayload_def Let_def)

text \<open>Every schema sent is one the strict mode of a provider takes.\<close>

lemma plan_schema_strict: "strict_schema travelPlanJSONSchema"
  by code_simp

end
