(* ===== verification/Chat.thy ===== *)
theory Chat
  imports ChatRules LlmClient
begin

section \<open>The extractor of travel information\<close>

text \<open>
  internal/agent/eino/chat.go without its rules (ChatRules), and chat_stream.go: what is asked of the language model,
  how its answer is read, and the local extractor that takes over when there is no model or no answer. The extractor is the one
  the travel service calls in a chat.
\<close>

subsection \<open>What is still missing\<close>

definition label_departure :: string where "label_departure = utf8 [0x51FA, 0x53D1, 0x57CE, 0x5E02]"
definition label_destination :: string where "label_destination = utf8 [0x76EE, 0x7684, 0x5730]"
definition label_days :: string where "label_days = utf8 [0x5929, 0x6570]"
definition label_budget :: string where "label_budget = utf8 [0x9884, 0x7B97]"
definition label_interests :: string where "label_interests = utf8 [0x5174, 0x8DA3, 0x504F, 0x597D]"
definition label_travelers :: string where "label_travelers = utf8 [0x51FA, 0x884C, 0x4EBA, 0x6570]"

definition missingFieldsFromRequest :: "TravelRequest \<Rightarrow> string list" where
  "missingFieldsFromRequest req =
     (if rq_DepartureCity req = [] then [label_departure] else []) @
     (if rq_DestinationCity req = [] then [label_destination] else []) @
     (if rq_Days req \<le> 0 then [label_days] else []) @
     (if f_le (rq_Budget req) f_zero then [label_budget] else []) @
     (if rq_Interests req = [] then [label_interests] else []) @
     (if rq_Travelers req \<le> 0 then [label_travelers] else [])"

subsection \<open>Merging a message into what is known\<close>

definition mergeTravelRequest :: "TravelRequest \<Rightarrow> TravelRequest \<Rightarrow> TravelRequest" where
  "mergeTravelRequest current extracted = current\<lparr>
     rq_DepartureCity := (if rq_DepartureCity extracted \<noteq> [] then rq_DepartureCity extracted else rq_DepartureCity current),
     rq_DestinationCity := (if rq_DestinationCity extracted \<noteq> [] then rq_DestinationCity extracted else rq_DestinationCity current),
     rq_Days := (if 0 < rq_Days extracted then rq_Days extracted else rq_Days current),
     rq_Budget := (if f_less f_zero (rq_Budget extracted) then rq_Budget extracted else rq_Budget current),
     rq_Interests := (if rq_Interests extracted \<noteq> [] then mergeUniqueStrings (rq_Interests current) (rq_Interests extracted) else rq_Interests current),
     rq_Travelers := (if 0 < rq_Travelers extracted then rq_Travelers extracted else rq_Travelers current),
     rq_DateRange := (if rq_DateRange extracted \<noteq> [] then rq_DateRange extracted else rq_DateRange current),
     rq_TransportMode := (if rq_TransportMode extracted \<noteq> [] then rq_TransportMode extracted else rq_TransportMode current),
     rq_Pace := (if rq_Pace extracted \<noteq> [] then rq_Pace extracted else rq_Pace current),
     rq_WalkingTolerance := (if rq_WalkingTolerance extracted \<noteq> [] then rq_WalkingTolerance extracted else rq_WalkingTolerance current),
     rq_HotelArea := (if rq_HotelArea extracted \<noteq> [] then rq_HotelArea extracted else rq_HotelArea current),
     rq_MustVisit := (if rq_MustVisit extracted \<noteq> [] then mergeUniqueStrings (rq_MustVisit current) (rq_MustVisit extracted) else rq_MustVisit current),
     rq_Avoid := (if rq_Avoid extracted \<noteq> [] then mergeUniqueStrings (rq_Avoid current) (rq_Avoid extracted) else rq_Avoid current),
     rq_TravelerType := (if rq_TravelerType extracted \<noteq> [] then rq_TravelerType extracted else rq_TravelerType current),
     rq_BudgetType := (if rq_BudgetType extracted \<noteq> [] then rq_BudgetType extracted else rq_BudgetType current),
     rq_BudgetIncludes := (if rq_BudgetIncludes extracted \<noteq> [] then mergeUniqueStrings [] (rq_BudgetIncludes extracted) else rq_BudgetIncludes current)\<rparr>"

subsection \<open>The reply\<close>

text \<open>
  The conversion \<open>int64(budget)\<close> drops the fraction; of a value out of range, which the language leaves to the
  implementation, it is the smallest int64, as on amd64.
\<close>

definition int64_of_float :: "float64 \<Rightarrow> int" where
  "int64_of_float f =
     (let r = f_rat f; n = (if r < 0 then - \<lfloor>- r\<rfloor> else \<lfloor>r\<rfloor>)
      in if is_finite f \<and> - (2 ^ 63) \<le> n \<and> n < 2 ^ 63 then n else - (2 ^ 63))"

definition formatBudget :: "float64 \<Rightarrow> string" where
  "formatBudget budget =
     (if f_eq budget (f_of_int (int64_of_float budget)) then Itoa (int64_of_float budget) else f_fmt 2 budget)"

definition list_comma :: string where "list_comma = utf8 [0x3001]"

definition formatTravelInfoSummary :: "TravelRequest \<Rightarrow> string" where
  "formatTravelInfoSummary req = Join (
     (if rq_DepartureCity req \<noteq> [] then [rq_DepartureCity req @ utf8 [0x51FA, 0x53D1]] else []) @
     (if rq_DestinationCity req \<noteq> [] then [utf8 [0x53BB] @ rq_DestinationCity req] else []) @
     (if 0 < rq_Days req then [Itoa (rq_Days req) @ utf8 [0x5929]] else []) @
     (if f_less f_zero (rq_Budget req) then [utf8 [0x9884, 0x7B97] @ formatBudget (rq_Budget req) @ utf8 [0x5143]] else []) @
     (if 0 < rq_Travelers req then [Itoa (rq_Travelers req) @ utf8 [0x4EBA, 0x51FA, 0x884C]] else []) @
     (if rq_Interests req \<noteq> [] then [utf8 [0x504F, 0x597D] @ Join (rq_Interests req) list_comma] else []) @
     (if rq_MustVisit req \<noteq> [] then [utf8 [0x5FC5, 0x53BB] @ Join (rq_MustVisit req) list_comma] else []) @
     (if rq_Avoid req \<noteq> [] then [utf8 [0x907F, 0x5F00] @ Join (rq_Avoid req) list_comma] else [])) (utf8 [0xFF0C])"

definition buildFallbackChatReply :: "TravelRequest \<Rightarrow> string list \<Rightarrow> string" where
  "buildFallbackChatReply req missing =
     (let summary = formatTravelInfoSummary req
      in utf8 [0x6536, 0x5230, 0x3002] @ (if summary \<noteq> [] then utf8 [0x6211, 0x6574, 0x7406, 0x5230, 0xFF1A] @ summary @ utf8 [0x3002] else [])
         @ (if missing \<noteq> [] then utf8 [0x8FD8, 0x9700, 0x8981, 0x786E, 0x8BA4, 0xFF1A] @ Join missing list_comma @ utf8 [0x3002] else utf8 [0x4FE1, 0x606F, 0x5DF2, 0x7ECF, 0x9F50, 0x5168, 0xFF0C, 0x53EF, 0x4EE5, 0x751F, 0x6210, 0x884C, 0x7A0B, 0x4E86, 0x3002]))"

text \<open>The local extractor. Its result repeats the fields of the request; there is no id among them.\<close>

definition info_result :: "TravelRequest \<Rightarrow> string \<Rightarrow> TravelInfoResult" where
  "info_result req reply =
     (let missing = missingFieldsFromRequest req
      in \<lparr>ir_Request = req\<lparr>rq_ID := []\<rparr>, ir_Reply = reply, ir_Missing = missing, ir_IsComplete = (missing = [])\<rparr>)"

definition simpleFallbackExtractor :: "ctx \<Rightarrow> string \<Rightarrow> TravelRequest \<Rightarrow> string + TravelInfoResult" where
  "simpleFallbackExtractor c message current =
     (case ctx_Err c of
        Some e \<Rightarrow> Inl e
      | None \<Rightarrow>
          (let extracted = NormalizeTravelBrief (mergeTravelRequest current (extractTravelInfoFromMessage message))
           in Inr (info_result extracted (buildFallbackChatReply extracted (missingFieldsFromRequest extracted)))))"

subsection \<open>Asking the language model\<close>

definition chatInfoPromptVersion :: string where "chatInfoPromptVersion = ''chat-info-v1''"
definition chatReplyPromptVersion :: string where "chatReplyPromptVersion = ''chat-reply-v1''"
definition extractTravelInfoToolName :: string where "extractTravelInfoToolName = ''extract_travel_info''"

definition chatInfoJSONSchema :: schema where
  "chatInfoJSONSchema = objectSchema
     [(''departure_city'', stringSchema), (''destination_city'', stringSchema), (''days'', integerSchema), (''budget'', numberSchema),
      (''interests'', arraySchema stringSchema), (''travelers'', integerSchema), (''date_range'', stringSchema),
      (''transport_mode'', stringSchema), (''pace'', stringSchema), (''walking_tolerance'', stringSchema), (''hotel_area'', stringSchema),
      (''must_visit'', arraySchema stringSchema), (''avoid'', arraySchema stringSchema), (''traveler_type'', stringSchema),
      (''budget_type'', stringSchema), (''budget_includes'', arraySchema stringSchema), (''reply'', stringSchema),
      (''missing'', arraySchema stringSchema), (''is_complete'', SchemaType ''boolean'')]
     [''departure_city'', ''destination_city'', ''days'', ''budget'', ''interests'', ''travelers'', ''date_range'', ''transport_mode'',
      ''pace'', ''walking_tolerance'', ''hotel_area'', ''must_visit'', ''avoid'', ''traveler_type'', ''budget_type'', ''budget_includes'',
      ''reply'', ''missing'', ''is_complete'']"

text \<open>The members of the context. The lists of a normalised request are never nil.\<close>

definition chat_context :: "string \<Rightarrow> TravelRequest \<Rightarrow> string \<Rightarrow> string" where
  "chat_context message current budget = json_object
     [json_field ''message'' (json_string message),
      json_field ''departure_city'' (json_string (rq_DepartureCity current)),
      json_field ''destination_city'' (json_string (rq_DestinationCity current)),
      json_field ''days'' (json_int (rq_Days current)),
      json_field ''budget'' budget,
      json_field ''interests'' (json_strings (rq_Interests current)),
      json_field ''travelers'' (json_int (rq_Travelers current)),
      json_field ''date_range'' (json_string (rq_DateRange current)),
      json_field ''transport_mode'' (json_string (rq_TransportMode current)),
      json_field ''pace'' (json_string (rq_Pace current)),
      json_field ''walking_tolerance'' (json_string (rq_WalkingTolerance current)),
      json_field ''hotel_area'' (json_string (rq_HotelArea current)),
      json_field ''must_visit'' (json_strings (rq_MustVisit current)),
      json_field ''avoid'' (json_strings (rq_Avoid current)),
      json_field ''traveler_type'' (json_string (rq_TravelerType current)),
      json_field ''budget_type'' (json_string (rq_BudgetType current)),
      json_field ''budget_includes'' (json_strings (rq_BudgetIncludes current))]"

definition chat_info_system :: "string \<Rightarrow> string" where
  "chat_info_system agentMode = Join [
     utf8 [0x4F60, 0x662F, 0x4E2D, 0x6587, 0x65C5, 0x6E38, 0x9700, 0x6C42, 0x6536, 0x96C6, 0x52A9, 0x624B, 0x3002],
     utf8 [0x8BF7, 0x4ECE, 0x7528, 0x6237, 0x6D88, 0x606F, 0x4E2D, 0x62BD, 0x53D6, 0x20, 0x64, 0x65, 0x70, 0x61, 0x72, 0x74, 0x75, 0x72, 0x65, 0x5F, 0x63, 0x69, 0x74, 0x79, 0x3001, 0x64, 0x65, 0x73, 0x74, 0x69, 0x6E, 0x61, 0x74, 0x69, 0x6F, 0x6E, 0x5F, 0x63, 0x69, 0x74, 0x79, 0x3001, 0x64, 0x61, 0x79, 0x73, 0x3001, 0x62, 0x75, 0x64, 0x67, 0x65, 0x74, 0x3001, 0x69, 0x6E, 0x74, 0x65, 0x72, 0x65, 0x73, 0x74, 0x73, 0x3001, 0x74, 0x72, 0x61, 0x76, 0x65, 0x6C, 0x65, 0x72, 0x73, 0x3001, 0x64, 0x61, 0x74, 0x65, 0x5F, 0x72, 0x61, 0x6E, 0x67, 0x65, 0x3001, 0x74, 0x72, 0x61, 0x6E, 0x73, 0x70, 0x6F, 0x72, 0x74, 0x5F, 0x6D, 0x6F, 0x64, 0x65, 0x3001, 0x70, 0x61, 0x63, 0x65, 0x3001, 0x77, 0x61, 0x6C, 0x6B, 0x69, 0x6E, 0x67, 0x5F, 0x74, 0x6F, 0x6C, 0x65, 0x72, 0x61, 0x6E, 0x63, 0x65, 0x3001, 0x68, 0x6F, 0x74, 0x65, 0x6C, 0x5F, 0x61, 0x72, 0x65, 0x61, 0x3001, 0x6D, 0x75, 0x73, 0x74, 0x5F, 0x76, 0x69, 0x73, 0x69, 0x74, 0x3001, 0x61, 0x76, 0x6F, 0x69, 0x64, 0x3001, 0x74, 0x72, 0x61, 0x76, 0x65, 0x6C, 0x65, 0x72, 0x5F, 0x74, 0x79, 0x70, 0x65, 0x3001, 0x62, 0x75, 0x64, 0x67, 0x65, 0x74, 0x5F, 0x74, 0x79, 0x70, 0x65, 0x20, 0x548C, 0x20, 0x62, 0x75, 0x64, 0x67, 0x65, 0x74, 0x5F, 0x69, 0x6E, 0x63, 0x6C, 0x75, 0x64, 0x65, 0x73, 0x3002],
     utf8 [0x8BF7, 0x628A, 0x65B0, 0x62BD, 0x53D6, 0x7684, 0x5B57, 0x6BB5, 0x4E0E, 0x5DF2, 0x6709, 0x786E, 0x8BA4, 0x5B57, 0x6BB5, 0x5408, 0x5E76, 0xFF1B, 0x7528, 0x6237, 0x672C, 0x6B21, 0x660E, 0x786E, 0x7ED9, 0x51FA, 0x7684, 0x65B0, 0x503C, 0x4F18, 0x5148, 0x8986, 0x76D6, 0x65E7, 0x503C, 0x3002],
     utf8 [0x5FC5, 0x586B, 0x5B57, 0x6BB5, 0x662F, 0x20, 0x64, 0x65, 0x70, 0x61, 0x72, 0x74, 0x75, 0x72, 0x65, 0x5F, 0x63, 0x69, 0x74, 0x79, 0x3001, 0x64, 0x65, 0x73, 0x74, 0x69, 0x6E, 0x61, 0x74, 0x69, 0x6F, 0x6E, 0x5F, 0x63, 0x69, 0x74, 0x79, 0x3001, 0x64, 0x61, 0x79, 0x73, 0x3001, 0x62, 0x75, 0x64, 0x67, 0x65, 0x74, 0x3001, 0x69, 0x6E, 0x74, 0x65, 0x72, 0x65, 0x73, 0x74, 0x73, 0x20, 0x548C, 0x20, 0x74, 0x72, 0x61, 0x76, 0x65, 0x6C, 0x65, 0x72, 0x73, 0x3002],
     utf8 [0x53EF, 0x9009, 0x5B57, 0x6BB5, 0x672A, 0x77E5, 0x65F6, 0x5FC5, 0x987B, 0x4F7F, 0x7528, 0x4EA7, 0x54C1, 0x9ED8, 0x8BA4, 0x503C, 0xFF1A, 0x64, 0x61, 0x74, 0x65, 0x5F, 0x72, 0x61, 0x6E, 0x67, 0x65, 0x3D, 0x4EFB, 0x610F, 0xFF0C, 0x74, 0x72, 0x61, 0x6E, 0x73, 0x70, 0x6F, 0x72, 0x74, 0x5F, 0x6D, 0x6F, 0x64, 0x65, 0x3D, 0x4EFB, 0x610F, 0xFF0C, 0x70, 0x61, 0x63, 0x65, 0x3D, 0x9002, 0x4E2D, 0xFF0C, 0x77, 0x61, 0x6C, 0x6B, 0x69, 0x6E, 0x67, 0x5F, 0x74, 0x6F, 0x6C, 0x65, 0x72, 0x61, 0x6E, 0x63, 0x65, 0x3D, 0x4EFB, 0x610F, 0xFF0C, 0x68, 0x6F, 0x74, 0x65, 0x6C, 0x5F, 0x61, 0x72, 0x65, 0x61, 0x3D, 0x4EFB, 0x610F, 0xFF0C, 0x6D, 0x75, 0x73, 0x74, 0x5F, 0x76, 0x69, 0x73, 0x69, 0x74, 0x3D, 0x5B, 0x5D, 0xFF0C, 0x61, 0x76, 0x6F, 0x69, 0x64, 0x3D, 0x5B, 0x5D, 0xFF0C, 0x74, 0x72, 0x61, 0x76, 0x65, 0x6C, 0x65, 0x72, 0x5F, 0x74, 0x79, 0x70, 0x65, 0x3D, 0x65E0, 0x8981, 0x6C42, 0xFF0C, 0x62, 0x75, 0x64, 0x67, 0x65, 0x74, 0x5F, 0x74, 0x79, 0x70, 0x65, 0x3D, 0x603B, 0x9884, 0x7B97, 0xFF0C, 0x62, 0x75, 0x64, 0x67, 0x65, 0x74, 0x5F, 0x69, 0x6E, 0x63, 0x6C, 0x75, 0x64, 0x65, 0x73, 0x3D, 0x5B, 0x4F4F, 0x5BBF, 0x2C, 0x9910, 0x996E, 0x2C, 0x95E8, 0x7968, 0x2C, 0x5E02, 0x5185, 0x4EA4, 0x901A, 0x5D, 0x3002],
     utf8 [0x4F18, 0x5148, 0x8F93, 0x51FA, 0x9762, 0x5411, 0x7528, 0x6237, 0x7684, 0x4E2D, 0x6587, 0x503C, 0x3002, 0x5DF2, 0x6709, 0x4E0A, 0x4E0B, 0x6587, 0x4E2D, 0x53EF, 0x80FD, 0x51FA, 0x73B0, 0x65E7, 0x679A, 0x4E3E, 0x503C, 0xFF0C, 0x9700, 0x8981, 0x5F52, 0x4E00, 0x5316, 0xFF1A, 0x74, 0x72, 0x61, 0x6E, 0x73, 0x70, 0x6F, 0x72, 0x74, 0x5F, 0x6D, 0x6F, 0x64, 0x65, 0x20, 0x61, 0x6E, 0x79, 0x2F, 0x74, 0x72, 0x61, 0x69, 0x6E, 0x5F, 0x74, 0x61, 0x78, 0x69, 0x2F, 0x74, 0x72, 0x61, 0x69, 0x6E, 0x5F, 0x77, 0x61, 0x6C, 0x6B, 0x2F, 0x73, 0x75, 0x62, 0x77, 0x61, 0x79, 0x5F, 0x77, 0x61, 0x6C, 0x6B, 0x2F, 0x66, 0x6C, 0x69, 0x67, 0x68, 0x74, 0x5F, 0x74, 0x61, 0x78, 0x69, 0x2F, 0x77, 0x61, 0x6C, 0x6B, 0x5F, 0x74, 0x61, 0x78, 0x69, 0xFF0C, 0x70, 0x61, 0x63, 0x65, 0x20, 0x72, 0x65, 0x6C, 0x61, 0x78, 0x65, 0x64, 0x2F, 0x62, 0x61, 0x6C, 0x61, 0x6E, 0x63, 0x65, 0x64, 0x2F, 0x69, 0x6E, 0x74, 0x65, 0x6E, 0x73, 0x69, 0x76, 0x65, 0xFF0C, 0x77, 0x61, 0x6C, 0x6B, 0x69, 0x6E, 0x67, 0x5F, 0x74, 0x6F, 0x6C, 0x65, 0x72, 0x61, 0x6E, 0x63, 0x65, 0x20, 0x61, 0x6E, 0x79, 0x2F, 0x6C, 0x6F, 0x77, 0x2F, 0x6D, 0x65, 0x64, 0x69, 0x75, 0x6D, 0x2F, 0x68, 0x69, 0x67, 0x68, 0xFF0C, 0x62, 0x75, 0x64, 0x67, 0x65, 0x74, 0x5F, 0x74, 0x79, 0x70, 0x65, 0x20, 0x74, 0x6F, 0x74, 0x61, 0x6C, 0x2F, 0x70, 0x65, 0x72, 0x5F, 0x70, 0x65, 0x72, 0x73, 0x6F, 0x6E, 0x3002],
     utf8 [0x8BF7, 0x7528, 0x7B80, 0x6D01, 0x4E2D, 0x6587, 0x56DE, 0x590D, 0x7528, 0x6237, 0xFF1A, 0x786E, 0x8BA4, 0x5DF2, 0x6536, 0x96C6, 0x7684, 0x4FE1, 0x606F, 0xFF0C, 0x53EA, 0x8FFD, 0x95EE, 0x7F3A, 0x5931, 0x7684, 0x5FC5, 0x586B, 0x5B57, 0x6BB5, 0x3002],
     utf8 [0x5982, 0x679C, 0x5FC5, 0x586B, 0x5B57, 0x6BB5, 0x90FD, 0x5DF2, 0x5177, 0x5907, 0xFF0C, 0x8BF7, 0x544A, 0x8BC9, 0x7528, 0x6237, 0x4FE1, 0x606F, 0x5DF2, 0x9F50, 0xFF0C, 0x53EF, 0x4EE5, 0x751F, 0x6210, 0x884C, 0x7A0B, 0x3002],
     plannerModeInstruction agentMode,
     utf8 [0x63D0, 0x793A, 0x8BCD, 0x7248, 0x672C, 0xFF1A] @ chatInfoPromptVersion @ utf8 [0x3002]] '' ''"

definition buildChatInfoMessages :: "string \<Rightarrow> TravelRequest \<Rightarrow> string \<Rightarrow> string + chatMessage list" where
  "buildChatInfoMessages message current agentMode =
     (case json_float (rq_Budget current) of
        None \<Rightarrow> Inl (''marshal chat context: json: unsupported value: '' @ f_fmt 0 (rq_Budget current))
      | Some budget \<Rightarrow>
          Inr [\<lparr>cm_Role = ''system'', cm_Content = chat_info_system agentMode\<rparr>,
               \<lparr>cm_Role = ''user'', cm_Content = utf8 [0x5BF9, 0x8BDD, 0x4E0A, 0x4E0B, 0x6587, 0xFF1A] @ [CHR 0x0A] @ chat_context message current budget\<rparr>])"

text \<open>
  \<open>parseChatInfoResult\<close>: what the model says is missing or complete is not used, it is computed from the
  normalised request. The decoder gives its error, or the payload and whether anything follows it.
\<close>

definition parseChatInfoResult ::
  "(string \<Rightarrow> string + TravelInfoResult \<times> bool) \<Rightarrow> string \<Rightarrow> string + TravelInfoResult" where
  "parseChatInfoResult decode raw =
     (if TrimSpace raw = [] then Inl ''chat info result is empty''
      else case decode raw of
             Inl e \<Rightarrow> Inl (''decode chat info result: '' @ e)
           | Inr (payload, trailing) \<Rightarrow>
               if trailing then Inl ''chat info result contains trailing data''
               else if TrimSpace (ir_Reply payload) = [] then Inl ''chat info result reply is empty''
               else Inr (info_result (NormalizeTravelBrief ((ir_Request payload)\<lparr>rq_ID := []\<rparr>)) (ir_Reply payload)))"

definition extractChatInfoPayload ::
  "(string \<Rightarrow> string + chatCompletionResponse) \<Rightarrow> LLMConfig \<Rightarrow> string \<Rightarrow> string + string \<times> LLMTokenUsage" where
  "extractChatInfoPayload decode cfg data = tool_payload decode cfg extractTravelInfoToolName False data"

text \<open>What one attempt meets.\<close>

record chat_world =
  cw_stream :: stream_world
  cw_response :: "string \<Rightarrow> string + chatCompletionResponse"
  cw_info :: "string \<Rightarrow> string + TravelInfoResult \<times> bool"
  cw_order :: "index_map \<Rightarrow> index_map"

definition info_description :: string where
  "info_description = utf8 [0x4ECE, 0x7528, 0x6237, 0x6D88, 0x606F, 0x4E2D, 0x62BD, 0x53D6, 0x7ED3, 0x6784, 0x5316, 0x65C5, 0x884C, 0x9700, 0x6C42, 0x4FE1, 0x606F, 0x3002]"

definition info_payload :: "LLMConfig \<Rightarrow> chatMessage list \<Rightarrow> string \<Rightarrow> chatCompletionRequest" where
  "info_payload cfg messages agentMode =
     buildChatCompletionRequest cfg messages (Some chatInfoJSONSchema) extractTravelInfoToolName info_description agentMode"

definition callLLMStreaming :: "chat_world \<Rightarrow> LLMConfig \<Rightarrow> string \<Rightarrow> string \<Rightarrow> TravelRequest \<Rightarrow> string + TravelInfoResult" where
  "callLLMStreaming w cfg agentMode message current =
     (case buildChatInfoMessages message current agentMode of
        Inl e \<Rightarrow> Inl e
      | Inr messages \<Rightarrow>
          (let payload = info_payload cfg messages agentMode
           in case fst (chatCompletionStream (cw_stream w) cfg payload) of
                Inl e \<Rightarrow> Inl e
              | Inr result \<Rightarrow>
                  (case extractStreamToolPayload (cw_order w) (lc_Provider cfg) (cc_Model payload) result extractTravelInfoToolName of
                     Inl e \<Rightarrow> Inl e
                   | Inr rawJSON \<Rightarrow> parseChatInfoResult (cw_info w) rawJSON)))"

definition callLLMBuffered :: "chat_world \<Rightarrow> LLMConfig \<Rightarrow> string \<Rightarrow> string \<Rightarrow> TravelRequest \<Rightarrow> string + TravelInfoResult" where
  "callLLMBuffered w cfg agentMode message current =
     (case buildChatInfoMessages message current agentMode of
        Inl e \<Rightarrow> Inl e
      | Inr messages \<Rightarrow>
          (case exchange (sw_send (cw_stream w)) cfg 524288 (info_payload cfg messages agentMode) of
             Inl e \<Rightarrow> Inl e
           | Inr body \<Rightarrow>
               (case extractChatInfoPayload (cw_response w) cfg body of
                  Inl e \<Rightarrow> Inl e
                | Inr (rawJSON, used) \<Rightarrow> parseChatInfoResult (cw_info w) rawJSON)))"

definition callLLM :: "chat_world \<Rightarrow> LLMConfig \<Rightarrow> string \<Rightarrow> string \<Rightarrow> TravelRequest \<Rightarrow> string + TravelInfoResult" where
  "callLLM w cfg agentMode message current =
     (if lc_StreamEnabled cfg then callLLMStreaming w cfg agentMode message current
      else callLLMBuffered w cfg agentMode message current)"

subsection \<open>The streamed reply\<close>

text \<open>\<open>intToStr\<close>; the negation of the smallest int is that int again.\<close>

function int_digits :: "int \<Rightarrow> string \<Rightarrow> string" where
  "int_digits n ds = (if n \<le> 0 then ds else int_digits (n div 10) (char_of (nat (48 + n mod 10)) # ds))"
  by pat_completeness auto
termination by (relation "measure (\<lambda>(n, ds). nat n)") auto

declare int_digits.simps [simp del]

definition intToStr :: "int \<Rightarrow> string" where
  "intToStr n =
     (if n = 0 then ''0''
      else if n < 0 then CHR ''-'' # int_digits (wrap64 (- n)) []
      else int_digits n [])"

definition floatToStr :: "float64 \<Rightarrow> string" where
  "floatToStr f = formatBudget f"

definition chat_reply_system :: string where
  "chat_reply_system = Join [
     utf8 [0x4F60, 0x662F, 0x4E2D, 0x6587, 0x65C5, 0x6E38, 0x9700, 0x6C42, 0x6536, 0x96C6, 0x52A9, 0x624B, 0x3002],
     utf8 [0x4F60, 0x4F1A, 0x6536, 0x5230, 0x5DF2, 0x7ECF, 0x4ECE, 0x7528, 0x6237, 0x6D88, 0x606F, 0x4E2D, 0x62BD, 0x53D6, 0x51FA, 0x7684, 0x7ED3, 0x6784, 0x5316, 0x5B57, 0x6BB5, 0xFF0C, 0x4EE5, 0x53CA, 0x4ECD, 0x7136, 0x7F3A, 0x5931, 0x7684, 0x5FC5, 0x586B, 0x5B57, 0x6BB5, 0x3002],
     utf8 [0x8BF7, 0x7528, 0x7B80, 0x6D01, 0x4E2D, 0x6587, 0x56DE, 0x590D, 0x7528, 0x6237, 0xFF1A, 0x786E, 0x8BA4, 0x5DF2, 0x7ECF, 0x6536, 0x96C6, 0x5230, 0x7684, 0x4FE1, 0x606F, 0xFF0C, 0x53EA, 0x8FFD, 0x95EE, 0x7F3A, 0x5931, 0x7684, 0x5FC5, 0x586B, 0x5B57, 0x6BB5, 0x3002],
     utf8 [0x5982, 0x679C, 0x5FC5, 0x586B, 0x5B57, 0x6BB5, 0x90FD, 0x5DF2, 0x5177, 0x5907, 0xFF0C, 0x8BF7, 0x544A, 0x8BC9, 0x7528, 0x6237, 0x4FE1, 0x606F, 0x5DF2, 0x9F50, 0xFF0C, 0x53EF, 0x4EE5, 0x751F, 0x6210, 0x884C, 0x7A0B, 0x3002],
     utf8 [0x4E0D, 0x8981, 0x8F93, 0x51FA, 0x20, 0x4A, 0x53, 0x4F, 0x4E, 0x20, 0x6216, 0x20, 0x4D, 0x61, 0x72, 0x6B, 0x64, 0x6F, 0x77, 0x6E, 0xFF0C, 0x53EA, 0x8F93, 0x51FA, 0x4E00, 0x4E2A, 0x7B80, 0x77ED, 0x6BB5, 0x843D, 0x3002],
     utf8 [0x63D0, 0x793A, 0x8BCD, 0x7248, 0x672C, 0xFF1A] @ chatReplyPromptVersion @ utf8 [0x3002]] '' ''"

definition reply_part :: "bool \<Rightarrow> string \<Rightarrow> string \<Rightarrow> string" where
  "reply_part present label text = (if present then label @ text @ ''; '' else [])"

definition reply_facts :: "TravelInfoResult \<Rightarrow> string" where
  "reply_facts prior =
     (let q = ir_Request prior
      in reply_part (rq_DepartureCity q \<noteq> []) (utf8 [0x51FA, 0x53D1, 0x5730, 0x3D]) (rq_DepartureCity q)
       @ reply_part (rq_DestinationCity q \<noteq> []) (utf8 [0x76EE, 0x7684, 0x5730, 0x3D]) (rq_DestinationCity q)
       @ reply_part (0 < rq_Days q) (utf8 [0x5929, 0x6570, 0x3D]) (intToStr (rq_Days q))
       @ reply_part (f_less f_zero (rq_Budget q)) (utf8 [0x9884, 0x7B97, 0x3D]) (floatToStr (rq_Budget q))
       @ reply_part (0 < rq_Travelers q) (utf8 [0x4EBA, 0x6570, 0x3D]) (intToStr (rq_Travelers q))
       @ reply_part (rq_Interests q \<noteq> []) (utf8 [0x504F, 0x597D, 0x3D]) (Join (rq_Interests q) list_comma)
       @ reply_part (rq_DateRange q \<noteq> []) (utf8 [0x65E5, 0x671F, 0x3D]) (rq_DateRange q)
       @ reply_part (rq_Pace q \<noteq> []) (utf8 [0x8282, 0x594F, 0x3D]) (rq_Pace q)
       @ reply_part (rq_TransportMode q \<noteq> []) (utf8 [0x4EA4, 0x901A, 0x3D]) (rq_TransportMode q)
       @ reply_part (rq_WalkingTolerance q \<noteq> []) (utf8 [0x6B65, 0x884C, 0x3D]) (rq_WalkingTolerance q)
       @ reply_part (rq_MustVisit q \<noteq> []) (utf8 [0x5FC5, 0x53BB, 0x3D]) (Join (rq_MustVisit q) list_comma)
       @ reply_part (rq_Avoid q \<noteq> []) (utf8 [0x907F, 0x5F00, 0x3D]) (Join (rq_Avoid q) list_comma)
       @ reply_part (ir_Missing prior \<noteq> []) (utf8 [0x7F3A, 0x5931, 0x5B57, 0x6BB5, 0x3D]) (Join (ir_Missing prior) list_comma)
       @ reply_part (ir_IsComplete prior) (utf8 [0x4FE1, 0x606F, 0x662F, 0x5426, 0x5B8C, 0x6574, 0x3D]) ''true'')"

definition buildChatReplyMessages :: "TravelInfoResult \<Rightarrow> string \<Rightarrow> chatMessage list" where
  "buildChatReplyMessages prior userMessage =
     [\<lparr>cm_Role = ''system'', cm_Content = chat_reply_system\<rparr>,
      \<lparr>cm_Role = ''user'', cm_Content = utf8 [0x5DF2, 0x6536, 0x96C6, 0x4FE1, 0x606F, 0xFF1A] @ reply_facts prior @ [CHR 0x0A] @ utf8 [0x7528, 0x6237, 0x672C, 0x8F6E, 0x6D88, 0x606F, 0xFF1A] @ userMessage\<rparr>]"

text \<open>The deltas reported, and the text or nothing; the extractor asks for it only with a reporter and streaming on.\<close>

definition streamChatReply :: "stream_world \<Rightarrow> LLMConfig \<Rightarrow> TravelInfoResult \<Rightarrow> string \<Rightarrow> string list \<times> string" where
  "streamChatReply w cfg prior userMessage =
     (let payload = (buildChatCompletionRequest cfg (buildChatReplyMessages prior userMessage) None [] [] ''quick'')
            \<lparr>cc_Tools := [], cc_ToolChoice := None, cc_ResponseFormat := None, cc_Thinking := None\<rparr>
      in case chatCompletionStream w cfg payload of
           (Inl e, deltas, _) \<Rightarrow> (deltas, [])
         | (Inr result, deltas, _) \<Rightarrow> (deltas, TrimSpace (sr_Content result)))"

subsection \<open>The extractor\<close>

record chatInfoExtractor =
  ce_client :: "LLMConfig option"
  ce_maxRetries :: int
  ce_disabledReason :: string

definition NewTravelInfoExtractor :: "LLMConfig \<Rightarrow> chatInfoExtractor" where
  "NewTravelInfoExtractor cfg =
     (let off = (\<lambda>reason. \<lparr>ce_client = None, ce_maxRetries = 0, ce_disabledReason = reason\<rparr>)
      in if \<not> lc_Enabled cfg then off ''disabled''
         else if lc_APIKey cfg = [] then off ''missing_api_key''
         else if lc_BaseURL cfg = [] \<or> lc_Model cfg = [] then off ''provider_error''
         else \<lparr>ce_client = Some cfg, ce_maxRetries = lc_MaxRetries cfg, ce_disabledReason = []\<rparr>)"

text \<open>The attempts from number \<open>n\<close> on, \<open>k\<close> of them left: the first answer.\<close>

fun chat_attempts :: "(nat \<Rightarrow> string + TravelInfoResult) \<Rightarrow> nat \<Rightarrow> nat \<Rightarrow> TravelInfoResult option" where
  "chat_attempts call n 0 = None"
| "chat_attempts call n (Suc k) = (case call n of Inr result \<Rightarrow> Some result | Inl e \<Rightarrow> chat_attempts call (n + 1) k)"

text \<open>What the extractor meets: its attempts, the streamed reply, and whether the context has a reporter of deltas.\<close>

record chat_env =
  ch_attempt :: "nat \<Rightarrow> chat_world"
  ch_reply :: stream_world
  ch_reporting :: bool

definition asked_model :: "chatInfoExtractor \<Rightarrow> chat_env \<Rightarrow> string \<Rightarrow> string \<Rightarrow> TravelRequest \<Rightarrow> (LLMConfig \<times> TravelInfoResult) option" where
  "asked_model x e agentMode message current =
     (case (ce_disabledReason x, ce_client x) of
        ([], Some cfg) \<Rightarrow>
          (let attempts = ce_maxRetries x + 1
           in map_option (Pair cfg) (chat_attempts (\<lambda>n. callLLM (ch_attempt e n) cfg agentMode message current) 0
                (if attempts \<le> 0 then 1 else nat attempts)))
      | _ \<Rightarrow> None)"

definition chat_Extract :: "chatInfoExtractor \<Rightarrow> chat_env \<Rightarrow> extractor" where
  "chat_Extract x e c testMode agentMode message current =
     (if testMode then ([], simpleFallbackExtractor c message current)
      else case asked_model x e agentMode message current of
             None \<Rightarrow> ([], simpleFallbackExtractor c message current)
           | Some (cfg, result) \<Rightarrow>
               if ch_reporting e \<and> lc_StreamEnabled cfg then
                 (case streamChatReply (ch_reply e) cfg result message of
                    (deltas, streamed) \<Rightarrow> (deltas, Inr (if streamed \<noteq> [] then result\<lparr>ir_Reply := streamed\<rparr> else result)))
               else ([], Inr result))"

end
