(* ===== verification/ChatGuarantees.thy ===== *)
theory ChatGuarantees
  imports Chat PlannerRuns
begin

section \<open>What the chat guarantees\<close>

text \<open>
  The chat in front of the planner: whatever the model answers, a chat that reports the brief as complete has a brief that
  the service and the planner accept; without a model a conversation collects exactly what its messages say.
\<close>

subsection \<open>Complete means acceptable\<close>

lemma chat_attempts_Some:
  "chat_attempts call n k = Some result \<Longrightarrow> \<exists>m. n \<le> m \<and> m < n + k \<and> call m = Inr result"
proof (induction call n k rule: chat_attempts.induct)
  case (2 call n k)
  show ?case
  proof (cases "call n")
    case (Inl e)
    then obtain m where "n + 1 \<le> m" "m < n + 1 + k" "call m = Inr result" using 2 by auto
    then show ?thesis by (intro exI [of _ m]) simp
  next
    case (Inr r)
    then show ?thesis using 2(2) by (intro exI [of _ n]) simp
  qed
qed simp

text \<open>The request of a result is normalised, and what it says is missing is what is missing from that request.\<close>

definition sound_result :: "TravelInfoResult \<Rightarrow> bool" where
  "sound_result result \<longleftrightarrow> (\<exists>q. ir_Request result = NormalizeTravelBrief q \<and> rq_ID q = [])
     \<and> ir_Missing result = missingFieldsFromRequest (ir_Request result) \<and> (ir_IsComplete result \<longleftrightarrow> ir_Missing result = [])"

lemma missing_id [simp]: "missingFieldsFromRequest (q\<lparr>rq_ID := i\<rparr>) = missingFieldsFromRequest q"
  by (simp add: missingFieldsFromRequest_def)

lemma normalize_id [simp]: "(NormalizeTravelBrief q)\<lparr>rq_ID := i\<rparr> = NormalizeTravelBrief (q\<lparr>rq_ID := i\<rparr>)"
  by (simp add: NormalizeTravelBrief_def Let_def)

lemma missing_normalized_id [simp]:
  "missingFieldsFromRequest (NormalizeTravelBrief (q\<lparr>rq_ID := i\<rparr>)) = missingFieldsFromRequest (NormalizeTravelBrief q)"
  unfolding normalize_id [symmetric] by (rule missing_id)

lemma sound_info_result [intro]: "sound_result (info_result (NormalizeTravelBrief q) reply)"
  by (auto simp: sound_result_def info_result_def Let_def intro!: exI [of _ "q\<lparr>rq_ID := []\<rparr>"])

lemma sound_reply [simp]: "sound_result (result\<lparr>ir_Reply := r\<rparr>) = sound_result result"
  by (simp add: sound_result_def)

lemma parseChatInfoResult_sound: "parseChatInfoResult decode raw = Inr result \<Longrightarrow> sound_result result"
  by (auto simp: parseChatInfoResult_def split: if_splits sum.splits prod.splits)

lemma callLLM_sound: "callLLM w cfg mode message current = Inr result \<Longrightarrow> sound_result result"
  by (auto simp: callLLM_def callLLMStreaming_def callLLMBuffered_def Let_def
      split: if_splits sum.splits prod.splits dest: parseChatInfoResult_sound)

lemma fallback_sound: "simpleFallbackExtractor c message current = Inr result \<Longrightarrow> sound_result result"
  by (auto simp: simpleFallbackExtractor_def Let_def split: option.splits)

lemma fallback_error: "simpleFallbackExtractor c message current = Inl err \<Longrightarrow> ctx_Err c = Some err"
  by (auto simp: simpleFallbackExtractor_def Let_def split: option.splits)

lemma asked_model_sound: "asked_model x e mode message current = Some (cfg, result) \<Longrightarrow> sound_result result"
  unfolding asked_model_def Let_def
  by (auto simp del: chat_attempts.simps split: list.splits option.splits dest!: chat_attempts_Some callLLM_sound)

lemma chat_Extract_cases:
  "case snd (chat_Extract x e c t mode message current) of Inl err \<Rightarrow> ctx_Err c = Some err | Inr result \<Rightarrow> sound_result result"
  by (auto simp: chat_Extract_def split: sum.split option.split prod.split
      dest: fallback_sound fallback_error asked_model_sound)

lemma missing_Nil: "missingFieldsFromRequest q = [] \<longleftrightarrow> rq_DepartureCity q \<noteq> [] \<and> rq_DestinationCity q \<noteq> []
    \<and> 0 < rq_Days q \<and> \<not> f_le (rq_Budget q) f_zero \<and> rq_Interests q \<noteq> [] \<and> 0 < rq_Travelers q"
  by (auto simp: missingFieldsFromRequest_def)

lemma missing_acceptable:
  "missingFieldsFromRequest (NormalizeTravelBrief q) = [] \<longleftrightarrow> acceptable (NormalizeTravelBrief q)"
  by (simp add: missing_Nil acceptable_def)

text \<open>The request for a plan that repeats the fields of a chat response, as the page sends it.\<close>

definition plan_request :: "TravelRequest \<Rightarrow> CreatePlanRequest" where
  "plan_request q = \<lparr>cr_ID = [], cr_DepartureCity = rq_DepartureCity q, cr_DestinationCity = rq_DestinationCity q,
     cr_Days = rq_Days q, cr_Budget = rq_Budget q, cr_Interests = rq_Interests q, cr_Travelers = rq_Travelers q,
     cr_DateRange = rq_DateRange q, cr_TransportMode = rq_TransportMode q, cr_Pace = rq_Pace q,
     cr_WalkingTolerance = rq_WalkingTolerance q, cr_HotelArea = rq_HotelArea q, cr_MustVisit = rq_MustVisit q,
     cr_Avoid = rq_Avoid q, cr_TravelerType = rq_TravelerType q, cr_BudgetType = rq_BudgetType q,
     cr_BudgetIncludes = rq_BudgetIncludes q, cr_TestMode = False, cr_AgentMode = []\<rparr>"

lemma validate_plan_request: "validateCreatePlanRequest (plan_request (NormalizeTravelBrief q)) = Inr ()
    \<longleftrightarrow> missingFieldsFromRequest (NormalizeTravelBrief q) = []"
  by (auto simp: validateCreatePlanRequest_def plan_request_def missing_Nil)

text \<open>
  C21. Whatever a chat meets - a disabled or a broken model, any answer of the model at any attempt, a reply streamed or not -
  it fails only with the error of its context. Otherwise its request is in normal form, its missing labels are those of
  that request (not what the model claims), and it is reported complete exactly if the planner's first node accepts the request
  and exactly if the service's validation accepts the plan request made of it.
\<close>

theorem complete_chat_is_plannable:
  "case snd (Chat (chat_Extract x e) c req) of
     Inl err \<Rightarrow> ctx_Err c = Some err
   | Inr resp \<Rightarrow>
       NormalizeTravelBrief (rs_Request resp) = rs_Request resp
       \<and> rs_Missing resp = missingFieldsFromRequest (rs_Request resp)
       \<and> (rs_IsComplete resp \<longleftrightarrow> acceptable (rs_Request resp))
       \<and> (rs_IsComplete resp \<longleftrightarrow> validateCreatePlanRequest (plan_request (rs_Request resp)) = Inr ())"
proof -
  have r: "case snd (chat_Extract x e c (cq_TestMode req) (normalizeAgentMode (cq_AgentMode req)) (cq_Message req)
      (NormalizeTravelBrief ((cq_Request req)\<lparr>rq_ID := []\<rparr>))) of
      Inl err \<Rightarrow> ctx_Err c = Some err | Inr result \<Rightarrow> sound_result result"
    by (rule chat_Extract_cases)
  show ?thesis
  proof (cases "snd (chat_Extract x e c (cq_TestMode req) (normalizeAgentMode (cq_AgentMode req)) (cq_Message req)
      (NormalizeTravelBrief ((cq_Request req)\<lparr>rq_ID := []\<rparr>)))")
    case (Inl err)
    then show ?thesis using r by (auto simp: Chat_def Let_def split: prod.splits sum.splits)
  next
    case (Inr result)
    then obtain q where q: "ir_Request result = NormalizeTravelBrief q"
        "ir_Missing result = missingFieldsFromRequest (NormalizeTravelBrief q)" "ir_IsComplete result \<longleftrightarrow> ir_Missing result = []"
      using r by (auto simp: sound_result_def)
    show ?thesis using Inr q
      by (auto simp: Chat_def Let_def NormalizeTravelBrief_idem validate_plan_request missing_acceptable split: prod.splits sum.splits)
  qed
qed

subsection \<open>What a conversation collects\<close>

text \<open>
  A message that is read without the model, and a conversation: each message goes with the request of the answer before,
  as the page keeps it.
\<close>

definition turn :: "chatInfoExtractor \<Rightarrow> chat_env \<Rightarrow> string \<Rightarrow> TravelRequest \<Rightarrow> TravelRequest" where
  "turn x e message known =
     (case snd (Chat (chat_Extract x e) background
         \<lparr>cq_Message = message, cq_Request = known, cq_TestMode = True, cq_AgentMode = []\<rparr>) of
        Inr resp \<Rightarrow> rs_Request resp
      | Inl err \<Rightarrow> known)"

definition conversation :: "chatInfoExtractor \<Rightarrow> chat_env \<Rightarrow> string list \<Rightarrow> TravelRequest \<Rightarrow> TravelRequest" where
  "conversation x e messages known = fold (turn x e) messages known"

abbreviation "said m \<equiv> extractTravelInfoFromMessage m"

lemma turn_eq: "turn x e m known =
    NormalizeTravelBrief ((mergeTravelRequest (NormalizeTravelBrief (known\<lparr>rq_ID := []\<rparr>)) (said m))\<lparr>rq_ID := []\<rparr>)"
  by (simp add: turn_def Chat_def Let_def chat_Extract_def simpleFallbackExtractor_def background_def info_result_def)

text \<open>Every text a rule captures is trimmed.\<close>

lemma TrimSpace_cleanCityCandidate [simp]: "TrimSpace (cleanCityCandidate v) = cleanCityCandidate v"
  by (simp add: cleanCityCandidate_def Let_def)

lemma first_some_Some: "first_some f xs = Some y \<Longrightarrow> \<exists>x \<in> set xs. f x = Some y"
  by (induction xs) (auto split: option.splits)

lemma captured_city_trimmed: "captured_city excluded m p = Some city \<Longrightarrow> TrimSpace city = city \<and> city \<noteq> []"
  by (auto simp: captured_city_def isUsableCityCandidate_def Let_def split: option.splits if_splits)

lemma segment_city_trimmed: "segment_city d s = Some city \<Longrightarrow> TrimSpace city = city \<and> city \<noteq> []"
  by (auto simp: segment_city_def isUsableCityCandidate_def Let_def split: if_splits)

lemma TrimSpace_extracted_cities [simp]:
  "TrimSpace (extractDepartureCity m) = extractDepartureCity m"
  "TrimSpace (extractDestinationCity m d) = extractDestinationCity m d"
  by (auto simp: extractDepartureCity_def extractDestinationCity_def split: option.split
      dest!: first_some_Some captured_city_trimmed segment_city_trimmed)

lemma interest_values: "list_all (\<lambda>g. TrimSpace (fst g) = fst g \<and> fst g \<noteq> []) interest_groups"
  by code_simp

lemma extracted_interests: "list_all (\<lambda>v. TrimSpace v = v \<and> v \<noteq> []) (extractInterests m)"
  using interest_values by (auto simp: extractInterests_def list_all_iff)

lemma extracted_list: "list_all (\<lambda>v. TrimSpace v = v \<and> v \<noteq> []) (extractListByPattern m p)"
  by (auto simp: extractListByPattern_def list_all_iff Let_def split: option.split)

lemma f_of_rat_not_NaN: "f_of_rat q \<noteq> NaN"
  by (simp add: f_of_rat_def Let_def)

lemma f_mul_not_NaN: "is_finite a \<Longrightarrow> is_finite b \<Longrightarrow> f_mul a b \<noteq> NaN"
  by (cases a; cases b) (simp_all add: f_mul_def Let_def f_of_rat_not_NaN f_zero_of_def)

lemma f_of_int_small: "is_finite (f_of_int 1000)" "is_finite (f_of_int 10000)"
  by (simp_all add: f_of_int_exact)

lemma extracted_budget: "extractBudget m \<noteq> NaN"
proof -
  have "extractBudgetWithPattern m p \<noteq> NaN" for p
    by (auto simp: extractBudgetWithPattern_def ParseFloat_def Let_def f_mul_not_NaN f_of_int_small f_of_rat_not_NaN
        split: option.splits if_splits)
  then show ?thesis by (simp add: extractBudget_def Let_def)
qed

lemma f_le_zero: "f \<noteq> NaN \<Longrightarrow> f_le f f_zero \<longleftrightarrow> \<not> f_less f_zero f"
  by (cases f) (auto simp: f_le_def f_eq_def)

text \<open>Which labels are missing.\<close>

lemma labels_distinct: "distinct [label_departure, label_destination, label_days, label_budget, label_interests, label_travelers]"
  by code_simp

lemma missing_mem:
  "label_departure \<in> set (missingFieldsFromRequest q) \<longleftrightarrow> rq_DepartureCity q = []"
  "label_destination \<in> set (missingFieldsFromRequest q) \<longleftrightarrow> rq_DestinationCity q = []"
  "label_days \<in> set (missingFieldsFromRequest q) \<longleftrightarrow> rq_Days q \<le> 0"
  "label_budget \<in> set (missingFieldsFromRequest q) \<longleftrightarrow> f_le (rq_Budget q) f_zero"
  "label_interests \<in> set (missingFieldsFromRequest q) \<longleftrightarrow> rq_Interests q = []"
  "label_travelers \<in> set (missingFieldsFromRequest q) \<longleftrightarrow> rq_Travelers q \<le> 0"
  using labels_distinct by (auto simp: missingFieldsFromRequest_def)

lemma mergeUniqueStrings_eq: "mergeUniqueStrings a b = normalizeStringSlice (a @ b)"
  by (simp add: mergeUniqueStrings_def normalizeStringSlice_def)

lemma normalizeStringSlice_append_Nil:
  "normalizeStringSlice (a @ b) = [] \<longleftrightarrow> normalizeStringSlice a = [] \<and> normalizeStringSlice b = []"
  unfolding set_empty [symmetric] set_normalizeStringSlice by auto

lemma set_normalizeStringSlice_append:
  "set (normalizeStringSlice (a @ b)) = set (normalizeStringSlice a) \<union> set (normalizeStringSlice b)"
  by (auto simp: set_normalizeStringSlice)

lemma normalizeStringSlice_trimmed:
  assumes "list_all (\<lambda>v. TrimSpace v = v \<and> v \<noteq> []) vs"
  shows "set (normalizeStringSlice vs) = set vs" "normalizeStringSlice vs = [] \<longleftrightarrow> vs = []"
proof -
  show s: "set (normalizeStringSlice vs) = set vs" using assms by (force simp: set_normalizeStringSlice list_all_iff)
  show "normalizeStringSlice vs = [] \<longleftrightarrow> vs = []" using s by (metis set_empty)
qed

text \<open>What one message adds to a brief in normal form.\<close>

lemma filter_if_singleton: "filter P (if b then [l] else []) = (if P l \<and> b then [l] else [])"
  by simp

lemma turn_missing: "missingFieldsFromRequest (turn x e m known) =
    filter (\<lambda>l. l \<in> set (missingFieldsFromRequest (said m))) (missingFieldsFromRequest (NormalizeTravelBrief known))"
proof -
  have i: "rq_Interests (turn x e m known) = [] \<longleftrightarrow> rq_Interests (said m) = [] \<and> normalizeStringSlice (rq_Interests known) = []"
    using normalizeStringSlice_trimmed(2) [OF extracted_interests]
    by (simp add: turn_eq mergeTravelRequest_def mergeUniqueStrings_eq normalizeStringSlice_append_Nil extractTravelInfoFromMessage_def Let_def)
  have b: "f_le (rq_Budget (turn x e m known)) f_zero \<longleftrightarrow> f_le (rq_Budget (said m)) f_zero \<and> f_le (rq_Budget known) f_zero"
    using extracted_budget
    by (simp add: turn_eq mergeTravelRequest_def extractTravelInfoFromMessage_def Let_def f_le_zero)
  have c: "rq_DepartureCity (turn x e m known) = [] \<longleftrightarrow> rq_DepartureCity (said m) = [] \<and> TrimSpace (rq_DepartureCity known) = []"
    "rq_DestinationCity (turn x e m known) = [] \<longleftrightarrow> rq_DestinationCity (said m) = [] \<and> TrimSpace (rq_DestinationCity known) = []"
    by (simp_all add: turn_eq mergeTravelRequest_def extractTravelInfoFromMessage_def Let_def)
  have n: "rq_Days (turn x e m known) \<le> 0 \<longleftrightarrow> rq_Days (said m) \<le> 0 \<and> rq_Days known \<le> 0"
    "rq_Travelers (turn x e m known) \<le> 0 \<longleftrightarrow> rq_Travelers (said m) \<le> 0 \<and> rq_Travelers known \<le> 0"
    by (simp_all add: turn_eq mergeTravelRequest_def)
  have "missingFieldsFromRequest (NormalizeTravelBrief known) =
      (if TrimSpace (rq_DepartureCity known) = [] then [label_departure] else []) @
      (if TrimSpace (rq_DestinationCity known) = [] then [label_destination] else []) @
      (if rq_Days known \<le> 0 then [label_days] else []) @
      (if f_le (rq_Budget known) f_zero then [label_budget] else []) @
      (if normalizeStringSlice (rq_Interests known) = [] then [label_interests] else []) @
      (if rq_Travelers known \<le> 0 then [label_travelers] else [])"
    by (simp add: missingFieldsFromRequest_def)
  then show ?thesis
    unfolding missingFieldsFromRequest_def [of "turn x e m known"] i b c n
    by (simp only: filter_append filter_if_singleton missing_mem)
qed

lemma turn_normal: "NormalizeTravelBrief (turn x e m known) = turn x e m known"
  by (simp add: turn_eq NormalizeTravelBrief_idem)

lemma turn_lists:
  "set (rq_Interests (turn x e m known)) = set (rq_Interests (NormalizeTravelBrief known)) \<union> set (rq_Interests (said m))"
  "set (rq_MustVisit (turn x e m known)) = set (rq_MustVisit (NormalizeTravelBrief known)) \<union> set (rq_MustVisit (said m))"
  "set (rq_Avoid (turn x e m known)) = set (rq_Avoid (NormalizeTravelBrief known)) \<union> set (rq_Avoid (said m))"
proof -
  have a: "set (normalizeStringSlice (mergeUniqueStrings (normalizeStringSlice old) new))
      = set (normalizeStringSlice old) \<union> set new" if "list_all (\<lambda>v. TrimSpace v = v \<and> v \<noteq> []) new" for new old
    using normalizeStringSlice_trimmed(1) [OF that] by (simp add: mergeUniqueStrings_eq set_normalizeStringSlice_append)
  show "set (rq_Interests (turn x e m known)) = set (rq_Interests (NormalizeTravelBrief known)) \<union> set (rq_Interests (said m))"
    using a [OF extracted_interests] by (simp add: turn_eq mergeTravelRequest_def extractTravelInfoFromMessage_def Let_def)
  show "set (rq_MustVisit (turn x e m known)) = set (rq_MustVisit (NormalizeTravelBrief known)) \<union> set (rq_MustVisit (said m))"
    using a [OF extracted_list] by (simp add: turn_eq mergeTravelRequest_def extractTravelInfoFromMessage_def Let_def)
  show "set (rq_Avoid (turn x e m known)) = set (rq_Avoid (NormalizeTravelBrief known)) \<union> set (rq_Avoid (said m))"
    using a [OF extracted_list] by (simp add: turn_eq mergeTravelRequest_def extractTravelInfoFromMessage_def Let_def)
qed

lemma conversation_Cons: "conversation x e (m # ms) known = conversation x e ms (turn x e m known)"
  by (simp add: conversation_def)

text \<open>
  C22. A conversation without the model collects exactly what its messages say: after any messages a field is missing
  if and only if it was missing before and no message says it, and the interests, the places to visit and the places to avoid are those
  known before and those some message names. So nothing that was said is lost or asked for again.
\<close>

theorem conversation_collects:
  "missingFieldsFromRequest (NormalizeTravelBrief (conversation x e messages known)) =
     filter (\<lambda>l. list_all (\<lambda>m. l \<in> set (missingFieldsFromRequest (said m))) messages)
       (missingFieldsFromRequest (NormalizeTravelBrief known))
   \<and> set (rq_Interests (NormalizeTravelBrief (conversation x e messages known))) =
       set (rq_Interests (NormalizeTravelBrief known)) \<union> set (concat (map (\<lambda>m. rq_Interests (said m)) messages))
   \<and> set (rq_MustVisit (NormalizeTravelBrief (conversation x e messages known))) =
       set (rq_MustVisit (NormalizeTravelBrief known)) \<union> set (concat (map (\<lambda>m. rq_MustVisit (said m)) messages))
   \<and> set (rq_Avoid (NormalizeTravelBrief (conversation x e messages known))) =
       set (rq_Avoid (NormalizeTravelBrief known)) \<union> set (concat (map (\<lambda>m. rq_Avoid (said m)) messages))"
proof (induction messages arbitrary: known)
  case Nil
  then show ?case by (simp add: conversation_def)
next
  case (Cons m ms)
  show ?case
    using Cons.IH [of "turn x e m known"] unfolding conversation_Cons turn_normal turn_missing turn_lists
    by (simp add: conj_commute Un_assoc)
qed

subsection \<open>Numbers in a message\<close>

text \<open>A counted run of a class in front of a sign of one rune, whatever follows.\<close>

lemma counted_run:
  assumes v: "list_all valid_rune (rs @ [d])" and rs: "list_all (in_class c) rs" "rs \<noteq> []" "length rs \<le> k"
    and d: "\<not> in_class c d" "\<not> in_class space_class d"
  shows "\<exists>sub. FindStringSubmatch (seqs [Group 1 (Rep c 1 (Some k) True), spaces, alts (lit [d] # alt # others)]) (utf8 (rs @ [d]) @ rest) = Some sub
    \<and> sub 1 = utf8 rs"
proof -
  let ?u = "map (\<lambda>r. (r, enc_rune r)) rs" and ?x = "(d, enc_rune d)"
  have r: "runetext (utf8 (rs @ [d]) @ rest) = ?u @ ?x # runetext rest" using runetext_utf8 [OF v] by simp
  have "first_match (Rep c 1 (Some k) True) (?u @ ?x # runetext rest) (?x # runetext rest) []"
    using rs d by (intro first_match_run) (auto simp: list_all_iff Suc_leI)
  then have a: "first_match (Group 1 (Rep c 1 (Some k) True)) (?u @ ?x # runetext rest) (?x # runetext rest) [(1, ?u)]"
    by (rule first_match_intros(4))
  have b: "first_match spaces ([] @ ?x # runetext rest) (?x # runetext rest) []"
    using d by (intro first_match_run) auto
  have "first_match (lit [d]) (?x # runetext rest) (runetext rest) []"
    by (simp add: lit_def first_match_intros(1))
  then have l: "first_match (alts (lit [d] # alt # others)) (?x # runetext rest) (runetext rest) []"
    by (simp add: first_match_intros(3))
  have "first_match (seqs [Group 1 (Rep c 1 (Some k) True), spaces, alts (lit [d] # alt # others)])
      (?u @ ?x # runetext rest) (runetext rest) ([(1, ?u)] @ [] @ [])"
    unfolding seqs.simps by (intro first_match_intros(2) [OF a] first_match_intros(2) [OF b [unfolded append_Nil]] l)
  then have "find_match (seqs [Group 1 (Rep c 1 (Some k) True), spaces, alts (lit [d] # alt # others)]) (?u @ ?x # runetext rest)
      = Some ([], take (length (?u @ ?x # runetext rest) - length (runetext rest)) (?u @ ?x # runetext rest), runetext rest, [(1, ?u)])"
    using find_match_first by fastforce
  moreover have "text_of ?u = utf8 rs" by (simp add: text_of_def utf8_def comp_def)
  ultimately show ?thesis unfolding FindStringSubmatch_def r by (simp add: group_def)
qed

text \<open>The numerals below a hundred, as they are written.\<close>

definition numeral_digit :: "nat \<Rightarrow> nat list" where
  "numeral_digit n = (if n = 0 then [] else [[0x4E00, 0x4E8C, 0x4E09, 0x56DB, 0x4E94, 0x516D, 0x4E03, 0x516B, 0x4E5D] ! (n - 1)])"

definition chinese_runes :: "nat \<Rightarrow> nat list" where
  "chinese_runes n =
     (if n < 10 then numeral_digit n
      else (if n < 20 then [] else numeral_digit (n div 10)) @ [0x5341] @ numeral_digit (n mod 10))"

definition chinese_number :: "nat \<Rightarrow> string" where
  "chinese_number n = utf8 (chinese_runes n)"

definition arabic_runes :: "nat \<Rightarrow> nat list" where
  "arabic_runes n = map of_char (Itoa (int n))"

definition sign_day :: nat where "sign_day = hd [0x5929]"
definition sign_people :: nat where "sign_people = hd [0x4EBA]"

lemma chinese_numeral: "list_all (\<lambda>n.
    list_all (\<lambda>r. valid_rune r \<and> in_class chinese_digits r) (chinese_runes n) \<and> chinese_runes n \<noteq> [] \<and> length (chinese_runes n) \<le> 3) [1..<100]"
  by code_simp

lemma arabic_numeral: "list_all (\<lambda>n.
    list_all (\<lambda>r. valid_rune r \<and> in_class digit_class r) (arabic_runes n) \<and> arabic_runes n \<noteq> [] \<and> length (arabic_runes n) \<le> 2
    \<and> utf8 (arabic_runes n) = Itoa (int n)) [1..<100]"
  by code_simp

lemma numeral_value_1: "list_all (\<lambda>n. parseSmallChineseNumber (chinese_number n) = int n) [1..<26]"
  by code_simp

lemma numeral_value_2: "list_all (\<lambda>n. parseSmallChineseNumber (chinese_number n) = int n) [26..<51]"
  by code_simp

lemma numeral_value_3: "list_all (\<lambda>n. parseSmallChineseNumber (chinese_number n) = int n) [51..<76]"
  by code_simp

lemma numeral_value_4: "list_all (\<lambda>n. parseSmallChineseNumber (chinese_number n) = int n) [76..<100]"
  by code_simp

lemma numeral_value: "list_all (\<lambda>n. parseSmallChineseNumber (chinese_number n) = int n) [1..<100]"
proof -
  have "[1..<100] = [1..<26] @ [26..<51] @ [51..<76] @ [76..<100::nat]" by code_simp
  then show ?thesis using numeral_value_1 numeral_value_2 numeral_value_3 numeral_value_4 by (simp only: list_all_append)
qed

lemmas numeral_runes = chinese_numeral arabic_numeral numeral_value

lemma signs: "list_all (\<lambda>d. valid_rune d \<and> \<not> in_class digit_class d \<and> \<not> in_class chinese_digits d \<and> \<not> in_class space_class d)
    [sign_day, sign_people]"
  by code_simp

lemma numeral_patterns:
  "arabicDayPattern = seqs [Group 1 (Rep digit_class 1 (Some 2) True), spaces,
     alts (lit [sign_day] # lit [0x65E5] # [Seq (lit_fold (ascii ''day'')) (Opt (lit_fold (ascii ''s'')))])]"
  "chineseDayPattern = seqs [Group 1 (Rep chinese_digits 1 (Some 3) True), spaces, alts (lit [sign_day] # lit [0x65E5] # [])]"
  "arabicTravelersPattern = seqs [Group 1 (Rep digit_class 1 (Some 2) True), spaces,
     alts (lit [sign_people] # lit [0x4F4D] # [lit [0x4E2A, 0x4EBA], lit_fold (ascii ''adult''), lit_fold (ascii ''adults''),
       lit_fold (ascii ''traveler''), lit_fold (ascii ''travelers'')])]"
  "chineseTravelersPattern = seqs [Group 1 (Rep chinese_digits 1 (Some 3) True), spaces, alts (lit [sign_people] # lit [0x4F4D] # [lit [0x4E2A, 0x4EBA]])]"
  by (simp_all only: arabicDayPattern_def chineseDayPattern_def arabicTravelersPattern_def chineseTravelersPattern_def
      sign_day_def sign_people_def list.sel)

lemma arabic_count:
  assumes "0 < n" "n < 100" "d = sign_day \<or> d = sign_people"
  shows "\<exists>sub. FindStringSubmatch (seqs [Group 1 (Rep digit_class 1 (Some 2) True), spaces, alts (lit [d] # alt # others)])
    (Itoa (int n) @ enc_rune d @ rest) = Some sub \<and> Atoi (sub 1) = Some (int n)"
proof -
  have n: "n \<in> set [1..<100]" using assms by simp
  note r = numeral_runes [unfolded list_all_iff [of _ "[1..<100]"], THEN bspec, OF n]
  have s: "valid_rune d" "\<not> in_class digit_class d" "\<not> in_class space_class d"
    using assms(3) signs by auto
  have "\<exists>sub. FindStringSubmatch (seqs [Group 1 (Rep digit_class 1 (Some 2) True), spaces, alts (lit [d] # alt # others)])
      (utf8 (arabic_runes n @ [d]) @ rest) = Some sub \<and> sub 1 = utf8 (arabic_runes n)"
    by (rule counted_run) (use r s in \<open>auto simp: list_all_iff\<close>)
  moreover have "Atoi (Itoa (int n)) = Some (int n)" using assms(2) by (intro Atoi_Itoa) auto
  ultimately show ?thesis using r by auto
qed

lemma chinese_count:
  assumes "0 < n" "n < 100" "d = sign_day \<or> d = sign_people"
  shows "\<exists>sub. FindStringSubmatch (seqs [Group 1 (Rep chinese_digits 1 (Some 3) True), spaces, alts (lit [d] # alt # others)])
    (chinese_number n @ enc_rune d @ rest) = Some sub \<and> parseSmallChineseNumber (sub 1) = int n"
proof -
  have n: "n \<in> set [1..<100]" using assms by simp
  note r = numeral_runes [unfolded list_all_iff [of _ "[1..<100]"], THEN bspec, OF n]
  have s: "valid_rune d" "\<not> in_class chinese_digits d" "\<not> in_class space_class d"
    using assms(3) signs by auto
  have "\<exists>sub. FindStringSubmatch (seqs [Group 1 (Rep chinese_digits 1 (Some 3) True), spaces, alts (lit [d] # alt # others)])
      (utf8 (chinese_runes n @ [d]) @ rest) = Some sub \<and> sub 1 = utf8 (chinese_runes n)"
    by (rule counted_run) (use r s in \<open>auto simp: list_all_iff\<close>)
  then show ?thesis using r by (auto simp: chinese_number_def)
qed

text \<open>
  Every number from 1 to 99 is read back from a message that counts days or people with it, whatever the message goes on with:
  written with digits always, written in Chinese numerals if no count in digits follows, which has precedence.
\<close>

theorem numerals_read_back:
  assumes "0 < n" "n < 100"
  shows "extractDays (Itoa (int n) @ enc_rune sign_day @ rest) = int n
    \<and> extractTravelers (Itoa (int n) @ enc_rune sign_people @ rest) = int n
    \<and> (MatchString arabicDayPattern (chinese_number n @ enc_rune sign_day @ rest)
       \<or> extractDays (chinese_number n @ enc_rune sign_day @ rest) = int n)
    \<and> (MatchString arabicTravelersPattern (chinese_number n @ enc_rune sign_people @ rest)
       \<or> extractTravelers (chinese_number n @ enc_rune sign_people @ rest) = int n)"
proof -
  have m: "FindStringSubmatch p s = None" if "\<not> MatchString p s" for p s
    using that by (cases "find_match p (runetext s)") (simp_all add: MatchString_def FindStringSubmatch_def)
  have "extractDays (Itoa (int n) @ enc_rune sign_day @ rest) = int n"
    using arabic_count [OF assms disjI1 [OF refl]] unfolding extractDays_def numeral_patterns Let_def by (metis option.simps(5))
  moreover have "extractTravelers (Itoa (int n) @ enc_rune sign_people @ rest) = int n"
    using arabic_count [OF assms disjI2 [OF refl]] unfolding extractTravelers_def numeral_patterns Let_def by (metis option.simps(5))
  moreover have "extractDays (chinese_number n @ enc_rune sign_day @ rest) = int n"
    if "\<not> MatchString arabicDayPattern (chinese_number n @ enc_rune sign_day @ rest)"
    using chinese_count [OF assms disjI1 [OF refl]] m [OF that] unfolding extractDays_def numeral_patterns Let_def
    by (metis option.simps(4,5))
  moreover have "extractTravelers (chinese_number n @ enc_rune sign_people @ rest) = int n"
    if "\<not> MatchString arabicTravelersPattern (chinese_number n @ enc_rune sign_people @ rest)"
    using chinese_count [OF assms disjI2 [OF refl]] m [OF that] unfolding extractTravelers_def numeral_patterns Let_def
    by (metis option.simps(4,5))
  ultimately show ?thesis by blast
qed

definition count_rest :: string where "count_rest = utf8 [0xFF0C, 0x9884, 0x7B97, 0x35, 0x30, 0x30, 0x30, 0x5143]"

theorem numerals_read_back_witness:
  "(0 < (37::nat) \<and> 37 < (100::nat)) \<and> extractDays (Itoa (int 37) @ enc_rune sign_day @ count_rest) = int 37
    \<and> extractDays (chinese_number 37 @ enc_rune sign_day @ count_rest) = int 37"
proof -
  have "\<not> MatchString arabicDayPattern (chinese_number 37 @ enc_rune sign_day @ count_rest)" by code_simp
  then show ?thesis using numerals_read_back [of 37 count_rest] by simp
qed

lemma digit_class_iff: "in_class digit_class r \<longleftrightarrow> 48 \<le> r \<and> r \<le> 57"
  by (auto simp: digit_class_def)

text \<open>Numbers of at most two digits, and Chinese numerals.\<close>

lemma two_digits:
  assumes "runetext s = a @ u @ b" "list_all (\<lambda>x. in_class digit_class (fst x)) u" "length u \<le> 2" "Atoi (text_of u) = Some n"
  shows "0 \<le> n \<and> n \<le> 99"
proof -
  have t: "text_of u = map (\<lambda>x. char_of (fst x)) u"
    by (rule text_of_ascii [of u s]) (use assms(1,2) in \<open>auto simp: digit_class_iff list_all_iff\<close>)
  have c: "(of_char (char_of r :: char) :: nat) = r" if "r \<le> 57" for r :: nat using that by simp
  have sign: "char_of r \<noteq> CHR ''-''" "char_of r \<noteq> CHR ''+''" if "48 \<le> r" "r \<le> 57" for r :: nat
  proof -
    have d: "(of_char CHR ''-'' :: nat) = 45" "(of_char CHR ''+'' :: nat) = 43" by simp_all
    have e: "r = of_char ch" if "char_of r = (ch::char)" for ch using c [OF \<open>r \<le> 57\<close>] that by simp
    show "char_of r \<noteq> CHR ''-''" "char_of r \<noteq> CHR ''+''" using e that(1) d by fastforce+
  qed
  consider "u = []" | x where "u = [x]" | x y where "u = [x, y]"
    using assms(3) by (cases u; cases "tl u"; cases "tl (tl u)") auto
  then show ?thesis
  proof cases
    case 1
    then have "text_of u = []" by (simp add: text_of_def)
    then show ?thesis using assms(4) by (simp add: Atoi_def)
  next
    case 2
    have "Atoi [char_of (fst x)] = Some n" using assms(4) unfolding t by (simp add: 2)
    then show ?thesis using assms(2) sign 2 by (auto simp: Atoi_def digit_class_iff digits_value_def split: if_splits)
  next
    case 3
    have "Atoi [char_of (fst x), char_of (fst y)] = Some n" using assms(4) unfolding t by (simp add: 3)
    then show ?thesis using assms(2) sign 3 by (auto simp: Atoi_def digit_class_iff digits_value_def split: if_splits)
  qed
qed

lemma small_digit_bounds: "0 \<le> small_digit r \<and> small_digit r \<le> 9"
  by (auto simp: small_digit_def split: option.split dest!: map_of_SomeD)

lemma first_digit_bounds: "0 \<le> first_digit s" "first_digit s \<le> 9"
  using small_digit_bounds by (simp_all add: first_digit_def)

lemma chinese_bounds: "0 \<le> parseSmallChineseNumber v \<and> parseSmallChineseNumber v \<le> 99"
proof -
  have "0 \<le> first_digit s * 10 + first_digit t \<and> first_digit s * 10 + first_digit t \<le> 99 \<and> first_digit s * 10 \<le> 99" for s t
    using first_digit_bounds [of s] first_digit_bounds [of t] by linarith
  then show ?thesis using first_digit_bounds
    unfolding parseSmallChineseNumber_def Let_def by (auto intro: order_trans [OF first_digit_bounds(2)])
qed

lemma arabic_bounds:
  assumes "FindStringSubmatch (seqs [Group 1 digits12, spaces, r]) s = Some sub" "group_free r" "Atoi (sub 1) = Some n"
  shows "0 \<le> n \<and> n \<le> 99"
proof -
  obtain a u b where "runetext s = a @ u @ b" "sub 1 = text_of u" "length u \<le> 2" "list_all (\<lambda>x. in_class digit_class (fst x)) u"
    using group_of_run [of digit_class 1 2 True "Seq spaces r" s sub] assms(1,2) by auto
  then show ?thesis using two_digits assms(3) by simp
qed

lemma count_alternatives_group_free:
  "group_free (alts [lit [0x5929], lit [0x65E5], Seq (lit_fold (ascii ''day'')) (Opt (lit_fold (ascii ''s'')))])"
  "group_free (alts [lit [0x4EBA], lit [0x4F4D], lit [0x4E2A, 0x4EBA], lit_fold (ascii ''adult''), lit_fold (ascii ''adults''),
       lit_fold (ascii ''traveler''), lit_fold (ascii ''travelers'')])"
  by (code_simp, code_simp)

text \<open>
  The number of days and of travelers taken from a message is between 0 and 99, whatever the message: digits are read two at most
  (of any script that is not ASCII none), and a Chinese numeral, however it is put together, is never above 99. So neither the
  conversion nor the sum in \<open>parseSmallChineseNumber\<close> can overflow.
\<close>

theorem counts_bounded:
  "0 \<le> extractDays m \<and> extractDays m \<le> 99 \<and> 0 \<le> extractTravelers m \<and> extractTravelers m \<le> 99"
proof -
  have d: "0 \<le> n \<and> n \<le> 99" if "FindStringSubmatch arabicDayPattern m = Some sub" "Atoi (sub 1) = Some n" for sub n
    using arabic_bounds [OF that(1) [unfolded arabicDayPattern_def] count_alternatives_group_free(1) that(2)] .
  have t: "0 \<le> n \<and> n \<le> 99" if "FindStringSubmatch arabicTravelersPattern m = Some sub" "Atoi (sub 1) = Some n" for sub n
    using arabic_bounds [OF that(1) [unfolded arabicTravelersPattern_def] count_alternatives_group_free(2) that(2)] .
  have "0 \<le> extractDays m \<and> extractDays m \<le> 99"
    using d chinese_bounds by (auto simp: extractDays_def Let_def split: option.split)
  moreover have "0 \<le> extractTravelers m \<and> extractTravelers m \<le> 99"
    using t chinese_bounds by (auto simp: extractTravelers_def Let_def split: option.split)
  ultimately show ?thesis by blast
qed

subsection \<open>What the rules misread\<close>

definition avoid_message :: string where "avoid_message = utf8 [0x4E0D, 0x60F3, 0x53BB, 0x96F7, 0x5CF0, 0x5854]"
definition avoid_place :: string where "avoid_place = utf8 [0x96F7, 0x5CF0, 0x5854]"
definition date_message :: string where "date_message = utf8 [0x31, 0x30, 0x6708, 0x33, 0x65E5, 0x51FA, 0x53D1]"
definition about_message :: string where "about_message = utf8 [0x5927, 0x6982, 0x33, 0x5929]"

lemma about_amount: "decimal_value ''3'' = 3"
  by code_simp

lemma about_budget: "extractBudget about_message = f_of_int 3"
proof -
  have "map_option (\<lambda>sub. (sub 1, sub 2)) (FindStringSubmatch budgetWithKeywordPattern about_message) = Some (''3'', [])" by code_simp
  then obtain sub where "FindStringSubmatch budgetWithKeywordPattern about_message = Some sub" "sub 1 = ''3''" "sub 2 = []" by auto
  moreover have "ParseFloat ''3'' = Some (Fin 3)"
    using f_of_int_exact [of 3] by (simp add: ParseFloat_def about_amount f_of_int_def Let_def)
  moreover have "ToLower [] = []" "[] \<noteq> utf8 [0x5343]" "[] \<noteq> utf8 [0x4E07]" by code_simp+
  ultimately have "extractBudgetWithPattern about_message budgetWithKeywordPattern = Fin 3"
    by (simp add: extractBudgetWithPattern_def Let_def)
  then show ?thesis by (simp add: extractBudget_def Let_def f_of_int_exact)
qed

text \<open>
  Three misreadings of the local rules: a place the message does not want to visit is taken as one that must be visited (as
  well as one to avoid), a date is taken as a number of days, and a number of days after a word of estimation as a budget.
\<close>

lemma chat_misreads:
  "rq_MustVisit (said avoid_message) = [avoid_place] \<and> rq_Avoid (said avoid_message) = [avoid_place]
   \<and> rq_Days (said date_message) = 3
   \<and> rq_Budget (said about_message) = f_of_int 3"
proof -
  have t: "TrimSpace avoid_message = avoid_message" "TrimSpace date_message = date_message" "TrimSpace about_message = about_message"
    by (code_simp, code_simp, code_simp)
  have "extractListByPattern avoid_message mustVisitPattern = [avoid_place]" by code_simp
  moreover have "extractListByPattern avoid_message avoidPattern = [avoid_place]" by code_simp
  moreover have "extractDays date_message = 3" by code_simp
  ultimately show ?thesis using about_budget by (simp add: extractTravelInfoFromMessage_def t Let_def)
qed

subsection \<open>Attempts\<close>

lemma chat_attempts_cong:
  "(\<And>m. n \<le> m \<Longrightarrow> m < n + k \<Longrightarrow> call m = call' m) \<Longrightarrow> chat_attempts call n k = chat_attempts call' n k"
proof (induction call n k rule: chat_attempts.induct)
  case (2 call n k)
  have "chat_attempts call (n + 1) k = chat_attempts call' (n + 1) k" if "call n = Inl e" for e
    by (rule 2(1) [OF that]) (use 2(2) in auto)
  then show ?case using 2(2) [of n] by (auto split: sum.split)
qed simp

text \<open>
  C23. The extractor always answers after a bounded number of attempts: what it does depends only on the first attempts, one more than the
  configured retries and one where that number is negative. Whatever further attempts would meet, the result and the deltas are the same.
\<close>

theorem chat_attempts_bounded:
  assumes "\<And>n. int n < max 1 (ce_maxRetries x + 1) \<Longrightarrow> ch_attempt e n = ch_attempt e' n"
    and "ch_reply e = ch_reply e'" and "ch_reporting e = ch_reporting e'"
  shows "chat_Extract x e c testMode mode message current = chat_Extract x e' c testMode mode message current"
proof -
  have "chat_attempts (\<lambda>n. callLLM (ch_attempt e n) cfg mode message current) 0 (if ce_maxRetries x + 1 \<le> 0 then 1 else nat (ce_maxRetries x + 1))
      = chat_attempts (\<lambda>n. callLLM (ch_attempt e' n) cfg mode message current) 0 (if ce_maxRetries x + 1 \<le> 0 then 1 else nat (ce_maxRetries x + 1))"
    for cfg
    by (rule chat_attempts_cong) (use assms(1) in \<open>auto split: if_splits\<close>)
  then have "asked_model x e mode message current = asked_model x e' mode message current"
    by (simp add: asked_model_def Let_def del: chat_attempts.simps split: list.split option.split)
  then show ?thesis unfolding chat_Extract_def assms(2,3) by simp
qed

definition retrying :: LLMConfig where
  "retrying = \<lparr>lc_Enabled = True, lc_Provider = ''openai'', lc_APIKey = ''key'', lc_BaseURL = ''http://model'', lc_Model = ''m'',
     lc_QuickModel = [], lc_ExpertModel = [], lc_StreamEnabled = True, lc_Timeout = 0, lc_MaxRetries = 2\<rparr>"

definition silent_world :: chat_world where
  "silent_world = \<lparr>cw_stream = \<lparr>sw_send = \<lambda>r. NoAnswer ''timeout'', sw_gone = \<lambda>n. None, sw_Duration = 0, sw_decode = \<lambda>s. None\<rparr>,
     cw_response = \<lambda>s. Inl ''bad'', cw_info = \<lambda>s. Inl ''bad'', cw_order = \<lambda>m. m\<rparr>"

definition other_world :: chat_world where
  "other_world = silent_world\<lparr>cw_response := \<lambda>s. Inl ''worse''\<rparr>"

definition attempts_env :: "chat_world \<Rightarrow> chat_env" where
  "attempts_env later = \<lparr>ch_attempt = \<lambda>n. if n < 3 then silent_world else later, ch_reply = cw_stream silent_world, ch_reporting = True\<rparr>"

theorem chat_attempts_bounded_witness:
  "chat_Extract (NewTravelInfoExtractor retrying) (attempts_env other_world) background False ''quick'' about_message sample_request
   = chat_Extract (NewTravelInfoExtractor retrying) (attempts_env silent_world) background False ''quick'' about_message sample_request"
  by (rule chat_attempts_bounded) (auto simp: attempts_env_def NewTravelInfoExtractor_def retrying_def)

subsection \<open>Numbers in a reply\<close>

lemma int_digits_eq: "0 < n \<Longrightarrow> int_digits n ds = digits (nat n) @ ds"
proof (induction n ds rule: int_digits.induct)
  case (1 n ds)
  have m: "nat (48 + n mod 10) = 48 + nat n mod 10" using 1(2) by (simp add: nat_add_distrib nat_mod_distrib)
  show ?case
  proof (cases "n < 10")
    case True
    then have "n div 10 = 0" "nat n mod 10 = nat n" using 1(2) by auto
    then show ?thesis using 1(2) m True by (simp add: int_digits.simps [of n] int_digits.simps [of 0] digits.simps [of "nat n"])
  next
    case False
    then have "0 < n div 10" "nat (n div 10) = nat n div 10" "\<not> nat n < 10" using 1(2) by (simp_all add: nat_div_distrib pos_imp_zdiv_pos_iff)
    then show ?thesis using 1 m False by (simp add: int_digits.simps [of n] digits.simps [of "nat n"])
  qed
qed

text \<open>
  The reply's own conversion agrees with \<open>strconv.Itoa\<close> on every int but the smallest, whose negation overflows: its digits are lost.
\<close>

lemma intToStr_eq: "- (2 ^ 63) \<le> n \<Longrightarrow> n < 2 ^ 63 \<Longrightarrow> intToStr n = (if n = - (2 ^ 63) then ''-'' else Itoa n)"
proof -
  assume n: "- (2 ^ 63) \<le> n" "n < 2 ^ 63"
  have w: "wrap64 (- n) = - n" if "n \<noteq> - (2 ^ 63)" using n that by (simp add: wrap64_id)
  have "int_digits (wrap64 (2 ^ 63)) [] = []" by (simp add: wrap64_def int_digits.simps)
  moreover have "Itoa 0 = ''0''" by code_simp
  ultimately show ?thesis using w by (auto simp: intToStr_def Itoa_def int_digits_eq)
qed

end
