(* ===== verification/Harness.thy ===== *)
theory Harness
  imports PlanCheck Regexp
begin

section \<open>The evaluation harness\<close>

text \<open>
  internal/harness: the dataset and its validation (dataset.go), the checks of one plan (evaluator.go), the metrics of a run
  (metrics.go), the runner (runner.go) and the report (report.go), with cmd/harness/main.go. Reading files, decoding and encoding
  JSON are arguments; so is the planner, and the order in which concurrent evaluations finish.
\<close>

subsection \<open>The dataset\<close>

record TravelExpectation =
  ex_MinDays :: int
  ex_MaxBudgetRatio :: float64
  ex_RequiredKeywords :: "string list"

record TravelCase =
  tx_ID :: string
  tx_Description :: string
  tx_Input :: TravelRequest
  tx_Expectation :: TravelExpectation

record rawTravelCase =
  rw_ID :: string
  rw_Description :: string
  rw_Input :: TravelRequest
  rw_Expectation :: "TravelExpectation option"

definition defaultMaxBudgetRatio :: float64 where
  "defaultMaxBudgetRatio = f_of_rat (11 / 10)"

text \<open>One case: its error, or the case; the seen ids are those of the cases before it.\<close>

definition normalizeCase ::
  "(nat \<Rightarrow> bool) \<Rightarrow> nat \<Rightarrow> rawTravelCase \<Rightarrow> string list \<Rightarrow> string + TravelCase" where
  "normalizeCase printable index raw seen =
     (let named = (\<lambda>text. Inl (''case '' @ Quote printable (rw_ID raw) @ text))
      in if rw_ID raw = [] then Inl (''case at index '' @ Itoa (int index) @ '' has empty id'')
         else if rw_ID raw \<in> set seen then Inl (''duplicate case id '' @ Quote printable (rw_ID raw))
         else if TrimSpace (rw_Description raw) = [] then named '' description is required''
         else if rq_ID (rw_Input raw) \<noteq> rw_ID raw then named '' input.id must equal case id''
         else if rq_DestinationCity (rw_Input raw) = [] then named '' destination_city is required''
         else if rq_Days (rw_Input raw) \<le> 0 then named '' days must be positive''
         else if f_le (rq_Budget (rw_Input raw)) f_zero then named '' budget must be positive''
         else case rw_Expectation raw of
                None \<Rightarrow> named '' expectation is required''
              | Some expectation \<Rightarrow>
                  if ex_MinDays expectation \<le> 0 then named '' expectation.min_days must be positive''
                  else let expectation = (if f_eq (ex_MaxBudgetRatio expectation) f_zero
                             then expectation\<lparr>ex_MaxBudgetRatio := defaultMaxBudgetRatio\<rparr> else expectation)
                       in if f_less (ex_MaxBudgetRatio expectation) (f_of_int 1)
                          then named '' expectation.max_budget_ratio must be >= 1''
                          else if ex_RequiredKeywords expectation = []
                          then named '' expectation.required_keywords is required''
                          else Inr \<lparr>tx_ID = rw_ID raw, tx_Description = TrimSpace (rw_Description raw),
                                    tx_Input = rw_Input raw, tx_Expectation = expectation\<rparr>)"

text \<open>The loop; an id counts as seen once its case has been looked at.\<close>

fun normalize_cases ::
  "(nat \<Rightarrow> bool) \<Rightarrow> nat \<Rightarrow> string list \<Rightarrow> rawTravelCase list \<Rightarrow> string + TravelCase list" where
  "normalize_cases printable index seen [] = Inr []"
| "normalize_cases printable index seen (raw # raws) =
     (case normalizeCase printable index raw seen of
        Inl e \<Rightarrow> Inl e
      | Inr tc \<Rightarrow>
          (case normalize_cases printable (index + 1) (rw_ID raw # seen) raws of
             Inl e \<Rightarrow> Inl e
           | Inr tcs \<Rightarrow> Inr (tc # tcs)))"

definition LoadCases ::
  "(nat \<Rightarrow> bool) \<Rightarrow> (string \<Rightarrow> string + string) \<Rightarrow> (string \<Rightarrow> string + rawTravelCase list) \<Rightarrow> string \<Rightarrow> string + TravelCase list" where
  "LoadCases printable read decode path =
     (case read path of
        Inl e \<Rightarrow> Inl (''read dataset '' @ Quote printable path @ '': '' @ e)
      | Inr data \<Rightarrow>
          (case decode data of
             Inl e \<Rightarrow> Inl (''parse dataset '' @ Quote printable path @ '': '' @ e)
           | Inr raws \<Rightarrow>
               if raws = [] then Inl (''dataset '' @ Quote printable path @ '' is empty'')
               else normalize_cases printable 0 [] raws))"

subsection \<open>The result of a case\<close>

record EvaluationChecks =
  ek_PlannerSucceeded :: bool
  ek_DayMatched :: bool
  ek_BudgetPassed :: bool
  ek_StructureComplete :: bool
  ek_KeywordsMatched :: bool
  ek_NoIllegalFields :: bool
  ek_RouteFeasible :: bool

record CaseDiagnostics =
  cd_ToolFallbacks :: int
  cd_LLMFallbacks :: int
  cd_ExternalAPISuccesses :: int
  cd_ExternalAPICalls :: int
  cd_NodeDurationMs :: int
  cd_NodeDurationSamples :: int
  cd_PromptTokens :: int
  cd_CompletionTokens :: int
  cd_TotalTokens :: int
  cd_TokenUsageKnown :: bool
  cd_RouteFeasibilityWarn :: bool

record FailureSnapshot =
  fs_Input :: TravelRequest
  fs_Errors :: "string list"
  fs_Warnings :: "string list"

record CaseResult =
  cr_CaseID :: string
  cr_Description :: string
  cr_Success :: bool
  cr_DurationMs :: int
  cr_Score :: float64
  cr_Errors :: "string list"
  cr_Warnings :: "string list"
  cr_Checks :: EvaluationChecks
  cr_Diagnostics :: CaseDiagnostics
  cr_Failure :: "FailureSnapshot option"
  cr_Plan :: "TravelPlan option"

definition no_checks :: EvaluationChecks where
  "no_checks = \<lparr>ek_PlannerSucceeded = False, ek_DayMatched = False, ek_BudgetPassed = False, ek_StructureComplete = False,
     ek_KeywordsMatched = False, ek_NoIllegalFields = False, ek_RouteFeasible = False\<rparr>"

definition no_diagnostics :: CaseDiagnostics where
  "no_diagnostics = \<lparr>cd_ToolFallbacks = 0, cd_LLMFallbacks = 0, cd_ExternalAPISuccesses = 0, cd_ExternalAPICalls = 0,
     cd_NodeDurationMs = 0, cd_NodeDurationSamples = 0, cd_PromptTokens = 0, cd_CompletionTokens = 0, cd_TotalTokens = 0,
     cd_TokenUsageKnown = False, cd_RouteFeasibilityWarn = False\<rparr>"

subsection \<open>Checks\<close>

text \<open>A check and what it adds to the errors and warnings of the result; \<open>fail_check\<close> adds an error and makes it false.\<close>

type_synonym check = "bool \<times> string list \<times> string list"

definition passing :: check where "passing = (True, [], [])"

definition fail_check :: "bool \<Rightarrow> string \<Rightarrow> check \<Rightarrow> check" where
  "fail_check b message = (\<lambda>(ok, errors, warnings). if b then (False, errors @ [message], warnings) else (ok, errors, warnings))"

definition warning :: "bool \<Rightarrow> string \<Rightarrow> check \<Rightarrow> check" where
  "warning b message = (\<lambda>(ok, errors, warnings). if b then (ok, errors, warnings @ [message]) else (ok, errors, warnings))"

definition checkDays :: "TravelCase \<Rightarrow> TravelPlan \<Rightarrow> check" where
  "checkDays tc plan =
     (let n = int (length (pl_Days plan));
          c = fail_check (n \<noteq> rq_Days (tx_Input tc)) (''expected '' @ Itoa (rq_Days (tx_Input tc)) @ '' days, got '' @ Itoa n) passing;
          c = fail_check (n < ex_MinDays (tx_Expectation tc))
                (''expected at least '' @ Itoa (ex_MinDays (tx_Expectation tc)) @ '' days, got '' @ Itoa n) c
      in fold (\<lambda>(i, day). fail_check (dy_Day day \<noteq> int i + 1)
           (''day index at position '' @ Itoa (int i) @ '' should be '' @ Itoa (int i + 1) @ '', got '' @ Itoa (dy_Day day)))
           (enumerate 0 (pl_Days plan)) c)"

definition case_limit :: "TravelCase \<Rightarrow> float64" where
  "case_limit tc =
     (let budget = (if IsBudgetPerPerson (rq_BudgetType (tx_Input tc)) \<and> 0 < rq_Travelers (tx_Input tc)
                    then f_mul (rq_Budget (tx_Input tc)) (f_of_int (rq_Travelers (tx_Input tc))) else rq_Budget (tx_Input tc))
      in f_mul budget (ex_MaxBudgetRatio (tx_Expectation tc)))"

definition checkBudget :: "TravelCase \<Rightarrow> TravelPlan \<Rightarrow> check" where
  "checkBudget tc plan =
     fail_check (f_less (case_limit tc) (bg_Total (pl_Budget plan)))
       (''budget total '' @ f_fmt 2 (bg_Total (pl_Budget plan)) @ '' exceeds limit '' @ f_fmt 2 (case_limit tc)) passing"

definition check_case_item :: "int \<Rightarrow> nat \<times> TravelItem \<Rightarrow> check \<Rightarrow> check" where
  "check_case_item day = (\<lambda>(idx, item) c.
     (let named = (\<lambda>text. ''day '' @ Itoa day @ '' item '' @ Itoa (int idx) @ text);
          c = fail_check (TrimSpace (it_Name item) = []) (named '' name is empty'') c;
          c = fail_check (TrimSpace (it_Type item) = []) (named '' type is empty'') c
      in fail_check (TrimSpace (it_Reason item) = []) (named '' reason is empty'') c))"

definition check_case_day :: "TravelDay \<Rightarrow> check \<Rightarrow> check" where
  "check_case_day day c =
     (let c = warning (TrimSpace (dy_Theme day) = []) (''day '' @ Itoa (dy_Day day) @ '' theme is empty'') c
      in if dy_Items day = [] then fail_check True (''day '' @ Itoa (dy_Day day) @ '' has no items'') c
         else fold (check_case_item (dy_Day day)) (enumerate 0 (dy_Items day)) c)"

definition checkStructure :: "TravelPlan \<Rightarrow> check" where
  "checkStructure plan =
     (let c = fail_check (TrimSpace (pl_Title plan) = []) ''title is empty'' passing;
          c = fail_check (TrimSpace (pl_Summary plan) = []) ''summary is empty'' c;
          c = fail_check (pl_Days plan = []) ''days is empty'' c
      in fold check_case_day (pl_Days plan) c)"

definition flattenPlanNames :: "TravelPlan \<Rightarrow> string" where
  "flattenPlanNames plan = Join
     (concat (map (\<lambda>day. dy_Theme day # concat (map (\<lambda>item. [it_Name item, it_Address item, it_Reason item]) (dy_Items day)))
       (pl_Days plan))) '' ''"

definition search_text :: "TravelPlan \<Rightarrow> string" where
  "search_text plan = Join [pl_Title plan, pl_Summary plan, flattenPlanNames plan] '' ''"

definition checkKeywords :: "(nat \<Rightarrow> bool) \<Rightarrow> TravelCase \<Rightarrow> TravelPlan \<Rightarrow> check" where
  "checkKeywords printable tc plan =
     (let c = fold (\<lambda>keyword. fail_check (\<not> Contains (search_text plan) keyword)
                (''required keyword '' @ Quote printable keyword @ '' not found''))
                (ex_RequiredKeywords (tx_Expectation tc)) passing
      in fail_check (\<not> Contains (pl_Title plan @ '' '' @ pl_Summary plan) (rq_DestinationCity (tx_Input tc)))
           (''title or summary must contain destination city '' @ Quote printable (rq_DestinationCity (tx_Input tc))) c)"

definition budget_values :: "TravelPlan \<Rightarrow> (string \<times> float64) list" where
  "budget_values plan =
     (let b = pl_Budget plan
      in [(''transport'', bg_Transport b), (''food'', bg_Food b), (''hotel'', bg_Hotel b), (''ticket'', bg_Ticket b),
          (''total'', bg_Total b)])"

definition check_fields_item :: "(nat \<Rightarrow> bool) \<Rightarrow> TravelItem \<Rightarrow> check \<Rightarrow> check" where
  "check_fields_item printable item c =
     fail_check (it_DurationMinutes item < 0) (''item '' @ Quote printable (it_Name item) @ '' has negative duration'')
       (fail_check (f_less (it_EstimatedCost item) f_zero)
          (''item '' @ Quote printable (it_Name item) @ '' has negative estimated cost'') c)"

definition check_fields_day :: "(nat \<Rightarrow> bool) \<Rightarrow> TravelDay \<Rightarrow> check \<Rightarrow> check" where
  "check_fields_day printable day c =
     fold (check_fields_item printable) (dy_Items day)
       (fail_check (dy_Day day \<le> 0) (''day number '' @ Itoa (dy_Day day) @ '' is invalid'') c)"

definition checkIllegalFields :: "(nat \<Rightarrow> bool) \<Rightarrow> TravelPlan \<Rightarrow> check" where
  "checkIllegalFields printable plan =
     fold (check_fields_day printable) (pl_Days plan)
       (fold (\<lambda>(name, value). fail_check (f_less value f_zero) (''budget.'' @ name @ '' is negative'')) (budget_values plan) passing)"

subsection \<open>Warnings\<close>

text \<open>The warnings, without blank ones and repetitions.\<close>

definition mergeCaseWarnings :: "string list \<Rightarrow> string list \<Rightarrow> string list" where
  "mergeCaseWarnings existing planWarnings = uniq (filter (\<lambda>w. TrimSpace w \<noteq> []) (existing @ planWarnings))"

text \<open>\<open>fmt.Sscanf\<close> of \<open>%d\<close>: the number at the front of the text, what follows is not read.\<close>

definition scan_int :: "string \<Rightarrow> int option" where
  "scan_int raw =
     (let (sign, rest) = (case raw of
            c # cs \<Rightarrow> if c = CHR ''-'' \<or> c = CHR ''+'' then ([c], cs) else ([], raw)
          | [] \<Rightarrow> ([], []))
      in Atoi (sign @ takeWhile is_digit rest))"

definition parseIntField :: "string \<Rightarrow> string \<Rightarrow> int" where
  "parseIntField text key =
     (case List.map_filter (\<lambda>field. if HasPrefix field (key @ ''='') then scan_int (Trim (TrimPrefix field (key @ ''='')) [0x2C, 0x3B]) else None)
             (Fields text) of
        [] \<Rightarrow> 0
      | v # vs \<Rightarrow> v)"

definition note_warning :: "string \<Rightarrow> CaseDiagnostics \<Rightarrow> CaseDiagnostics" where
  "note_warning w d =
     (let timed = (\<lambda>d. d\<lparr>cd_NodeDurationMs := wrap64 (cd_NodeDurationMs d + parseIntField w ''duration_ms''),
                       cd_NodeDurationSamples := cd_NodeDurationSamples d + 1\<rparr>)
      in if HasPrefix w ''tool fallback:'' then
           d\<lparr>cd_ToolFallbacks := cd_ToolFallbacks d + 1, cd_ExternalAPICalls := cd_ExternalAPICalls d + 1\<rparr>
         else if HasPrefix w ''LLM fallback:'' then timed (d\<lparr>cd_LLMFallbacks := cd_LLMFallbacks d + 1\<rparr>)
         else if HasPrefix w ''LLM trace:'' then
           (if Contains w ''total_tokens=unknown'' then timed d
            else (timed d)\<lparr>cd_PromptTokens := wrap64 (cd_PromptTokens d + parseIntField w ''prompt_tokens''),
                   cd_CompletionTokens := wrap64 (cd_CompletionTokens d + parseIntField w ''completion_tokens''),
                   cd_TotalTokens := wrap64 (cd_TotalTokens d + parseIntField w ''total_tokens''),
                   cd_TokenUsageKnown := True\<rparr>)
         else if HasPrefix w ''route feasibility:'' then d\<lparr>cd_RouteFeasibilityWarn := True\<rparr>
         else d)"

definition analyzeWarnings :: "string list \<Rightarrow> CaseDiagnostics" where
  "analyzeWarnings warnings =
     (let d = fold note_warning warnings no_diagnostics
      in if cd_ExternalAPICalls d = 0 then d\<lparr>cd_ExternalAPISuccesses := 1, cd_ExternalAPICalls := 1\<rparr> else d)"

subsection \<open>The evaluation of a case\<close>

text \<open>The score; its sum is an integer of float64, which additions of ten and twenty compute exactly.\<close>

definition score :: "EvaluationChecks \<Rightarrow> float64" where
  "score checks =
     (let points = (\<lambda>b n v. if b then f_add v (f_of_int n) else v);
          v = points (ek_PlannerSucceeded checks) 20 f_zero;
          v = points (ek_DayMatched checks) 20 v;
          v = points (ek_BudgetPassed checks) 20 v;
          v = points (ek_StructureComplete checks) 20 v;
          v = points (ek_KeywordsMatched checks) 10 v;
          v = points (ek_NoIllegalFields checks) 10 v
      in if f_less v f_zero then f_zero
         else if f_less (f_of_int 100) v then f_of_int 100
         else v)"

definition failed_case :: "TravelCase \<Rightarrow> int \<Rightarrow> TravelPlan option \<Rightarrow> string \<Rightarrow> CaseResult" where
  "failed_case tc durationMs plan err =
     \<lparr>cr_CaseID = tx_ID tc, cr_Description = tx_Description tc, cr_Success = False, cr_DurationMs = durationMs, cr_Score = f_zero,
      cr_Errors = [err], cr_Warnings = [], cr_Checks = no_checks, cr_Diagnostics = no_diagnostics, cr_Failure = None, cr_Plan = plan\<rparr>"

text \<open>What the planner returns: a plan, which may be nil, or an error (and then no plan is used).\<close>

definition Evaluate :: "(nat \<Rightarrow> bool) \<Rightarrow> TravelCase \<Rightarrow> string + TravelPlan option \<Rightarrow> int \<Rightarrow> CaseResult" where
  "Evaluate printable tc outcome durationMs =
     (case outcome of
        Inl e \<Rightarrow> failed_case tc durationMs None (''planner error: '' @ e)
      | Inr None \<Rightarrow> failed_case tc durationMs None ''planner returned nil plan''
      | Inr (Some plan) \<Rightarrow>
          (let (days, e1, w1) = checkDays tc plan;
               (budget, e2, w2) = checkBudget tc plan;
               (structure, e3, w3) = checkStructure plan;
               (keywords, e4, w4) = checkKeywords printable tc plan;
               (legal, e5, w5) = checkIllegalFields printable plan;
               errors = e1 @ e2 @ e3 @ e4 @ e5;
               warnings = mergeCaseWarnings (w1 @ w2 @ w3 @ w4 @ w5) (pl_Warnings plan);
               diagnostics = analyzeWarnings warnings;
               checks = \<lparr>ek_PlannerSucceeded = True, ek_DayMatched = days, ek_BudgetPassed = budget, ek_StructureComplete = structure,
                         ek_KeywordsMatched = keywords, ek_NoIllegalFields = legal,
                         ek_RouteFeasible = (\<not> cd_RouteFeasibilityWarn diagnostics)\<rparr>
           in \<lparr>cr_CaseID = tx_ID tc, cr_Description = tx_Description tc, cr_Success = (errors = []), cr_DurationMs = durationMs,
               cr_Score = score checks, cr_Errors = errors, cr_Warnings = warnings, cr_Checks = checks,
               cr_Diagnostics = diagnostics,
               cr_Failure = (if errors = [] then None
                 else Some \<lparr>fs_Input = tx_Input tc, fs_Errors = errors, fs_Warnings = warnings\<rparr>),
               cr_Plan = Some plan\<rparr>))"

subsection \<open>Metrics\<close>

record SummaryMetrics =
  sm_TotalCases :: int
  sm_SuccessCases :: int
  sm_FailedCases :: int
  sm_SuccessRate :: float64
  sm_AverageScore :: float64
  sm_AverageDurationMs :: float64
  sm_BudgetPassRate :: float64
  sm_DayMatchRate :: float64
  sm_StructurePassRate :: float64
  sm_ToolFallbackRate :: float64
  sm_LLMFallbackRate :: float64
  sm_ExternalAPISuccessRate :: float64
  sm_AverageNodeDurationMs :: float64
  sm_AverageTokenUsage :: float64
  sm_RouteFeasibilityPassRate :: float64
  sm_WarningRate :: float64

text \<open>How many results have a property, an int64 sum over the results, and a quotient of two ints.\<close>

definition tally_cases :: "(CaseResult \<Rightarrow> bool) \<Rightarrow> CaseResult list \<Rightarrow> int" where
  "tally_cases P results = int (length (filter P results))"

definition sum64 :: "(CaseResult \<Rightarrow> int) \<Rightarrow> CaseResult list \<Rightarrow> int" where
  "sum64 f results = fold (\<lambda>r v. wrap64 (v + f r)) results 0"

definition rate :: "int \<Rightarrow> int \<Rightarrow> float64" where
  "rate k n = f_div (f_of_int k) (f_of_int n)"

definition CalculateSummary :: "CaseResult list \<Rightarrow> SummaryMetrics" where
  "CalculateSummary results =
     (let n = int (length results);
          per = (\<lambda>P. rate (tally_cases P results) n);
          externalCalls = sum64 (\<lambda>r. cd_ExternalAPICalls (cr_Diagnostics r)) results;
          samples = sum64 (\<lambda>r. cd_NodeDurationSamples (cr_Diagnostics r)) results;
          with_tokens = filter (\<lambda>r. cd_TokenUsageKnown (cr_Diagnostics r)) results
      in if results = [] then
           \<lparr>sm_TotalCases = 0, sm_SuccessCases = 0, sm_FailedCases = 0, sm_SuccessRate = f_zero, sm_AverageScore = f_zero,
            sm_AverageDurationMs = f_zero, sm_BudgetPassRate = f_zero, sm_DayMatchRate = f_zero, sm_StructurePassRate = f_zero,
            sm_ToolFallbackRate = f_zero, sm_LLMFallbackRate = f_zero, sm_ExternalAPISuccessRate = f_zero,
            sm_AverageNodeDurationMs = f_zero, sm_AverageTokenUsage = f_zero, sm_RouteFeasibilityPassRate = f_zero,
            sm_WarningRate = f_zero\<rparr>
         else
           \<lparr>sm_TotalCases = n, sm_SuccessCases = tally_cases cr_Success results, sm_FailedCases = n - tally_cases cr_Success results,
            sm_SuccessRate = per cr_Success,
            sm_AverageScore = f_div (fold (\<lambda>r v. f_add v (cr_Score r)) results f_zero) (f_of_int n),
            sm_AverageDurationMs = rate (sum64 cr_DurationMs results) n,
            sm_BudgetPassRate = per (\<lambda>r. ek_BudgetPassed (cr_Checks r)),
            sm_DayMatchRate = per (\<lambda>r. ek_DayMatched (cr_Checks r)),
            sm_StructurePassRate = per (\<lambda>r. ek_StructureComplete (cr_Checks r)),
            sm_ToolFallbackRate = per (\<lambda>r. 0 < cd_ToolFallbacks (cr_Diagnostics r)),
            sm_LLMFallbackRate = per (\<lambda>r. 0 < cd_LLMFallbacks (cr_Diagnostics r)),
            sm_ExternalAPISuccessRate = (if 0 < externalCalls
              then rate (sum64 (\<lambda>r. cd_ExternalAPISuccesses (cr_Diagnostics r)) results) externalCalls else f_zero),
            sm_AverageNodeDurationMs = (if 0 < samples
              then rate (sum64 (\<lambda>r. cd_NodeDurationMs (cr_Diagnostics r)) results) samples else f_zero),
            sm_AverageTokenUsage = (if with_tokens \<noteq> []
              then rate (sum64 (\<lambda>r. cd_TotalTokens (cr_Diagnostics r)) with_tokens) (int (length with_tokens)) else f_zero),
            sm_RouteFeasibilityPassRate = per (\<lambda>r. ek_RouteFeasible (cr_Checks r)),
            sm_WarningRate = per (\<lambda>r. cr_Warnings r \<noteq> [])\<rparr>)"

subsection \<open>The report\<close>

record Report =
  rp_GeneratedAt :: time
  rp_PlannerType :: string
  rp_Summary :: SummaryMetrics
  rp_Cases :: "CaseResult list"

definition percent :: "float64 \<Rightarrow> string" where
  "percent v = f_fmt 2 (f_mul v (f_of_int 100)) @ ''%''"

definition report_line :: "string \<Rightarrow> string" where
  "report_line s = s @ [CHR 0x0A]"

definition case_line :: "CaseResult \<Rightarrow> string" where
  "case_line r =
     ''* '' @ cr_CaseID r @ '' '' @ (if cr_Success r then ''PASS'' else ''FAIL'') @ '' score='' @ f_fmt 0 (cr_Score r)
     @ '' duration='' @ Itoa (cr_DurationMs r) @ ''ms''
     @ (if cr_Errors r \<noteq> [] then '' errors=['' @ Join (cr_Errors r) ''; '' @ '']'' else [])"

definition printConsoleReport :: "Report \<Rightarrow> string" where
  "printConsoleReport report =
     (let s = rp_Summary report
      in concat (map report_line ([
        ''# Travel Agent Harness Report'', [],
        ''Planner Type: '' @ rp_PlannerType report,
        ''Total Cases: '' @ Itoa (sm_TotalCases s),
        ''Success Cases: '' @ Itoa (sm_SuccessCases s),
        ''Failed Cases: '' @ Itoa (sm_FailedCases s),
        ''Success Rate: '' @ percent (sm_SuccessRate s),
        ''Average Score: '' @ f_fmt 2 (sm_AverageScore s),
        ''Average Duration: '' @ f_fmt 0 (sm_AverageDurationMs s) @ ''ms'',
        ''Budget Pass Rate: '' @ percent (sm_BudgetPassRate s),
        ''Day Match Rate: '' @ percent (sm_DayMatchRate s),
        ''Structure Pass Rate: '' @ percent (sm_StructurePassRate s),
        ''Tool Fallback Rate: '' @ percent (sm_ToolFallbackRate s),
        ''LLM Fallback Rate: '' @ percent (sm_LLMFallbackRate s),
        ''External API Success Rate: '' @ percent (sm_ExternalAPISuccessRate s),
        ''Average Node Duration: '' @ f_fmt 0 (sm_AverageNodeDurationMs s) @ ''ms'',
        ''Average Token Usage: '' @ f_fmt 0 (sm_AverageTokenUsage s),
        ''Route Feasibility Pass Rate: '' @ percent (sm_RouteFeasibilityPassRate s),
        ''Warning Rate: '' @ percent (sm_WarningRate s),
        [], ''Case Results:'', []] @ map case_line (rp_Cases report))))"

text \<open>
  The file system as the writer uses it: making a directory and writing a file, each with its error, and \<open>filepath.Dir\<close>. The
  state is the files written so far and the console.
\<close>

record report_disk =
  rd_dir :: "string \<Rightarrow> string"
  rd_mkdir :: "string \<Rightarrow> string option"
  rd_marshal :: "Report \<Rightarrow> string + string"
  rd_write :: "string \<Rightarrow> string option"

record report_output =
  ro_files :: "(string \<times> string) list"
  ro_console :: string

definition writeJSON ::
  "(nat \<Rightarrow> bool) \<Rightarrow> report_disk \<Rightarrow> string \<Rightarrow> Report \<Rightarrow> report_output \<Rightarrow> (string + unit) \<times> report_output" where
  "writeJSON printable d path report out =
     (let dir = rd_dir d path
      in case rd_mkdir d dir of
           Some e \<Rightarrow> (Inl (''create report directory '' @ Quote printable dir @ '': '' @ e), out)
         | None \<Rightarrow>
             (case rd_marshal d report of
                Inl e \<Rightarrow> (Inl (''marshal report: '' @ e), out)
              | Inr data \<Rightarrow>
                  (case rd_write d path of
                     Some e \<Rightarrow> (Inl (''write report '' @ Quote printable path @ '': '' @ e), out)
                   | None \<Rightarrow> (Inr (), out\<lparr>ro_files := ro_files out @ [(path, data @ [CHR 0x0A])]\<rparr>))))"

definition Report_Write ::
  "(nat \<Rightarrow> bool) \<Rightarrow> report_disk \<Rightarrow> string \<Rightarrow> ctx \<Rightarrow> Report \<Rightarrow> report_output \<Rightarrow> (string + unit) \<times> report_output" where
  "Report_Write printable d path c report out =
     (case ctx_Err c of
        Some e \<Rightarrow> (Inl e, out)
      | None \<Rightarrow>
          (case writeJSON printable d path report out of
             (Inl e, out) \<Rightarrow> (Inl e, out)
           | (Inr _, out) \<Rightarrow> (Inr (), out\<lparr>ro_console := ro_console out @ printConsoleReport report\<rparr>)))"

subsection \<open>The runner\<close>

record Runner =
  rn_DatasetPath :: string
  rn_PlannerType :: string
  rn_Repeat :: int
  rn_Concurrency :: int

text \<open>
  What a run meets: the clock, the dataset, the planner's answer to the \<open>n\<close>-th evaluation and its milliseconds, the error of the
  context when job \<open>n\<close> is started, and the order in which concurrent evaluations finish.
\<close>

record run_world =
  rv_printable :: "nat \<Rightarrow> bool"
  rv_read :: "string \<Rightarrow> string + string"
  rv_decode :: "string \<Rightarrow> string + rawTravelCase list"
  rv_plan :: "(nat \<Rightarrow> TravelRequest \<Rightarrow> string + TravelPlan option) option"
  rv_millis :: "nat \<Rightarrow> int"
  rv_gone :: "nat \<Rightarrow> string option"
  rv_finish :: "nat list \<Rightarrow> nat list"
  rv_now :: time

definition runCase ::
  "run_world \<Rightarrow> (nat \<Rightarrow> TravelRequest \<Rightarrow> string + TravelPlan option) \<Rightarrow> nat \<Rightarrow> TravelCase \<Rightarrow> CaseResult" where
  "runCase w plan n tc = Evaluate (rv_printable w) tc (plan n (tx_Input tc)) (rv_millis w n)"

definition jobs_of :: "int \<Rightarrow> TravelCase list \<Rightarrow> TravelCase list" where
  "jobs_of repeats tcs =
     concat (map (\<lambda>k. map (\<lambda>tc. if 1 < repeats then tc\<lparr>tx_ID := tx_ID tc @ ''#'' @ Itoa (int k)\<rparr> else tc) tcs) [1..<nat repeats + 1])"

text \<open>Starting the jobs in order stops at the first one that finds the context done.\<close>

definition first_gone :: "run_world \<Rightarrow> nat \<Rightarrow> string option" where
  "first_gone w n = (case List.map_filter (rv_gone w) [0..<n] of [] \<Rightarrow> None | e # es \<Rightarrow> Some e)"

definition Run ::
  "run_world \<Rightarrow> (Report \<Rightarrow> report_output \<Rightarrow> (string + unit) \<times> report_output) option \<Rightarrow> Runner \<Rightarrow> report_output
     \<Rightarrow> (string + Report) \<times> report_output" where
  "Run w write r out =
     (let plannerType = (if rn_PlannerType r = [] then ''unknown'' else rn_PlannerType r);
          repeats = (if rn_Repeat r \<le> 0 then 1 else rn_Repeat r);
          concurrency = (if rn_Concurrency r \<le> 0 then 1 else rn_Concurrency r)
      in case (rv_plan w, LoadCases (rv_printable w) (rv_read w) (rv_decode w) (rn_DatasetPath r)) of
           (None, _) \<Rightarrow> (Inl ''planner is required'', out)
         | (Some plan, Inl e) \<Rightarrow> (Inl e, out)
         | (Some plan, Inr tcs) \<Rightarrow>
             (let jobs = jobs_of repeats tcs
              in case first_gone w (length jobs) of
                   Some e \<Rightarrow> (Inl e, out)
                 | None \<Rightarrow>
                     (let order = (if concurrency = 1 then [0..<length jobs] else rv_finish w [0..<length jobs]);
                          results = map (\<lambda>n. runCase w plan n (jobs ! n)) order;
                          report = \<lparr>rp_GeneratedAt = rv_now w, rp_PlannerType = plannerType,
                                    rp_Summary = CalculateSummary results, rp_Cases = results\<rparr>
                      in case write of
                           None \<Rightarrow> (Inr report, out)
                         | Some f \<Rightarrow>
                             (case f report out of
                                (Inl e, out) \<Rightarrow> (Inl e, out)
                              | (Inr _, out) \<Rightarrow> (Inr report, out)))))"

end
