(* ===== verification/MockPlanner.thy ===== *)
theory MockPlanner
  imports Nodes
begin

section \<open>The mock planner\<close>

text \<open>
  internal/agent/mock\_planner.go: the planner of local development, which needs no service at all. Its plans are
  deterministic. A slice capacity beyond the memory, which would panic for an absurd number of days, is not modelled.
\<close>

subsection \<open>Spots\<close>

definition genericSpots :: "string list" where
  "genericSpots = [utf8 [0x57CE, 0x5E02, 0x535A, 0x7269, 0x9986], utf8 [0x7279, 0x8272, 0x8857, 0x533A], utf8 [0x672C, 0x5730, 0x7F8E, 0x98DF, 0x8857], utf8 [0x57CE, 0x5E02, 0x516C, 0x56ED], utf8 [0x5730, 0x6807, 0x5E7F, 0x573A]]"

definition unknown_city :: string where "unknown_city = ''unknown''"

definition citySpots :: "(string \<times> string list) list" where
  "citySpots = [
     (utf8 [0x676D, 0x5DDE], [utf8 [0x897F, 0x6E56], utf8 [0x7075, 0x9690, 0x5BFA], utf8 [0x6CB3, 0x574A, 0x8857], utf8 [0x9F99, 0x4E95, 0x6751], utf8 [0x4EAC, 0x676D, 0x5927, 0x8FD0, 0x6CB3]]),
     (utf8 [0x4E0A, 0x6D77], [utf8 [0x5916, 0x6EE9], utf8 [0x8C6B, 0x56ED], utf8 [0x6B66, 0x5EB7, 0x8DEF], utf8 [0x9646, 0x5BB6, 0x5634], utf8 [0x5357, 0x4EAC, 0x8DEF, 0x6B65, 0x884C, 0x8857]]),
     (utf8 [0x5317, 0x4EAC], [utf8 [0x6545, 0x5BAB], utf8 [0x5929, 0x5B89, 0x95E8], utf8 [0x9890, 0x548C, 0x56ED], utf8 [0x56FD, 0x5BB6, 0x535A, 0x7269, 0x9986], utf8 [0x4EC0, 0x5239, 0x6D77]]),
     (utf8 [0x5357, 0x4EAC], [utf8 [0x4E2D, 0x5C71, 0x9675], utf8 [0x592B, 0x5B50, 0x5E99], utf8 [0x79E6, 0x6DEE, 0x6CB3], utf8 [0x5357, 0x4EAC, 0x535A, 0x7269, 0x9662], utf8 [0x8001, 0x95E8, 0x4E1C]]),
     (utf8 [0x6210, 0x90FD], [utf8 [0x5BBD, 0x7A84, 0x5DF7, 0x5B50], utf8 [0x6B66, 0x4FAF, 0x7960], utf8 [0x9526, 0x91CC], utf8 [0x4EBA, 0x6C11, 0x516C, 0x56ED], utf8 [0x6625, 0x7199, 0x8DEF]]),
     (utf8 [0x5E7F, 0x5DDE], [utf8 [0x6C99, 0x9762], utf8 [0x6C38, 0x5E86, 0x574A], utf8 [0x9648, 0x5BB6, 0x7960], utf8 [0x5317, 0x4EAC, 0x8DEF], utf8 [0x73E0, 0x6C5F, 0x591C, 0x6E38]]),
     (utf8 [0x897F, 0x5B89], [utf8 [0x5175, 0x9A6C, 0x4FD1], utf8 [0x5927, 0x96C1, 0x5854], utf8 [0x5927, 0x5510, 0x4E0D, 0x591C, 0x57CE], utf8 [0x897F, 0x5B89, 0x57CE, 0x5899], utf8 [0x9655, 0x897F, 0x5386, 0x53F2, 0x535A, 0x7269, 0x9986]]),
     (utf8 [0x82CF, 0x5DDE], [utf8 [0x62D9, 0x653F, 0x56ED], utf8 [0x5E73, 0x6C5F, 0x8DEF], utf8 [0x82CF, 0x5DDE, 0x535A, 0x7269, 0x9986], utf8 [0x4E03, 0x91CC, 0x5C71, 0x5858], utf8 [0x7559, 0x56ED]]),
     (utf8 [0x672A, 0x77E5, 0x57CE, 0x5E02], genericSpots),
     (''unknown'', genericSpots)]"

definition containsAny :: "string \<Rightarrow> string list \<Rightarrow> bool" where
  "containsAny text values \<longleftrightarrow>
     list_ex (\<lambda>v. v \<noteq> [] \<and> (text = v \<or> 1 < length v \<and> (Contains text v \<or> Contains v text))) values"

definition spot_match :: "string \<Rightarrow> string \<Rightarrow> bool" where
  "spot_match must spot \<longleftrightarrow> spot = must \<or> containsAny spot [must] \<or> containsAny must [spot]"

text \<open>The spots without those to avoid (all of them if none is left), those that must be visited moved to the front.\<close>

definition promote_spot :: "string \<Rightarrow> string list \<Rightarrow> string list" where
  "promote_spot must filtered =
     (if must = [] then filtered
      else case find_index (spot_match must) filtered of
             None \<Rightarrow> filtered
           | Some idx \<Rightarrow> [filtered ! idx] @ take idx filtered @ drop (idx + 1) filtered)"

definition applySpotPreferences :: "string list \<Rightarrow> TravelRequest \<Rightarrow> string list" where
  "applySpotPreferences spots req =
     (let kept = filter (\<lambda>spot. \<not> containsAny spot (rq_Avoid req)) spots;
          filtered = (if kept = [] then kept @ spots else kept)
      in fold promote_spot (rev (rq_MustVisit req)) filtered)"

subsection \<open>Texts\<close>

definition dailyTheme :: "TravelRequest \<Rightarrow> int \<Rightarrow> string" where
  "dailyTheme req day =
     (if rq_Interests req = [] then utf8 [0x7B2C] @ Itoa day @ utf8 [0x5929, 0x57CE, 0x5E02, 0x63A2, 0x7D22]
      else utf8 [0x7B2C] @ Itoa day @ utf8 [0x5929] @ (rq_Interests req ! nat ((day - 1) mod int (length (rq_Interests req)))) @ utf8 [0x4F53, 0x9A8C])"

definition mock_interestsText :: "string list \<Rightarrow> string" where
  "mock_interestsText interests =
     (case interests of [] \<Rightarrow> utf8 [0x57CE, 0x5E02, 0x63A2, 0x7D22] | [i] \<Rightarrow> i | i # j # rest \<Rightarrow> i @ utf8 [0x4E0E] @ j)"

definition paceText :: "string \<Rightarrow> string" where
  "paceText pace =
     (if NormalizePace pace = utf8 [0x8F7B, 0x677E] then utf8 [0x8F7B, 0x677E]
      else if NormalizePace pace = utf8 [0x7D27, 0x51D1] then utf8 [0x7D27, 0x51D1]
      else utf8 [0x9002, 0x4E2D])"

subsection \<open>Budget\<close>

definition unavailableBudgetLine :: "string \<Rightarrow> string \<Rightarrow> BudgetLine" where
  "unavailableBudgetLine key label =
     \<lparr>bl_Key = key, bl_Label = label, bl_Amount = None, bl_Currency = ''CNY'', bl_Status = CostUnavailable, bl_Source = [],
      bl_Display = utf8 [0x6682, 0x65E0, 0x4FE1, 0x606F], bl_Included = False\<rparr>"

definition buildBudget :: TravelBudget where
  "buildBudget =
     \<lparr>bg_Transport = f_zero, bg_Food = f_zero, bg_Hotel = f_zero, bg_Ticket = f_zero, bg_Total = f_zero, bg_KnownTotal = f_zero,
      bg_Complete = False, bg_Currency = ''CNY'',
      bg_Items = [unavailableBudgetLine ''transport'' (utf8 [0x5E02, 0x5185, 0x4EA4, 0x901A]), unavailableBudgetLine ''food'' (utf8 [0x9910, 0x996E]),
        unavailableBudgetLine ''hotel'' (utf8 [0x4F4F, 0x5BBF]), unavailableBudgetLine ''ticket'' (utf8 [0x95E8, 0x7968])],
      bg_Missing = [''transport'', ''food'', ''hotel'', ''ticket'']\<rparr>"

definition totalBudget :: "TravelRequest \<Rightarrow> float64" where
  "totalBudget req =
     (if IsBudgetPerPerson (rq_BudgetType req) \<and> 0 < rq_Travelers req
      then f_mul (rq_Budget req) (f_of_int (rq_Travelers req)) else rq_Budget req)"

subsection \<open>The plan\<close>

text \<open>The budget of one item; the product of the number of days can overflow.\<close>

definition item_budget :: "TravelRequest \<Rightarrow> float64" where
  "item_budget req =
     f_max (f_div (f_mul (totalBudget req) (f_of_rat (62 / 100))) (f_of_int (wrap64 (rq_Days req * 2)))) (f_of_int 20)"

definition mock_spot :: "string list \<Rightarrow> int \<Rightarrow> string" where
  "mock_spot spots n = spots ! nat (n mod int (length spots))"

definition mock_day :: "TravelRequest \<Rightarrow> string list \<Rightarrow> int \<Rightarrow> TravelDay" where
  "mock_day req spots day =
     \<lparr>dy_Day = day, dy_Theme = dailyTheme req day,
      dy_Items = [
        \<lparr>it_Time = ''09:30'', it_Type = ''sightseeing'', it_Name = mock_spot spots ((day - 1) * 2),
         it_Address = rq_DestinationCity req @ utf8 [0x6838, 0x5FC3, 0x6E38, 0x89C8, 0x533A],
         it_Reason = utf8 [0x5951, 0x5408] @ dailyTheme req day @ utf8 [0x884C, 0x7A0B, 0x4E3B, 0x9898, 0xFF0C, 0x9002, 0x5408, 0x4F5C, 0x4E3A, 0x5F53, 0x5929, 0x91CD, 0x70B9, 0x4F53, 0x9A8C, 0x3002],
         it_EstimatedCost = roundMoney (f_mul (item_budget req) (f_of_rat (55 / 100))),
         it_Cost = UnavailableCost ''per_person'' ''mock.planner'',
         it_DurationMinutes = (if IsLowWalkingTolerance (rq_WalkingTolerance req) then 100 else 150), it_POI = None\<rparr>,
        \<lparr>it_Time = ''14:30'', it_Type = ''local_experience'', it_Name = mock_spot spots ((day - 1) * 2 + 1),
         it_Address = rq_DestinationCity req @ utf8 [0x7279, 0x8272, 0x8857, 0x533A],
         it_Reason = utf8 [0x7ED3, 0x5408] @ mock_interestsText (rq_Interests req) @ utf8 [0x504F, 0x597D, 0xFF0C, 0x8865, 0x5145, 0x57CE, 0x5E02, 0x6587, 0x5316, 0x548C, 0x7F8E, 0x98DF, 0x4F53, 0x9A8C, 0x3002],
         it_EstimatedCost = roundMoney (f_mul (item_budget req) (f_of_rat (45 / 100))),
         it_Cost = UnavailableCost ''per_person'' ''mock.planner'', it_DurationMinutes = 120, it_POI = None\<rparr>]\<rparr>"

definition spots_for :: "TravelRequest \<Rightarrow> string list" where
  "spots_for req =
     applySpotPreferences
       (case map_of citySpots (rq_DestinationCity req) of
          Some (s # ss) \<Rightarrow> s # ss
        | _ \<Rightarrow> the (map_of citySpots unknown_city)) req"

definition mock_plan :: "TravelRequest \<Rightarrow> TravelPlan" where
  "mock_plan req =
     \<lparr>pl_Title = rq_DestinationCity req @ Itoa (rq_Days req) @ utf8 [0x65E5, 0x65C5, 0x884C, 0x89C4, 0x5212],
      pl_Summary = utf8 [0x4ECE] @ rq_DepartureCity req @ utf8 [0x51FA, 0x53D1, 0xFF0C] @ Itoa (maxInt (rq_Travelers req) 1) @ utf8 [0x4EBA, 0x56F4, 0x7ED5]
        @ mock_interestsText (rq_Interests req) @ utf8 [0x5728] @ rq_DestinationCity req @ utf8 [0x5B89, 0x6392] @ Itoa (rq_Days req) @ utf8 [0x5929]
        @ paceText (rq_Pace req) @ utf8 [0x8282, 0x594F, 0x8DEF, 0x7EBF, 0xFF0C, 0x7528, 0x6237, 0x9884, 0x7B97] @ f_fmt 0 (totalBudget req) @ utf8 [0x5143, 0x3002],
      pl_Days = map (\<lambda>d. mock_day req (spots_for req) (int d)) [1..<nat (rq_Days req) + 1],
      pl_Budget = buildBudget,
      pl_Warnings = [utf8 [0x4D, 0x6F, 0x63, 0x6B, 0x50, 0x6C, 0x61, 0x6E, 0x6E, 0x65, 0x72, 0x20, 0x4EC5, 0x7528, 0x4E8E, 0x8BC4, 0x4F30, 0x6846, 0x67B6, 0x8054, 0x8C03, 0xFF0C, 0x672A, 0x6821, 0x9A8C, 0x771F, 0x5B9E, 0x8425, 0x4E1A, 0x65F6, 0x95F4, 0x3001, 0x4EA4, 0x901A, 0x8DDD, 0x79BB, 0x548C, 0x5B9E, 0x65F6, 0x4EF7, 0x683C, 0x3002]]\<rparr>"

definition MockPlanner_Plan :: "ctx \<Rightarrow> TravelRequest \<Rightarrow> string + TravelPlan" where
  "MockPlanner_Plan c req =
     (case ctx_Err c of
        Some e \<Rightarrow> Inl e
      | None \<Rightarrow>
          (let req = NormalizeTravelBrief req
           in if rq_Days req \<le> 0 then Inl ''days must be positive''
              else if f_le (rq_Budget req) f_zero then Inl ''budget must be positive''
              else if rq_Interests req = [] then Inl ''interests is required''
              else if rq_Travelers req \<le> 0 then Inl ''travelers is required''
              else Inr (mock_plan req)))"

end
