(* ===== verification/HarnessGuarantees.thy ===== *)
theory HarnessGuarantees
  imports Harness MockPlanner PlannerGuarantees
begin

section \<open>What the harness measures\<close>

text \<open>
  The evaluator's verdict and score agree, a plan of the mock planner passes all its checks, and running the cases concurrently
  changes no metric.
\<close>

subsection \<open>Checks and their errors\<close>

definition sound_check :: "check \<Rightarrow> bool" where
  "sound_check c \<longleftrightarrow> (fst c \<longleftrightarrow> fst (snd c) = [])"

lemma sound_passing [simp]: "sound_check passing"
  by (simp add: sound_check_def passing_def)

lemma sound_fail_check [simp]: "sound_check c \<Longrightarrow> sound_check (fail_check b m c)"
  by (auto simp: sound_check_def fail_check_def split: prod.splits)

lemma sound_warning [simp]: "sound_check c \<Longrightarrow> sound_check (warning b m c)"
  by (auto simp: sound_check_def warning_def split: prod.splits)

lemma sound_fold: "(\<And>x c. sound_check c \<Longrightarrow> sound_check (f x c)) \<Longrightarrow> sound_check c \<Longrightarrow> sound_check (fold f xs c)"
  by (induction xs arbitrary: c) auto

lemma sound_checks [simp]:
  "sound_check (checkDays tc plan)" "sound_check (checkBudget tc plan)" "sound_check (checkStructure plan)"
  "sound_check (checkKeywords printable tc plan)" "sound_check (checkIllegalFields printable plan)"
proof -
  show "sound_check (checkDays tc plan)"
    unfolding checkDays_def Let_def by (intro sound_fold) (auto split: prod.split)
  show "sound_check (checkBudget tc plan)" by (simp add: checkBudget_def)
  have item: "sound_check c \<Longrightarrow> sound_check (check_case_item d x c)" for c d x
    by (auto simp: check_case_item_def Let_def split: prod.split)
  have day: "sound_check c \<Longrightarrow> sound_check (check_case_day d c)" for c d
    using item by (auto simp: check_case_day_def Let_def intro!: sound_fold)
  show "sound_check (checkStructure plan)"
    unfolding checkStructure_def Let_def by (intro sound_fold day) auto
  show "sound_check (checkKeywords printable tc plan)"
    unfolding checkKeywords_def Let_def by (intro sound_fail_check sound_fold) auto
  have fitem: "sound_check c \<Longrightarrow> sound_check (check_fields_item printable x c)" for c x
    by (simp add: check_fields_item_def)
  have fday: "sound_check c \<Longrightarrow> sound_check (check_fields_day printable d c)" for c d
    using fitem by (auto simp: check_fields_day_def intro!: sound_fold)
  show "sound_check (checkIllegalFields printable plan)"
    unfolding checkIllegalFields_def by (intro sound_fold fday) (auto split: prod.split)
qed

subsection \<open>The score\<close>

definition points :: "EvaluationChecks \<Rightarrow> int" where
  "points k = 20 * of_bool (ek_PlannerSucceeded k) + 20 * of_bool (ek_DayMatched k) + 20 * of_bool (ek_BudgetPassed k)
     + 20 * of_bool (ek_StructureComplete k) + 10 * of_bool (ek_KeywordsMatched k) + 10 * of_bool (ek_NoIllegalFields k)"

lemma f_add_ints: "\<bar>a + b\<bar> \<le> 2 ^ 53 \<Longrightarrow> f_add (Fin (of_int a)) (Fin (of_int b)) = Fin (of_int (a + b))"
  using f_of_int_exact [of "a + b"] by (simp add: f_of_int_def)

definition f_int :: "int \<Rightarrow> float64" where
  "f_int n = Fin (of_int n)"

definition add_points :: "bool \<Rightarrow> int \<Rightarrow> float64 \<Rightarrow> float64" where
  "add_points b n v = (if b then f_add v (f_of_int n) else v)"

lemma add_points_int:
  assumes "0 \<le> a" "a \<le> 100" "0 \<le> n" "n \<le> 20"
  shows "add_points b n (f_int a) = f_int (a + n * of_bool b)"
proof -
  have "f_of_int n = Fin (of_int n)" using assms(3,4) by (intro f_of_int_exact) simp
  then show ?thesis using f_add_ints [of a n] assms by (simp add: add_points_def f_int_def)
qed

lemma score_points: "score k = f_of_int (points k)"
proof -
  have z: "f_zero = f_int 0" by (simp add: f_int_def)
  have "add_points (ek_NoIllegalFields k) 10 (add_points (ek_KeywordsMatched k) 10 (add_points (ek_StructureComplete k) 20
      (add_points (ek_BudgetPassed k) 20 (add_points (ek_DayMatched k) 20 (add_points (ek_PlannerSucceeded k) 20 f_zero)))))
    = f_int (points k)"
    unfolding z
    by (cases "ek_PlannerSucceeded k"; cases "ek_DayMatched k"; cases "ek_BudgetPassed k"; cases "ek_StructureComplete k";
        cases "ek_KeywordsMatched k"; cases "ek_NoIllegalFields k")
      (simp_all add: add_points_int points_def)
  moreover have p: "0 \<le> points k" "points k \<le> 100" by (simp_all add: points_def)
  then have "f_of_int (points k) = f_int (points k)" "f_of_int 100 = f_int 100"
    by (simp_all add: f_of_int_exact f_int_def)
  moreover have "\<not> f_less (f_int (points k)) f_zero" "\<not> f_less (f_int 100) (f_int (points k))"
    using p of_int_le_iff [of "points k" 100, where 'a = rat] by (simp_all add: f_int_def)
  ultimately show ?thesis
    unfolding score_def Let_def add_points_def by simp
qed

lemma points_full: "points k = 100 \<longleftrightarrow> ek_PlannerSucceeded k \<and> ek_DayMatched k \<and> ek_BudgetPassed k \<and> ek_StructureComplete k
    \<and> ek_KeywordsMatched k \<and> ek_NoIllegalFields k"
  by (simp add: points_def)

lemma verdict_score: "cr_Score (Evaluate printable tc outcome ms) = f_of_int (points (cr_Checks (Evaluate printable tc outcome ms)))"
proof -
  have none: "cr_Score (failed_case tc ms p e) = f_of_int (points (cr_Checks (failed_case tc ms p e)))" for p e
    by (simp add: failed_case_def no_checks_def points_def f_of_int_exact)
  consider e where "outcome = Inl e" | "outcome = Inr None" | plan where "outcome = Inr (Some plan)"
    by (metis old.sum.exhaust option.exhaust)
  then show ?thesis
  proof cases
    case 3
    then show ?thesis by (simp add: Evaluate_def Let_def score_points split: prod.split)
  qed (simp_all add: Evaluate_def none)
qed

text \<open>
  The verdict and the score of a case agree: it is successful exactly if it has no error, exactly if all its scored checks hold, and
  exactly if its score is 100; the score is always the sum of the points of the checks that hold, computed without rounding.
\<close>

theorem verdict_is_full_score:
  "let r = Evaluate printable tc outcome ms; k = cr_Checks r
   in cr_Score r = f_of_int (points k)
      \<and> (cr_Success r \<longleftrightarrow> cr_Score r = f_of_int 100)
      \<and> (cr_Success r \<longleftrightarrow> ek_PlannerSucceeded k \<and> ek_DayMatched k \<and> ek_BudgetPassed k \<and> ek_StructureComplete k
            \<and> ek_KeywordsMatched k \<and> ek_NoIllegalFields k)
      \<and> (cr_Success r \<longleftrightarrow> cr_Errors r = [])"
proof -
  have full: "f_of_int (points k) = f_of_int 100 \<longleftrightarrow> points k = 100" for k
  proof -
    have "0 \<le> points k" "points k \<le> 100" by (simp_all add: points_def)
    then show ?thesis by (simp add: f_of_int_exact)
  qed
  have none: "(cr_Success r \<longleftrightarrow> points k = 100) \<and> (cr_Success r \<longleftrightarrow> cr_Errors r = [])"
    if "r = failed_case tc ms p e" "k = cr_Checks r" for r k p e
    using that by (simp add: failed_case_def no_checks_def points_def)
  have plan: "(cr_Success r \<longleftrightarrow> points k = 100) \<and> (cr_Success r \<longleftrightarrow> cr_Errors r = [])"
    if "r = Evaluate printable tc (Inr (Some plan)) ms" "k = cr_Checks r" for r k plan
    using that sound_checks(1,2) [of tc plan, unfolded sound_check_def] sound_checks(3) [of plan, unfolded sound_check_def]
      sound_checks(4) [of printable tc plan, unfolded sound_check_def] sound_checks(5) [of printable plan, unfolded sound_check_def]
    by (auto simp: points_full Evaluate_def Let_def split: prod.splits)
  have "(cr_Success r \<longleftrightarrow> points k = 100) \<and> (cr_Success r \<longleftrightarrow> cr_Errors r = [])"
    if "r = Evaluate printable tc outcome ms" "k = cr_Checks r" for r k
  proof -
    consider e where "outcome = Inl e" | "outcome = Inr None" | plan where "outcome = Inr (Some plan)"
      by (metis old.sum.exhaust option.exhaust)
    then show ?thesis
    proof cases
      case 1
      then have "r = failed_case tc ms None (''planner error: '' @ e)" using that by (simp add: Evaluate_def)
      then show ?thesis using none that(2) by blast
    next
      case 2
      then have "r = failed_case tc ms None ''planner returned nil plan''" using that by (simp add: Evaluate_def)
      then show ?thesis using none that(2) by blast
    next
      case 3
      then show ?thesis using plan that by blast
    qed
  qed
  note r = this [OF refl refl]
  show ?thesis
    unfolding Let_def verdict_score full
    by (intro conjI refl conjunct1 [OF r] conjunct2 [OF r] conjunct1 [OF r, unfolded points_full])
qed

subsection \<open>What each check asks\<close>

lemma fst_failing [simp]: "fst (fail_check b m c) \<longleftrightarrow> \<not> b \<and> fst c"
  by (auto simp: fail_check_def split: prod.split)

lemma fst_warning [simp]: "fst (warning b m c) = fst c"
  by (auto simp: warning_def split: prod.split)

lemma fst_passing [simp]: "fst passing"
  by (simp add: passing_def)

lemma fst_fold: "(\<And>x c. fst (f x c) \<longleftrightarrow> P x \<and> fst c) \<Longrightarrow> fst (fold f xs c) \<longleftrightarrow> list_all P xs \<and> fst c"
  by (induction xs arbitrary: c) auto

definition case_item_ok :: "TravelItem \<Rightarrow> bool" where
  "case_item_ok item \<longleftrightarrow> TrimSpace (it_Name item) \<noteq> [] \<and> TrimSpace (it_Type item) \<noteq> [] \<and> TrimSpace (it_Reason item) \<noteq> []"

lemma fst_case_item: "fst (check_case_item d x c) \<longleftrightarrow> case_item_ok (snd x) \<and> fst c"
  by (auto simp: check_case_item_def case_item_ok_def Let_def split: prod.split)

lemma list_all_enumerate_snd: "list_all (\<lambda>x. P (snd x)) (enumerate n xs) = list_all P xs"
  by (induction xs arbitrary: n) auto

lemma fst_case_day: "fst (check_case_day day c) \<longleftrightarrow> (dy_Items day \<noteq> [] \<and> list_all case_item_ok (dy_Items day)) \<and> fst c"
  unfolding check_case_day_def Let_def
  using fst_fold [of "check_case_item (dy_Day day)" "\<lambda>x. case_item_ok (snd x)", OF fst_case_item]
  by (auto simp: list_all_enumerate_snd)

lemma checkDays_iff: "fst (checkDays tc plan) \<longleftrightarrow> int (length (pl_Days plan)) = rq_Days (tx_Input tc)
    \<and> ex_MinDays (tx_Expectation tc) \<le> int (length (pl_Days plan)) \<and> (\<forall>i < length (pl_Days plan). dy_Day (pl_Days plan ! i) = int i + 1)"
proof -
  have f: "fst (fold (\<lambda>(i, day). fail_check (dy_Day day \<noteq> int i + 1) (m i day)) (enumerate 0 ds) c)
      \<longleftrightarrow> list_all (\<lambda>x. dy_Day (snd x) = int (fst x) + 1) (enumerate 0 ds) \<and> fst c" for m ds c
    by (rule fst_fold) (auto split: prod.split)
  show ?thesis unfolding checkDays_def Let_def f by (auto simp: list_all_iff all_enumerate)
qed

lemma checkBudget_iff: "fst (checkBudget tc plan) \<longleftrightarrow> \<not> f_less (case_limit tc) (bg_Total (pl_Budget plan))"
  by (simp add: checkBudget_def)

lemma checkStructure_iff: "fst (checkStructure plan) \<longleftrightarrow> TrimSpace (pl_Title plan) \<noteq> [] \<and> TrimSpace (pl_Summary plan) \<noteq> []
    \<and> pl_Days plan \<noteq> [] \<and> list_all (\<lambda>day. dy_Items day \<noteq> [] \<and> list_all case_item_ok (dy_Items day)) (pl_Days plan)"
  unfolding checkStructure_def Let_def fst_fold [OF fst_case_day] by auto

lemma checkKeywords_iff: "fst (checkKeywords printable tc plan) \<longleftrightarrow>
    list_all (Contains (search_text plan)) (ex_RequiredKeywords (tx_Expectation tc))
    \<and> Contains (pl_Title plan @ '' '' @ pl_Summary plan) (rq_DestinationCity (tx_Input tc))"
proof -
  have f: "fst (fold (\<lambda>k. fail_check (\<not> Contains t k) (m k)) ks c) \<longleftrightarrow> list_all (Contains t) ks \<and> fst c" for t m ks c
    by (rule fst_fold) auto
  show ?thesis unfolding checkKeywords_def Let_def by (auto simp: f)
qed

lemma checkIllegalFields_iff: "fst (checkIllegalFields printable plan) \<longleftrightarrow>
    list_all (\<lambda>(name, v). \<not> f_less v f_zero) (budget_values plan)
    \<and> list_all (\<lambda>day. 0 < dy_Day day \<and> list_all (\<lambda>item. \<not> f_less (it_EstimatedCost item) f_zero \<and> 0 \<le> it_DurationMinutes item) (dy_Items day))
        (pl_Days plan)"
proof -
  have item: "fst (check_fields_item printable x c) \<longleftrightarrow> (\<not> f_less (it_EstimatedCost x) f_zero \<and> 0 \<le> it_DurationMinutes x) \<and> fst c" for x c
    by (auto simp: check_fields_item_def)
  have day: "fst (check_fields_day printable day c) \<longleftrightarrow>
      (0 < dy_Day day \<and> list_all (\<lambda>item. \<not> f_less (it_EstimatedCost item) f_zero \<and> 0 \<le> it_DurationMinutes item) (dy_Items day)) \<and> fst c"
    for day c unfolding check_fields_day_def fst_fold [OF item] by auto
  have vals: "fst (fold (\<lambda>(name, v). fail_check (f_less v f_zero) (m name)) vs c) \<longleftrightarrow> list_all (\<lambda>(name, v). \<not> f_less v f_zero) vs \<and> fst c" for m vs c
    by (rule fst_fold) (auto split: prod.split)
  show ?thesis unfolding checkIllegalFields_def fst_fold [OF day] vals by auto
qed

lemma Evaluate_checks:
  "ek_PlannerSucceeded (cr_Checks (Evaluate printable tc (Inr (Some plan)) ms))"
  "ek_DayMatched (cr_Checks (Evaluate printable tc (Inr (Some plan)) ms)) = fst (checkDays tc plan)"
  "ek_BudgetPassed (cr_Checks (Evaluate printable tc (Inr (Some plan)) ms)) = fst (checkBudget tc plan)"
  "ek_StructureComplete (cr_Checks (Evaluate printable tc (Inr (Some plan)) ms)) = fst (checkStructure plan)"
  "ek_KeywordsMatched (cr_Checks (Evaluate printable tc (Inr (Some plan)) ms)) = fst (checkKeywords printable tc plan)"
  "ek_NoIllegalFields (cr_Checks (Evaluate printable tc (Inr (Some plan)) ms)) = fst (checkIllegalFields printable plan)"
  by (simp_all add: Evaluate_def Let_def split: prod.split)

lemma Evaluate_success: "cr_Success (Evaluate printable tc (Inr (Some plan)) ms) \<longleftrightarrow>
    fst (checkDays tc plan) \<and> fst (checkBudget tc plan) \<and> fst (checkStructure plan) \<and> fst (checkKeywords printable tc plan)
    \<and> fst (checkIllegalFields printable plan)"
  using sound_checks(1,2) [of tc plan, unfolded sound_check_def] sound_checks(3) [of plan, unfolded sound_check_def]
    sound_checks(4) [of printable tc plan, unfolded sound_check_def] sound_checks(5) [of printable plan, unfolded sound_check_def]
  by (auto simp: Evaluate_def Let_def split: prod.splits)


subsection \<open>The mock planner's plans\<close>

definition city_spots :: "string \<Rightarrow> string list" where
  "city_spots city = (case map_of citySpots city of Some (s # ss) \<Rightarrow> s # ss | _ \<Rightarrow> the (map_of citySpots unknown_city))"

lemma set_promote_spot [simp]: "set (promote_spot must xs) = set xs"
proof (cases "must = [] \<or> find_index (spot_match must) xs = None")
  case False
  then obtain i where i: "find_index (spot_match must) xs = Some i" by auto
  then have l: "i < length xs" by (blast dest: find_index_Some)
  have "set xs = set (take i xs @ xs ! i # drop (Suc i) xs)" using l by (simp only: id_take_nth_drop [symmetric])
  then show ?thesis using False i by (auto simp: promote_spot_def)
qed (auto simp: promote_spot_def)

lemma set_promote_spots [simp]: "set (fold promote_spot ms xs) = set xs"
  by (induction ms arbitrary: xs) simp_all

definition kept_spots :: "TravelRequest \<Rightarrow> string list" where
  "kept_spots req = filter (\<lambda>spot. \<not> containsAny spot (rq_Avoid req)) (city_spots (rq_DestinationCity req))"

lemma set_spots_for: "set (spots_for req) =
    (if kept_spots req = [] then set (city_spots (rq_DestinationCity req)) else set (kept_spots req))"
  by (simp add: spots_for_def applySpotPreferences_def Let_def city_spots_def [symmetric] kept_spots_def [symmetric])

lemma city_spots_table: "list_all (\<lambda>(k, spots). spots \<noteq> [] \<and> list_all (\<lambda>s. TrimSpace s \<noteq> []) spots) citySpots"
  by code_simp

lemma city_spots_facts: "city_spots city \<noteq> []" "list_all (\<lambda>s. TrimSpace s \<noteq> []) (city_spots city)"
proof -
  have hit: "spots \<noteq> [] \<and> list_all (\<lambda>s. TrimSpace s \<noteq> []) spots" if "map_of citySpots k = Some spots" for k spots
    using city_spots_table map_of_SomeD [OF that] by (auto simp: list_all_iff)
  have "\<exists>spots. map_of citySpots unknown_city = Some spots" by (rule exI, code_simp)
  then obtain u where u: "map_of citySpots unknown_city = Some u" by blast
  have "city_spots city \<noteq> [] \<and> list_all (\<lambda>s. TrimSpace s \<noteq> []) (city_spots city)"
  proof (cases "map_of citySpots city")
    case None
    then show ?thesis using hit [OF u] by (simp add: city_spots_def u)
  next
    case (Some spots)
    then show ?thesis using hit [OF Some] by (cases spots) (simp_all add: city_spots_def)
  qed
  then show "city_spots city \<noteq> []" "list_all (\<lambda>s. TrimSpace s \<noteq> []) (city_spots city)" by auto
qed

lemma spots_for_facts: "spots_for req \<noteq> []" "s \<in> set (spots_for req) \<Longrightarrow> TrimSpace s \<noteq> []"
proof -
  have sub: "set (spots_for req) \<subseteq> set (city_spots (rq_DestinationCity req))"
    by (auto simp: set_spots_for kept_spots_def)
  show "s \<in> set (spots_for req) \<Longrightarrow> TrimSpace s \<noteq> []"
    using sub city_spots_facts(2) [of "rq_DestinationCity req"] by (auto simp: list_all_iff)
  show "spots_for req \<noteq> []"
    using set_spots_for [of req] city_spots_facts(1) by (auto split: if_splits)
qed

lemma mock_spot_mem: "spots \<noteq> [] \<Longrightarrow> mock_spot spots n \<in> set spots"
  by (simp add: mock_spot_def nat_less_iff)

text \<open>Amounts that are not negative; NaN is none of the negative ones.\<close>

abbreviation "notneg v \<equiv> \<not> f_less v f_zero"

lemma notneg_iff: "notneg v \<longleftrightarrow> v = NaN \<or> f_nonneg v"
  by (auto simp: f_nonneg_iff)

lemma NaN_ops [simp]: "f_mul NaN y = NaN" "f_round NaN = NaN" "f_div NaN y = NaN"
  by (simp_all add: f_mul_def f_div_def Let_def)

lemma notneg_roundMoney: "notneg v \<Longrightarrow> notneg (roundMoney v)"
  using roundMoney_nonneg by (auto simp: notneg_iff roundMoney_def)

lemma notneg_f_max: "f_nonneg y \<Longrightarrow> notneg (f_max x y)"
  by (cases x; cases y) (auto simp: f_max_def notneg_iff Let_def)

lemma notneg_item_budget: "notneg (item_budget req)"
  unfolding item_budget_def by (rule notneg_f_max) (simp add: f_of_int_def)

lemma notneg_share: "0 \<le> q \<Longrightarrow> notneg (roundMoney (f_mul (item_budget req) (f_of_rat q)))"
  by (intro notneg_roundMoney f_mul_notneg notneg_item_budget) (simp add: notneg_iff)

text \<open>Texts.\<close>

lemma plain_end_nonblank_append: "plain_end t \<Longrightarrow> TrimSpace (s @ t) \<noteq> []"
  by (rule plain_end_nonblank [OF plain_end_append])

lemma mock_texts:
  "plain_end (utf8 [0x6838, 0x5FC3, 0x6E38, 0x89C8, 0x533A])" "plain_end (utf8 [0x7279, 0x8272, 0x8857, 0x533A])" "plain_end (utf8 [0x65E5, 0x65C5, 0x884C, 0x89C4, 0x5212])"
  "plain_start (utf8 [0x5951, 0x5408])" "plain_start (utf8 [0x7ED3, 0x5408])" "plain_start (utf8 [0x7B2C])" "plain_start (utf8 [0x4ECE])"
  by code_simp+

lemma plain_start_prefix: "plain_start s \<Longrightarrow> plain_start (s @ t)"
  by (cases s) (auto simp: plain_start_def)

lemma mock_theme: "TrimSpace (dailyTheme req d) \<noteq> []"
  unfolding dailyTheme_def by (auto simp del: utf8_simps intro!: plain_start_nonblank plain_start_prefix mock_texts)

lemma times_nonblank: "TrimSpace ''09:30'' \<noteq> []" "TrimSpace ''14:30'' \<noteq> []" "TrimSpace ''sightseeing'' \<noteq> []"
  "TrimSpace ''local_experience'' \<noteq> []"
  by code_simp+

lemma mock_day_ok: "day_ok i (mock_day req (spots_for req) (int i + 1))"
proof -
  have "0 \<le> (55 / 100 :: rat)" "0 \<le> (45 / 100 :: rat)" by simp_all
  note cost = notneg_share [OF this(1), of req] notneg_share [OF this(2), of req]
  have name: "TrimSpace (mock_spot (spots_for req) n) \<noteq> []" for n
    by (rule spots_for_facts(2) [OF mock_spot_mem [OF spots_for_facts(1)]])
  have texts: "TrimSpace (rq_DestinationCity req @ utf8 [0x6838, 0x5FC3, 0x6E38, 0x89C8, 0x533A]) \<noteq> []" "TrimSpace (rq_DestinationCity req @ utf8 [0x7279, 0x8272, 0x8857, 0x533A]) \<noteq> []"
    "TrimSpace (utf8 [0x5951, 0x5408] @ s) \<noteq> []" "TrimSpace (utf8 [0x7ED3, 0x5408] @ s) \<noteq> []" for s
    by (intro plain_end_nonblank_append plain_start_nonblank plain_start_prefix mock_texts)+
  have items: "list_all item_ok (dy_Items (mock_day req (spots_for req) (int i + 1)))"
    using cost name texts times_nonblank unfolding mock_day_def item_ok_def
    by (simp del: utf8_simps)
  show ?thesis using items mock_theme [of req "int i + 1"] by (simp add: day_ok_def mock_day_def del: utf8_simps)
qed

lemma mock_days_ok: "days_ok (pl_Days (mock_plan req))"
  using mock_day_ok [of _ req] by (auto simp: days_ok_def mock_plan_def nth_append add.commute simp del: upt_Suc)

lemma mock_title: "TrimSpace (pl_Title (mock_plan req)) \<noteq> []" "TrimSpace (pl_Summary (mock_plan req)) \<noteq> []"
proof -
  show "TrimSpace (pl_Title (mock_plan req)) \<noteq> []"
    using plain_end_nonblank_append [OF plain_end_append [OF mock_texts(3)]]
    by (simp add: mock_plan_def del: utf8_simps)
  show "TrimSpace (pl_Summary (mock_plan req)) \<noteq> []"
    using plain_start_nonblank [OF plain_start_prefix [OF mock_texts(7)]]
    by (simp add: mock_plan_def del: utf8_simps)
qed

lemma budget_labels: "list_all (\<lambda>l. TrimSpace (bl_Key l) \<noteq> [] \<and> TrimSpace (bl_Label l) \<noteq> []) (bg_Items buildBudget)"
  by code_simp

lemma mock_budget_ok: "\<not> f_le (rq_Budget req) f_zero \<Longrightarrow> budget_ok req buildBudget"
proof -
  assume b: "\<not> f_le (rq_Budget req) f_zero"
  then have "notneg (rq_Budget req)" by (cases "rq_Budget req") (auto simp: f_le_def f_eq_def)
  then have "notneg (budget_threshold req)"
    unfolding budget_threshold_def Let_def
    using f_mul_notneg [OF _ f_of_int_nonneg [of "rq_Travelers req"]]
    by (intro f_mul_notneg) (auto simp: notneg_iff [of "f_of_rat _"])
  moreover have "bl \<in> set (bg_Items buildBudget) \<Longrightarrow> line_ok bl" for bl
    by (auto simp: buildBudget_def unavailableBudgetLine_def line_ok_def)
  ultimately show ?thesis
    using budget_labels by (simp add: budget_ok_def list_all_iff) (simp add: buildBudget_def f_eq_def)
qed

lemma mock_plan_valid:
  assumes "0 < rq_Days q" "\<not> f_le (rq_Budget q) f_zero"
  shows "validateGeneratedPlan printable q (Some (mock_plan q)) = Inr ()"
proof -
  have n: "int (length (pl_Days (mock_plan q))) = rq_Days q" using assms(1) by (simp add: mock_plan_def)
  have d: "Contains (pl_Title (mock_plan q) @ '' '' @ pl_Summary (mock_plan q)) (rq_DestinationCity q)"
    unfolding Contains_def mock_plan_def TravelPlan.simps append_assoc by (intro prefix_imp_sublist prefixI [OF refl])
  have "plan_ok q (mock_plan q)"
    unfolding plan_ok_def using mock_budget_ok [OF assms(2)]
    by (intro conjI mock_title n d mock_days_ok) (simp add: mock_plan_def)
  then show ?thesis by (simp add: validateGeneratedPlan_accepts)
qed

text \<open>
  C25. The mock planner serves every request the planning graph accepts: it refuses only a request without days, budget, interests or
  travelers (or with its context done), and every plan it makes passes the check of generated plans for the normalised request, every place in it
  is one of the city's spots, and none is to be avoided unless all of them are.
\<close>

theorem mock_plan_accepted:
  "case MockPlanner_Plan c req of
     Inl e \<Rightarrow> ctx_Err c = Some e \<or> rq_Days req \<le> 0 \<or> f_le (rq_Budget req) f_zero \<or> normalizeStringSlice (rq_Interests req) = []
       \<or> rq_Travelers req \<le> 0
   | Inr plan \<Rightarrow>
       validateGeneratedPlan printable (NormalizeTravelBrief req) (Some plan) = Inr ()
       \<and> it_Name ` set (concat (map dy_Items (pl_Days plan)))
           \<subseteq> (if kept_spots (NormalizeTravelBrief req) = [] then set (city_spots (TrimSpace (rq_DestinationCity req)))
              else set (kept_spots (NormalizeTravelBrief req)))"
proof (cases "MockPlanner_Plan c req")
  case (Inl e)
  then show ?thesis by (auto simp: MockPlanner_Plan_def Let_def split: option.splits if_splits)
next
  case (Inr plan)
  define q where "q = NormalizeTravelBrief req"
  have p: "plan = mock_plan q" and pos: "0 < rq_Days q" "\<not> f_le (rq_Budget q) f_zero"
    using Inr by (auto simp: MockPlanner_Plan_def Let_def q_def split: option.splits if_splits)
  have "validateGeneratedPlan printable q (Some plan) = Inr ()" using mock_plan_valid [OF pos] by (simp add: p)
  moreover have "it_Name ` set (concat (map dy_Items (pl_Days plan))) \<subseteq> set (spots_for q)"
    unfolding p using mock_spot_mem [OF spots_for_facts(1)] by (auto simp: mock_plan_def mock_day_def)
  ultimately show ?thesis unfolding Inr set_spots_for q_def by (simp split: if_splits)
qed

subsection \<open>Concurrency changes no metric\<close>

lemma wrap64_add: "wrap64 (wrap64 a + b) = wrap64 (a + b)"
proof -
  have "(a + 2 ^ 63) mod 2 ^ 64 - 2 ^ 63 + b + 2 ^ 63 = (a + 2 ^ 63) mod 2 ^ 64 + b" by simp
  then show ?thesis unfolding wrap64_def by (simp only: mod_add_left_eq) (simp only: ac_simps)
qed

lemma sum64_eq: "sum64 f rs = wrap64 (\<Sum>r \<leftarrow> rs. f r)"
proof -
  have "fold (\<lambda>r v. wrap64 (v + f r)) rs (wrap64 v) = wrap64 (v + (\<Sum>r \<leftarrow> rs. f r))" for v
    by (induction rs arbitrary: v) (simp_all add: wrap64_add add.assoc)
  from this [of 0] show ?thesis by (simp add: sum64_def wrap64_def)
qed

lemma sum64_perm: "mset xs = mset ys \<Longrightarrow> sum64 f xs = sum64 f ys"
proof -
  assume m: "mset xs = mset ys"
  have "sum_list (map f zs) = sum_mset (image_mset f (mset zs))" for zs by (metis mset_map sum_mset_sum_list)
  then show ?thesis using m by (simp add: sum64_eq)
qed

lemma tally_perm: "mset xs = mset ys \<Longrightarrow> tally_cases P xs = tally_cases P ys"
  unfolding tally_cases_def by (metis mset_filter size_mset)

text \<open>The sum of the scores is exact as long as it stays within 53 bits.\<close>

definition scored :: "CaseResult \<Rightarrow> bool" where
  "scored r \<longleftrightarrow> (\<exists>n. cr_Score r = f_int n \<and> 0 \<le> n \<and> n \<le> 100)"

lemma scored_Evaluate: "scored (Evaluate printable tc outcome ms)"
proof -
  have p: "0 \<le> points k" "points k \<le> 100" for k by (simp_all add: points_def)
  have "f_of_int (points k) = f_int (points k)" for k using p [of k] by (simp add: f_of_int_exact f_int_def)
  then show ?thesis unfolding scored_def verdict_score using p by blast
qed

lemma score_sum_from:
  "list_all scored rs \<Longrightarrow> 0 \<le> a \<Longrightarrow> a + 100 * int (length rs) \<le> 2 ^ 53
    \<Longrightarrow> fold (\<lambda>r v. f_add v (cr_Score r)) rs (f_int a) = f_int (a + (\<Sum>r \<leftarrow> rs. \<lfloor>f_rat (cr_Score r)\<rfloor>))"
proof (induction rs arbitrary: a)
  case (Cons r rs)
  then obtain n where n: "cr_Score r = f_int n" "0 \<le> n" "n \<le> 100" by (auto simp: scored_def)
  have "f_add (f_int a) (cr_Score r) = f_int (a + n)"
    unfolding n(1) f_int_def by (rule f_add_ints) (use Cons(3,4) n in auto)
  then show ?case using Cons(1) [of "a + n"] Cons(2-4) n by (simp add: f_int_def add.assoc)
qed simp

lemma score_sum:
  assumes "list_all scored rs" "length rs \<le> 2 ^ 46"
  shows "fold (\<lambda>r v. f_add v (cr_Score r)) rs f_zero = f_int (\<Sum>r \<leftarrow> rs. \<lfloor>f_rat (cr_Score r)\<rfloor>)"
proof -
  have "int (length rs) \<le> 2 ^ 46" using assms(2) by (metis of_nat_le_iff of_nat_numeral of_nat_power)
  then show ?thesis using score_sum_from [OF assms(1), of 0] by (simp add: f_int_def)
qed

lemma CalculateSummary_perm:
  assumes m: "mset xs = mset ys" and s: "list_all scored xs" "length xs \<le> 2 ^ 46"
  shows "CalculateSummary xs = CalculateSummary ys"
proof -
  have set: "set xs = set ys" and len: "length xs = length ys" using m by (metis set_mset_mset, metis size_mset)
  have sy: "list_all scored ys" "length ys \<le> 2 ^ 46" using s set len by (auto simp: list_all_iff)
  have filt: "mset (filter P xs) = mset (filter P ys)" for P using m by simp
  have e: "xs = [] \<longleftrightarrow> ys = []" using len by auto
  have fe: "filter P xs = [] \<longleftrightarrow> filter P ys = []" "length (filter P xs) = length (filter P ys)" for P
    using filt [of P] by (metis mset_zero_iff, metis size_mset)
  have scores: "(\<Sum>r \<leftarrow> xs. \<lfloor>f_rat (cr_Score r)\<rfloor>) = (\<Sum>r \<leftarrow> ys. \<lfloor>f_rat (cr_Score r)\<rfloor>)"
  proof -
    have "sum_list (map f zs) = sum_mset (image_mset f (mset zs))" for f :: "CaseResult \<Rightarrow> int" and zs
      by (metis mset_map sum_mset_sum_list)
    then show ?thesis using m by simp
  qed
  show ?thesis
    unfolding CalculateSummary_def Let_def score_sum [OF s] score_sum [OF sy] scores e fe len
      tally_perm [OF m] sum64_perm [OF m] sum64_perm [OF filt] ..
qed

definition repeats_of :: "Runner \<Rightarrow> int" where
  "repeats_of r = (if rn_Repeat r \<le> 0 then 1 else rn_Repeat r)"

definition report_of :: "run_world \<Rightarrow> Runner \<Rightarrow> CaseResult list \<Rightarrow> Report" where
  "report_of w r results = \<lparr>rp_GeneratedAt = rv_now w, rp_PlannerType = (if rn_PlannerType r = [] then ''unknown'' else rn_PlannerType r),
     rp_Summary = CalculateSummary results, rp_Cases = results\<rparr>"

lemma Run_silent: "fst (Run w None r out) =
    (case (rv_plan w, LoadCases (rv_printable w) (rv_read w) (rv_decode w) (rn_DatasetPath r)) of
       (None, _) \<Rightarrow> Inl ''planner is required''
     | (Some plan, Inl e) \<Rightarrow> Inl e
     | (Some plan, Inr tcs) \<Rightarrow>
         (case first_gone w (length (jobs_of (repeats_of r) tcs)) of
            Some e \<Rightarrow> Inl e
          | None \<Rightarrow> Inr (report_of w r (map (\<lambda>n. runCase w plan n (jobs_of (repeats_of r) tcs ! n))
              (if rn_Concurrency r \<le> 1 then [0..<length (jobs_of (repeats_of r) tcs)]
               else rv_finish w [0..<length (jobs_of (repeats_of r) tcs)])))))"
proof -
  have "(if rn_Concurrency r \<le> 0 then 1 else rn_Concurrency r) = 1 \<longleftrightarrow> rn_Concurrency r \<le> 1" by auto
  then show ?thesis by (auto simp: Run_def Let_def repeats_of_def report_of_def split: option.split sum.split)
qed

lemma of_sequential [simp]:
  "repeats_of (r\<lparr>rn_Concurrency := k\<rparr>) = repeats_of r" "report_of w (r\<lparr>rn_Concurrency := k\<rparr>) = report_of w r"
  "rp_Cases (report_of w r rs) = rs" "rp_Summary (report_of w r rs) = CalculateSummary rs"
  by (simp_all add: repeats_of_def report_of_def fun_eq_iff)

text \<open>
  The number of workers makes no difference to what is measured: if every job is finished exactly once, in whatever order, a
  concurrent run fails with the same error as a sequential one or has the same summary to the last bit, and the same results up to their
  order (for up to \<open>2\<^sup>46\<close> cases, where the sum of the scores is exact).
\<close>

theorem concurrency_keeps_summary:
  assumes "\<And>ns. mset (rv_finish w ns) = mset ns"
    and "case fst (Run w None (r\<lparr>rn_Concurrency := 1\<rparr>) out) of Inl e \<Rightarrow> True | Inr report \<Rightarrow> length (rp_Cases report) \<le> 2 ^ 46"
  shows "map_sum id (\<lambda>report. (rp_Summary report, mset (rp_Cases report))) (fst (Run w None r out))
    = map_sum id (\<lambda>report. (rp_Summary report, mset (rp_Cases report))) (fst (Run w None (r\<lparr>rn_Concurrency := 1\<rparr>) out))"
proof -
  have perm: "CalculateSummary (map (\<lambda>n. runCase w plan n (jobs ! n)) ns) = CalculateSummary (map (\<lambda>n. runCase w plan n (jobs ! n)) ms)"
    if m: "mset ns = mset ms" and l: "length ms \<le> 2 ^ 46" for ns ms plan jobs
  proof (rule CalculateSummary_perm)
    show "mset (map (\<lambda>n. runCase w plan n (jobs ! n)) ns) = mset (map (\<lambda>n. runCase w plan n (jobs ! n)) ms)" using m by simp
    show "list_all scored (map (\<lambda>n. runCase w plan n (jobs ! n)) ns)" by (simp add: runCase_def list_all_iff scored_Evaluate)
    show "length (map (\<lambda>n. runCase w plan n (jobs ! n)) ns) \<le> 2 ^ 46" using l m by (metis length_map size_mset)
  qed
  show ?thesis
  proof (cases "rn_Concurrency r \<le> 1")
    case True
    then show ?thesis by (simp add: Run_silent split: option.split sum.split)
  next
    case False
    then show ?thesis using assms
      by (auto simp: Run_silent split: option.splits sum.splits intro!: perm)
  qed
qed

subsection \<open>Samples\<close>

definition harness_case :: TravelCase where
  "harness_case = \<lparr>tx_ID = ''t1'', tx_Description = ''d'', tx_Input = sample_request,
     tx_Expectation = \<lparr>ex_MinDays = 1, ex_MaxBudgetRatio = defaultMaxBudgetRatio, ex_RequiredKeywords = [''B'']\<rparr>\<rparr>"


definition harness_world :: run_world where
  "harness_world = \<lparr>rv_printable = (\<lambda>r. True), rv_read = (\<lambda>p. Inr ''data''),
     rv_decode = (\<lambda>d. Inr [\<lparr>rw_ID = ''t1'', rw_Description = ''d'', rw_Input = sample_request,
       rw_Expectation = Some \<lparr>ex_MinDays = 1, ex_MaxBudgetRatio = Fin 1, ex_RequiredKeywords = [''B'']\<rparr>\<rparr>]),
     rv_plan = Some (\<lambda>n q. if n = 0 then Inr None else Inl ''busy''), rv_millis = int, rv_gone = (\<lambda>n. None), rv_finish = rev, rv_now = 0\<rparr>"

definition harness_runner :: Runner where
  "harness_runner = \<lparr>rn_DatasetPath = ''cases.json'', rn_PlannerType = ''mock'', rn_Repeat = 3, rn_Concurrency = 2\<rparr>"

lemma described: "TrimSpace ''d'' \<noteq> []"
  by code_simp

definition no_output :: report_output where
  "no_output = \<lparr>ro_files = [], ro_console = []\<rparr>"

theorem concurrency_keeps_summary_witness:
  "map_sum id (\<lambda>report. (rp_Summary report, mset (rp_Cases report))) (fst (Run harness_world None harness_runner no_output))
    = map_sum id (\<lambda>report. (rp_Summary report, mset (rp_Cases report)))
        (fst (Run harness_world None (harness_runner\<lparr>rn_Concurrency := 1\<rparr>) no_output))"
proof (rule concurrency_keeps_summary)
  show "mset (rv_finish harness_world ns) = mset ns" for ns by (simp add: harness_world_def)
  have none: "first_gone harness_world n = None" for n by (simp add: first_gone_def harness_world_def map_filter_def)
  have "length (jobs_of 3 [tc]) \<le> 2 ^ 46" for tc by (simp add: jobs_of_def upt_rec)
  moreover have "\<exists>tc. LoadCases (rv_printable harness_world) (rv_read harness_world) (rv_decode harness_world)
      (rn_DatasetPath (harness_runner\<lparr>rn_Concurrency := 1\<rparr>)) = Inr [tc]"
    by (simp add: harness_world_def harness_runner_def LoadCases_def sample_request_def normalizeCase_def f_le_def
        f_eq_def Let_def f_of_int_exact described)
  moreover have "\<exists>plan. rv_plan harness_world = Some plan" by (simp add: harness_world_def)
  moreover have "repeats_of harness_runner = 3" by (simp add: repeats_of_def harness_runner_def)
  ultimately show "case fst (Run harness_world None (harness_runner\<lparr>rn_Concurrency := 1\<rparr>) no_output) of
      Inl e \<Rightarrow> True | Inr report \<Rightarrow> length (rp_Cases report) \<le> 2 ^ 46"
    by (auto simp: Run_silent none)
qed

end
