(* ===== verification/RealTools.thy ===== *)
theory RealTools
  imports LlmClient Nodes "HOL-Library.List_Lexorder" "HOL-Library.Char_ord"
begin

section \<open>The tools over the map service\<close>

text \<open>
  internal/agent/eino: the client of the map service with its limiter (api\_client.go) and the three tools that use it (real\_poi\_tool.go,
  real\_weather\_tool.go, real\_route\_tool.go). The service and the decoder of its answers are arguments.
\<close>

subsection \<open>Query strings\<close>

text \<open>\<open>url.QueryEscape\<close> and \<open>url.Values.Encode\<close>, which sorts by the key; a key has one value here.\<close>

definition upper_hex :: "nat \<Rightarrow> char" where
  "upper_hex n = (if n < 10 then char_of (48 + n) else char_of (55 + n))"

definition unreserved :: "char \<Rightarrow> bool" where
  "unreserved c \<longleftrightarrow> (let n = of_char c :: nat
     in 48 \<le> n \<and> n \<le> 57 \<or> 65 \<le> n \<and> n \<le> 90 \<or> 97 \<le> n \<and> n \<le> 122 \<or> c \<in> set ''-_.~'')"

definition escape_byte :: "char \<Rightarrow> string" where
  "escape_byte c =
     (if unreserved c then [c] else if c = CHR '' '' then ''+''
      else let n = of_char c :: nat in [CHR ''%'', upper_hex (n div 16), upper_hex (n mod 16)])"

definition QueryEscape :: "string \<Rightarrow> string" where
  "QueryEscape s = concat (map escape_byte s)"

definition encode_values :: "(string \<times> string) list \<Rightarrow> string" where
  "encode_values vs = Join (map (\<lambda>(k, v). QueryEscape k @ ''='' @ QueryEscape v) (sort_key fst vs)) ''&''"

text \<open>\<open>url.Values.Set\<close>.\<close>

definition set_value :: "string \<times> string \<Rightarrow> (string \<times> string) list \<Rightarrow> (string \<times> string) list" where
  "set_value kv vs = filter (\<lambda>p. fst p \<noteq> fst kv) vs @ [kv]"

subsection \<open>The client\<close>

record amapClient =
  ac_baseURL :: string
  ac_apiKey :: string
  ac_timeout :: duration

definition newAMapClient :: "string \<Rightarrow> string \<Rightarrow> duration \<Rightarrow> amapClient" where
  "newAMapClient baseURL apiKey timeout =
     \<lparr>ac_baseURL = TrimRight (TrimSpace baseURL) [0x2F], ac_apiKey = TrimSpace apiKey,
      ac_timeout = (if timeout \<le> 0 then 10 * second else timeout)\<rparr>"

text \<open>
  What the calls of one tool run meet, numbered as the run makes them: the limiter gives up because the context is done, and the answer
  of the service to a URL.
\<close>

record amap_service =
  as_gone :: "nat \<Rightarrow> string option"
  as_ask :: "nat \<Rightarrow> string \<Rightarrow> http_answer"

definition amap_query :: "amapClient \<Rightarrow> (string \<times> string) list \<Rightarrow> (string \<times> string) list" where
  "amap_query client query =
     fold set_value (filter (\<lambda>(k, v). TrimSpace v \<noteq> []) query) [(''key'', ac_apiKey client), (''output'', ''json'')]"

definition amap_url :: "amapClient \<Rightarrow> string \<Rightarrow> (string \<times> string) list \<Rightarrow> string" where
  "amap_url client path query =
     ac_baseURL client @ ''/'' @ TrimLeft path [0x2F] @ ''?'' @ encode_values (amap_query client query)"

text \<open>The answer decoded; \<open>status\<close> reads \<open>amapStatus\<close> from it: its status and its info.\<close>

definition amap_get ::
  "amap_service \<Rightarrow> amapClient option \<Rightarrow> nat \<Rightarrow> string \<Rightarrow> (string \<times> string) list \<Rightarrow> (string \<Rightarrow> string + 'a)
     \<Rightarrow> ('a \<Rightarrow> string \<times> string) \<Rightarrow> string + 'a" where
  "amap_get service client0 n path query decode status =
     (case client0 of
        None \<Rightarrow> Inl ''amap client is nil''
      | Some client \<Rightarrow>
          if ac_baseURL client = [] then Inl ''amap base url is empty''
          else if ac_apiKey client = [] then Inl ''amap api key is empty''
          else case as_gone service n of
                 Some e \<Rightarrow> Inl (''wait for amap rate limit: '' @ e)
               | None \<Rightarrow>
                   (case as_ask service n (amap_url client path query) of
                      BadURL e \<Rightarrow> Inl (''build amap request: '' @ e)
                    | NoAnswer e \<Rightarrow> Inl (''call amap api: '' @ e)
                    | Answer code body \<Rightarrow>
                        (case read_all (4 * 2 ^ 20) body of
                           Inl e \<Rightarrow> Inl (''read amap response: '' @ e)
                         | Inr data \<Rightarrow>
                             if code < 200 \<or> 300 \<le> code
                             then Inl (''amap api status '' @ Itoa code @ '': '' @ TrimSpace data)
                             else case decode data of
                                    Inl e \<Rightarrow> Inl (''decode amap response: '' @ e)
                                  | Inr out \<Rightarrow>
                                      (let (st, info) = status out
                                       in if st \<noteq> [] \<and> st \<noteq> ''1''
                                          then Inl (''amap api error: '' @ (if info = [] then ''unknown amap error'' else info))
                                          else Inr out))))"

subsection \<open>Values of any type\<close>

text \<open>What an \<open>any\<close> of an answer can hold; the last two only in values made by hand.\<close>

datatype go_any =
    AnyNil | AnyBool bool | AnyNumber float64 | AnyString string | AnyList "go_any list" | AnyMap "(string \<times> go_any) list"
  | AnyInt int | AnyJsonNumber string

fun normalizeAMapText :: "go_any \<Rightarrow> string" where
  "normalizeAMapText (AnyString v) = v"
| "normalizeAMapText (AnyList (AnyString v # vs)) = v"
| "normalizeAMapText v = []"

subsection \<open>Numbers in texts\<close>

text \<open>
  \<open>strconv.ParseFloat\<close> of any text: infinities and NaN by name, and decimal and hexadecimal literals with underscores between digits. Every error is
  None, the overflow to an infinity too.
\<close>

definition go_lower :: "char \<Rightarrow> char" where
  "go_lower c = (let n = of_char c :: nat in if 65 \<le> n \<and> n \<le> 90 then char_of (n + 32) else c)"

definition sign_split :: "string \<Rightarrow> bool \<times> bool \<times> string" where
  "sign_split s =
     (case s of [] \<Rightarrow> (False, False, [])
      | c # cs \<Rightarrow> if c = CHR ''-'' then (True, True, cs) else if c = CHR ''+'' then (True, False, cs) else (False, False, s))"

definition is_hex :: "char \<Rightarrow> bool" where
  "is_hex c \<longleftrightarrow> is_digit c \<or> (let n = of_char (go_lower c) :: nat in 97 \<le> n \<and> n \<le> 102)"

definition hex_digit_value :: "char \<Rightarrow> nat" where
  "hex_digit_value c = (if is_digit c then of_char c - 48 else of_char (go_lower c) - 87)"

text \<open>\<open>special\<close> of strconv, when it consumes the whole text.\<close>

definition named_float :: "string \<Rightarrow> float64 option" where
  "named_float s =
     (let (signed, neg, r) = sign_split s; w = map go_lower r
      in if w = ''inf'' \<or> w = ''infinity'' then Some (if neg then NegInf else PosInf)
         else if \<not> signed \<and> w = ''nan'' then Some NaN
         else None)"

text \<open>An underscore stands between digits, or between the prefix of a literal and a digit. \<open>saw\<close> is the kind of the last character.\<close>

fun underscores_ok :: "bool \<Rightarrow> char \<Rightarrow> string \<Rightarrow> bool" where
  "underscores_ok hex saw [] = (saw \<noteq> CHR ''_'')"
| "underscores_ok hex saw (c # cs) =
     (if is_digit c \<or> hex \<and> is_hex c then underscores_ok hex (CHR ''0'') cs
      else if c = CHR ''_'' then saw = CHR ''0'' \<and> underscores_ok hex c cs
      else saw \<noteq> CHR ''_'' \<and> underscores_ok hex (CHR ''!'') cs)"

definition underscoreOK :: "string \<Rightarrow> bool" where
  "underscoreOK s0 =
     (let (_, _, s) = sign_split s0
      in case s of
           a # b # cs \<Rightarrow> if a = CHR ''0'' \<and> go_lower b \<in> set ''box'' then underscores_ok (go_lower b = CHR ''x'') (CHR ''0'') cs
                         else underscores_ok False (CHR ''^'') s
         | _ \<Rightarrow> underscores_ok False (CHR ''^'') s)"

text \<open>The mantissa: its digits, how many of them follow the point, whether there was one, and the rest.\<close>

fun mantissa :: "bool \<Rightarrow> bool \<Rightarrow> nat list \<Rightarrow> nat \<Rightarrow> string \<Rightarrow> nat list \<times> nat \<times> string" where
  "mantissa hex dot ds scaled [] = (ds, scaled, [])"
| "mantissa hex dot ds scaled (c # cs) =
     (if c = CHR ''_'' then mantissa hex dot ds scaled cs
      else if c = CHR ''.'' then (if dot then (ds, scaled, c # cs) else mantissa hex True ds scaled cs)
      else if is_digit c \<or> hex \<and> is_hex c then mantissa hex dot (ds @ [hex_digit_value c]) (if dot then scaled + 1 else scaled) cs
      else (ds, scaled, c # cs))"

text \<open>The exponent stops growing at ten thousand.\<close>

definition exponent_value :: "string \<Rightarrow> int" where
  "exponent_value s = fold (\<lambda>c e. if is_digit c \<and> e < 10000 then 10 * e + int (hex_digit_value c) else e) s 0"

definition exponent_part :: "bool \<Rightarrow> string \<Rightarrow> int option" where
  "exponent_part hex s =
     (case s of
        [] \<Rightarrow> if hex then None else Some 0
      | c # cs \<Rightarrow>
          if go_lower c \<noteq> (if hex then CHR ''p'' else CHR ''e'') then None
          else (let (_, neg, ds) = sign_split cs
                in if ds = [] \<or> \<not> is_digit (hd ds) \<or> \<not> list_all (\<lambda>d. is_digit d \<or> d = CHR ''_'') ds then None
                   else Some (if neg then - exponent_value ds else exponent_value ds)))"

definition literal_value :: "string \<Rightarrow> (bool \<times> rat) option" where
  "literal_value s =
     (let (_, neg, r) = sign_split s;
          hex = (case r of a # b # c # cs \<Rightarrow> a = CHR ''0'' \<and> go_lower b = CHR ''x'' | _ \<Rightarrow> False);
          (ds, scaled, rest) = mantissa hex False [] 0 (if hex then drop 2 r else r);
          m = fold (\<lambda>d v. (if hex then 16 else 10) * v + of_nat d) ds (0 :: rat)
      in if ds = [] then None
         else case exponent_part hex rest of
                None \<Rightarrow> None
              | Some e \<Rightarrow>
                  if CHR ''_'' \<in> set s \<and> \<not> underscoreOK s then None
                  else Some (neg, if m = 0 then 0
                                  else m * (if hex then 2 powi (e - 4 * int scaled) else 10 powi (e - int scaled))))"

definition ParseFloat64 :: "string \<Rightarrow> float64 option" where
  "ParseFloat64 s =
     (case named_float s of
        Some f \<Rightarrow> Some f
      | None \<Rightarrow>
          (case literal_value s of
             None \<Rightarrow> None
           | Some (neg, q) \<Rightarrow>
               (let f = f_of_rat (if neg then - q else q)
                in if \<not> is_finite f then None
                   else if neg \<and> q = 0 then Some NegZero
                   else Some f)))"

fun parseAMapFloat :: "go_any \<Rightarrow> float64 option" where
  "parseAMapFloat (AnyString v) = (let v = TrimSpace v in if v = [] \<or> v = ''[]'' then None else ParseFloat64 v)"
| "parseAMapFloat (AnyNumber v) = Some v"
| "parseAMapFloat (AnyInt v) = Some (f_of_int v)"
| "parseAMapFloat (AnyJsonNumber v) = ParseFloat64 v"
| "parseAMapFloat v = None"

text \<open>\<open>strconv.Atoi\<close> with the error ignored: zero for no number, the nearest \<open>int64\<close> for one that does not fit.\<close>

definition atoi_anyway :: "string \<Rightarrow> int" where
  "atoi_anyway s =
     (let (_, neg, ds) = sign_split s; v = (if neg then - int (digits_value ds) else int (digits_value ds))
      in if ds = [] \<or> \<not> list_all is_digit ds then 0 else max (- (2 ^ 63)) (min (2 ^ 63 - 1) v))"

subsection \<open>Places\<close>

record amapPOIBizExt =
  be_Rating :: go_any
  be_Cost :: go_any

record amapPOIPhoto =
  aph_Title :: go_any
  aph_URL :: string

record amapPOIItem =
  ap_ID :: string
  ap_Parent :: go_any
  ap_Name :: string
  ap_Type :: string
  ap_TypeCode :: string
  ap_BizType :: string
  ap_Address :: go_any
  ap_Location :: string
  ap_Tel :: go_any
  ap_Postcode :: go_any
  ap_Website :: go_any
  ap_Email :: go_any
  ap_PCode :: string
  ap_PName :: string
  ap_CityCode :: string
  ap_CityName :: string
  ap_ADCode :: string
  ap_ADName :: string
  ap_EntrLocation :: go_any
  ap_ExitLocation :: go_any
  ap_NaviPOIID :: go_any
  ap_BusinessArea :: go_any
  ap_Tag :: go_any
  ap_BizExt :: amapPOIBizExt
  ap_Photos :: "amapPOIPhoto list"

record amapPOIResponse =
  ar_Status :: string
  ar_Info :: string
  ar_POIs :: "amapPOIItem list"

definition poiCostUnit :: "string \<Rightarrow> string" where
  "poiCostUnit category = (if Contains category (utf8 [0x9152, 0x5E97]) then ''per_night_reference'' else ''per_person'')"

definition legacyCost :: "CostInfo \<Rightarrow> float64" where
  "legacyCost cost = (case ci_Amount cost of None \<Rightarrow> f_zero | Some a \<Rightarrow> a)"

definition poi_photos :: "amapPOIPhoto list \<Rightarrow> POIPhoto list" where
  "poi_photos photos =
     List.map_filter (\<lambda>photo. let title = normalizeAMapText (aph_Title photo)
       in if title = [] \<and> aph_URL photo = [] then None else Some \<lparr>ph_Title = title, ph_URL = aph_URL photo\<rparr>) photos"

definition poi_metadata :: "amapPOIItem \<Rightarrow> POIMetadata" where
  "poi_metadata p =
     \<lparr>pm_Provider = ''amap'', pm_ID = ap_ID p, pm_Parent = normalizeAMapText (ap_Parent p), pm_TypeCode = ap_TypeCode p,
      pm_BizType = ap_BizType p, pm_Tel = normalizeAMapText (ap_Tel p), pm_Postcode = normalizeAMapText (ap_Postcode p),
      pm_Website = normalizeAMapText (ap_Website p), pm_Email = normalizeAMapText (ap_Email p), pm_PCode = ap_PCode p,
      pm_PName = ap_PName p, pm_CityCode = ap_CityCode p, pm_CityName = ap_CityName p, pm_ADCode = ap_ADCode p, pm_ADName = ap_ADName p,
      pm_EntrLocation = normalizeAMapText (ap_EntrLocation p), pm_ExitLocation = normalizeAMapText (ap_ExitLocation p),
      pm_NaviPOIID = normalizeAMapText (ap_NaviPOIID p), pm_BusinessArea = normalizeAMapText (ap_BusinessArea p),
      pm_Tag = normalizeAMapText (ap_Tag p), pm_Rating = parseAMapFloat (be_Rating (ap_BizExt p)), pm_Photos = poi_photos (ap_Photos p),
      pm_Cost = (case parseAMapFloat (be_Cost (ap_BizExt p)) of
         Some amount \<Rightarrow> AvailableCost amount (poiCostUnit (ap_Type p)) ''amap.poi.biz_ext.cost'' True
       | None \<Rightarrow> UnavailableCost ''per_person'' ''amap.poi.biz_ext.cost'')\<rparr>"

definition real_poi :: "string \<Rightarrow> nat \<times> amapPOIItem \<Rightarrow> POIInfo" where
  "real_poi city = (\<lambda>(i, poi).
     (let address = normalizeAMapText (ap_Address poi); metadata = poi_metadata poi
      in \<lparr>po_Name = ap_Name poi, po_City = city,
          po_Category = (if ap_Type poi = [] then poiCategory i else ap_Type poi),
          po_Address = (if address = [] then city @ '' POI '' @ Itoa (int i + 1) else address),
          po_Location = ap_Location poi, po_SuggestedDurationMinutes = 90 + int (i mod 3) * 30,
          po_EstimatedCost = legacyCost (pm_Cost metadata), po_Cost = pm_Cost metadata, po_Metadata = Some metadata\<rparr>))"

definition RealPOITool :: "amap_service \<Rightarrow> (string \<Rightarrow> string + amapPOIResponse) \<Rightarrow> amapClient option \<Rightarrow> POITool" where
  "RealPOITool service decode client c inp =
     (let failed = (\<lambda>e. ([], Some (ToolErr e)))
      in case pc_Err c of
           Some e \<Rightarrow> failed e
         | None \<Rightarrow>
             if pin_City inp = [] then failed ''poi city is required''
             else let keywords = (case pin_Interests inp of [] \<Rightarrow> utf8 [0x666F, 0x70B9] | i # is \<Rightarrow> i)
                  in case amap_get service client 0 ''/place/text''
                         [(''city'', pin_City inp), (''citylimit'', ''true''), (''keywords'', keywords), (''extensions'', ''all''),
                          (''offset'', ''10''), (''page'', ''1'')] decode (\<lambda>r. (ar_Status r, ar_Info r)) of
                       Inl e \<Rightarrow> failed e
                     | Inr resp \<Rightarrow>
                         if ar_POIs resp = [] then failed ''amap poi response is empty''
                         else let pois = map (real_poi (pin_City inp)) (filter (\<lambda>(i, poi). ap_Name poi \<noteq> []) (enumerate 0 (ar_POIs resp)))
                              in if pois = [] then failed ''amap poi response has no usable pois'' else (pois, None))"

subsection \<open>Weather\<close>

record amapGeocodeResponse =
  ag_Status :: string
  ag_Info :: string
  ag_Geocodes :: "string list"

record amapWeatherCast =
  wc_DayWeather :: string
  wc_NightWeather :: string
  wc_DayTemp :: string
  wc_NightTemp :: string

record amapWeatherResponse =
  aw_Status :: string
  aw_Info :: string
  aw_Forecasts :: "amapWeatherCast list list"

definition lookupAdcode ::
  "amap_service \<Rightarrow> (string \<Rightarrow> string + amapGeocodeResponse) \<Rightarrow> amapClient option \<Rightarrow> amapClient option \<Rightarrow> string \<Rightarrow> string + string" where
  "lookupAdcode service decode geocoder client city =
     (case amap_get service (if geocoder = None then client else geocoder) 0 ''/geocode/geo'' [(''address'', city)] decode
             (\<lambda>r. (ag_Status r, ag_Info r)) of
        Inl e \<Rightarrow> Inl e
      | Inr resp \<Rightarrow>
          (case ag_Geocodes resp of
             [] \<Rightarrow> Inl ''amap geocode response missing adcode''
           | code # codes \<Rightarrow> if code = [] then Inl ''amap geocode response missing adcode'' else Inr code))"

definition real_weather :: "amapWeatherCast list \<Rightarrow> int \<Rightarrow> WeatherInfo" where
  "real_weather casts day =
     (let cast = casts ! nat ((day - 1) mod int (length casts));
          condition = (if wc_DayWeather cast = [] then wc_NightWeather cast else wc_DayWeather cast);
          condition = (if condition = [] then ''unknown'' else condition)
      in \<lparr>we_Day = day, we_Condition = condition,
          we_Temperature = (if wc_NightTemp cast = [] \<or> wc_DayTemp cast = [] then ''unknown''
            else wc_NightTemp cast @ ''-'' @ wc_DayTemp cast @ ''C''),
          we_Suggestion = (if conditionContainsRain condition then ''keep indoor backup plan'' else ''weather data from amap'')\<rparr>)"

definition RealWeatherTool ::
  "amap_service \<Rightarrow> (string \<Rightarrow> string + amapGeocodeResponse) \<Rightarrow> (string \<Rightarrow> string + amapWeatherResponse) \<Rightarrow> amapClient option
     \<Rightarrow> amapClient option \<Rightarrow> WeatherTool" where
  "RealWeatherTool service decode_geo decode client geocoder c inp =
     (let failed = (\<lambda>e. ([], Some (ToolErr e)))
      in case pc_Err c of
           Some e \<Rightarrow> failed e
         | None \<Rightarrow>
             if win_City inp = [] then failed ''weather city is required''
             else if win_Days inp \<le> 0 then failed ''weather days must be positive''
             else case lookupAdcode service decode_geo geocoder client (win_City inp) of
                    Inl e \<Rightarrow> failed e
                  | Inr adcode \<Rightarrow>
                      (case amap_get service client 1 ''/weather/weatherInfo'' [(''city'', adcode), (''extensions'', ''all'')] decode
                              (\<lambda>r. (aw_Status r, aw_Info r)) of
                         Inl e \<Rightarrow> failed e
                       | Inr resp \<Rightarrow>
                           (case aw_Forecasts resp of
                              (cast # casts) # _ \<Rightarrow> (map (real_weather (cast # casts)) [1..win_Days inp], None)
                            | _ \<Rightarrow> failed ''amap weather response is empty'')))"

subsection \<open>Routes\<close>

record amapRoutePath =
  rt_Distance :: string
  rt_Duration :: string
  rt_Tolls :: go_any

record amapTransitRoute =
  tt_Cost :: go_any
  tt_Duration :: string
  tt_WalkingDistance :: string

record amapRouteResponse =
  ao_Status :: string
  ao_Info :: string
  ao_Paths :: "amapRoutePath list"
  ao_TaxiCost :: go_any
  ao_Transits :: "amapTransitRoute list"

definition path_transit :: string where "path_transit = ''/direction/transit/integrated''"
definition path_driving :: string where "path_driving = ''/direction/driving''"
definition path_walking :: string where "path_walking = ''/direction/walking''"
definition path_bicycling :: string where "path_bicycling = ''/direction/bicycling''"

definition routePath :: "string \<Rightarrow> string" where
  "routePath mode =
     (let lower = ToLower mode
      in if Contains lower ''transit'' \<or> Contains mode (utf8 [0x516C, 0x4EA4]) \<or> Contains mode (utf8 [0x5730, 0x94C1]) \<or> Contains mode (utf8 [0x516C, 0x5171, 0x4EA4, 0x901A])
         then path_transit
         else if Contains lower ''taxi'' \<or> Contains lower ''drive'' \<or> Contains lower ''car'' \<or> Contains mode (utf8 [0x6253, 0x8F66])
           \<or> Contains mode (utf8 [0x81EA, 0x9A7E]) then path_driving
         else if Contains lower ''bike'' then path_bicycling
         else if Contains lower ''walk'' \<or> Contains mode (utf8 [0x6B65, 0x884C]) then path_walking
         else path_driving)"

definition routeCost :: "string \<Rightarrow> string \<Rightarrow> go_any \<Rightarrow> go_any \<Rightarrow> CostInfo" where
  "routeCost mode path taxiCost tolls =
     (if path = path_walking \<or> path = path_bicycling then NotApplicableCost ''per_trip'' ''amap.route.no_cost''
      else if Contains mode (utf8 [0x81EA, 0x9A7E]) \<or> Contains (ToLower mode) ''driving''
      then (case parseAMapFloat tolls of
              Some amount \<Rightarrow> AvailableCost amount ''per_trip_reference'' ''amap.route.tolls'' True
            | None \<Rightarrow> UnavailableCost ''per_trip_reference'' ''amap.route.tolls'')
      else case parseAMapFloat taxiCost of
             Some amount \<Rightarrow> AvailableCost amount ''per_trip'' ''amap.route.taxi_cost'' True
           | None \<Rightarrow> UnavailableCost ''per_trip'' ''amap.route.taxi_cost'')"

definition transitCost :: "go_any \<Rightarrow> CostInfo" where
  "transitCost cost =
     (case parseAMapFloat cost of
        Some amount \<Rightarrow> AvailableCost amount ''per_person'' ''amap.route.transits.cost'' True
      | None \<Rightarrow> UnavailableCost ''per_person'' ''amap.route.transits.cost'')"

definition real_route :: "string \<Rightarrow> POIInfo \<Rightarrow> POIInfo \<Rightarrow> int \<Rightarrow> int \<Rightarrow> CostInfo \<Rightarrow> RouteInfo" where
  "real_route mode from_poi to_poi seconds meters cost =
     \<lparr>ro_From = po_Name from_poi, ro_To = po_Name to_poi, ro_DurationMinutes = maxInt (go_div seconds 60) 1,
      ro_DistanceMeters = meters, ro_Mode = mode, ro_Cost = cost\<rparr>"

definition queryTransitSegment ::
  "amap_service \<Rightarrow> (string \<Rightarrow> string + amapRouteResponse) \<Rightarrow> amapClient option \<Rightarrow> nat \<Rightarrow> string \<Rightarrow> POIInfo \<Rightarrow> POIInfo
     \<Rightarrow> string + RouteInfo" where
  "queryTransitSegment service decode client n mode p q =
     (case amap_get service client n path_transit
             [(''origin'', po_Location p), (''destination'', po_Location q), (''city'', fallbackValue (po_City p) (po_City q)),
              (''cityd'', po_City q)] decode (\<lambda>r. (ao_Status r, ao_Info r)) of
        Inl e \<Rightarrow> Inl e
      | Inr resp \<Rightarrow>
          (case ao_Transits resp of
             [] \<Rightarrow> Inl ''amap transit response is empty''
           | first # _ \<Rightarrow>
               (let duration = atoi_anyway (tt_Duration first); distance = atoi_anyway (tt_WalkingDistance first)
                in if duration \<le> 0 \<and> distance \<le> 0 then Inl ''amap transit response missing distance and duration''
                   else Inr (real_route mode p q duration distance (transitCost (tt_Cost first))))))"

definition querySegment ::
  "amap_service \<Rightarrow> (string \<Rightarrow> string + amapRouteResponse) \<Rightarrow> amapClient option \<Rightarrow> nat \<Rightarrow> string \<Rightarrow> POIInfo \<Rightarrow> POIInfo
     \<Rightarrow> string + RouteInfo" where
  "querySegment service decode client n mode p q =
     (let path = routePath mode
      in if path = path_transit then queryTransitSegment service decode client n mode p q
         else case amap_get service client n path
                ([(''origin'', po_Location p), (''destination'', po_Location q)]
                 @ (if path = path_driving then [(''extensions'', ''all'')] else [])) decode (\<lambda>r. (ao_Status r, ao_Info r)) of
                Inl e \<Rightarrow> Inl e
              | Inr resp \<Rightarrow>
                  (case ao_Paths resp of
                     [] \<Rightarrow> Inl ''amap route response is empty''
                   | first # _ \<Rightarrow>
                       (let duration = atoi_anyway (rt_Duration first); distance = atoi_anyway (rt_Distance first)
                        in if duration \<le> 0 \<and> distance \<le> 0 then Inl ''amap route response missing distance and duration''
                           else Inr (real_route mode p q duration distance (routeCost mode path (ao_TaxiCost resp) (rt_Tolls first))))))"

text \<open>The segments in order, the first error ending the run; call \<open>n\<close> is the one for segment \<open>n\<close>.\<close>

fun query_segments ::
  "(nat \<Rightarrow> POIInfo \<Rightarrow> POIInfo \<Rightarrow> string + RouteInfo) \<Rightarrow> nat \<Rightarrow> POIInfo list \<Rightarrow> string + RouteInfo list" where
  "query_segments ask n (p # q # pois) =
     (if po_Location p = [] \<or> po_Location q = [] then Inl ''poi location is required for real route''
      else case ask n p q of
             Inl e \<Rightarrow> Inl e
           | Inr route \<Rightarrow>
               (case query_segments ask (n + 1) (q # pois) of Inl e \<Rightarrow> Inl e | Inr routes \<Rightarrow> Inr (route # routes)))"
| "query_segments ask n pois = Inr []"

definition RealRouteTool :: "amap_service \<Rightarrow> (string \<Rightarrow> string + amapRouteResponse) \<Rightarrow> amapClient option \<Rightarrow> RouteTool" where
  "RealRouteTool service decode client c inp =
     (case pc_Err c of
        Some e \<Rightarrow> ([], Some (ToolErr e))
      | None \<Rightarrow>
          if rin_POIs inp = [] then ([], Some (ToolErr ''route tool requires at least one poi''))
          else (let mode = (if rin_Mode inp = [] then ''walk_taxi'' else rin_Mode inp)
                in case query_segments (\<lambda>n. querySegment service decode client n mode) 0 (rin_POIs inp) of
                     Inl e \<Rightarrow> ([], Some (ToolErr e))
                   | Inr routes \<Rightarrow> (routes, None)))"

end
