(* ===== verification/Config.thy ===== *)
theory Config
  imports EinoPlanner MockPlanner RealTools
begin

section \<open>Configuration\<close>

text \<open>
  internal/config (config.go, env\_file.go) and internal/agent/eino/config.go: the settings of the server, the language model and the
  tools, read from the environment and from a .env file. An environment is a function from names to values, empty for an unset name; the
  file system is an argument.
\<close>

type_synonym environment = "string \<Rightarrow> string"

subsection \<open>Durations\<close>

text \<open>
  \<open>time.ParseDuration\<close>: an optional sign and numbers with a unit; the errors of the parts that do not fit in 63 bits are its own. None
  is an error.
\<close>

fun leading_int :: "int \<Rightarrow> string \<Rightarrow> (int \<times> string) option" where
  "leading_int x [] = Some (x, [])"
| "leading_int x (c # cs) =
     (if \<not> is_digit c then Some (x, c # cs)
      else if 2 ^ 63 div 10 < x then None
      else let y = x * 10 + (of_char c - 48) in if 2 ^ 63 < y then None else leading_int y cs)"

text \<open>The digits of a fraction that fit, and ten to their number; the others are skipped.\<close>

fun leading_fraction :: "bool \<Rightarrow> int \<Rightarrow> float64 \<Rightarrow> string \<Rightarrow> int \<times> float64 \<times> string" where
  "leading_fraction full x scale [] = (x, scale, [])"
| "leading_fraction full x scale (c # cs) =
     (if \<not> is_digit c then (x, scale, c # cs)
      else if full \<or> (2 ^ 63 - 1) div 10 < x then leading_fraction True x scale cs
      else let y = x * 10 + (of_char c - 48)
           in if 2 ^ 63 < y then leading_fraction True x scale cs
              else leading_fraction False y (f_mul scale (f_of_int 10)) cs)"

definition unit_map :: "(string \<times> int) list" where
  "unit_map = [(''ns'', 1), (''us'', 1000), (utf8 [0xB5, 0x73], 1000), (utf8 [0x3BC, 0x73], 1000), (''ms'', 1000000),
     (''s'', 1000000000), (''m'', 60000000000), (''h'', 3600000000000)]"

definition unit_end :: "char \<Rightarrow> bool" where
  "unit_end c \<longleftrightarrow> c = CHR ''.'' \<or> is_digit c"

text \<open>One number with its unit: its nanoseconds and the rest.\<close>

definition duration_part :: "string \<Rightarrow> (int \<times> string) option" where
  "duration_part s =
     (if s = [] \<or> \<not> unit_end (hd s) then None
      else case leading_int 0 s of
             None \<Rightarrow> None
           | Some (v, s1) \<Rightarrow>
               (let (f, scale, s2) = (case s1 of
                      c # cs \<Rightarrow> if c = CHR ''.'' then leading_fraction False 0 (f_of_int 1) cs else (0, f_of_int 1, s1)
                    | [] \<Rightarrow> (0, f_of_int 1, s1));
                    digits_before = (length s1 \<noteq> length s);
                    digits_after = (s1 \<noteq> [] \<and> hd s1 = CHR ''.'' \<and> length s2 \<noteq> length (tl s1));
                    u = takeWhile (\<lambda>c. \<not> unit_end c) s2
                in if \<not> digits_before \<and> \<not> digits_after then None
                   else if u = [] then None
                   else case map_of unit_map u of
                          None \<Rightarrow> None
                        | Some d \<Rightarrow>
                            if 2 ^ 63 div d < v then None
                            else let w = v * d + (if 0 < f then \<lfloor>f_rat (f_mul (f_of_int f) (f_div (f_of_int d) scale))\<rfloor> else 0)
                                 in if 2 ^ 63 < w then None else Some (w, drop (length u) s2)))"

lemma leading_int_shorter: "leading_int x s = Some (v, r) \<Longrightarrow> length r \<le> length s"
proof (induction x s rule: leading_int.induct)
  case (2 x c cs)
  then show ?case by (fastforce simp: Let_def split: if_splits)
qed simp

lemma leading_fraction_shorter: "leading_fraction b x scale s = (v, sc, r) \<Longrightarrow> length r \<le> length s"
proof (induction b x scale s rule: leading_fraction.induct)
  case (2 b x scale c cs)
  then show ?case by (fastforce simp: Let_def split: if_splits)
qed simp

lemma duration_part_shorter: "duration_part s = Some (v, r) \<Longrightarrow> length r < length s"
proof -
  assume "duration_part s = Some (v, r)"
  then obtain v1 s1 f scale s2 where s1: "leading_int 0 s = Some (v1, s1)"
    and s2: "(case s1 of c # cs \<Rightarrow> if c = CHR ''.'' then leading_fraction False 0 (f_of_int 1) cs else (0, f_of_int 1, s1)
        | [] \<Rightarrow> (0, f_of_int 1, s1)) = (f, scale, s2)"
    and u: "takeWhile (\<lambda>c. \<not> unit_end c) s2 \<noteq> []" "r = drop (length (takeWhile (\<lambda>c. \<not> unit_end c) s2)) s2"
    unfolding duration_part_def Let_def by (auto split: if_splits option.splits prod.splits)
  have "length s2 \<le> length s1"
    using s2 leading_fraction_shorter by (fastforce split: list.splits if_splits)
  moreover have "length s1 \<le> length s" using leading_int_shorter [OF s1] .
  moreover have "length r < length s2" using u by (cases s2) (auto split: if_splits)
  ultimately show ?thesis by linarith
qed

function duration_sum :: "int \<Rightarrow> string \<Rightarrow> int option" where
  "duration_sum d s =
     (if s = [] then Some d
      else case duration_part s of
             None \<Rightarrow> None
           | Some (v, rest) \<Rightarrow> if 2 ^ 63 < d + v then None else duration_sum (d + v) rest)"
  by pat_completeness auto
termination by (relation "measure (\<lambda>(d, s). length s)") (auto dest: duration_part_shorter)

declare duration_sum.simps [simp del]

definition ParseDuration :: "string \<Rightarrow> duration option" where
  "ParseDuration s0 =
     (let (neg, s) = (case s0 of c # cs \<Rightarrow> if c = CHR ''-'' \<or> c = CHR ''+'' then (c = CHR ''-'', cs) else (False, s0) | [] \<Rightarrow> (False, []))
      in if s = ''0'' then Some 0
         else if s = [] then None
         else case duration_sum 0 s of
                None \<Rightarrow> None
              | Some d \<Rightarrow> if neg then Some (wrap64 (- d)) else if 2 ^ 63 - 1 < d then None else Some d)"

subsection \<open>Reading the environment\<close>

definition envOrDefault :: "environment \<Rightarrow> string \<Rightarrow> string \<Rightarrow> string" where
  "envOrDefault getenv key fallback =
     (let value = TrimSpace (getenv key) in if value \<noteq> [] then value else fallback)"

definition true_words :: "string list" where
  "true_words = [''1'', ''true'', ''yes'', ''y'', ''on'', ''enabled'']"

definition false_words :: "string list" where
  "false_words = [''0'', ''false'', ''no'', ''n'', ''off'', ''disabled'']"

definition parseBool :: "string \<Rightarrow> bool" where
  "parseBool v \<longleftrightarrow> ToLower (TrimSpace v) \<in> set true_words"

definition parseBoolDefault :: "environment \<Rightarrow> string \<Rightarrow> bool \<Rightarrow> bool" where
  "parseBoolDefault getenv key fallback =
     (let v = TrimSpace (getenv key) in if v = [] then fallback else parseBool v)"

definition parseBoolWithDefault :: "string \<Rightarrow> bool \<Rightarrow> bool" where
  "parseBoolWithDefault v defaultValue =
     (let w = ToLower (TrimSpace v)
      in if w = [] then defaultValue
         else if w \<in> set false_words then False
         else if w \<in> set true_words then True
         else defaultValue)"

definition envInt :: "environment \<Rightarrow> string \<Rightarrow> int \<Rightarrow> int" where
  "envInt getenv key fallback =
     (let raw = TrimSpace (getenv key)
      in if raw = [] then fallback else case Atoi raw of None \<Rightarrow> fallback | Some v \<Rightarrow> v)"

definition splitCSV :: "string \<Rightarrow> string list" where
  "splitCSV v = filter (\<lambda>p. p \<noteq> []) (map TrimSpace (Split v (CHR '','')))"

subsection \<open>The .env file\<close>

definition parseEnvLine :: "string \<Rightarrow> (string \<times> string) option" where
  "parseEnvLine line0 =
     (let line = TrimSpace line0
      in if line = [] \<or> HasPrefix line ''#'' then None
         else (let rest = TrimPrefix line ''export ''
               in if CHR ''='' \<notin> set rest then None
                  else (let key = TrimSpace (takeWhile (\<lambda>c. c \<noteq> CHR ''='') rest);
                            v = drop 1 (dropWhile (\<lambda>c. c \<noteq> CHR ''='') rest)
                        in if key = [] \<or> CHR '' '' \<in> set key \<or> char_of (9 :: nat) \<in> set key then None
                           else Some (key, Trim (TrimSpace v) [0x22, 0x27]))))"

text \<open>
  \<open>bufio.Scanner\<close> by lines: a carriage return before the line end goes, and a line that does not fit the buffer of 65536 bytes
  ends the scan.
\<close>

definition drop_cr :: "string \<Rightarrow> string" where
  "drop_cr l = (if l \<noteq> [] \<and> last l = char_of (13 :: nat) then butlast l else l)"

definition scan_lines :: "string \<Rightarrow> string list" where
  "scan_lines s =
     (let ls = Split s (char_of (10 :: nat));
          ls = (if last ls = [] then butlast ls else ls)
      in map drop_cr (takeWhile (\<lambda>l. length l < 65536) ls))"

text \<open>\<open>os.Setenv\<close> refuses a NUL byte; the key here is not empty and has no equals sign.\<close>

definition Setenv :: "environment \<Rightarrow> string \<Rightarrow> string \<Rightarrow> environment" where
  "Setenv getenv key v =
     (if char_of (0 :: nat) \<in> set key \<or> char_of (0 :: nat) \<in> set v then getenv else getenv(key := v))"

definition env_line :: "string \<Rightarrow> environment \<Rightarrow> environment" where
  "env_line line getenv =
     (case parseEnvLine line of
        None \<Rightarrow> getenv
      | Some (key, v) \<Rightarrow> if getenv key \<noteq> [] then getenv else Setenv getenv key v)"

text \<open>
  A working directory is the list of its names from the root, innermost first; \<open>open_file\<close> says what can be read of a file, None when it
  cannot be opened.
\<close>

definition env_path :: "string list \<Rightarrow> string" where
  "env_path dir = concat (map (\<lambda>d. CHR ''/'' # d) (rev dir)) @ ''/.env''"

fun search_env :: "(string \<Rightarrow> string option) \<Rightarrow> string list \<Rightarrow> environment \<Rightarrow> environment" where
  "search_env open_file dir getenv =
     (case open_file (env_path dir) of
        Some contents \<Rightarrow> fold env_line (scan_lines contents) getenv
      | None \<Rightarrow> (case dir of [] \<Rightarrow> getenv | _ # parent \<Rightarrow> search_env open_file parent getenv))"

declare search_env.simps [simp del]

definition loadDotEnv :: "string list option \<Rightarrow> (string \<Rightarrow> string option) \<Rightarrow> environment \<Rightarrow> environment" where
  "loadDotEnv cwd open_file getenv =
     (case cwd of None \<Rightarrow> getenv | Some dir \<Rightarrow> search_env open_file dir getenv)"

subsection \<open>The settings of the server\<close>

record Config =
  cf_HTTPAddr :: string
  cf_Planner :: string
  cf_RedisAddr :: string
  cf_RedisPassword :: string
  cf_RedisDB :: int
  cf_CacheTTL :: duration
  cf_RedisLockTTL :: duration
  cf_RateLimitPerMinute :: int
  cf_SQLEnabled :: bool
  cf_SQLDSN :: string
  cf_SQLMaxOpenConns :: int
  cf_SQLMaxIdleConns :: int
  cf_SQLConnMaxLifetime :: duration
  cf_AuthEnabled :: bool
  cf_SessionCookieName :: string
  cf_SessionTTL :: duration
  cf_PasswordMinLength :: int
  cf_PublicPlanPageSize :: int
  cf_AllowAnonymousPlanGeneration :: bool
  cf_CookieSecure :: bool
  cf_CookieDomain :: string
  cf_AllowedOrigins :: "string list"

definition read_config :: "environment \<Rightarrow> Config" where
  "read_config getenv =
     \<lparr>cf_HTTPAddr = envOrDefault getenv ''TRAVEL_AGENT_HTTP_ADDR'' '':8080'',
      cf_Planner = ToLower (envOrDefault getenv ''TRAVEL_AGENT_PLANNER'' ''mock''),
      cf_RedisAddr = TrimSpace (getenv ''TRAVEL_AGENT_REDIS_ADDR''),
      cf_RedisPassword = getenv ''TRAVEL_AGENT_REDIS_PASSWORD'',
      cf_RedisDB = envInt getenv ''TRAVEL_AGENT_REDIS_DB'' 0,
      cf_CacheTTL = wrap64 (envInt getenv ''TRAVEL_AGENT_CACHE_TTL_SECONDS'' 1800 * second),
      cf_RedisLockTTL = wrap64 (envInt getenv ''TRAVEL_AGENT_REDIS_LOCK_TTL_SECONDS'' 15 * second),
      cf_RateLimitPerMinute = envInt getenv ''TRAVEL_AGENT_RATE_LIMIT_PER_MINUTE'' 60,
      cf_SQLEnabled = parseBool (getenv ''TRAVEL_AGENT_SQL_ENABLED''),
      cf_SQLDSN = TrimSpace (getenv ''TRAVEL_AGENT_SQL_DSN''),
      cf_SQLMaxOpenConns = envInt getenv ''TRAVEL_AGENT_SQL_MAX_OPEN_CONNS'' 10,
      cf_SQLMaxIdleConns = envInt getenv ''TRAVEL_AGENT_SQL_MAX_IDLE_CONNS'' 5,
      cf_SQLConnMaxLifetime = wrap64 (envInt getenv ''TRAVEL_AGENT_SQL_CONN_MAX_LIFETIME_SECONDS'' 1800 * second),
      cf_AuthEnabled = parseBoolDefault getenv ''TRAVEL_AGENT_AUTH_ENABLED'' True,
      cf_SessionCookieName = envOrDefault getenv ''TRAVEL_AGENT_SESSION_COOKIE_NAME'' ''travel_agent_session'',
      cf_SessionTTL = wrap64 (envInt getenv ''TRAVEL_AGENT_SESSION_TTL_HOURS'' 168 * hour),
      cf_PasswordMinLength = envInt getenv ''TRAVEL_AGENT_PASSWORD_MIN_LENGTH'' 8,
      cf_PublicPlanPageSize = envInt getenv ''TRAVEL_AGENT_PUBLIC_PLAN_PAGE_SIZE'' 20,
      cf_AllowAnonymousPlanGeneration = parseBool (getenv ''TRAVEL_AGENT_ALLOW_ANONYMOUS_PLAN_GENERATION''),
      cf_CookieSecure = parseBool (getenv ''TRAVEL_AGENT_COOKIE_SECURE''),
      cf_CookieDomain = TrimSpace (getenv ''TRAVEL_AGENT_COOKIE_DOMAIN''),
      cf_AllowedOrigins = splitCSV (envOrDefault getenv ''TRAVEL_AGENT_ALLOWED_ORIGINS'' ''http://localhost:5173,http://127.0.0.1:5173'')\<rparr>"

definition Load :: "string list option \<Rightarrow> (string \<Rightarrow> string option) \<Rightarrow> environment \<Rightarrow> Config \<times> environment" where
  "Load cwd open_file getenv = (let getenv' = loadDotEnv cwd open_file getenv in (read_config getenv', getenv'))"

subsection \<open>The settings of the model and of the tools\<close>

definition defaultLLMProvider :: string where "defaultLLMProvider = ''deepseek''"
definition defaultLLMModel :: string where "defaultLLMModel = ''deepseek-v4-flash''"
definition defaultLLMQuickModel :: string where "defaultLLMQuickModel = ''deepseek-v4-flash''"
definition defaultLLMExpertModel :: string where "defaultLLMExpertModel = ''deepseek-v4-pro''"
definition defaultLLMBaseURL :: string where "defaultLLMBaseURL = ''https://api.deepseek.com/beta''"
definition defaultLLMTimeout :: duration where "defaultLLMTimeout = 30 * second"
definition defaultLLMRetries :: int where "defaultLLMRetries = 1"
definition defaultLLMStreamEnable :: bool where "defaultLLMStreamEnable = True"
definition defaultToolMode :: string where "defaultToolMode = ''mock''"
definition defaultAMapBaseURL :: string where "defaultAMapBaseURL = ''https://restapi.amap.com/v3''"
definition defaultExternalAPITimeout :: duration where "defaultExternalAPITimeout = 10 * second"
definition defaultExternalAPIConcurrency :: int where "defaultExternalAPIConcurrency = 2"
definition defaultExternalAPIQPS :: int where "defaultExternalAPIQPS = 2"

definition defaultBaseURL :: "environment \<Rightarrow> string \<Rightarrow> string" where
  "defaultBaseURL getenv provider =
     (if provider = ''deepseek'' then defaultLLMBaseURL else TrimSuffix (getenv ''OPENAI_BASE_URL'') ''/'')"

text \<open>A timeout in the notation of Go or in whole seconds, the product wrapping as \<open>time.Duration\<close> does.\<close>

definition timeout_setting :: "string \<Rightarrow> duration \<Rightarrow> duration" where
  "timeout_setting raw0 d =
     (let raw = TrimSpace raw0;
          by_seconds = (case Atoi raw of Some seconds \<Rightarrow> if 0 < seconds then wrap64 (seconds * second) else d | None \<Rightarrow> d)
      in if raw = [] then d
         else case ParseDuration raw of
                Some parsed \<Rightarrow> if 0 < parsed then parsed else by_seconds
              | None \<Rightarrow> by_seconds)"

definition int_setting :: "int \<Rightarrow> string \<Rightarrow> int \<Rightarrow> int" where
  "int_setting least raw0 d =
     (let raw = TrimSpace raw0
      in if raw = [] then d
         else case Atoi raw of Some parsed \<Rightarrow> if least \<le> parsed then parsed else d | None \<Rightarrow> d)"

definition loadLLMConfigFromEnv :: "environment \<Rightarrow> LLMConfig" where
  "loadLLMConfigFromEnv getenv =
     (let provider0 = ToLower (TrimSpace (envOrDefault getenv ''TRAVEL_AGENT_LLM_PROVIDER'' defaultLLMProvider));
          provider = (if provider0 = [] then defaultLLMProvider else provider0);
          key0 = TrimSpace (getenv ''TRAVEL_AGENT_LLM_API_KEY'');
          key = (if key0 = [] \<and> provider = ''deepseek'' then TrimSpace (getenv ''DEEPSEEK_API_KEY'') else key0);
          url0 = TrimSpace (getenv ''TRAVEL_AGENT_LLM_BASE_URL'');
          url = (if url0 = [] then defaultBaseURL getenv provider else url0);
          explicit = TrimSpace (getenv ''TRAVEL_AGENT_LLM_MODEL'');
          quick = (if explicit \<noteq> [] \<and> TrimSpace (getenv ''TRAVEL_AGENT_LLM_MODEL_QUICK'') = [] then explicit
                   else envOrDefault getenv ''TRAVEL_AGENT_LLM_MODEL_QUICK'' defaultLLMQuickModel);
          expert = (if explicit \<noteq> [] \<and> TrimSpace (getenv ''TRAVEL_AGENT_LLM_MODEL_EXPERT'') = [] then explicit
                    else envOrDefault getenv ''TRAVEL_AGENT_LLM_MODEL_EXPERT'' defaultLLMExpertModel)
      in \<lparr>lc_Enabled = parseBool (getenv ''TRAVEL_AGENT_LLM_ENABLED''),
          lc_Provider = provider, lc_APIKey = key, lc_BaseURL = url,
          lc_Model = envOrDefault getenv ''TRAVEL_AGENT_LLM_MODEL'' defaultLLMModel,
          lc_QuickModel = quick, lc_ExpertModel = expert,
          lc_StreamEnabled = parseBoolWithDefault (getenv ''TRAVEL_AGENT_LLM_STREAM_ENABLED'') defaultLLMStreamEnable,
          lc_Timeout = timeout_setting (getenv ''TRAVEL_AGENT_LLM_TIMEOUT'')
            (if defaultLLMTimeout \<le> 0 then defaultLLMTimeout else defaultLLMTimeout),
          lc_MaxRetries = int_setting 0 (getenv ''TRAVEL_AGENT_LLM_MAX_RETRIES'') defaultLLMRetries\<rparr>)"

record ToolConfig =
  tg_Mode :: string
  tg_AMapAPIKey :: string
  tg_AMapBaseURL :: string
  tg_WeatherAPIKey :: string
  tg_WeatherBaseURL :: string
  tg_ExternalAPITimeout :: duration
  tg_ExternalAPIConcurrency :: int
  tg_ExternalAPIQPS :: int

definition loadToolConfigFromEnv :: "environment \<Rightarrow> ToolConfig" where
  "loadToolConfigFromEnv getenv =
     (let mode0 = ToLower (envOrDefault getenv ''TRAVEL_AGENT_TOOL_MODE'' defaultToolMode);
          key = TrimSpace (getenv ''TRAVEL_AGENT_AMAP_API_KEY'');
          url = envOrDefault getenv ''TRAVEL_AGENT_AMAP_BASE_URL'' defaultAMapBaseURL;
          weatherKey = TrimSpace (getenv ''TRAVEL_AGENT_WEATHER_API_KEY'');
          weatherURL = TrimSpace (getenv ''TRAVEL_AGENT_WEATHER_BASE_URL'')
      in \<lparr>tg_Mode = (if mode0 \<noteq> ''real'' then defaultToolMode else mode0),
          tg_AMapAPIKey = key, tg_AMapBaseURL = url,
          tg_WeatherAPIKey = (if weatherKey = [] then key else weatherKey),
          tg_WeatherBaseURL = (if weatherURL = [] then url else weatherURL),
          tg_ExternalAPITimeout = timeout_setting (getenv ''TRAVEL_AGENT_EXTERNAL_API_TIMEOUT'') defaultExternalAPITimeout,
          tg_ExternalAPIConcurrency = int_setting 1 (getenv ''TRAVEL_AGENT_EXTERNAL_API_CONCURRENCY'') defaultExternalAPIConcurrency,
          tg_ExternalAPIQPS = int_setting 1 (getenv ''TRAVEL_AGENT_EXTERNAL_API_QPS'') defaultExternalAPIQPS\<rparr>)"

subsection \<open>The planner of a process\<close>

text \<open>
  What the planner of a process is built over: the client of the model from its settings, the map service as each tool meets it with the
  decoders of its answers, and the graph runtime, which may refuse to compile.
\<close>

record planner_parts =
  pp_client :: "LLMConfig \<Rightarrow> llm_client"
  pp_service :: "string \<Rightarrow> amap_service"
  pp_places :: "string \<Rightarrow> string + amapPOIResponse"
  pp_geocodes :: "string \<Rightarrow> string + amapGeocodeResponse"
  pp_weather :: "string \<Rightarrow> string + amapWeatherResponse"
  pp_routes :: "string \<Rightarrow> string + amapRouteResponse"
  pp_printable :: "nat \<Rightarrow> bool"
  pp_compile :: "string + graph_runtime"

definition environment_tools :: "planner_parts \<Rightarrow> environment \<Rightarrow> toolSet" where
  "environment_tools parts getenv =
     (let cfg = loadToolConfigFromEnv getenv;
          amapClient = newAMapClient (tg_AMapBaseURL cfg) (tg_AMapAPIKey cfg) (tg_ExternalAPITimeout cfg);
          weatherClient = (if tg_WeatherBaseURL cfg \<noteq> tg_AMapBaseURL cfg \<or> tg_WeatherAPIKey cfg \<noteq> tg_AMapAPIKey cfg
            then newAMapClient (tg_WeatherBaseURL cfg) (tg_WeatherAPIKey cfg) (tg_ExternalAPITimeout cfg) else amapClient)
      in defaultToolSet (tg_Mode cfg = ''real'') (tg_AMapAPIKey cfg \<noteq> [])
           (RealPOITool (pp_service parts ''poi'') (pp_places parts) (Some amapClient))
           (RealWeatherTool (pp_service parts ''weather'') (pp_geocodes parts) (pp_weather parts) (Some weatherClient) (Some amapClient))
           (RealRouteTool (pp_service parts ''route'') (pp_routes parts) (Some amapClient)))"

datatype built_planner = MockPlanner | EinoTravelPlanner planner

definition NewEinoTravelPlanner :: "planner_parts \<Rightarrow> environment \<Rightarrow> string + built_planner" where
  "NewEinoTravelPlanner parts getenv =
     (let cfg = loadLLMConfigFromEnv getenv;
          generator = llm_Generate (newDefaultPlanGenerator (pp_client parts cfg) cfg);
          tools = environment_tools parts getenv
      in case pp_compile parts of
           Inl err \<Rightarrow> Inl err
         | Inr G \<Rightarrow> Inr (EinoTravelPlanner (EinoTravelPlanner_Plan tools generator (pp_printable parts) G)))"

definition BuildPlanner :: "planner_parts \<Rightarrow> environment \<Rightarrow> string \<Rightarrow> string + built_planner" where
  "BuildPlanner parts getenv plannerType =
     (let kind = ToLower (TrimSpace plannerType)
      in if kind = [] \<or> kind = ''mock'' then Inr MockPlanner
         else if kind = ''eino'' then NewEinoTravelPlanner parts getenv
         else Inl (''unsupported planner type: '' @ plannerType))"

text \<open>The same choice of cmd/harness/main.go, on the flag as it was given.\<close>

definition buildPlanner :: "planner_parts \<Rightarrow> environment \<Rightarrow> string \<Rightarrow> string + built_planner" where
  "buildPlanner parts getenv plannerType =
     (if plannerType = ''mock'' then Inr MockPlanner
      else if plannerType = ''eino'' then NewEinoTravelPlanner parts getenv
      else Inl (''unsupported planner type: '' @ plannerType))"

end
