(* ===== verification/ConfigGuarantees.thy ===== *)
theory ConfigGuarantees
  imports Config PlannerRuns
begin

section \<open>Guarantees of the configuration\<close>

text \<open>
  What the settings are for every environment: the variables of the process come before the file, and no text in the environment makes
  a setting the planner cannot work with.
\<close>

subsection \<open>The file does not overrule the environment\<close>

text \<open>The file that is read: the first one from the working directory upwards that can be opened.\<close>

definition nearest_env :: "(string \<Rightarrow> string option) \<Rightarrow> string list option \<Rightarrow> string" where
  "nearest_env open_file cwd =
     (case cwd of None \<Rightarrow> []
      | Some dir \<Rightarrow> (case List.map_filter (\<lambda>d. open_file (env_path d)) (rev (suffixes dir)) of [] \<Rightarrow> [] | contents # _ \<Rightarrow> contents))"

text \<open>The first value, not empty and free of NUL, that the lines give a name.\<close>

fun first_value :: "string \<Rightarrow> (string \<times> string) list \<Rightarrow> string" where
  "first_value key [] = []"
| "first_value key ((k, v) # kvs) =
     (if k = key \<and> v \<noteq> [] \<and> char_of (0 :: nat) \<notin> set k \<union> set v then v else first_value key kvs)"

lemma env_line_value:
  "env_line line getenv key =
     (if getenv key \<noteq> [] then getenv key
      else first_value key (case parseEnvLine line of None \<Rightarrow> [] | Some kv \<Rightarrow> [kv]))"
  by (auto simp: env_line_def Setenv_def split: option.split)

lemma fold_env_lines:
  "fold env_line lines getenv key =
     (if getenv key \<noteq> [] then getenv key else first_value key (List.map_filter parseEnvLine lines))"
proof (induction lines arbitrary: getenv)
  case (Cons line lines)
  then show ?case
    by (auto simp: map_filter_simps env_line_value split: option.split)
qed (simp add: map_filter_simps)

lemma search_env_nearest:
  "search_env open_file dir getenv = fold env_line (scan_lines (nearest_env open_file (Some dir))) getenv"
proof (induction dir)
  case Nil
  then show ?case
    by (subst search_env.simps) (simp add: nearest_env_def map_filter_simps scan_lines_def split: option.split)
next
  case (Cons d dir)
  then show ?case
    by (subst search_env.simps) (simp add: nearest_env_def map_filter_simps split: option.split)
qed

text \<open>
  Reading the .env file sets exactly the variables that the environment leaves empty: every variable of the
  process keeps its value, and the others get the first value, not empty, that a line of the nearest file gives them.
\<close>

theorem environment_before_file:
  "loadDotEnv cwd open_file getenv key =
     (if getenv key \<noteq> [] then getenv key
      else first_value key (List.map_filter parseEnvLine (scan_lines (nearest_env open_file cwd))))"
proof (cases cwd)
  case None
  then show ?thesis by (simp add: loadDotEnv_def nearest_env_def scan_lines_def map_filter_simps)
next
  case (Some dir)
  then show ?thesis by (simp add: loadDotEnv_def search_env_nearest fold_env_lines)
qed

subsection \<open>Settings the planner can work with\<close>

lemma envOrDefault_ne: "d \<noteq> [] \<Longrightarrow> envOrDefault getenv key d \<noteq> []"
  by (simp add: envOrDefault_def Let_def)

lemma Atoi_bounds: "Atoi s = Some v \<Longrightarrow> - (2 ^ 63) \<le> v \<and> v < 2 ^ 63"
  by (simp add: Atoi_def Let_def split: if_splits prod.splits list.splits)

lemma int_setting_bounds:
  "least \<le> d \<Longrightarrow> d < 2 ^ 63 \<Longrightarrow> least \<le> int_setting least raw d \<and> int_setting least raw d < 2 ^ 63"
  by (auto simp: int_setting_def Let_def dest: Atoi_bounds split: option.split)

lemma default_settings:
  "defaultLLMModel \<noteq> []" "defaultLLMQuickModel \<noteq> []" "defaultLLMExpertModel \<noteq> []" "defaultLLMProvider \<noteq> []"
  "defaultAMapBaseURL \<noteq> []" "0 \<le> defaultLLMRetries" "defaultLLMRetries < 2 ^ 63"
  "1 \<le> defaultExternalAPIConcurrency" "defaultExternalAPIConcurrency < 2 ^ 63" "1 \<le> defaultExternalAPIQPS" "defaultExternalAPIQPS < 2 ^ 63"
  by (simp_all add: defaultLLMModel_def defaultLLMQuickModel_def defaultLLMExpertModel_def defaultLLMProvider_def
      defaultAMapBaseURL_def defaultLLMRetries_def defaultExternalAPIConcurrency_def defaultExternalAPIQPS_def)

definition model_settings_ok :: "LLMConfig \<Rightarrow> bool" where
  "model_settings_ok cfg \<longleftrightarrow>
     lc_Provider cfg \<noteq> [] \<and> lc_Model cfg \<noteq> [] \<and> lc_QuickModel cfg \<noteq> [] \<and> lc_ExpertModel cfg \<noteq> []
     \<and> 0 \<le> lc_MaxRetries cfg \<and> lc_MaxRetries cfg < 2 ^ 63"

definition tool_settings_ok :: "ToolConfig \<Rightarrow> bool" where
  "tool_settings_ok cfg \<longleftrightarrow>
     tg_Mode cfg \<in> {''mock'', ''real''} \<and> tg_AMapBaseURL cfg \<noteq> [] \<and> tg_WeatherBaseURL cfg \<noteq> []
     \<and> (tg_WeatherAPIKey cfg = [] \<longrightarrow> tg_AMapAPIKey cfg = [])
     \<and> 1 \<le> tg_ExternalAPIConcurrency cfg \<and> tg_ExternalAPIConcurrency cfg < 2 ^ 63
     \<and> 1 \<le> tg_ExternalAPIQPS cfg \<and> tg_ExternalAPIQPS cfg < 2 ^ 63"

lemma model_settings: "model_settings_ok (loadLLMConfigFromEnv getenv)"
  using int_setting_bounds [OF default_settings(6,7)]
  by (auto simp: model_settings_ok_def loadLLMConfigFromEnv_def Let_def envOrDefault_ne default_settings)

lemma tool_settings: "tool_settings_ok (loadToolConfigFromEnv getenv)"
  using int_setting_bounds [OF default_settings(8,9)] int_setting_bounds [OF default_settings(10,11)]
  by (auto simp: tool_settings_ok_def loadToolConfigFromEnv_def Let_def envOrDefault_ne default_settings defaultToolMode_def)

text \<open>A timeout is positive, except that a number of seconds may not fit in nanoseconds.\<close>

definition timeout_ok :: "string \<Rightarrow> duration \<Rightarrow> bool" where
  "timeout_ok raw t \<longleftrightarrow> 0 < t \<or> (case Atoi (TrimSpace raw) of Some n \<Rightarrow> 2 ^ 63 \<le> n * second | None \<Rightarrow> False)"

lemma timeout_setting_ok: "0 < d \<Longrightarrow> timeout_ok raw (timeout_setting raw d)"
proof -
  assume d: "0 < d"
  have "timeout_ok raw (case Atoi (TrimSpace raw) of Some seconds \<Rightarrow> if 0 < seconds then wrap64 (seconds * second) else d | None \<Rightarrow> d)"
  proof (cases "Atoi (TrimSpace raw)")
    case (Some n)
    have "0 < n * second" if "0 < n" using that by (simp add: second_def millisecond_def)
    then show ?thesis using d Some by (auto simp: timeout_ok_def wrap64_id not_le)
  qed (simp add: timeout_ok_def d)
  then show ?thesis using d unfolding timeout_setting_def Let_def
    by (auto simp: timeout_ok_def split: option.split)
qed

text \<open>
  For every environment the settings are ones the planner can work with: a provider and model names, at
  least no retries, mock or real tools with an address each, a key for the weather whenever there is one for the map, at
  least one call at a time and one per second, every number a 64-bit one, and positive timeouts, unless a number of seconds too large for
  nanoseconds was asked for.
\<close>

theorem settings_usable:
  "model_settings_ok (loadLLMConfigFromEnv getenv) \<and> tool_settings_ok (loadToolConfigFromEnv getenv)
   \<and> timeout_ok (getenv ''TRAVEL_AGENT_LLM_TIMEOUT'') (lc_Timeout (loadLLMConfigFromEnv getenv))
   \<and> timeout_ok (getenv ''TRAVEL_AGENT_EXTERNAL_API_TIMEOUT'') (tg_ExternalAPITimeout (loadToolConfigFromEnv getenv))"
proof -
  have "0 < defaultLLMTimeout" "0 < defaultExternalAPITimeout"
    by (simp_all add: defaultLLMTimeout_def defaultExternalAPITimeout_def second_def millisecond_def)
  then show ?thesis using timeout_setting_ok model_settings tool_settings
    by (simp add: loadLLMConfigFromEnv_def loadToolConfigFromEnv_def Let_def)
qed

text \<open>A number of seconds that does not fit becomes a negative timeout.\<close>

lemma timeout_overflow: "timeout_setting ''9300000000'' defaultLLMTimeout < 0"
proof -
  have "leading_int 0 ''9300000000'' = Some (9300000000, [])" by code_simp
  then have "duration_part ''9300000000'' = None" by (simp add: duration_part_def)
  then have "ParseDuration ''9300000000'' = None" by (simp add: ParseDuration_def duration_sum.simps)
  moreover have "TrimSpace ''9300000000'' = ''9300000000''" "Atoi ''9300000000'' = Some 9300000000" by code_simp+
  ultimately show ?thesis by (simp add: timeout_setting_def duration_defs wrap64_def)
qed

text \<open>An explicit model is used for the expert mode as well.\<close>

lemma explicit_model_is_expert:
  "TrimSpace (getenv ''TRAVEL_AGENT_LLM_MODEL'') \<noteq> [] \<Longrightarrow> TrimSpace (getenv ''TRAVEL_AGENT_LLM_MODEL_EXPERT'') = [] \<Longrightarrow>
   lc_ExpertModel (loadLLMConfigFromEnv getenv) = TrimSpace (getenv ''TRAVEL_AGENT_LLM_MODEL'')"
  by (simp add: loadLLMConfigFromEnv_def Let_def)

end
