(* ===== verification/MapGuarantees.thy ===== *)
theory MapGuarantees
  imports RealTools PlannerGuarantees
begin

section \<open>What holds of the map tools\<close>

text \<open>
  Whatever the map service answers, a tool returns data the planner can use or an error; the service receives the parameters as they were
  given; and what a failing transport says reaches the warnings of a plan.
\<close>

subsection \<open>The parameters arrive\<close>

text \<open>\<open>url.QueryUnescape\<close> and the splitting of a query, as the server reads it.\<close>

definition hex_nibble :: "char \<Rightarrow> nat option" where
  "hex_nibble c = (let n = of_char c :: nat in if 48 \<le> n \<and> n \<le> 57 then Some (n - 48) else if 65 \<le> n \<and> n \<le> 70 then Some (n - 55) else None)"

fun QueryUnescape :: "string \<Rightarrow> string option" where
  "QueryUnescape [] = Some []"
| "QueryUnescape (c # cs) =
     (if c = CHR ''%'' then
        (case cs of
           a # b # r \<Rightarrow> (case (hex_nibble a, hex_nibble b, QueryUnescape r) of
               (Some x, Some y, Some s) \<Rightarrow> Some (char_of (16 * x + y) # s) | _ \<Rightarrow> None)
         | _ \<Rightarrow> None)
      else map_option (Cons (if c = CHR ''+'' then CHR '' '' else c)) (QueryUnescape cs))"

definition parse_pair :: "string \<Rightarrow> (string \<times> string) option" where
  "parse_pair p =
     (case (QueryUnescape (takeWhile (\<lambda>c. c \<noteq> CHR ''='') p), QueryUnescape (drop 1 (dropWhile (\<lambda>c. c \<noteq> CHR ''='') p))) of
        (Some k, Some v) \<Rightarrow> Some (k, v) | _ \<Rightarrow> None)"

definition ParseQuery :: "string \<Rightarrow> (string \<times> string) option list" where
  "ParseQuery s = (if s = [] then [] else map parse_pair (Split s (CHR ''&'')))"

lemma of_char_256: "of_char c < (256 :: nat)"
  using nat_of_char_less_256 [of c] by simp

lemma nibble_upper: "n < 16 \<Longrightarrow> hex_nibble (upper_hex n) = Some n"
  by (auto simp: hex_nibble_def upper_hex_def Let_def)

lemma upper_hex_plain: "n < 16 \<Longrightarrow> upper_hex n \<notin> {CHR ''&'', CHR ''='', CHR ''%''}"
proof -
  assume n: "n < 16"
  have "of_char (upper_hex n) = (if n < 10 then 48 + n else 55 + n)" using n by (simp add: upper_hex_def)
  moreover have "of_char (CHR ''&'') = (38::nat)" "of_char (CHR ''='') = (61::nat)" "of_char (CHR ''%'') = (37::nat)" by simp_all
  ultimately show ?thesis using n by (auto split: if_splits)
qed

lemma escape_byte_plain: "CHR ''&'' \<notin> set (escape_byte c)" "CHR ''='' \<notin> set (escape_byte c)"
proof -
  have n: "of_char c div 16 < (16 :: nat)" "of_char c mod 16 < (16 :: nat)"
    by (simp_all add: less_mult_imp_div_less of_char_256)
  have "\<not> unreserved (CHR ''&'')" "\<not> unreserved (CHR ''='')" by (simp_all add: unreserved_def)
  then show "CHR ''&'' \<notin> set (escape_byte c)" "CHR ''='' \<notin> set (escape_byte c)"
    using upper_hex_plain [OF n(1)] upper_hex_plain [OF n(2)] unfolding escape_byte_def Let_def by auto
qed

lemma escape_plain: "CHR ''&'' \<notin> set (QueryEscape s)" "CHR ''='' \<notin> set (QueryEscape s)"
  using escape_byte_plain by (auto simp: QueryEscape_def)

lemma unescape_byte: "QueryUnescape (escape_byte c @ r) = map_option (Cons c) (QueryUnescape r)"
proof (cases "unreserved c")
  case True
  moreover have "\<not> unreserved (CHR ''%'')" "\<not> unreserved (CHR ''+'')" by (simp_all add: unreserved_def)
  ultimately have "c \<noteq> CHR ''%''" "c \<noteq> CHR ''+''" by blast+
  then show ?thesis using True by (simp add: escape_byte_def)
next
  case False
  have n: "of_char c div 16 < (16 :: nat)" "of_char c mod 16 < (16 :: nat)"
    by (simp_all add: less_mult_imp_div_less of_char_256)
  have "16 * (of_char c div 16) + of_char c mod 16 = (of_char c :: nat)" by simp
  then show ?thesis using False n by (auto simp: escape_byte_def Let_def nibble_upper split: option.split)
qed

lemma unescape_escape: "QueryUnescape (QueryEscape s) = Some s"
  by (induction s) (simp_all add: QueryEscape_def unescape_byte)

lemma parse_pair_encoded: "parse_pair (QueryEscape k @ ''='' @ QueryEscape v) = Some (k, v)"
proof -
  have "takeWhile (\<lambda>c. c \<noteq> CHR ''='') (QueryEscape k @ ''='' @ QueryEscape v) = QueryEscape k"
    using escape_plain(2) [of k] by (subst takeWhile_append2) auto
  moreover have "dropWhile (\<lambda>c. c \<noteq> CHR ''='') (QueryEscape k @ ''='' @ QueryEscape v) = ''='' @ QueryEscape v"
    using escape_plain(2) [of k] by (subst dropWhile_append2) auto
  ultimately show ?thesis by (simp add: parse_pair_def unescape_escape)
qed

lemma Split_plain: "c \<notin> set s \<Longrightarrow> Split s c = [s]"
  by (induction s) auto

lemma Split_append: "c \<notin> set s \<Longrightarrow> Split (s @ c # t) c = s # Split t c"
  by (induction s) auto

lemma Split_Join: "ps \<noteq> [] \<Longrightarrow> list_all (\<lambda>p. c \<notin> set p) ps \<Longrightarrow> Split (Join ps [c]) c = ps"
  by (induction ps rule: induct_list012) (auto simp: Split_plain Split_append)

lemma encode_parse: "ParseQuery (encode_values vs) = map Some (sort_key fst vs)"
proof (cases "vs = []")
  case True
  then show ?thesis by (simp add: ParseQuery_def encode_values_def)
next
  case False
  define ps where "ps = map (\<lambda>(k, v). QueryEscape k @ ''='' @ QueryEscape v) (sort_key fst vs)"
  have ne: "sort_key fst vs \<noteq> []" using False by (metis length_0_conv length_sort)
  then have "ps \<noteq> []" "list_all (\<lambda>p. CHR ''&'' \<notin> set p) ps"
    using escape_plain(1) by (auto simp: ps_def list_all_iff)
  then have s: "Split (encode_values vs) (CHR ''&'') = ps" unfolding encode_values_def ps_def [symmetric] by (rule Split_Join)
  have "encode_values vs \<noteq> []"
  proof
    assume "encode_values vs = []"
    then have "ps = [[]]" using s by simp
    then show False using ne by (cases "sort_key fst vs") (auto simp: ps_def)
  qed
  then show ?thesis by (simp add: ParseQuery_def s) (auto simp: ps_def parse_pair_encoded [simplified])
qed

lemma map_of_sorted: "distinct (map fst vs) \<Longrightarrow> map_of (sort_key fst vs) = map_of vs"
  by (rule map_of_eqI) (auto simp: distinct_map map_of_eq_Some_iff)

lemma set_value_distinct: "distinct (map fst vs) \<Longrightarrow> distinct (map fst (set_value kv vs))"
  by (auto simp: set_value_def distinct_map inj_on_def)

lemma set_value_map: "distinct (map fst vs) \<Longrightarrow> map_of (set_value kv vs) = (map_of vs)(fst kv \<mapsto> snd kv)"
proof (rule ext)
  fix k assume "distinct (map fst vs)"
  have "map_of (filter (\<lambda>p. fst p \<noteq> a) vs) k = (if k = a then None else map_of vs k)" for a
    by (induction vs) auto
  then show "map_of (set_value kv vs) k = ((map_of vs)(fst kv \<mapsto> snd kv)) k"
    by (auto simp: set_value_def map_add_def split: option.split)
qed

lemma fold_set_value:
  "distinct (map fst vs) \<Longrightarrow> distinct (map fst (fold set_value q vs)) \<and> map_of (fold set_value q vs) = map_of vs ++ map_of (rev q)"
proof (induction q arbitrary: vs)
  case (Cons kv q)
  have "(map_of vs)(fst kv \<mapsto> snd kv) ++ map_of (rev q) = map_of vs ++ map_of (rev (kv # q))"
    by (simp add: map_add_upd_left [symmetric] fun_upd_def map_add_def split: option.split) (auto split: option.splits prod.splits)
  with Cons.IH [OF set_value_distinct [OF Cons.prems, of kv]] show ?case
    by (simp only: fold_simps set_value_map [OF Cons.prems] simp_thms)
qed simp


subsection \<open>What the tools answer\<close>

definition real_poi_ok :: "string \<Rightarrow> POIInfo \<Rightarrow> bool" where
  "real_poi_ok city p \<longleftrightarrow>
     po_Name p \<noteq> [] \<and> po_City p = city \<and> po_Category p \<noteq> [] \<and> po_Address p \<noteq> []
     \<and> po_SuggestedDurationMinutes p \<in> {90, 120, 150} \<and> cost_wf (po_Cost p)
     \<and> po_EstimatedCost p = (case ci_Amount (po_Cost p) of None \<Rightarrow> f_zero | Some a \<Rightarrow> a)"

definition real_weather_ok :: "WeatherInfo \<Rightarrow> bool" where
  "real_weather_ok w \<longleftrightarrow> we_Condition w \<noteq> [] \<and> we_Temperature w \<noteq> [] \<and> we_Suggestion w \<noteq> []"

definition real_route_ok :: "string \<Rightarrow> RouteInfo \<Rightarrow> bool" where
  "real_route_ok mode r \<longleftrightarrow> 1 \<le> ro_DurationMinutes r \<and> ro_Mode r = mode \<and> cost_wf (ro_Cost r)"

lemma poiCategory_ne: "poiCategory i \<noteq> []"
proof -
  have "i mod 5 \<in> {0, 1, 2, 3, 4}" by (auto simp: mod_Suc)
  then show ?thesis by (auto simp: poiCategory_def)
qed

lemma mod3_cases: "i mod 3 \<in> {0, 1, 2 :: nat}"
  by (auto simp: mod_Suc)

lemma real_poi_good: "ap_Name poi \<noteq> [] \<Longrightarrow> real_poi_ok city (real_poi city (i, poi))"
  using mod3_cases [of i]
  by (auto simp: real_poi_ok_def real_poi_def Let_def poiCategory_ne legacyCost_def poi_metadata_def split: option.split)

lemma real_weather_good: "real_weather_ok (real_weather casts day)"
  by (simp add: real_weather_ok_def real_weather_def Let_def)

lemma cost_wf_route [simp]: "cost_wf (routeCost mode path taxi tolls)" "cost_wf (transitCost cost)"
  by (auto simp: routeCost_def transitCost_def split: option.split)

lemma maxInt_ge: "b \<le> maxInt a b" by (simp add: maxInt_def)

lemma real_route_good:
  assumes "querySegment service decode client n mode p q = Inr r"
  shows "real_route_ok mode r \<and> ro_From r = po_Name p \<and> ro_To r = po_Name q"
  using assms maxInt_ge
  by (auto simp: querySegment_def queryTransitSegment_def Let_def real_route_def real_route_ok_def split: if_splits sum.splits list.splits)

lemma query_segments_good:
  "query_segments (\<lambda>n. querySegment service decode client n mode) n pois = Inr rs \<Longrightarrow> pois \<noteq> [] \<Longrightarrow>
   list_all (real_route_ok mode) rs \<and> map po_Name pois = po_Name (hd pois) # map ro_To rs \<and> map ro_From rs = map po_Name (butlast pois)"
proof (induction "\<lambda>n. querySegment service decode client n mode" n pois arbitrary: rs rule: query_segments.induct)
  case (1 n p q pois)
  then obtain r rs' where r: "querySegment service decode client n mode p q = Inr r" "rs = r # rs'"
      "query_segments (\<lambda>n. querySegment service decode client n mode) (n + 1) (q # pois) = Inr rs'"
    by (auto split: if_splits sum.splits)
  moreover have "\<not> (po_Location p = [] \<or> po_Location q = [])" using 1(2) by (auto split: if_splits)
  ultimately show ?case using 1(1) real_route_good [OF r(1)] by simp
qed auto

text \<open>
  C27. Whatever the map service answers, each of the three tools gives either an error and no data, or data the planner can use. Places: at least one, each
  with a name, a category and an address, in the city asked for, with a visit of 90, 120 or 150 minutes and a well-formed cost that is also its estimate.
  Weather: exactly the days asked for, in order, each with a condition, a temperature and a suggestion. Routes: exactly the legs between the places in
  their order, each of at least a minute, in the mode asked for, with a well-formed cost.
\<close>

theorem map_tools_answer:
  "(case RealPOITool service dp client c poi_in of
      (pois, Some e) \<Rightarrow> pois = []
    | (pois, None) \<Rightarrow> pois \<noteq> [] \<and> list_all (real_poi_ok (pin_City poi_in)) pois)
   \<and> (case RealWeatherTool service dg dw client geocoder c weather_in of
        (ws, Some e) \<Rightarrow> ws = []
      | (ws, None) \<Rightarrow> map we_Day ws = [1..win_Days weather_in] \<and> list_all real_weather_ok ws)
   \<and> (case RealRouteTool service dr client c route_in of
        (rs, Some e) \<Rightarrow> rs = []
      | (rs, None) \<Rightarrow> map po_Name (rin_POIs route_in) = po_Name (hd (rin_POIs route_in)) # map ro_To rs
          \<and> map ro_From rs = map po_Name (butlast (rin_POIs route_in))
          \<and> list_all (real_route_ok (if rin_Mode route_in = [] then ''walk_taxi'' else rin_Mode route_in)) rs)"
proof (intro conjI)
  show "case RealPOITool service dp client c poi_in of
      (pois, Some e) \<Rightarrow> pois = [] | (pois, None) \<Rightarrow> pois \<noteq> [] \<and> list_all (real_poi_ok (pin_City poi_in)) pois"
    by (auto simp: RealPOITool_def Let_def list_all_iff real_poi_good split: option.split sum.split)
  have day: "we_Day (real_weather casts d) = d" for casts d by (simp add: real_weather_def Let_def)
  show "case RealWeatherTool service dg dw client geocoder c weather_in of
        (ws, Some e) \<Rightarrow> ws = [] | (ws, None) \<Rightarrow> map we_Day ws = [1..win_Days weather_in] \<and> list_all real_weather_ok ws"
    by (auto simp: RealWeatherTool_def Let_def list_all_iff real_weather_good day comp_def split: option.split sum.split list.split)
  show "case RealRouteTool service dr client c route_in of
        (rs, Some e) \<Rightarrow> rs = []
      | (rs, None) \<Rightarrow> map po_Name (rin_POIs route_in) = po_Name (hd (rin_POIs route_in)) # map ro_To rs
          \<and> map ro_From rs = map po_Name (butlast (rin_POIs route_in))
          \<and> list_all (real_route_ok (if rin_Mode route_in = [] then ''walk_taxi'' else rin_Mode route_in)) rs"
  proof (cases "pc_Err c = None \<and> rin_POIs route_in \<noteq> []")
    case True
    define mode where "mode = (if rin_Mode route_in = [] then ''walk_taxi'' else rin_Mode route_in)"
    from True show ?thesis
      using query_segments_good [of service dr client mode 0 "rin_POIs route_in"]
      by (cases "query_segments (\<lambda>n. querySegment service dr client n mode) 0 (rin_POIs route_in)")
        (simp_all add: RealRouteTool_def Let_def mode_def [symmetric])
  qed (auto simp: RealRouteTool_def split: option.split)
qed

subsection \<open>What a failing transport says\<close>

lemma Contains_Join: "p \<in> set ps \<Longrightarrow> Contains (Join ps sep) p"
proof (induction ps rule: induct_list012)
  case (3 x y zs)
  then show ?case by (cases "p = x") (auto intro: Contains_append1 Contains_append2)
qed auto

lemma url_shows_key:
  assumes "list_all (\<lambda>(k, v). k \<noteq> ''key'') query"
  shows "Contains (amap_url client path query) (''key='' @ QueryEscape (ac_apiKey client))"
proof -
  define q where "q = filter (\<lambda>(k, v). TrimSpace v \<noteq> []) query"
  have d: "map_of (amap_query client query) = map_of [(''key'', ac_apiKey client), (''output'', ''json'')] ++ map_of (rev q)"
    unfolding amap_query_def q_def [symmetric] using fold_set_value [of "[(''key'', ac_apiKey client), (''output'', ''json'')]" q] by simp
  have "map_of (rev q) ''key'' = None"
    using assms by (auto simp: q_def list_all_iff map_of_eq_None_iff)
  then have "map_of (amap_query client query) ''key'' = Some (ac_apiKey client)" by (simp add: d map_add_def)
  then have "(''key'', ac_apiKey client) \<in> set (sort_key fst (amap_query client query))" by (simp add: map_of_SomeD)
  then have "QueryEscape ''key'' @ ''='' @ QueryEscape (ac_apiKey client)
      \<in> set (map (\<lambda>(k, v). QueryEscape k @ ''='' @ QueryEscape v) (sort_key fst (amap_query client query)))"
    by force
  moreover have "QueryEscape ''key'' = ''key''" by code_simp
  ultimately have "Contains (encode_values (amap_query client query)) (''key='' @ QueryEscape (ac_apiKey client))"
    unfolding encode_values_def by (metis Contains_Join append_Cons append_Nil)
  then show ?thesis unfolding amap_url_def by (intro Contains_append2)
qed

lemma fallback_text_shows: "Contains why s \<Longrightarrow> TrimSpace why \<noteq> [] \<Longrightarrow>
   Contains (tool_err_text (FallbackErr (newToolFallbackError tool stage why))) s"
  unfolding tool_err_text.simps ToolFallbackError_text_def
  by (intro Contains_append2) (simp add: newToolFallbackError_def fallbackValue_def)

text \<open>
  If the transport fails, and its error names the URL it could not get (as every error of \<open>http.Client\<close> does), the API key of the map service ends up in the
  warnings of the planning state, which become warnings of the plan the user sees: the tool falls back to the mock places and quotes the error.
\<close>

theorem transport_error_shows_key:
  assumes names: "\<And>url. Contains (go_error url) url"
    and failing: "as_gone service 0 = None" "as_ask service 0 = (\<lambda>url. NoAnswer (go_error url))"
    and client: "ac_baseURL client \<noteq> []" "ac_apiKey client \<noteq> []"
    and run: "en_Err e = None" "\<not> pc_TestMode c" "st_NormalizedDestination s \<noteq> []"
  shows "case searchPOIsToolNode (ts_POI (defaultToolSet True True (RealPOITool service dp (Some client)) weather route)) c e s of
      (_, Inr s') \<Rightarrow> Contains (last (st_Warnings s')) (''key='' @ QueryEscape (ac_apiKey client))
    | (_, Inl err) \<Rightarrow> False"
proof -
  define inp where "inp = \<lparr>pin_City = st_NormalizedDestination s, pin_Interests = st_Interests s\<rparr>"
  define url where "url = amap_url client ''/place/text''
     [(''city'', pin_City inp), (''citylimit'', ''true''), (''keywords'', case pin_Interests inp of [] \<Rightarrow> utf8 [0x666F, 0x70B9] | i # is \<Rightarrow> i),
      (''extensions'', ''all''), (''offset'', ''10''), (''page'', ''1'')]"
  define why where "why = ''call amap api: '' @ go_error url"
  have city: "pin_City inp \<noteq> []" using run(3) by (simp add: inp_def)
  have fails: "RealPOITool service dp (Some client) (ctx_in c e) inp = ([], Some (ToolErr why))"
    using city failing client run(1) by (simp add: RealPOITool_def ctx_in_def Let_def amap_get_def why_def url_def del: utf8_simps)
  define pois where "pois = map (\<lambda>(i, name). mock_poi (pin_City inp) i name) (enumerate 0 (cityPOINames (pin_City inp)))"
  have mock: "MockPOITool (ctx_in c e) inp = (pois, None)" "0 < length pois"
    using city run(1) city_names [of "pin_City inp"] by (simp_all add: MockPOITool_def ctx_in_def pois_def)
  have tool: "ts_POI (defaultToolSet True True (RealPOITool service dp (Some client)) weather route) (ctx_in c e) inp
      = (pois, Some (FallbackErr (newToolFallbackError ''poi'' [] why)))"
    using run(2) by (simp add: defaultToolSet_def Let_def contextToolSet_def context_tool_def ctx_in_def fallback_tool_def mockToolSet_def
        fails [unfolded ctx_in_def] mock [unfolded ctx_in_def])
  have "plain_start why" by (simp add: why_def plain_start_def)
  then have "TrimSpace why \<noteq> []" by (rule plain_start_nonblank)
  moreover have "Contains why (''key='' @ QueryEscape (ac_apiKey client))"
    unfolding why_def url_def by (intro Contains_append2 Contains_trans [OF names] url_shows_key) simp
  ultimately have "Contains (tool_err_text (FallbackErr (newToolFallbackError ''poi'' [] why))) (''key='' @ QueryEscape (ac_apiKey client))"
    by (rule fallback_text_shows [rotated])
  then show ?thesis
    using tool mock(2) by (simp add: searchPOIsToolNode_def inp_def traced_ok_def appendTrace_def Let_def)
qed

text \<open>A key, a city, and the error text of Go's client.\<close>

definition leak_client :: amapClient where "leak_client = newAMapClient ''https://a.b/v3/'' '' k/1 '' 0"

theorem transport_error_shows_key_witness:
  "case searchPOIsToolNode (ts_POI (defaultToolSet True True
        (RealPOITool \<lparr>as_gone = (\<lambda>n. None), as_ask = (\<lambda>n url. NoAnswer (''Get '' @ url @ '': EOF''))\<rparr> (\<lambda>s. Inl s) (Some leak_client))
        MockWeatherTool MockRouteTool))
        \<lparr>pc_Err = None, pc_TestMode = False, pc_AgentMode = ''quick''\<rparr> \<lparr>en_Err = None, en_Duration = 0, en_Traced = 0, en_Business = \<lambda>i. 0\<rparr>
        ((initial_state sample_request)\<lparr>st_NormalizedDestination := ''X''\<rparr>) of
      (_, Inr s') \<Rightarrow> Contains (last (st_Warnings s')) (''key='' @ QueryEscape (ac_apiKey leak_client))
    | (_, Inl err) \<Rightarrow> False"
proof (rule transport_error_shows_key [where go_error = "\<lambda>url. ''Get '' @ url @ '': EOF''"])
  show "Contains (''Get '' @ url @ '': EOF'') url" for url by (intro Contains_append2 Contains_append1 Contains_refl)
  have "ac_baseURL leak_client = ''https://a.b/v3'' \<and> ac_apiKey leak_client = ''k/1''" by code_simp
  then show "ac_baseURL leak_client \<noteq> []" "ac_apiKey leak_client \<noteq> []" by simp_all
qed simp_all

end
