(* ===== verification/ApiLimiter.thy ===== *)
theory ApiLimiter
  imports RealTools
begin

section \<open>The limiter of the map service\<close>

text \<open>
  internal/agent/eino/api\_client.go, \<open>externalAPILimiter\<close>: every call first reserves a time, an interval after the one before it, waits for
  it, and then waits for one of the slots. The goroutines that call are numbered; an event is one atomic step of one of them, or the clock.
\<close>

record limiter =
  li_capacity :: nat
  li_interval :: duration
  li_next :: time
  li_used :: nat

definition newExternalAPILimiter :: "int \<Rightarrow> int \<Rightarrow> limiter" where
  "newExternalAPILimiter concurrency qps =
     (let concurrency = (if concurrency \<le> 0 then 2 else concurrency); qps = (if qps \<le> 0 then 2 else qps)
      in \<lparr>li_capacity = nat concurrency, li_interval = go_div second qps, li_next = 0, li_used = 0\<rparr>)"

text \<open>The locked part of \<open>wait\<close>: the time at which this caller may send.\<close>

definition reserve :: "time \<Rightarrow> limiter \<Rightarrow> time \<times> limiter" where
  "reserve now l = (let sendAt = (if now < li_next l then li_next l else now) in (sendAt, l\<lparr>li_next := sendAt + li_interval l\<rparr>))"

definition take_slot :: "limiter \<Rightarrow> limiter option" where
  "take_slot l = (if li_used l < li_capacity l then Some (l\<lparr>li_used := li_used l + 1\<rparr>) else None)"

definition release_slot :: "limiter \<Rightarrow> limiter" where
  "release_slot l = l\<lparr>li_used := li_used l - 1\<rparr>"

text \<open>Where a caller is in \<open>wait\<close>, with the time it reserved.\<close>

datatype phase = Away | Pacing time | Queued time | Calling time

record api_world =
  aw_now :: time
  aw_limiter :: limiter
  aw_phase :: "nat \<Rightarrow> phase"
  aw_slots :: "time list"
  aw_starts :: "(time \<times> time) list"

text \<open>
  The times reserved so far, the latest first, and the calls that have started: the time each had reserved and the time it began.
\<close>

datatype api_event = Tick time | Call nat | Due nat | Start nat | Finish nat | Cancel nat

fun api_step :: "api_event \<Rightarrow> api_world \<Rightarrow> api_world option" where
  "api_step (Tick t) w = (if aw_now w \<le> t then Some (w\<lparr>aw_now := t\<rparr>) else None)"
| "api_step (Call k) w =
     (if aw_phase w k \<noteq> Away then None
      else if 0 < li_interval (aw_limiter w)
      then (let (sendAt, l) = reserve (aw_now w) (aw_limiter w)
            in Some (w\<lparr>aw_limiter := l, aw_phase := (aw_phase w)(k := Pacing sendAt), aw_slots := sendAt # aw_slots w\<rparr>))
      else Some (w\<lparr>aw_phase := (aw_phase w)(k := Queued (aw_now w))\<rparr>))"
| "api_step (Due k) w =
     (case aw_phase w k of
        Pacing t \<Rightarrow> if t \<le> aw_now w then Some (w\<lparr>aw_phase := (aw_phase w)(k := Queued t)\<rparr>) else None
      | _ \<Rightarrow> None)"
| "api_step (Start k) w =
     (case aw_phase w k of
        Queued t \<Rightarrow>
          (case take_slot (aw_limiter w) of
             None \<Rightarrow> None
           | Some l \<Rightarrow> Some (w\<lparr>aw_limiter := l, aw_phase := (aw_phase w)(k := Calling t), aw_starts := (t, aw_now w) # aw_starts w\<rparr>))
      | _ \<Rightarrow> None)"
| "api_step (Finish k) w =
     (case aw_phase w k of
        Calling t \<Rightarrow> Some (w\<lparr>aw_limiter := release_slot (aw_limiter w), aw_phase := (aw_phase w)(k := Away)\<rparr>)
      | _ \<Rightarrow> None)"
| "api_step (Cancel k) w =
     (case aw_phase w k of
        Pacing t \<Rightarrow> Some (w\<lparr>aw_phase := (aw_phase w)(k := Away)\<rparr>)
      | Queued t \<Rightarrow> Some (w\<lparr>aw_phase := (aw_phase w)(k := Away)\<rparr>)
      | _ \<Rightarrow> None)"

definition api_start :: "int \<Rightarrow> int \<Rightarrow> time \<Rightarrow> api_world" where
  "api_start concurrency qps t0 =
     \<lparr>aw_now = t0, aw_limiter = newExternalAPILimiter concurrency qps, aw_phase = (\<lambda>k. Away), aw_slots = [], aw_starts = []\<rparr>"

inductive api_reach :: "int \<Rightarrow> int \<Rightarrow> time \<Rightarrow> api_world \<Rightarrow> bool" for concurrency qps t0 where
  start: "api_reach concurrency qps t0 (api_start concurrency qps t0)"
| step: "api_reach concurrency qps t0 w \<Longrightarrow> api_step e w = Some w' \<Longrightarrow> api_reach concurrency qps t0 w'"

subsection \<open>The slots\<close>

fun calling :: "phase \<Rightarrow> bool" where
  "calling (Calling t) = True"
| "calling p = False"

definition callers :: "api_world \<Rightarrow> nat set" where
  "callers w = {k. calling (aw_phase w k)}"

definition slots_inv :: "int \<Rightarrow> int \<Rightarrow> api_world \<Rightarrow> bool" where
  "slots_inv concurrency qps w \<longleftrightarrow>
     li_capacity (aw_limiter w) = li_capacity (newExternalAPILimiter concurrency qps)
     \<and> li_interval (aw_limiter w) = li_interval (newExternalAPILimiter concurrency qps)
     \<and> finite (callers w) \<and> card (callers w) = li_used (aw_limiter w) \<and> li_used (aw_limiter w) \<le> li_capacity (aw_limiter w)"

lemma callers_phase: "aw_phase w' = (aw_phase w)(k := p) \<Longrightarrow>
   callers w' = (if calling p then insert k (callers w) else callers w - {k})"
  by (auto simp: callers_def)

lemma callers_cong: "aw_phase w' = aw_phase w \<Longrightarrow> callers w' = callers w"
  by (simp add: callers_def)

lemma callers_iff: "k \<in> callers w \<longleftrightarrow> calling (aw_phase w k)"
  by (simp add: callers_def)

lemma slots_step:
  assumes "slots_inv concurrency qps w" "api_step e w = Some w'"
  shows "slots_inv concurrency qps w'"
proof (cases e)
  case (Tick t)
  then show ?thesis using assms callers_cong [of w' w] by (auto simp: slots_inv_def split: if_splits)
next
  case (Call k)
  then show ?thesis using assms
    by (auto simp: slots_inv_def reserve_def Let_def callers_phase [of _ w k] callers_iff split: if_splits)
next
  case (Due k)
  then show ?thesis using assms by (auto simp: slots_inv_def callers_phase [of _ w k] callers_iff split: if_splits phase.splits)
next
  case (Start k)
  then show ?thesis using assms
    by (auto simp: slots_inv_def take_slot_def callers_phase [of _ w k] callers_iff split: if_splits phase.splits)
next
  case (Finish k)
  then show ?thesis using assms
    by (auto simp: slots_inv_def release_slot_def callers_phase [of _ w k] callers_iff split: if_splits phase.splits)
next
  case (Cancel k)
  then show ?thesis using assms by (auto simp: slots_inv_def callers_phase [of _ w k] callers_iff split: if_splits phase.splits)
qed

lemma slots_reach: "api_reach concurrency qps t0 w \<Longrightarrow> slots_inv concurrency qps w"
proof (induction rule: api_reach.induct)
  case start
  then show ?case by (simp add: slots_inv_def api_start_def callers_def newExternalAPILimiter_def Let_def)
next
  case step
  then show ?case by (blast intro: slots_step)
qed

subsection \<open>The pace\<close>

fun held :: "phase \<Rightarrow> time option" where
  "held (Pacing t) = Some t"
| "held (Queued t) = Some t"
| "held p = None"

definition spaced :: "duration \<Rightarrow> time list \<Rightarrow> bool" where
  "spaced d ts \<longleftrightarrow> sorted_wrt (\<lambda>a b. b + d \<le> a) ts"

definition times_ok :: "time \<Rightarrow> duration \<Rightarrow> time \<Rightarrow> time list \<Rightarrow> bool" where
  "times_ok t0 d next slots \<longleftrightarrow> spaced d slots \<and> (slots = [] \<or> next = hd slots + d) \<and> (\<forall>t \<in> set slots. t0 \<le> t)"

text \<open>The times that callers hold: reserved, not used by a call, each by one caller, and not before it is due.\<close>

definition holders_ok :: "time \<Rightarrow> (nat \<Rightarrow> phase) \<Rightarrow> time list \<Rightarrow> (time \<times> time) list \<Rightarrow> bool" where
  "holders_ok now ph slots starts \<longleftrightarrow>
     (\<forall>k t. held (ph k) = Some t \<longrightarrow> t \<in> set slots \<and> t \<notin> fst ` set starts)
     \<and> (\<forall>k k' t. held (ph k) = Some t \<and> held (ph k') = Some t \<longrightarrow> k = k')
     \<and> (\<forall>k t. ph k = Queued t \<longrightarrow> t \<le> now)"

definition starts_ok :: "time \<Rightarrow> time list \<Rightarrow> (time \<times> time) list \<Rightarrow> bool" where
  "starts_ok now slots starts \<longleftrightarrow>
     distinct (map fst starts) \<and> fst ` set starts \<subseteq> set slots \<and> (\<forall>sb \<in> set starts. fst sb \<le> snd sb \<and> snd sb \<le> now)"

definition pace_inv :: "time \<Rightarrow> api_world \<Rightarrow> bool" where
  "pace_inv t0 w \<longleftrightarrow> t0 \<le> aw_now w \<and> times_ok t0 (li_interval (aw_limiter w)) (li_next (aw_limiter w)) (aw_slots w)
     \<and> holders_ok (aw_now w) (aw_phase w) (aw_slots w) (aw_starts w) \<and> starts_ok (aw_now w) (aw_slots w) (aw_starts w)"

lemma holders_later: "holders_ok now ph slots starts \<Longrightarrow> now \<le> now' \<Longrightarrow> holders_ok now' ph slots starts"
  unfolding holders_ok_def by (meson order_trans)

lemma starts_later: "starts_ok now slots starts \<Longrightarrow> now \<le> now' \<Longrightarrow> starts_ok now' slots starts"
  by (auto simp: starts_ok_def intro: order_trans)

lemma holders_drop:
  assumes "holders_ok now ph slots starts" "held p = None"
  shows "holders_ok now (ph(k := p)) slots starts"
proof -
  have "p \<noteq> Queued t" for t using assms(2) by auto
  then show ?thesis using assms unfolding holders_ok_def by (auto split: if_splits)
qed

lemma holders_due:
  assumes "holders_ok now ph slots starts" "ph k = Pacing t" "t \<le> now"
  shows "holders_ok now (ph(k := Queued t)) slots starts"
proof -
  have h: "held ((ph(k := Queued t)) j) = held (ph j)" for j using assms(2) by simp
  have "u \<le> now" if "(ph(k := Queued t)) j = Queued u" for j u
    using that assms by (cases "j = k") (auto simp: holders_ok_def)
  then show ?thesis using assms(1) unfolding holders_ok_def h by blast
qed

lemma holders_new:
  assumes "holders_ok now ph slots starts" "t \<notin> set slots" "fst ` set starts \<subseteq> set slots"
  shows "holders_ok now (ph(k := Pacing t)) (t # slots) starts"
  using assms unfolding holders_ok_def by (auto split: if_splits)

lemma holders_start:
  assumes "holders_ok now ph slots starts" "ph k = Queued t"
  shows "holders_ok now (ph(k := Calling t)) slots ((t, now) # starts)"
proof -
  have "held (ph k) = Some t" using assms(2) by simp
  then show ?thesis using assms unfolding holders_ok_def by (auto split: if_splits)
qed

lemma starts_start:
  assumes "holders_ok now ph slots starts" "ph k = Queued t" "starts_ok now slots starts"
  shows "starts_ok now slots ((t, now) # starts)"
proof -
  have "held (ph k) = Some t" using assms(2) by simp
  then have "t \<in> set slots" "t \<notin> fst ` set starts" "t \<le> now" using assms(1,2) unfolding holders_ok_def by blast+
  then show ?thesis using assms(3) by (auto simp: starts_ok_def)
qed

lemma times_reserve:
  assumes "times_ok t0 d next slots" "t0 \<le> now" "0 < d"
  shows "times_ok t0 d ((if now < next then next else now) + d) ((if now < next then next else now) # slots)"
    and "(if now < next then next else now) \<notin> set slots"
proof -
  define sendAt where "sendAt = (if now < next then next else now)"
  have later: "t + d \<le> sendAt" if "t \<in> set slots" for t
  proof -
    have "t \<le> hd slots" using that assms(1,3) by (cases slots) (auto simp: times_ok_def spaced_def)
    moreover have "next = hd slots + d" using that assms(1) by (auto simp: times_ok_def)
    ultimately show ?thesis by (simp add: sendAt_def)
  qed
  then have "sendAt \<notin> set slots" using assms(3) by fastforce
  moreover have "times_ok t0 d (sendAt + d) (sendAt # slots)"
    using assms(1,2) later by (auto simp: times_ok_def spaced_def sendAt_def)
  ultimately show "times_ok t0 d ((if now < next then next else now) + d) ((if now < next then next else now) # slots)"
    "(if now < next then next else now) \<notin> set slots" by (simp_all add: sendAt_def)
qed

lemma pace_step:
  assumes inv: "pace_inv t0 w" and d: "0 < li_interval (aw_limiter w)" and s: "api_step e w = Some w'"
  shows "pace_inv t0 w'"
proof -
  have i: "t0 \<le> aw_now w" "times_ok t0 (li_interval (aw_limiter w)) (li_next (aw_limiter w)) (aw_slots w)"
    "holders_ok (aw_now w) (aw_phase w) (aw_slots w) (aw_starts w)" "starts_ok (aw_now w) (aw_slots w) (aw_starts w)"
    using inv by (simp_all add: pace_inv_def)
  have away: "holders_ok (aw_now w) ((aw_phase w)(k := Away)) (aw_slots w) (aw_starts w)" for k by (rule holders_drop [OF i(3)]) simp
  show ?thesis
  proof (cases e)
    case (Tick t)
    then show ?thesis using i s by (auto simp: pace_inv_def intro: holders_later starts_later split: if_splits)
  next
    case (Call k)
    have "fst ` set (aw_starts w) \<subseteq> set (aw_slots w)" using i(4) by (simp add: starts_ok_def)
    moreover have "starts_ok (aw_now w) (t # aw_slots w) (aw_starts w)" for t using i(4) by (auto simp: starts_ok_def)
    ultimately show ?thesis using Call i s d times_reserve [OF i(2,1) d] holders_new [OF i(3)]
      by (auto simp: pace_inv_def reserve_def Let_def simp del: fun_upd_apply split: if_split_asm)
  next
    case (Due k)
    then show ?thesis using i s by (auto simp: pace_inv_def intro: holders_due simp del: fun_upd_apply split: if_splits phase.splits)
  next
    case (Start k)
    then show ?thesis using i s
      by (auto simp: pace_inv_def take_slot_def intro: holders_start starts_start simp del: fun_upd_apply split: if_splits phase.splits)
  next
    case (Finish k)
    then show ?thesis using i s
      by (auto simp: pace_inv_def release_slot_def away simp del: fun_upd_apply split: phase.splits)
  next
    case (Cancel k)
    then show ?thesis using i s by (auto simp: pace_inv_def away simp del: fun_upd_apply split: phase.splits)
  qed
qed

lemma pace_reach:
  assumes "api_reach concurrency qps t0 w" "0 < li_interval (newExternalAPILimiter concurrency qps)"
  shows "pace_inv t0 w"
  using assms(1)
proof (induction rule: api_reach.induct)
  case start
  then show ?case by (simp add: pace_inv_def api_start_def times_ok_def holders_ok_def starts_ok_def spaced_def)
next
  case (step w e w')
  have "0 < li_interval (aw_limiter w)" using slots_reach [OF step(1)] assms(2) by (simp add: slots_inv_def)
  then show ?case using pace_step step by blast
qed

text \<open>Times an interval apart are few.\<close>

lemma spaced_count:
  "spaced d (a # ts) \<Longrightarrow> 0 < d \<Longrightarrow> \<forall>t \<in> set (a # ts). t0 \<le> t \<Longrightarrow> t0 + int (length ts) * d \<le> a"
proof (induction ts arbitrary: a)
  case (Cons b ts)
  then have "t0 + int (length ts) * d \<le> b" "b + d \<le> a" by (simp_all add: spaced_def)
  then show ?case by (simp add: distrib_right)
qed simp

lemma spaced_filter: "spaced d ts \<Longrightarrow> spaced d (filter P ts)"
  by (simp add: spaced_def sorted_wrt_filter)

text \<open>
  C28. The limiter keeps its promises on average: at any moment at most the configured number of calls is in flight, and the calls that have started
  by any time are at most one more than the intervals that have passed since the process began (\<open>qps\<close> of them in every second), whatever
  the callers do, wait for or give up.
\<close>

theorem calls_paced:
  assumes "api_reach concurrency qps t0 w"
  shows "card {k. calling (aw_phase w k)} \<le> nat (if concurrency \<le> 0 then 2 else concurrency)
    \<and> int (length (filter (\<lambda>sb. snd sb \<le> u) (aw_starts w))) * go_div second (if qps \<le> 0 then 2 else qps)
        \<le> max 0 (u - t0 + go_div second (if qps \<le> 0 then 2 else qps))"
proof
  define L where "L = newExternalAPILimiter concurrency qps"
  have inv: "slots_inv concurrency qps w" using slots_reach [OF assms] .
  have "li_capacity L = nat (if concurrency \<le> 0 then 2 else concurrency)" by (simp add: L_def newExternalAPILimiter_def Let_def)
  then show "card {k. calling (aw_phase w k)} \<le> nat (if concurrency \<le> 0 then 2 else concurrency)"
    using inv by (simp add: slots_inv_def callers_def L_def [symmetric])
  define d where "d = li_interval L"
  have d: "d = go_div second (if qps \<le> 0 then 2 else qps)" by (simp add: d_def L_def newExternalAPILimiter_def Let_def)
  have "0 \<le> d" by (simp add: d second_def millisecond_def pos_imp_zdiv_nonneg_iff)
  show "int (length (filter (\<lambda>sb. snd sb \<le> u) (aw_starts w))) * go_div second (if qps \<le> 0 then 2 else qps)
        \<le> max 0 (u - t0 + go_div second (if qps \<le> 0 then 2 else qps))"
  proof (cases "d = 0")
    case False
    with \<open>0 \<le> d\<close> have pos: "0 < d" by simp
    have di: "li_interval (aw_limiter w) = d" using inv by (simp add: slots_inv_def d_def L_def)
    have "pace_inv t0 w" using pace_reach [OF assms] pos by (simp add: d_def L_def)
    then have times: "spaced d (aw_slots w)" "\<forall>t \<in> set (aw_slots w). t0 \<le> t" and st: "starts_ok (aw_now w) (aw_slots w) (aw_starts w)"
      by (simp_all add: pace_inv_def times_ok_def di)
    define F where "F = filter (\<lambda>sb. snd sb \<le> u) (aw_starts w)"
    define S where "S = filter (\<lambda>t. t \<le> u) (aw_slots w)"
    have "distinct (map fst F)" using st unfolding F_def starts_ok_def by (metis distinct_map_filter)
    then have "length F = card (fst ` set F)" by (metis distinct_card length_map set_map)
    also have "\<dots> \<le> card (set S)"
      using st by (intro card_mono) (auto simp: S_def F_def starts_ok_def intro: order_trans)
    also have "\<dots> \<le> length S" by (rule card_length)
    finally have le: "length F \<le> length S" .
    have "int (length S) * d \<le> max 0 (u - t0 + d)"
    proof (cases S)
      case (Cons a ts)
      have "spaced d (a # ts)" "\<forall>t \<in> set (a # ts). t0 \<le> t" "a \<le> u"
        using times spaced_filter [OF times(1), of "\<lambda>t. t \<le> u"] Cons [symmetric] filter_set [of "\<lambda>t. t \<le> u" "aw_slots w"]
        by (auto simp: S_def) (metis list.set_intros(1) mem_Collect_eq set_filter)+
      then have "t0 + int (length ts) * d \<le> a" "a \<le> u" using spaced_count [OF _ pos] by blast+
      then show ?thesis by (simp add: Cons distrib_right)
    qed simp
    moreover have "int (length F) * d \<le> int (length S) * d" using le pos by simp
    ultimately show ?thesis by (simp add: F_def d)
  qed (simp add: d)
qed

subsection \<open>A run\<close>

fun api_run :: "api_event list \<Rightarrow> api_world \<Rightarrow> api_world option" where
  "api_run [] w = Some w"
| "api_run (e # es) w = (case api_step e w of None \<Rightarrow> None | Some w' \<Rightarrow> api_run es w')"

lemma api_run_reach: "api_reach concurrency qps t0 w \<Longrightarrow> api_run es w = Some w' \<Longrightarrow> api_reach concurrency qps t0 w'"
  by (induction es arbitrary: w) (auto split: option.splits intro: api_reach.step)

text \<open>Two callers hold the slots for ten seconds while three others, whose times have come, queue; then these start one after the other at once.\<close>

definition busy_run :: "api_event list" where
  "busy_run = [Call 0, Due 0, Start 0, Call 1, Call 2, Call 3, Call 4, Tick 10000000000, Due 1, Start 1, Due 2, Due 3, Due 4,
     Finish 0, Start 2, Finish 2, Start 3, Finish 3, Start 4]"

lemma busy_run_starts:
  "map_option (\<lambda>w. (aw_starts w, aw_now w)) (api_run busy_run (api_start 2 2 0)) =
     Some ([(2000000000, 10000000000), (1500000000, 10000000000), (1000000000, 10000000000), (500000000, 10000000000), (0, 0)], 10000000000)"
  by (simp add: busy_run_def api_start_def newExternalAPILimiter_def Let_def reserve_def take_slot_def release_slot_def duration_defs)

theorem calls_paced_witness:
  "case api_run busy_run (api_start 2 2 0) of
     Some w \<Rightarrow> api_reach 2 2 0 w \<and> length (aw_starts w) = 5 \<and> card {k. calling (aw_phase w k)} \<le> 2
   | None \<Rightarrow> False"
proof -
  obtain w where w: "api_run busy_run (api_start 2 2 0) = Some w" "length (aw_starts w) = 5"
    using busy_run_starts by (auto simp: map_option_case split: option.splits)
  have r: "api_reach 2 2 0 w" by (rule api_run_reach [OF api_reach.start w(1)])
  then show ?thesis using calls_paced [OF r, of 0] w by simp
qed

text \<open>
  The rate is kept on average only: since a caller waits for its time before it waits for a slot, four calls start at the same instant here, with a
  limit of two per second.
\<close>

lemma calls_bunch: "\<exists>w. api_reach 2 2 0 w \<and> length (filter (\<lambda>sb. snd sb = 10000000000) (aw_starts w)) = 4"
proof -
  obtain w where w: "api_run busy_run (api_start 2 2 0) = Some w"
    "aw_starts w = [(2000000000, 10000000000), (1500000000, 10000000000), (1000000000, 10000000000), (500000000, 10000000000), (0, 0)]"
    using busy_run_starts by (auto simp: map_option_case split: option.splits)
  have "api_reach 2 2 0 w" by (rule api_run_reach [OF api_reach.start w(1)])
  then show ?thesis using w(2) by (auto intro!: exI [of _ w])
qed

end
