(* ===== verification/Redis.thy ===== *)
theory Redis
  imports RateLimit TaskCache PlanStore
begin

section \<open>The clients of Redis\<close>

text \<open>
  The parts of the service that share their state through a Redis server: the request lock (travel/locks.go), the rate limiter
  (travel/rate\_limiter.go), the task cache and the task store (travel/task\_cache.go, task\_store.go) and the deduplication of views
  (plans/view\_deduper.go). The server is a parameter: a function of the command, the instant and its state. What is relied on is
  the documented effect of the commands used, written as \<open>redis_spec\<close>: a command either answers and has its effect, or fails, and then its
  effect may have happened or not.
\<close>

subsection \<open>Commands\<close>

datatype redis_cmd =
    SET string string duration
  | GET string
  | SETNX string string duration
  | INCR string
  | EXPIRE string duration
  | EVAL string string string
  | EXEC "redis_cmd list"

datatype redis_reply = StatusOK | NilReply | Bulk string | Integer int | ErrorReply string

text \<open>A key holds a value and the instant it expires, if it does.\<close>

type_synonym redis_db = "string \<rightharpoonup> string \<times> time option"

definition visible :: "time \<Rightarrow> redis_db \<Rightarrow> string \<Rightarrow> string option" where
  "visible now db k =
     (case db k of None \<Rightarrow> None | Some (v, d) \<Rightarrow> (case d of None \<Rightarrow> Some v | Some t \<Rightarrow> if now \<le> t then Some v else None))"

definition put_key :: "time \<Rightarrow> string \<Rightarrow> string \<Rightarrow> duration \<Rightarrow> redis_db \<Rightarrow> redis_db" where
  "put_key now k v ttl db = db(k \<mapsto> (v, if ttl \<le> 0 then None else Some (now + ttl)))"

text \<open>\<open>redisUnlockScript\<close>: delete the key if it still holds the token.\<close>

definition redisUnlockScript :: string where
  "redisUnlockScript =
     (let nl = [CHR 0x0A]; tab = [CHR 0x09]; q = (\<lambda>w. [CHR 0x22] @ w @ [CHR 0x22])
      in nl @ ''if redis.call('' @ q ''GET'' @ '', KEYS[1]) == ARGV[1] then'' @ nl
         @ tab @ ''return redis.call('' @ q ''DEL'' @ '', KEYS[1])'' @ nl @ ''end'' @ nl @ ''return 0'' @ nl)"

definition run_unlock :: "time \<Rightarrow> string \<Rightarrow> string \<Rightarrow> redis_db \<Rightarrow> redis_reply \<times> redis_db" where
  "run_unlock now k token db =
     (if visible now db k = Some token then (Integer 1, db(k := None)) else (Integer 0, db))"

fun redis_spec :: "time \<Rightarrow> redis_cmd \<Rightarrow> redis_db \<Rightarrow> redis_reply \<times> redis_db" where
  "redis_spec now (SET k v ttl) db = (StatusOK, put_key now k v ttl db)"
| "redis_spec now (GET k) db = (case visible now db k of None \<Rightarrow> NilReply | Some v \<Rightarrow> Bulk v, db)"
| "redis_spec now (SETNX k v ttl) db =
     (if visible now db k = None then (Integer 1, put_key now k v ttl db) else (Integer 0, db))"
| "redis_spec now (INCR k) db =
     (case visible now db k of
        None \<Rightarrow> (Integer 1, db(k \<mapsto> (''1'', None)))
      | Some v \<Rightarrow>
          (case Atoi v of
             None \<Rightarrow> (ErrorReply ''ERR value is not an integer or out of range'', db)
           | Some n \<Rightarrow> if n = 2 ^ 63 - 1 then (ErrorReply ''ERR increment or decrement would overflow'', db)
                       else (Integer (n + 1), db(k \<mapsto> (Itoa (n + 1), snd (the (db k)))))))"
| "redis_spec now (EXPIRE k ttl) db =
     (case visible now db k of
        None \<Rightarrow> (Integer 0, db)
      | Some v \<Rightarrow> (Integer 1, if ttl \<le> 0 then db(k := None) else db(k \<mapsto> (v, Some (now + ttl)))))"
| "redis_spec now (EVAL script k token) db =
     (if script = redisUnlockScript then run_unlock now k token db else (ErrorReply ''ERR unknown script'', db))"
| "redis_spec now (EXEC cmds) db = (StatusOK, fold (\<lambda>c d. snd (redis_spec now c d)) cmds db)"

type_synonym 'r redis_client = "ctx \<Rightarrow> time \<Rightarrow> redis_cmd \<Rightarrow> 'r \<Rightarrow> (string + redis_reply) \<times> 'r"

locale redis =
  fixes call :: "'r redis_client" and db :: "'r \<Rightarrow> redis_db"
  assumes answered: "call c now cmd r = (Inr rep, r') \<Longrightarrow> redis_spec now cmd (db r) = (rep, db r')"
    and failed: "call c now cmd r = (Inl e, r') \<Longrightarrow> db r' = db r \<or> db r' = snd (redis_spec now cmd (db r))"

subsection \<open>Keys\<close>

definition requestLockKey :: "string \<Rightarrow> string" where
  "requestLockKey hash = ''travel:lock:request_hash:'' @ hash"

definition taskKey :: "string \<Rightarrow> string" where
  "taskKey i = ''travel:task:'' @ i"

definition hashKey :: "string \<Rightarrow> string" where
  "hashKey hash = ''travel:request_hash:'' @ hash"

definition publicViewDedupKey :: "string \<Rightarrow> string \<Rightarrow> string" where
  "publicViewDedupKey publicPlanID viewerKey = ''travel:public_plan:view:'' @ publicPlanID @ '':'' @ viewerHash viewerKey"

lemma keys_inj [simp]:
  "requestLockKey h = requestLockKey h' \<longleftrightarrow> h = h'" "taskKey i = taskKey i' \<longleftrightarrow> i = i'" "hashKey h = hashKey h' \<longleftrightarrow> h = h'"
  by (simp_all add: requestLockKey_def taskKey_def hashKey_def)

lemma keys_apart [simp]:
  "taskKey i \<noteq> hashKey h" "hashKey h \<noteq> taskKey i" "requestLockKey h \<noteq> taskKey i" "requestLockKey h \<noteq> hashKey h'"
  by (simp_all add: requestLockKey_def taskKey_def hashKey_def)

subsection \<open>RedisRequestLock\<close>

definition NewRedisRequestLock_ttl :: "duration \<Rightarrow> duration" where
  "NewRedisRequestLock_ttl ttl = (if ttl \<le> 0 then 15 * second else ttl)"

datatype redis_release = RedisNoop | RedisUnlock string string

text \<open>The token is random; \<open>release\<close> is called with its own context, at its own time.\<close>

definition RedisRequestLock_Acquire ::
  "'r redis_client \<Rightarrow> duration \<Rightarrow> string \<Rightarrow> ctx \<Rightarrow> time \<Rightarrow> string \<Rightarrow> 'r \<Rightarrow> (redis_release \<times> bool \<times> string option) \<times> 'r" where
  "RedisRequestLock_Acquire call ttl token c now requestHash r =
     (if requestHash = [] then ((RedisNoop, True, None), r)
      else case call c now (SETNX (requestLockKey requestHash) token ttl) r of
             (Inl e, r') \<Rightarrow> ((RedisNoop, False, Some e), r')
           | (Inr (Integer n), r') \<Rightarrow>
               if n = 1 then ((RedisUnlock (requestLockKey requestHash) token, True, None), r') else ((RedisNoop, False, None), r')
           | (Inr rep, r') \<Rightarrow> ((RedisNoop, False, Some ''redis: unexpected reply''), r'))"

fun redis_unlock :: "'r redis_client \<Rightarrow> ctx \<Rightarrow> time \<Rightarrow> redis_release \<Rightarrow> 'r \<Rightarrow> 'r" where
  "redis_unlock call c now RedisNoop r = r"
| "redis_unlock call c now (RedisUnlock key token) r = snd (call c now (EVAL redisUnlockScript key token) r)"

subsection \<open>RedisRateLimiter\<close>

text \<open>A failing \<open>EXPIRE\<close> is ignored.\<close>

definition RedisRateLimiter_Allow ::
  "'r redis_client \<Rightarrow> int \<Rightarrow> duration \<Rightarrow> ctx \<Rightarrow> time \<Rightarrow> string \<Rightarrow> 'r \<Rightarrow> (string + bool) \<times> 'r" where
  "RedisRateLimiter_Allow call limit window c now key r =
     (let k = ''travel:rate:'' @ key
      in case call c now (INCR k) r of
           (Inr (Integer count), r') \<Rightarrow>
             (Inr (count \<le> limit), if count = 1 then snd (call c now (EXPIRE k window) r') else r')
         | (Inr (ErrorReply e), r') \<Rightarrow> (Inl e, r')
         | (Inr rep, r') \<Rightarrow> (Inl ''redis: unexpected reply'', r')
         | (Inl e, r') \<Rightarrow> (Inl e, r'))"

definition NewRedisRateLimiter_limit :: "int \<Rightarrow> int" where
  "NewRedisRateLimiter_limit limit = (if limit \<le> 0 then 60 else limit)"

subsection \<open>RedisPublicViewDeduper\<close>

definition NewRedisPublicViewDeduper_ttl :: "duration \<Rightarrow> duration" where
  "NewRedisPublicViewDeduper_ttl ttl = (if ttl \<le> 0 then defaultPublicViewDedupTTL else ttl)"

definition RedisPublicViewDeduper_Allow ::
  "'r redis_client \<Rightarrow> duration \<Rightarrow> ctx \<Rightarrow> string \<Rightarrow> string \<Rightarrow> time \<Rightarrow> 'r \<Rightarrow> (string + bool) \<times> 'r" where
  "RedisPublicViewDeduper_Allow call ttl c publicPlanID viewerKey now r =
     (if publicPlanID = [] \<or> viewerKey = [] then (Inr True, r)
      else case call c now (SETNX (publicViewDedupKey publicPlanID viewerKey) ''1'' ttl) r of
             (Inl e, r') \<Rightarrow> (Inl e, r')
           | (Inr (Integer n), r') \<Rightarrow> (Inr (n = 1), r')
           | (Inr rep, r') \<Rightarrow> (Inl ''redis: unexpected reply'', r'))"

subsection \<open>RedisTaskCache\<close>

text \<open>\<open>encoding/json\<close> on a task and on a versioned task.\<close>

record task_codec =
  co_marshal :: "Task \<Rightarrow> string + string"
  co_unmarshal :: "string \<Rightarrow> string + Task"
  co_payload :: "int \<Rightarrow> Task \<Rightarrow> string + string"
  co_unpayload :: "string \<Rightarrow> string + int \<times> Task"

definition taskResultCacheVersion :: int where "taskResultCacheVersion = 1"

text \<open>A reply to \<open>SET\<close>, and one to \<open>GET\<close>.\<close>

definition as_status :: "(string + redis_reply) \<times> 'r \<Rightarrow> (travel_err + unit) \<times> 'r" where
  "as_status p =
     (case p of
        (Inl e, r) \<Rightarrow> (Inl (ErrBackend e), r)
      | (Inr StatusOK, r) \<Rightarrow> (Inr (), r)
      | (Inr rep, r) \<Rightarrow> (Inl (ErrBackend ''redis: unexpected reply''), r))"

definition as_value :: "(string + redis_reply) \<times> 'r \<Rightarrow> (travel_err + string option) \<times> 'r" where
  "as_value p =
     (case p of
        (Inl e, r) \<Rightarrow> (Inl (ErrBackend e), r)
      | (Inr NilReply, r) \<Rightarrow> (Inr None, r)
      | (Inr (Bulk v), r) \<Rightarrow> (Inr (Some v), r)
      | (Inr rep, r) \<Rightarrow> (Inl (ErrBackend ''redis: unexpected reply''), r))"

definition RedisTaskCache_SetRequestHash ::
  "'r redis_client \<Rightarrow> duration \<Rightarrow> ctx \<Rightarrow> time \<Rightarrow> string \<Rightarrow> string \<Rightarrow> 'r \<Rightarrow> (travel_err + unit) \<times> 'r" where
  "RedisTaskCache_SetRequestHash call ttl c now requestHash taskID r =
     (if requestHash = [] \<or> taskID = [] then (Inr (), r)
      else as_status (call c now (SET (hashKey requestHash) taskID ttl) r))"

definition RedisTaskCache_GetTaskIDByHash ::
  "'r redis_client \<Rightarrow> ctx \<Rightarrow> time \<Rightarrow> string \<Rightarrow> 'r \<Rightarrow> (travel_err + string option) \<times> 'r" where
  "RedisTaskCache_GetTaskIDByHash call c now requestHash r =
     (if requestHash = [] then (Inr None, r) else as_value (call c now (GET (hashKey requestHash)) r))"

definition RedisTaskCache_SetTask ::
  "'r redis_client \<Rightarrow> task_codec \<Rightarrow> duration \<Rightarrow> ctx \<Rightarrow> time \<Rightarrow> Task \<Rightarrow> 'r \<Rightarrow> (travel_err + unit) \<times> 'r" where
  "RedisTaskCache_SetTask call J ttl c now task r =
     (if tk_ID task = [] then (Inr (), r)
      else case co_payload J taskResultCacheVersion task of
             Inl e \<Rightarrow> (Inl (ErrBackend (''marshal task cache: '' @ e)), r)
           | Inr data \<Rightarrow> as_status (call c now (SET (taskKey (tk_ID task)) data ttl) r))"

definition decode_cached :: "task_codec \<Rightarrow> string \<Rightarrow> travel_err + Task option" where
  "decode_cached J data =
     (case co_unpayload J data of
        Inr (version, task) \<Rightarrow>
          if version = taskResultCacheVersion then Inr (Some task)
          else (case co_unmarshal J data of
                  Inl e \<Rightarrow> Inl (ErrBackend (''decode task cache: '' @ e)) | Inr legacy \<Rightarrow> Inr (Some legacy))
      | Inl _ \<Rightarrow>
          (case co_unmarshal J data of
             Inl e \<Rightarrow> Inl (ErrBackend (''decode task cache: '' @ e)) | Inr legacy \<Rightarrow> Inr (Some legacy)))"

definition RedisTaskCache_GetTask ::
  "'r redis_client \<Rightarrow> task_codec \<Rightarrow> ctx \<Rightarrow> time \<Rightarrow> string \<Rightarrow> 'r \<Rightarrow> (travel_err + Task option) \<times> 'r" where
  "RedisTaskCache_GetTask call J c now taskID r =
     (if taskID = [] then (Inr None, r)
      else case as_value (call c now (GET (taskKey taskID)) r) of
             (Inl e, r') \<Rightarrow> (Inl e, r')
           | (Inr None, r') \<Rightarrow> (Inr None, r')
           | (Inr (Some data), r') \<Rightarrow> (decode_cached J data, r'))"

text \<open>As a cache of \<open>CachedTaskStore\<close>, whose reads leave the cache as it is.\<close>

definition RedisTaskCache_ops :: "'r redis_client \<Rightarrow> task_codec \<Rightarrow> duration \<Rightarrow> 'r TaskCache" where
  "RedisTaskCache_ops call J ttl =
     \<lparr>tc_SetRequestHash = RedisTaskCache_SetRequestHash call ttl,
      tc_GetTaskIDByHash = (\<lambda>c now h r. fst (RedisTaskCache_GetTaskIDByHash call c now h r)),
      tc_SetTask = RedisTaskCache_SetTask call J ttl,
      tc_GetTask = (\<lambda>c now i r. fst (RedisTaskCache_GetTask call J c now i r))\<rparr>"

subsection \<open>RedisTaskStore\<close>

definition RedisTaskStore_save ::
  "'r redis_client \<Rightarrow> task_codec \<Rightarrow> duration \<Rightarrow> ctx \<Rightarrow> time \<Rightarrow> Task \<Rightarrow> 'r \<Rightarrow> (travel_err + unit) \<times> 'r" where
  "RedisTaskStore_save call J ttl c now task r =
     (case co_marshal J task of
        Inl e \<Rightarrow> (Inl (ErrBackend (''marshal task: '' @ e)), r)
      | Inr data \<Rightarrow>
          as_status (call c now (EXEC [SET (taskKey (tk_ID task)) data ttl, SET (hashKey (tk_RequestHash task)) (tk_ID task) ttl]) r))"

definition RedisTaskStore_Get ::
  "'r redis_client \<Rightarrow> task_codec \<Rightarrow> ctx \<Rightarrow> time \<Rightarrow> string \<Rightarrow> 'r \<Rightarrow> (travel_err + Task) \<times> 'r" where
  "RedisTaskStore_Get call J c now i r =
     (case as_value (call c now (GET (taskKey i)) r) of
        (Inl e, r') \<Rightarrow> (Inl e, r')
      | (Inr None, r') \<Rightarrow> (Inl ErrTaskNotFound, r')
      | (Inr (Some data), r') \<Rightarrow>
          (case co_unmarshal J data of Inl e \<Rightarrow> (Inl (ErrBackend (''decode task: '' @ e)), r') | Inr task \<Rightarrow> (Inr task, r')))"

definition RedisTaskStore_FindByHash ::
  "'r redis_client \<Rightarrow> task_codec \<Rightarrow> ctx \<Rightarrow> time \<Rightarrow> string \<Rightarrow> 'r \<Rightarrow> (travel_err + Task option) \<times> 'r" where
  "RedisTaskStore_FindByHash call J c now requestHash r =
     (case as_value (call c now (GET (hashKey requestHash)) r) of
        (Inl e, r') \<Rightarrow> (Inl e, r')
      | (Inr None, r') \<Rightarrow> (Inr None, r')
      | (Inr (Some i), r') \<Rightarrow>
          (case RedisTaskStore_Get call J c now i r' of
             (Inl e, r'') \<Rightarrow> if e = ErrTaskNotFound then (Inr None, r'') else (Inl e, r'')
           | (Inr task, r'') \<Rightarrow> (Inr (Some task), r'')))"

definition RedisTaskStore_ops :: "'r redis_client \<Rightarrow> task_codec \<Rightarrow> duration \<Rightarrow> 'r TaskStore" where
  "RedisTaskStore_ops call J ttl =
     \<lparr>ts_Create = RedisTaskStore_save call J ttl, ts_Update = RedisTaskStore_save call J ttl,
      ts_Get = RedisTaskStore_Get call J, ts_FindByHash = RedisTaskStore_FindByHash call J\<rparr>"

subsection \<open>Servers\<close>

text \<open>A server that always answers, and one whose answers can get lost: for each command, whether it is run and whether its reply arrives.\<close>

definition redis_reference :: "redis_db redis_client" where
  "redis_reference c now cmd d = (case redis_spec now cmd d of (rep, d') \<Rightarrow> (Inr rep, d'))"

interpretation reference: redis redis_reference "\<lambda>d. d"
  by unfold_locales (auto simp: redis_reference_def split: prod.splits)

definition redis_lossy :: "(redis_db \<times> (bool \<times> bool) list) redis_client" where
  "redis_lossy c now cmd = (\<lambda>(d, losses).
     case losses of
       [] \<Rightarrow> (case redis_reference c now cmd d of (rep, d') \<Rightarrow> (rep, d', []))
     | (runs, arrives) # ls \<Rightarrow>
         (let (rep, d') = redis_spec now cmd d
          in if runs \<and> arrives then (Inr rep, d', ls) else (Inl ''i/o timeout'', if runs then d' else d, ls)))"

interpretation lossy: redis redis_lossy fst
  by unfold_locales
    (auto simp: redis_lossy_def redis_reference_def Let_def split: list.splits prod.splits if_splits)

subsection \<open>The lock\<close>

datatype lock_call = LockAcquire string string | LockRelease redis_release

text \<open>The lock calls of all processes in the order they reach the server, each at its instant.\<close>

fun lock_calls :: "'r redis_client \<Rightarrow> duration \<Rightarrow> (ctx \<times> time \<times> lock_call) list \<Rightarrow> 'r \<Rightarrow> bool list \<times> 'r" where
  "lock_calls call ttl [] r = ([], r)"
| "lock_calls call ttl ((c, now, LockAcquire token h) # calls) r =
     (case RedisRequestLock_Acquire call ttl token c now h r of
        ((rel, ok, err), r') \<Rightarrow> (case lock_calls call ttl calls r' of (oks, r'') \<Rightarrow> (ok # oks, r'')))"
| "lock_calls call ttl ((c, now, LockRelease rel) # calls) r =
     (case lock_calls call ttl calls (redis_unlock call c now rel r) of (oks, r') \<Rightarrow> (False # oks, r'))"

text \<open>A call of another holder: it does not use the token, and it comes before the lock expires.\<close>

fun other_call :: "string \<Rightarrow> time \<Rightarrow> ctx \<times> time \<times> lock_call \<Rightarrow> bool" where
  "other_call token d (c, now, LockAcquire t h) = (t \<noteq> token \<and> now \<le> d)"
| "other_call token d (c, now, LockRelease RedisNoop) = True"
| "other_call token d (c, now, LockRelease (RedisUnlock k t)) = (t \<noteq> token \<and> now \<le> d)"

fun of_hash :: "string \<Rightarrow> ctx \<times> time \<times> lock_call \<Rightarrow> bool" where
  "of_hash h (c, now, LockAcquire t h') = (h' = h)"
| "of_hash h (c, now, LockRelease rel) = False"

context redis
begin

lemma kept:
  assumes "call c now cmd r = (res, r')" "snd (redis_spec now cmd (db r)) k = db r k"
  shows "db r' k = db r k"
proof (cases res)
  case (Inl e)
  then show ?thesis using failed [of c now cmd r e r'] assms by auto
next
  case (Inr rep)
  then show ?thesis using answered [of c now cmd r rep r'] assms by auto
qed

lemma acquired:
  assumes "RedisRequestLock_Acquire call ttl token c now h r = ((rel, True, err), r')" "h \<noteq> []" "0 < ttl"
  shows "db r' (requestLockKey h) = Some (token, Some (now + ttl))"
proof -
  have "call c now (SETNX (requestLockKey h) token ttl) r = (Inr (Integer 1), r')"
    using assms by (auto simp: RedisRequestLock_Acquire_def split: prod.splits sum.splits redis_reply.splits if_splits)
  from answered [OF this] show ?thesis using assms(3) by (simp add: put_key_def split: if_splits) (metis fun_upd_same)
qed

lemma held_refuses:
  assumes "db r (requestLockKey h) = Some (token, Some d)" "now \<le> d" "h \<noteq> []"
    "RedisRequestLock_Acquire call ttl t c now h r = ((rel, ok, err), r')"
  shows "\<not> ok"
proof
  assume ok
  then have "call c now (SETNX (requestLockKey h) t ttl) r = (Inr (Integer 1), r')"
    using assms by (auto simp: RedisRequestLock_Acquire_def split: prod.splits sum.splits redis_reply.splits if_splits)
  from answered [OF this] show False using assms(1,2) by (auto simp: visible_def)
qed

lemma acquire_keeps:
  assumes "db r k = Some (token, Some d)" "now \<le> d"
    "RedisRequestLock_Acquire call ttl t c now h r = (res, r')"
  shows "db r' k = db r k"
proof (cases "h = []")
  case False
  obtain rep where "call c now (SETNX (requestLockKey h) t ttl) r = (rep, r')"
    using assms(3) False by (auto simp: RedisRequestLock_Acquire_def split: prod.splits sum.splits redis_reply.splits if_splits)
  then show ?thesis by (rule kept) (use assms(1,2) in \<open>auto simp: visible_def put_key_def\<close>)
qed (use assms(3) in \<open>simp add: RedisRequestLock_Acquire_def\<close>)

lemma release_keeps:
  assumes "db r k = Some (token, Some d)" "other_call token d (c, now, LockRelease rel)"
  shows "db (redis_unlock call c now rel r) k = db r k"
proof (cases rel)
  case (RedisUnlock k' t)
  obtain rep r' where q: "call c now (EVAL redisUnlockScript k' t) r = (rep, r')" by fastforce
  have "db r' k = db r k"
    by (rule kept [OF q]) (use assms RedisUnlock in \<open>auto simp: run_unlock_def visible_def\<close>)
  then show ?thesis by (simp add: RedisUnlock q)
qed simp

lemma others_refused:
  "db r (requestLockKey h) = Some (token, Some d) \<Longrightarrow> h \<noteq> [] \<Longrightarrow> list_all (other_call token d) calls \<Longrightarrow>
   lock_calls call ttl calls r = (oks, r') \<Longrightarrow>
   db r' (requestLockKey h) = Some (token, Some d) \<and> length oks = length calls
   \<and> (\<forall>i < length calls. of_hash h (calls ! i) \<longrightarrow> \<not> oks ! i)"
proof (induction calls arbitrary: r oks r')
  case (Cons a calls)
  obtain c now lc where a: "a = (c, now, lc)" by (cases a)
  show ?case
  proof (cases lc)
    case (LockAcquire t h')
    then obtain rel ok err r1 oks1 where q: "RedisRequestLock_Acquire call ttl t c now h' r = ((rel, ok, err), r1)"
        "lock_calls call ttl calls r1 = (oks1, r')" "oks = ok # oks1"
      using Cons.prems(4) a by (auto split: prod.splits)
    have now: "now \<le> d" using Cons.prems(3) a LockAcquire by simp
    have "db r1 (requestLockKey h) = Some (token, Some d)" using acquire_keeps [OF Cons.prems(1) now q(1)] Cons.prems(1) by simp
    from Cons.IH [OF this Cons.prems(2) _ q(2)] Cons.prems(3)
    have "db r' (requestLockKey h) = Some (token, Some d) \<and> length oks1 = length calls
        \<and> (\<forall>i < length calls. of_hash h (calls ! i) \<longrightarrow> \<not> oks1 ! i)" by simp
    moreover have "\<not> ok" if "h' = h" using held_refuses [OF Cons.prems(1) now Cons.prems(2)] q(1) that by blast
    ultimately show ?thesis using q(3) a LockAcquire by (auto simp: less_Suc_eq_0_disj)
  next
    case (LockRelease rel)
    then obtain oks1 where q: "lock_calls call ttl calls (redis_unlock call c now rel r) = (oks1, r')" "oks = False # oks1"
      using Cons.prems(4) a by (auto split: prod.splits)
    have "db (redis_unlock call c now rel r) (requestLockKey h) = Some (token, Some d)"
      using release_keeps [OF Cons.prems(1)] Cons.prems(1,3) a LockRelease by simp
    from Cons.IH [OF this Cons.prems(2) _ q(1)] Cons.prems(3) q(2) a LockRelease show ?thesis by (auto simp: less_Suc_eq_0_disj)
  qed
qed simp

end


text \<open>A holder whose first attempt lost its reply, a rival, a late release of an old holder, and another request.\<close>

definition lock_rivals :: "(ctx \<times> time \<times> lock_call) list" where
  "lock_rivals = [(background, 12, LockAcquire ''t2'' ''h''), (background, 14, LockRelease (RedisUnlock (requestLockKey ''h'') ''t0'')),
     (background, 15, LockAcquire ''t3'' ''g''), (background, 20, LockAcquire ''t4'' ''h'')]"


subsection \<open>The limiter\<close>

text \<open>The calls of one key, each at its instant.\<close>

fun limiter_calls :: "'r redis_client \<Rightarrow> int \<Rightarrow> duration \<Rightarrow> string \<Rightarrow> (ctx \<times> time) list \<Rightarrow> 'r \<Rightarrow> (string + bool) list" where
  "limiter_calls call limit window key [] r = []"
| "limiter_calls call limit window key ((c, now) # calls) r =
     (case RedisRateLimiter_Allow call limit window c now key r of
        (res, r') \<Rightarrow> res # limiter_calls call limit window key calls r')"

definition rate_key :: "string \<Rightarrow> string" where "rate_key key = ''travel:rate:'' @ key"

text \<open>What a counter holds: nothing, or the number of its calls, with the instant it expires.\<close>

definition counter :: "redis_db \<Rightarrow> string \<Rightarrow> int \<Rightarrow> time option \<Rightarrow> bool" where
  "counter d k n e \<longleftrightarrow> d k = Some (Itoa n, e) \<and> 1 \<le> n \<and> n < 2 ^ 63"

text \<open>A counter that does not expire before \<open>u\<close>.\<close>

definition lasting :: "redis_db \<Rightarrow> string \<Rightarrow> time \<Rightarrow> int \<Rightarrow> bool" where
  "lasting d k u n \<longleftrightarrow> (\<exists>e. counter d k n e \<and> (case e of None \<Rightarrow> True | Some t \<Rightarrow> u \<le> t))"

lemma visible_lasting: "lasting d k u n \<Longrightarrow> now \<le> u \<Longrightarrow> visible now d k = Some (Itoa n)"
  by (auto simp: lasting_def counter_def visible_def split: option.splits)

lemma INCR_counter:
  assumes "counter d k n e" "visible now d k = Some (Itoa n)" "redis_spec now (INCR k) d = (rep, d')"
  shows "n < 2 ^ 63 - 1 \<and> rep = Integer (n + 1) \<and> counter d' k (n + 1) e \<or> (\<exists>msg. rep = ErrorReply msg) \<and> d' = d"
proof -
  have "Atoi (Itoa n) = Some n" using assms(1) by (intro Atoi_Itoa) (auto simp: counter_def)
  then show ?thesis using assms by (auto simp: counter_def split: if_splits)
qed

lemma lasting_INCR:
  assumes "lasting d k u n" "now \<le> u" "redis_spec now (INCR k) d = (rep, d')"
  shows "rep = Integer (n + 1) \<and> lasting d' k u (n + 1) \<or> (\<exists>msg. rep = ErrorReply msg) \<and> d' = d"
  using assms INCR_counter [of d k n _ now rep d'] visible_lasting [OF assms(1,2)] unfolding lasting_def by blast

lemma new_lasting:
  assumes "visible now d k = None" "redis_spec now (INCR k) d = (rep, d1)" "snd (redis_spec now' (EXPIRE k window) d1) = d2"
    "u \<le> now' + window" "0 < window"
  shows "rep = Integer 1 \<and> lasting d1 k u 1 \<and> lasting d2 k u 1"
proof -
  have "Itoa 1 = ''1''" by code_simp
  then have l: "rep = Integer 1" "d1 k = Some (Itoa 1, None)" using assms(1,2) by auto
  then have "visible now' d1 k = Some (Itoa 1)" by (simp add: visible_def)
  then have "d2 k = Some (Itoa 1, Some (now' + window))" using assms(3,5) by auto
  then show ?thesis using l assms(4) by (auto simp: lasting_def counter_def)
qed

context redis
begin

text \<open>What a call can come to: it counts in the counter it finds, or begins a new one.\<close>

lemma lasting_step:
  assumes "lasting (db r) (rate_key key) u n" "now \<le> u" "RedisRateLimiter_Allow call limit window c now key r = (res, r')"
  shows "\<exists>m \<ge> n. lasting (db r') (rate_key key) u m \<and> (res = Inr True \<longrightarrow> m = n + 1 \<and> n < limit)"
proof -
  obtain ans r1 where q: "call c now (INCR (rate_key key)) r = (ans, r1)" by (metis prod.exhaust)
  have n: "1 \<le> n" using assms(1) by (auto simp: lasting_def counter_def)
  have spec: "snd (redis_spec now (INCR (rate_key key)) (db r)) = d' \<Longrightarrow> lasting d' (rate_key key) u (n + 1) \<or> d' = db r" for d'
    using lasting_INCR [OF assms(1,2)] by (metis prod.collapse)
  show ?thesis
  proof (cases ans)
    case (Inl e)
    then have "res = Inl e" "r' = r1" using assms(3) q by (simp_all add: RedisRateLimiter_Allow_def rate_key_def)
    moreover have "\<exists>m \<ge> n. lasting (db r1) (rate_key key) u m"
    proof (cases "db r1 = db r")
      case True
      then show ?thesis using assms(1) by (intro exI [of _ n]) simp
    next
      case False
      then have "lasting (db r1) (rate_key key) u (n + 1)" using failed q spec Inl by metis
      then show ?thesis by (intro exI [of _ "n + 1"]) simp
    qed
    ultimately show ?thesis by auto
  next
    case (Inr rep)
    from answered [OF q [unfolded Inr]] lasting_INCR [OF assms(1,2)]
    have "rep = Integer (n + 1) \<and> lasting (db r1) (rate_key key) u (n + 1) \<or> (\<exists>msg. rep = ErrorReply msg) \<and> db r1 = db r" by blast
    then show ?thesis
    proof
      assume l: "rep = Integer (n + 1) \<and> lasting (db r1) (rate_key key) u (n + 1)"
      then have "res = Inr (n + 1 \<le> limit)" "r' = r1"
        using assms(3) q Inr n by (simp_all add: RedisRateLimiter_Allow_def rate_key_def)
      then show ?thesis using l by (intro exI [of _ "n + 1"]) auto
    next
      assume l: "(\<exists>msg. rep = ErrorReply msg) \<and> db r1 = db r"
      then have "\<exists>msg. res = Inl msg" "r' = r1" using assms(3) q Inr by (auto simp: RedisRateLimiter_Allow_def rate_key_def)
      then show ?thesis using l assms(1) by (intro exI [of _ n]) auto
    qed
  qed
qed


lemma lasting_bound:
  "lasting (db r) (rate_key key) u n \<Longrightarrow> list_all (\<lambda>(c, now). now \<le> u) calls \<Longrightarrow>
   int (length (filter (\<lambda>res. res = Inr True) (limiter_calls call limit window key calls r))) \<le> max 0 (limit - n)"
proof (induction calls arbitrary: r n)
  case (Cons a calls)
  obtain c now where a: "a = (c, now)" by (cases a)
  obtain res r' where q: "RedisRateLimiter_Allow call limit window c now key r = (res, r')" by (metis prod.exhaust)
  obtain m where m: "n \<le> m" "lasting (db r') (rate_key key) u m" "res = Inr True \<Longrightarrow> m = n + 1 \<and> n < limit"
    using lasting_step [OF Cons.prems(1) _ q] Cons.prems(2) a by auto
  from Cons.IH [OF m(2)] Cons.prems(2)
  have "int (length (filter (\<lambda>res. res = Inr True) (limiter_calls call limit window key calls r'))) \<le> max 0 (limit - m)" by simp
  then show ?case using m(1,3) a q by (auto simp: max_def split: if_splits)
qed simp

end

text \<open>Any state of a counter: none yet, or some calls counted.\<close>

definition some_count :: "redis_db \<Rightarrow> string \<Rightarrow> int \<Rightarrow> bool" where
  "some_count d k n \<longleftrightarrow> d k = None \<and> n = 0 \<or> (\<exists>e. counter d k n e)"

lemma some_count_visible: "some_count d k n \<Longrightarrow> visible now d k = None \<or> (\<exists>e. counter d k n e) \<and> visible now d k = Some (Itoa n)"
  by (auto simp: some_count_def counter_def visible_def split: option.splits)

context redis
begin

lemma general_step:
  assumes "some_count (db r) (rate_key key) n" "u \<le> now + window" "0 < window"
    "RedisRateLimiter_Allow call limit window c now key r = (res, r')"
  shows "(\<exists>m \<ge> n. some_count (db r') (rate_key key) m \<and> (res = Inr True \<longrightarrow> m = n + 1 \<and> n < limit))
    \<or> lasting (db r') (rate_key key) u 1"
proof -
  define k where "k = rate_key key"
  obtain ans r1 where q: "call c now (INCR k) r = (ans, r1)" by (metis prod.exhaust)
  consider (new) "visible now (db r) k = None" | (old) e where "counter (db r) k n e" "visible now (db r) k = Some (Itoa n)"
    using some_count_visible [OF assms(1), folded k_def, of now] by metis
  then show ?thesis
  proof cases
    case new
    show ?thesis
    proof (cases ans)
      case (Inl e)
      then have r: "res = Inl e" "r' = r1" using assms(4) q by (simp_all add: RedisRateLimiter_Allow_def rate_key_def k_def)
      show ?thesis
      proof (cases "db r1 = db r")
        case False
        then have "redis_spec now (INCR k) (db r) = (fst (redis_spec now (INCR k) (db r)), db r1)"
          using failed [OF q [unfolded Inl]] by (metis prod.collapse)
        from new_lasting [OF new this refl assms(2,3)] show ?thesis using r k_def by blast
      qed (use r assms(1) in \<open>auto intro!: exI [of _ n]\<close>)
    next
      case (Inr rep)
      note spec = answered [OF q [unfolded Inr]]
      note l = new_lasting [OF new spec refl assms(2,3)]
      obtain ans2 r2 where q2: "call c now (EXPIRE k window) r1 = (ans2, r2)" by (metis prod.exhaust)
      have "r' = r2" using assms(4) q Inr l q2 by (simp add: RedisRateLimiter_Allow_def rate_key_def k_def)
      moreover have "db r2 = db r1 \<or> db r2 = snd (redis_spec now (EXPIRE k window) (db r1))"
        using answered failed q2 by (cases ans2) (metis snd_conv)+
      ultimately show ?thesis using l k_def by auto
    qed
  next
    case (old e)
    have n: "1 \<le> n" using old(1) by (simp add: counter_def)
    have spec: "redis_spec now (INCR k) (db r) = (rep, d') \<Longrightarrow>
        n < 2 ^ 63 - 1 \<and> rep = Integer (n + 1) \<and> counter d' k (n + 1) e \<or> (\<exists>msg. rep = ErrorReply msg) \<and> d' = db r" for rep d'
      using INCR_counter [OF old] .
    show ?thesis
    proof (cases ans)
      case (Inl err)
      then have r: "res = Inl err" "r' = r1" using assms(4) q by (simp_all add: RedisRateLimiter_Allow_def rate_key_def k_def)
      show ?thesis
      proof (cases "db r1 = db r")
        case False
        then have "counter (db r1) k (n + 1) e" using failed [OF q [unfolded Inl]] spec by (metis prod.collapse)
        then show ?thesis using r k_def by (auto simp: some_count_def intro!: exI [of _ "n + 1"])
      qed (use r assms(1) in \<open>auto intro!: exI [of _ n]\<close>)
    next
      case (Inr rep)
      from spec [OF answered [OF q [unfolded Inr]]] show ?thesis
      proof
        assume l: "n < 2 ^ 63 - 1 \<and> rep = Integer (n + 1) \<and> counter (db r1) k (n + 1) e"
        then have "res = Inr (n + 1 \<le> limit)" "r' = r1"
          using assms(4) q Inr n by (simp_all add: RedisRateLimiter_Allow_def rate_key_def k_def)
        then show ?thesis using l k_def by (auto simp: some_count_def intro!: exI [of _ "n + 1"])
      next
        assume l: "(\<exists>msg. rep = ErrorReply msg) \<and> db r1 = db r"
        then have "\<exists>msg. res = Inl msg" "r' = r1" using assms(4) q Inr by (auto simp: RedisRateLimiter_Allow_def rate_key_def k_def)
        then show ?thesis using l assms(1) by (auto intro!: exI [of _ n])
      qed
    qed
  qed
qed

lemma general_bound:
  "some_count (db r) (rate_key key) n \<Longrightarrow> 0 < window \<Longrightarrow> 1 \<le> limit \<Longrightarrow>
   list_all (\<lambda>(c, now). now \<le> u \<and> u \<le> now + window) calls \<Longrightarrow>
   int (length (filter (\<lambda>res. res = Inr True) (limiter_calls call limit window key calls r))) \<le> max 0 (limit - n) + limit"
proof (induction calls arbitrary: r n)
  case (Cons a calls)
  obtain c now where a: "a = (c, now)" by (cases a)
  obtain res r' where q: "RedisRateLimiter_Allow call limit window c now key r = (res, r')" by (metis prod.exhaust)
  define rest where "rest = int (length (filter (\<lambda>res. res = Inr True) (limiter_calls call limit window key calls r')))"
  have sum: "int (length (filter (\<lambda>res. res = Inr True) (limiter_calls call limit window key (a # calls) r)))
      = (if res = Inr True then 1 else 0) + rest" by (simp add: a q rest_def)
  have u: "u \<le> now + window" using Cons.prems(4) a by simp
  consider (same) m where "n \<le> m" "some_count (db r') (rate_key key) m" "res = Inr True \<longrightarrow> m = n + 1 \<and> n < limit"
    | (reset) "lasting (db r') (rate_key key) u 1"
    using general_step [OF Cons.prems(1) u Cons.prems(2) q] by blast
  then show ?case
  proof cases
    case same
    have "rest \<le> max 0 (limit - m) + limit" unfolding rest_def using Cons.IH [OF same(2)] Cons.prems by simp
    then show ?thesis using same sum by (auto simp: max_def split: if_splits)
  next
    case reset
    have "list_all (\<lambda>(c, now). now \<le> u) calls" using Cons.prems(4) by (auto simp: list_all_iff)
    then have "rest \<le> max 0 (limit - 1)" unfolding rest_def by (rule lasting_bound [OF reset])
    then show ?thesis using sum Cons.prems(3) by (auto simp: max_def split: if_splits)
  qed
qed simp

end

text \<open>
  The Redis limiter bounds a client: from any state of its counter, whatever replies and commands are lost, of the calls of one key
  within any interval as long as the window at most twice the limit are let through.
\<close>

theorem redis_limit_bound:
  assumes "redis call db" and "some_count (db r) (rate_key key) n" and "1 \<le> limit" "0 < window"
    and "list_all (\<lambda>(c, now). a \<le> now \<and> now \<le> a + window) calls"
  shows "int (length (filter (\<lambda>res. res = Inr True) (limiter_calls call limit window key calls r))) \<le> 2 * limit"
proof -
  have "0 \<le> n" using assms(2) by (auto simp: some_count_def counter_def)
  have "list_all (\<lambda>(c, now). now \<le> a + window \<and> a + window \<le> now + window) calls"
    using assms(5) by (auto simp: list_all_iff)
  from redis.general_bound [OF assms(1,2,4,3) this] show ?thesis using \<open>0 \<le> n\<close> assms(3) by (simp add: max_def split: if_splits)
qed

definition rate_calls :: "(ctx \<times> time) list" where
  "rate_calls = [(background, 100), (background, 105), (background, 108), (background, 110)]"

theorem redis_limit_bound_witness:
  "int (length (filter (\<lambda>res. res = Inr True)
      (limiter_calls redis_lossy 1 10 ''u'' rate_calls (Map.empty, [(True, False), (False, False), (True, True)])))) \<le> 2 * 1"
proof (rule redis_limit_bound [OF lossy.redis_axioms])
  show "some_count (fst (Map.empty, [(True, False), (False, False), (True, True)])) (rate_key ''u'') 0" by (simp add: some_count_def)
  show "list_all (\<lambda>(c, now). 100 \<le> now \<and> now \<le> 100 + 10) rate_calls" by (simp add: rate_calls_def)
qed simp_all

text \<open>
  A counter without an expiry never begins again: when the \<open>EXPIRE\<close> of the first call does not reach the server, its error is ignored, and the client is
  refused for good once the limit is used up.
\<close>

lemma lost_EXPIRE_refuses_forever:
  assumes "redis call db" "counter (db r) (rate_key key) n None" "limit \<le> n"
  shows "Inr True \<notin> set (limiter_calls call limit window key calls r)"
proof -
  define u where "u = Max (insert 0 (snd ` set calls))"
  have "lasting (db r) (rate_key key) u n" using assms(2) by (auto simp: lasting_def)
  moreover have "list_all (\<lambda>(c, now). now \<le> u) calls"
    by (force simp: list_all_iff u_def intro: Max_ge)
  ultimately have "int (length (filter (\<lambda>res. res = Inr True) (limiter_calls call limit window key calls r))) \<le> 0"
    using redis.lasting_bound [OF assms(1), of r key u n calls limit window] assms(3) by simp
  then show ?thesis by (simp add: filter_empty_conv) blast
qed

lemma lost_EXPIRE_counter:
  "counter (fst (snd (RedisRateLimiter_Allow redis_lossy 1 10 background 100 ''u'' (Map.empty, [(True, True), (False, False)]))))
     (rate_key ''u'') 1 None"
proof -
  have "Itoa 1 = ''1''" by code_simp
  then show ?thesis
    by (simp add: RedisRateLimiter_Allow_def redis_lossy_def visible_def counter_def rate_key_def)
qed

subsection \<open>Stored tasks\<close>

context redis
begin

lemma get_visible:
  assumes "visible now (db r) k = Some v" "as_value (call c now (GET k) r) = (res, r')"
  shows "db r' = db r \<and> (res = Inr (Some v) \<or> (\<exists>e. res = Inl (ErrBackend e)))"
proof -
  obtain ans r1 where q: "call c now (GET k) r = (ans, r1)" by (metis prod.exhaust)
  show ?thesis
  proof (cases ans)
    case (Inl e)
    then show ?thesis using failed [OF q [unfolded Inl]] assms(2) q by (auto simp: as_value_def)
  next
    case (Inr rep)
    then show ?thesis using answered [OF q [unfolded Inr]] assms q by (auto simp: as_value_def)
  qed
qed

lemma save_visible:
  assumes "RedisTaskStore_save call J ttl c now t r = (Inr (), r1)" "co_marshal J t = Inr s" "0 < ttl" "now' \<le> now + ttl"
  shows "visible now' (db r1) (taskKey (tk_ID t)) = Some s \<and> visible now' (db r1) (hashKey (tk_RequestHash t)) = Some (tk_ID t)
    \<and> (\<forall>k. k \<noteq> taskKey (tk_ID t) \<and> k \<noteq> hashKey (tk_RequestHash t) \<longrightarrow> db r1 k = db r k)"
proof -
  have "call c now (EXEC [SET (taskKey (tk_ID t)) s ttl, SET (hashKey (tk_RequestHash t)) (tk_ID t) ttl]) r = (Inr StatusOK, r1)"
    using assms(1,2) by (auto simp: RedisTaskStore_save_def as_status_def split: prod.splits sum.splits redis_reply.splits)
  from answered [OF this] have d: "db r1 = put_key now (hashKey (tk_RequestHash t)) (tk_ID t) ttl (put_key now (taskKey (tk_ID t)) s ttl (db r))"
    by simp
  then show ?thesis using assms(3,4) by (simp add: put_key_def visible_def)
qed

end

text \<open>
  C30. What is saved is read back: after a successful save, and as long as the task has not expired, the store answers its id and its hash with the task
  (or with an error of the connection, never with another task or as missing), if JSON reads the task back; and a save touches no other task.
\<close>

theorem redis_store_reads_back:
  assumes "redis call db" and "co_marshal J t = Inr s" "co_unmarshal J s = Inr t" and "0 < ttl" "now' \<le> now + ttl"
    and "RedisTaskStore_save call J ttl c now t r = (Inr (), r1)"
  shows "(case fst (RedisTaskStore_Get call J c' now' (tk_ID t) r1) of Inr u \<Rightarrow> u = t | Inl e \<Rightarrow> \<exists>m. e = ErrBackend m)
    \<and> (case fst (RedisTaskStore_FindByHash call J c' now' (tk_RequestHash t) r1) of
         Inr found \<Rightarrow> found = Some t | Inl e \<Rightarrow> \<exists>m. e = ErrBackend m)
    \<and> (i = tk_ID t \<or> visible now' (db r1) (taskKey i) = visible now' (db r) (taskKey i))"
proof -
  note v = redis.save_visible [OF assms(1,6,2,4,5)]
  have get: "case fst (RedisTaskStore_Get call J c' now' (tk_ID t) r2) of Inr u \<Rightarrow> u = t | Inl e \<Rightarrow> \<exists>m. e = ErrBackend m"
    if "db r2 = db r1" for r2
  proof -
    obtain res r3 where q: "as_value (call c' now' (GET (taskKey (tk_ID t))) r2) = (res, r3)" by (metis prod.exhaust)
    have "visible now' (db r2) (taskKey (tk_ID t)) = Some s" using v that by simp
    from redis.get_visible [OF assms(1) this q] show ?thesis using q assms(3) by (auto simp: RedisTaskStore_Get_def)
  qed
  obtain res r2 where q: "as_value (call c' now' (GET (hashKey (tk_RequestHash t))) r1) = (res, r2)" by (metis prod.exhaust)
  have h: "visible now' (db r1) (hashKey (tk_RequestHash t)) = Some (tk_ID t)" using v by simp
  have "case fst (RedisTaskStore_FindByHash call J c' now' (tk_RequestHash t) r1) of
         Inr found \<Rightarrow> found = Some t | Inl e \<Rightarrow> \<exists>m. e = ErrBackend m"
    using redis.get_visible [OF assms(1) h q] q get [of r2]
    by (auto simp: RedisTaskStore_FindByHash_def split: prod.splits sum.splits)
  moreover have "i = tk_ID t \<or> visible now' (db r1) (taskKey i) = visible now' (db r) (taskKey i)"
  proof (cases "i = tk_ID t")
    case False
    then have "db r1 (taskKey i) = db r (taskKey i)" using v by simp
    then show ?thesis by (simp add: visible_def)
  qed simp
  ultimately show ?thesis using get [of r1] by simp
qed

text \<open>A codec that reads back two tasks.\<close>

definition two_tasks :: task_codec where
  "two_tasks = \<lparr>co_marshal = (\<lambda>t. Inr (tk_ID t)), co_unmarshal = (\<lambda>s. Inr (sample_task s TaskRunning)),
     co_payload = (\<lambda>v t. Inr (tk_ID t)), co_unpayload = (\<lambda>s. Inr (1, sample_task s TaskRunning))\<rparr>"

theorem redis_store_reads_back_witness:
  "case RedisTaskStore_save redis_reference two_tasks 60 background 5 (sample_task ''t1'' TaskRunning) Map.empty of
     (Inr _, r1) \<Rightarrow>
       (case fst (RedisTaskStore_Get redis_reference two_tasks background 65 ''t1'' r1) of Inr u \<Rightarrow> u = sample_task ''t1'' TaskRunning | Inl e \<Rightarrow> \<exists>m. e = ErrBackend m)
   | (Inl e, r1) \<Rightarrow> False"
proof -
  have "\<exists>r1. RedisTaskStore_save redis_reference two_tasks 60 background 5 (sample_task ''t1'' TaskRunning) Map.empty = (Inr (), r1)"
    by (simp add: RedisTaskStore_save_def two_tasks_def redis_reference_def as_status_def)
  then obtain r1 where q: "RedisTaskStore_save redis_reference two_tasks 60 background 5 (sample_task ''t1'' TaskRunning) Map.empty = (Inr (), r1)" by blast
  have "tk_ID (sample_task ''t1'' TaskRunning) = ''t1''" by (simp add: sample_task_def)
  with redis_store_reads_back [OF reference.redis_axioms, of two_tasks "sample_task ''t1'' TaskRunning" "''t1''" 60 65 5 background Map.empty r1 background] q
  show ?thesis by (simp add: two_tasks_def sample_task_def)
qed

end
