(* ===== verification/Sql.thy ===== *)
theory Sql
  imports Go_Text Float64 "HOL-Library.Multiset"
begin

section \<open>A MySQL server seen through database/sql\<close>

text \<open>
  The statements of the MySQL stores as data, in the shape they have in the source (a question mark is \<open>Q\<close>, and
  consumes the next argument), and what the reference manual of MySQL promises about them for the tables of
  migrations/mysql. The driver and the server are not part of the repository: the stores take them as a parameter
  (\<open>sql_db\<close>), and the locales \<open>mysql\<close> and \<open>mysql_up\<close> state what the stores rely on.
\<close>

subsection \<open>Values, rows, statements\<close>

datatype sql_value = VNull | VInt int | VStr string | VTime time | VBool bool | VFloat float64

type_synonym row = "string \<Rightarrow> sql_value"
type_synonym tables = "string \<Rightarrow> row list"

text \<open>
  Expressions of a \<open>SET\<close> clause and of a \<open>VALUES\<close> list; \<open>WhenEq a b x y\<close> is one branch of a \<open>CASE\<close>: \<open>WHEN a = b THEN x\<close>, else \<open>y\<close>.
  Conditions are joined by \<open>AND\<close>; \<open>LikeQ [a, b]\<close> is \<open>(a LIKE ? OR b LIKE ?)\<close> and \<open>JsonHasQ c\<close> is \<open>JSON_SEARCH(c, 'one', ?) IS NOT NULL\<close>.
\<close>

datatype sql_expr = Q | Lit sql_value | Col string | Plus sql_expr sql_expr | Times sql_expr sql_expr
  | WhenEq sql_expr sql_expr sql_expr sql_expr

datatype sql_cond = IsQ string | IsNull string | LikeQ "string list" | JsonHasQ string

text \<open>
  The last argument of \<open>InsertInto\<close> holds the columns of \<open>ON DUPLICATE KEY UPDATE c = VALUES(c)\<close>, none for a plain insert.
\<close>

datatype sql_stmt =
  InsertInto string "string list" "sql_expr list" "string list"
| UpdateSet string "(string \<times> sql_expr) list" "sql_cond list"

text \<open>
  A selected column, \<open>COALESCE\<close> of a column with a literal or with another column, or \<open>COUNT(*)\<close>. A table is named with its
  alias, without one the columns are unqualified. A join is \<open>LEFT JOIN table alias ON alias.col = other\<close>. Orders descend.
\<close>

datatype sql_column = SCol string | SOr string sql_value | SOrCol string string | SCount
datatype sql_limit = NoLimit | Limit1 | LimitOffsetQ

record sql_select =
  se_cols :: "sql_column list"
  se_from :: "string \<times> string"
  se_joins :: "(string \<times> string \<times> string \<times> string) list"
  se_where :: "sql_cond list"
  se_order :: "string list"
  se_limit :: sql_limit

text \<open>
  What depends on the server: the collation, what a \<open>DATETIME(6)\<close> keeps of an instant, the text of a JSON value in a JSON column, \<open>LIKE\<close> and
  \<open>JSON_SEARCH\<close>, and whether \<open>RowsAffected\<close> counts the rows found or the rows changed (the default).
\<close>

record sql_env =
  me_eq :: "string \<Rightarrow> string \<Rightarrow> bool"
  me_time :: "time \<Rightarrow> time"
  me_json :: "string \<Rightarrow> string"
  me_like :: "string \<Rightarrow> string \<Rightarrow> bool"
  me_search :: "string \<Rightarrow> string \<Rightarrow> bool"
  me_found :: bool

subsection \<open>The schema\<close>

text \<open>The unique indexes, the primary key first; a column of type JSON is one whose name ends so.\<close>

definition unique_keys :: "string \<Rightarrow> string list list" where
  "unique_keys table =
     (if table = ''users'' then [[''id''], [''email'']]
      else if table = ''user_sessions'' then [[''id''], [''token_hash'']]
      else if table = ''user_plans'' then [[''id'']]
      else if table = ''plan_conversation_archives'' then [[''id'']]
      else if table = ''public_plans'' then [[''id''], [''plan_id'']]
      else if table = ''travel_tasks'' then [[''id''], [''request_hash'']]
      else if table = ''travel_task_requests'' then [[''task_id'']]
      else if table = ''travel_plans'' then [[''task_id'']]
      else if table = ''travel_plan_results'' then [[''task_id'']]
      else if table = ''travel_planner_runs'' then [[''task_id'', ''attempt'']]
      else [])"

definition is_json :: "string \<Rightarrow> bool" where
  "is_json c \<longleftrightarrow> suffix ''_json'' c"

definition default_row :: "string \<Rightarrow> row" where
  "default_row table c =
     (if table = ''public_plans'' \<and> c \<in> {''view_count'', ''save_count'', ''copy_count'', ''hot_score''} then VInt 0 else VNull)"

subsection \<open>What a statement does\<close>

fun stored :: "sql_env \<Rightarrow> string \<Rightarrow> sql_value \<Rightarrow> sql_value" where
  "stored E c (VTime t) = VTime (me_time E t)"
| "stored E c (VBool b) = VInt (if b then 1 else 0)"
| "stored E c (VStr s) = VStr (if is_json c then me_json E s else s)"
| "stored E c v = v"

text \<open>\<open>=\<close> between values: never true of NULL.\<close>

fun sql_eq :: "sql_env \<Rightarrow> sql_value \<Rightarrow> sql_value \<Rightarrow> bool" where
  "sql_eq E (VStr a) (VStr b) = me_eq E a b"
| "sql_eq E (VInt a) (VInt b) = (a = b)"
| "sql_eq E (VTime a) (VTime b) = (a = b)"
| "sql_eq E a b = False"

fun sql_arith :: "(int \<Rightarrow> int \<Rightarrow> int) \<Rightarrow> sql_value \<Rightarrow> sql_value \<Rightarrow> sql_value" where
  "sql_arith f (VInt a) (VInt b) = VInt (f a b)"
| "sql_arith f a b = VNull"

fun eval_sql :: "sql_env \<Rightarrow> sql_expr \<Rightarrow> row \<Rightarrow> sql_value list \<Rightarrow> sql_value \<times> sql_value list" where
  "eval_sql E Q r args = (case args of [] \<Rightarrow> (VNull, []) | a # as \<Rightarrow> (a, as))"
| "eval_sql E (Lit v) r args = (v, args)"
| "eval_sql E (Col c) r args = (r c, args)"
| "eval_sql E (Plus x y) r args =
     (let (a, as) = eval_sql E x r args; (b, bs) = eval_sql E y r as in (sql_arith (+) a b, bs))"
| "eval_sql E (Times x y) r args =
     (let (a, as) = eval_sql E x r args; (b, bs) = eval_sql E y r as in (sql_arith (*) a b, bs))"
| "eval_sql E (WhenEq a b x y) r args =
     (let (u, as) = eval_sql E a r args; (v, bs) = eval_sql E b r as; (p, cs) = eval_sql E x r bs; (q, ds) = eval_sql E y r cs
      in (if sql_eq E u v then p else q, ds))"

text \<open>
  Assignments are evaluated from left to right, and a column on the right of a later one has its new value already
  (\<^emph>\<open>``UPDATE t1 SET col1 = col1 + 1, col2 = col1'' sets col2 to the current (updated) col1 value, not the original\<close>: MySQL reference manual,
  UPDATE statement).
\<close>

fun assign_sql :: "sql_env \<Rightarrow> (string \<times> sql_expr) list \<Rightarrow> row \<Rightarrow> sql_value list \<Rightarrow> row \<times> sql_value list" where
  "assign_sql E [] r args = (r, args)"
| "assign_sql E ((c, e) # cs) r args =
     (let (v, args') = eval_sql E e r args in assign_sql E cs (r(c := stored E c v)) args')"

definition like_sql :: "sql_env \<Rightarrow> sql_value \<Rightarrow> sql_value \<Rightarrow> bool" where
  "like_sql E v p = (case (v, p) of (VStr s, VStr pat) \<Rightarrow> me_like E s pat | _ \<Rightarrow> False)"

fun likes_sql :: "sql_env \<Rightarrow> string list \<Rightarrow> row \<Rightarrow> sql_value list \<Rightarrow> bool" where
  "likes_sql E (c # cs) r (a # as) = (like_sql E (r c) a \<or> likes_sql E cs r as)"
| "likes_sql E cs r as = False"

fun cond_params :: "sql_cond \<Rightarrow> nat" where
  "cond_params (IsQ c) = 1"
| "cond_params (IsNull c) = 0"
| "cond_params (LikeQ cs) = length cs"
| "cond_params (JsonHasQ c) = 1"

fun cond_sql :: "sql_env \<Rightarrow> sql_cond \<Rightarrow> row \<Rightarrow> sql_value list \<Rightarrow> bool" where
  "cond_sql E (IsQ c) r args = (case args of [] \<Rightarrow> False | a # _ \<Rightarrow> sql_eq E (r c) a)"
| "cond_sql E (IsNull c) r args = (r c = VNull)"
| "cond_sql E (LikeQ cs) r args = likes_sql E cs r args"
| "cond_sql E (JsonHasQ c) r args =
     (case (r c, args) of (VStr s, VStr p # _) \<Rightarrow> me_search E s p | _ \<Rightarrow> False)"

fun where_sql :: "sql_env \<Rightarrow> sql_cond list \<Rightarrow> row \<Rightarrow> sql_value list \<Rightarrow> bool" where
  "where_sql E [] r args = True"
| "where_sql E (c # cs) r args = (cond_sql E c r args \<and> where_sql E cs r (drop (cond_params c) args))"

fun expr_params :: "sql_expr \<Rightarrow> nat" where
  "expr_params Q = 1"
| "expr_params (Lit v) = 0"
| "expr_params (Col c) = 0"
| "expr_params (Plus x y) = expr_params x + expr_params y"
| "expr_params (Times x y) = expr_params x + expr_params y"
| "expr_params (WhenEq a b x y) = expr_params a + expr_params b + expr_params x + expr_params y"

definition conds_params :: "sql_cond list \<Rightarrow> nat" where
  "conds_params cs = sum_list (map cond_params cs)"

fun stmt_params :: "sql_stmt \<Rightarrow> nat" where
  "stmt_params (InsertInto t cols es dups) = sum_list (map expr_params es)"
| "stmt_params (UpdateSet t sets cs) = sum_list (map (expr_params \<circ> snd) sets) + conds_params cs"

text \<open>Two rows clash when a unique index has equal columns, none of them NULL.\<close>

definition clash :: "sql_env \<Rightarrow> row \<Rightarrow> row \<Rightarrow> string list \<Rightarrow> bool" where
  "clash E a b key = list_all (\<lambda>c. sql_eq E (a c) (b c)) key"

definition clashing :: "sql_env \<Rightarrow> string \<Rightarrow> row \<Rightarrow> row \<Rightarrow> bool" where
  "clashing E table a b = list_ex (clash E a b) (unique_keys table)"

fun first_index :: "('a \<Rightarrow> bool) \<Rightarrow> 'a list \<Rightarrow> nat option" where
  "first_index P [] = None"
| "first_index P (x # xs) = (if P x then Some 0 else map_option Suc (first_index P xs))"

text \<open>The row a new one clashes with: the indexes are tried in their order, the primary key first.\<close>

fun clash_index :: "sql_env \<Rightarrow> string list list \<Rightarrow> row \<Rightarrow> row list \<Rightarrow> nat option" where
  "clash_index E [] new rows = None"
| "clash_index E (key # keys) new rows =
     (case first_index (\<lambda>r. clash E r new key) rows of Some i \<Rightarrow> Some i | None \<Rightarrow> clash_index E keys new rows)"

datatype sql_effect = Done int tables | Duplicate

definition inserted_row :: "sql_env \<Rightarrow> string \<Rightarrow> string list \<Rightarrow> sql_expr list \<Rightarrow> sql_value list \<Rightarrow> row" where
  "inserted_row E t cols es args = fst (assign_sql E (zip cols es) (default_row t) args)"

definition put_rows :: "string \<Rightarrow> row list \<Rightarrow> tables \<Rightarrow> tables" where
  "put_rows t rows T = T(t := rows)"

definition exec_sql :: "sql_env \<Rightarrow> sql_stmt \<Rightarrow> sql_value list \<Rightarrow> tables \<Rightarrow> sql_effect" where
  "exec_sql E s args T =
     (case s of
        InsertInto t cols es dups \<Rightarrow>
          (let new = inserted_row E t cols es args
           in case clash_index E (unique_keys t) new (T t) of
                None \<Rightarrow> Done 1 (put_rows t (T t @ [new]) T)
              | Some i \<Rightarrow>
                  if dups = [] then Duplicate
                  else let old = T t ! i;
                           r = (\<lambda>c. if c \<in> set dups then new c else old c)
                       in Done (if list_all (\<lambda>c. new c = old c) dups then (if me_found E then 1 else 0) else 2)
                            (put_rows t ((T t)[i := r]) T))
      | UpdateSet t sets cs \<Rightarrow>
          (let n = sum_list (map (expr_params \<circ> snd) sets);
               hit = (\<lambda>r. where_sql E cs r (drop n args));
               new = (\<lambda>r. if hit r then fst (assign_sql E sets r args) else r);
               rows = map new (T t);
               changed = filter (\<lambda>r. hit r \<and> (me_found E \<or> \<not> list_all (\<lambda>(c, e). new r c = r c) sets)) (T t)
           in if list_ex (\<lambda>(c, e). c \<in> set (concat (unique_keys t))) sets
                \<and> list_ex (\<lambda>i. list_ex (\<lambda>j. clashing E t (rows ! i) (rows ! j)) [0..<i]) [0..<length rows] then Duplicate
              else Done (int (length changed)) (put_rows t rows T)))"

subsection \<open>What a query answers\<close>

text \<open>The columns of a joined row have the name of their table's alias in front.\<close>

definition with_alias :: "string \<Rightarrow> row \<Rightarrow> row" where
  "with_alias alias r = (if alias = [] then r
     else (\<lambda>c. if prefix (alias @ ''.'') c then r (drop (length alias + 1) c) else VNull))"

definition joined_row :: "string \<Rightarrow> row \<Rightarrow> row \<Rightarrow> row" where
  "joined_row alias left r = (\<lambda>c. if prefix (alias @ ''.'') c then r (drop (length alias + 1) c) else left c)"

fun left_joins :: "sql_env \<Rightarrow> tables \<Rightarrow> (string \<times> string \<times> string \<times> string) list \<Rightarrow> row \<Rightarrow> row list" where
  "left_joins E T [] r = [r]"
| "left_joins E T ((table, alias, col, other) # js) r =
     (let partners = filter (\<lambda>p. sql_eq E (p col) (r other)) (T table)
      in concat (map (left_joins E T js) (if partners = [] then [joined_row alias r (\<lambda>_. VNull)] else map (joined_row alias r) partners)))"

definition from_rows :: "sql_env \<Rightarrow> tables \<Rightarrow> sql_select \<Rightarrow> row list" where
  "from_rows E T q = (case se_from q of (table, alias) \<Rightarrow>
     concat (map (\<lambda>r. left_joins E T (se_joins q) (with_alias alias r)) (T table)))"

definition matching_rows :: "sql_env \<Rightarrow> tables \<Rightarrow> sql_select \<Rightarrow> sql_value list \<Rightarrow> row list" where
  "matching_rows E T q args = filter (\<lambda>r. where_sql E (se_where q) r args) (from_rows E T q)"

fun sort_number :: "sql_value \<Rightarrow> int" where
  "sort_number (VInt i) = i"
| "sort_number (VTime t) = t"
| "sort_number v = 0"

fun comes_before :: "string list \<Rightarrow> row \<Rightarrow> row \<Rightarrow> bool" where
  "comes_before [] a b = True"
| "comes_before (c # cs) a b =
     (sort_number (b c) < sort_number (a c) \<or> sort_number (a c) = sort_number (b c) \<and> comes_before cs a b)"

fun column_value :: "row \<Rightarrow> sql_column \<Rightarrow> sql_value" where
  "column_value r (SCol c) = r c"
| "column_value r (SOr c v) = (if r c = VNull then v else r c)"
| "column_value r (SOrCol c d) = (if r c = VNull then r d else r c)"
| "column_value r SCount = VNull"

definition limit_params :: "sql_limit \<Rightarrow> nat" where
  "limit_params l = (case l of LimitOffsetQ \<Rightarrow> 2 | _ \<Rightarrow> 0)"

definition select_params :: "sql_select \<Rightarrow> nat" where
  "select_params q = conds_params (se_where q) + limit_params (se_limit q)"

text \<open>A negative \<open>LIMIT\<close> or \<open>OFFSET\<close> is an error of the statement.\<close>

fun limited :: "sql_limit \<Rightarrow> sql_value list \<Rightarrow> 'a list \<Rightarrow> 'a list option" where
  "limited NoLimit args xs = Some xs"
| "limited Limit1 args xs = Some (take 1 xs)"
| "limited LimitOffsetQ [VInt n, VInt k] xs = (if n < 0 \<or> k < 0 then None else Some (take (nat n) (drop (nat k) xs)))"
| "limited LimitOffsetQ args xs = None"

text \<open>The rows of a query that succeeds: of those in the order asked for any order, cut to the window.\<close>

definition answers_query :: "sql_env \<Rightarrow> tables \<Rightarrow> sql_select \<Rightarrow> sql_value list \<Rightarrow> sql_value list list \<Rightarrow> bool" where
  "answers_query E T q args rows \<longleftrightarrow>
     (if se_cols q = [SCount] then rows = [[VInt (int (length (matching_rows E T q args)))]]
      else \<exists>xs. mset xs = mset (matching_rows E T q args) \<and> sorted_wrt (comes_before (se_order q)) xs
             \<and> limited (se_limit q) (drop (conds_params (se_where q)) args) (map (\<lambda>r. map (column_value r) (se_cols q)) xs) = Some rows)"

subsection \<open>The driver\<close>

text \<open>
  An error has its text, and the number its \<open>Number\<close> method gives, if its type has one (that of go-sql-driver has a field of that name instead).
  A query gives its rows with the error that ended them early, if any. A transaction is between \<open>sd_begin\<close> and the commit or the rollback.
\<close>

datatype sql_err = SqlErr (sql_number: "int option") (sql_text: string) | ErrNoRows

record 'd sql_db =
  sd_exec :: "ctx \<Rightarrow> sql_stmt \<Rightarrow> sql_value list \<Rightarrow> 'd \<Rightarrow> (sql_err + (sql_err + int)) \<times> 'd"
  sd_query :: "ctx \<Rightarrow> sql_select \<Rightarrow> sql_value list \<Rightarrow> 'd \<Rightarrow> sql_err + sql_value list list \<times> sql_err option"
  sd_begin :: "ctx \<Rightarrow> 'd \<Rightarrow> (sql_err + unit) \<times> 'd"
  sd_commit :: "'d \<Rightarrow> (sql_err + unit) \<times> 'd"
  sd_rollback :: "'d \<Rightarrow> 'd"

text \<open>\<open>sql.DB.QueryRow\<close>: the first row, or the error its \<open>Scan\<close> reports.\<close>

definition query_row :: "'d sql_db \<Rightarrow> ctx \<Rightarrow> sql_select \<Rightarrow> sql_value list \<Rightarrow> 'd \<Rightarrow> sql_err + sql_value list" where
  "query_row DB c q args d =
     (case sd_query DB c q args d of
        Inl e \<Rightarrow> Inl e
      | Inr (r # _, err) \<Rightarrow> Inr r
      | Inr ([], Some e) \<Rightarrow> Inl e
      | Inr ([], None) \<Rightarrow> Inl ErrNoRows)"

definition err_text :: "sql_err \<Rightarrow> string" where
  "err_text e = (case e of SqlErr n t \<Rightarrow> t | ErrNoRows \<Rightarrow> ''sql: no rows in result set'')"

text \<open>An error that reports a duplicate key, by its number or by its text.\<close>

definition duplicate_text :: "sql_err \<Rightarrow> bool" where
  "duplicate_text e \<longleftrightarrow> (case e of SqlErr (Some n) _ \<Rightarrow> n = 1062 | _ \<Rightarrow> False)
     \<or> Contains (err_text e) ''Duplicate entry'' \<or> Contains (err_text e) ''duplicate key''"

locale mysql =
  fixes DB :: "'d sql_db" and E :: sql_env and tabs :: "'d \<Rightarrow> tables" and saved :: "'d \<Rightarrow> tables"
  assumes collation: "equivp (me_eq E)" and rounding: "me_time E (me_time E t) = me_time E t"
    and exec_done: "sd_exec DB c s args d = (res, d') \<Longrightarrow> stmt_params s = length args \<Longrightarrow> exec_sql E s args (tabs d) = Done n T' \<Longrightarrow>
      (res = Inr (Inr n) \<and> tabs d' = T' \<or> (\<exists>e. res = Inl e \<and> \<not> duplicate_text e) \<and> tabs d' \<in> {tabs d, T'})"
    and exec_dup: "sd_exec DB c s args d = (res, d') \<Longrightarrow> stmt_params s = length args \<Longrightarrow> exec_sql E s args (tabs d) = Duplicate \<Longrightarrow>
      (\<exists>e. res = Inl e) \<and> tabs d' = tabs d"
    and exec_saved: "sd_exec DB c s args d = (res, d') \<Longrightarrow> saved d' = saved d"
    and query_rows: "sd_query DB c q args d = Inr (rows, err) \<Longrightarrow> select_params q = length args \<Longrightarrow>
      \<exists>more. answers_query E (tabs d) q args (rows @ more) \<and> (err = None \<longrightarrow> more = [])"
    and begin_tx: "sd_begin DB c d = (ok, d') \<Longrightarrow> tabs d' = tabs d \<and> (is_ok ok \<longrightarrow> saved d' = tabs d)"
    and commit_tx: "sd_commit DB d = (ok, d') \<Longrightarrow> tabs d' = tabs d \<or> \<not> is_ok ok \<and> tabs d' = saved d"
    and rollback_tx: "tabs (sd_rollback DB d) = saved d"

text \<open>A server that is reached by every call, and refuses a value neither for its length nor for a foreign key.\<close>

locale mysql_up = mysql +
  assumes exec_up: "sd_exec DB c s args d = (res, d') \<Longrightarrow> stmt_params s = length args \<Longrightarrow>
      (case exec_sql E s args (tabs d) of Done n T' \<Rightarrow> res = Inr (Inr n) | Duplicate \<Rightarrow> (\<exists>e. res = Inl e \<and> duplicate_text e))"
    and query_up: "select_params q = length args \<Longrightarrow> answers_query E (tabs d) q args some \<Longrightarrow> \<exists>rows. sd_query DB c q args d = Inr (rows, None)"
    and begin_up: "is_ok (fst (sd_begin DB c d))"
    and commit_up: "is_ok (fst (sd_commit DB d))"

subsection \<open>Servers\<close>

text \<open>A server that does what the manual says, and one whose statements can get lost (for each one, whether it is run and whether its answer arrives).\<close>

definition duplicate_error :: sql_err where
  "duplicate_error = SqlErr None ''Error 1062 (23000): Duplicate entry for key''"

fun insert_sql :: "string list \<Rightarrow> row \<Rightarrow> row list \<Rightarrow> row list" where
  "insert_sql cs r [] = [r]"
| "insert_sql cs r (x # xs) = (if comes_before cs r x then r # x # xs else x # insert_sql cs r xs)"

definition sort_sql :: "string list \<Rightarrow> row list \<Rightarrow> row list" where
  "sort_sql cs rows = foldr (insert_sql cs) rows []"

definition query_sql :: "sql_env \<Rightarrow> tables \<Rightarrow> sql_select \<Rightarrow> sql_value list \<Rightarrow> sql_value list list option" where
  "query_sql E T q args =
     (let rows = matching_rows E T q args
      in if se_cols q = [SCount] then Some [[VInt (int (length rows))]]
         else limited (se_limit q) (drop (conds_params (se_where q)) args)
                (map (\<lambda>r. map (column_value r) (se_cols q)) (sort_sql (se_order q) rows)))"

lemma comes_before_total: "comes_before cs a b \<or> comes_before cs b a"
  by (induction cs) auto

lemma comes_before_trans: "comes_before cs a b \<Longrightarrow> comes_before cs b c \<Longrightarrow> comes_before cs a c"
  by (induction cs) auto

lemma mset_insert_sql: "mset (insert_sql cs r xs) = add_mset r (mset xs)"
  by (induction xs) auto

lemma sorted_insert_sql: "sorted_wrt (comes_before cs) xs \<Longrightarrow> sorted_wrt (comes_before cs) (insert_sql cs r xs)"
proof (induction xs)
  case (Cons x xs)
  have "set (insert_sql cs r xs) = insert r (set xs)"
    using mset_insert_sql [of cs r xs] by (metis set_mset_add_mset_insert set_mset_mset)
  then show ?case using Cons comes_before_total [of cs r x] by (auto intro: comes_before_trans)
qed simp

lemma sort_sql_sorts: "mset (sort_sql cs rows) = mset rows \<and> sorted_wrt (comes_before cs) (sort_sql cs rows)"
  by (induction rows) (auto simp: sort_sql_def mset_insert_sql sorted_insert_sql)

lemma query_sql_answers: "query_sql E T q args = Some rows \<Longrightarrow> answers_query E T q args rows"
  using sort_sql_sorts by (auto simp: query_sql_def answers_query_def Let_def split: if_splits)

lemma limited_None_length: "length xs = length ys \<Longrightarrow> (limited l args xs = None) = (limited l args ys = None)"
  by (induction l args xs rule: limited.induct) (auto split: if_splits)

lemma answers_query_some: "answers_query E T q args rows \<Longrightarrow> \<exists>rs. query_sql E T q args = Some rs"
proof (cases "se_cols q = [SCount]")
  case False
  assume "answers_query E T q args rows"
  then obtain xs where xs: "mset xs = mset (matching_rows E T q args)"
    "limited (se_limit q) (drop (conds_params (se_where q)) args) (map (\<lambda>r. map (column_value r) (se_cols q)) xs) = Some rows"
    using False by (auto simp: answers_query_def)
  have "length xs = length (sort_sql (se_order q) (matching_rows E T q args))"
    using xs(1) sort_sql_sorts by (metis size_mset)
  then have "limited (se_limit q) (drop (conds_params (se_where q)) args)
      (map (\<lambda>r. map (column_value r) (se_cols q)) (sort_sql (se_order q) (matching_rows E T q args))) \<noteq> None"
    using xs(2) limited_None_length by (metis length_map option.distinct(1))
  then show ?thesis using False by (auto simp: query_sql_def Let_def)
qed (simp add: query_sql_def)

text \<open>The state: what the connection sees, and what is committed.\<close>

type_synonym sql_state = "tables \<times> tables"

definition run_sql :: "sql_env \<Rightarrow> sql_stmt \<Rightarrow> sql_value list \<Rightarrow> sql_state \<Rightarrow> (sql_err + (sql_err + int)) \<times> sql_state" where
  "run_sql E s args d =
     (case exec_sql E s args (fst d) of Duplicate \<Rightarrow> (Inl duplicate_error, d) | Done n T' \<Rightarrow> (Inr (Inr n), T', snd d))"

definition ask_sql :: "sql_env \<Rightarrow> sql_select \<Rightarrow> sql_value list \<Rightarrow> sql_state \<Rightarrow> sql_err + sql_value list list \<times> sql_err option" where
  "ask_sql E q args d =
     (case query_sql E (fst d) q args of None \<Rightarrow> Inl (SqlErr None ''Error 1064 (42000)'') | Some rows \<Rightarrow> Inr (rows, None))"

definition mysql_reference :: "sql_env \<Rightarrow> sql_state sql_db" where
  "mysql_reference E = \<lparr>sd_exec = (\<lambda>c. run_sql E), sd_query = (\<lambda>c. ask_sql E),
     sd_begin = (\<lambda>c d. (Inr (), fst d, fst d)), sd_commit = (\<lambda>d. (Inr (), d)), sd_rollback = (\<lambda>d. (snd d, snd d))\<rparr>"

text \<open>Only settings with a collation that is an equivalence and a rounding that rounds once can be a server's.\<close>

definition sane_env :: "sql_env \<Rightarrow> bool" where
  "sane_env E \<longleftrightarrow> equivp (me_eq E) \<and> (\<forall>t. me_time E (me_time E t) = me_time E t)"

lemma duplicate_error_text: "duplicate_text duplicate_error"
  by code_simp

lemma mysql_reference_up: "sane_env E \<Longrightarrow> mysql_up (mysql_reference E) E fst snd"
  by unfold_locales
    (auto simp: sane_env_def mysql_reference_def run_sql_def ask_sql_def duplicate_error_text
      dest: query_sql_answers answers_query_some split: sql_effect.splits option.splits)

text \<open>
  A setting for the interpretations: bytes compared as they are, microseconds, and JSON texts kept. \<open>LIKE\<close> with a literal between two percent signs.
\<close>

definition binary_env :: sql_env where
  "binary_env = \<lparr>me_eq = (=), me_time = (\<lambda>t. t div 1000 * 1000), me_json = (\<lambda>s. s),
     me_like = (\<lambda>s p. Contains s (butlast (tl p))), me_search = (\<lambda>s p. Contains s p), me_found = False\<rparr>"

lemma sane_binary_env: "sane_env binary_env"
  by (simp add: sane_env_def binary_env_def identity_equivp)

text \<open>A server whose collation ignores the case of letters.\<close>

definition folding_env :: sql_env where
  "folding_env = binary_env\<lparr>me_eq := (\<lambda>a b. ToLower a = ToLower b)\<rparr>"

lemma sane_folding_env: "sane_env folding_env"
  unfolding sane_env_def folding_env_def binary_env_def
  by (auto intro!: equivpI reflpI sympI transpI)

interpretation binary: mysql_up "mysql_reference binary_env" binary_env fst snd
  by (rule mysql_reference_up [OF sane_binary_env])

definition lost :: sql_err where "lost = SqlErr None ''invalid connection''"

definition mysql_lossy :: "sql_env \<Rightarrow> (sql_state \<times> (bool \<times> bool) list) sql_db" where
  "mysql_lossy E = \<lparr>
     sd_exec = (\<lambda>c s args (d, ls).
       case ls of
         [] \<Rightarrow> (case run_sql E s args d of (res, d') \<Rightarrow> (res, d', []))
       | (runs, arrives) # ls \<Rightarrow>
           (case run_sql E s args d of (res, d') \<Rightarrow>
             if runs \<and> arrives then (res, d', ls) else (Inl lost, if runs then d' else d, ls))),
     sd_query = (\<lambda>c q args (d, ls). case ls of (False, _) # _ \<Rightarrow> Inl lost | _ \<Rightarrow> ask_sql E q args d),
     sd_begin = (\<lambda>c (d, ls). (Inr (), (fst d, fst d), ls)),
     sd_commit = (\<lambda>(d, ls). case ls of
         [] \<Rightarrow> (Inr (), d, [])
       | (runs, arrives) # ls \<Rightarrow> (if runs \<and> arrives then Inr () else Inl lost, if runs then d else (snd d, snd d), ls)),
     sd_rollback = (\<lambda>(d, ls). ((snd d, snd d), ls))\<rparr>"

lemma lost_text: "\<not> duplicate_text lost"
  by code_simp

interpretation lossy_sql: mysql "mysql_lossy binary_env" binary_env "\<lambda>x. fst (fst x)" "\<lambda>x. snd (fst x)"
proof
  show "equivp (me_eq binary_env)" "\<And>t. me_time binary_env (me_time binary_env t) = me_time binary_env t"
    using sane_binary_env by (simp_all add: sane_env_def)
next
  fix c q args d rows err
  assume "sd_query (mysql_lossy binary_env) c q args d = Inr (rows, err)"
  then show "\<exists>more. answers_query binary_env (fst (fst d)) q args (rows @ more) \<and> (err = None \<longrightarrow> more = [])"
    by (auto simp: mysql_lossy_def ask_sql_def dest: query_sql_answers split: list.splits prod.splits bool.splits option.splits)
qed (auto simp: mysql_lossy_def run_sql_def lost_text split: list.splits prod.splits if_splits sql_effect.splits)

subsection \<open>Reading a row\<close>

text \<open>
  \<open>Scan\<close> converts a column to the type of its destination. The columns have the types of the schema and the driver parses
  \<open>DATETIME\<close>; a NULL into a destination that is not a \<open>sql.Null\<close> type is an error, whose text is abbreviated here.
\<close>

definition scan_error :: "string \<Rightarrow> sql_err" where
  "scan_error kind = SqlErr None (''sql: Scan error: unsupported Scan into '' @ kind)"

fun scan_string :: "sql_value \<Rightarrow> sql_err + string" where
  "scan_string (VStr s) = Inr s"
| "scan_string v = Inl (scan_error ''string'')"

fun scan_number :: "sql_value \<Rightarrow> sql_err + int" where
  "scan_number (VInt i) = Inr i"
| "scan_number v = Inl (scan_error ''int'')"

fun scan_bool :: "sql_value \<Rightarrow> sql_err + bool" where
  "scan_bool (VInt i) = (if i = 1 then Inr True else if i = 0 then Inr False else Inl (scan_error ''bool''))"
| "scan_bool v = Inl (scan_error ''bool'')"

fun scan_time :: "sql_value \<Rightarrow> sql_err + time" where
  "scan_time (VTime t) = Inr t"
| "scan_time v = Inl (scan_error ''time'')"

text \<open>\<open>sql.NullTime\<close>, \<open>sql.NullString\<close>, and a byte slice, which NULL makes nil.\<close>

fun scan_null_time :: "sql_value \<Rightarrow> sql_err + time option" where
  "scan_null_time VNull = Inr None"
| "scan_null_time (VTime t) = Inr (Some t)"
| "scan_null_time v = Inl (scan_error ''time'')"

fun scan_null_string :: "sql_value \<Rightarrow> sql_err + string option" where
  "scan_null_string VNull = Inr None"
| "scan_null_string (VStr s) = Inr (Some s)"
| "scan_null_string v = Inl (scan_error ''string'')"

fun scan_bytes :: "sql_value \<Rightarrow> sql_err + string" where
  "scan_bytes VNull = Inr []"
| "scan_bytes (VStr s) = Inr s"
| "scan_bytes v = Inl (scan_error ''bytes'')"

text \<open>The columns and the destinations differ in number.\<close>

definition scan_count :: sql_err where
  "scan_count = SqlErr None ''sql: wrong number of destination arguments in Scan''"

text \<open>Arguments: \<open>nullableString\<close> of the packages plans and travel, \<open>nullableTime\<close> of the package auth.\<close>

definition nullableString :: "string \<Rightarrow> sql_value" where
  "nullableString value = (if value = [] then VNull else VStr value)"

definition nullableTime :: "time option \<Rightarrow> sql_value" where
  "nullableTime t = (case t of None \<Rightarrow> VNull | Some t \<Rightarrow> if IsZero t then VNull else VTime t)"

subsection \<open>Facts the stores share\<close>

lemma sql_eq_VStr: "sql_eq E v (VStr s) \<longleftrightarrow> (\<exists>a. v = VStr a \<and> me_eq E a s)"
  by (cases v) auto

lemma first_index_None: "first_index P xs = None \<longleftrightarrow> \<not> list_ex P xs"
  by (induction xs) auto

lemma first_index_Some: "first_index P xs = Some i \<Longrightarrow> i < length xs \<and> P (xs ! i)"
  by (induction xs arbitrary: i) (auto split: if_splits)

lemma clash_index_None:
  "clash_index E keys new rows = None \<longleftrightarrow> \<not> list_ex (\<lambda>r. list_ex (clash E r new) keys) rows"
proof (induction keys)
  case (Cons key keys)
  show ?case
  proof (cases "first_index (\<lambda>r. clash E r new key) rows")
    case None
    then show ?thesis using Cons first_index_None [of "\<lambda>r. clash E r new key" rows] by (auto simp: list_ex_iff)
  next
    case (Some i)
    then show ?thesis using first_index_Some [OF Some] by (auto simp: list_ex_iff intro!: bexI [of _ "rows ! i"])
  qed
qed (simp add: list_ex_iff)

lemma clash_index_Some:
  "clash_index E keys new rows = Some i \<Longrightarrow> i < length rows \<and> list_ex (clash E (rows ! i) new) keys"
  by (induction keys) (auto dest: first_index_Some split: option.splits)

lemma clash_index_clashing:
  "clash_index E (unique_keys t) new rows = None \<longleftrightarrow> \<not> list_ex (\<lambda>r. clashing E t r new) rows"
  by (simp add: clash_index_None clashing_def)

text \<open>A plain insert adds its row, which clashes with none, or is refused for a row it clashes with.\<close>

lemma exec_insert:
  "exec_sql E (InsertInto t cols es []) args T =
     (if list_ex (\<lambda>r. clashing E t r (inserted_row E t cols es args)) (T t) then Duplicate
      else Done 1 (T(t := T t @ [inserted_row E t cols es args])))"
  using clash_index_clashing [of E t "inserted_row E t cols es args" "T t"]
  by (auto simp: exec_sql_def Let_def put_rows_def split: option.splits)

text \<open>An update that assigns no column of a unique index, and changes every row it finds.\<close>

definition updated_row :: "sql_env \<Rightarrow> (string \<times> sql_expr) list \<Rightarrow> sql_cond list \<Rightarrow> sql_value list \<Rightarrow> row \<Rightarrow> row" where
  "updated_row E sets cs args r =
     (if where_sql E cs r (drop (sum_list (map (expr_params \<circ> snd) sets)) args) then fst (assign_sql E sets r args) else r)"

text \<open>The rows an update counts.\<close>

definition counted_rows :: "sql_env \<Rightarrow> (string \<times> sql_expr) list \<Rightarrow> sql_cond list \<Rightarrow> sql_value list \<Rightarrow> row list \<Rightarrow> row list" where
  "counted_rows E sets cs args rows = filter (\<lambda>r. where_sql E cs r (drop (sum_list (map (expr_params \<circ> snd) sets)) args)
     \<and> (me_found E \<or> \<not> list_all (\<lambda>(c, e). updated_row E sets cs args r c = r c) sets)) rows"

lemma exec_update_counts:
  assumes "list_all (\<lambda>(c, e). c \<notin> set (concat (unique_keys t))) sets"
  shows "exec_sql E (UpdateSet t sets cs) args T
    = Done (int (length (counted_rows E sets cs args (T t)))) (T(t := map (updated_row E sets cs args) (T t)))"
proof -
  have "\<not> list_ex (\<lambda>(c, e). c \<in> set (concat (unique_keys t))) sets"
    using assms by (auto simp: list_all_iff list_ex_iff)
  then show ?thesis
    by (simp add: exec_sql_def Let_def put_rows_def updated_row_def [abs_def] counted_rows_def del: concat.simps)
qed

lemma exec_update:
  assumes "list_all (\<lambda>(c, e). c \<notin> set (concat (unique_keys t))) sets"
  shows "\<exists>n. exec_sql E (UpdateSet t sets cs) args T = Done n (T(t := map (updated_row E sets cs args) (T t)))
    \<and> 0 \<le> n \<and> n \<le> int (length (filter (\<lambda>r. where_sql E cs r (drop (sum_list (map (expr_params \<circ> snd) sets)) args)) (T t)))"
proof -
  have "length (filter (\<lambda>r. P r \<and> R r) xs) \<le> length (filter P xs)" for P R and xs :: "row list"
    by (induction xs) auto
  then show ?thesis by (simp add: exec_update_counts [OF assms] counted_rows_def)
qed

text \<open>The answer of a server that is reached.\<close>

lemma update_up:
  assumes "mysql_up DB E tabs saved" "sd_exec DB c (UpdateSet t sets cs) args d = (a, d')"
    and "sum_list (map (expr_params \<circ> snd) sets) + conds_params cs = length args"
    and "list_all (\<lambda>(c, e). c \<notin> set (concat (unique_keys t))) sets"
  shows "a = Inr (Inr (int (length (counted_rows E sets cs args (tabs d t)))))
    \<and> tabs d' = (tabs d)(t := map (updated_row E sets cs args) (tabs d t))"
proof -
  have n: "stmt_params (UpdateSet t sets cs) = length args" using assms(3) by simp
  note eff = exec_update_counts [OF assms(4), of E cs args "tabs d"]
  have "a = Inr (Inr (int (length (counted_rows E sets cs args (tabs d t)))))"
    using mysql_up.exec_up [OF assms(1,2) n] by (simp add: eff)
  then show ?thesis using mysql.exec_done [OF mysql_up.axioms(1) [OF assms(1)] assms(2) n eff] by auto
qed

text \<open>What an update through the driver leaves, whether or not it is heard of.\<close>

lemma update_step:
  assumes "mysql DB E tabs saved" "sd_exec DB c (UpdateSet t sets cs) args d = (a, d')"
    and "sum_list (map (expr_params \<circ> snd) sets) + conds_params cs = length args"
    and "list_all (\<lambda>(c, e). c \<notin> set (concat (unique_keys t))) sets"
  shows "(\<not> is_ok a \<and> tabs d' = tabs d) \<or> tabs d' = (tabs d)(t := map (updated_row E sets cs args) (tabs d t))"
proof -
  define T' where "T' = (tabs d)(t := map (updated_row E sets cs args) (tabs d t))"
  obtain n where n: "exec_sql E (UpdateSet t sets cs) args (tabs d) = Done n T'"
    using exec_update [OF assms(4), of E cs args "tabs d"] unfolding T'_def by blast
  have "stmt_params (UpdateSet t sets cs) = length args" using assms(3) by simp
  from mysql.exec_done [OF assms(1,2) this n] show ?thesis unfolding T'_def by auto
qed

text \<open>What a plain insert through the driver leaves.\<close>

lemma insert_step:
  assumes "mysql DB E tabs saved" "sd_exec DB c (InsertInto t cols es []) args d = (a, d')"
    and "sum_list (map expr_params es) = length args"
  shows "(\<not> is_ok a \<and> tabs d' = tabs d)
    \<or> \<not> list_ex (\<lambda>r. clashing E t r (inserted_row E t cols es args)) (tabs d t)
      \<and> tabs d' = (tabs d)(t := tabs d t @ [inserted_row E t cols es args])"
proof -
  define clash where "clash \<longleftrightarrow> list_ex (\<lambda>r. clashing E t r (inserted_row E t cols es args)) (tabs d t)"
  define T' where "T' = (tabs d)(t := tabs d t @ [inserted_row E t cols es args])"
  have eff: "exec_sql E (InsertInto t cols es []) args (tabs d) = (if clash then Duplicate else Done 1 T')"
    by (simp only: exec_insert clash_def T'_def)
  have n: "stmt_params (InsertInto t cols es []) = length args" using assms(3) by simp
  have "\<not> is_ok a \<and> tabs d' = tabs d \<or> \<not> clash \<and> tabs d' = T'"
  proof (cases clash)
    case True
    then show ?thesis using mysql.exec_dup [OF assms(1,2) n] eff by auto
  next
    case False
    then show ?thesis using mysql.exec_done [OF assms(1,2) n, of 1 T'] eff by auto
  qed
  then show ?thesis unfolding clash_def T'_def .
qed

text \<open>Every row of an answer is one of the rows asked for.\<close>

lemma limited_subset: "limited l a ys = Some zs \<Longrightarrow> set zs \<subseteq> set ys"
  by (induction l a ys rule: limited.induct) (auto split: if_splits dest: in_set_takeD in_set_dropD)

lemma query_law:
  assumes "mysql DB E tabs saved" "sd_query DB c q args d = Inr (rows, err)" "select_params q = length args" "se_cols q \<noteq> [SCount]"
    and "v \<in> set rows"
  shows "\<exists>x \<in> set (matching_rows E (tabs d) q args). v = map (column_value x) (se_cols q)"
proof -
  obtain more where "answers_query E (tabs d) q args (rows @ more)"
    using mysql.query_rows [OF assms(1,2,3)] by blast
  then obtain xs where xs: "mset xs = mset (matching_rows E (tabs d) q args)"
    "limited (se_limit q) (drop (conds_params (se_where q)) args) (map (\<lambda>r. map (column_value r) (se_cols q)) xs) = Some (rows @ more)"
    using assms(4) by (auto simp: answers_query_def)
  have "v \<in> set (map (\<lambda>r. map (column_value r) (se_cols q)) xs)"
    using limited_subset [OF xs(2)] assms(5) by auto
  then show ?thesis using xs(1) by (metis (no_types, lifting) image_iff image_set set_mset_mset)
qed

lemma query_row_law:
  assumes "mysql DB E tabs saved" "query_row DB c q args d = Inr r" "select_params q = length args" "se_cols q \<noteq> [SCount]"
  shows "\<exists>x \<in> set (matching_rows E (tabs d) q args). r = map (column_value x) (se_cols q)"
proof -
  obtain rs err where q: "sd_query DB c q args d = Inr (r # rs, err)"
    using assms(2) by (auto simp: query_row_def split: sum.splits list.splits option.splits)
  show ?thesis using query_law [OF assms(1) q assms(3,4)] by simp
qed

text \<open>A query for at most one row finds the only row there is, and says so when there is none.\<close>

lemma query_row_up:
  assumes "mysql_up DB E tabs saved" "select_params q = length args" "se_cols q \<noteq> [SCount]" "se_limit q \<in> {NoLimit, Limit1}"
  shows "matching_rows E (tabs d) q args = [] \<Longrightarrow> query_row DB c q args d = Inl ErrNoRows"
    and "matching_rows E (tabs d) q args \<noteq> [] \<Longrightarrow> \<exists>r. query_row DB c q args d = Inr r"
proof -
  note law = mysql.query_rows [OF mysql_up.axioms(1) [OF assms(1)]]
  have some: "\<exists>rows. query_sql E (tabs d) q args = Some rows"
    using assms(3,4) by (auto simp: query_sql_def Let_def)
  then obtain rows where rows: "sd_query DB c q args d = Inr (rows, None)"
    using mysql_up.query_up [OF assms(1,2)] query_sql_answers by blast
  obtain more where "answers_query E (tabs d) q args rows"
    using law [OF rows assms(2)] by auto
  then obtain xs where xs: "mset xs = mset (matching_rows E (tabs d) q args)"
    "limited (se_limit q) (drop (conds_params (se_where q)) args) (map (\<lambda>r. map (column_value r) (se_cols q)) xs) = Some rows"
    using assms(3) by (auto simp: answers_query_def)
  have "rows = [] \<longleftrightarrow> matching_rows E (tabs d) q args = []"
    using xs assms(4) by auto
  then show "matching_rows E (tabs d) q args = [] \<Longrightarrow> query_row DB c q args d = Inl ErrNoRows"
    and "matching_rows E (tabs d) q args \<noteq> [] \<Longrightarrow> \<exists>r. query_row DB c q args d = Inr r"
    using rows by (auto simp: query_row_def split: list.splits)
qed

end
