(* ===== verification/MySQLAuth.thy ===== *)
theory MySQLAuth
  imports Auth Sql
begin

section \<open>Accounts and sessions in MySQL\<close>

text \<open>
  internal/auth/mysql\_store.go: the user store and the session store over a server that is a parameter. The statements have
  the columns and arguments of the source, in its order.
\<close>

subsection \<open>Errors\<close>

definition contains :: "string \<Rightarrow> string \<Rightarrow> bool" where
  "contains haystack needle =
     (if length needle = 0 then True
      else if length haystack < length needle then False
      else list_ex (\<lambda>i. take (length needle) (drop i haystack) = needle) [0..<length haystack - length needle + 1])"

definition isDuplicateKeyError :: "sql_err \<Rightarrow> bool" where
  "isDuplicateKeyError e =
     (if (case e of SqlErr (Some n) _ \<Rightarrow> n = 1062 | _ \<Rightarrow> False) then True
      else contains (err_text e) ''Duplicate entry'' \<or> contains (err_text e) ''duplicate key'')"

definition auth_backend :: "string \<Rightarrow> sql_err \<Rightarrow> auth_err" where
  "auth_backend what e = ErrAuthBackend (what @ '': '' @ err_text e)"

subsection \<open>MySQLUserStore\<close>

definition insert_user :: sql_stmt where
  "insert_user = InsertInto ''users''
     [''id'', ''email'', ''display_name'', ''password_hash'', ''status'', ''created_at'', ''updated_at'']
     [Q, Q, Q, Q, Q, Q, Q] []"

definition MySQLUserStore_Create :: "'d sql_db \<Rightarrow> ctx \<Rightarrow> User \<Rightarrow> 'd \<Rightarrow> (auth_err + unit) \<times> 'd" where
  "MySQLUserStore_Create DB c user d =
     (case sd_exec DB c insert_user
        [VStr (us_ID user), VStr (us_Email user), VStr (us_DisplayName user), VStr (us_PasswordHash user),
         VStr (us_Status user), VTime (us_CreatedAt user), VTime (us_UpdatedAt user)] d of
        (Inl e, d') \<Rightarrow> (Inl (if isDuplicateKeyError e then ErrEmailExists else auth_backend ''insert user'' e), d')
      | (Inr _, d') \<Rightarrow> (Inr (), d'))"

definition select_user :: "string \<Rightarrow> sql_select" where
  "select_user by =
     \<lparr>se_cols = [SCol ''id'', SCol ''email'', SCol ''display_name'', SCol ''password_hash'', SCol ''status'', SCol ''created_at'', SCol ''updated_at''],
      se_from = (''users'', []), se_joins = [], se_where = [IsQ by], se_order = [], se_limit = NoLimit\<rparr>"

fun scan_user_row :: "sql_value list \<Rightarrow> sql_err + User" where
  "scan_user_row [a, b, c, d, e, f, g] =
     and_then (scan_string a) (\<lambda>i. and_then (scan_string b) (\<lambda>email. and_then (scan_string c) (\<lambda>name.
     and_then (scan_string d) (\<lambda>pw. and_then (scan_string e) (\<lambda>status. and_then (scan_time f) (\<lambda>created.
     and_then (scan_time g) (\<lambda>updated.
       Inr \<lparr>us_ID = i, us_Email = email, us_DisplayName = name, us_PasswordHash = pw, us_Status = status,
            us_CreatedAt = created, us_UpdatedAt = updated\<rparr>)))))))"
| "scan_user_row vs = Inl scan_count"

definition scanUser :: "sql_err + sql_value list \<Rightarrow> auth_err + User" where
  "scanUser row =
     (case and_then row scan_user_row of
        Inl e \<Rightarrow> Inl (if e = ErrNoRows then ErrUserNotFound else auth_backend ''scan user'' e)
      | Inr user \<Rightarrow> Inr user)"

definition MySQLUserStore_GetByID :: "'d sql_db \<Rightarrow> ctx \<Rightarrow> string \<Rightarrow> 'd \<Rightarrow> auth_err + User" where
  "MySQLUserStore_GetByID DB c i d = scanUser (query_row DB c (select_user ''id'') [VStr i] d)"

definition MySQLUserStore_GetByEmail :: "'d sql_db \<Rightarrow> ctx \<Rightarrow> string \<Rightarrow> 'd \<Rightarrow> auth_err + User" where
  "MySQLUserStore_GetByEmail DB c email d = scanUser (query_row DB c (select_user ''email'') [VStr email] d)"

definition MySQLUserStore_ops :: "'d sql_db \<Rightarrow> 'd UserStore" where
  "MySQLUserStore_ops DB = \<lparr>ust_Create = MySQLUserStore_Create DB, ust_GetByID = MySQLUserStore_GetByID DB,
     ust_GetByEmail = MySQLUserStore_GetByEmail DB\<rparr>"

subsection \<open>MySQLSessionStore\<close>

definition insert_session :: sql_stmt where
  "insert_session = InsertInto ''user_sessions''
     [''id'', ''user_id'', ''token_hash'', ''expires_at'', ''created_at'', ''revoked_at''] [Q, Q, Q, Q, Q, Q] []"

definition MySQLSessionStore_Create :: "'d sql_db \<Rightarrow> ctx \<Rightarrow> Session \<Rightarrow> 'd \<Rightarrow> (auth_err + unit) \<times> 'd" where
  "MySQLSessionStore_Create DB c session d =
     (case sd_exec DB c insert_session
        [VStr (ss_ID session), VStr (ss_UserID session), VStr (ss_TokenHash session), VTime (ss_ExpiresAt session),
         VTime (ss_CreatedAt session), nullableTime (ss_RevokedAt session)] d of
        (Inl e, d') \<Rightarrow> (Inl (auth_backend ''insert session'' e), d')
      | (Inr _, d') \<Rightarrow> (Inr (), d'))"

definition select_session :: sql_select where
  "select_session =
     \<lparr>se_cols = [SCol ''id'', SCol ''user_id'', SCol ''token_hash'', SCol ''expires_at'', SCol ''created_at'', SCol ''revoked_at''],
      se_from = (''user_sessions'', []), se_joins = [], se_where = [IsQ ''token_hash''], se_order = [], se_limit = NoLimit\<rparr>"

fun scan_session_row :: "sql_value list \<Rightarrow> sql_err + Session" where
  "scan_session_row [a, b, c, d, e, f] =
     and_then (scan_string a) (\<lambda>i. and_then (scan_string b) (\<lambda>user. and_then (scan_string c) (\<lambda>token.
     and_then (scan_time d) (\<lambda>expires. and_then (scan_time e) (\<lambda>created. and_then (scan_null_time f) (\<lambda>revoked.
       Inr \<lparr>ss_ID = i, ss_UserID = user, ss_TokenHash = token, ss_ExpiresAt = expires, ss_CreatedAt = created,
            ss_RevokedAt = revoked\<rparr>))))))"
| "scan_session_row vs = Inl scan_count"

definition MySQLSessionStore_GetByTokenHash :: "'d sql_db \<Rightarrow> ctx \<Rightarrow> string \<Rightarrow> 'd \<Rightarrow> auth_err + Session" where
  "MySQLSessionStore_GetByTokenHash DB c tokenHash d =
     (case and_then (query_row DB c select_session [VStr tokenHash] d) scan_session_row of
        Inl e \<Rightarrow> Inl (if e = ErrNoRows then ErrSessionNotFound else auth_backend ''scan session'' e)
      | Inr session \<Rightarrow> Inr session)"

definition revoke_session :: sql_stmt where
  "revoke_session = UpdateSet ''user_sessions'' [(''revoked_at'', Q)] [IsQ ''token_hash'', IsNull ''revoked_at'']"

definition MySQLSessionStore_Revoke :: "'d sql_db \<Rightarrow> ctx \<Rightarrow> string \<Rightarrow> time \<Rightarrow> 'd \<Rightarrow> (auth_err + unit) \<times> 'd" where
  "MySQLSessionStore_Revoke DB c tokenHash revokedAt d =
     (case sd_exec DB c revoke_session [VTime revokedAt, VStr tokenHash] d of
        (Inl e, d') \<Rightarrow> (Inl (auth_backend ''revoke session'' e), d')
      | (Inr affected, d') \<Rightarrow> (if affected = Inr 0 then Inl ErrSessionNotFound else Inr (), d'))"

definition MySQLSessionStore_ops :: "'d sql_db \<Rightarrow> 'd SessionStore" where
  "MySQLSessionStore_ops DB = \<lparr>sst_Create = MySQLSessionStore_Create DB,
     sst_GetByTokenHash = MySQLSessionStore_GetByTokenHash DB, sst_Revoke = MySQLSessionStore_Revoke DB\<rparr>"

lemma contains_iff: "contains s t \<longleftrightarrow> Contains s t"
proof
  assume "contains s t"
  then have "t = [] \<or> (\<exists>i. take (length t) (drop i s) = t)" by (auto simp: contains_def list_ex_iff split: if_splits) (metis order_refl take_all)
  then show "Contains s t"
    by (metis Contains_def append_take_drop_id sublist_Nil_left sublist_appendI)
next
  assume "Contains s t"
  then obtain u v where s: "s = u @ t @ v" by (auto simp: Contains_def sublist_def)
  then have "take (length t) (drop (length u) s) = t" "length u \<in> set [0..<length s - length t + 1]" "\<not> length s < length t" by auto
  then show "contains s t" by (simp only: contains_def list_ex_iff if_False) (auto intro: bexI [of _ "length u"])
qed

lemma isDuplicateKeyError_iff: "isDuplicateKeyError e \<longleftrightarrow> duplicate_text e"
  by (auto simp: isDuplicateKeyError_def duplicate_text_def contains_iff)

subsection \<open>Revocation is final\<close>

text \<open>The other calls that change sessions: creations and revocations, of any session.\<close>

datatype session_call = CreateSession Session | RevokeSession string time

fun session_calls :: "'d sql_db \<Rightarrow> (ctx \<times> session_call) list \<Rightarrow> 'd \<Rightarrow> 'd" where
  "session_calls DB [] d = d"
| "session_calls DB ((c, CreateSession x) # cs) d = session_calls DB cs (snd (MySQLSessionStore_Create DB c x d))"
| "session_calls DB ((c, RevokeSession h t) # cs) d = session_calls DB cs (snd (MySQLSessionStore_Revoke DB c h t d))"

definition revoked_rows :: "sql_env \<Rightarrow> string \<Rightarrow> tables \<Rightarrow> bool" where
  "revoked_rows E h T \<longleftrightarrow>
     list_ex (\<lambda>r. sql_eq E (r ''token_hash'') (VStr h)) (T ''user_sessions'')
   \<and> list_all (\<lambda>r. sql_eq E (r ''token_hash'') (VStr h) \<longrightarrow> r ''revoked_at'' \<noteq> VNull) (T ''user_sessions'')"

definition session_row :: "sql_env \<Rightarrow> Session \<Rightarrow> row" where
  "session_row E x = inserted_row E ''user_sessions''
     [''id'', ''user_id'', ''token_hash'', ''expires_at'', ''created_at'', ''revoked_at''] [Q, Q, Q, Q, Q, Q]
     [VStr (ss_ID x), VStr (ss_UserID x), VStr (ss_TokenHash x), VTime (ss_ExpiresAt x), VTime (ss_CreatedAt x), nullableTime (ss_RevokedAt x)]"

lemma session_row_token: "session_row E x ''token_hash'' = VStr (ss_TokenHash x)"
  by (simp add: session_row_def inserted_row_def is_json_def suffix_def)

lemma session_keys: "unique_keys ''user_sessions'' = [[''id''], [''token_hash'']]"
  by (simp add: unique_keys_def)

lemma insert_keeps_revoked:
  assumes "equivp (me_eq E)" "revoked_rows E h T"
    and "\<not> list_ex (\<lambda>r. clashing E ''user_sessions'' r (session_row E x)) (T ''user_sessions'')"
  shows "revoked_rows E h (T(''user_sessions'' := T ''user_sessions'' @ [session_row E x]))"
proof -
  have "\<not> me_eq E (ss_TokenHash x) h"
  proof
    assume h: "me_eq E (ss_TokenHash x) h"
    obtain r a where r: "r \<in> set (T ''user_sessions'')" "r ''token_hash'' = VStr a" "me_eq E a h"
      using assms(2) by (auto simp: revoked_rows_def list_ex_iff sql_eq_VStr)
    have "me_eq E a (ss_TokenHash x)" using r(3) h assms(1) by (meson equivp_symp equivp_transp)
    then have "clashing E ''user_sessions'' r (session_row E x)"
      using r(2) by (simp add: clashing_def clash_def session_keys session_row_token)
    then show False using assms(3) r(1) by (auto simp: list_ex_iff)
  qed
  then show ?thesis using assms(2) by (auto simp: revoked_rows_def session_row_token)
qed

lemma update_keeps_revoked:
  assumes "revoked_rows E h T"
  shows "revoked_rows E h (T(''user_sessions'' :=
     map (updated_row E [(''revoked_at'', Q)] [IsQ ''token_hash'', IsNull ''revoked_at''] [VTime t, VStr h']) (T ''user_sessions'')))"
  using assms by (auto simp: revoked_rows_def list_ex_iff list_all_iff updated_row_def)

lemma revoked_after_update:
  assumes "r \<in> set (T ''user_sessions'')" "sql_eq E (r ''token_hash'') (VStr h)"
  shows "revoked_rows E h (T(''user_sessions'' :=
     map (updated_row E [(''revoked_at'', Q)] [IsQ ''token_hash'', IsNull ''revoked_at''] [VTime t, VStr h]) (T ''user_sessions'')))"
proof -
  let ?u = "updated_row E [(''revoked_at'', Q)] [IsQ ''token_hash'', IsNull ''revoked_at''] [VTime t, VStr h]"
  have u: "?u x ''token_hash'' = x ''token_hash''" "sql_eq E (x ''token_hash'') (VStr h) \<Longrightarrow> ?u x ''revoked_at'' \<noteq> VNull" for x
    by (simp_all add: updated_row_def)
  show ?thesis
    using assms u by (auto simp: revoked_rows_def list_ex_iff list_all_iff)
qed

lemma create_session_step:
  assumes "mysql DB E tabs saved" "MySQLSessionStore_Create DB c x d = (res, d')"
  shows "tabs d' = tabs d \<and> \<not> is_ok res
    \<or> \<not> list_ex (\<lambda>r. clashing E ''user_sessions'' r (session_row E x)) (tabs d ''user_sessions'')
      \<and> tabs d' = (tabs d)(''user_sessions'' := tabs d ''user_sessions'' @ [session_row E x])"
proof -
  obtain a where a: "sd_exec DB c insert_session [VStr (ss_ID x), VStr (ss_UserID x), VStr (ss_TokenHash x), VTime (ss_ExpiresAt x),
         VTime (ss_CreatedAt x), nullableTime (ss_RevokedAt x)] d = (a, d')"
    "res = (case a of Inl e \<Rightarrow> Inl (auth_backend ''insert session'' e) | Inr _ \<Rightarrow> Inr ())"
    using assms(2) by (auto simp: MySQLSessionStore_Create_def split: prod.splits sum.splits)
  have n: "sum_list (map expr_params [Q, Q, Q, Q, Q, Q]) = length [VStr (ss_ID x), VStr (ss_UserID x), VStr (ss_TokenHash x),
      VTime (ss_ExpiresAt x), VTime (ss_CreatedAt x), nullableTime (ss_RevokedAt x)]" by simp
  show ?thesis
    using insert_step [OF assms(1) a(1) [unfolded insert_session_def] n] a(2) unfolding session_row_def [symmetric] by (cases a) simp_all
qed

lemma revoke_session_step:
  assumes "mysql DB E tabs saved" "MySQLSessionStore_Revoke DB c h t d = (res, d')"
  shows "(tabs d' = tabs d \<or> tabs d' = (tabs d)(''user_sessions'' :=
      map (updated_row E [(''revoked_at'', Q)] [IsQ ''token_hash'', IsNull ''revoked_at''] [VTime t, VStr h]) (tabs d ''user_sessions'')))
    \<and> (is_ok res \<longrightarrow> revoked_rows E h (tabs d'))"
proof -
  obtain a where a: "sd_exec DB c revoke_session [VTime t, VStr h] d = (a, d')"
    "res = (case a of Inl e \<Rightarrow> Inl (auth_backend ''revoke session'' e) | Inr affected \<Rightarrow> if affected = Inr 0 then Inl ErrSessionNotFound else Inr ())"
    using assms(2) by (auto simp: MySQLSessionStore_Revoke_def split: prod.splits sum.splits)
  have n: "stmt_params revoke_session = length [VTime t, VStr h]" by (simp add: revoke_session_def conds_params_def)
  have keys: "list_all (\<lambda>(c, e). c \<notin> set (concat (unique_keys ''user_sessions''))) [(''revoked_at'', Q)]"
    by (simp add: session_keys)
  define T' where "T' = (tabs d)(''user_sessions'' :=
      map (updated_row E [(''revoked_at'', Q)] [IsQ ''token_hash'', IsNull ''revoked_at''] [VTime t, VStr h]) (tabs d ''user_sessions''))"
  let ?hits = "filter (\<lambda>r. sql_eq E (r ''token_hash'') (VStr h) \<and> r ''revoked_at'' = VNull) (tabs d ''user_sessions'')"
  obtain k where k: "exec_sql E revoke_session [VTime t, VStr h] (tabs d) = Done k T'" "0 \<le> k"
    and found: "k \<le> int (length (filter (\<lambda>r. where_sql E [IsQ ''token_hash'', IsNull ''revoked_at''] r
      (drop (sum_list (map (expr_params \<circ> snd) [(''revoked_at'', Q)])) [VTime t, VStr h])) (tabs d ''user_sessions'')))"
    using exec_update [OF keys, of E "[IsQ ''token_hash'', IsNull ''revoked_at'']" "[VTime t, VStr h]" "tabs d"]
    unfolding revoke_session_def T'_def by blast
  have k2: "k \<le> int (length ?hits)" using found by simp
  have law: "a = Inr (Inr k) \<and> tabs d' = T' \<or> (\<exists>e. a = Inl e) \<and> tabs d' \<in> {tabs d, T'}"
    using mysql.exec_done [OF assms(1) a(1) n k(1)] by auto
  have "revoked_rows E h T'" if some: "?hits \<noteq> []"
  proof -
    obtain r where "r \<in> set ?hits" using list.set_sel(1) [OF some] by (rule that)
    then have "r \<in> set (tabs d ''user_sessions'')" "sql_eq E (r ''token_hash'') (VStr h)" by simp_all
    then show ?thesis unfolding T'_def by (rule revoked_after_update)
  qed
  moreover have "?hits \<noteq> []" if "is_ok res"
  proof
    assume none: "?hits = []"
    have "k \<le> 0" using k2 unfolding none by simp
    then show False using that law a(2) k(2) by (auto split: if_splits)
  qed
  ultimately have "(tabs d' = tabs d \<or> tabs d' = T') \<and> (is_ok res \<longrightarrow> revoked_rows E h (tabs d'))"
    using law a(2) by (cases a) auto
  then show ?thesis unfolding T'_def .
qed

lemma session_calls_keep_revoked:
  assumes "mysql DB E tabs saved"
  shows "revoked_rows E h (tabs d) \<Longrightarrow> revoked_rows E h (tabs (session_calls DB calls d))"
proof (induction calls arbitrary: d)
  case (Cons call calls)
  obtain c x where call: "call = (c, x)" by (cases call)
  show ?case
  proof (cases x)
    case (CreateSession s)
    have "revoked_rows E h (tabs (snd (MySQLSessionStore_Create DB c s d)))"
      using create_session_step [OF assms surjective_pairing, of c s d] Cons.prems
        insert_keeps_revoked [OF mysql.collation [OF assms] Cons.prems, of s] by auto
    then show ?thesis using Cons.IH by (simp add: call CreateSession)
  next
    case (RevokeSession h' t)
    have "revoked_rows E h (tabs (snd (MySQLSessionStore_Revoke DB c h' t d)))"
      using revoke_session_step [OF assms surjective_pairing, of c h' t d] Cons.prems
        update_keeps_revoked [OF Cons.prems, of t h'] by auto
    then show ?thesis using Cons.IH by (simp add: call RevokeSession)
  qed
qed simp

lemma revoked_is_read:
  assumes "mysql DB E tabs saved" "revoked_rows E h (tabs d)" "MySQLSessionStore_GetByTokenHash DB c h d = Inr x"
  shows "ss_RevokedAt x \<noteq> None"
proof -
  obtain row where row: "query_row DB c select_session [VStr h] d = Inr row" "scan_session_row row = Inr x"
    using assms(3) by (auto simp: MySQLSessionStore_GetByTokenHash_def and_then_Inr_iff split: sum.splits)
  obtain r where r: "r \<in> set (matching_rows E (tabs d) select_session [VStr h])" "row = map (column_value r) (se_cols select_session)"
    using query_row_law [OF assms(1) row(1)] by (auto simp: select_session_def select_params_def conds_params_def limit_params_def)
  have "r ''revoked_at'' \<noteq> VNull"
    using r(1) assms(2) by (auto simp: matching_rows_def from_rows_def select_session_def with_alias_def revoked_rows_def list_all_iff)
  then show ?thesis using row(2) unfolding r(2)
    by (cases "r ''revoked_at''") (auto simp: select_session_def and_then_Inr_iff)
qed

text \<open>
  C31. A revocation in MySQL is final: once \<open>Revoke\<close> has answered without an error, no later read of that token hash gives a session that is not revoked, so the
  token authenticates nobody at any instant, whatever sessions are created or revoked in between (the same token hash included), whatever of these
  statements or answers is lost, and whatever the collation of the server.
\<close>

theorem revocation_is_final:
  assumes "mysql DB E tabs saved" "ad_sessions A = MySQLSessionStore_ops DB"
    and "MySQLSessionStore_Revoke DB c (HashSessionToken token) t d = (Inr (), d1)"
  shows "\<not> is_ok (Authenticate A c' now token (u, session_calls DB calls d1))"
proof -
  have r: "revoked_rows E (HashSessionToken token) (tabs (session_calls DB calls d1))"
    using revoke_session_step [OF assms(1,3)] session_calls_keep_revoked [OF assms(1)] by simp
  show ?thesis
    using revoked_is_read [OF assms(1) r, of c'] assms(2)
    by (auto simp: Authenticate_def MySQLSessionStore_ops_def Active_def split: sum.splits option.splits)
qed

text \<open>A lost revocation, a second attempt, and sessions created and revoked afterwards, one under the same token hash.\<close>

definition sample_session :: "string \<Rightarrow> string \<Rightarrow> Session" where
  "sample_session i h = \<lparr>ss_ID = i, ss_UserID = ''u1'', ss_TokenHash = h, ss_ExpiresAt = 9000, ss_CreatedAt = 1000, ss_RevokedAt = None\<rparr>"

definition session_tables :: tables where
  "session_tables = (\<lambda>_. [])(''user_sessions'' := [session_row binary_env (sample_session ''s1'' (HashSessionToken ''tok''))])"

definition session_server :: "sql_state \<times> (bool \<times> bool) list" where
  "session_server = ((session_tables, session_tables), [(False, False), (True, True), (True, False), (True, True)])"

definition lost_revocation :: "(auth_err + unit) \<times> sql_state \<times> (bool \<times> bool) list" where
  "lost_revocation = MySQLSessionStore_Revoke (mysql_lossy binary_env) background (HashSessionToken ''tok'') 2000 session_server"

lemma lost_then_revoked:
  "\<not> is_ok (fst lost_revocation)
   \<and> fst (MySQLSessionStore_Revoke (mysql_lossy binary_env) background (HashSessionToken ''tok'') 3000 (snd lost_revocation)) = Inr ()"
proof -
  have r: "session_row binary_env (sample_session i h) ''revoked_at'' = VNull"
     "session_row binary_env (sample_session i h) ''token_hash'' = VStr h" for i h
    by (simp_all add: session_row_def inserted_row_def sample_session_def nullableTime_def binary_env_def is_json_def suffix_def)
  show ?thesis
    by (simp add: lost_revocation_def session_server_def MySQLSessionStore_Revoke_def mysql_lossy_def run_sql_def revoke_session_def
        exec_sql_def session_keys session_tables_def put_rows_def r Let_def) (simp add: binary_env_def)
qed

theorem revocation_is_final_witness:
  "\<not> is_ok (Authenticate \<lparr>ad_users = MemoryUserStore_ops, ad_sessions = MySQLSessionStore_ops (mysql_lossy binary_env),
       ad_cfg = \<lparr>ac_PasswordMinLength = 0, ac_SessionTTL = 0\<rparr>, bc_generate = (\<lambda>s p. Inr p), bc_compare = (=), parse_address = (\<lambda>e. True)\<rparr>
     background 4000 ''tok''
     (NewMemoryUserStore,
      session_calls (mysql_lossy binary_env)
        [(background, CreateSession (sample_session ''s2'' (HashSessionToken ''tok''))), (background, RevokeSession ''other'' 3500)]
        (snd (MySQLSessionStore_Revoke (mysql_lossy binary_env) background (HashSessionToken ''tok'') 3000 (snd lost_revocation)))))"
  by (rule revocation_is_final [OF lossy_sql.mysql_axioms _ prod_eqI])
    (use lost_then_revoked in simp_all)

subsection \<open>One account per email\<close>

definition user_row :: "sql_env \<Rightarrow> User \<Rightarrow> row" where
  "user_row E x = inserted_row E ''users''
     [''id'', ''email'', ''display_name'', ''password_hash'', ''status'', ''created_at'', ''updated_at''] [Q, Q, Q, Q, Q, Q, Q]
     [VStr (us_ID x), VStr (us_Email x), VStr (us_DisplayName x), VStr (us_PasswordHash x), VStr (us_Status x),
      VTime (us_CreatedAt x), VTime (us_UpdatedAt x)]"

text \<open>What a \<open>DATETIME(6)\<close> keeps of the instants of a user.\<close>

definition kept_user :: "sql_env \<Rightarrow> User \<Rightarrow> User" where
  "kept_user E x = x\<lparr>us_CreatedAt := me_time E (us_CreatedAt x), us_UpdatedAt := me_time E (us_UpdatedAt x)\<rparr>"

lemma user_keys: "unique_keys ''users'' = [[''id''], [''email'']]"
  by (simp add: unique_keys_def)

lemma user_row_scan: "scan_user_row (map (column_value (user_row E x)) (se_cols (select_user by))) = Inr (kept_user E x)"
  by (simp add: select_user_def user_row_def inserted_row_def kept_user_def is_json_def suffix_def)

lemma user_row_keys: "user_row E x ''id'' = VStr (us_ID x)" "user_row E x ''email'' = VStr (us_Email x)"
  by (simp_all add: user_row_def inserted_row_def is_json_def suffix_def)

lemma create_user_effect:
  "exec_sql E insert_user [VStr (us_ID x), VStr (us_Email x), VStr (us_DisplayName x), VStr (us_PasswordHash x), VStr (us_Status x),
      VTime (us_CreatedAt x), VTime (us_UpdatedAt x)] T
   = (if list_ex (\<lambda>r. clashing E ''users'' r (user_row E x)) (T ''users'') then Duplicate
      else Done 1 (T(''users'' := T ''users'' @ [user_row E x])))"
  by (simp only: insert_user_def exec_insert user_row_def)

lemma create_user_step:
  assumes "mysql_up DB E tabs saved" "MySQLUserStore_Create DB c x d = (res, d')"
  shows "if list_ex (\<lambda>r. clashing E ''users'' r (user_row E x)) (tabs d ''users'')
    then res = Inl ErrEmailExists \<and> tabs d' = tabs d
    else res = Inr () \<and> tabs d' = (tabs d)(''users'' := tabs d ''users'' @ [user_row E x])"
proof -
  let ?args = "[VStr (us_ID x), VStr (us_Email x), VStr (us_DisplayName x), VStr (us_PasswordHash x), VStr (us_Status x),
      VTime (us_CreatedAt x), VTime (us_UpdatedAt x)]"
  obtain a where a: "sd_exec DB c insert_user ?args d = (a, d')"
    "res = (case a of Inl e \<Rightarrow> Inl (if isDuplicateKeyError e then ErrEmailExists else auth_backend ''insert user'' e) | Inr _ \<Rightarrow> Inr ())"
    using assms(2) by (auto simp: MySQLUserStore_Create_def split: prod.splits sum.splits)
  have n: "stmt_params insert_user = length ?args" by (simp add: insert_user_def)
  note m = mysql_up.axioms(1) [OF assms(1)]
  note up = mysql_up.exec_up [OF assms(1) a(1) n]
  show ?thesis
  proof (cases "list_ex (\<lambda>r. clashing E ''users'' r (user_row E x)) (tabs d ''users'')")
    case True
    then have dup: "exec_sql E insert_user ?args (tabs d) = Duplicate" by (simp only: create_user_effect if_True)
    show ?thesis using True up mysql.exec_dup [OF m a(1) n dup] a(2) by (auto simp: dup isDuplicateKeyError_iff)
  next
    case False
    define T' where "T' = (tabs d)(''users'' := tabs d ''users'' @ [user_row E x])"
    have eff: "exec_sql E insert_user ?args (tabs d) = Done 1 T'"
      using False by (simp only: create_user_effect if_False T'_def)
    have "res = Inr ()" "tabs d' = T'" using mysql.exec_done [OF m a(1) n eff] up a(2) by (auto simp: eff)
    then show ?thesis unfolding T'_def using False by simp
  qed
qed

text \<open>The only row an id or an email finds is the one just created.\<close>

lemma matching_user:
  assumes "equivp (me_eq E)" "(by, v) \<in> {(''id'', us_ID x), (''email'', us_Email x)}" "me_eq E v w"
    and "\<not> list_ex (\<lambda>r. clashing E ''users'' r (user_row E x)) (T ''users'')"
  shows "matching_rows E (T(''users'' := T ''users'' @ [user_row E x])) (select_user by) [VStr w] = [user_row E x]"
proof -
  have "\<not> sql_eq E (r by) (VStr w)" if r: "r \<in> set (T ''users'')" for r
  proof
    assume "sql_eq E (r by) (VStr w)"
    then obtain s where s: "r by = VStr s" "me_eq E s w" by (auto simp: sql_eq_VStr)
    then have "me_eq E s v" using assms(1,3) by (meson equivp_symp equivp_transp)
    then have "clashing E ''users'' r (user_row E x)"
      using s(1) assms(2) by (auto simp: clashing_def clash_def user_keys user_row_keys)
    then show False using assms(4) r by (auto simp: list_ex_iff)
  qed
  moreover have "sql_eq E (user_row E x by) (VStr w)" using assms(2,3) by (auto simp: user_row_keys)
  ultimately show ?thesis by (simp add: matching_rows_def from_rows_def select_user_def with_alias_def)
qed

lemma read_user:
  assumes "mysql_up DB E tabs saved" "matching_rows E (tabs d) (select_user by) [VStr w] = [user_row E x]"
  shows "scanUser (query_row DB c (select_user by) [VStr w] d) = Inr (kept_user E x)"
proof -
  have p: "select_params (select_user by) = length [VStr w]" "se_cols (select_user by) \<noteq> [SCount]"
    "se_limit (select_user by) \<in> {NoLimit, Limit1}"
    by (simp_all add: select_user_def select_params_def conds_params_def limit_params_def)
  obtain r where r: "query_row DB c (select_user by) [VStr w] d = Inr r"
    using query_row_up(2) [OF assms(1) p, of d c] assms(2) by auto
  then have "r = map (column_value (user_row E x)) (se_cols (select_user by))"
    using query_row_law [OF mysql_up.axioms(1) [OF assms(1)] r p(1,2)] assms(2) by auto
  then show ?thesis using r user_row_scan by (simp add: scanUser_def)
qed

text \<open>
  C32. MySQL keeps one account per email: a user that was created is found under its id and under every email the collation of the server does not tell from its
  own, with its instants as the columns keep them, and from then on no user with such an email can be created: the answer is \<open>ErrEmailExists\<close>, and
  no table changes. (The in-memory store compares bytes: under the collation of the migrations, letter case and accents do not make another email.)
\<close>

theorem one_account_per_email:
  assumes "mysql_up DB E tabs saved" "MySQLUserStore_Create DB c x d = (Inr (), d1)" "me_eq E (us_Email x) email"
  shows "MySQLUserStore_GetByID DB c' (us_ID x) d1 = Inr (kept_user E x)
    \<and> MySQLUserStore_GetByEmail DB c' email d1 = Inr (kept_user E x)
    \<and> (\<exists>d2. MySQLUserStore_Create DB c' (y\<lparr>us_Email := email\<rparr>) d1 = (Inl ErrEmailExists, d2) \<and> tabs d2 = tabs d1)"
proof (intro conjI)
  note eq = mysql.collation [OF mysql_up.axioms(1) [OF assms(1)]]
  have new: "\<not> list_ex (\<lambda>r. clashing E ''users'' r (user_row E x)) (tabs d ''users'')"
    and d1: "tabs d1 = (tabs d)(''users'' := tabs d ''users'' @ [user_row E x])"
    using create_user_step [OF assms(1,2)] by (auto split: if_splits)
  have refl: "me_eq E (us_ID x) (us_ID x)" using eq by (rule equivp_reflp)
  show "MySQLUserStore_GetByID DB c' (us_ID x) d1 = Inr (kept_user E x)"
    unfolding MySQLUserStore_GetByID_def
    by (rule read_user [OF assms(1)]) (unfold d1, rule matching_user [where T = "tabs d", OF eq _ refl new], simp)
  show "MySQLUserStore_GetByEmail DB c' email d1 = Inr (kept_user E x)"
    unfolding MySQLUserStore_GetByEmail_def
    by (rule read_user [OF assms(1)]) (unfold d1, rule matching_user [where T = "tabs d", OF eq _ assms(3) new], simp)
  obtain res d2 where c: "MySQLUserStore_Create DB c' (y\<lparr>us_Email := email\<rparr>) d1 = (res, d2)"
    by (cases "MySQLUserStore_Create DB c' (y\<lparr>us_Email := email\<rparr>) d1")
  have "clashing E ''users'' (user_row E x) (user_row E (y\<lparr>us_Email := email\<rparr>))"
    using assms(3) by (simp add: clashing_def clash_def user_keys user_row_keys)
  then show "\<exists>d2. MySQLUserStore_Create DB c' (y\<lparr>us_Email := email\<rparr>) d1 = (Inl ErrEmailExists, d2) \<and> tabs d2 = tabs d1"
    using create_user_step [OF assms(1) c] c by (auto simp: d1)
qed


definition ann :: User where
  "ann = \<lparr>us_ID = ''user_1'', us_Email = ''ann'' @ [CHR 0x40] @ ''x.org'', us_DisplayName = ''Ann'', us_PasswordHash = ''h'',
     us_Status = UserStatusActive, us_CreatedAt = 1234, us_UpdatedAt = 1234\<rparr>"

lemma ann_created:
  "\<exists>d1. MySQLUserStore_Create (mysql_reference folding_env) background ann (\<lambda>_. [], \<lambda>_. []) = (Inr (), d1)"
proof -
  obtain res d1 where c: "MySQLUserStore_Create (mysql_reference folding_env) background ann (\<lambda>_. [], \<lambda>_. []) = (res, d1)"
    by (cases "MySQLUserStore_Create (mysql_reference folding_env) background ann (\<lambda>_. [], \<lambda>_. [])")
  show ?thesis using create_user_step [OF mysql_reference_up [OF sane_folding_env] c] c by simp
qed

theorem one_account_per_email_witness:
  "\<exists>d1 d2. MySQLUserStore_Create (mysql_reference folding_env) background ann (\<lambda>_. [], \<lambda>_. []) = (Inr (), d1)
     \<and> MySQLUserStore_Create (mysql_reference folding_env) background
         (ann\<lparr>us_ID := ''user_2'', us_Email := ''ANN'' @ [CHR 0x40] @ ''x.org''\<rparr>) d1 = (Inl ErrEmailExists, d2)"
proof -
  obtain d1 where d1: "MySQLUserStore_Create (mysql_reference folding_env) background ann (\<lambda>_. [], \<lambda>_. []) = (Inr (), d1)"
    using ann_created by blast
  have "ToLower (''ann'' @ [CHR 0x40] @ ''x.org'') = ToLower (''ANN'' @ [CHR 0x40] @ ''x.org'')" by code_simp
  then have "me_eq folding_env (us_Email ann) (''ANN'' @ [CHR 0x40] @ ''x.org'')"
    by (simp add: folding_env_def ann_def del: append.simps)
  from one_account_per_email [OF mysql_reference_up [OF sane_folding_env] d1 this, of background "ann\<lparr>us_ID := ''user_2''\<rparr>"]
  show ?thesis using d1 by (simp del: append.simps) blast
qed

end
