(* ===== verification/MySQLPlans.thy ===== *)
theory MySQLPlans
  imports PlanStore RequestHash Sql
begin

section \<open>Saved and public plans in MySQL\<close>

text \<open>
  internal/plans/mysql\_store.go: both stores over a server that is a parameter. The statements have the columns, conditions and
  arguments of the source, in its order. \<open>encoding/json\<close> on structs is a parameter (\<open>plans_codec\<close>); the tags are written by the
  concrete encoder. An error of \<open>Unmarshal\<close> is dropped by the code and is \<open>None\<close> here.
\<close>

record plans_codec =
  pc_plan :: "TravelPlan option \<Rightarrow> string + string"
  pc_unplan :: "string \<Rightarrow> TravelPlan option"
  pc_untags :: "string \<Rightarrow> string list option"
  pc_brief :: "TravelRequest option \<Rightarrow> string + string"
  pc_unbrief :: "string \<Rightarrow> TravelRequest option"
  pc_messages :: "ArchivedMessage list \<Rightarrow> string + string"
  pc_unmessages :: "string \<Rightarrow> ArchivedMessage list"
  pc_events :: "ArchivedEvent list \<Rightarrow> string + string"
  pc_unevents :: "string \<Rightarrow> ArchivedEvent list"

definition plans_backend :: "string \<Rightarrow> sql_err \<Rightarrow> plans_err" where
  "plans_backend what e = ErrOther (what @ '': '' @ err_text e)"

text \<open>What \<open>ExecContext\<close> and the check of \<open>RowsAffected\<close> make of an answer.\<close>

definition exec_only :: "string \<Rightarrow> (sql_err + (sql_err + int)) \<times> 'd \<Rightarrow> (plans_err + unit) \<times> 'd" where
  "exec_only what p = (case p of (Inl e, d) \<Rightarrow> (Inl (plans_backend what e), d) | (Inr _, d) \<Rightarrow> (Inr (), d))"

definition exec_affecting :: "string \<Rightarrow> plans_err \<Rightarrow> (sql_err + (sql_err + int)) \<times> 'd \<Rightarrow> (plans_err + unit) \<times> 'd" where
  "exec_affecting what missing p =
     (case p of
        (Inl e, d) \<Rightarrow> (Inl (plans_backend what e), d)
      | (Inr affected, d) \<Rightarrow> (if affected = Inr 0 then Inl missing else Inr (), d))"

subsection \<open>MySQLPlanStore\<close>

definition insert_plan :: sql_stmt where
  "insert_plan = InsertInto ''user_plans''
     [''id'', ''user_id'', ''task_id'', ''source_public_plan_id'', ''title'', ''note'', ''summary'', ''tags_json'', ''plan_json'',
      ''destination_city'', ''days'', ''visibility'', ''publish_status'', ''created_at'', ''updated_at'']
     [Q, Q, Q, Q, Q, Q, Q, Q, Q, Q, Q, Q, Q, Q, Q] []"

definition insert_plan_args :: "UserPlan \<Rightarrow> string \<Rightarrow> sql_value list" where
  "insert_plan_args plan planJSON =
     [VStr (up_ID plan), VStr (up_UserID plan), nullableString (up_TaskID plan), nullableString (up_SourcePublicPlanID plan),
      VStr (up_Title plan), nullableString (up_Note plan), nullableString (up_Summary plan), VStr (json_strings (up_Tags plan)),
      VStr planJSON, VStr (up_DestinationCity plan), VInt (up_Days plan), VStr (up_Visibility plan), VStr (up_PublishStatus plan),
      VTime (up_CreatedAt plan), VTime (up_UpdatedAt plan)]"

definition MySQLPlanStore_Create ::
  "'d sql_db \<Rightarrow> plans_codec \<Rightarrow> ctx \<Rightarrow> UserPlan \<Rightarrow> 'd \<Rightarrow> (plans_err + unit) \<times> 'd" where
  "MySQLPlanStore_Create DB J c plan d =
     (case pc_plan J (up_Plan plan) of
        Inl e \<Rightarrow> (Inl (ErrOther (''marshal plan: '' @ e)), d)
      | Inr planJSON \<Rightarrow> exec_only ''insert user_plan'' (sd_exec DB c insert_plan (insert_plan_args plan planJSON) d))"

definition planSelectColumns :: "sql_column list" where
  "planSelectColumns =
     [SCol ''id'', SCol ''user_id'', SOr ''task_id'' (VStr []), SOr ''source_public_plan_id'' (VStr []), SCol ''title'',
      SOr ''note'' (VStr []), SOr ''summary'' (VStr []), SOr ''tags_json'' (VStr ''[]''), SCol ''plan_json'',
      SCol ''destination_city'', SCol ''days'', SCol ''visibility'', SCol ''publish_status'', SCol ''created_at'',
      SCol ''updated_at'', SCol ''deleted_at'']"

definition scanUserPlan :: "plans_codec \<Rightarrow> sql_value list \<Rightarrow> sql_err + UserPlan" where
  "scanUserPlan J v =
     (if length v \<noteq> 16 then Inl scan_count
      else
        and_then (scan_string (v ! 0)) (\<lambda>i. and_then (scan_string (v ! 1)) (\<lambda>user. and_then (scan_string (v ! 2)) (\<lambda>taskID.
        and_then (scan_string (v ! 3)) (\<lambda>source. and_then (scan_string (v ! 4)) (\<lambda>title. and_then (scan_string (v ! 5)) (\<lambda>note.
        and_then (scan_string (v ! 6)) (\<lambda>summary. and_then (scan_string (v ! 7)) (\<lambda>tagsJSON. and_then (scan_bytes (v ! 8)) (\<lambda>planJSON.
        and_then (scan_string (v ! 9)) (\<lambda>city. and_then (scan_number (v ! 10)) (\<lambda>days. and_then (scan_string (v ! 11)) (\<lambda>visibility.
        and_then (scan_string (v ! 12)) (\<lambda>status. and_then (scan_time (v ! 13)) (\<lambda>created. and_then (scan_time (v ! 14)) (\<lambda>updated.
        and_then (scan_null_time (v ! 15)) (\<lambda>deleted.
          Inr \<lparr>up_ID = i, up_UserID = user, up_TaskID = taskID, up_SourcePublicPlanID = source, up_Title = title, up_Note = note,
               up_Summary = summary,
               up_Tags = (if tagsJSON = [] then [] else case pc_untags J tagsJSON of Some tags \<Rightarrow> tags | None \<Rightarrow> []),
               up_Plan = (if planJSON = [] then None else pc_unplan J planJSON),
               up_DestinationCity = city, up_Days = days, up_Visibility = visibility, up_PublishStatus = status,
               up_CreatedAt = created, up_UpdatedAt = updated, up_DeletedAt = deleted\<rparr>)))))))))))))))))"

definition select_plan :: "sql_cond list \<Rightarrow> string list \<Rightarrow> sql_limit \<Rightarrow> sql_select" where
  "select_plan conds order limit =
     \<lparr>se_cols = planSelectColumns, se_from = (''user_plans'', []), se_joins = [], se_where = conds, se_order = order, se_limit = limit\<rparr>"

text \<open>The error of a single row: \<open>sql.ErrNoRows\<close> becomes \<open>missing\<close>, any other stays as it is.\<close>

definition one_plan :: "plans_err \<Rightarrow> sql_err + 'a \<Rightarrow> plans_err + 'a" where
  "one_plan missing r = (case r of Inl e \<Rightarrow> Inl (if e = ErrNoRows then missing else ErrOther (err_text e)) | Inr x \<Rightarrow> Inr x)"

definition MySQLPlanStore_Get :: "'d sql_db \<Rightarrow> plans_codec \<Rightarrow> ctx \<Rightarrow> string \<Rightarrow> string \<Rightarrow> 'd \<Rightarrow> plans_err + UserPlan" where
  "MySQLPlanStore_Get DB J c planID userID d =
     one_plan ErrPlanNotFound (and_then
       (query_row DB c (select_plan [IsQ ''id'', IsQ ''user_id'', IsNull ''deleted_at''] [] NoLimit) [VStr planID, VStr userID] d)
       (scanUserPlan J))"

definition MySQLPlanStore_GetByID :: "'d sql_db \<Rightarrow> plans_codec \<Rightarrow> ctx \<Rightarrow> string \<Rightarrow> 'd \<Rightarrow> plans_err + UserPlan" where
  "MySQLPlanStore_GetByID DB J c planID d =
     one_plan ErrPlanNotFound (and_then (query_row DB c (select_plan [IsQ ''id''] [] NoLimit) [VStr planID] d) (scanUserPlan J))"

text \<open>A missing row is \<open>(zero, false, nil)\<close>.\<close>

definition maybe_plan :: "sql_err + 'a \<Rightarrow> plans_err + 'a option" where
  "maybe_plan r = (case r of Inl e \<Rightarrow> if e = ErrNoRows then Inr None else Inl (ErrOther (err_text e)) | Inr x \<Rightarrow> Inr (Some x))"

definition MySQLPlanStore_GetByTaskID ::
  "'d sql_db \<Rightarrow> plans_codec \<Rightarrow> ctx \<Rightarrow> string \<Rightarrow> string \<Rightarrow> 'd \<Rightarrow> plans_err + UserPlan option" where
  "MySQLPlanStore_GetByTaskID DB J c userID taskID d =
     maybe_plan (and_then
       (query_row DB c (select_plan [IsQ ''user_id'', IsQ ''task_id'', IsNull ''deleted_at''] [''updated_at''] Limit1)
          [VStr userID, VStr taskID] d)
       (scanUserPlan J))"

text \<open>The conditions \<open>List\<close> appends for its filter, with their arguments.\<close>

definition list_conditions :: "string \<Rightarrow> ListFilter \<Rightarrow> (sql_cond \<times> sql_value list) list" where
  "list_conditions userID f =
     [(IsQ ''user_id'', [VStr userID]), (IsNull ''deleted_at'', [])]
     @ (if lf_Visibility f \<noteq> [] then [(IsQ ''visibility'', [VStr (lf_Visibility f)])] else [])
     @ (if lf_PublishStatus f \<noteq> [] then [(IsQ ''publish_status'', [VStr (lf_PublishStatus f)])] else [])
     @ (if lf_DestinationCity f \<noteq> [] then [(IsQ ''destination_city'', [VStr (lf_DestinationCity f)])] else [])
     @ (if lf_Query f \<noteq> []
        then let like = VStr (''%'' @ lf_Query f @ ''%'')
             in [(LikeQ [''title'', ''destination_city'', ''summary''], [like, like, like])]
        else [])"

text \<open>The loop over the rows of a listing: the first row that does not scan ends it.\<close>

fun scan_rows :: "(sql_value list \<Rightarrow> sql_err + 'a) \<Rightarrow> sql_value list list \<Rightarrow> sql_err + 'a list" where
  "scan_rows scan [] = Inr []"
| "scan_rows scan (v # vs) = and_then (scan v) (\<lambda>x. and_then (scan_rows scan vs) (\<lambda>xs. Inr (x # xs)))"

definition scan_total :: "sql_value list \<Rightarrow> sql_err + int" where
  "scan_total v = (if length v \<noteq> 1 then Inl scan_count else scan_number (v ! 0))"

text \<open>
  Both \<open>List\<close> functions: the count, then the page. \<open>(page-1)*size\<close> wraps around; a negative offset is an error of the server.
\<close>

definition list_page ::
  "'d sql_db \<Rightarrow> ctx \<Rightarrow> string \<Rightarrow> (sql_value list \<Rightarrow> sql_err + 'a) \<Rightarrow> sql_select \<Rightarrow> sql_select \<Rightarrow> sql_value list \<Rightarrow> int \<Rightarrow> int \<Rightarrow> 'd
     \<Rightarrow> plans_err + 'a list \<times> int" where
  "list_page DB c what scan countQ listQ args page0 pageSize d =
     (case normalizePagination page0 pageSize of (page, n) \<Rightarrow>
        (case and_then (query_row DB c countQ args d) scan_total of
           Inl e \<Rightarrow> Inl (plans_backend (''count '' @ what) e)
         | Inr found \<Rightarrow>
             (case sd_query DB c listQ (args @ [VInt n, VInt (wrap64 ((page - 1) * n))]) d of
                Inl e \<Rightarrow> Inl (plans_backend (''list '' @ what) e)
              | Inr (rows, ended) \<Rightarrow>
                  (case scan_rows scan rows of
                     Inl e \<Rightarrow> Inl (ErrOther (err_text e))
                   | Inr xs \<Rightarrow> (case ended of Some e \<Rightarrow> Inl (ErrOther (err_text e)) | None \<Rightarrow> Inr (xs, found))))))"

definition count_plans :: "sql_cond list \<Rightarrow> sql_select" where
  "count_plans conds =
     \<lparr>se_cols = [SCount], se_from = (''user_plans'', []), se_joins = [], se_where = conds, se_order = [], se_limit = NoLimit\<rparr>"

definition MySQLPlanStore_List ::
  "'d sql_db \<Rightarrow> plans_codec \<Rightarrow> ctx \<Rightarrow> string \<Rightarrow> ListFilter \<Rightarrow> 'd \<Rightarrow> plans_err + UserPlan list \<times> int" where
  "MySQLPlanStore_List DB J c userID f d =
     (let conds = map fst (list_conditions userID f); args = concat (map snd (list_conditions userID f))
      in list_page DB c ''plans'' (scanUserPlan J) (count_plans conds) (select_plan conds [''updated_at''] LimitOffsetQ) args
           (lf_Page f) (lf_PageSize f) d)"

definition update_plan :: sql_stmt where
  "update_plan = UpdateSet ''user_plans''
     [(''title'', Q), (''note'', Q), (''summary'', Q), (''tags_json'', Q), (''plan_json'', Q), (''destination_city'', Q), (''days'', Q),
      (''visibility'', Q), (''publish_status'', Q), (''updated_at'', Q)]
     [IsQ ''id'', IsQ ''user_id'', IsNull ''deleted_at'']"

definition update_plan_args :: "UserPlan \<Rightarrow> string \<Rightarrow> sql_value list" where
  "update_plan_args plan planJSON =
     [VStr (up_Title plan), nullableString (up_Note plan), nullableString (up_Summary plan), VStr (json_strings (up_Tags plan)),
      VStr planJSON, VStr (up_DestinationCity plan), VInt (up_Days plan), VStr (up_Visibility plan), VStr (up_PublishStatus plan),
      VTime (up_UpdatedAt plan), VStr (up_ID plan), VStr (up_UserID plan)]"

definition MySQLPlanStore_Update ::
  "'d sql_db \<Rightarrow> plans_codec \<Rightarrow> ctx \<Rightarrow> UserPlan \<Rightarrow> 'd \<Rightarrow> (plans_err + unit) \<times> 'd" where
  "MySQLPlanStore_Update DB J c plan d =
     (case pc_plan J (up_Plan plan) of
        Inl e \<Rightarrow> (Inl (ErrOther (''marshal plan: '' @ e)), d)
      | Inr planJSON \<Rightarrow>
          exec_affecting ''update plan'' ErrPlanNotFound (sd_exec DB c update_plan (update_plan_args plan planJSON) d))"

definition delete_plan :: sql_stmt where
  "delete_plan = UpdateSet ''user_plans'' [(''deleted_at'', Q), (''updated_at'', Q)] [IsQ ''id'', IsQ ''user_id'', IsNull ''deleted_at'']"

definition MySQLPlanStore_SoftDelete ::
  "'d sql_db \<Rightarrow> ctx \<Rightarrow> string \<Rightarrow> string \<Rightarrow> time \<Rightarrow> 'd \<Rightarrow> (plans_err + unit) \<times> 'd" where
  "MySQLPlanStore_SoftDelete DB c planID userID deletedAt d =
     exec_affecting ''soft delete plan'' ErrPlanNotFound
       (sd_exec DB c delete_plan [VTime deletedAt, VTime deletedAt, VStr planID, VStr userID] d)"

text \<open>
  \<open>jsonOrNull\<close>: NULL for no messages or events, and for a text that is \<open>null\<close> (a nil brief in its interface is not \<open>nil\<close>, but is written so).
\<close>

definition jsonOrNull :: "bool \<Rightarrow> string + string \<Rightarrow> plans_err + sql_value" where
  "jsonOrNull none data =
     (if none then Inr VNull
      else case data of
             Inl e \<Rightarrow> Inl (ErrOther (''marshal json: '' @ e))
           | Inr s \<Rightarrow> Inr (if s = ''null'' then VNull else VStr s))"

definition insert_archive :: sql_stmt where
  "insert_archive = InsertInto ''plan_conversation_archives''
     [''id'', ''plan_id'', ''user_id'', ''task_id'', ''brief_json'', ''messages_json'', ''events_json'', ''created_at'']
     [Q, Q, Q, Q, Q, Q, Q, Q] []"

definition MySQLPlanStore_CreateArchive ::
  "'d sql_db \<Rightarrow> plans_codec \<Rightarrow> ctx \<Rightarrow> ConversationArchive \<Rightarrow> 'd \<Rightarrow> (plans_err + unit) \<times> 'd" where
  "MySQLPlanStore_CreateArchive DB J c archive d =
     (case and_then (jsonOrNull False (pc_brief J (ca_Brief archive))) (\<lambda>brief.
           and_then (jsonOrNull (ca_Messages archive = []) (pc_messages J (ca_Messages archive))) (\<lambda>messages.
           and_then (jsonOrNull (ca_Events archive = []) (pc_events J (ca_Events archive))) (\<lambda>events. Inr (brief, messages, events)))) of
        Inl e \<Rightarrow> (Inl e, d)
      | Inr (brief, messages, events) \<Rightarrow>
          exec_only ''insert archive'' (sd_exec DB c insert_archive
            [VStr (ca_ID archive), VStr (ca_PlanID archive), VStr (ca_UserID archive), nullableString (ca_TaskID archive),
             brief, messages, events, VTime (ca_CreatedAt archive)] d))"

definition select_archive :: sql_select where
  "select_archive =
     \<lparr>se_cols = [SCol ''id'', SCol ''plan_id'', SCol ''user_id'', SOr ''task_id'' (VStr []), SCol ''brief_json'', SCol ''messages_json'',
        SCol ''events_json'', SCol ''created_at''],
      se_from = (''plan_conversation_archives'', []), se_joins = [], se_where = [IsQ ''plan_id'', IsQ ''user_id''], se_order = [], se_limit = NoLimit\<rparr>"

definition scan_archive :: "plans_codec \<Rightarrow> sql_value list \<Rightarrow> sql_err + ConversationArchive" where
  "scan_archive J v =
     (if length v \<noteq> 8 then Inl scan_count
      else
        and_then (scan_string (v ! 0)) (\<lambda>i. and_then (scan_string (v ! 1)) (\<lambda>plan. and_then (scan_string (v ! 2)) (\<lambda>user.
        and_then (scan_string (v ! 3)) (\<lambda>taskID. and_then (scan_null_string (v ! 4)) (\<lambda>brief. and_then (scan_null_string (v ! 5)) (\<lambda>messages.
        and_then (scan_null_string (v ! 6)) (\<lambda>events. and_then (scan_time (v ! 7)) (\<lambda>created.
          Inr \<lparr>ca_ID = i, ca_PlanID = plan, ca_UserID = user, ca_TaskID = taskID,
               ca_Brief = (case brief of Some s \<Rightarrow> if s = [] then None else pc_unbrief J s | None \<Rightarrow> None),
               ca_Messages = (case messages of Some s \<Rightarrow> if s = [] then [] else pc_unmessages J s | None \<Rightarrow> []),
               ca_Events = (case events of Some s \<Rightarrow> if s = [] then [] else pc_unevents J s | None \<Rightarrow> []),
               ca_CreatedAt = created\<rparr>)))))))))"

definition MySQLPlanStore_GetArchive ::
  "'d sql_db \<Rightarrow> plans_codec \<Rightarrow> ctx \<Rightarrow> string \<Rightarrow> string \<Rightarrow> 'd \<Rightarrow> plans_err + ConversationArchive" where
  "MySQLPlanStore_GetArchive DB J c planID userID d =
     (case and_then (query_row DB c select_archive [VStr planID, VStr userID] d) (scan_archive J) of
        Inl e \<Rightarrow> Inl (if e = ErrNoRows then ErrPlanNotFound else plans_backend ''scan archive'' e)
      | Inr archive \<Rightarrow> Inr archive)"

definition MySQLPlanStore_ops :: "'d sql_db \<Rightarrow> plans_codec \<Rightarrow> 'd PlanStore" where
  "MySQLPlanStore_ops DB J =
     \<lparr>pst_Create = MySQLPlanStore_Create DB J, pst_Get = MySQLPlanStore_Get DB J, pst_GetByTaskID = MySQLPlanStore_GetByTaskID DB J,
      pst_List = MySQLPlanStore_List DB J, pst_Update = MySQLPlanStore_Update DB J, pst_SoftDelete = MySQLPlanStore_SoftDelete DB,
      pst_CreateArchive = MySQLPlanStore_CreateArchive DB J, pst_GetArchive = MySQLPlanStore_GetArchive DB J\<rparr>"

subsection \<open>MySQLPublicPlanStore\<close>

definition upsert_public :: sql_stmt where
  "upsert_public = InsertInto ''public_plans''
     [''id'', ''plan_id'', ''user_id'', ''title'', ''summary'', ''tags_json'', ''plan_json'', ''destination_city'', ''days'', ''status'',
      ''hot_score'', ''published_at'', ''updated_at'']
     [Q, Q, Q, Q, Q, Q, Q, Q, Q, Q, Q, Q, Q]
     [''title'', ''summary'', ''tags_json'', ''plan_json'', ''destination_city'', ''days'', ''status'', ''updated_at'']"

definition upsert_public_args :: "PublicPlan \<Rightarrow> string \<Rightarrow> sql_value list" where
  "upsert_public_args plan planJSON =
     [VStr (pp_ID plan), VStr (pp_PlanID plan), VStr (pp_UserID plan), VStr (pp_Title plan), nullableString (pp_Summary plan),
      VStr (json_strings (pp_Tags plan)), VStr planJSON, VStr (pp_DestinationCity plan), VInt (pp_Days plan), VStr (pp_Status plan),
      VInt (pp_HotScore plan), VTime (pp_PublishedAt plan), VTime (pp_UpdatedAt plan)]"

definition MySQLPublicPlanStore_Upsert ::
  "'d sql_db \<Rightarrow> plans_codec \<Rightarrow> ctx \<Rightarrow> PublicPlan \<Rightarrow> 'd \<Rightarrow> (plans_err + unit) \<times> 'd" where
  "MySQLPublicPlanStore_Upsert DB J c plan d =
     (case pc_plan J (pp_Plan plan) of
        Inl e \<Rightarrow> (Inl (ErrOther (''marshal plan: '' @ e)), d)
      | Inr planJSON \<Rightarrow> exec_only ''upsert public_plan'' (sd_exec DB c upsert_public (upsert_public_args plan planJSON) d))"

definition publicPlanSelectColumns :: "sql_column list" where
  "publicPlanSelectColumns =
     [SCol ''p.id'', SCol ''p.plan_id'', SCol ''p.user_id'', SOr ''u.display_name'' (VStr []), SCol ''p.title'', SOr ''p.summary'' (VStr []),
      SOr ''p.tags_json'' (VStr ''[]''), SCol ''p.plan_json'', SCol ''p.destination_city'', SCol ''p.days'', SCol ''p.status'',
      SCol ''p.view_count'', SCol ''p.save_count'', SCol ''p.copy_count'', SCol ''p.hot_score'', SCol ''p.published_at'', SCol ''p.updated_at'']"

definition scanPublicPlan :: "plans_codec \<Rightarrow> sql_value list \<Rightarrow> sql_err + PublicPlan" where
  "scanPublicPlan J v =
     (if length v \<noteq> 17 then Inl scan_count
      else
        and_then (scan_string (v ! 0)) (\<lambda>i. and_then (scan_string (v ! 1)) (\<lambda>plan. and_then (scan_string (v ! 2)) (\<lambda>user.
        and_then (scan_string (v ! 3)) (\<lambda>author. and_then (scan_string (v ! 4)) (\<lambda>title. and_then (scan_string (v ! 5)) (\<lambda>summary.
        and_then (scan_string (v ! 6)) (\<lambda>tagsJSON. and_then (scan_bytes (v ! 7)) (\<lambda>planJSON. and_then (scan_string (v ! 8)) (\<lambda>city.
        and_then (scan_number (v ! 9)) (\<lambda>days. and_then (scan_string (v ! 10)) (\<lambda>status. and_then (scan_number (v ! 11)) (\<lambda>views.
        and_then (scan_number (v ! 12)) (\<lambda>saves. and_then (scan_number (v ! 13)) (\<lambda>copies. and_then (scan_number (v ! 14)) (\<lambda>hot.
        and_then (scan_time (v ! 15)) (\<lambda>published. and_then (scan_time (v ! 16)) (\<lambda>updated.
          Inr \<lparr>pp_ID = i, pp_PlanID = plan, pp_UserID = user, pp_AuthorName = author, pp_Title = title, pp_Summary = summary,
               pp_Tags = (if tagsJSON = [] then [] else case pc_untags J tagsJSON of Some tags \<Rightarrow> tags | None \<Rightarrow> []),
               pp_Plan = (if planJSON = [] then None else pc_unplan J planJSON),
               pp_DestinationCity = city, pp_Days = days, pp_Status = status, pp_ViewCount = views, pp_SaveCount = saves,
               pp_CopyCount = copies, pp_HotScore = hot, pp_PublishedAt = published, pp_UpdatedAt = updated\<rparr>))))))))))))))))))"

definition select_public :: "sql_cond list \<Rightarrow> string list \<Rightarrow> sql_limit \<Rightarrow> sql_select" where
  "select_public conds order limit =
     \<lparr>se_cols = publicPlanSelectColumns, se_from = (''public_plans'', ''p''), se_joins = [(''users'', ''u'', ''id'', ''p.user_id'')],
      se_where = conds, se_order = order, se_limit = limit\<rparr>"

definition MySQLPublicPlanStore_Get :: "'d sql_db \<Rightarrow> plans_codec \<Rightarrow> ctx \<Rightarrow> string \<Rightarrow> 'd \<Rightarrow> plans_err + PublicPlan" where
  "MySQLPublicPlanStore_Get DB J c i d =
     one_plan ErrPublicPlanNotFound (and_then (query_row DB c (select_public [IsQ ''p.id''] [] NoLimit) [VStr i] d) (scanPublicPlan J))"

definition MySQLPublicPlanStore_GetByPlanID ::
  "'d sql_db \<Rightarrow> plans_codec \<Rightarrow> ctx \<Rightarrow> string \<Rightarrow> 'd \<Rightarrow> plans_err + PublicPlan option" where
  "MySQLPublicPlanStore_GetByPlanID DB J c planID d =
     maybe_plan (and_then (query_row DB c (select_public [IsQ ''p.plan_id''] [] NoLimit) [VStr planID] d) (scanPublicPlan J))"

definition public_conditions :: "PublicListFilter \<Rightarrow> (sql_cond \<times> sql_value list) list" where
  "public_conditions f =
     [(IsQ ''p.status'', [VStr PublicPlanStatusPublished])]
     @ (if pf_DestinationCity f \<noteq> [] then [(IsQ ''p.destination_city'', [VStr (pf_DestinationCity f)])] else [])
     @ (if 0 < pf_Days f then [(IsQ ''p.days'', [VInt (pf_Days f)])] else [])
     @ (if pf_Query f \<noteq> []
        then let like = VStr (''%'' @ pf_Query f @ ''%'')
             in [(LikeQ [''p.title'', ''p.summary'', ''p.destination_city''], [like, like, like])]
        else [])
     @ (if pf_Interest f \<noteq> [] then [(JsonHasQ ''p.tags_json'', [VStr (pf_Interest f)])] else [])"

definition count_public :: "sql_cond list \<Rightarrow> sql_select" where
  "count_public conds =
     \<lparr>se_cols = [SCount], se_from = (''public_plans'', ''p''), se_joins = [], se_where = conds, se_order = [], se_limit = NoLimit\<rparr>"

definition MySQLPublicPlanStore_List ::
  "'d sql_db \<Rightarrow> plans_codec \<Rightarrow> ctx \<Rightarrow> PublicListFilter \<Rightarrow> 'd \<Rightarrow> plans_err + PublicPlan list \<times> int" where
  "MySQLPublicPlanStore_List DB J c f d =
     (let conds = map fst (public_conditions f); args = concat (map snd (public_conditions f));
          orderBy = (if pf_Sort f = ''latest'' then [''p.published_at''] else [''p.hot_score'', ''p.published_at''])
      in list_page DB c ''public plans'' (scanPublicPlan J) (count_public conds) (select_public conds orderBy LimitOffsetQ) args
           (pf_Page f) (pf_PageSize f) d)"

definition set_status :: sql_stmt where
  "set_status = UpdateSet ''public_plans'' [(''status'', Q), (''updated_at'', Q)] [IsQ ''id'']"

definition MySQLPublicPlanStore_SetStatus ::
  "'d sql_db \<Rightarrow> ctx \<Rightarrow> string \<Rightarrow> string \<Rightarrow> time \<Rightarrow> 'd \<Rightarrow> (plans_err + unit) \<times> 'd" where
  "MySQLPublicPlanStore_SetStatus DB c i status updatedAt d =
     exec_affecting ''update status'' ErrPublicPlanNotFound (sd_exec DB c set_status [VStr status, VTime updatedAt, VStr i] d)"

fun counter_column :: "PublicCounterKind \<Rightarrow> string" where
  "counter_column CounterView = ''view_count''"
| "counter_column CounterSave = ''save_count''"
| "counter_column CounterCopy = ''copy_count''"

abbreviation sql_num :: "int \<Rightarrow> sql_expr" where "sql_num i \<equiv> Lit (VInt i)"

definition increment_counter :: "string \<Rightarrow> sql_stmt" where
  "increment_counter column = UpdateSet ''public_plans''
     [(column, Plus (Col column) (sql_num 1)),
      (''hot_score'',
        WhenEq Q (Lit (VStr ''view'')) (Plus (Plus (Plus (Col ''view_count'') (sql_num 1)) (Times (Col ''save_count'') (sql_num 5))) (Times (Col ''copy_count'') (sql_num 3)))
       (WhenEq Q (Lit (VStr ''save'')) (Plus (Plus (Col ''view_count'') (Times (Plus (Col ''save_count'') (sql_num 1)) (sql_num 5))) (Times (Col ''copy_count'') (sql_num 3)))
       (WhenEq Q (Lit (VStr ''copy'')) (Plus (Plus (Col ''view_count'') (Times (Col ''save_count'') (sql_num 5))) (Times (Plus (Col ''copy_count'') (sql_num 1)) (sql_num 3)))
        (Plus (Plus (Col ''view_count'') (Times (Col ''save_count'') (sql_num 5))) (Times (Col ''copy_count'') (sql_num 3)))))),
      (''updated_at'', Q)]
     [IsQ ''id'']"

definition MySQLPublicPlanStore_IncrementCounter ::
  "'d sql_db \<Rightarrow> ctx \<Rightarrow> string \<Rightarrow> PublicCounterKind \<Rightarrow> time \<Rightarrow> 'd \<Rightarrow> (plans_err + unit) \<times> 'd" where
  "MySQLPublicPlanStore_IncrementCounter DB c i kind now d =
     exec_affecting (''increment '' @ kind_string kind) ErrPublicPlanNotFound
       (sd_exec DB c (increment_counter (counter_column kind))
          [VStr (kind_string kind), VStr (kind_string kind), VStr (kind_string kind), VTime now, VStr i] d)"

definition insert_public_event :: sql_stmt where
  "insert_public_event = InsertInto ''public_plan_events''
     [''public_plan_id'', ''user_id'', ''event_type'', ''client_hash'', ''created_at''] [Q, Q, Q, Q, Q] []"

definition MySQLPublicPlanStore_RecordEvent :: "'d sql_db \<Rightarrow> ctx \<Rightarrow> PublicPlanEvent \<Rightarrow> 'd \<Rightarrow> (plans_err + unit) \<times> 'd" where
  "MySQLPublicPlanStore_RecordEvent DB c event d =
     exec_only ''insert public_plan_event'' (sd_exec DB c insert_public_event
       [VStr (pe_PublicPlanID event), nullableString (pe_UserID event), VStr (pe_EventType event), nullableString (pe_ClientHash event),
        VTime (pe_CreatedAt event)] d)"

definition MySQLPublicPlanStore_ops :: "'d sql_db \<Rightarrow> plans_codec \<Rightarrow> 'd PublicPlanStore" where
  "MySQLPublicPlanStore_ops DB J =
     \<lparr>qst_Upsert = MySQLPublicPlanStore_Upsert DB J, qst_Get = MySQLPublicPlanStore_Get DB J,
      qst_GetByPlanID = MySQLPublicPlanStore_GetByPlanID DB J, qst_List = MySQLPublicPlanStore_List DB J,
      qst_SetStatus = MySQLPublicPlanStore_SetStatus DB, qst_IncrementCounter = MySQLPublicPlanStore_IncrementCounter DB,
      qst_RecordEvent = MySQLPublicPlanStore_RecordEvent DB\<rparr>"

subsection \<open>Only the owner's plans\<close>

lemma plan_keys: "unique_keys ''user_plans'' = [[''id'']]"
  by (simp add: unique_keys_def)

lemma exec_only_iff: "exec_only what p = (r, d') \<longleftrightarrow>
    (\<exists>a. p = (a, d') \<and> r = (case a of Inl e \<Rightarrow> Inl (plans_backend what e) | Inr _ \<Rightarrow> Inr ()))"
  by (cases p) (auto simp: exec_only_def split: sum.splits)

lemma exec_affecting_iff: "exec_affecting what missing p = (r, d') \<longleftrightarrow>
    (\<exists>a. p = (a, d') \<and> r = (case a of Inl e \<Rightarrow> Inl (plans_backend what e) | Inr n \<Rightarrow> if n = Inr 0 then Inl missing else Inr ()))"
  by (cases p) (auto simp: exec_affecting_def split: sum.splits)

lemma exec_only_ok: "exec_only what p = (Inr (), d') \<longleftrightarrow> (\<exists>n. p = (Inr n, d'))"
  by (cases p) (auto simp: exec_only_def split: sum.splits)

lemma exec_affecting_ok: "exec_affecting what missing p = (Inr (), d') \<longleftrightarrow> (\<exists>n. p = (Inr n, d') \<and> n \<noteq> Inr 0)"
  by (cases p) (auto simp: exec_affecting_def split: sum.splits)

text \<open>A row of a user's plans that is not deleted, as it is read.\<close>

definition own_row :: "sql_env \<Rightarrow> string \<Rightarrow> row \<Rightarrow> bool" where
  "own_row E userID r \<longleftrightarrow> sql_eq E (r ''user_id'') (VStr userID) \<and> r ''deleted_at'' = VNull"

definition own_plan :: "sql_env \<Rightarrow> string \<Rightarrow> UserPlan \<Rightarrow> bool" where
  "own_plan E userID p \<longleftrightarrow> me_eq E (up_UserID p) userID \<and> up_DeletedAt p = None"

lemma scan_own:
  assumes "own_row E userID r" "scanUserPlan J (map (column_value r) planSelectColumns) = Inr p"
  shows "own_plan E userID p"
  using assms by (auto simp: own_row_def own_plan_def scanUserPlan_def planSelectColumns_def and_then_Inr_iff sql_eq_VStr)

lemma where_append:
  "where_sql E (cs @ ds) r args \<longleftrightarrow> where_sql E cs r args \<and> where_sql E ds r (drop (conds_params cs) args)"
  by (induction cs arbitrary: args) (auto simp: conds_params_def add.commute)

lemma plan_rows:
  "x \<in> set (matching_rows E T (select_plan conds order limit) args) \<longleftrightarrow>
   x \<in> set (T ''user_plans'') \<and> where_sql E conds x args"
  by (auto simp: matching_rows_def from_rows_def select_plan_def with_alias_def)

lemma plan_params: "select_params (select_plan conds order limit) = conds_params conds + limit_params limit"
  "se_cols (select_plan conds order limit) = planSelectColumns" "planSelectColumns \<noteq> [SCount]"
  by (simp_all add: select_plan_def select_params_def planSelectColumns_def)

lemma conditions_params: "conds_params (map fst (list_conditions userID f)) = length (concat (map snd (list_conditions userID f)))"
  by (simp add: list_conditions_def conds_params_def Let_def)

lemma conditions_own: "where_sql E (map fst (list_conditions userID f)) r (concat (map snd (list_conditions userID f)) @ rest) \<Longrightarrow> own_row E userID r"
  by (simp add: list_conditions_def own_row_def)

lemma scan_rows_all: "scan_rows scan vs = Inr xs \<Longrightarrow> x \<in> set xs \<Longrightarrow> \<exists>v \<in> set vs. scan v = Inr x"
  by (induction vs arbitrary: xs) (auto simp: and_then_Inr_iff)

lemma read_own_row:
  assumes "mysql DB E tabs saved" "query_row DB c (select_plan conds order limit) args d = Inr v" "conds_params conds + limit_params limit = length args"
    and "\<And>r. where_sql E conds r args \<Longrightarrow> own_row E userID r" "scanUserPlan J v = Inr p"
  shows "own_plan E userID p"
proof -
  obtain x where x: "x \<in> set (matching_rows E (tabs d) (select_plan conds order limit) args)" "v = map (column_value x) planSelectColumns"
    using query_row_law [OF assms(1,2)] assms(3) by (auto simp: plan_params)
  have "own_row E userID x" using x(1) by (intro assms(4)) (simp add: plan_rows)
  then show ?thesis using scan_own assms(5) x(2) by simp
qed

lemma List_own:
  assumes "mysql DB E tabs saved" "MySQLPlanStore_List DB J c userID f d = Inr (ps, n)"
  shows "list_all (own_plan E userID) ps"
proof -
  let ?conds = "map fst (list_conditions userID f)" and ?args = "concat (map snd (list_conditions userID f))"
  obtain k m rows where q: "sd_query DB c (select_plan ?conds [''updated_at''] LimitOffsetQ) (?args @ [VInt k, VInt m]) d = Inr (rows, None)"
    and rows: "scan_rows (scanUserPlan J) rows = Inr ps"
    using assms(2) by (auto simp: MySQLPlanStore_List_def list_page_def Let_def split: prod.splits sum.splits option.splits)
  have "own_plan E userID p" if p: "p \<in> set ps" for p
  proof -
    obtain v where v: "v \<in> set rows" "scanUserPlan J v = Inr p" using scan_rows_all [OF rows p] by blast
    obtain x where x: "x \<in> set (matching_rows E (tabs d) (select_plan ?conds [''updated_at''] LimitOffsetQ) (?args @ [VInt k, VInt m]))"
      "v = map (column_value x) planSelectColumns"
      using query_law [OF assms(1) q _ _ v(1)] by (auto simp: plan_params conditions_params limit_params_def)
    have "own_row E userID x" using x(1) conditions_own [of E userID f x "[VInt k, VInt m]"] by (simp add: plan_rows)
    then show ?thesis using scan_own v(2) x(2) by simp
  qed
  then show ?thesis by (simp add: list_all_iff)
qed

text \<open>The rows of other users, which a statement for one user leaves as they are.\<close>

definition rows_of_others :: "sql_env \<Rightarrow> string \<Rightarrow> tables \<Rightarrow> row list" where
  "rows_of_others E userID T = filter (\<lambda>r. \<not> sql_eq E (r ''user_id'') (VStr userID)) (T ''user_plans'')"

lemma filter_map_same: "(\<And>x. x \<in> set xs \<Longrightarrow> P (f x) = P x) \<Longrightarrow> (\<And>x. x \<in> set xs \<Longrightarrow> P x \<Longrightarrow> f x = x) \<Longrightarrow> filter P (map f xs) = filter P xs"
  by (induction xs) auto

lemma update_plan_others:
  "rows_of_others E u (T(''user_plans'' := map (updated_row E
     [(''title'', Q), (''note'', Q), (''summary'', Q), (''tags_json'', Q), (''plan_json'', Q), (''destination_city'', Q), (''days'', Q),
      (''visibility'', Q), (''publish_status'', Q), (''updated_at'', Q)]
     [IsQ ''id'', IsQ ''user_id'', IsNull ''deleted_at''] [a1, a2, a3, a4, a5, a6, a7, a8, a9, a10, a11, VStr u]) (T ''user_plans'')))
   = rows_of_others E u T"
  unfolding rows_of_others_def fun_upd_same by (rule filter_map_same) (simp_all add: updated_row_def)

lemma delete_plan_others:
  "rows_of_others E u (T(''user_plans'' := map (updated_row E
     [(''deleted_at'', Q), (''updated_at'', Q)] [IsQ ''id'', IsQ ''user_id'', IsNull ''deleted_at''] [a1, a2, a3, VStr u]) (T ''user_plans'')))
   = rows_of_others E u T"
  unfolding rows_of_others_def fun_upd_same by (rule filter_map_same) (simp_all add: updated_row_def)

text \<open>
  C33. The database enforces who owns a plan: whatever the tables hold, whatever statements get lost and whatever the collation is, \<open>Get\<close>, \<open>GetByTaskID\<close> and \<open>List\<close>
  answer with plans of the user they were asked for only, none of them deleted, and \<open>Update\<close> and \<open>SoftDelete\<close> leave every row of another user,
  and every other table, as it is.
\<close>

theorem mysql_plans_isolated:
  assumes "mysql DB E tabs saved"
  shows "(case MySQLPlanStore_Get DB J c planID u d of Inr p \<Rightarrow> own_plan E u p | Inl _ \<Rightarrow> True)
    \<and> (case MySQLPlanStore_GetByTaskID DB J c u taskID d of Inr (Some p) \<Rightarrow> own_plan E u p | _ \<Rightarrow> True)
    \<and> (case MySQLPlanStore_List DB J c u f d of Inr (ps, n) \<Rightarrow> list_all (own_plan E u) ps | Inl _ \<Rightarrow> True)
    \<and> rows_of_others E (up_UserID plan) (tabs (snd (MySQLPlanStore_Update DB J c plan d))) = rows_of_others E (up_UserID plan) (tabs d)
    \<and> rows_of_others E u (tabs (snd (MySQLPlanStore_SoftDelete DB c planID u t d))) = rows_of_others E u (tabs d)
    \<and> (table = ''user_plans'' \<or> tabs (snd (MySQLPlanStore_Update DB J c plan d)) table = tabs d table
         \<and> tabs (snd (MySQLPlanStore_SoftDelete DB c planID u t d)) table = tabs d table)"
proof -
  have get: "own_plan E u p" if "MySQLPlanStore_Get DB J c planID u d = Inr p" for p
    using that read_own_row [OF assms, of c "[IsQ ''id'', IsQ ''user_id'', IsNull ''deleted_at'']" "[]" NoLimit "[VStr planID, VStr u]" d _ u J p]
    by (auto simp: MySQLPlanStore_Get_def one_plan_def and_then_Inr_iff conds_params_def limit_params_def own_row_def split: sum.splits)
  have task: "own_plan E u p" if "MySQLPlanStore_GetByTaskID DB J c u taskID d = Inr (Some p)" for p
    using that read_own_row [OF assms, of c "[IsQ ''user_id'', IsQ ''task_id'', IsNull ''deleted_at'']" "[''updated_at'']" Limit1 "[VStr u, VStr taskID]" d _ u J p]
    by (auto simp: MySQLPlanStore_GetByTaskID_def maybe_plan_def and_then_Inr_iff conds_params_def limit_params_def own_row_def
        split: sum.splits if_splits)
  have upd: "tabs (snd (MySQLPlanStore_Update DB J c plan d)) = tabs d
    \<or> (\<exists>a1 a2 a3 a4 a5 a6 a7 a8 a9 a10 a11. tabs (snd (MySQLPlanStore_Update DB J c plan d)) = (tabs d)(''user_plans'' := map (updated_row E
     [(''title'', Q), (''note'', Q), (''summary'', Q), (''tags_json'', Q), (''plan_json'', Q), (''destination_city'', Q), (''days'', Q),
      (''visibility'', Q), (''publish_status'', Q), (''updated_at'', Q)]
     [IsQ ''id'', IsQ ''user_id'', IsNull ''deleted_at''] [a1, a2, a3, a4, a5, a6, a7, a8, a9, a10, a11, VStr (up_UserID plan)]) (tabs d ''user_plans'')))"
  proof (cases "pc_plan J (up_Plan plan)")
    case (Inr s)
    obtain r d' where u: "MySQLPlanStore_Update DB J c plan d = (r, d')" by (cases "MySQLPlanStore_Update DB J c plan d")
    then obtain a where a: "sd_exec DB c update_plan (update_plan_args plan s) d = (a, d')"
      by (auto simp: MySQLPlanStore_Update_def Inr exec_affecting_iff)
    show ?thesis
      using update_step [OF assms a [unfolded update_plan_def]] u
      by (simp add: update_plan_args_def conds_params_def plan_keys) blast
  qed (simp add: MySQLPlanStore_Update_def)
  have del: "tabs (snd (MySQLPlanStore_SoftDelete DB c planID u t d)) = tabs d
    \<or> tabs (snd (MySQLPlanStore_SoftDelete DB c planID u t d)) = (tabs d)(''user_plans'' := map (updated_row E
     [(''deleted_at'', Q), (''updated_at'', Q)] [IsQ ''id'', IsQ ''user_id'', IsNull ''deleted_at'']
     [VTime t, VTime t, VStr planID, VStr u]) (tabs d ''user_plans''))"
  proof -
    obtain r d' where e: "MySQLPlanStore_SoftDelete DB c planID u t d = (r, d')" by (cases "MySQLPlanStore_SoftDelete DB c planID u t d")
    then obtain a where a: "sd_exec DB c delete_plan [VTime t, VTime t, VStr planID, VStr u] d = (a, d')"
      by (auto simp: MySQLPlanStore_SoftDelete_def exec_affecting_iff)
    show ?thesis
      using update_step [OF assms a [unfolded delete_plan_def]] e by (simp add: conds_params_def plan_keys) blast
  qed
  show ?thesis
    using get task List_own [OF assms, of J c u f d] upd del
    by (auto simp: update_plan_others delete_plan_others split: sum.splits option.splits)
qed

text \<open>A toy codec, a plan, and a server that loses its second statement.\<close>

definition toy_plans_codec :: plans_codec where
  "toy_plans_codec = \<lparr>pc_plan = (\<lambda>p. Inr (case p of None \<Rightarrow> ''null'' | Some _ \<Rightarrow> ''{}'')), pc_unplan = (\<lambda>s. None),
     pc_untags = (\<lambda>s. if s = ''[]'' then Some [] else None), pc_brief = (\<lambda>b. Inr ''null''), pc_unbrief = (\<lambda>s. None),
     pc_messages = (\<lambda>ms. Inr ''[]''), pc_unmessages = (\<lambda>s. []), pc_events = (\<lambda>es. Inr ''[]''), pc_unevents = (\<lambda>s. [])\<rparr>"

definition sample_user_plan :: UserPlan where
  "sample_user_plan = \<lparr>up_ID = ''plan_1'', up_UserID = ''user_1'', up_TaskID = ''task_1'', up_SourcePublicPlanID = [], up_Title = ''Trip'',
     up_Note = [], up_Summary = [], up_Tags = [], up_Plan = None, up_DestinationCity = ''Nice'', up_Days = 2,
     up_Visibility = VisibilityPrivate, up_PublishStatus = PublishStatusDraft, up_CreatedAt = 1000, up_UpdatedAt = 2000, up_DeletedAt = None\<rparr>"

theorem mysql_plans_isolated_witness:
  "rows_of_others binary_env ''user_1''
     (fst (fst (snd (MySQLPlanStore_SoftDelete (mysql_lossy binary_env) background ''plan_1'' ''user_1'' 7
        ((\<lambda>_. [\<lambda>_. VStr ''user_2''], \<lambda>_. []), [(True, False)])))))
   = [\<lambda>_. VStr ''user_2'']"
proof -
  have "rows_of_others binary_env ''user_1'' (fst (fst ((\<lambda>_. [\<lambda>_. VStr ''user_2''], \<lambda>_. []), [(True, False)]))) = [\<lambda>_. VStr ''user_2'']"
    by (simp add: rows_of_others_def binary_env_def)
  then show ?thesis
    using mysql_plans_isolated [OF lossy_sql.mysql_axioms, where c = background and planID = "''plan_1''" and u = "''user_1''"
        and d = "((\<lambda>_. [\<lambda>_. VStr ''user_2''], \<lambda>_. []), [(True, False)])" and t = 7] by simp
qed

subsection \<open>What is saved is read\<close>

definition plan_row :: "sql_env \<Rightarrow> UserPlan \<Rightarrow> string \<Rightarrow> row" where
  "plan_row E plan s = inserted_row E ''user_plans''
     [''id'', ''user_id'', ''task_id'', ''source_public_plan_id'', ''title'', ''note'', ''summary'', ''tags_json'', ''plan_json'',
      ''destination_city'', ''days'', ''visibility'', ''publish_status'', ''created_at'', ''updated_at'']
     [Q, Q, Q, Q, Q, Q, Q, Q, Q, Q, Q, Q, Q, Q, Q] (insert_plan_args plan s)"

definition kept_plan :: "sql_env \<Rightarrow> UserPlan \<Rightarrow> UserPlan" where
  "kept_plan E p = p\<lparr>up_CreatedAt := me_time E (up_CreatedAt p), up_UpdatedAt := me_time E (up_UpdatedAt p), up_DeletedAt := None\<rparr>"

text \<open>\<open>encoding/json\<close> reads back what it wrote, from a JSON column too.\<close>

definition reads_json :: "sql_env \<Rightarrow> plans_codec \<Rightarrow> UserPlan \<Rightarrow> bool" where
  "reads_json E J p \<longleftrightarrow>
     (case pc_plan J (up_Plan p) of
        Inl _ \<Rightarrow> False
      | Inr s \<Rightarrow> me_json E s \<noteq> [] \<and> pc_unplan J (me_json E s) = up_Plan p)
   \<and> me_json E (json_strings (up_Tags p)) \<noteq> [] \<and> pc_untags J (me_json E (json_strings (up_Tags p))) = Some (up_Tags p)"

lemma plan_row_cells:
  "plan_row E p s ''id'' = VStr (up_ID p)" "plan_row E p s ''user_id'' = VStr (up_UserID p)" "plan_row E p s ''deleted_at'' = VNull"
  by (simp_all add: plan_row_def inserted_row_def insert_plan_args_def is_json_def suffix_def default_row_def)

lemma stored_nullable: "stored E c (nullableString s) = (if s = [] then VNull else VStr (if is_json c then me_json E s else s))"
  by (simp add: nullableString_def)

lemma plan_row_scan:
  assumes "reads_json E J p" "pc_plan J (up_Plan p) = Inr s"
  shows "scanUserPlan J (map (column_value (plan_row E p s)) planSelectColumns) = Inr (kept_plan E p)"
  using assms
  by (simp add: plan_row_def inserted_row_def insert_plan_args_def planSelectColumns_def scanUserPlan_def kept_plan_def is_json_def
      suffix_def default_row_def stored_nullable reads_json_def)

lemma create_plan_step:
  assumes "mysql DB E tabs saved" "MySQLPlanStore_Create DB J c p d = (Inr (), d')"
  shows "\<exists>s. pc_plan J (up_Plan p) = Inr s
    \<and> \<not> list_ex (\<lambda>r. clashing E ''user_plans'' r (plan_row E p s)) (tabs d ''user_plans'')
    \<and> tabs d' = (tabs d)(''user_plans'' := tabs d ''user_plans'' @ [plan_row E p s])"
proof -
  obtain s where s: "pc_plan J (up_Plan p) = Inr s"
    using assms(2) by (auto simp: MySQLPlanStore_Create_def split: sum.splits)
  then obtain a where a: "sd_exec DB c insert_plan (insert_plan_args p s) d = (a, d')"
    "Inr () = (case a of Inl e \<Rightarrow> Inl (plans_backend ''insert user_plan'' e) | Inr _ \<Rightarrow> Inr ())"
    using assms(2) by (auto simp: MySQLPlanStore_Create_def exec_only_iff)
  have ok: "is_ok a" using a(2) by (cases a) simp_all
  have "sum_list (map expr_params [Q, Q, Q, Q, Q, Q, Q, Q, Q, Q, Q, Q, Q, Q, Q]) = length (insert_plan_args p s)"
    by (simp add: insert_plan_args_def)
  from insert_step [OF assms(1) a(1) [unfolded insert_plan_def] this] show ?thesis
    using s ok unfolding plan_row_def [symmetric] by blast
qed

text \<open>The rows an id finds after a creation: the new one only.\<close>

lemma only_new_plan:
  assumes "equivp (me_eq E)" "me_eq E (up_ID p) i"
    and "\<not> list_ex (\<lambda>r. clashing E ''user_plans'' r (plan_row E p s)) (T ''user_plans'')"
  shows "filter (\<lambda>r. sql_eq E (r ''id'') (VStr i)) (T ''user_plans'' @ [plan_row E p s]) = [plan_row E p s]"
proof -
  have "\<not> sql_eq E (r ''id'') (VStr i)" if r: "r \<in> set (T ''user_plans'')" for r
  proof
    assume "sql_eq E (r ''id'') (VStr i)"
    then obtain a where a: "r ''id'' = VStr a" "me_eq E a i" by (auto simp: sql_eq_VStr)
    then have "me_eq E a (up_ID p)" using assms(1,2) by (meson equivp_symp equivp_transp)
    then have "clashing E ''user_plans'' r (plan_row E p s)" using a(1) by (simp add: clashing_def clash_def plan_keys plan_row_cells)
    then show False using assms(3) r by (auto simp: list_ex_iff)
  qed
  then show ?thesis using assms(2) by (simp add: plan_row_cells)
qed

lemma Get_rows:
  "matching_rows E T (select_plan [IsQ ''id'', IsQ ''user_id'', IsNull ''deleted_at''] [] NoLimit) [VStr i, VStr u]
   = filter (own_row E u) (filter (\<lambda>r. sql_eq E (r ''id'') (VStr i)) (T ''user_plans''))"
  by (simp add: matching_rows_def from_rows_def select_plan_def with_alias_def own_row_def conj_commute conj_left_commute)

lemma Get_params: "select_params (select_plan [IsQ ''id'', IsQ ''user_id'', IsNull ''deleted_at''] [] NoLimit) = length [VStr i, VStr u]"
  "se_cols (select_plan cs os l) \<noteq> [SCount]" "se_limit (select_plan cs os NoLimit) \<in> {NoLimit, Limit1}"
  by (simp_all add: select_plan_def select_params_def conds_params_def limit_params_def planSelectColumns_def)

lemma Get_none:
  assumes "mysql_up DB E tabs saved" "filter (own_row E u) (filter (\<lambda>r. sql_eq E (r ''id'') (VStr i)) (tabs d ''user_plans'')) = []"
  shows "MySQLPlanStore_Get DB J c i u d = Inl ErrPlanNotFound"
  using query_row_up(1) [OF assms(1) Get_params(1,2,3), of d i u c] assms(2)
  by (simp add: Get_rows MySQLPlanStore_Get_def one_plan_def)

lemma Get_only:
  assumes "mysql_up DB E tabs saved" "filter (own_row E u) (filter (\<lambda>r. sql_eq E (r ''id'') (VStr i)) (tabs d ''user_plans'')) = [r]"
    and "scanUserPlan J (map (column_value r) planSelectColumns) = Inr p"
  shows "MySQLPlanStore_Get DB J c i u d = Inr p"
proof -
  obtain v where v: "query_row DB c (select_plan [IsQ ''id'', IsQ ''user_id'', IsNull ''deleted_at''] [] NoLimit) [VStr i, VStr u] d = Inr v"
    using query_row_up(2) [OF assms(1) Get_params(1,2,3), of d i u c] assms(2) by (auto simp: Get_rows)
  have "v = map (column_value r) planSelectColumns"
    using query_row_law [OF mysql_up.axioms(1) [OF assms(1)] v Get_params(1,2)] by (simp only: Get_rows assms(2) plan_params) simp
  then show ?thesis using v assms(3) by (simp add: MySQLPlanStore_Get_def one_plan_def)
qed

text \<open>
  C34. What is saved in MySQL is what is read: after a plan was created, its owner gets it under its id exactly as it was given, with its instants as
  the columns keep them; nobody else gets it; and once it is deleted nobody does. Ids are compared as the server compares them.
\<close>

theorem mysql_plan_reads_back:
  assumes "mysql_up DB E tabs saved" "MySQLPlanStore_Create DB J c p d = (Inr (), d1)" "reads_json E J p" "me_eq E (up_ID p) i"
  shows "MySQLPlanStore_Get DB J c' i u d1 = (if me_eq E (up_UserID p) u then Inr (kept_plan E p) else Inl ErrPlanNotFound)
    \<and> (case MySQLPlanStore_SoftDelete DB c' i (up_UserID p) t d1 of (res, d2) \<Rightarrow>
         res = Inr () \<and> MySQLPlanStore_Get DB J c' i u d2 = Inl ErrPlanNotFound)"
proof -
  note m = mysql_up.axioms(1) [OF assms(1)]
  note eq = mysql.collation [OF m]
  obtain s where s: "pc_plan J (up_Plan p) = Inr s"
    "\<not> list_ex (\<lambda>r. clashing E ''user_plans'' r (plan_row E p s)) (tabs d ''user_plans'')"
    "tabs d1 = (tabs d)(''user_plans'' := tabs d ''user_plans'' @ [plan_row E p s])"
    using create_plan_step [OF m assms(2)] by blast
  have rows: "filter (\<lambda>r. sql_eq E (r ''id'') (VStr i)) (tabs d1 ''user_plans'') = [plan_row E p s]"
    using only_new_plan [where T = "tabs d", OF eq assms(4) s(2)] by (simp add: s(3))
  have own: "own_row E w (plan_row E p s) \<longleftrightarrow> me_eq E (up_UserID p) w" for w by (simp add: own_row_def plan_row_cells)
  have get: "MySQLPlanStore_Get DB J c' i u d1 = (if me_eq E (up_UserID p) u then Inr (kept_plan E p) else Inl ErrPlanNotFound)"
    using Get_only [OF assms(1) _ plan_row_scan [OF assms(3) s(1)], of u i d1 c'] Get_none [OF assms(1), of u i d1 J c']
    by (simp add: rows own)
  let ?sets = "[(''deleted_at'', Q), (''updated_at'', Q)]" and ?cs = "[IsQ ''id'', IsQ ''user_id'', IsNull ''deleted_at'']"
  let ?args = "[VTime t, VTime t, VStr i, VStr (up_UserID p)]"
  obtain res d2 where del: "MySQLPlanStore_SoftDelete DB c' i (up_UserID p) t d1 = (res, d2)"
    by (cases "MySQLPlanStore_SoftDelete DB c' i (up_UserID p) t d1")
  then obtain a where a: "sd_exec DB c' delete_plan ?args d1 = (a, d2)"
    "res = (case a of Inl e \<Rightarrow> Inl (plans_backend ''soft delete plan'' e) | Inr n \<Rightarrow> if n = Inr 0 then Inl ErrPlanNotFound else Inr ())"
    by (auto simp: MySQLPlanStore_SoftDelete_def exec_affecting_iff)
  have counted: "length (counted_rows E ?sets ?cs ?args (tabs d1 ''user_plans'')) = length [plan_row E p s]"
  proof -
    have "counted_rows E ?sets ?cs ?args (tabs d1 ''user_plans'')
        = filter (own_row E (up_UserID p)) (filter (\<lambda>r. sql_eq E (r ''id'') (VStr i)) (tabs d1 ''user_plans''))"
      unfolding counted_rows_def filter_filter by (rule filter_cong) (auto simp: own_row_def updated_row_def)
    then show ?thesis using equivp_reflp [OF eq] by (simp add: rows own)
  qed
  have upd: "a = Inr (Inr 1)" "tabs d2 = (tabs d1)(''user_plans'' := map (updated_row E ?sets ?cs ?args) (tabs d1 ''user_plans''))"
    using update_up [OF assms(1) a(1) [unfolded delete_plan_def]] counted by (simp_all add: conds_params_def plan_keys)
  have "filter (own_row E u) (filter (\<lambda>r. sql_eq E (r ''id'') (VStr i)) (tabs d2 ''user_plans'')) = []"
  proof -
    have "\<not> own_row E u (updated_row E ?sets ?cs ?args r)"
      if r: "r \<in> set (tabs d1 ''user_plans'')" "sql_eq E (updated_row E ?sets ?cs ?args r ''id'') (VStr i)" for r
    proof -
      have "sql_eq E (r ''id'') (VStr i)" using r(2) by (simp add: updated_row_def split: if_splits)
      then have "r \<in> set (filter (\<lambda>r. sql_eq E (r ''id'') (VStr i)) (tabs d1 ''user_plans''))" using r(1) by simp
      then have "r = plan_row E p s" unfolding rows by simp
      then show ?thesis using assms(4) equivp_reflp [OF eq] by (simp add: updated_row_def plan_row_cells own_row_def)
    qed
    then show ?thesis by (auto simp: upd(2) filter_empty_conv)
  qed
  then have "MySQLPlanStore_Get DB J c' i u d2 = Inl ErrPlanNotFound" by (rule Get_none [OF assms(1)])
  then show ?thesis using get del a(2) upd(1) by simp
qed

theorem mysql_plan_reads_back_witness:
  "\<exists>d1. MySQLPlanStore_Create (mysql_reference folding_env) toy_plans_codec background sample_user_plan (\<lambda>_. [], \<lambda>_. []) = (Inr (), d1)
     \<and> MySQLPlanStore_Get (mysql_reference folding_env) toy_plans_codec background ''PLAN_1'' ''user_1'' d1 = Inr (kept_plan folding_env sample_user_plan)
     \<and> MySQLPlanStore_Get (mysql_reference folding_env) toy_plans_codec background ''PLAN_1'' ''user_2'' d1 = Inl ErrPlanNotFound"
proof -
  obtain res d1 where c: "MySQLPlanStore_Create (mysql_reference folding_env) toy_plans_codec background sample_user_plan (\<lambda>_. [], \<lambda>_. []) = (res, d1)"
    by (cases "MySQLPlanStore_Create (mysql_reference folding_env) toy_plans_codec background sample_user_plan (\<lambda>_. [], \<lambda>_. [])")
  have ok: "res = Inr ()"
    using c by (auto simp: MySQLPlanStore_Create_def toy_plans_codec_def mysql_reference_def run_sql_def exec_sql_def insert_plan_def plan_keys
        exec_only_def Let_def split: option.splits)
  have "ToLower ''plan_1'' = ToLower ''PLAN_1''" "ToLower ''user_1'' \<noteq> ToLower ''user_2''" by (code_simp, code_simp)
  then have e: "me_eq folding_env (up_ID sample_user_plan) ''PLAN_1''" "me_eq folding_env (up_UserID sample_user_plan) ''user_1''"
    "\<not> me_eq folding_env (up_UserID sample_user_plan) ''user_2''"
    by (simp_all add: folding_env_def sample_user_plan_def)
  have "json_strings [] = ''[]''" by code_simp
  then have "reads_json folding_env toy_plans_codec sample_user_plan"
    by (simp add: reads_json_def toy_plans_codec_def sample_user_plan_def folding_env_def binary_env_def)
  note read = mysql_plan_reads_back [OF mysql_reference_up [OF sane_folding_env] c [unfolded ok] this e(1)]
  show ?thesis using c ok e read [of background "''user_1''"] read [of background "''user_2''"] by auto
qed

subsection \<open>The hot score\<close>

lemma public_keys: "unique_keys ''public_plans'' = [[''id''], [''plan_id'']]"
  by (simp add: unique_keys_def)

lemma joined_public:
  assumes "x \<in> set (matching_rows E T (select_public [IsQ ''p.id''] [] NoLimit) [VStr i])"
  shows "\<exists>r \<in> set (T ''public_plans''). sql_eq E (r ''id'') (VStr i)
    \<and> (\<forall>c. x (''p.'' @ c) = r c)"
  using assms
  by (auto simp: matching_rows_def from_rows_def select_public_def with_alias_def joined_row_def Let_def split: if_splits)

fun counter_weight :: "PublicCounterKind \<Rightarrow> int" where
  "counter_weight CounterView = 1"
| "counter_weight CounterSave = 5"
| "counter_weight CounterCopy = 3"

text \<open>The row an increment leaves: its second assignment reads the counter the first one has written.\<close>

definition scored :: "int \<Rightarrow> row \<Rightarrow> bool" where
  "scored w r \<longleftrightarrow> (\<forall>v s k. r ''view_count'' = VInt v \<longrightarrow> r ''save_count'' = VInt s \<longrightarrow> r ''copy_count'' = VInt k \<longrightarrow>
     r ''hot_score'' = VInt (v + s * 5 + k * 3 + w))"

lemma stored_arith: "stored E c (sql_arith f a b) = sql_arith f a b"
  by (cases a; cases b) auto

lemma arith_int: "sql_arith f a b = VInt z \<longleftrightarrow> (\<exists>x y. a = VInt x \<and> b = VInt y \<and> z = f x y)"
  by (cases a; cases b) auto

lemma scan_int_iff: "scan_number w = Inr n \<longleftrightarrow> w = VInt n"
  by (cases w) auto

lemma incremented:
  assumes "\<And>a b. me_eq E (kind_string a) (kind_string b) \<longleftrightarrow> a = b" "sql_eq E (r ''id'') (VStr i)"
  shows "scored (counter_weight kind) (fst (assign_sql E
     (case increment_counter (counter_column kind) of UpdateSet t sets cs \<Rightarrow> sets) r
     [VStr (kind_string kind), VStr (kind_string kind), VStr (kind_string kind), VTime now, VStr i]))"
proof -
  have k: "me_eq E ''view'' ''view''" "me_eq E ''save'' ''save''" "me_eq E ''copy'' ''copy''" "\<not> me_eq E ''save'' ''view''"
    "\<not> me_eq E ''copy'' ''view''" "\<not> me_eq E ''copy'' ''save''"
    using assms(1) [of CounterView CounterView] assms(1) [of CounterSave CounterSave] assms(1) [of CounterCopy CounterCopy]
      assms(1) [of CounterSave CounterView] assms(1) [of CounterCopy CounterView] assms(1) [of CounterCopy CounterSave] by simp_all
  show ?thesis
    by (cases kind) (auto simp: increment_counter_def scored_def k stored_arith arith_int)
qed

text \<open>
  C35. The hot score drifts in MySQL: a plan that is read after an increment has as its hot score its views, five times its saves and three times its copies, plus once more
  the weight of the increment, since MySQL assigns the columns of an \<open>UPDATE\<close> from left to right and the score adds one to the counter that was
  already incremented. (The score of the in-memory store has no such excess.) This holds whatever statements were lost before.
\<close>

theorem mysql_hot_score_drifts:
  assumes "mysql DB E tabs saved" "\<And>a b. me_eq E (kind_string a) (kind_string b) \<longleftrightarrow> a = b"
    and "MySQLPublicPlanStore_IncrementCounter DB c i kind now d = (Inr (), d')"
    and "MySQLPublicPlanStore_Get DB J c' i d' = Inr p"
  shows "pp_HotScore p = pp_ViewCount p + pp_SaveCount p * 5 + pp_CopyCount p * 3 + counter_weight kind"
proof -
  define sets where "sets = (case increment_counter (counter_column kind) of UpdateSet t sets cs \<Rightarrow> sets)"
  define args where "args = [VStr (kind_string kind), VStr (kind_string kind), VStr (kind_string kind), VTime now, VStr i]"
  have stmt: "increment_counter (counter_column kind) = UpdateSet ''public_plans'' sets [IsQ ''id'']"
    by (simp add: sets_def increment_counter_def)
  obtain a where a: "sd_exec DB c (UpdateSet ''public_plans'' sets [IsQ ''id'']) args d = (a, d')" "is_ok a"
    using assms(3) unfolding MySQLPublicPlanStore_IncrementCounter_def exec_affecting_ok stmt args_def [symmetric] by auto
  have p: "sum_list (map (expr_params \<circ> snd) sets) = 4" by (simp add: sets_def increment_counter_def)
  have keys: "list_all (\<lambda>(c, e). c \<notin> set (concat (unique_keys ''public_plans''))) sets"
    by (cases kind) (simp_all add: sets_def increment_counter_def public_keys)
  have d': "tabs d' = (tabs d)(''public_plans'' := map (updated_row E sets [IsQ ''id''] args) (tabs d ''public_plans''))"
    using update_step [OF assms(1) a(1) _ keys] a(2) by (simp add: p conds_params_def args_def)
  obtain v where v: "query_row DB c' (select_public [IsQ ''p.id''] [] NoLimit) [VStr i] d' = Inr v" "scanPublicPlan J v = Inr p"
    using assms(4) by (auto simp: MySQLPublicPlanStore_Get_def one_plan_def and_then_Inr_iff split: sum.splits)
  obtain x where x: "x \<in> set (matching_rows E (tabs d') (select_public [IsQ ''p.id''] [] NoLimit) [VStr i])"
    "v = map (column_value x) publicPlanSelectColumns"
    using query_row_law [OF assms(1) v(1)]
    by (auto simp: select_public_def select_params_def conds_params_def limit_params_def publicPlanSelectColumns_def)
  obtain r where r: "r \<in> set (tabs d' ''public_plans'')" "sql_eq E (r ''id'') (VStr i)" "\<And>c. x (''p.'' @ c) = r c"
    using joined_public [OF x(1)] by auto
  obtain r0 where r0: "r = updated_row E sets [IsQ ''id''] args r0"
    using r(1) by (auto simp: d')
  have same: "updated_row E sets [IsQ ''id''] args r0 ''id'' = r0 ''id''"
    by (cases kind) (simp_all add: updated_row_def sets_def increment_counter_def args_def Let_def)
  have "scored (counter_weight kind) r"
    using incremented [OF assms(2), of r0 i kind now, folded sets_def args_def] r(2) unfolding r0 same
    by (simp add: updated_row_def p) (simp add: args_def)
  moreover have "x ''p.view_count'' = r ''view_count''" "x ''p.save_count'' = r ''save_count''" "x ''p.copy_count'' = r ''copy_count''"
    "x ''p.hot_score'' = r ''hot_score''"
    using r(3) [of "''view_count''"] r(3) [of "''save_count''"] r(3) [of "''copy_count''"] r(3) [of "''hot_score''"] by simp_all
  moreover have "scan_number (x ''p.view_count'') = Inr (pp_ViewCount p)" "scan_number (x ''p.save_count'') = Inr (pp_SaveCount p)"
    "scan_number (x ''p.copy_count'') = Inr (pp_CopyCount p)" "scan_number (x ''p.hot_score'') = Inr (pp_HotScore p)"
    using v(2) unfolding x(2) by (auto simp: scanPublicPlan_def publicPlanSelectColumns_def and_then_Inr_iff)
  ultimately show ?thesis by (simp add: scored_def scan_int_iff)
qed

text \<open>A published plan nobody has looked at, viewed once: the score is 2.\<close>

definition sample_public :: PublicPlan where
  "sample_public = \<lparr>pp_ID = ''pub_1'', pp_PlanID = ''plan_1'', pp_UserID = ''user_1'', pp_AuthorName = [], pp_Title = ''Trip'', pp_Summary = [],
     pp_Tags = [], pp_Plan = None, pp_DestinationCity = ''Nice'', pp_Days = 2, pp_Status = PublicPlanStatusPublished, pp_ViewCount = 0,
     pp_SaveCount = 0, pp_CopyCount = 0, pp_HotScore = 0, pp_PublishedAt = 1000, pp_UpdatedAt = 1000\<rparr>"

definition viewed_once :: sql_state where
  "viewed_once =
     snd (MySQLPublicPlanStore_IncrementCounter (mysql_reference binary_env) background ''pub_1'' CounterView 2000
       (snd (MySQLPublicPlanStore_Upsert (mysql_reference binary_env) toy_plans_codec background sample_public (\<lambda>_. [], \<lambda>_. []))))"

definition public_row :: row where
  "public_row = inserted_row binary_env ''public_plans''
     [''id'', ''plan_id'', ''user_id'', ''title'', ''summary'', ''tags_json'', ''plan_json'', ''destination_city'', ''days'', ''status'',
      ''hot_score'', ''published_at'', ''updated_at'']
     [Q, Q, Q, Q, Q, Q, Q, Q, Q, Q, Q, Q, Q] (upsert_public_args sample_public ''null'')"

lemma published_row:
  "snd (MySQLPublicPlanStore_Upsert (mysql_reference binary_env) toy_plans_codec background sample_public (\<lambda>_. [], \<lambda>_. []))
   = ((\<lambda>_. [])(''public_plans'' := [public_row]), \<lambda>_. [])"
  by (simp add: MySQLPublicPlanStore_Upsert_def toy_plans_codec_def mysql_reference_def run_sql_def exec_sql_def upsert_public_def
      public_keys exec_only_def put_rows_def public_row_def Let_def sample_public_def)

lemma public_row_cells: "public_row ''id'' = VStr ''pub_1''" "public_row ''view_count'' = VInt 0" "public_row ''save_count'' = VInt 0"
  "public_row ''copy_count'' = VInt 0"
  by (simp_all add: public_row_def inserted_row_def upsert_public_args_def sample_public_def is_json_def suffix_def default_row_def)

definition view_args :: "sql_value list" where
  "view_args = [VStr ''view'', VStr ''view'', VStr ''view'', VTime 2000, VStr ''pub_1'']"

lemma viewed:
  "MySQLPublicPlanStore_IncrementCounter (mysql_reference binary_env) background ''pub_1'' CounterView 2000
     ((\<lambda>_. [])(''public_plans'' := [public_row]), \<lambda>_. [])
   = (Inr (), (\<lambda>_. [])(''public_plans'' := [fst (assign_sql binary_env
       (case increment_counter ''view_count'' of UpdateSet t sets cs \<Rightarrow> sets) public_row view_args)]), \<lambda>_. [])"
proof -
  have "sql_eq binary_env (public_row ''id'') (VStr ''pub_1'')" by (simp add: public_row_cells binary_env_def)
  then show ?thesis
    by (simp add: MySQLPublicPlanStore_IncrementCounter_def increment_counter_def mysql_reference_def run_sql_def exec_sql_def public_keys
        exec_affecting_def put_rows_def view_args_def public_row_cells Let_def)
qed

definition viewed_row :: row where
  "viewed_row = fst (assign_sql binary_env (case increment_counter ''view_count'' of UpdateSet t sets cs \<Rightarrow> sets) public_row view_args)"

lemma viewed_row_read:
  "\<exists>p. scanPublicPlan toy_plans_codec (map (column_value (joined_row ''u'' (with_alias ''p'' viewed_row) (\<lambda>_. VNull))) publicPlanSelectColumns) = Inr p
     \<and> pp_ViewCount p = 1 \<and> pp_SaveCount p = 0 \<and> pp_CopyCount p = 0"
  by (simp add: viewed_row_def view_args_def increment_counter_def public_row_def inserted_row_def upsert_public_args_def sample_public_def
      is_json_def suffix_def default_row_def scanPublicPlan_def publicPlanSelectColumns_def joined_row_def with_alias_def binary_env_def
      stored_nullable)

lemma viewed_get:
  "\<exists>p. MySQLPublicPlanStore_Get (mysql_reference binary_env) toy_plans_codec background ''pub_1''
       ((\<lambda>_. [])(''public_plans'' := [viewed_row]), \<lambda>_. []) = Inr p
     \<and> pp_ViewCount p = 1 \<and> pp_SaveCount p = 0 \<and> pp_CopyCount p = 0"
proof -
  have i: "viewed_row ''id'' = VStr ''pub_1''"
    by (simp add: viewed_row_def view_args_def increment_counter_def public_row_cells binary_env_def)
  show ?thesis
    using viewed_row_read
    by (auto simp: MySQLPublicPlanStore_Get_def query_row_def mysql_reference_def ask_sql_def query_sql_def matching_rows_def from_rows_def
        select_public_def publicPlanSelectColumns_def joined_row_def with_alias_def i sort_sql_def one_plan_def binary_env_def Let_def)
qed

theorem mysql_hot_score_drifts_witness:
  "\<exists>p. MySQLPublicPlanStore_Get (mysql_reference binary_env) toy_plans_codec background ''pub_1'' viewed_once = Inr p
     \<and> pp_ViewCount p = 1 \<and> pp_SaveCount p = 0 \<and> pp_CopyCount p = 0 \<and> pp_HotScore p = 2"
proof -
  have v: "viewed_once = ((\<lambda>_. [])(''public_plans'' := [viewed_row]), \<lambda>_. [])"
    by (simp add: viewed_once_def published_row viewed viewed_row_def)
  obtain p where p: "MySQLPublicPlanStore_Get (mysql_reference binary_env) toy_plans_codec background ''pub_1'' viewed_once = Inr p"
    "pp_ViewCount p = 1" "pp_SaveCount p = 0" "pp_CopyCount p = 0"
    using viewed_get unfolding v by auto
  have kinds: "me_eq binary_env (kind_string a) (kind_string b) \<longleftrightarrow> a = b" for a b
    by (cases a; cases b) (simp_all add: binary_env_def)
  have inc: "MySQLPublicPlanStore_IncrementCounter (mysql_reference binary_env) background ''pub_1'' CounterView 2000
     ((\<lambda>_. [])(''public_plans'' := [public_row]), \<lambda>_. []) = (Inr (), viewed_once)"
    by (simp add: viewed v viewed_row_def)
  show ?thesis
    using p mysql_hot_score_drifts [OF binary.mysql_axioms kinds inc p(1)] by auto
qed

end
