(* ===== verification/MySQLTasks.thy ===== *)
theory MySQLTasks
  imports RequestHash Redis Sql
begin

section \<open>Tasks in MySQL\<close>

text \<open>
  internal/travel/mysql\_task\_store.go over a server that is a parameter. A task is spread over four tables, which \<open>Create\<close> and \<open>Update\<close>
  write in one transaction and \<open>Get\<close> joins again. \<open>encoding/json\<close> on structs is a parameter; the clock is the instant of the call.
\<close>

record mysql_codec =
  mc_request :: "TravelRequest \<Rightarrow> string + string"
  mc_unrequest :: "string \<Rightarrow> string + TravelRequest"
  mc_plan :: "TravelPlan \<Rightarrow> string + string"
  mc_unplan :: "string \<Rightarrow> string + TravelPlan"

definition task_backend :: "string \<Rightarrow> sql_err \<Rightarrow> travel_err" where
  "task_backend what e = ErrBackend (what @ '': '' @ err_text e)"

subsection \<open>Values\<close>

definition normalizeTaskTime :: "time \<Rightarrow> time \<Rightarrow> time" where
  "normalizeTaskTime now value = (if IsZero value then now else value)"

definition normalizePlannerType :: "string \<Rightarrow> string" where
  "normalizePlannerType value = (if value = [] then ''unknown'' else value)"

definition normalizeAttempt :: "int \<Rightarrow> int" where
  "normalizeAttempt value = (if value \<le> 0 then 1 else value)"

definition taskDurationMs :: "time \<Rightarrow> Task \<Rightarrow> int" where
  "taskDurationMs now task =
     (let startedAt = normalizeTaskTime now (tk_CreatedAt task); finishedAt = normalizeTaskTime now (tk_UpdatedAt task)
      in if finishedAt < startedAt then 0 else Milliseconds (finishedAt - startedAt))"

subsection \<open>Statements in a transaction\<close>

text \<open>A step of a transaction: an error ends it. \<open>tx_then\<close> is a sequence with an early return.\<close>

type_synonym 'd tx_step = "'d \<Rightarrow> (travel_err + unit) \<times> 'd"

definition tx_then :: "'d tx_step \<Rightarrow> 'd tx_step \<Rightarrow> 'd tx_step" where
  "tx_then m k d = (case m d of (Inl e, d') \<Rightarrow> (Inl e, d') | (Inr _, d') \<Rightarrow> k d')"

definition tx_skip :: "'d tx_step" where "tx_skip d = (Inr (), d)"

definition tx_fail :: "travel_err \<Rightarrow> 'd tx_step" where "tx_fail e d = (Inl e, d)"

definition tx_exec :: "'d sql_db \<Rightarrow> ctx \<Rightarrow> string \<Rightarrow> sql_stmt \<Rightarrow> sql_value list \<Rightarrow> 'd tx_step" where
  "tx_exec DB c what s args d =
     (case sd_exec DB c s args d of (Inl e, d') \<Rightarrow> (Inl (task_backend what e), d') | (Inr _, d') \<Rightarrow> (Inr (), d'))"

definition withTx :: "'d sql_db \<Rightarrow> ctx \<Rightarrow> 'd tx_step \<Rightarrow> 'd tx_step" where
  "withTx DB c fn d =
     (case sd_begin DB c d of
        (Inl e, d1) \<Rightarrow> (Inl (task_backend ''begin mysql transaction'' e), d1)
      | (Inr _, d1) \<Rightarrow>
          (case fn d1 of
             (Inl e, d2) \<Rightarrow> (Inl e, sd_rollback DB d2)
           | (Inr _, d2) \<Rightarrow>
               (case sd_commit DB d2 of
                  (Inl e, d3) \<Rightarrow> (Inl (task_backend ''commit mysql transaction'' e), d3)
                | (Inr _, d3) \<Rightarrow> (Inr (), d3))))"

subsection \<open>The tables of a task\<close>

definition insert_task :: sql_stmt where
  "insert_task = InsertInto ''travel_tasks''
     [''id'', ''request_id'', ''user_id'', ''request_hash'', ''status'', ''planner_type'', ''agent_mode'', ''test_mode'', ''attempt'',
      ''request_json'', ''error_text'', ''created_at'', ''updated_at'']
     [Q, Q, Q, Q, Q, Q, Q, Q, Q, Q, Q, Q, Q] []"

definition insert_task_args :: "time \<Rightarrow> Task \<Rightarrow> string \<Rightarrow> sql_value list" where
  "insert_task_args now task requestJSON =
     [VStr (tk_ID task), nullableString (tk_RequestID task), nullableString (tk_UserID task), VStr (tk_RequestHash task),
      VStr (status_text (tk_Status task)), VStr (normalizePlannerType (tk_PlannerType task)), VStr (normalizeAgentMode (tk_AgentMode task)),
      VBool (tk_TestMode task), VInt (normalizeAttempt (tk_Attempt task)), VStr requestJSON, nullableString (tk_Error task),
      VTime (normalizeTaskTime now (tk_CreatedAt task)), VTime (normalizeTaskTime now (tk_UpdatedAt task))]"

definition insertTask :: "'d sql_db \<Rightarrow> mysql_codec \<Rightarrow> ctx \<Rightarrow> time \<Rightarrow> Task \<Rightarrow> 'd tx_step" where
  "insertTask DB J c now task =
     (case mc_request J (tk_Request task) of
        Inl e \<Rightarrow> tx_fail (ErrBackend (''marshal task request: '' @ e))
      | Inr requestJSON \<Rightarrow> tx_exec DB c ''insert travel task'' insert_task (insert_task_args now task requestJSON))"

definition upsert_request :: sql_stmt where
  "upsert_request = InsertInto ''travel_task_requests''
     [''task_id'', ''request_hash'', ''request_json'', ''created_at'', ''updated_at''] [Q, Q, Q, Q, Q]
     [''request_hash'', ''request_json'', ''updated_at'']"

definition upsert_request_args :: "time \<Rightarrow> Task \<Rightarrow> string \<Rightarrow> sql_value list" where
  "upsert_request_args now task requestJSON =
     [VStr (tk_ID task), VStr (tk_RequestHash task), VStr requestJSON, VTime (normalizeTaskTime now (tk_CreatedAt task)),
      VTime (normalizeTaskTime now (tk_UpdatedAt task))]"

definition upsertTaskRequest :: "'d sql_db \<Rightarrow> mysql_codec \<Rightarrow> ctx \<Rightarrow> time \<Rightarrow> Task \<Rightarrow> 'd tx_step" where
  "upsertTaskRequest DB J c now task =
     (case mc_request J (tk_Request task) of
        Inl e \<Rightarrow> tx_fail (ErrBackend (''marshal task request: '' @ e))
      | Inr requestJSON \<Rightarrow> tx_exec DB c ''upsert task request'' upsert_request (upsert_request_args now task requestJSON))"

definition upsert_result :: sql_stmt where
  "upsert_result = InsertInto ''travel_plan_results''
     [''task_id'', ''result_version'', ''plan_json'', ''budget_total'', ''day_count'', ''warning_count'', ''generated_duration_ms'',
      ''created_at'', ''updated_at'']
     [Q, Q, Q, Q, Q, Q, Q, Q, Q]
     [''result_version'', ''plan_json'', ''budget_total'', ''day_count'', ''warning_count'', ''generated_duration_ms'', ''updated_at'']"

definition upsert_result_args :: "time \<Rightarrow> Task \<Rightarrow> TravelPlan \<Rightarrow> string \<Rightarrow> sql_value list" where
  "upsert_result_args now task plan planJSON =
     [VStr (tk_ID task), VInt taskResultCacheVersion, VStr planJSON, VFloat (bg_Total (pl_Budget plan)), VInt (int (length (pl_Days plan))),
      VInt (int (length (pl_Warnings plan))), VInt (taskDurationMs now task), VTime (normalizeTaskTime now (tk_CreatedAt task)),
      VTime (normalizeTaskTime now (tk_UpdatedAt task))]"

definition upsertPlan :: "'d sql_db \<Rightarrow> mysql_codec \<Rightarrow> ctx \<Rightarrow> time \<Rightarrow> Task \<Rightarrow> 'd tx_step" where
  "upsertPlan DB J c now task =
     (case tk_Plan task of
        None \<Rightarrow> tx_skip
      | Some plan \<Rightarrow>
          (case mc_plan J plan of
             Inl e \<Rightarrow> tx_fail (ErrBackend (''marshal task plan: '' @ e))
           | Inr planJSON \<Rightarrow> tx_exec DB c ''upsert travel plan result'' upsert_result (upsert_result_args now task plan planJSON)))"

definition upsert_run :: sql_stmt where
  "upsert_run = InsertInto ''travel_planner_runs''
     [''task_id'', ''planner_type'', ''worker_id'', ''attempt'', ''started_at'', ''finished_at'', ''duration_ms'', ''status'',
      ''fallback_used'', ''fallback_reason'', ''created_at'', ''updated_at'']
     [Q, Q, Q, Q, Q, Q, Q, Q, Q, Q, Q, Q]
     [''finished_at'', ''duration_ms'', ''status'', ''fallback_used'', ''fallback_reason'', ''updated_at'']"

definition upsert_run_args :: "time \<Rightarrow> Task \<Rightarrow> sql_value list" where
  "upsert_run_args now task =
     [VStr (tk_ID task), VStr (normalizePlannerType (tk_PlannerType task)), VStr ''inline-http'', VInt (normalizeAttempt (tk_Attempt task)),
      VTime (normalizeTaskTime now (tk_CreatedAt task)), VTime (normalizeTaskTime now (tk_UpdatedAt task)), VInt (taskDurationMs now task),
      VStr (status_text (tk_Status task)), VBool False, VNull, VTime (normalizeTaskTime now (tk_CreatedAt task)),
      VTime (normalizeTaskTime now (tk_UpdatedAt task))]"

definition upsertPlannerRun :: "'d sql_db \<Rightarrow> ctx \<Rightarrow> time \<Rightarrow> Task \<Rightarrow> 'd tx_step" where
  "upsertPlannerRun DB c now task =
     (if \<not> isTerminalTaskStatus (tk_Status task) then tx_skip
      else tx_exec DB c ''upsert planner run'' upsert_run (upsert_run_args now task))"

definition insert_error_log :: sql_stmt where
  "insert_error_log = InsertInto ''travel_error_logs''
     [''request_id'', ''trace_id'', ''task_id'', ''run_id'', ''component'', ''operation'', ''error_category'', ''error_code'',
      ''retryable'', ''attempt'', ''message'', ''stack_hash'', ''created_at'']
     [Q, Q, Q, Lit VNull, Q, Q, Q, Q, Q, Q, Q, Lit VNull, Q] []"

definition insert_error_log_args :: "time \<Rightarrow> Task \<Rightarrow> sql_value list" where
  "insert_error_log_args now task =
     [nullableString (tk_RequestID task), nullableString (tk_RequestID task), VStr (tk_ID task), VStr ''planner'', VStr ''plan'',
      VStr ''unknown'', VStr ''planner_failed'', VBool False, VInt (normalizeAttempt (tk_Attempt task)), VStr (tk_Error task),
      VTime (normalizeTaskTime now (tk_UpdatedAt task))]"

definition insertErrorLog :: "'d sql_db \<Rightarrow> ctx \<Rightarrow> time \<Rightarrow> Task \<Rightarrow> 'd tx_step" where
  "insertErrorLog DB c now task =
     (if tk_Status task \<noteq> TaskFailed \<or> tk_Error task = [] then tx_skip
      else tx_exec DB c ''insert error log'' insert_error_log (insert_error_log_args now task))"

subsection \<open>MySQLTaskStore\<close>

definition MySQLTaskStore_Create :: "'d sql_db \<Rightarrow> mysql_codec \<Rightarrow> ctx \<Rightarrow> time \<Rightarrow> Task \<Rightarrow> 'd \<Rightarrow> (travel_err + unit) \<times> 'd" where
  "MySQLTaskStore_Create DB J c now task =
     withTx DB c (tx_then (insertTask DB J c now task)
       (tx_then (upsertTaskRequest DB J c now task) (upsertPlan DB J c now task)))"

definition task_sets :: "(string \<times> sql_expr) list" where
  "task_sets =
     [(''request_id'', Q), (''user_id'', Q), (''request_hash'', Q), (''status'', Q), (''planner_type'', Q), (''agent_mode'', Q),
      (''test_mode'', Q), (''attempt'', Q), (''request_json'', Q), (''error_text'', Q), (''updated_at'', Q)]"

definition update_task :: sql_stmt where
  "update_task = UpdateSet ''travel_tasks'' task_sets [IsQ ''id'']"

definition update_task_args :: "time \<Rightarrow> Task \<Rightarrow> string \<Rightarrow> sql_value list" where
  "update_task_args now task requestJSON =
     [nullableString (tk_RequestID task), nullableString (tk_UserID task), VStr (tk_RequestHash task), VStr (status_text (tk_Status task)),
      VStr (normalizePlannerType (tk_PlannerType task)), VStr (normalizeAgentMode (tk_AgentMode task)), VBool (tk_TestMode task),
      VInt (normalizeAttempt (tk_Attempt task)), VStr requestJSON, nullableString (tk_Error task),
      VTime (normalizeTaskTime now (tk_UpdatedAt task)), VStr (tk_ID task)]"

definition update_row :: "'d sql_db \<Rightarrow> ctx \<Rightarrow> time \<Rightarrow> Task \<Rightarrow> string \<Rightarrow> 'd tx_step" where
  "update_row DB c now task requestJSON d =
     (case sd_exec DB c update_task (update_task_args now task requestJSON) d of
        (Inl e, d') \<Rightarrow> (Inl (task_backend ''update travel task'' e), d')
      | (Inr affected, d') \<Rightarrow> (if affected = Inr 0 then Inl ErrTaskNotFound else Inr (), d'))"

definition MySQLTaskStore_Update :: "'d sql_db \<Rightarrow> mysql_codec \<Rightarrow> ctx \<Rightarrow> time \<Rightarrow> Task \<Rightarrow> 'd \<Rightarrow> (travel_err + unit) \<times> 'd" where
  "MySQLTaskStore_Update DB J c now task =
     withTx DB c
       (case mc_request J (tk_Request task) of
          Inl e \<Rightarrow> tx_fail (ErrBackend (''marshal task request: '' @ e))
        | Inr requestJSON \<Rightarrow>
            tx_then (update_row DB c now task requestJSON)
              (tx_then (upsertTaskRequest DB J c now task)
                (tx_then (upsertPlannerRun DB c now task)
                  (tx_then (insertErrorLog DB c now task) (upsertPlan DB J c now task)))))"

definition select_task :: "string \<Rightarrow> sql_select" where
  "select_task by =
     \<lparr>se_cols = [SCol ''t.id'', SOr ''t.request_id'' (VStr []), SOr ''t.user_id'' (VStr []), SCol ''t.request_hash'', SCol ''t.status'',
        SOr ''t.planner_type'' (VStr []), SOr ''t.agent_mode'' (VStr []), SOr ''t.test_mode'' (VInt 0), SOr ''t.attempt'' (VInt 1),
        SOrCol ''r.request_json'' ''t.request_json'', SOr ''t.error_text'' (VStr []), SCol ''t.created_at'', SCol ''t.updated_at'',
        SOrCol ''pr.plan_json'' ''p.plan_json''],
      se_from = (''travel_tasks'', ''t''),
      se_joins = [(''travel_task_requests'', ''r'', ''task_id'', ''t.id''), (''travel_plan_results'', ''pr'', ''task_id'', ''t.id''),
        (''travel_plans'', ''p'', ''task_id'', ''t.id'')],
      se_where = [IsQ by], se_order = [], se_limit = NoLimit\<rparr>"

text \<open>A status is read as its text; the tables hold those of the package only.\<close>

definition all_statuses :: "TaskStatus list" where
  "all_statuses = [TaskPending, TaskQueued, TaskRunning, TaskSucceeded, TaskFailed, TaskRetrying, TaskCanceled, TaskDeadLetter]"

definition scan_status :: "sql_value \<Rightarrow> sql_err + TaskStatus" where
  "scan_status v = and_then (scan_string v) (\<lambda>s.
     case find (\<lambda>st. status_text st = s) all_statuses of None \<Rightarrow> Inl (scan_error ''status'') | Some st \<Rightarrow> Inr st)"

definition zero_request :: TravelRequest where
  "zero_request = \<lparr>rq_ID = [], rq_DepartureCity = [], rq_DestinationCity = [], rq_Days = 0, rq_Budget = f_zero, rq_Interests = [],
     rq_Travelers = 0, rq_DateRange = [], rq_TransportMode = [], rq_Pace = [], rq_WalkingTolerance = [], rq_HotelArea = [],
     rq_MustVisit = [], rq_Avoid = [], rq_TravelerType = [], rq_BudgetType = [], rq_BudgetIncludes = []\<rparr>"

definition scan_task_columns :: "sql_value list \<Rightarrow> sql_err + Task \<times> string \<times> string option" where
  "scan_task_columns v =
     (if length v \<noteq> 14 then Inl scan_count
      else
        and_then (scan_string (v ! 0)) (\<lambda>i. and_then (scan_string (v ! 1)) (\<lambda>requestID. and_then (scan_string (v ! 2)) (\<lambda>user.
        and_then (scan_string (v ! 3)) (\<lambda>h. and_then (scan_status (v ! 4)) (\<lambda>status. and_then (scan_string (v ! 5)) (\<lambda>plannerType.
        and_then (scan_string (v ! 6)) (\<lambda>agentMode. and_then (scan_bool (v ! 7)) (\<lambda>testMode. and_then (scan_number (v ! 8)) (\<lambda>attempt.
        and_then (scan_bytes (v ! 9)) (\<lambda>requestJSON. and_then (scan_string (v ! 10)) (\<lambda>err. and_then (scan_time (v ! 11)) (\<lambda>created.
        and_then (scan_time (v ! 12)) (\<lambda>updated. and_then (scan_null_string (v ! 13)) (\<lambda>planJSON.
          Inr (\<lparr>tk_ID = i, tk_RequestID = requestID, tk_UserID = user, tk_RequestHash = h, tk_Status = status, tk_PlannerType = plannerType,
                tk_Request = zero_request, tk_TestMode = testMode, tk_AgentMode = agentMode, tk_Attempt = attempt, tk_Plan = None,
                tk_Error = err, tk_CreatedAt = created, tk_UpdatedAt = updated\<rparr>, requestJSON, planJSON))))))))))))))))"

definition scanTask :: "mysql_codec \<Rightarrow> sql_err + sql_value list \<Rightarrow> travel_err + Task" where
  "scanTask J row =
     (case and_then row scan_task_columns of
        Inl e \<Rightarrow> Inl (if e = ErrNoRows then ErrTaskNotFound else task_backend ''scan travel task'' e)
      | Inr (task, requestJSON, planJSON) \<Rightarrow>
          (case mc_unrequest J requestJSON of
             Inl e \<Rightarrow> Inl (ErrBackend (''decode task request: '' @ e))
           | Inr request \<Rightarrow>
               (case planJSON of
                  None \<Rightarrow> Inr (task\<lparr>tk_Request := request\<rparr>)
                | Some s \<Rightarrow>
                    if s = [] then Inr (task\<lparr>tk_Request := request\<rparr>)
                    else (case mc_unplan J s of
                            Inl e \<Rightarrow> Inl (ErrBackend (''decode task plan: '' @ e))
                          | Inr plan \<Rightarrow> Inr (task\<lparr>tk_Request := request, tk_Plan := Some plan\<rparr>)))))"

definition MySQLTaskStore_Get :: "'d sql_db \<Rightarrow> mysql_codec \<Rightarrow> ctx \<Rightarrow> string \<Rightarrow> 'd \<Rightarrow> travel_err + Task" where
  "MySQLTaskStore_Get DB J c i d = scanTask J (query_row DB c (select_task ''t.id'') [VStr i] d)"

definition MySQLTaskStore_FindByHash :: "'d sql_db \<Rightarrow> mysql_codec \<Rightarrow> ctx \<Rightarrow> string \<Rightarrow> 'd \<Rightarrow> travel_err + Task option" where
  "MySQLTaskStore_FindByHash DB J c requestHash d =
     (case scanTask J (query_row DB c (select_task ''t.request_hash'') [VStr requestHash] d) of
        Inl e \<Rightarrow> if e = ErrTaskNotFound then Inr None else Inl e
      | Inr task \<Rightarrow> Inr (Some task))"

definition MySQLTaskStore_ops :: "'d sql_db \<Rightarrow> mysql_codec \<Rightarrow> 'd TaskStore" where
  "MySQLTaskStore_ops DB J =
     \<lparr>ts_Create = MySQLTaskStore_Create DB J, ts_Update = MySQLTaskStore_Update DB J,
      ts_Get = (\<lambda>c now i d. (MySQLTaskStore_Get DB J c i d, d)),
      ts_FindByHash = (\<lambda>c now h d. (MySQLTaskStore_FindByHash DB J c h d, d))\<rparr>"

subsection \<open>A transaction is all of its statements or none\<close>

text \<open>The tables after a list of statements, if none of them is refused for a duplicate key.\<close>

fun run_statements :: "sql_env \<Rightarrow> (sql_stmt \<times> sql_value list) list \<Rightarrow> tables \<Rightarrow> tables option" where
  "run_statements E [] T = Some T"
| "run_statements E ((s, args) # ss) T =
     (case exec_sql E s args T of Done n T' \<Rightarrow> run_statements E ss T' | Duplicate \<Rightarrow> None)"

lemma run_append: "run_statements E (ss @ us) T = Option.bind (run_statements E ss T) (run_statements E us)"
  by (induction E ss T rule: run_statements.induct) (auto split: sql_effect.splits)

text \<open>What a step does: it never touches what is committed, and if it goes through it has run its statements.\<close>

definition runs :: "sql_env \<Rightarrow> ('d \<Rightarrow> tables) \<Rightarrow> ('d \<Rightarrow> tables) \<Rightarrow> 'd tx_step \<Rightarrow> (sql_stmt \<times> sql_value list) list \<Rightarrow> bool" where
  "runs E tabs saved m ss \<longleftrightarrow>
     (\<forall>d res d'. m d = (res, d') \<longrightarrow> saved d' = saved d \<and> (is_ok res \<longrightarrow> run_statements E ss (tabs d) = Some (tabs d')))"

lemma runs_skip: "runs E tabs saved tx_skip []"
  by (simp add: runs_def tx_skip_def)

lemma runs_fail: "runs E tabs saved (tx_fail e) ss"
  by (simp add: runs_def tx_fail_def)

lemma runs_then:
  assumes "runs E tabs saved m ss" "runs E tabs saved k us"
  shows "runs E tabs saved (tx_then m k) (ss @ us)"
  unfolding runs_def
proof (intro allI impI)
  fix d res d'
  assume tx: "tx_then m k d = (res, d')"
  obtain r1 d1 where m: "m d = (r1, d1)" by (cases "m d")
  show "saved d' = saved d \<and> (is_ok res \<longrightarrow> run_statements E (ss @ us) (tabs d) = Some (tabs d'))"
  proof (cases r1)
    case (Inl e)
    then show ?thesis using tx m assms(1) by (auto simp: tx_then_def runs_def)
  next
    case (Inr u)
    then have "k d1 = (res, d')" using tx m by (simp add: tx_then_def)
    then show ?thesis using m Inr assms by (fastforce simp: runs_def run_append)
  qed
qed

lemma sent_statement:
  assumes "mysql DB E tabs saved" "stmt_params s = length args" "sd_exec DB c s args d = (a, d')"
  shows "saved d' = saved d \<and> (is_ok a \<longrightarrow> run_statements E [(s, args)] (tabs d) = Some (tabs d'))"
proof (cases "exec_sql E s args (tabs d)")
  case (Done n T')
  then show ?thesis
    using mysql.exec_done [OF assms(1,3,2) Done] mysql.exec_saved [OF assms(1,3)] by auto
next
  case Duplicate
  then show ?thesis
    using mysql.exec_dup [OF assms(1,3,2) Duplicate] mysql.exec_saved [OF assms(1,3)] by auto
qed

lemma runs_exec: "mysql DB E tabs saved \<Longrightarrow> stmt_params s = length args \<Longrightarrow> runs E tabs saved (tx_exec DB c what s args) [(s, args)]"
  unfolding runs_def tx_exec_def
  by (auto dest: sent_statement split: prod.splits sum.splits simp del: run_statements.simps)

text \<open>The statements of a creation and of an update.\<close>

definition json_text :: "string + string \<Rightarrow> string" where
  "json_text r = (case r of Inl e \<Rightarrow> [] | Inr s \<Rightarrow> s)"

definition result_statements :: "mysql_codec \<Rightarrow> time \<Rightarrow> Task \<Rightarrow> (sql_stmt \<times> sql_value list) list" where
  "result_statements J now t =
     (case tk_Plan t of None \<Rightarrow> [] | Some plan \<Rightarrow> [(upsert_result, upsert_result_args now t plan (json_text (mc_plan J plan)))])"

definition create_statements :: "mysql_codec \<Rightarrow> time \<Rightarrow> Task \<Rightarrow> (sql_stmt \<times> sql_value list) list" where
  "create_statements J now t =
     (let s = json_text (mc_request J (tk_Request t))
      in [(insert_task, insert_task_args now t s), (upsert_request, upsert_request_args now t s)] @ result_statements J now t)"

definition update_statements :: "mysql_codec \<Rightarrow> time \<Rightarrow> Task \<Rightarrow> (sql_stmt \<times> sql_value list) list" where
  "update_statements J now t =
     (let s = json_text (mc_request J (tk_Request t))
      in [(update_task, update_task_args now t s), (upsert_request, upsert_request_args now t s)]
         @ (if isTerminalTaskStatus (tk_Status t) then [(upsert_run, upsert_run_args now t)] else [])
         @ (if tk_Status t = TaskFailed \<and> tk_Error t \<noteq> [] then [(insert_error_log, insert_error_log_args now t)] else [])
         @ result_statements J now t)"

lemmas task_stmt_defs = insert_task_def insert_task_args_def upsert_request_def upsert_request_args_def upsert_result_def
  upsert_result_args_def upsert_run_def upsert_run_args_def insert_error_log_def insert_error_log_args_def update_task_def task_sets_def update_task_args_def

lemma runs_result: "mysql DB E tabs saved \<Longrightarrow> runs E tabs saved (upsertPlan DB J c now t) (result_statements J now t)"
  by (auto simp: upsertPlan_def result_statements_def json_text_def task_stmt_defs
      intro!: runs_exec runs_skip runs_fail split: option.splits sum.splits)

lemma runs_request:
  "mysql DB E tabs saved \<Longrightarrow>
   runs E tabs saved (upsertTaskRequest DB J c now t) [(upsert_request, upsert_request_args now t (json_text (mc_request J (tk_Request t))))]"
  by (auto simp: upsertTaskRequest_def json_text_def task_stmt_defs intro!: runs_exec runs_fail split: sum.splits)

lemma runs_create:
  assumes "mysql DB E tabs saved"
  shows "runs E tabs saved (tx_then (insertTask DB J c now t) (tx_then (upsertTaskRequest DB J c now t) (upsertPlan DB J c now t)))
    (create_statements J now t)"
proof -
  have "runs E tabs saved (insertTask DB J c now t) [(insert_task, insert_task_args now t (json_text (mc_request J (tk_Request t))))]"
    using assms by (auto simp: insertTask_def json_text_def task_stmt_defs intro!: runs_exec runs_fail split: sum.splits)
  from runs_then [OF this runs_then [OF runs_request [OF assms] runs_result [OF assms]]] show ?thesis
    by (simp add: create_statements_def Let_def)
qed

lemma runs_update_row:
  assumes "mysql DB E tabs saved"
  shows "runs E tabs saved (update_row DB c now t s) [(update_task, update_task_args now t s)]"
  unfolding runs_def
proof (intro allI impI)
  fix d res d'
  assume u: "update_row DB c now t s d = (res, d')"
  obtain a d1 where a: "sd_exec DB c update_task (update_task_args now t s) d = (a, d1)"
    by (cases "sd_exec DB c update_task (update_task_args now t s) d")
  have "stmt_params update_task = length (update_task_args now t s)" by (simp add: task_stmt_defs conds_params_def)
  from sent_statement [OF assms this a]
  show "saved d' = saved d \<and> (is_ok res \<longrightarrow> run_statements E [(update_task, update_task_args now t s)] (tabs d) = Some (tabs d'))"
    using u a by (cases a) (auto simp: update_row_def simp del: run_statements.simps)
qed

lemma runs_update:
  assumes "mysql DB E tabs saved"
  shows "runs E tabs saved
    (case mc_request J (tk_Request t) of
       Inl e \<Rightarrow> tx_fail (ErrBackend (''marshal task request: '' @ e))
     | Inr requestJSON \<Rightarrow>
         tx_then (update_row DB c now t requestJSON)
           (tx_then (upsertTaskRequest DB J c now t)
             (tx_then (upsertPlannerRun DB c now t) (tx_then (insertErrorLog DB c now t) (upsertPlan DB J c now t)))))
    (update_statements J now t)"
proof (cases "mc_request J (tk_Request t)")
  case (Inr s)
  have run: "runs E tabs saved (upsertPlannerRun DB c now t)
      (if isTerminalTaskStatus (tk_Status t) then [(upsert_run, upsert_run_args now t)] else [])"
    using runs_exec [OF assms, of upsert_run "upsert_run_args now t"]
    by (simp add: upsertPlannerRun_def runs_skip task_stmt_defs)
  have log: "runs E tabs saved (insertErrorLog DB c now t)
      (if tk_Status t = TaskFailed \<and> tk_Error t \<noteq> [] then [(insert_error_log, insert_error_log_args now t)] else [])"
    using runs_exec [OF assms, of insert_error_log "insert_error_log_args now t"]
    by (simp add: insertErrorLog_def runs_skip task_stmt_defs)
  have js: "json_text (mc_request J (tk_Request t)) = s" by (simp add: Inr json_text_def)
  have "update_statements J now t = [(update_task, update_task_args now t s)]
      @ [(upsert_request, upsert_request_args now t (json_text (mc_request J (tk_Request t))))]
      @ (if isTerminalTaskStatus (tk_Status t) then [(upsert_run, upsert_run_args now t)] else [])
      @ (if tk_Status t = TaskFailed \<and> tk_Error t \<noteq> [] then [(insert_error_log, insert_error_log_args now t)] else [])
      @ result_statements J now t"
    by (simp add: update_statements_def js Let_def)
  moreover note req = runs_request [OF assms, of J c now t, unfolded Inr]
  ultimately show ?thesis
    unfolding Inr sum.case
    by (simp only:) (intro runs_then runs_update_row [OF assms] req run log runs_result [OF assms])
qed (simp add: runs_fail)

definition commit_failed :: "travel_err \<Rightarrow> bool" where
  "commit_failed e \<longleftrightarrow> (\<exists>x. e = task_backend ''commit mysql transaction'' x)"

lemma withTx_atomic:
  assumes "mysql DB E tabs saved" "runs E tabs saved fn ss" "withTx DB c fn d = (res, d')"
  shows "case res of
      Inr _ \<Rightarrow> run_statements E ss (tabs d) = Some (tabs d')
    | Inl e \<Rightarrow> tabs d' = tabs d \<or> commit_failed e \<and> run_statements E ss (tabs d) = Some (tabs d')"
proof -
  obtain r1 d1 where b: "sd_begin DB c d = (r1, d1)" by (cases "sd_begin DB c d")
  note started = mysql.begin_tx [OF assms(1) b]
  show ?thesis
  proof (cases r1)
    case (Inl e)
    then show ?thesis using b started assms(3) by (auto simp: withTx_def)
  next
    case r1: (Inr u)
    obtain r2 d2 where f: "fn d1 = (r2, d2)" by (cases "fn d1")
    have d1: "saved d1 = tabs d" "tabs d1 = tabs d" using started r1 by auto
    have d2: "saved d2 = tabs d" "is_ok r2 \<longrightarrow> run_statements E ss (tabs d) = Some (tabs d2)"
      using assms(2) f unfolding runs_def d1 [symmetric] by (metis d1)+
    show ?thesis
    proof (cases r2)
      case (Inl e)
      then show ?thesis using b f r1 assms(3) d2(1) mysql.rollback_tx [OF assms(1), of d2] by (auto simp: withTx_def)
    next
      case r2: (Inr v)
      obtain r3 d3 where k: "sd_commit DB d2 = (r3, d3)" by (cases "sd_commit DB d2")
      show ?thesis
        using b f k r1 r2 d2 assms(3) mysql.commit_tx [OF assms(1) k]
        by (auto simp: withTx_def commit_failed_def split: sum.splits)
    qed
  qed
qed

text \<open>
  C36. A task is stored whole or not at all: when \<open>Create\<close> or \<open>Update\<close> answers without an error every one of its statements has taken effect on the four tables,
  and when it answers with an error none has, whichever statement or answer was lost, a missing row and a duplicate key included; only when the commit itself
  is not answered may the tables hold either.
\<close>

theorem mysql_tasks_atomic:
  assumes "mysql DB E tabs saved"
    and "(op, ss) \<in> {(MySQLTaskStore_Create DB J c now t, create_statements J now t),
                      (MySQLTaskStore_Update DB J c now t, update_statements J now t)}"
    and "op d = (res, d')"
  shows "case res of
      Inr _ \<Rightarrow> run_statements E ss (tabs d) = Some (tabs d')
    | Inl e \<Rightarrow> tabs d' = tabs d \<or> commit_failed e \<and> run_statements E ss (tabs d) = Some (tabs d')"
  using assms(2,3) withTx_atomic [OF assms(1) runs_create [OF assms(1)]] withTx_atomic [OF assms(1) runs_update [OF assms(1)]]
  by (auto simp: MySQLTaskStore_Create_def MySQLTaskStore_Update_def)

text \<open>A creation whose second statement is lost.\<close>

definition toy_mysql_codec :: mysql_codec where
  "toy_mysql_codec = \<lparr>mc_request = (\<lambda>r. Inr ''{}''), mc_unrequest = (\<lambda>s. Inr sample_request), mc_plan = (\<lambda>p. Inr ''{}''),
     mc_unplan = (\<lambda>s. Inl ''no plan'')\<rparr>"

definition toy_task :: Task where
  "toy_task = \<lparr>tk_ID = ''task_1'', tk_RequestID = [], tk_UserID = ''user_1'', tk_RequestHash = ''h1'', tk_Status = TaskPending,
     tk_PlannerType = ''mock'', tk_Request = sample_request, tk_TestMode = False, tk_AgentMode = ''quick'', tk_Attempt = 1,
     tk_Plan = None, tk_Error = [], tk_CreatedAt = 5000, tk_UpdatedAt = 5000\<rparr>"

definition losing_second :: "sql_state \<times> (bool \<times> bool) list" where
  "losing_second = ((\<lambda>_. [], \<lambda>_. []), [(True, True), (False, False)])"

lemma travel_keys: "unique_keys ''travel_tasks'' = [[''id''], [''request_hash'']]" "unique_keys ''travel_task_requests'' = [[''task_id'']]"
  "unique_keys ''travel_plan_results'' = [[''task_id'']]" "unique_keys ''travel_error_logs'' = []"
  "unique_keys ''travel_planner_runs'' = [[''task_id'', ''attempt'']]"
  by (simp_all add: unique_keys_def)

lemma losing_second_fails:
  "fst (MySQLTaskStore_Create (mysql_lossy binary_env) toy_mysql_codec background 9000 toy_task losing_second)
   = Inl (task_backend ''upsert task request'' lost)"
  by (simp add: MySQLTaskStore_Create_def withTx_def tx_then_def insertTask_def upsertTaskRequest_def tx_exec_def toy_mysql_codec_def
      mysql_lossy_def losing_second_def run_sql_def exec_sql_def insert_task_def travel_keys put_rows_def Let_def)

theorem mysql_tasks_atomic_witness:
  "fst (fst (snd (MySQLTaskStore_Create (mysql_lossy binary_env) toy_mysql_codec background 9000 toy_task losing_second))) ''travel_tasks'' = []"
proof -
  let ?op = "MySQLTaskStore_Create (mysql_lossy binary_env) toy_mysql_codec background 9000 toy_task"
  have op: "?op losing_second = (Inl (task_backend ''upsert task request'' lost), snd (?op losing_second))"
    using losing_second_fails by (metis prod.collapse)
  have "\<not> commit_failed (task_backend ''upsert task request'' lost)" by (simp add: commit_failed_def task_backend_def)
  then show ?thesis
    using mysql_tasks_atomic [OF lossy_sql.mysql_axioms insertI1 op] by (simp add: losing_second_def)
qed

subsection \<open>What is stored is read\<close>

text \<open>The rows of a table that belong to a task, the values of a column being compared as the server does.\<close>

definition rows_of :: "sql_env \<Rightarrow> string \<Rightarrow> string \<Rightarrow> row list \<Rightarrow> row list" where
  "rows_of E col i rows = filter (\<lambda>r. sql_eq E (r col) (VStr i)) rows"

lemma rows_of_cong: "equivp (me_eq E) \<Longrightarrow> me_eq E i j \<Longrightarrow> rows_of E col i rows = rows_of E col j rows"
  unfolding rows_of_def by (rule filter_cong) (auto simp: sql_eq_VStr dest: equivp_symp equivp_transp)

lemma filter_update_single:
  assumes "filter P xs = [r]" "k < length xs" "P (xs ! k)" "P x"
  shows "filter P (xs[k := x]) = [x]"
proof -
  have "filter P xs = filter P (take k xs) @ (xs ! k) # filter P (drop (Suc k) xs)"
    using assms(2,3) by (metis filter.simps(2) filter_append id_take_nth_drop)
  then have "filter P (take k xs) = []" "filter P (drop (Suc k) xs) = []"
    using assms(1) by (auto simp: Cons_eq_append_conv append_eq_Cons_conv)
  then show ?thesis using assms(2,4) by (simp add: upd_conv_take_nth_drop)
qed

text \<open>An insert with \<open>ON DUPLICATE KEY UPDATE\<close> into a table with one row per task.\<close>

lemma upsert_rows:
  assumes "equivp (me_eq E)" "unique_keys t = [[col]]" "dups \<noteq> []" "col \<notin> set dups"
    and "inserted_row E t cols es args col = VStr i" "exec_sql E (InsertInto t cols es dups) args T = Done n T'"
  shows "\<exists>rows. T' = T(t := rows)
    \<and> (rows_of E col i (T t) = [] \<longrightarrow> rows_of E col i rows = [inserted_row E t cols es args])
    \<and> (\<forall>r. rows_of E col i (T t) = [r] \<longrightarrow>
         rows_of E col i rows = [\<lambda>c. if c \<in> set dups then inserted_row E t cols es args c else r c])"
proof -
  let ?new = "inserted_row E t cols es args"
  have refl: "sql_eq E (VStr i) (VStr i)" using equivp_reflp [OF assms(1)] by simp
  have clash: "list_ex (clash E r ?new) [[col]] \<longleftrightarrow> sql_eq E (r col) (VStr i)" for r by (simp add: clash_def assms(5))
  show ?thesis
  proof (cases "clash_index E [[col]] ?new (T t)")
    case None
    then have "rows_of E col i (T t) = []"
      unfolding clash_index_None clash by (auto simp: rows_of_def filter_empty_conv list_ex_iff)
    then show ?thesis
      using assms(6) None refl by (auto simp: exec_sql_def put_rows_def assms(2,5) rows_of_def Let_def)
  next
    case (Some k)
    have k: "k < length (T t)" "sql_eq E ((T t ! k) col) (VStr i)"
      using clash_index_Some [OF Some] unfolding clash by simp_all
    then have ne: "rows_of E col i (T t) \<noteq> []" 
      using nth_mem [OF k(1)] by (auto simp: rows_of_def filter_empty_conv)
    define x where "x = (\<lambda>c. if c \<in> set dups then ?new c else (T t ! k) c)"
    have T': "T' = T(t := (T t)[k := x])"
      using assms(3,6) Some by (auto simp: exec_sql_def put_rows_def assms(2) x_def Let_def)
    have "rows_of E col i ((T t)[k := x]) = [\<lambda>c. if c \<in> set dups then ?new c else r c]" if r: "rows_of E col i (T t) = [r]" for r
    proof -
      have "T t ! k \<in> set (rows_of E col i (T t))" using k by (simp add: rows_of_def)
      then have eq: "T t ! k = r" using r by simp
      have "rows_of E col i ((T t)[k := x]) = [x]"
        unfolding rows_of_def using r k assms(4) by (intro filter_update_single) (auto simp: rows_of_def x_def)
      then show ?thesis unfolding x_def eq .
    qed
    then show ?thesis using T' ne by blast
  qed
qed

lemma update_rows:
  assumes "exec_sql E (UpdateSet t sets cs) args T = Done n T'"
  shows "T' = T(t := map (updated_row E sets cs args) (T t))"
  using assms by (auto simp: exec_sql_def Let_def put_rows_def updated_row_def [abs_def] split: if_splits)

text \<open>A query for one task joins its rows, at most one of each table.\<close>

lemma filter_joins:
  assumes "\<And>l x. x \<in> set (left_joins E T js l) \<Longrightarrow> P x = P l"
  shows "filter P (concat (map (left_joins E T js) rows)) = concat (map (left_joins E T js) (filter P rows))"
proof (induction rows)
  case (Cons l rows)
  have "filter P (left_joins E T js l) = (if P l then left_joins E T js l else [])"
    using assms [of _ l] by (auto simp: filter_id_conv filter_empty_conv)
  then show ?case using Cons by simp
qed simp

text \<open>No alias of a joined table is \<open>t\<close>.\<close>

lemma joins_keep:
  "x \<in> set (left_joins E T js l) \<Longrightarrow> list_all (\<lambda>(table, alias, col, other). \<not> prefix (alias @ ''.'') c) js \<Longrightarrow> x c = l c"
proof (induction js arbitrary: l)
  case (Cons j js)
  obtain table al col other where j: "j = (table, al, col, other)" by (cases j)
  have no: "\<not> prefix (al @ ''.'') c" using Cons.prems(2) by (simp add: j)
  obtain p where p: "x \<in> set (left_joins E T js (joined_row al l p))"
    using Cons.prems(1) by (auto simp: j Let_def split: if_splits)
  have "x c = joined_row al l p c" using Cons.IH [OF p] Cons.prems(2) by simp
  then show ?case using no by (simp add: joined_row_def)
qed simp

text \<open>A task as its rows hold it: one row in the first two tables, one result if it has a plan.\<close>

definition task_cells :: "sql_env \<Rightarrow> Task \<Rightarrow> row \<Rightarrow> bool" where
  "task_cells E t r \<longleftrightarrow>
     r ''id'' = VStr (tk_ID t) \<and> r ''request_id'' = nullableString (tk_RequestID t) \<and> r ''user_id'' = nullableString (tk_UserID t)
   \<and> r ''request_hash'' = VStr (tk_RequestHash t) \<and> r ''status'' = VStr (status_text (tk_Status t))
   \<and> r ''planner_type'' = VStr (tk_PlannerType t) \<and> r ''agent_mode'' = VStr (tk_AgentMode t)
   \<and> r ''test_mode'' = VInt (if tk_TestMode t then 1 else 0) \<and> r ''attempt'' = VInt (tk_Attempt t)
   \<and> r ''error_text'' = nullableString (tk_Error t) \<and> r ''created_at'' = VTime (tk_CreatedAt t) \<and> r ''updated_at'' = VTime (tk_UpdatedAt t)"

definition plan_cells :: "sql_env \<Rightarrow> mysql_codec \<Rightarrow> TravelPlan option \<Rightarrow> row list \<Rightarrow> bool" where
  "plan_cells E J p rows \<longleftrightarrow>
     (case p of
        None \<Rightarrow> rows = []
      | Some plan \<Rightarrow> (\<exists>w. rows = [w] \<and> w ''plan_json'' = VStr (me_json E (json_text (mc_plan J plan)))))"

definition holds_task :: "sql_env \<Rightarrow> mysql_codec \<Rightarrow> tables \<Rightarrow> Task \<Rightarrow> bool" where
  "holds_task E J T t \<longleftrightarrow>
     (\<exists>r q. rows_of E ''id'' (tk_ID t) (T ''travel_tasks'') = [r] \<and> rows_of E ''request_hash'' (tk_RequestHash t) (T ''travel_tasks'') = [r]
        \<and> task_cells E t r
        \<and> rows_of E ''task_id'' (tk_ID t) (T ''travel_task_requests'') = [q]
        \<and> q ''request_json'' = VStr (me_json E (json_text (mc_request J (tk_Request t)))))
   \<and> plan_cells E J (tk_Plan t) (rows_of E ''task_id'' (tk_ID t) (T ''travel_plan_results''))
   \<and> rows_of E ''task_id'' (tk_ID t) (T ''travel_plans'') = []"

text \<open>\<open>encoding/json\<close> reads back what it wrote, from a JSON column too.\<close>

definition reads_task :: "sql_env \<Rightarrow> mysql_codec \<Rightarrow> Task \<Rightarrow> bool" where
  "reads_task E J t \<longleftrightarrow>
     mc_unrequest J (me_json E (json_text (mc_request J (tk_Request t)))) = Inr (tk_Request t)
   \<and> (case tk_Plan t of
        None \<Rightarrow> True
      | Some p \<Rightarrow> me_json E (json_text (mc_plan J p)) \<noteq> [] \<and> mc_unplan J (me_json E (json_text (mc_plan J p))) = Inr p)"

lemma status_text_inj: "status_text a = status_text b \<longleftrightarrow> a = b"
  by (cases a; cases b) (simp_all add: status_text_def)

lemma scan_status_text: "scan_status (VStr (status_text st)) = Inr st"
  by (cases st) (simp_all add: scan_status_def all_statuses_def status_text_inj)

definition task_join :: "row \<Rightarrow> row \<Rightarrow> row \<Rightarrow> row" where
  "task_join r q w = joined_row ''p'' (joined_row ''pr'' (joined_row ''r'' (with_alias ''t'' r) q) w) (\<lambda>_. VNull)"

definition result_row :: "row list \<Rightarrow> row" where
  "result_row ws = (case ws of [] \<Rightarrow> (\<lambda>_. VNull) | w # _ \<Rightarrow> w)"

lemma join_one:
  assumes "rows_of E ''task_id'' i (T ''travel_task_requests'') = [q]" "rows_of E ''task_id'' i (T ''travel_plans'') = []"
    and "rows_of E ''task_id'' i (T ''travel_plan_results'') = ws" "length ws \<le> 1" "r ''id'' = VStr i"
  shows "left_joins E T (se_joins (select_task by)) (with_alias ''t'' r) = [task_join r q (result_row ws)]"
proof -
  have i: "with_alias ''t'' r ''t.id'' = VStr i" "joined_row ''r'' l x ''t.id'' = l ''t.id''" "joined_row ''pr'' l x ''t.id'' = l ''t.id''" for l x
    by (simp_all add: with_alias_def joined_row_def assms(5))
  have "ws = [] \<or> (\<exists>w. ws = [w])" using assms(4) by (cases ws) auto
  then show ?thesis
    using assms(1-3) by (auto simp: select_task_def i rows_of_def Let_def task_join_def result_row_def)
qed

lemma matching_task:
  assumes "rows_of E col v (T ''travel_tasks'') = [r]" "col \<in> {''id'', ''request_hash''}"
    and "left_joins E T (se_joins (select_task (''t.'' @ col))) (with_alias ''t'' r) = [x]"
  shows "matching_rows E T (select_task (''t.'' @ col)) [VStr v] = [x]"
proof -
  let ?q = "select_task (''t.'' @ col)"
  let ?P = "\<lambda>y. sql_eq E (y (''t.'' @ col)) (VStr v)"
  have keep: "?P y = ?P l" if "y \<in> set (left_joins E T (se_joins ?q) l)" for y l
    using joins_keep [OF that, of "''t.'' @ col"] assms(2) by (auto simp: select_task_def)
  have "matching_rows E T ?q [VStr v] = filter ?P (concat (map (left_joins E T (se_joins ?q)) (map (with_alias ''t'') (T ''travel_tasks''))))"
    by (simp add: matching_rows_def from_rows_def select_task_def comp_def)
  also have "\<dots> = concat (map (left_joins E T (se_joins ?q)) (filter ?P (map (with_alias ''t'') (T ''travel_tasks''))))"
    by (rule filter_joins) (rule keep)
  also have "filter ?P (map (with_alias ''t'') (T ''travel_tasks'')) = map (with_alias ''t'') (rows_of E col v (T ''travel_tasks''))"
    by (simp add: filter_map rows_of_def comp_def with_alias_def)
  finally show ?thesis using assms(1,3) by simp
qed

lemma scan_held:
  assumes "task_cells E t r" "q ''request_json'' = VStr (me_json E (json_text (mc_request J (tk_Request t))))"
    and "plan_cells E J (tk_Plan t) ws" "reads_task E J t"
  shows "scanTask J (Inr (map (column_value (task_join r q (result_row ws))) (se_cols (select_task by)))) = Inr t"
proof -
  let ?x = "task_join r q (result_row ws)"
  have cols: "?x ''t.id'' = r ''id''" "?x ''t.request_id'' = r ''request_id''" "?x ''t.user_id'' = r ''user_id''"
    "?x ''t.request_hash'' = r ''request_hash''" "?x ''t.status'' = r ''status''" "?x ''t.planner_type'' = r ''planner_type''"
    "?x ''t.agent_mode'' = r ''agent_mode''" "?x ''t.test_mode'' = r ''test_mode''" "?x ''t.attempt'' = r ''attempt''"
    "?x ''r.request_json'' = q ''request_json''" "?x ''t.error_text'' = r ''error_text''" "?x ''t.created_at'' = r ''created_at''"
    "?x ''t.updated_at'' = r ''updated_at''" "?x ''pr.plan_json'' = result_row ws ''plan_json''" "?x ''p.plan_json'' = VNull"
    by (simp_all add: task_join_def joined_row_def with_alias_def)
  have plan: "(if result_row ws ''plan_json'' = VNull then VNull else result_row ws ''plan_json'')
      = (case tk_Plan t of None \<Rightarrow> VNull | Some p \<Rightarrow> VStr (me_json E (json_text (mc_plan J p))))"
    using assms(3) by (auto simp: plan_cells_def result_row_def split: option.splits)
  have v: "map (column_value ?x) (se_cols (select_task by)) =
    [VStr (tk_ID t), VStr (tk_RequestID t), VStr (tk_UserID t), VStr (tk_RequestHash t), VStr (status_text (tk_Status t)),
     VStr (tk_PlannerType t), VStr (tk_AgentMode t), VInt (if tk_TestMode t then 1 else 0), VInt (tk_Attempt t),
     VStr (me_json E (json_text (mc_request J (tk_Request t)))), VStr (tk_Error t), VTime (tk_CreatedAt t), VTime (tk_UpdatedAt t),
     (case tk_Plan t of None \<Rightarrow> VNull | Some p \<Rightarrow> VStr (me_json E (json_text (mc_plan J p))))]"
    using assms(1,2) plan by (simp add: select_task_def cols task_cells_def nullableString_def)
  show ?thesis
    unfolding v using assms(4)
    by (cases "tk_Plan t") (auto simp: scanTask_def scan_task_columns_def scan_status_text reads_task_def)
qed

lemma task_query: "select_params (select_task by) = length [VStr v]" "se_cols (select_task by) \<noteq> [SCount]"
  "se_limit (select_task by) \<in> {NoLimit, Limit1}"
  by (simp_all add: select_task_def select_params_def conds_params_def limit_params_def)

text \<open>Whatever a server holds of a task, both lookups of the task find it.\<close>

lemma held_task_is_read:
  assumes "mysql_up DB E tabs saved" "holds_task E J (tabs d) t" "reads_task E J t"
    and "(col, k) \<in> {(''id'', tk_ID t), (''request_hash'', tk_RequestHash t)}" "me_eq E k v"
  shows "scanTask J (query_row DB c (select_task (''t.'' @ col)) [VStr v] d) = Inr t"
proof -
  note m = mysql_up.axioms(1) [OF assms(1)]
  note eq = mysql.collation [OF m]
  obtain r q where r: "rows_of E ''id'' (tk_ID t) (tabs d ''travel_tasks'') = [r]"
      "rows_of E ''request_hash'' (tk_RequestHash t) (tabs d ''travel_tasks'') = [r]" "task_cells E t r"
    and q: "rows_of E ''task_id'' (tk_ID t) (tabs d ''travel_task_requests'') = [q]"
      "q ''request_json'' = VStr (me_json E (json_text (mc_request J (tk_Request t))))"
    and w: "plan_cells E J (tk_Plan t) (rows_of E ''task_id'' (tk_ID t) (tabs d ''travel_plan_results''))"
      "rows_of E ''task_id'' (tk_ID t) (tabs d ''travel_plans'') = []"
    using assms(2) unfolding holds_task_def by blast
  define ws where "ws = rows_of E ''task_id'' (tk_ID t) (tabs d ''travel_plan_results'')"
  have "length ws \<le> 1" using w(1) by (auto simp: plan_cells_def ws_def split: option.splits)
  then have join: "left_joins E (tabs d) (se_joins (select_task sel)) (with_alias ''t'' r) = [task_join r q (result_row ws)]" for sel
    using r(3) by (intro join_one [OF q(1) w(2) ws_def [symmetric]]) (simp_all add: task_cells_def)
  have "rows_of E col k (tabs d ''travel_tasks'') = [r]" using r(1,2) assms(4) by auto
  then have one: "rows_of E col v (tabs d ''travel_tasks'') = [r]" using rows_of_cong [OF eq assms(5)] by metis
  have rows: "matching_rows E (tabs d) (select_task (''t.'' @ col)) [VStr v] = [task_join r q (result_row ws)]"
    by (rule matching_task [OF one _ join]) (use assms(4) in auto)
  obtain x where x: "query_row DB c (select_task (''t.'' @ col)) [VStr v] d = Inr x"
    using query_row_up(2) [OF assms(1) task_query, of d "''t.'' @ col" v c] rows by auto
  have "x = map (column_value (task_join r q (result_row ws))) (se_cols (select_task (''t.'' @ col)))"
    using query_row_law [OF m x task_query(1,2)] by (simp only: rows) simp
  then show ?thesis
    unfolding x using scan_held [where q = q and J = J, OF r(3) q(2) w(1) assms(3)] by (simp add: ws_def)
qed

text \<open>What the statements make of the rows of one task.\<close>

fun stmt_table :: "sql_stmt \<Rightarrow> string" where
  "stmt_table (InsertInto t cols es dups) = t"
| "stmt_table (UpdateSet t sets cs) = t"

lemma exec_frame: "exec_sql E s args T = Done n T' \<Longrightarrow> x \<noteq> stmt_table s \<Longrightarrow> T' x = T x"
  by (cases s) (auto simp: exec_sql_def Let_def put_rows_def split: option.splits if_splits)

definition kept_task :: "sql_env \<Rightarrow> time \<Rightarrow> Task \<Rightarrow> Task" where
  "kept_task E now t = t\<lparr>tk_PlannerType := normalizePlannerType (tk_PlannerType t), tk_AgentMode := normalizeAgentMode (tk_AgentMode t),
     tk_Attempt := normalizeAttempt (tk_Attempt t), tk_CreatedAt := me_time E (normalizeTaskTime now (tk_CreatedAt t)),
     tk_UpdatedAt := me_time E (normalizeTaskTime now (tk_UpdatedAt t))\<rparr>"

text \<open>An update keeps the id, the creation time, and the plan when it has none.\<close>

definition merged_task :: "sql_env \<Rightarrow> time \<Rightarrow> Task \<Rightarrow> Task \<Rightarrow> Task" where
  "merged_task E now old t = (kept_task E now t)\<lparr>tk_ID := tk_ID old, tk_CreatedAt := tk_CreatedAt old,
     tk_Plan := (case tk_Plan t of None \<Rightarrow> tk_Plan old | Some p \<Rightarrow> Some p)\<rparr>"

definition new_task_row :: "sql_env \<Rightarrow> time \<Rightarrow> Task \<Rightarrow> string \<Rightarrow> row" where
  "new_task_row E now t s = inserted_row E ''travel_tasks''
     [''id'', ''request_id'', ''user_id'', ''request_hash'', ''status'', ''planner_type'', ''agent_mode'', ''test_mode'', ''attempt'',
      ''request_json'', ''error_text'', ''created_at'', ''updated_at'']
     [Q, Q, Q, Q, Q, Q, Q, Q, Q, Q, Q, Q, Q] (insert_task_args now t s)"

lemma stored_nullable_text: "\<not> is_json c \<Longrightarrow> stored E c (nullableString s) = nullableString s"
  by (simp add: nullableString_def)

lemma new_task_cells: "task_cells E (kept_task E now t) (new_task_row E now t s)"
  by (simp add: task_cells_def kept_task_def new_task_row_def inserted_row_def insert_task_args_def is_json_def suffix_def
      stored_nullable_text)

lemma new_task_only:
  assumes "equivp (me_eq E)" "\<not> list_ex (\<lambda>r. clashing E ''travel_tasks'' r (new_task_row E now t s)) rows"
    and "(col, k) \<in> {(''id'', tk_ID t), (''request_hash'', tk_RequestHash t)}"
  shows "rows_of E col k (rows @ [new_task_row E now t s]) = [new_task_row E now t s]"
proof -
  have cell: "new_task_row E now t s col = VStr k"
    using assms(3) new_task_cells [of E now t s] by (auto simp: task_cells_def kept_task_def)
  have "\<not> sql_eq E (r col) (VStr k)" if r: "r \<in> set rows" for r
  proof
    assume "sql_eq E (r col) (VStr k)"
    then have "clashing E ''travel_tasks'' r (new_task_row E now t s)"
      using assms(3) cell by (auto simp: clashing_def clash_def travel_keys)
    then show False using assms(2) r by (auto simp: list_ex_iff)
  qed
  then show ?thesis using cell equivp_reflp [OF assms(1)] by (simp add: rows_of_def)
qed

text \<open>The statements for the request and for the plan, in a table with at most one row of the task.\<close>

lemma request_stored:
  assumes "equivp (me_eq E)" "exec_sql E upsert_request (upsert_request_args now t s) T = Done n T'"
    and "rows_of E ''task_id'' (tk_ID t) (T ''travel_task_requests'') = [] \<or> (\<exists>q. rows_of E ''task_id'' (tk_ID t) (T ''travel_task_requests'') = [q])"
  shows "\<exists>q rows. T' = T(''travel_task_requests'' := rows) \<and> rows_of E ''task_id'' (tk_ID t) rows = [q] \<and> q ''request_json'' = VStr (me_json E s)"
proof -
  let ?cols = "[''task_id'', ''request_hash'', ''request_json'', ''created_at'', ''updated_at'']"
  let ?dups = "[''request_hash'', ''request_json'', ''updated_at'']"
  have new: "inserted_row E ''travel_task_requests'' ?cols [Q, Q, Q, Q, Q] (upsert_request_args now t s) ''task_id'' = VStr (tk_ID t)"
    "inserted_row E ''travel_task_requests'' ?cols [Q, Q, Q, Q, Q] (upsert_request_args now t s) ''request_json'' = VStr (me_json E s)"
    by (simp_all add: inserted_row_def upsert_request_args_def is_json_def suffix_def)
  from upsert_rows [OF assms(1) travel_keys(2) _ _ new(1) assms(2) [unfolded upsert_request_def]] assms(3)
  show ?thesis using new(2) by fastforce
qed

lemma results_stored:
  assumes "equivp (me_eq E)" "run_statements E (result_statements J now t) T = Some T'"
    and "plan_cells E J old (rows_of E ''task_id'' (tk_ID t) (T ''travel_plan_results''))"
  shows "(\<forall>x. x \<noteq> ''travel_plan_results'' \<longrightarrow> T' x = T x)
    \<and> plan_cells E J (case tk_Plan t of None \<Rightarrow> old | Some p \<Rightarrow> Some p) (rows_of E ''task_id'' (tk_ID t) (T' ''travel_plan_results''))"
proof (cases "tk_Plan t")
  case None
  then show ?thesis using assms(2,3) by (simp add: result_statements_def)
next
  case (Some p)
  let ?s = "json_text (mc_plan J p)" and ?args = "upsert_result_args now t p (json_text (mc_plan J p))"
  let ?cols = "[''task_id'', ''result_version'', ''plan_json'', ''budget_total'', ''day_count'', ''warning_count'', ''generated_duration_ms'',
      ''created_at'', ''updated_at'']"
  let ?new = "inserted_row E ''travel_plan_results'' ?cols [Q, Q, Q, Q, Q, Q, Q, Q, Q] ?args"
  obtain n where n: "exec_sql E upsert_result ?args T = Done n T'"
    using assms(2) by (auto simp: result_statements_def Some split: sql_effect.splits)
  have new: "?new ''task_id'' = VStr (tk_ID t)" "?new ''plan_json'' = VStr (me_json E ?s)"
    by (simp_all add: inserted_row_def upsert_result_args_def is_json_def suffix_def)
  have one: "rows_of E ''task_id'' (tk_ID t) (T ''travel_plan_results'') = []
      \<or> (\<exists>w. rows_of E ''task_id'' (tk_ID t) (T ''travel_plan_results'') = [w])"
    using assms(3) by (auto simp: plan_cells_def split: option.splits)
  from upsert_rows [OF assms(1) travel_keys(3) _ _ new(1) n [unfolded upsert_result_def]] one
  show ?thesis using new(2) by (fastforce simp: Some plan_cells_def)
qed

lemma create_holds:
  assumes "equivp (me_eq E)" "run_statements E (create_statements J now t) T = Some T'"
    and "rows_of E ''task_id'' (tk_ID t) (T ''travel_task_requests'') = []" "rows_of E ''task_id'' (tk_ID t) (T ''travel_plan_results'') = []"
    and "rows_of E ''task_id'' (tk_ID t) (T ''travel_plans'') = []"
  shows "holds_task E J T' (kept_task E now t)"
proof -
  let ?s = "json_text (mc_request J (tk_Request t))"
  define r where "r = new_task_row E now t ?s"
  obtain n1 T1 where 1: "exec_sql E insert_task (insert_task_args now t ?s) T = Done n1 T1"
    and rest: "run_statements E ((upsert_request, upsert_request_args now t ?s) # result_statements J now t) T1 = Some T'"
    using assms(2) by (auto simp: create_statements_def Let_def split: sql_effect.splits)
  have new: "\<not> list_ex (\<lambda>x. clashing E ''travel_tasks'' x r) (T ''travel_tasks'')" "T1 = T(''travel_tasks'' := T ''travel_tasks'' @ [r])"
    using 1 unfolding insert_task_def exec_insert r_def new_task_row_def by (simp_all split: if_splits)
  obtain n2 T2 where 2: "exec_sql E upsert_request (upsert_request_args now t ?s) T1 = Done n2 T2"
    and rest2: "run_statements E (result_statements J now t) T2 = Some T'"
    using rest by (auto split: sql_effect.splits)
  obtain q rows where q: "T2 = T1(''travel_task_requests'' := rows)" "rows_of E ''task_id'' (tk_ID t) rows = [q]"
    "q ''request_json'' = VStr (me_json E ?s)"
    using request_stored [OF assms(1) 2] assms(3) by (auto simp: new(2))
  have res: "(\<forall>x. x \<noteq> ''travel_plan_results'' \<longrightarrow> T' x = T2 x)
    \<and> plan_cells E J (case tk_Plan t of None \<Rightarrow> None | Some p \<Rightarrow> Some p) (rows_of E ''task_id'' (tk_ID t) (T' ''travel_plan_results''))"
    by (rule results_stored [OF assms(1) rest2]) (simp add: q(1) new(2) assms(4) plan_cells_def)
  have plan: "(case tk_Plan t of None \<Rightarrow> None | Some p \<Rightarrow> Some p) = tk_Plan t" by (cases "tk_Plan t") simp_all
  have "T' ''travel_tasks'' = T ''travel_tasks'' @ [r]" "T' ''travel_task_requests'' = rows" "T' ''travel_plans'' = T ''travel_plans''"
    using res by (simp_all add: q(1) new(2))
  then show ?thesis
    using new_task_only [OF assms(1) new(1) [unfolded r_def], of "''id''" "tk_ID t"]
      new_task_only [OF assms(1) new(1) [unfolded r_def], of "''request_hash''" "tk_RequestHash t"]
      new_task_cells [of E now t ?s] q(2,3) res assms(5) plan
    by (auto simp: holds_task_def kept_task_def r_def)
qed

text \<open>An update of a key column is refused unless every key stays unique.\<close>

definition keys_unique :: "sql_env \<Rightarrow> string \<Rightarrow> row list \<Rightarrow> bool" where
  "keys_unique E t rows \<longleftrightarrow> \<not> list_ex (\<lambda>i. list_ex (\<lambda>j. clashing E t (rows ! i) (rows ! j)) [0..<i]) [0..<length rows]"

lemma update_unique:
  assumes "exec_sql E (UpdateSet t sets cs) args T = Done n T'" "list_ex (\<lambda>(c, e). c \<in> set (concat (unique_keys t))) sets"
  shows "keys_unique E t (map (updated_row E sets cs args) (T t))"
  using assms unfolding keys_unique_def
  by (auto simp: exec_sql_def Let_def updated_row_def [abs_def] simp del: concat.simps split: if_splits)

lemma single_by_key:
  assumes "keys_unique E t rows" "[col] \<in> set (unique_keys t)" "r \<in> set rows" "r col = VStr k" "equivp (me_eq E)"
  shows "rows_of E col k rows = [r]"
proof -
  have r: "r \<in> set (rows_of E col k rows)" using assms(3,4) equivp_reflp [OF assms(5)] by (simp add: rows_of_def)
  show ?thesis
  proof (cases "rows_of E col k rows")
    case Nil
    then show ?thesis using r by simp
  next
    case (Cons a as)
    have "as = []"
    proof (rule ccontr)
      assume "as \<noteq> []"
      then obtain b bs where as: "as = b # bs" by (cases as) auto
      obtain us vs where us: "rows = us @ a # vs" "sql_eq E (a col) (VStr k)" "b # bs = filter (\<lambda>r. sql_eq E (r col) (VStr k)) vs"
        using Cons unfolding rows_of_def filter_eq_Cons_iff as by blast
      obtain us' vs' where vs: "vs = us' @ b # vs'" "sql_eq E (b col) (VStr k)"
        using us(3) [symmetric] unfolding filter_eq_Cons_iff by blast
      obtain x y where xy: "a col = VStr x" "me_eq E x k" "b col = VStr y" "me_eq E y k"
        using us(2) vs(2) by (auto simp: sql_eq_VStr)
      have "me_eq E y x" using xy(2,4) assms(5) by (meson equivp_symp equivp_transp)
      then have "sql_eq E (b col) (a col)" by (simp add: xy)
      then have clash: "clashing E t b a" using assms(2) by (auto simp: clashing_def clash_def list_ex_iff intro: bexI [of _ "[col]"])
      let ?i = "length us + 1 + length us'"
      have "rows ! ?i = b" "rows ! length us = a" "?i < length rows" "length us < ?i"
        by (simp_all add: us(1) vs(1) nth_append)
      then show False using assms(1) clash unfolding keys_unique_def list_ex_iff by (metis atLeastLessThan_iff atLeastLessThan_upt le0)
    qed
    then show ?thesis using r Cons by simp
  qed
qed

lemma updated_task_cells:
  assumes "sql_eq E (r ''id'') (VStr (tk_ID t))" "task_cells E old r"
  shows "task_cells E (merged_task E now old t)
    (updated_row E task_sets [IsQ ''id''] (update_task_args now t s) r)"
  using assms
  by (simp add: updated_row_def task_sets_def update_task_args_def task_cells_def merged_task_def kept_task_def is_json_def suffix_def
      stored_nullable_text)

lemma updated_task_id:
  "updated_row E task_sets [IsQ ''id''] (update_task_args now t s) r ''id'' = r ''id''"
  by (simp add: updated_row_def task_sets_def update_task_args_def)

lemma run_append_Some:
  "run_statements E (ss @ us) T = Some T' \<longleftrightarrow> (\<exists>T1. run_statements E ss T = Some T1 \<and> run_statements E us T1 = Some T')"
  by (auto simp: run_append bind_eq_Some_conv)

lemma run_frame: "run_statements E ss T = Some T' \<Longrightarrow> x \<notin> set (map (stmt_table \<circ> fst) ss) \<Longrightarrow> T' x = T x"
proof (induction E ss T rule: run_statements.induct)
  case (2 E s args ss T)
  then obtain n T1 where "exec_sql E s args T = Done n T1" "run_statements E ss T1 = Some T'" by (auto split: sql_effect.splits)
  then show ?case using 2 exec_frame [of E s args T n T1 x] by simp
qed simp

lemma update_holds:
  assumes eq: "equivp (me_eq E)" and "holds_task E J T old" "me_eq E (tk_ID old) (tk_ID t)"
    and "run_statements E (update_statements J now t) T = Some T'"
  shows "holds_task E J T' (merged_task E now old t)"
proof -
  let ?s = "json_text (mc_request J (tk_Request t))" and ?new = "merged_task E now old t"
  let ?mid = "(if isTerminalTaskStatus (tk_Status t) then [(upsert_run, upsert_run_args now t)] else [])
         @ (if tk_Status t = TaskFailed \<and> tk_Error t \<noteq> [] then [(insert_error_log, insert_error_log_args now t)] else [])"
  let ?u = "updated_row E task_sets [IsQ ''id''] (update_task_args now t ?s)"
  obtain r q where r: "rows_of E ''id'' (tk_ID old) (T ''travel_tasks'') = [r]" "task_cells E old r"
    and q: "rows_of E ''task_id'' (tk_ID old) (T ''travel_task_requests'') = [q]"
    and w: "plan_cells E J (tk_Plan old) (rows_of E ''task_id'' (tk_ID old) (T ''travel_plan_results''))"
      "rows_of E ''task_id'' (tk_ID old) (T ''travel_plans'') = []"
    using assms(2) unfolding holds_task_def by blast
  note same = rows_of_cong [OF eq assms(3)]
  obtain n1 T1 where 1: "exec_sql E update_task (update_task_args now t ?s) T = Done n1 T1"
    and rest: "run_statements E ((upsert_request, upsert_request_args now t ?s) # ?mid @ result_statements J now t) T1 = Some T'"
    using assms(4) by (auto simp: update_statements_def Let_def split: sql_effect.splits)
  have T1: "T1 = T(''travel_tasks'' := map ?u (T ''travel_tasks''))"
    by (rule update_rows [OF 1 [unfolded update_task_def]])
  have uniq: "keys_unique E ''travel_tasks'' (map ?u (T ''travel_tasks''))"
    by (rule update_unique [OF 1 [unfolded update_task_def]]) (simp add: task_sets_def travel_keys)
  obtain n2 T2 where 2: "exec_sql E upsert_request (upsert_request_args now t ?s) T1 = Done n2 T2"
    and rest2: "run_statements E (?mid @ result_statements J now t) T2 = Some T'"
    using rest by (auto split: sql_effect.splits)
  have "rows_of E ''task_id'' (tk_ID t) (T1 ''travel_task_requests'') = [q]" using q same [of "''task_id''"] by (simp add: T1)
  then obtain q' rows where q': "T2 = T1(''travel_task_requests'' := rows)" "rows_of E ''task_id'' (tk_ID t) rows = [q']"
    "q' ''request_json'' = VStr (me_json E ?s)"
    using request_stored [OF eq 2] by auto
  obtain T3 where 3: "run_statements E ?mid T2 = Some T3" "run_statements E (result_statements J now t) T3 = Some T'"
    using run_append_Some [THEN iffD1, OF rest2] by blast
  have T3: "T3 x = T2 x" if "x \<noteq> ''travel_planner_runs''" "x \<noteq> ''travel_error_logs''" for x
    using run_frame [OF 3(1), of x] that by (auto simp: upsert_run_def insert_error_log_def split: if_splits)
  have old: "plan_cells E J (tk_Plan old) (rows_of E ''task_id'' (tk_ID t) (T3 ''travel_plan_results''))"
    using w(1) same [of "''task_id''"] by (simp add: T3 q'(1) T1)
  note res = results_stored [OF eq 3(2) old]
  have T': "T' ''travel_tasks'' = map ?u (T ''travel_tasks'')" "T' ''travel_task_requests'' = rows" "T' ''travel_plans'' = T ''travel_plans''"
    using res by (simp_all add: T3 q'(1) T1)
  have id: "rows_of E ''id'' (tk_ID old) (map ?u (T ''travel_tasks'')) = [?u r]"
    using r(1) by (simp add: rows_of_def filter_map comp_def updated_task_id)
  have rin: "r \<in> set (T ''travel_tasks'')" "sql_eq E (r ''id'') (VStr (tk_ID t))"
  proof -
    have "r \<in> set (rows_of E ''id'' (tk_ID t) (T ''travel_tasks''))" using r(1) same [of "''id''"] by simp
    then show "r \<in> set (T ''travel_tasks'')" "sql_eq E (r ''id'') (VStr (tk_ID t))" by (simp_all add: rows_of_def)
  qed
  note cells = updated_task_cells [OF rin(2) r(2), of now ?s]
  have h: "rows_of E ''request_hash'' (tk_RequestHash ?new) (map ?u (T ''travel_tasks'')) = [?u r]"
    using cells rin(1) by (intro single_by_key [OF uniq _ _ _ eq]) (simp_all add: travel_keys task_cells_def)
  show ?thesis
    using id h cells q'(2,3) res w(2) same [of "''task_id''"]
    by (auto simp: holds_task_def T' merged_task_def kept_task_def)
qed

text \<open>No rows that belong to a task that does not exist, which the foreign keys of the schema exclude.\<close>

definition no_orphans :: "sql_env \<Rightarrow> string \<Rightarrow> tables \<Rightarrow> bool" where
  "no_orphans E i T \<longleftrightarrow>
     list_all (\<lambda>table. rows_of E ''task_id'' i (T table) = []) [''travel_task_requests'', ''travel_plan_results'', ''travel_plans'']"

text \<open>
  C37. What MySQL stores of a task is the task: after a creation both \<open>Get\<close> and \<open>FindByHash\<close> give the task, with its planner, mode and attempt in normal form and its instants as the
  columns keep them; and after an update that follows they give the updated task, under its first id and creation time, and with the plan it had if the update
  brings none. Ids and hashes are compared as the server compares them.
\<close>

theorem mysql_task_reads_back:
  assumes "mysql_up DB E tabs saved" and "MySQLTaskStore_Create DB J c now t d = (Inr (), d1)" "no_orphans E (tk_ID t) (tabs d)"
    and "MySQLTaskStore_Update DB J c' now' t' d1 = (Inr (), d2)" "me_eq E (tk_ID t) (tk_ID t')"
    and "reads_task E J (kept_task E now t)" "reads_task E J (merged_task E now' (kept_task E now t) t')"
    and "me_eq E (tk_ID t) i" "me_eq E (tk_RequestHash t) h" "me_eq E (tk_RequestHash t') h'"
  shows "MySQLTaskStore_Get DB J c'' i d1 = Inr (kept_task E now t)
    \<and> MySQLTaskStore_FindByHash DB J c'' h d1 = Inr (Some (kept_task E now t))
    \<and> MySQLTaskStore_Get DB J c'' i d2 = Inr (merged_task E now' (kept_task E now t) t')
    \<and> MySQLTaskStore_FindByHash DB J c'' h' d2 = Inr (Some (merged_task E now' (kept_task E now t) t'))"
proof -
  note m = mysql_up.axioms(1) [OF assms(1)]
  note eq = mysql.collation [OF m]
  have "run_statements E (create_statements J now t) (tabs d) = Some (tabs d1)"
    using withTx_atomic [OF m runs_create [OF m] assms(2) [unfolded MySQLTaskStore_Create_def]] by simp
  moreover have "rows_of E ''task_id'' (tk_ID t) (tabs d ''travel_task_requests'') = []"
    "rows_of E ''task_id'' (tk_ID t) (tabs d ''travel_plan_results'') = []" "rows_of E ''task_id'' (tk_ID t) (tabs d ''travel_plans'') = []"
    using assms(3) unfolding no_orphans_def by auto
  ultimately have 1: "holds_task E J (tabs d1) (kept_task E now t)" by (rule create_holds [OF eq])
  have "run_statements E (update_statements J now' t') (tabs d1) = Some (tabs d2)"
    using withTx_atomic [OF m runs_update [OF m] assms(4) [unfolded MySQLTaskStore_Update_def]] by simp
  then have 2: "holds_task E J (tabs d2) (merged_task E now' (kept_task E now t) t')"
    using assms(5) by (intro update_holds [OF eq 1]) (simp_all add: kept_task_def)
  have "MySQLTaskStore_Get DB J c'' i d1 = Inr (kept_task E now t)"
    using held_task_is_read [OF assms(1) 1 assms(6), of "''id''" "tk_ID t" i] assms(8) by (simp add: MySQLTaskStore_Get_def kept_task_def)
  moreover have "MySQLTaskStore_FindByHash DB J c'' h d1 = Inr (Some (kept_task E now t))"
    using held_task_is_read [OF assms(1) 1 assms(6), of "''request_hash''" "tk_RequestHash t" h] assms(9)
    by (simp add: MySQLTaskStore_FindByHash_def kept_task_def)
  moreover have "MySQLTaskStore_Get DB J c'' i d2 = Inr (merged_task E now' (kept_task E now t) t')"
    using held_task_is_read [OF assms(1) 2 assms(7), of "''id''" "tk_ID t" i] assms(8)
    by (simp add: MySQLTaskStore_Get_def merged_task_def kept_task_def)
  moreover have "MySQLTaskStore_FindByHash DB J c'' h' d2 = Inr (Some (merged_task E now' (kept_task E now t) t'))"
    using held_task_is_read [OF assms(1) 2 assms(7), of "''request_hash''" "tk_RequestHash t'" h'] assms(10)
    by (simp add: MySQLTaskStore_FindByHash_def merged_task_def kept_task_def)
  ultimately show ?thesis by blast
qed

text \<open>A task is created and then fails.\<close>

definition failed_toy :: Task where
  "failed_toy = toy_task\<lparr>tk_Status := TaskFailed, tk_Error := ''no tools'', tk_Attempt := 0, tk_CreatedAt := 0, tk_UpdatedAt := 8000\<rparr>"

definition toy_created :: sql_state where
  "toy_created = snd (MySQLTaskStore_Create (mysql_reference binary_env) toy_mysql_codec background 5500 toy_task (\<lambda>_. [], \<lambda>_. []))"

lemma toy_create_ok:
  "MySQLTaskStore_Create (mysql_reference binary_env) toy_mysql_codec background 5500 toy_task (\<lambda>_. [], \<lambda>_. []) = (Inr (), toy_created)"
proof -
  have "fst (MySQLTaskStore_Create (mysql_reference binary_env) toy_mysql_codec background 5500 toy_task (\<lambda>_. [], \<lambda>_. [])) = Inr ()"
    by (simp add: MySQLTaskStore_Create_def withTx_def tx_then_def insertTask_def upsertTaskRequest_def upsertPlan_def tx_skip_def tx_exec_def
        toy_mysql_codec_def mysql_reference_def run_sql_def exec_sql_def insert_task_def upsert_request_def travel_keys put_rows_def
        toy_task_def Let_def)
  then show ?thesis unfolding toy_created_def by (metis prod.collapse)
qed

definition toy_row :: row where
  "toy_row = new_task_row binary_env 5500 toy_task ''{}''"

definition toy_request_row :: row where
  "toy_request_row = inserted_row binary_env ''travel_task_requests''
     [''task_id'', ''request_hash'', ''request_json'', ''created_at'', ''updated_at''] [Q, Q, Q, Q, Q] (upsert_request_args 5500 toy_task ''{}'')"

lemma toy_no_plan: "tk_Plan toy_task = None"
  by (simp add: toy_task_def)

lemma toy_created_tables:
  "fst toy_created = (\<lambda>_. [])(''travel_tasks'' := [toy_row], ''travel_task_requests'' := [toy_request_row])"
  by (simp add: toy_created_def MySQLTaskStore_Create_def withTx_def tx_then_def insertTask_def upsertTaskRequest_def upsertPlan_def tx_skip_def
      tx_exec_def toy_mysql_codec_def mysql_reference_def run_sql_def exec_sql_def insert_task_def upsert_request_def travel_keys put_rows_def
      toy_row_def new_task_row_def toy_request_row_def toy_no_plan Let_def)

lemma toy_row_cells: "toy_row ''id'' = VStr ''task_1''" "toy_row ''error_text'' = VNull" "toy_row ''status'' = VStr ''pending''"
  "toy_request_row ''task_id'' = VStr ''task_1''"
  using new_task_cells [of binary_env 5500 toy_task "''{}''"]
  by (simp_all add: toy_row_def task_cells_def kept_task_def toy_task_def nullableString_def status_text_def toy_request_row_def
      inserted_row_def upsert_request_args_def is_json_def suffix_def)

lemma never_duplicate:
  "dups \<noteq> [] \<or> unique_keys t = [] \<Longrightarrow> \<exists>n T'. exec_sql E (InsertInto t cols es dups) args T = Done n T'"
  by (auto simp: exec_sql_def Let_def split: option.splits)

lemma toy_update_ok:
  "fst (MySQLTaskStore_Update (mysql_reference binary_env) toy_mysql_codec background 8000 failed_toy toy_created) = Inr ()"
proof -
  define T where T: "T = (\<lambda>_. [])(''travel_tasks'' := [toy_row], ''travel_task_requests'' := [toy_request_row])"
  obtain T0 where T0: "toy_created = (T, T0)" using toy_created_tables unfolding T by (metis prod.collapse)
  have status: "tk_Status failed_toy = TaskFailed" "tk_Error failed_toy \<noteq> []" "tk_Plan failed_toy = None"
    by (simp_all add: failed_toy_def toy_task_def)
  define T1 where "T1 = T(''travel_tasks'' := [updated_row binary_env task_sets [IsQ ''id''] (update_task_args 8000 failed_toy ''{}'') toy_row])"
  have 1: "exec_sql binary_env update_task (update_task_args 8000 failed_toy ''{}'') T = Done 1 T1"
    by (simp add: T1_def exec_sql_def update_task_def task_sets_def update_task_args_def T toy_row_cells put_rows_def updated_row_def failed_toy_def
        toy_task_def is_json_def suffix_def binary_env_def status_text_def Let_def)
  have "\<exists>n T'. exec_sql binary_env upsert_request (upsert_request_args 8000 failed_toy ''{}'') T1 = Done n T'"
    unfolding upsert_request_def by (rule never_duplicate) (simp add: travel_keys)
  then obtain n2 T2 where 2: "exec_sql binary_env upsert_request (upsert_request_args 8000 failed_toy ''{}'') T1 = Done n2 T2" by blast
  have "\<exists>n T'. exec_sql binary_env upsert_run (upsert_run_args 8000 failed_toy) T2 = Done n T'"
    unfolding upsert_run_def by (rule never_duplicate) (simp add: travel_keys)
  then obtain n3 T3 where 3: "exec_sql binary_env upsert_run (upsert_run_args 8000 failed_toy) T2 = Done n3 T3" by blast
  have "\<exists>n T'. exec_sql binary_env insert_error_log (insert_error_log_args 8000 failed_toy) T3 = Done n T'"
    unfolding insert_error_log_def by (rule never_duplicate) (simp add: travel_keys)
  then obtain n4 T4 where 4: "exec_sql binary_env insert_error_log (insert_error_log_args 8000 failed_toy) T3 = Done n4 T4" by blast
  show ?thesis
    by (simp add: MySQLTaskStore_Update_def withTx_def tx_then_def update_row_def upsertTaskRequest_def upsertPlan_def upsertPlannerRun_def
        insertErrorLog_def tx_skip_def tx_exec_def toy_mysql_codec_def mysql_reference_def run_sql_def T0 1 2 3 4 status
        isTerminalTaskStatus_def)
qed

theorem mysql_task_reads_back_witness:
  "\<exists>d2. MySQLTaskStore_Update (mysql_reference binary_env) toy_mysql_codec background 8000 failed_toy toy_created = (Inr (), d2)
     \<and> MySQLTaskStore_Get (mysql_reference binary_env) toy_mysql_codec background ''task_1'' d2
       = Inr (merged_task binary_env 8000 (kept_task binary_env 5500 toy_task) failed_toy)"
proof -
  obtain d2 where d2: "MySQLTaskStore_Update (mysql_reference binary_env) toy_mysql_codec background 8000 failed_toy toy_created = (Inr (), d2)"
    using toy_update_ok by (metis prod.collapse)
  have none: "no_orphans binary_env (tk_ID toy_task) (fst (\<lambda>_. [], \<lambda>_. []))" by (simp add: no_orphans_def rows_of_def)
  have ids: "me_eq binary_env (tk_ID toy_task) (tk_ID failed_toy)" "me_eq binary_env (tk_ID toy_task) ''task_1''"
    "me_eq binary_env (tk_RequestHash toy_task) ''h1''" "me_eq binary_env (tk_RequestHash failed_toy) ''h1''"
    by (simp_all add: binary_env_def toy_task_def failed_toy_def)
  have json: "reads_task binary_env toy_mysql_codec (kept_task binary_env 5500 toy_task)"
    "reads_task binary_env toy_mysql_codec (merged_task binary_env 8000 (kept_task binary_env 5500 toy_task) failed_toy)"
    by (simp_all add: reads_task_def toy_mysql_codec_def kept_task_def merged_task_def toy_task_def failed_toy_def)
  show ?thesis
    using d2 mysql_task_reads_back [OF binary.mysql_up_axioms toy_create_ok none d2 ids(1) json ids(2,3,4), of background] by blast
qed

end
