(* ===== verification/Startup.thy ===== *)
theory Startup
  imports HttpGuarantees Redis MySQLAuth MySQLPlans MySQLTasks ConfigGuarantees Chat
begin

section \<open>The start of the server\<close>

text \<open>
  cmd/server/main.go up to the listener, and internal/redis/client.go: from the environment to the router, with the
  implementation each interface gets. A value of an interface is in memory, or remote: then it carries what its struct
  holds (the connection and the parameters) next to the state of the server. Log lines are left out.
\<close>

subsection \<open>Values of the interfaces\<close>

datatype ('m, 'p, 's) backend = InMemory 'm | Remote 'p 's

fun call_on :: "('m \<Rightarrow> 'a \<times> 'm) \<Rightarrow> ('p \<Rightarrow> 's \<Rightarrow> 'a \<times> 's) \<Rightarrow> ('m, 'p, 's) backend \<Rightarrow> 'a \<times> ('m, 'p, 's) backend" where
  "call_on f g (InMemory m) = apsnd InMemory (f m)"
| "call_on f g (Remote p s) = apsnd (Remote p) (g p s)"

fun ask_on :: "('m \<Rightarrow> 'a) \<Rightarrow> ('p \<Rightarrow> 's \<Rightarrow> 'a) \<Rightarrow> ('m, 'p, 's) backend \<Rightarrow> 'a" where
  "ask_on f g (InMemory m) = f m"
| "ask_on f g (Remote p s) = g p s"

type_synonym 'd user_store = "(MemoryUserStore, 'd sql_db, 'd) backend"
type_synonym 'd session_store = "(MemorySessionStore, 'd sql_db, 'd) backend"
type_synonym 'd plan_store = "(MemoryPlanStore, 'd sql_db, 'd) backend"
type_synonym 'd public_store = "(MemoryPublicPlanStore, 'd sql_db, 'd) backend"
type_synonym 'r view_store = "(MemoryPublicViewDeduper, 'r redis_client \<times> duration, 'r) backend"
type_synonym 'r limiter_value = "(MemoryRateLimiter, 'r redis_client \<times> int, 'r) backend"
type_synonym 'r lock_value = "(MemoryRequestLock, 'r redis_client \<times> duration, 'r) backend"

text \<open>The task store has four implementations; the cached one is the MySQL store behind the Redis cache.\<close>

datatype ('r, 'd) task_store =
  TasksInMemory MemoryTaskStore
| TasksInRedis "'r redis_client" duration 'r
| TasksInMySQL "'d sql_db" 'd
| TasksCached "'d sql_db" "'r redis_client" duration "'d \<times> 'r"

definition call_tasks ::
  "(MemoryTaskStore TaskStore \<Rightarrow> MemoryTaskStore \<Rightarrow> 'a \<times> MemoryTaskStore) \<Rightarrow> ('r TaskStore \<Rightarrow> 'r \<Rightarrow> 'a \<times> 'r)
     \<Rightarrow> ('d TaskStore \<Rightarrow> 'd \<Rightarrow> 'a \<times> 'd) \<Rightarrow> (('d \<times> 'r) TaskStore \<Rightarrow> 'd \<times> 'r \<Rightarrow> 'a \<times> 'd \<times> 'r)
     \<Rightarrow> task_codec \<Rightarrow> mysql_codec \<Rightarrow> ('r, 'd) task_store \<Rightarrow> 'a \<times> ('r, 'd) task_store" where
  "call_tasks f1 f2 f3 f4 J K s =
     (case s of
        TasksInMemory m \<Rightarrow> apsnd TasksInMemory (f1 MemoryTaskStore_ops m)
      | TasksInRedis call ttl r \<Rightarrow> apsnd (TasksInRedis call ttl) (f2 (RedisTaskStore_ops call J ttl) r)
      | TasksInMySQL DB d \<Rightarrow> apsnd (TasksInMySQL DB) (f3 (MySQLTaskStore_ops DB K) d)
      | TasksCached DB call ttl x \<Rightarrow>
          apsnd (TasksCached DB call ttl) (f4 (CachedTaskStore_ops (MySQLTaskStore_ops DB K) (Some (RedisTaskCache_ops call J ttl))) x))"

definition task_stores :: "task_codec \<Rightarrow> mysql_codec \<Rightarrow> ('r, 'd) task_store TaskStore" where
  "task_stores J K =
     \<lparr>ts_Create = (\<lambda>c now t. call_tasks (\<lambda>S. ts_Create S c now t) (\<lambda>S. ts_Create S c now t) (\<lambda>S. ts_Create S c now t) (\<lambda>S. ts_Create S c now t) J K),
      ts_Update = (\<lambda>c now t. call_tasks (\<lambda>S. ts_Update S c now t) (\<lambda>S. ts_Update S c now t) (\<lambda>S. ts_Update S c now t) (\<lambda>S. ts_Update S c now t) J K),
      ts_Get = (\<lambda>c now i. call_tasks (\<lambda>S. ts_Get S c now i) (\<lambda>S. ts_Get S c now i) (\<lambda>S. ts_Get S c now i) (\<lambda>S. ts_Get S c now i) J K),
      ts_FindByHash = (\<lambda>c now h. call_tasks (\<lambda>S. ts_FindByHash S c now h) (\<lambda>S. ts_FindByHash S c now h) (\<lambda>S. ts_FindByHash S c now h)
        (\<lambda>S. ts_FindByHash S c now h) J K)\<rparr>"

definition user_stores :: "'d user_store UserStore" where
  "user_stores =
     \<lparr>ust_Create = (\<lambda>c x. call_on (ust_Create MemoryUserStore_ops c x) (\<lambda>DB. ust_Create (MySQLUserStore_ops DB) c x)),
      ust_GetByID = (\<lambda>c i. ask_on (ust_GetByID MemoryUserStore_ops c i) (\<lambda>DB. ust_GetByID (MySQLUserStore_ops DB) c i)),
      ust_GetByEmail = (\<lambda>c e. ask_on (ust_GetByEmail MemoryUserStore_ops c e) (\<lambda>DB. ust_GetByEmail (MySQLUserStore_ops DB) c e))\<rparr>"

definition session_stores :: "'d session_store SessionStore" where
  "session_stores =
     \<lparr>sst_Create = (\<lambda>c x. call_on (sst_Create MemorySessionStore_ops c x) (\<lambda>DB. sst_Create (MySQLSessionStore_ops DB) c x)),
      sst_GetByTokenHash = (\<lambda>c h. ask_on (sst_GetByTokenHash MemorySessionStore_ops c h) (\<lambda>DB. sst_GetByTokenHash (MySQLSessionStore_ops DB) c h)),
      sst_Revoke = (\<lambda>c h t. call_on (sst_Revoke MemorySessionStore_ops c h t) (\<lambda>DB. sst_Revoke (MySQLSessionStore_ops DB) c h t))\<rparr>"

definition plan_stores :: "UserPlan visit_order \<Rightarrow> plans_codec \<Rightarrow> 'd plan_store PlanStore" where
  "plan_stores ord J =
     (let M = MemoryPlanStore_ops ord; S = (\<lambda>DB. MySQLPlanStore_ops DB J) in
     \<lparr>pst_Create = (\<lambda>c p. call_on (pst_Create M c p) (\<lambda>DB. pst_Create (S DB) c p)),
      pst_Get = (\<lambda>c i u. ask_on (pst_Get M c i u) (\<lambda>DB. pst_Get (S DB) c i u)),
      pst_GetByTaskID = (\<lambda>c u t. ask_on (pst_GetByTaskID M c u t) (\<lambda>DB. pst_GetByTaskID (S DB) c u t)),
      pst_List = (\<lambda>c u f. ask_on (pst_List M c u f) (\<lambda>DB. pst_List (S DB) c u f)),
      pst_Update = (\<lambda>c p. call_on (pst_Update M c p) (\<lambda>DB. pst_Update (S DB) c p)),
      pst_SoftDelete = (\<lambda>c i u t. call_on (pst_SoftDelete M c i u t) (\<lambda>DB. pst_SoftDelete (S DB) c i u t)),
      pst_CreateArchive = (\<lambda>c x. call_on (pst_CreateArchive M c x) (\<lambda>DB. pst_CreateArchive (S DB) c x)),
      pst_GetArchive = (\<lambda>c i u. ask_on (pst_GetArchive M c i u) (\<lambda>DB. pst_GetArchive (S DB) c i u))\<rparr>)"

definition public_stores :: "PublicPlan visit_order \<Rightarrow> plans_codec \<Rightarrow> 'd public_store PublicPlanStore" where
  "public_stores ord J =
     (let M = MemoryPublicPlanStore_ops ord; S = (\<lambda>DB. MySQLPublicPlanStore_ops DB J) in
     \<lparr>qst_Upsert = (\<lambda>c p. call_on (qst_Upsert M c p) (\<lambda>DB. qst_Upsert (S DB) c p)),
      qst_Get = (\<lambda>c i. ask_on (qst_Get M c i) (\<lambda>DB. qst_Get (S DB) c i)),
      qst_GetByPlanID = (\<lambda>c i. ask_on (qst_GetByPlanID M c i) (\<lambda>DB. qst_GetByPlanID (S DB) c i)),
      qst_List = (\<lambda>c f. ask_on (qst_List M c f) (\<lambda>DB. qst_List (S DB) c f)),
      qst_SetStatus = (\<lambda>c i st t. call_on (qst_SetStatus M c i st t) (\<lambda>DB. qst_SetStatus (S DB) c i st t)),
      qst_IncrementCounter = (\<lambda>c i k t. call_on (qst_IncrementCounter M c i k t) (\<lambda>DB. qst_IncrementCounter (S DB) c i k t)),
      qst_RecordEvent = (\<lambda>c e. call_on (qst_RecordEvent M c e) (\<lambda>DB. qst_RecordEvent (S DB) c e))\<rparr>)"

definition view_stores :: "'r view_store PublicViewDeduper" where
  "view_stores =
     \<lparr>vd_Allow = (\<lambda>c i k t. call_on (vd_Allow MemoryPublicViewDeduper_ops c i k t)
        (\<lambda>(call, ttl). RedisPublicViewDeduper_Allow call ttl c i k t))\<rparr>"

definition limiters :: "'r limiter_value RateLimiter" where
  "limiters c now key = call_on (MemoryRateLimiter_Allow c now key)
     (\<lambda>(call, limit) r. apfst (map_sum ErrBackend id) (RedisRateLimiter_Allow call limit minute c now key r))"

text \<open>The token of a lock is random, and the release runs at its own time: both are inputs, by the time of the acquisition.\<close>

fun on_remote :: "('p \<Rightarrow> 's \<Rightarrow> 's) \<Rightarrow> ('m, 'p, 's) backend \<Rightarrow> ('m, 'p, 's) backend" where
  "on_remote f (InMemory m) = InMemory m"
| "on_remote f (Remote p s) = Remote p (f p s)"

fun on_local :: "('m \<Rightarrow> 'm) \<Rightarrow> ('m, 'p, 's) backend \<Rightarrow> ('m, 'p, 's) backend" where
  "on_local f (InMemory m) = InMemory (f m)"
| "on_local f (Remote p s) = Remote p s"

definition locks :: "(time \<Rightarrow> string) \<Rightarrow> (time \<Rightarrow> time) \<Rightarrow> 'r lock_value RequestLock" where
  "locks token released c now h =
     call_on (\<lambda>m. apfst (map_sum id (apfst on_local)) (MemoryRequestLock_ops c now h m))
       (\<lambda>(call, ttl) r.
          (case RedisRequestLock_Acquire call ttl (token now) c now h r of
             ((release, ok, Some e), r') \<Rightarrow> (Inl (ErrBackend e), r')
           | ((release, ok, None), r') \<Rightarrow>
               (Inr (on_remote (\<lambda>p s. redis_unlock (fst p) c (released now) release s), ok), r')))"

subsection \<open>What the program starts with\<close>

text \<open>
  The servers: a Redis client for an address, password and database, and its ping; a MySQL handle for a DSN (or the error of \<open>sql.Open\<close>), the
  settings of its pool, and its ping. Closing a client changes no state.
\<close>

record ('r, 'd) servers =
  wo_redis :: "string \<Rightarrow> string \<Rightarrow> int \<Rightarrow> 'r redis_client"
  wo_ping :: "'r redis_client \<Rightarrow> 'r \<Rightarrow> string option \<times> 'r"
  wo_open :: "string \<Rightarrow> string + 'd sql_db"
  wo_pool :: "'d sql_db \<Rightarrow> int \<Rightarrow> int \<Rightarrow> duration \<Rightarrow> 'd \<Rightarrow> 'd"
  wo_sqlping :: "'d sql_db \<Rightarrow> 'd \<Rightarrow> sql_err option \<times> 'd"

text \<open>The libraries, codecs and random draws the packages take as parameters.\<close>

record third_party =
  tp_parts :: planner_parts
  tp_chat :: chat_env
  tp_tasks :: task_codec
  tp_sql_tasks :: mysql_codec
  tp_plans :: plans_codec
  tp_order :: "UserPlan visit_order"
  tp_public_order :: "PublicPlan visit_order"
  tp_token :: "time \<Rightarrow> string"
  tp_released :: "time \<Rightarrow> time"
  tp_generate :: "string \<Rightarrow> string \<Rightarrow> string + string"
  tp_compare :: "string \<Rightarrow> string \<Rightarrow> bool"
  tp_parse_address :: "string \<Rightarrow> bool"
  tp_bind_auth :: auth_binder
  tp_bind_plans :: plans_binder
  tp_bind_travel :: travel_binder

definition NewClient :: "('r, 'd) servers \<Rightarrow> Config \<Rightarrow> 'r \<Rightarrow> (string + 'r redis_client) \<times> 'r" where
  "NewClient W cfg r =
     (if cf_RedisAddr cfg = [] then (Inl ''TRAVEL_AGENT_REDIS_ADDR is not configured'', r)
      else let client = wo_redis W (cf_RedisAddr cfg) (cf_RedisPassword cfg) (cf_RedisDB cfg)
           in case wo_ping W client r of (Some e, r') \<Rightarrow> (Inl e, r') | (None, r') \<Rightarrow> (Inr client, r'))"

text \<open>\<open>None\<close> is a nil \<open>db\<close>.\<close>

definition open_mysql :: "('r, 'd) servers \<Rightarrow> Config \<Rightarrow> 'd \<Rightarrow> 'd sql_db option \<times> 'd" where
  "open_mysql W cfg d =
     (if cf_SQLEnabled cfg \<and> cf_SQLDSN cfg \<noteq> [] then
        (case wo_open W (cf_SQLDSN cfg) of
           Inl e \<Rightarrow> (None, d)
         | Inr opened \<Rightarrow>
             (let d1 = wo_pool W opened (cf_SQLMaxOpenConns cfg) (cf_SQLMaxIdleConns cfg) (cf_SQLConnMaxLifetime cfg) d
              in case wo_sqlping W opened d1 of (Some e, d2) \<Rightarrow> (None, d2) | (None, d2) \<Rightarrow> (Some opened, d2)))
      else (None, d))"

subsection \<open>The wiring\<close>

definition choose_tasks :: "Config \<Rightarrow> (string + 'r redis_client) \<times> 'r \<Rightarrow> 'd sql_db option \<times> 'd \<Rightarrow> ('r, 'd) task_store" where
  "choose_tasks cfg rds db =
     (case (rds, db) of
        ((Inl e, r), (None, d)) \<Rightarrow> TasksInMemory NewMemoryTaskStore
      | ((Inr call, r), (None, d)) \<Rightarrow> TasksInRedis call (cf_CacheTTL cfg) r
      | ((Inl e, r), (Some DB, d)) \<Rightarrow> TasksInMySQL DB d
      | ((Inr call, r), (Some DB, d)) \<Rightarrow> TasksCached DB call (cf_CacheTTL cfg) (d, r))"

definition choose_limiter :: "Config \<Rightarrow> (string + 'r redis_client) \<times> 'r \<Rightarrow> 'r limiter_value" where
  "choose_limiter cfg rds =
     (case rds of
        (Inl e, r) \<Rightarrow> InMemory (NewMemoryRateLimiter (cf_RateLimitPerMinute cfg))
      | (Inr call, r) \<Rightarrow> Remote (call, NewRedisRateLimiter_limit (cf_RateLimitPerMinute cfg)) r)"

definition choose_lock :: "Config \<Rightarrow> (string + 'r redis_client) \<times> 'r \<Rightarrow> 'r lock_value" where
  "choose_lock cfg rds =
     (case rds of
        (Inl e, r) \<Rightarrow> InMemory (NewMemoryRequestLock (cf_RedisLockTTL cfg))
      | (Inr call, r) \<Rightarrow> Remote (call, NewRedisRequestLock_ttl (cf_RedisLockTTL cfg)) r)"

definition choose_views :: "(string + 'r redis_client) \<times> 'r \<Rightarrow> 'r view_store" where
  "choose_views rds =
     (case rds of
        (Inl e, r) \<Rightarrow> InMemory (NewMemoryPublicViewDeduper 0)
      | (Inr call, r) \<Rightarrow> Remote (call, NewRedisPublicViewDeduper_ttl 0) r)"

definition choose_store :: "'m \<Rightarrow> 'd sql_db option \<times> 'd \<Rightarrow> ('m, 'd sql_db, 'd) backend" where
  "choose_store fresh db = (case db of (None, d) \<Rightarrow> InMemory fresh | (Some DB, d) \<Rightarrow> Remote DB d)"

text \<open>\<open>NewTravelPlanService\<close>, \<open>SetPlannerType\<close> and \<open>SetRequestLock\<close>: the parts of the service, and its state.\<close>

definition NewTravelPlanService ::
  "third_party \<Rightarrow> string \<Rightarrow> (('r, 'd) task_store, 'r limiter_value, 'r lock_value) deps" where
  "NewTravelPlanService P kind = SetPlannerType kind
     \<lparr>dp_store = task_stores (tp_tasks P) (tp_sql_tasks P), dp_limiter = limiters, dp_lock = locks (tp_token P) (tp_released P),
      dp_plannerType = ''unknown'', dp_printable = pp_printable (tp_parts P)\<rparr>"

definition NewAuthService :: "third_party \<Rightarrow> AuthConfig \<Rightarrow> ('d user_store, 'd session_store) auth_deps" where
  "NewAuthService P cfg =
     \<lparr>ad_users = user_stores, ad_sessions = session_stores, ad_cfg = WithDefaults cfg,
      bc_generate = tp_generate P, bc_compare = tp_compare P, parse_address = tp_parse_address P\<rparr>"

type_synonym ('r, 'd) server_deps =
  "('d user_store, 'd session_store, 'd plan_store, 'd public_store, 'r view_store, ('r, 'd) task_store, 'r limiter_value, 'r lock_value) RouterDeps"
type_synonym ('r, 'd) server_app =
  "('d user_store, 'd session_store, 'd plan_store, 'd public_store, 'r view_store, ('r, 'd) task_store, 'r limiter_value, 'r lock_value) app"

definition server_auth :: "third_party \<Rightarrow> Config \<Rightarrow> ('d user_store, 'd session_store) auth_handler" where
  "server_auth P cfg = NewAuthHandler
     (NewAuthService P \<lparr>ac_PasswordMinLength = cf_PasswordMinLength cfg, ac_SessionTTL = cf_SessionTTL cfg\<rparr>)
     \<lparr>cc_Name = cf_SessionCookieName cfg, cc_Domain = cf_CookieDomain cfg, cc_Secure = cf_CookieSecure cfg, cc_Path = [], cc_SameSite = 0\<rparr>
     (tp_bind_auth P)"

text \<open>The task lookup of the current view never finds one.\<close>

definition server_plans :: "third_party \<Rightarrow> ('d plan_store, 'd public_store, 'r view_store) plans_handler" where
  "server_plans P =
     \<lparr>ph_service = \<lparr>pd_plans = plan_stores (tp_order P) (tp_plans P), pd_publics = public_stores (tp_public_order P) (tp_plans P),
        pd_viewDeduper = view_stores\<rparr>,
      ph_currentTask = Some (\<lambda>userID. None), ph_bind = tp_bind_plans P\<rparr>"

definition server_travel ::
  "third_party \<Rightarrow> environment \<Rightarrow> Config \<Rightarrow> (('r, 'd) task_store, 'r limiter_value, 'r lock_value) travel_handler" where
  "server_travel P getenv cfg =
     \<lparr>th_service = NewTravelPlanService P (cf_Planner cfg),
      th_extractor = chat_Extract (NewTravelInfoExtractor (loadLLMConfigFromEnv getenv)) (tp_chat P), th_bind = tp_bind_travel P\<rparr>"

definition server_deps :: "third_party \<Rightarrow> environment \<Rightarrow> Config \<Rightarrow> ('r, 'd) server_deps" where
  "server_deps P getenv cfg =
     \<lparr>rd_Travel = server_travel P getenv cfg,
      rd_Auth = (if cf_AuthEnabled cfg then Some (server_auth P cfg) else None),
      rd_Plans = (if cf_AuthEnabled cfg then Some (server_plans P) else None),
      rd_AllowedOrigins = cf_AllowedOrigins cfg, rd_AllowAnonymousPlanGeneration = cf_AllowAnonymousPlanGeneration cfg\<rparr>"

text \<open>Without accounts the stores of the account and plan packages are not made; their places in the state are then never read.\<close>

definition server_app :: "Config \<Rightarrow> (string + 'r redis_client) \<times> 'r \<Rightarrow> 'd sql_db option \<times> 'd \<Rightarrow> ('r, 'd) server_app" where
  "server_app cfg rds db =
     \<lparr>ap_auth = (choose_store NewMemoryUserStore db, choose_store NewMemorySessionStore db),
      ap_plans = \<lparr>pl_plans = choose_store NewMemoryPlanStore db, pl_publics = choose_store NewMemoryPublicPlanStore db, pl_views = choose_views rds\<rparr>,
      ap_travel = \<lparr>sv_store = choose_tasks cfg rds db, sv_limiter = choose_limiter cfg rds, sv_lock = choose_lock cfg rds,
        sv_events = NewEventBus, sv_spawned = []\<rparr>\<rparr>"

text \<open>Either \<open>log.Fatalf\<close>, or the address, the router, the state and the planner at the call of \<open>ListenAndServe\<close>.\<close>

datatype ('r, 'd) started =
  Fatal string
| Listening string "('r, 'd) server_deps" "('r, 'd) server_app" built_planner

definition start_server ::
  "third_party \<Rightarrow> ('r, 'd) servers \<Rightarrow> string list option \<Rightarrow> (string \<Rightarrow> string option) \<Rightarrow> environment \<Rightarrow> 'r \<times> 'd \<Rightarrow> ('r, 'd) started" where
  "start_server P W cwd open_file getenv0 = (\<lambda>(r, d).
     (case Load cwd open_file getenv0 of
        (cfg, getenv) \<Rightarrow>
          (case BuildPlanner (tp_parts P) getenv (cf_Planner cfg) of
             Inl err \<Rightarrow> Fatal (''build planner: '' @ err)
           | Inr planner \<Rightarrow>
               (let rds = NewClient W cfg r; db = open_mysql W cfg d
                in Listening (cf_HTTPAddr cfg) (server_deps P getenv cfg) (server_app cfg rds db) planner))))"

subsection \<open>A session that was created is read\<close>

definition kept_session :: "sql_env \<Rightarrow> Session \<Rightarrow> Session" where
  "kept_session E x = x\<lparr>ss_ExpiresAt := me_time E (ss_ExpiresAt x), ss_CreatedAt := me_time E (ss_CreatedAt x)\<rparr>"

lemma session_row_scan:
  "ss_RevokedAt x = None \<Longrightarrow> scan_session_row (map (column_value (session_row E x)) (se_cols select_session)) = Inr (kept_session E x)"
  by (simp add: select_session_def session_row_def inserted_row_def kept_session_def is_json_def suffix_def nullableTime_def)

lemma matching_session:
  assumes "equivp (me_eq E)" "\<not> list_ex (\<lambda>r. clashing E ''user_sessions'' r (session_row E x)) rows" "T ''user_sessions'' = rows @ [session_row E x]"
  shows "matching_rows E T select_session [VStr (ss_TokenHash x)] = [session_row E x]"
proof -
  have "\<not> sql_eq E (r ''token_hash'') (VStr (ss_TokenHash x))" if r: "r \<in> set rows" for r
  proof
    assume s: "sql_eq E (r ''token_hash'') (VStr (ss_TokenHash x))"
    have "clashing E ''user_sessions'' r (session_row E x)"
      using s by (simp add: clashing_def clash_def session_keys session_row_token)
    then show False using assms(2) r by (auto simp: list_ex_iff)
  qed
  moreover have "sql_eq E (session_row E x ''token_hash'') (VStr (ss_TokenHash x))"
    using equivp_reflp [OF assms(1)] by (simp add: session_row_token)
  ultimately show ?thesis by (simp add: matching_rows_def from_rows_def select_session_def with_alias_def assms(3))
qed

lemma read_session:
  assumes "mysql_up DB E tabs saved" "matching_rows E (tabs d) select_session [VStr (ss_TokenHash x)] = [session_row E x]" "ss_RevokedAt x = None"
  shows "MySQLSessionStore_GetByTokenHash DB c (ss_TokenHash x) d = Inr (kept_session E x)"
proof -
  have p: "select_params select_session = length [VStr (ss_TokenHash x)]" "se_cols select_session \<noteq> [SCount]"
    "se_limit select_session \<in> {NoLimit, Limit1}"
    by (simp_all add: select_session_def select_params_def conds_params_def limit_params_def)
  obtain r where r: "query_row DB c select_session [VStr (ss_TokenHash x)] d = Inr r"
    using query_row_up(2) [OF assms(1) p, of d c] assms(2) by auto
  then have "r = map (column_value (session_row E x)) (se_cols select_session)"
    using query_row_law [OF mysql_up.axioms(1) [OF assms(1)] r p(1,2)] assms(2) by auto
  then show ?thesis using r session_row_scan [OF assms(3)] by (simp add: MySQLSessionStore_GetByTokenHash_def)
qed

text \<open>A registration over MySQL, and the same accounts on any database that holds the rows it left.\<close>

lemma registered_rows:
  assumes "mysql_up DB E tabs saved" "ad_users A = MySQLUserStore_ops DB" "ad_sessions A = MySQLSessionStore_ops DB"
    and "Register A c now dr email password name (u, s) = (Inr iss, u1, s1)"
  shows "\<exists>x y old older. is_User iss = x \<and> us_Status x = UserStatusActive \<and> is_Session iss = y \<and> ss_UserID y = us_ID x \<and> ss_RevokedAt y = None
    \<and> ss_TokenHash y = HashSessionToken (is_Plaintext iss) \<and> ss_ExpiresAt y = now + ac_SessionTTL (ad_cfg A)
    \<and> is_Plaintext iss = hex_encode (dr_token dr)
    \<and> tabs u1 ''users'' = old @ [user_row E x] \<and> \<not> list_ex (\<lambda>r. clashing E ''users'' r (user_row E x)) old
    \<and> tabs s1 ''user_sessions'' = older @ [session_row E y] \<and> \<not> list_ex (\<lambda>r. clashing E ''user_sessions'' r (session_row E y)) older"
proof -
  obtain x d1 where x: "MySQLUserStore_Create DB c x u = (Inr (), u1)" "us_Status x = UserStatusActive"
    and iss: "issueSession A c now dr x s = (Inr iss, s1)"
    using assms(2,4)
    by (auto simp: Register_def Let_def MySQLUserStore_ops_def registered_user_def split: if_splits sum.splits prod.splits)
  obtain y where y: "MySQLSessionStore_Create DB c y s = (Inr (), s1)" "is_Session iss = y" "is_User iss = x"
    "ss_UserID y = us_ID x" "ss_RevokedAt y = None" "ss_TokenHash y = HashSessionToken (is_Plaintext iss)"
    "ss_ExpiresAt y = now + ac_SessionTTL (ad_cfg A)" "is_Plaintext iss = hex_encode (dr_token dr)"
    using iss assms(3)
    by (auto simp: issueSession_def NewSessionToken_def MySQLSessionStore_ops_def Let_def split: sum.splits prod.splits)
  show ?thesis
    using create_user_step [OF assms(1) x(1)] create_session_step [OF mysql_up.axioms(1) [OF assms(1)] y(1)] x(2) y
    by (intro exI [of _ x] exI [of _ y]) (auto split: if_splits)
qed

lemma rows_authenticate:
  assumes "mysql_up DB E tabs saved" "ad_users A = MySQLUserStore_ops DB" "ad_sessions A = MySQLSessionStore_ops DB"
    and "tabs u ''users'' = old @ [user_row E x]" "\<not> list_ex (\<lambda>r. clashing E ''users'' r (user_row E x)) old" "us_Status x = UserStatusActive"
    and "tabs s ''user_sessions'' = older @ [session_row E y]" "\<not> list_ex (\<lambda>r. clashing E ''user_sessions'' r (session_row E y)) older"
    and "ss_UserID y = us_ID x" "ss_RevokedAt y = None" "ss_TokenHash y = HashSessionToken token" "token \<noteq> []"
  shows "Authenticate A c t token (u, s)
    = (if t < me_time E (ss_ExpiresAt y) then Inr (kept_user E x) else Inl ErrSessionExpired)"
proof -
  note eq = mysql.collation [OF mysql_up.axioms(1) [OF assms(1)]]
  have ses: "MySQLSessionStore_GetByTokenHash DB c (HashSessionToken token) s = Inr (kept_session E y)"
    using read_session [OF assms(1) matching_session [where T = "tabs s", OF eq assms(8,7)] assms(10)] by (simp add: assms(11))
  have same: "(tabs u)(''users'' := old @ [user_row E x]) = tabs u" using assms(4) by (metis fun_upd_triv)
  have "matching_rows E (((tabs u)(''users'' := old))(''users'' := old @ [user_row E x])) (select_user ''id'') [VStr (us_ID x)] = [user_row E x]"
    using matching_user [of E "''id''" "us_ID x" x "us_ID x" "(tabs u)(''users'' := old)"] eq equivp_reflp [OF eq] assms(5) by simp
  then have usr: "MySQLUserStore_GetByID DB c (us_ID x) u = Inr (kept_user E x)"
    unfolding MySQLUserStore_GetByID_def by (intro read_user [OF assms(1)]) (simp add: same)
  show ?thesis
    using ses usr assms(2,3,6,9,10,12)
    by (simp add: Authenticate_def MySQLUserStore_ops_def MySQLSessionStore_ops_def Active_def kept_session_def kept_user_def)
qed

subsection \<open>Accounts and a restart\<close>

text \<open>The account service over MySQL alone, and the one of the started server doing what it does.\<close>

definition mysql_auth :: "third_party \<Rightarrow> AuthConfig \<Rightarrow> 'd sql_db \<Rightarrow> ('d, 'd) auth_deps" where
  "mysql_auth P cfg DB =
     \<lparr>ad_users = MySQLUserStore_ops DB, ad_sessions = MySQLSessionStore_ops DB, ad_cfg = WithDefaults cfg,
      bc_generate = tp_generate P, bc_compare = tp_compare P, parse_address = tp_parse_address P\<rparr>"

lemma auth_service_parts [simp]:
  "ad_users (NewAuthService P cfg) = user_stores" "ad_sessions (NewAuthService P cfg) = session_stores"
  "ad_cfg (NewAuthService P cfg) = WithDefaults cfg" "parse_address (NewAuthService P cfg) = tp_parse_address P"
  "bc_generate (NewAuthService P cfg) = tp_generate P"
  "ad_users (mysql_auth P cfg DB) = MySQLUserStore_ops DB" "ad_sessions (mysql_auth P cfg DB) = MySQLSessionStore_ops DB"
  "ad_cfg (mysql_auth P cfg DB) = WithDefaults cfg" "parse_address (mysql_auth P cfg DB) = tp_parse_address P"
  "bc_generate (mysql_auth P cfg DB) = tp_generate P"
  by (simp_all add: NewAuthService_def mysql_auth_def)

lemma remote_issueSession:
  "issueSession (NewAuthService P cfg) c now dr x (Remote DB s) = apsnd (Remote DB) (issueSession (mysql_auth P cfg DB) c now dr x s)"
  by (auto simp: issueSession_def session_stores_def Let_def split: sum.splits prod.splits)

lemma remote_Register:
  "Register (NewAuthService P cfg) c now dr e p n (Remote DB u, Remote DB s)
     = apsnd (map_prod (Remote DB) (Remote DB)) (Register (mysql_auth P cfg DB) c now dr e p n (u, s))"
  by (auto simp: Register_def Let_def HashPassword_def user_stores_def remote_issueSession split: sum.splits prod.splits)

lemma remote_Authenticate:
  "Authenticate (NewAuthService P cfg) c t token (Remote DB u, Remote DB s) = Authenticate (mysql_auth P cfg DB) c t token (u, s)"
  by (auto simp: Authenticate_def user_stores_def session_stores_def split: sum.split)

text \<open>What the start relies on: the handle of the DSN is that of a server, the settings of the pool and the ping change no row, and the ping is answered.\<close>

definition reached :: "('r, 'd) servers \<Rightarrow> Config \<Rightarrow> 'd sql_db \<Rightarrow> ('d \<Rightarrow> tables) \<Rightarrow> bool" where
  "reached W cfg DB tabs \<longleftrightarrow> wo_open W (cf_SQLDSN cfg) = Inr DB
     \<and> (\<forall>n i t d. tabs (wo_pool W DB n i t d) = tabs d) \<and> (\<forall>d. fst (wo_sqlping W DB d) = None \<and> tabs (snd (wo_sqlping W DB d)) = tabs d)"

lemma open_reached:
  assumes "reached W cfg DB tabs" "cf_SQLEnabled cfg" "cf_SQLDSN cfg \<noteq> []"
  shows "\<exists>d'. open_mysql W cfg d = (Some DB, d') \<and> tabs d' = tabs d"
proof -
  define d1 where "d1 = wo_pool W DB (cf_SQLMaxOpenConns cfg) (cf_SQLMaxIdleConns cfg) (cf_SQLConnMaxLifetime cfg) d"
  have "tabs d1 = tabs d" "fst (wo_sqlping W DB d1) = None" "tabs (snd (wo_sqlping W DB d1)) = tabs d1"
    using assms(1) by (simp_all add: reached_def d1_def)
  then show ?thesis
    using assms by (cases "wo_sqlping W DB d1") (simp add: open_mysql_def reached_def d1_def [symmetric] Let_def)
qed

lemma start_Listening:
  assumes "start_server P W cwd files getenv0 (r, d) = Listening addr R a planner" "Load cwd files getenv0 = (cfg, getenv)"
  shows "addr = cf_HTTPAddr cfg \<and> R = server_deps P getenv cfg \<and> a = server_app cfg (NewClient W cfg r) (open_mysql W cfg d)
    \<and> BuildPlanner (tp_parts P) getenv (cf_Planner cfg) = Inr planner"
  using assms by (auto simp: start_server_def Let_def split: sum.splits)

lemma started_accounts:
  assumes "start_server P W cwd files getenv0 (r, d) = Listening addr R a planner" "Load cwd files getenv0 = (cfg, getenv)"
    and "reached W cfg DB tabs" "cf_SQLEnabled cfg" "cf_SQLDSN cfg \<noteq> []"
  shows "\<exists>d'. ap_auth a = (Remote DB d', Remote DB d') \<and> tabs d' = tabs d"
  using start_Listening [OF assms(1,2)] open_reached [OF assms(3-5), of d]
  by (auto simp: server_app_def choose_store_def)

text \<open>
  C38. Sessions survive a restart when MySQL holds them: if a server that was started with MySQL registers a user, and a server is started again in the same environment on a
  database that holds the users and sessions left by the first, then the token authenticates that user there at every instant before its expiry (as the column keeps it), and is expired from then on,
  whatever became of Redis and of everything that was in memory.
\<close>

theorem sessions_survive_restart:
  assumes "mysql_up DB E tabs saved" "Load cwd files getenv0 = (cfg, getenv)" "reached W cfg DB tabs"
    and "cf_SQLEnabled cfg" "cf_SQLDSN cfg \<noteq> []" "cf_AuthEnabled cfg" "dr_token dr \<noteq> []"
    and "start_server P W cwd files getenv0 (r, d) = Listening addr R a planner"
    and "Register (ah_service (the (rd_Auth R))) c now dr email password name (ap_auth a) = (Inr iss, Remote DB u1, Remote DB s1)"
    and "start_server P W cwd files getenv0 (r', d') = Listening addr' R' a' planner'"
    and "tabs d' ''users'' = tabs u1 ''users''" "tabs d' ''user_sessions'' = tabs s1 ''user_sessions''"
  shows "Authenticate (ah_service (the (rd_Auth R'))) c' t (is_Plaintext iss) (ap_auth a')
    = (if t < me_time E (now + ac_SessionTTL (ad_cfg (ah_service (the (rd_Auth R))))) then Inr (kept_user E (is_User iss))
       else Inl ErrSessionExpired)"
proof -
  define A where "A = \<lparr>ac_PasswordMinLength = cf_PasswordMinLength cfg, ac_SessionTTL = cf_SessionTTL cfg\<rparr>"
  have service: "ah_service (the (rd_Auth R)) = NewAuthService P A" "ah_service (the (rd_Auth R')) = NewAuthService P A"
    using start_Listening [OF assms(8,2)] start_Listening [OF assms(10,2)] assms(6)
    by (simp_all add: server_deps_def server_auth_def NewAuthHandler_def A_def)
  obtain d0 where d0: "ap_auth a = (Remote DB d0, Remote DB d0)"
    using started_accounts [OF assms(8,2,3,4,5)] by blast
  obtain d2 where d2: "ap_auth a' = (Remote DB d2, Remote DB d2)" "tabs d2 = tabs d'"
    using started_accounts [OF assms(10,2,3,4,5)] by blast
  have reg: "Register (mysql_auth P A DB) c now dr email password name (d0, d0) = (Inr iss, u1, s1)"
    using assms(9) unfolding service d0 remote_Register
    by (cases "Register (mysql_auth P A DB) c now dr email password name (d0, d0)") auto
  obtain x y old older where xy: "is_User iss = x" "us_Status x = UserStatusActive" "ss_UserID y = us_ID x" "ss_RevokedAt y = None"
    "ss_TokenHash y = HashSessionToken (is_Plaintext iss)" "ss_ExpiresAt y = now + ac_SessionTTL (WithDefaults A)" "is_Plaintext iss = hex_encode (dr_token dr)"
    "tabs u1 ''users'' = old @ [user_row E x]" "\<not> list_ex (\<lambda>r. clashing E ''users'' r (user_row E x)) old"
    "tabs s1 ''user_sessions'' = older @ [session_row E y]" "\<not> list_ex (\<lambda>r. clashing E ''user_sessions'' r (session_row E y)) older"
    using registered_rows [OF assms(1) _ _ reg] by auto
  have "is_Plaintext iss \<noteq> []" using assms(7) xy(7) by (cases "dr_token dr") simp_all
  then show ?thesis
    using rows_authenticate [OF assms(1), of "mysql_auth P A DB" d2 old x d2 older y "is_Plaintext iss" c' t] xy assms(11,12) d2
    by (simp add: service remote_Authenticate)
qed

text \<open>An environment with nothing set but MySQL, a MySQL server that does what the manual says, and no Redis.\<close>

definition sql_environment :: environment where
  "sql_environment k = (if k = ''TRAVEL_AGENT_SQL_ENABLED'' then ''on'' else if k = ''TRAVEL_AGENT_SQL_DSN'' then ''db'' else [])"

definition reference_servers :: "(unit, sql_state) servers" where
  "reference_servers =
     \<lparr>wo_redis = (\<lambda>addr pw n c now cmd r. (Inl ''connection refused'', r)), wo_ping = (\<lambda>call r. (Some ''connection refused'', r)),
      wo_open = (\<lambda>dsn. Inr (mysql_reference binary_env)), wo_pool = (\<lambda>DB n i t d. d), wo_sqlping = (\<lambda>DB d. (None, d))\<rparr>"

definition empty_database :: sql_state where "empty_database = (\<lambda>_. [], \<lambda>_. [])"

lemma sql_config:
  "Load None files sql_environment = (read_config sql_environment, sql_environment)"
  "cf_SQLEnabled (read_config sql_environment)" "cf_SQLDSN (read_config sql_environment) = ''db''"
  "cf_AuthEnabled (read_config sql_environment)" "cf_PasswordMinLength (read_config sql_environment) = 8"
  "cf_SessionTTL (read_config sql_environment) = 168 * hour"
proof -
  have w: "wrap64 (168 * hour) = 168 * hour" by (intro wrap64_id) (simp_all add: hour_def minute_def second_def millisecond_def)
  have t: "TrimSpace [] = []" "parseBool ''on''" "TrimSpace ''db'' = ''db''" by code_simp+
  show "Load None files sql_environment = (read_config sql_environment, sql_environment)"
    "cf_SQLEnabled (read_config sql_environment)" "cf_SQLDSN (read_config sql_environment) = ''db''"
    "cf_AuthEnabled (read_config sql_environment)" "cf_PasswordMinLength (read_config sql_environment) = 8"
    "cf_SessionTTL (read_config sql_environment) = 168 * hour"
    by (simp_all add: Load_def loadDotEnv_def read_config_def sql_environment_def t parseBoolDefault_def envInt_def w)
qed

lemma sql_planner: "BuildPlanner parts sql_environment (cf_Planner (read_config sql_environment)) = Inr MockPlanner"
proof -
  have t: "TrimSpace [] = []" "ToLower (TrimSpace (ToLower ''mock'')) = ''mock''" by code_simp+
  show ?thesis by (simp add: BuildPlanner_def read_config_def sql_environment_def envOrDefault_def t)
qed

lemma sql_reached: "reached reference_servers cfg (mysql_reference binary_env) fst"
  by (simp add: reached_def reference_servers_def)

lemma sql_starts:
  "\<exists>addr R a. start_server P reference_servers None files sql_environment (r, d) = Listening addr R a MockPlanner
     \<and> ap_auth a = (Remote (mysql_reference binary_env) d, Remote (mysql_reference binary_env) d)
     \<and> ah_service (the (rd_Auth R)) = NewAuthService P \<lparr>ac_PasswordMinLength = 8, ac_SessionTTL = 168 * hour\<rparr>"
  by (simp add: start_server_def sql_config sql_planner Let_def server_app_def server_deps_def server_auth_def NewAuthHandler_def
      choose_store_def open_mysql_def reference_servers_def)

lemma reference_create:
  "fst d ''users'' = [] \<Longrightarrow> MySQLUserStore_Create (mysql_reference E) c x d = (Inr (), (fst d)(''users'' := [user_row E x]), snd d)"
  "fst d ''user_sessions'' = [] \<Longrightarrow>
     MySQLSessionStore_Create (mysql_reference E) c y d = (Inr (), (fst d)(''user_sessions'' := [session_row E y]), snd d)"
  by (simp_all add: MySQLUserStore_Create_def MySQLSessionStore_Create_def mysql_reference_def run_sql_def insert_user_def insert_session_def
      exec_insert user_row_def session_row_def)

lemma sql_registers:
  fixes P0 :: third_party
  defines "P \<equiv> P0\<lparr>tp_generate := \<lambda>salt p. Inr (CHR ''h'' # p), tp_parse_address := \<lambda>e. True\<rparr>"
  shows "\<exists>iss u1 s1. Register (mysql_auth P \<lparr>ac_PasswordMinLength = 8, ac_SessionTTL = 168 * hour\<rparr> (mysql_reference binary_env)) background 100000
    toy_draws toy_email ''secret12'' ''Ann'' (empty_database, empty_database) = (Inr iss, u1, s1)"
proof -
  have e: "normalizeEmail toy_email = ''ann'' @ [CHR 0x40] @ ''x.org''" unfolding toy_email_def by code_simp
  have n: "display_name ''Ann'' = ''Ann''" "TrimSpace ''Ann'' \<noteq> []" by (code_simp, code_simp)
  have h: "0 < 168 * hour" by (simp add: hour_def minute_def second_def millisecond_def)
  show ?thesis
    using h by (simp add: P_def Register_def e n HashPassword_def mysql_auth_def WithDefaults_def issueSession_def NewSessionToken_def Let_def
        MySQLUserStore_ops_def MySQLSessionStore_ops_def reference_create empty_database_def)
qed

theorem sessions_survive_restart_witness:
  "\<exists>(P :: third_party) iss addr R a R' a' u1 s1 d'.
     start_server P reference_servers None (\<lambda>_. None) sql_environment ((), empty_database) = Listening addr R a MockPlanner
   \<and> Register (ah_service (the (rd_Auth R))) background 100000 toy_draws toy_email ''secret12'' ''Ann'' (ap_auth a)
       = (Inr iss, Remote (mysql_reference binary_env) u1, Remote (mysql_reference binary_env) s1)
   \<and> start_server P reference_servers None (\<lambda>_. None) sql_environment ((), d') = Listening addr R' a' MockPlanner
   \<and> fst d' ''users'' = fst u1 ''users'' \<and> fst d' ''user_sessions'' = fst s1 ''user_sessions''
   \<and> Authenticate (ah_service (the (rd_Auth R'))) background 200000 (is_Plaintext iss) (ap_auth a') = Inr (kept_user binary_env (is_User iss))"
proof -
  fix P0 :: third_party
  define P where "P = P0\<lparr>tp_generate := \<lambda>salt p. Inr (CHR ''h'' # p), tp_parse_address := \<lambda>e. True\<rparr>"
  let ?DB = "mysql_reference binary_env"
  obtain iss u1 s1 where reg: "Register (mysql_auth P \<lparr>ac_PasswordMinLength = 8, ac_SessionTTL = 168 * hour\<rparr> ?DB) background 100000
    toy_draws toy_email ''secret12'' ''Ann'' (empty_database, empty_database) = (Inr iss, u1, s1)" unfolding P_def using sql_registers by blast
  define d' :: sql_state where "d' = ((fst s1)(''users'' := fst u1 ''users''), snd s1)"
  obtain addr R a where 1: "start_server P reference_servers None (\<lambda>_. None) sql_environment ((), empty_database) = Listening addr R a MockPlanner"
    "ap_auth a = (Remote ?DB empty_database, Remote ?DB empty_database)"
    "ah_service (the (rd_Auth R)) = NewAuthService P \<lparr>ac_PasswordMinLength = 8, ac_SessionTTL = 168 * hour\<rparr>"
    using sql_starts [of P "\<lambda>_. None" "()" empty_database] by blast
  obtain addr' R' a' where 2: "start_server P reference_servers None (\<lambda>_. None) sql_environment ((), d') = Listening addr' R' a' MockPlanner"
    using sql_starts [of P "\<lambda>_. None" "()" d'] by blast
  have r: "Register (ah_service (the (rd_Auth R))) background 100000 toy_draws toy_email ''secret12'' ''Ann'' (ap_auth a)
    = (Inr iss, Remote ?DB u1, Remote ?DB s1)" unfolding 1 remote_Register reg by simp
  have same: "fst d' ''users'' = fst u1 ''users''" "fst d' ''user_sessions'' = fst s1 ''user_sessions''" by (simp_all add: d'_def)
  have tok: "dr_token toy_draws \<noteq> []" "cf_SQLDSN (read_config sql_environment) \<noteq> []" by (simp_all add: toy_draws_def sql_config)
  have ttl: "200000 < me_time binary_env (100000 + ac_SessionTTL (ad_cfg (ah_service (the (rd_Auth R)))))"
    by (simp add: 1 WithDefaults_def binary_env_def hour_def minute_def second_def millisecond_def)
  have "Authenticate (ah_service (the (rd_Auth R'))) background 200000 (is_Plaintext iss) (ap_auth a')
    = (if 200000 < me_time binary_env (100000 + ac_SessionTTL (ad_cfg (ah_service (the (rd_Auth R))))) then Inr (kept_user binary_env (is_User iss))
       else Inl ErrSessionExpired)"
    by (rule sessions_survive_restart [where tabs = fst, OF binary.mysql_up_axioms sql_config(1) sql_reached sql_config(2) tok(2) sql_config(4) tok(1) 1(1) r 2 same])
  then have "Authenticate (ah_service (the (rd_Auth R'))) background 200000 (is_Plaintext iss) (ap_auth a') = Inr (kept_user binary_env (is_User iss))"
    unfolding if_P [OF ttl] .
  moreover have "addr' = addr" using start_Listening [OF 1(1) sql_config(1)] start_Listening [OF 2 sql_config(1)] by simp
  ultimately show ?thesis using 1(1) r 2 same by blast
qed

subsection \<open>When the server starts, and with what\<close>

fun remote :: "('m, 'p, 's) backend \<Rightarrow> bool" where
  "remote (InMemory m) = False"
| "remote (Remote p s) = True"

fun tasks_in_mysql :: "('r, 'd) task_store \<Rightarrow> bool" where
  "tasks_in_mysql (TasksInMySQL DB d) = True"
| "tasks_in_mysql (TasksCached DB call ttl x) = True"
| "tasks_in_mysql s = False"

fun tasks_use_redis :: "('r, 'd) task_store \<Rightarrow> bool" where
  "tasks_use_redis (TasksInRedis call ttl r) = True"
| "tasks_use_redis (TasksCached DB call ttl x) = True"
| "tasks_use_redis s = False"

definition redis_answers :: "('r, 'd) servers \<Rightarrow> Config \<Rightarrow> 'r \<Rightarrow> bool" where
  "redis_answers W cfg r \<longleftrightarrow> cf_RedisAddr cfg \<noteq> []
     \<and> fst (wo_ping W (wo_redis W (cf_RedisAddr cfg) (cf_RedisPassword cfg) (cf_RedisDB cfg)) r) = None"

definition mysql_answers :: "('r, 'd) servers \<Rightarrow> Config \<Rightarrow> 'd \<Rightarrow> bool" where
  "mysql_answers W cfg d \<longleftrightarrow> cf_SQLEnabled cfg \<and> cf_SQLDSN cfg \<noteq> []
     \<and> (case wo_open W (cf_SQLDSN cfg) of Inl e \<Rightarrow> False
        | Inr DB \<Rightarrow> fst (wo_sqlping W DB (wo_pool W DB (cf_SQLMaxOpenConns cfg) (cf_SQLMaxIdleConns cfg) (cf_SQLConnMaxLifetime cfg) d)) = None)"

lemma NewClient_answers: "is_ok (fst (NewClient W cfg r)) \<longleftrightarrow> redis_answers W cfg r"
  by (auto simp: NewClient_def redis_answers_def Let_def split: prod.splits option.splits)

lemma open_mysql_answers: "fst (open_mysql W cfg d) \<noteq> None \<longleftrightarrow> mysql_answers W cfg d"
  by (auto simp: open_mysql_def mysql_answers_def Let_def split: prod.splits option.splits sum.splits)

lemma choose_store_remote: "remote (choose_store fresh db) \<longleftrightarrow> fst db \<noteq> None"
  by (auto simp: choose_store_def split: prod.splits option.splits)

lemma choose_remote:
  "remote (choose_limiter cfg rds) \<longleftrightarrow> is_ok (fst rds)" "remote (choose_lock cfg rds) \<longleftrightarrow> is_ok (fst rds)"
  "remote (choose_views rds) \<longleftrightarrow> is_ok (fst rds)" "tasks_use_redis (choose_tasks cfg rds db) \<longleftrightarrow> is_ok (fst rds)"
  "tasks_in_mysql (choose_tasks cfg rds db) \<longleftrightarrow> fst db \<noteq> None"
  by (cases rds; cases "fst rds"; cases db; cases "fst db";
      simp add: choose_limiter_def choose_lock_def choose_views_def choose_tasks_def)+

definition usable_limits :: "('r, 'd) server_app \<Rightarrow> bool" where
  "usable_limits a \<longleftrightarrow>
     (case sv_limiter (ap_travel a) of InMemory m \<Rightarrow> 0 < rl_limit m | Remote (call, limit) r \<Rightarrow> 0 < limit)
   \<and> (case sv_lock (ap_travel a) of InMemory m \<Rightarrow> 0 < lk_ttl m | Remote (call, ttl) r \<Rightarrow> 0 < ttl)
   \<and> (case pl_views (ap_plans a) of InMemory m \<Rightarrow> 0 < md_ttl m | Remote (call, ttl) r \<Rightarrow> 0 < ttl)"

lemma server_app_usable: "usable_limits (server_app cfg rds db)"
  by (cases rds; cases "fst rds")
    (simp_all add: usable_limits_def server_app_def choose_limiter_def choose_lock_def choose_views_def NewMemoryRateLimiter_def NewMemoryRequestLock_def
      NewMemoryPublicViewDeduper_def NewRedisRateLimiter_limit_def NewRedisRequestLock_ttl_def NewRedisPublicViewDeduper_ttl_def
      defaultPublicViewDedupTTL_def duration_defs)

definition usable_accounts :: "('d user_store, 'd session_store) auth_handler \<Rightarrow> bool" where
  "usable_accounts H \<longleftrightarrow> 0 < ac_PasswordMinLength (ad_cfg (ah_service H)) \<and> 0 < ac_SessionTTL (ad_cfg (ah_service H)) \<and> cc_Name (ah_cookie H) \<noteq> []"

lemma server_auth_usable: "usable_accounts (server_auth P (read_config getenv))"
  by (simp add: usable_accounts_def server_auth_def NewAuthHandler_def WithDefaults_def DefaultPasswordMinLength_def DefaultSessionTTL_def
      Cookie_WithDefaults_def read_config_def envOrDefault_ne duration_defs)

lemma server_accounts:
  "cfg = read_config getenv \<Longrightarrow> case rd_Auth (server_deps P getenv cfg) of None \<Rightarrow> rd_Plans (server_deps P getenv cfg) = None
     | Some H \<Rightarrow> rd_Plans (server_deps P getenv cfg) \<noteq> None \<and> usable_accounts H"
  by (simp add: server_deps_def server_auth_usable)

lemma Load_config: "fst (Load cwd files getenv0) = read_config (snd (Load cwd files getenv0))"
  by (simp add: Load_def Let_def)

definition known_planner :: "planner_parts \<Rightarrow> string \<Rightarrow> bool" where
  "known_planner parts kind \<longleftrightarrow> kind = [] \<or> kind = ''mock'' \<or> kind = ''eino'' \<and> is_ok (pp_compile parts)"

lemma BuildPlanner_ok: "is_ok (BuildPlanner parts getenv kind) \<longleftrightarrow> known_planner parts (ToLower (TrimSpace kind))"
  by (auto simp: known_planner_def BuildPlanner_def NewEinoTravelPlanner_def Let_def split: sum.splits)


subsection \<open>The services in memory\<close>

text \<open>With accounts in memory the service is the one of the theory Auth, and a restart forgets every session.\<close>

lemma memory_auth_parts [simp]:
  "ad_users (memory_auth cfg gen cmp parse) = MemoryUserStore_ops" "ad_sessions (memory_auth cfg gen cmp parse) = MemorySessionStore_ops"
  "ad_cfg (memory_auth cfg gen cmp parse) = WithDefaults cfg" "parse_address (memory_auth cfg gen cmp parse) = parse"
  "bc_generate (memory_auth cfg gen cmp parse) = gen"
  by (simp_all add: memory_auth_def)

lemma local_issueSession:
  "issueSession (NewAuthService P cfg) c now dr x (InMemory s)
     = apsnd InMemory (issueSession (memory_auth cfg (tp_generate P) (tp_compare P) (tp_parse_address P)) c now dr x s)"
  by (auto simp: issueSession_def session_stores_def Let_def split: sum.splits prod.splits)

lemma local_Register:
  "Register (NewAuthService P cfg) c now dr e p n (InMemory u, InMemory s)
     = apsnd (map_prod InMemory InMemory) (Register (memory_auth cfg (tp_generate P) (tp_compare P) (tp_parse_address P)) c now dr e p n (u, s))"
  by (auto simp: Register_def Let_def HashPassword_def user_stores_def local_issueSession split: sum.splits prod.splits)

lemma local_Authenticate:
  "Authenticate (NewAuthService P cfg) c t token (InMemory u, InMemory s)
     = Authenticate (memory_auth cfg (tp_generate P) (tp_compare P) (tp_parse_address P)) c t token (u, s)"
  by (auto simp: Authenticate_def user_stores_def session_stores_def split: sum.split)

lemma memory_restart_forgets:
  assumes "start_server P W cwd files getenv0 (r, d) = Listening addr R a planner" "Load cwd files getenv0 = (cfg, getenv)"
    and "\<not> mysql_answers W cfg d" "live c" "token \<noteq> []"
  shows "Authenticate (NewAuthService P ac) c t token (ap_auth a) = Inl ErrSessionNotFound"
proof -
  obtain d' where "open_mysql W cfg d = (None, d')"
    using open_mysql_answers [of W cfg d] assms(3) by (cases "open_mysql W cfg d") simp
  then have auth: "ap_auth a = (InMemory NewMemoryUserStore, InMemory NewMemorySessionStore)"
    using start_Listening [OF assms(1,2)] by (simp add: server_app_def choose_store_def)
  show ?thesis
    unfolding auth local_Authenticate using assms(4,5)
    by (simp add: Authenticate_def MemorySessionStore_ops_def MemorySessionStore_GetByTokenHash_def
        NewMemorySessionStore_def)
qed

text \<open>Without accounts the travel group has no middleware, whatever the setting for anonymous planning.\<close>

lemma no_accounts_no_login:
  "cf_AuthEnabled cfg = False \<Longrightarrow> travel_middlewares (server_deps P getenv cfg) I = []"
  by (simp add: travel_middlewares_def server_deps_def)

end
