(* ===== verification/Journey.thy ===== *)
theory Journey
  imports HttpGuarantees Config MockPlanner
begin

section \<open>From the request to the library\<close>

text \<open>
  The packages together, over the in-memory stores: a signed-in user asks for a plan, the run that was started plans it, and the user keeps the result. The planner is the one
  that was built for the settings; the tasks are looked up through the adapter of cmd/server/main.go.
\<close>

text \<open>A planner as the travel service runs it: the mock planner reports nothing.\<close>

fun planner_of :: "built_planner \<Rightarrow> planner" where
  "planner_of MockPlanner = (\<lambda>req testMode agentMode. \<lparr>pr_reports = [],
     pr_outcome = (case MockPlanner_Plan background req of Inl e \<Rightarrow> PlanErr e | Inr plan \<Rightarrow> PlanOk (Some plan))\<rparr>)"
| "planner_of (EinoTravelPlanner plan) = plan"

subsection \<open>The events of a creation\<close>

lemma lock_phase_events: "lock_phase D c now rounds h \<sigma> = (rel, r, \<sigma>') \<Longrightarrow> sv_events \<sigma>' = sv_events \<sigma>"
  by (auto simp: lock_phase_def split: prod.splits sum.splits if_splits)

lemma find_or_create_bus_ok:
  "bus_ok (sv_events \<sigma>) \<Longrightarrow> bus_ok (sv_events (snd (find_or_create D c now task \<sigma>)))"
  by (auto simp: find_or_create_def Let_def intro: publish_bus_ok split: prod.split sum.split option.split)

lemma CreateTask_bus_ok:
  assumes "admitted D c now i r key \<sigma> h" "bus_ok (sv_events \<sigma>)"
  shows "bus_ok (sv_events (snd (CreateTask D c now i rounds r key \<sigma>)))"
proof -
  obtain a r' where a: "dp_limiter D c now (clientRateKey (dp_printable D) key) (sv_limiter \<sigma>) = (a, r')"
    by (cases "dp_limiter D c now (clientRateKey (dp_printable D) key) (sv_limiter \<sigma>)")
  obtain rel q \<sigma>2 where l: "lock_phase D c now rounds h (\<sigma>\<lparr>sv_limiter := r'\<rparr>) = (rel, q, \<sigma>2)"
    by (cases "lock_phase D c now rounds h (\<sigma>\<lparr>sv_limiter := r'\<rparr>)")
  obtain x \<sigma>3 where f: "find_or_create D c now (task_of D c now i r h) \<sigma>2 = (x, \<sigma>3)"
    by (cases "find_or_create D c now (task_of D c now i r h) \<sigma>2")
  have e: "bus_ok (sv_events \<sigma>2)" using lock_phase_events [OF l] assms(2) by simp
  then have "bus_ok (sv_events \<sigma>3)" using find_or_create_bus_ok [of \<sigma>2 D c now "task_of D c now i r h"] f by simp
  moreover have "a \<noteq> Inr False" using assms(1) a by (simp add: admitted_def)
  ultimately show ?thesis using assms(1) a l e f unfolding task_of_def
    by (cases q) (simp_all add: CreateTask_def admitted_def Let_def)
qed

subsection \<open>Keeping a finished task\<close>

lemma validateTitle_trimmed: "validateTitle (TrimSpace title) = validateTitle title"
  by (simp add: validateTitle_def TrimSpace_idem)

lemma save_title_given: "validateTitle (si_Title inp) = Inr () \<Longrightarrow> save_title inp snapshot plan = TrimSpace (si_Title inp)"
  by (auto simp: validateTitle_def save_title_def Let_def split: if_splits)

lemma save_succeeded:
  assumes "plans_reach o1 o2 \<pi>" "live c" "u \<noteq> []" "si_TaskID inp \<noteq> []" "validateTitle (si_Title inp) = Inr ()"
    and "\<forall>p \<in> ran (mp_plans (pl_plans \<pi>)). up_TaskID p \<noteq> si_TaskID inp"
    and "ou_tasks ou = Some look" "look c (si_TaskID inp) = Inr snapshot" "sn_Plan snapshot = Some tp"
    and "sn_Status snapshot = TaskStatusSucceeded" "sn_UserID snapshot = u"
  shows "\<exists>p \<pi>'. Plans_Save (memory_plans o1 o2) ou c u inp \<pi> = (Inr p, \<pi>') \<and> up_Plan p = Some tp \<and> up_UserID p = u
    \<and> up_TaskID p = si_TaskID inp \<and> up_DestinationCity p = rq_DestinationCity (sn_Request snapshot)
    \<and> (\<forall>v. Plans_Get (memory_plans o1 o2) c v (up_ID p) \<pi>' = (if v = u then Inr p else Inl ErrPlanNotFound))"
proof -
  have wf: "mp_wf (pl_plans \<pi>)" using reach_ok [OF assms(1)] by simp
  obtain g where g: "pst_GetByTaskID (pd_plans (memory_plans o1 o2)) c u (si_TaskID inp) (pl_plans \<pi>) = Inr g"
    using memory_library.pget_task_ok [OF wf assms(2)] by blast
  have none: "g = None"
  proof (cases g)
    case (Some q)
    then have "mp_plans (pl_plans \<pi>) (up_ID q) = Some q" "up_TaskID q = si_TaskID inp"
      using memory_library.pget_task_some [OF wf assms(2), of o1 o2] g by simp_all
    then show ?thesis using assms(6) ranI by metis
  qed
  have checks: "save_checks ou c u inp = Inr (snapshot, tp)"
    using assms(5,7-11) by (simp add: save_checks_def save_title_given [OF assms(5)] validateTitle_trimmed)
  define p where "p = saved_plan ou u inp snapshot tp"
  have pf: "up_Plan p = Some tp" "up_UserID p = u" "up_TaskID p = si_TaskID inp" "\<not> IsDeleted p"
    "up_DestinationCity p = rq_DestinationCity (sn_Request snapshot)"
    by (simp_all add: p_def saved_plan_def IsDeleted_def cloneTravelPlan_def)
  obtain s1 where s1: "pst_Create (pd_plans (memory_plans o1 o2)) c p (pl_plans \<pi>) = (Inr (), s1)" "mp_wf s1"
    "mp_plans s1 = (mp_plans (pl_plans \<pi>))(up_ID p \<mapsto> p)"
    using memory_library.pcreate [OF wf assms(2)] by blast
  obtain s2 where s2: "pst_CreateArchive (pd_plans (memory_plans o1 o2)) c (saved_archive ou p snapshot) s1 = (Inr (), s2)"
    "mp_wf s2" "mp_plans s2 = mp_plans s1"
    using memory_library.parchive [OF s1(2) assms(2)] by blast
  have save: "Plans_Save (memory_plans o1 o2) ou c u inp \<pi> = (Inr p, \<pi>\<lparr>pl_plans := s2\<rparr>)"
    using g none checks s1(1) s2(1) assms(3,4) by (simp add: Plans_Save_def p_def Let_def)
  have "Plans_Get (memory_plans o1 o2) c v (up_ID p) (\<pi>\<lparr>pl_plans := s2\<rparr>) = (if v = u then Inr p else Inl ErrPlanNotFound)" for v
    using memory_library.pget [OF s2(2) assms(2), of o1 o2 "up_ID p" v] pf by (auto simp: Plans_Get_def s2(3) s1(3))
  then show ?thesis using save pf by blast
qed

lemma found_snapshot:
  assumes "mt_wf s" "live c" "mt_tasks s i = Some t" "tk_Status t = TaskSucceeded"
  shows "\<exists>x. LookupTask MemoryTaskStore_ops now s c i = Inr x \<and> sn_Plan x = tk_Plan t \<and> sn_Status x = TaskStatusSucceeded
    \<and> sn_UserID x = tk_UserID t"
  using assms
  by (auto simp: LookupTask_def MemoryTaskStore_ops_def MemoryTaskStore_Get_def TaskStatusSucceeded_def status_text_def split: option.split)

text \<open>
  C40. A trip gets from the request to the library: when a signed-in user's request is admitted and its brief is new, \<open>CreateTask\<close> starts one run; once the planner of that run
  has made a plan, \<open>GetTask\<close> answers with exactly this plan, \<open>Save\<close> by the same user (with an acceptable title) keeps exactly this plan as a private plan of the user, and from then on
  the user reads it back under its id and nobody else does. All of this holds for every planner, in every reachable state of task service and library.
\<close>

theorem trip_reaches_library:
  assumes "service_ok \<sigma>" "bus_ok (sv_events \<sigma>)" "mt_tasks (sv_store \<sigma>) i = None" "\<forall>t \<in> ran (mt_tasks (sv_store \<sigma>)). tk_RequestHash t \<noteq> h"
    and "admitted (memory_deps pt pr) c now i req key \<sigma> h" "live c" "i \<noteq> []" "ctx_UserID c \<noteq> []"
    and "pr_outcome (planner_of b (ToDomain req i) (cr_TestMode req) (normalizeAgentMode (cr_AgentMode req))) = PlanOk (Some tp)"
    and "plans_reach o1 o2 \<pi>" "\<forall>p \<in> ran (mp_plans (pl_plans \<pi>)). up_TaskID p \<noteq> i"
    and "si_TaskID inp = i" "validateTitle (si_Title inp) = Inr ()" "live c'"
  shows "\<exists>\<sigma>1 task \<sigma>2 g p \<pi>'.
      CreateTask (memory_deps pt pr) c now i [] req key \<sigma>
        = (Inr \<lparr>ct_TaskID = i, ct_RequestHash = h, ct_Status = TaskPending, ct_Cached = False\<rparr>, \<sigma>1)
    \<and> sv_spawned \<sigma>1 = sv_spawned \<sigma> @ [task]
    \<and> runTask (memory_deps pt pr) (planner_of b) t1 t2 task \<sigma>1 = \<sigma>2
    \<and> GetTask (memory_deps pt pr) c' t3 i \<sigma>2 = (Inr g, \<sigma>2) \<and> gt_Status g = TaskSucceeded \<and> gt_Plan g = Some tp
    \<and> Plans_Save (memory_plans o1 o2) (ou\<lparr>ou_tasks := Some (LookupTask MemoryTaskStore_ops t3 (sv_store \<sigma>2))\<rparr>) c' (ctx_UserID c) inp \<pi> = (Inr p, \<pi>')
    \<and> up_Plan p = Some tp \<and> up_UserID p = ctx_UserID c \<and> up_TaskID p = i
    \<and> (\<forall>v. Plans_Get (memory_plans o1 o2) c' v (up_ID p) \<pi>' = (if v = ctx_UserID c then Inr p else Inl ErrPlanNotFound))"
proof -
  let ?D = "memory_deps pt pr" and ?task = "task_of (memory_deps pt pr) c now i req h"
  obtain \<sigma>1 where new: "CreateTask ?D c now i [] req key \<sigma>
      = (Inr \<lparr>ct_TaskID = i, ct_RequestHash = h, ct_Status = TaskPending, ct_Cached = False\<rparr>, \<sigma>1)" "mt_wf (sv_store \<sigma>1)"
    "mt_tasks (sv_store \<sigma>1) = (mt_tasks (sv_store \<sigma>))(i \<mapsto> ?task)" "sv_spawned \<sigma>1 = sv_spawned \<sigma> @ [?task]"
    using memory_env.CreateTask_fresh [OF assms(5,6)] assms(1,3,4) unfolding service_ok_def by blast
  have bus: "bus_ok (sv_events \<sigma>1)" using CreateTask_bus_ok [OF assms(5,2), of "[]"] by (simp add: new(1))
  define \<sigma>2 where "\<sigma>2 = runTask ?D (planner_of b) t1 t2 ?task \<sigma>1"
  define run where "run = planner_of b (tk_Request ?task) (tk_TestMode ?task) (normalizeAgentMode (tk_AgentMode ?task))"
  have out: "pr_outcome run = PlanOk (Some tp)"
    using assms(9) by (simp add: run_def task_of_def new_task_def normalizeAgentMode_idem)
  have stored: "mt_tasks (sv_store \<sigma>1) (tk_ID ?task) = Some ?task" "\<not> terminal ?task" "tk_ID ?task \<noteq> []"
    using new(3) assms(7) by (simp_all add: isTerminalTaskStatus_def)
  obtain t where t: "mt_tasks (sv_store \<sigma>2) = (mt_tasks (sv_store \<sigma>1))(tk_ID ?task \<mapsto> t)" "tk_Status t = TaskSucceeded"
    "tk_Plan t = Some tp" "tk_UserID t = tk_UserID ?task" "mt_wf (sv_store \<sigma>2)"
    using memory_env.runTask_spec [where plan = "planner_of b" and run = run and \<sigma> = \<sigma>1 and task = ?task and ?t1.0 = t1 and ?t2.0 = t2
        and plannerType = pt and printable = pr, OF new(2) stored(1,2) bus stored(3) run_def] out
    unfolding \<sigma>2_def [symmetric] by (auto simp: ends_well_def)
  have at: "mt_tasks (sv_store \<sigma>2) i = Some t" using t(1) by simp
  obtain x where x: "LookupTask MemoryTaskStore_ops t3 (sv_store \<sigma>2) c' i = Inr x" "sn_Plan x = Some tp" "sn_Status x = TaskStatusSucceeded"
    "sn_UserID x = ctx_UserID c"
    using found_snapshot [OF t(5) assms(14) at t(2), of t3] t(3,4) by (auto simp: task_of_def new_task_def)
  have get: "GetTask ?D c' t3 i \<sigma>2 = (Inr (taskResponse t), \<sigma>2)"
    using at assms(14) by (simp add: GetTask_def memory_deps_def MemoryTaskStore_ops_def MemoryTaskStore_Get_def)
  obtain p \<pi>' where "Plans_Save (memory_plans o1 o2) (ou\<lparr>ou_tasks := Some (LookupTask MemoryTaskStore_ops t3 (sv_store \<sigma>2))\<rparr>) c' (ctx_UserID c) inp \<pi> = (Inr p, \<pi>')"
    "up_Plan p = Some tp" "up_UserID p = ctx_UserID c" "up_TaskID p = i"
    "\<forall>v. Plans_Get (memory_plans o1 o2) c' v (up_ID p) \<pi>' = (if v = ctx_UserID c then Inr p else Inl ErrPlanNotFound)"
    using save_succeeded [OF assms(10,14,8) _ assms(13), of "ou\<lparr>ou_tasks := Some (LookupTask MemoryTaskStore_ops t3 (sv_store \<sigma>2))\<rparr>"
        "LookupTask MemoryTaskStore_ops t3 (sv_store \<sigma>2)" x tp] assms(7,11,12) x by auto
  then show ?thesis using new(1,4) get t(2,3) \<sigma>2_def by (auto simp: taskResponse_def intro!: exI [of _ \<sigma>1] exI [of _ ?task])
qed

text \<open>A user, the mock planner, and empty stores.\<close>

definition signed_in :: ctx where "signed_in = background\<lparr>ctx_UserID := ''ann''\<rparr>"

definition keep_trip :: SaveInput where
  "keep_trip = \<lparr>si_TaskID = ''task_1'', si_Title = ''My trip'', si_Note = []\<rparr>"

lemma signed_in_admitted: "\<exists>h. admitted (memory_deps ''mock'' (\<lambda>_. True)) signed_in 5 ''task_1'' sample_create [] (new_service 60) h"
proof -
  have "cr_Budget sample_create = Fin 3000" by (simp add: sample_create_def)
  from hash_total [OF this] obtain h where
    "RequestHashForUser (ToDomain sample_create ''task_1'') (cr_TestMode sample_create) (ctx_UserID signed_in)
       [normalizeAgentMode (cr_AgentMode sample_create)] = Inr h" by blast
  then show ?thesis using sample_create_valid
    by (auto simp: admitted_def memory_deps_def new_service_def MemoryRateLimiter_Allow_def signed_in_def
        NewMemoryRateLimiter_def bucket_of_def bump_def Let_def)
qed

lemma mock_plans_sample: "\<exists>tp. MockPlanner_Plan background (ToDomain sample_create ''task_1'') = Inr tp"
proof -
  have n: "normalizeStringSlice (cr_Interests sample_create) \<noteq> []" by code_simp
  have "\<not> f_le (Fin 3000) f_zero" by code_simp
  then show ?thesis using n
    by (simp add: MockPlanner_Plan_def ToDomain_def Let_def) (simp add: sample_create_def)
qed

theorem trip_reaches_library_witness:
  "\<exists>tp h \<sigma>1 task g p \<pi>'. let \<sigma>2 = runTask (memory_deps ''mock'' (\<lambda>_. True)) (planner_of MockPlanner) 6 7 task \<sigma>1 in
      CreateTask (memory_deps ''mock'' (\<lambda>_. True)) signed_in 5 ''task_1'' [] sample_create [] (new_service 60)
        = (Inr \<lparr>ct_TaskID = ''task_1'', ct_RequestHash = h, ct_Status = TaskPending, ct_Cached = False\<rparr>, \<sigma>1)
    \<and> sv_spawned \<sigma>1 = [task]
    \<and> GetTask (memory_deps ''mock'' (\<lambda>_. True)) signed_in 8 ''task_1'' \<sigma>2 = (Inr g, \<sigma>2) \<and> gt_Plan g = Some tp
    \<and> Plans_Save (memory_plans (Visit_order sorted_keys) (Visit_order sorted_keys))
        ((call_data 0)\<lparr>ou_tasks := Some (LookupTask MemoryTaskStore_ops 8 (sv_store \<sigma>2))\<rparr>) signed_in ''ann'' keep_trip (new_plans 0) = (Inr p, \<pi>')
    \<and> Plans_Get (memory_plans (Visit_order sorted_keys) (Visit_order sorted_keys)) signed_in ''ann'' (up_ID p) \<pi>' = Inr p \<and> up_Plan p = Some tp"
proof -
  obtain h where h: "admitted (memory_deps ''mock'' (\<lambda>_. True)) signed_in 5 ''task_1'' sample_create [] (new_service 60) h"
    using signed_in_admitted by blast
  obtain tp where "MockPlanner_Plan background (ToDomain sample_create ''task_1'') = Inr tp" using mock_plans_sample by blast
  then have plan: "pr_outcome (planner_of MockPlanner (ToDomain sample_create ''task_1'') (cr_TestMode sample_create)
      (normalizeAgentMode (cr_AgentMode sample_create))) = PlanOk (Some tp)" by simp
  have ctx: "live signed_in" "ctx_UserID signed_in \<noteq> []" "ctx_UserID signed_in = ''ann''"
    by (simp_all add: signed_in_def)
  have bus: "bus_ok (sv_events (new_service 60))" by (simp add: new_service_def)
  have new: "mt_tasks (sv_store (new_service 60)) = Map.empty" "mp_plans (pl_plans (new_plans 0)) = Map.empty" "sv_spawned (new_service 60) = []"
    by (simp_all add: new_service_def NewMemoryTaskStore_def new_plans_def NewMemoryPlanStore_def)
  have title: "validateTitle (si_Title keep_trip) = Inr ()" "si_TaskID keep_trip = ''task_1''" by (code_simp, simp add: keep_trip_def)
  have none: "mt_tasks (sv_store (new_service 60)) ''task_1'' = None" "\<forall>t \<in> ran (mt_tasks (sv_store (new_service 60))). tk_RequestHash t \<noteq> h"
    "\<forall>p \<in> ran (mp_plans (pl_plans (new_plans 0))). up_TaskID p \<noteq> ''task_1''" "''task_1'' \<noteq> []"
    by (simp_all add: new)
  note trip = trip_reaches_library [where ?t1.0 = 6 and ?t2.0 = 7 and ?t3.0 = 8 and ?o1.0 = "Visit_order sorted_keys" and ?o2.0 = "Visit_order sorted_keys"
        and ou = "call_data 0", OF service_ok_new bus none(1,2) h ctx(1) none(4) ctx(2) plan plans_reach.start none(3) title(2,1) ctx(1)]
  show ?thesis
    using trip unfolding new ctx(3) Let_def append_Nil by metis
qed

end
