(* ===== verification/Spec2Isabelle.thy ===== *)
theory Spec2Isabelle
  imports HttpGuarantees StreamGuarantees PlannerRuns SummaryStream ChatGuarantees HarnessGuarantees ConfigGuarantees MapGuarantees ApiLimiter Redis MySQLAuth MySQLPlans MySQLTasks Startup Journey
begin

section \<open>Verification of the travel planning service\<close>

text \<open>
  The program (Go, under src/) is a web service that collects a travel request, runs a planner for it in the
  background, streams the progress to the browser, and keeps the plans a user saves, publishes and copies.

  \<^bold>\<open>Parts and how they interact.\<close> A request enters through the router (internal/server), which runs the
  middlewares of its route group and one handler. The handlers of internal/auth, internal/travel and
  internal/plans call the service of their package. The travel service (internal/travel) checks the
  request, asks the rate limiter and the request lock, looks the request hash up in the task store and starts
  a planner run; the run reports to the event bus, which the stream handler reads. The planner
  (internal/agent/eino) is a chain of nodes over tools and a plan generator. The plan service
  (internal/plans) copies a finished task into a user's library; publishing mirrors the plan into a public
  store. The accounts and sessions of internal/auth say who is asking.

  \<^bold>\<open>Theories.\<close>
  Prelude: lists, options, results, maps, 64-bit wrap-around, the named collections of hints.
  Case\_Tables, Go\_Text: the Unicode tables and the string functions of the Go library on bytes.
  Float64: float64 as the code uses it. Go\_Json: encoding/json of the values that are marshalled.
  Go\_Time: times and RFC 3339. Sha256: the hash, on 32-bit words.
  Domain, Brief: internal/domain (travel.go, brief.go). RequestHash: travel/cache.go.
  Tasks, TaskCache: travel/task.go, task\_store.go, task\_cache.go, with the store and cache interfaces as
  locales. RateLimit: rate\_limiter.go, locks.go. Redis: the Redis store, cache, limiter, lock and view
  deduper, clients of a server whose commands are given as laws of a locale. Sql: statements as data, what MySQL promises about them
  for the tables of migrations/mysql, and two servers that keep the promises. MySQLAuth, MySQLPlans, MySQLTasks: the mysql\_store.go files of auth and plans
  and mysql\_task\_store.go of travel, clients of such a server. EventBus: events.go, event\_bus.go.
  TravelService: travel/service.go, dto.go, agent/metadata.go, agent/planner.go.
  Auth: the services and stores of internal/auth. PlanStore, PlanService, PlanLibrary: internal/plans.
  PlanGuarantees: histories of calls to the plan service.
  Http, AuthHttp, PlansHttp, TravelHttp, Router: gin contexts, the handlers and the route table.
  HttpGuarantees, StreamGuarantees: what holds of whole requests and of the stream of a run.
  Tools, PlanCheck, Nodes, EinoPlanner: agent/eino (types.go, tools.go, tool\_mode.go, json\_parser.go, nodes.go,
  callbacks.go, graph.go, planner.go, and the generator of llm.go). PlannerGuarantees, PlannerRuns: what holds of the
  tools, the nodes and a whole planner run. SummaryStream: summary\_stream.go and the deltas of llm.go.
  LlmClient: the rest of llm.go, with llm\_stream.go, schema.go and prompt.go. Regexp: leftmost-first matching as Go's regexp
  does it, with a reference definition of what a match is. ChatRules: the patterns and rules of chat.go. Chat: the rest of
  chat.go, and chat\_stream.go. ChatGuarantees: what holds of one chat and of a conversation.
  RealTools: api\_client.go, real\_poi\_tool.go, real\_weather\_tool.go, real\_route\_tool.go. MapGuarantees: what the tools over the map service
  answer. ApiLimiter: the limiter of api\_client.go as steps of its callers.
  MockPlanner: agent/mock\_planner.go. Harness: internal/harness (dataset.go, evaluator.go, metrics.go, report.go, runner.go).
  HarnessGuarantees: what its verdicts and summaries say. Config: internal/config and agent/eino/config.go, with the choice of the
  planner. ConfigGuarantees: what the settings are for every environment. Startup: cmd/server/main.go and internal/redis/client.go, from the environment to the
  router, and what the server starts with. Journey: a trip across the packages, from the request through the run to the library.

  \<^bold>\<open>How state and operations correspond.\<close> A struct is a record with the field names of the code behind a
  short prefix, a constant or status is a datatype or its string, a method is a definition that takes the
  receiver's state and returns the new one, with an error datatype of the package on the left of a sum. A pointer is an option.
  Strings are lists of bytes; ints are int, wrapped to 64 bits where the code can overflow; times are
  nanoseconds. The clock, fresh identifiers and tokens, and the order in which Go visits a map are arguments. A
  panic is a value. Goroutines appear as separate steps: Publish has its two phases, a planner run is one
  operation that starts later than the request that made it, and the select loop of the stream runs a script of its
  rounds, which is every schedule the runtime may choose.

  \<^bold>\<open>What the lemmas show.\<close> The travel service: one task per user and brief, refused requests leave no
  trace, every run ends with a terminal event, the cache changes no answer. The event bus: numbering,
  bounds and the two ways a subscriber can lose. The hash: it depends on the normalised brief, and on the user.
  Accounts: sessions are live exactly when they should be, and a failing login says nothing. Plans: owners are
  isolated, the public side mirrors published plans only, counters match the recorded events. Requests:
  documented statuses, error envelopes, sessions in front of private routes. The planner: offline it
  answers every acceptable request; whatever its tools say, a plan that comes out is checked and no run
  panics. The summary stream: the deltas are never revised, down to the frames of the provider. The chat: a brief that
  is reported complete is one the planner accepts, and a conversation without the model collects what its messages say. The harness: its
  verdict, errors and score agree, its checks and those of the planner agree, the mock planner passes both, and the number of workers
  changes no metric. The map tools: their parameters
  arrive, their answers are complete or errors, and the limiter bounds the calls in flight and their average rate. The Redis clients: the lock excludes, the limiter
  bounds and the store reads back, also when commands or replies are lost. The MySQL stores: rows of other users are out of reach, a revocation is final, tasks are written whole or not at all, all of this with lost statements too,
  and what is written is what is read. The configuration: the environment comes before the .env file, and every environment gives usable settings. The start: the server comes up whichever server answers, its stores fit
  together, and sessions in MySQL survive a restart. Across the packages: what the planner made is what is answered, and what the user keeps.

  \<^bold>\<open>Bounds and fuel.\<close> Nothing runs on fuel: every recursion is structural or has its measure. The
  stream loop ends with its script. Attempts at planning and at extraction recurse on their number, the lines of a streamed answer
  are finite, and the runs of a split text get shorter.

  \<^bold>\<open>Parameters.\<close> bcrypt, mail.ParseAddress, gin's binding and path matching, the graph runtime, the provider of the language
  model with its transport, the decoders of encoding/json for structs, the environment, the files and the map service are arguments of the definitions; a hypothesis about one of them states its
  documented behaviour, and the witness of the property uses a concrete function.

  \<^bold>\<open>Not modelled.\<close> Logging, the flags of the harness command, the web frontend.
\<close>

end
